(* ===== verification/Prelude.thy ===== *)
theory Prelude
  imports Main "HOL-Library.AList" "HOL-Library.Sublist" "HOL-Library.Char_ord"
    "HOL-Library.List_Lexorder"
begin

text \<open>
  Shared vocabulary of the development.

  \<^item> The result type of fallible Go functions (a value and an error) is
    \<open>'e + 'a\<close>: \<open>Inl e\<close> is a returned error, \<open>Inr x\<close> a
    returned value.  \<open>bindR\<close> is "if err != nil return err", \<open>foldR\<close>
    and \<open>mapR\<close> are range loops whose body may return early with an error.
  \<^item> Go strings are byte strings, here lists of characters.  The functions of package
    \<open>strings\<close> that the program calls are written out below; case folding is the
    ASCII part of Go's.
  \<^item> A Go map is an association list.  Its order stands for the iteration order of
    the run at hand, which Go leaves open, so a theorem for all lists covers every order.
  \<^item> \<open>list invariants\<close> of \<open>foldR\<close>: \<open>foldR_invariant\<close> is the rule every
    loop proof of the components uses.
\<close>

named_theorems go_simps \<open>evaluation rules of the Go library functions\<close>
named_theorems res_simps \<open>rules for the error results\<close>

section \<open>Error results\<close>

definition bindR :: "'e + 'a \<Rightarrow> ('a \<Rightarrow> 'e + 'b) \<Rightarrow> 'e + 'b" where
  "bindR m f = (case m of Inl e \<Rightarrow> Inl e | Inr x \<Rightarrow> f x)"

lemma bindR_Inl [simp, res_simps]: "bindR (Inl e) f = Inl e"
  by (simp add: bindR_def)

lemma bindR_Inr [simp, res_simps]: "bindR (Inr x) f = f x"
  by (simp add: bindR_def)

lemma bindR_eq_Inr [simp, res_simps]:
  "bindR m f = Inr y \<longleftrightarrow> (\<exists>x. m = Inr x \<and> f x = Inr y)"
  by (cases m) auto

lemma bindR_eq_Inl [res_simps]:
  "bindR m f = Inl e \<longleftrightarrow> m = Inl e \<or> (\<exists>x. m = Inr x \<and> f x = Inl e)"
  by (cases m) auto

definition isOk :: "'e + 'a \<Rightarrow> bool" where
  "isOk m = (case m of Inl e \<Rightarrow> False | Inr x \<Rightarrow> True)"

lemma isOkE: "isOk m \<Longrightarrow> (\<And>x. m = Inr x \<Longrightarrow> thesis) \<Longrightarrow> thesis"
  by (cases m) (simp_all add: isOk_def)

lemma bindR_assoc: "bindR (bindR m f) g = bindR m (\<lambda>x. bindR (f x) g)"
  by (cases m) auto

lemma bindR_Inr_id [simp]: "bindR m Inr = m"
  by (cases m) auto

lemma bindR_cong [fundef_cong]:
  "m = m' \<Longrightarrow> (\<And>x. m' = Inr x \<Longrightarrow> f x = f' x) \<Longrightarrow> bindR m f = bindR m' f'"
  by (cases m') auto

fun foldR :: "('a \<Rightarrow> 's \<Rightarrow> 'e + 's) \<Rightarrow> 'a list \<Rightarrow> 's \<Rightarrow> 'e + 's" where
  "foldR f [] s = Inr s"
| "foldR f (x # xs) s = bindR (f x s) (foldR f xs)"

text \<open>
  Operations that read and write a state besides returning an error or a value.  The state
  survives an error, as a Go cache behind a pointer does.
\<close>

type_synonym ('s, 'e, 'a) op = "'s \<Rightarrow> ('e + 'a) \<times> 's"

definition retS :: "'a \<Rightarrow> ('s, 'e, 'a) op" where
  "retS x = (\<lambda>s. (Inr x, s))"

definition liftS :: "'e + 'a \<Rightarrow> ('s, 'e, 'a) op" where
  "liftS m = (\<lambda>s. (m, s))"

definition bindS :: "('s, 'e, 'a) op \<Rightarrow> ('a \<Rightarrow> ('s, 'e, 'b) op) \<Rightarrow> ('s, 'e, 'b) op" where
  "bindS m f = (\<lambda>s. case m s of (Inl e, t) \<Rightarrow> (Inl e, t) | (Inr x, t) \<Rightarrow> f x t)"

fun foldS :: "('a \<Rightarrow> 'b \<Rightarrow> ('s, 'e, 'b) op) \<Rightarrow> 'a list \<Rightarrow> 'b \<Rightarrow> ('s, 'e, 'b) op" where
  "foldS f [] b = retS b"
| "foldS f (x # xs) b = bindS (f x b) (foldS f xs)"

lemma bindS_ok:
  assumes "bindS m f s = (Inr y, s')"
  obtains x t where "m s = (Inr x, t)" "f x t = (Inr y, s')"
  using assms by (auto simp: bindS_def split: prod.splits sum.splits)

lemma liftS_ok [simp]: "liftS m s = (Inr y, s') \<longleftrightarrow> m = Inr y \<and> s' = s"
  by (auto simp: liftS_def)

lemma retS_ok [simp]: "retS x s = (Inr y, s') \<longleftrightarrow> x = y \<and> s' = s"
  by (auto simp: retS_def)

text \<open>
  \<open>refinesS ok m r\<close>: from every state that satisfies \<open>ok\<close>, the operation \<open>m\<close> returns what
  \<open>r\<close> says, and leaves the state satisfying \<open>ok\<close>.
\<close>

definition refinesS :: "('s \<Rightarrow> bool) \<Rightarrow> ('s, 'e, 'a) op \<Rightarrow> 'e + 'a \<Rightarrow> bool" where
  "refinesS ok m r \<longleftrightarrow> (\<forall>s. ok s \<longrightarrow> fst (m s) = r \<and> ok (snd (m s)))"

lemma refinesS_ret [intro]: "refinesS ok (retS x) (Inr x)"
  by (simp add: refinesS_def retS_def)

lemma refinesS_lift [intro]: "refinesS ok (liftS m) m"
  by (simp add: refinesS_def liftS_def)

lemma refinesS_bind:
  assumes "refinesS ok m r" and "\<And>x. r = Inr x \<Longrightarrow> refinesS ok (f x) (g x)"
  shows "refinesS ok (bindS m f) (bindR r g)"
  using assms unfolding refinesS_def bindS_def bindR_def
  by (cases r) (fastforce split: prod.split sum.split)+

lemma refinesS_fold:
  assumes "\<And>x b. x \<in> set xs \<Longrightarrow> refinesS ok (f x b) (g x b)"
  shows "refinesS ok (foldS f xs b) (foldR g xs b)"
  using assms by (induction xs arbitrary: b) (auto intro!: refinesS_bind)

text \<open>An operation that has no state to read (\<open>unit\<close>) is its result.\<close>

definition runU :: "(unit, 'e, 'a) op \<Rightarrow> 'e + 'a" where
  "runU m = fst (m ())"

lemma runU_simps [simp, res_simps]:
  "runU (retS x) = Inr x" "runU (liftS r) = r" "runU (bindS m f) = bindR (runU m) (\<lambda>x. runU (f x))"
  "runU (if b then m else n) = (if b then runU m else runU n)"
  by (simp_all add: runU_def retS_def liftS_def bindS_def bindR_def split: prod.split sum.split)

lemma runU_fold [simp, res_simps]: "runU (foldS f xs b) = foldR (\<lambda>x b. runU (f x b)) xs b"
  by (induction xs arbitrary: b) simp_all

text \<open>The same program over two states: over the real one it does what it does over none.\<close>

named_theorems simS_intros \<open>rules that compare a program over two states\<close>

definition simS :: "('s \<Rightarrow> bool) \<Rightarrow> ('s, 'e, 'a) op \<Rightarrow> (unit, 'e, 'a) op \<Rightarrow> bool" where
  "simS ok m n \<longleftrightarrow> refinesS ok m (runU n)"

lemma simS_ret [simS_intros]: "simS ok (retS x) (retS x)"
  by (auto simp: simS_def)

lemma simS_lift [simS_intros]: "simS ok (liftS r) (liftS r)"
  by (auto simp: simS_def)

lemma simS_bind [simS_intros]:
  "simS ok m n \<Longrightarrow> (\<And>x. simS ok (f x) (g x)) \<Longrightarrow> simS ok (bindS m f) (bindS n g)"
  by (auto simp: simS_def intro: refinesS_bind)

lemma simS_fold:
  "(\<And>x b. x \<in> set xs \<Longrightarrow> simS ok (f x b) (g x b)) \<Longrightarrow> simS ok (foldS f xs b) (foldS g xs b)"
  by (induction xs arbitrary: b) (auto intro!: simS_intros)

lemma simS_if [simS_intros]:
  "(b \<Longrightarrow> simS ok m n) \<Longrightarrow> (\<not> b \<Longrightarrow> simS ok m' n') \<Longrightarrow> simS ok (if b then m else m') (if b then n else n')"
  by simp

lemma simS_prod [simS_intros]:
  "(\<And>a b. x = (a, b) \<Longrightarrow> simS ok (f a b) (g a b)) \<Longrightarrow>
     simS ok (case x of (a, b) \<Rightarrow> f a b) (case x of (a, b) \<Rightarrow> g a b)"
  by (cases x) simp

lemma simS_result: "simS ok m n \<Longrightarrow> ok s \<Longrightarrow> fst (m s) = runU n \<and> ok (snd (m s))"
  by (simp add: simS_def refinesS_def)

fun mapR :: "('a \<Rightarrow> 'e + 'b) \<Rightarrow> 'a list \<Rightarrow> 'e + 'b list" where
  "mapR f [] = Inr []"
| "mapR f (x # xs) = bindR (f x) (\<lambda>y. bindR (mapR f xs) (\<lambda>ys. Inr (y # ys)))"

fun filterR :: "('a \<Rightarrow> 'e + bool) \<Rightarrow> 'a list \<Rightarrow> 'e + 'a list" where
  "filterR p [] = Inr []"
| "filterR p (x # xs) =
     bindR (p x) (\<lambda>b. bindR (filterR p xs) (\<lambda>ys. Inr (if b then x # ys else ys)))"

lemma foldR_append [simp]: "foldR f (xs @ ys) s = bindR (foldR f xs s) (foldR f ys)"
proof (induction xs arbitrary: s)
  case (Cons x xs)
  show ?case by (cases "f x s") (simp_all add: Cons.IH)
qed simp

lemma foldR_cong [fundef_cong]:
  assumes "xs = ys" "s = t" "\<And>x s. x \<in> set ys \<Longrightarrow> f x s = g x s"
  shows "foldR f xs s = foldR g ys t"
  using assms(3) unfolding assms(1,2)
  by (induction ys arbitrary: t) (auto intro: bindR_cong)

lemma foldR_invariant:
  assumes "foldR f xs s = Inr s'" and "P s"
    and "\<And>x t t'. x \<in> set xs \<Longrightarrow> P t \<Longrightarrow> f x t = Inr t' \<Longrightarrow> P t'"
  shows "P s'"
  using assms
proof (induction xs arbitrary: s)
  case (Cons x xs)
  then obtain t where "f x s = Inr t" "foldR f xs t = Inr s'" by auto
  with Cons.prems Cons.IH [of t] show ?case by auto
qed simp

lemma foldR_total:
  assumes "\<And>x s. x \<in> set xs \<Longrightarrow> \<exists>s'. f x s = Inr s'"
  shows "\<exists>s'. foldR f xs s = Inr s'"
  using assms by (induction xs arbitrary: s) (auto, metis bindR_Inr)

lemma foldR_pure: "foldR (\<lambda>x s. Inr (g x s)) xs s = Inr (fold g xs s)"
  by (induction xs arbitrary: s) auto

text \<open>A step that only ever leaves some measure of the state alone or grows it.\<close>

lemma foldR_mono:
  fixes m :: "'s \<Rightarrow> 'o :: order"
  assumes "foldR f xs s = Inr s'"
    and "\<And>x t t'. x \<in> set xs \<Longrightarrow> f x t = Inr t' \<Longrightarrow> m t \<le> m t'"
  shows "m s \<le> m s'"
  by (rule foldR_invariant [OF assms(1), where P = "\<lambda>t. m s \<le> m t"])
    (auto intro: order_trans assms(2))

text \<open>Every element of the loop contributes: what the step for \<open>x\<close> establishes and later
  steps keep holds at the end.\<close>

lemma foldR_contributes:
  assumes "foldR f xs s = Inr s'" and "x \<in> set xs"
    and "\<And>t t'. f x t = Inr t' \<Longrightarrow> Q t'"
    and "\<And>y t t'. y \<in> set xs \<Longrightarrow> Q t \<Longrightarrow> f y t = Inr t' \<Longrightarrow> Q t'"
  shows "Q s'"
proof -
  from assms(2) obtain us vs where xs: "xs = us @ x # vs" by (meson split_list)
  with assms(1) obtain t t' where "f x t = Inr t'" "foldR f vs t' = Inr s'" by auto
  moreover have "Q v'" if "y \<in> set vs" "Q v" "f y v = Inr v'" for y v v'
    using that assms(4) [of y v v'] by (simp add: xs)
  ultimately show ?thesis
    using assms(3) foldR_invariant [of f vs t' s' Q] by blast
qed

lemma mapR_Inr_conv:
  "mapR f xs = Inr ys \<longleftrightarrow> list_all2 (\<lambda>x y. f x = Inr y) xs ys"
  by (induction xs arbitrary: ys) (auto simp: list_all2_Cons1)

lemma filterR_eq_filter:
  "filterR p xs = Inr ys \<Longrightarrow> ys = filter (\<lambda>x. p x = Inr True) xs"
proof (induction xs arbitrary: ys)
  case (Cons x xs)
  from Cons.prems obtain b zs where *: "p x = Inr b" "filterR p xs = Inr zs"
    "ys = (if b then x # zs else zs)" by auto
  from Cons.IH [OF *(2)] * show ?case by simp
qed simp

lemma filterR_pure [simp]: "filterR (\<lambda>x. Inr (p x)) xs = Inr (filter p xs)"
  by (induction xs) auto

section \<open>Go strings\<close>

text \<open>\<open>strings.TrimSpace\<close>: the characters \<open>unicode.IsSpace\<close> accepts, in their UTF-8
  encodings of one, two and three bytes.\<close>

definition ascii_space :: "char \<Rightarrow> bool" where
  "ascii_space c \<longleftrightarrow> c \<in> {CHR 0x09, CHR 0x0A, CHR 0x0B, CHR 0x0C, CHR 0x0D, CHR 0x20}"

definition space2 :: "char \<Rightarrow> char \<Rightarrow> bool" where
  "space2 a b \<longleftrightarrow> a = CHR 0xC2 \<and> (b = CHR 0x85 \<or> b = CHR 0xA0)"

definition space3 :: "char \<Rightarrow> char \<Rightarrow> char \<Rightarrow> bool" where
  "space3 a b c \<longleftrightarrow>
     (a = CHR 0xE1 \<and> b = CHR 0x9A \<and> c = CHR 0x80) \<or>
     (a = CHR 0xE2 \<and> b = CHR 0x80 \<and>
        c \<in> {CHR 0x80, CHR 0x81, CHR 0x82, CHR 0x83, CHR 0x84, CHR 0x85, CHR 0x86,
              CHR 0x87, CHR 0x88, CHR 0x89, CHR 0x8A, CHR 0xA8, CHR 0xA9, CHR 0xAF}) \<or>
     (a = CHR 0xE2 \<and> b = CHR 0x81 \<and> c = CHR 0x9F) \<or>
     (a = CHR 0xE3 \<and> b = CHR 0x80 \<and> c = CHR 0x80)"

text \<open>The trimming of a list from its front, for the byte order of the string and for the
  reversed string (where the last byte of a sequence comes first).\<close>

fun trim_front :: "(char \<Rightarrow> char \<Rightarrow> bool) \<Rightarrow> (char \<Rightarrow> char \<Rightarrow> char \<Rightarrow> bool) \<Rightarrow> string \<Rightarrow> string" where
  "trim_front s2 s3 [] = []"
| "trim_front s2 s3 [a] = (if ascii_space a then [] else [a])"
| "trim_front s2 s3 [a, b] =
     (if ascii_space a then trim_front s2 s3 [b] else if s2 a b then [] else [a, b])"
| "trim_front s2 s3 (a # b # c # s) =
     (if ascii_space a then trim_front s2 s3 (b # c # s)
      else if s2 a b then trim_front s2 s3 (c # s)
      else if s3 a b c then trim_front s2 s3 s
      else a # b # c # s)"

definition trim_left :: "string \<Rightarrow> string" where
  "trim_left = trim_front space2 space3"

definition trim_right :: "string \<Rightarrow> string" where
  "trim_right s = rev (trim_front (\<lambda>b a. space2 a b) (\<lambda>c b a. space3 a b c) (rev s))"

definition TrimSpace :: "string \<Rightarrow> string" where
  "TrimSpace s = trim_right (trim_left s)"

lemma trim_front_idem [simp]:
  "trim_front s2 s3 (trim_front s2 s3 s) = trim_front s2 s3 s"
  by (induction s2 s3 s rule: trim_front.induct) auto

lemma suffix_trim_front: "suffix (trim_front s2 s3 s) s"
  by (induction s2 s3 s rule: trim_front.induct) (auto intro: suffix_ConsI)

lemma trim_front_fixed_iff:
  "trim_front s2 s3 s = s \<longleftrightarrow>
     (case s of [] \<Rightarrow> True
      | a # s' \<Rightarrow> \<not> ascii_space a \<and>
         (case s' of [] \<Rightarrow> True
          | b # s'' \<Rightarrow> \<not> s2 a b \<and> (case s'' of [] \<Rightarrow> True | c # _ \<Rightarrow> \<not> s3 a b c)))"
proof (cases s)
  case (Cons a s')
  note shorter = suffix_length_le [OF suffix_trim_front]
  show ?thesis
  proof (cases s')
    case (Cons b s'')
    show ?thesis
    proof (cases s'')
      case Nil
      then show ?thesis using \<open>s = a # s'\<close> Cons by (auto simp: split: if_splits)
    next
      case (Cons c t)
      have s: "s = a # b # c # t" using \<open>s = a # s'\<close> \<open>s' = b # s''\<close> Cons by simp
      have "trim_front s2 s3 (b # c # t) \<noteq> s" "trim_front s2 s3 (c # t) \<noteq> s" "trim_front s2 s3 t \<noteq> s"
        using shorter [of s2 s3 "b # c # t"] shorter [of s2 s3 "c # t"] shorter [of s2 s3 t]
        unfolding s by (metis Suc_n_not_le_n length_Cons le_SucI)+
      then show ?thesis by (simp add: s)
    qed
  qed (use \<open>s = a # s'\<close> in simp)
qed simp

lemma trim_front_prefix:
  assumes "trim_front s2 s3 s = s" "prefix r s"
  shows "trim_front s2 s3 r = r"
  using assms unfolding trim_front_fixed_iff
  by (auto simp: prefix_def Cons_eq_append_conv split: list.splits)

lemma TrimSpace_Nil [simp, go_simps]: "TrimSpace [] = []"
  by (simp add: TrimSpace_def trim_left_def trim_right_def)

lemma prefix_trim_right: "prefix (trim_right s) s"
  by (metis suffix_to_prefix rev_rev_ident suffix_trim_front trim_right_def)

lemma TrimSpace_trimmed:
  "trim_left (TrimSpace s) = TrimSpace s" "trim_right (TrimSpace s) = TrimSpace s"
proof -
  show "trim_left (TrimSpace s) = TrimSpace s"
    using trim_front_prefix [OF _ prefix_trim_right] by (simp add: trim_left_def TrimSpace_def)
  show "trim_right (TrimSpace s) = TrimSpace s"
    by (simp add: trim_right_def TrimSpace_def)
qed

lemma TrimSpace_idem [simp, go_simps]: "TrimSpace (TrimSpace s) = TrimSpace s"
  by (metis TrimSpace_def TrimSpace_trimmed)

text \<open>\<open>strings.ToLower\<close>, \<open>strings.ToUpper\<close> and \<open>strings.EqualFold\<close> on ASCII letters.\<close>

definition lower_char :: "char \<Rightarrow> char" where
  "lower_char c =
     (let n = of_char c :: nat in if 65 \<le> n \<and> n \<le> 90 then char_of (n + 32) else c)"

definition upper_char :: "char \<Rightarrow> char" where
  "upper_char c =
     (let n = of_char c :: nat in if 97 \<le> n \<and> n \<le> 122 then char_of (n - 32) else c)"

definition ToLower :: "string \<Rightarrow> string" where
  "ToLower s = map lower_char s"

definition ToUpper :: "string \<Rightarrow> string" where
  "ToUpper s = map upper_char s"

definition EqualFold :: "string \<Rightarrow> string \<Rightarrow> bool" where
  "EqualFold s t \<longleftrightarrow> ToLower s = ToLower t"

text \<open>Evaluated one character at a time, up to the first difference.\<close>

fun fold_eq :: "string \<Rightarrow> string \<Rightarrow> bool" where
  "fold_eq [] t = (t = [])"
| "fold_eq (x # s) [] = False"
| "fold_eq (x # s) (y # t) = (if lower_char x = lower_char y then fold_eq s t else False)"

lemma EqualFold_lazy [code]: "EqualFold s t = fold_eq s t"
  by (induction s t rule: fold_eq.induct) (auto simp: EqualFold_def ToLower_def)

lemma of_lower_char:
  "(of_char (lower_char c) :: nat) =
     (if 65 \<le> (of_char c :: nat) \<and> (of_char c :: nat) \<le> 90 then of_char c + 32 else of_char c)"
  by (simp add: lower_char_def Let_def)

lemma lower_char_eq_iff:
  "lower_char c = d \<longleftrightarrow> (of_char (lower_char c) :: nat) = of_char d"
  by simp

lemma lower_char_idem [simp]: "lower_char (lower_char c) = lower_char c"
  unfolding lower_char_eq_iff of_lower_char [of "lower_char c"] by (simp add: of_lower_char)

lemma lower_char_nonletter:
  assumes "\<not> (65 \<le> (of_char d :: nat) \<and> (of_char d :: nat) \<le> 90)"
    and "\<not> (97 \<le> (of_char d :: nat) \<and> (of_char d :: nat) \<le> 122)"
  shows "lower_char c = d \<longleftrightarrow> c = d"
proof -
  have "c = d \<longleftrightarrow> (of_char c :: nat) = of_char d" by simp
  then show ?thesis
    unfolding lower_char_eq_iff of_lower_char using assms by auto
qed

lemma ToLower_simps [simp, go_simps]:
  "ToLower [] = []" "ToLower (c # s) = lower_char c # ToLower s"
  "ToLower (s @ t) = ToLower s @ ToLower t" "length (ToLower s) = length s"
  "ToLower s = [] \<longleftrightarrow> s = []" "ToLower (ToLower s) = ToLower s"
  by (simp_all add: ToLower_def)

lemma EqualFold_refl [simp, intro]: "EqualFold s s"
  by (simp add: EqualFold_def)

lemma EqualFold_sym: "EqualFold s t \<longleftrightarrow> EqualFold t s"
  by (auto simp: EqualFold_def)

lemma spaces_lower_char [simp]:
  "ascii_space (lower_char c) = ascii_space c"
  "space2 (lower_char a) (lower_char b) = space2 a b"
  "space3 (lower_char a) (lower_char b) (lower_char c) = space3 a b c"
  by (simp_all add: ascii_space_def space2_def space3_def lower_char_nonletter)

lemma trim_front_ToLower:
  assumes "\<And>a b. s2 (lower_char a) (lower_char b) = s2 a b"
    and "\<And>a b c. s3 (lower_char a) (lower_char b) (lower_char c) = s3 a b c"
  shows "trim_front s2 s3 (ToLower s) = ToLower (trim_front s2 s3 s)"
  using assms by (induction s2 s3 s rule: trim_front.induct) auto

lemma TrimSpace_ToLower: "TrimSpace (ToLower s) = ToLower (TrimSpace s)"
proof -
  have rev: "rev (ToLower t) = ToLower (rev t)" for t by (simp add: ToLower_def rev_map)
  show ?thesis
    by (simp add: TrimSpace_def trim_left_def trim_right_def rev trim_front_ToLower)
qed

lemma of_upper_char:
  "(of_char (upper_char c) :: nat) =
     (if 97 \<le> (of_char c :: nat) \<and> (of_char c :: nat) \<le> 122 then of_char c - 32 else of_char c)"
  using nat_of_char_less_256 [of c] by (auto simp: upper_char_def Let_def)

lemma upper_char_eq_iff:
  "upper_char c = d \<longleftrightarrow> (of_char (upper_char c) :: nat) = of_char d"
  by simp

lemma upper_char_nonletter:
  assumes "\<not> (65 \<le> (of_char d :: nat) \<and> (of_char d :: nat) \<le> 90)"
    and "\<not> (97 \<le> (of_char d :: nat) \<and> (of_char d :: nat) \<le> 122)"
  shows "upper_char c = d \<longleftrightarrow> c = d"
proof -
  have "c = d \<longleftrightarrow> (of_char c :: nat) = of_char d" by simp
  then show ?thesis
    unfolding upper_char_eq_iff of_upper_char using assms by auto
qed

lemma spaces_upper_char [simp]:
  "ascii_space (upper_char c) = ascii_space c"
  "space2 (upper_char a) (upper_char b) = space2 a b"
  "space3 (upper_char a) (upper_char b) (upper_char c) = space3 a b c"
  by (simp_all add: ascii_space_def space2_def space3_def upper_char_nonletter)

lemma upper_char_idem [simp]: "upper_char (upper_char c) = upper_char c"
  unfolding upper_char_eq_iff of_upper_char [of "upper_char c"] unfolding of_upper_char by auto

lemma ToUpper_idem [simp, go_simps]: "ToUpper (ToUpper s) = ToUpper s"
  by (simp add: ToUpper_def)

lemma TrimSpace_ToUpper: "TrimSpace (ToUpper s) = ToUpper (TrimSpace s)"
proof -
  have "trim_front s2 s3 (map upper_char t) = map upper_char (trim_front s2 s3 t)"
    if "\<And>a b. s2 (upper_char a) (upper_char b) = s2 a b"
      and "\<And>a b c. s3 (upper_char a) (upper_char b) (upper_char c) = s3 a b c" for s2 s3 t
    using that by (induction s2 s3 t rule: trim_front.induct) auto
  then show ?thesis
    by (simp add: ToUpper_def TrimSpace_def trim_left_def trim_right_def rev_map)
qed

text \<open>Prefixes, suffixes, cutting, splitting and joining.\<close>

abbreviation HasPrefix :: "string \<Rightarrow> string \<Rightarrow> bool" where
  "HasPrefix s p \<equiv> prefix p s"

abbreviation HasSuffix :: "string \<Rightarrow> string \<Rightarrow> bool" where
  "HasSuffix s p \<equiv> suffix p s"

definition TrimPrefix :: "string \<Rightarrow> string \<Rightarrow> string" where
  "TrimPrefix s p = (if prefix p s then drop (length p) s else s)"

definition TrimSuffix :: "string \<Rightarrow> string \<Rightarrow> string" where
  "TrimSuffix s p = (if suffix p s then take (length s - length p) s else s)"

definition Cut :: "string \<Rightarrow> char \<Rightarrow> string \<times> string \<times> bool" where
  "Cut s c = (takeWhile (\<lambda>d. d \<noteq> c) s, drop 1 (dropWhile (\<lambda>d. d \<noteq> c) s), c \<in> set s)"

fun Split :: "string \<Rightarrow> char \<Rightarrow> string list" where
  "Split [] c = [[]]"
| "Split (d # s) c = (if d = c then [] # Split s c else (d # hd (Split s c)) # tl (Split s c))"

definition SplitN2 :: "string \<Rightarrow> char \<Rightarrow> string list" where
  "SplitN2 s c = (case Cut s c of (a, b, found) \<Rightarrow> if found then [a, b] else [s])"

fun Join :: "string list \<Rightarrow> string \<Rightarrow> string" where
  "Join [] sep = []"
| "Join [x] sep = x"
| "Join (x # y # xs) sep = x @ sep @ Join (y # xs) sep"

lemma Split_not_Nil [simp]: "Split s c \<noteq> []"
  by (cases s) auto

lemma Join_Cons: "xs \<noteq> [] \<Longrightarrow> Join (x # xs) sep = x @ sep @ Join xs sep"
  by (cases xs) auto

lemma Join_Split [simp, go_simps]: "Join (Split s c) [c] = s"
proof (induction s)
  case (Cons d s)
  then show ?case by (cases "Split s c"; cases "tl (Split s c)") (auto simp: Join_Cons)
qed simp

lemma Split_no_sep: "x \<in> set (Split s c) \<Longrightarrow> c \<notin> set x"
proof (induction s arbitrary: x)
  case (Cons d s)
  then show ?case by (cases "Split s c") (auto split: if_splits)
qed simp

text \<open>Two fields joined by a separator that the first does not contain determine the fields.\<close>

lemma sep_inject:
  assumes "c \<notin> set a" "c \<notin> set a'" "a @ c # b = a' @ c # b'"
  shows "a = a' \<and> b = b'"
  using assms
proof (induction a arbitrary: a')
  case Nil
  then show ?case by (cases a') auto
next
  case (Cons x a)
  then show ?case by (cases a') auto
qed

section \<open>Sorting\<close>

text \<open>\<open>sort.SliceStable\<close> with a less function: stable insertion.  \<open>sort.Slice\<close> on a map's
  values is the same, because the order of the list is arbitrary to begin with.\<close>

fun insert_less :: "('a \<Rightarrow> 'a \<Rightarrow> bool) \<Rightarrow> 'a \<Rightarrow> 'a list \<Rightarrow> 'a list" where
  "insert_less lt x [] = [x]"
| "insert_less lt x (y # ys) = (if lt y x then y # insert_less lt x ys else x # y # ys)"

definition sort_less :: "('a \<Rightarrow> 'a \<Rightarrow> bool) \<Rightarrow> 'a list \<Rightarrow> 'a list" where
  "sort_less lt xs = foldr (insert_less lt) xs []"

lemma set_insert_less [simp]: "set (insert_less lt x ys) = insert x (set ys)"
  by (induction ys) auto

lemma set_sort_less [simp]: "set (sort_less lt xs) = set xs"
  by (induction xs) (auto simp: sort_less_def)

lemma length_insert_less [simp]: "length (insert_less lt x ys) = Suc (length ys)"
  by (induction ys) auto

lemma length_sort_less [simp]: "length (sort_less lt xs) = length xs"
  by (induction xs) (auto simp: sort_less_def)

text \<open>A less function that compares keys sorts by the key.\<close>

lemma insert_less_key:
  fixes f :: "'a \<Rightarrow> 'k :: linorder"
  assumes "\<And>x y. lt x y \<longleftrightarrow> f x < f y"
  shows "insert_less lt x ys = insort_key f x ys"
  by (induction ys) (auto simp: assms not_less)

lemma sort_less_key:
  fixes f :: "'a \<Rightarrow> 'k :: linorder"
  assumes "\<And>x y. lt x y \<longleftrightarrow> f x < f y"
  shows "sort_less lt xs = sort_key f xs"
proof -
  have "insert_less lt = insort_key f"
    by (intro ext insert_less_key) (rule assms)
  then show ?thesis by (simp add: sort_less_def sort_key_def)
qed

text \<open>An element that is among the first \<open>n\<close> of a sorted list precedes every element that is not.\<close>

lemma sorted_take_drop_le:
  assumes "sorted (map f xs)" "x \<in> set (take n xs)" "y \<in> set (drop n xs)"
  shows "f x \<le> f y"
proof -
  have "sorted (map f (take n xs) @ map f (drop n xs))"
    using assms(1) by (simp flip: map_append)
  with assms(2,3) show ?thesis by (auto simp: sorted_append)
qed

end
