(* ===== verification/Go_Values.thy ===== *)
theory Go_Values
  imports Prelude Complex_Main
begin

text \<open>
  Go data the components share: maps, values of type \<open>any\<close>, and the helpers of
  \<open>src/internal/utils\<close> and \<open>src/internal/service/service.go\<close> on them.

  A map is an association list with distinct keys (\<open>map_wf\<close>); the list order is the
  iteration order of the run.  The locale \<open>go_map\<close> is the contract the code relies on
  (what a read returns after a write or a delete), interpreted on the list operations.  A nil
  map and an empty map behave alike in every operation the program uses, so both are \<open>[]\<close>.
\<close>

section \<open>Maps\<close>

type_synonym ('k, 'v) gomap = "('k \<times> 'v) list"

abbreviation map_put :: "'k \<Rightarrow> 'v \<Rightarrow> ('k, 'v) gomap \<Rightarrow> ('k, 'v) gomap" where
  "map_put \<equiv> AList.update"

abbreviation map_del :: "'k \<Rightarrow> ('k, 'v) gomap \<Rightarrow> ('k, 'v) gomap" where
  "map_del \<equiv> AList.delete"

abbreviation map_wf :: "('k, 'v) gomap \<Rightarrow> bool" where
  "map_wf m \<equiv> distinct (map fst m)"

locale go_map =
  fixes empty :: 'm
    and lookup :: "'m \<Rightarrow> 'k \<Rightarrow> 'v option"
    and update :: "'k \<Rightarrow> 'v \<Rightarrow> 'm \<Rightarrow> 'm"
    and delete :: "'k \<Rightarrow> 'm \<Rightarrow> 'm"
    and invar :: "'m \<Rightarrow> bool"
  assumes lookup_empty: "lookup empty k = None"
    and lookup_update: "invar m \<Longrightarrow> lookup (update k v m) k' = (if k' = k then Some v else lookup m k')"
    and lookup_delete: "invar m \<Longrightarrow> lookup (delete k m) k' = (if k' = k then None else lookup m k')"
    and invar_empty: "invar empty"
    and invar_update: "invar m \<Longrightarrow> invar (update k v m)"
    and invar_delete: "invar m \<Longrightarrow> invar (delete k m)"
begin

definition put_all :: "('k \<times> 'v) list \<Rightarrow> 'm \<Rightarrow> 'm" where
  "put_all kvs m = fold (\<lambda>(k, v). update k v) kvs m"

lemma put_all_simps: "put_all [] m = m" "put_all ((k, v) # kvs) m = put_all kvs (update k v m)"
  by (simp_all add: put_all_def)

lemma invar_put_all: "invar m \<Longrightarrow> invar (put_all kvs m)"
  by (induction kvs arbitrary: m) (auto simp: put_all_simps invar_update)

text \<open>Copying the entries of a map into another, in any iteration order, overrides it.\<close>

lemma lookup_put_all:
  assumes "invar m" "distinct (map fst kvs)"
  shows "lookup (put_all kvs m) k = (case map_of kvs k of Some v \<Rightarrow> Some v | None \<Rightarrow> lookup m k)"
  using assms
proof (induction kvs arbitrary: m)
  case (Cons kv kvs)
  obtain k' v where kv: "kv = (k', v)" by (cases kv)
  from Cons.prems have "map_of kvs k' = None" by (simp add: kv map_of_eq_None_iff)
  with Cons show ?case
    by (simp add: kv put_all_simps invar_update lookup_update split: option.split)
qed (simp add: put_all_simps)

lemma lookup_put_all_order:
  assumes "invar m" "distinct (map fst kvs)" "distinct (map fst kvs')" "set kvs = set kvs'"
  shows "lookup (put_all kvs m) k = lookup (put_all kvs' m) k"
proof -
  have "map_of kvs = map_of kvs'" using assms by (simp add: map_of_inject_set)
  with assms show ?thesis by (simp add: lookup_put_all)
qed

lemma lookup_delete_all:
  "invar m \<Longrightarrow> lookup (fold delete ks m) k = (if k \<in> set ks then None else lookup m k)"
  by (induction ks arbitrary: m) (auto simp: lookup_delete invar_delete)

end

interpretation gm: go_map "[]" map_of map_put map_del map_wf
  by unfold_locales (simp_all add: update_conv' delete_conv' distinct_update distinct_delete)

declare map_of_eq_Some_iff [simp del] Some_eq_map_of_iff [simp del]

lemma map_of_put [simp, go_simps]:
  "map_of (map_put k v m) k' = (if k' = k then Some v else map_of m k')"
  by (simp add: update_conv')

lemma map_of_del [simp, go_simps]:
  "map_of (map_del k m) k' = (if k' = k then None else map_of m k')"
  by (simp add: delete_conv')

lemma map_wf_put [simp]: "map_wf m \<Longrightarrow> map_wf (map_put k v m)"
  by (rule gm.invar_update)

lemma map_wf_del [simp]: "map_wf m \<Longrightarrow> map_wf (map_del k m)"
  by (rule gm.invar_delete)

lemma set_map_put: "set (map_put k v m) \<subseteq> insert (k, v) (set m)"
  by (induction m) auto

lemma set_map_del: "set (map_del k m) \<subseteq> set m"
  by (auto simp: AList.delete_eq)

lemma map_put_not_Nil [simp]: "map_put k v m \<noteq> []"
  by (cases m) (auto)

text \<open>A loop over a map whose body touches only the entry of its own key: the entry of a key
  at the end, independent of the iteration order.\<close>

lemma map_of_fold_keyed:
  assumes step: "\<And>k v out. map_of (step (k, v) out) = (map_of out)(k := g k v (map_of out k))"
    and "map_wf kvs"
  shows "map_of (fold step kvs out) k =
    (case map_of kvs k of None \<Rightarrow> map_of out k | Some v \<Rightarrow> g k v (map_of out k))"
  using assms(2)
proof (induction kvs arbitrary: out)
  case (Cons kv kvs)
  obtain k' v where kv: "kv = (k', v)" by (cases kv)
  from Cons.prems have "map_of kvs k' = None" by (simp add: kv map_of_eq_None_iff)
  with Cons show ?case by (auto simp: kv step split: option.split)
qed simp

section \<open>Values of type any\<close>

text \<open>The dynamic types that reach the modelled code.  \<open>VStrs\<close> is \<open>[]string\<close>,
  \<open>VList\<close> is \<open>[]any\<close>, \<open>VMap\<close> is \<open>map[string]any\<close>, \<open>VStrMap\<close> is
  \<open>map[string]string\<close>; \<open>VScope\<close>, \<open>VAction\<close>, \<open>VApp\<close> and \<open>VRes\<close> are the
  named string types of the domain.  \<open>VNum\<close> is a number with an
  integral value, of any of the integer types or \<open>float64\<close>; \<open>VFloat\<close> is a \<open>float64\<close> with
  another value, taken as the rational it stands for.\<close>


datatype val =
    VNil
  | VBool bool
  | VNum int
  | VFloat rat
  | VStr string
  | VScope string
  | VAction string
  | VApp string
  | VRes string
  | VStrs "string list"
  | VList "val list"
  | VMap "(string \<times> val) list"
  | VStrMap "(string \<times> string) list"

type_synonym params = "(string, val) gomap"

text \<open>Reading a missing key of a \<open>map[string]any\<close> yields the zero value nil.\<close>

definition map_at :: "params \<Rightarrow> string \<Rightarrow> val" where
  "map_at m k = (case map_of m k of Some v \<Rightarrow> v | None \<Rightarrow> VNil)"

lemma map_at_simps [simp, go_simps]:
  "map_at [] k = VNil"
  "map_at (map_put k v m) k' = (if k' = k then v else map_at m k')"
  "map_at (map_del k m) k' = (if k' = k then VNil else map_at m k')"
  by (simp_all add: map_at_def)

lemma map_at_Some [simp]: "map_of m k = Some v \<Longrightarrow> map_at m k = v"
  by (simp add: map_at_def)

lemma map_at_None [simp]: "map_of m k = None \<Longrightarrow> map_at m k = VNil"
  by (simp add: map_at_def)

text \<open>\<open>reflect.DeepEqual\<close>: equal dynamic types, maps compared entry by entry.\<close>

fun deep_equal :: "val \<Rightarrow> val \<Rightarrow> bool" where
  "deep_equal (VList xs) (VList ys) = list_all2 deep_equal xs ys"
| "deep_equal (VMap m) (VMap n) \<longleftrightarrow>
     length m = length n \<and>
     list_all (\<lambda>p. case map_of n (fst p) of None \<Rightarrow> False | Some w \<Rightarrow> deep_equal (snd p) w) m"
| "deep_equal (VStrMap m) (VStrMap n) \<longleftrightarrow>
     length m = length n \<and> list_all (\<lambda>p. map_of n (fst p) = Some (snd p)) m"
| "deep_equal v w \<longleftrightarrow> v = w"

text \<open>\<open>fmt.Sprint\<close> of a value: strings as they are, slices in brackets, maps sorted by key.\<close>

fun nat_string :: "nat \<Rightarrow> string" where
  "nat_string n =
     (if n < 10 then [char_of (48 + n)] else nat_string (n div 10) @ [char_of (48 + n mod 10)])"

declare nat_string.simps [simp del]

definition int_string :: "int \<Rightarrow> string" where
  "int_string i = (if i < 0 then CHR ''-'' # nat_string (nat (- i)) else nat_string (nat i))"

text \<open>The digits of a fraction, to at most 17 places.\<close>

fun fraction_digits :: "nat \<Rightarrow> rat \<Rightarrow> string" where
  "fraction_digits 0 r = []"
| "fraction_digits (Suc n) r =
     (if r = 0 then [] else int_string \<lfloor>r * 10\<rfloor> @ fraction_digits n (r * 10 - of_int \<lfloor>r * 10\<rfloor>))"

definition float_string :: "rat \<Rightarrow> string" where
  "float_string r =
     (let a = \<bar>r\<bar>; whole = \<lfloor>a\<rfloor>; fraction = fraction_digits 17 (a - of_int whole)
      in (if r < 0 then [CHR ''-''] else []) @ int_string whole @ (if fraction = [] then [] else CHR ''.'' # fraction))"

definition float_val :: "rat \<Rightarrow> val" where
  "float_val r = (if of_int \<lfloor>r\<rfloor> = r then VNum \<lfloor>r\<rfloor> else VFloat r)"

definition sprint_entries :: "(string \<times> string) list \<Rightarrow> string" where
  "sprint_entries es = ''map['' @ Join (map (\<lambda>e. fst e @ '':'' @ snd e) (sort_key fst es)) '' '' @ '']''"

fun Sprint :: "val \<Rightarrow> string" where
  "Sprint VNil = ''<nil>''"
| "Sprint (VBool b) = (if b then ''true'' else ''false'')"
| "Sprint (VNum i) = int_string i"
| "Sprint (VFloat r) = float_string r"
| "Sprint (VStr s) = s"
| "Sprint (VScope s) = s"
| "Sprint (VAction s) = s"
| "Sprint (VApp s) = s"
| "Sprint (VRes s) = s"
| "Sprint (VStrs xs) = ''['' @ Join xs '' '' @ '']''"
| "Sprint (VList vs) = ''['' @ Join (map Sprint vs) '' '' @ '']''"
| "Sprint (VMap m) = sprint_entries (map (\<lambda>p. (fst p, Sprint (snd p))) m)"
| "Sprint (VStrMap m) = sprint_entries m"

section \<open>Helpers of package utils and service\<close>

text \<open>\<open>utils.FirstNonEmpty\<close>, \<open>utils.ContainsString\<close>, \<open>utils.CopyStrings\<close>,
  \<open>utils.CopyStringMap\<close>, \<open>utils.CopyStringStringMap\<close>.\<close>

fun FirstNonEmpty :: "string list \<Rightarrow> string" where
  "FirstNonEmpty [] = []"
| "FirstNonEmpty (v # vs) = (if TrimSpace v \<noteq> [] then TrimSpace v else FirstNonEmpty vs)"

fun ContainsString :: "string list \<Rightarrow> string \<Rightarrow> bool" where
  "ContainsString [] target = False"
| "ContainsString (v # vs) target = (if v = target then True else ContainsString vs target)"

definition CopyStrings :: "string list \<Rightarrow> string list" where
  "CopyStrings src = (if src = [] then [] else [v. v \<leftarrow> src])"

definition CopyStringMap :: "params \<Rightarrow> params" where
  "CopyStringMap src = (if src = [] then [] else [(k, v). (k, v) \<leftarrow> src])"

definition CopyStringStringMap :: "(string, string) gomap \<Rightarrow> (string, string) gomap" where
  "CopyStringStringMap src = (if src = [] then [] else [(k, v). (k, v) \<leftarrow> src])"

lemma ContainsString_iff [simp, go_simps]: "ContainsString vs t \<longleftrightarrow> t \<in> set vs"
  by (induction vs) auto

lemma Copy_id [simp, go_simps]:
  "CopyStrings xs = xs" "CopyStringMap m = m" "CopyStringStringMap n = n"
  by (simp_all add: CopyStrings_def CopyStringMap_def CopyStringStringMap_def)

lemma FirstNonEmpty_empty_iff: "FirstNonEmpty vs = [] \<longleftrightarrow> (\<forall>v \<in> set vs. TrimSpace v = [])"
  by (induction vs) auto

lemma FirstNonEmpty_in:
  "FirstNonEmpty vs \<noteq> [] \<Longrightarrow> \<exists>v \<in> set vs. FirstNonEmpty vs = TrimSpace v"
  by (induction vs) (auto split: if_splits)

text \<open>\<open>uniqueStrings\<close>: the first occurrence of every non-empty string, with the set of
  the strings seen so far.\<close>

fun unique_from :: "string set \<Rightarrow> string list \<Rightarrow> string list" where
  "unique_from seen [] = []"
| "unique_from seen (v # vs) =
     (if v = [] then unique_from seen vs
      else if v \<in> seen then unique_from seen vs
      else v # unique_from (insert v seen) vs)"

definition uniqueStrings :: "string list \<Rightarrow> string list" where
  "uniqueStrings values = (if values = [] then [] else unique_from {} values)"

lemma uniqueStrings_Nil [simp, go_simps]: "uniqueStrings [] = []"
  by (simp add: uniqueStrings_def)

lemma set_unique_from: "set (unique_from seen vs) = set vs - insert [] seen"
  by (induction vs arbitrary: seen) auto

lemma distinct_unique_from: "distinct (unique_from seen vs)"
  by (induction vs arbitrary: seen) (auto simp: set_unique_from)

lemma unique_from_distinct:
  "distinct vs \<Longrightarrow> [] \<notin> set vs \<Longrightarrow> set vs \<inter> seen = {} \<Longrightarrow> unique_from seen vs = vs"
  by (induction vs arbitrary: seen) auto

lemma set_uniqueStrings [simp, go_simps]: "set (uniqueStrings vs) = set vs - {[]}"
  by (simp add: uniqueStrings_def set_unique_from)

lemma distinct_uniqueStrings [simp]: "distinct (uniqueStrings vs)"
  by (simp add: uniqueStrings_def distinct_unique_from)

lemma uniqueStrings_idem [simp]: "uniqueStrings (uniqueStrings vs) = uniqueStrings vs"
proof (cases "uniqueStrings vs = []")
  case False
  then have "uniqueStrings (uniqueStrings vs) = unique_from {} (uniqueStrings vs)"
    by (simp add: uniqueStrings_def)
  also have "\<dots> = uniqueStrings vs"
    by (rule unique_from_distinct) auto
  finally show ?thesis .
qed simp

lemma subseq_uniqueStrings: "subseq (uniqueStrings vs) vs"
proof -
  have "subseq (unique_from seen vs) vs" for seen
    by (induction vs arbitrary: seen) auto
  then show ?thesis by (simp add: uniqueStrings_def)
qed

text \<open>Sets of strings (\<open>map[string]struct{}\<close>): \<open>stringSet\<close> of the scope service keeps
  the non-blank strings, \<open>stringsToSet\<close> of the decision service their trimmed forms.\<close>

definition stringSet :: "string list \<Rightarrow> string set" where
  "stringSet values = set (filter (\<lambda>v. TrimSpace v \<noteq> []) values)"

definition stringsToSet :: "string list \<Rightarrow> string set" where
  "stringsToSet values = set (filter (\<lambda>v. v \<noteq> []) (map TrimSpace values))"

text \<open>\<open>stringSliceFromAny\<close>, \<open>stringFromAny\<close>: type switches on a value.\<close>

fun stringSliceFromAny :: "val \<Rightarrow> string list" where
  "stringSliceFromAny (VStrs v) = v"
| "stringSliceFromAny (VList v) = concat (map (\<lambda>x. case x of VStr s \<Rightarrow> [s] | _ \<Rightarrow> []) v)"
| "stringSliceFromAny (VStr v) = (if v = [] then [] else [v])"
| "stringSliceFromAny _ = []"

fun stringFromAny :: "val \<Rightarrow> string" where
  "stringFromAny (VStr v) = v"
| "stringFromAny (VAction v) = v"
| "stringFromAny (VApp v) = v"
| "stringFromAny (VRes v) = v"
| "stringFromAny _ = []"

lemma case_VStr_iff:
  "(case x of VStr s \<Rightarrow> P s | _ \<Rightarrow> False) \<longleftrightarrow> (\<exists>s. x = VStr s \<and> P s)"
  by (cases x) auto

lemma set_stringSlice_VList [simp]:
  "set (stringSliceFromAny (VList vs)) = {s. VStr s \<in> set vs}"
proof -
  have "set (case x of VStr s \<Rightarrow> [s] | _ \<Rightarrow> []) = {s. x = VStr s}" for x by (cases x) auto
  then show ?thesis by auto
qed

end
