(* ===== verification/Authz_Domain.thy ===== *)
theory Authz_Domain
  imports Go_Values
begin

text \<open>
  The data of the authorization engine as \<open>src/internal/domain\<close> declares it: one record
  per struct, fields in the order of the source under a short prefix, and its Go zero value
  \<open>zero_T\<close>.  Named string types are strings with the constants below.  A
  \<open>time.Time\<close> is the number of nanoseconds since the zero time (so the zero time is 0), a
  pointer is an option, \<open>map[string]any\<close> is \<open>params\<close>.  Of
  \<open>RequestContext\<close> only the field of type \<open>context.Context\<close> is left out.
\<close>

section \<open>Constants\<close>

abbreviation EffectAllow :: string where "EffectAllow \<equiv> ''allow''"
abbreviation EffectDeny :: string where "EffectDeny \<equiv> ''deny''"
abbreviation SeverityLow :: string where "SeverityLow \<equiv> ''low''"
abbreviation SeverityMedium :: string where "SeverityMedium \<equiv> ''medium''"
abbreviation SeverityHigh :: string where "SeverityHigh \<equiv> ''high''"
abbreviation SeverityCritical :: string where "SeverityCritical \<equiv> ''critical''"
abbreviation PrincipalTypeAccount :: string where "PrincipalTypeAccount \<equiv> ''account''"
abbreviation PrincipalTypeUserGroup :: string where "PrincipalTypeUserGroup \<equiv> ''user_group''"
abbreviation PrincipalTypeAssumableRole :: string where "PrincipalTypeAssumableRole \<equiv> ''assumable_role''"
abbreviation ScopeAll :: string where "ScopeAll \<equiv> ''all''"
abbreviation ScopeSelf :: string where "ScopeSelf \<equiv> ''self''"
abbreviation ScopeOwn :: string where "ScopeOwn \<equiv> ''own''"
abbreviation ScopeTenant :: string where "ScopeTenant \<equiv> ''tenant''"
abbreviation ScopeObject :: string where "ScopeObject \<equiv> ''object''"
abbreviation ScopeDepartment :: string where "ScopeDepartment \<equiv> ''department''"
abbreviation ScopeDepartmentSubtree :: string where "ScopeDepartmentSubtree \<equiv> ''department_subtree''"
abbreviation ScopeDirectReports :: string where "ScopeDirectReports \<equiv> ''direct_reports''"
abbreviation ScopeAssignedOrgUnits :: string where "ScopeAssignedOrgUnits \<equiv> ''assigned_org_units''"
abbreviation ScopeCustomCondition :: string where "ScopeCustomCondition \<equiv> ''custom_condition''"
abbreviation ScopeSystem :: string where "ScopeSystem \<equiv> ''system''"
abbreviation AppPlatform :: string where "AppPlatform \<equiv> ''platform''"
abbreviation AppHR :: string where "AppHR \<equiv> ''hr''"
abbreviation AppIAM :: string where "AppIAM \<equiv> ''iam''"
abbreviation AppAttendance :: string where "AppAttendance \<equiv> ''attendance''"
abbreviation AppAgent :: string where "AppAgent \<equiv> ''agent''"
abbreviation AppWorkflow :: string where "AppWorkflow \<equiv> ''workflow''"
abbreviation AppAudit :: string where "AppAudit \<equiv> ''audit''"
abbreviation ResourceEmployee :: string where "ResourceEmployee \<equiv> ''employee''"
abbreviation ResourceEmployeeSync :: string where "ResourceEmployeeSync \<equiv> ''employee_sync''"
abbreviation ResourceOrgUnit :: string where "ResourceOrgUnit \<equiv> ''org_unit''"
abbreviation ResourcePosition :: string where "ResourcePosition \<equiv> ''position''"
abbreviation ResourceLeave :: string where "ResourceLeave \<equiv> ''leave''"
abbreviation ResourceAttendanceWorksite :: string where "ResourceAttendanceWorksite \<equiv> ''worksite''"
abbreviation ResourceAttendanceClock :: string where "ResourceAttendanceClock \<equiv> ''clock''"
abbreviation ResourceAttendanceCorrection :: string where "ResourceAttendanceCorrection \<equiv> ''correction''"
abbreviation ResourceUserGroup :: string where "ResourceUserGroup \<equiv> ''user_group''"
abbreviation ResourceIAMAccount :: string where "ResourceIAMAccount \<equiv> ''account''"
abbreviation ResourcePermission :: string where "ResourcePermission \<equiv> ''permission''"
abbreviation ResourcePermissionPackage :: string where "ResourcePermissionPackage \<equiv> ''permission_package''"
abbreviation ResourcePermissionSet :: string where "ResourcePermissionSet \<equiv> ''permission_set''"
abbreviation ResourcePermissionAssign :: string where "ResourcePermissionAssign \<equiv> ''permission_set_assignment''"
abbreviation ResourceDataScope :: string where "ResourceDataScope \<equiv> ''data_scope''"
abbreviation ResourceFieldPolicy :: string where "ResourceFieldPolicy \<equiv> ''field_policy''"
abbreviation ResourceApplication :: string where "ResourceApplication \<equiv> ''application''"
abbreviation ResourceResourceType :: string where "ResourceResourceType \<equiv> ''resource_type''"
abbreviation ResourceOutboxEvent :: string where "ResourceOutboxEvent \<equiv> ''outbox_event''"
abbreviation ResourceAssumableRole :: string where "ResourceAssumableRole \<equiv> ''assumable_role''"
abbreviation ResourceTool :: string where "ResourceTool \<equiv> ''tool''"
abbreviation ResourceDefinition :: string where "ResourceDefinition \<equiv> ''definition''"
abbreviation ResourceUsage :: string where "ResourceUsage \<equiv> ''usage''"
abbreviation ResourceModel :: string where "ResourceModel \<equiv> ''model''"
abbreviation ResourceEmployeeCollection :: string where "ResourceEmployeeCollection \<equiv> ''employee_collection''"
abbreviation ResourceFormInstance :: string where "ResourceFormInstance \<equiv> ''form_instance''"
abbreviation ResourceFormDefinitionDraft :: string where "ResourceFormDefinitionDraft \<equiv> ''form_definition_draft''"
abbreviation ResourceNotification :: string where "ResourceNotification \<equiv> ''notification''"
abbreviation ActionRead :: string where "ActionRead \<equiv> ''read''"
abbreviation ActionCreate :: string where "ActionCreate \<equiv> ''create''"
abbreviation ActionUpdate :: string where "ActionUpdate \<equiv> ''update''"
abbreviation ActionDelete :: string where "ActionDelete \<equiv> ''delete''"
abbreviation ActionExport :: string where "ActionExport \<equiv> ''export''"
abbreviation ActionImport :: string where "ActionImport \<equiv> ''import''"
abbreviation ActionAssume :: string where "ActionAssume \<equiv> ''assume''"
abbreviation ActionInvite :: string where "ActionInvite \<equiv> ''invite''"
abbreviation ActionSubmit :: string where "ActionSubmit \<equiv> ''submit''"
abbreviation ActionApprove :: string where "ActionApprove \<equiv> ''approve''"
abbreviation ActionCall :: string where "ActionCall \<equiv> ''call''"
abbreviation ActionUpdateStatus :: string where "ActionUpdateStatus \<equiv> ''update_status''"
abbreviation ActionStatusTransition :: string where "ActionStatusTransition \<equiv> ''status_transition''"
abbreviation FieldPolicyEffectAllow :: string where "FieldPolicyEffectAllow \<equiv> ''allow''"
abbreviation FieldPolicyEffectDeny :: string where "FieldPolicyEffectDeny \<equiv> ''deny''"
abbreviation FieldPolicyEffectMask :: string where "FieldPolicyEffectMask \<equiv> ''mask''"
abbreviation FieldPolicyEffectHide :: string where "FieldPolicyEffectHide \<equiv> ''hide''"
abbreviation FieldPolicyEffectReadonly :: string where "FieldPolicyEffectReadonly \<equiv> ''readonly''"
abbreviation EventOpenFGARelationshipWrite :: string where "EventOpenFGARelationshipWrite \<equiv> ''openfga.relationship.write''"
abbreviation EventOpenFGARelationshipDelete :: string where "EventOpenFGARelationshipDelete \<equiv> ''openfga.relationship.delete''"
abbreviation RiskNormal :: string where "RiskNormal \<equiv> ''normal''"
abbreviation RiskHigh :: string where "RiskHigh \<equiv> ''high''"
abbreviation RiskCritical :: string where "RiskCritical \<equiv> ''critical''"
abbreviation PermissionTypeMenu :: string where "PermissionTypeMenu \<equiv> ''menu''"
abbreviation PermissionTypeAPI :: string where "PermissionTypeAPI \<equiv> ''api''"
abbreviation PermissionTypeButton :: string where "PermissionTypeButton \<equiv> ''button''"
abbreviation PermissionTypeField :: string where "PermissionTypeField \<equiv> ''field''"
abbreviation PermissionTypeScope :: string where "PermissionTypeScope \<equiv> ''scope''"
abbreviation AccountStatusActive :: string where "AccountStatusActive \<equiv> ''active''"
abbreviation AccountStatusDisabled :: string where "AccountStatusDisabled \<equiv> ''disabled''"
abbreviation AccountStatusPendingInvite :: string where "AccountStatusPendingInvite \<equiv> ''pending_invite''"

section \<open>Records\<close>

record Tenant =
  tn_ID :: string
  tn_Name :: string
  tn_CreatedAt :: int

definition zero_Tenant :: Tenant where
  "zero_Tenant = \<lparr>
     tn_ID = [],
     tn_Name = [],
     tn_CreatedAt = 0 \<rparr>"

record Account =
  acc_ID :: string
  acc_TenantID :: string
  acc_DisplayName :: string
  acc_Email :: string
  acc_EmployeeID :: string
  acc_Status :: string
  acc_UserGroupIDs :: "string list"
  acc_DirectPermissionSetIDs :: "string list"
  acc_ActiveAssumableRoleID :: string
  acc_PreferredLocale :: string
  acc_Version :: int
  acc_CreatedAt :: int

definition zero_Account :: Account where
  "zero_Account = \<lparr>
     acc_ID = [],
     acc_TenantID = [],
     acc_DisplayName = [],
     acc_Email = [],
     acc_EmployeeID = [],
     acc_Status = [],
     acc_UserGroupIDs = [],
     acc_DirectPermissionSetIDs = [],
     acc_ActiveAssumableRoleID = [],
     acc_PreferredLocale = [],
     acc_Version = 0,
     acc_CreatedAt = 0 \<rparr>"

record OrgUnit =
  ou_ID :: string
  ou_TenantID :: string
  ou_Code :: string
  ou_Name :: string
  ou_NameEN :: string
  ou_ParentID :: string
  ou_Path :: "string list"
  ou_Source :: string
  ou_Closed :: bool
  ou_ShowInOrgChart :: bool
  ou_ManagerPositionID :: string
  ou_CreatedAt :: int
  ou_UpdatedAt :: int

definition zero_OrgUnit :: OrgUnit where
  "zero_OrgUnit = \<lparr>
     ou_ID = [],
     ou_TenantID = [],
     ou_Code = [],
     ou_Name = [],
     ou_NameEN = [],
     ou_ParentID = [],
     ou_Path = [],
     ou_Source = [],
     ou_Closed = False,
     ou_ShowInOrgChart = False,
     ou_ManagerPositionID = [],
     ou_CreatedAt = 0,
     ou_UpdatedAt = 0 \<rparr>"

record EmployeeExperience =
  exp_ID :: string
  exp_StartDate :: "int option"
  exp_EndDate :: "int option"
  exp_Reason :: string
  exp_OrgUnitID :: string
  exp_ManagerEmployeeID :: string
  exp_Position :: string
  exp_Category :: string
  exp_Status :: string
  exp_Current :: bool
  exp_CreatedAt :: int

definition zero_EmployeeExperience :: EmployeeExperience where
  "zero_EmployeeExperience = \<lparr>
     exp_ID = [],
     exp_StartDate = None,
     exp_EndDate = None,
     exp_Reason = [],
     exp_OrgUnitID = [],
     exp_ManagerEmployeeID = [],
     exp_Position = [],
     exp_Category = [],
     exp_Status = [],
     exp_Current = False,
     exp_CreatedAt = 0 \<rparr>"

record Employee =
  emp_ID :: string
  emp_TenantID :: string
  emp_EmployeeNo :: string
  emp_ExternalSource :: string
  emp_ExternalEmployeeID :: string
  emp_Name :: string
  emp_CompanyEmail :: string
  emp_PersonalEmail :: string
  emp_Phone :: string
  emp_OrgUnitID :: string
  emp_AccountID :: string
  emp_ManagerEmployeeID :: string
  emp_PositionID :: string
  emp_Position :: string
  emp_Category :: string
  emp_Status :: string
  emp_EmploymentStatus :: string
  emp_ShowInOrgChart :: bool
  emp_HireDate :: "int option"
  emp_ResignDate :: "int option"
  emp_BasicInfo :: params
  emp_EmploymentInfo :: params
  emp_EducationMilitaryInfo :: params
  emp_ContactInfo :: params
  emp_InsuranceInfo :: params
  emp_InternalExperiences :: "EmployeeExperience list"
  emp_SourcePayload :: params
  emp_SourceUpdatedAt :: "int option"
  emp_LastSyncedAt :: "int option"
  emp_CreatedAt :: int
  emp_UpdatedAt :: int

definition zero_Employee :: Employee where
  "zero_Employee = \<lparr>
     emp_ID = [],
     emp_TenantID = [],
     emp_EmployeeNo = [],
     emp_ExternalSource = [],
     emp_ExternalEmployeeID = [],
     emp_Name = [],
     emp_CompanyEmail = [],
     emp_PersonalEmail = [],
     emp_Phone = [],
     emp_OrgUnitID = [],
     emp_AccountID = [],
     emp_ManagerEmployeeID = [],
     emp_PositionID = [],
     emp_Position = [],
     emp_Category = [],
     emp_Status = [],
     emp_EmploymentStatus = [],
     emp_ShowInOrgChart = False,
     emp_HireDate = None,
     emp_ResignDate = None,
     emp_BasicInfo = [],
     emp_EmploymentInfo = [],
     emp_EducationMilitaryInfo = [],
     emp_ContactInfo = [],
     emp_InsuranceInfo = [],
     emp_InternalExperiences = [],
     emp_SourcePayload = [],
     emp_SourceUpdatedAt = None,
     emp_LastSyncedAt = None,
     emp_CreatedAt = 0,
     emp_UpdatedAt = 0 \<rparr>"

record EmployeeScopeConstraint =
  esc_EmployeeIDs :: "string list"
  esc_OrgUnitIDs :: "string list"
  esc_Statuses :: "string list"
  esc_MatchAnyEntity :: bool
  esc_DenyAll :: bool

definition zero_EmployeeScopeConstraint :: EmployeeScopeConstraint where
  "zero_EmployeeScopeConstraint = \<lparr>
     esc_EmployeeIDs = [],
     esc_OrgUnitIDs = [],
     esc_Statuses = [],
     esc_MatchAnyEntity = False,
     esc_DenyAll = False \<rparr>"

record EmployeeQuery =
  eq_Keyword :: string
  eq_DepartmentID :: string
  eq_EmploymentStatus :: string
  eq_Category :: string
  eq_IncludeSuperAdmins :: bool
  eq_PresentFrom :: string
  eq_PresentTo :: string
  eq_Page :: int
  eq_PageSize :: int
  eq_Sort :: string
  eq_Scope :: EmployeeScopeConstraint

definition zero_EmployeeQuery :: EmployeeQuery where
  "zero_EmployeeQuery = \<lparr>
     eq_Keyword = [],
     eq_DepartmentID = [],
     eq_EmploymentStatus = [],
     eq_Category = [],
     eq_IncludeSuperAdmins = False,
     eq_PresentFrom = [],
     eq_PresentTo = [],
     eq_Page = 0,
     eq_PageSize = 0,
     eq_Sort = [],
     eq_Scope = zero_EmployeeScopeConstraint \<rparr>"

record RequestContext =
  ctx_TenantID :: string
  ctx_AccountID :: string
  ctx_PlatformAdmin :: bool
  ctx_AssumedRoleID :: string
  ctx_AssumedRoleSessionID :: string
  ctx_RouteApplicationCode :: string
  ctx_RouteResourceType :: string
  ctx_RouteAction :: string
  ctx_RoutePath :: string
  ctx_RequestID :: string
  ctx_IdempotencyKey :: string
  ctx_TraceID :: string
  ctx_SpanID :: string

definition zero_RequestContext :: RequestContext where
  "zero_RequestContext = \<lparr>
     ctx_TenantID = [],
     ctx_AccountID = [],
     ctx_PlatformAdmin = False,
     ctx_AssumedRoleID = [],
     ctx_AssumedRoleSessionID = [],
     ctx_RouteApplicationCode = [],
     ctx_RouteResourceType = [],
     ctx_RouteAction = [],
     ctx_RoutePath = [],
     ctx_RequestID = [],
     ctx_IdempotencyKey = [],
     ctx_TraceID = [],
     ctx_SpanID = [] \<rparr>"

record UserGroup =
  ug_ID :: string
  ug_TenantID :: string
  ug_Name :: string
  ug_Description :: string
  ug_MemberAccountIDs :: "string list"
  ug_PermissionSetIDs :: "string list"
  ug_SourceTemplateKey :: string
  ug_SourcePackageVersion :: string
  ug_Version :: int
  ug_CreatedAt :: int

definition zero_UserGroup :: UserGroup where
  "zero_UserGroup = \<lparr>
     ug_ID = [],
     ug_TenantID = [],
     ug_Name = [],
     ug_Description = [],
     ug_MemberAccountIDs = [],
     ug_PermissionSetIDs = [],
     ug_SourceTemplateKey = [],
     ug_SourcePackageVersion = [],
     ug_Version = 0,
     ug_CreatedAt = 0 \<rparr>"

record GroupMembership =
  gm_ID :: string
  gm_TenantID :: string
  gm_UserGroupID :: string
  gm_AccountID :: string
  gm_ValidFrom :: int
  gm_ValidUntil :: "int option"
  gm_Source :: string
  gm_ApprovalInstanceID :: string
  gm_CreatedBy :: string
  gm_CreatedAt :: int

definition zero_GroupMembership :: GroupMembership where
  "zero_GroupMembership = \<lparr>
     gm_ID = [],
     gm_TenantID = [],
     gm_UserGroupID = [],
     gm_AccountID = [],
     gm_ValidFrom = 0,
     gm_ValidUntil = None,
     gm_Source = [],
     gm_ApprovalInstanceID = [],
     gm_CreatedBy = [],
     gm_CreatedAt = 0 \<rparr>"

record Permission =
  perm_ID :: string
  perm_TenantID :: string
  perm_ApplicationCode :: string
  perm_ResourceType :: string
  perm_PermissionType :: string
  perm_Resource :: string
  perm_Action :: string
  perm_Target :: string
  perm_Scope :: string
  perm_Conditions :: params
  perm_Effect :: string
  perm_RiskLevel :: string
  perm_Severity :: string
  perm_Relation :: string
  perm_MenuKey :: string
  perm_Name :: string
  perm_Description :: string
  perm_HighRisk :: bool

definition zero_Permission :: Permission where
  "zero_Permission = \<lparr>
     perm_ID = [],
     perm_TenantID = [],
     perm_ApplicationCode = [],
     perm_ResourceType = [],
     perm_PermissionType = [],
     perm_Resource = [],
     perm_Action = [],
     perm_Target = [],
     perm_Scope = [],
     perm_Conditions = [],
     perm_Effect = [],
     perm_RiskLevel = [],
     perm_Severity = [],
     perm_Relation = [],
     perm_MenuKey = [],
     perm_Name = [],
     perm_Description = [],
     perm_HighRisk = False \<rparr>"

record PermissionSet =
  ps_ID :: string
  ps_TenantID :: string
  ps_Name :: string
  ps_Description :: string
  ps_Permissions :: "Permission list"
  ps_SourceTemplateKey :: string
  ps_SourcePackageVersion :: string
  ps_CreatedAt :: int

definition zero_PermissionSet :: PermissionSet where
  "zero_PermissionSet = \<lparr>
     ps_ID = [],
     ps_TenantID = [],
     ps_Name = [],
     ps_Description = [],
     ps_Permissions = [],
     ps_SourceTemplateKey = [],
     ps_SourcePackageVersion = [],
     ps_CreatedAt = 0 \<rparr>"

record PermissionCatalogItem =
  pci_ID :: string
  pci_TenantID :: string
  pci_Application :: string
  pci_Resource :: string
  pci_Action :: string
  pci_PermissionType :: string
  pci_MenuKey :: string
  pci_Name :: string
  pci_Description :: string
  pci_HighRisk :: bool
  pci_Severity :: string
  pci_CreatedAt :: int

definition zero_PermissionCatalogItem :: PermissionCatalogItem where
  "zero_PermissionCatalogItem = \<lparr>
     pci_ID = [],
     pci_TenantID = [],
     pci_Application = [],
     pci_Resource = [],
     pci_Action = [],
     pci_PermissionType = [],
     pci_MenuKey = [],
     pci_Name = [],
     pci_Description = [],
     pci_HighRisk = False,
     pci_Severity = [],
     pci_CreatedAt = 0 \<rparr>"

record AssumableRole =
  ar_ID :: string
  ar_TenantID :: string
  ar_Name :: string
  ar_Description :: string
  ar_PermissionSetIDs :: "string list"
  ar_Trusted :: bool
  ar_TrustPolicy :: params
  ar_PermissionBoundary :: params
  ar_SessionDurationSeconds :: int
  ar_SourceTemplateKey :: string
  ar_SourcePackageVersion :: string
  ar_CreatedAt :: int

definition zero_AssumableRole :: AssumableRole where
  "zero_AssumableRole = \<lparr>
     ar_ID = [],
     ar_TenantID = [],
     ar_Name = [],
     ar_Description = [],
     ar_PermissionSetIDs = [],
     ar_Trusted = False,
     ar_TrustPolicy = [],
     ar_PermissionBoundary = [],
     ar_SessionDurationSeconds = 0,
     ar_SourceTemplateKey = [],
     ar_SourcePackageVersion = [],
     ar_CreatedAt = 0 \<rparr>"

record PermissionSetAssignment =
  psa_ID :: string
  psa_TenantID :: string
  psa_PrincipalType :: string
  psa_PrincipalID :: string
  psa_PermissionSetID :: string
  psa_Effect :: string
  psa_DataScopeID :: string
  psa_ConditionID :: string
  psa_StartsAt :: "int option"
  psa_ExpiresAt :: "int option"
  psa_CreatedAt :: int

definition zero_PermissionSetAssignment :: PermissionSetAssignment where
  "zero_PermissionSetAssignment = \<lparr>
     psa_ID = [],
     psa_TenantID = [],
     psa_PrincipalType = [],
     psa_PrincipalID = [],
     psa_PermissionSetID = [],
     psa_Effect = [],
     psa_DataScopeID = [],
     psa_ConditionID = [],
     psa_StartsAt = None,
     psa_ExpiresAt = None,
     psa_CreatedAt = 0 \<rparr>"

record DataScope =
  ds_ID :: string
  ds_TenantID :: string
  ds_Code :: string
  ds_Name :: string
  ds_ScopeType :: string
  ds_Params :: params
  ds_CreatedAt :: int

definition zero_DataScope :: DataScope where
  "zero_DataScope = \<lparr>
     ds_ID = [],
     ds_TenantID = [],
     ds_Code = [],
     ds_Name = [],
     ds_ScopeType = [],
     ds_Params = [],
     ds_CreatedAt = 0 \<rparr>"

record FieldPolicy =
  fp_ID :: string
  fp_TenantID :: string
  fp_ApplicationCode :: string
  fp_ResourceType :: string
  fp_FieldName :: string
  fp_Effect :: string
  fp_MaskStrategy :: string
  fp_PermissionID :: string
  fp_CreatedAt :: int

definition zero_FieldPolicy :: FieldPolicy where
  "zero_FieldPolicy = \<lparr>
     fp_ID = [],
     fp_TenantID = [],
     fp_ApplicationCode = [],
     fp_ResourceType = [],
     fp_FieldName = [],
     fp_Effect = [],
     fp_MaskStrategy = [],
     fp_PermissionID = [],
     fp_CreatedAt = 0 \<rparr>"

record AssumableRoleSession =
  ars_ID :: string
  ars_TenantID :: string
  ars_AccountID :: string
  ars_AssumableRoleID :: string
  ars_SessionPolicy :: params
  ars_PermissionBoundary :: params
  ars_ExpiresAt :: int
  ars_RevokedAt :: "int option"
  ars_CreatedAt :: int

definition zero_AssumableRoleSession :: AssumableRoleSession where
  "zero_AssumableRoleSession = \<lparr>
     ars_ID = [],
     ars_TenantID = [],
     ars_AccountID = [],
     ars_AssumableRoleID = [],
     ars_SessionPolicy = [],
     ars_PermissionBoundary = [],
     ars_ExpiresAt = 0,
     ars_RevokedAt = None,
     ars_CreatedAt = 0 \<rparr>"

record AssumeRoleInput =
  ari_Reason :: string
  ari_DurationMinutes :: int
  ari_SessionPolicy :: params

definition zero_AssumeRoleInput :: AssumeRoleInput where
  "zero_AssumeRoleInput = \<lparr>
     ari_Reason = [],
     ari_DurationMinutes = 0,
     ari_SessionPolicy = [] \<rparr>"

record CheckRequest =
  req_ApplicationCode :: string
  req_ResourceType :: string
  req_ResourceID :: string
  req_Action :: string
  req_Context :: params
  req_Resource :: string
  req_Target :: string
  req_Scope :: string
  req_TargetEmployeeID :: string
  req_RouteMethod :: string
  req_RoutePath :: string

definition zero_CheckRequest :: CheckRequest where
  "zero_CheckRequest = \<lparr>
     req_ApplicationCode = [],
     req_ResourceType = [],
     req_ResourceID = [],
     req_Action = [],
     req_Context = [],
     req_Resource = [],
     req_Target = [],
     req_Scope = [],
     req_TargetEmployeeID = [],
     req_RouteMethod = [],
     req_RoutePath = [] \<rparr>"

record AssumedRoleDecision =
  ard_SessionID :: string
  ard_RoleID :: string
  ard_Name :: string

definition zero_AssumedRoleDecision :: AssumedRoleDecision where
  "zero_AssumedRoleDecision = \<lparr>
     ard_SessionID = [],
     ard_RoleID = [],
     ard_Name = [] \<rparr>"

record CheckResult =
  res_Allowed :: bool
  res_Reason :: string
  res_MatchedBy :: "string list"
  res_MatchedPermissions :: "string list"
  res_MissingPermissions :: "string list"
  res_PermissionSetIDs :: "string list"
  res_Scope :: string
  res_EffectiveScope :: string
  res_Conditions :: params
  res_FieldPolicies :: "(string, string) gomap"
  res_AssumedRole :: "AssumedRoleDecision option"
  res_PermissionBoundary :: params
  res_RiskLevel :: string
  res_Resource :: string
  res_ApplicationCode :: string
  res_ResourceType :: string
  res_ResourceID :: string
  res_Action :: string
  res_Target :: string

definition zero_CheckResult :: CheckResult where
  "zero_CheckResult = \<lparr>
     res_Allowed = False,
     res_Reason = [],
     res_MatchedBy = [],
     res_MatchedPermissions = [],
     res_MissingPermissions = [],
     res_PermissionSetIDs = [],
     res_Scope = [],
     res_EffectiveScope = [],
     res_Conditions = [],
     res_FieldPolicies = [],
     res_AssumedRole = None,
     res_PermissionBoundary = [],
     res_RiskLevel = [],
     res_Resource = [],
     res_ApplicationCode = [],
     res_ResourceType = [],
     res_ResourceID = [],
     res_Action = [],
     res_Target = [] \<rparr>"

record RelationshipCheck =
  rc_TenantID :: string
  rc_Subject :: string
  rc_Relation :: string
  rc_Object :: string

definition zero_RelationshipCheck :: RelationshipCheck where
  "zero_RelationshipCheck = \<lparr>
     rc_TenantID = [],
     rc_Subject = [],
     rc_Relation = [],
     rc_Object = [] \<rparr>"

record RoutePolicy =
  rp_Name :: string
  rp_Method :: string
  rp_Path :: string
  rp_ApplicationCode :: string
  rp_ResourceType :: string
  rp_Action :: string
  rp_RiskLevel :: string

definition zero_RoutePolicy :: RoutePolicy where
  "zero_RoutePolicy = \<lparr>
     rp_Name = [],
     rp_Method = [],
     rp_Path = [],
     rp_ApplicationCode = [],
     rp_ResourceType = [],
     rp_Action = [],
     rp_RiskLevel = [] \<rparr>"

record AuthzEvaluatedGrant =
  aeg_Source :: string
  aeg_SourceID :: string
  aeg_PermissionSetID :: string
  aeg_Permission :: string
  aeg_Effect :: string
  aeg_Matched :: bool
  aeg_Scope :: string
  aeg_ExcludedBy :: "string option"

definition zero_AuthzEvaluatedGrant :: AuthzEvaluatedGrant where
  "zero_AuthzEvaluatedGrant = \<lparr>
     aeg_Source = [],
     aeg_SourceID = [],
     aeg_PermissionSetID = [],
     aeg_Permission = [],
     aeg_Effect = [],
     aeg_Matched = False,
     aeg_Scope = [],
     aeg_ExcludedBy = None \<rparr>"

record AuthzBoundaryEffect =
  abe_Source :: string
  abe_Permission :: string
  abe_Effect :: string
  abe_Matched :: bool
  abe_ExcludedBy :: string

definition zero_AuthzBoundaryEffect :: AuthzBoundaryEffect where
  "zero_AuthzBoundaryEffect = \<lparr>
     abe_Source = [],
     abe_Permission = [],
     abe_Effect = [],
     abe_Matched = False,
     abe_ExcludedBy = [] \<rparr>"

record AuthzScopeDerivation =
  asd_Normal :: string
  asd_Assumed :: string
  asd_Boundary :: string
  asd_Final :: string
  asd_IntersectionEmpty :: bool

definition zero_AuthzScopeDerivation :: AuthzScopeDerivation where
  "zero_AuthzScopeDerivation = \<lparr>
     asd_Normal = [],
     asd_Assumed = [],
     asd_Boundary = [],
     asd_Final = [],
     asd_IntersectionEmpty = False \<rparr>"

record AuthzExplainResponse =
  aer_Decision :: CheckResult
  aer_EvaluatedGrants :: "AuthzEvaluatedGrant list"
  aer_DenySources :: "string list"
  aer_BoundaryEffects :: "AuthzBoundaryEffect list"
  aer_ScopeDerivation :: AuthzScopeDerivation

definition zero_AuthzExplainResponse :: AuthzExplainResponse where
  "zero_AuthzExplainResponse = \<lparr>
     aer_Decision = zero_CheckResult,
     aer_EvaluatedGrants = [],
     aer_DenySources = [],
     aer_BoundaryEffects = [],
     aer_ScopeDerivation = zero_AuthzScopeDerivation \<rparr>"

record AuthzPermissionSetChange =
  apc_PermissionSetID :: string
  apc_AddPermissions :: "string list"
  apc_RemovePermissions :: "string list"

definition zero_AuthzPermissionSetChange :: AuthzPermissionSetChange where
  "zero_AuthzPermissionSetChange = \<lparr>
     apc_PermissionSetID = [],
     apc_AddPermissions = [],
     apc_RemovePermissions = [] \<rparr>"

record AuthzSimulationOverrides =
  aso_AddUserGroups :: "string list"
  aso_RemoveUserGroups :: "string list"
  aso_AddPermissionSets :: "string list"
  aso_RemovePermissionSets :: "string list"
  aso_AssumeRoleID :: string
  aso_PermissionSetChanges :: "AuthzPermissionSetChange list"

definition zero_AuthzSimulationOverrides :: AuthzSimulationOverrides where
  "zero_AuthzSimulationOverrides = \<lparr>
     aso_AddUserGroups = [],
     aso_RemoveUserGroups = [],
     aso_AddPermissionSets = [],
     aso_RemovePermissionSets = [],
     aso_AssumeRoleID = [],
     aso_PermissionSetChanges = [] \<rparr>"

record AuthzSimulationDiff =
  adf_AllowedChanged :: bool
  adf_BeforeAllowed :: bool
  adf_AfterAllowed :: bool
  adf_ScopeChanged :: bool
  adf_BeforeScope :: string
  adf_AfterScope :: string
  adf_AddedMatchedBy :: "string list"
  adf_RemovedMatchedBy :: "string list"
  adf_AddedMatchedPermissions :: "string list"
  adf_RemovedMatchedPermissions :: "string list"

definition zero_AuthzSimulationDiff :: AuthzSimulationDiff where
  "zero_AuthzSimulationDiff = \<lparr>
     adf_AllowedChanged = False,
     adf_BeforeAllowed = False,
     adf_AfterAllowed = False,
     adf_ScopeChanged = False,
     adf_BeforeScope = [],
     adf_AfterScope = [],
     adf_AddedMatchedBy = [],
     adf_RemovedMatchedBy = [],
     adf_AddedMatchedPermissions = [],
     adf_RemovedMatchedPermissions = [] \<rparr>"

record AuthzSimulationResponse =
  asr_Before :: CheckResult
  asr_After :: CheckResult
  asr_Diff :: AuthzSimulationDiff

definition zero_AuthzSimulationResponse :: AuthzSimulationResponse where
  "zero_AuthzSimulationResponse = \<lparr>
     asr_Before = zero_CheckResult,
     asr_After = zero_CheckResult,
     asr_Diff = zero_AuthzSimulationDiff \<rparr>"

record AuditLog =
  al_ID :: string
  al_TenantID :: string
  al_ActorAccountID :: string
  al_Action :: string
  al_Resource :: string
  al_Target :: string
  al_Result :: string
  al_TraceID :: string
  al_Severity :: string
  al_Details :: params
  al_CreatedAt :: int

definition zero_AuditLog :: AuditLog where
  "zero_AuditLog = \<lparr>
     al_ID = [],
     al_TenantID = [],
     al_ActorAccountID = [],
     al_Action = [],
     al_Resource = [],
     al_Target = [],
     al_Result = [],
     al_TraceID = [],
     al_Severity = [],
     al_Details = [],
     al_CreatedAt = 0 \<rparr>"

record OutboxEvent =
  obx_ID :: string
  obx_TenantID :: string
  obx_EventType :: string
  obx_AggregateType :: string
  obx_AggregateID :: string
  obx_Payload :: params
  obx_PayloadVersion :: int
  obx_IdempotencyKey :: string
  obx_Status :: string
  obx_RetryCount :: int
  obx_AttemptCount :: int
  obx_MaxAttempts :: "int option"
  obx_LastError :: string
  obx_NextAttemptAt :: int
  obx_ClaimOwner :: string
  obx_ClaimToken :: string
  obx_ClaimExpiresAt :: "int option"
  obx_LastAttemptAt :: "int option"
  obx_CreatedAt :: int
  obx_UpdatedAt :: int
  obx_ProcessedAt :: "int option"
  obx_DeadLetteredAt :: "int option"

definition zero_OutboxEvent :: OutboxEvent where
  "zero_OutboxEvent = \<lparr>
     obx_ID = [],
     obx_TenantID = [],
     obx_EventType = [],
     obx_AggregateType = [],
     obx_AggregateID = [],
     obx_Payload = [],
     obx_PayloadVersion = 0,
     obx_IdempotencyKey = [],
     obx_Status = [],
     obx_RetryCount = 0,
     obx_AttemptCount = 0,
     obx_MaxAttempts = None,
     obx_LastError = [],
     obx_NextAttemptAt = 0,
     obx_ClaimOwner = [],
     obx_ClaimToken = [],
     obx_ClaimExpiresAt = None,
     obx_LastAttemptAt = None,
     obx_CreatedAt = 0,
     obx_UpdatedAt = 0,
     obx_ProcessedAt = None,
     obx_DeadLetteredAt = None \<rparr>"

end
