(* ===== verification/Domain_Errors.thy ===== *)
theory Domain_Errors
  imports Authz_Domain
begin

text \<open>
  The error values of the program: \<open>src/internal/domain/errors.go\<close> and
  \<open>error_codes.go\<close>.  A returned Go error is an \<open>AppErr\<close> (an \<open>*AppError\<close>)
  or an error of a package outside the repository (\<open>PlainErr\<close> with its message).  The
  numeric public codes follow the switches of the source; the lemmas show which public code a
  caller sees.
\<close>

section \<open>Public error codes\<close>

abbreviation ErrorCodeInternal :: int where "ErrorCodeInternal \<equiv> 10000"
abbreviation ErrorCodeBadRequest :: int where "ErrorCodeBadRequest \<equiv> 10001"
abbreviation ErrorCodeInvalidJSONBody :: int where "ErrorCodeInvalidJSONBody \<equiv> 10002"
abbreviation ErrorCodeMultipleJSONValues :: int where "ErrorCodeMultipleJSONValues \<equiv> 10003"
abbreviation ErrorCodeInvalidQueryInteger :: int where "ErrorCodeInvalidQueryInteger \<equiv> 10004"
abbreviation ErrorCodeQueryBelowMinimum :: int where "ErrorCodeQueryBelowMinimum \<equiv> 10005"
abbreviation ErrorCodeQueryAboveMaximum :: int where "ErrorCodeQueryAboveMaximum \<equiv> 10006"
abbreviation ErrorCodeInvalidMultipartForm :: int where "ErrorCodeInvalidMultipartForm \<equiv> 10007"
abbreviation ErrorCodeRequiredMultipartFile :: int where "ErrorCodeRequiredMultipartFile \<equiv> 10008"
abbreviation ErrorCodeMultipartFileReadFailed :: int where "ErrorCodeMultipartFileReadFailed \<equiv> 10009"
abbreviation ErrorCodeValidationFailed :: int where "ErrorCodeValidationFailed \<equiv> 30010"
abbreviation ErrorCodeFieldRequired :: int where "ErrorCodeFieldRequired \<equiv> 30011"
abbreviation ErrorCodeFieldInvalid :: int where "ErrorCodeFieldInvalid \<equiv> 30012"
abbreviation ErrorCodeFieldNotFound :: int where "ErrorCodeFieldNotFound \<equiv> 30013"
abbreviation ErrorCodeFieldUnique :: int where "ErrorCodeFieldUnique \<equiv> 30014"
abbreviation ErrorCodeFieldDenied :: int where "ErrorCodeFieldDenied \<equiv> 30015"
abbreviation ErrorCodeDuplicateInImport :: int where "ErrorCodeDuplicateInImport \<equiv> 30016"
abbreviation ErrorCodeDuplicateInFile :: int where "ErrorCodeDuplicateInFile \<equiv> 30017"
abbreviation ErrorCodeImportValidation :: int where "ErrorCodeImportValidation \<equiv> 30018"
abbreviation ErrorCodePositionNotFound :: int where "ErrorCodePositionNotFound \<equiv> 30030"
abbreviation ErrorCodePositionConflict :: int where "ErrorCodePositionConflict \<equiv> 30031"
abbreviation ErrorCodeAttendanceBadRequest :: int where "ErrorCodeAttendanceBadRequest \<equiv> 40001"
abbreviation ErrorCodeAttendanceDuplicateClockEvent :: int where "ErrorCodeAttendanceDuplicateClockEvent \<equiv> 40020"
abbreviation ErrorCodeAttendanceClockSequenceConflict :: int where "ErrorCodeAttendanceClockSequenceConflict \<equiv> 40021"
abbreviation ErrorCodeAttendanceWorksiteRequired :: int where "ErrorCodeAttendanceWorksiteRequired \<equiv> 40022"
abbreviation ErrorCodeAttendanceOutsideWorksite :: int where "ErrorCodeAttendanceOutsideWorksite \<equiv> 40023"
abbreviation ErrorCodeAttendanceLocationAccuracyLow :: int where "ErrorCodeAttendanceLocationAccuracyLow \<equiv> 40024"
abbreviation ErrorCodeAttendanceCorrectionInvalidState :: int where "ErrorCodeAttendanceCorrectionInvalidState \<equiv> 40030"
abbreviation ErrorCodeAttendanceNotFound :: int where "ErrorCodeAttendanceNotFound \<equiv> 40050"
abbreviation ErrorCodeAttendanceConflict :: int where "ErrorCodeAttendanceConflict \<equiv> 40060"
abbreviation ErrorCodeWorkflowBadRequest :: int where "ErrorCodeWorkflowBadRequest \<equiv> 50001"
abbreviation ErrorCodeWorkflowInvalidState :: int where "ErrorCodeWorkflowInvalidState \<equiv> 50020"
abbreviation ErrorCodeWorkflowNotAssignee :: int where "ErrorCodeWorkflowNotAssignee \<equiv> 50021"
abbreviation ErrorCodeWorkflowStageUnavailable :: int where "ErrorCodeWorkflowStageUnavailable \<equiv> 50022"
abbreviation ErrorCodeWorkflowRuntimeUnavailable :: int where "ErrorCodeWorkflowRuntimeUnavailable \<equiv> 50030"
abbreviation ErrorCodeWorkflowNotFound :: int where "ErrorCodeWorkflowNotFound \<equiv> 50050"
abbreviation ErrorCodeWorkflowConflict :: int where "ErrorCodeWorkflowConflict \<equiv> 50060"
abbreviation ErrorCodeAgentBadRequest :: int where "ErrorCodeAgentBadRequest \<equiv> 60001"
abbreviation ErrorCodeAgentModelInUse :: int where "ErrorCodeAgentModelInUse \<equiv> 60020"
abbreviation ErrorCodeAgentDefinitionPublished :: int where "ErrorCodeAgentDefinitionPublished \<equiv> 60021"
abbreviation ErrorCodeAgentSessionArchived :: int where "ErrorCodeAgentSessionArchived \<equiv> 60022"
abbreviation ErrorCodeAgentChatRunActive :: int where "ErrorCodeAgentChatRunActive \<equiv> 60023"
abbreviation ErrorCodeAgentKnowledgeBaseInUse :: int where "ErrorCodeAgentKnowledgeBaseInUse \<equiv> 60024"
abbreviation ErrorCodeAgentConfirmationInvalid :: int where "ErrorCodeAgentConfirmationInvalid \<equiv> 60025"
abbreviation ErrorCodeAgentConfirmationExpired :: int where "ErrorCodeAgentConfirmationExpired \<equiv> 60026"
abbreviation ErrorCodeAgentChatDisabled :: int where "ErrorCodeAgentChatDisabled \<equiv> 60030"
abbreviation ErrorCodeAgentRuntimeUnavailable :: int where "ErrorCodeAgentRuntimeUnavailable \<equiv> 60031"
abbreviation ErrorCodeAgentNotFound :: int where "ErrorCodeAgentNotFound \<equiv> 60050"
abbreviation ErrorCodeAgentConflict :: int where "ErrorCodeAgentConflict \<equiv> 60060"
abbreviation ErrorCodeUnauthorized :: int where "ErrorCodeUnauthorized \<equiv> 10030"
abbreviation ErrorCodeAccountInactive :: int where "ErrorCodeAccountInactive \<equiv> 10031"
abbreviation ErrorCodeSSOEmailNotAuthorized :: int where "ErrorCodeSSOEmailNotAuthorized \<equiv> 10032"
abbreviation ErrorCodeSSOEmailUnverified :: int where "ErrorCodeSSOEmailUnverified \<equiv> 10033"
abbreviation ErrorCodeCompanyInactive :: int where "ErrorCodeCompanyInactive \<equiv> 10034"
abbreviation ErrorCodeGoogleLoginFailed :: int where "ErrorCodeGoogleLoginFailed \<equiv> 10035"
abbreviation ErrorCodeSSOIdentityConflict :: int where "ErrorCodeSSOIdentityConflict \<equiv> 10036"
abbreviation ErrorCodeSSOEmailAmbiguous :: int where "ErrorCodeSSOEmailAmbiguous \<equiv> 10037"
abbreviation ErrorCodeCurrentPasswordInvalid :: int where "ErrorCodeCurrentPasswordInvalid \<equiv> 10038"
abbreviation ErrorCodePasswordPolicyRejected :: int where "ErrorCodePasswordPolicyRejected \<equiv> 10039"
abbreviation ErrorCodePasswordChangeUnavailable :: int where "ErrorCodePasswordChangeUnavailable \<equiv> 10040"
abbreviation ErrorCodeForbidden :: int where "ErrorCodeForbidden \<equiv> 20040"
abbreviation ErrorCodePermissionMissing :: int where "ErrorCodePermissionMissing \<equiv> 20041"
abbreviation ErrorCodeMenuDenied :: int where "ErrorCodeMenuDenied \<equiv> 20042"
abbreviation ErrorCodeButtonDenied :: int where "ErrorCodeButtonDenied \<equiv> 20043"
abbreviation ErrorCodeDataScopeDenied :: int where "ErrorCodeDataScopeDenied \<equiv> 20044"
abbreviation ErrorCodeCrossTenantDenied :: int where "ErrorCodeCrossTenantDenied \<equiv> 20046"
abbreviation ErrorCodePermissionPackageInvalid :: int where "ErrorCodePermissionPackageInvalid \<equiv> 20047"
abbreviation ErrorCodePermissionPackageVersionConflict :: int where "ErrorCodePermissionPackageVersionConflict \<equiv> 20048"
abbreviation ErrorCodePermissionPackageStateConflict :: int where "ErrorCodePermissionPackageStateConflict \<equiv> 20049"
abbreviation ErrorCodeNotFound :: int where "ErrorCodeNotFound \<equiv> 10050"
abbreviation ErrorCodeConflict :: int where "ErrorCodeConflict \<equiv> 10060"
abbreviation ErrorCodeTooManyRequests :: int where "ErrorCodeTooManyRequests \<equiv> 10070"

definition appErrorCode :: "string \<Rightarrow> int" where
  "appErrorCode x =
    (if x = ''bad_request'' then ErrorCodeBadRequest
     else if x = ''validation_failed'' then ErrorCodeValidationFailed
     else if x = ''import_validation_failed'' then ErrorCodeImportValidation
     else if x = ''unauthorized'' then ErrorCodeUnauthorized
     else if x = ''forbidden'' then ErrorCodeForbidden
     else if x = ''not_found'' then ErrorCodeNotFound
     else if x = ''conflict'' then ErrorCodeConflict
     else if x = ''too_many_requests'' then ErrorCodeTooManyRequests
     else if x = ''temporal_workflow_unavailable'' then ErrorCodeWorkflowRuntimeUnavailable
     else if x = ''workflow_not_found'' then ErrorCodeWorkflowNotFound
     else ErrorCodeInternal)"

definition reasonErrorCode :: "string \<Rightarrow> int option" where
  "reasonErrorCode x =
    (if x = ''account_inactive'' then Some ErrorCodeAccountInactive
     else if x = ''sso_email_not_authorized'' then Some ErrorCodeSSOEmailNotAuthorized
     else if x = ''sso_email_unverified'' then Some ErrorCodeSSOEmailUnverified
     else if x = ''company_inactive'' then Some ErrorCodeCompanyInactive
     else if x = ''google_login_failed'' then Some ErrorCodeGoogleLoginFailed
     else if x = ''sso_identity_conflict'' then Some ErrorCodeSSOIdentityConflict
     else if x = ''sso_email_ambiguous'' then Some ErrorCodeSSOEmailAmbiguous
     else if x = ''current_password_invalid'' then Some ErrorCodeCurrentPasswordInvalid
     else if x = ''password_policy_rejected'' then Some ErrorCodePasswordPolicyRejected
     else if x = ''password_change_unavailable'' then Some ErrorCodePasswordChangeUnavailable
     else if x = ''permission_missing'' then Some ErrorCodePermissionMissing
     else if x = ''menu_denied'' then Some ErrorCodeMenuDenied
     else if x = ''button_denied'' then Some ErrorCodeButtonDenied
     else if x = ''field_denied'' then Some ErrorCodeFieldDenied
     else if x = ''data_scope_denied'' then Some ErrorCodeDataScopeDenied
     else if x = ''cross_tenant_denied'' then Some ErrorCodeCrossTenantDenied
     else if x = ''attendance_client_event_conflict'' then Some ErrorCodeAttendanceDuplicateClockEvent
     else if x = ''attendance_clock_sequence_conflict'' then Some ErrorCodeAttendanceClockSequenceConflict
     else if x = ''attendance_worksite_required'' then Some ErrorCodeAttendanceWorksiteRequired
     else if x = ''attendance_outside_worksite'' then Some ErrorCodeAttendanceOutsideWorksite
     else if x = ''attendance_location_accuracy_low'' then Some ErrorCodeAttendanceLocationAccuracyLow
     else if x = ''attendance_correction_invalid_state'' then Some ErrorCodeAttendanceCorrectionInvalidState
     else if x = ''workflow_invalid_state'' then Some ErrorCodeWorkflowInvalidState
     else if x = ''workflow_not_assignee'' then Some ErrorCodeWorkflowNotAssignee
     else if x = ''workflow_stage_unavailable'' then Some ErrorCodeWorkflowStageUnavailable
     else if x = ''temporal_workflow_unavailable'' then Some ErrorCodeWorkflowRuntimeUnavailable
     else if x = ''workflow_not_found'' then Some ErrorCodeWorkflowNotFound
     else if x = ''agent_model_in_use'' then Some ErrorCodeAgentModelInUse
     else if x = ''agent_definition_published'' then Some ErrorCodeAgentDefinitionPublished
     else if x = ''agent_session_archived'' then Some ErrorCodeAgentSessionArchived
     else if x = ''agent_chat_run_active'' then Some ErrorCodeAgentChatRunActive
     else if x = ''knowledge_base_in_use'' then Some ErrorCodeAgentKnowledgeBaseInUse
     else if x = ''agent_confirmation_invalid'' then Some ErrorCodeAgentConfirmationInvalid
     else if x = ''agent_confirmation_expired'' then Some ErrorCodeAgentConfirmationExpired
     else if x = ''agent_chat_disabled'' then Some ErrorCodeAgentChatDisabled
     else if x = ''agent_runtime_unavailable'' then Some ErrorCodeAgentRuntimeUnavailable
     else None)"

definition fieldErrorCode :: "string \<Rightarrow> int option" where
  "fieldErrorCode x =
    (if x = ''required'' then Some ErrorCodeFieldRequired
     else if x = ''invalid'' then Some ErrorCodeFieldInvalid
     else if x = ''not_found'' then Some ErrorCodeFieldNotFound
     else if x = ''unique'' then Some ErrorCodeFieldUnique
     else if x = ''field_denied'' then Some ErrorCodeFieldDenied
     else if x = ''duplicate_in_import'' then Some ErrorCodeDuplicateInImport
     else if x = ''duplicate_in_file'' then Some ErrorCodeDuplicateInFile
     else None)"

section \<open>AppError\<close>

record FieldError =
  fe_Tab :: string
  fe_Field :: string
  fe_Code :: string
  fe_Message :: string

record RowError =
  re_Row :: int
  re_Field :: string
  re_Code :: string
  re_Message :: string

record AppError =
  ae_Status :: int
  ae_Code :: string
  ae_PublicCode :: int
  ae_ReasonCode :: string
  ae_Message :: string
  ae_FieldErrors :: "FieldError list"
  ae_RowErrors :: "RowError list"
  ae_TraceID :: string

datatype err = AppErr AppError | PlainErr string

type_synonym 'a res = "err + 'a"

definition E :: "int \<Rightarrow> string \<Rightarrow> string \<Rightarrow> AppError" where
  "E status code message = \<lparr>
     ae_Status = status, ae_Code = code, ae_PublicCode = appErrorCode code, ae_ReasonCode = [],
     ae_Message = message, ae_FieldErrors = [], ae_RowErrors = [], ae_TraceID = [] \<rparr>"

definition WithPublicCode :: "AppError \<Rightarrow> int \<Rightarrow> AppError" where
  "WithPublicCode e code = e\<lparr>ae_PublicCode := code\<rparr>"

definition WithReasonCode :: "AppError \<Rightarrow> string \<Rightarrow> AppError" where
  "WithReasonCode e reasonCode =
     (let e = e\<lparr>ae_ReasonCode := reasonCode\<rparr> in
      case reasonErrorCode reasonCode of
        Some code \<Rightarrow> e\<lparr>ae_PublicCode := code\<rparr>
      | None \<Rightarrow> e)"

definition NumericCode :: "AppError \<Rightarrow> int" where
  "NumericCode e =
     (if ae_PublicCode e \<noteq> 0 then ae_PublicCode e
      else case (if ae_ReasonCode e \<noteq> [] then reasonErrorCode (ae_ReasonCode e) else None) of
             Some code \<Rightarrow> code
           | None \<Rightarrow> appErrorCode (ae_Code e))"

fun firstFieldErrorCode :: "FieldError list \<Rightarrow> int \<Rightarrow> int" where
  "firstFieldErrorCode [] fallback = fallback"
| "firstFieldErrorCode (field # fs) fallback =
     (case fieldErrorCode (fe_Code field) of
        Some code \<Rightarrow> code
      | None \<Rightarrow> firstFieldErrorCode fs fallback)"

fun firstRowErrorCode :: "RowError list \<Rightarrow> int \<Rightarrow> int" where
  "firstRowErrorCode [] fallback = fallback"
| "firstRowErrorCode (row # rows) fallback =
     (case fieldErrorCode (re_Code row) of
        Some code \<Rightarrow> code
      | None \<Rightarrow>
          (if appErrorCode (re_Code row) \<noteq> ErrorCodeInternal then appErrorCode (re_Code row)
           else firstRowErrorCode rows fallback))"

fun firstFieldReasonCode :: "FieldError list \<Rightarrow> string" where
  "firstFieldReasonCode [] = []"
| "firstFieldReasonCode (field # fs) =
     (if fe_Code field = ''field_denied'' then ''field_denied'' else firstFieldReasonCode fs)"

definition NotFound :: "string \<Rightarrow> string \<Rightarrow> AppError" where
  "NotFound entity ident = E 404 ''not_found'' (entity @ '' '' @ ident @ '' not found'')"

definition BadRequest :: "string \<Rightarrow> AppError" where
  "BadRequest message = E 400 ''bad_request'' message"

definition BadRequestCode :: "int \<Rightarrow> string \<Rightarrow> AppError" where
  "BadRequestCode code message = WithPublicCode (BadRequest message) code"

definition ValidationFailed :: "string \<Rightarrow> FieldError list \<Rightarrow> AppError" where
  "ValidationFailed message fs = \<lparr>
     ae_Status = 400, ae_Code = ''validation_failed'',
     ae_PublicCode = firstFieldErrorCode fs ErrorCodeValidationFailed,
     ae_ReasonCode = firstFieldReasonCode fs, ae_Message = message,
     ae_FieldErrors = fs, ae_RowErrors = [], ae_TraceID = [] \<rparr>"

definition ImportValidationFailed :: "string \<Rightarrow> RowError list \<Rightarrow> AppError" where
  "ImportValidationFailed message rows = \<lparr>
     ae_Status = 400, ae_Code = ''import_validation_failed'',
     ae_PublicCode = firstRowErrorCode rows ErrorCodeImportValidation,
     ae_ReasonCode = [], ae_Message = message,
     ae_FieldErrors = [], ae_RowErrors = rows, ae_TraceID = [] \<rparr>"

definition Forbidden :: "string \<Rightarrow> AppError" where
  "Forbidden message = E 403 ''forbidden'' message"

definition ForbiddenReason :: "string \<Rightarrow> string \<Rightarrow> AppError" where
  "ForbiddenReason reasonCode message =
     (let e = (Forbidden message)\<lparr>ae_ReasonCode := reasonCode\<rparr> in
      case reasonErrorCode reasonCode of
        Some code \<Rightarrow> e\<lparr>ae_PublicCode := code\<rparr>
      | None \<Rightarrow> e)"

definition Unauthorized :: "string \<Rightarrow> AppError" where
  "Unauthorized message = E 401 ''unauthorized'' message"

definition UnauthorizedReason :: "string \<Rightarrow> string \<Rightarrow> AppError" where
  "UnauthorizedReason reasonCode message =
     (let e = (Unauthorized message)\<lparr>ae_ReasonCode := reasonCode\<rparr> in
      case reasonErrorCode reasonCode of
        Some code \<Rightarrow> e\<lparr>ae_PublicCode := code\<rparr>
      | None \<Rightarrow> e)"

definition Conflict :: "string \<Rightarrow> AppError" where
  "Conflict message = E 409 ''conflict'' message"

definition TooManyRequests :: "string \<Rightarrow> AppError" where
  "TooManyRequests message = E 429 ''too_many_requests'' message"

fun AsAppError :: "err \<Rightarrow> AppError option" where
  "AsAppError (AppErr e) = Some e"
| "AsAppError (PlainErr _) = None"

text \<open>\<open>ForbiddenDataScope\<close> of \<open>service.go\<close> and the test the projection makes on it.\<close>

definition ForbiddenDataScope :: "string \<Rightarrow> err" where
  "ForbiddenDataScope message = AppErr (ForbiddenReason ''data_scope_denied'' message)"

definition err_reason :: "err \<Rightarrow> string" where
  "err_reason e = (case AsAppError e of Some a \<Rightarrow> ae_ReasonCode a | None \<Rightarrow> [])"

lemma nonzero_if:
  assumes "(if b then Some a else e) = Some c" "a \<noteq> 0" "e = Some c \<Longrightarrow> c \<noteq> 0"
  shows "c \<noteq> (0 :: int)"
  using assms by (cases b) auto

lemma reasonErrorCode_nonzero: "reasonErrorCode r = Some c \<Longrightarrow> c \<noteq> 0"
  unfolding reasonErrorCode_def
  by (erule nonzero_if, simp)+ simp

lemma appErrorCode_nonzero [simp]: "appErrorCode k \<noteq> 0"
  unfolding appErrorCode_def by simp

lemma ForbiddenReason_eq: "ForbiddenReason r m = WithReasonCode (Forbidden m) r"
  by (simp add: ForbiddenReason_def WithReasonCode_def Let_def)

lemma UnauthorizedReason_eq: "UnauthorizedReason r m = WithReasonCode (Unauthorized m) r"
  by (simp add: UnauthorizedReason_def WithReasonCode_def Let_def)

lemma NumericCode_WithReasonCode:
  assumes "ae_PublicCode e \<noteq> 0"
  shows "NumericCode (WithReasonCode e r) =
    (case reasonErrorCode r of Some c \<Rightarrow> c | None \<Rightarrow> ae_PublicCode e)"
  using assms reasonErrorCode_nonzero [of r]
  by (auto simp: NumericCode_def WithReasonCode_def Let_def split: option.split)

lemma ae_Status_WithReasonCode [simp]: "ae_Status (WithReasonCode e r) = ae_Status e"
  by (simp add: WithReasonCode_def Let_def split: option.split)

lemma ae_ReasonCode_WithReasonCode [simp]: "ae_ReasonCode (WithReasonCode e r) = r"
  by (simp add: WithReasonCode_def Let_def split: option.split)

lemma err_reason_ForbiddenDataScope [simp]:
  "err_reason (ForbiddenDataScope m) = ''data_scope_denied''"
  by (simp add: err_reason_def ForbiddenDataScope_def ForbiddenReason_eq)

end
