(* ===== verification/Authz_Match.thy ===== *)
theory Authz_Match
  imports Domain_Errors
begin

text \<open>
  Names of the authorization engine: how requests and permissions are normalised, how a
  permission is matched against a request, and how permission keys are matched against the
  patterns of a policy.  Sources: \<open>service/authz_policy_service.go\<close> (normalisation,
  canonical names, key patterns, risk levels, relationship constraints),
  \<open>service/service.go\<close> (\<open>permissionMatches\<close>, labels, wildcards) and
  \<open>domain/authz.go\<close> (\<open>AuditEvent\<close>).  The lemmas give the laws the policies
  and the decision rest on: normalisation is stable, and the relation "key matches pattern" is
  transitive and directed, so patterns can be intersected.
\<close>

section \<open>Resource names\<close>

definition canonicalAuthorizationResource :: "string \<Rightarrow> string \<Rightarrow> string \<times> string" where
  "canonicalAuthorizationResource applicationCode resourceType =
     (if EqualFold applicationCode AppAudit \<and> EqualFold resourceType ''log''
      then (AppAudit, ''audit_log'')
      else (applicationCode, resourceType))"

definition splitResource :: "string \<Rightarrow> string \<times> string" where
  "splitResource resource =
     (if resource = [] then (AppPlatform, [])
      else if resource = ''*'' then (''*'', ''*'')
      else case SplitN2 resource (CHR ''.'') of
             [app, rtype] \<Rightarrow> canonicalAuthorizationResource app rtype
           | _ \<Rightarrow> (AppPlatform, resource))"

definition splitResourceName :: "string \<Rightarrow> string \<times> string" where
  "splitResourceName resource =
     (if resource = [] then (AppPlatform, [])
      else if resource = ''*'' then (''*'', ''*'')
      else case SplitN2 resource (CHR ''.'') of
             [app, rtype] \<Rightarrow> (app, rtype)
           | _ \<Rightarrow> (AppPlatform, resource))"

definition routeResourceName :: "string \<Rightarrow> string \<Rightarrow> string" where
  "routeResourceName applicationCode resourceType =
     (if applicationCode = [] \<or> applicationCode = AppPlatform then resourceType
      else applicationCode @ ''.'' @ resourceType)"

definition permissionKey :: "string \<Rightarrow> string \<Rightarrow> string \<Rightarrow> string" where
  "permissionKey applicationCode resourceType action =
     applicationCode @ ''.'' @ resourceType @ ''.'' @ action"

text \<open>The block that opens \<open>AuditEvent\<close>, \<open>normalizeCheckRequest\<close> and
  \<open>normalizePermission\<close> alike: a missing application code or resource type is taken from
  the parts of the resource name.\<close>

definition fillNames :: "string \<times> string \<Rightarrow> string \<Rightarrow> string \<Rightarrow> string \<times> string" where
  "fillNames parts applicationCode resourceType =
     (if applicationCode = [] \<or> resourceType = [] then
        (if applicationCode = [] then fst parts else applicationCode,
         if resourceType = [] then snd parts else resourceType)
      else (applicationCode, resourceType))"

text \<open>The defaults that \<open>AuditEvent\<close> and \<open>normalizeCheckRequest\<close> apply next.\<close>

definition defaultNames :: "string \<Rightarrow> string \<times> string \<Rightarrow> string \<times> string" where
  "defaultNames resource names =
     (if fst names = [] then AppPlatform else fst names,
      if snd names = [] then resource else snd names)"

definition AuditEvent :: "CheckRequest \<Rightarrow> string" where
  "AuditEvent req =
     (let (app, resourceType) = defaultNames (req_Resource req)
            (fillNames (splitResourceName (req_Resource req)) (req_ApplicationCode req) (req_ResourceType req))
      in if app = [] \<or> resourceType = [] \<or> req_Action req = [] then []
         else app @ ''.'' @ resourceType @ ''.'' @ req_Action req)"

definition requestNames :: "CheckRequest \<Rightarrow> string \<times> string" where
  "requestNames req =
     (let (app, resourceType) = defaultNames (req_Resource req)
            (fillNames (splitResource (req_Resource req)) (req_ApplicationCode req) (req_ResourceType req))
      in canonicalAuthorizationResource app resourceType)"

definition normalizeCheckRequest :: "CheckRequest \<Rightarrow> CheckRequest" where
  "normalizeCheckRequest req =
     (let (app, resourceType) = requestNames req in
      req\<lparr>
        req_RouteMethod := ToUpper (TrimSpace (req_RouteMethod req)),
        req_RoutePath := TrimSpace (req_RoutePath req),
        req_ApplicationCode := app,
        req_ResourceType := resourceType,
        req_Resource :=
          (if req_Resource req = [] then routeResourceName app resourceType else req_Resource req),
        req_Target := (if req_Target req = [] then req_ResourceID req else req_Target req),
        req_TargetEmployeeID :=
          (if req_TargetEmployeeID req = [] \<and> resourceType = ResourceEmployee then req_ResourceID req
           else req_TargetEmployeeID req)\<rparr>)"

definition permissionNames :: "Permission \<Rightarrow> string \<times> string" where
  "permissionNames perm =
     (let (app, resourceType) =
            fillNames (splitResource (perm_Resource perm)) (perm_ApplicationCode perm) (perm_ResourceType perm)
      in canonicalAuthorizationResource app resourceType)"

definition normalizePermission :: "Permission \<Rightarrow> Permission" where
  "normalizePermission perm =
     (let (app, resourceType) = permissionNames perm in
      perm\<lparr>
        perm_ApplicationCode := app,
        perm_ResourceType := resourceType,
        perm_Resource :=
          (if app = ''*'' \<and> resourceType = ''*'' then ''*''
           else routeResourceName app resourceType)\<rparr>)"

definition normalizePermissions :: "Permission list \<Rightarrow> Permission list" where
  "normalizePermissions perms = (if perms = [] then [] else map normalizePermission perms)"

section \<open>Risk levels, effects and relations of a permission\<close>

definition isHighRiskPermission :: "Permission \<Rightarrow> bool" where
  "isHighRiskPermission perm \<longleftrightarrow>
     perm_RiskLevel perm = ''high'' \<or> perm_RiskLevel perm = ''critical''"

definition riskRank :: "string \<Rightarrow> int" where
  "riskRank risk =
     (if risk = RiskCritical then 3 else if risk = RiskHigh then 2
      else if risk = RiskNormal \<or> risk = [] then 1 else 1)"

definition maxRiskLevel :: "string \<Rightarrow> string \<Rightarrow> string" where
  "maxRiskLevel a b =
     (if riskRank b > riskRank a then b else if a = [] then RiskNormal else a)"

definition normalizedRiskLevel :: "string \<Rightarrow> string" where
  "normalizedRiskLevel risk = (if risk = [] then RiskNormal else risk)"

definition relationshipConstraint :: "Permission \<Rightarrow> string" where
  "relationshipConstraint perm =
     (if TrimSpace (perm_Relation perm) \<noteq> [] then TrimSpace (perm_Relation perm)
      else if HasPrefix (perm_Target perm) ''rebac:''
      then TrimSpace (TrimPrefix (perm_Target perm) ''rebac:'')
      else [])"

definition relationshipObject :: "CheckRequest \<Rightarrow> string" where
  "relationshipObject req =
     routeResourceName (req_ApplicationCode req) (req_ResourceType req) @ '':'' @ req_ResourceID req"

section \<open>Matching a permission against a request\<close>

definition wildcardMatch :: "string \<Rightarrow> string \<Rightarrow> bool" where
  "wildcardMatch value pattern =
     (if pattern = [] \<or> pattern = ''*'' then True else EqualFold value pattern)"

definition permissionCanAuthorizeRequest :: "Permission \<Rightarrow> bool" where
  "permissionCanAuthorizeRequest permission =
     (if perm_PermissionType permission \<in> {[], PermissionTypeAPI, PermissionTypeButton}
      then True else False)"

definition sameOwnScope :: "string \<Rightarrow> string \<Rightarrow> bool" where
  "sameOwnScope a b \<longleftrightarrow> (a = ScopeSelf \<or> a = ScopeOwn) \<and> (b = ScopeSelf \<or> b = ScopeOwn)"

definition permissionMatches :: "Permission \<Rightarrow> CheckRequest \<Rightarrow> Account \<Rightarrow> bool" where
  "permissionMatches perm req account =
     (let perm = normalizePermission perm; req = normalizeCheckRequest req in
      if perm_PermissionType perm \<notin> {[], PermissionTypeAPI, PermissionTypeButton} then False
      else if \<not> wildcardMatch (req_ApplicationCode req) (perm_ApplicationCode perm) \<or>
              \<not> wildcardMatch (req_ResourceType req) (perm_ResourceType perm) then False
      else if \<not> wildcardMatch (req_Action req) (perm_Action perm) then False
      else if perm_Target perm \<noteq> [] \<and> perm_Target perm \<noteq> ''*'' \<and>
              \<not> HasPrefix (perm_Target perm) ''rebac:'' \<and>
              FirstNonEmpty [req_Target req, req_TargetEmployeeID req, req_ResourceID req]
                \<noteq> perm_Target perm then False
      else if perm_Scope perm = [] \<or> perm_Scope perm = ''all'' then True
      else if perm_Scope perm = ''self'' \<or> perm_Scope perm = ''own'' then
        (if req_Scope req \<noteq> [] \<and> \<not> sameOwnScope (req_Scope req) (perm_Scope perm) then False
         else if acc_EmployeeID account = [] then False
         else if req_TargetEmployeeID req \<noteq> [] \<and>
                 req_TargetEmployeeID req \<noteq> acc_EmployeeID account then False
         else if req_Target req \<noteq> [] \<and> req_Target req \<noteq> acc_EmployeeID account then False
         else True)
      else req_Scope req = [] \<or> perm_Scope perm = req_Scope req)"

definition permissionLabel :: "Permission \<Rightarrow> string" where
  "permissionLabel p =
     (let p = normalizePermission p;
          label = perm_Resource p @ ''.'' @ perm_Action p;
          label = (if perm_Target p \<noteq> [] then label @ '':'' @ perm_Target p else label)
      in if perm_Scope p \<noteq> [] then label @ ''#'' @ perm_Scope p else label)"

definition capabilitiesFromPermissions :: "Permission list \<Rightarrow> string list" where
  "capabilitiesFromPermissions perms = map permissionLabel perms"

section \<open>Matching keys and labels against patterns\<close>

definition canonicalPermissionKeyPattern :: "string \<Rightarrow> string" where
  "canonicalPermissionKeyPattern v =
     (let v = ToLower (TrimSpace v) in
      if HasPrefix v ''audit.log.'' then ''audit.audit_log.'' @ TrimPrefix v ''audit.log.'' else v)"

definition permissionKeyMatches :: "string \<Rightarrow> string \<Rightarrow> bool" where
  "permissionKeyMatches key pattern =
     (let key = canonicalPermissionKeyPattern key;
          pattern = canonicalPermissionKeyPattern pattern in
      if pattern = [] then False
      else if pattern = ''*'' \<or> EqualFold key pattern then True
      else if HasSuffix pattern ''.*'' then HasPrefix key (TrimSuffix pattern ''*'')
      else False)"

definition permissionLabelMatches :: "string \<Rightarrow> string \<Rightarrow> bool" where
  "permissionLabelMatches v pattern =
     (let v = TrimSpace v; pattern = TrimSpace pattern in
      if v = [] \<or> pattern = [] then False
      else if wildcardMatch v pattern then True
      else let (valueBase, _, _) = Cut v (CHR ''#'');
               (patternBase, _, patternHasScope) = Cut pattern (CHR ''#'')
           in if \<not> patternHasScope \<and> permissionKeyMatches valueBase patternBase then True
              else permissionKeyMatches v pattern)"

section \<open>Normalisation is stable\<close>

lemma canonicalAuthorizationResource_idem [simp]:
  "canonicalAuthorizationResource app rt = (a, r) \<Longrightarrow> canonicalAuthorizationResource a r = (a, r)"
  by (auto simp: canonicalAuthorizationResource_def EqualFold_def lower_char_def split: if_splits)

lemma canonicalAuthorizationResource_Nil [simp]:
  "fst (canonicalAuthorizationResource app rt) = [] \<longleftrightarrow> app = []"
  "snd (canonicalAuthorizationResource app rt) = [] \<longleftrightarrow> rt = []"
  by (auto simp: canonicalAuthorizationResource_def EqualFold_def)

lemma routeResourceName_Nil: "rt \<noteq> [] \<Longrightarrow> routeResourceName app rt \<noteq> []"
  by (simp add: routeResourceName_def)

lemma normalizeCheckRequest_names:
  "req_ApplicationCode (normalizeCheckRequest req) = fst (requestNames req)"
  "req_ResourceType (normalizeCheckRequest req) = snd (requestNames req)"
  "req_Resource (normalizeCheckRequest req) =
     (if req_Resource req = [] then routeResourceName (fst (requestNames req)) (snd (requestNames req))
      else req_Resource req)"
  by (simp_all add: normalizeCheckRequest_def split_beta)

lemma normalizeCheckRequest_frame [simp]:
  "req_ResourceID (normalizeCheckRequest req) = req_ResourceID req"
  "req_Action (normalizeCheckRequest req) = req_Action req"
  "req_Scope (normalizeCheckRequest req) = req_Scope req"
  "req_Context (normalizeCheckRequest req) = req_Context req"
  by (simp_all add: normalizeCheckRequest_def split_beta)

lemma requestNames_app [simp]: "fst (requestNames req) \<noteq> []"
  by (simp add: requestNames_def defaultNames_def split_beta Let_def)

lemma requestNames_rtype:
  "req_ResourceType req \<noteq> [] \<or> req_Resource req \<noteq> [] \<Longrightarrow> snd (requestNames req) \<noteq> []"
  by (auto simp: requestNames_def defaultNames_def fillNames_def split_beta Let_def)

lemma requestNames_canonical:
  "canonicalAuthorizationResource (fst (requestNames req)) (snd (requestNames req)) = requestNames req"
  unfolding requestNames_def by (auto simp: split_beta intro: canonicalAuthorizationResource_idem)

lemma requestNames_fixed:
  assumes "req_ApplicationCode r = app" "req_ResourceType r = rt" "app \<noteq> []" "rt \<noteq> []"
    "canonicalAuthorizationResource app rt = (app, rt)"
  shows "requestNames r = (app, rt)"
  using assms by (simp add: requestNames_def defaultNames_def fillNames_def)

lemma normalizeCheckRequest_idem:
  assumes "req_ResourceType req \<noteq> [] \<or> req_Resource req \<noteq> []"
  shows "normalizeCheckRequest (normalizeCheckRequest req) = normalizeCheckRequest req"
proof -
  let ?r = "normalizeCheckRequest req"
  obtain app rt where n: "requestNames req = (app, rt)" by fastforce
  have ne: "app \<noteq> []" "rt \<noteq> []"
    using requestNames_app [of req] requestNames_rtype [OF assms] by (simp_all add: n)
  have "canonicalAuthorizationResource app rt = (app, rt)"
    using requestNames_canonical [of req] by (simp add: n)
  then have names: "requestNames ?r = (app, rt)"
    using ne by (intro requestNames_fixed) (simp_all add: normalizeCheckRequest_names n)
  have "req_Resource ?r \<noteq> []"
    using routeResourceName_Nil [OF ne(2)] by (simp add: normalizeCheckRequest_names n)
  with names show ?thesis
    unfolding normalizeCheckRequest_def [of ?r]
    by (simp add: normalizeCheckRequest_def n TrimSpace_ToUpper)
qed

text \<open>Normalising again changes nothing for a permission that names both its application
  and its resource type.\<close>

lemma normalizePermission_names:
  "perm_ApplicationCode (normalizePermission p) = fst (permissionNames p)"
  "perm_ResourceType (normalizePermission p) = snd (permissionNames p)"
  by (simp_all add: normalizePermission_def split_beta)

lemma normalizePermission_frame [simp]:
  "perm_PermissionType (normalizePermission p) = perm_PermissionType p"
  "perm_Action (normalizePermission p) = perm_Action p"
  "perm_Target (normalizePermission p) = perm_Target p"
  "perm_Scope (normalizePermission p) = perm_Scope p"
  "perm_Effect (normalizePermission p) = perm_Effect p"
  "perm_Relation (normalizePermission p) = perm_Relation p"
  "perm_RiskLevel (normalizePermission p) = perm_RiskLevel p"
  "perm_MenuKey (normalizePermission p) = perm_MenuKey p"
  "perm_Conditions (normalizePermission p) = perm_Conditions p"
  by (simp_all add: normalizePermission_def split_beta)

definition permission_named :: "Permission \<Rightarrow> bool" where
  "permission_named p \<longleftrightarrow> fst (permissionNames p) \<noteq> [] \<and> snd (permissionNames p) \<noteq> []"

lemma permissionNames_canonical:
  "canonicalAuthorizationResource (fst (permissionNames p)) (snd (permissionNames p)) = permissionNames p"
  unfolding permissionNames_def by (auto simp: split_beta intro: canonicalAuthorizationResource_idem)

lemma permissionNames_normalize:
  assumes "permission_named p"
  shows "permissionNames (normalizePermission p) = permissionNames p"
  using assms permissionNames_canonical [of p]
  unfolding permissionNames_def [of "normalizePermission p"]
  by (simp add: normalizePermission_names fillNames_def permission_named_def split_beta)

lemma normalizePermission_idem:
  assumes "permission_named p"
  shows "normalizePermission (normalizePermission p) = normalizePermission p"
  using permissionNames_normalize [OF assms]
  unfolding normalizePermission_def [of "normalizePermission p"]
  by (simp add: normalizePermission_def split_beta)

lemma permission_namedI:
  "perm_ApplicationCode p \<noteq> [] \<Longrightarrow> perm_ResourceType p \<noteq> [] \<Longrightarrow> permission_named p"
  by (simp add: permission_named_def permissionNames_def fillNames_def)

section \<open>Key patterns\<close>

lemma trim_right_dot:
  "trim_right (x @ CHR ''.'' # r) = x @ CHR ''.'' # r \<longleftrightarrow> trim_right r = r"
proof -
  have fixed: "trim_right s = s \<longleftrightarrow> trim_front (\<lambda>b a. space2 a b) (\<lambda>c b a. space3 a b c) (rev s) = rev s" for s
    by (metis rev_rev_ident trim_right_def)
  show ?thesis
    unfolding fixed trim_front_fixed_iff
    by (cases "rev r"; cases "tl (rev r)"; cases "tl (tl (rev r))")
      (auto simp: ascii_space_def space2_def space3_def split: list.splits)
qed

lemma canonicalPermissionKeyPattern_idem [simp]:
  "canonicalPermissionKeyPattern (canonicalPermissionKeyPattern v) = canonicalPermissionKeyPattern v"
proof (cases "prefix ''audit.log.'' (ToLower (TrimSpace v))")
  case True
  then obtain r where r: "ToLower (TrimSpace v) = ''audit.log.'' @ r" by (auto simp: prefix_def)
  have low: "ToLower r = r"
    by (metis (no_types) ToLower_simps(3,6) append_same_eq r append_eq_append_conv ToLower_simps(4))
  have "trim_right (''audit.log'' @ CHR ''.'' # r) = ''audit.log'' @ CHR ''.'' # r"
    using TrimSpace_trimmed(2) [of "ToLower v"] r by (simp add: TrimSpace_ToLower)
  then have "trim_right r = r" by (simp only: trim_right_dot)
  then have "trim_right (''audit.audit_log'' @ CHR ''.'' # r) = ''audit.audit_log'' @ CHR ''.'' # r"
    by (simp only: trim_right_dot)
  then have "TrimSpace (''audit.audit_log.'' @ r) = ''audit.audit_log.'' @ r"
    by (simp add: TrimSpace_def trim_left_def ascii_space_def space2_def space3_def)
  then show ?thesis
    using r low by (simp add: canonicalPermissionKeyPattern_def TrimPrefix_def lower_char_def)
next
  case False
  then show ?thesis by (simp add: canonicalPermissionKeyPattern_def TrimSpace_ToLower)
qed

lemma ToLower_canonical [simp]:
  "ToLower (canonicalPermissionKeyPattern v) = canonicalPermissionKeyPattern v"
proof (cases "prefix ''audit.log.'' (ToLower (TrimSpace v))")
  case True
  then obtain r where r: "ToLower (TrimSpace v) = ''audit.log.'' @ r" by (auto simp: prefix_def)
  then have "ToLower (''audit.log.'' @ r) = ''audit.log.'' @ r" by (metis ToLower_simps(6))
  with r show ?thesis
    by (simp add: canonicalPermissionKeyPattern_def TrimPrefix_def lower_char_def)
next
  case False
  then show ?thesis by (simp add: canonicalPermissionKeyPattern_def Let_def)
qed

lemma canonicalPermissionKeyPattern_Nil [simp]: "canonicalPermissionKeyPattern [] = []"
  by (simp add: canonicalPermissionKeyPattern_def)

lemma TrimSuffix_star: "TrimSuffix (q @ ''.*'') ''*'' = q @ ''.''"
  by (simp add: TrimSuffix_def suffix_def)

text \<open>What "key matches pattern" means, over canonical forms.\<close>

lemma permissionKeyMatches_iff:
  "permissionKeyMatches key pattern \<longleftrightarrow>
     (let k = canonicalPermissionKeyPattern key; p = canonicalPermissionKeyPattern pattern in
      p \<noteq> [] \<and> (p = ''*'' \<or> k = p \<or> (\<exists>q. p = q @ ''.*'' \<and> prefix (q @ ''.'') k)))"
  by (auto simp: permissionKeyMatches_def Let_def EqualFold_def suffix_def TrimSuffix_star)

lemma permissionKeyMatches_empty [simp]: "\<not> permissionKeyMatches key []"
  by (simp add: permissionKeyMatches_def)

lemma permissionKeyMatches_star [simp]: "permissionKeyMatches key ''*''"
  by (simp add: permissionKeyMatches_def canonicalPermissionKeyPattern_def TrimSpace_def trim_left_def
      trim_right_def ascii_space_def lower_char_def)

lemma permissionKeyMatches_fold:
  assumes "EqualFold l r"
  shows "permissionKeyMatches k l = permissionKeyMatches k r"
proof -
  have "canonicalPermissionKeyPattern l = canonicalPermissionKeyPattern r"
    using assms by (simp add: EqualFold_def canonicalPermissionKeyPattern_def TrimSpace_ToLower [symmetric])
  then show ?thesis by (simp add: permissionKeyMatches_def)
qed

lemma permissionKeyMatches_trans:
  assumes "permissionKeyMatches k r" "permissionKeyMatches r l"
  shows "permissionKeyMatches k l"
proof -
  let ?c = canonicalPermissionKeyPattern
  have "prefix (q @ ''.'') (?c k)" if q: "?c l = q @ ''.*''" "prefix (q @ ''.'') (?c r)" "?c r \<noteq> ''*''" for q
  proof (cases "?c k = ?c r")
    case False
    with assms(1) q(3) obtain q' where q': "?c r = q' @ ''.*''" "prefix (q' @ ''.'') (?c k)"
      by (auto simp: permissionKeyMatches_iff Let_def)
    have "prefix (q @ ''.'') (q' @ ''.'')"
      using q(2) unfolding q'(1) by (auto simp: prefix_def append_eq_append_conv2 append_eq_Cons_conv Cons_eq_append_conv)
    with q'(2) show ?thesis by (meson prefix_order.trans)
  qed (use q in simp)
  moreover have "?c l = ''*''" if "?c r = ''*''"
    using assms(2) that
    by (auto simp: permissionKeyMatches_iff Let_def prefix_def append_eq_Cons_conv Cons_eq_append_conv)
  ultimately show ?thesis
    using assms by (auto simp: permissionKeyMatches_iff Let_def)
qed

text \<open>Two patterns that match one key are comparable.\<close>

lemma permissionKeyMatches_comparable:
  assumes "permissionKeyMatches k l" "permissionKeyMatches k r"
  shows "permissionKeyMatches r l \<or> permissionKeyMatches l r"
proof -
  let ?c = canonicalPermissionKeyPattern
  have wild: "permissionKeyMatches r l \<or> permissionKeyMatches l r"
    if "?c l = q @ ''.*''" "prefix (q @ ''.'') (?c k)" "?c r = q' @ ''.*''" "prefix (q' @ ''.'') (?c k)" for q q'
  proof -
    from that(2,4) have "prefix (q @ ''.'') (q' @ ''.'') \<or> prefix (q' @ ''.'') (q @ ''.'')"
      using prefix_same_cases by blast
    moreover have "prefix (p @ ''.'') (p' @ ''.*'')" if "prefix (p @ ''.'') (p' @ ''.'')" for p p'
      using prefix_prefix [OF that, of "''*''"] by simp
    ultimately show ?thesis
      using that by (auto simp: permissionKeyMatches_iff Let_def)
  qed
  show ?thesis
  proof (cases "?c l = ''*'' \<or> ?c k = ?c l \<or> ?c r = ''*'' \<or> ?c k = ?c r")
    case True
    then show ?thesis using assms by (auto simp: permissionKeyMatches_iff Let_def)
  next
    case False
    with assms obtain q q' where "?c l = q @ ''.*''" "prefix (q @ ''.'') (?c k)"
      "?c r = q' @ ''.*''" "prefix (q' @ ''.'') (?c k)"
      unfolding permissionKeyMatches_iff Let_def by blast
    then show ?thesis by (rule wild)
  qed
qed

end
