(* ===== verification/Authz_Policy.thy ===== *)
theory Authz_Policy
  imports Authz_Match
begin

text \<open>
  Permission boundaries and session policies (\<open>service/authz_policy_service.go\<close>): a policy
  is a \<open>map[string]any\<close> whose entries \<open>allow\<close> and \<open>deny\<close> hold key patterns.
  \<open>policy_permits\<close> is the specification the decision uses: the key is not denied and, when
  an allow list is present, allowed.  The main lemma says that \<open>mergePolicy\<close>, which joins a
  role's boundary with a session's policy, permits exactly the keys both permit, in whatever
  order the maps are iterated.
\<close>

section \<open>Reading a policy\<close>

fun valueListContains :: "val \<Rightarrow> string \<Rightarrow> bool" where
  "valueListContains (VStrs v) key = (\<exists>item \<in> set v. permissionKeyMatches key item)"
| "valueListContains (VList v) key =
     (\<exists>item \<in> set v. case item of VStr s \<Rightarrow> permissionKeyMatches key s | _ \<Rightarrow> False)"
| "valueListContains (VStr v) key = permissionKeyMatches key v"
| "valueListContains _ key = False"

definition policyListContains :: "params \<Rightarrow> string \<Rightarrow> string \<Rightarrow> bool" where
  "policyListContains policy field key =
     (if policy = [] then False else valueListContains (map_at policy field) key)"

definition policyDenies :: "params \<Rightarrow> string \<Rightarrow> bool" where
  "policyDenies policy key = policyListContains policy ''deny'' key"

definition policyAllows :: "params \<Rightarrow> string \<Rightarrow> bool" where
  "policyAllows policy key =
     (if policy = [] then True
      else case map_of policy ''allow'' of
             None \<Rightarrow> True
           | Some allows \<Rightarrow> valueListContains allows key)"

definition policy_permits :: "params \<Rightarrow> string \<Rightarrow> bool" where
  "policy_permits policy key \<longleftrightarrow> \<not> policyDenies policy key \<and> policyAllows policy key"

section \<open>Joining policies\<close>

fun policyStrings :: "val \<Rightarrow> string list" where
  "policyStrings (VStrs v) = CopyStrings v"
| "policyStrings (VList v) = concat (map (\<lambda>item. case item of VStr s \<Rightarrow> [s] | _ \<Rightarrow> []) v)"
| "policyStrings (VStr v) = (if v = [] then [] else [v])"
| "policyStrings _ = []"

definition anyStrings :: "string list \<Rightarrow> val list" where
  "anyStrings values = map VStr values"

fun appendOne :: "val \<Rightarrow> val list" where
  "appendOne (VStrs x) = map VStr x"
| "appendOne (VList x) = x"
| "appendOne (VStr x) = [VStr x]"
| "appendOne _ = []"

definition appendPolicyList :: "val \<Rightarrow> val \<Rightarrow> val list" where
  "appendPolicyList a b = appendOne a @ appendOne b"

text \<open>The switch in the inner loop of \<open>intersectPolicyList\<close>: what one pair of patterns
  contributes.\<close>

definition narrowerPattern :: "string \<Rightarrow> string \<Rightarrow> string list" where
  "narrowerPattern l r =
     (if permissionKeyMatches r l then [r]
      else if permissionKeyMatches l r then [l]
      else if EqualFold l r then [l]
      else [])"

definition intersectPolicyList :: "val \<Rightarrow> val \<Rightarrow> val list" where
  "intersectPolicyList a b =
     anyStrings (uniqueStrings
       (concat (map (\<lambda>l. concat (map (narrowerPattern l) (policyStrings b))) (policyStrings a))))"

definition mergePolicy_step :: "string \<times> val \<Rightarrow> params \<Rightarrow> params" where
  "mergePolicy_step kv out =
     (case kv of (key, v) \<Rightarrow>
        case map_of out key of
          Some existing \<Rightarrow>
            (if key = ''deny'' then map_put key (VList (appendPolicyList existing v)) out
             else if key = ''allow'' then map_put key (VList (intersectPolicyList existing v)) out
             else map_put key v out)
        | None \<Rightarrow> map_put key v out)"

definition mergePolicy :: "params \<Rightarrow> params \<Rightarrow> params" where
  "mergePolicy base extra =
     (if base = [] then CopyStringMap extra else fold mergePolicy_step extra (CopyStringMap base))"

section \<open>Laws\<close>

lemma policyStrings_slice: "policyStrings v = stringSliceFromAny v"
  by (cases v) auto

lemma valueListContains_policyStrings:
  "valueListContains v key \<longleftrightarrow> (\<exists>s \<in> set (policyStrings v). permissionKeyMatches key s)"
  unfolding policyStrings_slice
proof (cases v)
  case (VList vs)
  then show "valueListContains v key \<longleftrightarrow> (\<exists>s \<in> set (stringSliceFromAny v). permissionKeyMatches key s)"
    by (auto simp del: stringSliceFromAny.simps simp: case_VStr_iff)
qed auto

lemma set_appendOne: "VStr s \<in> set (appendOne v) \<longleftrightarrow> s \<in> set (policyStrings v) \<or> v = VStr s"
  unfolding policyStrings_slice
proof (cases v)
  case (VList vs)
  then show "VStr s \<in> set (appendOne v) \<longleftrightarrow> s \<in> set (stringSliceFromAny v) \<or> v = VStr s"
    by (auto simp del: stringSliceFromAny.simps)
qed auto

lemma valueListContains_appendPolicyList:
  "valueListContains (VList (appendPolicyList a b)) key \<longleftrightarrow>
     valueListContains a key \<or> valueListContains b key"
proof -
  have "(\<exists>s. VStr s \<in> set (appendOne v) \<and> permissionKeyMatches key s) \<longleftrightarrow> valueListContains v key" for v
    by (cases "\<exists>s. v = VStr s") (auto simp: set_appendOne valueListContains_policyStrings)
  then have "(\<exists>x \<in> set (appendOne v). \<exists>s. x = VStr s \<and> permissionKeyMatches key s) \<longleftrightarrow> valueListContains v key" for v
    by blast
  then show ?thesis
    by (simp add: appendPolicyList_def case_VStr_iff bex_Un)
qed

lemma policyStrings_anyStrings [simp]: "policyStrings (VList (anyStrings xs)) = xs"
  by (induction xs) (auto simp: anyStrings_def)

lemma set_intersectPolicyList:
  "s \<in> set (policyStrings (VList (intersectPolicyList a b))) \<longleftrightarrow>
     s \<noteq> [] \<and> (\<exists>l \<in> set (policyStrings a). \<exists>r \<in> set (policyStrings b). s \<in> set (narrowerPattern l r))"
  unfolding intersectPolicyList_def policyStrings_anyStrings by auto

lemma narrowerPattern_matches:
  "s \<in> set (narrowerPattern l r) \<Longrightarrow> permissionKeyMatches key s \<Longrightarrow>
     permissionKeyMatches key l \<and> permissionKeyMatches key r"
  using permissionKeyMatches_trans permissionKeyMatches_fold
  by (auto simp: narrowerPattern_def split: if_splits)

lemma narrowerPattern_covers:
  "permissionKeyMatches key l \<Longrightarrow> permissionKeyMatches key r \<Longrightarrow>
     \<exists>s \<in> set (narrowerPattern l r). permissionKeyMatches key s"
  using permissionKeyMatches_comparable [of key l r] by (auto simp: narrowerPattern_def)

text \<open>The intersection of two pattern lists matches a key exactly when both lists do.\<close>

lemma valueListContains_intersectPolicyList:
  "valueListContains (VList (intersectPolicyList a b)) key \<longleftrightarrow>
     valueListContains a key \<and> valueListContains b key"
  unfolding valueListContains_policyStrings
proof
  assume "\<exists>s \<in> set (policyStrings (VList (intersectPolicyList a b))). permissionKeyMatches key s"
  then show "(\<exists>s \<in> set (policyStrings a). permissionKeyMatches key s) \<and>
    (\<exists>s \<in> set (policyStrings b). permissionKeyMatches key s)"
    unfolding set_intersectPolicyList Bex_def using narrowerPattern_matches by blast
next
  assume "(\<exists>s \<in> set (policyStrings a). permissionKeyMatches key s) \<and>
    (\<exists>s \<in> set (policyStrings b). permissionKeyMatches key s)"
  then obtain l r s where "l \<in> set (policyStrings a)" "r \<in> set (policyStrings b)"
    "s \<in> set (narrowerPattern l r)" "permissionKeyMatches key s"
    using narrowerPattern_covers by blast
  moreover from this have "s \<noteq> []" by auto
  ultimately show "\<exists>s \<in> set (policyStrings (VList (intersectPolicyList a b))). permissionKeyMatches key s"
    unfolding Bex_def set_intersectPolicyList by blast
qed

definition merge_value :: "string \<Rightarrow> val \<Rightarrow> val option \<Rightarrow> val option" where
  "merge_value key v existing =
     (case existing of
        None \<Rightarrow> Some v
      | Some x \<Rightarrow> Some (if key = ''deny'' then VList (appendPolicyList x v)
                       else if key = ''allow'' then VList (intersectPolicyList x v) else v))"

lemma mergePolicy_step_value:
  "map_of (mergePolicy_step (k, v) out) = (map_of out)(k := merge_value k v (map_of out k))"
  by (auto simp: mergePolicy_step_def merge_value_def fun_eq_iff split: option.split)

lemma mergePolicy_step_nonempty: "mergePolicy_step kv out \<noteq> []"
  by (auto simp: mergePolicy_step_def split: prod.splits option.splits)

text \<open>Every entry of a merge, in terms of the entries of its parts.\<close>

lemma map_of_mergePolicy:
  assumes "base \<noteq> []" "map_wf extra"
  shows "map_of (mergePolicy base extra) k =
    (case (map_of base k, map_of extra k) of
       (Some x, Some v) \<Rightarrow>
         Some (if k = ''deny'' then VList (appendPolicyList x v)
               else if k = ''allow'' then VList (intersectPolicyList x v) else v)
     | (None, Some v) \<Rightarrow> Some v
     | (x, None) \<Rightarrow> x)"
  using assms map_of_fold_keyed [of mergePolicy_step merge_value, OF mergePolicy_step_value assms(2)]
  by (auto simp: mergePolicy_def merge_value_def split: option.split)

lemma mergePolicy_nonempty: "base \<noteq> [] \<Longrightarrow> mergePolicy base extra \<noteq> []"
proof -
  have "out \<noteq> [] \<Longrightarrow> fold mergePolicy_step xs out \<noteq> []" for out xs
    by (induction xs arbitrary: out) (auto simp: mergePolicy_step_nonempty)
  then show "base \<noteq> [] \<Longrightarrow> mergePolicy base extra \<noteq> []" by (simp add: mergePolicy_def)
qed

lemma policyDenies_at: "policyDenies policy key = valueListContains (map_at policy ''deny'') key"
  by (simp add: policyDenies_def policyListContains_def)

lemma policyAllows_at:
  "policyAllows policy key =
     (case map_of policy ''allow'' of None \<Rightarrow> True | Some v \<Rightarrow> valueListContains v key)"
  by (auto simp: policyAllows_def)

lemma policyDenies_mergePolicy:
  assumes "map_wf extra"
  shows "policyDenies (mergePolicy base extra) key \<longleftrightarrow> policyDenies base key \<or> policyDenies extra key"
proof (cases "base = []")
  case True
  then show ?thesis by (simp add: mergePolicy_def policyDenies_at)
next
  case False
  then show ?thesis
    using assms unfolding policyDenies_at
    by (auto simp del: valueListContains.simps(2)
        simp: map_at_def map_of_mergePolicy valueListContains_appendPolicyList split: option.splits)
qed

lemma policyAllows_mergePolicy:
  assumes "map_wf extra"
  shows "policyAllows (mergePolicy base extra) key \<longleftrightarrow> policyAllows base key \<and> policyAllows extra key"
proof (cases "base = []")
  case True
  then show ?thesis by (simp add: mergePolicy_def policyAllows_at)
next
  case False
  then show ?thesis
    using assms unfolding policyAllows_at
    by (auto simp del: valueListContains.simps(2)
        simp: map_of_mergePolicy valueListContains_intersectPolicyList split: option.splits)
qed

text \<open>C6.  A merged policy permits exactly the keys both of its parts permit, whatever the
  iteration order of the merged map: a session policy can only narrow the keys of a role.\<close>

theorem mergePolicy_permits:
  assumes "map_wf extra"
  shows "policy_permits (mergePolicy base extra) key \<longleftrightarrow>
    policy_permits base key \<and> policy_permits extra key"
  using assms
  by (auto simp: policy_permits_def policyDenies_mergePolicy policyAllows_mergePolicy)


definition role_policy :: params where
  "role_policy = [(''allow'', VList [VStr ''hr.*'']), (''deny'', VStr ''hr.employee.delete'')]"

definition session_policy :: params where
  "session_policy = [(''deny'', VList [VStr ''hr.employee.export'']), (''allow'', VStrs [''*''])]"

theorem mergePolicy_permits_witness:
  "\<not> policy_permits (mergePolicy role_policy session_policy) ''hr.employee.export'' \<and>
   policy_permits (mergePolicy role_policy session_policy) ''hr.employee.read''"
proof -
  have wf: "map_wf session_policy" by (simp add: session_policy_def)
  have "\<not> policy_permits session_policy ''hr.employee.export''"
    "policy_permits role_policy ''hr.employee.read''" "policy_permits session_policy ''hr.employee.read''"
    by code_simp+
  then show ?thesis
    using mergePolicy_permits [OF wf, of role_policy "''hr.employee.export''"]
      mergePolicy_permits [OF wf, of role_policy "''hr.employee.read''"] by blast
qed

end
