(* ===== verification/Authz_Scope.thy ===== *)
theory Authz_Scope
  imports Authz_Policy
begin

text \<open>
  Data scopes (\<open>service/authz_policy_service.go\<close> and \<open>authz_scope_service.go\<close>): the
  rank of a scope, the choice between the scopes of two grants, the intersection of the scopes
  of a normal grant, an assumed role and a boundary, and the employees a scope selects.
  \<open>scope_selects\<close> is the specification: which employee a scope with its conditions lets a
  caller see.  The laws say that an intersection selects nothing outside either side, and when
  a choice stays within its two parts.
\<close>

section \<open>Ranks and condition keys\<close>

definition scopeRank :: "string \<Rightarrow> int" where
  "scopeRank scope =
     (if scope = ScopeSystem then 120
      else if scope = ScopeAll \<or> scope = ScopeTenant then 100
      else if scope = ScopeDepartmentSubtree \<or> scope = ScopeAssignedOrgUnits then 80
      else if scope = ScopeDepartment then 70
      else if scope = ScopeDirectReports then 60
      else if scope = ScopeSelf \<or> scope = ScopeOwn then 40
      else if scope = ScopeCustomCondition then 30
      else 20)"

definition isTenantWideUsageScope :: "string \<Rightarrow> bool" where
  "isTenantWideUsageScope scope \<longleftrightarrow> scope = ScopeAll \<or> scope = ScopeTenant \<or> scope = ScopeSystem"

definition isScopeMetadataKey :: "string \<Rightarrow> bool" where
  "isScopeMetadataKey key = (key \<in> {''scope'', ''scope_check'', ''scope_check_scope''})"

definition isStructuredScopeConditionKey :: "string \<Rightarrow> bool" where
  "isStructuredScopeConditionKey key =
     (key \<in> {''employee_ids'', ''org_unit_ids'', ''account_ids'', ''employee_statuses'', ''statuses''})"

definition isBoundaryScopeParamKey :: "string \<Rightarrow> bool" where
  "isBoundaryScopeParamKey key =
     (if isStructuredScopeConditionKey key then True
      else key \<in> {''scope_check'', ''scope_check_scope''})"

fun scopeFromAny :: "val \<Rightarrow> string" where
  "scopeFromAny (VScope v) = v"
| "scopeFromAny (VStr v) = TrimSpace v"
| "scopeFromAny _ = []"

fun mapFromAny :: "val \<Rightarrow> params option" where
  "mapFromAny (VMap v) = Some v"
| "mapFromAny (VStrMap v) = Some (map (\<lambda>(key, item). (key, VStr item)) v)"
| "mapFromAny _ = None"

section \<open>Choosing between the scopes of two grants\<close>

definition mergeScope_step :: "string \<times> val \<Rightarrow> params \<Rightarrow> params" where
  "mergeScope_step kv out =
     (case kv of (key, v) \<Rightarrow>
        if key \<in> {''employee_ids'', ''org_unit_ids''} then
          let merged = uniqueStrings (stringSliceFromAny (map_at out key) @ stringSliceFromAny v) in
          (if merged \<noteq> [] then map_put key (VStrs merged) out else out)
        else if map_of out key = None then map_put key v out
        else out)"

definition mergeScopeConditions :: "params \<Rightarrow> params \<Rightarrow> params" where
  "mergeScopeConditions current candidate = fold mergeScope_step candidate (CopyStringMap current)"

definition chooseScope :: "string \<Rightarrow> params \<Rightarrow> string \<Rightarrow> params \<Rightarrow> string \<times> params" where
  "chooseScope current currentConditions candidate candidateConditions =
     (if candidate = [] then (current, currentConditions)
      else if current = [] \<or> scopeRank candidate > scopeRank current
      then (candidate, candidateConditions)
      else if scopeRank candidate = scopeRank current
      then (current, mergeScopeConditions currentConditions candidateConditions)
      else (current, currentConditions))"

section \<open>Intersecting scopes\<close>

definition intersectStringSlices :: "string list \<Rightarrow> string list \<Rightarrow> string list" where
  "intersectStringSlices left right =
     (if left = [] \<or> right = [] then []
      else let allowed = set (filter (\<lambda>v. TrimSpace v \<noteq> []) left) in
           uniqueStrings (filter (\<lambda>v. TrimSpace v \<noteq> [] \<and> v \<in> allowed) right))"

text \<open>One round of the loop of \<open>intersectScopeConditions\<close>: \<open>Inl out\<close> is the early
  return that reports an empty intersection.\<close>

definition intersect_step :: "string \<times> val \<Rightarrow> params \<Rightarrow> params + params" where
  "intersect_step kv out =
     (case kv of (key, v) \<Rightarrow>
        if isScopeMetadataKey key then
          Inr (if map_of out key = None then map_put key v out else out)
        else if isStructuredScopeConditionKey key then
          let rightValues = stringSliceFromAny v in
          if rightValues = [] then Inl out
          else case map_of out key of
                 Some existing \<Rightarrow>
                   let leftValues = stringSliceFromAny existing in
                   if leftValues = [] then Inl out
                   else let intersection = intersectStringSlices leftValues rightValues in
                        if intersection = [] then Inl (map_put key (VStrs []) out)
                        else Inr (map_put key (VStrs intersection) out)
               | None \<Rightarrow> Inr (map_put key (VStrs (uniqueStrings rightValues)) out)
        else case map_of out key of
               Some existing \<Rightarrow>
                 if key = ''tenant_id'' \<and> Sprint existing \<noteq> Sprint v then Inl out
                 else if \<not> deep_equal existing v then Inl out
                 else Inr out
             | None \<Rightarrow> Inr (map_put key v out))"

definition intersectScopeConditions :: "params \<Rightarrow> params \<Rightarrow> params \<times> bool" where
  "intersectScopeConditions left right =
     (case foldR intersect_step right (CopyStringMap left) of
        Inl out \<Rightarrow> (out, True)
      | Inr out \<Rightarrow> (out, False))"

definition narrowerScope :: "string \<Rightarrow> string \<Rightarrow> string" where
  "narrowerScope left right =
     (if left = [] then right
      else if right = [] then left
      else let leftRank = scopeRank left; rightRank = scopeRank right in
           if rightRank < leftRank then right
           else if leftRank < rightRank then left
           else if left = right then left
           else if left = ScopeTenant \<and> right = ScopeAll then left
           else if right = ScopeTenant \<and> left = ScopeAll then right
           else left)"

definition structuredKeys :: "string list" where
  "structuredKeys =
     [''employee_ids'', ''org_unit_ids'', ''account_ids'', ''employee_statuses'', ''statuses'']"

definition requiresCustomIntersectionScope :: "string \<Rightarrow> string \<Rightarrow> string \<Rightarrow> params \<Rightarrow> bool" where
  "requiresCustomIntersectionScope left right out conditions =
     (if out = ScopeCustomCondition then True
      else if left \<noteq> [] \<and> right \<noteq> [] \<and> left \<noteq> right \<and> left \<noteq> ScopeAll \<and> right \<noteq> ScopeAll \<and>
              scopeRank left = scopeRank right then True
      else length (filter (\<lambda>key. stringSliceFromAny (map_at conditions key) \<noteq> []) structuredKeys) > 1)"

definition intersectScopes :: "string \<Rightarrow> params \<Rightarrow> string \<Rightarrow> params \<Rightarrow> string \<times> params \<times> bool" where
  "intersectScopes leftScope leftConditions rightScope rightConditions =
     (if rightScope = [] then (leftScope, CopyStringMap leftConditions, False)
      else if leftScope = [] then (rightScope, CopyStringMap rightConditions, False)
      else case intersectScopeConditions leftConditions rightConditions of
        (outConditions, isEmpty) \<Rightarrow>
          if isEmpty then (narrowerScope leftScope rightScope, outConditions, True)
          else let outScope = narrowerScope leftScope rightScope;
                   outScope = (if leftScope = ScopeAll then rightScope
                               else if rightScope = ScopeAll then leftScope else outScope)
               in if requiresCustomIntersectionScope leftScope rightScope outScope outConditions
                  then (ScopeCustomCondition,
                        map_del ''scope_check_scope'' (map_del ''scope_check''
                          (map_put ''scope'' (VScope ScopeCustomCondition) outConditions)), False)
                  else (outScope, outConditions, False))"

section \<open>The scope a boundary asks for\<close>

definition put_params :: "params \<Rightarrow> params \<Rightarrow> params" where
  "put_params kvs params = fold (\<lambda>(key, v). map_put key v) kvs params"

definition boundaryScopeSpec :: "params \<Rightarrow> (string \<times> params) option" where
  "boundaryScopeSpec boundary =
     (let params = (case mapFromAny (map_at boundary ''conditions'') of
                      Some conditions \<Rightarrow> put_params conditions []
                    | None \<Rightarrow> []);
          scope = scopeFromAny (map_at boundary ''scope'');
          scope = (if scope = [] then scopeFromAny (map_at boundary ''scope_type'') else scope);
          (scope, params) =
            (case mapFromAny (map_at boundary ''data_scope'') of
               Some dataScope \<Rightarrow>
                 let nested = scopeFromAny (map_at dataScope ''scope'');
                     scope = (if nested \<noteq> [] then nested else scope);
                     nested = scopeFromAny (map_at dataScope ''scope_type'');
                     scope = (if nested \<noteq> [] then nested else scope);
                     params = (case mapFromAny (map_at dataScope ''params'') of
                                 Some nestedParams \<Rightarrow> put_params nestedParams params
                               | None \<Rightarrow> params);
                     params = put_params (filter (isBoundaryScopeParamKey \<circ> fst) dataScope) params
                 in (scope, params)
             | None \<Rightarrow> (scope, params));
          params = put_params (filter (isBoundaryScopeParamKey \<circ> fst) boundary) params
      in if scope = [] \<and> params = [] then None else Some (scope, params))"

section \<open>Conditions of a scope\<close>

definition hasEffectiveCustomScopeFilter :: "params \<Rightarrow> bool" where
  "hasEffectiveCustomScopeFilter conditions =
     (\<exists>key \<in> set [''employee_ids'', ''org_unit_ids'', ''employee_statuses'', ''statuses''].
        stringSliceFromAny (map_at conditions key) \<noteq> [])"

definition markOpenFGAScopeCheck :: "params \<Rightarrow> string \<Rightarrow> params" where
  "markOpenFGAScopeCheck out scope =
     map_put ''scope_check_scope'' (VStr scope) (map_put ''scope_check'' (VStr ''openfga'') out)"

definition decisionUsesOpenFGAScopeCheck :: "CheckResult \<Rightarrow> bool" where
  "decisionUsesOpenFGAScopeCheck decision =
     (if res_Conditions decision = [] then False
      else TrimSpace (Sprint (map_at (res_Conditions decision) ''scope_check'')) = ''openfga'')"

definition orgUnitInScope :: "OrgUnit list \<Rightarrow> string \<Rightarrow> string set \<Rightarrow> bool" where
  "orgUnitInScope units orgUnitID allowed =
     (if orgUnitID \<in> allowed then True
      else (\<exists>unit \<in> set units. ou_ID unit = orgUnitID \<and> (\<exists>parentID \<in> set (ou_Path unit). parentID \<in> allowed)))"

definition orgUnitIDsInSubtree :: "OrgUnit list \<Rightarrow> string list \<Rightarrow> string list" where
  "orgUnitIDsInSubtree units roots =
     (let allowed = set (filter (\<lambda>v. TrimSpace v \<noteq> []) roots) in
      if allowed = {} then []
      else uniqueStrings (map ou_ID (filter (\<lambda>unit. orgUnitInScope units (ou_ID unit) allowed) units)))"

definition filterEmployeesByConditions :: "Employee list \<Rightarrow> params \<Rightarrow> Employee list" where
  "filterEmployeesByConditions items conditions =
     (let employeeIDs = stringSliceFromAny (map_at conditions ''employee_ids'');
          orgUnitIDs = stringSliceFromAny (map_at conditions ''org_unit_ids'');
          statuses = stringSliceFromAny (map_at conditions ''employee_statuses'');
          statuses = (if statuses = [] then stringSliceFromAny (map_at conditions ''statuses'') else statuses);
          employeeAllowed = stringSet employeeIDs;
          orgAllowed = stringSet orgUnitIDs;
          statusAllowed = stringSet statuses
      in if employeeAllowed = {} \<and> orgAllowed = {} \<and> statusAllowed = {} then []
         else filter (\<lambda>item.
                (employeeAllowed \<noteq> {} \<longrightarrow> emp_ID item \<in> employeeAllowed) \<and>
                (orgAllowed \<noteq> {} \<longrightarrow> emp_OrgUnitID item \<in> orgAllowed) \<and>
                (statusAllowed \<noteq> {} \<longrightarrow> emp_Status item \<in> statusAllowed)) items)"

section \<open>Intersection, key by key\<close>

text \<open>The value a key gets when the entry \<open>(key, v)\<close> of the right side meets the entry of the
  left side; None stands for an empty intersection.\<close>

definition intersect_value :: "string \<Rightarrow> val option \<Rightarrow> val \<Rightarrow> val option" where
  "intersect_value key existing v =
     (if isScopeMetadataKey key then Some (case existing of Some e \<Rightarrow> e | None \<Rightarrow> v)
      else if isStructuredScopeConditionKey key then
        (if stringSliceFromAny v = [] then None
         else case existing of
                None \<Rightarrow> Some (VStrs (uniqueStrings (stringSliceFromAny v)))
              | Some e \<Rightarrow>
                  (let common = intersectStringSlices (stringSliceFromAny e) (stringSliceFromAny v)
                   in if common = [] then None else Some (VStrs common)))
      else case existing of
             None \<Rightarrow> Some v
           | Some e \<Rightarrow> if key = ''tenant_id'' \<and> Sprint e \<noteq> Sprint v \<or> \<not> deep_equal e v then None else Some e)"

lemma intersectStringSlices_Nil [simp]:
  "intersectStringSlices [] r = []" "intersectStringSlices l [] = []"
  by (simp_all add: intersectStringSlices_def)

lemma set_intersectStringSlices:
  "set (intersectStringSlices l r) = {v \<in> set l \<inter> set r. TrimSpace v \<noteq> []}"
  by (auto simp: intersectStringSlices_def Let_def)

lemma intersect_step_value:
  "case intersect_step (k, v) out of
     Inl _ \<Rightarrow> intersect_value k (map_of out k) v = None
   | Inr out' \<Rightarrow> \<exists>w. intersect_value k (map_of out k) v = Some w \<and> map_of out' = (map_of out)(k \<mapsto> w)"
  by (auto simp: intersect_step_def intersect_value_def Let_def fun_eq_iff split: option.split)

lemma foldR_intersect_step:
  assumes "map_wf right"
  shows "case foldR intersect_step right out of
     Inl _ \<Rightarrow> \<exists>k v. map_of right k = Some v \<and> intersect_value k (map_of out k) v = None
   | Inr out' \<Rightarrow> \<forall>k. map_of out' k =
       (case map_of right k of None \<Rightarrow> map_of out k | Some v \<Rightarrow> intersect_value k (map_of out k) v) \<and>
       (\<forall>v. map_of right k = Some v \<longrightarrow> intersect_value k (map_of out k) v \<noteq> None)"
  using assms
proof (induction right arbitrary: out)
  case (Cons kv right)
  obtain k v where kv: "kv = (k, v)" by (cases kv)
  have k: "map_of right k = None" using Cons.prems by (simp add: kv map_of_eq_None_iff)
  note step = intersect_step_value [of k out v]
  show ?case
  proof (cases "intersect_step (k, v) out")
    case (Inl o')
    with step show ?thesis by (auto simp: kv)
  next
    case (Inr out')
    with step obtain w where w: "intersect_value k (map_of out k) v = Some w"
      "map_of out' = (map_of out)(k \<mapsto> w)" by auto
    have IH: "map_wf right" using Cons.prems by simp
    have moment: "ka \<noteq> k \<Longrightarrow> map_of out' ka = map_of out ka" "map_of out' k = Some w" for ka
      using w(2) by simp_all
    show ?thesis
    proof (cases "foldR intersect_step right out'")
      case (Inl o')
      with Cons.IH [OF IH, of out'] obtain ka va where
        ka: "map_of right ka = Some va" "intersect_value ka (map_of out' ka) va = None" by auto
      with k have "ka \<noteq> k" by auto
      with ka moment(1) have "map_of (kv # right) ka = Some va \<and> intersect_value ka (map_of out ka) va = None"
        by (simp add: kv)
      then have "\<exists>ka va. map_of (kv # right) ka = Some va \<and> intersect_value ka (map_of out ka) va = None"
        by blast
      then show ?thesis
        using Inl \<open>intersect_step (k, v) out = Inr out'\<close> by (simp add: kv del: map_of.simps)
    next
      case (Inr o')
      with Cons.IH [OF IH, of out']
      have IH': "map_of o' ka = (case map_of right ka of None \<Rightarrow> map_of out' ka
            | Some v \<Rightarrow> intersect_value ka (map_of out' ka) v)"
        "map_of right ka = Some va \<Longrightarrow> intersect_value ka (map_of out' ka) va \<noteq> None" for ka va
        by auto
      have "map_of o' ka = (case map_of (kv # right) ka of None \<Rightarrow> map_of out ka
            | Some v \<Rightarrow> intersect_value ka (map_of out ka) v) \<and>
          (\<forall>v. map_of (kv # right) ka = Some v \<longrightarrow> intersect_value ka (map_of out ka) v \<noteq> None)" for ka
        using IH' [of ka] k w(1) moment by (cases "ka = k") (auto simp: kv split: option.split)
      then show ?thesis using Inr \<open>intersect_step (k, v) out = Inr out'\<close> by (simp add: kv)
    qed
  qed
qed simp

text \<open>Whether two sets of conditions exclude each other does not depend on the order in which
  the maps are iterated, and neither does the resulting condition of any key.\<close>

lemma intersectScopeConditions_empty:
  assumes "map_wf right"
  shows "snd (intersectScopeConditions left right) \<longleftrightarrow>
    (\<exists>k v. map_of right k = Some v \<and> intersect_value k (map_of left k) v = None)"
  using foldR_intersect_step [OF assms, of left]
  by (auto simp: intersectScopeConditions_def split: sum.splits)

lemma map_of_intersectScopeConditions:
  assumes "map_wf right" "intersectScopeConditions left right = (out, False)"
  shows "map_of out k =
    (case map_of right k of None \<Rightarrow> map_of left k | Some v \<Rightarrow> intersect_value k (map_of left k) v)"
  using foldR_intersect_step [OF assms(1), of left] assms(2)
  by (auto simp: intersectScopeConditions_def split: sum.splits)

definition slice_at :: "params \<Rightarrow> string \<Rightarrow> string list" where
  "slice_at conditions key = stringSliceFromAny (map_at conditions key)"

definition clean_conditions :: "params \<Rightarrow> bool" where
  "clean_conditions c \<longleftrightarrow> (\<forall>key \<in> set structuredKeys. \<forall>s \<in> set (slice_at c key). TrimSpace s \<noteq> [])"

lemma slice_at_None [simp]: "map_of c k = None \<Longrightarrow> slice_at c k = []"
  by (simp add: slice_at_def)

lemma structuredKeys_iff: "key \<in> set structuredKeys \<longleftrightarrow> isStructuredScopeConditionKey key"
  by (auto simp: structuredKeys_def isStructuredScopeConditionKey_def)

lemma structured_not_metadata [simp]:
  "isStructuredScopeConditionKey key \<Longrightarrow> \<not> isScopeMetadataKey key"
  by (auto simp: isStructuredScopeConditionKey_def isScopeMetadataKey_def)

text \<open>A non-empty list of a structured key on either side bounds the list of the result, which
  is not empty.\<close>

lemma intersect_slice:
  assumes "map_wf right" "intersectScopeConditions left right = (out, False)"
    and key: "isStructuredScopeConditionKey key" and clean: "clean_conditions right"
  shows "slice_at left key \<noteq> [] \<Longrightarrow>
      slice_at out key \<noteq> [] \<and> set (slice_at out key) \<subseteq> set (slice_at left key)"
    and "slice_at right key \<noteq> [] \<Longrightarrow>
      slice_at out key \<noteq> [] \<and> set (slice_at out key) \<subseteq> set (slice_at right key)"
proof -
  note moment = map_of_intersectScopeConditions [OF assms(1,2), of key]
  have some: "intersect_value key (map_of left key) v \<noteq> None" if "map_of right key = Some v" for v
    using intersectScopeConditions_empty [OF assms(1), of left] assms(2) that by auto
  show "slice_at out key \<noteq> [] \<and> set (slice_at out key) \<subseteq> set (slice_at left key)"
    if "slice_at left key \<noteq> []"
  proof (cases "map_of right key")
    case None
    with moment that show ?thesis by (simp add: slice_at_def map_at_def)
  next
    case (Some v)
    from that obtain e where "map_of left key = Some e" by (cases "map_of left key") auto
    with moment some [OF Some] Some key show ?thesis
      by (auto simp: slice_at_def map_at_def intersect_value_def Let_def set_intersectStringSlices split: if_splits)
  qed
  show "slice_at out key \<noteq> [] \<and> set (slice_at out key) \<subseteq> set (slice_at right key)"
    if ne: "slice_at right key \<noteq> []"
  proof -
    from ne obtain v where v: "map_of right key = Some v" by (cases "map_of right key") auto
    have "\<exists>s. s \<in> set (slice_at right key) \<and> s \<noteq> []"
      using ne clean key by (cases "slice_at right key") (force simp: clean_conditions_def structuredKeys_iff)+
    then have "uniqueStrings (stringSliceFromAny v) \<noteq> []"
      using v by (metis Diff_iff empty_iff empty_set set_uniqueStrings singletonD slice_at_def map_at_Some)
    with moment some [OF v] v key show ?thesis
      by (auto simp: slice_at_def map_at_def intersect_value_def Let_def set_intersectStringSlices
          split: if_splits option.splits)
  qed
qed

section \<open>What a scope selects\<close>

text \<open>The specification of a data scope: may a caller who is employee \<open>employeeID\<close> see the
  employee \<open>e\<close> under \<open>scope\<close> with its conditions?  It is the predicate that
  \<open>filterEmployeesByDecision\<close> filters by.\<close>

definition conditions_select :: "params \<Rightarrow> Employee \<Rightarrow> bool" where
  "conditions_select c e \<longleftrightarrow> filterEmployeesByConditions [e] c = [e]"

definition scope_selects :: "string \<Rightarrow> OrgUnit list \<Rightarrow> string \<Rightarrow> params \<Rightarrow> Employee \<Rightarrow> bool" where
  "scope_selects employeeID units scope c e =
     (if scope \<in> {[], ScopeAll, ScopeTenant, ScopeSystem} then True
      else if scope \<in> {ScopeSelf, ScopeOwn} then emp_ID e = employeeID
      else if scope \<in> {ScopeDepartment, ScopeAssignedOrgUnits}
      then emp_OrgUnitID e \<in> set (slice_at c ''org_unit_ids'')
      else if scope = ScopeDepartmentSubtree
      then slice_at c ''org_unit_ids'' \<noteq> [] \<and>
           orgUnitInScope units (emp_OrgUnitID e) (set (slice_at c ''org_unit_ids''))
      else if scope = ScopeDirectReports then emp_ID e \<in> set (slice_at c ''employee_ids'')
      else if scope = ScopeCustomCondition then conditions_select c e
      else False)"

definition tenant_wide :: "string \<Rightarrow> bool" where
  "tenant_wide scope \<longleftrightarrow> scope = ScopeAll \<or> scope = ScopeTenant \<or> scope = ScopeSystem"

definition employee_scope :: "string \<Rightarrow> bool" where
  "employee_scope scope \<longleftrightarrow> scope = ScopeSelf \<or> scope = ScopeOwn \<or> scope = ScopeDirectReports"

definition unit_scope :: "string \<Rightarrow> bool" where
  "unit_scope scope \<longleftrightarrow>
     scope = ScopeDepartment \<or> scope = ScopeAssignedOrgUnits \<or> scope = ScopeDepartmentSubtree"

text \<open>Conditions that carry what their scope needs: the caller's own id for a self scope,
  employees for direct reports, units for the unit scopes, some filter for a custom condition,
  and no blank strings.\<close>

definition materialized :: "string \<Rightarrow> string \<Rightarrow> params \<Rightarrow> bool" where
  "materialized employeeID scope c \<longleftrightarrow>
     map_wf c \<and> clean_conditions c \<and>
     (tenant_wide scope \<or>
      (scope = ScopeSelf \<or> scope = ScopeOwn) \<and> slice_at c ''employee_ids'' = [employeeID] \<or>
      scope = ScopeDirectReports \<and> slice_at c ''employee_ids'' \<noteq> [] \<or>
      unit_scope scope \<and> slice_at c ''org_unit_ids'' \<noteq> [] \<or>
      scope = ScopeCustomCondition \<and> hasEffectiveCustomScopeFilter c)"

text \<open>The two status keys are read as one, so both sides must use the same key.\<close>

definition same_status_key :: "params \<Rightarrow> params \<Rightarrow> bool" where
  "same_status_key c d \<longleftrightarrow>
     (slice_at c ''employee_statuses'' = [] \<or> slice_at d ''statuses'' = []) \<and>
     (slice_at d ''employee_statuses'' = [] \<or> slice_at c ''statuses'' = [])"

lemma stringSet_clean:
  assumes "clean_conditions c" "isStructuredScopeConditionKey key"
  shows "stringSet (slice_at c key) = set (slice_at c key)"
  using assms by (auto simp: stringSet_def clean_conditions_def structuredKeys_iff)

lemma structured_simps [simp]:
  "isStructuredScopeConditionKey ''employee_ids''" "isStructuredScopeConditionKey ''org_unit_ids''"
  "isStructuredScopeConditionKey ''employee_statuses''" "isStructuredScopeConditionKey ''statuses''"
  by (simp_all add: isStructuredScopeConditionKey_def)

definition status_slice :: "params \<Rightarrow> string list" where
  "status_slice c =
     (if slice_at c ''employee_statuses'' = [] then slice_at c ''statuses''
      else slice_at c ''employee_statuses'')"

lemma filterEmployeesByConditions_eq:
  "filterEmployeesByConditions items c =
     (let A = stringSet (slice_at c ''employee_ids''); B = stringSet (slice_at c ''org_unit_ids'');
          S = stringSet (status_slice c)
      in if A = {} \<and> B = {} \<and> S = {} then []
         else filter (\<lambda>e. (A \<noteq> {} \<longrightarrow> emp_ID e \<in> A) \<and> (B \<noteq> {} \<longrightarrow> emp_OrgUnitID e \<in> B) \<and>
                (S \<noteq> {} \<longrightarrow> emp_Status e \<in> S)) items)"
  by (simp only: filterEmployeesByConditions_def status_slice_def slice_at_def Let_def if_distrib [of stringSet])

lemma conditions_select_iff:
  assumes "clean_conditions c"
  shows "conditions_select c e \<longleftrightarrow>
    (slice_at c ''employee_ids'' \<noteq> [] \<or> slice_at c ''org_unit_ids'' \<noteq> [] \<or> status_slice c \<noteq> []) \<and>
    (slice_at c ''employee_ids'' \<noteq> [] \<longrightarrow> emp_ID e \<in> set (slice_at c ''employee_ids'')) \<and>
    (slice_at c ''org_unit_ids'' \<noteq> [] \<longrightarrow> emp_OrgUnitID e \<in> set (slice_at c ''org_unit_ids'')) \<and>
    (status_slice c \<noteq> [] \<longrightarrow> emp_Status e \<in> set (status_slice c))"
proof -
  have "stringSet (status_slice c) = set (status_slice c)"
    using assms by (simp add: status_slice_def stringSet_clean)
  then show ?thesis
    using stringSet_clean [OF assms, of "''employee_ids''"] stringSet_clean [OF assms, of "''org_unit_ids''"]
    by (simp add: conditions_select_def filterEmployeesByConditions_eq Let_def)
qed

text \<open>One side of an intersection, seen from its result: the lists of the result are bounded by
  the lists of the side.\<close>

definition bounded_by :: "params \<Rightarrow> params \<Rightarrow> bool" where
  "bounded_by out c \<longleftrightarrow> (\<forall>key. isStructuredScopeConditionKey key \<longrightarrow> slice_at c key \<noteq> [] \<longrightarrow>
     slice_at out key \<noteq> [] \<and> set (slice_at out key) \<subseteq> set (slice_at c key))"

lemma bounded_byD:
  assumes "bounded_by out c" "isStructuredScopeConditionKey key" "slice_at c key \<noteq> []"
  shows "slice_at out key \<noteq> []" "x \<in> set (slice_at out key) \<Longrightarrow> x \<in> set (slice_at c key)"
  using assms by (auto simp: bounded_by_def)

lemma orgUnitInScope_mono:
  "orgUnitInScope units u A \<Longrightarrow> A \<subseteq> B \<Longrightarrow> orgUnitInScope units u B"
  by (auto simp: orgUnitInScope_def split: if_splits)

lemma orgUnitInScope_member: "u \<in> A \<Longrightarrow> orgUnitInScope units u A"
  by (simp add: orgUnitInScope_def)

text \<open>A custom condition bounded by a materialised side selects within that side.\<close>

lemma custom_selects_within:
  assumes out: "clean_conditions out" "bounded_by out c" "conditions_select out e"
    and status: "slice_at c ''statuses'' \<noteq> [] \<Longrightarrow> slice_at c ''employee_statuses'' = [] \<Longrightarrow>
      slice_at out ''employee_statuses'' = []"
    and mat: "materialized employeeID scope c"
  shows "scope_selects employeeID units scope c e"
proof -
  note sel = iffD1 [OF conditions_select_iff [OF out(1)] out(3)]
  have emp: "slice_at c ''employee_ids'' \<noteq> [] \<Longrightarrow> emp_ID e \<in> set (slice_at c ''employee_ids'')"
    using sel bounded_byD [OF out(2), of "''employee_ids''"] by auto
  have org: "slice_at c ''org_unit_ids'' \<noteq> [] \<Longrightarrow> emp_OrgUnitID e \<in> set (slice_at c ''org_unit_ids'')"
    using sel bounded_byD [OF out(2), of "''org_unit_ids''"] by auto
  have st: "emp_Status e \<in> set (status_slice c)" if "status_slice c \<noteq> []"
    using that sel status bounded_byD [OF out(2), of "''employee_statuses''"]
      bounded_byD [OF out(2), of "''statuses''"]
    by (auto simp: status_slice_def split: if_splits)
  have clean: "clean_conditions c" using mat by (simp add: materialized_def)
  have custom: "conditions_select c e" if "hasEffectiveCustomScopeFilter c"
  proof -
    have "slice_at c ''employee_ids'' \<noteq> [] \<or> slice_at c ''org_unit_ids'' \<noteq> [] \<or> status_slice c \<noteq> []"
      using that by (auto simp: hasEffectiveCustomScopeFilter_def status_slice_def simp flip: slice_at_def)
    with emp org st show ?thesis by (simp add: conditions_select_iff [OF clean])
  qed
  from mat consider "tenant_wide scope"
    | "scope = ScopeSelf \<or> scope = ScopeOwn" "slice_at c ''employee_ids'' = [employeeID]"
    | "scope = ScopeDirectReports" "slice_at c ''employee_ids'' \<noteq> []"
    | "unit_scope scope" "slice_at c ''org_unit_ids'' \<noteq> []"
    | "scope = ScopeCustomCondition" "hasEffectiveCustomScopeFilter c"
    unfolding materialized_def by blast
  then show ?thesis
  proof cases
    case 2
    with emp show ?thesis by (auto simp: scope_selects_def)
  next
    case 4
    with org orgUnitInScope_member show ?thesis by (auto simp: scope_selects_def unit_scope_def)
  qed (use emp custom in \<open>auto simp: scope_selects_def tenant_wide_def\<close>)
qed

lemma intersect_slice_union:
  assumes "map_wf right" "intersectScopeConditions left right = (out, False)"
    and key: "isStructuredScopeConditionKey key"
  shows "set (slice_at out key) \<subseteq> set (slice_at left key) \<union> set (slice_at right key)"
proof (cases "map_of right key")
  case None
  then show ?thesis
    using map_of_intersectScopeConditions [OF assms(1,2), of key] by (simp add: slice_at_def map_at_def)
next
  case (Some v)
  then have "intersect_value key (map_of left key) v \<noteq> None"
    using intersectScopeConditions_empty [OF assms(1), of left] assms(2) by auto
  then show ?thesis
    using map_of_intersectScopeConditions [OF assms(1,2), of key] Some key
    by (auto simp: slice_at_def map_at_def intersect_value_def Let_def set_intersectStringSlices
        split: if_splits option.splits)
qed

lemma intersectScopeConditions_bounded:
  assumes "map_wf right" "clean_conditions left" "clean_conditions right"
    and "intersectScopeConditions left right = (out, False)"
  shows "bounded_by out left" "bounded_by out right" "clean_conditions out"
proof -
  show "bounded_by out left" "bounded_by out right"
    using intersect_slice [OF assms(1,4) _ assms(3)] by (auto simp: bounded_by_def)
  show "clean_conditions out"
    using intersect_slice_union [OF assms(1,4)] assms(2,3)
    unfolding clean_conditions_def Ball_def structuredKeys_iff by blast
qed

text \<open>The conditions an intersection returns carry the structured keys unchanged.\<close>

lemma intersectScopes_slices:
  assumes "intersectScopes ls lc rs rc = (sc, c, False)" "ls \<noteq> []" "rs \<noteq> []"
  obtains out where "intersectScopeConditions lc rc = (out, False)"
    and "\<And>key. isStructuredScopeConditionKey key \<Longrightarrow> slice_at c key = slice_at out key"
proof -
  obtain out b where io: "intersectScopeConditions lc rc = (out, b)" by fastforce
  have "\<not> b" using assms io by (auto simp: intersectScopes_def Let_def split: if_splits)
  moreover have "slice_at c key = slice_at out key" if "isStructuredScopeConditionKey key" for key
    using assms io that
    by (auto simp: intersectScopes_def Let_def slice_at_def isStructuredScopeConditionKey_def split: if_splits)
  ultimately show thesis using that io by simp
qed

text \<open>Which scope an intersection returns.\<close>

lemma not_requiresCustom:
  assumes "\<not> requiresCustomIntersectionScope l r sc c" "l \<noteq> []" "r \<noteq> []"
  shows "sc \<noteq> ScopeCustomCondition" "l = r \<or> l = ScopeAll \<or> r = ScopeAll \<or> scopeRank l \<noteq> scopeRank r"
    "slice_at c ''employee_ids'' = [] \<or> slice_at c ''org_unit_ids'' = []"
proof -
  let ?n = "length (filter (\<lambda>key. slice_at c key \<noteq> []) structuredKeys)"
  have "?n \<le> 1" and other: "sc \<noteq> ScopeCustomCondition"
    "l = r \<or> l = ScopeAll \<or> r = ScopeAll \<or> scopeRank l \<noteq> scopeRank r"
    using assms by (auto simp: requiresCustomIntersectionScope_def slice_at_def simp del: filter.simps split: if_splits)
  then show "sc \<noteq> ScopeCustomCondition" "l = r \<or> l = ScopeAll \<or> r = ScopeAll \<or> scopeRank l \<noteq> scopeRank r"
    by blast+
  show "slice_at c ''employee_ids'' = [] \<or> slice_at c ''org_unit_ids'' = []"
    using \<open>?n \<le> 1\<close> by (simp add: structuredKeys_def split: if_splits)
qed

lemma intersectScopes_scope:
  assumes "intersectScopes ls lc rs rc = (sc, c, False)" "ls \<noteq> []" "rs \<noteq> []" "sc \<noteq> ScopeCustomCondition"
  shows "sc = (if ls = ScopeAll then rs else if rs = ScopeAll then ls else narrowerScope ls rs)"
    "ls = rs \<or> ls = ScopeAll \<or> rs = ScopeAll \<or> scopeRank ls \<noteq> scopeRank rs"
    "slice_at c ''employee_ids'' = [] \<or> slice_at c ''org_unit_ids'' = []"
proof -
  let ?sc = "if ls = ScopeAll then rs else if rs = ScopeAll then ls else narrowerScope ls rs"
  obtain out b where io: "intersectScopeConditions lc rc = (out, b)" by fastforce
  have "sc = ?sc \<and> c = out \<and> \<not> requiresCustomIntersectionScope ls rs ?sc out"
    using assms io by (cases "ls = ScopeAll"; cases "rs = ScopeAll") (simp_all add: intersectScopes_def Let_def split: if_split_asm)
  then show "sc = ?sc" "ls = rs \<or> ls = ScopeAll \<or> rs = ScopeAll \<or> scopeRank ls \<noteq> scopeRank rs"
    "slice_at c ''employee_ids'' = [] \<or> slice_at c ''org_unit_ids'' = []"
    using not_requiresCustom [of ls rs ?sc out] assms by blast+
qed

text \<open>When the returned scope is not a custom condition, it is no wider than a side in this
  sense.\<close>

definition scope_within :: "string \<Rightarrow> string \<Rightarrow> bool" where
  "scope_within sc side \<longleftrightarrow> tenant_wide side \<or> sc = side \<or>
     sc \<in> {ScopeSelf, ScopeOwn} \<and> side = ScopeDirectReports \<or>
     sc = ScopeDepartment \<and> side \<in> {ScopeAssignedOrgUnits, ScopeDepartmentSubtree}"

lemma scope_within_selects:
  assumes "scope_within sc side" "materialized employeeID side cs" "bounded_by c cs"
    and "scope_selects employeeID units sc c e" "sc \<noteq> ScopeCustomCondition"
    and self: "sc \<in> {ScopeSelf, ScopeOwn} \<Longrightarrow> set (slice_at c ''employee_ids'') \<subseteq> {employeeID}"
  shows "scope_selects employeeID units side cs e"
proof -
  have emp: "slice_at c ''employee_ids'' \<noteq> []" "x \<in> set (slice_at c ''employee_ids'') \<Longrightarrow> x \<in> set (slice_at cs ''employee_ids'')"
    if "slice_at cs ''employee_ids'' \<noteq> []" for x
    using bounded_byD [OF assms(3) _ that] by simp_all
  have org: "slice_at c ''org_unit_ids'' \<noteq> []" "x \<in> set (slice_at c ''org_unit_ids'') \<Longrightarrow> x \<in> set (slice_at cs ''org_unit_ids'')"
    if "slice_at cs ''org_unit_ids'' \<noteq> []" for x
    using bounded_byD [OF assms(3) _ that] by simp_all
  from assms(1) [unfolded scope_within_def] show ?thesis
  proof (elim disjE conjE)
    assume "tenant_wide side"
    then show ?thesis unfolding tenant_wide_def by (elim disjE) (simp_all add: scope_selects_def)
  next
    assume eq: "sc = side"
    from assms(2) have "tenant_wide side \<or> (side = ScopeSelf \<or> side = ScopeOwn) \<or>
        side = ScopeDirectReports \<and> slice_at cs ''employee_ids'' \<noteq> [] \<or>
        unit_scope side \<and> slice_at cs ''org_unit_ids'' \<noteq> []"
      using assms(5) eq by (auto simp only: materialized_def)
    then show ?thesis
    proof (elim disjE conjE)
      assume "unit_scope side" and ne: "slice_at cs ''org_unit_ids'' \<noteq> []"
      have "set (slice_at c ''org_unit_ids'') \<subseteq> set (slice_at cs ''org_unit_ids'')" using org ne by blast
      with \<open>unit_scope side\<close> ne eq assms(4) show ?thesis
        unfolding unit_scope_def
        by (elim disjE) (auto simp: scope_selects_def intro: orgUnitInScope_mono)
    next
      assume "tenant_wide side"
      then show ?thesis unfolding tenant_wide_def by (elim disjE) (simp_all add: scope_selects_def)
    qed (use eq assms(4) emp in \<open>simp_all add: scope_selects_def\<close>)
  next
    assume sc: "sc \<in> {ScopeSelf, ScopeOwn}" and side: "side = ScopeDirectReports"
    from assms(2) have ne: "slice_at cs ''employee_ids'' \<noteq> []"
      by (simp add: materialized_def side tenant_wide_def unit_scope_def)
    from sc assms(4) have "emp_ID e = employeeID" by (elim insertE) (simp_all add: scope_selects_def)
    moreover obtain x where "x \<in> set (slice_at c ''employee_ids'')"
      using emp(1) [OF ne] by (cases "slice_at c ''employee_ids''") auto
    moreover have "x = employeeID" using self [OF sc] calculation(2) by blast
    ultimately have "emp_ID e \<in> set (slice_at cs ''employee_ids'')" using emp(2) [OF ne] by simp
    then show ?thesis by (simp add: side scope_selects_def)
  next
    assume sc: "sc = ScopeDepartment" and side: "side \<in> {ScopeAssignedOrgUnits, ScopeDepartmentSubtree}"
    from side assms(2) have ne: "slice_at cs ''org_unit_ids'' \<noteq> []"
      by (elim insertE) (simp_all add: materialized_def tenant_wide_def)
    have "emp_OrgUnitID e \<in> set (slice_at c ''org_unit_ids'')"
      using assms(4) by (simp add: sc scope_selects_def)
    with org [OF ne] have "emp_OrgUnitID e \<in> set (slice_at cs ''org_unit_ids'')" by simp
    with side ne show ?thesis
      by (elim insertE) (simp_all add: scope_selects_def orgUnitInScope_member)
  qed
qed

lemma rank_facts:
  "tenant_wide s \<Longrightarrow> scopeRank s \<ge> 100"
  "unit_scope s \<Longrightarrow> scopeRank s \<in> {70, 80}"
  "scopeRank ScopeDirectReports = 60" "scopeRank ScopeSelf = 40" "scopeRank ScopeOwn = 40"
  "scopeRank ScopeCustomCondition = 30"
proof -
  show "tenant_wide s \<Longrightarrow> scopeRank s \<ge> 100"
    unfolding tenant_wide_def by (elim disjE) (simp_all add: scopeRank_def)
  show "unit_scope s \<Longrightarrow> scopeRank s \<in> {70, 80}"
    unfolding unit_scope_def by (elim disjE) (simp_all add: scopeRank_def)
qed (simp_all add: scopeRank_def)

lemma narrower_cases:
  assumes "ls \<noteq> []" "rs \<noteq> []" "scopeRank ls \<noteq> scopeRank rs"
  shows "narrowerScope ls rs = (if scopeRank rs < scopeRank ls then rs else ls)"
  using assms by (simp add: narrowerScope_def Let_def)

lemma materialized_kinds:
  assumes "materialized employeeID s c" "s \<noteq> ScopeCustomCondition"
  shows "tenant_wide s \<or> employee_scope s \<and> slice_at c ''employee_ids'' \<noteq> [] \<or>
    unit_scope s \<and> slice_at c ''org_unit_ids'' \<noteq> []"
  using assms unfolding materialized_def employee_scope_def by (elim conjE disjE) simp_all

lemma employee_rank: "employee_scope s \<Longrightarrow> scopeRank s \<in> {40, 60}"
  unfolding employee_scope_def by (elim disjE) (simp_all add: rank_facts)

lemma materialized_nonempty: "materialized employeeID s c \<Longrightarrow> s \<noteq> []"
  by (auto simp: materialized_def tenant_wide_def unit_scope_def)

lemma custom_rank:
  assumes "materialized employeeID s c" "s \<noteq> ScopeCustomCondition"
  shows "scopeRank s > 30"
  using materialized_kinds [OF assms] rank_facts(1,2) [of s] employee_rank [of s] by auto

lemma employee_within:
  assumes "employee_scope s" "employee_scope t" "s = t \<or> scopeRank s < scopeRank t"
  shows "scope_within s t"
  using assms unfolding employee_scope_def
  by (elim disjE) (simp_all add: scope_within_def rank_facts)

lemma unit_within:
  assumes "unit_scope s" "unit_scope t" "s = t \<or> scopeRank s < scopeRank t"
  shows "scope_within s t"
  using assms unfolding unit_scope_def
  by (elim disjE) (simp_all add: scope_within_def scopeRank_def)

text \<open>The scope kept is within the other one when both restrict the same key.\<close>

lemma kept_within:
  assumes "materialized employeeID s c" "materialized employeeID t d"
    and "s \<noteq> ScopeCustomCondition" "t \<noteq> ScopeCustomCondition"
    and "s = t \<or> scopeRank s < scopeRank t"
    and "slice_at out ''employee_ids'' = [] \<or> slice_at out ''org_unit_ids'' = []"
    and "bounded_by out c" "bounded_by out d"
  shows "scope_within s t"
proof -
  have ne: "slice_at out ''employee_ids'' \<noteq> []"
    if "slice_at c ''employee_ids'' \<noteq> [] \<or> slice_at d ''employee_ids'' \<noteq> []"
    using that bounded_byD(1) [OF assms(7), of "''employee_ids''"] bounded_byD(1) [OF assms(8), of "''employee_ids''"]
    by auto
  have no: "slice_at out ''org_unit_ids'' \<noteq> []"
    if "slice_at c ''org_unit_ids'' \<noteq> [] \<or> slice_at d ''org_unit_ids'' \<noteq> []"
    using that bounded_byD(1) [OF assms(7), of "''org_unit_ids''"] bounded_byD(1) [OF assms(8), of "''org_unit_ids''"]
    by auto
  from materialized_kinds [OF assms(2,4)] show ?thesis
  proof (elim disjE conjE)
    assume "tenant_wide t" then show ?thesis by (simp add: scope_within_def)
  next
    assume t: "employee_scope t" "slice_at d ''employee_ids'' \<noteq> []"
    from materialized_kinds [OF assms(1,3)] show ?thesis
    proof (elim disjE conjE)
      assume "tenant_wide s"
      then show ?thesis
        using rank_facts(1) [of s] employee_rank [OF t(1)] assms(5) by (auto simp: scope_within_def)
    qed (use t ne no assms(5,6) employee_within in auto)
  next
    assume t: "unit_scope t" "slice_at d ''org_unit_ids'' \<noteq> []"
    from materialized_kinds [OF assms(1,3)] show ?thesis
    proof (elim disjE conjE)
      assume "tenant_wide s"
      then show ?thesis
        using rank_facts(1) [of s] rank_facts(2) [OF t(1)] assms(5) by (auto simp: scope_within_def)
    qed (use t ne no assms(5,6) unit_within in auto)
  qed
qed

lemma intersectScopes_kept:
  assumes "intersectScopes ls lc rs rc = (sc, c, False)" "sc \<noteq> ScopeCustomCondition"
    and "materialized employeeID ls lc" "materialized employeeID rs rc"
  shows "ls \<noteq> ScopeCustomCondition" "rs \<noteq> ScopeCustomCondition"
    "sc = ls \<and> (rs = ScopeAll \<or> ls = rs \<or> scopeRank ls < scopeRank rs) \<or>
     sc = rs \<and> (ls = ScopeAll \<or> rs = ls \<or> scopeRank rs < scopeRank ls)"
proof -
  note ne = materialized_nonempty [OF assms(3)] materialized_nonempty [OF assms(4)]
  note sc = intersectScopes_scope [OF assms(1) ne assms(2)]
  have all: "ScopeCustomCondition \<noteq> ScopeAll" by simp
  show l: "ls \<noteq> ScopeCustomCondition"
  proof
    assume ls: "ls = ScopeCustomCondition"
    then have "rs = ScopeCustomCondition \<or> scopeRank rs > scopeRank ls"
      using custom_rank [OF assms(4)] rank_facts(6) by auto
    then have "sc = ScopeCustomCondition"
      using sc(1,2) narrower_cases [OF ne] by (auto simp: ls narrowerScope_def)
    with assms(2) show False by simp
  qed
  show r: "rs \<noteq> ScopeCustomCondition"
  proof
    assume rs: "rs = ScopeCustomCondition"
    then have "scopeRank ls > scopeRank rs"
      using custom_rank [OF assms(3) l] rank_facts(6) by auto
    then have "sc = ScopeCustomCondition"
      using sc(1) narrower_cases [OF ne] by (auto simp: rs)
    with assms(2) show False by simp
  qed
  show "sc = ls \<and> (rs = ScopeAll \<or> ls = rs \<or> scopeRank ls < scopeRank rs) \<or>
     sc = rs \<and> (ls = ScopeAll \<or> rs = ls \<or> scopeRank rs < scopeRank ls)"
    using sc(1,2) narrower_cases [OF ne] by (auto simp: narrowerScope_def split: if_splits)
qed

text \<open>C5.  An intersection of two data scopes selects nothing outside either side, when the conditions
  of both sides carry what their scopes need (the own id for a self scope, at least one report,
  unit or custom filter for the others) and the sides do not restrict the employee status under the
  two different keys: an employee the intersected scope selects is then selected by the left scope
  and by the right scope.  Without the conditions the code does not keep it
  (\<open>intersectScopes_no_reports_fails_open\<close>, \<open>intersectScopes_status_key_lost\<close>).\<close>

theorem intersectScopes_sound:
  assumes "intersectScopes ls lc rs rc = (sc, c, False)"
    and l: "materialized employeeID ls lc" and r: "materialized employeeID rs rc"
    and status: "same_status_key lc rc"
    and sel: "scope_selects employeeID units sc c e"
  shows "scope_selects employeeID units ls lc e \<and> scope_selects employeeID units rs rc e"
proof -
  note ne = materialized_nonempty [OF l] materialized_nonempty [OF r]
  from l r have wf: "map_wf rc" "clean_conditions lc" "clean_conditions rc"
    by (simp_all add: materialized_def)
  obtain out where out: "intersectScopeConditions lc rc = (out, False)"
    and moment: "\<And>key. isStructuredScopeConditionKey key \<Longrightarrow> slice_at c key = slice_at out key"
    using intersectScopes_slices [OF assms(1) ne] by blast
  note b = intersectScopeConditions_bounded [OF wf out]
  have bounded: "bounded_by c lc" "bounded_by c rc" and clean: "clean_conditions c"
    using b moment by (simp_all add: bounded_by_def clean_conditions_def structuredKeys_iff)
  have union: "set (slice_at c ''employee_statuses'') \<subseteq>
      set (slice_at lc ''employee_statuses'') \<union> set (slice_at rc ''employee_statuses'')"
    using intersect_slice_union [OF wf(1) out, of "''employee_statuses''"] moment by simp
  show ?thesis
  proof (cases "sc = ScopeCustomCondition")
    case True
    with sel have custom: "conditions_select c e" by (simp add: scope_selects_def)
    have "slice_at c ''employee_statuses'' = []"
      if "slice_at lc ''statuses'' \<noteq> [] \<and> slice_at lc ''employee_statuses'' = [] \<or>
          slice_at rc ''statuses'' \<noteq> [] \<and> slice_at rc ''employee_statuses'' = []"
      using that status union by (auto simp: same_status_key_def)
    then show ?thesis
      using custom_selects_within [OF clean bounded(1) custom _ l]
        custom_selects_within [OF clean bounded(2) custom _ r] by blast
  next
    case False
    note kept = intersectScopes_kept [OF assms(1) False l r]
    note one = intersectScopes_scope(3) [OF assms(1) ne False]
    have refl: "scope_within t t" and wide: "scope_within t ScopeAll" for t
      by (simp_all add: scope_within_def tenant_wide_def)
    have "scope_within sc ls \<and> scope_within sc rs"
      using kept(3) refl wide kept_within [OF l r kept(1,2) _ one bounded]
        kept_within [OF r l kept(2,1) _ one bounded(2,1)]
      by (elim disjE conjE) simp_all
    moreover have "set (slice_at c ''employee_ids'') \<subseteq> {employeeID}" if self: "sc \<in> {ScopeSelf, ScopeOwn}"
    proof -
      have own: "slice_at d ''employee_ids'' = [employeeID]" if mat: "materialized employeeID sc d" for d
        using self mat by (elim insertE) (simp_all add: materialized_def tenant_wide_def unit_scope_def)
      have "set (slice_at c ''employee_ids'') \<subseteq> {employeeID}"
        if "materialized employeeID sc d" "bounded_by c d" for d
        using own [OF that(1)] bounded_byD(2) [OF that(2), of "''employee_ids''"] by auto
      with kept(3) l r bounded show ?thesis by blast
    qed
    ultimately show ?thesis
      using scope_within_selects [OF _ l bounded(1) sel False] scope_within_selects [OF _ r bounded(2) sel False]
      by blast
  qed
qed

theorem intersectScopes_sound_witness:
  "scope_selects ''e1'' [] ScopeDepartment [(''org_unit_ids'', VStrs [''hr''])]
     (zero_Employee\<lparr>emp_ID := ''e1'', emp_OrgUnitID := ''hr''\<rparr>) \<and>
   scope_selects ''e1'' [] ScopeSelf [(''employee_ids'', VStrs [''e1''])]
     (zero_Employee\<lparr>emp_ID := ''e1'', emp_OrgUnitID := ''hr''\<rparr>)"
proof (rule intersectScopes_sound [where sc = ScopeCustomCondition])
  show "intersectScopes ScopeDepartment [(''org_unit_ids'', VStrs [''hr''])]
      ScopeSelf [(''employee_ids'', VStrs [''e1''])] =
    (ScopeCustomCondition, [(''org_unit_ids'', VStrs [''hr'']), (''employee_ids'', VStrs [''e1'']),
      (''scope'', VScope ScopeCustomCondition)], False)"
    by code_simp
  show "materialized ''e1'' ScopeDepartment [(''org_unit_ids'', VStrs [''hr''])]"
    "materialized ''e1'' ScopeSelf [(''employee_ids'', VStrs [''e1''])]"
    "same_status_key [(''org_unit_ids'', VStrs [''hr''])] [(''employee_ids'', VStrs [''e1''])]"
    by code_simp+
  show "scope_selects ''e1'' [] ScopeCustomCondition
      [(''org_unit_ids'', VStrs [''hr'']), (''employee_ids'', VStrs [''e1'']),
       (''scope'', VScope ScopeCustomCondition)]
      (zero_Employee\<lparr>emp_ID := ''e1'', emp_OrgUnitID := ''hr''\<rparr>)"
    by code_simp
qed

section \<open>What a choice selects\<close>

definition merge_scope_value :: "string \<Rightarrow> val \<Rightarrow> val option \<Rightarrow> val option" where
  "merge_scope_value key v existing =
     (if key \<in> {''employee_ids'', ''org_unit_ids''} then
        let merged = uniqueStrings
              (stringSliceFromAny (case existing of Some e \<Rightarrow> e | None \<Rightarrow> VNil) @ stringSliceFromAny v) in
        (if merged \<noteq> [] then Some (VStrs merged) else existing)
      else if existing = None then Some v else existing)"

lemma mergeScope_step_value:
  "map_of (mergeScope_step (k, v) out) = (map_of out)(k := merge_scope_value k v (map_of out k))"
  by (auto simp: mergeScope_step_def merge_scope_value_def map_at_def Let_def fun_eq_iff)

lemma map_of_mergeScopeConditions:
  assumes "map_wf candidate"
  shows "map_of (mergeScopeConditions current candidate) k =
    (case map_of candidate k of
       None \<Rightarrow> map_of current k
     | Some v \<Rightarrow> merge_scope_value k v (map_of current k))"
  using map_of_fold_keyed [of mergeScope_step merge_scope_value, OF mergeScope_step_value assms]
  by (simp add: mergeScopeConditions_def)

lemma mergeScopeConditions_slice:
  assumes "map_wf candidate" "key \<in> {''employee_ids'', ''org_unit_ids''}"
  shows "set (slice_at (mergeScopeConditions current candidate) key) \<subseteq>
    set (slice_at current key) \<union> set (slice_at candidate key)"
proof (cases "map_of candidate key")
  case None
  then show ?thesis
    using map_of_mergeScopeConditions [OF assms(1), of current key] by (simp add: slice_at_def map_at_def)
next
  case (Some v)
  then show ?thesis
    using map_of_mergeScopeConditions [OF assms(1), of current key] assms(2)
    by (cases "map_of current key") (auto simp: slice_at_def map_at_def merge_scope_value_def Let_def split: if_splits)
qed

lemma orgUnitInScope_Un:
  "orgUnitInScope units u (A \<union> B) \<longleftrightarrow> orgUnitInScope units u A \<or> orgUnitInScope units u B"
  by (auto simp: orgUnitInScope_def)

definition own_scope :: "string \<Rightarrow> bool" where
  "own_scope s \<longleftrightarrow> s = ScopeSelf \<or> s = ScopeOwn"

text \<open>The pair whose unit lists the code unions although it reads them differently: the
  subtree scope includes the units below, the assigned scope does not.\<close>

definition subtree_assigned :: "string \<Rightarrow> string \<Rightarrow> bool" where
  "subtree_assigned s t \<longleftrightarrow> s = ScopeDepartmentSubtree \<and> t = ScopeAssignedOrgUnits"

lemma equal_rank:
  assumes "materialized employeeID s c" "materialized employeeID t d" "scopeRank s = scopeRank t"
  shows "tenant_wide s \<and> tenant_wide t \<or> own_scope s \<and> own_scope t \<or> s = t \<or>
    subtree_assigned t s \<or> subtree_assigned s t"
proof (cases "s = ScopeCustomCondition \<or> t = ScopeCustomCondition")
  case True
  then have "s = ScopeCustomCondition \<and> t = ScopeCustomCondition"
    using custom_rank [OF assms(1)] custom_rank [OF assms(2)] assms(3) rank_facts(6) by (metis less_irrefl)
  then show ?thesis by (elim conjE) (simp only: simp_thms)
next
  case False
  have ranks: "tenant_wide u \<Longrightarrow> scopeRank u \<ge> 100" "employee_scope u \<Longrightarrow> scopeRank u < 70"
    "unit_scope u \<Longrightarrow> scopeRank u \<ge> 70 \<and> scopeRank u < 100" for u
    using rank_facts(1,2) [of u] employee_rank [of u] by auto
  have emp: "own_scope s \<and> own_scope t \<or> s = t" if "employee_scope s" "employee_scope t"
    using that assms(3) unfolding employee_scope_def
    by (elim disjE) (simp_all add: rank_facts own_scope_def)
  have unit: "s = t \<or> subtree_assigned t s \<or> subtree_assigned s t" if "unit_scope s" "unit_scope t"
    using that assms(3) unfolding unit_scope_def
    by (elim disjE) (simp_all add: scopeRank_def subtree_assigned_def)
  have "tenant_wide s \<or> employee_scope s \<or> unit_scope s" "tenant_wide t \<or> employee_scope t \<or> unit_scope t"
    using False materialized_kinds [OF assms(1)] materialized_kinds [OF assms(2)] by blast+
  then show ?thesis
    using ranks [of s] ranks [of t] assms(3) emp unit by (elim disjE) (simp_all, blast+)
qed

text \<open>Choosing between the scopes of two grants does not widen them: whoever the chosen
  scope selects is selected by one of the two.  Excluded are the two mixed cases in which the
  code unions the id lists of scopes that read them differently.\<close>

theorem chooseScope_within:
  assumes "chooseScope s c t d = (sc, cc)"
    and s: "materialized employeeID s c" and t: "materialized employeeID t d"
    and "\<not> (s = ScopeCustomCondition \<and> t = ScopeCustomCondition)"
    and "\<not> subtree_assigned s t"
    and sel: "scope_selects employeeID units sc cc e"
  shows "scope_selects employeeID units s c e \<or> scope_selects employeeID units t d e"
proof (cases "scopeRank t = scopeRank s")
  case False
  with assms(1) materialized_nonempty [OF s] materialized_nonempty [OF t] sel show ?thesis
    by (auto simp: chooseScope_def split: if_splits)
next
  case True
  with assms(1) materialized_nonempty [OF s] materialized_nonempty [OF t]
  have sc: "sc = s" "cc = mergeScopeConditions c d" by (simp_all add: chooseScope_def)
  have wf: "map_wf d" using t by (simp add: materialized_def)
  have emp: "set (slice_at cc ''employee_ids'') \<subseteq> set (slice_at c ''employee_ids'') \<union> set (slice_at d ''employee_ids'')"
    and org: "set (slice_at cc ''org_unit_ids'') \<subseteq> set (slice_at c ''org_unit_ids'') \<union> set (slice_at d ''org_unit_ids'')"
    unfolding sc by (rule mergeScopeConditions_slice [OF wf], simp)+
  have selected: "scope_selects employeeID units s cc e" using sel sc(1) by simp
  from equal_rank [OF s t True [symmetric]] show ?thesis
  proof (elim disjE conjE)
    assume "tenant_wide s"
    then show ?thesis unfolding tenant_wide_def by (elim disjE) (simp_all add: scope_selects_def)
  next
    assume "own_scope s"
    with selected show ?thesis unfolding own_scope_def by (elim disjE) (simp_all add: scope_selects_def)
  next
    assume eq: "s = t"
    with assms(4) have "s \<noteq> ScopeCustomCondition" by simp
    from materialized_kinds [OF s this] show ?thesis
    proof (elim disjE conjE)
      assume "tenant_wide s"
      then show ?thesis unfolding tenant_wide_def by (elim disjE) (simp_all add: scope_selects_def)
    next
      assume "employee_scope s"
      with selected emp [THEN subsetD, of "emp_ID e"] show ?thesis
        unfolding employee_scope_def eq [symmetric] by (elim disjE) (auto simp: scope_selects_def)
    next
      assume "unit_scope s"
      with selected org [THEN subsetD, of "emp_OrgUnitID e"] orgUnitInScope_mono [OF _ org, of units "emp_OrgUnitID e"]
      show ?thesis
        unfolding unit_scope_def eq [symmetric]
        by (elim disjE) (auto simp: scope_selects_def orgUnitInScope_Un, auto simp: orgUnitInScope_def)
    qed
  next
    assume "subtree_assigned t s"
    then have kinds: "s = ScopeAssignedOrgUnits" "t = ScopeDepartmentSubtree"
      by (simp_all add: subtree_assigned_def)
    from selected have "emp_OrgUnitID e \<in> set (slice_at cc ''org_unit_ids'')"
      by (simp add: kinds scope_selects_def)
    with org have "emp_OrgUnitID e \<in> set (slice_at c ''org_unit_ids'') \<or>
        emp_OrgUnitID e \<in> set (slice_at d ''org_unit_ids'')" by blast
    then show ?thesis
      by (elim disjE) (auto simp: kinds scope_selects_def orgUnitInScope_member)
  qed (use assms(5) in simp)
qed

lemma chooseScope_within_witness:
  "scope_selects ''e1'' [] ScopeDepartment [(''org_unit_ids'', VStrs [''hr''])]
     (zero_Employee\<lparr>emp_ID := ''e2'', emp_OrgUnitID := ''it''\<rparr>) \<or>
   scope_selects ''e1'' [] ScopeDepartment [(''org_unit_ids'', VStrs [''it''])]
     (zero_Employee\<lparr>emp_ID := ''e2'', emp_OrgUnitID := ''it''\<rparr>)"
proof (rule chooseScope_within [where sc = ScopeDepartment])
  show "chooseScope ScopeDepartment [(''org_unit_ids'', VStrs [''hr''])]
      ScopeDepartment [(''org_unit_ids'', VStrs [''it''])] =
    (ScopeDepartment, [(''org_unit_ids'', VStrs [''hr'', ''it''])])"
    by code_simp
  show "materialized ''e1'' ScopeDepartment [(''org_unit_ids'', VStrs [''hr''])]"
    "materialized ''e1'' ScopeDepartment [(''org_unit_ids'', VStrs [''it''])]"
    by code_simp+
  show "\<not> (ScopeDepartment = ScopeCustomCondition \<and> ScopeDepartment = ScopeCustomCondition)"
    "\<not> subtree_assigned ScopeDepartment ScopeDepartment"
    by code_simp+
  show "scope_selects ''e1'' [] ScopeDepartment [(''org_unit_ids'', VStrs [''hr'', ''it''])]
     (zero_Employee\<lparr>emp_ID := ''e2'', emp_OrgUnitID := ''it''\<rparr>)"
    by code_simp
qed

section \<open>Where the code departs from the specification\<close>

text \<open>The mixed case of \<open>chooseScope\<close>: a grant on the subtree of one unit and a grant on
  an assigned unit together show the units below the assigned one, which neither grant shows.\<close>

theorem chooseScope_subtree_assigned_escalates:
  "(let units = [zero_OrgUnit\<lparr>ou_ID := ''eng''\<rparr>, zero_OrgUnit\<lparr>ou_ID := ''eng-be'', ou_Path := [''eng'']\<rparr>];
        c = [(''org_unit_ids'', VStrs [''hr''])]; d = [(''org_unit_ids'', VStrs [''eng''])];
        e = zero_Employee\<lparr>emp_ID := ''e2'', emp_OrgUnitID := ''eng-be''\<rparr>;
        (sc, cc) = chooseScope ScopeDepartmentSubtree c ScopeAssignedOrgUnits d
    in scope_selects ''e1'' units sc cc e \<and>
       \<not> scope_selects ''e1'' units ScopeDepartmentSubtree c e \<and>
       \<not> scope_selects ''e1'' units ScopeAssignedOrgUnits d e)"
  by code_simp

text \<open>\<open>intersectScopes\<close> fails open for a manager without reports: the empty id list of the
  left scope is not noticed, and the result selects everyone the custom condition selects.\<close>

theorem intersectScopes_no_reports_fails_open:
  "(let c = [(''tenant_id'', VStr ''t''), (''employee_ids'', VStrs [])];
        d = [(''tenant_id'', VStr ''t''), (''org_unit_ids'', VStrs [''eng''])];
        e = zero_Employee\<lparr>emp_ID := ''e2'', emp_OrgUnitID := ''eng''\<rparr>;
        (sc, cc, isEmpty) = intersectScopes ScopeDirectReports c ScopeCustomCondition d
    in \<not> isEmpty \<and> scope_selects ''e1'' [] sc cc e \<and> \<not> scope_selects ''e1'' [] ScopeDirectReports c e)"
  by code_simp

text \<open>The two status keys are intersected apart but read as one: a restriction under
  \<open>statuses\<close> is lost when the other side restricts \<open>employee_statuses\<close>.\<close>

theorem intersectScopes_status_key_lost:
  "(let c = [(''statuses'', VStrs [''active''])]; d = [(''employee_statuses'', VStrs [''left''])];
        e = zero_Employee\<lparr>emp_ID := ''e2'', emp_Status := ''left''\<rparr>;
        (sc, cc, isEmpty) = intersectScopes ScopeCustomCondition c ScopeCustomCondition d
    in \<not> isEmpty \<and> scope_selects ''e1'' [] sc cc e \<and> \<not> scope_selects ''e1'' [] ScopeCustomCondition c e)"
  by code_simp

text \<open>A session policy can replace the data scope of the role boundary it is merged into:
  only \<open>allow\<close> and \<open>deny\<close> are narrowed, every other key is overwritten.\<close>

theorem mergePolicy_replaces_boundary_scope:
  "boundaryScopeSpec [(''scope'', VStr ''self'')] = Some (ScopeSelf, []) \<and>
   boundaryScopeSpec (mergePolicy [(''scope'', VStr ''self'')] [(''scope'', VStr ''all'')]) = Some (ScopeAll, [])"
  by code_simp

end
