(* ===== verification/Memory_Store.thy ===== *)
theory Memory_Store
  imports Domain_Errors
begin

text \<open>
  The in-memory repository (\<open>src/internal/repository/memory/store.go\<close>), as far as
  authorization, identity and the outbox use it.  A table is a map from tenants to a map from ids
  to rows (\<open>getNested\<close>, \<open>putNested\<close>, \<open>delete\<close>); the locale
  \<open>tenant_table\<close> is its contract: a write is read back under its own tenant and id, and
  touches no other row, in particular no row of another tenant.  The store is the record
  \<open>mem_store\<close>; operations that Go performs under one lock are one function.  The deep copies
  the Go code makes of rows are identities on immutable values.  Wall-clock time is an argument.
\<close>

section \<open>Tables\<close>

type_synonym 'a table = "(string, (string, 'a) gomap) gomap"

definition bucket :: "'a table \<Rightarrow> string \<Rightarrow> (string, 'a) gomap" where
  "bucket t tenantID = (case map_of t tenantID of None \<Rightarrow> [] | Some sub \<Rightarrow> sub)"

definition getNested :: "'a table \<Rightarrow> string \<Rightarrow> string \<Rightarrow> 'a option" where
  "getNested t tenantID ident =
     (case map_of t tenantID of
        None \<Rightarrow> None
      | Some sub \<Rightarrow> map_of sub ident)"

definition putNested :: "'a table \<Rightarrow> string \<Rightarrow> string \<Rightarrow> 'a \<Rightarrow> 'a table" where
  "putNested t tenantID ident v =
     (let sub = (case map_of t tenantID of None \<Rightarrow> [] | Some sub \<Rightarrow> sub)
      in map_put tenantID (map_put ident v sub) t)"

definition deleteNested :: "'a table \<Rightarrow> string \<Rightarrow> string \<Rightarrow> 'a table" where
  "deleteNested t tenantID ident =
     (case map_of t tenantID of
        None \<Rightarrow> t
      | Some sub \<Rightarrow> map_put tenantID (map_del ident sub) t)"

definition copyNestedValues :: "(string, 'a) gomap \<Rightarrow> 'a list" where
  "copyNestedValues sub = map snd sub"

definition table_wf :: "'a table \<Rightarrow> bool" where
  "table_wf t \<longleftrightarrow> map_wf t \<and> (\<forall>(k, sub) \<in> set t. map_wf sub)"

locale tenant_table =
  fixes get :: "'t \<Rightarrow> string \<Rightarrow> string \<Rightarrow> 'a option"
    and put :: "'t \<Rightarrow> string \<Rightarrow> string \<Rightarrow> 'a \<Rightarrow> 't"
    and del :: "'t \<Rightarrow> string \<Rightarrow> string \<Rightarrow> 't"
    and rows :: "'t \<Rightarrow> string \<Rightarrow> 'a list"
    and invar :: "'t \<Rightarrow> bool"
  assumes get_put: "invar t \<Longrightarrow> get (put t n i v) n' i' = (if n' = n \<and> i' = i then Some v else get t n' i')"
    and get_del: "invar t \<Longrightarrow> get (del t n i) n' i' = (if n' = n \<and> i' = i then None else get t n' i')"
    and rows_get: "invar t \<Longrightarrow> v \<in> set (rows t n) \<longleftrightarrow> (\<exists>i. get t n i = Some v)"
    and invar_put: "invar t \<Longrightarrow> invar (put t n i v)"
    and invar_del: "invar t \<Longrightarrow> invar (del t n i)"
begin

lemma get_put_same: "invar t \<Longrightarrow> get (put t n i v) n i = Some v"
  by (simp add: get_put)

lemma rows_put_other_tenant:
  "invar t \<Longrightarrow> n' \<noteq> n \<Longrightarrow> set (rows (put t n i v) n') = set (rows t n')"
  by (auto simp: rows_get invar_put get_put)

lemma rows_put_subset: "invar t \<Longrightarrow> set (rows (put t n i v) n) \<subseteq> insert v (set (rows t n))"
  by (auto simp: rows_get invar_put get_put split: if_splits)

lemma rows_del_subset: "invar t \<Longrightarrow> set (rows (del t n i) n') \<subseteq> set (rows t n')"
  by (auto simp: rows_get invar_del get_del split: if_splits)

text \<open>Every row of a table stays in the bucket of its own key when rows are put under it.\<close>

definition keyed :: "('a \<Rightarrow> string) \<Rightarrow> ('a \<Rightarrow> string) \<Rightarrow> 't \<Rightarrow> bool" where
  "keyed tenant_of id_of t \<longleftrightarrow> invar t \<and> (\<forall>n i v. get t n i = Some v \<longrightarrow> tenant_of v = n \<and> id_of v = i)"

lemma keyed_put: "keyed f g t \<Longrightarrow> f v = n \<Longrightarrow> g v = i \<Longrightarrow> keyed f g (put t n i v)"
  by (auto simp: keyed_def invar_put get_put split: if_splits)

lemma keyed_del: "keyed f g t \<Longrightarrow> keyed f g (del t n i)"
  by (auto simp: keyed_def invar_del get_del split: if_splits)

lemma keyed_rows: "keyed f g t \<Longrightarrow> v \<in> set (rows t n) \<Longrightarrow> f v = n"
  by (auto simp: keyed_def rows_get)

end

lemma table_wf_bucket: "table_wf t \<Longrightarrow> map_wf (bucket t n)"
  by (auto simp: table_wf_def bucket_def split: option.split dest: map_of_SomeD)

lemma table_wf_put_bucket:
  assumes "table_wf t" "map_wf sub"
  shows "table_wf (map_put n sub t)"
  using assms set_map_put [of n sub t] by (auto simp: table_wf_def)

interpretation tab: tenant_table getNested putNested deleteNested
  "\<lambda>t n. copyNestedValues (bucket t n)" table_wf
proof
  fix t :: "'a table" and n i n' i' :: string and v
  assume wf: "table_wf t"
  show "getNested (putNested t n i v) n' i' = (if n' = n \<and> i' = i then Some v else getNested t n' i')"
    by (auto simp: getNested_def putNested_def Let_def split: option.split)
  show "getNested (deleteNested t n i) n' i' = (if n' = n \<and> i' = i then None else getNested t n' i')"
    by (auto simp: getNested_def deleteNested_def split: option.split)
  show "v \<in> set (copyNestedValues (bucket t n)) \<longleftrightarrow> (\<exists>i. getNested t n i = Some v)"
    using table_wf_bucket [OF wf, of n]
    by (force simp: copyNestedValues_def bucket_def getNested_def map_of_eq_Some_iff split: option.splits)
  show "table_wf (putNested t n i v)"
    using table_wf_bucket [OF wf, of n]
    by (auto simp: putNested_def Let_def intro!: table_wf_put_bucket wf simp flip: bucket_def)
  show "table_wf (deleteNested t n i)"
    using table_wf_bucket [OF wf, of n] wf
    by (auto simp: deleteNested_def bucket_def intro!: table_wf_put_bucket split: option.splits)
qed

section \<open>The store\<close>

record mem_store =
  st_tenants :: "(string, Tenant) gomap"
  st_accounts :: "Account table"
  st_userGroups :: "UserGroup table"
  st_groupMemberships :: "GroupMembership table"
  st_permissionSets :: "PermissionSet table"
  st_permissionCatalog :: "PermissionCatalogItem table"
  st_assignments :: "PermissionSetAssignment table"
  st_dataScopes :: "DataScope table"
  st_fieldPolicies :: "FieldPolicy table"
  st_assumableRoles :: "AssumableRole table"
  st_roleSessions :: "AssumableRoleSession table"
  st_orgUnits :: "OrgUnit table"
  st_employees :: "Employee table"
  st_permissionVersions :: "(string, int) gomap"
  st_auditLogs :: "(string, AuditLog list) gomap"
  st_outboxEvents :: "(string, OutboxEvent list) gomap"

definition empty_store :: mem_store where
  "empty_store = \<lparr> st_tenants = [], st_accounts = [], st_userGroups = [], st_groupMemberships = [],
     st_permissionSets = [], st_permissionCatalog = [], st_assignments = [], st_dataScopes = [],
     st_fieldPolicies = [], st_assumableRoles = [], st_roleSessions = [], st_orgUnits = [],
     st_employees = [], st_permissionVersions = [], st_auditLogs = [], st_outboxEvents = [] \<rparr>"

section \<open>Tenants, accounts and groups\<close>

definition GetTenant :: "mem_store \<Rightarrow> string \<Rightarrow> Tenant option" where
  "GetTenant s ident = map_of (st_tenants s) ident"

definition PreferredLocaleWithDefault :: "string \<Rightarrow> string" where
  "PreferredLocaleWithDefault v = (if TrimSpace v = [] then ''zh-TW'' else v)"

text \<open>Optimistic locking: a write that names a version must name the current one.\<close>

definition UpsertAccount :: "mem_store \<Rightarrow> Account \<Rightarrow> mem_store res" where
  "UpsertAccount s v =
     (let v = v\<lparr>acc_PreferredLocale := PreferredLocaleWithDefault (acc_PreferredLocale v)\<rparr> in
      case getNested (st_accounts s) (acc_TenantID v) (acc_ID v) of
        Some existing \<Rightarrow>
          (if acc_Version v > 0 \<and> acc_Version existing \<noteq> acc_Version v
           then Inl (AppErr (Conflict ''account was modified concurrently''))
           else Inr (s\<lparr>st_accounts := putNested (st_accounts s) (acc_TenantID v) (acc_ID v)
                        (v\<lparr>acc_Version := acc_Version existing + 1\<rparr>)\<rparr>))
      | None \<Rightarrow>
          Inr (s\<lparr>st_accounts := putNested (st_accounts s) (acc_TenantID v) (acc_ID v)
                   (v\<lparr>acc_Version := 1\<rparr>)\<rparr>))"

definition GetAccount :: "mem_store \<Rightarrow> string \<Rightarrow> string \<Rightarrow> Account option" where
  "GetAccount s tenantID ident = getNested (st_accounts s) tenantID ident"

definition ListAccounts :: "mem_store \<Rightarrow> string \<Rightarrow> Account list" where
  "ListAccounts s tenantID = sort_key acc_CreatedAt (copyNestedValues (bucket (st_accounts s) tenantID))"

definition UpsertUserGroup :: "mem_store \<Rightarrow> UserGroup \<Rightarrow> mem_store res" where
  "UpsertUserGroup s v =
     (case getNested (st_userGroups s) (ug_TenantID v) (ug_ID v) of
        Some existing \<Rightarrow>
          (if ug_Version v > 0 \<and> ug_Version existing \<noteq> ug_Version v
           then Inl (AppErr (Conflict ''user group was modified concurrently''))
           else Inr (s\<lparr>st_userGroups := putNested (st_userGroups s) (ug_TenantID v) (ug_ID v)
                        (v\<lparr>ug_Version := ug_Version existing + 1\<rparr>)\<rparr>))
      | None \<Rightarrow>
          Inr (s\<lparr>st_userGroups := putNested (st_userGroups s) (ug_TenantID v) (ug_ID v)
                   (v\<lparr>ug_Version := 1\<rparr>)\<rparr>))"

definition GetUserGroup :: "mem_store \<Rightarrow> string \<Rightarrow> string \<Rightarrow> UserGroup option" where
  "GetUserGroup s tenantID ident = getNested (st_userGroups s) tenantID ident"

definition ListUserGroups :: "mem_store \<Rightarrow> string \<Rightarrow> UserGroup list" where
  "ListUserGroups s tenantID = sort_key ug_CreatedAt (copyNestedValues (bucket (st_userGroups s) tenantID))"

definition DeleteUserGroup :: "mem_store \<Rightarrow> string \<Rightarrow> string \<Rightarrow> mem_store \<times> UserGroup option" where
  "DeleteUserGroup s tenantID ident =
     (case getNested (st_userGroups s) tenantID ident of
        None \<Rightarrow> (s, None)
      | Some v \<Rightarrow> (s\<lparr>st_userGroups := deleteNested (st_userGroups s) tenantID ident\<rparr>, Some v))"

section \<open>Group memberships\<close>

definition groupMembershipKey :: "string \<Rightarrow> string \<Rightarrow> string" where
  "groupMembershipKey userGroupID accountID = userGroupID @ [CHR 0x00] @ accountID"

definition membershipActiveAt :: "GroupMembership \<Rightarrow> int \<Rightarrow> bool" where
  "membershipActiveAt v moment =
     (if gm_ValidFrom v \<noteq> 0 \<and> gm_ValidFrom v > moment then False
      else (case gm_ValidUntil v of None \<Rightarrow> True | Some til \<Rightarrow> moment < til))"

definition uniqueSortedStrings :: "string list \<Rightarrow> string list" where
  "uniqueSortedStrings values = sort (rev (remdups (rev values)))"

definition refreshGroupMembershipProjectionLocked ::
  "mem_store \<Rightarrow> string \<Rightarrow> string \<Rightarrow> string \<Rightarrow> int \<Rightarrow> mem_store" where
  "refreshGroupMembershipProjectionLocked s tenantID userGroupID accountID moment =
     (let s = (case getNested (st_userGroups s) tenantID userGroupID of
                 None \<Rightarrow> s
               | Some g \<Rightarrow>
                   let members = map gm_AccountID (filter (\<lambda>m. gm_UserGroupID m = userGroupID \<and> membershipActiveAt m moment)
                                    (copyNestedValues (bucket (st_groupMemberships s) tenantID)))
                   in s\<lparr>st_userGroups := putNested (st_userGroups s) tenantID userGroupID
                          (g\<lparr>ug_MemberAccountIDs := uniqueSortedStrings members,
                             ug_Version := ug_Version g + 1\<rparr>)\<rparr>)
      in case getNested (st_accounts s) tenantID accountID of
           None \<Rightarrow> s
         | Some a \<Rightarrow>
             let groups = map gm_UserGroupID (filter (\<lambda>m. gm_AccountID m = accountID \<and> membershipActiveAt m moment)
                              (copyNestedValues (bucket (st_groupMemberships s) tenantID)))
             in s\<lparr>st_accounts := putNested (st_accounts s) tenantID accountID
                    (a\<lparr>acc_UserGroupIDs := uniqueSortedStrings groups,
                       acc_Version := acc_Version a + 1\<rparr>)\<rparr>)"

definition UpsertGroupMembership :: "mem_store \<Rightarrow> GroupMembership \<Rightarrow> mem_store" where
  "UpsertGroupMembership s v =
     (let v = (if gm_ID v = [] then v\<lparr>gm_ID := groupMembershipKey (gm_UserGroupID v) (gm_AccountID v)\<rparr> else v);
          s = s\<lparr>st_groupMemberships := putNested (st_groupMemberships s) (gm_TenantID v) (gm_ID v) v\<rparr>
      in refreshGroupMembershipProjectionLocked s (gm_TenantID v) (gm_UserGroupID v) (gm_AccountID v)
           (gm_ValidFrom v))"

text \<open>The scan for the latest matching membership; \<open>CloseGroupMembership\<close> keeps its key too,
  and an empty key means that none was found.\<close>

definition close_step :: "string \<Rightarrow> string \<Rightarrow> int \<Rightarrow> string \<times> GroupMembership \<Rightarrow>
  string \<times> GroupMembership \<Rightarrow> string \<times> GroupMembership" where
  "close_step userGroupID accountID validUntil entry acc =
     (case entry of (key, candidate) \<Rightarrow>
        if gm_UserGroupID candidate = userGroupID \<and> gm_AccountID candidate = accountID \<and>
           membershipActiveAt candidate validUntil \<and>
           (fst acc = [] \<or> gm_ValidFrom candidate > gm_ValidFrom (snd acc))
        then (key, candidate) else acc)"

definition CloseGroupMembership ::
  "mem_store \<Rightarrow> string \<Rightarrow> string \<Rightarrow> string \<Rightarrow> int \<Rightarrow> mem_store \<times> GroupMembership option" where
  "CloseGroupMembership s tenantID userGroupID accountID validUntil =
     (case fold (close_step userGroupID accountID validUntil) (bucket (st_groupMemberships s) tenantID)
             ([], zero_GroupMembership) of
        (key, selected) \<Rightarrow>
          if key = [] then (s, None)
          else let selected = selected\<lparr>gm_ValidUntil := Some validUntil\<rparr>;
                   s = s\<lparr>st_groupMemberships := putNested (st_groupMemberships s) tenantID key selected\<rparr>
               in (refreshGroupMembershipProjectionLocked s tenantID userGroupID accountID validUntil,
                   Some selected))"

definition latest_step :: "string \<Rightarrow> string \<Rightarrow> GroupMembership \<Rightarrow> GroupMembership option \<Rightarrow> GroupMembership option" where
  "latest_step userGroupID accountID candidate found =
     (if gm_UserGroupID candidate = userGroupID \<and> gm_AccountID candidate = accountID \<and>
         (case found of None \<Rightarrow> True | Some v \<Rightarrow> gm_ValidFrom candidate > gm_ValidFrom v)
      then Some candidate else found)"

definition GetGroupMembership :: "mem_store \<Rightarrow> string \<Rightarrow> string \<Rightarrow> string \<Rightarrow> GroupMembership option" where
  "GetGroupMembership s tenantID userGroupID accountID =
     fold (latest_step userGroupID accountID)
       (copyNestedValues (bucket (st_groupMemberships s) tenantID)) None"

definition DeleteGroupMembership ::
  "mem_store \<Rightarrow> int \<Rightarrow> string \<Rightarrow> string \<Rightarrow> string \<Rightarrow> mem_store \<times> GroupMembership option" where
  "DeleteGroupMembership s now tenantID userGroupID accountID =
     (case GetGroupMembership s tenantID userGroupID accountID of
        None \<Rightarrow> (s, None)
      | Some v \<Rightarrow>
          let kept = filter (\<lambda>(key, c). \<not> (gm_UserGroupID c = userGroupID \<and> gm_AccountID c = accountID))
                       (bucket (st_groupMemberships s) tenantID);
              s = s\<lparr>st_groupMemberships := map_put tenantID kept (st_groupMemberships s)\<rparr>
          in (refreshGroupMembershipProjectionLocked s tenantID userGroupID accountID now, Some v))"

definition ListGroupMembershipsForGroup :: "mem_store \<Rightarrow> string \<Rightarrow> string \<Rightarrow> GroupMembership list" where
  "ListGroupMembershipsForGroup s tenantID userGroupID =
     sort_key gm_CreatedAt (filter (\<lambda>item. gm_UserGroupID item = userGroupID)
       (copyNestedValues (bucket (st_groupMemberships s) tenantID)))"

definition ListActiveGroupMembershipsForAccount ::
  "mem_store \<Rightarrow> string \<Rightarrow> string \<Rightarrow> int \<Rightarrow> GroupMembership list" where
  "ListActiveGroupMembershipsForAccount s tenantID accountID moment =
     sort_key gm_CreatedAt (filter (\<lambda>item. gm_AccountID item = accountID \<and> membershipActiveAt item moment)
       (copyNestedValues (bucket (st_groupMemberships s) tenantID)))"

definition AddAccountGroup :: "mem_store \<Rightarrow> string \<Rightarrow> string \<Rightarrow> string \<Rightarrow> mem_store" where
  "AddAccountGroup s tenantID accountID groupID =
     (case getNested (st_accounts s) tenantID accountID of
        None \<Rightarrow> s
      | Some account \<Rightarrow>
          if \<not> ContainsString (acc_UserGroupIDs account) groupID
          then s\<lparr>st_accounts := putNested (st_accounts s) tenantID accountID
                   (account\<lparr>acc_UserGroupIDs := acc_UserGroupIDs account @ [groupID]\<rparr>)\<rparr>
          else s)"

definition RemoveAccountGroup :: "mem_store \<Rightarrow> string \<Rightarrow> string \<Rightarrow> string \<Rightarrow> mem_store" where
  "RemoveAccountGroup s tenantID accountID groupID =
     (case getNested (st_accounts s) tenantID accountID of
        None \<Rightarrow> s
      | Some account \<Rightarrow>
          s\<lparr>st_accounts := putNested (st_accounts s) tenantID accountID
              (account\<lparr>acc_UserGroupIDs := filter (\<lambda>i. i \<noteq> groupID) (acc_UserGroupIDs account)\<rparr>)\<rparr>)"

section \<open>Permission sets, catalogue, assignments\<close>

definition UpsertPermissionSet :: "mem_store \<Rightarrow> PermissionSet \<Rightarrow> mem_store" where
  "UpsertPermissionSet s v =
     s\<lparr>st_permissionSets := putNested (st_permissionSets s) (ps_TenantID v) (ps_ID v) v\<rparr>"

definition GetPermissionSet :: "mem_store \<Rightarrow> string \<Rightarrow> string \<Rightarrow> PermissionSet option" where
  "GetPermissionSet s tenantID ident = getNested (st_permissionSets s) tenantID ident"

definition ListPermissionSets :: "mem_store \<Rightarrow> string \<Rightarrow> PermissionSet list" where
  "ListPermissionSets s tenantID =
     sort_key ps_CreatedAt (copyNestedValues (bucket (st_permissionSets s) tenantID))"

definition catalog_less :: "PermissionCatalogItem \<Rightarrow> PermissionCatalogItem \<Rightarrow> bool" where
  "catalog_less a b =
     (if pci_Application a \<noteq> pci_Application b then pci_Application a < pci_Application b
      else if pci_Resource a \<noteq> pci_Resource b then pci_Resource a < pci_Resource b
      else if pci_Action a \<noteq> pci_Action b then pci_Action a < pci_Action b
      else pci_PermissionType a < pci_PermissionType b)"

definition ListPermissionCatalogItems :: "mem_store \<Rightarrow> string \<Rightarrow> PermissionCatalogItem list" where
  "ListPermissionCatalogItems s tenantID =
     sort_less catalog_less (copyNestedValues (bucket (st_permissionCatalog s) tenantID))"

definition same_catalog_key :: "PermissionCatalogItem \<Rightarrow> PermissionCatalogItem \<Rightarrow> bool" where
  "same_catalog_key existing v \<longleftrightarrow>
     pci_Application existing = pci_Application v \<and> pci_Resource existing = pci_Resource v \<and>
     pci_Action existing = pci_Action v \<and> pci_PermissionType existing = pci_PermissionType v"

definition UpsertPermissionCatalogItem :: "mem_store \<Rightarrow> PermissionCatalogItem \<Rightarrow> mem_store" where
  "UpsertPermissionCatalogItem s v =
     (case List.find (\<lambda>(ident, existing). same_catalog_key existing v)
             (bucket (st_permissionCatalog s) (pci_TenantID v)) of
        Some (ident, existing) \<Rightarrow>
          let v = (if pci_ID v = [] then v\<lparr>pci_ID := pci_ID existing\<rparr> else v);
              v = v\<lparr>pci_CreatedAt := pci_CreatedAt existing\<rparr>
          in s\<lparr>st_permissionCatalog := putNested (st_permissionCatalog s) (pci_TenantID v) ident v\<rparr>
      | None \<Rightarrow>
          s\<lparr>st_permissionCatalog := putNested (st_permissionCatalog s) (pci_TenantID v) (pci_ID v) v\<rparr>)"

definition UpsertPermissionSetAssignment :: "mem_store \<Rightarrow> PermissionSetAssignment \<Rightarrow> mem_store" where
  "UpsertPermissionSetAssignment s v =
     s\<lparr>st_assignments := putNested (st_assignments s) (psa_TenantID v) (psa_ID v) v\<rparr>"

definition DeletePermissionSetAssignment ::
  "mem_store \<Rightarrow> string \<Rightarrow> string \<Rightarrow> mem_store \<times> PermissionSetAssignment option" where
  "DeletePermissionSetAssignment s tenantID ident =
     (case getNested (st_assignments s) tenantID ident of
        None \<Rightarrow> (s, None)
      | Some v \<Rightarrow> (s\<lparr>st_assignments := deleteNested (st_assignments s) tenantID ident\<rparr>, Some v))"

definition ListPermissionSetAssignments :: "mem_store \<Rightarrow> string \<Rightarrow> PermissionSetAssignment list" where
  "ListPermissionSetAssignments s tenantID =
     sort_key psa_CreatedAt (copyNestedValues (bucket (st_assignments s) tenantID))"

definition ListPermissionSetAssignmentsForPrincipal ::
  "mem_store \<Rightarrow> int \<Rightarrow> string \<Rightarrow> string \<Rightarrow> string \<Rightarrow> PermissionSetAssignment list" where
  "ListPermissionSetAssignmentsForPrincipal s now tenantID principalType principalID =
     sort_key psa_CreatedAt (filter (\<lambda>item.
         psa_PrincipalType item = principalType \<and> psa_PrincipalID item = principalID \<and>
         \<not> (case psa_StartsAt item of None \<Rightarrow> False | Some t \<Rightarrow> t > now) \<and>
         \<not> (case psa_ExpiresAt item of None \<Rightarrow> False | Some t \<Rightarrow> \<not> t > now))
       (copyNestedValues (bucket (st_assignments s) tenantID)))"

section \<open>Data scopes, field policies, assumable roles and sessions\<close>

definition UpsertDataScope :: "mem_store \<Rightarrow> DataScope \<Rightarrow> mem_store" where
  "UpsertDataScope s v =
     s\<lparr>st_dataScopes := putNested (st_dataScopes s) (ds_TenantID v) (ds_ID v) v\<rparr>"

definition GetDataScope :: "mem_store \<Rightarrow> string \<Rightarrow> string \<Rightarrow> DataScope option" where
  "GetDataScope s tenantID ident = getNested (st_dataScopes s) tenantID ident"

definition DeleteDataScope :: "mem_store \<Rightarrow> string \<Rightarrow> string \<Rightarrow> mem_store \<times> DataScope option" where
  "DeleteDataScope s tenantID ident =
     (case getNested (st_dataScopes s) tenantID ident of
        None \<Rightarrow> (s, None)
      | Some v \<Rightarrow> (s\<lparr>st_dataScopes := deleteNested (st_dataScopes s) tenantID ident\<rparr>, Some v))"

definition UpsertFieldPolicy :: "mem_store \<Rightarrow> FieldPolicy \<Rightarrow> mem_store" where
  "UpsertFieldPolicy s v =
     s\<lparr>st_fieldPolicies := putNested (st_fieldPolicies s) (fp_TenantID v) (fp_ID v) v\<rparr>"

definition ListFieldPolicies :: "mem_store \<Rightarrow> string \<Rightarrow> string \<Rightarrow> string \<Rightarrow> FieldPolicy list" where
  "ListFieldPolicies s tenantID applicationCode resourceType =
     sort_key fp_FieldName (filter (\<lambda>v.
         (applicationCode = [] \<or> fp_ApplicationCode v = applicationCode) \<and>
         (resourceType = [] \<or> fp_ResourceType v = resourceType))
       (copyNestedValues (bucket (st_fieldPolicies s) tenantID)))"

definition DeleteFieldPolicy :: "mem_store \<Rightarrow> string \<Rightarrow> string \<Rightarrow> mem_store \<times> FieldPolicy option" where
  "DeleteFieldPolicy s tenantID ident =
     (case getNested (st_fieldPolicies s) tenantID ident of
        None \<Rightarrow> (s, None)
      | Some v \<Rightarrow> (s\<lparr>st_fieldPolicies := deleteNested (st_fieldPolicies s) tenantID ident\<rparr>, Some v))"

definition UpsertAssumableRole :: "mem_store \<Rightarrow> AssumableRole \<Rightarrow> mem_store" where
  "UpsertAssumableRole s v =
     s\<lparr>st_assumableRoles := putNested (st_assumableRoles s) (ar_TenantID v) (ar_ID v) v\<rparr>"

definition GetAssumableRole :: "mem_store \<Rightarrow> string \<Rightarrow> string \<Rightarrow> AssumableRole option" where
  "GetAssumableRole s tenantID ident = getNested (st_assumableRoles s) tenantID ident"

definition DeleteAssumableRole :: "mem_store \<Rightarrow> string \<Rightarrow> string \<Rightarrow> mem_store \<times> AssumableRole option" where
  "DeleteAssumableRole s tenantID ident =
     (case getNested (st_assumableRoles s) tenantID ident of
        None \<Rightarrow> (s, None)
      | Some v \<Rightarrow>
          let sessions = (case map_of (st_roleSessions s) tenantID of
                            None \<Rightarrow> st_roleSessions s
                          | Some sub \<Rightarrow>
                              map_put tenantID (filter (\<lambda>(_, x). ars_AssumableRoleID x \<noteq> ident) sub)
                                (st_roleSessions s))
          in (s\<lparr>st_roleSessions := sessions,
                st_assumableRoles := deleteNested (st_assumableRoles s) tenantID ident\<rparr>, Some v))"

definition UpsertAssumableRoleSession :: "mem_store \<Rightarrow> AssumableRoleSession \<Rightarrow> mem_store" where
  "UpsertAssumableRoleSession s v =
     s\<lparr>st_roleSessions := putNested (st_roleSessions s) (ars_TenantID v) (ars_ID v) v\<rparr>"

definition GetAssumableRoleSession :: "mem_store \<Rightarrow> string \<Rightarrow> string \<Rightarrow> AssumableRoleSession option" where
  "GetAssumableRoleSession s tenantID ident = getNested (st_roleSessions s) tenantID ident"

definition GetActiveAssumableRoleSession ::
  "mem_store \<Rightarrow> int \<Rightarrow> string \<Rightarrow> string \<Rightarrow> AssumableRoleSession option" where
  "GetActiveAssumableRoleSession s now tenantID ident =
     (case getNested (st_roleSessions s) tenantID ident of
        None \<Rightarrow> None
      | Some v \<Rightarrow> if ars_RevokedAt v \<noteq> None \<or> \<not> ars_ExpiresAt v > now then None else Some v)"

definition RevokeAssumableRoleSession ::
  "mem_store \<Rightarrow> string \<Rightarrow> string \<Rightarrow> string \<Rightarrow> int \<Rightarrow> mem_store \<times> AssumableRoleSession option" where
  "RevokeAssumableRoleSession s tenantID accountID ident revokedAt =
     (case getNested (st_roleSessions s) tenantID ident of
        None \<Rightarrow> (s, None)
      | Some v \<Rightarrow>
          if ars_AccountID v \<noteq> accountID \<or> ars_RevokedAt v \<noteq> None then (s, None)
          else let v = v\<lparr>ars_RevokedAt := Some revokedAt\<rparr>
               in (s\<lparr>st_roleSessions := putNested (st_roleSessions s) tenantID ident v\<rparr>, Some v))"

definition ListActiveAssumableRoleSessionsForRole ::
  "mem_store \<Rightarrow> int \<Rightarrow> string \<Rightarrow> string \<Rightarrow> AssumableRoleSession list" where
  "ListActiveAssumableRoleSessionsForRole s now tenantID roleID =
     sort_key ars_CreatedAt (filter (\<lambda>v. ars_AssumableRoleID v = roleID \<and>
         \<not> (ars_RevokedAt v \<noteq> None \<or> \<not> ars_ExpiresAt v > now))
       (copyNestedValues (bucket (st_roleSessions s) tenantID)))"

section \<open>Organisation units and employees\<close>

definition UpsertOrgUnit :: "mem_store \<Rightarrow> OrgUnit \<Rightarrow> mem_store" where
  "UpsertOrgUnit s v =
     (let v = (if ou_UpdatedAt v = 0 then v\<lparr>ou_UpdatedAt := ou_CreatedAt v\<rparr> else v);
          v = (case getNested (st_orgUnits s) (ou_TenantID v) (ou_ID v) of
                 Some current \<Rightarrow> v\<lparr>ou_ShowInOrgChart := ou_ShowInOrgChart current\<rparr>
               | None \<Rightarrow> v\<lparr>ou_ShowInOrgChart := True\<rparr>)
      in s\<lparr>st_orgUnits := putNested (st_orgUnits s) (ou_TenantID v) (ou_ID v) v\<rparr>)"

definition GetOrgUnit :: "mem_store \<Rightarrow> string \<Rightarrow> string \<Rightarrow> OrgUnit option" where
  "GetOrgUnit s tenantID ident = getNested (st_orgUnits s) tenantID ident"

definition org_unit_less :: "OrgUnit \<Rightarrow> OrgUnit \<Rightarrow> bool" where
  "org_unit_less a b =
     (if ou_Closed a \<noteq> ou_Closed b then \<not> ou_Closed a
      else if ou_Code a \<noteq> ou_Code b then ou_Code a < ou_Code b
      else if ou_Name a \<noteq> ou_Name b then ou_Name a < ou_Name b
      else if ou_CreatedAt a = ou_CreatedAt b then ou_ID a < ou_ID b
      else ou_CreatedAt a < ou_CreatedAt b)"

definition ListOrgUnits :: "mem_store \<Rightarrow> string \<Rightarrow> OrgUnit list" where
  "ListOrgUnits s tenantID =
     sort_less org_unit_less (copyNestedValues (bucket (st_orgUnits s) tenantID))"

definition GetEmployee :: "mem_store \<Rightarrow> string \<Rightarrow> string \<Rightarrow> Employee option" where
  "GetEmployee s tenantID ident = getNested (st_employees s) tenantID ident"

definition ParseEmployeeStatus :: "string \<Rightarrow> string option" where
  "ParseEmployeeStatus raw =
    (let v = TrimSpace raw in
      if v \<in> {[CHR 0xE5, CHR 0x9C, CHR 0xA8, CHR 0xE8, CHR 0x81, CHR 0xB7], [CHR 0xE5, CHR 0x9C, CHR 0xA8, CHR 0xE8, CHR 0x81, CHR 0x8C], ''active''} then Some ''active''
      else if v \<in> {[CHR 0xE8, CHR 0xA9, CHR 0xA6, CHR 0xE7, CHR 0x94, CHR 0xA8, CHR 0xE4, CHR 0xB8, CHR 0xAD], ''probation''} then Some ''probation''
      else if v \<in> {[CHR 0xE7, CHR 0x95, CHR 0x99, CHR 0xE5, CHR 0x81, CHR 0x9C], [CHR 0xE7, CHR 0x95, CHR 0x99, CHR 0xE8, CHR 0x81, CHR 0xB7, CHR 0xE5, CHR 0x81, CHR 0x9C, CHR 0xE8, CHR 0x96, CHR 0xAA], ''on-leave'', ''leave_suspended''} then Some ''leave_suspended''
      else if v \<in> {[CHR 0xE5, CHR 0xBE, CHR 0x85, CHR 0xE5, CHR 0x8A, CHR 0xA0, CHR 0xE5, CHR 0x85, CHR 0xA5], [CHR 0xE5, CHR 0xBE, CHR 0x85, CHR 0xE5, CHR 0x85, CHR 0xA5, CHR 0xE8, CHR 0x81, CHR 0xB7], [CHR 0xE5, CHR 0xBE, CHR 0x85, CHR 0xE5, CHR 0x85, CHR 0xA5, CHR 0xE8, CHR 0x81, CHR 0x8C], ''pending'', ''onboarding''} then Some ''onboarding''
      else if v \<in> {[CHR 0xE9, CHR 0x9B, CHR 0xA2, CHR 0xE8, CHR 0x81, CHR 0xB7], [CHR 0xE7, CHR 0xA6, CHR 0xBB, CHR 0xE8, CHR 0x81, CHR 0x8C], ''resigned''} then Some ''resigned''
      else if v \<in> {[CHR 0xE5, CHR 0xB7, CHR 0xB2, CHR 0xE5, CHR 0x81, CHR 0x9C, CHR 0xE7, CHR 0x94, CHR 0xA8], ''deleted''} then Some ''deleted''
      else None)"

definition NormalizeEmployeeStatus :: "string \<Rightarrow> string" where
  "NormalizeEmployeeStatus raw =
     (case ParseEmployeeStatus raw of Some status \<Rightarrow> status | None \<Rightarrow> TrimSpace raw)"

definition EmployeeStatusSortRank :: "string \<Rightarrow> int" where
  "EmployeeStatusSortRank raw =
     (let v = NormalizeEmployeeStatus raw in
      if v = ''active'' then 0 else if v = ''probation'' then 1 else if v = ''leave_suspended'' then 2
      else if v = ''onboarding'' then 3 else if v = ''resigned'' then 4 else if v = ''deleted'' then 5
      else 6)"

definition normalizeMemoryEmployeeStatus :: "string \<Rightarrow> string" where
  "normalizeMemoryEmployeeStatus raw =
    (let v = TrimSpace raw in
      if v \<in> {[CHR 0xE5, CHR 0x9C, CHR 0xA8, CHR 0xE8, CHR 0x81, CHR 0xB7], ''active''} then ''active''
      else if v \<in> {[CHR 0xE8, CHR 0xA9, CHR 0xA6, CHR 0xE7, CHR 0x94, CHR 0xA8, CHR 0xE4, CHR 0xB8, CHR 0xAD], ''probation''} then ''probation''
      else if v \<in> {[CHR 0xE7, CHR 0x95, CHR 0x99, CHR 0xE5, CHR 0x81, CHR 0x9C], [CHR 0xE7, CHR 0x95, CHR 0x99, CHR 0xE8, CHR 0x81, CHR 0xB7, CHR 0xE5, CHR 0x81, CHR 0x9C, CHR 0xE8, CHR 0x96, CHR 0xAA], ''on-leave'', ''leave_suspended''} then ''leave_suspended''
      else if v \<in> {[CHR 0xE5, CHR 0xBE, CHR 0x85, CHR 0xE5, CHR 0x8A, CHR 0xA0, CHR 0xE5, CHR 0x85, CHR 0xA5], ''pending'', ''onboarding''} then ''onboarding''
      else if v \<in> {[CHR 0xE9, CHR 0x9B, CHR 0xA2, CHR 0xE8, CHR 0x81, CHR 0xB7], ''resigned''} then ''resigned''
      else if v \<in> {[CHR 0xE5, CHR 0xB7, CHR 0xB2, CHR 0xE5, CHR 0x81, CHR 0x9C, CHR 0xE7, CHR 0x94, CHR 0xA8], ''deleted''} then ''deleted''
      else v)"

definition normalizeMemoryEmployeeCategory :: "string \<Rightarrow> string" where
  "normalizeMemoryEmployeeCategory raw =
    (let v = TrimSpace raw in
      if v \<in> {[CHR 0xE5, CHR 0x85, CHR 0xA8, CHR 0xE8, CHR 0x81, CHR 0xB7], [CHR 0xE6, CHR 0xAD, CHR 0xA3, CHR 0xE8, CHR 0x81, CHR 0xB7], ''full-time'', ''full_time''} then ''full_time''
      else if v \<in> {[CHR 0xE5, CHR 0x85, CHR 0xBC, CHR 0xE8, CHR 0x81, CHR 0xB7], ''part-time'', ''part_time''} then ''part_time''
      else if v \<in> {[CHR 0xE5, CHR 0xAF, CHR 0xA6, CHR 0xE7, CHR 0xBF, CHR 0x92], ''intern''} then ''intern''
      else if v \<in> {[CHR 0xE7, CHR 0xB4, CHR 0x84, CHR 0xE8, CHR 0x81, CHR 0x98], ''contract'', ''contractor''} then ''contractor''
      else if v \<in> {[CHR 0xE5, CHR 0x85, CHR 0xB6, CHR 0xE4, CHR 0xBB, CHR 0x96], ''other''} then ''other''
      else v)"

definition memoryTimeValue :: "int option \<Rightarrow> int" where
  "memoryTimeValue t = (case t of None \<Rightarrow> 0 | Some v \<Rightarrow> v)"

definition employee_less :: "string \<Rightarrow> Employee \<Rightarrow> Employee \<Rightarrow> bool" where
  "employee_less sortKey a b =
     (if sortKey = ''attendance_asc'' then
        let left = ToLower (FirstNonEmpty [emp_EmployeeNo a, emp_ID a]);
            right = ToLower (FirstNonEmpty [emp_EmployeeNo b, emp_ID b])
        in if left \<noteq> right then left < right
           else if emp_CreatedAt a \<noteq> emp_CreatedAt b then emp_CreatedAt a < emp_CreatedAt b
           else emp_ID a < emp_ID b
      else
        let leftRank = EmployeeStatusSortRank (FirstNonEmpty [emp_EmploymentStatus a, emp_Status a]);
            rightRank = EmployeeStatusSortRank (FirstNonEmpty [emp_EmploymentStatus b, emp_Status b])
        in if leftRank \<noteq> rightRank then leftRank < rightRank
           else if sortKey = ''created_at_desc'' then
             (if emp_CreatedAt a = emp_CreatedAt b then emp_ID a > emp_ID b
              else emp_CreatedAt a > emp_CreatedAt b)
           else if sortKey = ''hire_date_desc''
           then memoryTimeValue (emp_HireDate a) > memoryTimeValue (emp_HireDate b)
           else if sortKey = ''hire_date_asc''
           then memoryTimeValue (emp_HireDate a) < memoryTimeValue (emp_HireDate b)
           else if emp_CreatedAt a = emp_CreatedAt b then emp_ID a < emp_ID b
           else emp_CreatedAt a < emp_CreatedAt b)"

definition sortMemoryEmployees :: "Employee list \<Rightarrow> string \<Rightarrow> Employee list" where
  "sortMemoryEmployees items sortKey = sort_less (employee_less sortKey) items"

definition ListEmployees :: "mem_store \<Rightarrow> string \<Rightarrow> Employee list" where
  "ListEmployees s tenantID =
     sortMemoryEmployees (copyNestedValues (bucket (st_employees s) tenantID)) ''created_at_asc''"

definition memoryStringSet :: "string list \<Rightarrow> string set" where
  "memoryStringSet values = set (filter (\<lambda>v. v \<noteq> []) (map TrimSpace values))"

definition normalizeMemoryEmployeeQuery :: "EmployeeQuery \<Rightarrow> EmployeeQuery" where
  "normalizeMemoryEmployeeQuery query =
     (let query = (if eq_Page query \<le> 0 then query\<lparr>eq_Page := 1\<rparr> else query);
          query = (if eq_PageSize query \<le> 0 then query\<lparr>eq_PageSize := 20\<rparr> else query);
          query = (if eq_PageSize query > 100 then query\<lparr>eq_PageSize := 100\<rparr> else query);
          query = (if eq_Sort query = [] then query\<lparr>eq_Sort := ''created_at_asc''\<rparr> else query)
      in query\<lparr>eq_EmploymentStatus := normalizeMemoryEmployeeStatus (eq_EmploymentStatus query),
               eq_Category := normalizeMemoryEmployeeCategory (eq_Category query)\<rparr>)"

definition memoryAccountIsSuperAdmin :: "Account \<Rightarrow> (string, PermissionSet) gomap \<Rightarrow> bool" where
  "memoryAccountIsSuperAdmin account permissionSets =
     (\<exists>permissionSetID \<in> set (acc_DirectPermissionSetIDs account).
        case map_of permissionSets permissionSetID of
          None \<Rightarrow> False
        | Some permissionSet \<Rightarrow>
            (\<exists>permission \<in> set (ps_Permissions permissionSet).
               TrimSpace (perm_Resource permission) = ''*'' \<and> TrimSpace (perm_Action permission) = ''*''))"

text \<open>\<open>time.Parse(time.RFC3339, s)\<close> is the argument \<open>parse\<close>: the instant, or None for an error.\<close>

definition memoryEmployeePresentInRange ::
  "(string \<Rightarrow> int option) \<Rightarrow> Employee \<Rightarrow> string \<Rightarrow> string \<Rightarrow> bool" where
  "memoryEmployeePresentInRange parse item fromRaw toRaw =
     (if TrimSpace fromRaw = [] \<and> TrimSpace toRaw = [] then True
      else let status = ToLower (FirstNonEmpty [emp_EmploymentStatus item, emp_Status item]) in
           if status = ''deleted'' \<or> (status = ''resigned'' \<and> emp_ResignDate item = None) then False
           else if (case (parse (TrimSpace toRaw), emp_HireDate item) of
                      (Some to, Some hire) \<Rightarrow> \<not> hire < to | _ \<Rightarrow> False) then False
           else if (case (parse (TrimSpace fromRaw), emp_ResignDate item) of
                      (Some from, Some resign) \<Rightarrow> resign < from | _ \<Rightarrow> False) then False
           else True)"

text \<open>\<open>strings.Contains\<close> is \<open>sublist\<close>.  The two maps are only filled when they are needed.\<close>

definition employee_matches_query ::
  "(string \<Rightarrow> int option) \<Rightarrow> (string, Account) gomap \<Rightarrow> (string, PermissionSet) gomap \<Rightarrow>
   EmployeeQuery \<Rightarrow> Employee \<Rightarrow> bool" where
  "employee_matches_query parse accounts permissionSets query item =
     (let keyword = ToLower (TrimSpace (eq_Keyword query));
          employeeAllowed = memoryStringSet (esc_EmployeeIDs (eq_Scope query));
          orgAllowed = memoryStringSet (esc_OrgUnitIDs (eq_Scope query));
          statusAllowed = memoryStringSet (esc_Statuses (eq_Scope query));
          account = (case map_of accounts (emp_AccountID item) of Some a \<Rightarrow> a | None \<Rightarrow> zero_Account);
          status = FirstNonEmpty [emp_EmploymentStatus item, emp_Status item];
          employeeMatch = (employeeAllowed \<noteq> {} \<and> emp_ID item \<in> employeeAllowed);
          orgMatch = (orgAllowed \<noteq> {} \<and> emp_OrgUnitID item \<in> orgAllowed)
      in if \<not> eq_IncludeSuperAdmins query \<and> memoryAccountIsSuperAdmin account permissionSets then False
         else if (if esc_MatchAnyEntity (eq_Scope query) then \<not> employeeMatch \<and> \<not> orgMatch
                  else (employeeAllowed \<noteq> {} \<and> \<not> employeeMatch) \<or> (orgAllowed \<noteq> {} \<and> \<not> orgMatch)) then False
         else if statusAllowed \<noteq> {} \<and> status \<notin> statusAllowed then False
         else if eq_EmploymentStatus query \<noteq> ''deleted'' \<and> status = ''deleted'' then False
         else if eq_DepartmentID query \<noteq> [] \<and> emp_OrgUnitID item \<noteq> eq_DepartmentID query then False
         else if eq_EmploymentStatus query \<noteq> [] \<and> status \<noteq> eq_EmploymentStatus query then False
         else if eq_Category query \<noteq> [] \<and> emp_Category item \<noteq> eq_Category query then False
         else if \<not> memoryEmployeePresentInRange parse item (eq_PresentFrom query) (eq_PresentTo query) then False
         else if keyword \<noteq> [] \<and> \<not> sublist keyword (ToLower (Join
                [emp_Name item, emp_CompanyEmail item, emp_PersonalEmail item, emp_EmployeeNo item,
                 emp_Phone item, emp_AccountID item, acc_DisplayName account, acc_Email account,
                 acc_EmployeeID account] '' '')) then False
         else True)"

definition filterMemoryEmployeesByQuery ::
  "mem_store \<Rightarrow> (string \<Rightarrow> int option) \<Rightarrow> string \<Rightarrow> Employee list \<Rightarrow> EmployeeQuery \<Rightarrow> Employee list" where
  "filterMemoryEmployeesByQuery s parse tenantID items query =
     (let query = normalizeMemoryEmployeeQuery query in
      if esc_DenyAll (eq_Scope query) then []
      else let keyword = ToLower (TrimSpace (eq_Keyword query));
               accounts = (if keyword \<noteq> [] \<or> \<not> eq_IncludeSuperAdmins query
                           then bucket (st_accounts s) tenantID else []);
               permissionSets = (if (keyword \<noteq> [] \<or> \<not> eq_IncludeSuperAdmins query) \<and> \<not> eq_IncludeSuperAdmins query
                                 then bucket (st_permissionSets s) tenantID else [])
           in filter (employee_matches_query parse accounts permissionSets query) items)"

definition ListEmployeesByQuery ::
  "mem_store \<Rightarrow> (string \<Rightarrow> int option) \<Rightarrow> string \<Rightarrow> EmployeeQuery \<Rightarrow> Employee list" where
  "ListEmployeesByQuery s parse tenantID query =
     sortMemoryEmployees (filterMemoryEmployeesByQuery s parse tenantID (ListEmployees s tenantID) query)
       (eq_Sort query)"

section \<open>Permission versions and the audit log\<close>

text \<open>Versions are 64-bit; the model keeps them as integers, since a tenant would need more than
  nine quintillion configuration changes to wrap.\<close>

definition GetPermissionVersion :: "mem_store \<Rightarrow> string \<Rightarrow> int" where
  "GetPermissionVersion s tenantID =
     (case map_of (st_permissionVersions s) tenantID of None \<Rightarrow> 0 | Some v \<Rightarrow> v)"

definition IncrementPermissionVersion :: "mem_store \<Rightarrow> string \<Rightarrow> mem_store \<times> int" where
  "IncrementPermissionVersion s tenantID =
     (let v = GetPermissionVersion s tenantID + 1
      in (s\<lparr>st_permissionVersions := map_put tenantID v (st_permissionVersions s)\<rparr>, v))"

definition AppendAuditLog :: "mem_store \<Rightarrow> AuditLog \<Rightarrow> mem_store" where
  "AppendAuditLog s v =
     s\<lparr>st_auditLogs := map_put (al_TenantID v)
         ((case map_of (st_auditLogs s) (al_TenantID v) of None \<Rightarrow> [] | Some l \<Rightarrow> l) @ [v])
         (st_auditLogs s)\<rparr>"

definition ListAuditLogs :: "mem_store \<Rightarrow> string \<Rightarrow> AuditLog list" where
  "ListAuditLogs s tenantID =
     sort_less (\<lambda>a b. al_CreatedAt a > al_CreatedAt b)
       (case map_of (st_auditLogs s) tenantID of None \<Rightarrow> [] | Some l \<Rightarrow> l)"

section \<open>The invariant of the store\<close>

text \<open>Every table is well formed and holds each row under the tenant and id the row names.  The
  catalogue is the exception: \<open>UpsertPermissionCatalogItem\<close> may replace a row by one with
  another id under the old key, so only its tenants are part of the invariant.\<close>

definition mem_invar :: "mem_store \<Rightarrow> bool" where
  "mem_invar s \<longleftrightarrow>
     map_wf (st_tenants s) \<and> (\<forall>k v. map_of (st_tenants s) k = Some v \<longrightarrow> tn_ID v = k) \<and>
     tab.keyed acc_TenantID acc_ID (st_accounts s) \<and>
     tab.keyed ug_TenantID ug_ID (st_userGroups s) \<and>
     tab.keyed gm_TenantID gm_ID (st_groupMemberships s) \<and>
     tab.keyed ps_TenantID ps_ID (st_permissionSets s) \<and>
     tab.keyed psa_TenantID psa_ID (st_assignments s) \<and>
     tab.keyed ds_TenantID ds_ID (st_dataScopes s) \<and>
     tab.keyed fp_TenantID fp_ID (st_fieldPolicies s) \<and>
     tab.keyed ar_TenantID ar_ID (st_assumableRoles s) \<and>
     tab.keyed ars_TenantID ars_ID (st_roleSessions s) \<and>
     tab.keyed ou_TenantID ou_ID (st_orgUnits s) \<and>
     tab.keyed emp_TenantID emp_ID (st_employees s)"

lemmas keyed_intros = tab.keyed_put tab.keyed_del

lemma keyedD:
  "tab.keyed f g t \<Longrightarrow> getNested t n i = Some v \<Longrightarrow> f v = n"
  "tab.keyed f g t \<Longrightarrow> getNested t n i = Some v \<Longrightarrow> g v = i"
  by (auto simp: tab.keyed_def)

text \<open>Replacing a bucket by one with fewer rows keeps a table keyed.\<close>

lemma keyed_filter_bucket:
  assumes "tab.keyed f g t" "bucket t n = sub"
  shows "tab.keyed f g (map_put n (filter P sub) t)"
proof -
  have wf: "table_wf t" using assms(1) by (simp add: tab.keyed_def)
  have sub: "map_wf sub" using table_wf_bucket [OF wf, of n] assms(2) by simp
  have some: "map_of sub i = Some v" if "map_of (filter P sub) i = Some v" for i v
    using that sub by (metis distinct_map_filter filter_is_subset map_of_eq_Some_iff subsetD)
  have "table_wf (map_put n (filter P sub) t)"
    using sub by (intro table_wf_put_bucket wf distinct_map_filter)
  moreover have "getNested t n i = Some v" if "getNested (map_put n (filter P sub) t) n i = Some v" for i v
    using some [of i v] that assms(2) by (auto simp: getNested_def bucket_def split: option.splits)
  moreover have "getNested t m i = Some v" if "getNested (map_put n (filter P sub) t) m i = Some v" "m \<noteq> n" for m i v
    using that by (simp add: getNested_def)
  ultimately show ?thesis
    using assms(1) unfolding tab.keyed_def by metis
qed

text \<open>Every operation of the store keeps the invariant.\<close>

lemma mem_invar_empty: "mem_invar empty_store"
  by (simp add: mem_invar_def empty_store_def tab.keyed_def table_wf_def getNested_def)

lemma mem_invar_UpsertAccount:
  "mem_invar s \<Longrightarrow> UpsertAccount s v = Inr s' \<Longrightarrow> mem_invar s'"
  by (auto simp: mem_invar_def UpsertAccount_def Let_def intro!: keyed_intros split: option.splits if_splits)

lemma mem_invar_UpsertUserGroup:
  "mem_invar s \<Longrightarrow> UpsertUserGroup s v = Inr s' \<Longrightarrow> mem_invar s'"
  by (auto simp: mem_invar_def UpsertUserGroup_def intro!: keyed_intros split: option.splits if_splits)

lemma mem_invar_DeleteUserGroup: "mem_invar s \<Longrightarrow> mem_invar (fst (DeleteUserGroup s n i))"
  by (auto simp: mem_invar_def DeleteUserGroup_def intro!: keyed_intros split: option.splits)

lemma mem_invar_refresh:
  assumes "mem_invar s"
  shows "mem_invar (refreshGroupMembershipProjectionLocked s n g a moment)"
  using assms
  by (auto simp: mem_invar_def refreshGroupMembershipProjectionLocked_def Let_def intro!: keyed_intros
      dest: keyedD split: option.splits)

lemma mem_invar_UpsertGroupMembership: "mem_invar s \<Longrightarrow> mem_invar (UpsertGroupMembership s v)"
  unfolding UpsertGroupMembership_def Let_def
  by (rule mem_invar_refresh) (auto simp: mem_invar_def intro!: keyed_intros)

lemma mem_invar_DeleteGroupMembership:
  "mem_invar s \<Longrightarrow> mem_invar (fst (DeleteGroupMembership s now n g a))"
  by (auto simp: DeleteGroupMembership_def Let_def split: option.split intro!: mem_invar_refresh)
    (auto simp: mem_invar_def intro!: keyed_filter_bucket)

lemma mem_invar_account_groups:
  assumes "mem_invar s"
  shows "mem_invar (AddAccountGroup s n a g)" "mem_invar (RemoveAccountGroup s n a g)"
  using assms
  by (auto simp: mem_invar_def AddAccountGroup_def RemoveAccountGroup_def intro!: keyed_intros
      dest: keyedD split: option.splits)

lemma mem_invar_puts:
  assumes "mem_invar s"
  shows "mem_invar (UpsertPermissionSet s v1)" "mem_invar (UpsertPermissionSetAssignment s v2)"
    "mem_invar (UpsertDataScope s v3)" "mem_invar (UpsertFieldPolicy s v4)"
    "mem_invar (UpsertAssumableRole s v5)" "mem_invar (UpsertAssumableRoleSession s v6)"
    "mem_invar (UpsertOrgUnit s v7)"
  using assms
  by (auto simp: mem_invar_def UpsertPermissionSet_def UpsertPermissionSetAssignment_def UpsertDataScope_def
      UpsertFieldPolicy_def UpsertAssumableRole_def UpsertAssumableRoleSession_def UpsertOrgUnit_def Let_def
      intro!: keyed_intros split: option.split)

lemma mem_invar_deletes:
  assumes "mem_invar s"
  shows "mem_invar (fst (DeletePermissionSetAssignment s n i))" "mem_invar (fst (DeleteDataScope s n i))"
    "mem_invar (fst (DeleteFieldPolicy s n i))"
    "mem_invar (fst (RevokeAssumableRoleSession s n a i moment))"
  using assms
  by (auto simp: mem_invar_def DeletePermissionSetAssignment_def DeleteDataScope_def DeleteFieldPolicy_def
      RevokeAssumableRoleSession_def Let_def intro!: keyed_intros dest: keyedD split: option.split)

lemma mem_invar_DeleteAssumableRole: "mem_invar s \<Longrightarrow> mem_invar (fst (DeleteAssumableRole s n i))"
  by (auto simp: mem_invar_def DeleteAssumableRole_def Let_def bucket_def intro!: keyed_intros keyed_filter_bucket
      split: option.split)

lemma mem_invar_frame:
  "mem_invar s \<Longrightarrow> mem_invar (s\<lparr>st_permissionVersions := x\<rparr>)"
  "mem_invar s \<Longrightarrow> mem_invar (s\<lparr>st_auditLogs := y\<rparr>)"
  "mem_invar s \<Longrightarrow> mem_invar (s\<lparr>st_outboxEvents := z\<rparr>)"
  "mem_invar s \<Longrightarrow> mem_invar (s\<lparr>st_permissionCatalog := c\<rparr>)"
  by (simp_all add: mem_invar_def)

lemma close_step_found:
  assumes "fold (close_step g a til) sub acc = (key, selected)" "fst acc = [] \<or> acc \<in> A"
  shows "key = [] \<or> (key, selected) \<in> set sub \<union> A"
  using assms
proof (induction sub arbitrary: acc A)
  case (Cons entry sub)
  have "fst (close_step g a til entry acc) = [] \<or> close_step g a til entry acc \<in> insert entry A"
    using Cons.prems(2) by (auto simp: close_step_def split: prod.splits)
  from Cons.IH [OF _ this] Cons.prems(1) show ?case by auto
qed auto

lemma mem_invar_CloseGroupMembership:
  assumes "mem_invar s"
  shows "mem_invar (fst (CloseGroupMembership s n g a til))"
proof -
  obtain key sel where f: "fold (close_step g a til) (bucket (st_groupMemberships s) n) ([], zero_GroupMembership) = (key, sel)"
    by fastforce
  show ?thesis
  proof (cases "key = []")
    case False
    have k: "tab.keyed gm_TenantID gm_ID (st_groupMemberships s)" using assms by (simp add: mem_invar_def)
    then have wf: "map_wf (bucket (st_groupMemberships s) n)"
      by (simp add: tab.keyed_def table_wf_bucket)
    from close_step_found [OF f, of "{}"] False
    have "(key, sel) \<in> set (bucket (st_groupMemberships s) n)" by auto
    with wf have "getNested (st_groupMemberships s) n key = Some sel"
      by (auto simp: bucket_def getNested_def map_of_eq_Some_iff split: option.splits)
    with keyedD [OF k this] assms show ?thesis
      by (auto simp: CloseGroupMembership_def f Let_def mem_invar_def intro!: keyed_intros mem_invar_refresh
          [unfolded mem_invar_def])
  qed (use assms f in \<open>simp add: CloseGroupMembership_def\<close>)
qed

end
