(* ===== verification/Authz_Store.thy ===== *)
theory Authz_Store
  imports Memory_Store
begin

text \<open>
  What the authorization service reads from its repository (the part of
  \<open>src/internal/repository\<close>'s interface that \<open>authz_*.go\<close> and \<open>service.go\<close> call): the
  record \<open>authz_store\<close>, every operation fallible.  The locale \<open>tenant_reads\<close> is the contract
  the service relies on: a read for a tenant yields rows of that tenant, under the id or for the
  principal asked for.  It is interpreted on the in-memory repository, for every state that
  satisfies its invariant.
\<close>

record authz_store =
  as_GetTenant :: "string \<Rightarrow> Tenant option res"
  as_GetAccount :: "string \<Rightarrow> string \<Rightarrow> Account option res"
  as_GetPermissionVersion :: "string \<Rightarrow> int res"
  as_GetPermissionSet :: "string \<Rightarrow> string \<Rightarrow> PermissionSet option res"
  as_ListPermissionSetAssignmentsForPrincipal ::
    "string \<Rightarrow> string \<Rightarrow> string \<Rightarrow> PermissionSetAssignment list res"
  as_GetDataScope :: "string \<Rightarrow> string \<Rightarrow> DataScope option res"
  as_GetUserGroup :: "string \<Rightarrow> string \<Rightarrow> UserGroup option res"
  as_ListActiveGroupMembershipsForAccount :: "string \<Rightarrow> string \<Rightarrow> int \<Rightarrow> GroupMembership list res"
  as_GetAssumableRole :: "string \<Rightarrow> string \<Rightarrow> AssumableRole option res"
  as_GetAssumableRoleSession :: "string \<Rightarrow> string \<Rightarrow> AssumableRoleSession option res"
  as_ListFieldPolicies :: "string \<Rightarrow> string \<Rightarrow> string \<Rightarrow> FieldPolicy list res"
  as_ListPermissionCatalogItems :: "string \<Rightarrow> PermissionCatalogItem list res"
  as_GetEmployee :: "string \<Rightarrow> string \<Rightarrow> Employee option res"
  as_ListOrgUnits :: "string \<Rightarrow> OrgUnit list res"
  as_ListEmployeesByQuery :: "string \<Rightarrow> EmployeeQuery \<Rightarrow> Employee list res"

text \<open>The in-memory repository at a state \<open>s\<close> and a wall-clock time \<open>now\<close>; its reads never
  fail.\<close>

definition mem_authz_store :: "(string \<Rightarrow> int option) \<Rightarrow> int \<Rightarrow> mem_store \<Rightarrow> authz_store" where
  "mem_authz_store parse now s = \<lparr>
     as_GetTenant = (\<lambda>i. Inr (GetTenant s i)),
     as_GetAccount = (\<lambda>t i. Inr (GetAccount s t i)),
     as_GetPermissionVersion = (\<lambda>t. Inr (GetPermissionVersion s t)),
     as_GetPermissionSet = (\<lambda>t i. Inr (GetPermissionSet s t i)),
     as_ListPermissionSetAssignmentsForPrincipal =
       (\<lambda>t k p. Inr (ListPermissionSetAssignmentsForPrincipal s now t k p)),
     as_GetDataScope = (\<lambda>t i. Inr (GetDataScope s t i)),
     as_GetUserGroup = (\<lambda>t i. Inr (GetUserGroup s t i)),
     as_ListActiveGroupMembershipsForAccount =
       (\<lambda>t a moment. Inr (ListActiveGroupMembershipsForAccount s t a moment)),
     as_GetAssumableRole = (\<lambda>t i. Inr (GetAssumableRole s t i)),
     as_GetAssumableRoleSession = (\<lambda>t i. Inr (GetAssumableRoleSession s t i)),
     as_ListFieldPolicies = (\<lambda>t a r. Inr (ListFieldPolicies s t a r)),
     as_ListPermissionCatalogItems = (\<lambda>t. Inr (ListPermissionCatalogItems s t)),
     as_GetEmployee = (\<lambda>t i. Inr (GetEmployee s t i)),
     as_ListOrgUnits = (\<lambda>t. Inr (ListOrgUnits s t)),
     as_ListEmployeesByQuery = (\<lambda>t q. Inr (ListEmployeesByQuery s parse t q)) \<rparr>"

lemma mem_authz_store_simps [simp]:
  "as_GetTenant (mem_authz_store parse now s) i = Inr (GetTenant s i)"
  "as_GetAccount (mem_authz_store parse now s) t i = Inr (GetAccount s t i)"
  "as_GetPermissionVersion (mem_authz_store parse now s) t = Inr (GetPermissionVersion s t)"
  "as_GetPermissionSet (mem_authz_store parse now s) t i = Inr (GetPermissionSet s t i)"
  "as_ListPermissionSetAssignmentsForPrincipal (mem_authz_store parse now s) t k p =
     Inr (ListPermissionSetAssignmentsForPrincipal s now t k p)"
  "as_GetDataScope (mem_authz_store parse now s) t i = Inr (GetDataScope s t i)"
  "as_GetUserGroup (mem_authz_store parse now s) t i = Inr (GetUserGroup s t i)"
  "as_ListActiveGroupMembershipsForAccount (mem_authz_store parse now s) t a moment =
     Inr (ListActiveGroupMembershipsForAccount s t a moment)"
  "as_GetAssumableRole (mem_authz_store parse now s) t i = Inr (GetAssumableRole s t i)"
  "as_GetAssumableRoleSession (mem_authz_store parse now s) t i = Inr (GetAssumableRoleSession s t i)"
  "as_ListFieldPolicies (mem_authz_store parse now s) t a r = Inr (ListFieldPolicies s t a r)"
  "as_ListPermissionCatalogItems (mem_authz_store parse now s) t = Inr (ListPermissionCatalogItems s t)"
  "as_GetEmployee (mem_authz_store parse now s) t i = Inr (GetEmployee s t i)"
  "as_ListOrgUnits (mem_authz_store parse now s) t = Inr (ListOrgUnits s t)"
  "as_ListEmployeesByQuery (mem_authz_store parse now s) t q = Inr (ListEmployeesByQuery s parse t q)"
  by (simp_all add: mem_authz_store_def)

section \<open>The contract of the reads\<close>

locale tenant_reads =
  fixes store :: "'s \<Rightarrow> authz_store" and invar :: "'s \<Rightarrow> bool"
  assumes account: "invar s \<Longrightarrow> as_GetAccount (store s) t i = Inr (Some acc) \<Longrightarrow>
      acc_TenantID acc = t \<and> acc_ID acc = i"
    and permission_set: "invar s \<Longrightarrow> as_GetPermissionSet (store s) t i = Inr (Some pset) \<Longrightarrow>
      ps_TenantID pset = t \<and> ps_ID pset = i"
    and assignment: "invar s \<Longrightarrow>
      as_ListPermissionSetAssignmentsForPrincipal (store s) t k p = Inr xs \<Longrightarrow> x \<in> set xs \<Longrightarrow>
      psa_TenantID x = t \<and> psa_PrincipalType x = k \<and> psa_PrincipalID x = p"
    and data_scope: "invar s \<Longrightarrow> as_GetDataScope (store s) t i = Inr (Some d) \<Longrightarrow>
      ds_TenantID d = t \<and> ds_ID d = i"
    and user_group: "invar s \<Longrightarrow> as_GetUserGroup (store s) t i = Inr (Some g) \<Longrightarrow>
      ug_TenantID g = t \<and> ug_ID g = i"
    and membership: "invar s \<Longrightarrow>
      as_ListActiveGroupMembershipsForAccount (store s) t a moment = Inr ms \<Longrightarrow> m \<in> set ms \<Longrightarrow>
      gm_TenantID m = t \<and> gm_AccountID m = a \<and> membershipActiveAt m moment"
    and role: "invar s \<Longrightarrow> as_GetAssumableRole (store s) t i = Inr (Some r) \<Longrightarrow>
      ar_TenantID r = t \<and> ar_ID r = i"
    and session: "invar s \<Longrightarrow> as_GetAssumableRoleSession (store s) t i = Inr (Some sess) \<Longrightarrow>
      ars_TenantID sess = t \<and> ars_ID sess = i"
    and employee: "invar s \<Longrightarrow> as_GetEmployee (store s) t i = Inr (Some e) \<Longrightarrow>
      emp_TenantID e = t \<and> emp_ID e = i"
    and org_units: "invar s \<Longrightarrow> as_ListOrgUnits (store s) t = Inr us \<Longrightarrow> u \<in> set us \<Longrightarrow>
      ou_TenantID u = t"
    and employees: "invar s \<Longrightarrow> as_ListEmployeesByQuery (store s) t q = Inr es \<Longrightarrow> e \<in> set es \<Longrightarrow>
      emp_TenantID e = t"
    and field_policies: "invar s \<Longrightarrow> as_ListFieldPolicies (store s) t app rt = Inr ps \<Longrightarrow> pol \<in> set ps \<Longrightarrow>
      fp_TenantID pol = t \<and> (app = [] \<or> fp_ApplicationCode pol = app) \<and> (rt = [] \<or> fp_ResourceType pol = rt)"

text \<open>A state of the repository: its tables, the time of day, and the date parser in use.\<close>

record mem_env =
  me_parse :: "string \<Rightarrow> int option"
  me_now :: int
  me_store :: mem_store

definition env_store :: "mem_env \<Rightarrow> authz_store" where
  "env_store e = mem_authz_store (me_parse e) (me_now e) (me_store e)"

definition env_invar :: "mem_env \<Rightarrow> bool" where
  "env_invar e \<longleftrightarrow> mem_invar (me_store e)"

lemma mem_table_keyed:
  assumes "mem_invar s"
  shows "tab.keyed acc_TenantID acc_ID (st_accounts s)" "tab.keyed ug_TenantID ug_ID (st_userGroups s)"
    "tab.keyed gm_TenantID gm_ID (st_groupMemberships s)" "tab.keyed ps_TenantID ps_ID (st_permissionSets s)"
    "tab.keyed psa_TenantID psa_ID (st_assignments s)" "tab.keyed ds_TenantID ds_ID (st_dataScopes s)"
    "tab.keyed fp_TenantID fp_ID (st_fieldPolicies s)" "tab.keyed ar_TenantID ar_ID (st_assumableRoles s)"
    "tab.keyed ars_TenantID ars_ID (st_roleSessions s)" "tab.keyed ou_TenantID ou_ID (st_orgUnits s)"
    "tab.keyed emp_TenantID emp_ID (st_employees s)"
  using assms by (simp_all add: mem_invar_def)

lemma set_ListEmployeesByQuery:
  "set (ListEmployeesByQuery s parse t q) \<subseteq> set (copyNestedValues (bucket (st_employees s) t))"
  by (auto simp: ListEmployeesByQuery_def sortMemoryEmployees_def filterMemoryEmployeesByQuery_def
      ListEmployees_def Let_def split: if_splits)

interpretation mem: tenant_reads env_store env_invar
proof
  fix e t i k p a moment q r
  assume "env_invar e"
  then have inv: "mem_invar (me_store e)" by (simp add: env_invar_def)
  note keyed = mem_table_keyed [OF inv]
  show "acc_TenantID x = t \<and> acc_ID x = i" if "as_GetAccount (env_store e) t i = Inr (Some x)" for x
    using that keyedD [OF keyed(1)] by (simp add: env_store_def GetAccount_def)
  show "ps_TenantID x = t \<and> ps_ID x = i" if "as_GetPermissionSet (env_store e) t i = Inr (Some x)" for x
    using that keyedD [OF keyed(4)] by (simp add: env_store_def GetPermissionSet_def)
  show "psa_TenantID x = t \<and> psa_PrincipalType x = k \<and> psa_PrincipalID x = p"
    if "as_ListPermissionSetAssignmentsForPrincipal (env_store e) t k p = Inr xs" "x \<in> set xs" for x xs
    using that tab.keyed_rows [OF keyed(5)]
    by (auto simp: env_store_def ListPermissionSetAssignmentsForPrincipal_def)
  show "ds_TenantID x = t \<and> ds_ID x = i" if "as_GetDataScope (env_store e) t i = Inr (Some x)" for x
    using that keyedD [OF keyed(6)] by (simp add: env_store_def GetDataScope_def)
  show "ug_TenantID x = t \<and> ug_ID x = i" if "as_GetUserGroup (env_store e) t i = Inr (Some x)" for x
    using that keyedD [OF keyed(2)] by (simp add: env_store_def GetUserGroup_def)
  show "gm_TenantID x = t \<and> gm_AccountID x = a \<and> membershipActiveAt x moment"
    if "as_ListActiveGroupMembershipsForAccount (env_store e) t a moment = Inr xs" "x \<in> set xs" for x xs
    using that tab.keyed_rows [OF keyed(3)]
    by (auto simp: env_store_def ListActiveGroupMembershipsForAccount_def)
  show "ar_TenantID x = t \<and> ar_ID x = i" if "as_GetAssumableRole (env_store e) t i = Inr (Some x)" for x
    using that keyedD [OF keyed(8)] by (simp add: env_store_def GetAssumableRole_def)
  show "ars_TenantID x = t \<and> ars_ID x = i" if "as_GetAssumableRoleSession (env_store e) t i = Inr (Some x)" for x
    using that keyedD [OF keyed(9)] by (simp add: env_store_def GetAssumableRoleSession_def)
  show "emp_TenantID x = t \<and> emp_ID x = i" if "as_GetEmployee (env_store e) t i = Inr (Some x)" for x
    using that keyedD [OF keyed(11)] by (simp add: env_store_def GetEmployee_def)
  show "ou_TenantID x = t" if "as_ListOrgUnits (env_store e) t = Inr xs" "x \<in> set xs" for x xs
    using that tab.keyed_rows [OF keyed(10)] by (auto simp: env_store_def ListOrgUnits_def)
  show "emp_TenantID x = t" if "as_ListEmployeesByQuery (env_store e) t q = Inr xs" "x \<in> set xs" for x xs
    using that tab.keyed_rows [OF keyed(11)] set_ListEmployeesByQuery
    by (fastforce simp: env_store_def)
  show "fp_TenantID x = t \<and> (a = [] \<or> fp_ApplicationCode x = a) \<and> (r = [] \<or> fp_ResourceType x = r)"
    if "as_ListFieldPolicies (env_store e) t a r = Inr xs" "x \<in> set xs" for x xs
    using that tab.keyed_rows [OF keyed(7)] by (auto simp: env_store_def ListFieldPolicies_def)
qed

end
