(* ===== verification/Authz_Grants.thy ===== *)
theory Authz_Grants
  imports Authz_Scope Authz_Store
begin

text \<open>
  From an account to its grants (\<open>service/authz_decision_service.go\<close>,
  \<open>authz_policy_service.go\<close>, \<open>authz_scope_service.go\<close>,
  \<open>iam_assumable_role_session_service.go\<close>, \<open>service.go\<close>): the active groups of an account, its
  assumed role, the permission sets of all of them with their data scopes and expiries, the
  simulation overrides, and the conditions of a scope.  \<open>service_env\<close> is what the methods read
  of the \<open>Service\<close>: the repository, the relationship checker (OpenFGA, code outside the
  repository, hence a function argument), the scope-check flag and the clock.
\<close>

section \<open>The service\<close>

record service_env =
  sv_store :: authz_store
  sv_relationships :: "(RelationshipCheck \<Rightarrow> bool res) option"
  sv_openFGAScopeChecks :: bool
  sv_now :: int

record authzGrant =
  g_Permission :: Permission
  g_PermissionSetID :: string
  g_Source :: string
  g_SourceKind :: string
  g_Effect :: string
  g_DataScope :: "DataScope option"
  g_ExpiresAt :: "int option"

abbreviation authzGrantSourceNormal :: string where "authzGrantSourceNormal \<equiv> ''normal''"
abbreviation authzGrantSourceAssumed :: string where "authzGrantSourceAssumed \<equiv> ''assumed''"

record authzPermissionSetMutation =
  mut_addPermissions :: "Permission list"
  mut_removePermissions :: "string list"

record authzGrantCollectionOptions =
  opt_addUserGroupIDs :: "string list"
  opt_removeUserGroupIDs :: "string set"
  opt_addPermissionSetIDs :: "string list"
  opt_removePermissionSetIDs :: "string set"
  opt_assumeRoleID :: string
  opt_permissionSetChanges :: "(string, authzPermissionSetMutation) gomap"

definition zero_authzGrantCollectionOptions :: authzGrantCollectionOptions where
  "zero_authzGrantCollectionOptions = \<lparr>
     opt_addUserGroupIDs = [], opt_removeUserGroupIDs = {}, opt_addPermissionSetIDs = [],
     opt_removePermissionSetIDs = {}, opt_assumeRoleID = [], opt_permissionSetChanges = [] \<rparr>"

definition permissionEffect :: "authzGrant \<Rightarrow> string" where
  "permissionEffect grant =
     (if EqualFold (g_Effect grant) ''deny'' \<or> EqualFold (perm_Effect (g_Permission grant)) ''deny''
      then ''deny''
      else FirstNonEmpty [perm_Effect (g_Permission grant), g_Effect grant, ''allow''])"

section \<open>Expiries\<close>

definition earliestExpiry :: "int option \<Rightarrow> int option \<Rightarrow> int option" where
  "earliestExpiry left right =
     (case left of
        None \<Rightarrow> right
      | Some l \<Rightarrow> (case right of None \<Rightarrow> left | Some r \<Rightarrow> if l < r then left else right))"

definition earliestAuthzGrantExpiry :: "authzGrant list \<Rightarrow> int option" where
  "earliestAuthzGrantExpiry grants = fold (\<lambda>grant earliest. earliestExpiry earliest (g_ExpiresAt grant)) grants None"

section \<open>Active groups\<close>

definition groupMembershipActiveAt :: "GroupMembership \<Rightarrow> int \<Rightarrow> bool" where
  "groupMembershipActiveAt membership moment =
     (if gm_ValidFrom membership \<noteq> 0 \<and> gm_ValidFrom membership > moment then False
      else (case gm_ValidUntil membership of None \<Rightarrow> True | Some til \<Rightarrow> moment < til))"

definition expiry_at :: "(string, int option) gomap \<Rightarrow> string \<Rightarrow> int option" where
  "expiry_at m k = (case map_of m k of Some e \<Rightarrow> e | None \<Rightarrow> None)"

definition addGroup :: "service_env \<Rightarrow> RequestContext \<Rightarrow> GroupMembership \<Rightarrow>
  UserGroup list \<times> string set \<times> (string, int option) gomap \<Rightarrow>
  (UserGroup list \<times> string set \<times> (string, int option) gomap) res" where
  "addGroup c ctx membership acc =
     (case acc of (groups, seen, expiries) \<Rightarrow>
        let groupID = gm_UserGroupID membership; validUntil = gm_ValidUntil membership in
        if groupID \<in> seen
        then Inr (groups, seen, map_put groupID (earliestExpiry (expiry_at expiries groupID) validUntil) expiries)
        else bindR (as_GetUserGroup (sv_store c) (ctx_TenantID ctx) groupID) (\<lambda>found.
          case found of
            None \<Rightarrow> Inr acc
          | Some ug \<Rightarrow> Inr (groups @ [ug], insert groupID seen, map_put groupID validUntil expiries)))"

definition activeUserGroupsForAccountWithExpiries ::
  "service_env \<Rightarrow> RequestContext \<Rightarrow> Account \<Rightarrow> (UserGroup list \<times> (string, int option) gomap) res" where
  "activeUserGroupsForAccountWithExpiries c ctx account =
     bindR (as_ListActiveGroupMembershipsForAccount (sv_store c) (ctx_TenantID ctx) (acc_ID account) (sv_now c))
       (\<lambda>memberships.
     bindR (foldR (addGroup c ctx) memberships ([], {}, [])) (\<lambda>(groups, seen, expiries).
       Inr (groups, expiries)))"

definition activeUserGroupsForAccount ::
  "service_env \<Rightarrow> RequestContext \<Rightarrow> Account \<Rightarrow> UserGroup list res" where
  "activeUserGroupsForAccount c ctx account =
     bindR (activeUserGroupsForAccountWithExpiries c ctx account) (\<lambda>(groups, _). Inr groups)"

section \<open>The assumed role\<close>

definition assumedRoleSessionStateError :: "int \<Rightarrow> string \<Rightarrow> err" where
  "assumedRoleSessionStateError status reason =
     (let msg = (if status = 403 then ''assumable role session is not available to this account''
                 else ''assumable role session is not active'');
          code = (if status = 403 then ''forbidden'' else ''not_found'')
      in AppErr (WithReasonCode (E status code msg) reason))"

definition ownedActiveAssumableRoleSession ::
  "service_env \<Rightarrow> RequestContext \<Rightarrow> string \<Rightarrow> AssumableRoleSession res" where
  "ownedActiveAssumableRoleSession c ctx accountID =
     (let sessionID = TrimSpace (ctx_AssumedRoleSessionID ctx) in
      if sessionID = []
      then Inl (AppErr (WithReasonCode (E 400 ''bad_request'' ''assumable role session is required'')
                  ''assumed_role_session_required''))
      else bindR (as_GetAssumableRoleSession (sv_store c) (ctx_TenantID ctx) sessionID) (\<lambda>found.
        case found of
          None \<Rightarrow> Inl (assumedRoleSessionStateError 404 ''assumed_role_session_invalid'')
        | Some session \<Rightarrow>
            if ars_AccountID session \<noteq> accountID
            then Inl (assumedRoleSessionStateError 403 ''assumed_role_session_foreign'')
            else if ars_RevokedAt session \<noteq> None
            then Inl (assumedRoleSessionStateError 404 ''assumed_role_session_revoked'')
            else if \<not> ars_ExpiresAt session > sv_now c
            then Inl (assumedRoleSessionStateError 404 ''assumed_role_session_expired'')
            else Inr session))"

definition activeAssumableRole :: "service_env \<Rightarrow> RequestContext \<Rightarrow> Account \<Rightarrow>
  (AssumableRole option \<times> AssumableRoleSession option) res" where
  "activeAssumableRole c ctx account =
     (if ctx_AssumedRoleSessionID ctx \<noteq> [] then
        bindR (ownedActiveAssumableRoleSession c ctx (acc_ID account)) (\<lambda>session.
        bindR (as_GetAssumableRole (sv_store c) (ctx_TenantID ctx) (ars_AssumableRoleID session)) (\<lambda>found.
          case found of
            None \<Rightarrow> Inl (assumedRoleSessionStateError 404 ''assumed_role_session_invalid'')
          | Some role \<Rightarrow> Inr (Some role, Some session)))
      else Inr (None, None))"

section \<open>Simulated changes of a permission set\<close>

definition permissionRemovedBySimulation :: "Permission \<Rightarrow> string list \<Rightarrow> bool" where
  "permissionRemovedBySimulation perm removeLabels =
     (if removeLabels = [] then False
      else let label = permissionLabel perm;
               p = normalizePermission perm;
               key = permissionKey (perm_ApplicationCode p) (perm_ResourceType p) (perm_Action p)
           in \<exists>remove \<in> set removeLabels.
                TrimSpace remove \<noteq> [] \<and>
                (permissionLabelMatches label (TrimSpace remove) \<or> permissionKeyMatches key (TrimSpace remove)))"

definition permissionSliceContains :: "Permission list \<Rightarrow> Permission \<Rightarrow> bool" where
  "permissionSliceContains items want = (\<exists>item \<in> set items. permissionLabel item = permissionLabel want)"

definition applyPermissionSetMutation ::
  "Permission list \<Rightarrow> authzPermissionSetMutation \<Rightarrow> Permission list" where
  "applyPermissionSetMutation existing mutation =
     (let out = filter (\<lambda>perm. \<not> permissionRemovedBySimulation perm (mut_removePermissions mutation)) existing
      in fold (\<lambda>perm out.
           if permissionRemovedBySimulation perm (mut_removePermissions mutation) then out
           else if permissionSliceContains out perm then out
           else out @ [perm]) (mut_addPermissions mutation) out)"

definition permissionFromSimulationLabel :: "string \<Rightarrow> Permission res" where
  "permissionFromSimulationLabel label =
     (let label = TrimSpace label in
      if label = [] then Inl (AppErr (BadRequest ''permission label is required''))
      else let (base, scope, _) = Cut label (CHR ''#'');
               (base, target, _) = Cut base (CHR '':'');
               parts = Split base (CHR ''.'')
           in if length parts < 2
              then Inl (AppErr (BadRequest ''permission label must use resource.action format''))
              else let action = last parts; resource = Join (butlast parts) ''.'' in
                   if TrimSpace resource = [] \<or> TrimSpace action = []
                   then Inl (AppErr (BadRequest ''permission label must use resource.action format''))
                   else let (app, resourceType) = splitResource resource in
                     Inr (normalizePermission (zero_Permission\<lparr>
                       perm_ApplicationCode := app, perm_ResourceType := resourceType,
                       perm_Resource := resource, perm_Action := action, perm_Target := target,
                       perm_Scope := scope, perm_Effect := ''allow''\<rparr>)))"

definition zero_mutation :: authzPermissionSetMutation where
  "zero_mutation = \<lparr> mut_addPermissions = [], mut_removePermissions = [] \<rparr>"

definition simulation_change :: "AuthzPermissionSetChange \<Rightarrow>
  (string, authzPermissionSetMutation) gomap \<Rightarrow> (string, authzPermissionSetMutation) gomap res" where
  "simulation_change change changes =
     (let setID = TrimSpace (apc_PermissionSetID change) in
      if setID = [] then Inl (AppErr (BadRequest ''permission_set_id is required for permission_set_changes''))
      else let mutation = (case map_of changes setID of Some m \<Rightarrow> m | None \<Rightarrow> zero_mutation) in
        bindR (mapR permissionFromSimulationLabel (apc_AddPermissions change)) (\<lambda>added.
          Inr (map_put setID
            \<lparr> mut_addPermissions = mut_addPermissions mutation @ added,
              mut_removePermissions = mut_removePermissions mutation @ apc_RemovePermissions change \<rparr>
            changes)))"

definition simulationOverridesToGrantOptions ::
  "AuthzSimulationOverrides \<Rightarrow> authzGrantCollectionOptions res" where
  "simulationOverridesToGrantOptions overrides =
     bindR (foldR simulation_change (aso_PermissionSetChanges overrides) []) (\<lambda>changes.
       Inr \<lparr> opt_addUserGroupIDs = uniqueStrings (aso_AddUserGroups overrides),
             opt_removeUserGroupIDs = stringsToSet (aso_RemoveUserGroups overrides),
             opt_addPermissionSetIDs = uniqueStrings (aso_AddPermissionSets overrides),
             opt_removePermissionSetIDs = stringsToSet (aso_RemovePermissionSets overrides),
             opt_assumeRoleID = TrimSpace (aso_AssumeRoleID overrides),
             opt_permissionSetChanges = changes \<rparr>)"

section \<open>Conditions of a scope\<close>

definition openFGAScopeChecksAvailable :: "service_env \<Rightarrow> bool" where
  "openFGAScopeChecksAvailable c \<longleftrightarrow> sv_openFGAScopeChecks c \<and> sv_relationships c \<noteq> None"

definition listBusinessEmployees :: "service_env \<Rightarrow> RequestContext \<Rightarrow> Employee list res" where
  "listBusinessEmployees c ctx = as_ListEmployeesByQuery (sv_store c) (ctx_TenantID ctx) zero_EmployeeQuery"

definition mark_available :: "service_env \<Rightarrow> string \<Rightarrow> params \<Rightarrow> params res" where
  "mark_available c scope out =
     Inr (if openFGAScopeChecksAvailable c then markOpenFGAScopeCheck out scope else out)"

definition scopeConditions ::
  "service_env \<Rightarrow> RequestContext \<Rightarrow> Account \<Rightarrow> string \<Rightarrow> params \<Rightarrow> params res" where
  "scopeConditions c ctx account scope params =
     (let out = map_put ''tenant_id'' (VStr (ctx_TenantID ctx)) (CopyStringMap params) in
      if scope = [] \<or> scope = ScopeAll \<or> scope = ScopeTenant then Inr out
      else if scope = ScopeSystem then
        (if ctx_AssumedRoleSessionID ctx = []
         then Inl (ForbiddenDataScope ''system data scope requires an assumed role session'')
         else Inr out)
      else if scope = ScopeSelf \<or> scope = ScopeOwn then
        (if map_of out ''employee_ids'' = None then
           (if acc_EmployeeID account = []
            then Inl (ForbiddenDataScope ''account is not linked to an employee for own scope'')
            else Inr (map_put ''employee_ids'' (VStrs [acc_EmployeeID account]) out))
         else Inr out)
      else if scope = ScopeDepartment then
        (if map_of out ''org_unit_ids'' = None \<and> acc_EmployeeID account = []
         then Inl (ForbiddenDataScope ''account is not linked to an employee for department scope'')
         else bindR
           (if map_of out ''org_unit_ids'' = None \<and> acc_EmployeeID account \<noteq> [] then
              bindR (as_GetEmployee (sv_store c) (ctx_TenantID ctx) (acc_EmployeeID account)) (\<lambda>found.
                Inr (case found of
                       Some employee \<Rightarrow>
                         (if emp_OrgUnitID employee \<noteq> []
                          then map_put ''org_unit_ids'' (VStrs [emp_OrgUnitID employee]) out else out)
                     | None \<Rightarrow> out))
            else Inr out)
           (mark_available c scope))
      else if scope = ScopeDepartmentSubtree then
        (if map_of out ''org_unit_ids'' = None \<and> acc_EmployeeID account = []
         then Inl (ForbiddenDataScope ''account is not linked to an employee for department_subtree scope'')
         else bindR
           (if map_of out ''org_unit_ids'' = None \<and> acc_EmployeeID account \<noteq> [] then
              bindR (as_GetEmployee (sv_store c) (ctx_TenantID ctx) (acc_EmployeeID account)) (\<lambda>found.
                case found of
                  Some employee \<Rightarrow>
                    (if emp_OrgUnitID employee \<noteq> [] then
                       bindR (as_ListOrgUnits (sv_store c) (ctx_TenantID ctx)) (\<lambda>units.
                         Inr (map_put ''org_unit_ids''
                           (VStrs (orgUnitIDsInSubtree units [emp_OrgUnitID employee])) out))
                     else Inr out)
                | None \<Rightarrow> Inr out)
            else Inr out)
           (mark_available c scope))
      else if scope = ScopeDirectReports then
        (if map_of out ''employee_ids'' = None \<and> acc_EmployeeID account \<noteq> [] then
           bindR (listBusinessEmployees c ctx) (\<lambda>employees.
             Inr (map_put ''employee_ids''
               (VStrs (map emp_ID (filter (\<lambda>e. emp_ManagerEmployeeID e = acc_EmployeeID account) employees))) out))
         else Inr out)
      else if scope = ScopeAssignedOrgUnits then
        (if stringSliceFromAny (map_at out ''org_unit_ids'') = []
         then Inl (ForbiddenDataScope ''assigned_org_units scope requires org_unit_ids'')
         else Inr out)
      else if scope = ScopeCustomCondition then
        (if \<not> hasEffectiveCustomScopeFilter out
         then Inl (ForbiddenDataScope ''custom_condition has no supported effective filter'')
         else Inr (map_put ''scope'' (VScope ScopeCustomCondition) out))
      else Inr (map_put ''scope'' (VScope scope) out))"

definition conditionsForGrant ::
  "service_env \<Rightarrow> RequestContext \<Rightarrow> Account \<Rightarrow> authzGrant \<Rightarrow> CheckRequest \<Rightarrow> (string \<times> params) res" where
  "conditionsForGrant c ctx account grant req =
     (case g_DataScope grant of
        Some ds \<Rightarrow>
          bindR (scopeConditions c ctx account (ds_ScopeType ds) (ds_Params ds)) (\<lambda>conditions.
            Inr (ds_ScopeType ds, conditions))
      | None \<Rightarrow>
          let scope = perm_Scope (g_Permission grant) in
          if scope = [] \<and> req_ApplicationCode req = AppAgent \<and> req_ResourceType req = ResourceUsage
          then Inr ([], [])
          else let scope = (if scope = [] then ScopeAll else scope) in
            bindR (scopeConditions c ctx account scope []) (\<lambda>conditions. Inr (scope, conditions)))"

definition boundaryScopeDecision ::
  "service_env \<Rightarrow> RequestContext \<Rightarrow> Account \<Rightarrow> params \<Rightarrow> (string \<times> params) option res" where
  "boundaryScopeDecision c ctx account boundary =
     (if boundary = [] then Inr None
      else case boundaryScopeSpec boundary of
        None \<Rightarrow> Inr None
      | Some (scope, params) \<Rightarrow>
          let scope = (if scope = [] then ScopeCustomCondition else scope) in
          bindR (scopeConditions c ctx account scope params) (\<lambda>conditions. Inr (Some (scope, conditions))))"

section \<open>Collecting grants\<close>

definition permissionSetAssignmentActive :: "PermissionSetAssignment \<Rightarrow> int \<Rightarrow> bool" where
  "permissionSetAssignmentActive assignment now =
     (if (case psa_StartsAt assignment of None \<Rightarrow> False | Some t \<Rightarrow> t > now) then False
      else if (case psa_ExpiresAt assignment of None \<Rightarrow> False | Some t \<Rightarrow> \<not> t > now) then False
      else True)"

text \<open>The state of the collection: the grants and the permission set ids so far.\<close>

type_synonym collected = "authzGrant list \<times> string list"

definition grantOf :: "PermissionSet \<Rightarrow> string \<Rightarrow> string \<Rightarrow> DataScope option \<Rightarrow> string \<Rightarrow> int option \<Rightarrow>
  Permission \<Rightarrow> authzGrant" where
  "grantOf pset source effect scope sourceKind expiresAt perm = \<lparr>
     g_Permission = normalizePermission perm, g_PermissionSetID = ps_ID pset, g_Source = source,
     g_SourceKind = sourceKind, g_Effect = FirstNonEmpty [effect, ''allow''],
     g_DataScope = scope, g_ExpiresAt = expiresAt \<rparr>"

definition addSet :: "service_env \<Rightarrow> RequestContext \<Rightarrow> authzGrantCollectionOptions \<Rightarrow>
  string \<Rightarrow> string \<Rightarrow> string \<Rightarrow> DataScope option \<Rightarrow> string \<Rightarrow> int option \<Rightarrow> collected \<Rightarrow> collected res" where
  "addSet c ctx opts setID source effect scope sourceKind expiresAt acc =
     (let setID = TrimSpace setID in
      if setID = [] then Inr acc
      else if setID \<in> opt_removePermissionSetIDs opts then Inr acc
      else bindR (as_GetPermissionSet (sv_store c) (ctx_TenantID ctx) setID) (\<lambda>found.
        case found of
          None \<Rightarrow> Inr acc
        | Some pset \<Rightarrow>
            let sourceKind = (if sourceKind = [] then authzGrantSourceNormal else sourceKind);
                permissions =
                  (case map_of (opt_permissionSetChanges opts) (ps_ID pset) of
                     Some mutation \<Rightarrow> applyPermissionSetMutation (ps_Permissions pset) mutation
                   | None \<Rightarrow> ps_Permissions pset)
            in Inr (fst acc @ map (grantOf pset source effect scope sourceKind expiresAt) permissions,
                    snd acc @ [ps_ID pset])))"

definition addAssignment :: "service_env \<Rightarrow> RequestContext \<Rightarrow> authzGrantCollectionOptions \<Rightarrow>
  string \<Rightarrow> string \<Rightarrow> string \<Rightarrow> int option \<Rightarrow> PermissionSetAssignment \<Rightarrow> collected \<Rightarrow> collected res" where
  "addAssignment c ctx opts principalID sourcePrefix sourceKind inheritedExpiry assignment acc =
     (if \<not> permissionSetAssignmentActive assignment (sv_now c) then Inr acc
      else if TrimSpace (psa_ConditionID assignment) \<noteq> [] \<and> TrimSpace (psa_Effect assignment) \<noteq> ''deny''
      then Inr acc
      else bindR
        (if psa_DataScopeID assignment \<noteq> [] then
           bindR (as_GetDataScope (sv_store c) (ctx_TenantID ctx) (psa_DataScopeID assignment)) (\<lambda>found.
             case found of
               None \<Rightarrow> Inl (AppErr (NotFound ''data scope'' (psa_DataScopeID assignment)))
             | Some v \<Rightarrow> Inr (Some v))
         else Inr None)
        (\<lambda>scope.
          addSet c ctx opts (psa_PermissionSetID assignment)
            (sourcePrefix @ '':'' @ principalID @ '':'' @ psa_PermissionSetID assignment)
            (psa_Effect assignment) scope sourceKind
            (earliestExpiry inheritedExpiry (psa_ExpiresAt assignment)) acc))"

definition addAssignments :: "service_env \<Rightarrow> RequestContext \<Rightarrow> authzGrantCollectionOptions \<Rightarrow>
  string \<Rightarrow> string \<Rightarrow> string \<Rightarrow> string \<Rightarrow> int option \<Rightarrow> collected \<Rightarrow> collected res" where
  "addAssignments c ctx opts principalType principalID sourcePrefix sourceKind inheritedExpiry acc =
     bindR (as_ListPermissionSetAssignmentsForPrincipal (sv_store c) (ctx_TenantID ctx) principalType principalID)
       (\<lambda>assignments.
         foldR (addAssignment c ctx opts principalID sourcePrefix sourceKind inheritedExpiry) assignments acc)"

text \<open>The groups of the account, less the removed ones, and the simulated ones.\<close>

definition filterGroup :: "authzGrantCollectionOptions \<Rightarrow> UserGroup \<Rightarrow>
  UserGroup list \<times> string set \<Rightarrow> UserGroup list \<times> string set" where
  "filterGroup opts g acc =
     (case acc of (filtered, seen) \<Rightarrow>
        if ug_ID g \<in> opt_removeUserGroupIDs opts then acc
        else if ug_ID g \<in> seen then acc
        else (filtered @ [g], insert (ug_ID g) seen))"

definition addSimulatedGroup :: "service_env \<Rightarrow> RequestContext \<Rightarrow> authzGrantCollectionOptions \<Rightarrow> string \<Rightarrow>
  UserGroup list \<times> string set \<Rightarrow> (UserGroup list \<times> string set) res" where
  "addSimulatedGroup c ctx opts ident acc =
     (let ident = TrimSpace ident in
      if ident = [] then Inr acc
      else if ident \<in> opt_removeUserGroupIDs opts then Inr acc
      else if ident \<in> snd acc then Inr acc
      else bindR (as_GetUserGroup (sv_store c) (ctx_TenantID ctx) ident) (\<lambda>found.
        case found of
          None \<Rightarrow> Inl (AppErr (NotFound ''user group'' ident))
        | Some g \<Rightarrow> Inr (fst acc @ [g], insert ident (snd acc))))"

definition addGroupSets :: "service_env \<Rightarrow> RequestContext \<Rightarrow> authzGrantCollectionOptions \<Rightarrow>
  (string, int option) gomap \<Rightarrow> UserGroup \<Rightarrow> collected \<Rightarrow> collected res" where
  "addGroupSets c ctx opts groupExpiries g acc =
     (let groupExpiry = expiry_at groupExpiries (ug_ID g) in
      bindR (foldR (\<lambda>ident. addSet c ctx opts ident (''group:'' @ ug_ID g @ '':'' @ ident) ''allow'' None
                     authzGrantSourceNormal groupExpiry) (ug_PermissionSetIDs g) acc)
        (addAssignments c ctx opts ''user_group'' (ug_ID g) ''group'' authzGrantSourceNormal groupExpiry))"

definition assumedRoleFor :: "service_env \<Rightarrow> RequestContext \<Rightarrow> Account \<Rightarrow> authzGrantCollectionOptions \<Rightarrow>
  (AssumableRole option \<times> AssumableRoleSession option) res" where
  "assumedRoleFor c ctx account opts =
     (if TrimSpace (opt_assumeRoleID opts) \<noteq> [] then
        bindR (as_GetAssumableRole (sv_store c) (ctx_TenantID ctx) (TrimSpace (opt_assumeRoleID opts))) (\<lambda>found.
          case found of
            None \<Rightarrow> Inl (AppErr (NotFound ''assumable role'' (TrimSpace (opt_assumeRoleID opts))))
          | Some item \<Rightarrow> Inr (Some item, None))
      else activeAssumableRole c ctx account)"

definition addRoleSets :: "service_env \<Rightarrow> RequestContext \<Rightarrow> authzGrantCollectionOptions \<Rightarrow>
  AssumableRole \<Rightarrow> collected \<Rightarrow> collected res" where
  "addRoleSets c ctx opts role acc =
     bindR (foldR (\<lambda>ident. addSet c ctx opts ident (''assumable_role:'' @ ar_ID role @ '':'' @ ident) ''allow''
                     None authzGrantSourceAssumed None) (ar_PermissionSetIDs role) acc)
       (addAssignments c ctx opts ''assumable_role'' (ar_ID role) ''assumable_role''
          authzGrantSourceAssumed None)"

text \<open>The boundary of the decision: the role's, joined with the session's.\<close>

definition sessionBoundary :: "AssumableRole option \<Rightarrow> AssumableRoleSession option \<Rightarrow> params" where
  "sessionBoundary role session =
     (let boundary = (case role of None \<Rightarrow> [] | Some r \<Rightarrow> CopyStringMap (ar_PermissionBoundary r)) in
      case session of
        None \<Rightarrow> boundary
      | Some x \<Rightarrow>
          let boundary = (if ars_PermissionBoundary x \<noteq> [] then mergePolicy boundary (ars_PermissionBoundary x)
                          else boundary)
          in if ars_SessionPolicy x \<noteq> [] then mergePolicy boundary (ars_SessionPolicy x) else boundary)"

definition assumedDecision :: "AssumableRole option \<Rightarrow> AssumableRoleSession option \<Rightarrow> AssumedRoleDecision option" where
  "assumedDecision role session =
     (case role of
        None \<Rightarrow> None
      | Some r \<Rightarrow> Some \<lparr> ard_SessionID = (case session of None \<Rightarrow> [] | Some x \<Rightarrow> ars_ID x),
                         ard_RoleID = ar_ID r, ard_Name = ar_Name r \<rparr>)"

type_synonym collection =
  "authzGrant list \<times> string list \<times> AssumedRoleDecision option \<times> params"

definition collectAuthzGrantsWithOptions ::
  "service_env \<Rightarrow> RequestContext \<Rightarrow> Account \<Rightarrow> authzGrantCollectionOptions \<Rightarrow> collection res" where
  "collectAuthzGrantsWithOptions c ctx account opts =
     bindR (foldR (\<lambda>ident. addSet c ctx opts ident (''direct:'' @ ident) ''allow'' None
                     authzGrantSourceNormal None) (acc_DirectPermissionSetIDs account) ([], [])) (\<lambda>acc.
     bindR (addAssignments c ctx opts ''account'' (acc_ID account) ''account'' authzGrantSourceNormal None acc) (\<lambda>acc.
     bindR (foldR (\<lambda>ident. addSet c ctx opts ident (''simulation:permission_set:'' @ TrimSpace ident) ''allow''
                     None authzGrantSourceNormal None) (opt_addPermissionSetIDs opts) acc) (\<lambda>acc.
     bindR (activeUserGroupsForAccountWithExpiries c ctx account) (\<lambda>(groups, groupExpiries).
     bindR (foldR (addSimulatedGroup c ctx opts) (opt_addUserGroupIDs opts)
              (fold (filterGroup opts) groups ([], {}))) (\<lambda>(filteredGroups, _).
     bindR (foldR (addGroupSets c ctx opts groupExpiries) filteredGroups acc) (\<lambda>acc.
     bindR (assumedRoleFor c ctx account opts) (\<lambda>(role, session).
     bindR (case role of None \<Rightarrow> Inr acc | Some r \<Rightarrow> addRoleSets c ctx opts r acc) (\<lambda>acc.
       Inr (fst acc, uniqueStrings (snd acc), assumedDecision role session, sessionBoundary role session)))))))))"

definition collectAuthzGrants ::
  "service_env \<Rightarrow> RequestContext \<Rightarrow> Account \<Rightarrow> collection res" where
  "collectAuthzGrants c ctx account =
     collectAuthzGrantsWithOptions c ctx account zero_authzGrantCollectionOptions"

section \<open>Where a grant comes from\<close>

lemma expiry_at_put [simp]: "expiry_at (map_put k v m) i = (if i = k then v else expiry_at m i)"
  by (simp add: expiry_at_def update_conv')

lemma not_expired_earliest:
  "(\<forall>x. a = Some x \<longrightarrow> now < x) \<Longrightarrow> (\<forall>x. b = Some x \<longrightarrow> now < x) \<Longrightarrow>
     earliestExpiry a b = Some x \<Longrightarrow> now < x"
  by (auto simp: earliestExpiry_def split: option.splits if_splits)

definition mutated_permissions :: "authzGrantCollectionOptions \<Rightarrow> PermissionSet \<Rightarrow> Permission list" where
  "mutated_permissions opts pset =
     (case map_of (opt_permissionSetChanges opts) (ps_ID pset) of
        Some mutation \<Rightarrow> applyPermissionSetMutation (ps_Permissions pset) mutation
      | None \<Rightarrow> ps_Permissions pset)"

text \<open>
  What every collected grant satisfies: it is a permission of a permission set of the caller's
  tenant that the simulation did not remove, under a data scope of that tenant, not expired,
  and on the assumed side only when a role is in force (\<open>role\<close>).
\<close>

definition grant_ok :: "service_env \<Rightarrow> string \<Rightarrow> authzGrantCollectionOptions \<Rightarrow> bool \<Rightarrow> authzGrant \<Rightarrow> bool" where
  "grant_ok c t opts role g \<longleftrightarrow>
     (\<exists>pset perm. as_GetPermissionSet (sv_store c) t (ps_ID pset) = Inr (Some pset) \<and>
        ps_TenantID pset = t \<and> g_PermissionSetID g = ps_ID pset \<and>
        perm \<in> set (mutated_permissions opts pset) \<and> g_Permission g = normalizePermission perm) \<and>
     g_PermissionSetID g \<notin> opt_removePermissionSetIDs opts \<and>
     (\<forall>d. g_DataScope g = Some d \<longrightarrow> ds_TenantID d = t) \<and>
     (\<forall>x. g_ExpiresAt g = Some x \<longrightarrow> sv_now c < x) \<and>
     (g_SourceKind g = authzGrantSourceAssumed \<longrightarrow> role)"

definition grants_ok :: "service_env \<Rightarrow> string \<Rightarrow> authzGrantCollectionOptions \<Rightarrow> bool \<Rightarrow> collected \<Rightarrow> bool" where
  "grants_ok c t opts role acc \<longleftrightarrow> (\<forall>g \<in> set (fst acc). grant_ok c t opts role g)"

lemma grants_ok_role: "grants_ok c t opts role acc \<Longrightarrow> grants_ok c t opts True acc"
  by (simp add: grants_ok_def grant_ok_def)

lemma assignment_not_expired:
  "permissionSetAssignmentActive a now \<Longrightarrow> psa_ExpiresAt a = Some x \<Longrightarrow> now < x"
  by (simp add: permissionSetAssignmentActive_def split: if_splits option.splits)

context tenant_reads
begin

lemma addSet_ok:
  assumes "invar s" and "sv_store c = store s"
    and "addSet c ctx opts i src eff scope kind expires acc = Inr acc'"
    and "grants_ok c (ctx_TenantID ctx) opts role acc"
    and "\<forall>d. scope = Some d \<longrightarrow> ds_TenantID d = ctx_TenantID ctx"
    and "\<forall>x. expires = Some x \<longrightarrow> sv_now c < x"
    and "kind = authzGrantSourceAssumed \<longrightarrow> role"
  shows "grants_ok c (ctx_TenantID ctx) opts role acc'"
proof (cases "acc' = acc")
  case True
  with assms(4) show ?thesis by simp
next
  case False
  let ?i = "TrimSpace i" and ?kind = "if kind = [] then authzGrantSourceNormal else kind"
  from assms(3) False obtain pset where pset:
      "as_GetPermissionSet (store s) (ctx_TenantID ctx) ?i = Inr (Some pset)"
      "?i \<notin> opt_removePermissionSetIDs opts"
      "acc' = (fst acc @ map (grantOf pset src eff scope ?kind expires) (mutated_permissions opts pset),
               snd acc @ [ps_ID pset])"
    by (auto simp: addSet_def Let_def mutated_permissions_def assms(2) split: if_splits option.splits)
  have id: "ps_TenantID pset = ctx_TenantID ctx" "ps_ID pset = ?i"
    using permission_set [OF assms(1) pset(1)] by auto
  have "grant_ok c (ctx_TenantID ctx) opts role (grantOf pset src eff scope ?kind expires perm)"
    if "perm \<in> set (mutated_permissions opts pset)" for perm
    unfolding grant_ok_def
  proof (intro conjI exI)
    show "as_GetPermissionSet (sv_store c) (ctx_TenantID ctx) (ps_ID pset) = Inr (Some pset)"
      using pset(1) id(2) assms(2) by simp
    show "perm \<in> set (mutated_permissions opts pset)" by (rule that)
  qed (use pset(2) id assms(5,6,7) in \<open>auto simp: grantOf_def\<close>)
  with assms(4) pset(3) show ?thesis by (auto simp: grants_ok_def)
qed

lemma addAssignment_ok:
  assumes "invar s" and "sv_store c = store s"
    and "addAssignment c ctx opts i pre kind inherited a acc = Inr acc'"
    and "grants_ok c (ctx_TenantID ctx) opts role acc"
    and "\<forall>x. inherited = Some x \<longrightarrow> sv_now c < x"
    and "kind = authzGrantSourceAssumed \<longrightarrow> role"
  shows "grants_ok c (ctx_TenantID ctx) opts role acc'"
proof (cases "acc' = acc")
  case True
  with assms(4) show ?thesis by simp
next
  case False
  from assms(3) False have active: "permissionSetAssignmentActive a (sv_now c)"
    by (auto simp: addAssignment_def split: if_splits)
  from assms(3) False obtain scope where scope: "\<forall>d. scope = Some d \<longrightarrow> ds_TenantID d = ctx_TenantID ctx"
      and step: "addSet c ctx opts (psa_PermissionSetID a) (pre @ '':'' @ i @ '':'' @ psa_PermissionSetID a)
        (psa_Effect a) scope kind (earliestExpiry inherited (psa_ExpiresAt a)) acc = Inr acc'"
    by (auto simp: addAssignment_def assms(2) split: if_splits option.splits
        dest: data_scope [OF assms(1)])
  have "\<forall>x. earliestExpiry inherited (psa_ExpiresAt a) = Some x \<longrightarrow> sv_now c < x"
    using not_expired_earliest [of inherited "sv_now c" "psa_ExpiresAt a"] assms(5)
      assignment_not_expired [OF active] by blast
  from addSet_ok [OF assms(1,2) step assms(4) scope this assms(6)] show ?thesis .
qed

lemma addAssignments_ok:
  assumes "invar s" and "sv_store c = store s"
    and "addAssignments c ctx opts ptype i pre kind inherited acc = Inr acc'"
    and "grants_ok c (ctx_TenantID ctx) opts role acc"
    and "\<forall>x. inherited = Some x \<longrightarrow> sv_now c < x"
    and "kind = authzGrantSourceAssumed \<longrightarrow> role"
  shows "grants_ok c (ctx_TenantID ctx) opts role acc'"
proof -
  from assms(3) obtain as where "foldR (addAssignment c ctx opts i pre kind inherited) as acc = Inr acc'"
    by (auto simp: addAssignments_def)
  then show ?thesis
    by (rule foldR_invariant [where P = "grants_ok c (ctx_TenantID ctx) opts role"])
      (use assms addAssignment_ok [OF assms(1,2) _ _ assms(5,6)] in auto)
qed

lemma addSets_ok:
  assumes "invar s" and "sv_store c = store s"
    and "foldR (\<lambda>i. addSet c ctx opts i (src i) ''allow'' None kind expires) ids acc = Inr acc'"
    and "grants_ok c (ctx_TenantID ctx) opts role acc"
    and "\<forall>x. expires = Some x \<longrightarrow> sv_now c < x"
    and "kind = authzGrantSourceAssumed \<longrightarrow> role"
  shows "grants_ok c (ctx_TenantID ctx) opts role acc'"
  by (rule foldR_invariant [OF assms(3), where P = "grants_ok c (ctx_TenantID ctx) opts role"])
    (use assms addSet_ok [OF assms(1,2) _ _ _ assms(5,6)] in auto)

lemma activeUserGroups_ok:
  assumes "invar s" and "sv_store c = store s"
    and "activeUserGroupsForAccountWithExpiries c ctx account = Inr (groups, expiries)"
  shows "\<forall>i x. expiry_at expiries i = Some x \<longrightarrow> sv_now c < x"
    and "g \<in> set groups \<Longrightarrow> ug_TenantID g = ctx_TenantID ctx"
proof -
  from assms(3) obtain ms seen where ms:
      "as_ListActiveGroupMembershipsForAccount (store s) (ctx_TenantID ctx) (acc_ID account) (sv_now c) = Inr ms"
    and run: "foldR (addGroup c ctx) ms ([], {}, []) = Inr (groups, seen, expiries)"
    by (auto simp: activeUserGroupsForAccountWithExpiries_def assms(2))
  have active: "\<forall>x. gm_ValidUntil m = Some x \<longrightarrow> sv_now c < x" if "m \<in> set ms" for m
    using membership [OF assms(1) ms that] by (auto simp: membershipActiveAt_def split: if_splits)
  have "(\<forall>i x. expiry_at (snd (snd acc)) i = Some x \<longrightarrow> sv_now c < x) \<and>
      (\<forall>g \<in> set (fst acc). ug_TenantID g = ctx_TenantID ctx)"
    if "foldR (addGroup c ctx) ms ([], {}, []) = Inr acc" for acc
  proof (rule foldR_invariant [OF that])
    fix m acc acc'
    assume m: "m \<in> set ms" and step: "addGroup c ctx m acc = Inr acc'"
      and ok: "(\<forall>i x. expiry_at (snd (snd acc)) i = Some x \<longrightarrow> sv_now c < x) \<and>
        (\<forall>g \<in> set (fst acc). ug_TenantID g = ctx_TenantID ctx)"
    obtain gs seen es where acc: "acc = (gs, seen, es)" by (cases acc)
    have joined: "\<forall>x. earliestExpiry (expiry_at es (gm_UserGroupID m)) (gm_ValidUntil m) = Some x \<longrightarrow> sv_now c < x"
      using not_expired_earliest [of "expiry_at es (gm_UserGroupID m)" "sv_now c" "gm_ValidUntil m"]
        ok active [OF m] acc by auto
    show "(\<forall>i x. expiry_at (snd (snd acc')) i = Some x \<longrightarrow> sv_now c < x) \<and>
        (\<forall>g \<in> set (fst acc'). ug_TenantID g = ctx_TenantID ctx)"
    proof (cases "gm_UserGroupID m \<in> seen")
      case True
      with step acc ok joined show ?thesis
        by (auto simp: addGroup_def Let_def split: if_splits)
    next
      case False
      then obtain found where found:
          "as_GetUserGroup (store s) (ctx_TenantID ctx) (gm_UserGroupID m) = Inr found"
        using step acc by (auto simp: addGroup_def Let_def assms(2))
      show ?thesis
      proof (cases found)
        case None
        with False found step acc ok show ?thesis by (auto simp: addGroup_def Let_def assms(2))
      next
        case (Some ug)
        with False found step acc ok active [OF m] user_group [OF assms(1)] show ?thesis
          by (auto simp: addGroup_def Let_def assms(2) split: if_splits)
      qed
    qed
  qed (simp add: expiry_at_def)
  from this [OF run] show "\<forall>i x. expiry_at expiries i = Some x \<longrightarrow> sv_now c < x"
    and "g \<in> set groups \<Longrightarrow> ug_TenantID g = ctx_TenantID ctx" by auto
qed

lemma addGroupSets_ok:
  assumes "invar s" and "sv_store c = store s"
    and "addGroupSets c ctx opts expiries g acc = Inr acc'"
    and "grants_ok c (ctx_TenantID ctx) opts role acc"
    and "\<forall>i x. expiry_at expiries i = Some x \<longrightarrow> sv_now c < x"
  shows "grants_ok c (ctx_TenantID ctx) opts role acc'"
proof -
  have expires: "\<forall>x. expiry_at expiries (ug_ID g) = Some x \<longrightarrow> sv_now c < x" using assms(5) by blast
  from assms(3) obtain mid where
      mid: "foldR (\<lambda>ident. addSet c ctx opts ident (''group:'' @ ug_ID g @ '':'' @ ident) ''allow'' None
             authzGrantSourceNormal (expiry_at expiries (ug_ID g))) (ug_PermissionSetIDs g) acc = Inr mid"
    and rest: "addAssignments c ctx opts ''user_group'' (ug_ID g) ''group'' authzGrantSourceNormal
             (expiry_at expiries (ug_ID g)) mid = Inr acc'"
    by (auto simp: addGroupSets_def Let_def)
  have "grants_ok c (ctx_TenantID ctx) opts role mid"
    by (rule addSets_ok [OF assms(1,2) mid assms(4) expires]) simp
  from addAssignments_ok [OF assms(1,2) rest this expires] show ?thesis by simp
qed

lemma addRoleSets_ok:
  assumes "invar s" and "sv_store c = store s" and "addRoleSets c ctx opts r acc = Inr acc'"
    and "grants_ok c (ctx_TenantID ctx) opts True acc"
  shows "grants_ok c (ctx_TenantID ctx) opts True acc'"
proof -
  from assms(3) obtain mid where
      mid: "foldR (\<lambda>ident. addSet c ctx opts ident (''assumable_role:'' @ ar_ID r @ '':'' @ ident) ''allow'' None
             authzGrantSourceAssumed None) (ar_PermissionSetIDs r) acc = Inr mid"
    and rest: "addAssignments c ctx opts ''assumable_role'' (ar_ID r) ''assumable_role''
             authzGrantSourceAssumed None mid = Inr acc'"
    by (auto simp: addRoleSets_def)
  have "grants_ok c (ctx_TenantID ctx) opts True mid"
    by (rule addSets_ok [OF assms(1,2) mid assms(4)]) simp_all
  from addAssignments_ok [OF assms(1,2) rest this] show ?thesis by simp
qed

lemma collectAuthzGrantsWithOptions_ok:
  assumes "invar s" and "sv_store c = store s"
    and "collectAuthzGrantsWithOptions c ctx account opts = Inr (grants, setIDs, assumed, boundary)"
    and "g \<in> set grants"
  shows "grant_ok c (ctx_TenantID ctx) opts (assumed \<noteq> None) g"
proof -
  let ?ok = "\<lambda>role. grants_ok c (ctx_TenantID ctx) opts role"
  from assms(3) obtain a1 a2 a3 groups expiries filtered seen a4 role session a5 where
    run: "foldR (\<lambda>ident. addSet c ctx opts ident (''direct:'' @ ident) ''allow'' None
            authzGrantSourceNormal None) (acc_DirectPermissionSetIDs account) ([], []) = Inr a1"
      "addAssignments c ctx opts ''account'' (acc_ID account) ''account'' authzGrantSourceNormal None a1 = Inr a2"
      "foldR (\<lambda>ident. addSet c ctx opts ident (''simulation:permission_set:'' @ TrimSpace ident) ''allow''
            None authzGrantSourceNormal None) (opt_addPermissionSetIDs opts) a2 = Inr a3"
      "activeUserGroupsForAccountWithExpiries c ctx account = Inr (groups, expiries)"
      "foldR (addGroupSets c ctx opts expiries) filtered a3 = Inr a4"
      "(case role of None \<Rightarrow> Inr a4 | Some r \<Rightarrow> addRoleSets c ctx opts r a4) = Inr a5"
      "grants = fst a5" "assumed = assumedDecision role session"
    unfolding collectAuthzGrantsWithOptions_def by (fastforce simp: case_prod_unfold)
  have "?ok False ([], [])" by (simp add: grants_ok_def)
  from addSets_ok [OF assms(1,2) run(1) this] have "?ok False a1" by simp
  from addAssignments_ok [OF assms(1,2) run(2) this] have "?ok False a2" by simp
  from addSets_ok [OF assms(1,2) run(3) this] have "?ok False a3" by simp
  then have a4: "?ok False a4"
    using addGroupSets_ok [OF assms(1,2) _ _ activeUserGroups_ok(1) [OF assms(1,2) run(4)]]
      foldR_invariant [OF run(5), where P = "?ok False"] by blast
  have "?ok (assumed \<noteq> None) a5"
  proof (cases role)
    case None
    with run(6,8) a4 show ?thesis by (simp add: assumedDecision_def)
  next
    case (Some r)
    with run(6,8) addRoleSets_ok [OF assms(1,2) _ grants_ok_role [OF a4]] show ?thesis
      by (simp add: assumedDecision_def)
  qed
  with assms(4) run(7) show ?thesis by (simp add: grants_ok_def)
qed

lemma activeAssumableRole_session:
  assumes "invar s" and "sv_store c = store s"
    and "activeAssumableRole c ctx account = Inr (role, session)"
    and "ctx_AssumedRoleSessionID ctx \<noteq> []"
  shows "\<exists>r x. role = Some r \<and> session = Some x \<and>
    ars_TenantID x = ctx_TenantID ctx \<and> ars_ID x = TrimSpace (ctx_AssumedRoleSessionID ctx) \<and>
    ars_AccountID x = acc_ID account \<and> ars_RevokedAt x = None \<and> sv_now c < ars_ExpiresAt x \<and>
    ar_TenantID r = ctx_TenantID ctx \<and> ar_ID r = ars_AssumableRoleID x"
  using assms
  by (auto simp: activeAssumableRole_def ownedActiveAssumableRoleSession_def Let_def
      split: if_splits option.splits dest: session [OF assms(1)] role [OF assms(1)])

end

end
