(* ===== verification/Field_Policies.thy ===== *)
theory Field_Policies
  imports Authz_Match Authz_Store
begin

text \<open>
  The field policies of a decision (\<open>fieldPolicyDecision\<close>, \<open>defaultFieldPolicies\<close>,
  \<open>fieldPolicyApplies\<close>, \<open>fieldPolicyEffectRank\<close> of
  \<open>service/authz_policy_service.go\<close>): which effect each field of a resource gets from the
  built-in defaults and the policies of the tenant.  The theorem is the specification the loop
  implements: the strictest applicable restriction wins, an allow only lifts a default.
\<close>

section \<open>The code\<close>

definition mask_all :: "string list \<Rightarrow> string \<Rightarrow> (string, string) gomap" where
  "mask_all names effect = map (\<lambda>n. (n, effect)) names"

definition defaultFieldPolicies :: "string \<Rightarrow> string \<Rightarrow> (string, string) gomap" where
  "defaultFieldPolicies applicationCode resourceType =
     (if applicationCode = AppAttendance \<and> resourceType = ResourceAttendanceClock
      then mask_all [''latitude'', ''longitude'', ''accuracy_meters'', ''distance_meters'', ''device_id'',
             ''device_info'', ''location_source''] ''hide''
      else if applicationCode \<noteq> AppHR \<or> resourceType \<noteq> ResourceEmployee then []
      else mask_all [''personal_email'', ''phone'', ''mobile_phone'', ''address'', ''communication_address'',
             ''emergency_contact_name'', ''emergency_name'', ''emergency_contact_phone'', ''emergency_phone'',
             ''national_id'', ''passport_no'', ''arc_no'', ''tax_id'', ''work_permit_no'', ''insurance_info'',
             ''labor_insurance_salary'', ''health_insurance_amount''] ''mask'')"

definition label_at :: "(string, string) gomap \<Rightarrow> string \<Rightarrow> string" where
  "label_at m k = (case map_of m k of None \<Rightarrow> [] | Some v \<Rightarrow> v)"

definition fieldPolicyApplies ::
  "FieldPolicy \<Rightarrow> string \<Rightarrow> string list \<Rightarrow> (string, string) gomap \<Rightarrow> bool" where
  "fieldPolicyApplies policy key matchedPermissions catalogLabels =
     (let policyPermission = TrimSpace (fp_PermissionID policy) in
      if policyPermission = [] then True
      else let catalogLabel = TrimSpace (label_at catalogLabels policyPermission);
               policyPermission = (if catalogLabel \<noteq> [] then catalogLabel else policyPermission)
           in if permissionLabelMatches key policyPermission then True
              else (\<exists>matched \<in> set matchedPermissions. permissionLabelMatches matched policyPermission))"

definition fieldPolicyEffectRank :: "string \<Rightarrow> int" where
  "fieldPolicyEffectRank effect =
     (if effect = ''deny'' then 5 else if effect = ''hide'' then 4 else if effect = ''mask'' then 3
      else if effect = ''readonly'' then 2 else if effect = ''allow'' then 1 else 0)"

definition catalogLabelsOf :: "PermissionCatalogItem list \<Rightarrow> (string, string) gomap" where
  "catalogLabelsOf items =
     fold (\<lambda>item m. map_put (pci_ID item) (TrimSpace (pci_Resource item) @ ''.'' @ TrimSpace (pci_Action item)) m)
       items []"

text \<open>The loop over the policies: the strictest restriction and the allows of each field.\<close>

definition fieldPolicy_step :: "string \<Rightarrow> string list \<Rightarrow> (string, string) gomap \<Rightarrow> FieldPolicy \<Rightarrow>
  (string, string) gomap \<times> string list \<Rightarrow> (string, string) gomap \<times> string list" where
  "fieldPolicy_step key matchedPermissions catalogLabels policy acc =
     (case acc of (explicitRestrictions, explicitAllows) \<Rightarrow>
        if \<not> fieldPolicyApplies policy key matchedPermissions catalogLabels then acc
        else let fld = TrimSpace (fp_FieldName policy) in
          if fld = [] then acc
          else let effect = TrimSpace (fp_Effect policy) in
            if effect = ''allow'' then (explicitRestrictions, List.insert fld explicitAllows)
            else (case map_of explicitRestrictions fld of
                    None \<Rightarrow> (map_put fld effect explicitRestrictions, explicitAllows)
                  | Some current \<Rightarrow>
                      if fieldPolicyEffectRank effect > fieldPolicyEffectRank current
                      then (map_put fld effect explicitRestrictions, explicitAllows)
                      else acc))"

definition combineFieldPolicies :: "(string, string) gomap \<Rightarrow> (string, string) gomap \<times> string list \<Rightarrow>
  (string, string) gomap" where
  "combineFieldPolicies out acc =
     (case acc of (explicitRestrictions, explicitAllows) \<Rightarrow>
        let out = fold (\<lambda>(fld, effect). map_put fld effect) explicitRestrictions out
        in fold (\<lambda>fld out. if map_of explicitRestrictions fld = None then map_del fld out else out)
             explicitAllows out)"

definition fieldPolicyDecision :: "authz_store \<Rightarrow> RequestContext \<Rightarrow> string \<Rightarrow> string \<Rightarrow> string \<Rightarrow> string list \<Rightarrow>
  (string, string) gomap res" where
  "fieldPolicyDecision st ctx applicationCode resourceType key matchedPermissions =
     bindR (as_ListFieldPolicies st (ctx_TenantID ctx) applicationCode resourceType) (\<lambda>policies.
       let out = defaultFieldPolicies applicationCode resourceType in
       if policies = [] then Inr out
       else bindR (as_ListPermissionCatalogItems st (ctx_TenantID ctx)) (\<lambda>catalogItems.
         Inr (combineFieldPolicies out
           (fold (fieldPolicy_step key matchedPermissions (catalogLabelsOf catalogItems)) policies ([], [])))))"

section \<open>The specification\<close>

definition applicable_effects :: "string \<Rightarrow> string list \<Rightarrow> (string, string) gomap \<Rightarrow> FieldPolicy list \<Rightarrow> string \<Rightarrow>
  string list" where
  "applicable_effects key matched labels policies fld =
     map (\<lambda>p. TrimSpace (fp_Effect p))
       (filter (\<lambda>p. fieldPolicyApplies p key matched labels \<and> TrimSpace (fp_FieldName p) = fld) policies)"

definition is_allow :: "string \<Rightarrow> bool" where
  "is_allow e \<longleftrightarrow> e = ''allow''"

definition strictest :: "string list \<Rightarrow> string \<Rightarrow> bool" where
  "strictest effects e \<longleftrightarrow> e \<in> set effects \<and> \<not> is_allow e \<and>
     (\<forall>x \<in> set effects. \<not> is_allow x \<longrightarrow> fieldPolicyEffectRank x \<le> fieldPolicyEffectRank e)"

text \<open>The loop invariant for one field: it has a restriction iff some applicable policy
  restricts it, and then the strictest one.\<close>

definition summed :: "string list \<Rightarrow> string option \<Rightarrow> bool \<Rightarrow> bool" where
  "summed effects r a \<longleftrightarrow>
     (case r of None \<Rightarrow> list_all is_allow effects | Some e \<Rightarrow> strictest effects e) \<and>
     (a \<longleftrightarrow> list_ex is_allow effects)"

definition policies_summed :: "(string \<Rightarrow> string list) \<Rightarrow> (string, string) gomap \<times> string list \<Rightarrow> bool" where
  "policies_summed effects acc \<longleftrightarrow>
     (\<forall>fld. fld \<noteq> [] \<longrightarrow> summed (effects fld) (map_of (fst acc) fld) (fld \<in> set (snd acc))) \<and>
     map_of (fst acc) [] = None \<and> [] \<notin> set (snd acc) \<and> map_wf (fst acc)"

lemma applicable_effects_snoc:
  "applicable_effects key matched labels (ps @ [p]) fld =
     applicable_effects key matched labels ps fld @
     (if fieldPolicyApplies p key matched labels \<and> TrimSpace (fp_FieldName p) = fld
      then [TrimSpace (fp_Effect p)] else [])"
  by (simp add: applicable_effects_def)

lemma summed_allow: "summed effects r a \<Longrightarrow> is_allow e \<Longrightarrow> summed (effects @ [e]) r True"
  by (auto simp: summed_def strictest_def split: option.splits)

lemma summed_new: "summed effects None a \<Longrightarrow> \<not> is_allow e \<Longrightarrow> summed (effects @ [e]) (Some e) a"
  by (auto simp: summed_def strictest_def list_all_iff)

lemma summed_raise:
  assumes "summed effects (Some c) a" and "\<not> is_allow e"
  shows "summed (effects @ [e]) (Some (if fieldPolicyEffectRank e > fieldPolicyEffectRank c then e else c)) a"
  using assms by (auto simp: summed_def strictest_def intro: order_trans)

lemma policies_summed_at:
  assumes "policies_summed effects (R, A)" and "fld \<noteq> []"
    and "\<And>g. g \<noteq> fld \<Longrightarrow> effects' g = effects g"
    and "\<And>g. g \<noteq> fld \<Longrightarrow> map_of R' g = map_of R g" and "\<And>g. g \<noteq> fld \<Longrightarrow> g \<in> set A' \<longleftrightarrow> g \<in> set A"
    and "map_wf R'" and "summed (effects' fld) (map_of R' fld) (fld \<in> set A')"
  shows "policies_summed effects' (R', A')"
proof -
  have old: "summed (effects g) (map_of R g) (g \<in> set A)" if "g \<noteq> []" for g
    using assms(1) that by (simp add: policies_summed_def)
  have "summed (effects' g) (map_of R' g) (g \<in> set A')" if "g \<noteq> []" for g
  proof (cases "g = fld")
    case False
    with old [OF that] show ?thesis by (simp only: assms(3,4,5) [OF False])
  qed (simp only: assms(7))
  moreover have "map_of R' [] = None" "[] \<notin> set A'"
    using assms(1,2) assms(4,5) [of "[]"] by (simp_all add: policies_summed_def)
  ultimately show ?thesis using assms(6) by (simp add: policies_summed_def)
qed

lemma policies_summed_step:
  assumes "policies_summed (applicable_effects key matched labels ps) acc"
  shows "policies_summed (applicable_effects key matched labels (ps @ [p]))
    (fieldPolicy_step key matched labels p acc)"
proof -
  obtain R A where acc: "acc = (R, A)" by fastforce
  let ?fld = "TrimSpace (fp_FieldName p)" and ?e = "TrimSpace (fp_Effect p)"
  let ?eff = "applicable_effects key matched labels ps"
  have wf: "map_wf R" using assms acc by (simp add: policies_summed_def)
  show ?thesis
  proof (cases "fieldPolicyApplies p key matched labels \<and> ?fld \<noteq> []")
    case False
    then have "fieldPolicy_step key matched labels p acc = acc"
      by (auto simp: fieldPolicy_step_def acc Let_def)
    with False assms show ?thesis by (auto simp: policies_summed_def applicable_effects_snoc)
  next
    case True
    have sum: "summed (?eff ?fld) (map_of R ?fld) (?fld \<in> set A)"
      using assms True acc by (simp add: policies_summed_def)
    note moment = policies_summed_at [OF assms [unfolded acc] conjunct2 [OF True],
        of "applicable_effects key matched labels (ps @ [p])"]
    show ?thesis
    proof (cases "is_allow ?e")
      case allow: True
      then have "fieldPolicy_step key matched labels p acc = (R, List.insert ?fld A)"
        using True by (simp add: fieldPolicy_step_def acc Let_def is_allow_def)
      with True summed_allow [OF sum allow] wf show ?thesis
        by (auto intro!: moment simp: applicable_effects_snoc)
    next
      case restrict: False
      then have step: "fieldPolicy_step key matched labels p acc =
        (case map_of R ?fld of None \<Rightarrow> (map_put ?fld ?e R, A)
         | Some c \<Rightarrow> (if fieldPolicyEffectRank ?e > fieldPolicyEffectRank c then map_put ?fld ?e R else R, A))"
        using True by (simp add: fieldPolicy_step_def acc Let_def is_allow_def split: option.split)
      show ?thesis
      proof (cases "map_of R ?fld")
        case None
        with True step wf summed_new [OF sum [unfolded None] restrict] show ?thesis
          by (auto intro!: moment simp: applicable_effects_snoc update_conv' distinct_update)
      next
        case (Some c)
        with True step wf summed_raise [OF sum [unfolded Some] restrict] show ?thesis
          by (auto intro!: moment simp: applicable_effects_snoc update_conv' distinct_update)
      qed
    qed
  qed
qed

lemma policies_summed_fold:
  "policies_summed (applicable_effects key matched labels policies)
     (fold (fieldPolicy_step key matched labels) policies ([], []))"
proof (induction policies rule: rev_induct)
  case Nil
  show ?case by (simp add: policies_summed_def applicable_effects_def summed_def)
qed (simp add: policies_summed_step)

lemma lookup_fold_put:
  "map_wf R \<Longrightarrow> map_of (fold (\<lambda>(k, v). map_put k v) R out) k =
     (case map_of R k of None \<Rightarrow> map_of out k | Some v \<Rightarrow> Some v)"
proof (induction R arbitrary: out)
  case (Cons kv R)
  obtain k' v where "kv = (k', v)" by fastforce
  with Cons.prems have wf: "map_wf R" and fresh: "map_of R k' = None"
    by (auto simp: map_of_eq_None_iff)
  show ?case
    using fresh Cons.IH [OF wf, of "map_put k' v out"]
    by (cases "k = k'") (simp_all add: \<open>kv = _\<close> update_conv' split: option.split)
qed simp

lemma lookup_fold_del:
  "map_of (fold (\<lambda>k m. if P k then map_del k m else m) ks m) k =
     (if k \<in> set ks \<and> P k then None else map_of m k)"
  by (induction ks arbitrary: m) (auto simp: delete_conv')

lemma lookup_combine:
  assumes "map_wf R"
  shows "map_of (combineFieldPolicies out (R, A)) fld =
    (case map_of R fld of Some e \<Rightarrow> Some e | None \<Rightarrow> if fld \<in> set A then None else map_of out fld)"
  using assms unfolding combineFieldPolicies_def Let_def prod.case
  by (subst lookup_fold_del [where P = "\<lambda>k. map_of R k = None"]) (simp add: lookup_fold_put split: option.split)

definition decided_effect :: "string list \<Rightarrow> string option \<Rightarrow> string option \<Rightarrow> bool" where
  "decided_effect effects dflt decided \<longleftrightarrow>
     (if effects = [] then decided = dflt
      else if list_all is_allow effects then decided = None
      else \<exists>e. decided = Some e \<and> strictest effects e)"

text \<open>
  C7.  The field policies of a decision are what the tenant's policies say: a field with an
  applicable restriction gets one of those that are ranked strictest, a field that is only
  allowed is released, and a field no applicable policy names keeps its built-in default.
\<close>

theorem fieldPolicyDecision_strictest:
  assumes "as_ListFieldPolicies st (ctx_TenantID ctx) app rt = Inr policies"
    and "as_ListPermissionCatalogItems st (ctx_TenantID ctx) = Inr items"
    and "fieldPolicyDecision st ctx app rt key matched = Inr out" and "fld \<noteq> []"
  shows "decided_effect (applicable_effects key matched (catalogLabelsOf items) policies fld)
    (map_of (defaultFieldPolicies app rt) fld) (map_of out fld)"
proof (cases "policies = []")
  case True
  with assms show ?thesis by (simp add: fieldPolicyDecision_def applicable_effects_def decided_effect_def)
next
  case False
  obtain R A where run: "fold (fieldPolicy_step key matched (catalogLabelsOf items)) policies ([], []) = (R, A)"
    by fastforce
  let ?eff = "applicable_effects key matched (catalogLabelsOf items) policies fld"
  have sum: "summed ?eff (map_of R fld) (fld \<in> set A)" and wf: "map_wf R"
    using policies_summed_fold [of key matched "catalogLabelsOf items" policies] run assms(4)
    by (simp_all add: policies_summed_def)
  have "out = combineFieldPolicies (defaultFieldPolicies app rt) (R, A)"
    using False assms run by (simp add: fieldPolicyDecision_def)
  with sum show ?thesis unfolding decided_effect_def
    by (cases ?eff) (auto simp: lookup_combine [OF wf] summed_def strictest_def list_all_iff list_ex_iff
        split: option.splits)
qed

definition policy_row :: "string \<Rightarrow> string \<Rightarrow> string \<Rightarrow> FieldPolicy" where
  "policy_row i fld effect = zero_FieldPolicy\<lparr> fp_ID := i, fp_TenantID := ''acme'',
     fp_ApplicationCode := ''hr'', fp_ResourceType := ''employee'', fp_FieldName := fld, fp_Effect := effect \<rparr>"

definition policy_tables :: mem_store where
  "policy_tables = UpsertFieldPolicy (UpsertFieldPolicy (UpsertFieldPolicy empty_store
     (policy_row ''1'' ''phone'' ''mask'')) (policy_row ''2'' ''phone'' ''hide'')) (policy_row ''3'' ''tax_id'' ''allow'')"

definition policy_store :: authz_store where
  "policy_store = mem_authz_store (\<lambda>_. None) 0 policy_tables"

theorem fieldPolicyDecision_strictest_witness:
  "\<exists>out. fieldPolicyDecision policy_store (zero_RequestContext\<lparr> ctx_TenantID := ''acme'' \<rparr>) ''hr'' ''employee''
       ''hr.employee.read'' [] = Inr out \<and>
     decided_effect [''mask'', ''hide''] (Some ''mask'') (map_of out ''phone'')"
proof -
  let ?ctx = "zero_RequestContext\<lparr> ctx_TenantID := ''acme'' \<rparr>"
  have "isOk (fieldPolicyDecision policy_store ?ctx ''hr'' ''employee'' ''hr.employee.read'' [])" by code_simp
  then obtain out where
    run: "fieldPolicyDecision policy_store ?ctx ''hr'' ''employee'' ''hr.employee.read'' [] = Inr out" by (rule isOkE)
  have reads: "as_ListFieldPolicies policy_store (ctx_TenantID ?ctx) ''hr'' ''employee'' =
        Inr (ListFieldPolicies policy_tables ''acme'' ''hr'' ''employee'')"
      "as_ListPermissionCatalogItems policy_store (ctx_TenantID ?ctx) = Inr (ListPermissionCatalogItems policy_tables ''acme'')"
    by (simp_all add: policy_store_def)
  have eff: "applicable_effects ''hr.employee.read'' [] (catalogLabelsOf (ListPermissionCatalogItems policy_tables ''acme''))
      (ListFieldPolicies policy_tables ''acme'' ''hr'' ''employee'') ''phone'' = [''mask'', ''hide'']"
    and dflt: "map_of (defaultFieldPolicies ''hr'' ''employee'') ''phone'' = Some ''mask''"
    by code_simp+
  have "''phone'' \<noteq> []" by simp
  from fieldPolicyDecision_strictest [OF reads run this] run show ?thesis unfolding eff dflt by blast
qed

end
