(* ===== verification/Route_Catalog.thy ===== *)
theory Route_Catalog
  imports Authz_Match
begin

text \<open>
  The route policy catalogue of \<^verbatim>\<open>src/internal/domain/authz.go\<close> (the 162 rows of
  \<^verbatim>\<open>DefaultRoutePolicies\<close>, cut in four lists so that each is checked quickly) and what the
  authorization service reads from it in \<^verbatim>\<open>src/internal/service/authz_policy_service.go\<close>:
  the risk level of a request (\<^verbatim>\<open>riskLevelForRoute\<close>) and the default permission
  catalogue (\<^verbatim>\<open>defaultPermissions\<close>).  The lemmas show that the two are unambiguous:
  no method and path occur twice, and each permission key has one entry, with the highest
  risk of its routes.
\<close>

section \<open>The catalogue\<close>

definition route :: "string \<Rightarrow> string \<Rightarrow> string \<Rightarrow> string \<Rightarrow> string \<Rightarrow> string \<Rightarrow> string \<Rightarrow> RoutePolicy" where
  "route name meth path app rtype action risk = \<lparr>
     rp_Name = name, rp_Method = meth, rp_Path = path, rp_ApplicationCode = app,
     rp_ResourceType = rtype, rp_Action = action, rp_RiskLevel = risk \<rparr>"

definition DefaultRoutePolicies_1 :: "RoutePolicy list" where
  "DefaultRoutePolicies_1 = [
     route ''me.read'' ''GET'' ''/v1/me'' ''platform'' ''me'' ''read'' [],
     route ''me.profile.update'' ''PATCH'' ''/v1/me/profile'' ''platform'' ''me'' ''update'' [],
     route ''me.preferences.update'' ''PATCH'' ''/v1/me/preferences'' ''platform'' ''me'' ''update'' [],
     route ''me.password.update'' ''PUT'' ''/v1/me/password'' ''platform'' ''me'' ''update'' ''critical'',
     route ''iam.permission.read'' ''GET'' ''/v1/iam/permissions'' ''iam'' ''permission'' ''read'' [],
     route ''iam.permission_package.read'' ''GET'' ''/v1/iam/permission-packages'' ''iam'' ''permission_package'' ''read'' [],
     route ''iam.user_group.read'' ''GET'' ''/v1/iam/user-groups'' ''iam'' ''user_group'' ''read'' [],
     route ''iam.user_group.create'' ''POST'' ''/v1/iam/user-groups'' ''iam'' ''user_group'' ''create'' ''critical'',
     route ''iam.user_group.update'' ''PATCH'' ''/v1/iam/user-groups/:id'' ''iam'' ''user_group'' ''update'' ''critical'',
     route ''iam.user_group.members.read'' ''GET'' ''/v1/iam/user-groups/:id/members'' ''iam'' ''user_group'' ''read'' [],
     route ''iam.user_group.members.add'' ''POST'' ''/v1/iam/user-groups/:id/members'' ''iam'' ''user_group'' ''update'' ''critical'',
     route ''iam.user_group.members.remove'' ''DELETE'' ''/v1/iam/user-groups/:id/members/:accountId'' ''iam'' ''user_group'' ''update'' ''critical'',
     route ''iam.permission_set.read'' ''GET'' ''/v1/iam/permission-sets'' ''iam'' ''permission_set'' ''read'' [],
     route ''iam.permission_set.create'' ''POST'' ''/v1/iam/permission-sets'' ''iam'' ''permission_set'' ''create'' ''critical'',
     route ''iam.permission_set.update'' ''PATCH'' ''/v1/iam/permission-sets/:id'' ''iam'' ''permission_set'' ''update'' ''critical'',
     route ''iam.account.read'' ''GET'' ''/v1/iam/accounts'' ''iam'' ''account'' ''read'' [],
     route ''iam.account.options'' ''GET'' ''/v1/iam/accounts/options'' ''iam'' ''account'' ''read'' [],
     route ''iam.permission_set.options'' ''GET'' ''/v1/iam/permission-sets/options'' ''iam'' ''permission_set'' ''read'' [],
     route ''iam.user_group.options'' ''GET'' ''/v1/iam/user-groups/options'' ''iam'' ''user_group'' ''read'' [],
     route ''iam.assumable_role.options'' ''GET'' ''/v1/iam/assumable-roles/options'' ''iam'' ''assumable_role'' ''read'' [],
     route ''iam.permission_assignment.read'' ''GET'' ''/v1/iam/permission-set-assignments'' ''iam'' ''permission_set_assignment'' ''read'' [],
     route ''iam.permission_assignment.create'' ''POST'' ''/v1/iam/permission-set-assignments'' ''iam'' ''permission_set_assignment'' ''create'' ''critical'',
     route ''iam.permission_assignment.delete'' ''DELETE'' ''/v1/iam/permission-set-assignments/:id'' ''iam'' ''permission_set_assignment'' ''delete'' ''critical'',
     route ''iam.data_scope.read'' ''GET'' ''/v1/iam/data-scopes'' ''iam'' ''data_scope'' ''read'' [],
     route ''iam.data_scope.create'' ''POST'' ''/v1/iam/data-scopes'' ''iam'' ''data_scope'' ''create'' ''critical'',
     route ''iam.data_scope.update'' ''PATCH'' ''/v1/iam/data-scopes/:id'' ''iam'' ''data_scope'' ''update'' ''critical'',
     route ''iam.data_scope.delete'' ''DELETE'' ''/v1/iam/data-scopes/:id'' ''iam'' ''data_scope'' ''delete'' ''critical'',
     route ''iam.field_policy.read'' ''GET'' ''/v1/iam/field-policies'' ''iam'' ''field_policy'' ''read'' [],
     route ''iam.field_policy.create'' ''POST'' ''/v1/iam/field-policies'' ''iam'' ''field_policy'' ''create'' ''critical'',
     route ''iam.field_policy.update'' ''PATCH'' ''/v1/iam/field-policies/:id'' ''iam'' ''field_policy'' ''update'' ''critical'',
     route ''iam.field_policy.delete'' ''DELETE'' ''/v1/iam/field-policies/:id'' ''iam'' ''field_policy'' ''delete'' ''critical'',
     route ''iam.assumable_role.read'' ''GET'' ''/v1/iam/assumable-roles'' ''iam'' ''assumable_role'' ''read'' [],
     route ''iam.assumable_role.create'' ''POST'' ''/v1/iam/assumable-roles'' ''iam'' ''assumable_role'' ''create'' ''critical'',
     route ''iam.assumable_role.assume'' ''POST'' ''/v1/iam/assumable-roles/:id/assume'' ''iam'' ''assumable_role'' ''assume'' ''critical'',
     route ''iam.assumable_role_session.revoke_current'' ''DELETE'' ''/v1/iam/assumable-role-sessions/current'' ''platform'' ''me'' ''read'' ''critical'',
     route ''hr.position.read'' ''GET'' ''/v1/hr/positions'' ''hr'' ''position'' ''read'' [],
     route ''hr.employee.read'' ''GET'' ''/v1/hr/employees'' ''hr'' ''employee'' ''read'' [],
     route ''hr.employee.detail'' ''GET'' ''/v1/hr/employees/:id'' ''hr'' ''employee'' ''read'' [],
     route ''hr.employee.update'' ''PATCH'' ''/v1/hr/employees/:id'' ''hr'' ''employee'' ''update'' [],
     route ''hr.employee.stats'' ''GET'' ''/v1/hr/employees/stats'' ''hr'' ''employee'' ''read'' [],
     route ''hr.employee.ehrms_sync'' ''POST'' ''/v1/hr/employees/ehrms/sync'' ''hr'' ''employee'' ''import'' ''critical'']"

definition DefaultRoutePolicies_2 :: "RoutePolicy list" where
  "DefaultRoutePolicies_2 = [
     route ''hr.employee.export_download'' ''GET'' ''/v1/hr/employees/export'' ''hr'' ''employee'' ''export'' ''critical'',
     route ''hr.org_unit.read'' ''GET'' ''/v1/org/units'' ''hr'' ''org_unit'' ''read'' [],
     route ''hr.org_unit.create'' ''POST'' ''/v1/org/units'' ''hr'' ''org_unit'' ''create'' [],
     route ''hr.org_unit.ehrms_sync'' ''POST'' ''/v1/org/units/ehrms/sync'' ''hr'' ''org_unit'' ''create'' ''critical'',
     route ''hr.org_unit.update'' ''PATCH'' ''/v1/org/units/:id'' ''hr'' ''org_unit'' ''update'' [],
     route ''attendance.leave.read_balance'' ''GET'' ''/v1/attendance/leave-balances'' ''attendance'' ''leave'' ''read'' [],
     route ''attendance.leave_type.read'' ''GET'' ''/v1/attendance/leave-types'' ''attendance'' ''leave'' ''read'' [],
     route ''attendance.leave_type.set_enabled'' ''PATCH'' ''/v1/attendance/leave-types/:id'' ''attendance'' ''leave'' ''update'' ''high'',
     route ''attendance.leave.read_request'' ''GET'' ''/v1/attendance/leave-requests'' ''attendance'' ''leave'' ''read'' [],
     route ''attendance.policy.read'' ''GET'' ''/v1/attendance/policies/current'' ''attendance'' ''leave'' ''read'' [],
     route ''attendance.policy.validate'' ''POST'' ''/v1/attendance/policies/validate'' ''attendance'' ''leave'' ''update'' [],
     route ''attendance.policy.publish'' ''POST'' ''/v1/attendance/policies/publish'' ''attendance'' ''leave'' ''update'' ''critical'',
     route ''attendance.worksite.read'' ''GET'' ''/v1/attendance/worksites'' ''attendance'' ''worksite'' ''read'' [],
     route ''attendance.worksite.create'' ''POST'' ''/v1/attendance/worksites'' ''attendance'' ''worksite'' ''create'' [],
     route ''attendance.worksite.update'' ''PATCH'' ''/v1/attendance/worksites'' ''attendance'' ''worksite'' ''update'' [],
     route ''attendance.clock.status'' ''GET'' ''/v1/attendance/clock-status'' ''attendance'' ''clock'' ''read'' [],
     route ''attendance.clock.monthly_summary'' ''GET'' ''/v1/attendance/monthly-summary'' ''attendance'' ''clock'' ''read'' [],
     route ''attendance.clock.read'' ''GET'' ''/v1/attendance/clock-records'' ''attendance'' ''clock'' ''read'' [],
     route ''attendance.clock.create'' ''POST'' ''/v1/attendance/clock-records'' ''attendance'' ''clock'' ''create'' [],
     route ''attendance.leave_type.ehrms_sync'' ''POST'' ''/v1/attendance/ehrms/leave-types/sync'' ''attendance'' ''clock'' ''import'' ''critical'',
     route ''attendance.ehrms.sync'' ''POST'' ''/v1/attendance/ehrms/sync'' ''attendance'' ''clock'' ''import'' ''critical'',
     route ''attendance.correction.read'' ''GET'' ''/v1/attendance/corrections'' ''attendance'' ''correction'' ''read'' [],
     route ''attendance.correction.create'' ''POST'' ''/v1/attendance/corrections'' ''attendance'' ''correction'' ''create'' [],
     route ''attendance.correction.approve'' ''POST'' ''/v1/attendance/corrections/:id/approve'' ''attendance'' ''correction'' ''approve'' ''high'',
     route ''attendance.correction.reject'' ''POST'' ''/v1/attendance/corrections/:id/reject'' ''attendance'' ''correction'' ''update'' ''high'',
     route ''platform.assistants.read'' ''GET'' ''/v1/platform/assistants'' ''platform'' ''me'' ''read'' [],
     route ''platform.forms.read'' ''GET'' ''/v1/platform/forms'' ''platform'' ''me'' ''read'' [],
     route ''platform.tasks.read'' ''GET'' ''/v1/platform/tasks'' ''platform'' ''me'' ''read'' [],
     route ''platform.task_item.create'' ''POST'' ''/v1/platform/tasks/items'' ''platform'' ''me'' ''create'' [],
     route ''platform.task_item.update'' ''PATCH'' ''/v1/platform/tasks/items/:id'' ''platform'' ''me'' ''update'' [],
     route ''platform.task_item.delete'' ''DELETE'' ''/v1/platform/tasks/items/:id'' ''platform'' ''me'' ''delete'' [],
     route ''platform.task_todo.create'' ''POST'' ''/v1/platform/tasks/todos'' ''platform'' ''me'' ''create'' [],
     route ''platform.task_todo.update'' ''PATCH'' ''/v1/platform/tasks/todos/:id'' ''platform'' ''me'' ''update'' [],
     route ''platform.task_todo.delete'' ''DELETE'' ''/v1/platform/tasks/todos/:id'' ''platform'' ''me'' ''delete'' [],
     route ''platform.task_todo.convert'' ''POST'' ''/v1/platform/tasks/todos/:id/convert'' ''platform'' ''me'' ''update'' [],
     route ''platform.notification.read'' ''GET'' ''/v1/notifications'' ''platform'' ''me'' ''read'' [],
     route ''platform.notification.unread_count'' ''GET'' ''/v1/notifications/unread-count'' ''platform'' ''me'' ''read'' [],
     route ''platform.notification.read_one'' ''POST'' ''/v1/notifications/:id/read'' ''platform'' ''me'' ''update'' [],
     route ''platform.notification.read_all'' ''POST'' ''/v1/notifications/read-all'' ''platform'' ''me'' ''update'' [],
     route ''workspace.overview.read'' ''GET'' ''/v1/workspace/overview'' ''hr'' ''employee'' ''read'' [],
     route ''workspace.organization.read'' ''GET'' ''/v1/workspace/organization'' ''hr'' ''employee'' ''read'' []]"

definition DefaultRoutePolicies_3 :: "RoutePolicy list" where
  "DefaultRoutePolicies_3 = [
     route ''workspace.org_units_directory.read'' ''GET'' ''/v1/workspace/org-units-directory'' ''hr'' ''org_unit'' ''read'' [],
     route ''workspace.turnover.read'' ''GET'' ''/v1/workspace/turnover'' ''hr'' ''employee'' ''read'' [],
     route ''workspace.turnover.export'' ''GET'' ''/v1/workspace/turnover/export'' ''hr'' ''employee'' ''export'' ''critical'',
     route ''workspace.attendance.read'' ''GET'' ''/v1/workspace/attendance'' ''attendance'' ''clock'' ''read'' [],
     route ''workspace.attendance.abnormals'' ''GET'' ''/v1/workspace/attendance/abnormals'' ''attendance'' ''clock'' ''read'' [],
     route ''workspace.attendance.export'' ''GET'' ''/v1/workspace/attendance/export'' ''attendance'' ''clock'' ''export'' ''critical'',
     route ''workspace.form.read'' ''GET'' ''/v1/workspace/forms'' ''workflow'' ''form_template'' ''read'' [],
     route ''workspace.form.create'' ''POST'' ''/v1/workspace/forms'' ''workflow'' ''form_template'' ''create'' [],
     route ''workspace.form.update'' ''PATCH'' ''/v1/workspace/forms/:id'' ''workflow'' ''form_template'' ''update'' [],
     route ''workspace.form.publish'' ''POST'' ''/v1/workspace/forms/:id/publish'' ''workflow'' ''form_template'' ''update'' [],
     route ''workspace.form.delete'' ''DELETE'' ''/v1/workspace/forms/:id'' ''workflow'' ''form_template'' ''delete'' ''high'',
     route ''workspace.audit_logs.read'' ''GET'' ''/v1/workspace/audit-logs'' ''audit'' ''audit_log'' ''read'' [],
     route ''workspace.audit_log_facets.read'' ''GET'' ''/v1/workspace/audit-logs/facets'' ''audit'' ''audit_log'' ''read'' [],
     route ''workspace.insights.read'' ''GET'' ''/v1/workspace/insights'' ''hr'' ''employee'' ''read'' [],
     route ''workspace.agent_model.read'' ''GET'' ''/v1/workspace/agent-models'' ''agent'' ''model'' ''read'' [],
     route ''workspace.agent_model.create'' ''POST'' ''/v1/workspace/agent-models'' ''agent'' ''model'' ''create'' ''high'',
     route ''workspace.agent_model.update'' ''PATCH'' ''/v1/workspace/agent-models/:id'' ''agent'' ''model'' ''update'' ''high'',
     route ''workspace.agent_model.delete'' ''DELETE'' ''/v1/workspace/agent-models/:id'' ''agent'' ''model'' ''delete'' ''high'',
     route ''workspace.agent_model.sync'' ''POST'' ''/v1/workspace/agent-models/:id/sync'' ''agent'' ''model'' ''update'' ''high'',
     route ''workspace.agent_model.test'' ''POST'' ''/v1/workspace/agent-models/:id/test'' ''agent'' ''model'' ''update'' [],
     route ''workspace.knowledge_base.read'' ''GET'' ''/v1/workspace/knowledge-bases'' ''agent'' ''knowledge_base'' ''read'' [],
     route ''workspace.knowledge_base.create'' ''POST'' ''/v1/workspace/knowledge-bases'' ''agent'' ''knowledge_base'' ''create'' ''high'',
     route ''workspace.knowledge_base.get'' ''GET'' ''/v1/workspace/knowledge-bases/:id'' ''agent'' ''knowledge_base'' ''read'' [],
     route ''workspace.knowledge_base.update'' ''PATCH'' ''/v1/workspace/knowledge-bases/:id'' ''agent'' ''knowledge_base'' ''update'' ''high'',
     route ''workspace.knowledge_base.delete'' ''DELETE'' ''/v1/workspace/knowledge-bases/:id'' ''agent'' ''knowledge_base'' ''delete'' ''high'',
     route ''workspace.knowledge_document.read'' ''GET'' ''/v1/workspace/knowledge-bases/:id/documents'' ''agent'' ''knowledge_base'' ''read'' [],
     route ''workspace.knowledge_document.get'' ''GET'' ''/v1/workspace/knowledge-bases/:id/documents/:document_id'' ''agent'' ''knowledge_base'' ''read'' [],
     route ''workspace.knowledge_document.create'' ''POST'' ''/v1/workspace/knowledge-bases/:id/documents'' ''agent'' ''knowledge_base'' ''update'' ''high'',
     route ''workspace.knowledge_document.update'' ''PATCH'' ''/v1/workspace/knowledge-bases/:id/documents/:document_id'' ''agent'' ''knowledge_base'' ''update'' ''high'',
     route ''workspace.knowledge_document.delete'' ''DELETE'' ''/v1/workspace/knowledge-bases/:id/documents/:document_id'' ''agent'' ''knowledge_base'' ''update'' ''high'',
     route ''workspace.knowledge_base.search'' ''POST'' ''/v1/workspace/knowledge-bases/:id/search'' ''agent'' ''knowledge_base'' ''read'' [],
     route ''workspace.agent_definition.read'' ''GET'' ''/v1/workspace/agents'' ''agent'' ''definition'' ''read'' [],
     route ''workspace.agent_definition.create'' ''POST'' ''/v1/workspace/agents'' ''agent'' ''definition'' ''create'' ''high'',
     route ''workspace.agent_definition.update'' ''PATCH'' ''/v1/workspace/agents/:id'' ''agent'' ''definition'' ''update'' ''high'',
     route ''workspace.agent_definition.publish'' ''POST'' ''/v1/workspace/agents/:id/publish'' ''agent'' ''definition'' ''update'' ''high'',
     route ''workspace.agent_definition.unpublish'' ''POST'' ''/v1/workspace/agents/:id/unpublish'' ''agent'' ''definition'' ''update'' ''high'',
     route ''workspace.agent_definition.delete'' ''DELETE'' ''/v1/workspace/agents/:id'' ''agent'' ''definition'' ''delete'' ''high'',
     route ''workspace.agent_definition.trial'' ''POST'' ''/v1/workspace/agents/:id/trial'' ''agent'' ''definition'' ''update'' [],
     route ''workspace.agent_definition.rollback'' ''POST'' ''/v1/workspace/agents/:id/rollback'' ''agent'' ''definition'' ''update'' ''high'',
     route ''workspace.agent_definition.tools'' ''GET'' ''/v1/workspace/agents/tools'' ''agent'' ''tool'' ''read'' [],
     route ''workspace.agent_usage.read'' ''GET'' ''/v1/workspace/agent-usage'' ''agent'' ''usage'' ''read'' ''high'']"

definition DefaultRoutePolicies_4 :: "RoutePolicy list" where
  "DefaultRoutePolicies_4 = [
     route ''workspace.agent_usage_sessions.read'' ''GET'' ''/v1/workspace/agent-usage/:id/sessions'' ''agent'' ''usage'' ''read'' ''high'',
     route ''workspace.agent_external_tool.read'' ''GET'' ''/v1/workspace/agents/external-tools'' ''agent'' ''tool'' ''read'' [],
     route ''workspace.agent_external_tool.create'' ''POST'' ''/v1/workspace/agents/external-tools'' ''agent'' ''tool'' ''create'' ''high'',
     route ''workspace.agent_external_tool.test'' ''POST'' ''/v1/workspace/agents/external-tools/:id/test'' ''agent'' ''tool'' ''update'' ''high'',
     route ''workspace.agent_external_tool.discover'' ''POST'' ''/v1/workspace/agents/external-tools/:id/discover'' ''agent'' ''tool'' ''update'' ''high'',
     route ''workspace.agent_external_tool.delete'' ''DELETE'' ''/v1/workspace/agents/external-tools/:id'' ''agent'' ''tool'' ''delete'' ''high'',
     route ''workflow.form_definition_draft.read'' ''GET'' ''/v1/form-builder/drafts'' ''workflow'' ''form_definition_draft'' ''read'' [],
     route ''workflow.form_definition_draft.submit_review'' ''POST'' ''/v1/form-builder/drafts/:id/submit-review'' ''workflow'' ''form_definition_draft'' ''submit'' ''high'',
     route ''workflow.form_definition_draft.publish'' ''POST'' ''/v1/form-builder/drafts/:id/publish'' ''workflow'' ''form_definition_draft'' ''approve'' ''critical'',
     route ''workflow.form_data_sources.read'' ''GET'' ''/v1/workflows/form-data-sources'' ''workflow'' ''form_instance'' ''read'' [],
     route ''workflow.form_instance.runtime_template'' ''GET'' ''/v1/workflows/form-templates/:key'' ''workflow'' ''form_instance'' ''read'' [],
     route ''workflow.form_instance.detail'' ''GET'' ''/v1/workflows/forms/:id'' ''workflow'' ''form_instance'' ''read'' [],
     route ''workflow.review_queue.read'' ''GET'' ''/v1/workflows/reviews'' ''workflow'' ''form_instance'' ''read'' [],
     route ''workflow.review_queue.bulk_action'' ''POST'' ''/v1/workflows/reviews/bulk-action'' ''workflow'' ''form_instance'' ''approve'' ''high'',
     route ''workflow.form_instance.draft_create'' ''POST'' ''/v1/workflows/forms/drafts'' ''workflow'' ''form_instance'' ''submit'' [],
     route ''workflow.form_instance.workflow_state'' ''GET'' ''/v1/workflows/forms/:id/workflow'' ''workflow'' ''form_instance'' ''read'' [],
     route ''workflow.form_instance.export'' ''GET'' ''/v1/workflows/forms/:id/export'' ''workflow'' ''form_instance'' ''read'' [],
     route ''workflow.form_instance.update'' ''PATCH'' ''/v1/workflows/forms/:id'' ''workflow'' ''form_instance'' ''update'' [],
     route ''workflow.form_instance.delete'' ''DELETE'' ''/v1/workflows/forms/:id'' ''workflow'' ''form_instance'' ''delete'' [],
     route ''workflow.form_instance.submit'' ''POST'' ''/v1/workflows/forms/:id/submit'' ''workflow'' ''form_instance'' ''submit'' [],
     route ''workflow.form_instance.approve'' ''POST'' ''/v1/workflows/forms/:id/approve'' ''workflow'' ''form_instance'' ''approve'' ''high'',
     route ''workflow.form_instance.reject'' ''POST'' ''/v1/workflows/forms/:id/reject'' ''workflow'' ''form_instance'' ''approve'' ''high'',
     route ''workflow.form_instance.return'' ''POST'' ''/v1/workflows/forms/:id/return'' ''workflow'' ''form_instance'' ''approve'' ''high'',
     route ''workflow.form_instance.cancel'' ''POST'' ''/v1/workflows/forms/:id/cancel'' ''workflow'' ''form_instance'' ''update'' [],
     route ''workflow.form_instance.duplicate'' ''POST'' ''/v1/workflows/forms/:id/duplicate'' ''workflow'' ''form_instance'' ''submit'' [],
     route ''workflow.form_instance.files_upload'' ''POST'' ''/v1/workflows/forms/:id/files'' ''workflow'' ''form_instance'' ''submit'' [],
     route ''workflow.form_instance.files_download'' ''GET'' ''/v1/workflows/forms/:id/files/:file_id'' ''workflow'' ''form_instance'' ''read'' [],
     route ''workflow.form_instance.files_delete'' ''DELETE'' ''/v1/workflows/forms/:id/files/:file_id'' ''workflow'' ''form_instance'' ''submit'' [],
     route ''agent.run.chat'' ''POST'' ''/v1/agents/chat'' ''agent'' ''run'' ''create'' [],
     route ''agent.confirmation.execute'' ''POST'' ''/v1/agents/confirmations/:id/execute'' ''agent'' ''run'' ''create'' ''high'',
     route ''agent.session.read'' ''GET'' ''/v1/agents/sessions'' ''agent'' ''run'' ''read'' [],
     route ''agent.session.create'' ''POST'' ''/v1/agents/sessions'' ''agent'' ''run'' ''create'' [],
     route ''agent.session.clear_context'' ''POST'' ''/v1/agents/sessions/:id/clear-context'' ''agent'' ''run'' ''create'' [],
     route ''agent.session.delete'' ''DELETE'' ''/v1/agents/sessions/:id'' ''agent'' ''run'' ''delete'' [],
     route ''agent.session.messages'' ''GET'' ''/v1/agents/sessions/:id/messages'' ''agent'' ''run'' ''read'' [],
     route ''agent.session.file_upload'' ''POST'' ''/v1/agents/sessions/:id/files'' ''agent'' ''run'' ''create'' [],
     route ''agent.session.file_download'' ''GET'' ''/v1/agents/sessions/:id/files/:file_id'' ''agent'' ''run'' ''read'' [],
     route ''agent.session.file_delete'' ''DELETE'' ''/v1/agents/sessions/:id/files/:file_id'' ''agent'' ''run'' ''create'' [],
     route ''agent.memory.read'' ''GET'' ''/v1/agents/memories'' ''agent'' ''run'' ''read'' []]"

definition DefaultRoutePolicies :: "RoutePolicy list" where
  "DefaultRoutePolicies =
     DefaultRoutePolicies_1 @ DefaultRoutePolicies_2 @ DefaultRoutePolicies_3 @ DefaultRoutePolicies_4"

section \<open>The risk level of a request\<close>

definition legacyRouteResourceName :: "string \<Rightarrow> string \<Rightarrow> string" where
  "legacyRouteResourceName applicationCode resourceType =
     (if applicationCode = AppAudit \<and> resourceType = ''audit_log'' then ''audit.log''
      else routeResourceName applicationCode resourceType)"

definition routePolicyMatchesRequest :: "CheckRequest \<Rightarrow> RoutePolicy \<Rightarrow> string \<Rightarrow> bool" where
  "routePolicyMatchesRequest req policy reqResource =
     (if rp_ApplicationCode policy = req_ApplicationCode req \<and> rp_ResourceType policy = req_ResourceType req
      then True
      else if reqResource = [] then False
      else EqualFold reqResource
             (legacyRouteResourceName (rp_ApplicationCode policy) (rp_ResourceType policy)))"

definition routePolicyMatchesHTTPRoute :: "CheckRequest \<Rightarrow> RoutePolicy \<Rightarrow> string \<Rightarrow> bool" where
  "routePolicyMatchesHTTPRoute req policy reqResource =
     (if req_RouteMethod req \<noteq> [] \<and> \<not> EqualFold (rp_Method policy) (req_RouteMethod req) then False
      else if req_RoutePath req \<noteq> [] \<and> rp_Path policy \<noteq> req_RoutePath req then False
      else EqualFold (rp_Action policy) (req_Action req) \<and>
           routePolicyMatchesRequest req policy reqResource)"

text \<open>Both loops return at the first matching row.\<close>

definition firstRisk :: "(RoutePolicy \<Rightarrow> bool) \<Rightarrow> RoutePolicy list \<Rightarrow> string" where
  "firstRisk matches policies =
     (case List.find matches policies of
        Some policy \<Rightarrow> normalizedRiskLevel (rp_RiskLevel policy)
      | None \<Rightarrow> RiskNormal)"

definition riskLevelForRoute :: "CheckRequest \<Rightarrow> string" where
  "riskLevelForRoute req =
     (let reqResource = TrimSpace (req_Resource req) in
      if req_RouteMethod req \<noteq> [] \<or> req_RoutePath req \<noteq> []
      then firstRisk (\<lambda>policy. routePolicyMatchesHTTPRoute req policy reqResource) DefaultRoutePolicies
      else firstRisk (\<lambda>policy. EqualFold (rp_Action policy) (req_Action req) \<and>
                               routePolicyMatchesRequest req policy reqResource) DefaultRoutePolicies)"

text \<open>Evaluated part by part, up to the part with the first matching row.\<close>

lemma find_append: "List.find P (xs @ ys) = (case List.find P xs of None \<Rightarrow> List.find P ys | Some x \<Rightarrow> Some x)"
  by (induction xs) auto

definition default_risk :: "(RoutePolicy \<Rightarrow> bool) \<Rightarrow> string" where
  "default_risk matches = firstRisk matches DefaultRoutePolicies"

lemma default_risk_lazy [code]:
  "default_risk matches =
     (case List.find matches DefaultRoutePolicies_1 of Some policy \<Rightarrow> normalizedRiskLevel (rp_RiskLevel policy) | None \<Rightarrow>
      case List.find matches DefaultRoutePolicies_2 of Some policy \<Rightarrow> normalizedRiskLevel (rp_RiskLevel policy) | None \<Rightarrow>
      case List.find matches DefaultRoutePolicies_3 of Some policy \<Rightarrow> normalizedRiskLevel (rp_RiskLevel policy) | None \<Rightarrow>
      firstRisk matches DefaultRoutePolicies_4)"
  unfolding default_risk_def firstRisk_def DefaultRoutePolicies_def find_append
  by (simp split: option.split)

lemma riskLevelForRoute_lazy [code]:
  "riskLevelForRoute req =
     (let reqResource = TrimSpace (req_Resource req) in
      if req_RouteMethod req \<noteq> [] \<or> req_RoutePath req \<noteq> []
      then default_risk (\<lambda>policy. routePolicyMatchesHTTPRoute req policy reqResource)
      else default_risk (\<lambda>policy. if EqualFold (rp_Action policy) (req_Action req)
                                 then routePolicyMatchesRequest req policy reqResource else False))"
proof -
  have "(if b then p else False) = (b \<and> p)" for b p by simp
  then show ?thesis by (simp only: riskLevelForRoute_def default_risk_def)
qed

section \<open>The default permissions\<close>

definition routePermission :: "RoutePolicy \<Rightarrow> Permission" where
  "routePermission policy = zero_Permission\<lparr>
     perm_ApplicationCode := rp_ApplicationCode policy,
     perm_ResourceType := rp_ResourceType policy,
     perm_Resource := routeResourceName (rp_ApplicationCode policy) (rp_ResourceType policy),
     perm_Action := rp_Action policy,
     perm_RiskLevel := rp_RiskLevel policy \<rparr>"

definition route_key :: "RoutePolicy \<Rightarrow> string" where
  "route_key policy = Join [rp_ApplicationCode policy, rp_ResourceType policy, rp_Action policy] [CHR 0x00]"

definition defaultPermission_step ::
  "RoutePolicy \<Rightarrow> Permission list \<times> (string, nat) gomap \<Rightarrow> Permission list \<times> (string, nat) gomap" where
  "defaultPermission_step policy acc =
     (case acc of (out, indexes) \<Rightarrow>
        let permission = routePermission policy; key = route_key policy in
        case map_of indexes key of
          Some index \<Rightarrow>
            (if riskRank (perm_RiskLevel permission) > riskRank (perm_RiskLevel (out ! index))
             then (out[index := (out ! index)\<lparr> perm_RiskLevel := perm_RiskLevel permission \<rparr>], indexes)
             else acc)
        | None \<Rightarrow> (out @ [permission], map_put key (length out) indexes))"

definition permissionsOfRoutes :: "RoutePolicy list \<Rightarrow> Permission list" where
  "permissionsOfRoutes policies = fst (fold defaultPermission_step policies ([], []))"

definition defaultPermissions :: "Permission list" where
  "defaultPermissions = permissionsOfRoutes DefaultRoutePolicies"

section \<open>The catalogue is unambiguous\<close>

definition route_address :: "RoutePolicy \<Rightarrow> string" where
  "route_address policy = rp_Method policy @ rp_Path policy"

text \<open>
  A fingerprint of an address: the 162 addresses are compared by their fingerprints, which
  the kernel evaluates once for each row.
\<close>

definition fingerprint :: "RoutePolicy \<Rightarrow> int" where
  "fingerprint policy = fold (\<lambda>c h. 3 * h + of_char c) (route_address policy) 0"

lemma fingerprints_1: "map fingerprint DefaultRoutePolicies_1 = [
     701123, 44461556903, 3601386046354, 15651878950, 1117866974431, 7334325219134866, 
     1117867424365, 3760850000323, 875136513719989, 594080581886653165, 1998669885036348643, 
     2750662493072049261699049, 90547224927718, 304628813580316, 70886054659029022, 41402443027, 
     271641428924746, 594080342750982397, 7334328171483364, 594080029685938981, 
     16040169254267150530, 53964080439308928436, 33958795687775568930889, 1117866129097, 
     3760848705055, 875136408803281, 2366646790959442, 30182391570136, 101542921121002, 
     23628683530477108, 63899463848693455, 90547177211662, 304628765864260, 
     53964071986560962477, 101876385009307153955702, 41402519644, 41402441551, 3353597767837, 
     32412458965771, 30182379915883, 24674927000106219]"
  by code_simp

lemma fingerprints_2: "map fingerprint DefaultRoutePolicies_2 = [
     90547139745044, 1533497917, 5158988419, 913899327271377, 1200467451925, 66009225406476316, 
     2444786126167900, 1913924371096406872, 66009225406517005, 594083028777378413, 
     5996016995781246416, 1998672331927081949, 271642903013956, 913887668971750, 
     2625410660046610, 7334358377485948, 198027676248174175, 22003075132453540, 
     74024901175034854, 1457032129843574860026, 2741663006512026, 2444786125948786, 
     8224989019568932, 4371096389548747478900, 1457032129849582495856, 90551795285326, 
     372641133106, 372641133865, 913900152569788, 212659274635218694, 575096297499165817, 
     913900152570541, 212659274635279687, 575096297499226810, 485684010982255568543, 
     124214063665, 198037338679988123, 8225108309282584, 8225108309403846, 30185184150710, 
     2444999915889488]"
  by code_simp

lemma fingerprints_3: "map fingerprint DefaultRoutePolicies_3 = [
     5347214815338747913, 30185184163674, 66014997766028045, 271666657088894, 
     16041644434443998302, 594134979053484185, 1117969782490, 3760952358448, 875144804728114, 
     1998724282340662250, 2366655186884275, 271666657060714, 594134978991852469, 30185184134056, 
     2444999912772703, 8225202806392849, 1913941687811395915, 5175874893586920022, 
     161896666838230991355, 161896666838230991234, 66014997711302254, 222080475839046196, 
     5347214814615484780, 51676425576289213462, 139748622132228364351, 315747687588229762711789, 
     503403800518729239975991938547, 1062204031443407077235587, 4864982974168751957113396954561, 
     13156379524221224948187059981764, 39340890053459521381769, 3353909345383, 11282857073257, 
     2625434414010883, 5996172845883472019, 53965555612951277762, 7099965560479366, 
     666241427320386006, 17988518537650418228, 2444999912809459, 814999970924924]"
  by code_simp

lemma fingerprints_4: "map fingerprint DefaultRoutePolicies_4 = [
     1299373198644981702190, 48124933283810939677, 161896666838936273395, 
     3186612093390782669778152, 258115579564653396252001335, 101876745530528475323302, 
     90548650903972, 118019996373204209515526, 161892999140197816052, 594134606854562476, 
     5347211461719459346, 90555495637807, 10061721744169, 17988515193807603965, 
     8225201275853170, 1782403820639645267, 198044868959956916, 875144747982025, 
     2366655130138186, 666241303343191478, 1998723910029561527, 666241303343190065, 
     666241303343190518, 666241303343186184, 17988515190266082317, 222080434447729153, 
     1299372385246269455944, 33958914363426199191697, 46429972868, 485673916886145723698, 
     1117845267727, 3760827843685, 1457021762255965001435, 2366645101188472, 
     1782206420822396122, 222073123343387647, 1299228480779515593346, 33958770458959445329099, 
     1117845252985]"
  by code_simp


lemma fingerprints_distinct: "distinct (map fingerprint DefaultRoutePolicies)"
  unfolding DefaultRoutePolicies_def map_append fingerprints_1 fingerprints_2 fingerprints_3 fingerprints_4
  by simp

definition plain_method :: "RoutePolicy \<Rightarrow> bool" where
  "plain_method p \<longleftrightarrow>
     rp_Method p \<in> {''GET'', ''POST'', ''PUT'', ''PATCH'', ''DELETE''} \<and> rp_Path p \<noteq> []"

lemma plain_methods: "list_all plain_method DefaultRoutePolicies"
  by (simp add: DefaultRoutePolicies_def DefaultRoutePolicies_1_def DefaultRoutePolicies_2_def
      DefaultRoutePolicies_3_def DefaultRoutePolicies_4_def route_def plain_method_def)

lemma route_addresses_distinct: "distinct (map route_address DefaultRoutePolicies)"
proof -
  have "map fingerprint DefaultRoutePolicies =
      map (\<lambda>s. fold (\<lambda>c h. 3 * h + of_char c) s 0) (map route_address DefaultRoutePolicies)"
    by (simp add: fingerprint_def)
  with fingerprints_distinct show ?thesis by (metis distinct_map)
qed

lemma plain_method_cases:
  assumes "p \<in> set DefaultRoutePolicies"
  shows "rp_Method p \<in> {''GET'', ''POST'', ''PUT'', ''PATCH'', ''DELETE''}" and "rp_Path p \<noteq> []"
  using assms plain_methods by (simp_all add: list_all_iff plain_method_def)

lemma method_names_fold:
  assumes "s \<in> {''GET'', ''POST'', ''PUT'', ''PATCH'', ''DELETE''}"
    and "t \<in> {''GET'', ''POST'', ''PUT'', ''PATCH'', ''DELETE''}" and "EqualFold s t"
  shows "s = t"
proof -
  let ?M = "[''GET'', ''POST'', ''PUT'', ''PATCH'', ''DELETE'']"
  have "list_all (\<lambda>s. list_all (\<lambda>t. \<not> EqualFold s t \<or> s = t) ?M) ?M" by code_simp
  moreover have "s \<in> set ?M" "t \<in> set ?M" using assms(1,2) by simp_all
  ultimately show ?thesis using assms(3) unfolding list_all_iff by blast
qed

lemma plain_methods_fold:
  assumes "p \<in> set DefaultRoutePolicies" and "q \<in> set DefaultRoutePolicies"
    and "EqualFold (rp_Method p) (rp_Method q)"
  shows "rp_Method p = rp_Method q"
  by (rule method_names_fold [OF plain_method_cases(1) [OF assms(1)] plain_method_cases(1) [OF assms(2)] assms(3)])

lemma same_route:
  assumes "p \<in> set DefaultRoutePolicies" and "q \<in> set DefaultRoutePolicies"
    and "EqualFold (rp_Method p) (rp_Method q)" and "rp_Path p = rp_Path q"
  shows "p = q"
proof -
  have "route_address p = route_address q"
    using plain_methods_fold [OF assms(1,2,3)] assms(4) by (simp add: route_address_def)
  then show ?thesis
    using route_addresses_distinct assms(1,2) by (auto simp: distinct_map dest: inj_onD)
qed

lemma find_unique:
  assumes "p \<in> set xs" and "P p" and "\<And>q. q \<in> set xs \<Longrightarrow> P q \<Longrightarrow> q = p"
  shows "List.find P xs = Some p"
  using assms
proof (induction xs)
  case (Cons x xs)
  show ?case
  proof (cases "P x")
    case True
    with Cons.prems(3) [of x] show ?thesis by simp
  next
    case False
    then have "p \<in> set xs" using Cons.prems(1,2) by auto
    then have "List.find P xs = Some p"
      by (rule Cons.IH [OF _ Cons.prems(2) Cons.prems(3) [OF list.set_intros(2)]])
    with False show ?thesis by simp
  qed
qed simp

text \<open>
  The risk level recorded for an HTTP request is the one its route declares: of the
  162 rows of the catalogue only the row of the request's method and path can match, so the
  order of the rows does not matter and no other row can lower the risk.
\<close>

theorem riskLevelForRoute_catalogued:
  assumes "p \<in> set DefaultRoutePolicies"
    and "req_RouteMethod req = rp_Method p" and "req_RoutePath req = rp_Path p"
  shows "riskLevelForRoute req =
    (if EqualFold (rp_Action p) (req_Action req) \<and> routePolicyMatchesRequest req p (TrimSpace (req_Resource req))
     then normalizedRiskLevel (rp_RiskLevel p) else RiskNormal)"
proof -
  let ?P = "\<lambda>policy. routePolicyMatchesHTTPRoute req policy (TrimSpace (req_Resource req))"
  have nonempty: "rp_Method p \<noteq> []" "rp_Path p \<noteq> []"
    using plain_method_cases [OF assms(1)] by auto
  have only: "q = p" if "q \<in> set DefaultRoutePolicies" "?P q" for q
  proof -
    have "EqualFold (rp_Method q) (rp_Method p)" "rp_Path q = rp_Path p"
      using that(2) assms nonempty unfolding routePolicyMatchesHTTPRoute_def by (simp_all split: if_splits)
    then show ?thesis by (rule same_route [OF that(1) assms(1)])
  qed
  have self: "?P p \<longleftrightarrow> EqualFold (rp_Action p) (req_Action req) \<and>
      routePolicyMatchesRequest req p (TrimSpace (req_Resource req))"
    using assms by (simp add: routePolicyMatchesHTTPRoute_def)
  show ?thesis
  proof (cases "?P p")
    case True
    then have "List.find ?P DefaultRoutePolicies = Some p"
      using find_unique [where P = ?P, OF assms(1) True only] by simp
    with True self assms nonempty show ?thesis by (simp add: riskLevelForRoute_def firstRisk_def)
  next
    case False
    then have "List.find ?P DefaultRoutePolicies = None"
      using only unfolding find_None_iff by metis
    with assms nonempty have "riskLevelForRoute req = RiskNormal"
      by (simp add: riskLevelForRoute_def firstRisk_def)
    with False self show ?thesis by argo
  qed
qed

definition password_route :: RoutePolicy where
  "password_route = route ''me.password.update'' ''PUT'' ''/v1/me/password'' ''platform'' ''me'' ''update'' ''critical''"

definition password_request :: CheckRequest where
  "password_request = zero_CheckRequest\<lparr> req_ApplicationCode := ''platform'', req_ResourceType := ''me'',
     req_Action := ''update'', req_RouteMethod := ''PUT'', req_RoutePath := ''/v1/me/password'' \<rparr>"

lemma password_route_listed: "password_route \<in> set DefaultRoutePolicies"
  by (simp add: password_route_def DefaultRoutePolicies_def DefaultRoutePolicies_1_def route_def)

theorem riskLevelForRoute_catalogued_witness: "riskLevelForRoute password_request = ''critical''"
proof -
  have risk: "normalizedRiskLevel (rp_RiskLevel password_route) = ''critical''"
    and matches: "EqualFold (rp_Action password_route) (req_Action password_request) \<and>
      routePolicyMatchesRequest password_request password_route (TrimSpace (req_Resource password_request))"
    and address: "req_RouteMethod password_request = rp_Method password_route"
      "req_RoutePath password_request = rp_Path password_route"
    by code_simp+
  show ?thesis
    using riskLevelForRoute_catalogued [OF password_route_listed address] risk matches by simp
qed

section \<open>One permission for each key\<close>

definition permission_key_of :: "Permission \<Rightarrow> string" where
  "permission_key_of perm =
     Join [perm_ApplicationCode perm, perm_ResourceType perm, perm_Action perm] [CHR 0x00]"

definition indexed :: "Permission list \<Rightarrow> (string, nat) gomap \<Rightarrow> bool" where
  "indexed out indexes \<longleftrightarrow>
     (\<forall>key i. map_of indexes key = Some i \<longleftrightarrow> i < length out \<and> permission_key_of (out ! i) = key)"

definition highest_risk :: "RoutePolicy list \<Rightarrow> Permission \<Rightarrow> bool" where
  "highest_risk policies perm \<longleftrightarrow>
     (\<exists>p \<in> set policies. route_key p = permission_key_of perm \<and> rp_RiskLevel p = perm_RiskLevel perm) \<and>
     (\<forall>p \<in> set policies. route_key p = permission_key_of perm \<longrightarrow>
        riskRank (rp_RiskLevel p) \<le> riskRank (perm_RiskLevel perm))"

definition catalogue_inv :: "RoutePolicy list \<Rightarrow> Permission list \<times> (string, nat) gomap \<Rightarrow> bool" where
  "catalogue_inv policies acc \<longleftrightarrow> indexed (fst acc) (snd acc) \<and>
     set (map permission_key_of (fst acc)) = set (map route_key policies) \<and>
     (\<forall>perm \<in> set (fst acc). highest_risk policies perm)"

lemma permission_key_of_route [simp]:
  "permission_key_of (routePermission p) = route_key p"
  "permission_key_of (perm\<lparr> perm_RiskLevel := r \<rparr>) = permission_key_of perm"
  "perm_RiskLevel (routePermission p) = rp_RiskLevel p"
  by (simp_all add: permission_key_of_def route_key_def routePermission_def)

lemma indexed_distinct: "indexed out indexes \<Longrightarrow> distinct (map permission_key_of out)"
  unfolding indexed_def distinct_conv_nth by (metis length_map nth_map option.inject)

lemma indexed_append:
  assumes "indexed out indexes" and "map_of indexes (permission_key_of perm) = None"
  shows "indexed (out @ [perm]) (map_put (permission_key_of perm) (length out) indexes)"
proof -
  have "\<not> (i < length out \<and> permission_key_of (out ! i) = permission_key_of perm)" for i
    using assms unfolding indexed_def by (metis option.distinct(1))
  with assms show ?thesis unfolding indexed_def
    by (auto simp: nth_append update_conv' less_Suc_eq)
qed

lemma indexed_update:
  assumes "indexed out indexes" and "i < length out"
  shows "indexed (out[i := (out ! i)\<lparr> perm_RiskLevel := r \<rparr>]) indexes"
  using assms unfolding indexed_def by (metis length_list_update nth_list_update permission_key_of_route(2))

lemma highest_risk_other:
  "highest_risk policies perm \<Longrightarrow> route_key p \<noteq> permission_key_of perm \<Longrightarrow> highest_risk (policies @ [p]) perm"
  by (auto simp: highest_risk_def)


lemma highest_risk_new:
  "permission_key_of (routePermission p) \<notin> set (map route_key policies) \<Longrightarrow>
     highest_risk (policies @ [p]) (routePermission p)"
  unfolding highest_risk_def by (auto simp: image_iff)

lemma highest_risk_raise:
  assumes "highest_risk policies perm" and "route_key p = permission_key_of perm"
  shows "highest_risk (policies @ [p])
    (if riskRank (rp_RiskLevel p) > riskRank (perm_RiskLevel perm)
     then perm\<lparr> perm_RiskLevel := rp_RiskLevel p \<rparr> else perm)"
  using assms by (auto simp: highest_risk_def)

lemma catalogue_step:
  assumes "catalogue_inv policies acc"
  shows "catalogue_inv (policies @ [p]) (defaultPermission_step p acc)"
proof (cases acc)
  case (Pair out indexes)
  let ?key = "route_key p"
  have idx: "indexed out indexes" and keys: "set (map permission_key_of out) = set (map route_key policies)"
    and high: "\<And>perm. perm \<in> set out \<Longrightarrow> highest_risk policies perm"
    using assms Pair by (auto simp: catalogue_inv_def)
  show ?thesis
  proof (cases "map_of indexes ?key")
    case None
    then have "?key \<notin> set (map permission_key_of out)"
      using idx unfolding indexed_def in_set_conv_nth by (auto simp: image_def) (metis in_set_conv_nth option.distinct(1))
    then have new: "permission_key_of (routePermission p) \<notin> set (map route_key policies)"
      using keys by simp
    have others: "route_key p \<noteq> permission_key_of perm" if "perm \<in> set out" for perm
      using that \<open>?key \<notin> _\<close> by auto
    have "indexed (out @ [routePermission p]) (map_put ?key (length out) indexes)"
      using indexed_append [OF idx, of "routePermission p"] None by simp
    with None Pair keys high others highest_risk_new [OF new] show ?thesis
      by (auto simp: catalogue_inv_def defaultPermission_step_def Let_def intro: highest_risk_other)
  next
    case (Some i)
    then have i: "i < length out" "permission_key_of (out ! i) = ?key"
      using idx by (auto simp: indexed_def)
    let ?perm = "if riskRank (rp_RiskLevel p) > riskRank (perm_RiskLevel (out ! i))
      then (out ! i)\<lparr> perm_RiskLevel := rp_RiskLevel p \<rparr> else out ! i"
    have step: "defaultPermission_step p acc = (out[i := ?perm], indexes)"
      using Some Pair by (simp add: defaultPermission_step_def Let_def)
    have "indexed (out[i := ?perm]) indexes"
      using indexed_update [OF idx i(1)] idx by simp
    moreover have "map permission_key_of (out[i := ?perm]) = map permission_key_of out"
      using i by (simp add: map_update list_update_same_conv)
    moreover have "?key \<in> set (map permission_key_of out)"
      using i by (metis length_map nth_map nth_mem)
    moreover have "highest_risk (policies @ [p]) perm" if "perm \<in> set (out[i := ?perm])" for perm
    proof -
      from that obtain j where j: "j < length out" "perm = (out[i := ?perm]) ! j"
        by (auto simp: in_set_conv_nth)
      show ?thesis
      proof (cases "j = i")
        case True
        with j i highest_risk_raise [OF high [OF nth_mem [OF i(1)]] i(2) [symmetric]] show ?thesis by simp
      next
        case False
        then have "permission_key_of (out ! j) \<noteq> ?key"
          using indexed_distinct [OF idx] i j(1) by (metis length_map nth_eq_iff_index_eq nth_map)
        with False j high [OF nth_mem [OF j(1)]] show ?thesis by (simp add: highest_risk_other)
      qed
    qed
    ultimately show ?thesis using step keys by (auto simp: catalogue_inv_def)
  qed
qed

lemma catalogue_fold: "catalogue_inv policies (fold defaultPermission_step policies ([], []))"
proof (induction policies rule: rev_induct)
  case Nil
  show ?case by (simp add: catalogue_inv_def indexed_def)
next
  case (snoc p policies)
  then show ?case by (simp add: catalogue_step)
qed

text \<open>
  The default permission catalogue collapses the routes: it has one entry for each
  application, resource type and action some route names, and the entry carries the risk
  level of one of its routes, the highest of them.
\<close>

theorem permissionsOfRoutes_one_per_key:
  "distinct (map permission_key_of (permissionsOfRoutes policies)) \<and>
   set (map permission_key_of (permissionsOfRoutes policies)) = set (map route_key policies) \<and>
   list_all (highest_risk policies) (permissionsOfRoutes policies)"
  using catalogue_fold [of policies] indexed_distinct
  by (auto simp: catalogue_inv_def permissionsOfRoutes_def list_all_iff)

end
