(* ===== verification/Authz_Decision.thy ===== *)
theory Authz_Decision
  imports Authz_Grants Field_Policies Route_Catalog
begin

text \<open>
  The authorization decision (\<open>evaluateAuthzDecisionWithFieldPolicies\<close> and its helpers in
  \<open>service/authz_decision_service.go\<close>, \<open>relationshipAllows\<close> in
  \<open>service/authz_policy_service.go\<close>): one pass over the grants, the implicit relationship
  fallback, the combination of the normal, assumed and boundary scopes, and the result.

  The evaluation is written over the two scope reads it calls, \<open>conds\<close> and \<open>bound\<close>,
  because the code calls them through a request-local cache (\<open>authzDecisionScopeCache\<close>) that may
  be absent.  \<open>evaluateAuthzDecisionWithFieldPolicies\<close> instantiates them with the cached reads,
  the state being the cache; the theorem about the cache shows that it never changes a decision.
\<close>

section \<open>The trace\<close>

record authzTrace =
  tr_evaluatedGrants :: "AuthzEvaluatedGrant list"
  tr_denySources :: "string list"
  tr_boundaryEffects :: "AuthzBoundaryEffect list"
  tr_scopeDerivation :: AuthzScopeDerivation

definition zero_authzTrace :: authzTrace where
  "zero_authzTrace = \<lparr> tr_evaluatedGrants = [], tr_denySources = [], tr_boundaryEffects = [],
     tr_scopeDerivation = zero_AuthzScopeDerivation \<rparr>"

definition valueAt :: "string list \<Rightarrow> nat \<Rightarrow> string \<Rightarrow> string" where
  "valueAt values index fallback =
     (if index < length values \<and> values ! index \<noteq> [] then values ! index else fallback)"

definition authzTraceGrantSource :: "string \<Rightarrow> string \<Rightarrow> string \<times> string" where
  "authzTraceGrantSource source permissionSetID =
     (if source = [] then (''permission_set'', permissionSetID)
      else let parts = Split source (CHR '':'') in
        if hd parts = ''direct'' then (''direct'', valueAt parts 1 permissionSetID)
        else if hd parts = ''account'' then (''account'', valueAt parts 1 [])
        else if hd parts = ''group'' then (''user_group'', valueAt parts 1 [])
        else if hd parts = ''assumable_role'' then (''assumable_role'', valueAt parts 1 [])
        else if hd parts = ''simulation'' then
          (if length parts \<ge> 3 \<and> parts ! 1 = ''permission_set''
           then (''simulation_permission_set'', parts ! 2)
           else (''simulation'', Join (tl parts) '':''))
        else (hd parts, Join (tl parts) '':''))"

definition authzGrantScope :: "authzGrant \<Rightarrow> string" where
  "authzGrantScope grant =
     (case g_DataScope grant of
        Some d \<Rightarrow> ds_ScopeType d
      | None \<Rightarrow> if perm_Scope (g_Permission grant) \<noteq> [] then perm_Scope (g_Permission grant) else ScopeAll)"

definition addGrant :: "authzGrant \<Rightarrow> bool \<Rightarrow> string \<Rightarrow> string \<Rightarrow> authzTrace \<Rightarrow> authzTrace" where
  "addGrant grant matched excludedBy scope t =
     (let (source, sourceID) = authzTraceGrantSource (g_Source grant) (g_PermissionSetID grant)
      in t\<lparr> tr_evaluatedGrants := tr_evaluatedGrants t @ [\<lparr>
           aeg_Source = source, aeg_SourceID = sourceID, aeg_PermissionSetID = g_PermissionSetID grant,
           aeg_Permission = permissionLabel (g_Permission grant), aeg_Effect = permissionEffect grant,
           aeg_Matched = matched, aeg_Scope = (if scope = [] then authzGrantScope grant else scope),
           aeg_ExcludedBy = (if excludedBy \<noteq> [] then Some excludedBy else None) \<rparr>] \<rparr>)"

definition addDenySource :: "string \<Rightarrow> authzTrace \<Rightarrow> authzTrace" where
  "addDenySource source t = t\<lparr> tr_denySources := tr_denySources t @ [source] \<rparr>"

definition addBoundaryEffect :: "string \<Rightarrow> string \<Rightarrow> bool \<Rightarrow> authzTrace \<Rightarrow> authzTrace" where
  "addBoundaryEffect permission effect matched t =
     t\<lparr> tr_boundaryEffects := tr_boundaryEffects t @ [\<lparr>
        abe_Source = ''permission_boundary'', abe_Permission = permission, abe_Effect = effect,
        abe_Matched = matched, abe_ExcludedBy = ''permission_boundary'' \<rparr>] \<rparr>"

definition setScopeDerivation :: "string \<Rightarrow> string \<Rightarrow> string \<Rightarrow> string \<Rightarrow> bool \<Rightarrow> authzTrace \<Rightarrow> authzTrace" where
  "setScopeDerivation normal assumed boundary final isEmpty t =
     t\<lparr> tr_scopeDerivation := \<lparr> asd_Normal = normal, asd_Assumed = assumed, asd_Boundary = boundary,
        asd_Final = final, asd_IntersectionEmpty = isEmpty \<rparr> \<rparr>"

definition boundaryEffectKey :: "AuthzBoundaryEffect \<Rightarrow> string" where
  "boundaryEffectKey item =
     abe_Source item @ ''|'' @ abe_Permission item @ ''|'' @ abe_Effect item @ ''|'' @
     (if abe_Matched item then ''true'' else ''false'') @ ''|'' @ abe_ExcludedBy item"

definition uniqueBoundaryEffects :: "AuthzBoundaryEffect list \<Rightarrow> AuthzBoundaryEffect list" where
  "uniqueBoundaryEffects items =
     (if items = [] then []
      else fst (fold (\<lambda>item (out, seen).
             if boundaryEffectKey item \<in> seen then (out, seen)
             else (out @ [item], insert (boundaryEffectKey item) seen)) items ([], {})))"

definition trace_response :: "authzTrace option \<Rightarrow> CheckResult \<Rightarrow> AuthzExplainResponse" where
  "trace_response trace decision =
     (case trace of
        None \<Rightarrow> zero_AuthzExplainResponse\<lparr> aer_Decision := decision, aer_EvaluatedGrants := [] \<rparr>
      | Some t \<Rightarrow> \<lparr> aer_Decision = decision, aer_EvaluatedGrants = tr_evaluatedGrants t,
          aer_DenySources = uniqueStrings (tr_denySources t),
          aer_BoundaryEffects = uniqueBoundaryEffects (tr_boundaryEffects t),
          aer_ScopeDerivation = tr_scopeDerivation t \<rparr>)"

section \<open>The relationship checks\<close>

definition implicitRelationshipFallbackRelations :: "(string, string list) gomap" where
  "implicitRelationshipFallbackRelations = [
     (''tenant'', [''admin'', ''member'', ''security_admin'']),
     (''org_unit'', [''editor'', ''manager'', ''member'', ''member_recursive'', ''parent'', ''tenant'', ''viewer'']),
     (''user_group'', [''manager'', ''member'']),
     (''assumable_role'', [''approver'', ''can_approve'', ''can_assume'', ''tenant'', ''trusted_group'', ''trusted_user'']),
     (''agent_tool'', [''can_run'', ''runner'', ''tenant'']),
     (''hr.employee'', [ActionDelete, ActionInvite, ''manager'', ''org'', ''owner'', ActionRead,
        ActionStatusTransition, ActionUpdate, ActionUpdateStatus]),
     (''agent.knowledge_article'', [ActionRead, ''viewer''])]"

definition supportsImplicitRelationshipFallback :: "CheckRequest \<Rightarrow> bool" where
  "supportsImplicitRelationshipFallback req =
     (case map_of implicitRelationshipFallbackRelations
             (routeResourceName (req_ApplicationCode req) (req_ResourceType req)) of
        None \<Rightarrow> False
      | Some relations \<Rightarrow> req_Action req \<in> set relations)"

definition relationshipAllows ::
  "service_env \<Rightarrow> RequestContext \<Rightarrow> Account \<Rightarrow> CheckRequest \<Rightarrow> string \<Rightarrow> (bool \<times> string) res" where
  "relationshipAllows c ctx account req relation =
     (let object = relationshipObject req; label = ''openfga:'' @ object @ ''#'' @ relation in
      case sv_relationships c of
        None \<Rightarrow> Inr (False, label)
      | Some check \<Rightarrow>
          if req_ResourceID req = [] \<or> relation = [] then Inr (False, label)
          else bindR (check \<lparr> rc_TenantID = ctx_TenantID ctx, rc_Subject = ''account:'' @ acc_ID account,
                              rc_Relation = relation, rc_Object = object \<rparr>) (\<lambda>allowed.
            Inr (allowed, label)))"

section \<open>One grant\<close>

record scope_side =
  sd_scope :: string
  sd_conditions :: params
  sd_matched :: bool
  sd_usageScopeInvalid :: bool

record grant_state =
  gs_matched :: "string list"
  gs_matchedBy :: "string list"
  gs_deniedBy :: "string list"
  gs_relationshipDeniedBy :: "string list"
  gs_normal :: scope_side
  gs_assumed :: scope_side
  gs_riskLevel :: string
  gs_trace :: "authzTrace option"

definition no_side :: scope_side where
  "no_side = \<lparr> sd_scope = [], sd_conditions = [], sd_matched = False, sd_usageScopeInvalid = False \<rparr>"

definition start_state :: "CheckRequest \<Rightarrow> authzTrace option \<Rightarrow> grant_state" where
  "start_state req trace = \<lparr> gs_matched = [], gs_matchedBy = [], gs_deniedBy = [], gs_relationshipDeniedBy = [],
     gs_normal = no_side, gs_assumed = no_side, gs_riskLevel = riskLevelForRoute req, gs_trace = trace \<rparr>"

definition traced :: "(authzTrace \<Rightarrow> authzTrace) \<Rightarrow> grant_state \<Rightarrow> grant_state" where
  "traced f st = st\<lparr> gs_trace := map_option f (gs_trace st) \<rparr>"

definition deny :: "string \<Rightarrow> grant_state \<Rightarrow> grant_state" where
  "deny source st = st\<lparr> gs_deniedBy := gs_deniedBy st @ [source] \<rparr>"

definition denyByBoundary :: "string \<Rightarrow> string \<Rightarrow> grant_state \<Rightarrow> grant_state" where
  "denyByBoundary key effect st =
     traced (addBoundaryEffect key effect True \<circ> addDenySource ''permission_boundary'')
       (deny ''permission_boundary'' st)"

definition on_side :: "authzGrant \<Rightarrow> (scope_side \<Rightarrow> scope_side) \<Rightarrow> grant_state \<Rightarrow> grant_state" where
  "on_side grant f st =
     (if g_SourceKind grant = authzGrantSourceAssumed then st\<lparr> gs_assumed := f (gs_assumed st) \<rparr>
      else st\<lparr> gs_normal := f (gs_normal st) \<rparr>)"

definition matched_side :: "string \<Rightarrow> params \<Rightarrow> scope_side \<Rightarrow> scope_side" where
  "matched_side scope conditions side =
     (let (sc, cond) = chooseScope (sd_scope side) (sd_conditions side) scope conditions
      in side\<lparr> sd_scope := sc, sd_conditions := cond, sd_matched := True \<rparr>)"

definition grantSource :: "authzGrant \<Rightarrow> string" where
  "grantSource grant = (if g_Source grant = [] then g_PermissionSetID grant else g_Source grant)"

definition acceptGrant :: "authzGrant \<Rightarrow> string \<Rightarrow> params \<Rightarrow> grant_state \<Rightarrow> grant_state" where
  "acceptGrant grant scope conditions st =
     on_side grant (matched_side scope conditions)
       (traced (addGrant grant True [] scope)
         (st\<lparr> gs_matched := gs_matched st @ [permissionLabel (g_Permission grant)],
              gs_matchedBy := gs_matchedBy st @ [grantSource grant],
              gs_riskLevel := (if isHighRiskPermission (g_Permission grant)
                               then maxRiskLevel (gs_riskLevel st) (perm_RiskLevel (g_Permission grant))
                               else gs_riskLevel st) \<rparr>))"

definition rejectUsageScope :: "authzGrant \<Rightarrow> string \<Rightarrow> grant_state \<Rightarrow> grant_state" where
  "rejectUsageScope grant scope st =
     traced (addGrant grant True ''data_scope'' scope)
       (on_side grant (\<lambda>side. side\<lparr> sd_usageScopeInvalid := True \<rparr>) st)"

definition isUsageRequest :: "CheckRequest \<Rightarrow> bool" where
  "isUsageRequest req \<longleftrightarrow> req_ApplicationCode req = AppAgent \<and> req_ResourceType req = ResourceUsage"

definition requestKey :: "CheckRequest \<Rightarrow> string" where
  "requestKey req = permissionKey (req_ApplicationCode req) (req_ResourceType req) (req_Action req)"

type_synonym 's scope_reads = "(nat \<Rightarrow> authzGrant \<Rightarrow> ('s, err, string \<times> params) op) \<times>
  ('s, err, (string \<times> params) option) op"

definition evaluateGrant :: "'s scope_reads \<Rightarrow> service_env \<Rightarrow> RequestContext \<Rightarrow> Account \<Rightarrow> CheckRequest \<Rightarrow>
  params \<Rightarrow> nat \<times> authzGrant \<Rightarrow> grant_state \<Rightarrow> ('s, err, grant_state) op" where
  "evaluateGrant reads c ctx account req boundary entry st =
     (let (grantIndex, grant) = entry; key = requestKey req in
      if \<not> permissionMatches (g_Permission grant) req account
      then retS (traced (addGrant grant False [] []) st)
      else if permissionEffect grant = ''deny''
      then retS (traced (addDenySource (grantSource grant) \<circ> addGrant grant True ''explicit_deny'' [])
             (deny (grantSource grant) st))
      else if policyDenies boundary key
      then retS (denyByBoundary key ''deny'' (traced (addGrant grant True ''permission_boundary'' []) st))
      else if \<not> policyAllows boundary key
      then retS (denyByBoundary key ''allow_missing'' (traced (addGrant grant True ''permission_boundary'' []) st))
      else let relation = relationshipConstraint (g_Permission grant) in
        bindS (if relation = [] then retS (True, []) else liftS (relationshipAllows c ctx account req relation))
          (\<lambda>(allowed, label).
        if \<not> allowed
        then retS (traced (addGrant grant True ''relationship'' [])
               (st\<lparr> gs_relationshipDeniedBy := gs_relationshipDeniedBy st @ [label] \<rparr>))
        else let st = (if relation = [] then st else st\<lparr> gs_matchedBy := gs_matchedBy st @ [label] \<rparr>) in
          bindS (fst reads grantIndex grant) (\<lambda>(scope, conditions).
            if isUsageRequest req \<and> \<not> isTenantWideUsageScope scope
            then retS (rejectUsageScope grant scope st)
            else retS (acceptGrant grant scope conditions st))))"

section \<open>The implicit relationship fallback\<close>

definition acceptRelationship :: "RequestContext \<Rightarrow> CheckRequest \<Rightarrow> grant_state \<Rightarrow> grant_state" where
  "acceptRelationship ctx req st =
     (let object = relationshipObject req in
      st\<lparr> gs_matched := gs_matched st @ [''openfga:'' @ object @ ''#'' @ req_Action req],
          gs_matchedBy := gs_matchedBy st @ [''openfga''],
          gs_normal := matched_side ScopeObject
            [(''tenant_id'', VStr (ctx_TenantID ctx)), (''object'', VStr object),
             (''relation'', VAction (req_Action req))] (gs_normal st) \<rparr>)"

definition implicitCheck :: "RequestContext \<Rightarrow> Account \<Rightarrow> CheckRequest \<Rightarrow> RelationshipCheck" where
  "implicitCheck ctx account req = \<lparr> rc_TenantID = ctx_TenantID ctx, rc_Subject = ''account:'' @ acc_ID account,
     rc_Relation = req_Action req, rc_Object = relationshipObject req \<rparr>"

definition implicitFallback :: "service_env \<Rightarrow> RequestContext \<Rightarrow> Account \<Rightarrow> CheckRequest \<Rightarrow> params \<Rightarrow>
  grant_state \<Rightarrow> grant_state res" where
  "implicitFallback c ctx account req boundary st =
     (case sv_relationships c of
        None \<Rightarrow> Inr st
      | Some check \<Rightarrow>
          if gs_matched st = [] \<and> req_ResourceID req \<noteq> [] \<and> supportsImplicitRelationshipFallback req
          then (if policyDenies boundary (requestKey req) then Inr (denyByBoundary (requestKey req) ''deny'' st)
                else if \<not> policyAllows boundary (requestKey req)
                then Inr (denyByBoundary (requestKey req) ''allow_missing'' st)
                else bindR (check (implicitCheck ctx account req)) (\<lambda>allowed.
                  Inr (if allowed then acceptRelationship ctx req st else st)))
          else Inr st)"

section \<open>The scope of the decision\<close>

definition combineSides :: "AssumedRoleDecision option \<Rightarrow> grant_state \<Rightarrow> string \<times> params \<times> bool" where
  "combineSides assumedRole st =
     (let n = gs_normal st; a = gs_assumed st in
      case assumedRole of
        None \<Rightarrow> (sd_scope n, sd_conditions n, False)
      | Some _ \<Rightarrow>
          if \<not> sd_matched n \<or> \<not> sd_matched a then (sd_scope n, sd_conditions n, True)
          else intersectScopes (sd_scope n) (sd_conditions n) (sd_scope a) (sd_conditions a))"

text \<open>The boundary scope is declared again in the inner block of the source, so the trace's outer
  variable stays empty: \<open>setScopeDerivation\<close> always reports an empty boundary.\<close>

definition applyBoundaryScope :: "CheckRequest \<Rightarrow> (string \<times> params) option \<Rightarrow> string \<times> params \<times> bool \<Rightarrow>
  grant_state \<Rightarrow> (string \<times> params \<times> bool) \<times> grant_state" where
  "applyBoundaryScope req found chosen st =
     (case found of
        None \<Rightarrow> (chosen, st)
      | Some (boundaryScope, boundaryConditions) \<Rightarrow>
          (case chosen of (scope, conditions, _) \<Rightarrow>
             (intersectScopes scope conditions boundaryScope boundaryConditions,
              traced (addBoundaryEffect (requestKey req) ''scope'' True) st)))"

definition decisionScope :: "'s scope_reads \<Rightarrow> CheckRequest \<Rightarrow> AssumedRoleDecision option \<Rightarrow> grant_state \<Rightarrow>
  ('s, err, (string \<times> params \<times> bool) \<times> grant_state) op" where
  "decisionScope reads req assumedRole st =
     (let chosen = combineSides assumedRole st in
      bindS (if snd (snd chosen) then retS (chosen, st)
             else bindS (snd reads) (\<lambda>found. retS (applyBoundaryScope req found chosen st)))
        (\<lambda>(chosen, st). case chosen of (scope, _, isEmpty) \<Rightarrow>
           retS (chosen, traced (setScopeDerivation (sd_scope (gs_normal st)) (sd_scope (gs_assumed st)) []
                          scope isEmpty) st)))"

section \<open>The result\<close>

definition usageScopeInvalid ::
  "CheckRequest \<Rightarrow> AssumedRoleDecision option \<Rightarrow> string \<Rightarrow> bool \<Rightarrow> grant_state \<Rightarrow> bool" where
  "usageScopeInvalid req assumedRole scope isEmpty st =
     (let n = gs_normal st; a = gs_assumed st;
          inv = (\<not> sd_matched n \<and> sd_usageScopeInvalid n);
          inv = (if assumedRole \<noteq> None then inv \<or> (\<not> sd_matched a \<and> sd_usageScopeInvalid a) else inv)
      in if isUsageRequest req \<and> gs_matched st \<noteq> [] \<and> \<not> isEmpty \<and> \<not> isTenantWideUsageScope scope
         then True else inv)"

definition baseResult :: "CheckRequest \<Rightarrow> string list \<Rightarrow> AssumedRoleDecision option \<Rightarrow> params \<Rightarrow>
  (string, string) gomap \<Rightarrow> string \<times> params \<times> bool \<Rightarrow> grant_state \<Rightarrow> CheckResult" where
  "baseResult req setIDs assumedRole boundary fieldPolicies chosen st =
     (case chosen of (scope, conditions, _) \<Rightarrow> \<lparr>
        res_Allowed = gs_matched st \<noteq> [] \<and> gs_deniedBy st = [], res_Reason = [],
        res_MatchedBy = uniqueStrings (gs_matchedBy st),
        res_MatchedPermissions = uniqueStrings (gs_matched st), res_MissingPermissions = [],
        res_PermissionSetIDs = uniqueStrings setIDs, res_Scope = scope, res_EffectiveScope = scope,
        res_Conditions = conditions, res_FieldPolicies = fieldPolicies, res_AssumedRole = assumedRole,
        res_PermissionBoundary = boundary, res_RiskLevel = gs_riskLevel st, res_Resource = req_Resource req,
        res_ApplicationCode = req_ApplicationCode req, res_ResourceType = req_ResourceType req,
        res_ResourceID = req_ResourceID req, res_Action = req_Action req, res_Target = req_Target req \<rparr>)"

definition refuse :: "CheckRequest \<Rightarrow> string \<Rightarrow> CheckResult \<Rightarrow> CheckResult" where
  "refuse req reason r = r\<lparr> res_Allowed := False, res_Reason := reason, res_MissingPermissions := [requestKey req] \<rparr>"

definition decide :: "CheckRequest \<Rightarrow> AssumedRoleDecision option \<Rightarrow> string \<times> params \<times> bool \<Rightarrow> grant_state \<Rightarrow>
  CheckResult \<Rightarrow> CheckResult" where
  "decide req assumedRole chosen st r =
     (case chosen of (scope, _, isEmpty) \<Rightarrow>
        if gs_deniedBy st \<noteq> [] then refuse req ''explicit deny'' r
        else if usageScopeInvalid req assumedRole scope isEmpty st then refuse req ''data scope denied'' r
        else if gs_matched st = [] then
          (if gs_relationshipDeniedBy st \<noteq> []
           then refuse req ''relationship denied'' (r\<lparr> res_MatchedBy := uniqueStrings (gs_relationshipDeniedBy st) \<rparr>)
           else refuse req ''missing permission'' r)
        else if isEmpty then refuse req ''scope intersection empty'' r
        else r\<lparr> res_Reason := ''matched permission'' \<rparr>)"

definition evaluateWith :: "'s scope_reads \<Rightarrow> service_env \<Rightarrow> RequestContext \<Rightarrow> Account \<Rightarrow> CheckRequest \<Rightarrow>
  authzGrant list \<Rightarrow> string list \<Rightarrow> AssumedRoleDecision option \<Rightarrow> params \<Rightarrow> authzTrace option \<Rightarrow> bool \<Rightarrow>
  ('s, err, CheckResult \<times> authzTrace option) op" where
  "evaluateWith reads c ctx account req grants setIDs assumedRole boundary trace includeFieldPolicies =
     (let req = normalizeCheckRequest req in
      bindS (foldS (evaluateGrant reads c ctx account req boundary) (enumerate 0 grants) (start_state req trace)) (\<lambda>st.
      bindS (liftS (implicitFallback c ctx account req boundary st)) (\<lambda>st.
      bindS (decisionScope reads req assumedRole st) (\<lambda>(chosen, st).
      bindS (if includeFieldPolicies
             then liftS (fieldPolicyDecision (sv_store c) ctx (req_ApplicationCode req) (req_ResourceType req)
                           (requestKey req) (uniqueStrings (gs_matched st)))
             else retS [])
        (\<lambda>fieldPolicies.
          retS (decide req assumedRole chosen st
                  (baseResult req setIDs assumedRole boundary fieldPolicies chosen st), gs_trace st))))))"

section \<open>The request-local scope cache\<close>

text \<open>The key \<open>fmt.Sprintf("%d|%t", grantIndex, usageWithoutScope)\<close> is kept as the pair it
  prints; an entry is the result of the read, value or error.\<close>

record authzDecisionScopeCache =
  sc_grantConditions :: "(nat \<times> bool, (string \<times> params) res) gomap"
  sc_boundary :: "(string \<times> params) option res option"

definition zero_authzDecisionScopeCache :: authzDecisionScopeCache where
  "zero_authzDecisionScopeCache = \<lparr> sc_grantConditions = [], sc_boundary = None \<rparr>"

definition usageWithoutScope :: "authzGrant \<Rightarrow> CheckRequest \<Rightarrow> bool" where
  "usageWithoutScope grant req \<longleftrightarrow> g_DataScope grant = None \<and> perm_Scope (g_Permission grant) = [] \<and>
     req_ApplicationCode req = AppAgent \<and> req_ResourceType req = ResourceUsage"

definition conditionsForGrantCached :: "service_env \<Rightarrow> RequestContext \<Rightarrow> Account \<Rightarrow> CheckRequest \<Rightarrow> nat \<Rightarrow>
  authzGrant \<Rightarrow> (authzDecisionScopeCache option, err, string \<times> params) op" where
  "conditionsForGrantCached c ctx account req grantIndex grant = (\<lambda>cache.
     case cache of
       None \<Rightarrow> (conditionsForGrant c ctx account grant req, None)
     | Some m \<Rightarrow>
         let key = (grantIndex, usageWithoutScope grant req) in
         case map_of (sc_grantConditions m) key of
           Some cached \<Rightarrow> (cached, cache)
         | None \<Rightarrow>
             let found = conditionsForGrant c ctx account grant req in
             (found, Some (m\<lparr> sc_grantConditions := map_put key found (sc_grantConditions m) \<rparr>)))"

definition boundaryScopeDecisionCached :: "service_env \<Rightarrow> RequestContext \<Rightarrow> Account \<Rightarrow> params \<Rightarrow>
  (authzDecisionScopeCache option, err, (string \<times> params) option) op" where
  "boundaryScopeDecisionCached c ctx account boundary = (\<lambda>cache.
     case cache of
       None \<Rightarrow> (boundaryScopeDecision c ctx account boundary, None)
     | Some m \<Rightarrow>
         (case sc_boundary m of
            Some cached \<Rightarrow> (cached, cache)
          | None \<Rightarrow>
              let found = boundaryScopeDecision c ctx account boundary in
              (found, Some (m\<lparr> sc_boundary := Some found \<rparr>))))"

definition evaluateAuthzDecisionWithFieldPolicies :: "service_env \<Rightarrow> RequestContext \<Rightarrow> Account \<Rightarrow> CheckRequest \<Rightarrow>
  authzGrant list \<Rightarrow> string list \<Rightarrow> AssumedRoleDecision option \<Rightarrow> params \<Rightarrow> authzTrace option \<Rightarrow> bool \<Rightarrow>
  (authzDecisionScopeCache option, err, CheckResult \<times> authzTrace option) op" where
  "evaluateAuthzDecisionWithFieldPolicies c ctx account req grants setIDs assumedRole boundary trace
     includeFieldPolicies =
     evaluateWith
       (conditionsForGrantCached c ctx account (normalizeCheckRequest req),
        boundaryScopeDecisionCached c ctx account boundary)
       c ctx account req grants setIDs assumedRole boundary trace includeFieldPolicies"

definition evaluateAuthzDecision :: "service_env \<Rightarrow> RequestContext \<Rightarrow> Account \<Rightarrow> CheckRequest \<Rightarrow>
  authzGrant list \<Rightarrow> string list \<Rightarrow> AssumedRoleDecision option \<Rightarrow> params \<Rightarrow> authzTrace option \<Rightarrow>
  (CheckResult \<times> authzTrace option) res" where
  "evaluateAuthzDecision c ctx account req grants setIDs assumedRole boundary trace =
     fst (evaluateAuthzDecisionWithFieldPolicies c ctx account req grants setIDs assumedRole boundary trace True None)"

section \<open>The cache does not change a decision\<close>

definition pureReads :: "service_env \<Rightarrow> RequestContext \<Rightarrow> Account \<Rightarrow> CheckRequest \<Rightarrow> params \<Rightarrow> unit scope_reads" where
  "pureReads c ctx account req boundary =
     (\<lambda>_ grant. liftS (conditionsForGrant c ctx account grant req),
      liftS (boundaryScopeDecision c ctx account boundary))"

lemma evaluateGrant_sim:
  assumes "simS ok (fst reads i g) (fst reads' i g)"
  shows "simS ok (evaluateGrant reads c ctx account req boundary (i, g) st)
    (evaluateGrant reads' c ctx account req boundary (i, g) st)"
  unfolding evaluateGrant_def Let_def prod.case by (intro simS_intros assms)

lemma decisionScope_sim:
  assumes "simS ok (snd reads) (snd reads')"
  shows "simS ok (decisionScope reads req assumedRole st) (decisionScope reads' req assumedRole st)"
  unfolding decisionScope_def Let_def by (intro simS_intros assms)

lemma evaluateWith_sim:
  assumes "\<And>i g. (i, g) \<in> set (enumerate 0 grants) \<Longrightarrow> simS ok (fst reads i g) (fst reads' i g)"
    and "simS ok (snd reads) (snd reads')"
  shows "simS ok (evaluateWith reads c ctx account req grants setIDs assumedRole boundary trace fp)
    (evaluateWith reads' c ctx account req grants setIDs assumedRole boundary trace fp)"
  unfolding evaluateWith_def Let_def
  by (intro simS_intros simS_fold decisionScope_sim assms(2))
    (auto simp del: in_set_enumerate_eq intro!: evaluateGrant_sim assms(1))

lemma conditionsForGrant_usage:
  "usageWithoutScope grant req = usageWithoutScope grant req' \<Longrightarrow>
     conditionsForGrant c ctx account grant req = conditionsForGrant c ctx account grant req'"
  by (auto simp: conditionsForGrant_def usageWithoutScope_def Let_def split: option.split)

text \<open>A cache of a list of grants: every entry is what the read returns, for every request that
  maps to the entry's key.\<close>

definition entries_ok :: "service_env \<Rightarrow> RequestContext \<Rightarrow> Account \<Rightarrow> authzGrant list \<Rightarrow>
  (nat \<times> bool, (string \<times> params) res) gomap \<Rightarrow> bool" where
  "entries_ok c ctx account grants entries \<longleftrightarrow>
     (\<forall>i r req. i < length grants \<longrightarrow> map_of entries (i, usageWithoutScope (grants ! i) req) = Some r \<longrightarrow>
        r = conditionsForGrant c ctx account (grants ! i) req)"

definition cache_ok :: "service_env \<Rightarrow> RequestContext \<Rightarrow> Account \<Rightarrow> authzGrant list \<Rightarrow> params \<Rightarrow>
  authzDecisionScopeCache option \<Rightarrow> bool" where
  "cache_ok c ctx account grants boundary cache \<longleftrightarrow>
     (case cache of
        None \<Rightarrow> True
      | Some m \<Rightarrow> entries_ok c ctx account grants (sc_grantConditions m) \<and>
          (\<forall>r. sc_boundary m = Some r \<longrightarrow> r = boundaryScopeDecision c ctx account boundary))"

lemma entries_ok_put:
  assumes ok: "entries_ok c ctx account grants entries"
  shows "entries_ok c ctx account grants
    (map_put (i, usageWithoutScope (grants ! i) req) (conditionsForGrant c ctx account (grants ! i) req) entries)"
    (is "entries_ok _ _ _ _ ?entries")
  unfolding entries_ok_def
proof (intro allI impI)
  fix j r req'
  assume j: "j < length grants" and r: "map_of ?entries (j, usageWithoutScope (grants ! j) req') = Some r"
  show "r = conditionsForGrant c ctx account (grants ! j) req'"
  proof (cases "(j, usageWithoutScope (grants ! j) req') = (i, usageWithoutScope (grants ! i) req)")
    case True
    with r have "r = conditionsForGrant c ctx account (grants ! i) req" by (simp add: update_conv')
    moreover from True have "usageWithoutScope (grants ! i) req = usageWithoutScope (grants ! i) req'" "j = i"
      by auto
    ultimately show ?thesis by (metis conditionsForGrant_usage)
  next
    case False
    with r have "map_of entries (j, usageWithoutScope (grants ! j) req') = Some r"
      unfolding update_conv' by (metis fun_upd_other)
    with ok j show ?thesis unfolding entries_ok_def by blast
  qed
qed

lemma conditionsForGrantCached_sim:
  assumes "(i, g) \<in> set (enumerate 0 grants)"
  shows "simS (cache_ok c ctx account grants boundary)
    (conditionsForGrantCached c ctx account req i g) (liftS (conditionsForGrant c ctx account g req))"
proof -
  have i: "i < length grants" "grants ! i = g" using assms by (auto simp: in_set_enumerate_eq)
  have "fst (conditionsForGrantCached c ctx account req i g cache) = conditionsForGrant c ctx account g req \<and>
      cache_ok c ctx account grants boundary (snd (conditionsForGrantCached c ctx account req i g cache))"
    if ok: "cache_ok c ctx account grants boundary cache" for cache
  proof (cases cache)
    case None
    then show ?thesis by (simp add: conditionsForGrantCached_def cache_ok_def)
  next
    case (Some m)
    then have entries: "entries_ok c ctx account grants (sc_grantConditions m)"
      using ok by (simp add: cache_ok_def)
    show ?thesis
    proof (cases "map_of (sc_grantConditions m) (i, usageWithoutScope g req)")
      case None
      with entries_ok_put [OF entries, of i req] i ok Some show ?thesis
        by (simp add: conditionsForGrantCached_def cache_ok_def Let_def)
    next
      case found: (Some r)
      then have "r = conditionsForGrant c ctx account g req"
        using entries i unfolding entries_ok_def by blast
      with found ok Some show ?thesis by (simp add: conditionsForGrantCached_def Let_def)
    qed
  qed
  then show ?thesis by (simp add: simS_def refinesS_def)
qed

lemma boundaryScopeDecisionCached_sim:
  "simS (cache_ok c ctx account grants boundary)
    (boundaryScopeDecisionCached c ctx account boundary) (liftS (boundaryScopeDecision c ctx account boundary))"
  by (auto simp: simS_def refinesS_def boundaryScopeDecisionCached_def cache_ok_def Let_def split: option.splits)

definition pureDecision :: "service_env \<Rightarrow> RequestContext \<Rightarrow> Account \<Rightarrow> CheckRequest \<Rightarrow>
  authzGrant list \<Rightarrow> string list \<Rightarrow> AssumedRoleDecision option \<Rightarrow> params \<Rightarrow> authzTrace option \<Rightarrow> bool \<Rightarrow>
  (CheckResult \<times> authzTrace option) res" where
  "pureDecision c ctx account req grants setIDs assumedRole boundary trace fp =
     runU (evaluateWith (pureReads c ctx account (normalizeCheckRequest req) boundary)
             c ctx account req grants setIDs assumedRole boundary trace fp)"

lemma evaluation_is_pure:
  assumes "cache_ok c ctx account grants boundary cache"
  shows "fst (evaluateAuthzDecisionWithFieldPolicies c ctx account req grants setIDs assumedRole boundary trace fp cache)
      = pureDecision c ctx account req grants setIDs assumedRole boundary trace fp"
    and "cache_ok c ctx account grants boundary
      (snd (evaluateAuthzDecisionWithFieldPolicies c ctx account req grants setIDs assumedRole boundary trace fp cache))"
proof -
  let ?reads = "(conditionsForGrantCached c ctx account (normalizeCheckRequest req),
    boundaryScopeDecisionCached c ctx account boundary)"
  let ?pure = "pureReads c ctx account (normalizeCheckRequest req) boundary"
  have "simS (cache_ok c ctx account grants boundary)
      (evaluateWith ?reads c ctx account req grants setIDs assumedRole boundary trace fp)
      (evaluateWith ?pure c ctx account req grants setIDs assumedRole boundary trace fp)"
    by (rule evaluateWith_sim)
      (simp_all only: pureReads_def fst_conv snd_conv conditionsForGrantCached_sim boundaryScopeDecisionCached_sim)
  from simS_result [OF this assms] show
    "fst (evaluateAuthzDecisionWithFieldPolicies c ctx account req grants setIDs assumedRole boundary trace fp cache)
      = pureDecision c ctx account req grants setIDs assumedRole boundary trace fp"
    "cache_ok c ctx account grants boundary
      (snd (evaluateAuthzDecisionWithFieldPolicies c ctx account req grants setIDs assumedRole boundary trace fp cache))"
    by (simp_all add: evaluateAuthzDecisionWithFieldPolicies_def pureDecision_def)
qed

lemma evaluateAuthzDecision_pure:
  "evaluateAuthzDecision c ctx account req grants setIDs assumedRole boundary trace =
     pureDecision c ctx account req grants setIDs assumedRole boundary trace True"
  unfolding evaluateAuthzDecision_def by (rule evaluation_is_pure) (simp add: cache_ok_def)

fun evaluateAll :: "service_env \<Rightarrow> RequestContext \<Rightarrow> Account \<Rightarrow> authzGrant list \<Rightarrow> string list \<Rightarrow>
  AssumedRoleDecision option \<Rightarrow> params \<Rightarrow> CheckRequest list \<Rightarrow> authzDecisionScopeCache option \<Rightarrow>
  (CheckResult \<times> authzTrace option) res list" where
  "evaluateAll c ctx account grants setIDs assumedRole boundary [] cache = []"
| "evaluateAll c ctx account grants setIDs assumedRole boundary (req # reqs) cache =
     (let (r, cache') = evaluateAuthzDecisionWithFieldPolicies c ctx account req grants setIDs assumedRole boundary
            None False cache
      in r # evaluateAll c ctx account grants setIDs assumedRole boundary reqs cache')"

lemma evaluateAll_pure:
  "cache_ok c ctx account grants boundary cache \<Longrightarrow>
     evaluateAll c ctx account grants setIDs assumedRole boundary reqs cache =
     map (\<lambda>req. pureDecision c ctx account req grants setIDs assumedRole boundary None False) reqs"
proof (induction reqs arbitrary: cache)
  case (Cons req reqs)
  note eval = evaluation_is_pure [OF Cons.prems, of req setIDs assumedRole None False]
  show ?case
    using eval(1) Cons.IH [OF eval(2)] by (simp add: case_prod_unfold Let_def)
qed simp

text \<open>
  C8.  The request-local scope cache never changes a decision: starting from an empty cache and
  evaluating any sequence of requests over the same grants, every evaluation returns, error or
  result, what it returns without a cache.
\<close>

theorem scope_cache_transparent:
  "evaluateAll c ctx account grants setIDs assumedRole boundary reqs (Some zero_authzDecisionScopeCache) =
   map (\<lambda>req. fst (evaluateAuthzDecisionWithFieldPolicies c ctx account req grants setIDs assumedRole boundary
                     None False None)) reqs"
proof -
  have start: "cache_ok c ctx account grants boundary (Some zero_authzDecisionScopeCache)"
    "cache_ok c ctx account grants boundary None"
    by (simp_all add: cache_ok_def entries_ok_def zero_authzDecisionScopeCache_def)
  show ?thesis by (simp add: evaluateAll_pure [OF start(1)] evaluation_is_pure(1) [OF start(2)])
qed

section \<open>What one grant does to the state\<close>

lemma traced_fields [simp]:
  "gs_matched (traced f st) = gs_matched st" "gs_matchedBy (traced f st) = gs_matchedBy st"
  "gs_deniedBy (traced f st) = gs_deniedBy st" "gs_normal (traced f st) = gs_normal st"
  "gs_relationshipDeniedBy (traced f st) = gs_relationshipDeniedBy st"
  "gs_assumed (traced f st) = gs_assumed st" "gs_riskLevel (traced f st) = gs_riskLevel st"
  by (simp_all add: traced_def)

lemma deny_fields [simp]:
  "gs_matched (deny s st) = gs_matched st" "gs_normal (deny s st) = gs_normal st"
  "gs_assumed (deny s st) = gs_assumed st" "gs_deniedBy (deny s st) = gs_deniedBy st @ [s]"
  "gs_matched (denyByBoundary k e st) = gs_matched st" "gs_normal (denyByBoundary k e st) = gs_normal st"
  "gs_assumed (denyByBoundary k e st) = gs_assumed st"
  "gs_deniedBy (denyByBoundary k e st) = gs_deniedBy st @ [''permission_boundary'']"
  by (simp_all add: deny_def denyByBoundary_def)

lemma matched_side_matched [simp]: "sd_matched (matched_side scope conditions side)"
  by (simp add: matched_side_def split: prod.split)

lemma acceptGrant_fields [simp]:
  "gs_matched (acceptGrant g scope conditions st) = gs_matched st @ [permissionLabel (g_Permission g)]"
  "gs_deniedBy (acceptGrant g scope conditions st) = gs_deniedBy st"
  "sd_matched (gs_normal (acceptGrant g scope conditions st)) \<longleftrightarrow>
     g_SourceKind g \<noteq> authzGrantSourceAssumed \<or> sd_matched (gs_normal st)"
  "sd_matched (gs_assumed (acceptGrant g scope conditions st)) \<longleftrightarrow>
     g_SourceKind g = authzGrantSourceAssumed \<or> sd_matched (gs_assumed st)"
  by (simp_all add: acceptGrant_def on_side_def)

lemma rejectUsageScope_fields [simp]:
  "gs_matched (rejectUsageScope g scope st) = gs_matched st"
  "gs_deniedBy (rejectUsageScope g scope st) = gs_deniedBy st"
  "sd_matched (gs_normal (rejectUsageScope g scope st)) = sd_matched (gs_normal st)"
  "sd_matched (gs_assumed (rejectUsageScope g scope st)) = sd_matched (gs_assumed st)"
  by (simp_all add: rejectUsageScope_def on_side_def)

text \<open>A grant is accepted for a request when it matches, is no deny, the boundary permits the
  request, and the relation it demands, if any, holds.\<close>

definition explicitly_denies :: "authzGrant \<Rightarrow> CheckRequest \<Rightarrow> Account \<Rightarrow> bool" where
  "explicitly_denies g req account \<longleftrightarrow>
     permissionMatches (g_Permission g) req account \<and> permissionEffect g = ''deny''"

definition relation_holds :: "service_env \<Rightarrow> RequestContext \<Rightarrow> Account \<Rightarrow> CheckRequest \<Rightarrow> authzGrant \<Rightarrow> bool" where
  "relation_holds c ctx account req g \<longleftrightarrow>
     relationshipConstraint (g_Permission g) = [] \<or>
     (\<exists>label. relationshipAllows c ctx account req (relationshipConstraint (g_Permission g)) = Inr (True, label))"

definition accepted :: "service_env \<Rightarrow> RequestContext \<Rightarrow> Account \<Rightarrow> CheckRequest \<Rightarrow> params \<Rightarrow> authzGrant \<Rightarrow> bool" where
  "accepted c ctx account req boundary g \<longleftrightarrow>
     permissionMatches (g_Permission g) req account \<and> permissionEffect g \<noteq> ''deny'' \<and>
     policy_permits boundary (requestKey req) \<and> relation_holds c ctx account req g"

text \<open>The state apart from its trace and labels.\<close>

definition verdict :: "grant_state \<Rightarrow> string list \<times> string list \<times> bool \<times> bool" where
  "verdict st = (gs_matched st, gs_deniedBy st, sd_matched (gs_normal st), sd_matched (gs_assumed st))"

lemma evaluateGrant_cases:
  assumes "runU (evaluateGrant (pureReads c ctx account req' boundary') c ctx account req boundary (i, g) st) = Inr st'"
  obtains (denied) source where "verdict st' = (gs_matched st, gs_deniedBy st @ [source],
        sd_matched (gs_normal st), sd_matched (gs_assumed st))"
    | (unchanged) "verdict st' = verdict st" "\<not> explicitly_denies g req account"
    | (granted) "accepted c ctx account req boundary g"
        "verdict st' = (gs_matched st @ [permissionLabel (g_Permission g)], gs_deniedBy st,
           g_SourceKind g \<noteq> authzGrantSourceAssumed \<or> sd_matched (gs_normal st),
           g_SourceKind g = authzGrantSourceAssumed \<or> sd_matched (gs_assumed st))"
proof -
  consider (nomatch) "\<not> permissionMatches (g_Permission g) req account"
    | (deny) "permissionMatches (g_Permission g) req account" "permissionEffect g = ''deny''"
    | (bounded) "permissionMatches (g_Permission g) req account" "permissionEffect g \<noteq> ''deny''"
        "\<not> policy_permits boundary (requestKey req)"
    | (passes) "permissionMatches (g_Permission g) req account" "permissionEffect g \<noteq> ''deny''"
        "policy_permits boundary (requestKey req)" by blast
  then show thesis
  proof cases
    case nomatch
    with assms show thesis
      by (intro unchanged) (auto simp: evaluateGrant_def Let_def verdict_def explicitly_denies_def)
  next
    case deny
    with assms show thesis
      by (intro denied [of "grantSource g"]) (auto simp: evaluateGrant_def Let_def verdict_def)
  next
    case bounded
    with assms show thesis
      by (intro denied [of "''permission_boundary''"])
        (auto simp: evaluateGrant_def Let_def verdict_def policy_permits_def split: if_splits)
  next
    case passes
    let ?rel = "relationshipConstraint (g_Permission g)"
    from assms passes obtain allowed label where
        rel: "(if ?rel = [] then Inr (True, []) else relationshipAllows c ctx account req ?rel) = Inr (allowed, label)"
      and rest: "(if \<not> allowed
        then Inr (traced (addGrant g True ''relationship'' [])
               (st\<lparr> gs_relationshipDeniedBy := gs_relationshipDeniedBy st @ [label] \<rparr>))
        else bindR (conditionsForGrant c ctx account g req') (\<lambda>(scope, conditions).
            if isUsageRequest req \<and> \<not> isTenantWideUsageScope scope
            then Inr (rejectUsageScope g scope (if ?rel = [] then st else st\<lparr> gs_matchedBy := gs_matchedBy st @ [label] \<rparr>))
            else Inr (acceptGrant g scope conditions
                        (if ?rel = [] then st else st\<lparr> gs_matchedBy := gs_matchedBy st @ [label] \<rparr>)))) = Inr st'"
      by (auto simp: evaluateGrant_def Let_def policy_permits_def pureReads_def case_prod_unfold
          split: if_splits)
    have nodeny: "\<not> explicitly_denies g req account" using passes(2) by (simp add: explicitly_denies_def)
    show thesis
    proof (cases allowed)
      case False
      with rest show thesis by (intro unchanged nodeny) (auto simp: verdict_def)
    next
      case True
      with rel passes have acc: "accepted c ctx account req boundary g"
        by (auto simp: accepted_def relation_holds_def split: if_splits)
      from True rest obtain scope conditions where "conditionsForGrant c ctx account g req' = Inr (scope, conditions)"
        by (auto split: if_splits)
      show thesis
      proof (cases "isUsageRequest req \<and> \<not> isTenantWideUsageScope scope")
        case usage: True
        from True usage rest \<open>conditionsForGrant c ctx account g req' = _\<close> show thesis
          by (intro unchanged nodeny) (auto simp: verdict_def split: if_splits)
      next
        case usage: False
        from True usage rest \<open>conditionsForGrant c ctx account g req' = _\<close> show thesis
          by (intro granted [OF acc]) (auto simp: verdict_def split: if_splits)
      qed
    qed
  qed
qed

section \<open>What the whole loop establishes\<close>

definition grant_loop :: "service_env \<Rightarrow> RequestContext \<Rightarrow> Account \<Rightarrow> CheckRequest \<Rightarrow> params \<Rightarrow> authzGrant list \<Rightarrow>
  grant_state \<Rightarrow> grant_state res" where
  "grant_loop c ctx account req boundary grants st =
     foldR (\<lambda>entry st. runU (evaluateGrant (pureReads c ctx account req boundary) c ctx account req boundary entry st))
       (enumerate 0 grants) st"

definition side_accepted :: "service_env \<Rightarrow> RequestContext \<Rightarrow> Account \<Rightarrow> CheckRequest \<Rightarrow> params \<Rightarrow> authzGrant list \<Rightarrow>
  bool \<Rightarrow> bool" where
  "side_accepted c ctx account req boundary grants assumedSide \<longleftrightarrow>
     (\<exists>g \<in> set grants. accepted c ctx account req boundary g \<and>
        (g_SourceKind g = authzGrantSourceAssumed \<longleftrightarrow> assumedSide))"

definition loop_inv :: "(bool \<Rightarrow> bool) \<Rightarrow> grant_state \<Rightarrow> bool" where
  "loop_inv side st \<longleftrightarrow>
     (sd_matched (gs_normal st) \<longrightarrow> side False) \<and> (sd_matched (gs_assumed st) \<longrightarrow> side True) \<and>
     (gs_matched st \<noteq> [] \<longleftrightarrow> sd_matched (gs_normal st) \<or> sd_matched (gs_assumed st))"

lemma loop_inv_verdict:
  "loop_inv side st \<Longrightarrow> verdict st' = verdict st \<Longrightarrow> loop_inv side st'"
  by (simp add: loop_inv_def verdict_def)

lemma grant_loop_inv:
  assumes "grant_loop c ctx account req boundary grants (start_state req trace) = Inr st"
  shows "loop_inv (side_accepted c ctx account req boundary grants) st"
proof (rule foldR_invariant [OF assms [unfolded grant_loop_def]])
  show "loop_inv (side_accepted c ctx account req boundary grants) (start_state req trace)"
    by (simp add: loop_inv_def start_state_def no_side_def)
  fix entry t t'
  assume entry: "entry \<in> set (enumerate 0 grants)" and inv: "loop_inv (side_accepted c ctx account req boundary grants) t"
    and step: "runU (evaluateGrant (pureReads c ctx account req boundary) c ctx account req boundary entry t) = Inr t'"
  obtain i g where e: "entry = (i, g)" by fastforce
  with entry have g: "g \<in> set grants" by (auto simp: in_set_enumerate_eq)
  from step [unfolded e] show "loop_inv (side_accepted c ctx account req boundary grants) t'"
  proof (cases rule: evaluateGrant_cases)
    case (denied source)
    with inv show ?thesis by (simp add: loop_inv_def verdict_def)
  next
    case unchanged
    with inv loop_inv_verdict show ?thesis by blast
  next
    case granted
    then have "side_accepted c ctx account req boundary grants (g_SourceKind g = authzGrantSourceAssumed)"
      using g by (auto simp: side_accepted_def)
    with inv granted(2) show ?thesis
      by (cases "g_SourceKind g = authzGrantSourceAssumed") (auto simp: loop_inv_def verdict_def)
  qed
qed

lemma evaluateGrant_keeps_denials:
  assumes "runU (evaluateGrant (pureReads c ctx account req' b') c ctx account req boundary (i, g) st) = Inr st'"
  shows "gs_deniedBy st \<noteq> [] \<Longrightarrow> gs_deniedBy st' \<noteq> []"
    and "explicitly_denies g req account \<Longrightarrow> gs_deniedBy st' \<noteq> []"
  using assms by (cases rule: evaluateGrant_cases; auto simp: verdict_def accepted_def explicitly_denies_def)+

lemma grant_loop_denied:
  assumes "grant_loop c ctx account req boundary grants st0 = Inr st" and "g \<in> set grants"
    and "explicitly_denies g req account"
  shows "gs_deniedBy st \<noteq> []"
proof -
  obtain i where "i < length grants" "g = grants ! i"
    using assms(2) by (auto simp: in_set_conv_nth)
  then have "(i, g) \<in> set (enumerate 0 grants)" by (simp add: in_set_enumerate_eq)
  from foldR_contributes [OF assms(1) [unfolded grant_loop_def] this, where Q = "\<lambda>st. gs_deniedBy st \<noteq> []"]
  show ?thesis using evaluateGrant_keeps_denials assms(3) by (metis surj_pair)
qed

section \<open>The decision, stage by stage\<close>

lemma pureDecision_stages:
  assumes "pureDecision c ctx account req grants setIDs assumedRole boundary trace fp = Inr (r, t)"
  obtains st st' chosen st'' policies where
    "grant_loop c ctx account (normalizeCheckRequest req) boundary grants
       (start_state (normalizeCheckRequest req) trace) = Inr st"
    "implicitFallback c ctx account (normalizeCheckRequest req) boundary st = Inr st'"
    "runU (decisionScope (pureReads c ctx account (normalizeCheckRequest req) boundary)
       (normalizeCheckRequest req) assumedRole st') = Inr (chosen, st'')"
    "r = decide (normalizeCheckRequest req) assumedRole chosen st''
       (baseResult (normalizeCheckRequest req) setIDs assumedRole boundary policies chosen st'')"
  using assms unfolding pureDecision_def evaluateWith_def Let_def grant_loop_def
  by (auto simp: case_prod_unfold)

lemma decisionScope_verdict:
  assumes "runU (decisionScope (pureReads c ctx account req boundary) req assumedRole st) = Inr (chosen, st')"
  shows "verdict st' = verdict st" and "snd (snd (combineSides assumedRole st)) \<Longrightarrow> snd (snd chosen)"
  using assms
  by (auto simp: decisionScope_def Let_def pureReads_def verdict_def applyBoundaryScope_def case_prod_unfold
      split: if_splits option.splits prod.splits)

lemma decide_allowed:
  assumes "res_Allowed (decide req assumedRole chosen st (baseResult req' setIDs role boundary policies chosen' st))"
  shows "gs_deniedBy st = [] \<and> gs_matched st \<noteq> [] \<and> \<not> snd (snd chosen)"
  using assms by (auto simp: decide_def refuse_def baseResult_def split: prod.splits if_splits)

lemma decide_denied:
  "gs_deniedBy st \<noteq> [] \<Longrightarrow> decide req assumedRole chosen st r = refuse req ''explicit deny'' r"
  by (simp add: decide_def split: prod.split)

definition implicitly_related :: "service_env \<Rightarrow> RequestContext \<Rightarrow> Account \<Rightarrow> CheckRequest \<Rightarrow> bool" where
  "implicitly_related c ctx account req \<longleftrightarrow>
     (\<exists>check. sv_relationships c = Some check \<and> req_ResourceID req \<noteq> [] \<and>
        supportsImplicitRelationshipFallback req \<and> check (implicitCheck ctx account req) = Inr True)"

lemma acceptRelationship_fields [simp]:
  "gs_deniedBy (acceptRelationship ctx req st) = gs_deniedBy st"
  "gs_matched (acceptRelationship ctx req st) \<noteq> []"
  "sd_matched (gs_normal (acceptRelationship ctx req st))"
  "gs_assumed (acceptRelationship ctx req st) = gs_assumed st"
  by (simp_all add: acceptRelationship_def Let_def)

lemma denyByBoundary_denies: "gs_deniedBy (denyByBoundary k e st) \<noteq> []"
  by simp

lemma implicitFallback_cases:
  assumes run: "implicitFallback c ctx account req boundary st = Inr st'"
  obtains (unchanged) "verdict st' = verdict st"
    | (denied) "gs_deniedBy st' \<noteq> []"
    | (related) "implicitly_related c ctx account req" "policy_permits boundary (requestKey req)"
        "gs_deniedBy st' = gs_deniedBy st" "gs_matched st' \<noteq> []" "sd_matched (gs_normal st')"
        "gs_assumed st' = gs_assumed st"
proof (cases "sv_relationships c")
  case None
  with run show thesis by (intro unchanged) (simp add: implicitFallback_def)
next
  case (Some check)
  let ?guard = "gs_matched st = [] \<and> req_ResourceID req \<noteq> [] \<and> supportsImplicitRelationshipFallback req"
  show thesis
  proof (cases ?guard)
    case False
    with Some run have "st' = st" unfolding implicitFallback_def by (simp split: if_splits)
    then show thesis by (intro unchanged) simp
  next
    case guard: True
    show thesis
    proof (cases "policy_permits boundary (requestKey req)")
      case False
      with Some guard run have "\<exists>e. st' = denyByBoundary (requestKey req) e st"
        unfolding implicitFallback_def policy_permits_def by (auto split: if_splits)
      then show thesis using denyByBoundary_denies by (intro denied) metis
    next
      case True
      with Some guard run obtain allowed where
        step: "check (implicitCheck ctx account req) = Inr allowed"
          "st' = (if allowed then acceptRelationship ctx req st else st)"
        unfolding implicitFallback_def policy_permits_def by auto
      show thesis
      proof (cases allowed)
        case False
        with step show thesis by (intro unchanged) simp
      next
        case allowed: True
        have "implicitly_related c ctx account req"
          using Some guard step(1) allowed unfolding implicitly_related_def by (intro exI [of _ check]) simp
        with True allowed step(2) show thesis by (intro related) simp_all
      qed
    qed
  qed
qed

section \<open>The evaluation in direct style\<close>

text \<open>
  Without a cache the evaluation is a plain function of its inputs.  In this form, with every
  continuation a function of its own, the kernel evaluates it on concrete inputs.
\<close>

definition grantWithScope :: "CheckRequest \<Rightarrow> authzGrant \<Rightarrow> grant_state \<Rightarrow> string \<times> params \<Rightarrow> grant_state res" where
  "grantWithScope req grant st found =
     (if isUsageRequest req \<and> \<not> isTenantWideUsageScope (fst found)
      then Inr (rejectUsageScope grant (fst found) st)
      else Inr (acceptGrant grant (fst found) (snd found) st))"

definition grantWithRelation :: "service_env \<Rightarrow> RequestContext \<Rightarrow> Account \<Rightarrow> CheckRequest \<Rightarrow> authzGrant \<Rightarrow>
  grant_state \<Rightarrow> bool \<times> string \<Rightarrow> grant_state res" where
  "grantWithRelation c ctx account req grant st answer =
     (if \<not> fst answer
      then Inr (traced (addGrant grant True ''relationship'' [])
             (st\<lparr> gs_relationshipDeniedBy := gs_relationshipDeniedBy st @ [snd answer] \<rparr>))
      else bindR (conditionsForGrant c ctx account grant req)
        (grantWithScope req grant
          (if relationshipConstraint (g_Permission grant) = [] then st
           else st\<lparr> gs_matchedBy := gs_matchedBy st @ [snd answer] \<rparr>)))"

definition directGrant :: "service_env \<Rightarrow> RequestContext \<Rightarrow> Account \<Rightarrow> CheckRequest \<Rightarrow> params \<Rightarrow> nat \<times> authzGrant \<Rightarrow>
  grant_state \<Rightarrow> grant_state res" where
  "directGrant c ctx account req boundary entry st =
     (let grant = snd entry; key = requestKey req; relation = relationshipConstraint (g_Permission grant) in
      if \<not> permissionMatches (g_Permission grant) req account
      then Inr (traced (addGrant grant False [] []) st)
      else if permissionEffect grant = ''deny''
      then Inr (traced (addDenySource (grantSource grant) \<circ> addGrant grant True ''explicit_deny'' [])
             (deny (grantSource grant) st))
      else if policyDenies boundary key
      then Inr (denyByBoundary key ''deny'' (traced (addGrant grant True ''permission_boundary'' []) st))
      else if \<not> policyAllows boundary key
      then Inr (denyByBoundary key ''allow_missing'' (traced (addGrant grant True ''permission_boundary'' []) st))
      else bindR (if relation = [] then Inr (True, []) else relationshipAllows c ctx account req relation)
             (grantWithRelation c ctx account req grant st))"

lemma runU_case_prod: "runU (case x of (a, b) \<Rightarrow> f a b) = (case x of (a, b) \<Rightarrow> runU (f a b))"
  by (cases x) simp

lemma directGrant_eq:
  "runU (evaluateGrant (pureReads c ctx account req boundary) c ctx account req boundary entry st) =
     directGrant c ctx account req boundary entry st"
  unfolding evaluateGrant_def directGrant_def Let_def pureReads_def grantWithRelation_def grantWithScope_def
  by (cases entry) (simp only: runU_simps case_prod_unfold fst_conv snd_conv)

definition scopeWithBoundary :: "CheckRequest \<Rightarrow> grant_state \<Rightarrow> string \<times> params \<times> bool \<Rightarrow>
  (string \<times> params) option \<Rightarrow> ((string \<times> params \<times> bool) \<times> grant_state) res" where
  "scopeWithBoundary req st chosen found = Inr (applyBoundaryScope req found chosen st)"

definition traceScope :: "(string \<times> params \<times> bool) \<times> grant_state \<Rightarrow> ((string \<times> params \<times> bool) \<times> grant_state) res" where
  "traceScope found =
     (let chosen = fst found; st = snd found in
      Inr (chosen, traced (setScopeDerivation (sd_scope (gs_normal st)) (sd_scope (gs_assumed st)) []
                     (fst chosen) (snd (snd chosen))) st))"

definition directScope :: "service_env \<Rightarrow> RequestContext \<Rightarrow> Account \<Rightarrow> CheckRequest \<Rightarrow> params \<Rightarrow>
  AssumedRoleDecision option \<Rightarrow> grant_state \<Rightarrow> ((string \<times> params \<times> bool) \<times> grant_state) res" where
  "directScope c ctx account req boundary assumedRole st =
     (let chosen = combineSides assumedRole st in
      bindR (if snd (snd chosen) then Inr (chosen, st)
             else bindR (boundaryScopeDecision c ctx account boundary) (scopeWithBoundary req st chosen))
        traceScope)"

lemma directScope_eq:
  "runU (decisionScope (pureReads c ctx account req boundary) req assumedRole st) =
     directScope c ctx account req boundary assumedRole st"
  unfolding decisionScope_def directScope_def Let_def pureReads_def traceScope_def scopeWithBoundary_def
  by (simp only: runU_simps case_prod_unfold fst_conv snd_conv)

definition resultWithPolicies :: "CheckRequest \<Rightarrow> string list \<Rightarrow> AssumedRoleDecision option \<Rightarrow> params \<Rightarrow>
  string \<times> params \<times> bool \<Rightarrow> grant_state \<Rightarrow> (string, string) gomap \<Rightarrow> (CheckResult \<times> authzTrace option) res" where
  "resultWithPolicies req setIDs assumedRole boundary chosen st fieldPolicies =
     Inr (decide req assumedRole chosen st (baseResult req setIDs assumedRole boundary fieldPolicies chosen st),
          gs_trace st)"

definition resultWithScope :: "service_env \<Rightarrow> RequestContext \<Rightarrow> CheckRequest \<Rightarrow> string list \<Rightarrow>
  AssumedRoleDecision option \<Rightarrow> params \<Rightarrow> bool \<Rightarrow> (string \<times> params \<times> bool) \<times> grant_state \<Rightarrow>
  (CheckResult \<times> authzTrace option) res" where
  "resultWithScope c ctx req setIDs assumedRole boundary fp found =
     bindR (if fp then fieldPolicyDecision (sv_store c) ctx (req_ApplicationCode req) (req_ResourceType req)
                         (requestKey req) (uniqueStrings (gs_matched (snd found)))
            else Inr [])
       (resultWithPolicies req setIDs assumedRole boundary (fst found) (snd found))"

definition resultWithFallback :: "service_env \<Rightarrow> RequestContext \<Rightarrow> Account \<Rightarrow> CheckRequest \<Rightarrow> string list \<Rightarrow>
  AssumedRoleDecision option \<Rightarrow> params \<Rightarrow> bool \<Rightarrow> grant_state \<Rightarrow> (CheckResult \<times> authzTrace option) res" where
  "resultWithFallback c ctx account req setIDs assumedRole boundary fp st =
     bindR (directScope c ctx account req boundary assumedRole st)
       (resultWithScope c ctx req setIDs assumedRole boundary fp)"

definition resultWithGrants :: "service_env \<Rightarrow> RequestContext \<Rightarrow> Account \<Rightarrow> CheckRequest \<Rightarrow> string list \<Rightarrow>
  AssumedRoleDecision option \<Rightarrow> params \<Rightarrow> bool \<Rightarrow> grant_state \<Rightarrow> (CheckResult \<times> authzTrace option) res" where
  "resultWithGrants c ctx account req setIDs assumedRole boundary fp st =
     bindR (implicitFallback c ctx account req boundary st)
       (resultWithFallback c ctx account req setIDs assumedRole boundary fp)"

definition directDecision :: "service_env \<Rightarrow> RequestContext \<Rightarrow> Account \<Rightarrow> CheckRequest \<Rightarrow>
  authzGrant list \<Rightarrow> string list \<Rightarrow> AssumedRoleDecision option \<Rightarrow> params \<Rightarrow> authzTrace option \<Rightarrow> bool \<Rightarrow>
  (CheckResult \<times> authzTrace option) res" where
  "directDecision c ctx account req grants setIDs assumedRole boundary trace fp =
     (let req = normalizeCheckRequest req in
      bindR (foldR (directGrant c ctx account req boundary) (enumerate 0 grants) (start_state req trace))
        (resultWithGrants c ctx account req setIDs assumedRole boundary fp))"

lemma pureDecision_direct:
  "pureDecision c ctx account req grants setIDs assumedRole boundary trace fp =
     directDecision c ctx account req grants setIDs assumedRole boundary trace fp"
  unfolding pureDecision_def evaluateWith_def directDecision_def Let_def resultWithGrants_def
    resultWithFallback_def resultWithScope_def resultWithPolicies_def
  by (simp only: runU_simps runU_fold case_prod_unfold directGrant_eq directScope_eq)

lemma evaluateAuthzDecision_direct [code]:
  "evaluateAuthzDecision c ctx account req grants setIDs assumedRole boundary trace =
     directDecision c ctx account req grants setIDs assumedRole boundary trace True"
  by (simp only: evaluateAuthzDecision_pure pureDecision_direct)

end
