(* ===== verification/Sample_Tenant.thy ===== *)
theory Sample_Tenant
  imports Authz_Grants
begin

text \<open>
  A small tenant built with the repository's own operations, the concrete state at which the
  properties of the authorization theories are exercised: an account with a direct permission
  set, a group with an expiring membership, a permission set assigned under a data scope, a role
  with a permission boundary, an active session of it, two employees and a field policy.
\<close>

definition sample_perm :: "string \<Rightarrow> Permission" where
  "sample_perm action = zero_Permission\<lparr> perm_ApplicationCode := ''hr'', perm_ResourceType := ''employee'',
     perm_Action := action \<rparr>"

definition sample_set :: "string \<Rightarrow> string list \<Rightarrow> PermissionSet" where
  "sample_set i actions = zero_PermissionSet\<lparr> ps_ID := i, ps_TenantID := ''acme'',
     ps_Permissions := map sample_perm actions \<rparr>"

definition sample_account :: Account where
  "sample_account = zero_Account\<lparr> acc_ID := ''acc-1'', acc_TenantID := ''acme'', acc_EmployeeID := ''emp-1'',
     acc_Status := ''active'', acc_DirectPermissionSetIDs := [''hr-read''] \<rparr>"

definition sample_group :: UserGroup where
  "sample_group = zero_UserGroup\<lparr> ug_ID := ''hr-team'', ug_TenantID := ''acme'',
     ug_PermissionSetIDs := [''hr-update''] \<rparr>"

definition sample_membership :: GroupMembership where
  "sample_membership = zero_GroupMembership\<lparr> gm_TenantID := ''acme'', gm_UserGroupID := ''hr-team'',
     gm_AccountID := ''acc-1'', gm_ValidUntil := Some 500 \<rparr>"

definition sample_scope :: DataScope where
  "sample_scope = zero_DataScope\<lparr> ds_ID := ''own-data'', ds_TenantID := ''acme'', ds_ScopeType := ''self'' \<rparr>"

definition sample_assignment :: PermissionSetAssignment where
  "sample_assignment = zero_PermissionSetAssignment\<lparr> psa_ID := ''asg-1'', psa_TenantID := ''acme'',
     psa_PrincipalType := ''account'', psa_PrincipalID := ''acc-1'', psa_PermissionSetID := ''hr-export'',
     psa_Effect := ''allow'', psa_DataScopeID := ''own-data'', psa_ExpiresAt := Some 400 \<rparr>"

definition sample_role :: AssumableRole where
  "sample_role = zero_AssumableRole\<lparr> ar_ID := ''auditor'', ar_TenantID := ''acme'', ar_Name := ''Auditor'',
     ar_PermissionSetIDs := [''hr-read''],
     ar_PermissionBoundary := [(''allow'', VList [VStr ''hr.employee.*''])] \<rparr>"

definition sample_session :: AssumableRoleSession where
  "sample_session = zero_AssumableRoleSession\<lparr> ars_ID := ''sess-1'', ars_TenantID := ''acme'',
     ars_AccountID := ''acc-1'', ars_AssumableRoleID := ''auditor'',
     ars_SessionPolicy := [(''deny'', VList [VStr ''hr.employee.delete''])], ars_ExpiresAt := 300 \<rparr>"

definition sample_employee :: "string \<Rightarrow> string \<Rightarrow> string \<Rightarrow> Employee" where
  "sample_employee i unit manager = zero_Employee\<lparr> emp_ID := i, emp_TenantID := ''acme'',
     emp_OrgUnitID := unit, emp_ManagerEmployeeID := manager, emp_Status := ''active'',
     emp_Phone := ''0912345678'', emp_PersonalEmail := ''ann@home.example'' \<rparr>"

definition sample_policy :: FieldPolicy where
  "sample_policy = zero_FieldPolicy\<lparr> fp_ID := ''fp-1'', fp_TenantID := ''acme'', fp_ApplicationCode := ''hr'',
     fp_ResourceType := ''employee'', fp_FieldName := ''phone'', fp_Effect := ''hide'' \<rparr>"

definition sample_rows :: mem_store where
  "sample_rows =
     UpsertFieldPolicy (UpsertAssumableRoleSession (UpsertAssumableRole (UpsertPermissionSetAssignment
       (UpsertDataScope (UpsertPermissionSet (UpsertPermissionSet (UpsertPermissionSet empty_store
         (sample_set ''hr-read'' [''read''])) (sample_set ''hr-update'' [''update'']))
         (sample_set ''hr-export'' [''export''])) sample_scope) sample_assignment) sample_role)
       sample_session) sample_policy"

definition sample_employees :: "Employee table" where
  "sample_employees =
     putNested (putNested [] ''acme'' ''emp-1'' (sample_employee ''emp-1'' ''unit-1'' []))
       ''acme'' ''emp-2'' (sample_employee ''emp-2'' ''unit-1'' ''emp-1'')"

definition sample_tables :: mem_store where
  "sample_tables = sample_rows\<lparr> st_employees := sample_employees \<rparr>"

definition sample_store :: mem_store where
  "sample_store =
     (case UpsertAccount sample_tables sample_account of
        Inl e \<Rightarrow> empty_store
      | Inr s \<Rightarrow> (case UpsertUserGroup s sample_group of
            Inl e \<Rightarrow> empty_store
          | Inr s \<Rightarrow> UpsertGroupMembership s sample_membership))"

definition sample_env :: mem_env where
  "sample_env = \<lparr> me_parse = (\<lambda>_. None), me_now = 100, me_store = sample_store \<rparr>"

definition sample_service :: service_env where
  "sample_service = \<lparr> sv_store = env_store sample_env, sv_relationships = None,
     sv_openFGAScopeChecks = False, sv_now = 100 \<rparr>"

definition sample_ctx :: "string \<Rightarrow> RequestContext" where
  "sample_ctx sessionID = zero_RequestContext\<lparr> ctx_TenantID := ''acme'', ctx_AccountID := ''acc-1'',
     ctx_AssumedRoleSessionID := sessionID \<rparr>"

definition sample_request :: "string \<Rightarrow> CheckRequest" where
  "sample_request action = zero_CheckRequest\<lparr> req_ApplicationCode := ''hr'', req_ResourceType := ''employee'',
     req_Action := action \<rparr>"

lemma sample_tables_invar: "mem_invar sample_tables"
proof -
  have "mem_invar sample_rows"
    unfolding sample_rows_def by (intro mem_invar_puts mem_invar_empty)
  moreover have "tab.keyed emp_TenantID emp_ID sample_employees"
    unfolding sample_employees_def
    by (intro tab.keyed_put) (simp_all add: sample_employee_def tab.keyed_def table_wf_def getNested_def)
  ultimately show ?thesis by (simp add: sample_tables_def mem_invar_def)
qed

lemma sample_env_invar [intro, simp]: "env_invar sample_env"
proof -
  have "mem_invar sample_store"
  proof (cases "UpsertAccount sample_tables sample_account")
    case (Inr s)
    then have "mem_invar s" by (rule mem_invar_UpsertAccount [OF sample_tables_invar])
    with Inr show ?thesis
      by (cases "UpsertUserGroup s sample_group")
        (simp_all add: sample_store_def mem_invar_empty mem_invar_UpsertGroupMembership mem_invar_UpsertUserGroup)
  qed (simp add: sample_store_def mem_invar_empty)
  then show ?thesis by (simp add: env_invar_def sample_env_def)
qed

lemma sample_service_store [simp]: "sv_store sample_service = env_store sample_env"
  by (simp add: sample_service_def)

definition sample_grants :: "authzGrant list" where
  "sample_grants =
     (case collectAuthzGrants sample_service (sample_ctx ''sess-1'') sample_account of
        Inl e \<Rightarrow> [] | Inr (grants, _) \<Rightarrow> grants)"

lemma sample_collects:
  obtains setIDs assumed boundary where
    "collectAuthzGrants sample_service (sample_ctx ''sess-1'') sample_account =
       Inr (sample_grants, setIDs, assumed, boundary)"
proof -
  have "isOk (collectAuthzGrants sample_service (sample_ctx ''sess-1'') sample_account)" by code_simp
  then obtain x where "collectAuthzGrants sample_service (sample_ctx ''sess-1'') sample_account = Inr x"
    by (rule isOkE)
  then show thesis by (cases x) (auto simp: sample_grants_def intro: that)
qed

lemma sample_grants_listed:
  "map (\<lambda>g. (g_Source g, g_SourceKind g, g_ExpiresAt g)) sample_grants =
    [(''direct:hr-read'', ''normal'', None), (''account:acc-1:hr-export'', ''normal'', Some 400),
     (''group:hr-team:hr-update'', ''normal'', Some 500), (''assumable_role:auditor:hr-read'', ''assumed'', None)]"
  by code_simp

end
