(* ===== verification/Grant_Properties.thy ===== *)
theory Grant_Properties
  imports Sample_Tenant
begin

text \<open>
  What the collection of grants guarantees, over every state of the in-memory repository that
  satisfies its invariant: a session in force is the caller's own, unrevoked and unexpired; a
  grant is a permission of the caller's tenant that has not expired; a simulated removal
  removes.  Each property is an instance of the client lemmas of the locale \<open>tenant_reads\<close>.
\<close>

text \<open>
  C4.  A named session never falls back to the base account: either the check fails, or the role
  in force comes from a session of the same tenant, with the id of the request, owned by the
  calling account, not revoked and not expired, and the role is the one the session names.
\<close>

theorem activeAssumableRole_owned_session:
  assumes "env_invar e" and "sv_store c = env_store e" and "ctx_AssumedRoleSessionID ctx \<noteq> []"
    and "activeAssumableRole c ctx account = Inr (role, session)"
  shows "\<exists>r x. role = Some r \<and> session = Some x \<and>
    GetAssumableRoleSession (me_store e) (ctx_TenantID ctx) (TrimSpace (ctx_AssumedRoleSessionID ctx)) = Some x \<and>
    GetAssumableRole (me_store e) (ctx_TenantID ctx) (ars_AssumableRoleID x) = Some r \<and>
    ars_TenantID x = ctx_TenantID ctx \<and> ars_AccountID x = acc_ID account \<and>
    ars_RevokedAt x = None \<and> sv_now c < ars_ExpiresAt x \<and> ar_TenantID r = ctx_TenantID ctx"
proof -
  from mem.activeAssumableRole_session [OF assms(1,2,4,3)] obtain r x where
    rx: "role = Some r" "session = Some x" "ars_TenantID x = ctx_TenantID ctx" "ars_AccountID x = acc_ID account"
      "ars_RevokedAt x = None" "sv_now c < ars_ExpiresAt x" "ar_TenantID r = ctx_TenantID ctx" by blast
  then have "GetAssumableRoleSession (me_store e) (ctx_TenantID ctx)
      (TrimSpace (ctx_AssumedRoleSessionID ctx)) = Some x"
    "GetAssumableRole (me_store e) (ctx_TenantID ctx) (ars_AssumableRoleID x) = Some r"
    using assms(2,3,4)
    by (auto simp: activeAssumableRole_def ownedActiveAssumableRoleSession_def Let_def env_store_def
        split: if_splits option.splits)
  with rx show ?thesis by blast
qed

theorem activeAssumableRole_owned_session_witness:
  "\<exists>x. GetAssumableRoleSession sample_store ''acme'' ''sess-1'' = Some x \<and>
     ars_AccountID x = ''acc-1'' \<and> 100 < ars_ExpiresAt x"
proof -
  have "isOk (activeAssumableRole sample_service (sample_ctx ''sess-1'') sample_account)" by code_simp
  then obtain found where
    "activeAssumableRole sample_service (sample_ctx ''sess-1'') sample_account = Inr found" by (rule isOkE)
  then obtain role session where
    run: "activeAssumableRole sample_service (sample_ctx ''sess-1'') sample_account = Inr (role, session)"
    by (cases found) auto
  have named: "ctx_AssumedRoleSessionID (sample_ctx ''sess-1'') \<noteq> []"
    and sid: "TrimSpace (ctx_AssumedRoleSessionID (sample_ctx ''sess-1'')) = ''sess-1''" by code_simp+
  from activeAssumableRole_owned_session [OF sample_env_invar sample_service_store named run]
  show ?thesis unfolding sid
    by (auto simp: sample_ctx_def sample_account_def sample_env_def sample_service_def)
qed

text \<open>
  C3.  Every collected grant is a permission of a permission set that exists in the caller's
  tenant; its data scope, when it has one, belongs to the same tenant; it has not expired at
  the time of the check; and it counts for the assumed side only when a role is in force.
\<close>

theorem collected_grants_entitled:
  assumes "env_invar e" and "sv_store c = env_store e"
    and "collectAuthzGrants c ctx account = Inr (grants, setIDs, assumed, boundary)"
    and "g \<in> set grants"
  shows "(\<exists>pset perm. GetPermissionSet (me_store e) (ctx_TenantID ctx) (g_PermissionSetID g) = Some pset \<and>
      ps_TenantID pset = ctx_TenantID ctx \<and> perm \<in> set (ps_Permissions pset) \<and>
      g_Permission g = normalizePermission perm) \<and>
    (\<forall>d. g_DataScope g = Some d \<longrightarrow> ds_TenantID d = ctx_TenantID ctx) \<and>
    (\<forall>x. g_ExpiresAt g = Some x \<longrightarrow> sv_now c < x) \<and>
    (g_SourceKind g = authzGrantSourceAssumed \<longrightarrow> assumed \<noteq> None)"
  using mem.collectAuthzGrantsWithOptions_ok [OF assms(1,2) assms(3) [unfolded collectAuthzGrants_def] assms(4)]
  by (auto simp: grant_ok_def mutated_permissions_def zero_authzGrantCollectionOptions_def assms(2) env_store_def)

theorem collected_grants_entitled_witness:
  "\<exists>pset. GetPermissionSet sample_store ''acme'' (g_PermissionSetID (sample_grants ! 1)) = Some pset \<and>
     ps_TenantID pset = ''acme''"
proof -
  obtain setIDs assumed boundary where
    run: "collectAuthzGrants sample_service (sample_ctx ''sess-1'') sample_account =
      Inr (sample_grants, setIDs, assumed, boundary)" by (rule sample_collects)
  have "length sample_grants = 4" using arg_cong [OF sample_grants_listed, of length] by simp
  then have "sample_grants ! 1 \<in> set sample_grants" by simp
  from collected_grants_entitled [OF sample_env_invar sample_service_store run this]
  show ?thesis by (auto simp: sample_ctx_def sample_env_def)
qed

text \<open>
  A simulated removal removes: with any overrides, no grant comes from a permission set the
  simulation takes away, whichever path (direct, assignment, group, role, or an addition in the
  same simulation) would have led to it.
\<close>

theorem simulated_removal_removes:
  assumes "env_invar e" and "sv_store c = env_store e"
    and "simulationOverridesToGrantOptions overrides = Inr opts"
    and "collectAuthzGrantsWithOptions c ctx account opts = Inr (grants, setIDs, assumed, boundary)"
    and "removed \<in> set (aso_RemovePermissionSets overrides)" and "TrimSpace removed \<noteq> []"
    and "g \<in> set grants"
  shows "g_PermissionSetID g \<noteq> TrimSpace removed"
proof -
  have "TrimSpace removed \<in> opt_removePermissionSetIDs opts"
    using assms(3,5,6) by (auto simp: simulationOverridesToGrantOptions_def stringsToSet_def)
  with mem.collectAuthzGrantsWithOptions_ok [OF assms(1,2,4,7)] show ?thesis
    by (auto simp: grant_ok_def)
qed

definition sample_overrides :: AuthzSimulationOverrides where
  "sample_overrides = zero_AuthzSimulationOverrides\<lparr> aso_AddPermissionSets := [''hr-update''],
     aso_RemovePermissionSets := ['' hr-update ''] \<rparr>"

theorem simulated_removal_removes_witness:
  "\<exists>grants setIDs assumed boundary.
     bindR (simulationOverridesToGrantOptions sample_overrides)
       (collectAuthzGrantsWithOptions sample_service (sample_ctx []) sample_account) =
       Inr (grants, setIDs, assumed, boundary) \<and>
     g_PermissionSetID (hd grants) \<noteq> ''hr-update''"
proof -
  have ok: "isOk (simulationOverridesToGrantOptions sample_overrides)" by code_simp
  then obtain opts where opts: "simulationOverridesToGrantOptions sample_overrides = Inr opts" by (rule isOkE)
  have two: "(case bindR (simulationOverridesToGrantOptions sample_overrides)
       (collectAuthzGrantsWithOptions sample_service (sample_ctx []) sample_account) of
     Inl _ \<Rightarrow> 0 | Inr x \<Rightarrow> length (fst x)) = 2" by code_simp
  then obtain grants setIDs assumed boundary where
    run: "collectAuthzGrantsWithOptions sample_service (sample_ctx []) sample_account opts =
      Inr (grants, setIDs, assumed, boundary)"
    by (cases "collectAuthzGrantsWithOptions sample_service (sample_ctx []) sample_account opts")
      (auto simp: opts)
  with two opts have len: "length grants = 2" by simp
  have named: "'' hr-update '' \<in> set (aso_RemovePermissionSets sample_overrides)"
    "TrimSpace '' hr-update '' \<noteq> []" by code_simp+
  have trim: "TrimSpace '' hr-update '' = ''hr-update''" by code_simp
  have "hd grants \<in> set grants" using len by (cases grants) auto
  from simulated_removal_removes [OF sample_env_invar sample_service_store opts run named this]
  show ?thesis using run opts trim by simp
qed

end
