(* ===== verification/Decision_Properties.thy ===== *)
theory Decision_Properties
  imports Authz_Decision Grant_Properties
begin

text \<open>
  The security properties of an authorization decision, for every list of grants, boundary,
  assumed role, relationship checker and repository: an explicit deny overrides, and an allow is
  always backed by grants that match, relations that hold and a boundary that permits.
\<close>

lemma combineSides_sides:
  "\<not> snd (snd (combineSides assumedRole st)) \<Longrightarrow> assumedRole \<noteq> None \<Longrightarrow>
     sd_matched (gs_normal st) \<and> sd_matched (gs_assumed st)"
  by (cases assumedRole) (simp_all add: combineSides_def Let_def split: if_splits)

text \<open>
  C1.  An explicit deny overrides every allow: when any matching grant denies, the decision is
  not allowed, says so, and names the missing permission, whatever the other grants, the
  boundary and the relationship checks say.
\<close>

theorem explicit_deny_overrides:
  assumes "evaluateAuthzDecision c ctx account req grants setIDs assumedRole boundary trace = Inr (r, t)"
    and "g \<in> set grants" and "explicitly_denies g (normalizeCheckRequest req) account"
  shows "\<not> res_Allowed r \<and> res_Reason r = ''explicit deny'' \<and>
    res_MissingPermissions r = [requestKey (normalizeCheckRequest req)]"
proof -
  let ?req = "normalizeCheckRequest req"
  from assms(1) [unfolded evaluateAuthzDecision_pure] obtain st st' chosen st'' policies where
    stages: "grant_loop c ctx account ?req boundary grants (start_state ?req trace) = Inr st"
      "implicitFallback c ctx account ?req boundary st = Inr st'"
      "runU (decisionScope (pureReads c ctx account ?req boundary) ?req assumedRole st') = Inr (chosen, st'')"
      "r = decide ?req assumedRole chosen st'' (baseResult ?req setIDs assumedRole boundary policies chosen st'')"
    by (rule pureDecision_stages)
  have "gs_deniedBy st \<noteq> []" by (rule grant_loop_denied [OF stages(1) assms(2,3)])
  with stages(2) have "gs_deniedBy st' \<noteq> []"
    by (cases rule: implicitFallback_cases) (auto simp: verdict_def)
  with decisionScope_verdict(1) [OF stages(3)] have "gs_deniedBy st'' \<noteq> []" by (simp add: verdict_def)
  then show ?thesis by (simp add: stages(4) decide_denied refuse_def)
qed

text \<open>
  C2.  An allowed decision is justified: no matching grant denies; the permission boundary permits
  the requested permission; some grant that matches the request, with its relation verified, or
  a verified implicit relation to the object, grants it; and under an assumed role both the base
  account and the role grant it, so that a role never adds to what the account may do.
\<close>

theorem allowed_decision_sound:
  assumes "evaluateAuthzDecision c ctx account req grants setIDs assumedRole boundary trace = Inr (r, t)"
    and "res_Allowed r"
  defines "nreq \<equiv> normalizeCheckRequest req"
  defines "base \<equiv> side_accepted c ctx account nreq boundary grants False \<or> implicitly_related c ctx account nreq"
    and "role \<equiv> side_accepted c ctx account nreq boundary grants True"
  shows "list_all (\<lambda>g. \<not> explicitly_denies g nreq account) grants \<and>
    policy_permits boundary (requestKey nreq) \<and>
    (if assumedRole = None then base \<or> role else base \<and> role)"
proof -
  from assms(1) [unfolded evaluateAuthzDecision_pure] obtain st st' chosen st'' policies where
    stages: "grant_loop c ctx account nreq boundary grants (start_state nreq trace) = Inr st"
      "implicitFallback c ctx account nreq boundary st = Inr st'"
      "runU (decisionScope (pureReads c ctx account nreq boundary) nreq assumedRole st') = Inr (chosen, st'')"
      "r = decide nreq assumedRole chosen st'' (baseResult nreq setIDs assumedRole boundary policies chosen st'')"
    unfolding nreq_def by (rule pureDecision_stages)
  have v: "verdict st'' = verdict st'" by (rule decisionScope_verdict(1) [OF stages(3)])
  from decide_allowed [OF assms(2) [unfolded stages(4)]]
  have fin: "gs_deniedBy st' = []" "gs_matched st' \<noteq> []" "\<not> snd (snd chosen)"
    using v by (simp_all add: verdict_def)
  note inv = grant_loop_inv [OF stages(1)]
  have st': "gs_deniedBy st = []" "sd_matched (gs_normal st') \<longrightarrow> base" "sd_matched (gs_assumed st') \<longrightarrow> role"
    "sd_matched (gs_normal st') \<or> sd_matched (gs_assumed st')" "policy_permits boundary (requestKey nreq)"
    using stages(2) fin inv
    by (cases rule: implicitFallback_cases;
        auto simp: verdict_def loop_inv_def base_def role_def side_accepted_def accepted_def)+
  have "list_all (\<lambda>g. \<not> explicitly_denies g nreq account) grants"
    using grant_loop_denied [OF stages(1)] st'(1) by (auto simp: list_all_iff)
  moreover have "sd_matched (gs_normal st') \<and> sd_matched (gs_assumed st')" if "assumedRole \<noteq> None"
    using combineSides_sides [OF _ that] decisionScope_verdict(2) [OF stages(3)] fin(3) by blast
  ultimately show ?thesis using st' by auto
qed

definition grant_row :: "string \<Rightarrow> string \<Rightarrow> string \<Rightarrow> authzGrant" where
  "grant_row kind effect action = \<lparr> g_Permission = sample_perm action, g_PermissionSetID = ''ps'', g_Source = ''direct:ps'',
     g_SourceKind = kind, g_Effect = effect, g_DataScope = None, g_ExpiresAt = None \<rparr>"

definition frozen_grants :: "authzGrant list" where
  "frozen_grants = [grant_row ''normal'' ''allow'' ''read'', grant_row ''normal'' ''deny'' ''*'']"

theorem explicit_deny_overrides_witness:
  "\<exists>r t. evaluateAuthzDecision sample_service (sample_ctx []) sample_account (sample_request ''read'')
      frozen_grants [] None [] None = Inr (r, t) \<and> \<not> res_Allowed r"
proof -
  let ?run = "evaluateAuthzDecision sample_service (sample_ctx []) sample_account (sample_request ''read'')
    frozen_grants [] None [] None"
  have "isOk ?run" by code_simp
  then obtain x where run: "?run = Inr x" by (rule isOkE)
  obtain r t where x: "x = (r, t)" by fastforce
  have "explicitly_denies (grant_row ''normal'' ''deny'' ''*'') (normalizeCheckRequest (sample_request ''read''))
      sample_account" by code_simp
  moreover have "grant_row ''normal'' ''deny'' ''*'' \<in> set frozen_grants" by (simp add: frozen_grants_def)
  ultimately have "\<not> res_Allowed r" using explicit_deny_overrides [OF run [unfolded x]] by blast
  with run x show ?thesis by blast
qed

definition auditor :: "AssumedRoleDecision option" where
  "auditor = Some \<lparr> ard_SessionID = ''sess-1'', ard_RoleID = ''auditor'', ard_Name = ''Auditor'' \<rparr>"

definition both_grants :: "authzGrant list" where
  "both_grants = [grant_row ''normal'' ''allow'' ''read'', grant_row ''assumed'' ''allow'' ''*'']"

theorem allowed_decision_sound_witness:
  "\<exists>r t. evaluateAuthzDecision sample_service (sample_ctx ''sess-1'') sample_account (sample_request ''read'')
      both_grants [] auditor (ar_PermissionBoundary sample_role) None = Inr (r, t) \<and> res_Allowed r \<and>
    side_accepted sample_service (sample_ctx ''sess-1'') sample_account
      (normalizeCheckRequest (sample_request ''read'')) (ar_PermissionBoundary sample_role) both_grants True"
proof -
  let ?run = "evaluateAuthzDecision sample_service (sample_ctx ''sess-1'') sample_account (sample_request ''read'')
    both_grants [] auditor (ar_PermissionBoundary sample_role) None"
  have "(case ?run of Inl e \<Rightarrow> False | Inr x \<Rightarrow> res_Allowed (fst x))" by code_simp
  then obtain r t where run: "?run = Inr (r, t)" and allowed: "res_Allowed r"
    by (cases ?run) auto
  from allowed_decision_sound [OF run allowed] have
    "side_accepted sample_service (sample_ctx ''sess-1'') sample_account
      (normalizeCheckRequest (sample_request ''read'')) (ar_PermissionBoundary sample_role) both_grants True"
    by (simp add: auditor_def)
  with run allowed show ?thesis by blast
qed

end
