(* ===== verification/Pagination.thy ===== *)
theory Pagination
  imports Domain_Errors
begin

text \<open>
  Paged lists: how a page is read from the query of a request
  (\<open>src/internal/api/v1/request.go\<close>), the limits of
  \<open>src/internal/utils/pagination.go\<close>, and the slices of the in-memory store
  (\<open>paginateMemory\<close>).  Go's \<open>int\<close> has 64 bits: the product of page and page size
  wraps around (\<open>wrap64\<close>), and a slice expression outside its bounds panics, which is
  \<open>None\<close> here.  The lemmas show that the pages of a list put together are the list, that
  a number printed and parsed comes back, and where the wrap-around reaches a panic.
\<close>

section \<open>Machine integers\<close>

definition wrap64 :: "int \<Rightarrow> int" where
  "wrap64 i = (i + 2 ^ 63) mod 2 ^ 64 - 2 ^ 63"

lemma wrap64_id: "- (2 ^ 63) \<le> i \<Longrightarrow> i < 2 ^ 63 \<Longrightarrow> wrap64 i = i"
  by (simp add: wrap64_def)

lemma wrap64_bounds: "- (2 ^ 63) \<le> wrap64 i" "wrap64 i < 2 ^ 63"
  using pos_mod_bound [of "2 ^ 64" "i + 2 ^ 63"] pos_mod_sign [of "2 ^ 64" "i + 2 ^ 63"]
  by (simp_all add: wrap64_def)

section \<open>Decimal numbers\<close>

text \<open>\<open>strconv.Atoi\<close>: an optional sign, decimal digits, a value of 64 bits.\<close>

definition is_digit :: "char \<Rightarrow> bool" where
  "is_digit c \<longleftrightarrow> 48 \<le> (of_char c :: nat) \<and> (of_char c :: nat) \<le> 57"

definition digits_value :: "string \<Rightarrow> nat" where
  "digits_value s = foldl (\<lambda>n c. 10 * n + (of_char c - 48)) 0 s"

definition in_int64 :: "int \<Rightarrow> bool" where
  "in_int64 i \<longleftrightarrow> - (2 ^ 63) \<le> i \<and> i < 2 ^ 63"

definition Atoi :: "string \<Rightarrow> int option" where
  "Atoi s =
     (let neg = (s \<noteq> [] \<and> hd s = CHR ''-'');
          ds = (if s \<noteq> [] \<and> (hd s = CHR ''-'' \<or> hd s = CHR ''+'') then tl s else s);
          v = (if neg then - int (digits_value ds) else int (digits_value ds))
      in if ds = [] \<or> \<not> list_all is_digit ds then None
         else if in_int64 v then Some v else None)"

lemma nat_string_not_Nil [simp]: "nat_string n \<noteq> []"
  by (subst nat_string.simps) simp

lemma nat_string_digits: "list_all is_digit (nat_string n)"
proof (induction n rule: nat_string.induct)
  case (1 n)
  have "is_digit (char_of (48 + n))" if "n < 10" using that by (simp add: is_digit_def)
  moreover have "is_digit (char_of (48 + n mod 10))" by (simp add: is_digit_def)
  ultimately show ?case using 1 by (subst nat_string.simps) simp
qed

lemma digits_value_nat_string [simp]: "digits_value (nat_string n) = n"
proof (induction n rule: nat_string.induct)
  case (1 n)
  show ?case
  proof (cases "n < 10")
    case True
    then show ?thesis by (subst nat_string.simps) (simp add: digits_value_def)
  next
    case False
    then have "digits_value (nat_string n) = 10 * digits_value (nat_string (n div 10)) + n mod 10"
      by (subst nat_string.simps) (simp add: digits_value_def)
    then show ?thesis using 1 False by simp
  qed
qed

lemma nat_string_no_sign: "hd (nat_string n) \<noteq> CHR ''-''" "hd (nat_string n) \<noteq> CHR ''+''"
  using nat_string_digits [of n] nat_string_not_Nil [of n] by (cases "nat_string n"; auto simp: is_digit_def)+

lemma Atoi_int_string: "in_int64 i \<Longrightarrow> Atoi (int_string i) = Some i"
  using nat_string_digits nat_string_no_sign
  by (auto simp: Atoi_def int_string_def Let_def)

lemma digit_not_space: "is_digit c \<Longrightarrow> \<not> ascii_space c \<and> (\<forall>b. \<not> space2 c b) \<and> (\<forall>b d. \<not> space3 c b d)"
  by (auto simp: is_digit_def ascii_space_def space2_def space3_def)

lemma digit_not_space_end: "is_digit c \<Longrightarrow> \<not> ascii_space c \<and> (\<forall>b. \<not> space2 b c) \<and> (\<forall>b d. \<not> space3 d b c)"
  by (auto simp: is_digit_def ascii_space_def space2_def space3_def)

lemma TrimSpace_nat_string [simp]: "TrimSpace (nat_string n) = nat_string n"
proof -
  have d: "list_all is_digit (nat_string n)" by (rule nat_string_digits)
  have 1: "trim_front space2 space3 s = s" if "list_all is_digit s" for s
    unfolding trim_front_fixed_iff using that digit_not_space by (auto split: list.splits)
  have 2: "trim_front (\<lambda>b a. space2 a b) (\<lambda>c b a. space3 a b c) s = s" if "list_all is_digit s" for s
    unfolding trim_front_fixed_iff using that digit_not_space_end by (auto split: list.splits)
  from d show ?thesis
    by (simp add: TrimSpace_def trim_left_def trim_right_def 1 2 list_all_rev)
qed

section \<open>The page of a request\<close>

abbreviation (input) DefaultPage :: int where "DefaultPage \<equiv> 1"
abbreviation (input) DefaultPageSize :: int where "DefaultPageSize \<equiv> 20"
abbreviation (input) MaxPageSize :: int where "MaxPageSize \<equiv> 100"

record PageRequest =
  pr_Page :: int
  pr_PageSize :: int
  pr_Sort :: string

record 'a page_response =
  ps_Items :: "'a list"
  ps_Total :: int
  ps_Page :: int
  ps_PageSize :: int
  ps_Sort :: string

definition positiveIntQuery :: "string \<Rightarrow> string \<Rightarrow> int \<Rightarrow> int res" where
  "positiveIntQuery raw name limit =
     (let raw = TrimSpace raw in
      if raw = [] then Inr 0
      else case Atoi raw of
        None \<Rightarrow> Inl (AppErr (BadRequestCode ErrorCodeInvalidQueryInteger (name @ '' must be an integer'')))
      | Some value \<Rightarrow>
          if value \<le> 0
          then Inl (AppErr (BadRequestCode ErrorCodeQueryBelowMinimum (name @ '' must be greater than zero'')))
          else if limit > 0 \<and> value > limit
          then Inl (AppErr (BadRequestCode ErrorCodeQueryAboveMaximum
                 (name @ '' must be less than or equal to '' @ int_string limit)))
          else Inr value)"

definition pageRequestFromRequest :: "(string \<Rightarrow> string) \<Rightarrow> PageRequest res" where
  "pageRequestFromRequest values =
     bindR (positiveIntQuery (values ''page'') ''page'' 0) (\<lambda>page.
     bindR (positiveIntQuery (values ''page_size'') ''page_size'' MaxPageSize) (\<lambda>pageSize.
       Inr \<lparr>pr_Page = page, pr_PageSize = pageSize, pr_Sort = TrimSpace (values ''sort'')\<rparr>))"

definition NormalizePageRequest :: "PageRequest \<Rightarrow> PageRequest" where
  "NormalizePageRequest req =
     (let req = (if pr_Page req \<le> 0 then req\<lparr>pr_Page := DefaultPage\<rparr> else req);
          req = (if pr_PageSize req \<le> 0 then req\<lparr>pr_PageSize := DefaultPageSize\<rparr> else req);
          req = (if pr_PageSize req > MaxPageSize then req\<lparr>pr_PageSize := MaxPageSize\<rparr> else req)
      in if pr_Sort req = [] then req\<lparr>pr_Sort := ''created_at_desc''\<rparr> else req)"

text \<open>\<open>items[start:end]\<close>: out of bounds is a panic.\<close>

definition slice :: "'a list \<Rightarrow> int \<Rightarrow> int \<Rightarrow> 'a list option" where
  "slice xs a b =
     (if 0 \<le> a \<and> a \<le> b \<and> b \<le> int (length xs) then Some (take (nat (b - a)) (drop (nat a) xs)) else None)"

definition PageResponse :: "'a list \<Rightarrow> PageRequest \<Rightarrow> 'a page_response option" where
  "PageResponse items req =
     (let req = NormalizePageRequest req;
          total = int (length items);
          start = wrap64 (wrap64 (pr_Page req - 1) * pr_PageSize req);
          start = (if start > total then total else start);
          stop = wrap64 (start + pr_PageSize req);
          stop = (if stop > total then total else stop)
      in case slice items start stop of
           None \<Rightarrow> None
         | Some pageItems \<Rightarrow> Some \<lparr>ps_Items = pageItems, ps_Total = total, ps_Page = pr_Page req,
                                ps_PageSize = pr_PageSize req, ps_Sort = pr_Sort req\<rparr>)"

definition PageResponseFromStore :: "'a list \<Rightarrow> int \<Rightarrow> PageRequest \<Rightarrow> 'a page_response" where
  "PageResponseFromStore items count req =
     (let req = NormalizePageRequest req in
      \<lparr>ps_Items = items, ps_Total = count, ps_Page = pr_Page req, ps_PageSize = pr_PageSize req,
       ps_Sort = pr_Sort req\<rparr>)"

definition paginateMemory :: "'a list \<Rightarrow> int \<Rightarrow> int \<Rightarrow> 'a list option" where
  "paginateMemory items page pageSize =
     (let start = wrap64 (wrap64 (page - 1) * pageSize) in
      if start \<ge> int (length items) then Some []
      else let stop = wrap64 (start + pageSize);
               stop = (if stop > int (length items) then int (length items) else stop)
           in slice items start stop)"

section \<open>Pages of a list\<close>

lemma normalized_page:
  "1 \<le> pr_Page (NormalizePageRequest req)" "1 \<le> pr_PageSize (NormalizePageRequest req)"
  "pr_PageSize (NormalizePageRequest req) \<le> MaxPageSize" "pr_Sort (NormalizePageRequest req) \<noteq> []"
  by (auto simp: NormalizePageRequest_def Let_def)

lemma NormalizePageRequest_idem [simp]:
  "NormalizePageRequest (NormalizePageRequest req) = NormalizePageRequest req"
  using normalized_page [of req] by (simp add: NormalizePageRequest_def [of "NormalizePageRequest req"])

text \<open>The place of a page, away from the wrap-around.\<close>

definition page_in_range :: "int \<Rightarrow> int \<Rightarrow> bool" where
  "page_in_range page sz \<longleftrightarrow> 1 \<le> page \<and> 1 \<le> sz \<and> page * sz < 2 ^ 63"

definition page_of :: "int \<Rightarrow> int \<Rightarrow> 'a list \<Rightarrow> 'a list" where
  "page_of page sz xs = take (nat sz) (drop (nat ((page - 1) * sz)) xs)"

lemma page_start:
  assumes "page_in_range page sz"
  shows "wrap64 (wrap64 (page - 1) * sz) = (page - 1) * sz" "0 \<le> (page - 1) * sz"
    "(page - 1) * sz + sz < 2 ^ 63"
proof -
  from assms have *: "1 \<le> page" "1 \<le> sz" "page * sz < 2 ^ 63" by (auto simp: page_in_range_def)
  have eq: "(page - 1) * sz + sz = page * sz" by (simp add: algebra_simps)
  show nn: "0 \<le> (page - 1) * sz" using * by simp
  show lt: "(page - 1) * sz + sz < 2 ^ 63" using * eq by simp
  have "page \<le> page * sz" using * mult_left_mono [of 1 sz page] by simp
  then have p: "wrap64 (page - 1) = page - 1" using * by (intro wrap64_id) linarith+
  show "wrap64 (wrap64 (page - 1) * sz) = (page - 1) * sz"
    unfolding p using nn lt * by (intro wrap64_id) linarith+
qed

lemma slice_page:
  assumes "0 \<le> a" "a \<le> int (length xs)" "0 \<le> n"
  shows "slice xs a (if a + n > int (length xs) then int (length xs) else a + n) =
    Some (take (nat n) (drop (nat a) xs))"
proof (cases "a + n > int (length xs)")
  case True
  then have "nat n \<ge> length (drop (nat a) xs)" using assms by simp
  moreover have "nat (int (length xs) - a) = length (drop (nat a) xs)" using assms by simp
  ultimately show ?thesis using True assms by (simp add: slice_def)
next
  case False
  then show ?thesis using assms by (simp add: slice_def)
qed

lemma paginateMemory_page:
  assumes "page_in_range page sz"
  shows "paginateMemory xs page sz = Some (page_of page sz xs)"
proof -
  note start = page_start [OF assms]
  from assms have "1 \<le> sz" by (simp add: page_in_range_def)
  show ?thesis
  proof (cases "(page - 1) * sz \<ge> int (length xs)")
    case True
    then have "drop (nat ((page - 1) * sz)) xs = []" by (simp add: nat_le_iff)
    then show ?thesis using True by (simp add: paginateMemory_def Let_def start page_of_def)
  next
    case False
    have "wrap64 ((page - 1) * sz + sz) = (page - 1) * sz + sz"
      using start \<open>1 \<le> sz\<close> by (intro wrap64_id) linarith+
    then show ?thesis
      using False start \<open>1 \<le> sz\<close> slice_page [of "(page - 1) * sz" xs sz]
      by (simp add: paginateMemory_def Let_def page_of_def)
  qed
qed

lemma PageResponse_page:
  assumes "page_in_range (pr_Page (NormalizePageRequest req)) (pr_PageSize (NormalizePageRequest req))"
    and "length xs < 2 ^ 62"
  shows "PageResponse xs req = Some (PageResponseFromStore
    (page_of (pr_Page (NormalizePageRequest req)) (pr_PageSize (NormalizePageRequest req)) xs)
    (int (length xs)) req)"
proof -
  let ?p = "pr_Page (NormalizePageRequest req)" and ?n = "pr_PageSize (NormalizePageRequest req)"
  note start = page_start [OF assms(1)]
  from assms(1) have n: "1 \<le> ?n" by (simp add: page_in_range_def)
  have max: "?n \<le> 100" by (rule normalized_page)
  define a where "a = (if (?p - 1) * ?n > int (length xs) then int (length xs) else (?p - 1) * ?n)"
  have a: "0 \<le> a" "a \<le> int (length xs)" using start by (auto simp: a_def)
  have "int (length xs) < 2 ^ 62" using assms(2) by (metis of_nat_less_iff of_nat_numeral of_nat_power)
  then have w: "wrap64 (a + ?n) = a + ?n" using a n max by (intro wrap64_id) simp_all
  have tk: "take (nat ?n) (drop (nat a) xs) = page_of ?p ?n xs"
    by (auto simp: page_of_def a_def nat_le_iff)
  have "slice xs a (if a + ?n > int (length xs) then int (length xs) else a + ?n) = Some (page_of ?p ?n xs)"
    using slice_page [OF a, of ?n] n by (simp add: tk)
  then show ?thesis
    unfolding PageResponse_def PageResponseFromStore_def Let_def start(1) a_def [symmetric] w by simp
qed

text \<open>The pages of a list, one after the other, are the list.\<close>

lemma concat_chunks: "concat (map (\<lambda>i. take n (drop (i * n) xs)) [0..<k]) = take (k * n) xs"
proof (induction k)
  case (Suc k)
  have "take (k * n) xs @ take n (drop (k * n) xs) = take (k * n + n) xs" by (simp add: take_add)
  with Suc show ?case by (simp add: add.commute)
qed simp

lemma chunk_count:
  assumes "1 \<le> (sz :: int)"
  shows "length xs \<le> nat ((int (length xs) + sz - 1) div sz) * nat sz"
proof -
  let ?k = "(int (length xs) + sz - 1) div sz"
  have "int (length xs) + sz - 1 = ?k * sz + (int (length xs) + sz - 1) mod sz" by simp
  moreover have "(int (length xs) + sz - 1) mod sz < sz" using assms by simp
  ultimately have le: "int (length xs) \<le> ?k * sz" by linarith
  have k: "0 \<le> ?k" using assms by (intro pos_imp_zdiv_nonneg_iff [THEN iffD2]) auto
  have "int (nat ?k * nat sz) = ?k * sz" using assms k by simp
  with le show ?thesis by linarith
qed

text \<open>
  C14.  For any list and any page size a request can ask for, the pages of the in-memory store
  from the first to the last never panic, hold at most the page size each, and put together
  are the list: no row is lost and none is shown twice.
\<close>

theorem paginateMemory_partition:
  assumes "1 \<le> sz" and "sz \<le> MaxPageSize" and "length xs < 2 ^ 62"
  shows "\<exists>pages. map (\<lambda>p. paginateMemory xs p sz) [1..(int (length xs) + sz - 1) div sz] = map Some pages \<and>
    concat pages = xs \<and> list_all (\<lambda>pg. int (length pg) \<le> sz) pages"
proof (intro exI conjI)
  let ?k = "(int (length xs) + sz - 1) div sz"
  let ?pages = "map (\<lambda>p. page_of p sz xs) [1..?k]"
  have "?k * sz \<le> int (length xs) + sz - 1" using assms(1)
    by (metis minus_mod_eq_div_mult pos_mod_sign zle_diff1_eq diff_le_eq le_add_same_cancel1 less_le_trans zero_less_one)
  moreover have "int (length xs) < 2 ^ 62" using assms(3) by (metis of_nat_less_iff of_nat_numeral of_nat_power)
  ultimately have top: "?k * sz < 2 ^ 63" using assms(2) by simp
  have "page_in_range p sz" if "1 \<le> p" "p \<le> ?k" for p
  proof -
    have "p * sz \<le> ?k * sz" using that assms(1) by (intro mult_right_mono) auto
    then have "p * sz < 2 ^ 63" using top by (rule order.strict_trans1)
    then show ?thesis using that assms(1) by (simp add: page_in_range_def)
  qed
  then show "map (\<lambda>p. paginateMemory xs p sz) [1..?k] = map Some ?pages"
    by (simp add: paginateMemory_page)
  have "[1..?k] = map (\<lambda>i. int i + 1) [0..<nat ?k]"
    by (intro nth_equalityI) (auto simp: nth_upto)
  then have "?pages = map (\<lambda>i. take (nat sz) (drop (i * nat sz) xs)) [0..<nat ?k]"
    using assms(1) by (simp add: page_of_def nat_mult_distrib)
  then show "concat ?pages = xs"
    using chunk_count [OF assms(1), of xs] by (simp add: concat_chunks)
  show "list_all (\<lambda>pg. int (length pg) \<le> sz) ?pages"
    using assms(1) by (auto simp: list_all_iff page_of_def)
qed

theorem paginateMemory_partition_witness:
  "\<exists>pages. map (\<lambda>p. paginateMemory [11, 12, 13, 14, 15 :: int] p 2)
      [1..(int (length [11, 12, 13, 14, 15 :: int]) + 2 - 1) div 2] = map Some pages \<and>
    concat pages = [11, 12, 13, 14, 15] \<and> list_all (\<lambda>pg. int (length pg) \<le> 2) pages"
  by (rule paginateMemory_partition) simp_all

section \<open>Pages from the query string\<close>

definition page_query :: "string \<Rightarrow> string \<Rightarrow> string \<Rightarrow> string \<Rightarrow> string" where
  "page_query page page_size sort_by key =
     (if key = ''page'' then page else if key = ''page_size'' then page_size
      else if key = ''sort'' then sort_by else [])"

lemma positiveIntQuery_int_string:
  assumes "1 \<le> i" "i < 2 ^ 63" "limit > 0 \<longrightarrow> i \<le> limit"
  shows "positiveIntQuery (int_string i) name limit = Inr i"
proof -
  have "TrimSpace (int_string i) = int_string i" "int_string i \<noteq> []"
    using assms(1) by (simp_all add: int_string_def)
  moreover have "Atoi (int_string i) = Some i"
    using assms by (intro Atoi_int_string) (simp add: in_int64_def)
  ultimately show ?thesis using assms by (auto simp: positiveIntQuery_def Let_def)
qed

text \<open>
  A page number and a page size written in decimal into the query string are read back
  unchanged, for every page of 64 bits and every size up to the maximum.
\<close>

theorem page_query_roundtrip:
  assumes "1 \<le> p" "p < 2 ^ 63" "1 \<le> n" "n \<le> MaxPageSize"
  shows "pageRequestFromRequest (page_query (int_string p) (int_string n) by) =
    Inr \<lparr>pr_Page = p, pr_PageSize = n, pr_Sort = TrimSpace by\<rparr>"
proof -
  have "positiveIntQuery (int_string p) ''page'' 0 = Inr p"
    using assms by (intro positiveIntQuery_int_string) auto
  moreover have "positiveIntQuery (int_string n) ''page_size'' MaxPageSize = Inr n"
    using assms by (intro positiveIntQuery_int_string) auto
  ultimately show ?thesis by (simp add: pageRequestFromRequest_def page_query_def)
qed

theorem page_query_roundtrip_witness:
  "pageRequestFromRequest (page_query (int_string 7) (int_string 50) ''created_at_asc'') =
    Inr \<lparr>pr_Page = 7, pr_PageSize = 50, pr_Sort = TrimSpace ''created_at_asc''\<rparr>"
  by (rule page_query_roundtrip) simp_all

text \<open>
  The page number of the query has no upper bound: for the largest one the offset wraps
  around to a negative number, the bounds test lets it pass, and slicing panics, for every list
  and in both the response helper and the in-memory store.
\<close>

theorem largest_page_panics:
  "pageRequestFromRequest (page_query ''9223372036854775807'' [] []) =
     Inr \<lparr>pr_Page = 9223372036854775807, pr_PageSize = 0, pr_Sort = []\<rparr> \<and>
   PageResponse xs \<lparr>pr_Page = 9223372036854775807, pr_PageSize = 0, pr_Sort = []\<rparr> = None \<and>
   paginateMemory xs 9223372036854775807 DefaultPageSize = None"
proof -
  have "int_string 9223372036854775807 = ''9223372036854775807''"
    by (simp add: int_string_def nat_string.simps char_of_def bit_0)
  then have "positiveIntQuery ''9223372036854775807'' ''page'' 0 = Inr 9223372036854775807"
    using positiveIntQuery_int_string [of 9223372036854775807 0] by simp
  then have "pageRequestFromRequest (page_query ''9223372036854775807'' [] []) =
     Inr \<lparr>pr_Page = 9223372036854775807, pr_PageSize = 0, pr_Sort = []\<rparr>"
    by (simp add: pageRequestFromRequest_def page_query_def positiveIntQuery_def)
  moreover have "wrap64 (wrap64 (9223372036854775807 - 1) * 20) = - 40" "wrap64 (- 40 + 20) = - 20"
    by (simp_all add: wrap64_def)
  ultimately show ?thesis
    by (simp add: PageResponse_def NormalizePageRequest_def paginateMemory_def slice_def Let_def)
qed

end
