(* ===== verification/Outbox_Store.thy ===== *)
theory Outbox_Store
  imports Pagination
begin

text \<open>
  The transactional outbox of a tenant, as \<open>src/internal/repository/memory/store.go\<close>
  keeps it in \<open>s.outboxEvents\<close>: appending with idempotency keys, listing and paging,
  leasing due events to a worker (\<open>ClaimOutboxEvents\<close>), the fenced write-back of a
  result (\<open>FinalizeOutboxEvent\<close>), the operator's retry, and the removal of old
  successes.  The store mutex makes every operation one step.  \<open>now\<close> is the reading of
  the clock the operation makes.  The order in which claims are taken is a linear order of its
  own type, \<open>claim_rank\<close>.  The locale \<open>claim_queue\<close> is the contract the dispatcher
  relies on; it is interpreted on the operations below.
\<close>

section \<open>Event states\<close>

definition OutboxStatusPending :: string where "OutboxStatusPending = ''pending''"
definition OutboxStatusProcessing :: string where "OutboxStatusProcessing = ''processing''"
definition OutboxStatusSucceeded :: string where "OutboxStatusSucceeded = ''succeeded''"
definition OutboxStatusFailed :: string where "OutboxStatusFailed = ''failed''"
definition OutboxStatusParked :: string where "OutboxStatusParked = ''parked''"
definition OutboxStatusDeadLettered :: string where "OutboxStatusDeadLettered = ''dead_lettered''"

abbreviation (input) DefaultOutboxMaxAttempts :: int where "DefaultOutboxMaxAttempts \<equiv> 5"

lemmas outbox_status_defs =
  OutboxStatusPending_def OutboxStatusProcessing_def OutboxStatusSucceeded_def
  OutboxStatusFailed_def OutboxStatusParked_def OutboxStatusDeadLettered_def

lemma outbox_status_distinct [simp]:
  "distinct [OutboxStatusPending, OutboxStatusProcessing, OutboxStatusSucceeded,
     OutboxStatusFailed, OutboxStatusParked, OutboxStatusDeadLettered]"
  by (simp add: outbox_status_defs)

lemma outbox_status_neq [simp]:
  "OutboxStatusPending \<noteq> OutboxStatusProcessing" "OutboxStatusProcessing \<noteq> OutboxStatusPending"
  "OutboxStatusSucceeded \<noteq> OutboxStatusProcessing" "OutboxStatusProcessing \<noteq> OutboxStatusSucceeded"
  "OutboxStatusFailed \<noteq> OutboxStatusProcessing" "OutboxStatusProcessing \<noteq> OutboxStatusFailed"
  "OutboxStatusParked \<noteq> OutboxStatusProcessing" "OutboxStatusProcessing \<noteq> OutboxStatusParked"
  "OutboxStatusDeadLettered \<noteq> OutboxStatusProcessing" "OutboxStatusProcessing \<noteq> OutboxStatusDeadLettered"
  "OutboxStatusSucceeded \<noteq> OutboxStatusPending" "OutboxStatusPending \<noteq> OutboxStatusSucceeded"
  "OutboxStatusSucceeded \<noteq> OutboxStatusFailed" "OutboxStatusFailed \<noteq> OutboxStatusSucceeded"
  "OutboxStatusSucceeded \<noteq> OutboxStatusParked" "OutboxStatusParked \<noteq> OutboxStatusSucceeded"
  "OutboxStatusSucceeded \<noteq> OutboxStatusDeadLettered" "OutboxStatusDeadLettered \<noteq> OutboxStatusSucceeded"
  "OutboxStatusPending \<noteq> []" "OutboxStatusProcessing \<noteq> []" "OutboxStatusSucceeded \<noteq> []"
  by (simp_all add: outbox_status_defs)

section \<open>Appending and reading\<close>

type_synonym outbox = "(string, OutboxEvent list) gomap"

definition events_of :: "outbox \<Rightarrow> string \<Rightarrow> OutboxEvent list" where
  "events_of s tenantID = (case map_of s tenantID of Some es \<Rightarrow> es | None \<Rightarrow> [])"

lemma events_of_put [simp]: "events_of (map_put t es s) t' = (if t' = t then es else events_of s t')"
  by (simp add: events_of_def)

lemma events_of_Nil [simp]: "events_of [] t = []"
  by (simp add: events_of_def)

definition normalizeMemoryOutboxEvent :: "int \<Rightarrow> OutboxEvent \<Rightarrow> OutboxEvent" where
  "normalizeMemoryOutboxEvent now v =
     (let v = (if obx_PayloadVersion v \<le> 0 then v\<lparr>obx_PayloadVersion := 1\<rparr> else v);
          v = (if obx_Status v = [] then v\<lparr>obx_Status := OutboxStatusPending\<rparr> else v);
          v = (if obx_CreatedAt v = 0 then v\<lparr>obx_CreatedAt := now\<rparr> else v);
          v = (if obx_NextAttemptAt v = 0 then v\<lparr>obx_NextAttemptAt := obx_CreatedAt v\<rparr> else v);
          v = (if obx_UpdatedAt v = 0 then v\<lparr>obx_UpdatedAt := obx_CreatedAt v\<rparr> else v);
          v = (if obx_AttemptCount v = 0 \<and> obx_RetryCount v > 0
               then v\<lparr>obx_AttemptCount := obx_RetryCount v\<rparr> else v)
      in case obx_MaxAttempts v of
           None \<Rightarrow> v\<lparr>obx_MaxAttempts := Some DefaultOutboxMaxAttempts\<rparr>
         | Some _ \<Rightarrow> v)"

definition AppendOutboxEvent :: "int \<Rightarrow> outbox \<Rightarrow> OutboxEvent \<Rightarrow> outbox" where
  "AppendOutboxEvent now s v =
     (let v = normalizeMemoryOutboxEvent now v; es = events_of s (obx_TenantID v) in
      if obx_IdempotencyKey v \<noteq> [] \<and>
         list_ex (\<lambda>existing. obx_EventType existing = obx_EventType v \<and>
           obx_IdempotencyKey existing = obx_IdempotencyKey v) es
      then s else map_put (obx_TenantID v) (es @ [v]) s)"

definition ListOutboxEvents :: "outbox \<Rightarrow> string \<Rightarrow> OutboxEvent list" where
  "ListOutboxEvents s tenantID = sort_less (\<lambda>a b. obx_CreatedAt a < obx_CreatedAt b) (events_of s tenantID)"

definition GetOutboxEventByID :: "outbox \<Rightarrow> string \<Rightarrow> string \<Rightarrow> OutboxEvent option" where
  "GetOutboxEventByID s tenantID ident = find (\<lambda>v. obx_ID v = ident) (events_of s tenantID)"

record OutboxEventQuery =
  obq_Status :: string
  obq_EventType :: string
  obq_LastError :: string
  obq_HasError :: "bool option"
  obq_RetryCount :: "int option"

definition strings_Contains :: "string \<Rightarrow> string \<Rightarrow> bool" where
  "strings_Contains s sub \<longleftrightarrow> list_ex (prefix sub) (suffixes s)"

definition outboxEventMatchesQuery :: "OutboxEvent \<Rightarrow> OutboxEventQuery \<Rightarrow> bool" where
  "outboxEventMatchesQuery v query =
     (if TrimSpace (obq_Status query) \<noteq> [] \<and> obx_Status v \<noteq> TrimSpace (obq_Status query) then False
      else if TrimSpace (obq_EventType query) \<noteq> [] \<and> obx_EventType v \<noteq> TrimSpace (obq_EventType query) then False
      else if TrimSpace (obq_LastError query) \<noteq> [] \<and>
              \<not> strings_Contains (ToLower (obx_LastError v)) (ToLower (TrimSpace (obq_LastError query))) then False
      else if (case obq_RetryCount query of None \<Rightarrow> False | Some n \<Rightarrow> obx_RetryCount v \<noteq> n) then False
      else if (case obq_HasError query of None \<Rightarrow> False | Some b \<Rightarrow> (TrimSpace (obx_LastError v) \<noteq> []) \<noteq> b) then False
      else True)"

definition outbox_page_less :: "string \<Rightarrow> OutboxEvent \<Rightarrow> OutboxEvent \<Rightarrow> bool" where
  "outbox_page_less order_by a b =
     (if obx_CreatedAt a = obx_CreatedAt b then obx_ID a < obx_ID b
      else if order_by = ''created_at_asc'' then obx_CreatedAt a < obx_CreatedAt b
      else obx_CreatedAt a > obx_CreatedAt b)"

definition ListOutboxEventPage ::
  "outbox \<Rightarrow> string \<Rightarrow> OutboxEventQuery \<Rightarrow> PageRequest \<Rightarrow> (OutboxEvent list \<times> int) option" where
  "ListOutboxEventPage s tenantID query page =
     (let out = filter (\<lambda>v. outboxEventMatchesQuery v query) (events_of s tenantID);
          out = sort_less (outbox_page_less (pr_Sort page)) out;
          page = NormalizePageRequest page;
          count = int (length out)
      in case paginateMemory out (pr_Page page) (pr_PageSize page) of
           None \<Rightarrow> None
         | Some items \<Rightarrow> Some (items, count))"

section \<open>Claiming\<close>

text \<open>The order in which due events are handed out.\<close>

datatype claim_rank = Claim_Rank (rank_next: int) (rank_created: int) (rank_id: string)

instantiation claim_rank :: linorder
begin

definition less_claim_rank :: "claim_rank \<Rightarrow> claim_rank \<Rightarrow> bool" where
  "less_claim_rank a b \<longleftrightarrow>
     rank_next a < rank_next b \<or>
     rank_next a = rank_next b \<and>
       (rank_created a < rank_created b \<or> rank_created a = rank_created b \<and> rank_id a < rank_id b)"

definition less_eq_claim_rank :: "claim_rank \<Rightarrow> claim_rank \<Rightarrow> bool" where
  "less_eq_claim_rank a b \<longleftrightarrow> a < b \<or> a = (b :: claim_rank)"

instance
  by intro_classes
    (auto simp: less_eq_claim_rank_def less_claim_rank_def claim_rank.expand intro: claim_rank.expand)

end

definition claimRank :: "OutboxEvent \<Rightarrow> claim_rank" where
  "claimRank e = Claim_Rank (obx_NextAttemptAt e) (obx_CreatedAt e) (obx_ID e)"

definition claim_less :: "OutboxEvent \<Rightarrow> OutboxEvent \<Rightarrow> bool" where
  "claim_less a b =
     (if obx_NextAttemptAt a \<noteq> obx_NextAttemptAt b then obx_NextAttemptAt a < obx_NextAttemptAt b
      else if obx_CreatedAt a = obx_CreatedAt b then obx_ID a < obx_ID b
      else obx_CreatedAt a < obx_CreatedAt b)"

lemma claim_less_rank: "claim_less a b \<longleftrightarrow> claimRank a < claimRank b"
  by (auto simp: claim_less_def claimRank_def less_claim_rank_def)

definition attempts_exhausted :: "OutboxEvent \<Rightarrow> bool" where
  "attempts_exhausted e =
     (case obx_MaxAttempts e of None \<Rightarrow> False | Some m \<Rightarrow> m > 0 \<and> obx_AttemptCount e \<ge> m)"

definition event_due :: "int \<Rightarrow> OutboxEvent \<Rightarrow> bool" where
  "event_due claimedAt e \<longleftrightarrow>
     (obx_Status e = OutboxStatusPending \<or> obx_Status e = OutboxStatusFailed) \<and>
     \<not> obx_NextAttemptAt e > claimedAt"

definition claim_stale :: "int \<Rightarrow> OutboxEvent \<Rightarrow> bool" where
  "claim_stale claimedAt e \<longleftrightarrow>
     obx_Status e = OutboxStatusProcessing \<and>
     (case obx_ClaimExpiresAt e of None \<Rightarrow> False | Some t \<Rightarrow> \<not> t > claimedAt)"

definition claimable :: "int \<Rightarrow> OutboxEvent \<Rightarrow> bool" where
  "claimable claimedAt e =
     (if attempts_exhausted e then False else event_due claimedAt e \<or> claim_stale claimedAt e)"

definition leased :: "string \<Rightarrow> string \<Rightarrow> int \<Rightarrow> int \<Rightarrow> OutboxEvent \<Rightarrow> OutboxEvent" where
  "leased claimOwner claimToken claimedAt leaseUntil e =
     e\<lparr>obx_Status := OutboxStatusProcessing, obx_AttemptCount := obx_AttemptCount e + 1,
       obx_LastError := [], obx_ClaimOwner := claimOwner,
       obx_ClaimToken := claimToken @ '':'' @ obx_ID e, obx_ClaimExpiresAt := Some leaseUntil,
       obx_LastAttemptAt := Some claimedAt, obx_UpdatedAt := claimedAt,
       obx_ProcessedAt := None, obx_DeadLetteredAt := None\<rparr>"

definition claim_candidates :: "int \<Rightarrow> OutboxEvent list \<Rightarrow> (nat \<times> OutboxEvent) list" where
  "claim_candidates claimedAt es =
     sort_less (\<lambda>a b. claim_less (snd a) (snd b)) (filter (\<lambda>p. claimable claimedAt (snd p)) (enumerate 0 es))"

definition lease_at :: "(OutboxEvent \<Rightarrow> OutboxEvent) \<Rightarrow> nat \<times> OutboxEvent \<Rightarrow>
    OutboxEvent list \<times> OutboxEvent list \<Rightarrow> OutboxEvent list \<times> OutboxEvent list" where
  "lease_at lease item acc =
     (case acc of (events, out) \<Rightarrow>
        let events = events[fst item := lease (events ! fst item)]
        in (events, out @ [events ! fst item]))"

definition ClaimOutboxEvents ::
  "int \<Rightarrow> outbox \<Rightarrow> string \<Rightarrow> int \<Rightarrow> int \<Rightarrow> int \<Rightarrow> string \<Rightarrow> string \<Rightarrow> outbox \<times> OutboxEvent list" where
  "ClaimOutboxEvents now s tenantID limit claimedAt leaseUntil claimOwner claimToken =
     (if limit \<le> 0 then (s, [])
      else let events = map (normalizeMemoryOutboxEvent now) (events_of s tenantID);
               candidates = claim_candidates claimedAt events;
               candidates = (if int (length candidates) > limit then take (nat limit) candidates else candidates)
           in case fold (lease_at (leased claimOwner claimToken claimedAt leaseUntil)) candidates (events, []) of
                (events, out) \<Rightarrow> (map_put tenantID events s, out))"

section \<open>Finalizing, retrying, cleaning up\<close>

text \<open>The first position whose event satisfies a test, as a loop that returns from its body finds it.\<close>

fun index_of :: "('a \<Rightarrow> bool) \<Rightarrow> 'a list \<Rightarrow> nat option" where
  "index_of P [] = None"
| "index_of P (x # xs) = (if P x then Some 0 else map_option Suc (index_of P xs))"

definition holds_claim :: "OutboxEvent \<Rightarrow> OutboxEvent \<Rightarrow> bool" where
  "holds_claim v e \<longleftrightarrow> obx_ID e = obx_ID v \<and> obx_Status e = OutboxStatusProcessing \<and>
     obx_ClaimToken v \<noteq> [] \<and> obx_ClaimToken e = obx_ClaimToken v"

definition released :: "OutboxEvent \<Rightarrow> OutboxEvent" where
  "released v = v\<lparr>obx_ClaimOwner := [], obx_ClaimToken := [], obx_ClaimExpiresAt := None\<rparr>"

definition FinalizeOutboxEvent :: "outbox \<Rightarrow> OutboxEvent \<Rightarrow> outbox \<times> bool" where
  "FinalizeOutboxEvent s v =
     (let events = events_of s (obx_TenantID v) in
      case index_of (holds_claim v) events of
        Some i \<Rightarrow> (map_put (obx_TenantID v) (events[i := released v]) s, True)
      | None \<Rightarrow> (s, False))"

definition retryable :: "OutboxEvent \<Rightarrow> bool" where
  "retryable e \<longleftrightarrow> obx_Status e = OutboxStatusFailed \<or> obx_Status e = OutboxStatusParked \<or>
     obx_Status e = OutboxStatusDeadLettered"

definition reset_event :: "int \<Rightarrow> OutboxEvent \<Rightarrow> OutboxEvent" where
  "reset_event retriedAt e =
     e\<lparr>obx_Status := OutboxStatusPending, obx_RetryCount := 0, obx_AttemptCount := 0,
       obx_LastError := [], obx_NextAttemptAt := retriedAt, obx_ClaimOwner := [],
       obx_ClaimToken := [], obx_ClaimExpiresAt := None, obx_LastAttemptAt := None,
       obx_UpdatedAt := retriedAt, obx_ProcessedAt := None, obx_DeadLetteredAt := None\<rparr>"

definition RetryOutboxEvent :: "outbox \<Rightarrow> string \<Rightarrow> string \<Rightarrow> int \<Rightarrow> outbox \<times> OutboxEvent option" where
  "RetryOutboxEvent s tenantID ident retriedAt =
     (let events = events_of s tenantID in
      case index_of (\<lambda>e. obx_ID e = ident) events of
        None \<Rightarrow> (s, None)
      | Some i \<Rightarrow>
          if retryable (events ! i)
          then let e = reset_event retriedAt (events ! i) in (map_put tenantID (events[i := e]) s, Some e)
          else (s, None))"

definition DeleteSucceededOutboxEventsBefore :: "outbox \<Rightarrow> string \<Rightarrow> int \<Rightarrow> outbox \<times> nat" where
  "DeleteSucceededOutboxEventsBefore s tenantID before =
     (let events = events_of s tenantID;
          old = (\<lambda>v. obx_Status v = ''succeeded'' \<and> obx_CreatedAt v < before)
      in (map_put tenantID (filter (\<lambda>v. \<not> old v) events) s, length (filter old events)))"

section \<open>What a claim does\<close>

text \<open>The reference of the claim: the first \<open>limit\<close> claimable events in rank order.\<close>

definition due_events :: "int \<Rightarrow> OutboxEvent list \<Rightarrow> OutboxEvent list" where
  "due_events claimedAt es = sort_key claimRank (filter (claimable claimedAt) es)"

definition picked_events :: "int \<Rightarrow> int \<Rightarrow> OutboxEvent list \<Rightarrow> OutboxEvent list" where
  "picked_events limit claimedAt es = take (nat limit) (due_events claimedAt es)"

lemma set_due_events [simp]: "set (due_events moment es) = {e \<in> set es. claimable moment e}"
  by (auto simp: due_events_def)

lemma picked_subset: "e \<in> set (picked_events limit moment es) \<Longrightarrow> e \<in> set es \<and> claimable moment e"
  unfolding picked_events_def using set_take_subset [of "nat limit" "due_events moment es"] by auto

lemma picked_length: "length (picked_events limit moment es) \<le> nat limit"
  by (simp add: picked_events_def)

lemma map_sort_key: "map f (sort_key (\<lambda>x. g (f x)) xs) = sort_key g (map f xs)"
proof (induction xs)
  case (Cons x xs)
  have "map f (insort_key (\<lambda>x. g (f x)) x ys) = insort_key g (f x) (map f ys)" for ys
    by (induction ys) auto
  with Cons show ?case by simp
qed simp

lemma map_snd_candidates: "map snd (claim_candidates moment es) = due_events moment es"
proof -
  have "claim_candidates moment es =
      sort_key (\<lambda>p. claimRank (snd p)) (filter (\<lambda>p. claimable moment (snd p)) (enumerate 0 es))"
    by (simp add: claim_candidates_def claim_less_rank sort_less_key)
  then show ?thesis
    by (simp add: due_events_def map_sort_key filter_map [symmetric, unfolded comp_def])
qed

lemma candidates_at:
  "(i, e) \<in> set (claim_candidates moment es) \<Longrightarrow> i < length es \<and> es ! i = e \<and> claimable moment e"
  by (auto simp: claim_candidates_def in_set_enumerate_eq)

lemma distinct_sort_less: "distinct xs \<Longrightarrow> distinct (sort_less lt xs)"
  by (metis card_distinct distinct_card length_sort_less set_sort_less)

lemma inj_on_enumerate: "inj_on fst (set (enumerate 0 es))"
  by (auto simp: inj_on_def in_set_enumerate_eq)

lemma distinct_candidates: "distinct (map fst (claim_candidates moment es))"
proof -
  have "distinct (claim_candidates moment es)"
    unfolding claim_candidates_def by (intro distinct_sort_less distinct_filter distinct_enumerate)
  moreover have "inj_on fst (set (claim_candidates moment es))"
    by (rule inj_on_subset [OF inj_on_enumerate [of es]]) (auto simp: claim_candidates_def)
  ultimately show ?thesis by (simp add: distinct_map)
qed

lemma fold_lease_at:
  assumes "distinct (map fst ps)" and "\<forall>p \<in> set ps. fst p < length es \<and> es ! fst p = snd p"
  shows "fold (lease_at f) ps (es, out) =
    (map (\<lambda>i. if i \<in> set (map fst ps) then f (es ! i) else es ! i) [0..<length es], out @ map (\<lambda>p. f (snd p)) ps)"
  using assms
proof (induction ps arbitrary: es out)
  case Nil
  then show ?case by (simp add: map_nth)
next
  case (Cons p ps)
  let ?es = "es[fst p := f (es ! fst p)]"
  have "\<forall>q \<in> set ps. fst q < length ?es \<and> ?es ! fst q = snd q"
    using Cons.prems by (auto simp: nth_list_update)
  then have "fold (lease_at f) ps (?es, out @ [f (snd p)]) =
      (map (\<lambda>i. if i \<in> set (map fst ps) then f (?es ! i) else ?es ! i) [0..<length ?es],
       (out @ [f (snd p)]) @ map (\<lambda>p. f (snd p)) ps)"
    using Cons.prems by (intro Cons.IH) auto
  moreover have "map (\<lambda>i. if i \<in> set (map fst ps) then f (?es ! i) else ?es ! i) [0..<length ?es] =
      map (\<lambda>i. if i \<in> set (map fst (p # ps)) then f (es ! i) else es ! i) [0..<length es]"
  proof (intro map_cong refl)
    fix i assume "i \<in> set [0..<length es]"
    moreover have "fst p \<notin> set (map fst ps)" using Cons.prems(1) by simp
    ultimately show "(if i \<in> set (map fst ps) then f (?es ! i) else ?es ! i) =
        (if i \<in> set (map fst (p # ps)) then f (es ! i) else es ! i)"
      by (cases "i = fst p") auto
  qed simp
  moreover have "lease_at f p (es, out) = (?es, out @ [f (snd p)])"
    using Cons.prems(2) by (auto simp: lease_at_def Let_def)
  ultimately show ?case by simp
qed

definition lease_picked :: "(OutboxEvent \<Rightarrow> OutboxEvent) \<Rightarrow> OutboxEvent list \<Rightarrow> OutboxEvent list \<Rightarrow> OutboxEvent list" where
  "lease_picked f picks es = map (\<lambda>e. if e \<in> set picks then f e else e) es"

lemma index_in_iff:
  assumes "distinct es" "\<forall>p \<in> set ps. fst p < length es \<and> es ! fst p = snd p" "i < length es"
  shows "i \<in> set (map fst ps) \<longleftrightarrow> es ! i \<in> set (map snd ps)"
proof
  assume "i \<in> set (map fst ps)"
  then obtain p where "p \<in> set ps" "fst p = i" by auto
  with assms(2) show "es ! i \<in> set (map snd ps)" by auto
next
  assume "es ! i \<in> set (map snd ps)"
  then obtain p where p: "p \<in> set ps" "snd p = es ! i" by auto
  with assms have "fst p = i" by (metis nth_eq_iff_index_eq)
  with p show "i \<in> set (map fst ps)" by auto
qed

lemma fold_lease_picked:
  assumes dist: "distinct es"
  shows "fold (lease_at f) (take (nat limit) (claim_candidates moment es)) (es, []) =
    (lease_picked f (picked_events limit moment es) es, map f (picked_events limit moment es))"
proof -
  let ?chosen = "take (nat limit) (claim_candidates moment es)"
  have chosen: "\<forall>p \<in> set ?chosen. fst p < length es \<and> es ! fst p = snd p"
    using candidates_at set_take_subset by (metis prod.collapse subsetD)
  have snds: "map snd ?chosen = picked_events limit moment es"
    by (simp add: picked_events_def take_map [symmetric] map_snd_candidates)
  have "distinct (map fst ?chosen)"
    using distinct_candidates [of moment es] by (simp add: take_map [symmetric])
  then have "fold (lease_at f) ?chosen (es, []) =
      (map (\<lambda>i. if i \<in> set (map fst ?chosen) then f (es ! i) else es ! i) [0..<length es],
       map f (map snd ?chosen))"
    using fold_lease_at [OF _ chosen, of f "[]"] by (simp add: comp_def)
  moreover have "map (\<lambda>i. if i \<in> set (map fst ?chosen) then f (es ! i) else es ! i) [0..<length es] =
      map (\<lambda>i. if es ! i \<in> set (picked_events limit moment es) then f (es ! i) else es ! i) [0..<length es]"
  proof (intro map_cong refl)
    fix i assume "i \<in> set [0..<length es]"
    then have "i \<in> set (map fst ?chosen) \<longleftrightarrow> es ! i \<in> set (map snd ?chosen)"
      by (intro index_in_iff [OF dist chosen]) simp
    then show "(if i \<in> set (map fst ?chosen) then f (es ! i) else es ! i) =
        (if es ! i \<in> set (picked_events limit moment es) then f (es ! i) else es ! i)"
      unfolding snds by simp
  qed
  moreover have "map (\<lambda>i. if es ! i \<in> set picks then f (es ! i) else es ! i) [0..<length es] =
      lease_picked f picks es" for picks
    unfolding lease_picked_def by (rule nth_equalityI) simp_all
  ultimately show ?thesis by (simp add: snds)
qed

lemma claim_eq_reference:
  assumes "distinct (map obx_ID (map (normalizeMemoryOutboxEvent now) (events_of s t)))"
  shows "ClaimOutboxEvents now s t limit moment til owner token =
    (let es = map (normalizeMemoryOutboxEvent now) (events_of s t);
         picks = picked_events limit moment es
     in if limit \<le> 0 then (s, [])
        else (map_put t (lease_picked (leased owner token moment til) picks es) s, map (leased owner token moment til) picks))"
proof -
  define es where "es = map (normalizeMemoryOutboxEvent now) (events_of s t)"
  have dist: "distinct es" using assms unfolding es_def [symmetric] distinct_map [of obx_ID] by blast
  have "(if int (length (claim_candidates moment es)) > limit then take (nat limit) (claim_candidates moment es)
      else claim_candidates moment es) = take (nat limit) (claim_candidates moment es)" by simp
  then show ?thesis
    unfolding ClaimOutboxEvents_def Let_def es_def [symmetric] by (simp add: fold_lease_picked [OF dist])
qed

section \<open>What the other operations do\<close>

lemma index_of_None: "index_of P xs = None \<longleftrightarrow> (\<forall>x \<in> set xs. \<not> P x)"
  by (induction xs) auto

lemma index_of_Some: "index_of P xs = Some i \<Longrightarrow> i < length xs \<and> P (xs ! i)"
  by (induction xs arbitrary: i) (auto split: if_splits)

text \<open>With distinct ids, writing at the position of an event is replacing the event of that id.\<close>

definition replace_event :: "OutboxEvent \<Rightarrow> OutboxEvent list \<Rightarrow> OutboxEvent list" where
  "replace_event v es = map (\<lambda>e. if obx_ID e = obx_ID v then v else e) es"

lemma update_by_id:
  assumes "distinct (map obx_ID es)" "i < length es" "obx_ID (es ! i) = obx_ID v"
  shows "es[i := v] = replace_event v es"
proof (rule nth_equalityI)
  fix j assume j: "j < length (es[i := v])"
  have "obx_ID (es ! j) = obx_ID (es ! i) \<longleftrightarrow> j = i"
    using assms(1,2) j by (metis length_list_update length_map nth_eq_iff_index_eq nth_map)
  with j assms show "es[i := v] ! j = replace_event v es ! j"
    by (cases "j = i") (simp_all add: replace_event_def nth_list_update)
qed (simp add: replace_event_def)

lemma replace_event_ids [simp]: "map obx_ID (replace_event v es) = map obx_ID es"
  by (simp add: replace_event_def)

lemma set_replace_event:
  "e \<in> set (replace_event v es) \<Longrightarrow> e = v \<or> e \<in> set es \<and> obx_ID e \<noteq> obx_ID v"
  by (auto simp: replace_event_def)

lemma in_replace_event:
  "e \<in> set es \<Longrightarrow> (if obx_ID e = obx_ID v then v else e) \<in> set (replace_event v es)"
  by (auto simp: replace_event_def)

lemma distinct_ids_eq:
  "distinct (map obx_ID es) \<Longrightarrow> e \<in> set es \<Longrightarrow> e' \<in> set es \<Longrightarrow> obx_ID e = obx_ID e' \<Longrightarrow> e = e'"
  by (simp add: distinct_map inj_on_def)

lemma released_sel [simp]:
  "obx_ID (released v) = obx_ID v" "obx_TenantID (released v) = obx_TenantID v"
  "obx_Status (released v) = obx_Status v" "obx_AttemptCount (released v) = obx_AttemptCount v"
  "obx_MaxAttempts (released v) = obx_MaxAttempts v" "obx_ClaimToken (released v) = []"
  "obx_ClaimExpiresAt (released v) = None" "obx_RetryCount (released v) = obx_RetryCount v"
  "obx_CreatedAt (released v) = obx_CreatedAt v" "obx_NextAttemptAt (released v) = obx_NextAttemptAt v"
  "obx_UpdatedAt (released v) = obx_UpdatedAt v" "obx_PayloadVersion (released v) = obx_PayloadVersion v"
  "obx_ProcessedAt (released v) = obx_ProcessedAt v" "obx_LastError (released v) = obx_LastError v"
  "obx_DeadLetteredAt (released v) = obx_DeadLetteredAt v"
  by (simp_all add: released_def)

lemma leased_sel [simp]:
  "obx_ID (leased ow k a l e) = obx_ID e" "obx_TenantID (leased ow k a l e) = obx_TenantID e"
  "obx_Status (leased ow k a l e) = OutboxStatusProcessing"
  "obx_AttemptCount (leased ow k a l e) = obx_AttemptCount e + 1"
  "obx_MaxAttempts (leased ow k a l e) = obx_MaxAttempts e"
  "obx_ClaimToken (leased ow k a l e) = k @ '':'' @ obx_ID e"
  "obx_ClaimExpiresAt (leased ow k a l e) = Some l" "obx_RetryCount (leased ow k a l e) = obx_RetryCount e"
  "obx_CreatedAt (leased ow k a l e) = obx_CreatedAt e"
  "obx_NextAttemptAt (leased ow k a l e) = obx_NextAttemptAt e"
  "obx_UpdatedAt (leased ow k a l e) = a" "obx_PayloadVersion (leased ow k a l e) = obx_PayloadVersion e"
  "obx_EventType (leased ow k a l e) = obx_EventType e"
  by (simp_all add: leased_def)

lemma reset_sel [simp]:
  "obx_ID (reset_event moment e) = obx_ID e" "obx_TenantID (reset_event moment e) = obx_TenantID e"
  "obx_Status (reset_event moment e) = OutboxStatusPending" "obx_AttemptCount (reset_event moment e) = 0"
  "obx_MaxAttempts (reset_event moment e) = obx_MaxAttempts e" "obx_ClaimToken (reset_event moment e) = []"
  "obx_ClaimExpiresAt (reset_event moment e) = None" "obx_RetryCount (reset_event moment e) = 0"
  "obx_CreatedAt (reset_event moment e) = obx_CreatedAt e" "obx_NextAttemptAt (reset_event moment e) = moment"
  "obx_UpdatedAt (reset_event moment e) = moment" "obx_PayloadVersion (reset_event moment e) = obx_PayloadVersion e"
  by (simp_all add: reset_event_def)

text \<open>
  The contract of a store of leased events: a write-back with the claim in force replaces that
  event and frees it, any other changes nothing.  \<open>claim_queue\<close> adds what a claim hands out.
\<close>

locale lease_store =
  fixes events :: "'s \<Rightarrow> string \<Rightarrow> OutboxEvent list"
    and finalize :: "'s \<Rightarrow> OutboxEvent \<Rightarrow> 's \<times> bool"
  assumes finalize_hit: "distinct (map obx_ID (events s (obx_TenantID v))) \<Longrightarrow>
        e \<in> set (events s (obx_TenantID v)) \<Longrightarrow> holds_claim v e \<Longrightarrow>
        snd (finalize s v) \<and> events (fst (finalize s v)) (obx_TenantID v) =
          replace_event (released v) (events s (obx_TenantID v))"
    and finalize_miss: "\<forall>e \<in> set (events s (obx_TenantID v)). \<not> holds_claim v e \<Longrightarrow> finalize s v = (s, False)"
    and finalize_other: "t \<noteq> obx_TenantID v \<Longrightarrow> events (fst (finalize s v)) t = events s t"
begin

lemma finalize_fenced:
  assumes "snd (finalize s v)"
  shows "\<exists>e \<in> set (events s (obx_TenantID v)). holds_claim v e"
  using assms finalize_miss [of s v] by (metis snd_conv)

text \<open>Writing a result back for every event of a batch whose claims are all in force.\<close>

primrec write_back :: "(OutboxEvent \<Rightarrow> OutboxEvent) \<Rightarrow> OutboxEvent list \<Rightarrow> 's \<Rightarrow> 's \<times> bool" where
  "write_back w [] s = (s, True)"
| "write_back w (h # hs) s =
     (case finalize s (w h) of (s, updated) \<Rightarrow> if updated then write_back w hs s else (s, False))"

definition keeps_claim :: "(OutboxEvent \<Rightarrow> OutboxEvent) \<Rightarrow> OutboxEvent \<Rightarrow> bool" where
  "keeps_claim w h \<longleftrightarrow> obx_ID (w h) = obx_ID h \<and> obx_TenantID (w h) = obx_TenantID h \<and>
     obx_ClaimToken (w h) = obx_ClaimToken h"

definition in_force :: "string \<Rightarrow> 's \<Rightarrow> OutboxEvent \<Rightarrow> bool" where
  "in_force t s h \<longleftrightarrow> h \<in> set (events s t) \<and> obx_TenantID h = t \<and>
     obx_Status h = OutboxStatusProcessing \<and> obx_ClaimToken h \<noteq> []"

lemma in_force_finalize:
  assumes "in_force t s h" "keeps_claim w h" "distinct (map obx_ID (events s t))"
  shows "snd (finalize s (w h))"
    and "events (fst (finalize s (w h))) t = replace_event (released (w h)) (events s t)"
proof -
  from assms have "holds_claim (w h) h" "obx_TenantID (w h) = t" "h \<in> set (events s t)"
    by (auto simp: in_force_def keeps_claim_def holds_claim_def)
  with finalize_hit [of s "w h" h] assms(3)
  show "snd (finalize s (w h))"
    "events (fst (finalize s (w h))) t = replace_event (released (w h)) (events s t)"
    by auto
qed

lemma write_back_all:
  assumes "\<forall>h \<in> set hs. in_force t s h \<and> keeps_claim w h"
    and "distinct (map obx_ID hs)" "distinct (map obx_ID (events s t))"
  shows "snd (write_back w hs s) \<and>
    (\<forall>h \<in> set hs. released (w h) \<in> set (events (fst (write_back w hs s)) t)) \<and>
    (\<forall>e \<in> set (events s t). obx_ID e \<notin> obx_ID ` set hs \<longrightarrow> e \<in> set (events (fst (write_back w hs s)) t))"
  using assms
proof (induction hs arbitrary: s)
  case (Cons h hs)
  let ?s = "fst (finalize s (w h))"
  have h: "in_force t s h" "keeps_claim w h" using Cons.prems(1) by auto
  note hit = in_force_finalize [OF this Cons.prems(3)]
  have ids: "distinct (map obx_ID (events ?s t))" using hit(2) Cons.prems(3) by simp
  have kept: "e \<in> set (events ?s t)" if "e \<in> set (events s t)" "obx_ID e \<noteq> obx_ID h" for e
    using that h(2) in_replace_event [of e "events s t" "released (w h)"]
    by (simp add: hit(2) keeps_claim_def)
  have "in_force t ?s g \<and> keeps_claim w g" if "g \<in> set hs" for g
  proof -
    have "obx_ID g \<noteq> obx_ID h" using that Cons.prems(2) by (metis distinct.simps(2) image_eqI list.simps(9) set_map)
    moreover have "in_force t s g" "keeps_claim w g" using that Cons.prems(1) by auto
    ultimately show ?thesis using kept [of g] by (simp add: in_force_def)
  qed
  then have IH: "snd (write_back w hs ?s)"
      "\<forall>h \<in> set hs. released (w h) \<in> set (events (fst (write_back w hs ?s)) t)"
      "\<forall>e \<in> set (events ?s t). obx_ID e \<notin> obx_ID ` set hs \<longrightarrow> e \<in> set (events (fst (write_back w hs ?s)) t)"
    using Cons.IH [of ?s] Cons.prems(2) ids by auto
  have step: "write_back w (h # hs) s = write_back w hs ?s"
    using hit(1) by (simp add: prod.case_eq_if)
  have "released (w h) \<in> set (events ?s t)"
    using in_replace_event [of h "events s t" "released (w h)"] h
    by (simp add: hit(2) in_force_def keeps_claim_def)
  moreover have "obx_ID (released (w h)) \<notin> obx_ID ` set hs"
    using h(2) Cons.prems(2) by (simp add: keeps_claim_def)
  ultimately show ?case
    unfolding step using IH kept by auto
qed simp

end

locale claim_queue = lease_store events finalize
  for events :: "'s \<Rightarrow> string \<Rightarrow> OutboxEvent list"
    and finalize :: "'s \<Rightarrow> OutboxEvent \<Rightarrow> 's \<times> bool" +
  fixes claim :: "'s \<Rightarrow> string \<Rightarrow> int \<Rightarrow> int \<Rightarrow> int \<Rightarrow> string \<Rightarrow> string \<Rightarrow> 's \<times> OutboxEvent list"
    and ready :: "'s \<Rightarrow> string \<Rightarrow> bool"
  assumes ready_ids: "ready s t \<Longrightarrow> distinct (map obx_ID (events s t))"
    and ready_tenant: "ready s t \<Longrightarrow> e \<in> set (events s t) \<Longrightarrow> obx_TenantID e = t"
    and claim_ready: "ready s t \<Longrightarrow> 0 < limit \<Longrightarrow> distinct (map obx_ID (events (fst (claim s t limit moment til owner token)) t))"
    and claim_handed: "ready s t \<Longrightarrow> 0 < limit \<Longrightarrow> snd (claim s t limit moment til owner token) =
        map (leased owner token moment til) (picked_events limit moment (events s t))"
    and claim_stored: "ready s t \<Longrightarrow> 0 < limit \<Longrightarrow> set (snd (claim s t limit moment til owner token)) \<subseteq>
        set (events (fst (claim s t limit moment til owner token)) t)"
begin

lemma claimed_in_force:
  assumes "ready s t" "0 < limit" "h \<in> set (snd (claim s t limit moment til owner token))"
  shows "in_force t (fst (claim s t limit moment til owner token)) h"
proof -
  from assms obtain e where "e \<in> set (picked_events limit moment (events s t))" "h = leased owner token moment til e"
    by (auto simp: claim_handed)
  moreover have "h \<in> set (events (fst (claim s t limit moment til owner token)) t)"
    using claim_stored [OF assms(1,2), of moment til owner token] assms(3) by (rule subsetD)
  ultimately show ?thesis
    using assms(1) picked_subset ready_tenant by (fastforce simp: in_force_def)
qed

lemma distinct_picked:
  assumes "distinct (map obx_ID es)"
  shows "distinct (map obx_ID (picked_events limit moment es))"
proof -
  have "distinct (due_events moment es)"
    using assms by (simp add: due_events_def distinct_map)
  moreover have "inj_on obx_ID (set (due_events moment es))"
    using assms by (auto simp: distinct_map inj_on_def)
  ultimately have "distinct (map obx_ID (due_events moment es))" by (simp add: distinct_map)
  then show ?thesis by (simp add: picked_events_def take_map [symmetric])
qed

text \<open>A worker that claims and then writes every result back, undisturbed, loses no claim.\<close>

lemma claim_and_write_back:
  assumes "ready s t" "0 < limit" and "\<And>h. obx_ID (w h) = obx_ID h \<and> obx_TenantID (w h) = obx_TenantID h \<and>
      obx_ClaimToken (w h) = obx_ClaimToken h"
    and "claim s t limit moment til owner token = (s', hs)"
  shows "snd (write_back w hs s')" and "e \<in> set (picked_events limit moment (events s t)) \<Longrightarrow>
    released (w (leased owner token moment til e)) \<in> set (events (fst (write_back w hs s')) t)"
proof -
  have hs: "hs = map (leased owner token moment til) (picked_events limit moment (events s t))"
    using claim_handed [OF assms(1,2), of moment til owner token] assms(4) by simp
  have "\<forall>h \<in> set hs. in_force t s' h \<and> keeps_claim w h"
    using claimed_in_force [OF assms(1,2), of _ moment til owner token] assms(3,4)
    by (auto simp: keeps_claim_def)
  moreover have "distinct (map obx_ID hs)"
    using distinct_picked [OF ready_ids [OF assms(1)], of limit moment] by (simp add: hs comp_def)
  moreover have "distinct (map obx_ID (events s' t))"
    using claim_ready [OF assms(1,2), of moment til owner token] assms(4) by simp
  ultimately have *: "snd (write_back w hs s') \<and>
      (\<forall>h \<in> set hs. released (w h) \<in> set (events (fst (write_back w hs s')) t))"
    using write_back_all [of hs t s' w] by blast
  then show "snd (write_back w hs s')" by blast
  assume "e \<in> set (picked_events limit moment (events s t))"
  with * show "released (w (leased owner token moment til e)) \<in> set (events (fst (write_back w hs s')) t)"
    by (auto simp: hs)
qed

end

section \<open>The operations satisfy the contract\<close>

text \<open>
  A stored event is well formed (\<open>obx_wf\<close>): its defaults are filled in, so a later
  normalization leaves it alone, and it counts at least as many attempts as retries.
\<close>

definition obx_wf :: "OutboxEvent \<Rightarrow> bool" where
  "obx_wf e \<longleftrightarrow> obx_PayloadVersion e > 0 \<and> obx_Status e \<noteq> [] \<and> obx_CreatedAt e \<noteq> 0 \<and>
     obx_NextAttemptAt e \<noteq> 0 \<and> obx_UpdatedAt e \<noteq> 0 \<and> obx_MaxAttempts e \<noteq> None \<and>
     0 \<le> obx_RetryCount e \<and> obx_RetryCount e \<le> obx_AttemptCount e"

lemma normalize_wf_id [simp]: "obx_wf e \<Longrightarrow> normalizeMemoryOutboxEvent now e = e"
  by (auto simp: obx_wf_def normalizeMemoryOutboxEvent_def Let_def)

lemma map_normalize_id: "\<forall>e \<in> set es. obx_wf e \<Longrightarrow> map (normalizeMemoryOutboxEvent now) es = es"
  by (induction es) auto

lemma normalize_sel [simp]:
  "obx_ID (normalizeMemoryOutboxEvent now v) = obx_ID v"
  "obx_TenantID (normalizeMemoryOutboxEvent now v) = obx_TenantID v"
  "obx_ClaimToken (normalizeMemoryOutboxEvent now v) = obx_ClaimToken v"
  "obx_Status (normalizeMemoryOutboxEvent now v) =
     (if obx_Status v = [] then OutboxStatusPending else obx_Status v)"
  "obx_RetryCount (normalizeMemoryOutboxEvent now v) = obx_RetryCount v"
  "obx_EventType (normalizeMemoryOutboxEvent now v) = obx_EventType v"
  "obx_IdempotencyKey (normalizeMemoryOutboxEvent now v) = obx_IdempotencyKey v"
  by (simp_all add: normalizeMemoryOutboxEvent_def Let_def split: option.split)

definition queue_ready :: "outbox \<Rightarrow> string \<Rightarrow> bool" where
  "queue_ready s t \<longleftrightarrow> distinct (map obx_ID (events_of s t)) \<and>
     (\<forall>e \<in> set (events_of s t). obx_TenantID e = t \<and> obx_wf e)"

lemma queue_ready_normalized [simp]:
  "queue_ready s t \<Longrightarrow> map (normalizeMemoryOutboxEvent now) (events_of s t) = events_of s t"
  by (intro map_normalize_id) (simp add: queue_ready_def)

lemma lease_picked_ids [simp]:
  "map obx_ID (lease_picked (leased owner token moment til) picks es) = map obx_ID es"
  by (simp add: lease_picked_def)

lemma claim_ready_eq:
  assumes "queue_ready s t" "0 < limit"
  shows "ClaimOutboxEvents now s t limit moment til owner token =
    (map_put t (lease_picked (leased owner token moment til) (picked_events limit moment (events_of s t)) (events_of s t)) s,
     map (leased owner token moment til) (picked_events limit moment (events_of s t)))"
  using assms claim_eq_reference [of now s t limit moment til owner token]
  by (simp add: queue_ready_def [of s t] Let_def)

lemma claim_other_tenant: "t' \<noteq> t \<Longrightarrow>
  events_of (fst (ClaimOutboxEvents now s t limit moment til owner token)) t' = events_of s t'"
  by (simp add: ClaimOutboxEvents_def Let_def split: prod.split)

interpretation obx: lease_store events_of FinalizeOutboxEvent
proof
  fix s :: outbox and v e and t :: string
  show "snd (FinalizeOutboxEvent s v) \<and> events_of (fst (FinalizeOutboxEvent s v)) (obx_TenantID v) =
      replace_event (released v) (events_of s (obx_TenantID v))"
    if ids: "distinct (map obx_ID (events_of s (obx_TenantID v)))"
      and e: "e \<in> set (events_of s (obx_TenantID v))" "holds_claim v e"
  proof -
    obtain i where i: "index_of (holds_claim v) (events_of s (obx_TenantID v)) = Some i"
      using e index_of_None by (metis option.exhaust)
    note moment = index_of_Some [OF i]
    then have "(events_of s (obx_TenantID v))[i := released v] = replace_event (released v) (events_of s (obx_TenantID v))"
      using ids by (intro update_by_id) (auto simp: holds_claim_def)
    with i show ?thesis by (simp add: FinalizeOutboxEvent_def Let_def)
  qed
  show "FinalizeOutboxEvent s v = (s, False)" if "\<forall>e \<in> set (events_of s (obx_TenantID v)). \<not> holds_claim v e"
    using that index_of_None by (metis FinalizeOutboxEvent_def option.simps(4))
  show "events_of (fst (FinalizeOutboxEvent s v)) t = events_of s t" if "t \<noteq> obx_TenantID v"
    using that by (simp add: FinalizeOutboxEvent_def Let_def split: option.split)
qed

interpretation obq: claim_queue events_of FinalizeOutboxEvent "ClaimOutboxEvents now" queue_ready
  for now
proof
  fix s :: outbox and t owner token :: string and limit moment til :: int and e
  assume ready: "queue_ready s t"
  show "distinct (map obx_ID (events_of s t))" using ready by (simp add: queue_ready_def)
  show "obx_TenantID e = t" if "e \<in> set (events_of s t)" using ready that by (simp add: queue_ready_def)
  assume limit: "0 < limit"
  note claim = claim_ready_eq [OF ready limit, of now moment til owner token]
  show "distinct (map obx_ID (events_of (fst (ClaimOutboxEvents now s t limit moment til owner token)) t))"
    using ready by (simp add: claim queue_ready_def)
  show "snd (ClaimOutboxEvents now s t limit moment til owner token) =
      map (leased owner token moment til) (picked_events limit moment (events_of s t))"
    by (simp add: claim)
  show "set (snd (ClaimOutboxEvents now s t limit moment til owner token)) \<subseteq>
      set (events_of (fst (ClaimOutboxEvents now s t limit moment til owner token)) t)"
    using picked_subset by (fastforce simp: claim lease_picked_def)
qed

end
