(* ===== verification/Outbox_Dispatch.thy ===== *)
theory Outbox_Dispatch
  imports Outbox_Store
begin

text \<open>
  The background workers of the outbox: \<open>src/internal/jobs/outbox_dispatcher.go\<close> and
  \<open>outbox_cleanup.go\<close>.  The handlers an event is routed to (workflow start, model sync,
  the JetStream publisher, the OpenFGA writer) are parameters of the record
  \<open>OutboxDispatcher\<close>: optional functions from the event to the error they return.  A
  returned error is a \<open>job_error\<close>: its text, what \<open>errors.Is\<close> and
  \<open>errors.As\<close> find in it, and the \<open>*AppError\<close> it wraps.  \<open>clock\<close> gives the
  reading of the clock made for an event; every event of a batch is handled once.  Times and
  durations are nanoseconds.
\<close>

section \<open>Options, backoff and error texts\<close>

definition time_Second :: int where "time_Second = 1000000000"
definition time_Minute :: int where "time_Minute = 60 * time_Second"

definition defaultOutboxBatchSize :: int where "defaultOutboxBatchSize = 100"
definition defaultOutboxMaxRetries :: int where "defaultOutboxMaxRetries = 5"
definition defaultOutboxInterval :: int where "defaultOutboxInterval = 30 * time_Second"
definition defaultOutboxClaimLease :: int where "defaultOutboxClaimLease = 5 * time_Minute"
definition initialOutboxRetryBackoff :: int where "initialOutboxRetryBackoff = 30 * time_Second"
definition maximumOutboxRetryBackoff :: int where "maximumOutboxRetryBackoff = 10 * time_Minute"
definition maxOutboxErrorLength :: nat where "maxOutboxErrorLength = 500"
definition workflowStartOutboxEvent :: string where
  "workflowStartOutboxEvent = ''workflow.form_approval.start_requested''"

abbreviation EventAgentModelUpsert :: string where "EventAgentModelUpsert \<equiv> ''agent.model.upsert''"
abbreviation EventAgentModelDelete :: string where "EventAgentModelDelete \<equiv> ''agent.model.delete''"

record OutboxDispatchOptions =
  odo_BatchSize :: int
  odo_MaxRetries :: int
  odo_Interval :: int
  odo_LeaseDuration :: int

definition normalizeOutboxDispatchOptions :: "OutboxDispatchOptions \<Rightarrow> OutboxDispatchOptions" where
  "normalizeOutboxDispatchOptions opts =
     (let opts = (if odo_BatchSize opts \<le> 0 then opts\<lparr>odo_BatchSize := defaultOutboxBatchSize\<rparr> else opts);
          opts = (if odo_MaxRetries opts \<le> 0 then opts\<lparr>odo_MaxRetries := defaultOutboxMaxRetries\<rparr> else opts);
          opts = (if odo_Interval opts \<le> 0 then opts\<lparr>odo_Interval := defaultOutboxInterval\<rparr> else opts)
      in if odo_LeaseDuration opts \<le> 0 then opts\<lparr>odo_LeaseDuration := defaultOutboxClaimLease\<rparr> else opts)"

text \<open>The loop of \<open>outboxRetryBackoff\<close>: the number of turns left and the delay.\<close>

fun backoff_loop :: "nat \<Rightarrow> int \<Rightarrow> int" where
  "backoff_loop 0 delay = delay"
| "backoff_loop (Suc turns) delay =
     (if delay < maximumOutboxRetryBackoff
      then if delay * 2 \<ge> maximumOutboxRetryBackoff then maximumOutboxRetryBackoff
           else backoff_loop turns (delay * 2)
      else delay)"

definition outboxRetryBackoff :: "int \<Rightarrow> int" where
  "outboxRetryBackoff attemptCount = backoff_loop (nat (attemptCount - 1)) initialOutboxRetryBackoff"

definition truncateOutboxError :: "string \<Rightarrow> string" where
  "truncateOutboxError text =
     (let text = TrimSpace text in
      if length text \<le> maxOutboxErrorLength then text else take maxOutboxErrorLength text)"

section \<open>Routing an event to its handler\<close>

record job_error =
  je_text :: string
  je_not_configured :: bool
  je_permanent :: bool
  je_app :: "AppError option"

definition errors_New :: "string \<Rightarrow> job_error" where
  "errors_New text = \<lparr>je_text = text, je_not_configured = False, je_permanent = False, je_app = None\<rparr>"

definition MarkOutboxErrorPermanent :: "job_error option \<Rightarrow> job_error option" where
  "MarkOutboxErrorPermanent e = (case e of None \<Rightarrow> None | Some e \<Rightarrow> Some (e\<lparr>je_permanent := True\<rparr>))"

record AuthzRelationshipTuple =
  rt_ID :: string
  rt_TenantID :: string
  rt_ObjectType :: string
  rt_ObjectID :: string
  rt_Relation :: string
  rt_SubjectType :: string
  rt_SubjectID :: string
  rt_CreatedAt :: int

definition zero_AuthzRelationshipTuple :: AuthzRelationshipTuple where
  "zero_AuthzRelationshipTuple = \<lparr>
     rt_ID = [],
     rt_TenantID = [],
     rt_ObjectType = [],
     rt_ObjectID = [],
     rt_Relation = [],
     rt_SubjectType = [],
     rt_SubjectID = [],
     rt_CreatedAt = 0 \<rparr>"

record AuthzRelationshipTupleChange =
  rtc_Operation :: string
  rtc_Tuple :: AuthzRelationshipTuple

definition zero_AuthzRelationshipTupleChange :: AuthzRelationshipTupleChange where
  "zero_AuthzRelationshipTupleChange = \<lparr>
     rtc_Operation = [],
     rtc_Tuple = zero_AuthzRelationshipTuple \<rparr>"

record DomainEventEnvelope =
  dee_EventID :: string
  dee_EventType :: string
  dee_TenantID :: string
  dee_OccurredAt :: int
  dee_SchemaVersion :: int
  dee_Payload :: params

definition zero_DomainEventEnvelope :: DomainEventEnvelope where
  "zero_DomainEventEnvelope = \<lparr>
     dee_EventID = [],
     dee_EventType = [],
     dee_TenantID = [],
     dee_OccurredAt = 0,
     dee_SchemaVersion = 0,
     dee_Payload = [] \<rparr>"

record OpenFGARelationshipPayload =
  ofp_Operation :: string
  ofp_ObjectType :: string
  ofp_ObjectID :: string
  ofp_Relation :: string
  ofp_SubjectType :: string
  ofp_SubjectID :: string

definition zero_OpenFGARelationshipPayload :: OpenFGARelationshipPayload where
  "zero_OpenFGARelationshipPayload = \<lparr>
     ofp_Operation = [],
     ofp_ObjectType = [],
     ofp_ObjectID = [],
     ofp_Relation = [],
     ofp_SubjectType = [],
     ofp_SubjectID = [] \<rparr>"

record OutboxDispatcher =
  od_writer :: "(AuthzRelationshipTupleChange list \<Rightarrow> job_error option) option"
  od_publisher :: "(string \<Rightarrow> DomainEventEnvelope \<Rightarrow> job_error option) option"
  od_modelSync :: "(OutboxEvent \<Rightarrow> job_error option) option"
  od_workflowStart :: "(OutboxEvent \<Rightarrow> job_error option) option"
  od_workerID :: string

definition NewDomainEventEnvelope :: "OutboxEvent \<Rightarrow> DomainEventEnvelope" where
  "NewDomainEventEnvelope event =
     \<lparr>dee_EventID = TrimSpace (obx_ID event), dee_EventType = TrimSpace (obx_EventType event),
      dee_TenantID = TrimSpace (obx_TenantID event), dee_OccurredAt = obx_CreatedAt event,
      dee_SchemaVersion = 1, dee_Payload = obx_Payload event\<rparr>"

definition EventSubjectForType :: "string \<Rightarrow> string + string" where
  "EventSubjectForType eventType =
     (if TrimSpace eventType = EventOpenFGARelationshipWrite then Inr ''events.iam.relationship.write''
      else if TrimSpace eventType = EventOpenFGARelationshipDelete then Inr ''events.iam.relationship.delete''
      else Inl (''no JetStream subject mapping for event type '' @ CHR 0x22 # eventType @ [CHR 0x22]))"

definition isAgentModelSyncEvent :: "string \<Rightarrow> bool" where
  "isAgentModelSyncEvent eventType \<longleftrightarrow>
     eventType = EventAgentModelUpsert \<or> eventType = EventAgentModelDelete"

definition isOpenFGARelationshipEvent :: "string \<Rightarrow> bool" where
  "isOpenFGARelationshipEvent eventType \<longleftrightarrow>
     eventType = EventOpenFGARelationshipWrite \<or> eventType = EventOpenFGARelationshipDelete"

definition isDispatchableEventType :: "OutboxDispatcher \<Rightarrow> OutboxEvent \<Rightarrow> bool" where
  "isDispatchableEventType p event =
     (if obx_EventType event = workflowStartOutboxEvent then od_workflowStart p \<noteq> None
      else if isAgentModelSyncEvent (obx_EventType event) then od_modelSync p \<noteq> None
      else if od_publisher p \<noteq> None
      then (case EventSubjectForType (obx_EventType event) of Inl e \<Rightarrow> False | Inr subject \<Rightarrow> True)
      else isOpenFGARelationshipEvent (obx_EventType event))"

text \<open>
  \<open>DecodeOpenFGARelationshipPayload\<close>: the payload is written as JSON, keys in order, and
  read into a struct of strings: keys match field names up to case, null leaves a field alone,
  another type is an error, of which the first is reported.
\<close>

fun json_kind :: "val \<Rightarrow> string" where
  "json_kind (VBool b) = ''bool''"
| "json_kind (VNum n) = ''number''"
| "json_kind (VStrs xs) = ''array''"
| "json_kind (VList xs) = ''array''"
| "json_kind (VMap m) = ''object''"
| "json_kind (VStrMap m) = ''object''"
| "json_kind _ = ''string''"

fun json_string :: "val \<Rightarrow> string option" where
  "json_string (VStr s) = Some s"
| "json_string (VScope s) = Some s"
| "json_string (VAction s) = Some s"
| "json_string (VApp s) = Some s"
| "json_string (VRes s) = Some s"
| "json_string _ = None"

definition set_payload_field :: "string \<Rightarrow> string \<Rightarrow> OpenFGARelationshipPayload \<Rightarrow> OpenFGARelationshipPayload" where
  "set_payload_field key v out =
     (if EqualFold key ''operation'' then out\<lparr>ofp_Operation := v\<rparr>
      else if EqualFold key ''object_type'' then out\<lparr>ofp_ObjectType := v\<rparr>
      else if EqualFold key ''object_id'' then out\<lparr>ofp_ObjectID := v\<rparr>
      else if EqualFold key ''relation'' then out\<lparr>ofp_Relation := v\<rparr>
      else if EqualFold key ''subject_type'' then out\<lparr>ofp_SubjectType := v\<rparr>
      else if EqualFold key ''subject_id'' then out\<lparr>ofp_SubjectID := v\<rparr>
      else out)"

definition payload_keys :: "string list" where
  "payload_keys = [''operation'', ''object_type'', ''object_id'', ''relation'', ''subject_type'', ''subject_id'']"

definition decode_entry :: "string \<times> val \<Rightarrow> OpenFGARelationshipPayload \<times> string option \<Rightarrow>
    OpenFGARelationshipPayload \<times> string option" where
  "decode_entry entry acc =
     (case (entry, acc) of ((key, v), (out, failed)) \<Rightarrow>
        if \<not> list_ex (EqualFold key) payload_keys \<or> v = VNil then (out, failed)
        else case json_string v of
          Some t \<Rightarrow> (set_payload_field key t out, failed)
        | None \<Rightarrow> (out, case failed of Some e \<Rightarrow> Some e
            | None \<Rightarrow> Some (''json: cannot unmarshal '' @ json_kind v @
                '' into Go struct field OpenFGARelationshipPayload.'' @ ToLower key @ '' of type string'')))"

definition DecodeOpenFGARelationshipPayload :: "params \<Rightarrow> string + OpenFGARelationshipPayload" where
  "DecodeOpenFGARelationshipPayload payload =
     (case fold decode_entry (sort_key fst payload) (zero_OpenFGARelationshipPayload, None) of
        (out, Some e) \<Rightarrow> Inl (''decode openfga relationship payload: '' @ e)
      | (out, None) \<Rightarrow> Inr out)"

abbreviation AuthzRelationshipTupleWrite :: string where "AuthzRelationshipTupleWrite \<equiv> ''write''"
abbreviation AuthzRelationshipTupleDelete :: string where "AuthzRelationshipTupleDelete \<equiv> ''delete''"

definition relationshipChangeFromOutboxEvent :: "OutboxEvent \<Rightarrow> job_error + AuthzRelationshipTupleChange" where
  "relationshipChangeFromOutboxEvent event =
     (let operation = (if obx_EventType event = EventOpenFGARelationshipDelete
                       then AuthzRelationshipTupleDelete else AuthzRelationshipTupleWrite)
      in case DecodeOpenFGARelationshipPayload (obx_Payload event) of
           Inl e \<Rightarrow> Inl ((errors_New e)\<lparr>je_permanent := True\<rparr>)
         | Inr payload \<Rightarrow>
             let tuple = zero_AuthzRelationshipTuple\<lparr>rt_TenantID := obx_TenantID event,
                   rt_ObjectType := TrimSpace (ofp_ObjectType payload),
                   rt_ObjectID := TrimSpace (ofp_ObjectID payload),
                   rt_Relation := TrimSpace (ofp_Relation payload),
                   rt_SubjectType := TrimSpace (ofp_SubjectType payload),
                   rt_SubjectID := TrimSpace (ofp_SubjectID payload)\<rparr>
             in if rt_ObjectType tuple = [] \<or> rt_ObjectID tuple = [] \<or> rt_Relation tuple = [] \<or>
                   rt_SubjectType tuple = [] \<or> rt_SubjectID tuple = []
                then Inl ((errors_New ''openfga outbox payload missing relationship tuple fields'')\<lparr>je_permanent := True\<rparr>)
                else Inr \<lparr>rtc_Operation = operation, rtc_Tuple = tuple\<rparr>)"

definition dispatchEvent :: "OutboxDispatcher \<Rightarrow> OutboxEvent \<Rightarrow> job_error option" where
  "dispatchEvent p event =
     (if obx_EventType event = workflowStartOutboxEvent then
        (case od_workflowStart p of
           None \<Rightarrow> Some (errors_New ''outbox dispatcher requires workflow start handler'')
         | Some handle \<Rightarrow>
             (case handle event of
                None \<Rightarrow> None
              | Some e \<Rightarrow>
                  (case je_app e of
                     Some appErr \<Rightarrow> if ae_Status appErr \<ge> 400 \<and> ae_Status appErr < 500
                                    then MarkOutboxErrorPermanent (Some e) else Some e
                   | None \<Rightarrow> Some e)))
      else if isAgentModelSyncEvent (obx_EventType event) then
        (case od_modelSync p of
           None \<Rightarrow> Some (errors_New ''outbox dispatcher requires agent model sync handler'')
         | Some handle \<Rightarrow> handle event)
      else case od_publisher p of
        Some publish \<Rightarrow>
          (case EventSubjectForType (obx_EventType event) of
             Inl e \<Rightarrow> Some (errors_New e)
           | Inr subject \<Rightarrow> publish subject (NewDomainEventEnvelope event))
      | None \<Rightarrow>
          if isOpenFGARelationshipEvent (obx_EventType event) then
            (case od_writer p of
               None \<Rightarrow> Some (errors_New ''outbox dispatcher requires OpenFGA writer for relationship events'')
             | Some write \<Rightarrow>
                 (case relationshipChangeFromOutboxEvent event of
                    Inl e \<Rightarrow> Some e
                  | Inr change \<Rightarrow> write [change]))
          else Some (errors_New (''no handler registered for outbox event type '' @ obx_EventType event)))"

section \<open>Handling a claimed event\<close>

text \<open>\<open>settle\<close> is the event a worker writes back for the error its handler returned.\<close>

definition settle :: "int \<Rightarrow> job_error option \<Rightarrow> OutboxEvent \<Rightarrow> OutboxEvent" where
  "settle now r event =
     (let event = event\<lparr>obx_UpdatedAt := now\<rparr> in
      case r of
        None \<Rightarrow> event\<lparr>obx_Status := OutboxStatusSucceeded, obx_LastError := [],
                  obx_ProcessedAt := Some now, obx_DeadLetteredAt := None\<rparr>
      | Some e \<Rightarrow>
          if je_not_configured e then
            event\<lparr>obx_Status := OutboxStatusPending,
              obx_AttemptCount := (if obx_AttemptCount event > 0 then obx_AttemptCount event - 1
                                   else obx_AttemptCount event),
              obx_NextAttemptAt := now + initialOutboxRetryBackoff,
              obx_ProcessedAt := None, obx_DeadLetteredAt := None,
              obx_LastError := truncateOutboxError (je_text e)\<rparr>
          else if je_permanent e then
            event\<lparr>obx_Status := OutboxStatusParked, obx_ProcessedAt := None, obx_DeadLetteredAt := None,
              obx_LastError := truncateOutboxError (je_text e)\<rparr>
          else
            let event = event\<lparr>obx_RetryCount := obx_RetryCount event + 1,
                  obx_LastError := truncateOutboxError (je_text e)\<rparr>;
                maxAttempts = (case obx_MaxAttempts event of None \<Rightarrow> DefaultOutboxMaxAttempts | Some m \<Rightarrow> m)
            in if maxAttempts > 0 \<and> obx_AttemptCount event \<ge> maxAttempts
               then event\<lparr>obx_Status := OutboxStatusDeadLettered, obx_ProcessedAt := Some now,
                      obx_DeadLetteredAt := Some now\<rparr>
               else event\<lparr>obx_Status := OutboxStatusFailed,
                      obx_NextAttemptAt := now + outboxRetryBackoff (obx_AttemptCount event),
                      obx_ProcessedAt := None, obx_DeadLetteredAt := None\<rparr>)"

definition park :: "int \<Rightarrow> OutboxEvent \<Rightarrow> OutboxEvent" where
  "park now event =
     event\<lparr>obx_Status := OutboxStatusParked,
       obx_LastError := truncateOutboxError (''no handler registered for outbox event type '' @ obx_EventType event),
       obx_UpdatedAt := now, obx_ProcessedAt := None, obx_DeadLetteredAt := None\<rparr>"

definition ErrOutboxClaimLost :: string where
  "ErrOutboxClaimLost = ''outbox claim is no longer owned by this worker''"

definition finalizeClaim :: "outbox \<Rightarrow> OutboxEvent \<Rightarrow> outbox \<times> string option" where
  "finalizeClaim s event =
     (case FinalizeOutboxEvent s event of
        (s, updated) \<Rightarrow>
          (s, if updated then None else Some (ErrOutboxClaimLost @ '': event '' @ obx_ID event)))"

definition processEvent :: "OutboxDispatcher \<Rightarrow> int \<Rightarrow> outbox \<Rightarrow> OutboxEvent \<Rightarrow> outbox \<times> string option" where
  "processEvent p now s event = finalizeClaim s (settle now (dispatchEvent p event) event)"

fun process_batch :: "OutboxDispatcher \<Rightarrow> (OutboxEvent \<Rightarrow> int) \<Rightarrow> OutboxEvent list \<Rightarrow> outbox \<Rightarrow> nat \<Rightarrow>
    outbox \<times> nat \<times> string option" where
  "process_batch p clock [] s processed = (s, processed, None)"
| "process_batch p clock (event # events) s processed =
     (if \<not> isDispatchableEventType p event then
        (case finalizeClaim s (park (clock event) event) of
           (s, Some e) \<Rightarrow> (s, processed, Some e)
         | (s, None) \<Rightarrow> process_batch p clock events s processed)
      else
        (case processEvent p (clock event) s event of
           (s, Some e) \<Rightarrow> (s, processed, Some e)
         | (s, None) \<Rightarrow> process_batch p clock events s (processed + 1)))"

definition ProcessTenant ::
  "OutboxDispatcher \<Rightarrow> int \<Rightarrow> (OutboxEvent \<Rightarrow> int) \<Rightarrow> string \<Rightarrow> OutboxDispatchOptions \<Rightarrow> string \<Rightarrow> outbox \<Rightarrow>
     outbox \<times> nat \<times> string option" where
  "ProcessTenant p claimedAt clock token opts tenantID s =
     (let opts = normalizeOutboxDispatchOptions opts in
      case ClaimOutboxEvents claimedAt s tenantID (odo_BatchSize opts) claimedAt
             (claimedAt + odo_LeaseDuration opts) (od_workerID p) token of
        (s, events) \<Rightarrow> process_batch p clock events s 0)"

text \<open>\<open>claimedAt\<close> and \<open>token\<close> are the clock reading and the new id made for a tenant.\<close>

fun process_tenants :: "OutboxDispatcher \<Rightarrow> (string \<Rightarrow> int) \<Rightarrow> (OutboxEvent \<Rightarrow> int) \<Rightarrow> (string \<Rightarrow> string) \<Rightarrow>
    OutboxDispatchOptions \<Rightarrow> Tenant list \<Rightarrow> outbox \<Rightarrow> nat \<Rightarrow> string list \<Rightarrow> outbox \<times> nat \<times> string list" where
  "process_tenants p claimedAt clock token opts [] s processed errs = (s, processed, errs)"
| "process_tenants p claimedAt clock token opts (tenant # tenants) s processed errs =
     (case ProcessTenant p (claimedAt (tn_ID tenant)) clock (token (tn_ID tenant)) opts (tn_ID tenant) s of
        (s, n, Some e) \<Rightarrow>
          process_tenants p claimedAt clock token opts tenants s processed
            (errs @ [''tenant '' @ tn_ID tenant @ '': '' @ e])
      | (s, n, None) \<Rightarrow> process_tenants p claimedAt clock token opts tenants s (processed + n) errs)"

definition ProcessAllTenants :: "OutboxDispatcher \<Rightarrow> (string \<Rightarrow> int) \<Rightarrow> (OutboxEvent \<Rightarrow> int) \<Rightarrow> (string \<Rightarrow> string) \<Rightarrow>
    OutboxDispatchOptions \<Rightarrow> Tenant list \<Rightarrow> outbox \<Rightarrow> outbox \<times> nat \<times> string list" where
  "ProcessAllTenants p claimedAt clock token opts tenants s =
     process_tenants p claimedAt clock token (normalizeOutboxDispatchOptions opts) tenants s 0 []"

section \<open>Cleaning up\<close>

record OutboxCleanupOptions =
  oco_Interval :: int
  oco_Retention :: int

definition normalizeOutboxCleanupOptions :: "OutboxCleanupOptions \<Rightarrow> OutboxCleanupOptions" where
  "normalizeOutboxCleanupOptions opts =
     (let opts = (if oco_Interval opts \<le> 0 then opts\<lparr>oco_Interval := 24 * 60 * time_Minute\<rparr> else opts)
      in if oco_Retention opts \<le> 0 then opts\<lparr>oco_Retention := 7 * 24 * 60 * time_Minute\<rparr> else opts)"

text \<open>The store of the model never fails to delete, so there is no error to join.\<close>

fun cleanup_tenants :: "int \<Rightarrow> Tenant list \<Rightarrow> outbox \<Rightarrow> nat \<Rightarrow> outbox \<times> nat" where
  "cleanup_tenants cutoff [] s deleted = (s, deleted)"
| "cleanup_tenants cutoff (tenant # tenants) s deleted =
     (case DeleteSucceededOutboxEventsBefore s (tn_ID tenant) cutoff of
        (s, n) \<Rightarrow> cleanup_tenants cutoff tenants s (deleted + n))"

definition CleanupAllTenants :: "int \<Rightarrow> OutboxCleanupOptions \<Rightarrow> Tenant list \<Rightarrow> outbox \<Rightarrow> outbox \<times> nat" where
  "CleanupAllTenants now opts tenants s =
     cleanup_tenants (now - oco_Retention (normalizeOutboxCleanupOptions opts)) tenants s 0"

section \<open>Backoff and truncation\<close>

lemma delays [simp]:
  "0 < initialOutboxRetryBackoff" "0 < maximumOutboxRetryBackoff" "initialOutboxRetryBackoff \<le> maximumOutboxRetryBackoff"
  by (simp_all add: initialOutboxRetryBackoff_def maximumOutboxRetryBackoff_def time_Minute_def time_Second_def)

lemma backoff_loop_closed_form:
  assumes "0 < d" "d \<le> maximumOutboxRetryBackoff"
  shows "backoff_loop n d = min maximumOutboxRetryBackoff (d * 2 ^ n)"
  using assms
proof (induction n arbitrary: d)
  case (Suc n)
  have pow: "(1 :: int) \<le> 2 ^ n" by simp
  show ?case
  proof (cases "d * 2 \<ge> maximumOutboxRetryBackoff")
    case True
    have "d * 2 * 1 \<le> d * 2 * 2 ^ n" using pow Suc.prems by (intro mult_left_mono) auto
    then have "d * 2 \<le> d * 2 ^ Suc n" by (simp add: mult.assoc)
    with True have "maximumOutboxRetryBackoff \<le> d * 2 ^ Suc n" by (rule order.trans)
    then have "min maximumOutboxRetryBackoff (d * 2 ^ Suc n) = maximumOutboxRetryBackoff" by (rule min_absorb1)
    moreover have "backoff_loop (Suc n) d = maximumOutboxRetryBackoff" using True Suc.prems by simp
    ultimately show ?thesis by (rule HOL.trans [OF _ sym, rotated])
  next
    case False
    then have "backoff_loop n (d * 2) = min maximumOutboxRetryBackoff (d * 2 * 2 ^ n)"
      using Suc.prems by (intro Suc.IH) auto
    with False Suc.prems show ?thesis by (simp add: algebra_simps)
  qed
qed simp

text \<open>
  C15.  The doubling loop that stops at the limit computes the exponential backoff: thirty
  seconds times a power of two, never more than ten minutes, for every attempt count.
\<close>

theorem outboxRetryBackoff_closed_form:
  "outboxRetryBackoff attemptCount =
     min maximumOutboxRetryBackoff (initialOutboxRetryBackoff * 2 ^ nat (attemptCount - 1))"
  unfolding outboxRetryBackoff_def by (rule backoff_loop_closed_form) simp_all

lemma outboxRetryBackoff_pos: "0 < outboxRetryBackoff n"
  using backoff_loop_closed_form [of initialOutboxRetryBackoff "nat (n - 1)"]
  by (simp add: outboxRetryBackoff_def)

lemma truncateOutboxError_length: "length (truncateOutboxError text) \<le> maxOutboxErrorLength"
  by (simp add: truncateOutboxError_def Let_def)

text \<open>A cut after five hundred bytes can split a character of several bytes.\<close>

lemma truncateOutboxError_splits_rune:
  "truncateOutboxError (replicate 499 CHR ''a'' @ [CHR 0xE4, CHR 0xB8, CHR 0xAD]) =
     replicate 499 CHR ''a'' @ [CHR 0xE4]"
proof -
  let ?s = "replicate 499 CHR ''a'' @ [CHR 0xE4, CHR 0xB8, CHR 0xAD]"
  have "trim_front space2 space3 ?s = ?s"
    unfolding trim_front_fixed_iff by (simp add: ascii_space_def space2_def space3_def eval_nat_numeral)
  moreover have "trim_front (\<lambda>b a. space2 a b) (\<lambda>c b a. space3 a b c) (rev ?s) = rev ?s"
    unfolding trim_front_fixed_iff by (simp add: ascii_space_def space2_def space3_def)
  ultimately have "TrimSpace ?s = ?s"
    by (simp add: TrimSpace_def trim_left_def trim_right_def)
  then show ?thesis by (simp add: truncateOutboxError_def maxOutboxErrorLength_def Let_def)
qed

section \<open>A batch\<close>

lemma settle_sel [simp]:
  "obx_ID (settle now r e) = obx_ID e" "obx_TenantID (settle now r e) = obx_TenantID e"
  "obx_ClaimToken (settle now r e) = obx_ClaimToken e" "obx_MaxAttempts (settle now r e) = obx_MaxAttempts e"
  "obx_CreatedAt (settle now r e) = obx_CreatedAt e" "obx_UpdatedAt (settle now r e) = now"
  "obx_PayloadVersion (settle now r e) = obx_PayloadVersion e"
  by (simp_all add: settle_def Let_def split: option.split)

lemma park_sel [simp]:
  "obx_ID (park now e) = obx_ID e" "obx_TenantID (park now e) = obx_TenantID e"
  "obx_ClaimToken (park now e) = obx_ClaimToken e" "obx_MaxAttempts (park now e) = obx_MaxAttempts e"
  "obx_CreatedAt (park now e) = obx_CreatedAt e" "obx_UpdatedAt (park now e) = now"
  "obx_PayloadVersion (park now e) = obx_PayloadVersion e" "obx_RetryCount (park now e) = obx_RetryCount e"
  "obx_AttemptCount (park now e) = obx_AttemptCount e" "obx_Status (park now e) = OutboxStatusParked"
  "obx_NextAttemptAt (park now e) = obx_NextAttemptAt e"
  by (simp_all add: park_def)

text \<open>What a worker writes back for an event of its batch.\<close>

definition batch_result :: "OutboxDispatcher \<Rightarrow> (OutboxEvent \<Rightarrow> int) \<Rightarrow> OutboxEvent \<Rightarrow> OutboxEvent" where
  "batch_result p clock e =
     (if isDispatchableEventType p e then settle (clock e) (dispatchEvent p e) e else park (clock e) e)"

lemma batch_result_sel [simp]:
  "obx_ID (batch_result p clock e) = obx_ID e" "obx_TenantID (batch_result p clock e) = obx_TenantID e"
  "obx_ClaimToken (batch_result p clock e) = obx_ClaimToken e"
  by (simp_all add: batch_result_def)

lemma process_batch_Cons:
  "process_batch p clock (e # es) s n =
     (case FinalizeOutboxEvent s (batch_result p clock e) of
        (s', updated) \<Rightarrow>
          if updated then process_batch p clock es s' (if isDispatchableEventType p e then n + 1 else n)
          else (s', n, Some (ErrOutboxClaimLost @ '': event '' @ obx_ID e)))"
  by (simp add: batch_result_def processEvent_def finalizeClaim_def split: prod.split)

lemma process_batch_write_back:
  "obx.write_back (batch_result p clock) es s = (s', ok) \<Longrightarrow>
     fst (process_batch p clock es s n) = s' \<and>
     (ok \<longrightarrow> snd (process_batch p clock es s n) = (n + length (filter (isDispatchableEventType p) es), None))"
proof (induction es arbitrary: s n)
  case (Cons e es)
  obtain s1 updated where f: "FinalizeOutboxEvent s (batch_result p clock e) = (s1, updated)" by fastforce
  show ?case
  proof (cases updated)
    case True
    then have "obx.write_back (batch_result p clock) es s1 = (s', ok)" using Cons.prems f by simp
    from Cons.IH [OF this] True f show ?thesis
      by (simp add: process_batch_Cons del: process_batch.simps)
  next
    case False
    then show ?thesis using Cons.prems f by (simp add: process_batch_Cons del: process_batch.simps)
  qed
qed simp

lemma process_batch_store:
  "fst (process_batch p clock es s n) = fst (obx.write_back (batch_result p clock) es s)"
  using process_batch_write_back [of p clock es s] by (metis prod.collapse)

lemma process_batch_ok:
  assumes "snd (obx.write_back (batch_result p clock) es s)"
  shows "snd (process_batch p clock es s n) = (n + length (filter (isDispatchableEventType p) es), None)"
  using process_batch_write_back [of p clock es s _ True n] assms by (metis prod.collapse)

lemma normalized_options [simp]: "0 < odo_BatchSize (normalizeOutboxDispatchOptions opts)"
  by (simp add: normalizeOutboxDispatchOptions_def Let_def defaultOutboxBatchSize_def)

text \<open>An undisturbed run over a tenant writes the result of every event it claims.\<close>

lemma ProcessTenant_run:
  fixes opts and moment :: int defines "n \<equiv> odo_BatchSize (normalizeOutboxDispatchOptions opts)"
    and "til \<equiv> moment + odo_LeaseDuration (normalizeOutboxDispatchOptions opts)"
  assumes ready: "queue_ready s t" and run: "ProcessTenant p moment clock token opts t s = (s', processed, failure)"
  shows "failure = None"
    and "processed = length (filter (isDispatchableEventType p)
           (map (leased (od_workerID p) token moment til) (picked_events n moment (events_of s t))))"
    and "e \<in> set (picked_events n moment (events_of s t)) \<Longrightarrow>
           released (batch_result p clock (leased (od_workerID p) token moment til e)) \<in> set (events_of s' t)"
proof -
  have n: "0 < n" by (simp add: n_def)
  obtain s1 hs where claim: "ClaimOutboxEvents moment s t n moment til (od_workerID p) token = (s1, hs)" by fastforce
  then have hs: "hs = map (leased (od_workerID p) token moment til) (picked_events n moment (events_of s t))"
    using obq.claim_handed [OF ready n, of moment moment til "od_workerID p" token] by simp
  have batch: "process_batch p clock hs s1 0 = (s', processed, failure)"
    using run claim by (simp add: ProcessTenant_def Let_def n_def til_def)
  have ok: "snd (obx.write_back (batch_result p clock) hs s1)"
    by (rule obq.claim_and_write_back(1) [OF ready n _ claim]) simp
  show "failure = None" "processed = length (filter (isDispatchableEventType p)
           (map (leased (od_workerID p) token moment til) (picked_events n moment (events_of s t))))"
    using process_batch_ok [OF ok, of 0] batch by (simp_all add: hs)
  assume e: "e \<in> set (picked_events n moment (events_of s t))"
  have "released (batch_result p clock (leased (od_workerID p) token moment til e)) \<in>
      set (events_of (fst (obx.write_back (batch_result p clock) hs s1)) t)"
    by (rule obq.claim_and_write_back(2) [OF ready n _ claim e]) simp
  then show "released (batch_result p clock (leased (od_workerID p) token moment til e)) \<in> set (events_of s' t)"
    using process_batch_store [of p clock hs s1 0] batch by simp
qed

end
