(* ===== verification/Outbox_System.thy ===== *)
theory Outbox_System
  imports Outbox_Dispatch
begin

text \<open>
  The outbox with any number of producers, workers, operators and cleaners, as a step relation:
  every step is one store operation, in any interleaving.  A worker holds copies of the events it
  claimed (\<open>sys_held\<close>) and finishes, parks or abandons each of them later; the ids of
  events and claims are fresh, as \<open>utils.NewID\<close> makes them, and clock readings are not
  the zero time.  The invariant of the reachable states gives the properties: leases are fenced,
  attempts stay within their limit, a success is final, and statuses follow one life cycle.
\<close>

section \<open>Steps\<close>

record outbox_sys =
  sys_store :: outbox
  sys_held :: "OutboxEvent set"
  sys_tokens :: "string set"

definition init_outbox :: outbox_sys where
  "init_outbox = \<lparr>sys_store = [], sys_held = {}, sys_tokens = {}\<rparr>"

text \<open>What the producers of the program append: a new id, no attempt made, no claim.\<close>

definition fresh_event :: "outbox \<Rightarrow> OutboxEvent \<Rightarrow> bool" where
  "fresh_event s v \<longleftrightarrow> obx_ID v \<notin> obx_ID ` set (events_of s (obx_TenantID v)) \<and>
     (obx_Status v = [] \<or> obx_Status v = OutboxStatusPending) \<and> obx_ClaimToken v = [] \<and>
     obx_RetryCount v = 0 \<and> obx_AttemptCount v = 0"

inductive outbox_step :: "outbox_sys \<Rightarrow> outbox_sys \<Rightarrow> bool" where
  Append: "fresh_event (sys_store s) v \<Longrightarrow> 0 < now \<Longrightarrow>
    outbox_step s (s\<lparr>sys_store := AppendOutboxEvent now (sys_store s) v\<rparr>)"
| Claim: "token \<notin> sys_tokens s \<Longrightarrow> 0 < now \<Longrightarrow>
    ClaimOutboxEvents now (sys_store s) t limit now til owner token = (st, out) \<Longrightarrow>
    outbox_step s (s\<lparr>sys_store := st, sys_held := sys_held s \<union> set out,
      sys_tokens := insert token (sys_tokens s)\<rparr>)"
| Finish: "h \<in> sys_held s \<Longrightarrow> 0 < now \<Longrightarrow>
    outbox_step s (s\<lparr>sys_store := fst (FinalizeOutboxEvent (sys_store s) (settle now r h)),
      sys_held := sys_held s - {h}\<rparr>)"
| Park: "h \<in> sys_held s \<Longrightarrow> 0 < now \<Longrightarrow>
    outbox_step s (s\<lparr>sys_store := fst (FinalizeOutboxEvent (sys_store s) (park now h)),
      sys_held := sys_held s - {h}\<rparr>)"
| Crash: "h \<in> sys_held s \<Longrightarrow> outbox_step s (s\<lparr>sys_held := sys_held s - {h}\<rparr>)"
| Retry: "0 < now \<Longrightarrow>
    outbox_step s (s\<lparr>sys_store := fst (RetryOutboxEvent (sys_store s) t ident now)\<rparr>)"
| Cleanup: "outbox_step s (s\<lparr>sys_store := fst (DeleteSucceededOutboxEventsBefore (sys_store s) t before)\<rparr>)"

inductive outbox_reachable :: "outbox_sys \<Rightarrow> bool" where
  start: "outbox_reachable init_outbox"
| step: "outbox_reachable s \<Longrightarrow> outbox_step s s' \<Longrightarrow> outbox_reachable s'"

inductive_cases outbox_stepE [elim]: "outbox_step s s'"
inductive_simps outbox_reachable_init: "outbox_reachable init_outbox"

section \<open>The invariant\<close>

definition attempts_within :: "OutboxEvent \<Rightarrow> bool" where
  "attempts_within e = (case obx_MaxAttempts e of None \<Rightarrow> True | Some m \<Rightarrow> m > 0 \<longrightarrow> obx_AttemptCount e \<le> m)"

definition has_token :: "string set \<Rightarrow> OutboxEvent \<Rightarrow> bool" where
  "has_token ks e \<longleftrightarrow> (\<exists>k \<in> ks. obx_ClaimToken e = k @ '':'' @ obx_ID e)"

definition lease_ok :: "string set \<Rightarrow> OutboxEvent \<Rightarrow> bool" where
  "lease_ok ks e \<longleftrightarrow> obx_Status e = OutboxStatusProcessing \<and> has_token ks e \<and>
     obx_ClaimExpiresAt e \<noteq> None \<and> obx_RetryCount e < obx_AttemptCount e"

definition event_ok :: "string set \<Rightarrow> OutboxEvent \<Rightarrow> bool" where
  "event_ok ks e \<longleftrightarrow> obx_wf e \<and> attempts_within e \<and>
     (if obx_Status e = OutboxStatusProcessing then lease_ok ks e else obx_ClaimToken e = [])"

definition held_ok :: "string set \<Rightarrow> OutboxEvent \<Rightarrow> bool" where
  "held_ok ks h \<longleftrightarrow> event_ok ks h \<and> obx_Status h = OutboxStatusProcessing"

text \<open>A stored event under the claim of a held copy is that copy.\<close>

definition coherent :: "outbox_sys \<Rightarrow> bool" where
  "coherent s \<longleftrightarrow> (\<forall>h \<in> sys_held s. \<forall>e \<in> set (events_of (sys_store s) (obx_TenantID h)).
     holds_claim h e \<longrightarrow> e = h)"

definition held_unique :: "outbox_sys \<Rightarrow> bool" where
  "held_unique s \<longleftrightarrow> (\<forall>h \<in> sys_held s. \<forall>g \<in> sys_held s.
     obx_TenantID g = obx_TenantID h \<and> obx_ID g = obx_ID h \<and> obx_ClaimToken g = obx_ClaimToken h \<longrightarrow> g = h)"

definition store_ok :: "string set \<Rightarrow> outbox \<Rightarrow> bool" where
  "store_ok ks st \<longleftrightarrow> (\<forall>t. distinct (map obx_ID (events_of st t)) \<and>
     (\<forall>e \<in> set (events_of st t). obx_TenantID e = t \<and> event_ok ks e))"

definition outbox_inv :: "outbox_sys \<Rightarrow> bool" where
  "outbox_inv s \<longleftrightarrow> store_ok (sys_tokens s) (sys_store s) \<and> (\<forall>h \<in> sys_held s. held_ok (sys_tokens s) h) \<and>
     coherent s \<and> held_unique s"

lemma store_ok_queue_ready: "store_ok ks st \<Longrightarrow> queue_ready st t"
  by (simp add: store_ok_def queue_ready_def event_ok_def)

lemma has_token_mono: "has_token ks e \<Longrightarrow> ks \<subseteq> ks' \<Longrightarrow> has_token ks' e"
  by (auto simp: has_token_def)

lemma event_ok_mono: "event_ok ks e \<Longrightarrow> ks \<subseteq> ks' \<Longrightarrow> event_ok ks' e"
  by (auto simp: event_ok_def lease_ok_def intro: has_token_mono)

lemma has_token_nonempty: "has_token ks e \<Longrightarrow> obx_ClaimToken e \<noteq> []"
  by (auto simp: has_token_def)

text \<open>A fresh claim id makes a token no event carries.\<close>

lemma fresh_token:
  assumes "has_token ks e" "k \<notin> ks" "obx_ID e = i"
  shows "obx_ClaimToken e \<noteq> k @ '':'' @ i"
  using assms by (auto simp: has_token_def)

subsection \<open>Events keep well formed\<close>

lemma normalize_defaults:
  "obx_PayloadVersion (normalizeMemoryOutboxEvent now v) > 0"
  "obx_CreatedAt (normalizeMemoryOutboxEvent now v) = (if obx_CreatedAt v = 0 then now else obx_CreatedAt v)"
  "obx_NextAttemptAt (normalizeMemoryOutboxEvent now v) =
     (if obx_NextAttemptAt v = 0 then (if obx_CreatedAt v = 0 then now else obx_CreatedAt v) else obx_NextAttemptAt v)"
  "obx_UpdatedAt (normalizeMemoryOutboxEvent now v) =
     (if obx_UpdatedAt v = 0 then (if obx_CreatedAt v = 0 then now else obx_CreatedAt v) else obx_UpdatedAt v)"
  "obx_AttemptCount (normalizeMemoryOutboxEvent now v) =
     (if obx_AttemptCount v = 0 \<and> obx_RetryCount v > 0 then obx_RetryCount v else obx_AttemptCount v)"
  "obx_MaxAttempts (normalizeMemoryOutboxEvent now v) \<noteq> None"
  by (simp_all add: normalizeMemoryOutboxEvent_def Let_def split: option.split)

lemma event_ok_append:
  assumes "fresh_event st v" "0 < now"
  shows "event_ok ks (normalizeMemoryOutboxEvent now v)"
proof -
  have "obx_Status v \<noteq> OutboxStatusProcessing"
    using assms by (auto simp: fresh_event_def outbox_status_defs)
  then show ?thesis
    using assms normalize_defaults [of now v]
    by (simp add: event_ok_def fresh_event_def obx_wf_def attempts_within_def split: option.split)
qed

lemma event_ok_leased:
  assumes "event_ok ks e" "claimable moment e" "0 < moment"
  shows "held_ok (insert k ks) (leased ow k moment til e)"
  using assms
  by (auto simp: held_ok_def event_ok_def obx_wf_def lease_ok_def attempts_within_def claimable_def
      attempts_exhausted_def has_token_def split: option.splits if_splits)

lemma settle_cases:
  obtains
    (succeeded) "obx_Status (settle now r h) = OutboxStatusSucceeded"
       "obx_AttemptCount (settle now r h) = obx_AttemptCount h" "obx_RetryCount (settle now r h) = obx_RetryCount h"
       "obx_NextAttemptAt (settle now r h) = obx_NextAttemptAt h"
  | (postponed) "obx_Status (settle now r h) = OutboxStatusPending"
       "obx_AttemptCount (settle now r h) = (if obx_AttemptCount h > 0 then obx_AttemptCount h - 1 else obx_AttemptCount h)"
       "obx_RetryCount (settle now r h) = obx_RetryCount h"
       "obx_NextAttemptAt (settle now r h) = now + initialOutboxRetryBackoff"
  | (parked) "obx_Status (settle now r h) = OutboxStatusParked"
       "obx_AttemptCount (settle now r h) = obx_AttemptCount h" "obx_RetryCount (settle now r h) = obx_RetryCount h"
       "obx_NextAttemptAt (settle now r h) = obx_NextAttemptAt h"
  | (dead) "obx_Status (settle now r h) = OutboxStatusDeadLettered"
       "obx_AttemptCount (settle now r h) = obx_AttemptCount h" "obx_RetryCount (settle now r h) = obx_RetryCount h + 1"
       "obx_NextAttemptAt (settle now r h) = obx_NextAttemptAt h"
  | (failed) "obx_Status (settle now r h) = OutboxStatusFailed"
       "obx_AttemptCount (settle now r h) = obx_AttemptCount h" "obx_RetryCount (settle now r h) = obx_RetryCount h + 1"
       "obx_NextAttemptAt (settle now r h) = now + outboxRetryBackoff (obx_AttemptCount h)"
proof (cases r)
  case None
  then show thesis by (intro succeeded) (simp_all add: settle_def)
next
  case (Some e)
  let ?m = "case obx_MaxAttempts h of None \<Rightarrow> DefaultOutboxMaxAttempts | Some m \<Rightarrow> m"
  show thesis
  proof (cases "je_not_configured e")
    case True
    with Some show thesis by (intro postponed) (simp_all add: settle_def Let_def)
  next
    case not_postponed: False
    show thesis
    proof (cases "je_permanent e")
      case True
      with Some not_postponed show thesis by (intro parked) (simp_all add: settle_def Let_def)
    next
      case not_parked: False
      show thesis
      proof (cases "?m > 0 \<and> obx_AttemptCount h \<ge> ?m")
        case True
        with Some not_postponed not_parked show thesis by (intro dead) (simp_all add: settle_def Let_def)
      next
        case False
        with Some not_postponed not_parked show thesis by (intro failed) (auto simp: settle_def Let_def)
      qed
    qed
  qed
qed

definition settled_status :: "string \<Rightarrow> bool" where
  "settled_status st \<longleftrightarrow> st = OutboxStatusSucceeded \<or> st = OutboxStatusPending \<or> st = OutboxStatusParked \<or>
     st = OutboxStatusDeadLettered \<or> st = OutboxStatusFailed"

lemma settle_status: "settled_status (obx_Status (settle now r h))"
  by (cases rule: settle_cases [of now r h]) (simp_all add: settled_status_def)

lemma settled_status_simps:
  "settled_status st \<Longrightarrow> st \<noteq> OutboxStatusProcessing \<and> st \<noteq> []"
  by (auto simp: settled_status_def outbox_status_defs)

lemma event_ok_released:
  assumes "held_ok ks h" "settled_status (obx_Status v)" "obx_MaxAttempts v = obx_MaxAttempts h"
    "obx_CreatedAt v = obx_CreatedAt h" "obx_PayloadVersion v = obx_PayloadVersion h" "obx_UpdatedAt v \<noteq> 0"
    "obx_NextAttemptAt v \<noteq> 0" "obx_AttemptCount v \<le> obx_AttemptCount h"
    "obx_RetryCount v \<le> obx_AttemptCount v" "0 \<le> obx_RetryCount v"
  shows "event_ok ks (released v)"
  using assms settled_status_simps [OF assms(2)]
  by (auto simp: held_ok_def event_ok_def obx_wf_def attempts_within_def split: option.splits)

lemma event_ok_settled:
  assumes h: "held_ok ks h" and now: "0 < now"
  shows "event_ok ks (released (settle now r h))"
proof -
  have *: "0 \<le> obx_RetryCount h" "obx_RetryCount h < obx_AttemptCount h" "obx_NextAttemptAt h \<noteq> 0"
    using h by (auto simp: held_ok_def event_ok_def lease_ok_def obx_wf_def)
  have "0 < now + outboxRetryBackoff n" "0 < now + initialOutboxRetryBackoff" for n
    using now outboxRetryBackoff_pos [of n] delays(1) by linarith+
  then have "obx_NextAttemptAt (settle now r h) \<noteq> 0"
      "obx_AttemptCount (settle now r h) \<le> obx_AttemptCount h"
      "obx_RetryCount (settle now r h) \<le> obx_AttemptCount (settle now r h)"
      "0 \<le> obx_RetryCount (settle now r h)"
    using * by (atomize(full), cases rule: settle_cases [of now r h]) (simp_all add: less_imp_neq [symmetric])
  then show ?thesis
    using now by (intro event_ok_released [OF h settle_status]) simp_all
qed

lemma event_ok_parked:
  assumes "held_ok ks h" "0 < now"
  shows "event_ok ks (released (park now h))"
  using assms
  by (intro event_ok_released [OF assms(1)])
    (auto simp: settled_status_def held_ok_def event_ok_def lease_ok_def obx_wf_def)

lemma event_ok_reset:
  assumes "event_ok ks e" "0 < now"
  shows "event_ok ks (reset_event now e)"
  using assms by (auto simp: event_ok_def obx_wf_def attempts_within_def split: option.splits)

subsection \<open>Every step keeps the invariant\<close>

lemma store_ok_put:
  assumes "store_ok ks st" "distinct (map obx_ID es)" "\<forall>e \<in> set es. obx_TenantID e = t \<and> event_ok ks e"
  shows "store_ok ks (map_put t es st)"
  using assms by (simp add: store_ok_def)

lemma store_ok_mono: "store_ok ks st \<Longrightarrow> ks \<subseteq> ks' \<Longrightarrow> store_ok ks' st"
  using event_ok_mono by (fastforce simp: store_ok_def)

lemma store_okD:
  "store_ok ks st \<Longrightarrow> distinct (map obx_ID (events_of st t))"
  "store_ok ks st \<Longrightarrow> e \<in> set (events_of st t) \<Longrightarrow> obx_TenantID e = t \<and> event_ok ks e"
  by (auto simp: store_ok_def)

text \<open>The events after each operation.\<close>

lemma events_Append:
  assumes "store_ok ks st"
  shows "events_of (AppendOutboxEvent now st v) t = events_of st t \<or>
    t = obx_TenantID v \<and> events_of (AppendOutboxEvent now st v) t =
      events_of st t @ [normalizeMemoryOutboxEvent now v]"
  by (simp add: AppendOutboxEvent_def Let_def)

lemma events_Finalize:
  assumes st: "store_ok ks st"
  shows "events_of (fst (FinalizeOutboxEvent st v)) t = events_of st t \<or>
    t = obx_TenantID v \<and> (\<exists>e \<in> set (events_of st t). holds_claim v e) \<and>
      events_of (fst (FinalizeOutboxEvent st v)) t = replace_event (released v) (events_of st t)"
proof (cases "\<exists>e \<in> set (events_of st (obx_TenantID v)). holds_claim v e")
  case True
  then show ?thesis
    using obx.finalize_hit [of st v] obx.finalize_other [of t v st] store_okD(1) [OF st] by blast
next
  case False
  then show ?thesis using obx.finalize_miss [of st v] by simp
qed

lemma events_Retry:
  assumes "store_ok ks st"
  shows "events_of (fst (RetryOutboxEvent st t ident now)) t' = events_of st t' \<or>
    t' = t \<and> (\<exists>e \<in> set (events_of st t). retryable e \<and>
      events_of (fst (RetryOutboxEvent st t ident now)) t = replace_event (reset_event now e) (events_of st t))"
proof (cases "index_of (\<lambda>e. obx_ID e = ident) (events_of st t)")
  case None
  then show ?thesis by (simp add: RetryOutboxEvent_def)
next
  case (Some i)
  note moment = index_of_Some [OF this]
  have "(events_of st t)[i := reset_event now (events_of st t ! i)] =
      replace_event (reset_event now (events_of st t ! i)) (events_of st t)"
    using moment store_okD(1) [OF assms] by (intro update_by_id) simp_all
  with Some moment show ?thesis by (auto simp: RetryOutboxEvent_def Let_def)
qed

lemma events_Cleanup:
  "events_of (fst (DeleteSucceededOutboxEventsBefore st t before)) t' =
     (if t' = t then filter (\<lambda>v. \<not> (obx_Status v = OutboxStatusSucceeded \<and> obx_CreatedAt v < before)) (events_of st t)
      else events_of st t')"
  by (simp add: DeleteSucceededOutboxEventsBefore_def Let_def OutboxStatusSucceeded_def)

lemma events_Claim:
  assumes "store_ok ks st" "ClaimOutboxEvents now st t limit moment til ow k = (st', out)" "0 < limit"
  shows "events_of st' t' = (if t' = t then lease_picked (leased ow k moment til) (picked_events limit moment (events_of st t)) (events_of st t)
           else events_of st t')"
    and "out = map (leased ow k moment til) (picked_events limit moment (events_of st t))"
proof -
  have "(st', out) =
      (map_put t (lease_picked (leased ow k moment til) (picked_events limit moment (events_of st t)) (events_of st t)) st,
       map (leased ow k moment til) (picked_events limit moment (events_of st t)))"
    using claim_ready_eq [OF store_ok_queue_ready [OF assms(1)] assms(3), of now t moment til ow k] assms(2) by simp
  then have "st' = map_put t (lease_picked (leased ow k moment til) (picked_events limit moment (events_of st t)) (events_of st t)) st"
    and out: "out = map (leased ow k moment til) (picked_events limit moment (events_of st t))" by auto
  then show "events_of st' t' = (if t' = t then lease_picked (leased ow k moment til) (picked_events limit moment (events_of st t)) (events_of st t)
      else events_of st t')" by simp
  show "out = map (leased ow k moment til) (picked_events limit moment (events_of st t))" by (rule out)
qed

lemma claim_no_limit: "limit \<le> 0 \<Longrightarrow> ClaimOutboxEvents now st t limit moment til ow k = (st, [])"
  by (simp add: ClaimOutboxEvents_def)

lemma store_ok_pointwise:
  assumes "\<And>t. distinct (map obx_ID (events_of st t))"
    and "\<And>t e. e \<in> set (events_of st t) \<Longrightarrow> obx_TenantID e = t \<and> event_ok ks e"
  shows "store_ok ks st"
  using assms by (simp add: store_ok_def)

lemma store_ok_replace:
  assumes st: "store_ok ks st" and v: "obx_TenantID v = t" "event_ok ks v"
    and st': "\<And>t'. events_of st' t' = events_of st t' \<or> t' = t \<and> events_of st' t = replace_event v (events_of st t)"
  shows "store_ok ks st'"
proof (rule store_ok_pointwise)
  fix t'
  show "distinct (map obx_ID (events_of st' t'))"
    using st' [of t'] store_okD(1) [OF st] by (metis replace_event_ids)
  fix e assume "e \<in> set (events_of st' t')"
  then show "obx_TenantID e = t' \<and> event_ok ks e"
    using st' [of t'] store_okD(2) [OF st] v set_replace_event [of e v] by metis
qed

lemma store_ok_Append:
  assumes "store_ok ks st" "fresh_event st v" "0 < now"
  shows "store_ok ks (AppendOutboxEvent now st v)"
proof (rule store_ok_pointwise)
  fix t
  have new: "obx_ID v \<notin> obx_ID ` set (events_of st (obx_TenantID v))"
    using assms(2) by (simp add: fresh_event_def)
  show "distinct (map obx_ID (events_of (AppendOutboxEvent now st v) t))"
    using events_Append [OF assms(1), of now v t] store_okD(1) [OF assms(1), of t] new by auto
  fix e assume "e \<in> set (events_of (AppendOutboxEvent now st v) t)"
  then show "obx_TenantID e = t \<and> event_ok ks e"
    using events_Append [OF assms(1), of now v t] store_okD(2) [OF assms(1)] event_ok_append [OF assms(2,3)] by auto
qed

lemma store_ok_Claim:
  assumes "store_ok ks st" "ClaimOutboxEvents now st t limit now til ow k = (st', out)" "0 < now"
  shows "store_ok (insert k ks) st'"
proof (cases "0 < limit")
  case True
  note ev = events_Claim(1) [OF assms(1,2) True]
  show ?thesis
  proof (rule store_ok_pointwise)
    fix t'
    show "distinct (map obx_ID (events_of st' t'))"
      using store_okD(1) [OF assms(1)] by (simp add: ev)
    fix e assume "e \<in> set (events_of st' t')"
    then consider "e \<in> set (events_of st t')"
      | e0 where "t' = t" "e0 \<in> set (picked_events limit now (events_of st t))" "e = leased ow k now til e0"
      unfolding ev lease_picked_def by (auto split: if_splits)
    then show "obx_TenantID e = t' \<and> event_ok (insert k ks) e"
    proof cases
      case 1
      then show ?thesis using store_okD(2) [OF assms(1)] event_ok_mono by blast
    next
      case 2
      from picked_subset [OF 2(2)] have "e0 \<in> set (events_of st t)" "claimable now e0" by auto
      then show ?thesis
        using event_ok_leased [of ks e0 now k ow til] store_okD(2) [OF assms(1)] assms(3) 2
        by (simp add: held_ok_def)
    qed
  qed
next
  case False
  then have "st' = st" using claim_no_limit [of limit now st t now til ow k] assms(2) by simp
  then show ?thesis using store_ok_mono [OF assms(1)] by blast
qed

lemma store_ok_Finalize:
  assumes "store_ok ks st" "event_ok ks (released v)"
  shows "store_ok ks (fst (FinalizeOutboxEvent st v))"
  using assms(2) events_Finalize [OF assms(1), of v]
  by (intro store_ok_replace [OF assms(1), of "released v" "obx_TenantID v"]) auto

lemma store_ok_Retry:
  assumes "store_ok ks st" "0 < now"
  shows "store_ok ks (fst (RetryOutboxEvent st t ident now))"
proof (cases "\<forall>t'. events_of (fst (RetryOutboxEvent st t ident now)) t' = events_of st t'")
  case True
  then show ?thesis using assms(1) by (simp add: store_ok_def)
next
  case False
  then obtain e where e: "e \<in> set (events_of st t)"
    and ev: "events_of (fst (RetryOutboxEvent st t ident now)) t = replace_event (reset_event now e) (events_of st t)"
    using events_Retry [OF assms(1), of t ident now] by metis
  have "t' \<noteq> t \<Longrightarrow> events_of (fst (RetryOutboxEvent st t ident now)) t' = events_of st t'" for t'
    using events_Retry [OF assms(1), of t ident now t'] by blast
  then show ?thesis
    using e ev store_okD(2) [OF assms(1) e] event_ok_reset [of ks e now] assms(2)
    by (intro store_ok_replace [OF assms(1), of "reset_event now e" t]) auto
qed

lemma store_ok_Cleanup:
  "store_ok ks st \<Longrightarrow> store_ok ks (fst (DeleteSucceededOutboxEventsBefore st t before))"
  by (auto simp: store_ok_def events_Cleanup distinct_map_filter)

text \<open>A step that leases nothing keeps the copies and the store in agreement.\<close>

definition leases_nothing :: "outbox \<Rightarrow> outbox \<Rightarrow> bool" where
  "leases_nothing st st' \<longleftrightarrow> (\<forall>t. \<forall>e \<in> set (events_of st' t).
     e \<in> set (events_of st t) \<or> obx_Status e \<noteq> OutboxStatusProcessing)"

lemma leases_nothing_refl [simp]: "leases_nothing st st"
  by (simp add: leases_nothing_def)

lemma leases_nothing_replace:
  assumes "\<And>t'. events_of st' t' = events_of st t' \<or> t' = t \<and> events_of st' t = replace_event v (events_of st t)"
    and "obx_Status v \<noteq> OutboxStatusProcessing"
  shows "leases_nothing st st'"
  unfolding leases_nothing_def using assms set_replace_event by metis

lemma leases_nothing_Append:
  assumes "store_ok ks st" "fresh_event st v"
  shows "leases_nothing st (AppendOutboxEvent now st v)"
proof -
  have "obx_Status v \<noteq> OutboxStatusProcessing"
    using assms(2) by (auto simp: fresh_event_def outbox_status_defs)
  then have "obx_Status (normalizeMemoryOutboxEvent now v) \<noteq> OutboxStatusProcessing" by simp
  then show ?thesis
    unfolding leases_nothing_def using events_Append [OF assms(1), of now v]
    by (metis Un_iff empty_iff insert_iff list.simps(15) set_append set_empty)
qed

lemma leases_nothing_Finalize:
  assumes "store_ok ks st" "obx_Status v \<noteq> OutboxStatusProcessing"
  shows "leases_nothing st (fst (FinalizeOutboxEvent st v))"
  using assms events_Finalize [OF assms(1), of v]
  by (intro leases_nothing_replace [of _ _ "obx_TenantID v" "released v"]) auto

lemma leases_nothing_Retry:
  assumes "store_ok ks st"
  shows "leases_nothing st (fst (RetryOutboxEvent st t ident now))"
  unfolding leases_nothing_def
proof (intro allI ballI)
  fix t' e assume "e \<in> set (events_of (fst (RetryOutboxEvent st t ident now)) t')"
  then show "e \<in> set (events_of st t') \<or> obx_Status e \<noteq> OutboxStatusProcessing"
    using events_Retry [OF assms, of t ident now t'] set_replace_event by fastforce
qed

lemma leases_nothing_Cleanup:
  "leases_nothing st (fst (DeleteSucceededOutboxEventsBefore st t before))"
  by (auto simp: leases_nothing_def events_Cleanup)

lemma coherent_leases_nothing:
  assumes "coherent s" "leases_nothing (sys_store s) st'" "held \<subseteq> sys_held s"
  shows "coherent (s\<lparr>sys_store := st', sys_held := held\<rparr>)"
  using assms unfolding coherent_def leases_nothing_def
  by (simp add: holds_claim_def) (metis subsetD)

lemma held_unique_subset:
  "held_unique s \<Longrightarrow> held \<subseteq> sys_held s \<Longrightarrow> held_unique (s\<lparr>sys_store := st', sys_held := held\<rparr>)"
  by (auto simp: held_unique_def)

lemma outbox_inv_leases_nothing:
  assumes "outbox_inv s" "store_ok (sys_tokens s) st'" "leases_nothing (sys_store s) st'" "held \<subseteq> sys_held s"
  shows "outbox_inv (s\<lparr>sys_store := st', sys_held := held\<rparr>)"
  using assms coherent_leases_nothing [of s st' held] held_unique_subset [of s held st']
  by (auto simp: outbox_inv_def)

text \<open>A claim hands out copies of what it stores, under tokens no copy and no row has yet.\<close>

lemma held_has_token: "held_ok ks h \<Longrightarrow> has_token ks h"
  by (auto simp: held_ok_def event_ok_def lease_ok_def)

lemma outbox_inv_Claim:
  assumes inv: "outbox_inv s" and fresh: "k \<notin> sys_tokens s" and now: "0 < now"
    and claim: "ClaimOutboxEvents now (sys_store s) t limit now til ow k = (st', out)"
  shows "outbox_inv (s\<lparr>sys_store := st', sys_held := sys_held s \<union> set out,
    sys_tokens := insert k (sys_tokens s)\<rparr>)"
proof (cases "0 < limit")
  case False
  then have st': "st' = sys_store s" and out: "out = []"
    using claim_no_limit [of limit now "sys_store s" t now til ow k] claim by auto
  from inv show ?thesis
    unfolding st' out outbox_inv_def coherent_def held_unique_def held_ok_def
    by (auto intro: store_ok_mono event_ok_mono)
next
  case True
  let ?st = "sys_store s" and ?ks = "sys_tokens s"
  let ?es = "events_of ?st t" and ?lease = "leased ow k now til"
  have store: "store_ok ?ks ?st" and held: "\<And>h. h \<in> sys_held s \<Longrightarrow> held_ok ?ks h"
    and coh: "coherent s" and uniq: "held_unique s" using inv by (auto simp: outbox_inv_def)
  note ev = events_Claim(1) [OF store claim True] and out = events_Claim(2) [OF store claim True]
  have new: "\<exists>e0 \<in> set ?es. claimable now e0 \<and> h = ?lease e0" if "h \<in> set out" for h
  proof -
    from that obtain e0 where "e0 \<in> set (picked_events limit now ?es)" "h = ?lease e0" by (auto simp: out)
    with picked_subset [OF this(1)] show ?thesis by blast
  qed
  have old: "obx_ClaimToken h \<noteq> k @ '':'' @ obx_ID h" if "h \<in> sys_held s" for h
    using fresh_token [OF held_has_token [OF held [OF that]] fresh] by blast
  have row: "obx_ClaimToken e \<noteq> k @ '':'' @ obx_ID e" if "e \<in> set (events_of ?st t')" "obx_Status e = OutboxStatusProcessing" for t' e
  proof -
    have "has_token ?ks e" using store_okD(2) [OF store that(1)] that(2) by (simp add: event_ok_def lease_ok_def)
    then show ?thesis using fresh_token fresh by blast
  qed
  have "coherent (s\<lparr>sys_store := st', sys_held := sys_held s \<union> set out, sys_tokens := insert k ?ks\<rparr>)"
    unfolding coherent_def
  proof (intro ballI impI, simp)
    fix h e assume h: "h \<in> sys_held s \<or> h \<in> set out"
      and e: "e \<in> set (events_of st' (obx_TenantID h))" and claimed: "holds_claim h e"
    from e consider "e \<in> set (events_of ?st (obx_TenantID h))"
      | e1 where "obx_TenantID h = t" "e1 \<in> set ?es" "e = ?lease e1"
      by (auto simp: ev lease_picked_def split: if_splits)
    then show "e = h"
    proof cases
      case 1
      from claimed have eq: "obx_ID e = obx_ID h" "obx_Status e = OutboxStatusProcessing"
        "obx_ClaimToken e = obx_ClaimToken h" by (auto simp: holds_claim_def)
      with row [OF 1] have "h \<notin> set out" using new [of h] by auto
      then show ?thesis using h 1 claimed coh by (auto simp: coherent_def)
    next
      case 2
      from claimed 2 have eq: "obx_ID h = obx_ID e1" "obx_ClaimToken h = k @ '':'' @ obx_ID e1"
        by (auto simp: holds_claim_def)
      then have "h \<in> set out" using old [of h] h by auto
      with new obtain e0 where "e0 \<in> set ?es" "h = ?lease e0" by blast
      with 2 eq show ?thesis using distinct_ids_eq [OF store_okD(1) [OF store], of e0 t e1] by simp
    qed
  qed
  moreover have "held_unique (s\<lparr>sys_store := st', sys_held := sys_held s \<union> set out, sys_tokens := insert k ?ks\<rparr>)"
    unfolding held_unique_def
  proof (intro ballI impI, simp, elim conjE)
    fix h g assume mem: "h \<in> sys_held s \<or> h \<in> set out" "g \<in> sys_held s \<or> g \<in> set out"
      and eq: "obx_TenantID g = obx_TenantID h" "obx_ID g = obx_ID h" "obx_ClaimToken g = obx_ClaimToken h"
    have tok: "x \<in> set out \<longleftrightarrow> obx_ClaimToken x = k @ '':'' @ obx_ID x"
      if "x \<in> sys_held s \<or> x \<in> set out" for x
      using that new [of x] old [of x] by auto
    show "g = h"
    proof (cases "g \<in> set out")
      case True
      with tok [OF mem(1)] tok [OF mem(2)] eq have "h \<in> set out" by simp
      with True new [of g] new [of h] obtain e0 e1
        where "e0 \<in> set ?es" "g = ?lease e0" "e1 \<in> set ?es" "h = ?lease e1" by blast
      then show ?thesis using eq(2) distinct_ids_eq [OF store_okD(1) [OF store], of e0 t e1] by simp
    next
      case False
      with tok [OF mem(1)] tok [OF mem(2)] eq have "h \<notin> set out" by simp
      with False mem eq uniq show ?thesis by (auto simp: held_unique_def)
    qed
  qed
  moreover have "held_ok (insert k ?ks) h" if "h \<in> sys_held s \<union> set out" for h
  proof -
    from that consider "h \<in> sys_held s" | "h \<in> set out" by blast
    then show ?thesis
    proof cases
      case 1
      with held [of h] show ?thesis by (auto simp: held_ok_def intro: event_ok_mono)
    next
      case 2
      with new obtain e0 where "e0 \<in> set ?es" "claimable now e0" "h = ?lease e0" by blast
      then show ?thesis using event_ok_leased [of ?ks e0 now] store_okD(2) [OF store] now by simp
    qed
  qed
  ultimately show ?thesis
    using store_ok_Claim [OF store claim now] by (simp add: outbox_inv_def)
qed

lemma outbox_inv_step:
  assumes "outbox_step s s'" "outbox_inv s"
  shows "outbox_inv s'"
  using assms
proof (induction rule: outbox_step.induct)
  case (Append s v now)
  then have "store_ok (sys_tokens s) (sys_store s)" by (simp add: outbox_inv_def)
  with Append show ?case
    using outbox_inv_leases_nothing [OF Append.prems, of _ "sys_held s"]
      store_ok_Append leases_nothing_Append by simp
next
  case (Claim token s now t limit til owner st out)
  then show ?case using outbox_inv_Claim by blast
next
  case (Finish h s now r)
  then have st: "store_ok (sys_tokens s) (sys_store s)" and h: "held_ok (sys_tokens s) h"
    by (auto simp: outbox_inv_def)
  have "obx_Status (settle now r h) \<noteq> OutboxStatusProcessing"
    using settle_status settled_status_simps by blast
  then show ?case
    using store_ok_Finalize [OF st event_ok_settled [OF h Finish.hyps(2)]] leases_nothing_Finalize [OF st]
    by (intro outbox_inv_leases_nothing [OF Finish.prems]) auto
next
  case (Park h s now)
  then have st: "store_ok (sys_tokens s) (sys_store s)" and h: "held_ok (sys_tokens s) h"
    by (auto simp: outbox_inv_def)
  then show ?case
    using store_ok_Finalize [OF st event_ok_parked [OF h Park.hyps(2)]] leases_nothing_Finalize [OF st]
    by (intro outbox_inv_leases_nothing [OF Park.prems]) auto
next
  case (Crash h s)
  then show ?case
    using outbox_inv_leases_nothing [OF Crash.prems, of "sys_store s" "sys_held s - {h}"]
    by (simp add: outbox_inv_def)
next
  case (Retry now s t ident)
  then have "store_ok (sys_tokens s) (sys_store s)" by (simp add: outbox_inv_def)
  then show ?case
    using outbox_inv_leases_nothing [OF Retry.prems, of _ "sys_held s"] store_ok_Retry Retry.hyps
      leases_nothing_Retry by simp
next
  case (Cleanup s t before)
  then have "store_ok (sys_tokens s) (sys_store s)" by (simp add: outbox_inv_def)
  then show ?case
    using outbox_inv_leases_nothing [OF Cleanup.prems, of _ "sys_held s"] store_ok_Cleanup
      leases_nothing_Cleanup by simp
qed

lemma outbox_inv_reachable: "outbox_reachable s \<Longrightarrow> outbox_inv s"
proof (induction rule: outbox_reachable.induct)
  case start
  show ?case
    by (simp add: outbox_inv_def init_outbox_def store_ok_def coherent_def held_unique_def)
next
  case (step s s')
  then show ?case using outbox_inv_step by blast
qed

section \<open>Properties\<close>

text \<open>
  C10.  In every reachable state, whatever the interleaving of producers, workers, retries and
  cleaners: the events of a tenant have distinct ids and belong to it, none was attempted more
  often than its limit allows, and an event carries a claim token exactly while it is being
  processed.
\<close>

theorem outbox_reachable_invariant:
  assumes "outbox_reachable s" and "e \<in> set (events_of (sys_store s) t)"
  shows "distinct (map obx_ID (events_of (sys_store s) t)) \<and> obx_TenantID e = t \<and>
    (\<forall>m. obx_MaxAttempts e = Some m \<and> m > 0 \<longrightarrow> obx_AttemptCount e \<le> m) \<and>
    (obx_Status e = OutboxStatusProcessing \<longleftrightarrow> obx_ClaimToken e \<noteq> [])"
proof -
  have st: "store_ok (sys_tokens s) (sys_store s)"
    using outbox_inv_reachable [OF assms(1)] by (simp add: outbox_inv_def)
  have "event_ok (sys_tokens s) e" using store_okD(2) [OF st assms(2)] by blast
  then have "attempts_within e" "obx_Status e = OutboxStatusProcessing \<longleftrightarrow> obx_ClaimToken e \<noteq> []"
    by (auto simp: event_ok_def lease_ok_def dest: has_token_nonempty split: if_splits)
  then show ?thesis
    using store_okD [OF st] assms(2) by (auto simp: attempts_within_def)
qed

text \<open>A copy that is the stored event can write its result back; any other copy writes nothing.\<close>

lemma write_back_cases:
  assumes "outbox_reachable s" "h \<in> sys_held s"
    and w: "obx_ID w = obx_ID h" "obx_TenantID w = obx_TenantID h" "obx_ClaimToken w = obx_ClaimToken h"
  shows "if h \<in> set (events_of (sys_store s) (obx_TenantID h)) then snd (FinalizeOutboxEvent (sys_store s) w)
    else FinalizeOutboxEvent (sys_store s) w = (sys_store s, False)"
proof -
  note inv = outbox_inv_reachable [OF assms(1)]
  then have coh: "e = h" if "e \<in> set (events_of (sys_store s) (obx_TenantID h))" "holds_claim h e" for e
    using that assms(2) by (auto simp: outbox_inv_def coherent_def)
  have ids: "distinct (map obx_ID (events_of (sys_store s) (obx_TenantID h)))" and ok: "held_ok (sys_tokens s) h"
    using inv assms(2) by (simp_all add: outbox_inv_def store_ok_def)
  have own: "holds_claim w h"
    using ok w by (auto simp: holds_claim_def held_ok_def event_ok_def lease_ok_def dest: has_token_nonempty)
  have same: "holds_claim w e \<longleftrightarrow> holds_claim h e" for e by (simp add: holds_claim_def w)
  show ?thesis
    using obx.finalize_hit [of "sys_store s" w h] obx.finalize_miss [of "sys_store s" w] ids own coh
    by (auto simp: w same)
qed

text \<open>
  C9.  Leases are fenced: a copy that a worker holds and that is the stored event can write its
  result back, and then no other copy of that event can; a copy that is not the stored event,
  because its lease was taken over, reset or its event is gone, changes nothing, whether its
  worker finishes or parks it.
\<close>

theorem outbox_lease_fenced:
  assumes "outbox_reachable s" and "h \<in> sys_held s"
  shows "if h \<in> set (events_of (sys_store s) (obx_TenantID h))
    then snd (FinalizeOutboxEvent (sys_store s) (settle n r h)) \<and>
      (\<forall>g \<in> sys_held s. obx_TenantID g = obx_TenantID h \<and> obx_ID g = obx_ID h \<and> g \<noteq> h \<longrightarrow>
        FinalizeOutboxEvent (sys_store s) (settle n' r' g) = (sys_store s, False) \<and>
        FinalizeOutboxEvent (sys_store s) (park n' g) = (sys_store s, False))
    else FinalizeOutboxEvent (sys_store s) (settle n r h) = (sys_store s, False) \<and>
      FinalizeOutboxEvent (sys_store s) (park n h) = (sys_store s, False)"
proof -
  have out: "FinalizeOutboxEvent (sys_store s) (settle n' r' g) = (sys_store s, False) \<and>
      FinalizeOutboxEvent (sys_store s) (park n' g) = (sys_store s, False)"
    if "g \<in> sys_held s" "g \<notin> set (events_of (sys_store s) (obx_TenantID g))" for g n' r'
    using write_back_cases [OF assms(1) that(1), of "settle n' r' g"]
      write_back_cases [OF assms(1) that(1), of "park n' g"] that(2) by simp
  have ids: "distinct (map obx_ID (events_of (sys_store s) (obx_TenantID h)))"
    using outbox_inv_reachable [OF assms(1)] by (simp add: outbox_inv_def store_ok_def)
  have other: "g \<notin> set (events_of (sys_store s) (obx_TenantID g))"
    if "h \<in> set (events_of (sys_store s) (obx_TenantID h))" "obx_TenantID g = obx_TenantID h" "obx_ID g = obx_ID h" "g \<noteq> h" for g
    using distinct_ids_eq [OF ids that(1), of g] that by auto
  show ?thesis
    using write_back_cases [OF assms, of "settle n r h"] out [OF assms(2)] out other by auto
qed

text \<open>The life cycle of an event: which status may follow which.\<close>

definition lifecycle :: "string \<Rightarrow> string \<Rightarrow> bool" where
  "lifecycle a b \<longleftrightarrow> a = b \<or>
     (a = OutboxStatusPending \<or> a = OutboxStatusFailed) \<and> b = OutboxStatusProcessing \<or>
     a = OutboxStatusProcessing \<and> settled_status b \<or>
     (a = OutboxStatusFailed \<or> a = OutboxStatusParked \<or> a = OutboxStatusDeadLettered) \<and> b = OutboxStatusPending"

lemma lifecycle_refl [simp]: "lifecycle a a"
  by (simp add: lifecycle_def)

lemma lifecycle_Claim:
  assumes "store_ok ks st" "ClaimOutboxEvents now st t limit now til ow k = (st', out)"
    and "e \<in> set (events_of st t')" "e' \<in> set (events_of st' t')" "obx_ID e' = obx_ID e"
  shows "lifecycle (obx_Status e) (obx_Status e')"
proof (cases "0 < limit")
  case True
  note ids = distinct_ids_eq [OF store_okD(1) [OF assms(1)]]
  from assms(4) consider "e' \<in> set (events_of st t')"
    | e0 where "t' = t" "e0 \<in> set (picked_events limit now (events_of st t))" "e' = leased ow k now til e0"
    unfolding events_Claim(1) [OF assms(1,2) True] lease_picked_def by (auto split: if_splits)
  then show ?thesis
  proof cases
    case 1
    then have "e' = e" using ids assms(3,5) by blast
    then show ?thesis by simp
  next
    case 2
    from picked_subset [OF 2(2)] have "e0 \<in> set (events_of st t)" "claimable now e0" by auto
    moreover from this 2 have "e0 = e" using ids [of e0 t e] assms(3,5) by simp
    ultimately show ?thesis
      using 2 by (auto simp: claimable_def event_due_def claim_stale_def lifecycle_def split: if_splits)
  qed
next
  case False
  then have "st' = st" using claim_no_limit [of limit now st t now til ow k] assms(2) by simp
  then show ?thesis using assms distinct_ids_eq [OF store_okD(1) [OF assms(1)], of e' t' e] by simp
qed

lemma lifecycle_replace:
  assumes st: "store_ok ks st" and e: "e \<in> set (events_of st t)" "e' \<in> set (events_of st' t)" "obx_ID e' = obx_ID e"
    and st': "events_of st' t = events_of st t \<or>
      (\<exists>x v. x \<in> set (events_of st t) \<and> obx_ID v = obx_ID x \<and> lifecycle (obx_Status x) (obx_Status v) \<and>
        events_of st' t = replace_event v (events_of st t))"
  shows "lifecycle (obx_Status e) (obx_Status e')"
proof -
  note ids = distinct_ids_eq [OF store_okD(1) [OF st]]
  from st' show ?thesis
  proof (elim disjE exE conjE)
    assume "events_of st' t = events_of st t"
    then have "e' = e" using ids [of e' t e] e by simp
    then show ?thesis by simp
  next
    fix x v assume x: "x \<in> set (events_of st t)" "obx_ID v = obx_ID x" "lifecycle (obx_Status x) (obx_Status v)"
      and eq: "events_of st' t = replace_event v (events_of st t)"
    from set_replace_event [of e' v] e(2) eq consider "e' = v" | "e' \<in> set (events_of st t)" by auto
    then show ?thesis
    proof cases
      case 1
      then have "x = e" using ids [of x t e] x e by simp
      with 1 x show ?thesis by simp
    next
      case 2
      then have "e' = e" using ids [of e' t e] e by simp
      then show ?thesis by simp
    qed
  qed
qed

text \<open>
  C12.  The store refines the life cycle of an event: whatever step the system takes, the
  status of an event that stays moves along one arrow of \<open>lifecycle\<close>, so a success is
  final, and only the six statuses occur.
\<close>

theorem outbox_refines_lifecycle:
  assumes "outbox_reachable s" "outbox_step s s'"
    and "e \<in> set (events_of (sys_store s) t)" "e' \<in> set (events_of (sys_store s') t)" "obx_ID e' = obx_ID e"
  shows "lifecycle (obx_Status e) (obx_Status e')"
proof -
  have st: "store_ok (sys_tokens s) (sys_store s)"
    using outbox_inv_reachable [OF assms(1)] by (simp add: outbox_inv_def)
  note ids = distinct_ids_eq [OF store_okD(1) [OF st]] and replace = lifecycle_replace [OF st assms(3) _ assms(5)]
  have finalize: "lifecycle (obx_Status e) (obx_Status e')"
    if "e' \<in> set (events_of (fst (FinalizeOutboxEvent (sys_store s) v)) t)" "settled_status (obx_Status v)" for v
    using events_Finalize [OF st, of v t] that
    by (intro replace [OF that(1)]) (auto simp: holds_claim_def lifecycle_def, metis released_sel(1,3))
  from assms(2,4) show ?thesis
  proof cases
    case (Append v now)
    have "obx_ID v \<notin> obx_ID ` set (events_of (sys_store s) (obx_TenantID v))"
      using Append(2) by (simp add: fresh_event_def)
    then show ?thesis
      using events_Append [OF st, of now v t] Append(1) assms(3-5) ids [of e' t e] by auto
  next
    case (Claim token now t' limit til owner st' out)
    then show ?thesis using lifecycle_Claim [OF st Claim(4)] assms(3-5) by (simp add: Claim)
  next
    case (Finish h now r)
    then show ?thesis using finalize [of "settle now r h"] settle_status assms(4) by simp
  next
    case (Park h now)
    then show ?thesis using finalize [of "park now h"] assms(4) by (simp add: settled_status_def)
  next
    case (Crash h)
    then show ?thesis using ids [of e' t e] assms(3-5) by simp
  next
    case (Retry now t' ident)
    have "retryable x \<Longrightarrow> lifecycle (obx_Status x) (obx_Status (reset_event now x))" for x
      by (auto simp: retryable_def lifecycle_def)
    moreover have "events_of (sys_store s') t = events_of (sys_store s) t \<or>
        t = t' \<and> (\<exists>x \<in> set (events_of (sys_store s) t). retryable x \<and>
          events_of (sys_store s') t = replace_event (reset_event now x) (events_of (sys_store s) t))"
      using events_Retry [OF st, of t' ident now t] by (auto simp: Retry(1))
    ultimately have "events_of (sys_store s') t = events_of (sys_store s) t \<or>
        (\<exists>x v. x \<in> set (events_of (sys_store s) t) \<and> obx_ID v = obx_ID x \<and>
          lifecycle (obx_Status x) (obx_Status v) \<and>
          events_of (sys_store s') t = replace_event v (events_of (sys_store s) t))"
      using reset_sel(1) by blast
    then show ?thesis by (rule replace [OF assms(4)])
  next
    case (Cleanup t' before)
    then show ?thesis using ids [of e' t e] assms(3-5) by (simp add: events_Cleanup split: if_splits)
  qed
qed


section \<open>A lost worker on the last attempt\<close>

text \<open>An event in processing whose attempts are used up and that no worker holds.\<close>

definition stranded :: "string \<Rightarrow> OutboxEvent \<Rightarrow> outbox_sys \<Rightarrow> bool" where
  "stranded t e s \<longleftrightarrow> e \<in> set (events_of (sys_store s) t) \<and> obx_Status e = OutboxStatusProcessing \<and>
     attempts_exhausted e \<and> (\<forall>h \<in> sys_held s. \<not> (obx_TenantID h = t \<and> holds_claim h e))"

lemma stranded_step:
  assumes step: "outbox_step s s'" and inv: "outbox_inv s" and e: "stranded t e s"
  shows "stranded t e s'"
proof -
  have st: "store_ok (sys_tokens s) (sys_store s)" using inv by (simp add: outbox_inv_def)
  note ids = distinct_ids_eq [OF store_okD(1) [OF st]]
  have mem: "e \<in> set (events_of (sys_store s) t)" and proc: "obx_Status e = OutboxStatusProcessing"
    and ex: "attempts_exhausted e" and unheld: "\<And>h. h \<in> sys_held s \<Longrightarrow> obx_TenantID h = t \<Longrightarrow> \<not> holds_claim h e"
    using e by (auto simp: stranded_def)
  have finalize: "e \<in> set (events_of (fst (FinalizeOutboxEvent (sys_store s) v)) t)"
    if "h \<in> sys_held s" "obx_ID v = obx_ID h" "obx_TenantID v = obx_TenantID h" "obx_ClaimToken v = obx_ClaimToken h" for v h
    using events_Finalize [OF st, of v t]
  proof (elim disjE conjE bexE)
    fix x assume t: "t = obx_TenantID v" and x: "x \<in> set (events_of (sys_store s) t)" "holds_claim v x"
      and eq: "events_of (fst (FinalizeOutboxEvent (sys_store s) v)) t =
        replace_event (released v) (events_of (sys_store s) t)"
    have "x \<noteq> e" using unheld [OF that(1)] that t x by (auto simp: holds_claim_def)
    then have "obx_ID e \<noteq> obx_ID (released v)"
      using ids [of x t e] x mem by (auto simp: holds_claim_def)
    then show ?thesis using in_replace_event [OF mem, of "released v"] eq by simp
  qed (use mem in simp)
  from step show ?thesis
  proof cases
    case (Append v now)
    then show ?thesis using e events_Append [OF st, of now v t] by (auto simp: stranded_def)
  next
    case (Claim token now t' limit til owner st' out)
    have "e \<in> set (events_of st' t) \<and> (\<forall>h \<in> set out. \<not> (obx_TenantID h = t \<and> holds_claim h e))"
    proof (cases "0 < limit")
      case True
      note ev = events_Claim [OF st Claim(4) True]
      have "e \<notin> set (picked_events limit now (events_of (sys_store s) t'))"
        using picked_subset [of e limit now] ex by (auto simp: claimable_def)
      then have "e \<in> set (events_of st' t)" using mem by (auto simp: ev(1) lease_picked_def image_iff)
      moreover have "\<not> holds_claim h e" if "h \<in> set out" for h
      proof
        assume "holds_claim h e"
        moreover have "has_token (sys_tokens s) e"
          using store_okD(2) [OF st mem] proc by (auto simp: event_ok_def lease_ok_def split: if_splits)
        moreover have "obx_ClaimToken h = token @ '':'' @ obx_ID h" using that by (auto simp: ev(2))
        ultimately show False using fresh_token [of "sys_tokens s" e token] Claim(2) by (simp add: holds_claim_def)
      qed
      ultimately show ?thesis by blast
    next
      case False
      then show ?thesis using claim_no_limit [of limit now "sys_store s" t' now til owner token] Claim(4) mem by simp
    qed
    then show ?thesis using e Claim(1) by (auto simp: stranded_def)
  next
    case (Finish h now r)
    then show ?thesis using e finalize [of h "settle now r h"] by (auto simp: stranded_def)
  next
    case (Park h now)
    then show ?thesis using e finalize [of h "park now h"] by (auto simp: stranded_def)
  next
    case (Crash h)
    then show ?thesis using e by (auto simp: stranded_def)
  next
    case (Retry now t' ident)
    have "e \<in> set (events_of (sys_store s') t)"
      using events_Retry [OF st, of t' ident now t]
    proof (elim disjE conjE bexE)
      fix x assume t: "t = t'" and x: "x \<in> set (events_of (sys_store s) t')" "retryable x"
        and eq: "events_of (fst (RetryOutboxEvent (sys_store s) t' ident now)) t' =
          replace_event (reset_event now x) (events_of (sys_store s) t')"
      have "x \<noteq> e" using x(2) proc by (auto simp: retryable_def)
      then have "obx_ID e \<noteq> obx_ID (reset_event now x)" using ids [of x t e] x(1) mem t by auto
      then show ?thesis using in_replace_event [OF mem, of "reset_event now x"] eq t by (simp add: Retry(1))
    qed (use mem Retry(1) in simp)
    then show ?thesis using e by (simp add: stranded_def Retry(1))
  next
    case (Cleanup t' before)
    then show ?thesis using e proc by (auto simp: stranded_def events_Cleanup)
  qed
qed

text \<open>
  An event whose worker is lost on its last attempt is stranded for ever: no claim takes it
  up again although its lease has expired, the operator's retry refuses it, and no cleaning
  removes it; whatever steps follow, it stays in processing.
\<close>

theorem stranded_for_ever:
  assumes "outbox_reachable s" "stranded t e s" "outbox_step\<^sup>*\<^sup>* s s'"
  shows "e \<in> set (events_of (sys_store s') t) \<and> obx_Status e = OutboxStatusProcessing"
proof -
  from assms(3,1,2) have "outbox_reachable s' \<and> stranded t e s'"
  proof (induction rule: rtranclp_induct)
    case (step y z)
    then show ?case
      using stranded_step outbox_inv_reachable outbox_reachable.step by blast
  qed simp
  then show ?thesis by (simp add: stranded_def)
qed

section \<open>Claims in order, and delivery\<close>

lemma claimRank_leased [simp]: "claimRank (leased ow k moment til e) = claimRank e"
  by (simp add: claimRank_def leased_def)

lemma claimRank_inj:
  "distinct (map obx_ID es) \<Longrightarrow> inj_on claimRank (set es)"
  by (auto simp: inj_on_def claimRank_def distinct_ids_eq)

lemma sorted_take_early:
  fixes f :: "'a \<Rightarrow> 'k :: linorder"
  assumes "sorted (map f xs)" "distinct xs" "inj_on f (set xs)" "x \<in> set xs"
    and "card {y \<in> set xs. f y < f x} < n"
  shows "x \<in> set (take n xs)"
proof (rule ccontr)
  assume no: "x \<notin> set (take n xs)"
  with assms(4) have late: "x \<in> set (drop n xs)"
    by (metis Un_iff append_take_drop_id set_append)
  have "set (take n xs) \<subseteq> {y \<in> set xs. f y < f x}"
  proof
    fix y assume y: "y \<in> set (take n xs)"
    then have "y \<in> set xs" by (rule in_set_takeD)
    moreover have "f y \<le> f x" by (rule sorted_take_drop_le [OF assms(1) y late])
    moreover have "f y \<noteq> f x" using no y \<open>y \<in> set xs\<close> assms(3,4) by (metis inj_on_eq_iff)
    ultimately show "y \<in> {y \<in> set xs. f y < f x}" by simp
  qed
  then have "card (set (take n xs)) \<le> card {y \<in> set xs. f y < f x}" by (intro card_mono) auto
  moreover have "card (set (take n xs)) = n"
  proof -
    have "n < length xs" using late by (metis drop_all empty_iff list.set(1) not_le_imp_less)
    then show ?thesis using assms(2) by (simp add: distinct_card)
  qed
  ultimately show False using assms(5) by simp
qed

lemma due_events_sorted: "sorted (map claimRank (due_events moment es))"
  by (simp add: due_events_def)

lemma picked_early:
  assumes "distinct (map obx_ID es)" "e \<in> set es" "claimable moment e"
    and "card {y \<in> set es. claimable moment y \<and> claimRank y < claimRank e} < nat limit"
  shows "e \<in> set (picked_events limit moment es)"
  unfolding picked_events_def
proof (rule sorted_take_early [of claimRank])
  show "sorted (map claimRank (due_events moment es))" by (rule due_events_sorted)
  show "distinct (due_events moment es)"
    using assms(1) by (simp add: due_events_def distinct_map)
  show "inj_on claimRank (set (due_events moment es))"
    by (rule inj_on_subset [OF claimRank_inj [OF assms(1)]]) auto
  show "e \<in> set (due_events moment es)" using assms(2,3) by simp
  have "{y \<in> set (due_events moment es). claimRank y < claimRank e} =
      {y \<in> set es. claimable moment y \<and> claimRank y < claimRank e}" by auto
  then show "card {y \<in> set (due_events moment es). claimRank y < claimRank e} < nat limit"
    using assms(4) by simp
qed

lemma picked_not_early:
  assumes "e \<in> set es" "claimable moment e" "e \<notin> set (picked_events limit moment es)" "0 < limit"
  shows "int (length (picked_events limit moment es)) = limit"
    and "x \<in> set (picked_events limit moment es) \<Longrightarrow> claimRank x \<le> claimRank e"
proof -
  have late: "e \<in> set (drop (nat limit) (due_events moment es))"
    using assms(1-3) unfolding picked_events_def
    by (metis (mono_tags, lifting) Un_iff append_take_drop_id mem_Collect_eq set_append set_due_events)
  then have "nat limit < length (due_events moment es)"
    by (metis drop_all empty_iff list.set(1) not_le_imp_less)
  then show "int (length (picked_events limit moment es)) = limit"
    using assms(4) by (simp add: picked_events_def)
  assume "x \<in> set (picked_events limit moment es)"
  then show "claimRank x \<le> claimRank e"
    unfolding picked_events_def by (rule sorted_take_drop_le [OF due_events_sorted _ late])
qed

text \<open>
  C13.  A claim hands out at most the batch size of events, each of them due or with an expired
  lease and with attempts left, and each once; it skips a claimable event only when the batch
  is full, and then every event of the batch comes before it in the order of due time, age and id.
\<close>

theorem claim_earliest_first:
  assumes "queue_ready s t" "0 < limit"
    and "ClaimOutboxEvents now s t limit moment til owner token = (s', out)"
  shows "distinct (map obx_ID out) \<and> int (length out) \<le> limit \<and>
    (\<forall>h \<in> set out. \<exists>e \<in> set (events_of s t). claimable moment e \<and> h = leased owner token moment til e) \<and>
    (\<forall>e \<in> set (events_of s t). claimable moment e \<and> leased owner token moment til e \<notin> set out \<longrightarrow>
       int (length out) = limit \<and> (\<forall>h \<in> set out. claimRank h \<le> claimRank e))"
proof -
  let ?picks = "picked_events limit moment (events_of s t)" and ?f = "leased owner token moment til"
  have out: "out = map ?f ?picks"
    using obq.claim_handed [OF assms(1,2), of now moment til owner token] assms(3) by simp
  have "distinct (map obx_ID out)"
    using obq.distinct_picked [of "events_of s t" limit moment] assms(1) by (simp add: out queue_ready_def comp_def)
  moreover have "int (length out) \<le> limit"
    using picked_length [of limit moment "events_of s t"] assms(2) by (simp add: out)
  moreover have "\<forall>h \<in> set out. \<exists>e \<in> set (events_of s t). claimable moment e \<and> h = ?f e"
    using picked_subset by (fastforce simp: out)
  moreover have "int (length out) = limit \<and> (\<forall>h \<in> set out. claimRank h \<le> claimRank e)"
    if "e \<in> set (events_of s t)" "claimable moment e" "?f e \<notin> set out" for e
  proof -
    have "e \<notin> set ?picks" using that(3) by (auto simp: out)
    then show ?thesis using picked_not_early [OF that(1,2) _ assms(2)] by (simp add: out)
  qed
  ultimately show ?thesis by blast
qed

lemma settle_success [simp]: "obx_Status (settle now None e) = OutboxStatusSucceeded"
  by (simp add: settle_def)

text \<open>
  C11.  Delivery: when a due event has fewer due events before it than the batch size, its type
  has a handler and the handler accepts it, one run over the tenant ends without an error and
  leaves the event succeeded.
\<close>

theorem due_event_delivered:
  assumes "queue_ready s t" and "e \<in> set (events_of s t)" "claimable moment e"
    and "card {y \<in> set (events_of s t). claimable moment y \<and> claimRank y < claimRank e} <
      nat (odo_BatchSize (normalizeOutboxDispatchOptions opts))"
    and "isDispatchableEventType p e"
    and "dispatchEvent p (leased (od_workerID p) token moment
      (moment + odo_LeaseDuration (normalizeOutboxDispatchOptions opts)) e) = None"
    and "ProcessTenant p moment clock token opts t s = (s', processed, failure)"
  shows "failure = None \<and> 0 < processed \<and>
    (\<exists>e' \<in> set (events_of s' t). obx_ID e' = obx_ID e \<and> obx_Status e' = OutboxStatusSucceeded)"
proof -
  let ?n = "odo_BatchSize (normalizeOutboxDispatchOptions opts)"
  let ?h = "leased (od_workerID p) token moment (moment + odo_LeaseDuration (normalizeOutboxDispatchOptions opts)) e"
  have "distinct (map obx_ID (events_of s t))" using assms(1) by (simp add: queue_ready_def)
  then have e: "e \<in> set (picked_events ?n moment (events_of s t))"
    by (rule picked_early [OF _ assms(2-4)])
  note run = ProcessTenant_run [OF assms(1,7)]
  have dispatch: "isDispatchableEventType p ?h"
    using assms(5) by (simp add: isDispatchableEventType_def)
  then have res: "batch_result p clock ?h = settle (clock ?h) None ?h"
    using assms(6) by (simp add: batch_result_def)
  have "?h \<in> set (filter (isDispatchableEventType p)
      (map (leased (od_workerID p) token moment (moment + odo_LeaseDuration (normalizeOutboxDispatchOptions opts)))
        (picked_events ?n moment (events_of s t))))"
    using e dispatch by simp
  then have "0 < processed" unfolding run(2) by (rule length_pos_if_in_set)
  moreover have "released (settle (clock ?h) None ?h) \<in> set (events_of s' t)"
    using run(3) [OF e] res by simp
  ultimately show ?thesis using run(1) by (intro conjI bexI) simp_all
qed

section \<open>A run of the system\<close>

definition sample_event :: OutboxEvent where
  "sample_event = zero_OutboxEvent\<lparr>obx_ID := ''evt-1'', obx_TenantID := ''acme'',
     obx_EventType := ''openfga.relationship.write'', obx_MaxAttempts := Some 1, obx_CreatedAt := 10\<rparr>"

definition sample_row :: OutboxEvent where
  "sample_row = normalizeMemoryOutboxEvent 10 sample_event"

definition sample_lease :: OutboxEvent where
  "sample_lease = leased ''worker'' ''claim'' 20 30 sample_row"

definition sample_pending :: outbox_sys where
  "sample_pending = init_outbox\<lparr>sys_store := [(''acme'', [sample_row])]\<rparr>"

definition sample_claimed :: outbox_sys where
  "sample_claimed = \<lparr>sys_store = [(''acme'', [sample_lease])], sys_held = {sample_lease}, sys_tokens = {''claim''}\<rparr>"

definition sample_lost :: outbox_sys where
  "sample_lost = sample_claimed\<lparr>sys_held := {}\<rparr>"

lemma sample_pending_reachable: "outbox_reachable sample_pending"
proof -
  have "AppendOutboxEvent 10 (sys_store init_outbox) sample_event = [(''acme'', [sample_row])]"
    by code_simp
  moreover have "fresh_event (sys_store init_outbox) sample_event"
    by (simp add: fresh_event_def init_outbox_def sample_event_def zero_OutboxEvent_def)
  ultimately have "outbox_step init_outbox sample_pending"
    using outbox_step.Append [of init_outbox sample_event 10] by (simp add: sample_pending_def)
  then show ?thesis by (rule outbox_reachable.step [OF outbox_reachable.start])
qed

lemma sample_claim:
  "ClaimOutboxEvents 20 [(''acme'', [sample_row])] ''acme'' 100 20 30 ''worker'' ''claim'' =
     ([(''acme'', [sample_lease])], [sample_lease])"
  by code_simp

lemma sample_claim_step: "outbox_step sample_pending sample_claimed"
  using outbox_step.Claim [of "''claim''" sample_pending 20 "''acme''" 100 30 "''worker''"
      "[(''acme'', [sample_lease])]" "[sample_lease]"] sample_claim
  by (simp add: sample_pending_def sample_claimed_def init_outbox_def)

lemma sample_claimed_reachable: "outbox_reachable sample_claimed"
  using sample_pending_reachable sample_claim_step by (rule outbox_reachable.step)

lemma sample_lost_reachable: "outbox_reachable sample_lost"
proof -
  have "outbox_step sample_claimed sample_lost"
    using outbox_step.Crash [of sample_lease sample_claimed]
    by (simp add: sample_lost_def) (simp add: sample_claimed_def)
  with sample_claimed_reachable show ?thesis by (rule outbox_reachable.step)
qed

lemma sample_events:
  "events_of (sys_store sample_pending) ''acme'' = [sample_row]"
  "events_of (sys_store sample_claimed) ''acme'' = [sample_lease]"
  "events_of (sys_store sample_lost) ''acme'' = [sample_lease]"
  "sys_held sample_claimed = {sample_lease}" "obx_TenantID sample_lease = ''acme''"
  "obx_ID sample_lease = ''evt-1''" "obx_ID sample_row = ''evt-1''"
  by (simp_all add: sample_pending_def sample_claimed_def sample_lost_def sample_lease_def sample_row_def
      sample_event_def events_of_def)

theorem outbox_reachable_invariant_witness:
  "distinct (map obx_ID (events_of (sys_store sample_claimed) ''acme'')) \<and> obx_TenantID sample_lease = ''acme'' \<and>
    obx_MaxAttempts sample_lease = Some 1 \<and> obx_AttemptCount sample_lease \<le> 1 \<and>
    obx_Status sample_lease = OutboxStatusProcessing \<and> obx_ClaimToken sample_lease \<noteq> []"
proof -
  have "sample_lease \<in> set (events_of (sys_store sample_claimed) ''acme'')" by (simp add: sample_events)
  note inv = outbox_reachable_invariant [OF sample_claimed_reachable this]
  have "obx_MaxAttempts sample_lease = Some 1" "obx_Status sample_lease = OutboxStatusProcessing"
    by code_simp+
  with inv show ?thesis by auto
qed

text \<open>A lease that expires and is taken over: the first worker is fenced off.\<close>

definition slow_row :: OutboxEvent where
  "slow_row = normalizeMemoryOutboxEvent 10 (sample_event\<lparr>obx_MaxAttempts := Some 3\<rparr>)"

definition slow_lease :: OutboxEvent where
  "slow_lease = leased ''worker'' ''claim'' 20 30 slow_row"

definition taken_lease :: OutboxEvent where
  "taken_lease = leased ''rescue'' ''claim-2'' 40 50 slow_lease"

definition taken_over :: outbox_sys where
  "taken_over = \<lparr>sys_store = [(''acme'', [taken_lease])], sys_held = {slow_lease, taken_lease},
     sys_tokens = {''claim-2'', ''claim''}\<rparr>"

lemma taken_over_reachable: "outbox_reachable taken_over"
proof -
  let ?row = "init_outbox\<lparr>sys_store := [(''acme'', [slow_row])]\<rparr>"
  let ?slow = "\<lparr>sys_store = [(''acme'', [slow_lease])], sys_held = {slow_lease}, sys_tokens = {''claim''}\<rparr>"
  have "AppendOutboxEvent 10 (sys_store init_outbox) (sample_event\<lparr>obx_MaxAttempts := Some 3\<rparr>) = [(''acme'', [slow_row])]"
    by code_simp
  moreover have "fresh_event (sys_store init_outbox) (sample_event\<lparr>obx_MaxAttempts := Some 3\<rparr>)"
    by (simp add: fresh_event_def init_outbox_def sample_event_def zero_OutboxEvent_def)
  ultimately have "outbox_step init_outbox ?row"
    using outbox_step.Append [of init_outbox "sample_event\<lparr>obx_MaxAttempts := Some 3\<rparr>" 10] by simp
  moreover have "ClaimOutboxEvents 20 [(''acme'', [slow_row])] ''acme'' 100 20 30 ''worker'' ''claim'' =
      ([(''acme'', [slow_lease])], [slow_lease])"
    by code_simp
  then have "outbox_step ?row ?slow"
    using outbox_step.Claim [of "''claim''" ?row 20 "''acme''" 100 30 "''worker''"] by (simp add: init_outbox_def)
  moreover have "ClaimOutboxEvents 40 [(''acme'', [slow_lease])] ''acme'' 100 40 50 ''rescue'' ''claim-2'' =
      ([(''acme'', [taken_lease])], [taken_lease])"
    by code_simp
  then have "outbox_step ?slow taken_over"
    using outbox_step.Claim [of "''claim-2''" ?slow 40 "''acme''" 100 50 "''rescue''"]
    by (simp add: taken_over_def insert_commute)
  ultimately show ?thesis by (blast intro: outbox_reachable.intros)
qed

theorem outbox_lease_fenced_witness:
  "slow_lease \<in> sys_held taken_over \<and>
   snd (FinalizeOutboxEvent (sys_store taken_over) (settle 45 None taken_lease)) \<and>
   FinalizeOutboxEvent (sys_store taken_over) (settle 45 None slow_lease) = (sys_store taken_over, False) \<and>
   FinalizeOutboxEvent (sys_store taken_over) (park 45 slow_lease) = (sys_store taken_over, False)"
proof -
  have held: "taken_lease \<in> sys_held taken_over" "slow_lease \<in> sys_held taken_over"
    by (simp_all add: taken_over_def)
  have row: "taken_lease \<in> set (events_of (sys_store taken_over) (obx_TenantID taken_lease))"
  proof -
    have "obx_TenantID taken_lease = ''acme''" by code_simp
    then show ?thesis by (simp add: taken_over_def events_of_def)
  qed
  have "obx_ClaimOwner taken_lease \<noteq> obx_ClaimOwner slow_lease" by code_simp
  moreover have "obx_TenantID taken_lease = obx_TenantID slow_lease" "obx_ID taken_lease = obx_ID slow_lease"
    by (simp_all add: taken_lease_def)
  ultimately show ?thesis
    using outbox_lease_fenced [OF taken_over_reachable held(1), of 45 None 45 None] row held(2) by force
qed

theorem outbox_refines_lifecycle_witness:
  "lifecycle (obx_Status sample_row) (obx_Status sample_lease) \<and> obx_Status sample_row \<noteq> obx_Status sample_lease"
proof -
  have "lifecycle (obx_Status sample_row) (obx_Status sample_lease)"
    by (rule outbox_refines_lifecycle [OF sample_pending_reachable sample_claim_step, of _ "''acme''"])
      (simp_all add: sample_events)
  moreover have "obx_Status sample_row \<noteq> obx_Status sample_lease" by code_simp
  ultimately show ?thesis by blast
qed

theorem stranded_for_ever_witness:
  "outbox_step sample_lost (sample_lost\<lparr>sys_store := fst (RetryOutboxEvent (sys_store sample_lost) ''acme'' ''evt-1'' 1000)\<rparr>) \<and>
   sample_lease \<in> set (events_of (sys_store (sample_lost\<lparr>sys_store :=
     fst (RetryOutboxEvent (sys_store sample_lost) ''acme'' ''evt-1'' 1000)\<rparr>)) ''acme'') \<and>
   obx_Status sample_lease = OutboxStatusProcessing"
proof -
  have step: "outbox_step sample_lost (sample_lost\<lparr>sys_store :=
      fst (RetryOutboxEvent (sys_store sample_lost) ''acme'' ''evt-1'' 1000)\<rparr>)"
    by (rule outbox_step.Retry) simp
  have "attempts_exhausted sample_lease" by code_simp
  moreover have "obx_Status sample_lease = OutboxStatusProcessing" by (simp add: sample_lease_def)
  ultimately have "stranded ''acme'' sample_lease sample_lost"
    by (simp add: stranded_def sample_events) (simp add: sample_lost_def)
  from stranded_for_ever [OF sample_lost_reachable this r_into_rtranclp, OF step] step show ?thesis by blast
qed

lemma sample_queue_ready: "queue_ready [(''acme'', [sample_row])] ''acme''"
  by code_simp

theorem claim_earliest_first_witness:
  "distinct (map obx_ID [sample_lease]) \<and> int (length [sample_lease]) \<le> 100 \<and>
    claimable 20 sample_row \<and> sample_lease = leased ''worker'' ''claim'' 20 30 sample_row"
proof -
  have ev: "events_of [(''acme'', [sample_row])] ''acme'' = [sample_row]" by (simp add: events_of_def)
  show ?thesis
    using claim_earliest_first [OF sample_queue_ready _ sample_claim] by (simp add: ev)
qed

definition sample_dispatcher :: OutboxDispatcher where
  "sample_dispatcher = \<lparr>od_writer = Some (\<lambda>changes. None), od_publisher = Some (\<lambda>subject envelope. None),
     od_modelSync = None, od_workflowStart = None, od_workerID = ''worker''\<rparr>"

definition sample_options :: OutboxDispatchOptions where
  "sample_options = \<lparr>odo_BatchSize = 0, odo_MaxRetries = 0, odo_Interval = 0, odo_LeaseDuration = 10\<rparr>"

theorem due_event_delivered_witness:
  "case ProcessTenant sample_dispatcher 20 (\<lambda>e. 25) ''claim'' sample_options ''acme'' [(''acme'', [sample_row])] of
     (s', processed, failure) \<Rightarrow> failure = None \<and> 0 < processed \<and>
       (\<exists>e' \<in> set (events_of s' ''acme''). obx_ID e' = obx_ID sample_row \<and> obx_Status e' = OutboxStatusSucceeded)"
proof -
  obtain s' processed failure where run:
    "ProcessTenant sample_dispatcher 20 (\<lambda>e. 25) ''claim'' sample_options ''acme'' [(''acme'', [sample_row])] =
       (s', processed, failure)" by (metis prod.exhaust)
  have ev: "events_of [(''acme'', [sample_row])] ''acme'' = [sample_row]" by (simp add: events_of_def)
  have none: "{y \<in> set (events_of [(''acme'', [sample_row])] ''acme''). claimable 20 y \<and>
      claimRank y < claimRank sample_row} = {}" by (auto simp: ev)
  have facts: "claimable 20 sample_row" "isDispatchableEventType sample_dispatcher sample_row"
    "dispatchEvent sample_dispatcher (leased (od_workerID sample_dispatcher) ''claim'' 20
      (20 + odo_LeaseDuration (normalizeOutboxDispatchOptions sample_options)) sample_row) = None"
    by code_simp+
  have "failure = None \<and> 0 < processed \<and>
      (\<exists>e' \<in> set (events_of s' ''acme''). obx_ID e' = obx_ID sample_row \<and> obx_Status e' = OutboxStatusSucceeded)"
    by (rule due_event_delivered [OF sample_queue_ready _ facts(1) _ facts(2,3) run])
      (simp_all only: none, simp_all add: ev)
  then show ?thesis by (simp add: run)
qed

end
