(* ===== verification/Authz_Filter.thy ===== *)
theory Authz_Filter
  imports Authz_Decision Sample_Tenant
begin

text \<open>
  What a decision lets the caller see of the employees:
  \<open>filterEmployeesByDecision\<close>, \<open>maskEmployee\<close> and their helpers of
  \<open>src/internal/service/authz_scope_service.go\<close>.  The rows are filtered by the scope and
  conditions of the decision, or by OpenFGA checks when the decision asks for them, and the
  fields of the rows that remain are masked by its field policies.  The lemmas show that the
  filter keeps exactly the rows the scope selects (the predicate the scope algebra is proved
  about), and what is left of every field.
\<close>

section \<open>Filtering by relationship checks\<close>

abbreviation openFGATypeOrgUnit :: string where "openFGATypeOrgUnit \<equiv> ''org_unit''"
abbreviation openFGARelationOrgUnitMember :: string where "openFGARelationOrgUnitMember \<equiv> ''member''"
abbreviation openFGARelationOrgUnitManager :: string where "openFGARelationOrgUnitManager \<equiv> ''manager''"
abbreviation openFGARelationOrgUnitMemberTree :: string where
  "openFGARelationOrgUnitMemberTree \<equiv> ''member_recursive''"

fun anyRelationshipAllows ::
  "(RelationshipCheck \<Rightarrow> bool res) \<Rightarrow> RequestContext \<Rightarrow> string \<Rightarrow> string \<Rightarrow> string list \<Rightarrow> bool res" where
  "anyRelationshipAllows check ctx subject object [] = Inr False"
| "anyRelationshipAllows check ctx subject object (relation # relations) =
     bindR (check \<lparr> rc_TenantID = ctx_TenantID ctx, rc_Subject = subject, rc_Relation = relation,
                    rc_Object = object \<rparr>) (\<lambda>allowed.
       if allowed then Inr True else anyRelationshipAllows check ctx subject object relations)"

definition employeeAllowedByOpenFGAScope ::
  "(RelationshipCheck \<Rightarrow> bool res) \<Rightarrow> RequestContext \<Rightarrow> Account \<Rightarrow> string \<Rightarrow> Employee \<Rightarrow> bool res" where
  "employeeAllowedByOpenFGAScope check ctx account scope employee =
     (let orgUnitID = TrimSpace (emp_OrgUnitID employee) in
      if orgUnitID = [] then Inr False
      else let subject = ''account:'' @ acc_ID account; object = openFGATypeOrgUnit @ '':'' @ orgUnitID in
        if scope = ScopeDepartment then
          anyRelationshipAllows check ctx subject object
            [openFGARelationOrgUnitMember, openFGARelationOrgUnitManager]
        else if scope = ScopeDepartmentSubtree then
          anyRelationshipAllows check ctx subject object
            [openFGARelationOrgUnitMemberTree, openFGARelationOrgUnitManager]
        else Inr False)"

definition scopeCheckerMissing :: err where
  "scopeCheckerMissing = PlainErr ''openfga scope checker is not configured''"

definition filterEmployeesByOpenFGAScope ::
  "service_env \<Rightarrow> RequestContext \<Rightarrow> Account \<Rightarrow> CheckResult \<Rightarrow> Employee list \<Rightarrow> Employee list res" where
  "filterEmployeesByOpenFGAScope c ctx account decision items =
     (case sv_relationships c of
        None \<Rightarrow> Inl scopeCheckerMissing
      | Some check \<Rightarrow>
          filterR (employeeAllowedByOpenFGAScope check ctx account (res_Scope decision)) items)"

definition unitAllowedByOpenFGAScope ::
  "(RelationshipCheck \<Rightarrow> bool res) \<Rightarrow> RequestContext \<Rightarrow> Account \<Rightarrow> string \<Rightarrow> OrgUnit \<Rightarrow> bool res" where
  "unitAllowedByOpenFGAScope check ctx account scope unit =
     (let subject = ''account:'' @ acc_ID account; object = openFGATypeOrgUnit @ '':'' @ ou_ID unit in
      if scope = ScopeDepartment then
        anyRelationshipAllows check ctx subject object
          [openFGARelationOrgUnitMember, openFGARelationOrgUnitManager]
      else anyRelationshipAllows check ctx subject object
          [openFGARelationOrgUnitMemberTree, openFGARelationOrgUnitManager])"

definition filterOrgUnitsByOpenFGAScope ::
  "service_env \<Rightarrow> RequestContext \<Rightarrow> Account \<Rightarrow> CheckResult \<Rightarrow> OrgUnit list \<Rightarrow> OrgUnit list res" where
  "filterOrgUnitsByOpenFGAScope c ctx account decision units =
     (case sv_relationships c of
        None \<Rightarrow> Inl scopeCheckerMissing
      | Some check \<Rightarrow>
          if res_Scope decision = ScopeDepartment \<or> res_Scope decision = ScopeDepartmentSubtree
          then filterR (unitAllowedByOpenFGAScope check ctx account (res_Scope decision)) units
          else Inr [])"

section \<open>Filtering by the decision\<close>

definition subtreeRoots :: "service_env \<Rightarrow> RequestContext \<Rightarrow> Account \<Rightarrow> params \<Rightarrow> string list res" where
  "subtreeRoots c ctx account conditions =
     (let orgIDs = stringSliceFromAny (map_at conditions ''org_unit_ids'') in
      if orgIDs = [] \<and> acc_EmployeeID account \<noteq> [] then
        bindR (as_GetEmployee (sv_store c) (ctx_TenantID ctx) (acc_EmployeeID account)) (\<lambda>found.
          Inr (case found of
                 Some employee \<Rightarrow> if emp_OrgUnitID employee \<noteq> [] then [emp_OrgUnitID employee] else orgIDs
               | None \<Rightarrow> orgIDs))
      else Inr orgIDs)"

definition filterEmployeesByScope ::
  "service_env \<Rightarrow> RequestContext \<Rightarrow> Account \<Rightarrow> Employee list \<Rightarrow> CheckResult \<Rightarrow> Employee list res" where
  "filterEmployeesByScope c ctx account items decision =
     (let scope = res_Scope decision; conditions = res_Conditions decision in
      if scope = [] \<or> scope = ScopeAll \<or> scope = ScopeTenant \<or> scope = ScopeSystem then Inr items
      else if scope = ScopeSelf \<or> scope = ScopeOwn then
        Inr (filter (\<lambda>item. emp_ID item = acc_EmployeeID account) items)
      else if scope = ScopeDepartment \<or> scope = ScopeAssignedOrgUnits then
        (let orgIDs = stringSliceFromAny (map_at conditions ''org_unit_ids'') in
         if orgIDs = [] then Inr []
         else Inr (filter (\<lambda>item. emp_OrgUnitID item \<in> set orgIDs) items))
      else if scope = ScopeDepartmentSubtree then
        bindR (subtreeRoots c ctx account conditions) (\<lambda>orgIDs.
          if orgIDs = [] then Inr []
          else bindR (as_ListOrgUnits (sv_store c) (ctx_TenantID ctx)) (\<lambda>units.
            Inr (filter (\<lambda>item. orgUnitInScope units (emp_OrgUnitID item) (set orgIDs)) items)))
      else if scope = ScopeDirectReports then
        (let ids = stringSliceFromAny (map_at conditions ''employee_ids'') in
         Inr (filter (\<lambda>item. emp_ID item \<in> set ids) items))
      else if scope = ScopeCustomCondition then Inr (filterEmployeesByConditions items conditions)
      else Inr [])"

definition filterEmployeesByDecision ::
  "service_env \<Rightarrow> RequestContext \<Rightarrow> Account \<Rightarrow> Employee list \<Rightarrow> CheckResult \<Rightarrow> Employee list res" where
  "filterEmployeesByDecision c ctx account items decision =
     (if decisionUsesOpenFGAScopeCheck decision then
        (case filterEmployeesByOpenFGAScope c ctx account decision items of
           Inr filtered \<Rightarrow> Inr filtered
         | Inl e \<Rightarrow> filterEmployeesByScope c ctx account items decision)
      else filterEmployeesByScope c ctx account items decision)"

section \<open>Masking\<close>

definition redactString :: "string \<Rightarrow> bool \<Rightarrow> string" where
  "redactString text hide = (if hide then [] else ''***'')"

definition redactMapField :: "params \<Rightarrow> string \<Rightarrow> bool \<Rightarrow> params" where
  "redactMapField values fld hide =
     (if values = [] then values
      else case map_of values fld of
        None \<Rightarrow> values
      | Some _ \<Rightarrow>
          let out = CopyStringMap values in
          if hide then map_del fld out else map_put fld (VStr ''***'') out)"

definition maskValue :: "string \<Rightarrow> string" where
  "maskValue text =
     (let text = TrimSpace text in
      if text = [] then []
      else if length text \<le> 4 then ''***''
      else take 2 text @ ''***'' @ drop (length text - 2) text)"

definition maskEmail :: "string \<Rightarrow> string" where
  "maskEmail text =
     (let text = TrimSpace text in
      if text = [] then []
      else case Cut text (CHR ''@'') of (local, domain, found) \<Rightarrow>
        if \<not> found then maskValue text
        else let local = (if length local \<le> 2 then ''***''
                          else take 1 local @ ''***'' @ drop (length local - 1) local)
             in local @ ''@'' @ domain)"

definition mask_field :: "string \<times> string \<Rightarrow> Employee \<Rightarrow> Employee" where
  "mask_field policy item =
     (case policy of (fld, effect) \<Rightarrow>
        if effect \<noteq> ''mask'' \<and> effect \<noteq> ''hide'' \<and> effect \<noteq> ''deny'' then item
        else let hide = (effect = ''hide'' \<or> effect = ''deny'') in
          if fld = ''employee_no'' then item\<lparr>emp_EmployeeNo := redactString (emp_EmployeeNo item) hide\<rparr>
          else if fld = ''name'' then item\<lparr>emp_Name := redactString (emp_Name item) hide\<rparr>
          else if fld = ''company_email'' then
            item\<lparr>emp_CompanyEmail := if hide then [] else maskEmail (emp_CompanyEmail item)\<rparr>
          else if fld = ''personal_email'' then
            item\<lparr>emp_PersonalEmail := if hide then [] else maskEmail (emp_PersonalEmail item)\<rparr>
          else if fld = ''phone'' then item\<lparr>emp_Phone := if hide then [] else maskValue (emp_Phone item)\<rparr>
          else if fld = ''position'' then item\<lparr>emp_Position := redactString (emp_Position item) hide\<rparr>
          else if fld = ''category'' then item\<lparr>emp_Category := redactString (emp_Category item) hide\<rparr>
          else if fld = ''status'' then item\<lparr>emp_Status := redactString (emp_Status item) hide\<rparr>
          else if fld = ''employment_status'' then
            item\<lparr>emp_EmploymentStatus := redactString (emp_EmploymentStatus item) hide\<rparr>
          else if fld = ''manager_employee_id'' then
            item\<lparr>emp_ManagerEmployeeID := redactString (emp_ManagerEmployeeID item) hide\<rparr>
          else if fld = ''hire_date'' then item\<lparr>emp_HireDate := None\<rparr>
          else if fld = ''resign_date'' then item\<lparr>emp_ResignDate := None\<rparr>
          else if fld = ''org_unit_id'' then item\<lparr>emp_OrgUnitID := []\<rparr>
          else if fld = ''account_id'' then item\<lparr>emp_AccountID := []\<rparr>
          else if fld = ''basic_info'' then item\<lparr>emp_BasicInfo := []\<rparr>
          else if fld = ''contact_info'' then item\<lparr>emp_ContactInfo := []\<rparr>
          else if fld = ''insurance_info'' then item\<lparr>emp_InsuranceInfo := []\<rparr>
          else item\<lparr>emp_BasicInfo := redactMapField (emp_BasicInfo item) fld hide,
                    emp_ContactInfo := redactMapField (emp_ContactInfo item) fld hide,
                    emp_InsuranceInfo := redactMapField (emp_InsuranceInfo item) fld hide,
                    emp_EmploymentInfo := redactMapField (emp_EmploymentInfo item) fld hide,
                    emp_EducationMilitaryInfo := redactMapField (emp_EducationMilitaryInfo item) fld hide\<rparr>)"

definition maskEmployee :: "Employee \<Rightarrow> (string, string) gomap \<Rightarrow> Employee" where
  "maskEmployee item policies = fold mask_field policies item"

definition applyEmployeeDecision ::
  "service_env \<Rightarrow> RequestContext \<Rightarrow> Account \<Rightarrow> Employee list \<Rightarrow> CheckResult \<Rightarrow> Employee list res" where
  "applyEmployeeDecision c ctx account items decision =
     bindR (filterEmployeesByDecision c ctx account items decision) (\<lambda>filtered.
       Inr (map (\<lambda>item. maskEmployee item (res_FieldPolicies decision)) filtered))"

section \<open>The filter keeps what the scope selects\<close>

lemma filterEmployeesByConditions_selects:
  "filterEmployeesByConditions items c = filter (conditions_select c) items"
proof -
  let ?A = "stringSet (slice_at c ''employee_ids'')" and ?B = "stringSet (slice_at c ''org_unit_ids'')"
    and ?S = "stringSet (status_slice c)"
  define none where "none \<longleftrightarrow> ?A = {} \<and> ?B = {} \<and> ?S = {}"
  define P :: "Employee \<Rightarrow> bool" where "P e \<longleftrightarrow> (?A \<noteq> {} \<longrightarrow> emp_ID e \<in> ?A) \<and> (?B \<noteq> {} \<longrightarrow> emp_OrgUnitID e \<in> ?B) \<and>
    (?S \<noteq> {} \<longrightarrow> emp_Status e \<in> ?S)" for e
  have *: "filterEmployeesByConditions xs c = (if none then [] else filter P xs)" for xs
    unfolding filterEmployeesByConditions_eq Let_def none_def P_def by simp
  have "conditions_select c = (\<lambda>e. \<not> none \<and> P e)"
    by (intro ext) (auto simp: conditions_select_def *)
  then show ?thesis by (simp add: *)
qed

lemma filterEmployeesByScope_selects:
  assumes "as_ListOrgUnits (sv_store c) (ctx_TenantID ctx) = Inr units"
    and "res_Scope decision = ScopeDepartmentSubtree \<Longrightarrow> slice_at (res_Conditions decision) ''org_unit_ids'' \<noteq> []"
  shows "filterEmployeesByScope c ctx account items decision =
    Inr (filter (scope_selects (acc_EmployeeID account) units (res_Scope decision) (res_Conditions decision)) items)"
proof -
  consider (wide) "res_Scope decision \<in> {[], ScopeAll, ScopeTenant, ScopeSystem}"
    | (own) "res_Scope decision \<in> {ScopeSelf, ScopeOwn}"
    | (unit) "res_Scope decision \<in> {ScopeDepartment, ScopeAssignedOrgUnits}"
    | (subtree) "res_Scope decision = ScopeDepartmentSubtree"
    | (reports) "res_Scope decision = ScopeDirectReports"
    | (custom) "res_Scope decision = ScopeCustomCondition"
    | (other) "res_Scope decision \<notin> {[], ScopeAll, ScopeTenant, ScopeSystem, ScopeSelf, ScopeOwn, ScopeDepartment,
        ScopeAssignedOrgUnits, ScopeDepartmentSubtree, ScopeDirectReports, ScopeCustomCondition}"
    by blast
  then show ?thesis
  proof cases
    case wide
    then have "scope_selects (acc_EmployeeID account) units (res_Scope decision) (res_Conditions decision) = (\<lambda>e. True)"
      by (auto simp: scope_selects_def)
    then show ?thesis using wide by (auto simp: filterEmployeesByScope_def Let_def)
  next
    case own
    then have "scope_selects (acc_EmployeeID account) units (res_Scope decision) (res_Conditions decision) =
        (\<lambda>e. emp_ID e = acc_EmployeeID account)"
      by (auto simp: scope_selects_def)
    then show ?thesis using own by (auto simp: filterEmployeesByScope_def Let_def)
  next
    case unit
    then have "scope_selects (acc_EmployeeID account) units (res_Scope decision) (res_Conditions decision) =
        (\<lambda>e. emp_OrgUnitID e \<in> set (slice_at (res_Conditions decision) ''org_unit_ids''))"
      by (auto simp: scope_selects_def)
    then show ?thesis using unit by (auto simp: filterEmployeesByScope_def slice_at_def Let_def)
  next
    case subtree
    then have "scope_selects (acc_EmployeeID account) units (res_Scope decision) (res_Conditions decision) =
        (\<lambda>e. orgUnitInScope units (emp_OrgUnitID e) (set (slice_at (res_Conditions decision) ''org_unit_ids'')))"
      using assms(2) by (auto simp: scope_selects_def)
    then show ?thesis
      using subtree assms by (simp add: filterEmployeesByScope_def subtreeRoots_def slice_at_def Let_def)
  next
    case reports
    then have "scope_selects (acc_EmployeeID account) units (res_Scope decision) (res_Conditions decision) =
        (\<lambda>e. emp_ID e \<in> set (slice_at (res_Conditions decision) ''employee_ids''))"
      by (auto simp: scope_selects_def)
    then show ?thesis using reports by (simp add: filterEmployeesByScope_def slice_at_def Let_def)
  next
    case custom
    then have "scope_selects (acc_EmployeeID account) units (res_Scope decision) (res_Conditions decision) =
        conditions_select (res_Conditions decision)"
      by (auto simp: scope_selects_def)
    then show ?thesis
      using custom by (simp add: filterEmployeesByScope_def filterEmployeesByConditions_selects Let_def)
  next
    case other
    then have "scope_selects (acc_EmployeeID account) units (res_Scope decision) (res_Conditions decision) = (\<lambda>e. False)"
      by (intro ext) (simp add: scope_selects_def)
    then show ?thesis using other by (simp add: filterEmployeesByScope_def Let_def)
  qed
qed

lemma maskEmployee_frame [simp]:
  "emp_ID (maskEmployee item policies) = emp_ID item"
  "emp_TenantID (maskEmployee item policies) = emp_TenantID item"
proof -
  have "emp_ID (mask_field p i) = emp_ID i" "emp_TenantID (mask_field p i) = emp_TenantID i" for p i
    by (simp_all add: mask_field_def Let_def split: prod.split)
  then show "emp_ID (maskEmployee item policies) = emp_ID item"
    "emp_TenantID (maskEmployee item policies) = emp_TenantID item"
    unfolding maskEmployee_def by (induction policies arbitrary: item) simp_all
qed

section \<open>The rows a decision shows\<close>

text \<open>What the relationship checks answer about an employee: nothing is asked about a row without
  a unit; otherwise the relations of the scope are asked in order, and the first answer that is
  not a plain no, a yes or a failure, is the answer.\<close>

definition unit_relations :: "string \<Rightarrow> string list" where
  "unit_relations scope =
     (if scope = ScopeDepartment then [openFGARelationOrgUnitMember, openFGARelationOrgUnitManager]
      else if scope = ScopeDepartmentSubtree then [openFGARelationOrgUnitMemberTree, openFGARelationOrgUnitManager]
      else [])"

definition first_answer :: "bool res list \<Rightarrow> bool res" where
  "first_answer answers = (case find (\<lambda>a. a \<noteq> Inr False) answers of None \<Rightarrow> Inr False | Some a \<Rightarrow> a)"

definition relation_answer ::
  "(RelationshipCheck \<Rightarrow> bool res) \<Rightarrow> RequestContext \<Rightarrow> Account \<Rightarrow> string \<Rightarrow> Employee \<Rightarrow> bool res" where
  "relation_answer check ctx account scope e =
     (if TrimSpace (emp_OrgUnitID e) = [] then Inr False
      else first_answer (map (\<lambda>relation. check \<lparr> rc_TenantID = ctx_TenantID ctx,
             rc_Subject = ''account:'' @ acc_ID account, rc_Relation = relation,
             rc_Object = ''org_unit:'' @ TrimSpace (emp_OrgUnitID e) \<rparr>) (unit_relations scope)))"

text \<open>The unit of the caller, from which a subtree is taken when the decision names none.\<close>

definition caller_units :: "service_env \<Rightarrow> RequestContext \<Rightarrow> Account \<Rightarrow> string list" where
  "caller_units c ctx account =
     (if acc_EmployeeID account = [] then []
      else case as_GetEmployee (sv_store c) (ctx_TenantID ctx) (acc_EmployeeID account) of
        Inr (Some e) \<Rightarrow> if emp_OrgUnitID e = [] then [] else [emp_OrgUnitID e]
      | _ \<Rightarrow> [])"

definition condition_shows :: "service_env \<Rightarrow> RequestContext \<Rightarrow> Account \<Rightarrow> OrgUnit list \<Rightarrow> CheckResult \<Rightarrow> Employee \<Rightarrow> bool" where
  "condition_shows c ctx account units decision e =
     (if res_Scope decision = ScopeDepartmentSubtree \<and> slice_at (res_Conditions decision) ''org_unit_ids'' = []
      then list_ex (\<lambda>u. orgUnitInScope units (emp_OrgUnitID e) {u}) (caller_units c ctx account)
      else scope_selects (acc_EmployeeID account) units (res_Scope decision) (res_Conditions decision) e)"

text \<open>The relationship checks decide when the decision asks for them, a checker is configured and
  it answers for every row of the list; otherwise the scope and conditions decide.\<close>

definition checks_decide :: "service_env \<Rightarrow> RequestContext \<Rightarrow> Account \<Rightarrow> Employee list \<Rightarrow> CheckResult \<Rightarrow> bool" where
  "checks_decide c ctx account items decision \<longleftrightarrow>
     decisionUsesOpenFGAScopeCheck decision \<and>
     (case sv_relationships c of None \<Rightarrow> False
      | Some check \<Rightarrow> list_all (\<lambda>e. isOk (relation_answer check ctx account (res_Scope decision) e)) items)"

definition check_shows :: "service_env \<Rightarrow> RequestContext \<Rightarrow> Account \<Rightarrow> CheckResult \<Rightarrow> Employee \<Rightarrow> bool" where
  "check_shows c ctx account decision e =
     (case sv_relationships c of None \<Rightarrow> False
      | Some check \<Rightarrow> relation_answer check ctx account (res_Scope decision) e = Inr True)"

lemma anyRelationshipAllows_first:
  "anyRelationshipAllows check ctx subject object relations =
     first_answer (map (\<lambda>relation. check \<lparr> rc_TenantID = ctx_TenantID ctx, rc_Subject = subject,
       rc_Relation = relation, rc_Object = object \<rparr>) relations)"
proof (induction relations)
  case (Cons r rs)
  then show ?case
    by (cases "check \<lparr> rc_TenantID = ctx_TenantID ctx, rc_Subject = subject, rc_Relation = r, rc_Object = object \<rparr>")
      (auto simp: first_answer_def)
qed (simp add: first_answer_def)

lemma employeeAllowed_answer:
  "employeeAllowedByOpenFGAScope check ctx account scope = relation_answer check ctx account scope"
  by (rule ext) (simp add: employeeAllowedByOpenFGAScope_def relation_answer_def unit_relations_def Let_def
      anyRelationshipAllows_first first_answer_def)

lemma filterR_answers:
  "list_all (\<lambda>x. isOk (p x)) xs \<Longrightarrow> filterR p xs = Inr (filter (\<lambda>x. p x = Inr True) xs)"
  by (induction xs) (auto simp: isOk_def split: sum.splits)

lemma filterR_unanswered:
  "\<not> list_all (\<lambda>x. isOk (p x)) xs \<Longrightarrow> \<not> isOk (filterR p xs)"
  by (induction xs) (auto simp: isOk_def split: sum.splits)

lemma filterEmployeesByScope_shows:
  assumes "as_ListOrgUnits (sv_store c) (ctx_TenantID ctx) = Inr units"
    and "isOk (as_GetEmployee (sv_store c) (ctx_TenantID ctx) (acc_EmployeeID account))"
  shows "filterEmployeesByScope c ctx account items decision = Inr (filter (condition_shows c ctx account units decision) items)"
proof (cases "res_Scope decision = ScopeDepartmentSubtree \<and> slice_at (res_Conditions decision) ''org_unit_ids'' = []")
  case True
  then have sub: "res_Scope decision = ScopeDepartmentSubtree"
    and none: "stringSliceFromAny (map_at (res_Conditions decision) ''org_unit_ids'') = []"
    by (simp_all add: slice_at_def)
  from assms(2) obtain found where
    found: "as_GetEmployee (sv_store c) (ctx_TenantID ctx) (acc_EmployeeID account) = Inr found" by (rule isOkE)
  have roots: "subtreeRoots c ctx account (res_Conditions decision) = Inr (caller_units c ctx account)"
    using found by (cases found) (auto simp: subtreeRoots_def caller_units_def none Let_def)
  have one: "caller_units c ctx account = [] \<or> (\<exists>u. caller_units c ctx account = [u])"
    using found by (cases found) (auto simp: caller_units_def)
  have sel: "condition_shows c ctx account units decision =
      (\<lambda>e. list_ex (\<lambda>u. orgUnitInScope units (emp_OrgUnitID e) {u}) (caller_units c ctx account))"
    by (rule ext) (simp add: condition_shows_def True)
  show ?thesis
    using one assms(1) unfolding sel filterEmployeesByScope_def Let_def sub by (auto simp: roots)
next
  case False
  then have "condition_shows c ctx account units decision =
      scope_selects (acc_EmployeeID account) units (res_Scope decision) (res_Conditions decision)"
    by (intro ext) (simp only: condition_shows_def if_False)
  then show ?thesis using filterEmployeesByScope_selects [OF assms(1), of decision account items] False by auto
qed

text \<open>
  C20.  A list of employees shown under a decision holds, in their order, exactly the rows the
  decision selects, each with its field policies applied.  When the decision asks for relationship
  checks and the checker answers for every row, these are the rows for whose unit the account has
  one of the relations of the scope; otherwise they are the rows that scope and conditions select,
  a subtree decision without units standing for the unit of the caller.  The units and the
  caller's own employee are assumed readable.
\<close>

theorem applyEmployeeDecision_selects:
  assumes "as_ListOrgUnits (sv_store c) (ctx_TenantID ctx) = Inr units"
    and "isOk (as_GetEmployee (sv_store c) (ctx_TenantID ctx) (acc_EmployeeID account))"
  shows "applyEmployeeDecision c ctx account items decision =
    Inr (map (\<lambda>e. maskEmployee e (res_FieldPolicies decision))
      (if checks_decide c ctx account items decision then filter (check_shows c ctx account decision) items
       else filter (condition_shows c ctx account units decision) items))"
proof -
  note scope = filterEmployeesByScope_shows [OF assms, of items decision]
  have "filterEmployeesByDecision c ctx account items decision =
      Inr (if checks_decide c ctx account items decision then filter (check_shows c ctx account decision) items
           else filter (condition_shows c ctx account units decision) items)"
  proof (cases "sv_relationships c")
    case None
    then show ?thesis
      by (simp add: filterEmployeesByDecision_def scope checks_decide_def filterEmployeesByOpenFGAScope_def)
  next
    case (Some check)
    let ?ask = "relation_answer check ctx account (res_Scope decision)"
    have asked: "filterEmployeesByOpenFGAScope c ctx account decision items = filterR ?ask items"
      by (simp add: filterEmployeesByOpenFGAScope_def Some employeeAllowed_answer)
    have sel: "check_shows c ctx account decision = (\<lambda>e. ?ask e = Inr True)"
      by (rule ext) (simp add: check_shows_def Some)
    show ?thesis
    proof (cases "list_all (\<lambda>e. isOk (?ask e)) items")
      case True
      then show ?thesis
        by (simp add: filterEmployeesByDecision_def scope checks_decide_def asked sel Some filterR_answers [OF True])
    next
      case False
      then obtain e where "filterR ?ask items = Inl e" using filterR_unanswered [OF False]
        by (cases "filterR ?ask items") (auto simp: isOk_def)
      with False show ?thesis by (simp add: filterEmployeesByDecision_def scope checks_decide_def asked Some)
    qed
  qed
  then show ?thesis by (simp add: applyEmployeeDecision_def)
qed

section \<open>What is left of a field\<close>

definition restricts :: "string \<Rightarrow> bool" where
  "restricts effect \<longleftrightarrow> effect = ''mask'' \<or> effect = ''hide'' \<or> effect = ''deny''"

definition hides :: "string \<Rightarrow> bool" where
  "hides effect \<longleftrightarrow> effect = ''hide'' \<or> effect = ''deny''"

text \<open>The loop over the policies, seen from a field that only the policy of one name touches.\<close>

lemma fold_keyed:
  assumes "\<And>k v x. (k, v) \<in> set ps \<Longrightarrow> sel (f (k, v) x) = (if k = n then g v (sel x) else sel x)"
    and "map_wf ps"
  shows "sel (fold f ps x) = (case map_of ps n of None \<Rightarrow> sel x | Some v \<Rightarrow> g v (sel x))"
  using assms
proof (induction ps arbitrary: x)
  case (Cons p ps)
  obtain k v where p: "p = (k, v)" by (cases p)
  have step: "sel (f (k, v) x) = (if k = n then g v (sel x) else sel x)" using Cons.prems(1) by (simp add: p)
  have "sel (fold f ps (f p x)) = (case map_of ps n of None \<Rightarrow> sel (f p x) | Some v \<Rightarrow> g v (sel (f p x)))"
    using Cons.prems by (intro Cons.IH) auto
  moreover have "map_of ps k = None" using Cons.prems(2) by (simp add: p map_of_eq_None_iff)
  ultimately show ?case using step by (auto simp: p split: option.split)
qed simp

definition redact_text :: "string \<Rightarrow> string \<Rightarrow> string \<Rightarrow> string" where
  "redact_text fld effect text =
     (if \<not> restricts effect then text
      else if hides effect \<or> fld = ''org_unit_id'' \<or> fld = ''account_id'' then []
      else if fld = ''company_email'' \<or> fld = ''personal_email'' then maskEmail text
      else if fld = ''phone'' then maskValue text
      else ''***'')"

definition text_fields :: "(string \<times> (Employee \<Rightarrow> string)) list" where
  "text_fields =
     [(''employee_no'', emp_EmployeeNo), (''name'', emp_Name), (''company_email'', emp_CompanyEmail),
      (''personal_email'', emp_PersonalEmail), (''phone'', emp_Phone), (''position'', emp_Position),
      (''category'', emp_Category), (''status'', emp_Status), (''employment_status'', emp_EmploymentStatus),
      (''manager_employee_id'', emp_ManagerEmployeeID), (''org_unit_id'', emp_OrgUnitID),
      (''account_id'', emp_AccountID)]"

lemma mask_field_text:
  "emp_EmployeeNo (mask_field (k, v) x) = (if k = ''employee_no'' then redact_text ''employee_no'' v (emp_EmployeeNo x) else emp_EmployeeNo x)"
  "emp_Name (mask_field (k, v) x) = (if k = ''name'' then redact_text ''name'' v (emp_Name x) else emp_Name x)"
  "emp_CompanyEmail (mask_field (k, v) x) = (if k = ''company_email'' then redact_text ''company_email'' v (emp_CompanyEmail x) else emp_CompanyEmail x)"
  "emp_PersonalEmail (mask_field (k, v) x) = (if k = ''personal_email'' then redact_text ''personal_email'' v (emp_PersonalEmail x) else emp_PersonalEmail x)"
  "emp_Phone (mask_field (k, v) x) = (if k = ''phone'' then redact_text ''phone'' v (emp_Phone x) else emp_Phone x)"
  "emp_Position (mask_field (k, v) x) = (if k = ''position'' then redact_text ''position'' v (emp_Position x) else emp_Position x)"
  "emp_Category (mask_field (k, v) x) = (if k = ''category'' then redact_text ''category'' v (emp_Category x) else emp_Category x)"
  "emp_Status (mask_field (k, v) x) = (if k = ''status'' then redact_text ''status'' v (emp_Status x) else emp_Status x)"
  "emp_EmploymentStatus (mask_field (k, v) x) = (if k = ''employment_status'' then redact_text ''employment_status'' v (emp_EmploymentStatus x) else emp_EmploymentStatus x)"
  "emp_ManagerEmployeeID (mask_field (k, v) x) = (if k = ''manager_employee_id'' then redact_text ''manager_employee_id'' v (emp_ManagerEmployeeID x) else emp_ManagerEmployeeID x)"
  "emp_OrgUnitID (mask_field (k, v) x) = (if k = ''org_unit_id'' then redact_text ''org_unit_id'' v (emp_OrgUnitID x) else emp_OrgUnitID x)"
  "emp_AccountID (mask_field (k, v) x) = (if k = ''account_id'' then redact_text ''account_id'' v (emp_AccountID x) else emp_AccountID x)"
  by (simp_all add: mask_field_def redact_text_def redactString_def restricts_def hides_def Let_def)

lemma maskEmployee_text:
  assumes "map_wf policies" "(n, sel) \<in> set text_fields"
  shows "sel (maskEmployee item policies) =
    (case map_of policies n of None \<Rightarrow> sel item | Some effect \<Rightarrow> redact_text n effect (sel item))"
proof -
  have "\<forall>k v x. sel (mask_field (k, v) x) = (if k = n then redact_text n v (sel x) else sel x)"
    using assms(2) by (auto simp: text_fields_def mask_field_text)
  then show ?thesis unfolding maskEmployee_def by (intro fold_keyed assms(1)) blast
qed

definition masked_text :: "(string, string) gomap \<Rightarrow> string \<Rightarrow> string \<Rightarrow> string" where
  "masked_text policies fld text = (case map_of policies fld of None \<Rightarrow> text | Some effect \<Rightarrow> redact_text fld effect text)"

definition restricted :: "(string, string) gomap \<Rightarrow> string \<Rightarrow> bool" where
  "restricted policies fld \<longleftrightarrow> (case map_of policies fld of None \<Rightarrow> False | Some effect \<Rightarrow> restricts effect)"

text \<open>The fields that are handled by name; every other name is looked for in the five tabs.\<close>

definition own_fields :: "string list" where
  "own_fields = map fst text_fields @ [''hire_date'', ''resign_date'', ''basic_info'', ''contact_info'', ''insurance_info'']"

definition masked_entry :: "string \<Rightarrow> string \<Rightarrow> val option \<Rightarrow> val option" where
  "masked_entry key effect entry =
     (if \<not> restricts effect \<or> entry = None \<or> key \<in> set own_fields then entry
      else if hides effect then None else Some (VStr ''***''))"

definition masked_tab :: "(string, string) gomap \<Rightarrow> params \<Rightarrow> string \<Rightarrow> val option" where
  "masked_tab policies tab key = (case map_of policies key of None \<Rightarrow> map_of tab key
     | Some effect \<Rightarrow> masked_entry key effect (map_of tab key))"

text \<open>The loop over the policies, seen from an entry of a tab: one name changes the entry, another
  clears the tab.\<close>

lemma fold_keyed_cleared:
  assumes "\<And>k v x. sel (f (k, v) x) = (if k = m \<and> R v then None else if k = n then g v (sel x) else sel x)"
    and "\<And>v. g v None = None" and "map_wf ps"
  shows "sel (fold f ps x) = (case map_of ps m of Some v \<Rightarrow> if R v then None else
      (case map_of ps n of None \<Rightarrow> sel x | Some v \<Rightarrow> g v (sel x))
    | None \<Rightarrow> (case map_of ps n of None \<Rightarrow> sel x | Some v \<Rightarrow> g v (sel x)))"
  using assms(3)
proof (induction ps arbitrary: x)
  case (Cons p ps)
  obtain k v where p: "p = (k, v)" by (cases p)
  have "map_of ps k = None" using Cons.prems by (simp add: p map_of_eq_None_iff)
  moreover have "map_wf ps" using Cons.prems by simp
  note Cons.IH [OF this, of "f (k, v) x"]
  ultimately show ?case
    using assms(1) [of k v x] by (auto simp: p assms(2) split: option.split)
qed simp

lemma lookup_redactMapField:
  "map_of (redactMapField tab fld hide) key =
     (if key = fld \<and> map_of tab key \<noteq> None then (if hide then None else Some (VStr ''***'')) else map_of tab key)"
  by (auto simp: redactMapField_def Let_def split: option.split)

lemma own_fields_list:
  "set own_fields = {''employee_no'', ''name'', ''company_email'', ''personal_email'', ''phone'', ''position'',
     ''category'', ''status'', ''employment_status'', ''manager_employee_id'', ''org_unit_id'', ''account_id'',
     ''hire_date'', ''resign_date'', ''basic_info'', ''contact_info'', ''insurance_info''}"
  by (auto simp: own_fields_def text_fields_def)

lemma mask_field_whole_tabs:
  "emp_BasicInfo (mask_field (k, v) x) = (if \<not> restricts v then emp_BasicInfo x
     else if k = ''basic_info'' then [] else if k \<in> set own_fields then emp_BasicInfo x
     else redactMapField (emp_BasicInfo x) k (hides v))"
  "emp_ContactInfo (mask_field (k, v) x) = (if \<not> restricts v then emp_ContactInfo x
     else if k = ''contact_info'' then [] else if k \<in> set own_fields then emp_ContactInfo x
     else redactMapField (emp_ContactInfo x) k (hides v))"
  "emp_InsuranceInfo (mask_field (k, v) x) = (if \<not> restricts v then emp_InsuranceInfo x
     else if k = ''insurance_info'' then [] else if k \<in> set own_fields then emp_InsuranceInfo x
     else redactMapField (emp_InsuranceInfo x) k (hides v))"
  "emp_EmploymentInfo (mask_field (k, v) x) = (if \<not> restricts v then emp_EmploymentInfo x
     else if k \<in> set own_fields then emp_EmploymentInfo x else redactMapField (emp_EmploymentInfo x) k (hides v))"
  "emp_EducationMilitaryInfo (mask_field (k, v) x) = (if \<not> restricts v then emp_EducationMilitaryInfo x
     else if k \<in> set own_fields then emp_EducationMilitaryInfo x
     else redactMapField (emp_EducationMilitaryInfo x) k (hides v))"
  "emp_HireDate (mask_field (k, v) x) = (if restricts v \<and> k = ''hire_date'' then None else emp_HireDate x)"
  "emp_ResignDate (mask_field (k, v) x) = (if restricts v \<and> k = ''resign_date'' then None else emp_ResignDate x)"
  by (simp_all add: mask_field_def own_fields_list restricts_def hides_def Let_def)

lemma mask_field_rest:
  "emp_ID (mask_field p x) = emp_ID x" "emp_TenantID (mask_field p x) = emp_TenantID x"
  "emp_ExternalSource (mask_field p x) = emp_ExternalSource x"
  "emp_ExternalEmployeeID (mask_field p x) = emp_ExternalEmployeeID x"
  "emp_PositionID (mask_field p x) = emp_PositionID x"
  "emp_ShowInOrgChart (mask_field p x) = emp_ShowInOrgChart x"
  "emp_InternalExperiences (mask_field p x) = emp_InternalExperiences x"
  "emp_SourcePayload (mask_field p x) = emp_SourcePayload x"
  "emp_SourceUpdatedAt (mask_field p x) = emp_SourceUpdatedAt x"
  "emp_LastSyncedAt (mask_field p x) = emp_LastSyncedAt x"
  "emp_CreatedAt (mask_field p x) = emp_CreatedAt x" "emp_UpdatedAt (mask_field p x) = emp_UpdatedAt x"
  by (simp_all add: mask_field_def Let_def split: prod.split)

lemma maskEmployee_rest:
  "emp_ID (maskEmployee x ps) = emp_ID x" "emp_TenantID (maskEmployee x ps) = emp_TenantID x"
  "emp_ExternalSource (maskEmployee x ps) = emp_ExternalSource x"
  "emp_ExternalEmployeeID (maskEmployee x ps) = emp_ExternalEmployeeID x"
  "emp_PositionID (maskEmployee x ps) = emp_PositionID x"
  "emp_ShowInOrgChart (maskEmployee x ps) = emp_ShowInOrgChart x"
  "emp_InternalExperiences (maskEmployee x ps) = emp_InternalExperiences x"
  "emp_SourcePayload (maskEmployee x ps) = emp_SourcePayload x"
  "emp_SourceUpdatedAt (maskEmployee x ps) = emp_SourceUpdatedAt x"
  "emp_LastSyncedAt (maskEmployee x ps) = emp_LastSyncedAt x"
  "emp_CreatedAt (maskEmployee x ps) = emp_CreatedAt x" "emp_UpdatedAt (maskEmployee x ps) = emp_UpdatedAt x"
  unfolding maskEmployee_def by (induction ps arbitrary: x) (simp_all add: mask_field_rest)

lemma tab_policy:
  assumes "map_wf policies"
    and step: "\<And>k v x. (tab :: Employee \<Rightarrow> params) (mask_field (k, v) x) = (if \<not> restricts v then tab x
      else if whole = Some k then [] else if k \<in> set own_fields then tab x else redactMapField (tab x) k (hides v))"
    and own: "set_option whole \<subseteq> set own_fields"
  shows "map_of (tab (maskEmployee item policies)) key =
    (if \<exists>w. whole = Some w \<and> restricted policies w then None else masked_tab policies (tab item) key)"
proof -
  let ?sel = "\<lambda>x. map_of (tab x) key"
  have sel: "?sel (mask_field (k, v) x) = (if whole = Some k \<and> restricts v then None
      else if k = key then masked_entry key v (?sel x) else ?sel x)" for k v x
    using own by (auto simp: step lookup_redactMapField masked_entry_def)
  show ?thesis
  proof (cases whole)
    case None
    then have "?sel (mask_field (k, v) x) = (if k = key then masked_entry key v (?sel x) else ?sel x)" for k v x
      by (simp only: sel) simp
    then show ?thesis
      using fold_keyed [where sel = ?sel and f = mask_field and g = "masked_entry key", OF _ assms(1)] None
      by (simp add: maskEmployee_def masked_tab_def)
  next
    case (Some w)
    then have "?sel (mask_field (k, v) x) = (if k = w \<and> restricts v then None
        else if k = key then masked_entry key v (?sel x) else ?sel x)" for k v x
      by (simp only: sel) auto
    then have "?sel (fold mask_field policies item) = (case map_of policies w of
        Some v \<Rightarrow> if restricts v then None else masked_tab policies (tab item) key
      | None \<Rightarrow> masked_tab policies (tab item) key)"
      unfolding masked_tab_def
      by (rule fold_keyed_cleared [OF _ _ assms(1)]) (simp_all add: masked_entry_def)
    then show ?thesis by (simp add: maskEmployee_def restricted_def Some split: option.split)
  qed
qed

lemma maskEmployee_tabs:
  assumes "map_wf policies"
  shows "map_of (emp_BasicInfo (maskEmployee item policies)) =
      (if restricted policies ''basic_info'' then (\<lambda>_. None) else masked_tab policies (emp_BasicInfo item))"
    "map_of (emp_ContactInfo (maskEmployee item policies)) =
      (if restricted policies ''contact_info'' then (\<lambda>_. None) else masked_tab policies (emp_ContactInfo item))"
    "map_of (emp_InsuranceInfo (maskEmployee item policies)) =
      (if restricted policies ''insurance_info'' then (\<lambda>_. None) else masked_tab policies (emp_InsuranceInfo item))"
    "map_of (emp_EmploymentInfo (maskEmployee item policies)) =
      masked_tab policies (emp_EmploymentInfo item)"
    "map_of (emp_EducationMilitaryInfo (maskEmployee item policies)) =
      masked_tab policies (emp_EducationMilitaryInfo item)"
proof -
  show "map_of (emp_BasicInfo (maskEmployee item policies)) =
      (if restricted policies ''basic_info'' then (\<lambda>_. None) else masked_tab policies (emp_BasicInfo item))"
    by (rule ext, subst tab_policy [OF assms, where whole = "Some ''basic_info''"])
      (simp_all add: mask_field_whole_tabs(1) own_fields_list)
  show "map_of (emp_ContactInfo (maskEmployee item policies)) =
      (if restricted policies ''contact_info'' then (\<lambda>_. None) else masked_tab policies (emp_ContactInfo item))"
    by (rule ext, subst tab_policy [OF assms, where whole = "Some ''contact_info''"])
      (simp_all add: mask_field_whole_tabs(2) own_fields_list)
  show "map_of (emp_InsuranceInfo (maskEmployee item policies)) =
      (if restricted policies ''insurance_info'' then (\<lambda>_. None) else masked_tab policies (emp_InsuranceInfo item))"
    by (rule ext, subst tab_policy [OF assms, where whole = "Some ''insurance_info''"])
      (simp_all add: mask_field_whole_tabs(3) own_fields_list)
  show "map_of (emp_EmploymentInfo (maskEmployee item policies)) =
      masked_tab policies (emp_EmploymentInfo item)"
    by (rule ext, subst tab_policy [OF assms, where whole = "None"])
      (simp_all add: mask_field_whole_tabs(4))
  show "map_of (emp_EducationMilitaryInfo (maskEmployee item policies)) =
      masked_tab policies (emp_EducationMilitaryInfo item)"
    by (rule ext, subst tab_policy [OF assms, where whole = "None"])
      (simp_all add: mask_field_whole_tabs(5))
qed

lemma maskEmployee_dates:
  assumes "map_wf policies"
  shows "emp_HireDate (maskEmployee item policies) = (if restricted policies ''hire_date'' then None else emp_HireDate item)"
    "emp_ResignDate (maskEmployee item policies) = (if restricted policies ''resign_date'' then None else emp_ResignDate item)"
proof -
  have hire: "emp_HireDate (mask_field (k, v) x) =
      (if k = ''hire_date'' then (if restricts v then None else emp_HireDate x) else emp_HireDate x)" for k v x
    by (simp add: mask_field_whole_tabs)
  have resign: "emp_ResignDate (mask_field (k, v) x) =
      (if k = ''resign_date'' then (if restricts v then None else emp_ResignDate x) else emp_ResignDate x)" for k v x
    by (simp add: mask_field_whole_tabs)
  show "emp_HireDate (maskEmployee item policies) = (if restricted policies ''hire_date'' then None else emp_HireDate item)"
    using fold_keyed [where sel = emp_HireDate and f = mask_field and n = "''hire_date''"
        and g = "\<lambda>v y. if restricts v then None else y", OF hire assms, of item]
    by (simp add: maskEmployee_def restricted_def split: option.split)
  show "emp_ResignDate (maskEmployee item policies) = (if restricted policies ''resign_date'' then None else emp_ResignDate item)"
    using fold_keyed [where sel = emp_ResignDate and f = mask_field and n = "''resign_date''"
        and g = "\<lambda>v y. if restricts v then None else y", OF resign assms, of item]
    by (simp add: maskEmployee_def restricted_def split: option.split)
qed

text \<open>
  C21.  Masking leaves of an employee exactly what the field policies allow, whatever the
  iteration order of their map: each of the twelve text fields handled by name is empty, a fixed
  mark, a shortened address or number, or itself, by the effect of its own policy; a restricted
  date is gone; a restricted basic, contact or insurance tab is empty; in the five tabs an entry
  whose own name is restricted is removed or replaced by the mark, unless that name is one of the
  fields handled by name, whose copies in the tabs stay; every other field of the record is
  unchanged.
\<close>

theorem maskEmployee_fields:
  assumes "map_wf policies"
  shows "let masked = maskEmployee item policies in
    masked = item\<lparr>
      emp_EmployeeNo := masked_text policies ''employee_no'' (emp_EmployeeNo item),
      emp_Name := masked_text policies ''name'' (emp_Name item),
      emp_CompanyEmail := masked_text policies ''company_email'' (emp_CompanyEmail item),
      emp_PersonalEmail := masked_text policies ''personal_email'' (emp_PersonalEmail item),
      emp_Phone := masked_text policies ''phone'' (emp_Phone item),
      emp_Position := masked_text policies ''position'' (emp_Position item),
      emp_Category := masked_text policies ''category'' (emp_Category item),
      emp_Status := masked_text policies ''status'' (emp_Status item),
      emp_EmploymentStatus := masked_text policies ''employment_status'' (emp_EmploymentStatus item),
      emp_ManagerEmployeeID := masked_text policies ''manager_employee_id'' (emp_ManagerEmployeeID item),
      emp_OrgUnitID := masked_text policies ''org_unit_id'' (emp_OrgUnitID item),
      emp_AccountID := masked_text policies ''account_id'' (emp_AccountID item),
      emp_HireDate := if restricted policies ''hire_date'' then None else emp_HireDate item,
      emp_ResignDate := if restricted policies ''resign_date'' then None else emp_ResignDate item,
      emp_BasicInfo := emp_BasicInfo masked, emp_ContactInfo := emp_ContactInfo masked,
      emp_InsuranceInfo := emp_InsuranceInfo masked, emp_EmploymentInfo := emp_EmploymentInfo masked,
      emp_EducationMilitaryInfo := emp_EducationMilitaryInfo masked\<rparr> \<and>
    map_of (emp_BasicInfo masked) =
      (if restricted policies ''basic_info'' then (\<lambda>_. None) else masked_tab policies (emp_BasicInfo item)) \<and>
    map_of (emp_ContactInfo masked) =
      (if restricted policies ''contact_info'' then (\<lambda>_. None) else masked_tab policies (emp_ContactInfo item)) \<and>
    map_of (emp_InsuranceInfo masked) =
      (if restricted policies ''insurance_info'' then (\<lambda>_. None) else masked_tab policies (emp_InsuranceInfo item)) \<and>
    map_of (emp_EmploymentInfo masked) = masked_tab policies (emp_EmploymentInfo item) \<and>
    map_of (emp_EducationMilitaryInfo masked) = masked_tab policies (emp_EducationMilitaryInfo item)"
proof -
  note texts = maskEmployee_text [OF assms, of _ _ item, folded masked_text_def]
  have fields: "(''employee_no'', emp_EmployeeNo) \<in> set text_fields" "(''name'', emp_Name) \<in> set text_fields"
    "(''company_email'', emp_CompanyEmail) \<in> set text_fields" "(''personal_email'', emp_PersonalEmail) \<in> set text_fields"
    "(''phone'', emp_Phone) \<in> set text_fields" "(''position'', emp_Position) \<in> set text_fields"
    "(''category'', emp_Category) \<in> set text_fields" "(''status'', emp_Status) \<in> set text_fields"
    "(''employment_status'', emp_EmploymentStatus) \<in> set text_fields"
    "(''manager_employee_id'', emp_ManagerEmployeeID) \<in> set text_fields"
    "(''org_unit_id'', emp_OrgUnitID) \<in> set text_fields" "(''account_id'', emp_AccountID) \<in> set text_fields"
    by (simp_all add: text_fields_def)
  show ?thesis unfolding Let_def
    by (intro conjI maskEmployee_tabs [OF assms] Employee.equality)
      (simp_all add: maskEmployee_rest fields [THEN texts] maskEmployee_dates [OF assms])
qed

definition sample_policies :: "(string, string) gomap" where
  "sample_policies = [(''phone'', ''mask''), (''name'', ''hide''), (''personal_email'', ''mask''),
     (''hire_date'', ''deny''), (''national_id'', ''mask''), (''contact_info'', ''hide''), (''status'', ''allow'')]"

definition sample_row_stored :: Employee where
  "sample_row_stored = zero_Employee\<lparr>emp_ID := ''e1'', emp_Name := ''Lin'', emp_Phone := ''0912345678'',
     emp_PersonalEmail := ''chen@example.org'', emp_Position := ''Engineer'', emp_Status := ''active'',
     emp_HireDate := Some 7, emp_ResignDate := Some 9,
     emp_BasicInfo := [(''national_id'', VStr ''A123''), (''blood'', VStr ''O'')],
     emp_ContactInfo := [(''address'', VStr ''Taipei'')]\<rparr>"

definition sample_row_shown :: Employee where
  "sample_row_shown = maskEmployee sample_row_stored sample_policies"

theorem maskEmployee_fields_witness:
  "emp_Name sample_row_shown = [] \<and> emp_Phone sample_row_shown = ''09***78'' \<and>
   emp_PersonalEmail sample_row_shown = ''c***n@example.org'' \<and> emp_Position sample_row_shown = ''Engineer'' \<and>
   emp_Status sample_row_shown = ''active'' \<and> emp_HireDate sample_row_shown = None \<and>
   emp_ResignDate sample_row_shown = Some 9 \<and> emp_ID sample_row_shown = ''e1'' \<and>
   map_of (emp_BasicInfo sample_row_shown) ''national_id'' = Some (VStr ''***'') \<and>
   map_of (emp_BasicInfo sample_row_shown) ''blood'' = Some (VStr ''O'') \<and>
   map_of (emp_ContactInfo sample_row_shown) ''address'' = None"
proof -
  have "map_wf sample_policies" by (simp add: sample_policies_def)
  note masked = maskEmployee_fields [OF this, of sample_row_stored, folded sample_row_shown_def, unfolded Let_def]
  have "emp_Name sample_row_shown = masked_text sample_policies ''name'' (emp_Name sample_row_stored)"
    "emp_Phone sample_row_shown = masked_text sample_policies ''phone'' (emp_Phone sample_row_stored)"
    "emp_PersonalEmail sample_row_shown = masked_text sample_policies ''personal_email'' (emp_PersonalEmail sample_row_stored)"
    "emp_Position sample_row_shown = masked_text sample_policies ''position'' (emp_Position sample_row_stored)"
    "emp_Status sample_row_shown = masked_text sample_policies ''status'' (emp_Status sample_row_stored)"
    "emp_HireDate sample_row_shown = (if restricted sample_policies ''hire_date'' then None else emp_HireDate sample_row_stored)"
    "emp_ResignDate sample_row_shown = (if restricted sample_policies ''resign_date'' then None else emp_ResignDate sample_row_stored)"
    "emp_ID sample_row_shown = emp_ID sample_row_stored"
    by (subst masked [THEN conjunct1], simp)+
  moreover have "masked_text sample_policies ''name'' (emp_Name sample_row_stored) = []"
    "masked_text sample_policies ''phone'' (emp_Phone sample_row_stored) = ''09***78''"
    "masked_text sample_policies ''personal_email'' (emp_PersonalEmail sample_row_stored) = ''c***n@example.org''"
    "masked_text sample_policies ''position'' (emp_Position sample_row_stored) = ''Engineer''"
    "masked_text sample_policies ''status'' (emp_Status sample_row_stored) = ''active''"
    "restricted sample_policies ''hire_date''" "\<not> restricted sample_policies ''resign_date''"
    "emp_ResignDate sample_row_stored = Some 9" "emp_ID sample_row_stored = ''e1''"
    "masked_tab sample_policies (emp_BasicInfo sample_row_stored) ''national_id'' = Some (VStr ''***'')"
    "masked_tab sample_policies (emp_BasicInfo sample_row_stored) ''blood'' = Some (VStr ''O'')"
    "\<not> restricted sample_policies ''basic_info''" "restricted sample_policies ''contact_info''"
    by code_simp+
  ultimately show ?thesis by (simp add: masked [THEN conjunct2])
qed

text \<open>
  Values kept in the information tabs escape the policies of the fields they are copied
  to: with the built-in masks of personal mail and phone, the same values stay in clear under
  those names in the basic and contact tabs; and a policy that denies the whole employment or
  education tab has no effect on it.
\<close>

theorem maskEmployee_leaves_tabs:
  "emp_BasicInfo (maskEmployee (item\<lparr>emp_BasicInfo := [(''personal_email'', mail)]\<rparr>)
     [(''personal_email'', ''mask''), (''phone'', ''mask'')]) = [(''personal_email'', mail)] \<and>
   emp_ContactInfo (maskEmployee (item\<lparr>emp_ContactInfo := [(''phone'', number)]\<rparr>)
     [(''personal_email'', ''mask''), (''phone'', ''mask'')]) = [(''phone'', number)] \<and>
   emp_EmploymentInfo (maskEmployee (item\<lparr>emp_EmploymentInfo := [(''grade'', grade)]\<rparr>)
     [(''employment_info'', ''deny'')]) = [(''grade'', grade)] \<and>
   emp_EducationMilitaryInfo (maskEmployee (item\<lparr>emp_EducationMilitaryInfo := [(''school'', school)]\<rparr>)
     [(''education_military_info'', ''deny'')]) = [(''school'', school)]"
  by (simp add: maskEmployee_def mask_field_def redactMapField_def Let_def)

text \<open>One list under two decisions: by relations, as the checker grants membership of one unit,
  and by the units of the conditions.\<close>

definition member_service :: service_env where
  "member_service = sample_service\<lparr> sv_relationships := Some (\<lambda>k. Inr (rc_Object k = ''org_unit:ou1'' \<and>
     rc_Relation k = ''member'')) \<rparr>"

definition two_rows :: "Employee list" where
  "two_rows = [zero_Employee\<lparr>emp_ID := ''e1'', emp_OrgUnitID := ''ou1''\<rparr>,
     zero_Employee\<lparr>emp_ID := ''e2'', emp_OrgUnitID := ''ou2''\<rparr>]"

definition by_units :: CheckResult where
  "by_units = zero_CheckResult\<lparr>res_Scope := ScopeDepartment, res_Conditions := [(''org_unit_ids'', VStrs [''ou2''])]\<rparr>"

definition by_relation :: CheckResult where
  "by_relation = by_units\<lparr>res_Conditions := [(''org_unit_ids'', VStrs [''ou2'']), (''scope_check'', VStr ''openfga'')]\<rparr>"

lemma two_rows_shown:
  "checks_decide member_service (sample_ctx ''sess-1'') sample_account two_rows by_relation"
  "map emp_ID (filter (check_shows member_service (sample_ctx ''sess-1'') sample_account by_relation) two_rows) = [''e1'']"
  "\<not> checks_decide member_service (sample_ctx ''sess-1'') sample_account two_rows by_units"
  "map emp_ID (filter (condition_shows member_service (sample_ctx ''sess-1'') sample_account [] by_units) two_rows) = [''e2'']"
  by code_simp+

theorem applyEmployeeDecision_selects_witness:
  "case applyEmployeeDecision member_service (sample_ctx ''sess-1'') sample_account two_rows by_relation of
     Inl e \<Rightarrow> False | Inr shown \<Rightarrow> map emp_ID shown = [''e1'']"
proof -
  obtain units where units: "as_ListOrgUnits (sv_store member_service) (ctx_TenantID (sample_ctx ''sess-1'')) = Inr units"
    by (simp add: member_service_def sample_service_def env_store_def)
  have own: "isOk (as_GetEmployee (sv_store member_service) (ctx_TenantID (sample_ctx ''sess-1'')) (acc_EmployeeID sample_account))"
    by code_simp
  have "map emp_ID (map (\<lambda>e. maskEmployee e (res_FieldPolicies by_relation)) xs) = map emp_ID xs" for xs by simp
  then show ?thesis
    using two_rows_shown(1,2) by (simp only: applyEmployeeDecision_selects [OF units own] if_True sum.case)
qed

end
