(* ===== verification/Authz_Service.thy ===== *)
theory Authz_Service
  imports Authz_Decision Sample_Tenant
begin

text \<open>
  The entry points of the authorization service and what they write: the snapshot cache
  (\<open>src/internal/service/authz_snapshot_service.go\<close>), account resolution, authorization
  and audit records (\<open>service.go\<close>), and \<open>Check\<close>, \<open>BatchCheck\<close>,
  \<open>Explain\<close> and \<open>Simulate\<close> (\<open>authz_service.go\<close>).

  An operation is a function of the state \<open>authz_state\<close> (the snapshots with the time
  they end, and the audit records written) that also returns an error or a value.
  \<open>authz_service\<close> holds what is outside the repository: the digest of a snapshot key
  (SHA-1 over JSON), whether a cache is configured, whether a call to it fails, the new ids, and the errors the audit table
  may return.  The cache keeps an entry until its time to live is over or its tenant is
  invalidated, as Redis does.
\<close>

section \<open>State\<close>

record authz_snapshot_payload =
  sp_tenant_id :: string
  sp_account_id :: string
  sp_assumed_role_session_id :: string
  sp_permission_version :: int
  sp_application_code :: string
  sp_resource_type :: string
  sp_resource_id :: string
  sp_resource :: string
  sp_action :: string
  sp_target :: string
  sp_target_employee_id :: string
  sp_route_method :: string
  sp_route_path :: string
  sp_context :: params

type_synonym snapshots = "(string, CheckResult \<times> int) gomap"

record authz_state =
  azs_snapshots :: snapshots
  azs_logs :: "AuditLog list"

record authz_service =
  az_env :: service_env
  az_hasCache :: bool
  az_cacheFails :: "string \<Rightarrow> bool"
  az_digest :: "authz_snapshot_payload \<Rightarrow> string"
  az_newID :: "nat \<Rightarrow> string"
  az_auditError :: "AuditLog \<Rightarrow> err option"

type_synonym 'a azop = "(authz_state, err, 'a) op"

section \<open>Snapshots\<close>

definition snapshot_payload :: "RequestContext \<Rightarrow> Account \<Rightarrow> CheckRequest \<Rightarrow> int \<Rightarrow> authz_snapshot_payload" where
  "snapshot_payload ctx account req version = \<lparr>
     sp_tenant_id = ctx_TenantID ctx,
     sp_account_id = acc_ID account,
     sp_assumed_role_session_id = ctx_AssumedRoleSessionID ctx,
     sp_permission_version = version,
     sp_application_code = req_ApplicationCode req,
     sp_resource_type = req_ResourceType req,
     sp_resource_id = req_ResourceID req,
     sp_resource = req_Resource req,
     sp_action = req_Action req,
     sp_target = req_Target req,
     sp_target_employee_id = req_TargetEmployeeID req,
     sp_route_method = req_RouteMethod req,
     sp_route_path = req_RoutePath req,
     sp_context = req_Context req \<rparr>"

definition authzSnapshotKey :: "authz_service \<Rightarrow> RequestContext \<Rightarrow> Account \<Rightarrow> CheckRequest \<Rightarrow> int \<Rightarrow> string" where
  "authzSnapshotKey c ctx account req version =
     ''authz:snapshot:'' @ ctx_TenantID ctx @ '':'' @ az_digest c (snapshot_payload ctx account req version)"

definition shouldUseAuthzSnapshot :: "RequestContext \<Rightarrow> bool" where
  "shouldUseAuthzSnapshot ctx \<longleftrightarrow> ctx_AssumedRoleSessionID ctx = []"

definition az_now :: "authz_service \<Rightarrow> int" where
  "az_now c = sv_now (az_env c)"

definition getAuthzSnapshot :: "authz_service \<Rightarrow> authz_state \<Rightarrow> string \<Rightarrow> CheckResult option" where
  "getAuthzSnapshot c s key =
     (if \<not> az_hasCache c \<or> az_cacheFails c ''get'' then None
      else case map_of (azs_snapshots s) key of
        None \<Rightarrow> None
      | Some (result, til) \<Rightarrow> if az_now c < til then Some result else None)"

definition five_minutes :: int where "five_minutes = 5 * 60 * 1000000000"

definition authzDenySnapshotTTL :: int where "authzDenySnapshotTTL = 60 * 1000000000"

definition setAuthzSnapshot :: "authz_service \<Rightarrow> string \<Rightarrow> CheckResult \<Rightarrow> int option \<Rightarrow> authz_state \<Rightarrow> authz_state" where
  "setAuthzSnapshot c key result validUntil s =
     (if \<not> az_hasCache c \<or> az_cacheFails c ''set'' then s
      else case validUntil of
        None \<Rightarrow> s\<lparr>azs_snapshots := map_put key (result, az_now c + five_minutes) (azs_snapshots s)\<rparr>
      | Some til \<Rightarrow>
          let remaining = til - az_now c in
          if remaining \<le> 0 then s
          else let ttl = (if remaining < five_minutes then remaining else five_minutes)
               in s\<lparr>azs_snapshots := map_put key (result, az_now c + ttl) (azs_snapshots s)\<rparr>)"

definition setAuthzDenySnapshot :: "authz_service \<Rightarrow> string \<Rightarrow> CheckResult \<Rightarrow> authz_state \<Rightarrow> authz_state" where
  "setAuthzDenySnapshot c key result s =
     (if \<not> az_hasCache c \<or> az_cacheFails c ''set'' then s
      else s\<lparr>azs_snapshots := map_put key (result, az_now c + authzDenySnapshotTTL) (azs_snapshots s)\<rparr>)"

text \<open>The Redis scan by the pattern of the tenant, for tenant ids without pattern characters.\<close>

definition InvalidateTenant :: "string \<Rightarrow> snapshots \<Rightarrow> snapshots" where
  "InvalidateTenant tenantID snapshots =
     (if TrimSpace tenantID = [] then snapshots
      else filter (\<lambda>e. \<not> prefix (''authz:snapshot:'' @ tenantID @ '':'') (fst e)) snapshots)"

definition invalidateAuthzSnapshots :: "authz_service \<Rightarrow> string \<Rightarrow> authz_state \<Rightarrow> authz_state" where
  "invalidateAuthzSnapshots c tenantID s =
     (if \<not> az_hasCache c \<or> az_cacheFails c ''invalidate'' then s
      else s\<lparr>azs_snapshots := InvalidateTenant tenantID (azs_snapshots s)\<rparr>)"

section \<open>Decisions\<close>

definition decideFresh :: "service_env \<Rightarrow> RequestContext \<Rightarrow> Account \<Rightarrow> CheckRequest \<Rightarrow> (authzGrant list \<times> CheckResult) res" where
  "decideFresh env ctx account req =
     bindR (collectAuthzGrants env ctx account) (\<lambda>(grants, setIDs, assumedRole, boundary).
     bindR (evaluateAuthzDecision env ctx account req grants setIDs assumedRole boundary None) (\<lambda>(result, _).
       Inr (grants, result)))"

definition cacheResult :: "authz_service \<Rightarrow> bool \<Rightarrow> string \<Rightarrow> authzGrant list \<Rightarrow> CheckResult \<Rightarrow> authz_state \<Rightarrow> authz_state" where
  "cacheResult c useSnapshot key grants result s =
     (if \<not> useSnapshot then s
      else if res_Allowed result then setAuthzSnapshot c key result (earliestAuthzGrantExpiry grants) s
      else setAuthzDenySnapshot c key result s)"

definition evaluateAuthz :: "authz_service \<Rightarrow> RequestContext \<Rightarrow> Account \<Rightarrow> CheckRequest \<Rightarrow> CheckResult azop" where
  "evaluateAuthz c ctx account req =
     (let req = normalizeCheckRequest req in
      bindS (liftS (as_GetPermissionVersion (sv_store (az_env c)) (ctx_TenantID ctx))) (\<lambda>version s.
        let key = authzSnapshotKey c ctx account req version; useSnapshot = shouldUseAuthzSnapshot ctx in
        case (if useSnapshot then getAuthzSnapshot c s key else None) of
          Some cached \<Rightarrow> (Inr cached, s)
        | None \<Rightarrow>
            (case decideFresh (az_env c) ctx account req of
               Inl e \<Rightarrow> (Inl e, s)
             | Inr (grants, result) \<Rightarrow> (Inr result, cacheResult c useSnapshot key grants result s))))"

definition evaluateCurrentAccessProjection :: "authz_service \<Rightarrow> RequestContext \<Rightarrow> Account \<Rightarrow> CheckRequest \<Rightarrow> CheckResult azop" where
  "evaluateCurrentAccessProjection c ctx account req =
     bindS (if TrimSpace (ctx_AssumedRoleSessionID ctx) \<noteq> []
            then liftS (bindR (activeAssumableRole (az_env c) ctx account) (\<lambda>_. Inr ()))
            else retS ()) (\<lambda>_.
       evaluateAuthz c (ctx\<lparr>ctx_AssumedRoleID := [], ctx_AssumedRoleSessionID := []\<rparr>) account req)"

definition resolveAccount :: "service_env \<Rightarrow> RequestContext \<Rightarrow> (Account \<times> Tenant) res" where
  "resolveAccount c ctx =
     (if TrimSpace (ctx_TenantID ctx) = [] then Inl (AppErr (BadRequest ''tenant id is required''))
      else if TrimSpace (ctx_AccountID ctx) = [] then Inl (AppErr (BadRequest ''account id is required''))
      else bindR (as_GetTenant (sv_store c) (ctx_TenantID ctx)) (\<lambda>found.
        case found of
          None \<Rightarrow> Inl (AppErr (NotFound ''tenant'' (ctx_TenantID ctx)))
        | Some tenant \<Rightarrow>
            bindR (as_GetAccount (sv_store c) (ctx_TenantID ctx) (ctx_AccountID ctx)) (\<lambda>found.
              case found of
                None \<Rightarrow> Inl (AppErr (NotFound ''account'' (ctx_AccountID ctx)))
              | Some account \<Rightarrow>
                  if acc_Status account = AccountStatusDisabled \<or> acc_Status account = AccountStatusPendingInvite
                  then Inl (AppErr (UnauthorizedReason ''account_inactive'' ''account is not active''))
                  else Inr (account, tenant))))"

section \<open>Audit records\<close>

definition auditResultFromDetails :: "params \<Rightarrow> string" where
  "auditResultFromDetails details =
     (if TrimSpace (stringFromAny (map_at details ''result'')) \<noteq> []
      then TrimSpace (stringFromAny (map_at details ''result''))
      else case map_of details ''authz_decision'' of
        None \<Rightarrow> ''success''
      | Some raw \<Rightarrow> (case raw of
            VBool allowed \<Rightarrow> if \<not> allowed then ''denied'' else ''allowed''
          | _ \<Rightarrow> ''unknown''))"

definition put_nonempty :: "string \<Rightarrow> (string \<Rightarrow> val) \<Rightarrow> string \<Rightarrow> params \<Rightarrow> params" where
  "put_nonempty key wrap text out = (if text \<noteq> [] then map_put key (wrap text) out else out)"

definition auditDetailsWithContext :: "RequestContext \<Rightarrow> params \<Rightarrow> params" where
  "auditDetailsWithContext ctx details =
     (let out = CopyStringMap details;
          out = put_nonempty ''request_id'' VStr (ctx_RequestID ctx) out;
          traceID = (if ctx_TraceID ctx = [] then ctx_RequestID ctx else ctx_TraceID ctx);
          out = put_nonempty ''trace_id'' VStr traceID out;
          out = put_nonempty ''actor_account_id'' VStr (ctx_AccountID ctx) out;
          out = put_nonempty ''tenant_id'' VStr (ctx_TenantID ctx) out;
          out = put_nonempty ''application_code'' VApp (ctx_RouteApplicationCode ctx) out;
          out = put_nonempty ''resource_type'' VRes (ctx_RouteResourceType ctx) out;
          out = put_nonempty ''route_action'' VAction (ctx_RouteAction ctx) out
      in put_nonempty ''route_path'' VStr (ctx_RoutePath ctx) out)"

definition authzReasonCode :: "CheckResult \<Rightarrow> string" where
  "authzReasonCode decision =
     (if res_Reason decision = ''missing permission'' then
        (if res_Action decision = ActionRead then ''menu_denied''
         else if res_Action decision \<in> {ActionCreate, ActionUpdate, ActionDelete, ActionExport, ActionImport,
                 ActionInvite, ActionApprove, ActionUpdateStatus, ActionStatusTransition} then ''button_denied''
         else ''permission_missing'')
      else if res_Reason decision = ''relationship denied'' \<or> res_Reason decision = ''explicit deny''
      then ''permission_missing''
      else if res_Reason decision = ''data scope denied'' then ''data_scope_denied''
      else ''permission_missing'')"

definition forbiddenAuthz :: "CheckResult \<Rightarrow> err" where
  "forbiddenAuthz decision = AppErr (ForbiddenReason (authzReasonCode decision) (res_Reason decision))"

definition auditDecisionDetails :: "RequestContext \<Rightarrow> CheckResult \<Rightarrow> params \<Rightarrow> params" where
  "auditDecisionDetails ctx decision details =
     (let out = auditDetailsWithContext ctx details;
          out = map_put ''authz_decision'' (VBool (res_Allowed decision)) out;
          out = put_nonempty ''application_code'' VApp (res_ApplicationCode decision) out;
          out = put_nonempty ''resource_type'' VRes (res_ResourceType decision) out;
          out = (if map_of out ''reason'' \<noteq> None then map_put ''authz_reason'' (VStr (res_Reason decision)) out
                 else map_put ''reason'' (VStr (res_Reason decision)) out);
          out = map_put ''reason_code'' (VStr (authzReasonCode decision)) out;
          out = map_put ''matched_permissions'' (VStrs (res_MatchedPermissions decision)) out;
          out = map_put ''matched_sources'' (VStrs (res_MatchedBy decision)) out;
          out = map_put ''permission_boundary'' (VMap (res_PermissionBoundary decision)) out;
          out = map_put ''data_scope'' (VScope (res_Scope decision)) out;
          out = map_put ''field_policies'' (VStrMap (res_FieldPolicies decision)) out
      in map_put ''risk_level'' (VStr (res_RiskLevel decision)) out)"

definition audit :: "authz_service \<Rightarrow> RequestContext \<Rightarrow> string \<Rightarrow> string \<Rightarrow> string \<Rightarrow> string \<Rightarrow> params \<Rightarrow> unit azop" where
  "audit c ctx action resource target severity details s =
     (let details = auditDetailsWithContext ctx details;
          result = auditResultFromDetails details;
          traceID = (if ctx_TraceID ctx = [] then ctx_RequestID ctx else ctx_TraceID ctx);
          log = \<lparr>al_ID = az_newID c (length (azs_logs s)), al_TenantID = ctx_TenantID ctx,
                 al_ActorAccountID = ctx_AccountID ctx, al_Action = action, al_Resource = resource,
                 al_Target = target, al_Result = result, al_TraceID = traceID, al_Severity = severity,
                 al_Details = details, al_CreatedAt = az_now c\<rparr>
      in case az_auditError c log of
           Some e \<Rightarrow> (Inl e, s)
         | None \<Rightarrow> (Inr (), s\<lparr>azs_logs := azs_logs s @ [log]\<rparr>))"

record AuditTarget =
  at_Event :: string
  at_Resource :: string
  at_Target :: string

definition fromRequest :: "AuditTarget \<Rightarrow> CheckRequest \<Rightarrow> AuditTarget" where
  "fromRequest a req =
     (let req = normalizeCheckRequest req;
          a = (if at_Event a = [] then a\<lparr>at_Event := AuditEvent req\<rparr> else a);
          a = (if at_Resource a = [] then a\<lparr>at_Resource := req_ResourceType req\<rparr> else a)
      in if at_Target a = [] then a\<lparr>at_Target := req_ResourceID req\<rparr> else a)"

definition shouldAuditAuthzDecision :: "CheckResult \<Rightarrow> bool" where
  "shouldAuditAuthzDecision decision =
     (if \<not> res_Allowed decision then True
      else res_Action decision \<noteq> ActionRead \<or> res_RiskLevel decision = ''high'' \<or> res_RiskLevel decision = ''critical'')"

definition auditAuthzDecision :: "authz_service \<Rightarrow> RequestContext \<Rightarrow> string \<Rightarrow> string \<Rightarrow> string \<Rightarrow> CheckResult \<Rightarrow> unit azop" where
  "auditAuthzDecision c ctx action resource target decision =
     audit c ctx action resource target ''high'' (auditDecisionDetails ctx decision [])"

definition auditAuthzTarget :: "authz_service \<Rightarrow> RequestContext \<Rightarrow> AuditTarget \<Rightarrow> CheckResult \<Rightarrow> unit azop" where
  "auditAuthzTarget c ctx a decision =
     (if at_Event a = [] then retS ()
      else if \<not> shouldAuditAuthzDecision decision then retS ()
      else auditAuthzDecision c ctx (at_Event a) (at_Resource a) (at_Target a) decision)"

text \<open>\<open>_ = f()\<close>: the error of \<open>f\<close> is dropped, what it wrote stays.\<close>

definition ignoreS :: "unit azop \<Rightarrow> unit azop" where
  "ignoreS m s = (Inr (), snd (m s))"

section \<open>The service\<close>

abbreviation no_target :: AuditTarget where "no_target \<equiv> \<lparr>at_Event = [], at_Resource = [], at_Target = []\<rparr>"

record AuthzAudit =
  aa_target :: AuditTarget
  aa_decision :: CheckResult

definition Authorize :: "authz_service \<Rightarrow> RequestContext \<Rightarrow> CheckRequest \<Rightarrow> AuditTarget \<Rightarrow>
    (Account \<times> CheckResult \<times> AuthzAudit) azop" where
  "Authorize c ctx req a =
     bindS (liftS (resolveAccount (az_env c) ctx)) (\<lambda>(account, _).
     bindS (evaluateAuthz c ctx account req) (\<lambda>decision.
       let a = fromRequest a req; done = \<lparr>aa_target = a, aa_decision = decision\<rparr> in
       if \<not> res_Allowed decision then
         bindS (ignoreS (auditAuthzTarget c ctx a decision)) (\<lambda>_. liftS (Inl (forbiddenAuthz decision)))
       else retS (account, decision, done)))"

definition CommitWith :: "authz_service \<Rightarrow> RequestContext \<Rightarrow> AuthzAudit \<Rightarrow> unit azop" where
  "CommitWith c ctx a = auditAuthzTarget c ctx (aa_target a) (aa_decision a)"

definition requireServiceAuthz :: "authz_service \<Rightarrow> RequestContext \<Rightarrow> string \<Rightarrow> string \<Rightarrow> string \<Rightarrow> string \<Rightarrow>
    (Account \<times> CheckResult) azop" where
  "requireServiceAuthz c ctx app resource action resourceID =
     bindS (Authorize c ctx (zero_CheckRequest\<lparr>req_ApplicationCode := app, req_ResourceType := resource,
              req_ResourceID := resourceID, req_Action := action\<rparr>) no_target)
       (\<lambda>(account, decision, _). retS (account, decision))"

definition shouldAuditRouteAuthzCheck :: "CheckResult \<Rightarrow> bool" where
  "shouldAuditRouteAuthzCheck result \<longleftrightarrow> \<not> res_Allowed result"

definition checkedWith :: "authz_service \<Rightarrow> RequestContext \<Rightarrow> CheckRequest \<Rightarrow> (Account \<Rightarrow> CheckResult azop) \<Rightarrow> CheckResult azop" where
  "checkedWith c ctx req evaluate =
     bindS (liftS (resolveAccount (az_env c) ctx)) (\<lambda>(account, _).
     bindS (evaluate account) (\<lambda>result.
     bindS (if shouldAuditRouteAuthzCheck result
            then ignoreS (auditAuthzTarget c ctx (fromRequest no_target req) result) else retS ()) (\<lambda>_.
       retS result)))"

definition Check :: "authz_service \<Rightarrow> RequestContext \<Rightarrow> CheckRequest \<Rightarrow> CheckResult azop" where
  "Check c ctx req = checkedWith c ctx req (\<lambda>account. evaluateAuthz c ctx account req)"

definition CheckCurrentAccessProjection :: "authz_service \<Rightarrow> RequestContext \<Rightarrow> CheckRequest \<Rightarrow> CheckResult azop" where
  "CheckCurrentAccessProjection c ctx req =
     checkedWith c ctx req (\<lambda>account. evaluateCurrentAccessProjection c ctx account req)"

definition BatchCheck :: "authz_service \<Rightarrow> RequestContext \<Rightarrow> CheckRequest list \<Rightarrow> CheckResult list azop" where
  "BatchCheck c ctx checks =
     foldS (\<lambda>item results. bindS (Check c ctx item) (\<lambda>result. retS (results @ [result]))) checks []"

definition authzCheckAuditSummary :: "CheckRequest \<Rightarrow> params" where
  "authzCheckAuditSummary req =
     (let req = normalizeCheckRequest req in
      [(''application_code'', VApp (req_ApplicationCode req)), (''resource_type'', VRes (req_ResourceType req)),
       (''resource'', VStr (req_Resource req)), (''resource_id'', VStr (req_ResourceID req)),
       (''action'', VAction (req_Action req)), (''target'', VStr (req_Target req)),
       (''target_employee_id'', VStr (req_TargetEmployeeID req)),
       (''route_method'', VStr (req_RouteMethod req)), (''route_path'', VStr (req_RoutePath req))])"

definition authzOverridesAuditSummary :: "AuthzSimulationOverrides \<Rightarrow> params" where
  "authzOverridesAuditSummary overrides =
     [(''add_user_groups'', VStrs (uniqueStrings (aso_AddUserGroups overrides))),
      (''remove_user_groups'', VStrs (uniqueStrings (aso_RemoveUserGroups overrides))),
      (''add_permission_sets'', VStrs (uniqueStrings (aso_AddPermissionSets overrides))),
      (''remove_permission_sets'', VStrs (uniqueStrings (aso_RemovePermissionSets overrides))),
      (''assume_role_id'', VStr (TrimSpace (aso_AssumeRoleID overrides))),
      (''permission_set_change_count'', VNum (int (length (aso_PermissionSetChanges overrides))))]"

definition addedStrings :: "string list \<Rightarrow> string list \<Rightarrow> string list" where
  "addedStrings before after =
     (let seen = stringsToSet before in
      uniqueStrings (filter (\<lambda>item. TrimSpace item \<noteq> [] \<and> item \<notin> seen) after))"

definition removedStrings :: "string list \<Rightarrow> string list \<Rightarrow> string list" where
  "removedStrings before after =
     (let seen = stringsToSet after in
      uniqueStrings (filter (\<lambda>item. TrimSpace item \<noteq> [] \<and> item \<notin> seen) before))"

definition authzSimulationDiff :: "CheckResult \<Rightarrow> CheckResult \<Rightarrow> AuthzSimulationDiff" where
  "authzSimulationDiff before after = \<lparr>
     adf_AllowedChanged = (res_Allowed before \<noteq> res_Allowed after),
     adf_BeforeAllowed = res_Allowed before,
     adf_AfterAllowed = res_Allowed after,
     adf_ScopeChanged = (res_EffectiveScope before \<noteq> res_EffectiveScope after),
     adf_BeforeScope = res_EffectiveScope before,
     adf_AfterScope = res_EffectiveScope after,
     adf_AddedMatchedBy = addedStrings (res_MatchedBy before) (res_MatchedBy after),
     adf_RemovedMatchedBy = removedStrings (res_MatchedBy before) (res_MatchedBy after),
     adf_AddedMatchedPermissions = addedStrings (res_MatchedPermissions before) (res_MatchedPermissions after),
     adf_RemovedMatchedPermissions = removedStrings (res_MatchedPermissions before) (res_MatchedPermissions after) \<rparr>"

text \<open>The diff as a value of the audit details, under its JSON names.\<close>

definition diff_value :: "AuthzSimulationDiff \<Rightarrow> val" where
  "diff_value d = VMap
     [(''allowed_changed'', VBool (adf_AllowedChanged d)), (''before_allowed'', VBool (adf_BeforeAllowed d)),
      (''after_allowed'', VBool (adf_AfterAllowed d)), (''scope_changed'', VBool (adf_ScopeChanged d)),
      (''before_scope'', VScope (adf_BeforeScope d)), (''after_scope'', VScope (adf_AfterScope d)),
      (''added_matched_by'', VStrs (adf_AddedMatchedBy d)), (''removed_matched_by'', VStrs (adf_RemovedMatchedBy d)),
      (''added_matched_permissions'', VStrs (adf_AddedMatchedPermissions d)),
      (''removed_matched_permissions'', VStrs (adf_RemovedMatchedPermissions d))]"

definition auditAuthzGovernance :: "authz_service \<Rightarrow> RequestContext \<Rightarrow> string \<Rightarrow> string \<Rightarrow> string \<Rightarrow> CheckRequest \<Rightarrow>
    AuthzSimulationOverrides option \<Rightarrow> CheckResult \<Rightarrow> AuthzSimulationDiff option \<Rightarrow> unit azop" where
  "auditAuthzGovernance c ctx action severity targetAccountID req overrides decision diff =
     (let details = [(''target_account_id'', VStr targetAccountID), (''check'', VMap (authzCheckAuditSummary req))];
          details = (case overrides of None \<Rightarrow> details
            | Some ov \<Rightarrow> map_put ''overrides'' (VMap (authzOverridesAuditSummary ov)) details);
          details = (case diff of None \<Rightarrow> details | Some d \<Rightarrow> map_put ''diff'' (diff_value d) details)
      in audit c ctx action ''authz'' targetAccountID severity (auditDecisionDetails ctx decision details))"

definition Explain :: "authz_service \<Rightarrow> RequestContext \<Rightarrow> CheckRequest \<Rightarrow> AuthzExplainResponse azop" where
  "Explain c ctx req =
     bindS (liftS (resolveAccount (az_env c) ctx)) (\<lambda>(account, _).
     let req = normalizeCheckRequest req in
     bindS (liftS (collectAuthzGrants (az_env c) ctx account)) (\<lambda>(grants, setIDs, assumedRole, boundary).
     bindS (liftS (evaluateAuthzDecision (az_env c) ctx account req grants setIDs assumedRole boundary
              (Some zero_authzTrace))) (\<lambda>(decision, trace).
     let result = trace_response trace decision in
     bindS (auditAuthzGovernance c ctx ''iam.authz.explain'' ''normal'' (acc_ID account) req None decision None) (\<lambda>_.
       retS result))))"

record AuthzSimulationRequest =
  asq_AccountID :: string
  asq_Check :: CheckRequest
  asq_Overrides :: AuthzSimulationOverrides

definition zero_AuthzSimulationRequest :: AuthzSimulationRequest where
  "zero_AuthzSimulationRequest = \<lparr>
     asq_AccountID = [],
     asq_Check = zero_CheckRequest,
     asq_Overrides = zero_AuthzSimulationOverrides \<rparr>"

record BatchCheckRequest =
  bcr_Checks :: "CheckRequest list"

definition zero_BatchCheckRequest :: BatchCheckRequest where
  "zero_BatchCheckRequest = \<lparr>
     bcr_Checks = [] \<rparr>"

record BatchCheckResult =
  bcs_Results :: "CheckResult list"

definition zero_BatchCheckResult :: BatchCheckResult where
  "zero_BatchCheckResult = \<lparr>
     bcs_Results = [] \<rparr>"

definition resolveSimulationAccount :: "service_env \<Rightarrow> RequestContext \<Rightarrow> string \<Rightarrow> (RequestContext \<times> Account) res" where
  "resolveSimulationAccount c ctx accountID =
     (let accountID = TrimSpace accountID;
          targetCtx = (if accountID = [] then ctx
                       else let t = ctx\<lparr>ctx_AccountID := accountID\<rparr> in
                         if accountID \<noteq> ctx_AccountID ctx
                         then t\<lparr>ctx_AssumedRoleSessionID := [], ctx_AssumedRoleID := []\<rparr> else t)
      in bindR (resolveAccount c targetCtx) (\<lambda>(account, _). Inr (targetCtx, account)))"

definition Simulate :: "authz_service \<Rightarrow> RequestContext \<Rightarrow> AuthzSimulationRequest \<Rightarrow> AuthzSimulationResponse azop" where
  "Simulate c ctx req =
     bindS (liftS (resolveSimulationAccount (az_env c) ctx (asq_AccountID req))) (\<lambda>(targetCtx, account).
     let check = normalizeCheckRequest (asq_Check req) in
     bindS (liftS (collectAuthzGrants (az_env c) targetCtx account)) (\<lambda>(grants, setIDs, assumedRole, boundary).
     bindS (liftS (evaluateAuthzDecision (az_env c) targetCtx account check grants setIDs assumedRole boundary None)) (\<lambda>(before, _).
     bindS (liftS (simulationOverridesToGrantOptions (asq_Overrides req))) (\<lambda>opts.
     bindS (liftS (collectAuthzGrantsWithOptions (az_env c) targetCtx account opts)) (\<lambda>(grants, setIDs, assumedRole, boundary).
     bindS (liftS (evaluateAuthzDecision (az_env c) targetCtx account check grants setIDs assumedRole boundary None)) (\<lambda>(after, _).
     let diff = authzSimulationDiff before after in
     bindS (auditAuthzGovernance c ctx ''iam.authz.simulate'' ''high'' (acc_ID account) check
              (Some (asq_Overrides req)) after (Some diff)) (\<lambda>_.
       retS \<lparr>asr_Before = before, asr_After = after, asr_Diff = diff\<rparr>)))))))"

end
