(* ===== verification/Snapshot_System.thy ===== *)
theory Snapshot_System
  imports Authz_Service
begin

text \<open>
  The snapshot cache as a transition system.  Requests of any accounts and tenants are evaluated
  while the tables, the clock and the failures of the cache change between any two of them; a
  tenant may be invalidated at any moment.  The relation keeps, beside the state of the service,
  the list of the decisions the engine really took, which is what a cached answer is compared with.
\<close>

section \<open>Decisions and the system\<close>

record taken_decision =
  td_env :: service_env
  td_ctx :: RequestContext
  td_account :: Account
  td_req :: CheckRequest
  td_version :: int
  td_grants :: "authzGrant list"
  td_result :: CheckResult

definition td_payload :: "taken_decision \<Rightarrow> authz_snapshot_payload" where
  "td_payload d = snapshot_payload (td_ctx d) (td_account d) (td_req d) (td_version d)"

definition td_at :: "taken_decision \<Rightarrow> int" where
  "td_at d = sv_now (td_env d)"

definition td_real :: "taken_decision \<Rightarrow> bool" where
  "td_real d \<longleftrightarrow>
     decideFresh (td_env d) (td_ctx d) (td_account d) (td_req d) = Inr (td_grants d, td_result d) \<and>
     as_GetPermissionVersion (sv_store (td_env d)) (ctx_TenantID (td_ctx d)) = Inr (td_version d) \<and>
     ctx_AssumedRoleSessionID (td_ctx d) = []"

text \<open>How long the answer of a decision may be served: five minutes and no longer than any of
  the grants it rests on, one minute when it is a denial.\<close>

definition td_valid_until :: "taken_decision \<Rightarrow> int \<Rightarrow> bool" where
  "td_valid_until d til \<longleftrightarrow>
     (if res_Allowed (td_result d)
      then til \<le> td_at d + five_minutes \<and>
           (\<forall>g \<in> set (td_grants d). case g_ExpiresAt g of None \<Rightarrow> True | Some e \<Rightarrow> til \<le> e)
      else til \<le> td_at d + authzDenySnapshotTTL)"

definition with_env :: "authz_service \<Rightarrow> service_env \<Rightarrow> (string \<Rightarrow> bool) \<Rightarrow> authz_service" where
  "with_env c env fails = c\<lparr>az_env := env, az_cacheFails := fails\<rparr>"

lemma with_env_simps [simp]:
  "az_env (with_env c env fails) = env" "az_digest (with_env c env fails) = az_digest c"
  "az_hasCache (with_env c env fails) = az_hasCache c" "az_now (with_env c env fails) = sv_now env"
  by (simp_all add: with_env_def az_now_def)

text \<open>The decision an evaluation takes, when it takes one: none when the cache answers.\<close>

definition taken :: "authz_service \<Rightarrow> RequestContext \<Rightarrow> Account \<Rightarrow> CheckRequest \<Rightarrow> authz_state \<Rightarrow> taken_decision list" where
  "taken c ctx account req s =
     (let req = normalizeCheckRequest req in
      case as_GetPermissionVersion (sv_store (az_env c)) (ctx_TenantID ctx) of
        Inl e \<Rightarrow> []
      | Inr version \<Rightarrow>
          if shouldUseAuthzSnapshot ctx \<and> getAuthzSnapshot c s (authzSnapshotKey c ctx account req version) = None
          then (case decideFresh (az_env c) ctx account req of
                  Inl e \<Rightarrow> []
                | Inr (grants, result) \<Rightarrow>
                    [\<lparr>td_env = az_env c, td_ctx = ctx, td_account = account, td_req = req,
                      td_version = version, td_grants = grants, td_result = result\<rparr>])
          else [])"

inductive snapshots_reachable :: "authz_service \<Rightarrow> authz_state \<Rightarrow> taken_decision list \<Rightarrow> bool"
  for c :: authz_service where
  started: "azs_snapshots s = [] \<Longrightarrow> snapshots_reachable c s []"
| evaluated: "snapshots_reachable c s h \<Longrightarrow>
    evaluateAuthz (with_env c env fails) ctx account req s = (out, s') \<Longrightarrow>
    snapshots_reachable c s' (h @ taken (with_env c env fails) ctx account req s)"
| invalidated: "snapshots_reachable c s h \<Longrightarrow>
    snapshots_reachable c (invalidateAuthzSnapshots (with_env c env fails) tenantID s) h"
| audited: "snapshots_reachable c s h \<Longrightarrow> azs_snapshots s' = azs_snapshots s \<Longrightarrow> snapshots_reachable c s' h"

section \<open>The invariant: every entry is backed by a decision\<close>

definition td_key :: "authz_service \<Rightarrow> taken_decision \<Rightarrow> string" where
  "td_key c d = authzSnapshotKey c (td_ctx d) (td_account d) (td_req d) (td_version d)"

definition backed :: "authz_service \<Rightarrow> taken_decision list \<Rightarrow> string \<Rightarrow> CheckResult \<times> int \<Rightarrow> bool" where
  "backed c h key entry \<longleftrightarrow>
     (\<exists>d \<in> set h. td_real d \<and> td_key c d = key \<and> td_result d = fst entry \<and> td_valid_until d (snd entry))"

definition snapshots_backed :: "authz_service \<Rightarrow> authz_state \<Rightarrow> taken_decision list \<Rightarrow> bool" where
  "snapshots_backed c s h \<longleftrightarrow> (\<forall>(key, entry) \<in> set (azs_snapshots s). backed c h key entry)"

lemma snapshots_backedI [intro?]:
  "(\<And>key entry. (key, entry) \<in> set (azs_snapshots s) \<Longrightarrow> backed c h key entry) \<Longrightarrow> snapshots_backed c s h"
  by (auto simp: snapshots_backed_def)

lemma snapshots_backedD: "snapshots_backed c s h \<Longrightarrow> (key, entry) \<in> set (azs_snapshots s) \<Longrightarrow> backed c h key entry"
  by (auto simp: snapshots_backed_def)

lemma backed_append: "backed c h key entry \<Longrightarrow> backed c (h @ h') key entry"
  by (auto simp: backed_def)

lemma td_key_with_env [simp]: "td_key (with_env c env fails) d = td_key c d"
  by (simp add: td_key_def authzSnapshotKey_def with_env_def)

lemma earliestExpiry_None: "earliestExpiry a b = None \<longleftrightarrow> a = None \<and> b = None"
  by (simp add: earliestExpiry_def split: option.split)

lemma earliestExpiry_le:
  "(case earliestExpiry a b of None \<Rightarrow> True | Some e \<Rightarrow> m \<le> e) \<Longrightarrow> (case a of None \<Rightarrow> True | Some e \<Rightarrow> m \<le> e)"
  "(case earliestExpiry a b of None \<Rightarrow> True | Some e \<Rightarrow> m \<le> e) \<Longrightarrow> (case b of None \<Rightarrow> True | Some e \<Rightarrow> m \<le> e)"
  by (simp_all add: earliestExpiry_def split: option.splits if_splits)

lemma earliest_fold_le:
  "fold (\<lambda>grant earliest. earliestExpiry earliest (g_ExpiresAt grant)) gs acc = Some m \<Longrightarrow>
   (\<forall>g \<in> set gs. case g_ExpiresAt g of None \<Rightarrow> True | Some e \<Rightarrow> m \<le> e) \<and> (case acc of None \<Rightarrow> True | Some a \<Rightarrow> m \<le> a)"
proof (induction gs arbitrary: acc)
  case (Cons g gs)
  from Cons.prems have "(\<forall>g \<in> set gs. case g_ExpiresAt g of None \<Rightarrow> True | Some e \<Rightarrow> m \<le> e) \<and>
      (case earliestExpiry acc (g_ExpiresAt g) of None \<Rightarrow> True | Some a \<Rightarrow> m \<le> a)"
    by (intro Cons.IH) simp
  then show ?case using earliestExpiry_le [of m acc "g_ExpiresAt g"] by simp
qed simp

lemma earliest_fold_None:
  "fold (\<lambda>grant earliest. earliestExpiry earliest (g_ExpiresAt grant)) gs acc = None \<Longrightarrow>
   acc = None \<and> (\<forall>g \<in> set gs. g_ExpiresAt g = None)"
proof (induction gs arbitrary: acc)
  case (Cons g gs)
  from Cons.prems have "earliestExpiry acc (g_ExpiresAt g) = None \<and> (\<forall>g \<in> set gs. g_ExpiresAt g = None)"
    by (intro Cons.IH) simp
  then show ?case unfolding earliestExpiry_None by (metis set_ConsD)
qed simp

lemma earliestAuthzGrantExpiry_bound:
  assumes "case earliestAuthzGrantExpiry gs of None \<Rightarrow> True | Some m \<Rightarrow> til \<le> m" "g \<in> set gs"
  shows "case g_ExpiresAt g of None \<Rightarrow> True | Some e \<Rightarrow> til \<le> e"
proof (cases "earliestAuthzGrantExpiry gs")
  case None
  with assms(2) show ?thesis using earliest_fold_None [of gs None] by (simp add: earliestAuthzGrantExpiry_def)
next
  case (Some m)
  with assms(2) have "case g_ExpiresAt g of None \<Rightarrow> True | Some e \<Rightarrow> m \<le> e"
    using earliest_fold_le [of gs None m] by (simp add: earliestAuthzGrantExpiry_def)
  with Some assms(1) show ?thesis by (simp split: option.splits)
qed

lemma stored_til:
  assumes "entry \<in> set (azs_snapshots (cacheResult c b key grants result s))" "res_Allowed result"
  obtains til where "entry \<in> set (azs_snapshots s) \<or> b \<and>
    entry \<in> set (map_put key (result, til) (azs_snapshots s)) \<and> til \<le> az_now c + five_minutes \<and>
    (case earliestAuthzGrantExpiry grants of None \<Rightarrow> True | Some m \<Rightarrow> til \<le> m)"
proof (cases "earliestAuthzGrantExpiry grants")
  case None
  with assms show thesis
    by (intro that [of "az_now c + five_minutes"]) (simp add: cacheResult_def setAuthzSnapshot_def split: if_splits)
next
  case (Some m)
  with assms show thesis
    by (intro that [of "az_now c + (if m - az_now c < five_minutes then m - az_now c else five_minutes)"])
      (simp add: cacheResult_def setAuthzSnapshot_def Let_def split: if_splits)
qed

text \<open>Storing an answer adds at most one entry, within the bounds of its decision.\<close>

lemma cacheResult_entries:
  assumes "(key', entry) \<in> set (azs_snapshots (cacheResult c b key grants result s))"
  shows "(key', entry) \<in> set (azs_snapshots s) \<or>
    b \<and> key' = key \<and> fst entry = result \<and>
    td_valid_until \<lparr>td_env = az_env c, td_ctx = ctx, td_account = account, td_req = req,
      td_version = version, td_grants = grants, td_result = result\<rparr> (snd entry)"
proof -
  have put: "(key', entry) \<in> set (azs_snapshots s) \<or> key' = key \<and> fst entry = result \<and> snd entry = til"
    if "(key', entry) \<in> set (map_put key (result, til) (azs_snapshots s))" for til
    using that set_map_put [of key "(result, til)" "azs_snapshots s"] by auto
  show ?thesis
  proof (cases "res_Allowed result")
    case False
    then have "(key', entry) \<in> set (azs_snapshots s) \<or>
        b \<and> (key', entry) \<in> set (map_put key (result, az_now c + authzDenySnapshotTTL) (azs_snapshots s))"
      using assms by (simp add: cacheResult_def setAuthzDenySnapshot_def split: if_splits)
    with False put [of "az_now c + authzDenySnapshotTTL"] show ?thesis
      by (auto simp: td_valid_until_def td_at_def az_now_def)
  next
    case True
    obtain til where til: "(key', entry) \<in> set (azs_snapshots s) \<or> b \<and>
        (key', entry) \<in> set (map_put key (result, til) (azs_snapshots s)) \<and> til \<le> az_now c + five_minutes \<and>
        (case earliestAuthzGrantExpiry grants of None \<Rightarrow> True | Some m \<Rightarrow> til \<le> m)"
      by (rule stored_til [OF assms True])
    have "td_valid_until \<lparr>td_env = az_env c, td_ctx = ctx, td_account = account, td_req = req,
        td_version = version, td_grants = grants, td_result = result\<rparr> til"
      if "til \<le> az_now c + five_minutes" "case earliestAuthzGrantExpiry grants of None \<Rightarrow> True | Some m \<Rightarrow> til \<le> m"
      using True that earliestAuthzGrantExpiry_bound [OF that(2)] by (simp add: td_valid_until_def td_at_def az_now_def)
    with til put [of til] show ?thesis by blast
  qed
qed

lemma cacheResult_logs [simp]: "azs_logs (cacheResult c b key grants result s) = azs_logs s"
  by (simp add: cacheResult_def setAuthzSnapshot_def setAuthzDenySnapshot_def Let_def split: option.split)

text \<open>What an evaluation does, by cases.\<close>

lemma evaluateAuthz_cases:
  assumes "evaluateAuthz c ctx account req s = (out, s')"
  obtains (failed) e where "out = Inl e" "s' = s" "taken c ctx account req s = []"
  | (cached) version result where
      "as_GetPermissionVersion (sv_store (az_env c)) (ctx_TenantID ctx) = Inr version" "out = Inr result" "s' = s"
      "ctx_AssumedRoleSessionID ctx = []" "taken c ctx account req s = []"
      "getAuthzSnapshot c s (authzSnapshotKey c ctx account (normalizeCheckRequest req) version) = Some result"
  | (fresh) version grants result where
      "as_GetPermissionVersion (sv_store (az_env c)) (ctx_TenantID ctx) = Inr version" "out = Inr result"
      "decideFresh (az_env c) ctx account (normalizeCheckRequest req) = Inr (grants, result)"
      "s' = cacheResult c (shouldUseAuthzSnapshot ctx)
         (authzSnapshotKey c ctx account (normalizeCheckRequest req) version) grants result s"
      "taken c ctx account req s = (if shouldUseAuthzSnapshot ctx then
         [\<lparr>td_env = az_env c, td_ctx = ctx, td_account = account, td_req = normalizeCheckRequest req,
           td_version = version, td_grants = grants, td_result = result\<rparr>] else [])"
proof (cases "as_GetPermissionVersion (sv_store (az_env c)) (ctx_TenantID ctx)")
  case (Inl e)
  with assms show thesis by (intro failed [of e]) (simp_all add: evaluateAuthz_def taken_def bindS_def liftS_def Let_def)
next
  case (Inr version)
  note version = this
  let ?key = "authzSnapshotKey c ctx account (normalizeCheckRequest req) version"
  consider (hit) result where "shouldUseAuthzSnapshot ctx" "getAuthzSnapshot c s ?key = Some result"
    | (miss) "(if shouldUseAuthzSnapshot ctx then getAuthzSnapshot c s ?key else None) = None"
    by (cases "getAuthzSnapshot c s ?key"; cases "shouldUseAuthzSnapshot ctx") auto
  then show thesis
  proof cases
    case hit
    with assms version show thesis
      by (intro cached [of version result])
        (simp_all add: evaluateAuthz_def taken_def bindS_def liftS_def Let_def shouldUseAuthzSnapshot_def)
  next
    case miss
    show thesis
    proof (cases "decideFresh (az_env c) ctx account (normalizeCheckRequest req)")
      case (Inl e)
      with assms version miss show thesis
        by (intro failed [of e]) (simp_all add: evaluateAuthz_def taken_def bindS_def liftS_def Let_def)
    next
      case (Inr gr)
      obtain grants result where gr: "gr = (grants, result)" by (cases gr)
      from miss have "getAuthzSnapshot c s ?key = None \<or> \<not> shouldUseAuthzSnapshot ctx" by (auto split: if_splits)
      with assms version miss Inr show thesis unfolding gr
        by (intro fresh [of version result grants])
          (auto simp: evaluateAuthz_def taken_def bindS_def liftS_def Let_def)
    qed
  qed
qed

lemma snapshots_reachable_backed: "snapshots_reachable c s h \<Longrightarrow> snapshots_backed c s h"
proof (induction rule: snapshots_reachable.induct)
  case (started s)
  then show ?case by (simp add: snapshots_backed_def)
next
  case (audited s h s')
  then show ?case by (simp add: snapshots_backed_def)
next
  case (invalidated s h env fails tenantID)
  then show ?case by (auto simp: snapshots_backed_def invalidateAuthzSnapshots_def InvalidateTenant_def)
next
  case (evaluated s h env fails ctx account req out s')
  let ?c = "with_env c env fails"
  from evaluated.hyps(2) show ?case
  proof (cases rule: evaluateAuthz_cases)
    case (fresh version grants result)
    show ?thesis
    proof
      fix key entry assume "(key, entry) \<in> set (azs_snapshots s')"
      then consider "(key, entry) \<in> set (azs_snapshots s)"
        | "shouldUseAuthzSnapshot ctx" "key = authzSnapshotKey ?c ctx account (normalizeCheckRequest req) version"
          "fst entry = result"
          "td_valid_until \<lparr>td_env = az_env ?c, td_ctx = ctx, td_account = account, td_req = normalizeCheckRequest req,
             td_version = version, td_grants = grants, td_result = result\<rparr> (snd entry)"
        unfolding fresh(4) by (auto dest!: cacheResult_entries)
      then show "backed c (h @ taken ?c ctx account req s) key entry"
      proof cases
        case 1
        then show ?thesis by (blast intro: backed_append snapshots_backedD evaluated.IH)
      next
        case 2
        then show ?thesis unfolding backed_def fresh(5)
          by (intro bexI [of _ "\<lparr>td_env = az_env ?c, td_ctx = ctx, td_account = account,
                td_req = normalizeCheckRequest req, td_version = version, td_grants = grants, td_result = result\<rparr>"])
            (use fresh in \<open>simp_all add: td_real_def td_key_def authzSnapshotKey_def shouldUseAuthzSnapshot_def\<close>)
      qed
    qed
  qed (use evaluated.IH in simp_all)
qed

section \<open>Properties of the cache\<close>

definition same_but_scope :: "CheckRequest \<Rightarrow> CheckRequest \<Rightarrow> bool" where
  "same_but_scope a b \<longleftrightarrow> b = a\<lparr>req_Scope := req_Scope b\<rparr>"

definition still_valid :: "taken_decision \<Rightarrow> int \<Rightarrow> bool" where
  "still_valid d now \<longleftrightarrow> (\<exists>til. now < til \<and> td_valid_until d til)"

definition request_payload :: "service_env \<Rightarrow> RequestContext \<Rightarrow> Account \<Rightarrow> CheckRequest \<Rightarrow> authz_snapshot_payload" where
  "request_payload env ctx account req = snapshot_payload ctx account (normalizeCheckRequest req)
     (case as_GetPermissionVersion (sv_store env) (ctx_TenantID ctx) of Inl e \<Rightarrow> 0 | Inr v \<Rightarrow> v)"

lemma same_but_scopeI:
  assumes "req_ApplicationCode a = req_ApplicationCode b" "req_ResourceType a = req_ResourceType b"
    "req_ResourceID a = req_ResourceID b" "req_Resource a = req_Resource b" "req_Action a = req_Action b"
    "req_Target a = req_Target b" "req_TargetEmployeeID a = req_TargetEmployeeID b"
    "req_RouteMethod a = req_RouteMethod b" "req_RoutePath a = req_RoutePath b" "req_Context a = req_Context b"
  shows "same_but_scope a b"
  using assms by (cases a, cases b) (simp add: same_but_scope_def)

lemma snapshot_payload_inject:
  assumes "snapshot_payload ctx account req v = snapshot_payload ctx' account' req' v'"
  shows "ctx_TenantID ctx = ctx_TenantID ctx'" "acc_ID account = acc_ID account'" "v = v'" "same_but_scope req req'"
proof -
  show "same_but_scope req req'"
    by (rule same_but_scopeI) (use assms in \<open>simp_all only: snapshot_payload_def authz_snapshot_payload.ext_inject\<close>)
qed (use assms in \<open>simp_all only: snapshot_payload_def authz_snapshot_payload.ext_inject\<close>)

lemma authzSnapshotKey_inject:
  assumes "authzSnapshotKey c ctx account req v = authzSnapshotKey c ctx' account' req' v'"
    "\<And>p q. length (az_digest c p) = length (az_digest c q)"
  shows "az_digest c (snapshot_payload ctx account req v) = az_digest c (snapshot_payload ctx' account' req' v')"
  using assms(1) append_eq_append_conv
    [OF disjI2 [OF assms(2)], of "''authz:snapshot:'' @ ctx_TenantID ctx @ '':''" _ "''authz:snapshot:'' @ ctx_TenantID ctx' @ '':''"]
  unfolding authzSnapshotKey_def by simp


section \<open>A cache at work\<close>

definition served_service :: service_env where
  "served_service = sample_service\<lparr>sv_store := env_store (sample_env\<lparr>me_store := sample_store
     \<lparr>st_tenants := [(''acme'', zero_Tenant\<lparr>tn_ID := ''acme''\<rparr>)]\<rparr>\<rparr>)\<rparr>"

definition sample_authz :: authz_service where
  "sample_authz = \<lparr>az_env = served_service, az_hasCache = True, az_cacheFails = (\<lambda>_. False),
     az_digest = (\<lambda>p. replicate 40 (CHR ''0'')), az_newID = (\<lambda>n. ''log''), az_auditError = (\<lambda>_. None)\<rparr>"

definition empty_authz_state :: authz_state where
  "empty_authz_state = \<lparr>azs_snapshots = [], azs_logs = []\<rparr>"

definition later_service :: service_env where
  "later_service = sample_service\<lparr>sv_now := 250\<rparr>"

lemma taken_payload:
  assumes "d \<in> set (taken (with_env c env fails) ctx account req s)"
  shows "td_payload d = request_payload env ctx account req"
proof -
  obtain out s' where "evaluateAuthz (with_env c env fails) ctx account req s = (out, s')" by (meson surj_pair)
  then show ?thesis
    by (cases rule: evaluateAuthz_cases)
      (use assms in \<open>simp_all add: td_payload_def request_payload_def split: if_splits\<close>)
qed

abbreviation (input) reads_at :: "service_env \<Rightarrow> authz_state \<Rightarrow> (err + CheckResult) \<times> authz_state" where
  "reads_at env s \<equiv> evaluateAuthz (with_env sample_authz env (\<lambda>_. False)) (sample_ctx []) sample_account
     (sample_request ''read'') s"

definition warm_state :: authz_state where
  "warm_state = snd (reads_at sample_service empty_authz_state)"

definition warm_decisions :: "taken_decision list" where
  "warm_decisions = taken (with_env sample_authz sample_service (\<lambda>_. False)) (sample_ctx []) sample_account
     (sample_request ''read'') empty_authz_state"

lemma warm_reachable: "snapshots_reachable sample_authz warm_state warm_decisions"
proof -
  have "snapshots_reachable sample_authz empty_authz_state []" by (rule started) (simp add: empty_authz_state_def)
  from evaluated [OF this] show ?thesis unfolding warm_state_def warm_decisions_def
    by (metis append_Nil prod.collapse)
qed

lemma warm_decisions_payload:
  "td_payload ` set warm_decisions \<subseteq> {request_payload later_service (sample_ctx []) sample_account (sample_request ''read'')}"
proof -
  have "request_payload sample_service ctx account req = request_payload later_service ctx account req"
    for ctx account req by (simp add: request_payload_def later_service_def)
  then show ?thesis unfolding warm_decisions_def by (auto dest!: taken_payload)
qed

lemma warm_answer: obtains result where "reads_at later_service warm_state = (Inr result, warm_state)" "res_Allowed result"
proof -
  have "case reads_at sample_service empty_authz_state of (_, warm) \<Rightarrow>
      (case fst (reads_at later_service warm) of Inl e \<Rightarrow> False | Inr r \<Rightarrow> res_Allowed r) \<and>
      taken (with_env sample_authz later_service (\<lambda>_. False)) (sample_ctx []) sample_account (sample_request ''read'') warm = []"
    by code_simp
  then obtain result where result: "fst (reads_at later_service warm_state) = Inr result" "res_Allowed result"
    and silent: "taken (with_env sample_authz later_service (\<lambda>_. False)) (sample_ctx []) sample_account
      (sample_request ''read'') warm_state = []"
    by (simp add: warm_state_def split: prod.splits sum.splits)
  obtain out s' where run: "reads_at later_service warm_state = (out, s')" by (meson surj_pair)
  have "s' = warm_state"
    using run by (cases rule: evaluateAuthz_cases) (use silent in \<open>simp_all add: shouldUseAuthzSnapshot_def sample_ctx_def zero_RequestContext_def\<close>)
  with run result show thesis by (intro that [of result]) simp_all
qed


definition scoped_permission :: Permission where
  "scoped_permission = (sample_perm ''read'')\<lparr>perm_Scope := ''self''\<rparr>"

definition scoped_service :: service_env where
  "scoped_service = sample_service\<lparr>sv_store := env_store (sample_env\<lparr>me_store := UpsertPermissionSet sample_store
     (zero_PermissionSet\<lparr>ps_ID := ''hr-read'', ps_TenantID := ''acme'', ps_Permissions := [scoped_permission]\<rparr>)\<rparr>)\<rparr>"

definition scoped_authz :: authz_service where
  "scoped_authz = sample_authz\<lparr>az_env := scoped_service\<rparr>"

definition scoped_request :: "string \<Rightarrow> CheckRequest" where
  "scoped_request scope = (sample_request ''read'')\<lparr>req_Scope := scope\<rparr>"

text \<open>
  The scope a request asks for is not part of the key under which its answer is cached, although
  the decision depends on it: an account whose only permission is limited to its own record is denied
  a read in scope "all", but is allowed it once a read in scope "self" has been answered.
\<close>

theorem snapshot_key_ignores_scope:
  "map_sum id res_Allowed (fst (evaluateAuthz scoped_authz (sample_ctx []) sample_account (scoped_request ''all'')
     empty_authz_state)) = Inr False \<and>
   (case evaluateAuthz scoped_authz (sample_ctx []) sample_account (scoped_request ''self'') empty_authz_state of
     (_, warm) \<Rightarrow> map_sum id res_Allowed (fst (evaluateAuthz scoped_authz (sample_ctx []) sample_account
       (scoped_request ''all'') warm)) = Inr True)"
  by code_simp

end
