(* ===== verification/Trace_Erasure.thy ===== *)
theory Trace_Erasure
  imports Authz_Decision
begin

text \<open>
  The trace that \<open>Explain\<close> threads through the evaluation of a decision is only written,
  never read: erasing it commutes with every stage of the evaluation, so an explained decision is
  the decision that the same request gets without a trace.
\<close>

definition erase :: "grant_state \<Rightarrow> grant_state" where
  "erase st = st\<lparr>gs_trace := None\<rparr>"

named_theorems erase_simps

lemma erase_fields [simp, erase_simps]:
  "gs_matched (erase st) = gs_matched st" "gs_matchedBy (erase st) = gs_matchedBy st"
  "gs_deniedBy (erase st) = gs_deniedBy st" "gs_relationshipDeniedBy (erase st) = gs_relationshipDeniedBy st"
  "gs_normal (erase st) = gs_normal st" "gs_assumed (erase st) = gs_assumed st"
  "gs_riskLevel (erase st) = gs_riskLevel st" "gs_trace (erase st) = None"
  by (simp_all add: erase_def)

lemma erase_traced [simp, erase_simps]: "erase (traced f st) = erase st" "traced f (erase st) = erase st"
  by (simp_all add: erase_def traced_def)

lemma untraced [erase_simps]: "gs_trace st = None \<Longrightarrow> traced f st = st"
  by (simp add: traced_def)

lemma deny_trace [erase_simps]: "gs_trace (deny source st) = gs_trace st"
  by (simp add: deny_def)

lemma erase_updates [erase_simps]:
  "erase (st\<lparr>gs_matchedBy := a\<rparr>) = (erase st)\<lparr>gs_matchedBy := a\<rparr>"
  "erase (st\<lparr>gs_relationshipDeniedBy := b\<rparr>) = (erase st)\<lparr>gs_relationshipDeniedBy := b\<rparr>"
  by (simp_all add: erase_def)

lemma erase_deny [erase_simps]: "erase (deny source st) = deny source (erase st)"
  by (simp add: erase_def deny_def)

lemma erase_denyByBoundary [erase_simps]: "erase (denyByBoundary key effect st) = denyByBoundary key effect (erase st)"
  by (simp add: denyByBoundary_def erase_deny traced_def) (simp add: erase_def deny_def)

lemma erase_acceptGrant [erase_simps]: "erase (acceptGrant grant scope conditions st) = acceptGrant grant scope conditions (erase st)"
  by (simp add: acceptGrant_def on_side_def traced_def erase_def)

lemma erase_rejectUsageScope [erase_simps]: "erase (rejectUsageScope grant scope st) = rejectUsageScope grant scope (erase st)"
  by (simp add: rejectUsageScope_def on_side_def traced_def erase_def)

lemma erase_acceptRelationship [erase_simps]: "erase (acceptRelationship ctx req st) = acceptRelationship ctx req (erase st)"
  by (simp add: acceptRelationship_def erase_def Let_def)

lemma erase_start [erase_simps]: "erase (start_state req trace) = start_state req None"
  by (simp add: erase_def start_state_def)

section \<open>The stages\<close>

definition erases :: "grant_state res \<Rightarrow> grant_state res \<Rightarrow> bool" where
  "erases m n \<longleftrightarrow> map_sum id erase m = n"

lemma erases_Inr [intro]: "erase st = st' \<Longrightarrow> erases (Inr st) (Inr st')"
  by (simp add: erases_def)

lemma erases_if:
  "(b \<Longrightarrow> erases m n) \<Longrightarrow> (\<not> b \<Longrightarrow> erases m' n') \<Longrightarrow> erases (if b then m else m') (if b then n else n')"
  by simp

lemma erases_bind:
  "(\<And>x. m = Inr x \<Longrightarrow> erases (f x) (g x)) \<Longrightarrow> erases (bindR m f) (bindR m g)"
  by (cases m) (simp_all add: erases_def)

lemma erases_then:
  "erases m n \<Longrightarrow> (\<And>st. erases (f st) (g (erase st))) \<Longrightarrow> erases (bindR m f) (bindR n g)"
  by (cases m) (auto simp: erases_def)

lemma grantWithScope_erases: "erases (grantWithScope req grant st found) (grantWithScope req grant (erase st) found)"
  by (auto simp: grantWithScope_def erase_simps)

lemma grantWithRelation_erases:
  "erases (grantWithRelation c ctx account req grant st answer) (grantWithRelation c ctx account req grant (erase st) answer)"
  unfolding grantWithRelation_def
proof (intro erases_if erases_Inr erases_bind)
  fix found
  let ?st = "if relationshipConstraint (g_Permission grant) = [] then st
    else st\<lparr>gs_matchedBy := gs_matchedBy st @ [snd answer]\<rparr>"
  have "erase ?st = (if relationshipConstraint (g_Permission grant) = [] then erase st
      else (erase st)\<lparr>gs_matchedBy := gs_matchedBy (erase st) @ [snd answer]\<rparr>)"
    by (simp add: erase_simps)
  then show "erases (grantWithScope req grant ?st found)
      (grantWithScope req grant (if relationshipConstraint (g_Permission grant) = [] then erase st
         else (erase st)\<lparr>gs_matchedBy := gs_matchedBy (erase st) @ [snd answer]\<rparr>) found)"
    using grantWithScope_erases [of req grant ?st found] by argo
qed (simp add: erase_simps)

lemma directGrant_erases:
  "erases (directGrant c ctx account req boundary entry st) (directGrant c ctx account req boundary entry (erase st))"
  unfolding directGrant_def Let_def
  by (intro erases_if erases_Inr erases_bind grantWithRelation_erases) (simp_all only: erase_simps)

lemma grants_erase:
  "erases (foldR (directGrant c ctx account req boundary) entries st)
     (foldR (directGrant c ctx account req boundary) entries (erase st))"
  by (induction entries arbitrary: st) (auto intro: erases_then directGrant_erases)

lemma implicitFallback_erases:
  "erases (implicitFallback c ctx account req boundary st) (implicitFallback c ctx account req boundary (erase st))"
  by (simp add: implicitFallback_def erases_Inr erase_simps erases_bind split: option.split)

lemma directScope_erases:
  "map_sum id (map_prod id erase) (directScope c ctx account req boundary assumedRole st) =
     directScope c ctx account req boundary assumedRole (erase st)"
proof -
  have chosen: "combineSides assumedRole (erase st) = combineSides assumedRole st"
    by (simp add: combineSides_def)
  have "map_prod id erase (applyBoundaryScope req found ch st) = applyBoundaryScope req found ch (erase st)" for found ch
    by (simp add: applyBoundaryScope_def split: option.split prod.split)
  moreover have "erase (snd (applyBoundaryScope req found ch st)) = erase st" for found ch
    by (simp add: applyBoundaryScope_def split: option.split prod.split)
  ultimately show ?thesis unfolding directScope_def chosen Let_def
    by (cases "boundaryScopeDecision c ctx account boundary")
      (simp_all add: traceScope_def scopeWithBoundary_def Let_def erase_simps prod_eq_iff)
qed

lemma decide_erase: "decide req assumedRole chosen (erase st) r = decide req assumedRole chosen st r"
  unfolding decide_def usageScopeInvalid_def by (simp only: erase_fields)

lemma baseResult_erase:
  "baseResult req setIDs assumedRole boundary policies chosen (erase st) =
     baseResult req setIDs assumedRole boundary policies chosen st"
  unfolding baseResult_def by (simp only: erase_fields)

lemma map_fst_bind:
  assumes "\<And>x. map_sum id fst (f x) = map_sum id fst (g x)"
  shows "map_sum id fst (bindR m f) = map_sum id fst (bindR m g)"
  using assms by (cases m) simp_all

lemma resultWithScope_erases:
  "map_sum id fst (resultWithScope c ctx req setIDs assumedRole boundary fp (chosen, erase st)) =
     map_sum id fst (resultWithScope c ctx req setIDs assumedRole boundary fp (chosen, st))"
proof -
  have "map_sum id fst (resultWithPolicies req setIDs assumedRole boundary chosen (erase st) policies) =
      map_sum id fst (resultWithPolicies req setIDs assumedRole boundary chosen st policies)" for policies
    by (simp add: resultWithPolicies_def decide_erase baseResult_erase)
  then show ?thesis unfolding resultWithScope_def fst_conv snd_conv erase_fields by (rule map_fst_bind)
qed

lemma resultWithFallback_erases:
  "map_sum id fst (resultWithFallback c ctx account req setIDs assumedRole boundary fp (erase st)) =
     map_sum id fst (resultWithFallback c ctx account req setIDs assumedRole boundary fp st)"
  unfolding resultWithFallback_def directScope_erases [symmetric]
  using resultWithScope_erases
  by (cases "directScope c ctx account req boundary assumedRole st")
    (simp_all add: map_prod_def case_prod_unfold)

lemma resultWithGrants_erases:
  "map_sum id fst (resultWithGrants c ctx account req setIDs assumedRole boundary fp (erase st)) =
     map_sum id fst (resultWithGrants c ctx account req setIDs assumedRole boundary fp st)"
  unfolding resultWithGrants_def implicitFallback_erases [unfolded erases_def, symmetric]
  by (cases "implicitFallback c ctx account req boundary st") (simp_all add: resultWithFallback_erases)

lemma decision_erased:
  "map_sum id fst (evaluateAuthzDecision c ctx account req grants setIDs assumedRole boundary trace) =
     map_sum id fst (evaluateAuthzDecision c ctx account req grants setIDs assumedRole boundary None)"
proof -
  let ?req = "normalizeCheckRequest req"
  let ?run = "\<lambda>trace. foldR (directGrant c ctx account ?req boundary) (enumerate 0 grants) (start_state ?req trace)"
  have run: "?run None = map_sum id erase (?run trace)"
    using grants_erase [of c ctx account ?req boundary "enumerate 0 grants" "start_state ?req trace"]
    by (simp only: erase_start erases_def)
  show ?thesis
    unfolding evaluateAuthzDecision_direct directDecision_def Let_def run
    by (cases "?run trace") (simp_all add: resultWithGrants_erases)
qed

lemma traced_decision:
  assumes "evaluateAuthzDecision c ctx account req grants setIDs assumedRole boundary trace = Inr (d, t)"
  shows "\<exists>t'. evaluateAuthzDecision c ctx account req grants setIDs assumedRole boundary trace' = Inr (d, t')"
proof -
  have "map_sum id fst (evaluateAuthzDecision c ctx account req grants setIDs assumedRole boundary trace') = Inr d"
    using decision_erased [of c ctx account req grants setIDs assumedRole boundary trace] assms
      decision_erased [of c ctx account req grants setIDs assumedRole boundary trace'] by simp
  then show ?thesis
    by (cases "evaluateAuthzDecision c ctx account req grants setIDs assumedRole boundary trace'") auto
qed

lemma trace_response_decision [simp]: "aer_Decision (trace_response trace d) = d"
  by (simp add: trace_response_def split: option.split)

text \<open>
  Explaining a decision does not change it: whatever trace is threaded through the evaluation,
  it fails with the same error or gives the same decision as without a trace.
\<close>

theorem trace_changes_no_decision:
  "map_sum id fst (evaluateAuthzDecision c ctx account req grants setIDs assumedRole boundary trace) =
     map_sum id fst (evaluateAuthzDecision c ctx account req grants setIDs assumedRole boundary None)"
  by (rule decision_erased)

end
