(* ===== verification/Service_Properties.thy ===== *)
theory Service_Properties
  imports Snapshot_System Trace_Erasure
begin

text \<open>
  What the entry points of the authorization service promise their callers: who may pass
  \<open>Authorize\<close>, what a refusal leaves in the audit table, that \<open>Explain\<close> and
  \<open>Simulate\<close> answer only together with their audit record, and that a simulation neither
  touches the cached decisions nor, without overrides, changes the decision.
\<close>

section \<open>Running operations\<close>

lemma ignoreS_ok [simp]: "ignoreS m s = (Inr u, s') \<longleftrightarrow> s' = snd (m s)"
  by (auto simp: ignoreS_def)

lemma evaluateAuthz_keeps_logs: "evaluateAuthz c ctx account req s = (out, s') \<Longrightarrow> azs_logs s' = azs_logs s"
  by (erule evaluateAuthz_cases) simp_all

section \<open>Audit records\<close>

definition audit_log :: "authz_service \<Rightarrow> authz_state \<Rightarrow> RequestContext \<Rightarrow> string \<Rightarrow> string \<Rightarrow> string \<Rightarrow> string \<Rightarrow> params \<Rightarrow> AuditLog" where
  "audit_log c s ctx action resource target severity details =
     (let details = auditDetailsWithContext ctx details in
      \<lparr>al_ID = az_newID c (length (azs_logs s)), al_TenantID = ctx_TenantID ctx,
       al_ActorAccountID = ctx_AccountID ctx, al_Action = action, al_Resource = resource, al_Target = target,
       al_Result = auditResultFromDetails details,
       al_TraceID = (if ctx_TraceID ctx = [] then ctx_RequestID ctx else ctx_TraceID ctx),
       al_Severity = severity, al_Details = details, al_CreatedAt = az_now c\<rparr>)"

lemma audit_conv:
  "audit c ctx action resource target severity details s =
     (let trail = audit_log c s ctx action resource target severity details in
      case az_auditError c trail of Some e \<Rightarrow> (Inl e, s) | None \<Rightarrow> (Inr (), s\<lparr>azs_logs := azs_logs s @ [trail]\<rparr>))"
  by (simp add: audit_def audit_log_def Let_def)

lemma audit_ok:
  assumes "audit c ctx action resource target severity details s = (Inr u, s')"
  shows "s' = s\<lparr>azs_logs := azs_logs s @ [audit_log c s ctx action resource target severity details]\<rparr>"
  using assms by (auto simp: audit_conv Let_def split: option.splits)

lemma map_of_put_nonempty: "map_of (put_nonempty k wrap text out) k' =
    (if k' = k \<and> text \<noteq> [] then Some (wrap text) else map_of out k')"
  by (simp add: put_nonempty_def)

text \<open>The keys of the request are added to the details of an audit record; the keys of the
  decision are none of them.\<close>

lemma auditDetailsWithContext_other:
  assumes "k \<noteq> ''request_id''" "k \<noteq> ''trace_id''" "k \<noteq> ''actor_account_id''" "k \<noteq> ''tenant_id''"
    "k \<noteq> ''application_code''" "k \<noteq> ''resource_type''" "k \<noteq> ''route_action''" "k \<noteq> ''route_path''"
  shows "map_of (auditDetailsWithContext ctx details) k = map_of details k"
  using assms by (simp only: auditDetailsWithContext_def Let_def map_of_put_nonempty Copy_id) simp

lemma auditDetailsWithContext_decision:
  "map_of (auditDetailsWithContext ctx details) ''result'' = map_of details ''result''"
  "map_of (auditDetailsWithContext ctx details) ''authz_decision'' = map_of details ''authz_decision''"
  "map_of (auditDetailsWithContext ctx details) ''reason_code'' = map_of details ''reason_code''"
  by (rule auditDetailsWithContext_other; simp)+

lemma auditDecisionDetails_keys:
  "map_of (auditDecisionDetails ctx decision details) ''result'' = map_of details ''result''"
  "map_of (auditDecisionDetails ctx decision details) ''authz_decision'' = Some (VBool (res_Allowed decision))"
  "map_of (auditDecisionDetails ctx decision details) ''reason_code'' = Some (VStr (authzReasonCode decision))"
  by (simp_all add: auditDecisionDetails_def Let_def map_of_put_nonempty auditDetailsWithContext_decision)

definition records_decision :: "RequestContext \<Rightarrow> AuditTarget \<Rightarrow> CheckResult \<Rightarrow> AuditLog \<Rightarrow> bool" where
  "records_decision ctx a decision trail \<longleftrightarrow>
     al_TenantID trail = ctx_TenantID ctx \<and> al_ActorAccountID trail = ctx_AccountID ctx \<and>
     al_Action trail = at_Event a \<and> al_Resource trail = at_Resource a \<and> al_Target trail = at_Target a \<and>
     al_Severity trail = ''high'' \<and> al_Result trail = (if res_Allowed decision then ''allowed'' else ''denied'') \<and>
     map_of (al_Details trail) ''reason_code'' = Some (VStr (authzReasonCode decision))"

lemma audit_log_decision:
  "records_decision ctx a decision (audit_log c s ctx (at_Event a) (at_Resource a) (at_Target a) ''high''
     (auditDecisionDetails ctx decision []))"
proof -
  let ?d = "auditDetailsWithContext ctx (auditDecisionDetails ctx decision [])"
  have "map_of ?d ''result'' = None" "map_of ?d ''authz_decision'' = Some (VBool (res_Allowed decision))"
    "map_of ?d ''reason_code'' = Some (VStr (authzReasonCode decision))"
    by (simp_all add: auditDetailsWithContext_decision auditDecisionDetails_keys)
  moreover from this have "map_at ?d ''result'' = VNil" by simp
  ultimately show ?thesis
    by (simp add: records_decision_def audit_log_def Let_def auditResultFromDetails_def)
qed

definition audits :: "authz_service \<Rightarrow> bool" where
  "audits c \<longleftrightarrow> (\<forall>trail. az_auditError c trail = None)"

text \<open>A refused request is written to the audit table, when it names an event and the table works.\<close>

lemma auditAuthzTarget_denied:
  assumes "audits c" "\<not> res_Allowed decision" "at_Event a \<noteq> []"
  shows "\<exists>trail. auditAuthzTarget c ctx a decision s = (Inr (), s\<lparr>azs_logs := azs_logs s @ [trail]\<rparr>) \<and>
    records_decision ctx a decision trail"
proof -
  have "auditAuthzTarget c ctx a decision s = (Inr (), s\<lparr>azs_logs := azs_logs s @
      [audit_log c s ctx (at_Event a) (at_Resource a) (at_Target a) ''high'' (auditDecisionDetails ctx decision [])]\<rparr>)"
    using assms by (simp add: auditAuthzTarget_def auditAuthzDecision_def shouldAuditAuthzDecision_def
        audit_conv Let_def audits_def)
  with audit_log_decision show ?thesis by blast
qed

section \<open>Authorize and Check\<close>

definition active_account :: "service_env \<Rightarrow> RequestContext \<Rightarrow> Account \<Rightarrow> bool" where
  "active_account env ctx account \<longleftrightarrow>
     as_GetAccount (sv_store env) (ctx_TenantID ctx) (ctx_AccountID ctx) = Inr (Some account) \<and>
     (\<exists>tenant. as_GetTenant (sv_store env) (ctx_TenantID ctx) = Inr (Some tenant)) \<and>
     acc_Status account \<noteq> AccountStatusDisabled \<and> acc_Status account \<noteq> AccountStatusPendingInvite"

lemma resolveAccount_active:
  assumes "resolveAccount env ctx = Inr (account, tenant)"
  shows "active_account env ctx account"
  using assms by (auto simp: resolveAccount_def active_account_def bindR_eq_Inr split: if_splits option.splits)

text \<open>
  C17.  \<open>Authorize\<close> lets a request through only for an account of the tenant that is neither
  disabled nor waiting for its invitation, with exactly the decision of the engine or of its cache,
  and only when that decision allows; it then writes no audit record, which is left to the commit.
\<close>

theorem Authorize_lets_through:
  assumes "Authorize c ctx req a s = (Inr (account, decision, done), s')"
  shows "active_account (az_env c) ctx account \<and> evaluateAuthz c ctx account req s = (Inr decision, s') \<and>
    res_Allowed decision \<and> azs_logs s' = azs_logs s \<and>
    done = \<lparr>aa_target = fromRequest a req, aa_decision = decision\<rparr>"
proof -
  from assms obtain tenant where resolved: "resolveAccount (az_env c) ctx = Inr (account, tenant)"
    and run: "evaluateAuthz c ctx account req s = (Inr decision, s')" and allowed: "res_Allowed decision"
    and d: "done = \<lparr>aa_target = fromRequest a req, aa_decision = decision\<rparr>"
    unfolding Authorize_def by (elim bindS_ok) (auto simp: Let_def elim!: bindS_ok split: if_splits prod.splits)
  from resolveAccount_active [OF resolved] run allowed d evaluateAuthz_keeps_logs [OF run] show ?thesis by blast
qed

theorem Authorize_lets_through_witness:
  "\<exists>account decision a s'. Authorize sample_authz (sample_ctx []) (sample_request ''read'') no_target
      empty_authz_state = (Inr (account, decision, a), s') \<and> res_Allowed decision \<and>
    active_account served_service (sample_ctx []) account"
proof -
  let ?run = "Authorize sample_authz (sample_ctx []) (sample_request ''read'') no_target empty_authz_state"
  have "isOk (fst ?run)" by code_simp
  then obtain x where x: "fst ?run = Inr x" by (rule isOkE)
  obtain account decision a where "x = (account, decision, a)" by (cases x)
  with x have run: "?run = (Inr (account, decision, a), snd ?run)" by (simp add: prod_eq_iff)
  from Authorize_lets_through [OF this] run show ?thesis by (auto simp: sample_authz_def)
qed

text \<open>The step from one state to the next with one record of a refusal added.\<close>

definition records_denial :: "RequestContext \<Rightarrow> AuditTarget \<Rightarrow> CheckResult \<Rightarrow> authz_state \<Rightarrow> authz_state \<Rightarrow> authz_state \<Rightarrow> bool" where
  "records_denial ctx a decision s t t' \<longleftrightarrow>
     (\<exists>trail. records_decision ctx a decision trail \<and> al_Result trail = ''denied'' \<and>
        t' = t\<lparr>azs_logs := azs_logs s @ [trail]\<rparr>)"

lemma evaluated_denial_recorded:
  assumes "evaluateAuthz c ctx account req s = (Inr decision, t)" "\<not> res_Allowed decision"
    and "audits c" "at_Event a \<noteq> []"
  shows "records_denial ctx a decision s t (snd (auditAuthzTarget c ctx a decision t))"
proof -
  from auditAuthzTarget_denied [OF assms(3,2,4)] obtain trail where
    trail: "auditAuthzTarget c ctx a decision t = (Inr (), t\<lparr>azs_logs := azs_logs t @ [trail]\<rparr>)"
      "records_decision ctx a decision trail" by blast
  moreover have "azs_logs t = azs_logs s" by (rule evaluateAuthz_keeps_logs [OF assms(1)])
  moreover have "al_Result trail = ''denied''" using trail(2) assms(2) by (simp add: records_decision_def)
  ultimately show ?thesis by (auto simp: records_denial_def)
qed

text \<open>
  C18.  A refusal is answered and recorded.  When the account resolves and the decision denies,
  \<open>Authorize\<close> fails with the forbidden error of the decision, whatever audit target it is given,
  and \<open>Check\<close> returns the decision, also when the record cannot be written.  When the audit
  table accepts records and the request or the given target names an event, each of the two adds
  exactly one record to the table, for the tenant and account of the request, with result "denied",
  severity high and the reason code of the decision.
\<close>

theorem denial_recorded:
  assumes "resolveAccount (az_env c) ctx = Inr (account, tenant)"
    and "evaluateAuthz c ctx account req s = (Inr decision, t)" and "\<not> res_Allowed decision"
  shows "fst (Authorize c ctx req a s) = Inl (forbiddenAuthz decision) \<and>
    fst (Check c ctx req s) = Inr decision \<and>
    (audits c \<and> at_Event (fromRequest a req) \<noteq> [] \<longrightarrow>
       records_denial ctx (fromRequest a req) decision s t (snd (Authorize c ctx req a s))) \<and>
    (audits c \<and> at_Event (fromRequest no_target req) \<noteq> [] \<longrightarrow>
       records_denial ctx (fromRequest no_target req) decision s t (snd (Check c ctx req s)))"
proof -
  have "Authorize c ctx req a s =
      (Inl (forbiddenAuthz decision), snd (auditAuthzTarget c ctx (fromRequest a req) decision t))"
    "Check c ctx req s = (Inr decision, snd (auditAuthzTarget c ctx (fromRequest no_target req) decision t))"
    using assms by (simp_all add: Authorize_def Check_def checkedWith_def bindS_def liftS_def ignoreS_def
        Let_def shouldAuditRouteAuthzCheck_def retS_def)
  then show ?thesis using evaluated_denial_recorded [OF assms(2,3)] by simp
qed

definition served_account :: Account where
  "served_account = (case resolveAccount served_service (sample_ctx []) of Inl e \<Rightarrow> zero_Account | Inr (account, _) \<Rightarrow> account)"

definition served_denial :: "(err + CheckResult) \<times> authz_state" where
  "served_denial = evaluateAuthz sample_authz (sample_ctx []) served_account (sample_request ''delete'') empty_authz_state"

lemma sample_authz_audits [simp]: "audits sample_authz" "az_env sample_authz = served_service"
  by (simp_all add: audits_def sample_authz_def)

lemma served_account_resolves: "\<exists>tenant. resolveAccount served_service (sample_ctx []) = Inr (served_account, tenant)"
proof -
  have "isOk (resolveAccount served_service (sample_ctx []))" by code_simp
  then obtain x where "resolveAccount served_service (sample_ctx []) = Inr x" by (rule isOkE)
  then show ?thesis by (cases x) (simp add: served_account_def)
qed

theorem denial_recorded_witness:
  "\<exists>trail decision t. Authorize sample_authz (sample_ctx []) (sample_request ''delete'') no_target empty_authz_state =
     (Inl (forbiddenAuthz decision), t\<lparr>azs_logs := [trail]\<rparr>) \<and>
   Check sample_authz (sample_ctx []) (sample_request ''delete'') empty_authz_state = (Inr decision, t\<lparr>azs_logs := [trail]\<rparr>) \<and>
   al_Result trail = ''denied'' \<and> al_Action trail = ''hr.employee.delete''"
proof -
  have "case fst served_denial of Inl e \<Rightarrow> False | Inr r \<Rightarrow> \<not> res_Allowed r" by code_simp
  then obtain decision where decision: "fst served_denial = Inr decision" "\<not> res_Allowed decision"
    by (simp split: sum.splits)
  have event: "at_Event (fromRequest no_target (sample_request ''delete'')) = ''hr.employee.delete''" by code_simp
  obtain tenant where resolved: "resolveAccount (az_env sample_authz) (sample_ctx []) = Inr (served_account, tenant)"
    using served_account_resolves by auto
  have run: "evaluateAuthz sample_authz (sample_ctx []) served_account (sample_request ''delete'') empty_authz_state =
      (Inr decision, snd served_denial)"
    using decision by (simp add: served_denial_def prod_eq_iff)
  let ?auth = "Authorize sample_authz (sample_ctx []) (sample_request ''delete'') no_target empty_authz_state"
  let ?check = "Check sample_authz (sample_ctx []) (sample_request ''delete'') empty_authz_state"
  note denied = denial_recorded [OF resolved run decision(2), of no_target]
  from denied event obtain trail where
    trail: "records_decision (sample_ctx []) (fromRequest no_target (sample_request ''delete'')) decision trail"
      "al_Result trail = ''denied''" "snd ?auth = snd served_denial\<lparr>azs_logs := [trail]\<rparr>"
    by (auto simp: records_denial_def empty_authz_state_def)
  moreover have "snd ?check = snd ?auth"
    using run resolved by (simp add: Authorize_def Check_def checkedWith_def bindS_def liftS_def ignoreS_def
        Let_def shouldAuditRouteAuthzCheck_def retS_def decision(2))
  ultimately have "?auth = (Inl (forbiddenAuthz decision), snd served_denial\<lparr>azs_logs := [trail]\<rparr>)"
    "?check = (Inr decision, snd served_denial\<lparr>azs_logs := [trail]\<rparr>)"
    using denied by (simp_all add: prod_eq_iff)
  with trail event show ?thesis by (auto simp: records_decision_def)
qed

section \<open>Explain and Simulate\<close>

definition empty_overrides :: "AuthzSimulationOverrides \<Rightarrow> bool" where
  "empty_overrides o' \<longleftrightarrow> aso_AddUserGroups o' = [] \<and> aso_RemoveUserGroups o' = [] \<and>
     aso_AddPermissionSets o' = [] \<and> aso_RemovePermissionSets o' = [] \<and> TrimSpace (aso_AssumeRoleID o') = [] \<and>
     aso_PermissionSetChanges o' = []"

lemma empty_overrides_options:
  "empty_overrides o' \<Longrightarrow> simulationOverridesToGrantOptions o' = Inr zero_authzGrantCollectionOptions"
  by (simp add: empty_overrides_def simulationOverridesToGrantOptions_def zero_authzGrantCollectionOptions_def
      uniqueStrings_def stringsToSet_def)

text \<open>What the two audited questions have in common: the answer comes with one record.\<close>

definition recorded :: "authz_state \<Rightarrow> RequestContext \<Rightarrow> string \<Rightarrow> string \<Rightarrow> CheckResult \<Rightarrow> authz_state \<Rightarrow> bool" where
  "recorded s ctx action target decision s' \<longleftrightarrow>
     (\<exists>trail. s' = s\<lparr>azs_logs := azs_logs s @ [trail]\<rparr> \<and> al_TenantID trail = ctx_TenantID ctx \<and>
        al_ActorAccountID trail = ctx_AccountID ctx \<and> al_Action trail = action \<and> al_Target trail = target \<and>
        al_Result trail = (if res_Allowed decision then ''allowed'' else ''denied''))"

lemma auditAuthzGovernance_ok:
  assumes "auditAuthzGovernance c ctx action severity target req overrides decision diff s = (Inr u, s')"
  shows "recorded s ctx action target decision s'"
proof -
  define details where "details = (let details = [(''target_account_id'', VStr target), (''check'', VMap (authzCheckAuditSummary req))];
      details = (case overrides of None \<Rightarrow> details
        | Some ov \<Rightarrow> map_put ''overrides'' (VMap (authzOverridesAuditSummary ov)) details)
    in case diff of None \<Rightarrow> details | Some d \<Rightarrow> map_put ''diff'' (diff_value d) details)"
  have fresh: "map_of details ''result'' = None"
    by (simp add: details_def Let_def split: option.split)
  let ?d = "auditDetailsWithContext ctx (auditDecisionDetails ctx decision details)"
  have "map_of ?d ''result'' = None" "map_of ?d ''authz_decision'' = Some (VBool (res_Allowed decision))"
    by (simp_all add: auditDetailsWithContext_decision auditDecisionDetails_keys fresh)
  moreover from this have "map_at ?d ''result'' = VNil" by simp
  moreover have "s' = s\<lparr>azs_logs := azs_logs s @ [audit_log c s ctx action ''authz'' target severity
      (auditDecisionDetails ctx decision details)]\<rparr>"
    using assms unfolding auditAuthzGovernance_def details_def Let_def by (rule audit_ok)
  ultimately show ?thesis
    by (auto simp: recorded_def audit_log_def Let_def auditResultFromDetails_def)
qed

text \<open>
  \<open>Simulate\<close> answers only together with its record in the audit table, under the name of
  the caller and about an active account of the caller's tenant, and leaves the cached decisions
  alone: when the record cannot be written there is no answer.  The difference it reports is that of
  the two decisions, and without overrides the two are the same.
\<close>

theorem Simulate_recorded:
  assumes "Simulate c ctx req s = (Inr r, s')"
  shows "\<exists>targetCtx account. resolveSimulationAccount (az_env c) ctx (asq_AccountID req) = Inr (targetCtx, account) \<and>
    ctx_TenantID targetCtx = ctx_TenantID ctx \<and> active_account (az_env c) targetCtx account \<and>
    recorded s ctx ''iam.authz.simulate'' (acc_ID account) (asr_After r) s' \<and>
    azs_snapshots s' = azs_snapshots s \<and> asr_Diff r = authzSimulationDiff (asr_Before r) (asr_After r) \<and>
    (empty_overrides (asq_Overrides req) \<longrightarrow> asr_Before r = asr_After r)"
proof -
  from assms obtain targetCtx account diff grants setIDs assumedRole boundary t opts grants' setIDs' assumedRole' boundary' t'
    where res: "resolveSimulationAccount (az_env c) ctx (asq_AccountID req) = Inr (targetCtx, account)"
    and before: "collectAuthzGrants (az_env c) targetCtx account = Inr (grants, setIDs, assumedRole, boundary)"
      "evaluateAuthzDecision (az_env c) targetCtx account (normalizeCheckRequest (asq_Check req)) grants setIDs
         assumedRole boundary None = Inr (asr_Before r, t)"
    and opts: "simulationOverridesToGrantOptions (asq_Overrides req) = Inr opts"
    and after: "collectAuthzGrantsWithOptions (az_env c) targetCtx account opts = Inr (grants', setIDs', assumedRole', boundary')"
      "evaluateAuthzDecision (az_env c) targetCtx account (normalizeCheckRequest (asq_Check req)) grants' setIDs'
         assumedRole' boundary' None = Inr (asr_After r, t')"
    and aud: "auditAuthzGovernance c ctx ''iam.authz.simulate'' ''high'' (acc_ID account)
      (normalizeCheckRequest (asq_Check req)) (Some (asq_Overrides req)) (asr_After r) (Some diff) s = (Inr (), s')"
    and diff: "asr_Diff r = authzSimulationDiff (asr_Before r) (asr_After r)"
    unfolding Simulate_def Let_def by (elim bindS_ok) (auto elim!: bindS_ok split: prod.splits)
  from res obtain tenant where "resolveAccount (az_env c) targetCtx = Inr (account, tenant)"
    and tenant: "ctx_TenantID targetCtx = ctx_TenantID ctx"
    by (auto simp: resolveSimulationAccount_def Let_def split: if_splits)
  note active = resolveAccount_active [OF this(1)]
  have rec: "recorded s ctx ''iam.authz.simulate'' (acc_ID account) (asr_After r) s'"
    by (rule auditAuthzGovernance_ok [OF aud])
  then have "azs_snapshots s' = azs_snapshots s" by (auto simp: recorded_def)
  moreover have "asr_Before r = asr_After r" if "empty_overrides (asq_Overrides req)"
    using before opts after that by (simp add: empty_overrides_options collectAuthzGrants_def)
  ultimately show ?thesis using res tenant active rec diff by blast
qed

text \<open>Both answer whenever the engine decides and the audit table accepts the record.\<close>

lemma auditAuthzGovernance_audits:
  assumes "audits c"
  shows "\<exists>s'. auditAuthzGovernance c ctx action severity target req overrides decision diff s = (Inr (), s')"
  using assms by (simp add: auditAuthzGovernance_def audit_conv Let_def audits_def)

lemma decideFresh_parts:
  assumes "decideFresh env ctx account req = Inr (grants, d)"
  obtains setIDs assumedRole boundary t where
    "collectAuthzGrants env ctx account = Inr (grants, setIDs, assumedRole, boundary)"
    "evaluateAuthzDecision env ctx account req grants setIDs assumedRole boundary None = Inr (d, t)"
  using assms by (auto simp: decideFresh_def)

lemma Explain_answers:
  assumes "resolveAccount (az_env c) ctx = Inr (account, tenant)" "audits c"
    and "decideFresh (az_env c) ctx account (normalizeCheckRequest req) = Inr (grants, d)"
  shows "\<exists>r s'. Explain c ctx req s = (Inr r, s') \<and> aer_Decision r = d"
proof -
  obtain setIDs assumedRole boundary t where
    grants: "collectAuthzGrants (az_env c) ctx account = Inr (grants, setIDs, assumedRole, boundary)"
    and run: "evaluateAuthzDecision (az_env c) ctx account (normalizeCheckRequest req) grants setIDs assumedRole boundary None = Inr (d, t)"
    using assms(3) by (rule decideFresh_parts)
  from traced_decision [OF run] obtain t' where "evaluateAuthzDecision (az_env c) ctx account (normalizeCheckRequest req) grants setIDs
      assumedRole boundary (Some zero_authzTrace) = Inr (d, t')" by blast
  moreover obtain s' where "auditAuthzGovernance c ctx ''iam.authz.explain'' ''normal'' (acc_ID account)
      (normalizeCheckRequest req) None d None s = (Inr (), s')"
    using auditAuthzGovernance_audits [OF assms(2)] by blast
  ultimately have "Explain c ctx req s = (Inr (trace_response t' d), s')"
    unfolding Explain_def by (simp add: assms(1) grants bindS_def liftS_def retS_def Let_def)
  then show ?thesis by simp
qed

lemma Simulate_answers:
  assumes "resolveAccount (az_env c) ctx = Inr (account, tenant)" "audits c"
    and "TrimSpace (asq_AccountID req) = []" "empty_overrides (asq_Overrides req)"
    and "decideFresh (az_env c) ctx account (normalizeCheckRequest (asq_Check req)) = Inr (grants, d)"
  shows "\<exists>r s'. Simulate c ctx req s = (Inr r, s') \<and> asr_After r = d"
proof -
  obtain setIDs assumedRole boundary t where
    grants: "collectAuthzGrants (az_env c) ctx account = Inr (grants, setIDs, assumedRole, boundary)"
    and run: "evaluateAuthzDecision (az_env c) ctx account (normalizeCheckRequest (asq_Check req)) grants setIDs assumedRole boundary None = Inr (d, t)"
    using assms(5) by (rule decideFresh_parts)
  have "resolveSimulationAccount (az_env c) ctx (asq_AccountID req) = Inr (ctx, account)"
    using assms by (simp add: resolveSimulationAccount_def Let_def)
  moreover have "collectAuthzGrantsWithOptions (az_env c) ctx account zero_authzGrantCollectionOptions =
      Inr (grants, setIDs, assumedRole, boundary)" using grants by (simp add: collectAuthzGrants_def)
  moreover obtain s' where "auditAuthzGovernance c ctx ''iam.authz.simulate'' ''high'' (acc_ID account)
      (normalizeCheckRequest (asq_Check req)) (Some (asq_Overrides req)) d (Some (authzSimulationDiff d d)) s = (Inr (), s')"
    using auditAuthzGovernance_audits [OF assms(2)] by blast
  ultimately have "Simulate c ctx req s =
      (Inr \<lparr>asr_Before = d, asr_After = d, asr_Diff = authzSimulationDiff d d\<rparr>, s')"
    unfolding Simulate_def
    by (simp add: grants run empty_overrides_options [OF assms(4)] bindS_def liftS_def retS_def Let_def)
  then show ?thesis by simp
qed

definition served_update :: "(authzGrant list \<times> CheckResult) res" where
  "served_update = decideFresh served_service (sample_ctx []) served_account (normalizeCheckRequest (sample_request ''update''))"

lemma served_update_allowed:
  obtains grants d where "decideFresh (az_env sample_authz) (sample_ctx []) served_account
    (normalizeCheckRequest (sample_request ''update'')) = Inr (grants, d)" "res_Allowed d"
proof -
  have "case served_update of Inl e \<Rightarrow> False | Inr x \<Rightarrow> res_Allowed (snd x)" by code_simp
  then show thesis by (intro that [of "fst (projr served_update)" "snd (projr served_update)"])
      (simp_all add: served_update_def split: sum.splits)
qed

theorem Simulate_recorded_witness:
  "\<exists>r s'. Simulate sample_authz (sample_ctx []) (zero_AuthzSimulationRequest\<lparr>asq_Check := sample_request ''update''\<rparr>)
      empty_authz_state = (Inr r, s') \<and> azs_snapshots s' = [] \<and> asr_Before r = asr_After r \<and> res_Allowed (asr_After r)"
proof -
  let ?req = "zero_AuthzSimulationRequest\<lparr>asq_Check := sample_request ''update''\<rparr>"
  have plain: "empty_overrides (asq_Overrides ?req)" "TrimSpace (asq_AccountID ?req) = []" "asq_Check ?req = sample_request ''update''"
    by (simp_all add: empty_overrides_def zero_AuthzSimulationOverrides_def zero_AuthzSimulationRequest_def)
  obtain tenant where resolved: "resolveAccount (az_env sample_authz) (sample_ctx []) = Inr (served_account, tenant)"
    using served_account_resolves by auto
  obtain grants d where d: "decideFresh (az_env sample_authz) (sample_ctx []) served_account
      (normalizeCheckRequest (asq_Check ?req)) = Inr (grants, d)" "res_Allowed d"
    unfolding plain by (rule served_update_allowed)
  obtain r s' where run: "Simulate sample_authz (sample_ctx []) ?req empty_authz_state = (Inr r, s')" "asr_After r = d"
    using Simulate_answers [OF resolved sample_authz_audits(1) plain(2,1) d(1)] by blast
  from Simulate_recorded [OF run(1)] run plain d(2) show ?thesis by (auto simp: empty_authz_state_def)
qed

text \<open>
  C19.  \<open>Explain\<close> reports the decision the engine takes for the caller at that moment, as a
  check that misses the cache would, and answers only together with its record in the audit table.
\<close>

theorem Explain_faithful:
  assumes "Explain c ctx req s = (Inr r, s')"
  shows "\<exists>account grants. active_account (az_env c) ctx account \<and>
    decideFresh (az_env c) ctx account (normalizeCheckRequest req) = Inr (grants, aer_Decision r) \<and>
    recorded s ctx ''iam.authz.explain'' (acc_ID account) (aer_Decision r) s'"
proof -
  from assms obtain account tenant grants setIDs assumedRole boundary decision trace
    where res: "resolveAccount (az_env c) ctx = Inr (account, tenant)"
    and grants: "collectAuthzGrants (az_env c) ctx account = Inr (grants, setIDs, assumedRole, boundary)"
    and decided: "evaluateAuthzDecision (az_env c) ctx account (normalizeCheckRequest req) grants setIDs
      assumedRole boundary (Some zero_authzTrace) = Inr (decision, trace)"
    and aud: "auditAuthzGovernance c ctx ''iam.authz.explain'' ''normal'' (acc_ID account)
      (normalizeCheckRequest req) None decision None s = (Inr (), s')"
    and r: "r = trace_response trace decision"
    unfolding Explain_def Let_def by (elim bindS_ok) (auto elim!: bindS_ok split: prod.splits)
  have decision: "aer_Decision r = decision" by (simp add: r)
  from traced_decision [OF decided] obtain t where
    "evaluateAuthzDecision (az_env c) ctx account (normalizeCheckRequest req) grants setIDs assumedRole boundary None = Inr (decision, t)"
    by blast
  with grants have "decideFresh (az_env c) ctx account (normalizeCheckRequest req) = Inr (grants, decision)"
    by (simp add: decideFresh_def)
  with resolveAccount_active [OF res] auditAuthzGovernance_ok [OF aud] decision show ?thesis by auto
qed

theorem Explain_faithful_witness:
  "\<exists>r s' grants account. Explain sample_authz (sample_ctx []) (sample_request ''update'') empty_authz_state = (Inr r, s') \<and>
     res_Allowed (aer_Decision r) \<and>
     decideFresh served_service (sample_ctx []) account (normalizeCheckRequest (sample_request ''update'')) =
       Inr (grants, aer_Decision r)"
proof -
  obtain tenant where resolved: "resolveAccount (az_env sample_authz) (sample_ctx []) = Inr (served_account, tenant)"
    using served_account_resolves by auto
  obtain grants d where d: "decideFresh (az_env sample_authz) (sample_ctx []) served_account
      (normalizeCheckRequest (sample_request ''update'')) = Inr (grants, d)" "res_Allowed d"
    by (rule served_update_allowed)
  obtain r s' where run: "Explain sample_authz (sample_ctx []) (sample_request ''update'') empty_authz_state = (Inr r, s')"
      "aer_Decision r = d"
    using Explain_answers [OF resolved sample_authz_audits(1) d(1)] by blast
  from Explain_faithful [OF run(1)] run d(2) show ?thesis by auto
qed

end
