(* ===== verification/Time_Intervals.thy ===== *)
theory Time_Intervals
  imports Prelude
begin

text \<open>
  The half-open time intervals of the attendance projection
  (\<open>src/internal/service/attendance_day_projection.go\<close>).  Times are nanoseconds since the
  zero time.  The loops are read against one abstraction, the set of instants a list of intervals
  covers: \<open>mergeIntervals\<close> computes the canonical list of a set, and intersection and
  subtraction are the operations on sets.  \<open>Duration.Minutes\<close> and the sum of
  \<open>intervalMinutes\<close> are floats in the source; here they are exact fractions.
\<close>

section \<open>Intervals and their loops\<close>

record attendanceTimeInterval =
  iv_Start :: int
  iv_End :: int

definition mergeStep :: "attendanceTimeInterval list \<Rightarrow> attendanceTimeInterval \<Rightarrow> attendanceTimeInterval list" where
  "mergeStep out value =
     (if out = [] \<or> iv_Start value > iv_End (last out) then out @ [value]
      else if iv_End value > iv_End (last out) then butlast out @ [(last out)\<lparr>iv_End := iv_End value\<rparr>]
      else out)"

definition mergeIntervals :: "attendanceTimeInterval list \<Rightarrow> attendanceTimeInterval list" where
  "mergeIntervals values =
     (let filtered = filter (\<lambda>value. iv_End value > iv_Start value) values
      in foldl mergeStep [] (sort_key iv_Start filtered))"

definition overlapOf :: "attendanceTimeInterval \<Rightarrow> attendanceTimeInterval \<Rightarrow> attendanceTimeInterval list" where
  "overlapOf a b =
     (let start = (if iv_Start b > iv_Start a then iv_Start b else iv_Start a);
          stop = (if iv_End b < iv_End a then iv_End b else iv_End a)
      in if stop > start then [\<lparr>iv_Start = start, iv_End = stop\<rparr>] else [])"

definition intersectIntervals :: "attendanceTimeInterval list \<Rightarrow> attendanceTimeInterval list \<Rightarrow> attendanceTimeInterval list" where
  "intersectIntervals left right =
     mergeIntervals (concat (map (\<lambda>a. concat (map (overlapOf a) right)) left))"

definition cutOut :: "attendanceTimeInterval \<Rightarrow> attendanceTimeInterval \<Rightarrow> attendanceTimeInterval list" where
  "cutOut exclusion value =
     (if \<not> iv_End exclusion > iv_Start value \<or> \<not> iv_End value > iv_Start exclusion then [value]
      else (if iv_Start exclusion > iv_Start value
            then [\<lparr>iv_Start = iv_Start value, iv_End = iv_Start exclusion\<rparr>] else []) @
           (if iv_End value > iv_End exclusion
            then [\<lparr>iv_Start = iv_End exclusion, iv_End = iv_End value\<rparr>] else []))"

definition subtractIntervals :: "attendanceTimeInterval list \<Rightarrow> attendanceTimeInterval list \<Rightarrow> attendanceTimeInterval list" where
  "subtractIntervals values exclusions =
     mergeIntervals (foldl (\<lambda>remaining exclusion. concat (map (cutOut exclusion) remaining))
       (mergeIntervals values) (mergeIntervals exclusions))"

abbreviation (input) "minute_ns \<equiv> 60000000000 :: int"

definition span :: "attendanceTimeInterval \<Rightarrow> int" where
  "span value = iv_End value - iv_Start value"

definition total_span :: "attendanceTimeInterval list \<Rightarrow> int" where
  "total_span values = sum_list (map span values)"

text \<open>\<open>int(minutes + 0.5)\<close> of the sum in minutes.\<close>

definition intervalMinutes :: "attendanceTimeInterval list \<Rightarrow> int" where
  "intervalMinutes values = (total_span (mergeIntervals values) + 30000000000) div minute_ns"

fun capLoop :: "attendanceTimeInterval list \<Rightarrow> int \<Rightarrow> attendanceTimeInterval list" where
  "capLoop [] remaining = []"
| "capLoop (value # rest) remaining =
     (if remaining \<le> 0 then []
      else let valueMinutes = span value div minute_ns in
        if valueMinutes \<le> remaining then value # capLoop rest (remaining - valueMinutes)
        else [value\<lparr>iv_End := iv_Start value + remaining * minute_ns\<rparr>])"

definition capIntervals :: "attendanceTimeInterval list \<Rightarrow> int \<Rightarrow> attendanceTimeInterval list" where
  "capIntervals values minutes = (if minutes \<le> 0 then [] else capLoop (mergeIntervals values) minutes)"

section \<open>The instants an interval list covers\<close>

definition instants :: "attendanceTimeInterval \<Rightarrow> int set" where
  "instants value = {iv_Start value ..< iv_End value}"

definition cover :: "attendanceTimeInterval list \<Rightarrow> int set" where
  "cover values = (\<Union>value \<in> set values. instants value)"

lemma cover_simps [simp]:
  "cover [] = {}" "cover (v # vs) = instants v \<union> cover vs" "cover (vs @ ws) = cover vs \<union> cover ws"
  by (auto simp: cover_def)

lemma finite_cover [simp]: "finite (cover vs)"
  by (simp add: cover_def instants_def)

lemma cover_concat: "cover (concat vss) = (\<Union>vs \<in> set vss. cover vs)"
  by (auto simp: cover_def)

lemma cover_set: "set vs = set ws \<Longrightarrow> cover vs = cover ws"
  by (simp add: cover_def)

definition proper :: "attendanceTimeInterval \<Rightarrow> bool" where
  "proper value \<longleftrightarrow> iv_Start value < iv_End value"

definition separated :: "attendanceTimeInterval list \<Rightarrow> bool" where
  "separated values \<longleftrightarrow> sorted_wrt (\<lambda>a b. iv_End a < iv_Start b) values \<and> (\<forall>v \<in> set values. proper v)"

lemma separated_simps [simp]:
  "separated []"
  "separated (v # vs) \<longleftrightarrow> proper v \<and> (\<forall>w \<in> set vs. iv_End v < iv_Start w) \<and> separated vs"
  "separated (vs @ ws) \<longleftrightarrow> separated vs \<and> separated ws \<and> (\<forall>v \<in> set vs. \<forall>w \<in> set ws. iv_End v < iv_Start w)"
  by (auto simp: separated_def sorted_wrt_append)

lemma separated_tail: "separated (v # vs) \<Longrightarrow> x \<in> cover vs \<Longrightarrow> iv_End v < x"
  by (auto simp: cover_def instants_def)

section \<open>Merging is canonical\<close>

lemma mergeStep_separated:
  assumes "separated out" "proper value" "out \<noteq> [] \<Longrightarrow> iv_Start (last out) \<le> iv_Start value"
  shows "separated (mergeStep out value)" "cover (mergeStep out value) = cover out \<union> instants value"
    "mergeStep out value \<noteq> []" "iv_Start (last (mergeStep out value)) \<le> iv_Start value"
proof -
  have "separated (mergeStep out value) \<and> cover (mergeStep out value) = cover out \<union> instants value \<and>
      mergeStep out value \<noteq> [] \<and> iv_Start (last (mergeStep out value)) \<le> iv_Start value"
  proof (cases out rule: rev_cases)
    case Nil
    with assms show ?thesis by (simp add: mergeStep_def)
  next
    case (snoc front v)
    with assms show ?thesis
      by (auto simp: mergeStep_def proper_def instants_def)
  qed
  then show "separated (mergeStep out value)" "cover (mergeStep out value) = cover out \<union> instants value"
    "mergeStep out value \<noteq> []" "iv_Start (last (mergeStep out value)) \<le> iv_Start value"
    by simp_all
qed

lemma mergeFold_separated:
  assumes "separated out" "\<forall>v \<in> set vs. proper v" "sorted (map iv_Start vs)"
    "\<And>v. out \<noteq> [] \<Longrightarrow> v \<in> set vs \<Longrightarrow> iv_Start (last out) \<le> iv_Start v"
  shows "separated (foldl mergeStep out vs) \<and> cover (foldl mergeStep out vs) = cover out \<union> cover vs"
  using assms
proof (induction vs arbitrary: out)
  case (Cons v vs)
  note step = mergeStep_separated [of out v]
  have "separated (foldl mergeStep (mergeStep out v) vs) \<and>
      cover (foldl mergeStep (mergeStep out v) vs) = cover (mergeStep out v) \<union> cover vs"
  proof (rule Cons.IH)
    fix w assume "w \<in> set vs"
    with Cons.prems step(4) show "iv_Start (last (mergeStep out v)) \<le> iv_Start w" by fastforce
  qed (use Cons.prems step(1) in auto)
  with step(2) Cons.prems show ?case by auto
qed simp

lemma merge_separated [simp]: "separated (mergeIntervals vs)"
  and cover_merge [simp]: "cover (mergeIntervals vs) = cover vs"
proof -
  let ?vs = "sort_key iv_Start (filter (\<lambda>value. iv_End value > iv_Start value) vs)"
  have "separated (foldl mergeStep [] ?vs) \<and> cover (foldl mergeStep [] ?vs) = cover [] \<union> cover ?vs"
    by (rule mergeFold_separated) (auto simp: proper_def)
  moreover have "cover ?vs = cover vs" by (auto simp: cover_def instants_def)
  ultimately show "separated (mergeIntervals vs)" "cover (mergeIntervals vs) = cover vs"
    by (simp_all add: mergeIntervals_def)
qed

lemma separated_head:
  assumes "separated (v # vs)"
  shows "iv_Start v = Min (cover (v # vs))" "iv_End v \<notin> cover (v # vs)"
    "\<And>x. iv_Start v \<le> x \<Longrightarrow> x \<notin> cover (v # vs) \<Longrightarrow> iv_End v \<le> x" "cover (v # vs) \<noteq> {}"
proof -
  have v: "iv_Start v < iv_End v" using assms by (simp add: proper_def)
  show "iv_Start v = Min (cover (v # vs))"
  proof (rule Min_eqI [symmetric])
    show "iv_Start v \<le> y" if "y \<in> cover (v # vs)" for y
      using that v separated_tail [OF assms, of y] by (auto simp: instants_def)
  qed (use v in \<open>auto simp: instants_def\<close>)
  show "iv_End v \<notin> cover (v # vs)" using separated_tail [OF assms, of "iv_End v"] by (auto simp: instants_def)
  show "iv_End v \<le> x" if "iv_Start v \<le> x" "x \<notin> cover (v # vs)" for x
    using that by (simp add: instants_def)
  show "cover (v # vs) \<noteq> {}" using v by (auto simp: instants_def)
qed

lemma separated_unique: "separated vs \<Longrightarrow> separated ws \<Longrightarrow> cover vs = cover ws \<Longrightarrow> vs = ws"
proof (induction vs arbitrary: ws)
  case Nil
  show ?case
  proof (cases ws)
    case (Cons w ws')
    with Nil.prems separated_head(4) [of w ws'] show ?thesis by (metis cover_simps(1))
  qed simp
next
  case (Cons v vs)
  obtain w ws' where ws: "ws = w # ws'"
    using Cons.prems separated_head(4) [of v vs] by (cases ws) auto
  note hv = separated_head [OF Cons.prems(1)] and hw = separated_head [OF Cons.prems(2) [unfolded ws]]
  have same: "cover (v # vs) = cover (w # ws')" using Cons.prems(3) ws by simp
  have start: "iv_Start v = iv_Start w" using hv(1) hw(1) same by simp
  have nonempty: "iv_Start v < iv_End v" "iv_Start w < iv_End w" using Cons.prems ws by (simp_all add: proper_def)
  have "iv_End v \<le> iv_End w" using hv(3) [of "iv_End w"] hw(2) same start nonempty by auto
  moreover have "iv_End w \<le> iv_End v" using hw(3) [of "iv_End v"] hv(2) same start nonempty by auto
  ultimately have "v = w" using start by (cases v, cases w) simp
  moreover have "cover vs = cover ws'"
  proof -
    have "cover us = {x \<in> cover (u # us). iv_End u \<le> x}" if "separated (u # us)" for u us
      using that separated_tail [OF that] by (fastforce simp: instants_def)
    note shrink = this
    have "cover vs = {x \<in> cover (v # vs). iv_End v \<le> x}" by (rule shrink [OF Cons.prems(1)])
    also have "\<dots> = {x \<in> cover (w # ws'). iv_End w \<le> x}" by (simp only: same [unfolded \<open>v = w\<close>] \<open>v = w\<close>)
    also have "\<dots> = cover ws'" by (rule shrink [OF Cons.prems(2) [unfolded ws], symmetric])
    finally show ?thesis .
  qed
  ultimately show ?case using Cons.IH [of ws'] Cons.prems ws by simp
qed

text \<open>So the merge of a list is determined by the instants it covers: neither the order of the
  intervals nor that of equal starts, which \<open>sort.Slice\<close> leaves open, matters.\<close>

lemma merge_cover: "mergeIntervals vs = mergeIntervals ws \<longleftrightarrow> cover vs = cover ws"
  by (metis cover_merge merge_separated separated_unique)

lemma merge_id [simp]: "separated vs \<Longrightarrow> mergeIntervals vs = vs"
  by (rule separated_unique) simp_all

section \<open>Intersection and subtraction\<close>

lemma cover_overlapOf [simp]: "cover (overlapOf a b) = instants a \<inter> instants b"
  by (auto simp: overlapOf_def Let_def instants_def)

lemma cover_intersect [simp]: "cover (intersectIntervals vs ws) = cover vs \<inter> cover ws"
  by (auto simp: intersectIntervals_def cover_concat) (auto simp: cover_def)

lemma intersect_separated [simp]: "separated (intersectIntervals vs ws)"
  by (simp add: intersectIntervals_def)

lemma cover_cutOut: "proper exclusion \<Longrightarrow> cover (cutOut exclusion value) = instants value - instants exclusion"
  by (auto simp: cutOut_def instants_def proper_def)

lemma cover_cut_all:
  assumes "\<forall>x \<in> set exclusions. proper x"
  shows "cover (foldl (\<lambda>remaining exclusion. concat (map (cutOut exclusion) remaining)) values exclusions) =
    cover values - cover exclusions"
  using assms
proof (induction exclusions arbitrary: "values")
  case (Cons x xs)
  have "cover (concat (map (cutOut x) values)) = cover values - instants x"
    using Cons.prems by (simp add: cover_concat cover_cutOut) (auto simp: cover_def)
  with Cons show ?case by auto
qed simp

lemma cover_subtract [simp]: "cover (subtractIntervals vs ws) = cover vs - cover ws"
proof -
  have "\<forall>x \<in> set (mergeIntervals ws). proper x" using merge_separated [of ws] by (simp add: separated_def)
  from cover_cut_all [OF this, of "mergeIntervals vs"] show ?thesis by (simp add: subtractIntervals_def)
qed

lemma subtract_separated [simp]: "separated (subtractIntervals vs ws)"
  by (simp add: subtractIntervals_def)

section \<open>Counting\<close>

lemma separated_total: "separated vs \<Longrightarrow> total_span vs = int (card (cover vs))"
proof (induction vs)
  case (Cons v vs)
  have "instants v \<inter> cover vs = {}" using separated_tail [OF Cons.prems] by (force simp: instants_def)
  moreover have "span v = int (card (instants v))" using Cons.prems by (simp add: span_def instants_def proper_def)
  ultimately show ?case using Cons by (simp add: total_span_def card_Un_disjoint instants_def)
qed (simp add: total_span_def)

lemma intervalMinutes_card: "intervalMinutes vs = (int (card (cover vs)) + 30000000000) div minute_ns"
  by (simp add: intervalMinutes_def separated_total)

lemma intervalMinutes_nonneg [simp]: "0 \<le> intervalMinutes vs"
  by (simp add: intervalMinutes_card)

lemma intervalMinutes_mono: "cover vs \<subseteq> cover ws \<Longrightarrow> intervalMinutes vs \<le> intervalMinutes ws"
  using card_mono [OF finite_cover, of "cover vs" ws] by (simp add: intervalMinutes_card zdiv_mono1)

lemma rounded_add:
  fixes a b c :: int
  assumes "a + b \<le> c" "0 < h"
  shows "(a + h) div (2 * h) + (b + h) div (2 * h) \<le> (c + h) div (2 * h) + 1"
proof -
  have "(a + h) div (2 * h) + (b + h) div (2 * h) \<le> ((a + h) + (b + h)) div (2 * h)"
    using div_add1_eq [of "a + h" "b + h" "2 * h"] assms(2) by (simp add: pos_imp_zdiv_nonneg_iff)
  also have "(a + h) + (b + h) = (a + b) + 1 * (2 * h)" by simp
  also have "\<dots> div (2 * h) = (a + b) div (2 * h) + 1"
    using assms(2) by (subst div_mult_self1) simp_all
  also have "\<dots> \<le> (c + h) div (2 * h) + 1" using assms by (simp add: zdiv_mono1)
  finally show ?thesis .
qed

text \<open>Minutes of disjoint lists add up, up to the rounding of each.\<close>

lemma intervalMinutes_disjoint:
  assumes "cover vs \<inter> cover ws = {}" "cover vs \<union> cover ws \<subseteq> cover us"
  shows "intervalMinutes vs + intervalMinutes ws \<le> intervalMinutes us + 1"
proof -
  have "card (cover vs) + card (cover ws) = card (cover vs \<union> cover ws)"
    using assms(1) by (simp add: card_Un_disjoint)
  also have "\<dots> \<le> card (cover us)" using assms(2) by (rule card_mono [OF finite_cover])
  finally have "card (cover vs) + card (cover ws) \<le> card (cover us)" .
  then show ?thesis
    using rounded_add [of "int (card (cover vs))" "int (card (cover ws))" "int (card (cover us))" 30000000000]
    by (simp add: intervalMinutes_card)
qed

section \<open>Capping\<close>

definition whole :: "attendanceTimeInterval \<Rightarrow> bool" where
  "whole value \<longleftrightarrow> minute_ns dvd span value"

lemma cap_cover: "separated vs \<Longrightarrow> cover (capLoop vs n) \<subseteq> cover vs"
proof (induction vs n rule: capLoop.induct)
  case (2 v rest n)
  have "n * minute_ns < span v" if "\<not> span v div minute_ns \<le> n" using that by presburger
  with 2 show ?case by (auto simp: Let_def instants_def span_def)
qed simp

lemma cap_separated: "separated vs \<Longrightarrow> separated (capLoop vs n)"
proof (induction vs n rule: capLoop.induct)
  case (2 v rest n)
  have "iv_Start x \<in> cover rest" if "x \<in> set (capLoop rest m)" "separated (capLoop rest m)" for x m
  proof -
    from that have "iv_Start x \<in> cover (capLoop rest m)"
      by (auto simp: cover_def instants_def separated_def proper_def intro!: bexI [of _ x])
    then show ?thesis using cap_cover [of rest m] 2 by auto
  qed
  with 2 separated_tail [of v rest] show ?case by (auto simp: Let_def proper_def)
qed simp

lemma total_span_Cons [simp]: "total_span (v # vs) = span v + total_span vs" "total_span [] = 0"
  by (simp_all add: total_span_def)

lemma separated_total_nonneg: "separated vs \<Longrightarrow> 0 \<le> total_span vs"
  by (simp add: separated_total)

lemma cap_total:
  "separated vs \<Longrightarrow> \<forall>v \<in> set vs. whole v \<Longrightarrow> 0 \<le> n \<Longrightarrow>
     total_span (capLoop vs n) = min (total_span vs) (n * minute_ns)"
proof (induction vs n rule: capLoop.induct)
  case (2 v rest n)
  obtain k where k: "span v = k * minute_ns" using 2(3) by (auto simp: whole_def)
  have pos: "0 < span v" using 2(2) by (simp add: span_def proper_def)
  have rest: "separated rest" "0 \<le> total_span rest" using 2(2) separated_total_nonneg by simp_all
  show ?case
  proof (cases "n \<le> 0")
    case True
    with 2(4) have "n = 0" by simp
    with rest pos show ?thesis by (simp add: min_def)
  next
    case False
    note positive = this
    show ?thesis
    proof (cases "k \<le> n")
      case True
      have "total_span (capLoop rest (n - k)) = min (total_span rest) ((n - k) * minute_ns)"
        using 2(1) [of k] 2(3) positive True rest k by simp
      with True positive k show ?thesis by (simp add: Let_def min_def algebra_simps)
    next
      case False
      with positive k rest show ?thesis by (simp add: Let_def span_def min_def)
    qed
  qed
qed simp

text \<open>
  C22.  Merging yields proper intervals in order, with a gap between neighbours, that cover exactly
  the instants of the input; and it is canonical: two lists are merged to the same list exactly
  when they cover the same instants, so no order or overlap of the input shows in the result.
\<close>

theorem mergeIntervals_canonical:
  "separated (mergeIntervals vs) \<and> cover (mergeIntervals vs) = cover vs \<and>
   (mergeIntervals vs = mergeIntervals ws \<longleftrightarrow> cover vs = cover ws)"
  by (simp add: merge_cover)

end
