(* ===== verification/Business_Time.thy ===== *)
theory Business_Time
  imports Complex_Main Pagination
begin

text \<open>
  The business clock of the attendance services: the fixed zone of \<open>attendanceClockLocation\<close>
  (UTC+8), work dates and minutes of the day (\<open>attendance_clock_service.go\<close>), and the
  working time of a policy (\<open>attendance_policy_service.go\<close>).  An instant is its number of
  nanoseconds since the zero time, a day its number since 1 January of the year 1.  Hours are floats in the
  source and exact fractions here.
\<close>

section \<open>The calendar of the standard library\<close>

abbreviation (input) "minute_len \<equiv> 60000000000 :: int"
abbreviation (input) "hour_len \<equiv> 3600000000000 :: int"
abbreviation (input) "day_len \<equiv> 86400000000000 :: int"
abbreviation (input) "zone_offset \<equiv> 28800000000000 :: int"

definition leap_year :: "int \<Rightarrow> bool" where
  "leap_year y \<longleftrightarrow> y mod 4 = 0 \<and> (y mod 100 \<noteq> 0 \<or> y mod 400 = 0)"

definition month_days :: "int \<Rightarrow> int \<Rightarrow> int" where
  "month_days y m = (if m = 2 then (if leap_year y then 29 else 28)
     else if m = 4 \<or> m = 6 \<or> m = 9 \<or> m = 11 then 30 else 31)"

definition days_from_civil :: "int \<Rightarrow> int \<Rightarrow> int \<Rightarrow> int" where
  "days_from_civil y m d =
     (let y = (if m \<le> 2 then y - 1 else y); era = y div 400; yoe = y - era * 400;
          mp = (m + 9) mod 12; doy = (153 * mp + 2) div 5 + d - 1;
          doe = yoe * 365 + yoe div 4 - yoe div 100 + doy
      in era * 146097 + doe - 306)"

definition civil_from_days :: "int \<Rightarrow> int \<times> int \<times> int" where
  "civil_from_days z =
     (let z = z + 306; era = z div 146097; doe = z - era * 146097;
          yoe = (doe - doe div 1460 + doe div 36524 - doe div 146096) div 365;
          doy = doe - (365 * yoe + yoe div 4 - yoe div 100);
          mp = (5 * doy + 2) div 153; d = doy - (153 * mp + 2) div 5 + 1;
          m = (if mp < 10 then mp + 3 else mp - 9);
          y = yoe + era * 400
      in (if m \<le> 2 then y + 1 else y, m, d))"

definition fixed_digits :: "nat \<Rightarrow> string \<Rightarrow> int option" where
  "fixed_digits n s = (if length s = n \<and> list_all is_digit s then Some (int (digits_value s)) else None)"

definition day_start :: "int \<Rightarrow> int" where
  "day_start d = d * day_len - zone_offset"

definition local_day :: "int \<Rightarrow> int" where
  "local_day tm = (tm + zone_offset) div day_len"

definition local_ns :: "int \<Rightarrow> int" where
  "local_ns tm = (tm + zone_offset) mod day_len"

text \<open>\<open>time.ParseInLocation(time.DateOnly, _, attendanceClockLocation)\<close>.\<close>

definition parseDateOnly :: "string \<Rightarrow> int option" where
  "parseDateOnly s =
     (if length s = 10 \<and> s ! 4 = CHR ''-'' \<and> s ! 7 = CHR ''-'' then
        (case (fixed_digits 4 (take 4 s), fixed_digits 2 (take 2 (drop 5 s)), fixed_digits 2 (drop 8 s)) of
           (Some y, Some m, Some d) \<Rightarrow>
             if 1 \<le> m \<and> m \<le> 12 \<and> 1 \<le> d \<and> d \<le> month_days y m then Some (day_start (days_from_civil y m d)) else None
         | _ \<Rightarrow> None)
      else None)"

definition pad :: "nat \<Rightarrow> string \<Rightarrow> string" where
  "pad n s = replicate (n - length s) (CHR ''0'') @ s"

definition formatDateOnly :: "int \<Rightarrow> string" where
  "formatDateOnly day =
     (case civil_from_days day of (y, m, d) \<Rightarrow>
        pad 4 (int_string y) @ ''-'' @ pad 2 (int_string m) @ ''-'' @ pad 2 (int_string d))"

definition weekday :: "int \<Rightarrow> int" where
  "weekday day = (day + 1) mod 7"

section \<open>Work dates and minutes\<close>

definition attendanceWorkDate :: "int \<Rightarrow> string" where
  "attendanceWorkDate tm = formatDateOnly (local_day tm)"

definition clockMinuteOfDay :: "int \<Rightarrow> int" where
  "clockMinuteOfDay tm = local_ns tm div hour_len * 60 + local_ns tm mod hour_len div minute_len"

definition parseHHMMMinutes :: "string \<Rightarrow> int" where
  "parseHHMMMinutes v =
     (case Split (TrimSpace v) (CHR '':'') of
        [hour, minute] \<Rightarrow>
          (case (Atoi hour, Atoi minute) of
             (Some h, Some m) \<Rightarrow> if h < 0 \<or> h > 23 \<or> m < 0 \<or> m > 59 then -1 else h * 60 + m
           | _ \<Rightarrow> -1)
      | _ \<Rightarrow> -1)"

section \<open>The working time of a policy\<close>

record AttendancePolicyWorkTime =
  apw_RequireWorksite :: bool
  apw_ClockMode :: string
  apw_FlexibleClockInEarliest :: string
  apw_FlexibleClockOutLatest :: string
  apw_StandardStart :: string
  apw_StandardEnd :: string
  apw_BreakStart :: string
  apw_BreakEnd :: string
  apw_Weekend :: string
  apw_CycleStart :: string
  apw_CycleEnd :: string
  apw_TimeOptions :: "string list"
  apw_WeekendOptions :: "string list"
  apw_CycleStartOptions :: "string list"
  apw_CycleEndOptions :: "string list"

definition zero_AttendancePolicyWorkTime :: AttendancePolicyWorkTime where
  "zero_AttendancePolicyWorkTime = \<lparr>
     apw_RequireWorksite = False,
     apw_ClockMode = [],
     apw_FlexibleClockInEarliest = [],
     apw_FlexibleClockOutLatest = [],
     apw_StandardStart = [],
     apw_StandardEnd = [],
     apw_BreakStart = [],
     apw_BreakEnd = [],
     apw_Weekend = [],
     apw_CycleStart = [],
     apw_CycleEnd = [],
     apw_TimeOptions = [],
     apw_WeekendOptions = [],
     apw_CycleStartOptions = [],
     apw_CycleEndOptions = [] \<rparr>"

definition utf8 :: "nat list \<Rightarrow> string" where
  "utf8 = map char_of"

text \<open>The weekend options, in UTF-8: Saturday and Sunday; Sunday.\<close>

definition weekendSaturdaySunday :: string where
  "weekendSaturdaySunday = utf8 [0xE9, 0x80, 0xB1, 0xE5, 0x85, 0xAD, 0xE3, 0x80, 0x81, 0xE9, 0x80, 0xB1, 0xE6, 0x97, 0xA5]"

definition weekendSunday :: string where
  "weekendSunday = utf8 [0xE9, 0x80, 0xB1, 0xE6, 0x97, 0xA5]"

definition attendancePolicyDayIsWeekend :: "int \<Rightarrow> string \<Rightarrow> bool" where
  "attendancePolicyDayIsWeekend day weekend =
     (let w = TrimSpace weekend in
      if w = [] \<or> w = weekendSaturdaySunday then weekday day = 6 \<or> weekday day = 0
      else if w = weekendSunday then weekday day = 0
      else False)"

definition standardDayHours :: "AttendancePolicyWorkTime \<Rightarrow> rat" where
  "standardDayHours work =
     (let start = parseHHMMMinutes (apw_StandardStart work); stop = parseHHMMMinutes (apw_StandardEnd work);
          breakStart = parseHHMMMinutes (apw_BreakStart work); breakEnd = parseHHMMMinutes (apw_BreakEnd work)
      in if start < 0 \<or> stop < 0 \<or> stop \<le> start then 8
         else let hours = of_int (stop - start) / 60;
                  hours = (if breakStart \<ge> 0 \<and> breakEnd > breakStart \<and> breakStart \<ge> start \<and> breakEnd \<le> stop
                           then hours - of_int (breakEnd - breakStart) / 60 else hours)
              in if hours \<le> 0 then 8 else hours)"

text \<open>One day of the loop of \<open>CalculateLeaveHoursWithinPolicy\<close>, in nanoseconds.\<close>

definition leaveOnDay :: "int \<Rightarrow> int \<Rightarrow> int \<Rightarrow> int \<Rightarrow> int \<Rightarrow> int \<Rightarrow> int \<Rightarrow> int" where
  "leaveOnDay startAt endAt standardStart standardEnd breakStart breakEnd day =
     (let workStartAt = day_start day + standardStart * minute_len;
          workEndAt = day_start day + standardEnd * minute_len;
          clippedStartAt = (if startAt > workStartAt then startAt else workStartAt);
          clippedEndAt = (if endAt < workEndAt then endAt else workEndAt)
      in if \<not> clippedEndAt > clippedStartAt then 0
         else let dayHours = clippedEndAt - clippedStartAt;
                  dayHours =
                    (if breakStart \<ge> 0 \<and> breakEnd > breakStart then
                       let breakStartAt = day_start day + breakStart * minute_len;
                           breakEndAt = day_start day + breakEnd * minute_len;
                           overlapStartAt = (if clippedStartAt > breakStartAt then clippedStartAt else breakStartAt);
                           overlapEndAt = (if clippedEndAt < breakEndAt then clippedEndAt else breakEndAt)
                       in if overlapEndAt > overlapStartAt then dayHours - (overlapEndAt - overlapStartAt) else dayHours
                     else dayHours)
              in if dayHours < 0 then 0 else dayHours)"

text \<open>\<open>math.Round(hours * 100) / 100\<close> of a number of nanoseconds that is not negative.\<close>

definition roundHours :: "int \<Rightarrow> rat" where
  "roundHours ns = of_int \<lfloor>of_int (ns * 100) / of_int hour_len + (1 / 2 :: rat)\<rfloor> / 100"

definition CalculateLeaveHoursWithinPolicy :: "int \<Rightarrow> int \<Rightarrow> AttendancePolicyWorkTime \<Rightarrow> rat" where
  "CalculateLeaveHoursWithinPolicy startAt endAt work =
     (if \<not> endAt > startAt then 0
      else let standardStart = parseHHMMMinutes (apw_StandardStart work);
               standardEnd = parseHHMMMinutes (apw_StandardEnd work);
               breakStart = parseHHMMMinutes (apw_BreakStart work); breakEnd = parseHHMMMinutes (apw_BreakEnd work)
           in if standardStart < 0 \<or> standardEnd \<le> standardStart then 0
              else roundHours (sum_list (map (leaveOnDay startAt endAt standardStart standardEnd breakStart breakEnd)
                     (filter (\<lambda>day. \<not> attendancePolicyDayIsWeekend day (apw_Weekend work))
                       [local_day startAt .. local_day endAt]))))"

section \<open>Leave hours against the clock\<close>

text \<open>The reference: whether an instant is working time, decided by the clock on the wall.\<close>

definition works_at :: "AttendancePolicyWorkTime \<Rightarrow> int \<Rightarrow> bool" where
  "works_at work tm \<longleftrightarrow>
     (let s = parseHHMMMinutes (apw_StandardStart work); e = parseHHMMMinutes (apw_StandardEnd work);
          bs = parseHHMMMinutes (apw_BreakStart work); be = parseHHMMMinutes (apw_BreakEnd work);
          t = local_ns tm
      in 0 \<le> s \<and> s < e \<and> \<not> attendancePolicyDayIsWeekend (local_day tm) (apw_Weekend work) \<and>
         s * minute_len \<le> t \<and> t < e * minute_len \<and> \<not> (0 \<le> bs \<and> bs * minute_len \<le> t \<and> t < be * minute_len))"

lemma local_split: "tm = day_start (local_day tm) + local_ns tm"
  unfolding day_start_def local_day_def local_ns_def
  using div_mult_mod_eq [of "tm + zone_offset" day_len] by linarith

lemma local_ns_range: "0 \<le> local_ns tm" "local_ns tm < day_len"
  by (simp_all add: local_ns_def)

lemma local_unique:
  assumes "0 \<le> t" "t < day_len"
  shows "local_day (day_start d + t) = d" "local_ns (day_start d + t) = t"
  using assms by (simp_all add: local_day_def local_ns_def day_start_def)

lemma local_day_mono: "a \<le> b \<Longrightarrow> local_day a \<le> local_day b"
  by (simp add: local_day_def zdiv_mono1)

lemma parseHHMM_range: "parseHHMMMinutes v < 1440"
  by (simp add: parseHHMMMinutes_def split: list.split option.split)

text \<open>The instants of one day between two times of the day.\<close>

lemma day_window:
  assumes "0 \<le> a" "b \<le> 1440"
  shows "{tm. local_day tm = d \<and> a * minute_len \<le> local_ns tm \<and> local_ns tm < b * minute_len} =
    {day_start d + a * minute_len ..< day_start d + b * minute_len}"
proof (intro set_eqI iffI)
  fix tm assume "tm \<in> {tm. local_day tm = d \<and> a * minute_len \<le> local_ns tm \<and> local_ns tm < b * minute_len}"
  then show "tm \<in> {day_start d + a * minute_len ..< day_start d + b * minute_len}"
    using local_split [of tm] by auto
next
  fix tm assume tm: "tm \<in> {day_start d + a * minute_len ..< day_start d + b * minute_len}"
  define t where "t = tm - day_start d"
  have t: "a * minute_len \<le> t" "t < b * minute_len" "tm = day_start d + t" using tm by (auto simp: t_def)
  moreover have "0 \<le> t" "t < day_len" using t assms by auto
  ultimately show "tm \<in> {tm. local_day tm = d \<and> a * minute_len \<le> local_ns tm \<and> local_ns tm < b * minute_len}"
    using local_unique [of t d] by simp
qed

lemma card_window_diff:
  fixes x y u v :: int
  assumes "x < y"
  shows "int (card ({x ..< y} - {u ..< v})) =
    (let a = (if x > u then x else u); b = (if y < v then y else v)
     in if b > a then (y - x) - (b - a) else y - x)"
proof -
  let ?a = "if x > u then x else u" and ?b = "if y < v then y else v"
  have "{x ..< y} \<inter> {u ..< v} = {?a ..< ?b}" by auto
  moreover have "{x ..< y} - {u ..< v} = {x ..< y} - ({x ..< y} \<inter> {u ..< v})" by blast
  ultimately have "card ({x ..< y} - {u ..< v}) = card {x ..< y} - card {?a ..< ?b}"
    by (metis card_Diff_subset finite_Int finite_atLeastLessThan_int inf_le1)
  moreover have "card {?a ..< ?b} \<le> card {x ..< y}" by (rule card_mono) auto
  ultimately show ?thesis using assms by (auto simp: Let_def)
qed

definition window_day :: "int \<Rightarrow> int \<Rightarrow> int \<Rightarrow> int \<Rightarrow> int \<Rightarrow> int \<Rightarrow> int \<Rightarrow> int set" where
  "window_day startAt endAt s e bs be d =
     {tm. local_day tm = d \<and> startAt \<le> tm \<and> tm < endAt \<and> s * minute_len \<le> local_ns tm \<and>
        local_ns tm < e * minute_len \<and>
        \<not> (0 \<le> bs \<and> bs * minute_len \<le> local_ns tm \<and> local_ns tm < be * minute_len)}"

lemma window_day_eq:
  assumes "0 \<le> s" "e < 1440" "be < 1440"
  shows "window_day startAt endAt s e bs be d =
    {max startAt (day_start d + s * minute_len) ..< min endAt (day_start d + e * minute_len)} -
    (if 0 \<le> bs then {day_start d + bs * minute_len ..< day_start d + be * minute_len} else {})"
proof -
  have "window_day startAt endAt s e bs be d = {startAt ..< endAt} \<inter>
      {tm. local_day tm = d \<and> s * minute_len \<le> local_ns tm \<and> local_ns tm < e * minute_len} -
      (if 0 \<le> bs then {tm. local_day tm = d \<and> bs * minute_len \<le> local_ns tm \<and> local_ns tm < be * minute_len} else {})"
    by (auto simp: window_day_def)
  also have "\<dots> = {startAt ..< endAt} \<inter> {day_start d + s * minute_len ..< day_start d + e * minute_len} -
      (if 0 \<le> bs then {day_start d + bs * minute_len ..< day_start d + be * minute_len} else {})"
    using day_window [of s e d] day_window [of bs be d] assms by simp
  finally show ?thesis by auto
qed

lemma leaveOnDay_card:
  assumes "0 \<le> s" "e < 1440" "be < 1440"
  shows "leaveOnDay startAt endAt s e bs be d = int (card (window_day startAt endAt s e bs be d))"
proof -
  define x where "x = (if startAt > day_start d + s * minute_len then startAt else day_start d + s * minute_len)"
  define y where "y = (if endAt < day_start d + e * minute_len then endAt else day_start d + e * minute_len)"
  define u where "u = day_start d + bs * minute_len"
  define v where "v = day_start d + be * minute_len"
  have win: "window_day startAt endAt s e bs be d = {x ..< y} - (if 0 \<le> bs then {u ..< v} else {})"
    unfolding window_day_eq [OF assms] x_def y_def u_def v_def max_def min_def by auto
  have leave: "leaveOnDay startAt endAt s e bs be d = (if \<not> y > x then 0 else
      let dayHours = y - x; dayHours = (if bs \<ge> 0 \<and> be > bs then
          (let a = (if x > u then x else u); b = (if y < v then y else v) in if b > a then dayHours - (b - a) else dayHours)
        else dayHours)
      in if dayHours < 0 then 0 else dayHours)"
    unfolding leaveOnDay_def x_def y_def u_def v_def Let_def by simp
  have empty: "\<not> be > bs \<Longrightarrow> {u ..< v} = {}" by (simp add: u_def v_def)
  show ?thesis
  proof (cases "y > x")
    case True
    note card = card_window_diff [OF this, of u v]
    show ?thesis
    proof (cases "bs \<ge> 0 \<and> be > bs")
      case True
      with \<open>y > x\<close> card show ?thesis unfolding leave win by (auto simp: Let_def)
    next
      case False
      with \<open>y > x\<close> empty show ?thesis unfolding leave win by auto
    qed
  qed (simp add: leave win)
qed

lemma works_partition:
  assumes "s = parseHHMMMinutes (apw_StandardStart work)" "e = parseHHMMMinutes (apw_StandardEnd work)"
    "bs = parseHHMMMinutes (apw_BreakStart work)" "be = parseHHMMMinutes (apw_BreakEnd work)" "0 \<le> s" "s < e"
  shows "{tm. startAt \<le> tm \<and> tm < endAt \<and> works_at work tm} =
    (\<Union>d \<in> set (filter (\<lambda>day. \<not> attendancePolicyDayIsWeekend day (apw_Weekend work)) [local_day startAt .. local_day endAt]).
       window_day startAt endAt s e bs be d)"
  using assms local_day_mono by (auto simp: works_at_def window_day_def Let_def)

lemma card_days:
  assumes "distinct days" "\<And>d. finite (f d :: int set)" "\<And>d tm. tm \<in> f d \<Longrightarrow> local_day tm = d"
  shows "card (\<Union>d \<in> set days. f d) = sum_list (map (\<lambda>d. card (f d)) days)"
  using assms(1)
proof (induction days)
  case (Cons d days)
  have "f d \<inter> (\<Union>d \<in> set days. f d) = {}"
    using Cons.prems by (auto dest!: assms(3))
  with Cons assms(2) show ?case by (simp add: card_Un_disjoint)
qed simp

lemma sum_list_int: "int (sum_list (map f xs)) = sum_list (map (\<lambda>x. int (f x)) xs)"
  by (induction xs) simp_all

lemma no_working_instant:
  assumes "\<And>tm. startAt \<le> tm \<Longrightarrow> tm < endAt \<Longrightarrow> \<not> works_at work tm"
  shows "roundHours (int (card {tm. startAt \<le> tm \<and> tm < endAt \<and> works_at work tm})) = 0"
proof -
  have "card {tm. startAt \<le> tm \<and> tm < endAt \<and> works_at work tm} = 0"
    using assms by (metis (mono_tags, lifting) Collect_empty_eq card.empty)
  then show ?thesis by (simp only: roundHours_def) (simp add: floor_eq_iff)
qed

text \<open>
  C23.  The loop over days, clipping and subtracting the break on each, equals the definition read off
  the clock: the hours of a leave are the working instants of the policy between its two ends, that
  is those on a working day, within the standard hours and outside the break, rounded to hundredths.
\<close>

theorem leave_hours_by_the_clock:
  "CalculateLeaveHoursWithinPolicy startAt endAt work =
     roundHours (int (card {tm. startAt \<le> tm \<and> tm < endAt \<and> works_at work tm}))"
proof -
  define s e bs be where vals: "s = parseHHMMMinutes (apw_StandardStart work)" "e = parseHHMMMinutes (apw_StandardEnd work)"
    "bs = parseHHMMMinutes (apw_BreakStart work)" "be = parseHHMMMinutes (apw_BreakEnd work)"
  consider (none) "\<not> endAt > startAt" | (closed) "endAt > startAt" "s < 0 \<or> e \<le> s" | (regular) "endAt > startAt" "0 \<le> s" "s < e"
    by linarith
  then show ?thesis
  proof cases
    case none
    then have "roundHours (int (card {tm. startAt \<le> tm \<and> tm < endAt \<and> works_at work tm})) = 0"
      by (intro no_working_instant) auto
    with none show ?thesis by (simp add: CalculateLeaveHoursWithinPolicy_def)
  next
    case closed
    then have "roundHours (int (card {tm. startAt \<le> tm \<and> tm < endAt \<and> works_at work tm})) = 0"
      by (intro no_working_instant) (auto simp: works_at_def vals Let_def)
    with closed show ?thesis by (simp add: CalculateLeaveHoursWithinPolicy_def vals Let_def)
  next
    case regular
    let ?days = "filter (\<lambda>day. \<not> attendancePolicyDayIsWeekend day (apw_Weekend work)) [local_day startAt .. local_day endAt]"
    have lim: "0 \<le> s" "e < 1440" "be < 1440" using regular parseHHMM_range by (simp_all add: vals)
    have leave: "leaveOnDay startAt endAt s e bs be = (\<lambda>d. int (card (window_day startAt endAt s e bs be d)))"
      by (rule ext) (rule leaveOnDay_card [OF lim])
    have "finite (window_day startAt endAt s e bs be d)" for d unfolding window_day_eq [OF lim] by simp
    then have "card (\<Union>d \<in> set ?days. window_day startAt endAt s e bs be d) =
        sum_list (map (\<lambda>d. card (window_day startAt endAt s e bs be d)) ?days)"
      by (intro card_days) (auto simp: window_day_def)
    then have "int (card {tm. startAt \<le> tm \<and> tm < endAt \<and> works_at work tm}) =
        sum_list (map (leaveOnDay startAt endAt s e bs be) ?days)"
      unfolding works_partition [OF vals regular(2,3)] leave by (simp only: sum_list_int)
    with regular show ?thesis
      unfolding CalculateLeaveHoursWithinPolicy_def Let_def vals [symmetric] by simp
  qed
qed

end
