(* ===== verification/Attendance_Day.thy ===== *)
theory Attendance_Day
  imports Time_Intervals Business_Time Domain_Errors "HOL-Library.Product_Lexorder" "HOL-Library.Multiset"
begin

text \<open>
  The projection of one working day from raw punches and leave facts
  (\<open>src/internal/service/attendance_day_projection.go\<close>): which punches count, the time
  worked and on leave, the anomalies and the status of the day.  The zero time of Go is 0 here, and
  float64 values are exact fractions.
\<close>

section \<open>Rows (\<open>src/internal/domain/attendance.go\<close>)\<close>

record AttendanceClockRecord =
  acr_ID :: string
  acr_TenantID :: string
  acr_EmployeeID :: string
  acr_WorksiteID :: string
  acr_WorksiteName :: string
  acr_WorksiteAddress :: string
  acr_WorkDate :: string
  acr_Direction :: string
  acr_ClientEventID :: string
  acr_ClockedAt :: int
  acr_Latitude :: rat
  acr_Longitude :: rat
  acr_AccuracyMeters :: rat
  acr_DistanceMeters :: rat
  acr_LocationCaptured :: bool
  acr_RecordStatus :: string
  acr_RejectionReason :: string
  acr_Source :: string
  acr_DeviceID :: string
  acr_DeviceInfo :: params
  acr_CorrectionRequestID :: string
  acr_Voided :: bool
  acr_VoidedAt :: "int option"
  acr_VoidedByAccountID :: string
  acr_VoidReason :: string
  acr_CreatedAt :: int

definition zero_AttendanceClockRecord :: AttendanceClockRecord where
  "zero_AttendanceClockRecord = \<lparr>
     acr_ID = [],
     acr_TenantID = [],
     acr_EmployeeID = [],
     acr_WorksiteID = [],
     acr_WorksiteName = [],
     acr_WorksiteAddress = [],
     acr_WorkDate = [],
     acr_Direction = [],
     acr_ClientEventID = [],
     acr_ClockedAt = 0,
     acr_Latitude = 0,
     acr_Longitude = 0,
     acr_AccuracyMeters = 0,
     acr_DistanceMeters = 0,
     acr_LocationCaptured = False,
     acr_RecordStatus = [],
     acr_RejectionReason = [],
     acr_Source = [],
     acr_DeviceID = [],
     acr_DeviceInfo = [],
     acr_CorrectionRequestID = [],
     acr_Voided = False,
     acr_VoidedAt = None,
     acr_VoidedByAccountID = [],
     acr_VoidReason = [],
     acr_CreatedAt = 0 \<rparr>"

record LeaveRequest =
  lr_ID :: string
  lr_TenantID :: string
  lr_EmployeeID :: string
  lr_LeaveType :: string
  lr_LeaveTypeID :: string
  lr_PolicyVersion :: int
  lr_RuleSnapshot :: params
  lr_EvaluationSnapshot :: params
  lr_StartAt :: int
  lr_EndAt :: int
  lr_RequestedMinutes :: int
  lr_Reason :: string
  lr_Status :: string
  lr_FormInstanceID :: string
  lr_ReconciliationStatus :: string
  lr_CreatedAt :: int
  lr_UpdatedAt :: int
  lr_EffectStatus :: string
  lr_EffectResult :: params
  lr_EffectAppliedAt :: "int option"

definition zero_LeaveRequest :: LeaveRequest where
  "zero_LeaveRequest = \<lparr>
     lr_ID = [],
     lr_TenantID = [],
     lr_EmployeeID = [],
     lr_LeaveType = [],
     lr_LeaveTypeID = [],
     lr_PolicyVersion = 0,
     lr_RuleSnapshot = [],
     lr_EvaluationSnapshot = [],
     lr_StartAt = 0,
     lr_EndAt = 0,
     lr_RequestedMinutes = 0,
     lr_Reason = [],
     lr_Status = [],
     lr_FormInstanceID = [],
     lr_ReconciliationStatus = [],
     lr_CreatedAt = 0,
     lr_UpdatedAt = 0,
     lr_EffectStatus = [],
     lr_EffectResult = [],
     lr_EffectAppliedAt = None \<rparr>"

record LeaveRecord =
  lrec_ID :: string
  lrec_TenantID :: string
  lrec_EmployeeID :: string
  lrec_LeaveTypeID :: string
  lrec_BalanceID :: string
  lrec_EntitlementYear :: int
  lrec_Source :: string
  lrec_ExternalRef :: string
  lrec_EventDate :: int
  lrec_StartAt :: int
  lrec_EndAt :: int
  lrec_NetMinutes :: int
  lrec_Remark :: string
  lrec_Status :: string
  lrec_MatchedRecordID :: string
  lrec_ReconciliationStatus :: string
  lrec_BalanceMatchStatus :: string
  lrec_BalanceMatchReason :: string
  lrec_SourcePayload :: params
  lrec_SourceUpdatedAt :: "int option"
  lrec_LastSeenAt :: "int option"
  lrec_DeletedAt :: "int option"
  lrec_UpdatedAt :: int

definition zero_LeaveRecord :: LeaveRecord where
  "zero_LeaveRecord = \<lparr>
     lrec_ID = [],
     lrec_TenantID = [],
     lrec_EmployeeID = [],
     lrec_LeaveTypeID = [],
     lrec_BalanceID = [],
     lrec_EntitlementYear = 0,
     lrec_Source = [],
     lrec_ExternalRef = [],
     lrec_EventDate = 0,
     lrec_StartAt = 0,
     lrec_EndAt = 0,
     lrec_NetMinutes = 0,
     lrec_Remark = [],
     lrec_Status = [],
     lrec_MatchedRecordID = [],
     lrec_ReconciliationStatus = [],
     lrec_BalanceMatchStatus = [],
     lrec_BalanceMatchReason = [],
     lrec_SourcePayload = [],
     lrec_SourceUpdatedAt = None,
     lrec_LastSeenAt = None,
     lrec_DeletedAt = None,
     lrec_UpdatedAt = 0 \<rparr>"

record AttendanceDayProjection =
  adp_TenantID :: string
  adp_EmployeeID :: string
  adp_WorkDate :: string
  adp_PolicyVersion :: int
  adp_ScheduledStartAt :: "int option"
  adp_ScheduledEndAt :: "int option"
  adp_ClockInRecordID :: string
  adp_ClockOutRecordID :: string
  adp_LastPunchRecordID :: string
  adp_PunchCount :: int
  adp_WorkedMinutes :: int
  adp_ApprovedLeaveMinutes :: int
  adp_PendingLeaveMinutes :: int
  adp_RequiredMinutes :: int
  adp_OvertimeMinutes :: int
  adp_DayStatus :: string
  adp_AnomalyReasons :: "string list"
  adp_InputFingerprint :: string
  adp_Payload :: params
  adp_ComputedAt :: int
  adp_UpdatedAt :: int
  adp_ClockIn :: "AttendanceClockRecord option"
  adp_ClockOut :: "AttendanceClockRecord option"
  adp_LastPunch :: "AttendanceClockRecord option"
  adp_CanClockIn :: bool
  adp_CanClockOut :: bool

definition zero_AttendanceDayProjection :: AttendanceDayProjection where
  "zero_AttendanceDayProjection = \<lparr>
     adp_TenantID = [],
     adp_EmployeeID = [],
     adp_WorkDate = [],
     adp_PolicyVersion = 0,
     adp_ScheduledStartAt = None,
     adp_ScheduledEndAt = None,
     adp_ClockInRecordID = [],
     adp_ClockOutRecordID = [],
     adp_LastPunchRecordID = [],
     adp_PunchCount = 0,
     adp_WorkedMinutes = 0,
     adp_ApprovedLeaveMinutes = 0,
     adp_PendingLeaveMinutes = 0,
     adp_RequiredMinutes = 0,
     adp_OvertimeMinutes = 0,
     adp_DayStatus = [],
     adp_AnomalyReasons = [],
     adp_InputFingerprint = [],
     adp_Payload = [],
     adp_ComputedAt = 0,
     adp_UpdatedAt = 0,
     adp_ClockIn = None,
     adp_ClockOut = None,
     adp_LastPunch = None,
     adp_CanClockIn = False,
     adp_CanClockOut = False \<rparr>"

record AttendanceWorksite =
  aws_ID :: string
  aws_TenantID :: string
  aws_Name :: string
  aws_Address :: string
  aws_Latitude :: rat
  aws_Longitude :: rat
  aws_RadiusMeters :: int
  aws_Status :: string
  aws_CreatedAt :: int
  aws_UpdatedAt :: int

definition zero_AttendanceWorksite :: AttendanceWorksite where
  "zero_AttendanceWorksite = \<lparr>
     aws_ID = [],
     aws_TenantID = [],
     aws_Name = [],
     aws_Address = [],
     aws_Latitude = 0,
     aws_Longitude = 0,
     aws_RadiusMeters = 0,
     aws_Status = [],
     aws_CreatedAt = 0,
     aws_UpdatedAt = 0 \<rparr>"

record AttendanceClockStatus =
  acs_EmployeeID :: string
  acs_WorkDate :: string
  acs_Worksite :: "AttendanceWorksite option"
  acs_Worksites :: "AttendanceWorksite list"
  acs_RequireWorksite :: bool
  acs_ClockIn :: "AttendanceClockRecord option"
  acs_ClockOut :: "AttendanceClockRecord option"
  acs_LastPunch :: "AttendanceClockRecord option"
  acs_PunchCount :: int
  acs_NextAction :: string
  acs_CanClockIn :: bool
  acs_CanClockOut :: bool
  acs_WorkedMinutes :: int
  acs_ApprovedLeaveMinutes :: int
  acs_RequiredMinutes :: int
  acs_DayStatus :: string
  acs_AnomalyReasons :: "string list"

definition zero_AttendanceClockStatus :: AttendanceClockStatus where
  "zero_AttendanceClockStatus = \<lparr>
     acs_EmployeeID = [],
     acs_WorkDate = [],
     acs_Worksite = None,
     acs_Worksites = [],
     acs_RequireWorksite = False,
     acs_ClockIn = None,
     acs_ClockOut = None,
     acs_LastPunch = None,
     acs_PunchCount = 0,
     acs_NextAction = [],
     acs_CanClockIn = False,
     acs_CanClockOut = False,
     acs_WorkedMinutes = 0,
     acs_ApprovedLeaveMinutes = 0,
     acs_RequiredMinutes = 0,
     acs_DayStatus = [],
     acs_AnomalyReasons = [] \<rparr>"

record attendanceEffectiveLeave =
  ael_EmployeeID :: string
  ael_LeaveTypeID :: string
  ael_LeaveType :: string
  ael_StartAt :: int
  ael_EndAt :: int
  ael_NetMinutes :: int
  ael_FactStatus :: string
  ael_SourceFactID :: string

definition zero_attendanceEffectiveLeave :: attendanceEffectiveLeave where
  "zero_attendanceEffectiveLeave = \<lparr>
     ael_EmployeeID = [],
     ael_LeaveTypeID = [],
     ael_LeaveType = [],
     ael_StartAt = 0,
     ael_EndAt = 0,
     ael_NetMinutes = 0,
     ael_FactStatus = [],
     ael_SourceFactID = [] \<rparr>"

section \<open>Constants\<close>

abbreviation (input) attendanceDayStatusNotStarted :: string where "attendanceDayStatusNotStarted \<equiv> ''not_started''"
abbreviation (input) attendanceDayStatusWorking :: string where "attendanceDayStatusWorking \<equiv> ''working''"
abbreviation (input) attendanceDayStatusComplete :: string where "attendanceDayStatusComplete \<equiv> ''complete''"
abbreviation (input) attendanceDayStatusPendingLeave :: string where "attendanceDayStatusPendingLeave \<equiv> ''pending_leave''"
abbreviation (input) attendanceDayStatusAbnormal :: string where "attendanceDayStatusAbnormal \<equiv> ''abnormal''"
abbreviation (input) attendanceLeaveFactApproved :: string where "attendanceLeaveFactApproved \<equiv> ''approved''"
abbreviation (input) attendanceLeaveFactPending :: string where "attendanceLeaveFactPending \<equiv> ''pending''"
abbreviation (input) attendanceNextActionComplete :: string where "attendanceNextActionComplete \<equiv> ''complete''"
abbreviation (input) clockDirectionIn :: string where "clockDirectionIn \<equiv> ''clock_in''"
abbreviation (input) clockDirectionOut :: string where "clockDirectionOut \<equiv> ''clock_out''"
abbreviation (input) clockRecordStatusAccepted :: string where "clockRecordStatusAccepted \<equiv> ''accepted''"
abbreviation (input) clockRecordStatusRejected :: string where "clockRecordStatusRejected \<equiv> ''rejected''"
abbreviation (input) clockModeFlexible :: string where "clockModeFlexible \<equiv> ''flexible''"
abbreviation (input) clockModeFixed :: string where "clockModeFixed \<equiv> ''fixed''"
abbreviation (input) clockRejectionDuplicate :: string where "clockRejectionDuplicate \<equiv> ''duplicate''"
abbreviation (input) clockRejectionInvalidSequence :: string where "clockRejectionInvalidSequence \<equiv> ''invalid_sequence''"
abbreviation (input) clockRejectionLowAccuracy :: string where "clockRejectionLowAccuracy \<equiv> ''low_location_accuracy''"
abbreviation (input) clockRejectionOutsideGeofence :: string where "clockRejectionOutsideGeofence \<equiv> ''outside_geofence''"
abbreviation (input) clockRejectionOutsideWindow :: string where "clockRejectionOutsideWindow \<equiv> ''outside_time_window''"
abbreviation (input) clockRejectionInsufficientWorkHours :: string where "clockRejectionInsufficientWorkHours \<equiv> ''insufficient_work_hours''"
abbreviation (input) attendanceAnomalyMissingClockOut :: string where "attendanceAnomalyMissingClockOut \<equiv> ''missing_clock_out''"

section \<open>Leave facts\<close>

definition normalizeLeaveRequestStatus :: "string \<Rightarrow> string" where
  "normalizeLeaveRequestStatus status =
     (let s = ToLower (TrimSpace status) in
      if s = ''approved'' then ''approved''
      else if s \<in> {''rejected'', ''reject''} then ''rejected''
      else if s \<in> {''cancelled'', ''canceled'', ''cancel''} then ''cancelled''
      else if s \<in> {''submitted'', ''pending'', ''pending_approval'', []} then ''pending_approval''
      else s)"

definition approvedFact :: "LeaveRecord \<Rightarrow> attendanceEffectiveLeave list" where
  "approvedFact leaveRecord =
     (if \<not> EqualFold (TrimSpace (lrec_Status leaveRecord)) ''active'' \<or> \<not> lrec_EndAt leaveRecord > lrec_StartAt leaveRecord
      then []
      else [\<lparr>ael_EmployeeID = lrec_EmployeeID leaveRecord, ael_LeaveTypeID = lrec_LeaveTypeID leaveRecord,
             ael_LeaveType = [], ael_StartAt = lrec_StartAt leaveRecord, ael_EndAt = lrec_EndAt leaveRecord,
             ael_NetMinutes = lrec_NetMinutes leaveRecord, ael_FactStatus = attendanceLeaveFactApproved,
             ael_SourceFactID = lrec_ID leaveRecord\<rparr>])"

definition requestFact :: "LeaveRequest \<Rightarrow> string \<Rightarrow> attendanceEffectiveLeave" where
  "requestFact request factStatus =
     \<lparr>ael_EmployeeID = lr_EmployeeID request, ael_LeaveTypeID = lr_LeaveTypeID request,
      ael_LeaveType = lr_LeaveType request, ael_StartAt = lr_StartAt request, ael_EndAt = lr_EndAt request,
      ael_NetMinutes = lr_RequestedMinutes request, ael_FactStatus = factStatus, ael_SourceFactID = lr_ID request\<rparr>"

definition pendingFact :: "LeaveRequest \<Rightarrow> attendanceEffectiveLeave list" where
  "pendingFact request =
     (if normalizeLeaveRequestStatus (lr_Status request) \<noteq> ''pending_approval'' \<or> \<not> lr_EndAt request > lr_StartAt request
      then [] else [requestFact request attendanceLeaveFactPending])"

definition attendanceEffectiveLeaves :: "LeaveRecord list \<Rightarrow> LeaveRequest list \<Rightarrow> attendanceEffectiveLeave list" where
  "attendanceEffectiveLeaves approvedRecords pendingRequests =
     concat (map approvedFact approvedRecords) @ concat (map pendingFact pendingRequests)"

definition legacyFact :: "LeaveRequest \<Rightarrow> attendanceEffectiveLeave list" where
  "legacyFact leave =
     (let status = normalizeLeaveRequestStatus (lr_Status leave) in
      if status = ''approved'' then [requestFact leave attendanceLeaveFactApproved]
      else if status = ''pending_approval'' then [requestFact leave attendanceLeaveFactPending]
      else [])"

definition attendanceEffectiveLeavesFromLegacyRequests :: "LeaveRequest list \<Rightarrow> attendanceEffectiveLeave list" where
  "attendanceEffectiveLeavesFromLegacyRequests leaves = concat (map legacyFact leaves)"

section \<open>Schedule, leave and work intervals\<close>

definition attendanceScheduleIntervals :: "string \<Rightarrow> AttendancePolicyWorkTime \<Rightarrow>
    attendanceTimeInterval list \<times> attendanceTimeInterval list" where
  "attendanceScheduleIntervals workDate workTime =
     (case parseDateOnly workDate of
        None \<Rightarrow> ([], [])
      | Some day \<Rightarrow>
          let startMinute = parseHHMMMinutes (apw_StandardStart workTime);
              endMinute = parseHHMMMinutes (apw_StandardEnd workTime) in
          if startMinute < 0 \<or> endMinute < 0 then ([], [])
          else let start = day + startMinute * minute_len; stop = day + endMinute * minute_len;
                   stop = (if \<not> stop > start then stop + day_len else stop);
                   schedule = [\<lparr>iv_Start = start, iv_End = stop\<rparr>];
                   breakStartMinute = parseHHMMMinutes (apw_BreakStart workTime);
                   breakEndMinute = parseHHMMMinutes (apw_BreakEnd workTime)
               in if breakStartMinute < 0 \<or> breakEndMinute \<le> breakStartMinute then (schedule, [])
                  else let breakStart = day + breakStartMinute * minute_len;
                           breakEnd = day + breakEndMinute * minute_len;
                           breakEnd = (if \<not> breakEnd > breakStart then breakEnd + day_len else breakEnd)
                       in (schedule, intersectIntervals [\<lparr>iv_Start = breakStart, iv_End = breakEnd\<rparr>] schedule))"

definition clippedLeave :: "attendanceTimeInterval list \<Rightarrow> attendanceTimeInterval list \<Rightarrow> attendanceEffectiveLeave \<Rightarrow>
    attendanceTimeInterval list" where
  "clippedLeave schedule breaks leave =
     (if \<not> ael_EndAt leave > ael_StartAt leave then []
      else let clipped = intersectIntervals [\<lparr>iv_Start = ael_StartAt leave, iv_End = ael_EndAt leave\<rparr>] schedule;
               clipped = subtractIntervals clipped breaks
           in if ael_NetMinutes leave > 0 \<and> ael_NetMinutes leave < intervalMinutes clipped
              then capIntervals clipped (ael_NetMinutes leave) else clipped)"

definition factIntervals :: "string \<Rightarrow> attendanceTimeInterval list \<Rightarrow> attendanceTimeInterval list \<Rightarrow>
    attendanceEffectiveLeave list \<Rightarrow> attendanceTimeInterval list" where
  "factIntervals status schedule breaks leaves =
     concat (map (\<lambda>leave. if ael_FactStatus leave = status then clippedLeave schedule breaks leave else []) leaves)"

definition attendanceEffectiveLeaveIntervals :: "attendanceEffectiveLeave list \<Rightarrow> attendanceTimeInterval list \<Rightarrow>
    attendanceTimeInterval list \<Rightarrow> attendanceTimeInterval list \<times> attendanceTimeInterval list" where
  "attendanceEffectiveLeaveIntervals leaves schedule breaks =
     (mergeIntervals (factIntervals attendanceLeaveFactApproved schedule breaks leaves),
      mergeIntervals (factIntervals attendanceLeaveFactPending schedule breaks leaves))"

definition attendanceLeaveIntervals :: "LeaveRequest list \<Rightarrow> attendanceTimeInterval list \<Rightarrow>
    attendanceTimeInterval list \<Rightarrow> attendanceTimeInterval list \<times> attendanceTimeInterval list" where
  "attendanceLeaveIntervals leaves schedule breaks =
     attendanceEffectiveLeaveIntervals (attendanceEffectiveLeavesFromLegacyRequests leaves) schedule breaks"

text \<open>The pairing of punches: the open clock-in and the last clock-out after it.\<close>

type_synonym pairing = "int option \<times> int option \<times> attendanceTimeInterval list"

definition flushPair :: "int \<Rightarrow> pairing \<Rightarrow> attendanceTimeInterval list" where
  "flushPair asOf st =
     (case st of (started, closeCandidate, out) \<Rightarrow>
        (case started of
           None \<Rightarrow> out
         | Some t \<Rightarrow>
             let stop = (case closeCandidate of None \<Rightarrow> asOf | Some u \<Rightarrow> u)
             in if stop > t then out @ [\<lparr>iv_Start = t, iv_End = stop\<rparr>] else out))"

definition pairPunch :: "int \<Rightarrow> pairing \<Rightarrow> AttendanceClockRecord \<Rightarrow> pairing" where
  "pairPunch asOf st r =
     (case st of (started, closeCandidate, out) \<Rightarrow>
        if acr_Direction r = clockDirectionIn then
          (if started = None then (Some (acr_ClockedAt r), None, out)
           else if closeCandidate \<noteq> None then (Some (acr_ClockedAt r), None, flushPair asOf st)
           else st)
        else if acr_Direction r = clockDirectionOut then
          (case started of
             Some t \<Rightarrow> if acr_ClockedAt r > t then (started, Some (acr_ClockedAt r), out) else st
           | None \<Rightarrow> st)
        else st)"

definition attendanceWorkIntervals :: "AttendanceClockRecord list \<Rightarrow> int \<Rightarrow> attendanceTimeInterval list" where
  "attendanceWorkIntervals records asOf =
     mergeIntervals (flushPair asOf (foldl (pairPunch asOf) (None, None, []) records))"

section \<open>Anomalies\<close>

definition appendUniqueString :: "string list \<Rightarrow> string \<Rightarrow> string list" where
  "appendUniqueString values value = (if value = [] then values else if value \<in> set values then values else values @ [value])"

definition late_in :: "AttendancePolicyWorkTime \<Rightarrow> AttendanceDayProjection \<Rightarrow> int \<Rightarrow> bool" where
  "late_in workTime p credited \<longleftrightarrow>
     (case adp_ClockIn p of None \<Rightarrow> False | Some r \<Rightarrow>
        apw_ClockMode workTime = clockModeFixed \<and> credited < adp_RequiredMinutes p \<and>
        (let start = parseHHMMMinutes (apw_StandardStart workTime)
         in start \<ge> 0 \<and> clockMinuteOfDay (acr_ClockedAt r) > start))"

definition early_out :: "AttendancePolicyWorkTime \<Rightarrow> AttendanceDayProjection \<Rightarrow> int \<Rightarrow> bool" where
  "early_out workTime p credited \<longleftrightarrow>
     (case adp_ClockOut p of None \<Rightarrow> False | Some r \<Rightarrow>
        apw_ClockMode workTime = clockModeFixed \<and>
        (let stop = parseHHMMMinutes (apw_StandardEnd workTime)
         in stop \<ge> 0 \<and> clockMinuteOfDay (acr_ClockedAt r) < stop \<and> credited < adp_RequiredMinutes p))"

definition outside_flexible :: "AttendancePolicyWorkTime \<Rightarrow> AttendanceDayProjection \<Rightarrow> bool" where
  "outside_flexible workTime p \<longleftrightarrow> apw_ClockMode workTime = clockModeFlexible \<and>
     (let earliest = parseHHMMMinutes (apw_FlexibleClockInEarliest workTime);
          latest = parseHHMMMinutes (apw_FlexibleClockOutLatest workTime)
      in (case adp_ClockIn p of None \<Rightarrow> False | Some r \<Rightarrow> earliest \<ge> 0 \<and> clockMinuteOfDay (acr_ClockedAt r) < earliest) \<or>
         (case adp_ClockOut p of None \<Rightarrow> False | Some r \<Rightarrow> latest \<ge> 0 \<and> clockMinuteOfDay (acr_ClockedAt r) > latest))"

definition attendanceDayAnomalies :: "AttendanceDayProjection \<Rightarrow> AttendancePolicyWorkTime \<Rightarrow> string list" where
  "attendanceDayAnomalies p workTime =
     (let credited = adp_WorkedMinutes p + adp_ApprovedLeaveMinutes p;
          reasons = (if adp_ClockOut p \<noteq> None \<and> credited < adp_RequiredMinutes p
                     then [clockRejectionInsufficientWorkHours] else []);
          reasons = (if late_in workTime p credited then appendUniqueString reasons clockRejectionOutsideWindow else reasons);
          reasons = (if early_out workTime p credited then appendUniqueString reasons clockRejectionOutsideWindow else reasons)
      in if outside_flexible workTime p then appendUniqueString reasons clockRejectionOutsideWindow else reasons)"

section \<open>The projection\<close>

definition attendanceOpenClockDeadlineForPolicy :: "string \<Rightarrow> AttendancePolicyWorkTime \<Rightarrow> int" where
  "attendanceOpenClockDeadlineForPolicy workDate workTime =
     (case parseDateOnly workDate of
        None \<Rightarrow> 0
      | Some day \<Rightarrow>
          let cutoff = day + day_len; schedule = fst (attendanceScheduleIntervals workDate workTime)
          in if schedule \<noteq> [] \<and> iv_End (last schedule) > cutoff then iv_End (last schedule) + minute_len else cutoff)"

definition attendanceOpenClockHasExpired :: "int \<Rightarrow> int \<Rightarrow> bool" where
  "attendanceOpenClockHasExpired deadline asOf \<longleftrightarrow> deadline \<noteq> 0 \<and> \<not> asOf < deadline"

definition punch_counts :: "string \<Rightarrow> AttendanceClockRecord \<Rightarrow> bool" where
  "punch_counts workDate r \<longleftrightarrow>
     \<not> (acr_WorkDate r \<noteq> workDate \<or> \<not> EqualFold (acr_RecordStatus r) clockRecordStatusAccepted \<or> acr_Voided r)"

definition punch_less :: "AttendanceClockRecord \<Rightarrow> AttendanceClockRecord \<Rightarrow> bool" where
  "punch_less a b =
     (if acr_ClockedAt a = acr_ClockedAt b then
        (if acr_CreatedAt a = acr_CreatedAt b then acr_ID a < acr_ID b else acr_CreatedAt a < acr_CreatedAt b)
      else acr_ClockedAt a < acr_ClockedAt b)"

definition effectivePunches :: "string \<Rightarrow> AttendanceClockRecord list \<Rightarrow> AttendanceClockRecord list" where
  "effectivePunches workDate records = sort_less punch_less (filter (punch_counts workDate) records)"

definition clock_step :: "AttendanceClockRecord \<Rightarrow> AttendanceClockRecord option \<times> AttendanceClockRecord option \<Rightarrow>
    AttendanceClockRecord option \<times> AttendanceClockRecord option" where
  "clock_step r bounds =
     (case bounds of (clockIn, clockOut) \<Rightarrow>
        if acr_Direction r = clockDirectionIn then
          (case clockIn of None \<Rightarrow> (Some r, clockOut)
           | Some c \<Rightarrow> if acr_ClockedAt r < acr_ClockedAt c then (Some r, clockOut) else (clockIn, clockOut))
        else if acr_Direction r = clockDirectionOut then
          (case clockOut of None \<Rightarrow> (clockIn, Some r)
           | Some c \<Rightarrow> if acr_ClockedAt r > acr_ClockedAt c then (clockIn, Some r) else (clockIn, clockOut))
        else (clockIn, clockOut))"

definition clockBounds :: "AttendanceClockRecord list \<Rightarrow> AttendanceClockRecord option \<times> AttendanceClockRecord option" where
  "clockBounds effective = fold clock_step effective (None, None)"

definition lastPunch :: "AttendanceClockRecord list \<Rightarrow> AttendanceClockRecord option" where
  "lastPunch effective = (if effective = [] then None else Some (last effective))"

definition record_id :: "AttendanceClockRecord option \<Rightarrow> string" where
  "record_id found = (case found of None \<Rightarrow> [] | Some r \<Rightarrow> acr_ID r)"

definition dayStatus :: "AttendanceDayProjection \<Rightarrow> int \<Rightarrow> int \<Rightarrow> string list \<times> string" where
  "dayStatus p openClockDeadline asOf =
     (let reasons = adp_AnomalyReasons p in
      if adp_ClockIn p = None \<and> adp_PendingLeaveMinutes p > 0 then (reasons, attendanceDayStatusPendingLeave)
      else if adp_ClockIn p = None \<and> adp_RequiredMinutes p > 0 \<and> adp_ApprovedLeaveMinutes p \<ge> adp_RequiredMinutes p
      then (reasons, attendanceDayStatusComplete)
      else if adp_ClockIn p = None \<and> adp_ApprovedLeaveMinutes p > 0
      then (appendUniqueString reasons clockRejectionInsufficientWorkHours, attendanceDayStatusAbnormal)
      else if adp_ClockIn p = None then (reasons, attendanceDayStatusNotStarted)
      else if adp_ClockOut p = None \<and> attendanceOpenClockHasExpired openClockDeadline asOf
      then (appendUniqueString reasons attendanceAnomalyMissingClockOut, attendanceDayStatusAbnormal)
      else if adp_ClockOut p = None then (reasons, attendanceDayStatusWorking)
      else if reasons = [] then (reasons, attendanceDayStatusComplete)
      else if adp_PendingLeaveMinutes p > 0 then (reasons, attendanceDayStatusPendingLeave)
      else (reasons, attendanceDayStatusAbnormal))"

text \<open>The intervals of the day: schedule, breaks, approved leave, pending leave, and work, which is
  the paired punches without breaks and approved leave.\<close>

definition dayWork :: "attendanceTimeInterval list \<Rightarrow> attendanceTimeInterval list \<Rightarrow> AttendanceClockRecord list \<Rightarrow>
    int \<Rightarrow> attendanceTimeInterval list" where
  "dayWork breaks approvedLeave effective asOf =
     subtractIntervals (attendanceWorkIntervals effective asOf) (breaks @ approvedLeave)"

definition dayIntervals :: "AttendanceClockRecord list \<Rightarrow> attendanceEffectiveLeave list \<Rightarrow> string \<Rightarrow>
    AttendancePolicyWorkTime \<Rightarrow> int \<Rightarrow> attendanceTimeInterval list \<times> attendanceTimeInterval list \<times>
    attendanceTimeInterval list \<times> attendanceTimeInterval list \<times> attendanceTimeInterval list" where
  "dayIntervals effective leaves workDate workTime asOf =
     (let schedule = fst (attendanceScheduleIntervals workDate workTime);
          breaks = snd (attendanceScheduleIntervals workDate workTime);
          approvedLeave = fst (attendanceEffectiveLeaveIntervals leaves schedule breaks);
          pendingLeave = snd (attendanceEffectiveLeaveIntervals leaves schedule breaks)
      in (schedule, breaks, approvedLeave, pendingLeave, dayWork breaks approvedLeave effective asOf))"

definition draftDay :: "AttendanceClockRecord list \<Rightarrow> attendanceTimeInterval list \<times> attendanceTimeInterval list \<times>
    attendanceTimeInterval list \<times> attendanceTimeInterval list \<times> attendanceTimeInterval list \<Rightarrow> string \<Rightarrow>
    AttendancePolicyWorkTime \<Rightarrow> AttendanceDayProjection" where
  "draftDay effective intervals workDate workTime =
     (let clockIn = fst (clockBounds effective); clockOut = snd (clockBounds effective); final = lastPunch effective in
      case intervals of (schedule, breaks, approvedLeave, pendingLeave, work) \<Rightarrow>
        zero_AttendanceDayProjection\<lparr>
          adp_WorkDate := workDate, adp_PunchCount := int (length effective),
          adp_RequiredMinutes := \<lfloor>standardDayHours workTime * 60 + 1 / 2\<rfloor>,
          adp_LastPunch := final, adp_LastPunchRecordID := record_id final,
          adp_ClockIn := clockIn, adp_ClockOut := clockOut,
          adp_CanClockIn := effective = [],
          adp_CanClockOut := clockIn \<noteq> None \<and> (case final of None \<Rightarrow> False | Some r \<Rightarrow> acr_Direction r = clockDirectionIn),
          adp_ClockInRecordID := record_id clockIn, adp_ClockOutRecordID := record_id clockOut,
          adp_ScheduledStartAt := (if schedule = [] then None else Some (iv_Start (hd schedule))),
          adp_ScheduledEndAt := (if schedule = [] then None else Some (iv_End (last schedule))),
          adp_ApprovedLeaveMinutes := intervalMinutes approvedLeave,
          adp_PendingLeaveMinutes := intervalMinutes pendingLeave,
          adp_WorkedMinutes := intervalMinutes work\<rparr>)"

definition projectAttendanceDayWithEffectiveLeaves :: "AttendanceClockRecord list \<Rightarrow> attendanceEffectiveLeave list \<Rightarrow>
    string \<Rightarrow> AttendancePolicyWorkTime \<Rightarrow> int \<Rightarrow> int \<Rightarrow> AttendanceDayProjection" where
  "projectAttendanceDayWithEffectiveLeaves records leaves workDate workTime asOf openClockDeadline =
     (let effective = effectivePunches workDate records;
          p = draftDay effective (dayIntervals effective leaves workDate workTime asOf) workDate workTime;
          p = p\<lparr>adp_AnomalyReasons := attendanceDayAnomalies p workTime\<rparr>;
          (reasons, status) = dayStatus p openClockDeadline asOf
      in p\<lparr>adp_AnomalyReasons := reasons, adp_DayStatus := status\<rparr>)"

definition ProjectAttendanceDay :: "AttendanceClockRecord list \<Rightarrow> LeaveRequest list \<Rightarrow> string \<Rightarrow>
    AttendancePolicyWorkTime \<Rightarrow> int \<Rightarrow> AttendanceDayProjection" where
  "ProjectAttendanceDay records leaves workDate workTime asOf =
     projectAttendanceDayWithEffectiveLeaves records (attendanceEffectiveLeavesFromLegacyRequests leaves) workDate workTime
       asOf (attendanceOpenClockDeadlineForPolicy workDate workTime)"

definition ProjectAttendanceDayWithEffectiveLeave :: "AttendanceClockRecord list \<Rightarrow> LeaveRecord list \<Rightarrow>
    LeaveRequest list \<Rightarrow> string \<Rightarrow> AttendancePolicyWorkTime \<Rightarrow> int \<Rightarrow> AttendanceDayProjection" where
  "ProjectAttendanceDayWithEffectiveLeave records approvedRecords pendingRequests workDate workTime asOf =
     projectAttendanceDayWithEffectiveLeaves records (attendanceEffectiveLeaves approvedRecords pendingRequests) workDate
       workTime asOf (attendanceOpenClockDeadlineForPolicy workDate workTime)"

definition projectAttendanceDayWithCanonicalLeave :: "AttendanceClockRecord list \<Rightarrow> attendanceEffectiveLeave list \<Rightarrow>
    string \<Rightarrow> AttendancePolicyWorkTime \<Rightarrow> int \<Rightarrow> AttendanceDayProjection" where
  "projectAttendanceDayWithCanonicalLeave records leaves workDate workTime asOf =
     projectAttendanceDayWithEffectiveLeaves records leaves workDate workTime asOf
       (attendanceOpenClockDeadlineForPolicy workDate workTime)"

section \<open>The cached projection\<close>

definition attendanceEffectiveLeavesForProjection :: "attendanceEffectiveLeave list \<Rightarrow> string \<Rightarrow> string \<Rightarrow>
    AttendancePolicyWorkTime \<Rightarrow> attendanceEffectiveLeave list" where
  "attendanceEffectiveLeavesForProjection leaves employeeID workDate workTime =
     (let schedule = fst (attendanceScheduleIntervals workDate workTime) in
      if schedule = [] then []
      else let start = iv_Start (hd schedule); stop = iv_End (last schedule)
           in filter (\<lambda>leave. ael_EmployeeID leave = employeeID \<and> ael_StartAt leave < stop \<and> ael_EndAt leave > start) leaves)"

definition attendanceProjectionDateRange :: "string \<Rightarrow> string \<Rightarrow> (int \<times> int) res" where
  "attendanceProjectionDateRange fromDate toDate =
     (case parseDateOnly (TrimSpace fromDate) of
        None \<Rightarrow> Inl (AppErr (BadRequest ''from_date must be YYYY-MM-DD''))
      | Some from' \<Rightarrow>
          (case parseDateOnly (TrimSpace toDate) of
             None \<Rightarrow> Inl (AppErr (BadRequest ''to_date must be YYYY-MM-DD''))
           | Some to' \<Rightarrow>
               if to' < from' then Inl (AppErr (BadRequest ''to_date must not be before from_date''))
               else Inr (from', to' + day_len)))"

definition found_record :: "AttendanceClockRecord list \<Rightarrow> string \<Rightarrow> AttendanceClockRecord option \<Rightarrow>
    AttendanceClockRecord option" where
  "found_record records i old = (case map_of (rev (map (\<lambda>r. (acr_ID r, r)) records)) i of None \<Rightarrow> old | Some r \<Rightarrow> Some r)"

definition materializeAttendanceProjectionRecords :: "AttendanceDayProjection \<Rightarrow> AttendanceClockRecord list \<Rightarrow>
    AttendanceDayProjection" where
  "materializeAttendanceProjectionRecords p records =
     (let p = p\<lparr>adp_ClockIn := found_record records (adp_ClockInRecordID p) (adp_ClockIn p),
               adp_ClockOut := found_record records (adp_ClockOutRecordID p) (adp_ClockOut p),
               adp_LastPunch := found_record records (adp_LastPunchRecordID p) (adp_LastPunch p)\<rparr>
      in p\<lparr>adp_CanClockIn := adp_PunchCount p = 0,
           adp_CanClockOut := adp_ClockInRecordID p \<noteq> [] \<and>
             (case adp_LastPunch p of None \<Rightarrow> False | Some r \<Rightarrow> acr_Direction r = clockDirectionIn)\<rparr>)"

definition id_less :: "AttendanceClockRecord \<Rightarrow> AttendanceClockRecord \<Rightarrow> bool" where
  "id_less a b = (if acr_ClockedAt a = acr_ClockedAt b then acr_ID a < acr_ID b else acr_ClockedAt a < acr_ClockedAt b)"

definition attendanceProjectionHasOpenClock :: "AttendanceClockRecord list \<Rightarrow> string \<Rightarrow> bool" where
  "attendanceProjectionHasOpenClock records workDate =
     (let effective = sort_less id_less (filter (punch_counts workDate) records)
      in effective \<noteq> [] \<and> acr_Direction (last effective) = clockDirectionIn)"

definition attendanceClockStatusFromProjection :: "string \<Rightarrow> string \<Rightarrow> AttendanceDayProjection \<Rightarrow> AttendanceClockStatus" where
  "attendanceClockStatusFromProjection employeeID workDate p =
     (let nextAction = (if adp_CanClockIn p then clockDirectionIn
                        else if adp_CanClockOut p then clockDirectionOut else attendanceNextActionComplete)
      in zero_AttendanceClockStatus\<lparr>
           acs_EmployeeID := employeeID, acs_WorkDate := workDate, acs_ClockIn := adp_ClockIn p,
           acs_ClockOut := adp_ClockOut p, acs_LastPunch := adp_LastPunch p, acs_PunchCount := adp_PunchCount p,
           acs_NextAction := nextAction, acs_CanClockIn := adp_CanClockIn p, acs_CanClockOut := adp_CanClockOut p,
           acs_WorkedMinutes := adp_WorkedMinutes p, acs_ApprovedLeaveMinutes := adp_ApprovedLeaveMinutes p,
           acs_RequiredMinutes := adp_RequiredMinutes p, acs_DayStatus := adp_DayStatus p,
           acs_AnomalyReasons := adp_AnomalyReasons p\<rparr>)"

end
