(* ===== verification/Attendance_Day_Properties.thy ===== *)
theory Attendance_Day_Properties
  imports Attendance_Day
begin

text \<open>
  What the projection of a day guarantees: no instant is credited twice, leave is never credited
  outside the scheduled hours or beyond the minutes a regular day requires, the result does not
  depend on the order of the rows or on repeated leave facts, and a day is complete only when enough
  time is credited.
\<close>

section \<open>Leave within the schedule\<close>

lemma cover_capIntervals: "cover (capIntervals vs n) \<subseteq> cover vs"
  using cap_cover [OF merge_separated, of vs n] by (simp add: capIntervals_def)

lemma cover_clippedLeave: "cover (clippedLeave schedule breaks leave) \<subseteq> cover schedule - cover breaks"
proof -
  let ?clipped = "subtractIntervals (intersectIntervals [\<lparr>iv_Start = ael_StartAt leave, iv_End = ael_EndAt leave\<rparr>] schedule) breaks"
  have "cover ?clipped \<subseteq> cover schedule - cover breaks" by auto
  moreover from this have "cover (capIntervals ?clipped n) \<subseteq> cover schedule - cover breaks" for n
    by (rule subset_trans [OF cover_capIntervals])
  ultimately show ?thesis unfolding clippedLeave_def Let_def by (simp del: cover_subtract)
qed

lemma cover_factIntervals: "cover (factIntervals status schedule breaks leaves) \<subseteq> cover schedule - cover breaks"
  using cover_clippedLeave [of schedule breaks]
  by (fastforce simp: factIntervals_def cover_concat split: if_splits)

lemma leave_within_schedule:
  assumes "attendanceEffectiveLeaveIntervals leaves schedule breaks = (approved, pending)"
  shows "cover approved \<subseteq> cover schedule - cover breaks" "cover pending \<subseteq> cover schedule - cover breaks"
proof -
  have merged: "approved = mergeIntervals (factIntervals attendanceLeaveFactApproved schedule breaks leaves)"
    "pending = mergeIntervals (factIntervals attendanceLeaveFactPending schedule breaks leaves)"
    using assms by (simp_all add: attendanceEffectiveLeaveIntervals_def)
  show "cover approved \<subseteq> cover schedule - cover breaks" "cover pending \<subseteq> cover schedule - cover breaks"
    unfolding merged cover_merge by (rule cover_factIntervals)+
qed

lemma cover_dayWork: "cover (dayWork breaks approved effective asOf) =
    cover (attendanceWorkIntervals effective asOf) - (cover breaks \<union> cover approved)"
  by (simp add: dayWork_def)

section \<open>The fields of a projection\<close>

abbreviation (input) day_parts :: "AttendanceClockRecord list \<Rightarrow> attendanceEffectiveLeave list \<Rightarrow> string \<Rightarrow>
    AttendancePolicyWorkTime \<Rightarrow> int \<Rightarrow> attendanceTimeInterval list \<times> attendanceTimeInterval list \<times>
    attendanceTimeInterval list \<times> attendanceTimeInterval list \<times> attendanceTimeInterval list" where
  "day_parts records leaves workDate workTime asOf \<equiv>
     dayIntervals (effectivePunches workDate records) leaves workDate workTime asOf"

lemma projection_minutes:
  fixes deadline :: int
  assumes "day_parts records leaves workDate workTime asOf = (schedule, breaks, approved, pending, work)"
  defines "p \<equiv> projectAttendanceDayWithEffectiveLeaves records leaves workDate workTime asOf deadline"
  shows "adp_WorkedMinutes p = intervalMinutes work" "adp_ApprovedLeaveMinutes p = intervalMinutes approved"
    "adp_PendingLeaveMinutes p = intervalMinutes pending"
    "adp_RequiredMinutes p = \<lfloor>standardDayHours workTime * 60 + 1 / 2\<rfloor>"
  unfolding p_def projectAttendanceDayWithEffectiveLeaves_def Let_def case_prod_unfold assms(1)
  by (simp_all add: draftDay_def Let_def)

lemma day_parts_within:
  assumes "day_parts records leaves workDate workTime asOf = (schedule, breaks, approved, pending, work)"
  shows "cover approved \<subseteq> cover schedule - cover breaks" "cover pending \<subseteq> cover schedule - cover breaks"
    "cover work = cover (attendanceWorkIntervals (effectivePunches workDate records) asOf) - (cover breaks \<union> cover approved)"
    "attendanceScheduleIntervals workDate workTime = (schedule, breaks)"
proof -
  from assms have leave: "attendanceEffectiveLeaveIntervals leaves schedule breaks = (approved, pending)"
    and work: "work = dayWork breaks approved (effectivePunches workDate records) asOf"
    and sched: "attendanceScheduleIntervals workDate workTime = (schedule, breaks)"
    by (auto simp: dayIntervals_def Let_def prod_eq_iff)
  show "cover approved \<subseteq> cover schedule - cover breaks" "cover pending \<subseteq> cover schedule - cover breaks"
    "cover work = cover (attendanceWorkIntervals (effectivePunches workDate records) asOf) - (cover breaks \<union> cover approved)"
    "attendanceScheduleIntervals workDate workTime = (schedule, breaks)"
    using leave_within_schedule [OF leave] work cover_dayWork sched by simp_all
qed

text \<open>
  C24.  No instant of a day is credited twice.  The worked intervals meet neither the breaks nor the
  approved leave, approved and pending leave lie within the schedule and outside its breaks, and the
  worked and approved minutes of the projection together are at most the minutes of the paired
  punches and the schedule, up to the rounding of each.
\<close>

theorem day_credits_once:
  "let p = projectAttendanceDayWithEffectiveLeaves records leaves workDate workTime asOf deadline;
       (schedule, breaks, approved, pending, work) = day_parts records leaves workDate workTime asOf
   in cover work \<inter> cover approved = {} \<and> cover work \<inter> cover breaks = {} \<and>
      cover approved \<union> cover pending \<subseteq> cover schedule - cover breaks \<and>
      adp_WorkedMinutes p + adp_ApprovedLeaveMinutes p \<le>
        intervalMinutes (attendanceWorkIntervals (effectivePunches workDate records) asOf @ schedule) + 1"
proof -
  obtain schedule breaks approved pending work where parts:
    "day_parts records leaves workDate workTime asOf = (schedule, breaks, approved, pending, work)"
    by (metis prod_cases5)
  note within = day_parts_within [OF parts]
  have "cover work \<inter> cover approved = {}" "cover work \<inter> cover breaks = {}" by (auto simp: within(3))
  moreover have "intervalMinutes work + intervalMinutes approved \<le>
      intervalMinutes (attendanceWorkIntervals (effectivePunches workDate records) asOf @ schedule) + 1"
    by (rule intervalMinutes_disjoint) (use calculation within(1,3) in auto)
  ultimately show ?thesis
    using within(1,2) projection_minutes(1,2) [OF parts, of deadline] unfolding parts Let_def by simp
qed

section \<open>Order and repetition\<close>

lemma punch_less_key:
  "punch_less a b \<longleftrightarrow> (acr_ClockedAt a, acr_CreatedAt a, acr_ID a) < (acr_ClockedAt b, acr_CreatedAt b, acr_ID b)"
  by (auto simp: punch_less_def)

lemma effectivePunches_mset:
  assumes "mset records = mset records'" "inj_on acr_ID (set records)"
  shows "effectivePunches workDate records = effectivePunches workDate records'"
proof -
  let ?key = "\<lambda>r. (acr_ClockedAt r, acr_CreatedAt r, acr_ID r)"
  let ?f = "filter (punch_counts workDate)"
  have sort: "sort_less punch_less xs = sort_key ?key xs" for xs
    by (rule sort_less_key) (rule punch_less_key)
  have "inj_on ?key (set (?f records))" using assms(2) by (auto simp: inj_on_def)
  moreover have "mset (?f records) = mset (?f records')" using assms(1) by simp
  ultimately have "sort_key ?key (?f records) = sort_key ?key (?f records')"
    by (intro sort_key_inj_key_eq) (simp_all add: sorted_sort_key)
  then show ?thesis by (simp add: effectivePunches_def sort)
qed

lemma factIntervals_set:
  "set leaves = set leaves' \<Longrightarrow>
     mergeIntervals (factIntervals status schedule breaks leaves) = mergeIntervals (factIntervals status schedule breaks leaves')"
  by (simp add: merge_cover factIntervals_def cover_concat)

text \<open>
  C25.  The projection depends on the rows, not on how they were loaded: it is the same for the punches
  in any order, as long as their ids differ, and for the leave facts in any order and any number of
  repetitions, so a fact that two sources report is credited once.
\<close>

theorem projection_order_independent:
  assumes "mset records = mset records'" "inj_on acr_ID (set records)" "set leaves = set leaves'"
  shows "projectAttendanceDayWithEffectiveLeaves records leaves workDate workTime asOf deadline =
    projectAttendanceDayWithEffectiveLeaves records' leaves' workDate workTime asOf deadline"
proof -
  have "attendanceEffectiveLeaveIntervals leaves schedule breaks = attendanceEffectiveLeaveIntervals leaves' schedule breaks"
    for schedule breaks
    using factIntervals_set [OF assms(3)] by (simp add: attendanceEffectiveLeaveIntervals_def)
  then have "dayIntervals effective leaves workDate workTime asOf = dayIntervals effective leaves' workDate workTime asOf"
    for effective by (simp only: dayIntervals_def)
  then show ?thesis
    by (simp only: projectAttendanceDayWithEffectiveLeaves_def effectivePunches_mset [OF assms(1,2)])
qed

section \<open>Bounds\<close>

definition regular_day :: "AttendancePolicyWorkTime \<Rightarrow> bool" where
  "regular_day work \<longleftrightarrow>
     (let s = parseHHMMMinutes (apw_StandardStart work); e = parseHHMMMinutes (apw_StandardEnd work);
          bs = parseHHMMMinutes (apw_BreakStart work); be = parseHHMMMinutes (apw_BreakEnd work)
      in 0 \<le> s \<and> s < e \<and> (bs < 0 \<or> be \<le> bs \<or> s \<le> bs \<and> be \<le> e))"

definition workable :: "AttendancePolicyWorkTime \<Rightarrow> int" where
  "workable work =
     (let s = parseHHMMMinutes (apw_StandardStart work); e = parseHHMMMinutes (apw_StandardEnd work);
          bs = parseHHMMMinutes (apw_BreakStart work); be = parseHHMMMinutes (apw_BreakEnd work)
      in (e - s) - (if bs < 0 \<or> be \<le> bs then 0 else be - bs))"

lemma floor_half: "\<lfloor>of_int n + 1 / 2 :: rat\<rfloor> = n"
  by (simp add: floor_eq_iff)

lemma required_regular:
  assumes "regular_day work"
  shows "workable work \<le> \<lfloor>standardDayHours work * 60 + 1 / 2\<rfloor>"
proof -
  define s e bs be where vals: "s = parseHHMMMinutes (apw_StandardStart work)" "e = parseHHMMMinutes (apw_StandardEnd work)"
    "bs = parseHHMMMinutes (apw_BreakStart work)" "be = parseHHMMMinutes (apw_BreakEnd work)"
  have reg: "0 \<le> s" "s < e" "bs < 0 \<or> be \<le> bs \<or> s \<le> bs \<and> be \<le> e"
    using assms by (simp_all add: regular_day_def vals Let_def)
  let ?n = "(e - s) - (if bs < 0 \<or> be \<le> bs then 0 else be - bs)"
  have hours: "standardDayHours work = (if of_int ?n / 60 \<le> (0::rat) then 8 else of_int ?n / 60)"
    using reg unfolding standardDayHours_def Let_def vals [symmetric] by (auto simp: diff_divide_distrib)
  have "?n \<le> \<lfloor>standardDayHours work * 60 + 1 / 2\<rfloor>"
  proof (cases "of_int ?n / 60 \<le> (0::rat)")
    case True
    then have "of_int ?n \<le> (0::rat)" by (simp only: divide_le_0_iff) simp
    then have "?n \<le> 0" by (simp only: of_int_le_0_iff)
    moreover have "\<lfloor>standardDayHours work * 60 + 1 / 2\<rfloor> = 480" using True unfolding hours by (simp add: floor_eq_iff)
    ultimately show ?thesis by linarith
  next
    case False
    then have "standardDayHours work * 60 = of_int ?n" unfolding hours by simp
    then show ?thesis by (simp only: floor_half order_refl)
  qed
  then show ?thesis unfolding workable_def Let_def vals [symmetric] .
qed

lemma schedule_workable:
  assumes "regular_day work" "attendanceScheduleIntervals workDate work = (schedule, breaks)"
  shows "int (card (cover schedule - cover breaks)) \<le> workable work * minute_len"
proof (cases "parseDateOnly workDate")
  case None
  moreover have "0 \<le> workable work" using assms(1) by (auto simp: workable_def regular_day_def Let_def)
  ultimately show ?thesis using assms(2) by (simp add: attendanceScheduleIntervals_def)
next
  case (Some day)
  define s e bs be where vals: "s = parseHHMMMinutes (apw_StandardStart work)" "e = parseHHMMMinutes (apw_StandardEnd work)"
    "bs = parseHHMMMinutes (apw_BreakStart work)" "be = parseHHMMMinutes (apw_BreakEnd work)"
  have reg: "0 \<le> s" "s < e" "bs < 0 \<or> be \<le> bs \<or> s \<le> bs \<and> be \<le> e"
    using assms(1) by (simp_all add: regular_day_def vals Let_def)
  have sched: "schedule = [\<lparr>iv_Start = day + s * minute_len, iv_End = day + e * minute_len\<rparr>]"
    and brk: "breaks = (if bs < 0 \<or> be \<le> bs then []
      else intersectIntervals [\<lparr>iv_Start = day + bs * minute_len, iv_End = day + be * minute_len\<rparr>] schedule)"
    using assms(2) Some reg unfolding attendanceScheduleIntervals_def Let_def vals [symmetric]
    by (auto split: if_splits)
  have work: "workable work = (e - s) - (if bs < 0 \<or> be \<le> bs then 0 else be - bs)"
    unfolding workable_def Let_def vals [symmetric] ..
  show ?thesis
  proof (cases "bs < 0 \<or> be \<le> bs")
    case True
    with reg show ?thesis by (simp add: sched brk work instants_def)
  next
    case False
    have "cover schedule - cover breaks = {day + s * minute_len ..< day + e * minute_len} -
        {day + bs * minute_len ..< day + be * minute_len}"
      using False by (auto simp: sched brk instants_def)
    with card_window_diff [of "day + s * minute_len" "day + e * minute_len" "day + bs * minute_len" "day + be * minute_len"]
      reg False show ?thesis by (simp add: work Let_def algebra_simps split: if_splits)
  qed
qed

lemma minutes_bound:
  assumes "cover vs \<subseteq> A" "finite A" "int (card A) \<le> n * minute_len"
  shows "intervalMinutes vs \<le> n"
proof -
  have "int (card (cover vs)) \<le> n * minute_len" using card_mono [OF assms(2,1)] assms(3) by linarith
  then have "(int (card (cover vs)) + 30000000000) div minute_len \<le> (30000000000 + n * minute_len) div minute_len"
    by (intro zdiv_mono1) simp_all
  then show ?thesis by (simp add: intervalMinutes_card)
qed

text \<open>
  C26.  On a regular day, whose standard hours start and end on the same day and whose break is absent
  or lies within them, neither the approved nor the pending leave minutes exceed the minutes the day
  requires, whatever the leave facts: overlapping, repeated or longer facts never credit more than the
  whole day.  Hours that end past midnight are not covered (\<open>overnight_leave_exceeds_required\<close>).
\<close>

theorem leave_bounded_by_required:
  assumes "regular_day workTime"
  shows "let p = projectAttendanceDayWithEffectiveLeaves records leaves workDate workTime asOf deadline
    in 0 \<le> adp_ApprovedLeaveMinutes p \<and> adp_ApprovedLeaveMinutes p \<le> adp_RequiredMinutes p \<and>
       0 \<le> adp_PendingLeaveMinutes p \<and> adp_PendingLeaveMinutes p \<le> adp_RequiredMinutes p"
proof -
  obtain schedule breaks approved pending work where parts:
    "day_parts records leaves workDate workTime asOf = (schedule, breaks, approved, pending, work)"
    by (metis prod_cases5)
  note within = day_parts_within [OF parts] and minutes = projection_minutes [OF parts, of deadline]
  note most = schedule_workable [OF assms within(4)]
  have "intervalMinutes approved \<le> workable workTime" "intervalMinutes pending \<le> workable workTime"
    by (rule minutes_bound [OF within(1) _ most], simp, rule minutes_bound [OF within(2) _ most], simp)
  with required_regular [OF assms] minutes show ?thesis by (simp add: Let_def)
qed

definition office_hours :: AttendancePolicyWorkTime where
  "office_hours = zero_AttendancePolicyWorkTime\<lparr>apw_ClockMode := ''fixed'', apw_StandardStart := ''09:00'',
     apw_StandardEnd := ''18:00'', apw_BreakStart := ''12:00'', apw_BreakEnd := ''13:00''\<rparr>"

lemma office_hours_regular: "regular_day office_hours"
  by code_simp

text \<open>Three approved leaves that overlap and reach past the standard hours, and a pending one.\<close>

definition leave_fact :: "string \<Rightarrow> int \<Rightarrow> int \<Rightarrow> attendanceEffectiveLeave" where
  "leave_fact status from_hour to_hour = zero_attendanceEffectiveLeave\<lparr>ael_FactStatus := status,
     ael_StartAt := 739676 * day_len + from_hour * hour_len, ael_EndAt := 739676 * day_len + to_hour * hour_len\<rparr>"

definition piled_leaves :: "attendanceEffectiveLeave list" where
  "piled_leaves = [leave_fact ''approved'' 0 7, leave_fact ''approved'' 2 12, leave_fact ''approved'' 2 12,
     leave_fact ''pending'' 1 3]"

theorem leave_bounded_by_required_witness:
  "let p = projectAttendanceDayWithEffectiveLeaves [] piled_leaves ''2026-03-02'' office_hours 0 0
   in adp_ApprovedLeaveMinutes p = 480 \<and> adp_PendingLeaveMinutes p = 120 \<and>
      adp_ApprovedLeaveMinutes p \<le> adp_RequiredMinutes p \<and> adp_PendingLeaveMinutes p \<le> adp_RequiredMinutes p"
proof -
  have "(let p = projectAttendanceDayWithEffectiveLeaves [] piled_leaves ''2026-03-02'' office_hours 0 0
      in adp_ApprovedLeaveMinutes p = 480 \<and> adp_PendingLeaveMinutes p = 120)"
    by code_simp
  with leave_bounded_by_required [OF office_hours_regular, of "[]" piled_leaves "''2026-03-02''" 0 0]
  show ?thesis by (simp add: Let_def)
qed

text \<open>A shift from 20:00 to 08:00 without a break requires the eight hours of the fallback, but a leave
  over the whole shift is credited with its twelve.\<close>

definition long_night :: AttendancePolicyWorkTime where
  "long_night = zero_AttendancePolicyWorkTime\<lparr>apw_ClockMode := ''fixed'', apw_StandardStart := ''20:00'',
     apw_StandardEnd := ''08:00''\<rparr>"

lemma overnight_leave_exceeds_required:
  "let p = projectAttendanceDayWithEffectiveLeaves [] [leave_fact ''approved'' 0 48] ''2026-03-02'' long_night 0 0
   in adp_ApprovedLeaveMinutes p = 720 \<and> adp_RequiredMinutes p = 480"
  by code_simp

section \<open>Statuses\<close>

definition day_statuses :: "string set" where
  "day_statuses = {attendanceDayStatusNotStarted, attendanceDayStatusWorking, attendanceDayStatusComplete,
     attendanceDayStatusPendingLeave, attendanceDayStatusAbnormal}"

lemma projection_status:
  fixes deadline :: int
  assumes "p = projectAttendanceDayWithEffectiveLeaves records leaves workDate workTime asOf deadline"
  obtains q where "q = draftDay (effectivePunches workDate records) (day_parts records leaves workDate workTime asOf) workDate workTime"
    "adp_WorkedMinutes p = adp_WorkedMinutes q" "adp_ApprovedLeaveMinutes p = adp_ApprovedLeaveMinutes q"
    "adp_RequiredMinutes p = adp_RequiredMinutes q" "adp_ClockIn p = adp_ClockIn q" "adp_ClockOut p = adp_ClockOut q"
    "(adp_AnomalyReasons p, adp_DayStatus p) =
       dayStatus (q\<lparr>adp_AnomalyReasons := attendanceDayAnomalies q workTime\<rparr>) deadline asOf"
  using assms unfolding projectAttendanceDayWithEffectiveLeaves_def Let_def case_prod_unfold
  by (intro that) simp_all

lemma no_anomaly_credited:
  assumes "attendanceDayAnomalies q workTime = []" "adp_ClockOut q \<noteq> None"
  shows "adp_RequiredMinutes q \<le> adp_WorkedMinutes q + adp_ApprovedLeaveMinutes q"
  using assms by (auto simp: attendanceDayAnomalies_def appendUniqueString_def Let_def split: if_splits)

lemma dayStatus_complete:
  assumes "snd (dayStatus q deadline asOf) = attendanceDayStatusComplete"
  shows "adp_ClockIn q = None \<and> adp_RequiredMinutes q \<le> adp_ApprovedLeaveMinutes q \<or>
    adp_ClockIn q \<noteq> None \<and> adp_ClockOut q \<noteq> None \<and> adp_AnomalyReasons q = []"
  using assms by (simp add: dayStatus_def Let_def split: if_splits)

lemma dayStatus_range: "snd (dayStatus q deadline asOf) \<in> day_statuses"
  by (simp add: dayStatus_def Let_def day_statuses_def)

text \<open>
  C27.  The status of a projected day is one of the five of the source, and "complete" is earned: then
  either no clock-in counts and the approved leave covers the required minutes, or the day has both a
  clock-in and a clock-out and the worked and approved minutes together cover them.
\<close>

theorem complete_day_is_credited:
  "let p = projectAttendanceDayWithEffectiveLeaves records leaves workDate workTime asOf deadline
   in adp_DayStatus p \<in> day_statuses \<and>
      (adp_DayStatus p = attendanceDayStatusComplete \<longrightarrow>
        (if adp_ClockIn p = None then adp_RequiredMinutes p \<le> adp_ApprovedLeaveMinutes p
         else adp_ClockOut p \<noteq> None \<and> adp_RequiredMinutes p \<le> adp_WorkedMinutes p + adp_ApprovedLeaveMinutes p))"
proof -
  define p where "p = projectAttendanceDayWithEffectiveLeaves records leaves workDate workTime asOf deadline"
  then obtain q where q: "adp_WorkedMinutes p = adp_WorkedMinutes q" "adp_ApprovedLeaveMinutes p = adp_ApprovedLeaveMinutes q"
    "adp_RequiredMinutes p = adp_RequiredMinutes q" "adp_ClockIn p = adp_ClockIn q" "adp_ClockOut p = adp_ClockOut q"
    and status: "adp_DayStatus p = snd (dayStatus (q\<lparr>adp_AnomalyReasons := attendanceDayAnomalies q workTime\<rparr>) deadline asOf)"
    by (rule projection_status) (metis snd_conv)
  have "adp_DayStatus p \<in> day_statuses" unfolding status by (rule dayStatus_range)
  moreover have "if adp_ClockIn p = None then adp_RequiredMinutes p \<le> adp_ApprovedLeaveMinutes p
      else adp_ClockOut p \<noteq> None \<and> adp_RequiredMinutes p \<le> adp_WorkedMinutes p + adp_ApprovedLeaveMinutes p"
    if "adp_DayStatus p = attendanceDayStatusComplete"
    using dayStatus_complete [OF that [unfolded status]] no_anomaly_credited [of q workTime] q by auto
  ultimately show ?thesis unfolding p_def [symmetric] Let_def by blast
qed

definition punch :: "string \<Rightarrow> string \<Rightarrow> int \<Rightarrow> AttendanceClockRecord" where
  "punch i direction tm = zero_AttendanceClockRecord\<lparr>acr_ID := i, acr_WorkDate := ''2026-03-02'',
     acr_Direction := direction, acr_RecordStatus := ''accepted'', acr_ClockedAt := tm\<rparr>"

definition full_day :: "AttendanceClockRecord list" where
  "full_day = [punch ''b'' ''clock_out'' (739676 * day_len + 10 * hour_len), punch ''a'' ''clock_in'' (739676 * day_len + 1 * hour_len)]"

definition night_off :: AttendancePolicyWorkTime where
  "night_off = zero_AttendancePolicyWorkTime\<lparr>apw_ClockMode := ''fixed'', apw_StandardStart := ''22:00'',
     apw_StandardEnd := ''06:00'', apw_BreakStart := ''02:00'', apw_BreakEnd := ''03:00''\<rparr>"

theorem complete_day_is_credited_witness:
  "adp_RequiredMinutes (projectAttendanceDayWithEffectiveLeaves full_day [] ''2026-03-02'' office_hours 0 0) \<le>
     adp_WorkedMinutes (projectAttendanceDayWithEffectiveLeaves full_day [] ''2026-03-02'' office_hours 0 0) +
     adp_ApprovedLeaveMinutes (projectAttendanceDayWithEffectiveLeaves full_day [] ''2026-03-02'' office_hours 0 0)"
proof -
  let ?p = "projectAttendanceDayWithEffectiveLeaves full_day [] ''2026-03-02'' office_hours 0 0"
  have "adp_DayStatus ?p = attendanceDayStatusComplete \<and> adp_ClockIn ?p \<noteq> None" by code_simp
  then show ?thesis using complete_day_is_credited [of full_day "[]" "''2026-03-02''" office_hours 0 0]
    by (simp add: Let_def)
qed

theorem projection_order_independent_witness:
  "projectAttendanceDayWithEffectiveLeaves full_day [] ''2026-03-02'' office_hours 0 0 =
   projectAttendanceDayWithEffectiveLeaves (rev full_day) [] ''2026-03-02'' office_hours 0 0"
  by (rule projection_order_independent) (auto simp: full_day_def punch_def inj_on_def)

section \<open>Two days the source does not handle\<close>

text \<open>A clock-out at the very instant of the clock-in does not close the pair, so the worked time
  keeps growing with the clock although a clock-out is shown; and since the last punch is not a
  clock-in, the fingerprint of the cached projection does not follow the clock.\<close>

definition instant_out :: "AttendanceClockRecord list" where
  "instant_out = [punch ''a'' ''clock_in'' (739676 * day_len + 1 * hour_len), punch ''b'' ''clock_out'' (739676 * day_len + 1 * hour_len)]"

definition instant_day :: "int \<Rightarrow> AttendanceDayProjection" where
  "instant_day now = projectAttendanceDayWithEffectiveLeaves instant_out [] ''2026-03-02'' office_hours now 0"

lemma instant_clock_out_stays_open:
  "adp_ClockOut (instant_day (739676 * day_len + 2 * hour_len)) \<noteq> None"
  "adp_WorkedMinutes (instant_day (739676 * day_len + 2 * hour_len)) = 60"
  "adp_WorkedMinutes (instant_day (739676 * day_len + 3 * hour_len)) = 120"
  "\<not> attendanceProjectionHasOpenClock instant_out ''2026-03-02''"
  by code_simp+

text \<open>The break after midnight of a night shift is placed on the morning before the shift, where it
  is cut away: it is never subtracted.\<close>

lemma night_break_is_lost:
  "attendanceScheduleIntervals ''2026-03-02'' night_off =
     ([\<lparr>iv_Start = 739676 * day_len + 14 * hour_len, iv_End = 739676 * day_len + 22 * hour_len\<rparr>], [])"
  by code_simp

end
