(* ===== verification/Manager_Resolution.thy ===== *)
theory Manager_Resolution
  imports Memory_Store
begin

text \<open>
  Who is the manager of an employee (\<open>src/internal/service/hr_manager_resolution.go\<close>): an
  override on the employee, else the holder of the manager position that the closest unit above
  binds.  Units may form cycles; both searches carry the ids they have seen, and the
  termination proofs below are the argument that the loops end whatever the tree looks like.
\<close>

section \<open>The code\<close>

abbreviation (input) managerSourceOverride :: string where "managerSourceOverride \<equiv> ''override''"
abbreviation (input) managerSourcePosition :: string where "managerSourcePosition \<equiv> ''position''"
abbreviation (input) managerSourceNone :: string where "managerSourceNone \<equiv> ''none''"
abbreviation (input) managerIssueOrgUnitNotFound :: string where "managerIssueOrgUnitNotFound \<equiv> ''org_unit_not_found''"
abbreviation (input) managerIssueManagerPositionMissing :: string where
  "managerIssueManagerPositionMissing \<equiv> ''manager_position_missing''"
abbreviation (input) managerIssueManagerUnfilled :: string where "managerIssueManagerUnfilled \<equiv> ''manager_unfilled''"
abbreviation (input) managerIssueManagerAmbiguous :: string where "managerIssueManagerAmbiguous \<equiv> ''manager_ambiguous''"

record EffectiveManager =
  em_ManagerEmployeeID :: string
  em_Source :: string
  em_Issue :: string
  em_PositionID :: string
  em_DefiningOrgUnitID :: string

definition zero_EffectiveManager :: EffectiveManager where
  "zero_EffectiveManager = \<lparr> em_ManagerEmployeeID = [], em_Source = [], em_Issue = [], em_PositionID = [],
     em_DefiningOrgUnitID = [] \<rparr>"

text \<open>\<open>workspaceDirectoryEmployeeVisible\<close> of \<open>workspace_metrics_service.go\<close>.\<close>

definition workspaceDirectoryEmployeeVisible :: "Employee \<Rightarrow> int \<Rightarrow> bool" where
  "workspaceDirectoryEmployeeVisible employee now =
     (let status = NormalizeEmployeeStatus (FirstNonEmpty [emp_EmploymentStatus employee, emp_Status employee]) in
      if status = ''deleted'' then False
      else if status = ''active'' \<or> status = ''probation'' then True
      else (case emp_ResignDate employee of None \<Rightarrow> False | Some d \<Rightarrow> \<not> d < now))"

text \<open>The map \<open>byID\<close>: of several units with one id the last counts.\<close>

definition unit_at :: "OrgUnit list \<Rightarrow> string \<Rightarrow> OrgUnit option" where
  "unit_at units i = map_of (rev (map (\<lambda>u. (ou_ID u, u)) units)) i"

definition bound_position :: "OrgUnit \<Rightarrow> string" where
  "bound_position u = TrimSpace (ou_ManagerPositionID u)"

definition parent_id :: "OrgUnit \<Rightarrow> string" where
  "parent_id u = TrimSpace (ou_ParentID u)"

lemma unit_atD: "unit_at units i = Some u \<Longrightarrow> u \<in> set units \<and> ou_ID u = i"
  by (auto simp: unit_at_def dest!: map_of_SomeD)

lemma unit_at_stable: "unit_at units i = Some v \<Longrightarrow> unit_at units (ou_ID v) = Some v"
  using unit_atD by metis

function inherit_from :: "OrgUnit list \<Rightarrow> string set \<Rightarrow> OrgUnit \<Rightarrow> (string \<times> OrgUnit) option" where
  "inherit_from units seen current =
     (if ou_ID current \<in> seen then None
      else if bound_position current \<noteq> [] then Some (bound_position current, current)
      else if parent_id current = [] then None
      else case unit_at units (parent_id current) of
          None \<Rightarrow> None
        | Some parent \<Rightarrow> inherit_from units (insert (ou_ID current) seen) parent)"
  by pat_completeness auto
termination
proof (relation "measure (\<lambda>(units, seen, current). card (insert (ou_ID current) (ou_ID ` set units) - seen))", goal_cases)
  case (2 units seen current parent)
  then have "parent \<in> set units" by (auto dest: unit_atD)
  with 2 have "insert (ou_ID parent) (ou_ID ` set units) - insert (ou_ID current) seen
      \<subset> insert (ou_ID current) (ou_ID ` set units) - seen" by auto
  then show ?case by (simp add: psubset_card_mono)
qed simp

declare inherit_from.simps [simp del]

definition inheritManagerPosition :: "OrgUnit \<Rightarrow> OrgUnit list \<Rightarrow> (string \<times> OrgUnit) option" where
  "inheritManagerPosition start units = inherit_from units {} start"

definition holder_less :: "Employee \<Rightarrow> Employee \<Rightarrow> bool" where
  "holder_less a b =
     (if TrimSpace (emp_EmployeeNo a) \<noteq> TrimSpace (emp_EmployeeNo b)
      then TrimSpace (emp_EmployeeNo a) < TrimSpace (emp_EmployeeNo b) else emp_ID a < emp_ID b)"

definition managerPositionHolders :: "string \<Rightarrow> string \<Rightarrow> Employee list \<Rightarrow> int \<Rightarrow> Employee list" where
  "managerPositionHolders orgUnitID positionID employees now =
     sort_less holder_less (filter (\<lambda>e. TrimSpace (emp_OrgUnitID e) = orgUnitID \<and>
       TrimSpace (emp_PositionID e) = positionID \<and> workspaceDirectoryEmployeeVisible e now) employees)"

function resolvePositionManager :: "string \<Rightarrow> string \<Rightarrow> Employee list \<Rightarrow> OrgUnit list \<Rightarrow> int \<Rightarrow> string set \<Rightarrow> EffectiveManager" where
  "resolvePositionManager employeeID orgUnitID employees units now seen =
     (let none = zero_EffectiveManager\<lparr>em_Source := managerSourceNone\<rparr> in
      if orgUnitID = [] then none\<lparr>em_Issue := managerIssueOrgUnitNotFound\<rparr>
      else if orgUnitID \<in> seen then none\<lparr>em_Issue := managerIssueOrgUnitNotFound\<rparr>
      else case unit_at units orgUnitID of
          None \<Rightarrow> none\<lparr>em_Issue := managerIssueOrgUnitNotFound\<rparr>
        | Some start \<Rightarrow>
            (case inheritManagerPosition start units of
               None \<Rightarrow> none\<lparr>em_Issue := managerIssueManagerPositionMissing\<rparr>
             | Some (positionID, definingUnit) \<Rightarrow>
                 (let holders = managerPositionHolders (ou_ID definingUnit) positionID employees now;
                      found = none\<lparr>em_PositionID := positionID, em_DefiningOrgUnitID := ou_ID definingUnit\<rparr>;
                      issue = (if length holders > 1 then managerIssueManagerAmbiguous else []) in
                  case holders of
                    [] \<Rightarrow> found\<lparr>em_Issue := managerIssueManagerUnfilled\<rparr>
                  | holder # _ \<Rightarrow>
                      if emp_ID holder = employeeID then
                        if parent_id definingUnit = [] then found\<lparr>em_Issue := issue\<rparr>
                        else let parentResult = resolvePositionManager employeeID (parent_id definingUnit) employees
                                   units now (insert orgUnitID seen) in
                          if em_Issue parentResult = [] \<and> issue \<noteq> []
                          then parentResult\<lparr>em_Issue := issue\<rparr> else parentResult
                      else found\<lparr>em_ManagerEmployeeID := emp_ID holder, em_Source := managerSourcePosition,
                                 em_Issue := issue\<rparr>)))"
  by pat_completeness auto
termination
proof (relation "measure (\<lambda>(_, _, _, units, _, seen). card (ou_ID ` set units - seen))", goal_cases)
  case (2 employeeID orgUnitID employees units now seen)
  then obtain start where "unit_at units orgUnitID = Some start" by auto
  then have "orgUnitID \<in> ou_ID ` set units" by (auto dest: unit_atD)
  with 2 have "ou_ID ` set units - insert orgUnitID seen \<subset> ou_ID ` set units - seen" by auto
  then show ?case by (simp add: psubset_card_mono)
qed simp

declare resolvePositionManager.simps [simp del]

definition ResolveEffectiveManager :: "Employee \<Rightarrow> Employee list \<Rightarrow> OrgUnit list \<Rightarrow> int \<Rightarrow> EffectiveManager" where
  "ResolveEffectiveManager employee employees units now =
     (if TrimSpace (emp_ManagerEmployeeID employee) \<noteq> []
      then zero_EffectiveManager\<lparr>em_ManagerEmployeeID := TrimSpace (emp_ManagerEmployeeID employee),
             em_Source := managerSourceOverride\<rparr>
      else resolvePositionManager (emp_ID employee) (TrimSpace (emp_OrgUnitID employee)) employees units now {})"

fun manager_chain :: "nat \<Rightarrow> EffectiveManager \<Rightarrow> Employee \<Rightarrow> Employee list \<Rightarrow> OrgUnit list \<Rightarrow> int \<Rightarrow> EffectiveManager" where
  "manager_chain 0 latest current employees units now = latest"
| "manager_chain (Suc n) latest current employees units now =
     (let found = ResolveEffectiveManager current employees units now in
      if TrimSpace (em_ManagerEmployeeID found) = [] then found
      else case map_of (rev (map (\<lambda>e. (emp_ID e, e)) employees)) (em_ManagerEmployeeID found) of
          None \<Rightarrow> found
        | Some upper \<Rightarrow> manager_chain n found upper employees units now)"

definition ResolveEffectiveManagerChain :: "Employee \<Rightarrow> Employee list \<Rightarrow> OrgUnit list \<Rightarrow> int \<Rightarrow> int \<Rightarrow> EffectiveManager" where
  "ResolveEffectiveManagerChain employee employees units now levels =
     manager_chain (nat (if levels \<le> 0 then 1 else levels)) zero_EffectiveManager employee employees units now"

definition orgUnitUsesManagerPosition :: "OrgUnit list \<Rightarrow> string \<Rightarrow> bool" where
  "orgUnitUsesManagerPosition units positionID =
     (if TrimSpace positionID = [] then False
      else list_ex (\<lambda>u. TrimSpace (ou_ManagerPositionID u) = TrimSpace positionID) units)"

section \<open>What the searches find\<close>

text \<open>The unit \<open>n\<close> parent links above.\<close>

fun ancestor :: "OrgUnit list \<Rightarrow> OrgUnit \<Rightarrow> nat \<Rightarrow> OrgUnit option" where
  "ancestor units u 0 = Some u"
| "ancestor units u (Suc n) =
     (if parent_id u = [] then None
      else case unit_at units (parent_id u) of None \<Rightarrow> None | Some p \<Rightarrow> ancestor units p n)"

definition nearest_binding :: "OrgUnit list \<Rightarrow> OrgUnit \<Rightarrow> nat \<Rightarrow> OrgUnit \<Rightarrow> bool" where
  "nearest_binding units u n d \<longleftrightarrow> ancestor units u n = Some d \<and> bound_position d \<noteq> [] \<and>
     (\<forall>k < n. \<exists>v. ancestor units u k = Some v \<and> bound_position v = [])"

lemma ancestor_add:
  "ancestor units u (k + m) = (case ancestor units u k of None \<Rightarrow> None | Some v \<Rightarrow> ancestor units v m)"
  by (induction k arbitrary: u) (auto split: option.split)

lemma ancestor_trans:
  "ancestor units u k = Some v \<Longrightarrow> ancestor units v m = Some w \<Longrightarrow> ancestor units u (k + m) = Some w"
  by (simp add: ancestor_add)

lemma nearest_binding_Suc:
  assumes "bound_position u = []" "parent_id u \<noteq> []" "unit_at units (parent_id u) = Some p"
  shows "nearest_binding units u (Suc n) d \<longleftrightarrow> nearest_binding units p n d"
proof -
  have "(\<forall>k < Suc n. \<exists>v. ancestor units u k = Some v \<and> bound_position v = []) \<longleftrightarrow>
        (\<forall>k < n. \<exists>v. ancestor units p k = Some v \<and> bound_position v = [])"
    using assms by (auto simp: All_less_Suc2)
  then show ?thesis using assms by (simp add: nearest_binding_def)
qed

lemma inherit_from_nearest:
  "inherit_from units seen u = Some (pos, d) \<Longrightarrow> \<exists>n. nearest_binding units u n d \<and> bound_position d = pos"
proof (induction units seen u rule: inherit_from.induct)
  case (1 units seen u)
  show ?case
  proof (cases "bound_position u = []")
    case False
    with "1.prems" have "nearest_binding units u 0 d \<and> bound_position d = pos"
      by (subst (asm) inherit_from.simps) (auto simp: nearest_binding_def split: if_splits)
    then show ?thesis ..
  next
    case True
    with "1.prems" obtain p where p: "ou_ID u \<notin> seen" "parent_id u \<noteq> []" "unit_at units (parent_id u) = Some p"
      "inherit_from units (insert (ou_ID u) seen) p = Some (pos, d)"
      by (subst (asm) inherit_from.simps) (auto split: if_splits option.splits)
    with "1.IH" [OF p(1) _ p(2) p(3)] True obtain n where "nearest_binding units p n d" "bound_position d = pos" by auto
    then show ?thesis using nearest_binding_Suc [OF True p(2,3)] by blast
  qed
qed

lemma nearest_inherit_from:
  assumes "unit_at units (ou_ID u) = Some u" "nearest_binding units u n d"
    and "\<And>k v. k \<le> n \<Longrightarrow> ancestor units u k = Some v \<Longrightarrow> ou_ID v \<notin> seen"
  shows "inherit_from units seen u = Some (bound_position d, d)"
  using assms
proof (induction n arbitrary: u seen)
  case 0
  then show ?case by (subst inherit_from.simps) (auto simp: nearest_binding_def)
next
  case (Suc n)
  have u: "bound_position u = []" using Suc.prems(2) by (auto simp: nearest_binding_def)
  obtain p where p: "parent_id u \<noteq> []" "unit_at units (parent_id u) = Some p"
    using Suc.prems(2) by (auto simp: nearest_binding_def split: if_splits option.splits)
  have near: "nearest_binding units p n d" using Suc.prems(2) nearest_binding_Suc [OF u p] by simp
  have fresh: "ou_ID v \<notin> insert (ou_ID u) seen" if k: "k \<le> n" "ancestor units p k = Some v" for k v
  proof -
    have above: "ancestor units u (Suc k) = Some v" using k(2) p by simp
    have v: "unit_at units (ou_ID v) = Some v"
    proof (cases k)
      case 0 with k(2) p(2) unit_atD [OF p(2)] show ?thesis by simp
    next
      case (Suc j)
      then have "ancestor units p (j + 1) = Some v" using k(2) by simp
      then show ?thesis unfolding ancestor_add by (auto split: option.splits if_splits dest: unit_at_stable)
    qed
    have "ou_ID v \<noteq> ou_ID u"
    proof
      assume "ou_ID v = ou_ID u"
      then have "v = u" using v Suc.prems(1) by (metis option.inject)
      then have loop: "ancestor units u (Suc k) = Some u" using above by blast
      have "ancestor units u (Suc k + (n - k)) = ancestor units u (n - k)"
        unfolding ancestor_add [of units u "Suc k"] loop by (simp only: option.case)
      moreover have "Suc k + (n - k) = Suc n" using k(1) by simp
      ultimately have "ancestor units u (n - k) = Some d" using Suc.prems(2) by (simp add: nearest_binding_def)
      moreover have "n - k < Suc n" by simp
      ultimately obtain w where "ancestor units u (n - k) = Some w" "bound_position w = []"
        using Suc.prems(2) unfolding nearest_binding_def by blast
      with \<open>ancestor units u (n - k) = Some d\<close> Suc.prems(2) show False by (simp add: nearest_binding_def)
    qed
    with Suc.prems(3) [OF _ above] k(1) show ?thesis by simp
  qed
  have "ou_ID u \<notin> seen" using Suc.prems(3) [of 0 u] by simp
  moreover have "inherit_from units (insert (ou_ID u) seen) p = Some (bound_position d, d)"
    using unit_at_stable [OF p(2)] near fresh by (rule Suc.IH)
  ultimately show ?case using u p by (subst inherit_from.simps) simp
qed

text \<open>
  C28.  The search for the manager position of a unit ends whatever cycles the unit tree has, and
  finds the position bound by the closest unit above, if any unit above binds one.
\<close>

theorem inheritManagerPosition_nearest:
  assumes "unit_at units (ou_ID start) = Some start"
  shows "inheritManagerPosition start units = Some (pos, d) \<longleftrightarrow>
    (\<exists>n. nearest_binding units start n d) \<and> bound_position d = pos"
  using inherit_from_nearest nearest_inherit_from [OF assms]
  unfolding inheritManagerPosition_def by fastforce

text \<open>A person who may sign as manager for a unit: someone visible who holds the manager position
  a unit above binds.\<close>

definition holds_manager_position :: "Employee list \<Rightarrow> OrgUnit list \<Rightarrow> int \<Rightarrow> OrgUnit \<Rightarrow> Employee \<Rightarrow> bool" where
  "holds_manager_position employees units now u h \<longleftrightarrow>
     h \<in> set employees \<and> workspaceDirectoryEmployeeVisible h now \<and>
     (\<exists>n d. ancestor units u n = Some d \<and> TrimSpace (emp_OrgUnitID h) = ou_ID d \<and>
        bound_position d \<noteq> [] \<and> TrimSpace (emp_PositionID h) = bound_position d)"

lemma managerPositionHolders_set:
  "h \<in> set (managerPositionHolders i pos employees now) \<longleftrightarrow> h \<in> set employees \<and>
     TrimSpace (emp_OrgUnitID h) = i \<and> TrimSpace (emp_PositionID h) = pos \<and> workspaceDirectoryEmployeeVisible h now"
  by (auto simp: managerPositionHolders_def)

lemma holds_manager_position_above:
  "ancestor units u n = Some v \<Longrightarrow> holds_manager_position employees units now v h \<Longrightarrow>
     holds_manager_position employees units now u h"
  unfolding holds_manager_position_def by (blast dest: ancestor_trans)

lemma resolvePositionManager_holder:
  "em_Source (resolvePositionManager i unit employees units now seen) = managerSourcePosition \<Longrightarrow>
    \<exists>u h. unit_at units unit = Some u \<and> holds_manager_position employees units now u h \<and> emp_ID h \<noteq> i \<and>
      emp_ID h = em_ManagerEmployeeID (resolvePositionManager i unit employees units now seen)"
proof (induction i unit employees units now seen rule: resolvePositionManager.induct)
  case (1 i unit employees units now seen)
  let ?r = "resolvePositionManager i unit employees units now seen"
  note unfold = resolvePositionManager.simps [of i unit employees units now seen]
  have nonempty: "unit \<noteq> []"
    using "1.prems" unfold by (cases "unit = []") (simp_all add: zero_EffectiveManager_def)
  have "unit \<notin> seen"
    using "1.prems" unfold nonempty by (cases "unit \<in> seen") (simp_all add: zero_EffectiveManager_def)
  note ok = nonempty this
  obtain u where u: "unit_at units unit = Some u"
    using "1.prems" unfold ok by (cases "unit_at units unit") (simp_all add: zero_EffectiveManager_def)
  have "inheritManagerPosition u units \<noteq> None"
    using "1.prems" unfold ok u by (cases "inheritManagerPosition u units = None") (simp_all add: zero_EffectiveManager_def)
  then obtain pos d where d: "inheritManagerPosition u units = Some (pos, d)" by (cases "inheritManagerPosition u units") auto
  then obtain n where n: "ancestor units u n = Some d" "bound_position d = pos" "pos \<noteq> []"
    unfolding inheritManagerPosition_def by (auto simp: nearest_binding_def dest!: inherit_from_nearest)
  obtain h hs where hs: "managerPositionHolders (ou_ID d) pos employees now = h # hs"
    using "1.prems" unfold ok u d
    by (cases "managerPositionHolders (ou_ID d) pos employees now") (simp_all add: Let_def zero_EffectiveManager_def)
  then have h: "holds_manager_position employees units now u h"
    using managerPositionHolders_set [of h "ou_ID d" pos employees now] n
    unfolding holds_manager_position_def by (metis list.set_intros(1))
  show ?case
  proof (cases "emp_ID h = i")
    case False
    then have "em_ManagerEmployeeID ?r = emp_ID h"
      using unfold ok u d hs by (simp add: Let_def)
    with u h False show ?thesis by auto
  next
    case True
    let ?p = "resolvePositionManager i (parent_id d) employees units now (insert unit seen)"
    have parent: "parent_id d \<noteq> []"
      using "1.prems" unfold ok u d hs True by (cases "parent_id d = []") (simp_all add: Let_def zero_EffectiveManager_def)
    have same: "em_Source ?r = em_Source ?p" "em_ManagerEmployeeID ?r = em_ManagerEmployeeID ?p"
      using unfold ok u d hs True parent by (simp_all add: Let_def)
    have "\<exists>v h. unit_at units (parent_id d) = Some v \<and> holds_manager_position employees units now v h \<and>
        emp_ID h \<noteq> i \<and> emp_ID h = em_ManagerEmployeeID ?p"
      using "1.IH" [OF refl ok u d] hs True parent "1.prems" same by simp
    then obtain v h' where v: "unit_at units (parent_id d) = Some v"
      "holds_manager_position employees units now v h'" "emp_ID h' \<noteq> i" "emp_ID h' = em_ManagerEmployeeID ?p" by blast
    have "ancestor units d 1 = Some v" using parent v(1) by simp
    then have "holds_manager_position employees units now u h'"
      using v(2) n(1) by (blast intro: holds_manager_position_above)
    with u v same show ?thesis by auto
  qed
qed

text \<open>
  C29.  A manager found by position is a visible employee, other than the employee asked for, who holds
  the manager position of a unit at or above the employee's own unit.
\<close>

theorem position_manager_entitled:
  assumes "em_Source (ResolveEffectiveManager e employees units now) = managerSourcePosition"
  shows "\<exists>u h. unit_at units (TrimSpace (emp_OrgUnitID e)) = Some u \<and>
    holds_manager_position employees units now u h \<and> emp_ID h \<noteq> emp_ID e \<and>
    emp_ID h = em_ManagerEmployeeID (ResolveEffectiveManager e employees units now)"
  using assms resolvePositionManager_holder
  by (auto simp: ResolveEffectiveManager_def zero_EffectiveManager_def split: if_splits)

text \<open>Two units that are each other's parent, only one with a manager position.\<close>

definition sample_unit :: "string \<Rightarrow> string \<Rightarrow> string \<Rightarrow> OrgUnit" where
  "sample_unit i parent pos = zero_OrgUnit\<lparr>ou_ID := i, ou_ParentID := parent, ou_ManagerPositionID := pos\<rparr>"

definition loop_units :: "OrgUnit list" where
  "loop_units = [sample_unit ''team'' ''dept'' [], sample_unit ''dept'' ''team'' ''head'']"

definition loop_staff :: "Employee list" where
  "loop_staff = [zero_Employee\<lparr>emp_ID := ''e1'', emp_OrgUnitID := ''team'', emp_EmploymentStatus := ''active''\<rparr>,
     zero_Employee\<lparr>emp_ID := ''e2'', emp_OrgUnitID := ''dept'', emp_PositionID := ''head'', emp_EmploymentStatus := ''active''\<rparr>]"

theorem inheritManagerPosition_nearest_witness:
  "\<exists>n. nearest_binding loop_units (hd loop_units) n (last loop_units)"
proof -
  have "unit_at loop_units (ou_ID (hd loop_units)) = Some (hd loop_units)" by code_simp
  moreover have "inheritManagerPosition (hd loop_units) loop_units = Some (''head'', last loop_units)" by code_simp
  ultimately show ?thesis using inheritManagerPosition_nearest by blast
qed

theorem position_manager_entitled_witness:
  "\<exists>h. holds_manager_position loop_staff loop_units 0 (hd loop_units) h \<and> emp_ID h = ''e2''"
proof -
  have "em_Source (ResolveEffectiveManager (hd loop_staff) loop_staff loop_units 0) = managerSourcePosition" by code_simp
  moreover have "em_ManagerEmployeeID (ResolveEffectiveManager (hd loop_staff) loop_staff loop_units 0) = ''e2''" by code_simp
  moreover have "unit_at loop_units (TrimSpace (emp_OrgUnitID (hd loop_staff))) = Some (hd loop_units)" by code_simp
  ultimately show ?thesis using position_manager_entitled by (metis option.inject)
qed

end
