(* ===== verification/Workflow_Domain.thy ===== *)
theory Workflow_Domain
  imports Memory_Store
begin

text \<open>
  The rows of the form workflow (\<open>src/internal/domain/workflow.go\<close>, \<open>workflow_temporal.go\<close>,
  \<open>notification.go\<close>), and the stage definitions a template carries:
  parsing, normalising and storing them (\<open>src/internal/service/workflow_stage_service.go\<close>).

  A JSON text is represented by the value it decodes to (\<open>json_text\<close>, \<open>None\<close> for the blank
  text).  The documents are the ones the program writes, so keys are in their written case.
\<close>

type_synonym json_text = "val option"

section \<open>Constants\<close>

abbreviation (input) WorkflowRunStatusRunning :: string where "WorkflowRunStatusRunning \<equiv> ''running''"
abbreviation (input) WorkflowRunStatusReturned :: string where "WorkflowRunStatusReturned \<equiv> ''returned''"
abbreviation (input) WorkflowRunStatusCompleted :: string where "WorkflowRunStatusCompleted \<equiv> ''completed''"
abbreviation (input) WorkflowRunStatusCancelled :: string where "WorkflowRunStatusCancelled \<equiv> ''cancelled''"
abbreviation (input) WorkflowStageStatusPending :: string where "WorkflowStageStatusPending \<equiv> ''pending''"
abbreviation (input) WorkflowStageStatusActive :: string where "WorkflowStageStatusActive \<equiv> ''active''"
abbreviation (input) WorkflowStageStatusCompleted :: string where "WorkflowStageStatusCompleted \<equiv> ''completed''"
abbreviation (input) WorkflowStageStatusSkipped :: string where "WorkflowStageStatusSkipped \<equiv> ''skipped''"
abbreviation (input) WorkflowStageStatusRejected :: string where "WorkflowStageStatusRejected \<equiv> ''rejected''"
abbreviation (input) WorkflowAssigneeStatusPending :: string where "WorkflowAssigneeStatusPending \<equiv> ''pending''"
abbreviation (input) WorkflowAssigneeStatusApproved :: string where "WorkflowAssigneeStatusApproved \<equiv> ''approved''"
abbreviation (input) WorkflowAssigneeStatusRejected :: string where "WorkflowAssigneeStatusRejected \<equiv> ''rejected''"
abbreviation (input) WorkflowAssigneeStatusReturned :: string where "WorkflowAssigneeStatusReturned \<equiv> ''returned''"
abbreviation (input) WorkflowFormStatusInReview :: string where "WorkflowFormStatusInReview \<equiv> ''in_review''"
abbreviation (input) WorkflowFormStatusReturned :: string where "WorkflowFormStatusReturned \<equiv> ''returned''"
abbreviation (input) WorkflowFormStatusWorkflowStartFailed :: string where "WorkflowFormStatusWorkflowStartFailed \<equiv> ''workflow_start_failed''"
abbreviation (input) WorkflowRunStatusStartFailed :: string where "WorkflowRunStatusStartFailed \<equiv> ''start_failed''"
abbreviation (input) WorkflowTemporalStartPending :: string where "WorkflowTemporalStartPending \<equiv> ''pending_start''"
abbreviation (input) WorkflowTemporalStartStarting :: string where "WorkflowTemporalStartStarting \<equiv> ''starting''"
abbreviation (input) WorkflowTemporalStartStarted :: string where "WorkflowTemporalStartStarted \<equiv> ''started''"
abbreviation (input) WorkflowTemporalStartAbandoned :: string where "WorkflowTemporalStartAbandoned \<equiv> ''abandoned''"
abbreviation (input) WorkflowStageEndID :: string where "WorkflowStageEndID \<equiv> ''__end__''"
abbreviation (input) WorkflowStartRequestedEventType :: string where "WorkflowStartRequestedEventType \<equiv> ''workflow.form_approval.start_requested''"
abbreviation (input) WorkflowStartAggregateType :: string where "WorkflowStartAggregateType \<equiv> ''workflow_run''"
abbreviation (input) FormApprovalWorkflowActionSubmit :: string where "FormApprovalWorkflowActionSubmit \<equiv> ''submit''"
abbreviation (input) FormApprovalWorkflowActionApprove :: string where "FormApprovalWorkflowActionApprove \<equiv> ''approve''"
abbreviation (input) FormApprovalWorkflowActionReject :: string where "FormApprovalWorkflowActionReject \<equiv> ''reject''"
abbreviation (input) FormApprovalWorkflowActionReturn :: string where "FormApprovalWorkflowActionReturn \<equiv> ''return''"
abbreviation (input) FormApprovalWorkflowActionWithdraw :: string where "FormApprovalWorkflowActionWithdraw \<equiv> ''withdraw''"
abbreviation (input) WorkflowFormStatusDraft :: string where "WorkflowFormStatusDraft \<equiv> ''draft''"
abbreviation (input) workflowFormStatusSubmitted :: string where "workflowFormStatusSubmitted \<equiv> ''submitted''"
abbreviation (input) workflowFormStatusInReview :: string where "workflowFormStatusInReview \<equiv> ''in_review''"
abbreviation (input) workflowFormStatusApproved :: string where "workflowFormStatusApproved \<equiv> ''approved''"
abbreviation (input) workflowFormStatusRejected :: string where "workflowFormStatusRejected \<equiv> ''rejected''"
abbreviation (input) workflowFormStatusReturned :: string where "workflowFormStatusReturned \<equiv> ''returned''"
abbreviation (input) workflowFormStatusCancelled :: string where "workflowFormStatusCancelled \<equiv> ''cancelled''"

section \<open>Rows\<close>

record FormTemplate =
  ft_ID :: string
  ft_TenantID :: string
  ft_Key :: string
  ft_Name :: string
  ft_Description :: string
  ft_Schema :: params
  ft_Status :: string
  ft_CurrentVersion :: int
  ft_PublishedVersion :: int
  ft_CreatedAt :: int
  ft_UpdatedAt :: int
  ft_DeletedAt :: "int option"

definition zero_FormTemplate :: FormTemplate where
  "zero_FormTemplate = \<lparr>
     ft_ID = [],
     ft_TenantID = [],
     ft_Key = [],
     ft_Name = [],
     ft_Description = [],
     ft_Schema = [],
     ft_Status = [],
     ft_CurrentVersion = 0,
     ft_PublishedVersion = 0,
     ft_CreatedAt = 0,
     ft_UpdatedAt = 0,
     ft_DeletedAt = None \<rparr>"

record FormTemplateVersion =
  ftv_ID :: string
  ftv_TenantID :: string
  ftv_TemplateID :: string
  ftv_Version :: int
  ftv_Schema :: params
  ftv_Status :: string
  ftv_CreatedAt :: int
  ftv_PublishedAt :: "int option"

definition zero_FormTemplateVersion :: FormTemplateVersion where
  "zero_FormTemplateVersion = \<lparr>
     ftv_ID = [],
     ftv_TenantID = [],
     ftv_TemplateID = [],
     ftv_Version = 0,
     ftv_Schema = [],
     ftv_Status = [],
     ftv_CreatedAt = 0,
     ftv_PublishedAt = None \<rparr>"

record FormInstance =
  fi_ID :: string
  fi_TenantID :: string
  fi_TemplateID :: string
  fi_TemplateVersionID :: string
  fi_ApplicantAccountID :: string
  fi_Status :: string
  fi_Payload :: params
  fi_SubmittedAt :: int
  fi_ApprovedBy :: string
  fi_CurrentRunID :: string
  fi_Version :: int
  fi_UpdatedAt :: int

definition zero_FormInstance :: FormInstance where
  "zero_FormInstance = \<lparr>
     fi_ID = [],
     fi_TenantID = [],
     fi_TemplateID = [],
     fi_TemplateVersionID = [],
     fi_ApplicantAccountID = [],
     fi_Status = [],
     fi_Payload = [],
     fi_SubmittedAt = 0,
     fi_ApprovedBy = [],
     fi_CurrentRunID = [],
     fi_Version = 0,
     fi_UpdatedAt = 0 \<rparr>"

record WorkflowStageConfig =
  wsc_Role :: string
  wsc_RelativeLevel :: int
  wsc_Mode :: string
  wsc_Field :: string
  wsc_Operator :: string
  wsc_Value :: string
  wsc_RemindAfterHours :: int
  wsc_Levels :: "int list"
  wsc_NextStageID :: string
  wsc_TrueNextStageID :: string
  wsc_FalseNextStageID :: string
  wsc_AccountIDs :: "string list"
  wsc_UserGroupIDs :: "string list"
  wsc_ExcludeApplicant :: bool
  wsc_RequireDistinctApprover :: bool

definition zero_WorkflowStageConfig :: WorkflowStageConfig where
  "zero_WorkflowStageConfig = \<lparr>
     wsc_Role = [],
     wsc_RelativeLevel = 0,
     wsc_Mode = [],
     wsc_Field = [],
     wsc_Operator = [],
     wsc_Value = [],
     wsc_RemindAfterHours = 0,
     wsc_Levels = [],
     wsc_NextStageID = [],
     wsc_TrueNextStageID = [],
     wsc_FalseNextStageID = [],
     wsc_AccountIDs = [],
     wsc_UserGroupIDs = [],
     wsc_ExcludeApplicant = False,
     wsc_RequireDistinctApprover = False \<rparr>"

record WorkflowStageDefinition =
  wsd_ID :: string
  wsd_Type :: string
  wsd_Label :: string
  wsd_Detail :: string
  wsd_Config :: WorkflowStageConfig

definition zero_WorkflowStageDefinition :: WorkflowStageDefinition where
  "zero_WorkflowStageDefinition = \<lparr>
     wsd_ID = [],
     wsd_Type = [],
     wsd_Label = [],
     wsd_Detail = [],
     wsd_Config = zero_WorkflowStageConfig \<rparr>"

record WorkflowRun =
  wr_ID :: string
  wr_TenantID :: string
  wr_FormInstanceID :: string
  wr_TemplateID :: string
  wr_Version :: int
  wr_Status :: string
  wr_CurrentStageInstanceID :: string
  wr_StageDefinitionsJSON :: json_text
  wr_TemporalStartStatus :: string
  wr_TemporalWorkflowID :: string
  wr_TemporalRunID :: string
  wr_TemporalStartEventID :: string
  wr_TemporalStartedAt :: "int option"
  wr_CreatedAt :: int
  wr_UpdatedAt :: int

definition zero_WorkflowRun :: WorkflowRun where
  "zero_WorkflowRun = \<lparr>
     wr_ID = [],
     wr_TenantID = [],
     wr_FormInstanceID = [],
     wr_TemplateID = [],
     wr_Version = 0,
     wr_Status = [],
     wr_CurrentStageInstanceID = [],
     wr_StageDefinitionsJSON = None,
     wr_TemporalStartStatus = [],
     wr_TemporalWorkflowID = [],
     wr_TemporalRunID = [],
     wr_TemporalStartEventID = [],
     wr_TemporalStartedAt = None,
     wr_CreatedAt = 0,
     wr_UpdatedAt = 0 \<rparr>"

record WorkflowStageInstance =
  wsi_ID :: string
  wsi_TenantID :: string
  wsi_RunID :: string
  wsi_StageID :: string
  wsi_StageType :: string
  wsi_Label :: string
  wsi_Status :: string
  wsi_Sequence :: int
  wsi_Result :: params
  wsi_StartedAt :: "int option"
  wsi_CompletedAt :: "int option"

definition zero_WorkflowStageInstance :: WorkflowStageInstance where
  "zero_WorkflowStageInstance = \<lparr>
     wsi_ID = [],
     wsi_TenantID = [],
     wsi_RunID = [],
     wsi_StageID = [],
     wsi_StageType = [],
     wsi_Label = [],
     wsi_Status = [],
     wsi_Sequence = 0,
     wsi_Result = [],
     wsi_StartedAt = None,
     wsi_CompletedAt = None \<rparr>"

record WorkflowStageAssignee =
  wsa_TenantID :: string
  wsa_StageInstanceID :: string
  wsa_AccountID :: string
  wsa_Status :: string

definition zero_WorkflowStageAssignee :: WorkflowStageAssignee where
  "zero_WorkflowStageAssignee = \<lparr>
     wsa_TenantID = [],
     wsa_StageInstanceID = [],
     wsa_AccountID = [],
     wsa_Status = [] \<rparr>"

record WorkflowAction =
  wac_ID :: string
  wac_TenantID :: string
  wac_RunID :: string
  wac_StageInstanceID :: string
  wac_AccountID :: string
  wac_Action :: string
  wac_Comment :: string
  wac_IdempotencyKey :: string
  wac_CommandFingerprint :: string
  wac_RequestID :: string
  wac_TraceID :: string
  wac_CreatedAt :: int

definition zero_WorkflowAction :: WorkflowAction where
  "zero_WorkflowAction = \<lparr>
     wac_ID = [],
     wac_TenantID = [],
     wac_RunID = [],
     wac_StageInstanceID = [],
     wac_AccountID = [],
     wac_Action = [],
     wac_Comment = [],
     wac_IdempotencyKey = [],
     wac_CommandFingerprint = [],
     wac_RequestID = [],
     wac_TraceID = [],
     wac_CreatedAt = 0 \<rparr>"

record WorkflowFormStepAssignee =
  wfa_AccountID :: string
  wfa_Name :: string
  wfa_Status :: string

definition zero_WorkflowFormStepAssignee :: WorkflowFormStepAssignee where
  "zero_WorkflowFormStepAssignee = \<lparr>
     wfa_AccountID = [],
     wfa_Name = [],
     wfa_Status = [] \<rparr>"

record WorkflowFormStep =
  wfp_StageID :: string
  wfp_Label :: string
  wfp_Detail :: string
  wfp_State :: string
  wfp_Assignees :: "WorkflowFormStepAssignee list"

definition zero_WorkflowFormStep :: WorkflowFormStep where
  "zero_WorkflowFormStep = \<lparr>
     wfp_StageID = [],
     wfp_Label = [],
     wfp_Detail = [],
     wfp_State = [],
     wfp_Assignees = [] \<rparr>"

record WorkflowReviewLogItem =
  wrl_Type :: string
  wrl_Name :: string
  wrl_Role :: string
  wrl_Time :: string
  wrl_Comment :: string

definition zero_WorkflowReviewLogItem :: WorkflowReviewLogItem where
  "zero_WorkflowReviewLogItem = \<lparr>
     wrl_Type = [],
     wrl_Name = [],
     wrl_Role = [],
     wrl_Time = [],
     wrl_Comment = [] \<rparr>"

record WorkflowFormStateResponse =
  wfr_FormInstanceID :: string
  wfr_FormStatus :: string
  wfr_RunID :: string
  wfr_RunStatus :: string
  wfr_TemporalStartStatus :: string
  wfr_TemporalWorkflowID :: string
  wfr_TemporalRunID :: string
  wfr_TemporalStartedAt :: "int option"
  wfr_CurrentStageID :: string
  wfr_CurrentStageLabel :: string
  wfr_CanAct :: bool
  wfr_AllowedActions :: "string list"
  wfr_Steps :: "WorkflowFormStep list"
  wfr_Actions :: "WorkflowReviewLogItem list"

definition zero_WorkflowFormStateResponse :: WorkflowFormStateResponse where
  "zero_WorkflowFormStateResponse = \<lparr>
     wfr_FormInstanceID = [],
     wfr_FormStatus = [],
     wfr_RunID = [],
     wfr_RunStatus = [],
     wfr_TemporalStartStatus = [],
     wfr_TemporalWorkflowID = [],
     wfr_TemporalRunID = [],
     wfr_TemporalStartedAt = None,
     wfr_CurrentStageID = [],
     wfr_CurrentStageLabel = [],
     wfr_CanAct = False,
     wfr_AllowedActions = [],
     wfr_Steps = [],
     wfr_Actions = [] \<rparr>"

record PlatformFormBuilderStage =
  pbs_ID :: string
  pbs_Type :: string
  pbs_Label :: string
  pbs_Detail :: string
  pbs_Config :: params

definition zero_PlatformFormBuilderStage :: PlatformFormBuilderStage where
  "zero_PlatformFormBuilderStage = \<lparr>
     pbs_ID = [],
     pbs_Type = [],
     pbs_Label = [],
     pbs_Detail = [],
     pbs_Config = [] \<rparr>"

record Notification =
  ntf_ID :: string
  ntf_TenantID :: string
  ntf_Tone :: string
  ntf_Category :: string
  ntf_Title :: string
  ntf_Body :: string
  ntf_StatusText :: string
  ntf_LinkURL :: string
  ntf_SourceType :: string
  ntf_SourceID :: string
  ntf_CreatedByAccountID :: string
  ntf_CreatedAt :: int
  ntf_ExpiresAt :: "int option"

definition zero_Notification :: Notification where
  "zero_Notification = \<lparr>
     ntf_ID = [],
     ntf_TenantID = [],
     ntf_Tone = [],
     ntf_Category = [],
     ntf_Title = [],
     ntf_Body = [],
     ntf_StatusText = [],
     ntf_LinkURL = [],
     ntf_SourceType = [],
     ntf_SourceID = [],
     ntf_CreatedByAccountID = [],
     ntf_CreatedAt = 0,
     ntf_ExpiresAt = None \<rparr>"

record NotificationRecipient =
  ntr_NotificationID :: string
  ntr_TenantID :: string
  ntr_AccountID :: string
  ntr_ReadAt :: "int option"
  ntr_DeletedAt :: "int option"
  ntr_CreatedAt :: int

definition zero_NotificationRecipient :: NotificationRecipient where
  "zero_NotificationRecipient = \<lparr>
     ntr_NotificationID = [],
     ntr_TenantID = [],
     ntr_AccountID = [],
     ntr_ReadAt = None,
     ntr_DeletedAt = None,
     ntr_CreatedAt = 0 \<rparr>"

record FormApprovalWorkflowStart =
  aws_TenantID :: string
  aws_FormInstanceID :: string
  aws_RunID :: string
  aws_WorkflowID :: string
  aws_StageDefinitionsJSON :: json_text
  aws_DefaultRemindAfterHours :: int

definition zero_FormApprovalWorkflowStart :: FormApprovalWorkflowStart where
  "zero_FormApprovalWorkflowStart = \<lparr>
     aws_TenantID = [],
     aws_FormInstanceID = [],
     aws_RunID = [],
     aws_WorkflowID = [],
     aws_StageDefinitionsJSON = None,
     aws_DefaultRemindAfterHours = 0 \<rparr>"

record FormApprovalWorkflowSignal =
  awg_TenantID :: string
  awg_FormInstanceID :: string
  awg_RunID :: string
  awg_WorkflowID :: string
  awg_AccountID :: string
  awg_Action :: string
  awg_Reason :: string
  awg_RequestID :: string
  awg_TraceID :: string
  awg_IdempotencyKey :: string
  awg_CommandFingerprint :: string

definition zero_FormApprovalWorkflowSignal :: FormApprovalWorkflowSignal where
  "zero_FormApprovalWorkflowSignal = \<lparr>
     awg_TenantID = [],
     awg_FormInstanceID = [],
     awg_RunID = [],
     awg_WorkflowID = [],
     awg_AccountID = [],
     awg_Action = [],
     awg_Reason = [],
     awg_RequestID = [],
     awg_TraceID = [],
     awg_IdempotencyKey = [],
     awg_CommandFingerprint = [] \<rparr>"

record FormApprovalWorkflowExecution =
  awe_WorkflowID :: string
  awe_RunID :: string

definition zero_FormApprovalWorkflowExecution :: FormApprovalWorkflowExecution where
  "zero_FormApprovalWorkflowExecution = \<lparr>
     awe_WorkflowID = [],
     awe_RunID = [] \<rparr>"

record WorkflowStartRequestedPayload =
  wsp_RunID :: string
  wsp_FormInstanceID :: string
  wsp_WorkflowID :: string

definition zero_WorkflowStartRequestedPayload :: WorkflowStartRequestedPayload where
  "zero_WorkflowStartRequestedPayload = \<lparr>
     wsp_RunID = [],
     wsp_FormInstanceID = [],
     wsp_WorkflowID = [] \<rparr>"

record FormApprovalProjection =
  fap_TenantID :: string
  fap_FormInstanceID :: string
  fap_RunID :: string
  fap_FormStatus :: string
  fap_RunStatus :: string
  fap_CurrentStageID :: string
  fap_CurrentStageInstanceID :: string
  fap_CurrentStageLabel :: string
  fap_RemindAfterHours :: int
  fap_UpdatedAt :: int

definition zero_FormApprovalProjection :: FormApprovalProjection where
  "zero_FormApprovalProjection = \<lparr>
     fap_TenantID = [],
     fap_FormInstanceID = [],
     fap_RunID = [],
     fap_FormStatus = [],
     fap_RunStatus = [],
     fap_CurrentStageID = [],
     fap_CurrentStageInstanceID = [],
     fap_CurrentStageLabel = [],
     fap_RemindAfterHours = 0,
     fap_UpdatedAt = 0 \<rparr>"

record FormApprovalReminder =
  far_TenantID :: string
  far_FormInstanceID :: string
  far_RunID :: string
  far_CurrentStageID :: string
  far_CurrentStageInstanceID :: string
  far_CurrentStageLabel :: string

definition zero_FormApprovalReminder :: FormApprovalReminder where
  "zero_FormApprovalReminder = \<lparr>
     far_TenantID = [],
     far_FormInstanceID = [],
     far_RunID = [],
     far_CurrentStageID = [],
     far_CurrentStageInstanceID = [],
     far_CurrentStageLabel = [] \<rparr>"


end
