(* ===== verification/Workflow_Stages.thy ===== *)
theory Workflow_Stages
  imports Workflow_Domain Outbox_Store Business_Time
begin

text \<open>
  Stage definitions of a form workflow (\<open>src/internal/service/workflow_stage_service.go\<close>):
  reading them from the design a template carries, completing missing edges, storing them with a run
  and reading them back; and the pure parts of the runtime
  (\<open>workflow_runtime_service.go\<close>): lookups by id and the condition of a condition stage.

  Numbers of a payload are integers or decimal strings; \<open>ParseFloat\<close> is exact on decimals.
\<close>

section \<open>Text\<close>

text \<open>The UTF-8 bytes of code points below 65536.\<close>

definition rune :: "nat \<Rightarrow> string" where
  "rune n = (if n < 128 then [char_of n]
     else if n < 2048 then [char_of (192 + n div 64), char_of (128 + n mod 64)]
     else [char_of (224 + n div 4096), char_of (128 + n div 64 mod 64), char_of (128 + n mod 64)])"

definition runes :: "nat list \<Rightarrow> string" where
  "runes ns = concat (map rune ns)"

definition uniqueWorkflowRecipientIDs :: "string list \<Rightarrow> string list" where
  "uniqueWorkflowRecipientIDs values = unique_from {} (map TrimSpace values)"

section \<open>Lookups\<close>

fun workflowStageByID :: "WorkflowStageDefinition list \<Rightarrow> string \<Rightarrow> WorkflowStageDefinition" where
  "workflowStageByID [] stageID = zero_WorkflowStageDefinition"
| "workflowStageByID (s # ss) stageID = (if wsd_ID s = stageID then s else workflowStageByID ss stageID)"

fun stage_index_from :: "nat \<Rightarrow> WorkflowStageDefinition list \<Rightarrow> string \<Rightarrow> int" where
  "stage_index_from n [] stageID = -1"
| "stage_index_from n (s # ss) stageID = (if wsd_ID s = stageID then int n else stage_index_from (Suc n) ss stageID)"

definition workflowStageIndexByID :: "WorkflowStageDefinition list \<Rightarrow> string \<Rightarrow> int" where
  "workflowStageIndexByID stages stageID = stage_index_from 0 stages stageID"

fun workflowNextStageID :: "WorkflowStageDefinition list \<Rightarrow> string \<Rightarrow> string" where
  "workflowNextStageID (s # t # ss) currentID = (if wsd_ID s = currentID then wsd_ID t else workflowNextStageID (t # ss) currentID)"
| "workflowNextStageID _ currentID = []"

fun first_approver :: "WorkflowStageDefinition list \<Rightarrow> string option" where
  "first_approver [] = None"
| "first_approver (s # ss) = (if TrimSpace (wsd_Type s) = ''approver'' then Some (wsd_ID s) else first_approver ss)"

fun workflowSkipToNextApproverStageID :: "WorkflowStageDefinition list \<Rightarrow> string \<Rightarrow> string" where
  "workflowSkipToNextApproverStageID [] currentID = []"
| "workflowSkipToNextApproverStageID (s # ss) currentID =
     (if wsd_ID s \<noteq> currentID then workflowSkipToNextApproverStageID ss currentID
      else case first_approver ss of Some i \<Rightarrow> i | None \<Rightarrow> workflowSkipToNextApproverStageID ss currentID)"

section \<open>Values of a stage configuration\<close>

definition ParseBool :: "string \<Rightarrow> bool option" where
  "ParseBool s =
     (if s \<in> {''1'', ''t'', ''T'', ''TRUE'', ''true'', ''True''} then Some True
      else if s \<in> {''0'', ''f'', ''F'', ''FALSE'', ''false'', ''False''} then Some False else None)"

definition workflowBoolFromAny :: "val \<Rightarrow> bool" where
  "workflowBoolFromAny v = (case v of VBool b \<Rightarrow> b | VStr s \<Rightarrow> ParseBool (TrimSpace s) = Some True | _ \<Rightarrow> False)"

definition workflowIntFromAny :: "val \<Rightarrow> int" where
  "workflowIntFromAny v = (case v of VNum n \<Rightarrow> n
     | VFloat r \<Rightarrow> (if r \<ge> 0 then \<lfloor>r\<rfloor> else \<lceil>r\<rceil>)
     | VStr s \<Rightarrow> (case Atoi (TrimSpace s) of None \<Rightarrow> 0 | Some n \<Rightarrow> n) | _ \<Rightarrow> 0)"

definition workflowStageConfigFromMap :: "params \<Rightarrow> WorkflowStageConfig" where
  "workflowStageConfigFromMap values =
     (if values = [] then zero_WorkflowStageConfig
      else let str = (\<lambda>key. stringFromAny (map_at values key));
               config = zero_WorkflowStageConfig\<lparr>wsc_Role := str ''role'', wsc_Mode := str ''mode'',
                 wsc_Field := str ''field'', wsc_Operator := str ''operator'', wsc_Value := str ''value'',
                 wsc_NextStageID := str ''next_stage_id'', wsc_TrueNextStageID := str ''true_next_stage_id'',
                 wsc_FalseNextStageID := str ''false_next_stage_id'',
                 wsc_ExcludeApplicant := workflowBoolFromAny (map_at values ''exclude_applicant''),
                 wsc_RequireDistinctApprover := workflowBoolFromAny (map_at values ''require_distinct_approver'')\<rparr>;
               level = workflowIntFromAny (map_at values ''relative_level'');
               config = (if level > 0 then config\<lparr>wsc_RelativeLevel := level\<rparr> else config);
               hours = workflowIntFromAny (map_at values ''remind_after_hours'');
               camel = workflowIntFromAny (map_at values ''remindAfterHours'');
               config = (if hours > 0 then config\<lparr>wsc_RemindAfterHours := hours\<rparr>
                         else if camel > 0 then config\<lparr>wsc_RemindAfterHours := camel\<rparr> else config);
               config = config\<lparr>
                 wsc_AccountIDs := uniqueWorkflowRecipientIDs (stringSliceFromAny (map_at values ''account_ids'')),
                 wsc_UserGroupIDs := uniqueWorkflowRecipientIDs (stringSliceFromAny (map_at values ''user_group_ids''))\<rparr>
           in case map_at values ''levels'' of
                VList levels \<Rightarrow> config\<lparr>wsc_Levels := filter (\<lambda>l. l > 0) (map workflowIntFromAny levels)\<rparr>
              | _ \<Rightarrow> config)"

section \<open>Inference for designs without configuration\<close>

text \<open>The words the labels are searched for: department head, finance, general manager, the
  applicant, amount, grade, and the signs for "at most" and "at least".\<close>

definition word_dept_head :: string where "word_dept_head = runes [37096, 38272, 20027, 31649]"
definition word_finance :: string where "word_finance = runes [36001, 21209]"
definition word_ceo :: string where "word_ceo = runes [32317, 32147, 29702]"
definition word_applicant :: string where "word_applicant = runes [30003, 35531, 32773, 26412, 20154]"
definition word_amount :: string where "word_amount = runes [37329, 38989]"
definition word_level :: string where "word_level = runes [32887, 31561]"
definition sign_le :: string where "sign_le = runes [8804]"
definition sign_ge :: string where "sign_ge = runes [8805]"

definition inferWorkflowRole :: "string \<Rightarrow> string" where
  "inferWorkflowRole text =
     (if strings_Contains text word_dept_head then ''dept-head''
      else if strings_Contains text ''HR'' then ''hr''
      else if strings_Contains text word_finance then ''finance''
      else if strings_Contains text word_ceo then ''ceo''
      else if strings_Contains text word_applicant then ''applicant''
      else if strings_Contains text ''+2'' then ''relative''
      else if strings_Contains text ''+1'' \<or> strings_Contains text ''+N'' then ''relative''
      else ''manager'')"

text \<open>\<open>workflowConditionNumberPattern\<close>: the digits after the first comparison sign that is
  followed by blanks and digits; and all runs of digits.\<close>

definition regex_space :: "char \<Rightarrow> bool" where
  "regex_space c \<longleftrightarrow> c \<in> {CHR 0x09, CHR 0x0A, CHR 0x0C, CHR 0x0D, CHR 0x20}"

definition number_after :: "string \<Rightarrow> string \<Rightarrow> string option" where
  "number_after sign text =
     (if prefix sign text
      then let ds = takeWhile is_digit (dropWhile regex_space (drop (length sign) text))
           in if ds = [] then None else Some ds
      else None)"

fun first_some :: "'a option list \<Rightarrow> 'a option" where
  "first_some [] = None"
| "first_some (x # xs) = (case x of Some v \<Rightarrow> Some v | None \<Rightarrow> first_some xs)"

fun workflowConditionNumber :: "string \<Rightarrow> string option" where
  "workflowConditionNumber [] = None"
| "workflowConditionNumber (c # text) =
     (case first_some (map (\<lambda>sign. number_after sign (c # text)) [sign_ge, ''>'', ''='', ''<'', sign_le, ''>='', ''<='']) of
        Some ds \<Rightarrow> Some ds | None \<Rightarrow> workflowConditionNumber text)"

fun digit_runs :: "string \<Rightarrow> string \<Rightarrow> string list" where
  "digit_runs run [] = (if run = [] then [] else [rev run])"
| "digit_runs run (c # text) =
     (if is_digit c then digit_runs (c # run) text
      else (if run = [] then [] else [rev run]) @ digit_runs [] text)"

definition inferWorkflowConditionConfig :: "PlatformFormBuilderStage \<Rightarrow> WorkflowStageConfig" where
  "inferWorkflowConditionConfig stage =
     (let label = TrimSpace (pbs_Label stage);
          field = (if strings_Contains label word_amount then ''amount''
                   else if strings_Contains label word_level then ''level'' else ''hours'');
          operator = (if strings_Contains label sign_le \<or> strings_Contains label ''<='' then ''<=''
                      else if strings_Contains label ''<'' then ''<''
                      else if strings_Contains label ''>'' \<and> \<not> strings_Contains label sign_ge then ''>''
                      else if strings_Contains label ''='' then ''=='' else ''>='');
          value = (case workflowConditionNumber label of Some ds \<Rightarrow> ds | None \<Rightarrow> []);
          levels = (if field = ''level''
                    then concat (map (\<lambda>t. case Atoi t of Some n \<Rightarrow> [n] | None \<Rightarrow> []) (digit_runs [] label)) else [])
      in zero_WorkflowStageConfig\<lparr>wsc_Field := field, wsc_Operator := operator, wsc_Value := value, wsc_Levels := levels\<rparr>)"

definition inferWorkflowStageConfig :: "PlatformFormBuilderStage \<Rightarrow> WorkflowStageConfig" where
  "inferWorkflowStageConfig stage =
     (let text = TrimSpace (pbs_Label stage @ '' '' @ pbs_Detail stage); stageType = TrimSpace (pbs_Type stage) in
      if stageType = ''notify'' then zero_WorkflowStageConfig\<lparr>wsc_Role := inferWorkflowRole text\<rparr>
      else if stageType = ''condition'' then inferWorkflowConditionConfig stage
      else let config = zero_WorkflowStageConfig\<lparr>wsc_Role := inferWorkflowRole text\<rparr> in
        if strings_Contains text ''+2'' then config\<lparr>wsc_Role := ''relative'', wsc_RelativeLevel := 2\<rparr>
        else if strings_Contains text ''+1'' \<or> strings_Contains text ''+N''
        then config\<lparr>wsc_Role := ''relative'', wsc_RelativeLevel := 1\<rparr>
        else config)"

section \<open>Normal form\<close>

definition parallel_mode :: "WorkflowStageDefinition \<Rightarrow> WorkflowStageDefinition" where
  "parallel_mode s =
     (if wsd_Type s = ''parallel''
      then s\<lparr>wsd_Type := ''approver'', wsd_Config := (if TrimSpace (wsc_Mode (wsd_Config s)) = []
               then (wsd_Config s)\<lparr>wsc_Mode := ''all''\<rparr> else wsd_Config s)\<rparr>
      else s)"

definition normalizeWorkflowStageDefinition :: "PlatformFormBuilderStage \<Rightarrow> WorkflowStageDefinition" where
  "normalizeWorkflowStageDefinition stage =
     (let config = workflowStageConfigFromMap (pbs_Config stage);
          config = (if wsc_Role config = [] \<and> wsc_AccountIDs config = [] \<and> wsc_UserGroupIDs config = [] \<and>
                       wsc_Field config = []
                    then inferWorkflowStageConfig stage else config)
      in parallel_mode \<lparr>wsd_ID = TrimSpace (pbs_ID stage), wsd_Type = TrimSpace (pbs_Type stage),
           wsd_Label = TrimSpace (pbs_Label stage), wsd_Detail = TrimSpace (pbs_Detail stage), wsd_Config = config\<rparr>)"

definition normalizeDeserializedWorkflowStage :: "WorkflowStageDefinition \<Rightarrow> WorkflowStageDefinition" where
  "normalizeDeserializedWorkflowStage stage =
     parallel_mode (stage\<lparr>wsd_ID := TrimSpace (wsd_ID stage), wsd_Type := TrimSpace (wsd_Type stage),
       wsd_Label := TrimSpace (wsd_Label stage), wsd_Detail := TrimSpace (wsd_Detail stage)\<rparr>)"

text \<open>The head of a false branch: where a condition goes when it fails, apart from the end and the
  true branch.\<close>

definition false_head :: "WorkflowStageDefinition \<Rightarrow> string set" where
  "false_head s =
     (let trueNext = TrimSpace (wsc_TrueNextStageID (wsd_Config s)); falseNext = TrimSpace (wsc_FalseNextStageID (wsd_Config s)) in
      if TrimSpace (wsd_Type s) = ''condition'' \<and> falseNext \<noteq> [] \<and> falseNext \<noteq> WorkflowStageEndID \<and> falseNext \<noteq> trueNext
      then {falseNext} else {})"

text \<open>One turn of the loop: the completed stage, and the heads known after it.  The lookup of the
  next stage reads only ids, which the loop does not change.\<close>

definition complete_edges :: "WorkflowStageDefinition list \<Rightarrow> string set \<Rightarrow> WorkflowStageDefinition \<Rightarrow> WorkflowStageDefinition" where
  "complete_edges stages heads s =
     (let config = wsd_Config s; nextID = workflowNextStageID stages (wsd_ID s) in
      if TrimSpace (wsd_Type s) = ''condition'' then
        let config = (if TrimSpace (wsc_TrueNextStageID config) = []
                      then config\<lparr>wsc_TrueNextStageID := (if nextID = [] then WorkflowStageEndID else nextID)\<rparr> else config);
            config = (if TrimSpace (wsc_FalseNextStageID config) = []
                      then config\<lparr>wsc_FalseNextStageID := WorkflowStageEndID\<rparr> else config)
        in s\<lparr>wsd_Config := config\<rparr>
      else if TrimSpace (wsc_NextStageID config) \<noteq> [] then s
      else s\<lparr>wsd_Config := config\<lparr>wsc_NextStageID :=
             (if nextID = [] then WorkflowStageEndID else if nextID \<in> heads then WorkflowStageEndID else nextID)\<rparr>\<rparr>)"

fun complete_loop :: "WorkflowStageDefinition list \<Rightarrow> string set \<Rightarrow> WorkflowStageDefinition list \<Rightarrow> WorkflowStageDefinition list" where
  "complete_loop stages heads [] = []"
| "complete_loop stages heads (s # ss) =
     (let s = complete_edges stages heads s in s # complete_loop stages (heads \<union> false_head s) ss)"

definition ensureWorkflowStagePointers :: "WorkflowStageDefinition list \<Rightarrow> WorkflowStageDefinition list" where
  "ensureWorkflowStagePointers stages =
     (if stages = [] then stages else complete_loop stages (\<Union> (set (map false_head stages))) stages)"

section \<open>Reading a template\<close>

definition platformTemplateDesign :: "params \<Rightarrow> params" where
  "platformTemplateDesign schema =
     (if schema = [] then [] else case map_at schema ''workspace_design'' of VMap m \<Rightarrow> m | _ \<Rightarrow> [])"

definition platformDesignBool :: "params \<Rightarrow> string \<Rightarrow> bool \<Rightarrow> bool" where
  "platformDesignBool values key fallback =
     (if values = [] then fallback else case map_at values key of VBool b \<Rightarrow> b | _ \<Rightarrow> fallback)"

definition platformTemplateDeleted :: "params \<Rightarrow> bool" where
  "platformTemplateDeleted schema = platformDesignBool (platformTemplateDesign schema) ''deleted'' False"

definition platformTemplateEnabled :: "params \<Rightarrow> bool" where
  "platformTemplateEnabled schema = platformDesignBool (platformTemplateDesign schema) ''enabled'' True"

text \<open>The stages of the builder contract: the direct manager, a check by HR, and a note to the applicant.\<close>

definition contract_stage :: "string \<Rightarrow> string \<Rightarrow> string \<Rightarrow> string \<Rightarrow> string \<Rightarrow> PlatformFormBuilderStage" where
  "contract_stage i typ label detail role =
     \<lparr>pbs_ID = i, pbs_Type = typ, pbs_Label = label, pbs_Detail = detail, pbs_Config = [(''role'', VStr role)]\<rparr>"

definition platformFormBuilderContractStages :: "PlatformFormBuilderStage list" where
  "platformFormBuilderContractStages =
     [contract_stage ''stage-manager'' ''approver''
        (runes [30452, 23660, 20027, 31649])
        (runes [20381, 21729, 24037, 20027, 31649, 38364, 20418, 33258, 21205, 24118, 20837]) ''manager'',
      contract_stage ''stage-hr'' ''approver''
        (runes [72, 82, 32, 35079, 26680])
        (runes [39640, 39080, 38570, 34920, 21934, 38656, 32, 72, 82, 32, 30906, 35469]) ''hr'',
      contract_stage ''stage-notify'' ''notify''
        (runes [36890, 30693, 30003, 35531, 20154])
        (runes [31805, 26680, 23436, 25104, 24460, 30332, 36865, 36890, 30693]) ''applicant'']"

text \<open>\<open>json.Unmarshal\<close> into fields of a struct: a missing key or null leaves the zero value, a
  value of another type is an error.\<close>

definition json_string_field :: "params \<Rightarrow> string \<Rightarrow> string option" where
  "json_string_field m key = (case map_at m key of VNil \<Rightarrow> Some [] | VStr s \<Rightarrow> Some s | _ \<Rightarrow> None)"

definition json_map_field :: "params \<Rightarrow> string \<Rightarrow> params option" where
  "json_map_field m key = (case map_at m key of VNil \<Rightarrow> Some [] | VMap n \<Rightarrow> Some n | _ \<Rightarrow> None)"

definition decodeBuilderStage :: "val \<Rightarrow> PlatformFormBuilderStage option" where
  "decodeBuilderStage v =
     (case v of VNil \<Rightarrow> Some zero_PlatformFormBuilderStage
      | VMap m \<Rightarrow>
          Option.bind (json_string_field m ''id'') (\<lambda>i. Option.bind (json_string_field m ''type'') (\<lambda>t.
          Option.bind (json_string_field m ''label'') (\<lambda>l. Option.bind (json_string_field m ''detail'') (\<lambda>d.
          Option.bind (json_map_field m ''config'') (\<lambda>c.
            Some \<lparr>pbs_ID = i, pbs_Type = t, pbs_Label = l, pbs_Detail = d, pbs_Config = c\<rparr>)))))
      | _ \<Rightarrow> None)"

fun decode_all :: "('a \<Rightarrow> 'b option) \<Rightarrow> 'a list \<Rightarrow> 'b list option" where
  "decode_all f [] = Some []"
| "decode_all f (x # xs) = Option.bind (f x) (\<lambda>y. Option.bind (decode_all f xs) (\<lambda>ys. Some (y # ys)))"

definition platformDecodeSlice :: "(val \<Rightarrow> 'a option) \<Rightarrow> val \<Rightarrow> 'a list option" where
  "platformDecodeSlice decode v = (case v of VList vs \<Rightarrow> decode_all decode vs | _ \<Rightarrow> None)"

definition platformTemplateStages :: "params \<Rightarrow> PlatformFormBuilderStage list" where
  "platformTemplateStages schema =
     (case platformDecodeSlice decodeBuilderStage (map_at (platformTemplateDesign schema) ''stages'') of
        Some stages \<Rightarrow> stages | None \<Rightarrow> platformFormBuilderContractStages)"

definition ParseWorkflowStagesFromTemplate :: "FormTemplate \<Rightarrow> WorkflowStageDefinition list" where
  "ParseWorkflowStagesFromTemplate template =
     ensureWorkflowStagePointers (map normalizeWorkflowStageDefinition
       (filter (\<lambda>s. \<not> (TrimSpace (pbs_ID s) = [] \<or> TrimSpace (pbs_Type s) = [])) (platformTemplateStages (ft_Schema template))))"

definition ValidateWorkflowTemplateSubmittable :: "FormTemplate \<Rightarrow> unit res" where
  "ValidateWorkflowTemplateSubmittable template =
     (if platformTemplateDeleted (ft_Schema template) then Inl (AppErr (BadRequest ''form template is deleted''))
      else if \<not> platformTemplateEnabled (ft_Schema template) then Inl (AppErr (BadRequest ''form template is disabled''))
      else if ParseWorkflowStagesFromTemplate template = [] then Inl (AppErr (BadRequest ''form template has no workflow stages''))
      else Inr ())"

section \<open>Storing stages with a run\<close>

text \<open>\<open>json.Marshal\<close> with the \<open>omitempty\<close> tags of the configuration.\<close>

definition opt_field :: "string \<Rightarrow> bool \<Rightarrow> val \<Rightarrow> params" where
  "opt_field key present v = (if present then [(key, v)] else [])"

definition config_json :: "WorkflowStageConfig \<Rightarrow> params" where
  "config_json c =
     opt_field ''role'' (wsc_Role c \<noteq> []) (VStr (wsc_Role c)) @
     opt_field ''relative_level'' (wsc_RelativeLevel c \<noteq> 0) (VNum (wsc_RelativeLevel c)) @
     opt_field ''mode'' (wsc_Mode c \<noteq> []) (VStr (wsc_Mode c)) @
     opt_field ''field'' (wsc_Field c \<noteq> []) (VStr (wsc_Field c)) @
     opt_field ''operator'' (wsc_Operator c \<noteq> []) (VStr (wsc_Operator c)) @
     opt_field ''value'' (wsc_Value c \<noteq> []) (VStr (wsc_Value c)) @
     opt_field ''remind_after_hours'' (wsc_RemindAfterHours c \<noteq> 0) (VNum (wsc_RemindAfterHours c)) @
     opt_field ''levels'' (wsc_Levels c \<noteq> []) (VList (map VNum (wsc_Levels c))) @
     opt_field ''next_stage_id'' (wsc_NextStageID c \<noteq> []) (VStr (wsc_NextStageID c)) @
     opt_field ''true_next_stage_id'' (wsc_TrueNextStageID c \<noteq> []) (VStr (wsc_TrueNextStageID c)) @
     opt_field ''false_next_stage_id'' (wsc_FalseNextStageID c \<noteq> []) (VStr (wsc_FalseNextStageID c)) @
     opt_field ''account_ids'' (wsc_AccountIDs c \<noteq> []) (VList (map VStr (wsc_AccountIDs c))) @
     opt_field ''user_group_ids'' (wsc_UserGroupIDs c \<noteq> []) (VList (map VStr (wsc_UserGroupIDs c))) @
     opt_field ''exclude_applicant'' (wsc_ExcludeApplicant c) (VBool True) @
     opt_field ''require_distinct_approver'' (wsc_RequireDistinctApprover c) (VBool True)"

definition stage_json :: "WorkflowStageDefinition \<Rightarrow> val" where
  "stage_json s = VMap [(''id'', VStr (wsd_ID s)), (''type'', VStr (wsd_Type s)), (''label'', VStr (wsd_Label s)),
     (''detail'', VStr (wsd_Detail s)), (''config'', VMap (config_json (wsd_Config s)))]"

definition SerializeWorkflowStages :: "WorkflowStageDefinition list \<Rightarrow> json_text" where
  "SerializeWorkflowStages stages = Some (VList (map stage_json stages))"

definition json_int_field :: "params \<Rightarrow> string \<Rightarrow> int option" where
  "json_int_field m key = (case map_at m key of VNil \<Rightarrow> Some 0 | VNum n \<Rightarrow> Some n | _ \<Rightarrow> None)"

definition json_bool_field :: "params \<Rightarrow> string \<Rightarrow> bool option" where
  "json_bool_field m key = (case map_at m key of VNil \<Rightarrow> Some False | VBool b \<Rightarrow> Some b | _ \<Rightarrow> None)"

definition json_list_field :: "(val \<Rightarrow> 'a option) \<Rightarrow> params \<Rightarrow> string \<Rightarrow> 'a list option" where
  "json_list_field decode m key = (case map_at m key of VNil \<Rightarrow> Some [] | VList vs \<Rightarrow> decode_all decode vs | _ \<Rightarrow> None)"

definition json_string_item :: "val \<Rightarrow> string option" where
  "json_string_item v = (case v of VNil \<Rightarrow> Some [] | VStr s \<Rightarrow> Some s | _ \<Rightarrow> None)"

definition json_int_item :: "val \<Rightarrow> int option" where
  "json_int_item v = (case v of VNil \<Rightarrow> Some 0 | VNum n \<Rightarrow> Some n | _ \<Rightarrow> None)"

definition decode_config :: "params \<Rightarrow> WorkflowStageConfig option" where
  "decode_config m =
     Option.bind (json_string_field m ''role'') (\<lambda>role.
     Option.bind (json_int_field m ''relative_level'') (\<lambda>relativeLevel.
     Option.bind (json_string_field m ''mode'') (\<lambda>mode.
     Option.bind (json_string_field m ''field'') (\<lambda>field.
     Option.bind (json_string_field m ''operator'') (\<lambda>operator.
     Option.bind (json_string_field m ''value'') (\<lambda>value.
     Option.bind (json_int_field m ''remind_after_hours'') (\<lambda>remind.
     Option.bind (json_list_field json_int_item m ''levels'') (\<lambda>levels.
     Option.bind (json_string_field m ''next_stage_id'') (\<lambda>nextID.
     Option.bind (json_string_field m ''true_next_stage_id'') (\<lambda>trueNext.
     Option.bind (json_string_field m ''false_next_stage_id'') (\<lambda>falseNext.
     Option.bind (json_list_field json_string_item m ''account_ids'') (\<lambda>accounts.
     Option.bind (json_list_field json_string_item m ''user_group_ids'') (\<lambda>groups.
     Option.bind (json_bool_field m ''exclude_applicant'') (\<lambda>exclude.
     Option.bind (json_bool_field m ''require_distinct_approver'') (\<lambda>distinctApprover.
       Some \<lparr>wsc_Role = role, wsc_RelativeLevel = relativeLevel, wsc_Mode = mode, wsc_Field = field,
         wsc_Operator = operator, wsc_Value = value, wsc_RemindAfterHours = remind, wsc_Levels = levels,
         wsc_NextStageID = nextID, wsc_TrueNextStageID = trueNext, wsc_FalseNextStageID = falseNext,
         wsc_AccountIDs = accounts, wsc_UserGroupIDs = groups, wsc_ExcludeApplicant = exclude,
         wsc_RequireDistinctApprover = distinctApprover\<rparr>)))))))))))))))"

definition decode_stage :: "val \<Rightarrow> WorkflowStageDefinition option" where
  "decode_stage v =
     (case v of VNil \<Rightarrow> Some zero_WorkflowStageDefinition
      | VMap m \<Rightarrow>
          Option.bind (json_string_field m ''id'') (\<lambda>i. Option.bind (json_string_field m ''type'') (\<lambda>t.
          Option.bind (json_string_field m ''label'') (\<lambda>l. Option.bind (json_string_field m ''detail'') (\<lambda>d.
          Option.bind (json_map_field m ''config'') (\<lambda>c. Option.bind (decode_config c) (\<lambda>config.
            Some \<lparr>wsd_ID = i, wsd_Type = t, wsd_Label = l, wsd_Detail = d, wsd_Config = config\<rparr>))))))
      | _ \<Rightarrow> None)"

definition DeserializeWorkflowStages :: "json_text \<Rightarrow> WorkflowStageDefinition list" where
  "DeserializeWorkflowStages raw =
     (case raw of None \<Rightarrow> []
      | Some v \<Rightarrow> (case (case v of VNil \<Rightarrow> Some [] | _ \<Rightarrow> platformDecodeSlice decode_stage v) of
            None \<Rightarrow> []
          | Some stages \<Rightarrow> ensureWorkflowStagePointers (map normalizeDeserializedWorkflowStage stages)))"

section \<open>Conditions\<close>

definition decimal_value :: "string \<Rightarrow> string \<Rightarrow> rat" where
  "decimal_value whole fraction = rat_of_nat (digits_value (whole @ fraction)) / 10 ^ length fraction"

definition ParseFloat :: "string \<Rightarrow> rat option" where
  "ParseFloat s =
     (let neg = (s \<noteq> [] \<and> hd s = CHR ''-'');
          body = (if s \<noteq> [] \<and> (hd s = CHR ''-'' \<or> hd s = CHR ''+'') then tl s else s);
          whole = takeWhile is_digit body; rest = dropWhile is_digit body;
          fraction = (if rest \<noteq> [] \<and> hd rest = CHR ''.'' then takeWhile is_digit (tl rest) else []);
          rest = (if rest \<noteq> [] \<and> hd rest = CHR ''.'' then dropWhile is_digit (tl rest) else rest);
          value = decimal_value whole fraction
      in if whole = [] \<and> fraction = [] then None
         else if rest = [] then Some (if neg then - value else value)
         else if hd rest \<noteq> CHR ''e'' \<and> hd rest \<noteq> CHR ''E'' then None
         else case Atoi (tl rest) of
             None \<Rightarrow> None
           | Some e \<Rightarrow> let scaled = (if e < 0 then value / 10 ^ nat (- e) else value * 10 ^ nat e)
                       in Some (if neg then - scaled else scaled))"

fun workflowPayloadNumber :: "params \<Rightarrow> string list \<Rightarrow> rat" where
  "workflowPayloadNumber payload [] = 0"
| "workflowPayloadNumber payload (key # keys) =
     (case map_of payload key of
        Some (VNum n) \<Rightarrow> rat_of_int n
      | Some (VFloat r) \<Rightarrow> r
      | Some (VStr s) \<Rightarrow> (case ParseFloat (TrimSpace s) of Some q \<Rightarrow> q | None \<Rightarrow> workflowPayloadNumber payload keys)
      | _ \<Rightarrow> workflowPayloadNumber payload keys)"

definition compareWorkflowNumbers :: "rat \<Rightarrow> rat \<Rightarrow> string \<Rightarrow> bool" where
  "compareWorkflowNumbers left right operator =
     (let op = TrimSpace operator in
      if op = ''<'' then left < right else if op = ''<='' then left \<le> right
      else if op = ''=='' then left = right else if op = ''>'' then left > right else left \<ge> right)"

definition evaluateWorkflowCondition :: "WorkflowStageConfig \<Rightarrow> Employee \<Rightarrow> params \<Rightarrow> bool" where
  "evaluateWorkflowCondition config applicant payload =
     (let field = TrimSpace (wsc_Field config); field = (if field = [] then ''hours'' else field) in
      if field = ''level'' then
        list_ex (\<lambda>level. strings_Contains (TrimSpace (emp_Position applicant)) (int_string level)) (wsc_Levels config)
      else let left = (if field = ''amount'' then workflowPayloadNumber payload [''amount'', ''total_amount'', ''totalAmount'']
                       else workflowPayloadNumber payload [''hours'', ''leave_hours'', ''leaveHours''])
           in case ParseFloat (TrimSpace (wsc_Value config)) of
                None \<Rightarrow> False
              | Some right \<Rightarrow> compareWorkflowNumbers left right (wsc_Operator config))"
section \<open>What is stored is what was parsed\<close>

lemma map_at_append: "map_at (xs @ ys) k = (case map_of xs k of Some v \<Rightarrow> v | None \<Rightarrow> map_at ys k)"
  by (auto simp: map_at_def map_add_def split: option.splits)

lemma map_at_Cons: "map_at ((k, v) # m) k' = (if k' = k then v else map_at m k')"
  by (auto simp: map_at_def)

lemma map_at_opt:
  "map_at (opt_field k p v @ m) k' = (if k' = k \<and> p then v else map_at m k')"
  "map_at (opt_field k p v) k' = (if k' = k \<and> p then v else VNil)"
  by (auto simp: opt_field_def map_at_def)

lemma decode_all_map [simp]:
  "(\<And>x. f (g x) = Some x) \<Longrightarrow> decode_all f (map g xs) = Some xs"
  by (induction xs) auto

lemma decode_items [simp]: "json_string_item (VStr s) = Some s" "json_int_item (VNum n) = Some n"
  by (simp_all add: json_string_item_def json_int_item_def)

lemma decode_fields:
  "map_at m k = (if p then VStr s else VNil) \<Longrightarrow> (\<not> p \<Longrightarrow> s = []) \<Longrightarrow> json_string_field m k = Some s"
  "map_at m k = (if p then VNum n else VNil) \<Longrightarrow> (\<not> p \<Longrightarrow> n = 0) \<Longrightarrow> json_int_field m k = Some n"
  "map_at m k = (if p then VBool True else VNil) \<Longrightarrow> json_bool_field m k = Some p"
  "map_at m k = (if q then VList (map VStr ss) else VNil) \<Longrightarrow> (\<not> q \<Longrightarrow> ss = []) \<Longrightarrow>
     json_list_field json_string_item m k = Some ss"
  "map_at m k = (if q then VList (map VNum ns) else VNil) \<Longrightarrow> (\<not> q \<Longrightarrow> ns = []) \<Longrightarrow>
     json_list_field json_int_item m k = Some ns"
  by (auto simp: json_string_field_def json_int_field_def json_bool_field_def json_list_field_def)

lemma config_json_at:
  "map_at (config_json c) ''role'' = (if wsc_Role c \<noteq> [] then VStr (wsc_Role c) else VNil)"
  "map_at (config_json c) ''relative_level'' = (if wsc_RelativeLevel c \<noteq> 0 then VNum (wsc_RelativeLevel c) else VNil)"
  "map_at (config_json c) ''mode'' = (if wsc_Mode c \<noteq> [] then VStr (wsc_Mode c) else VNil)"
  "map_at (config_json c) ''field'' = (if wsc_Field c \<noteq> [] then VStr (wsc_Field c) else VNil)"
  "map_at (config_json c) ''operator'' = (if wsc_Operator c \<noteq> [] then VStr (wsc_Operator c) else VNil)"
  "map_at (config_json c) ''value'' = (if wsc_Value c \<noteq> [] then VStr (wsc_Value c) else VNil)"
  "map_at (config_json c) ''remind_after_hours'' = (if wsc_RemindAfterHours c \<noteq> 0 then VNum (wsc_RemindAfterHours c) else VNil)"
  "map_at (config_json c) ''levels'' = (if wsc_Levels c \<noteq> [] then VList (map VNum (wsc_Levels c)) else VNil)"
  "map_at (config_json c) ''next_stage_id'' = (if wsc_NextStageID c \<noteq> [] then VStr (wsc_NextStageID c) else VNil)"
  "map_at (config_json c) ''true_next_stage_id'' = (if wsc_TrueNextStageID c \<noteq> [] then VStr (wsc_TrueNextStageID c) else VNil)"
  "map_at (config_json c) ''false_next_stage_id'' = (if wsc_FalseNextStageID c \<noteq> [] then VStr (wsc_FalseNextStageID c) else VNil)"
  "map_at (config_json c) ''account_ids'' = (if wsc_AccountIDs c \<noteq> [] then VList (map VStr (wsc_AccountIDs c)) else VNil)"
  "map_at (config_json c) ''user_group_ids'' = (if wsc_UserGroupIDs c \<noteq> [] then VList (map VStr (wsc_UserGroupIDs c)) else VNil)"
  "map_at (config_json c) ''exclude_applicant'' = (if wsc_ExcludeApplicant c then VBool True else VNil)"
  "map_at (config_json c) ''require_distinct_approver'' = (if wsc_RequireDistinctApprover c then VBool True else VNil)"
  by (simp_all only: config_json_def map_at_opt, simp_all)

lemma config_fields:
  "json_string_field (config_json c) ''role'' = Some (wsc_Role c)"
  "json_int_field (config_json c) ''relative_level'' = Some (wsc_RelativeLevel c)"
  "json_string_field (config_json c) ''mode'' = Some (wsc_Mode c)"
  "json_string_field (config_json c) ''field'' = Some (wsc_Field c)"
  "json_string_field (config_json c) ''operator'' = Some (wsc_Operator c)"
  "json_string_field (config_json c) ''value'' = Some (wsc_Value c)"
  "json_int_field (config_json c) ''remind_after_hours'' = Some (wsc_RemindAfterHours c)"
  "json_list_field json_int_item (config_json c) ''levels'' = Some (wsc_Levels c)"
  "json_string_field (config_json c) ''next_stage_id'' = Some (wsc_NextStageID c)"
  "json_string_field (config_json c) ''true_next_stage_id'' = Some (wsc_TrueNextStageID c)"
  "json_string_field (config_json c) ''false_next_stage_id'' = Some (wsc_FalseNextStageID c)"
  "json_list_field json_string_item (config_json c) ''account_ids'' = Some (wsc_AccountIDs c)"
  "json_list_field json_string_item (config_json c) ''user_group_ids'' = Some (wsc_UserGroupIDs c)"
  "json_bool_field (config_json c) ''exclude_applicant'' = Some (wsc_ExcludeApplicant c)"
  "json_bool_field (config_json c) ''require_distinct_approver'' = Some (wsc_RequireDistinctApprover c)"
  subgoal by (rule decode_fields(1) [OF config_json_at(1)], simp)
  subgoal by (rule decode_fields(2) [OF config_json_at(2)], simp)
  subgoal by (rule decode_fields(1) [OF config_json_at(3)], simp)
  subgoal by (rule decode_fields(1) [OF config_json_at(4)], simp)
  subgoal by (rule decode_fields(1) [OF config_json_at(5)], simp)
  subgoal by (rule decode_fields(1) [OF config_json_at(6)], simp)
  subgoal by (rule decode_fields(2) [OF config_json_at(7)], simp)
  subgoal by (rule decode_fields(5) [OF config_json_at(8)], simp)
  subgoal by (rule decode_fields(1) [OF config_json_at(9)], simp)
  subgoal by (rule decode_fields(1) [OF config_json_at(10)], simp)
  subgoal by (rule decode_fields(1) [OF config_json_at(11)], simp)
  subgoal by (rule decode_fields(4) [OF config_json_at(12)], simp)
  subgoal by (rule decode_fields(4) [OF config_json_at(13)], simp)
  subgoal by (rule decode_fields(3) [OF config_json_at(14)])
  subgoal by (rule decode_fields(3) [OF config_json_at(15)])
  done

lemma decode_config_json [simp]: "decode_config (config_json c) = Some c"
  by (simp add: decode_config_def config_fields)

lemma decode_stage_json [simp]: "decode_stage (stage_json s) = Some s"
  by (simp add: decode_stage_def stage_json_def json_string_field_def json_map_field_def map_at_Cons)

lemma Deserialize_Serialize:
  "DeserializeWorkflowStages (SerializeWorkflowStages stages) =
     ensureWorkflowStagePointers (map normalizeDeserializedWorkflowStage stages)"
  by (simp add: DeserializeWorkflowStages_def SerializeWorkflowStages_def platformDecodeSlice_def)

text \<open>A stage in normal form, and one whose outgoing edges are all there.\<close>

definition trimmed_stage :: "WorkflowStageDefinition \<Rightarrow> bool" where
  "trimmed_stage s \<longleftrightarrow> TrimSpace (wsd_ID s) = wsd_ID s \<and> TrimSpace (wsd_Type s) = wsd_Type s \<and>
     TrimSpace (wsd_Label s) = wsd_Label s \<and> TrimSpace (wsd_Detail s) = wsd_Detail s \<and>
     wsd_Type s \<noteq> ''parallel'' \<and> wsd_ID s \<noteq> [] \<and> wsd_Type s \<noteq> []"

definition edges_complete :: "WorkflowStageDefinition \<Rightarrow> bool" where
  "edges_complete s \<longleftrightarrow>
     (if TrimSpace (wsd_Type s) = ''condition''
      then TrimSpace (wsc_TrueNextStageID (wsd_Config s)) \<noteq> [] \<and> TrimSpace (wsc_FalseNextStageID (wsd_Config s)) \<noteq> []
      else TrimSpace (wsc_NextStageID (wsd_Config s)) \<noteq> [])"

lemma normalizeDeserialized_trimmed: "trimmed_stage s \<Longrightarrow> normalizeDeserializedWorkflowStage s = s"
  by (simp add: trimmed_stage_def normalizeDeserializedWorkflowStage_def parallel_mode_def)

lemma normalize_trimmed:
  assumes "TrimSpace (pbs_ID b) \<noteq> []" "TrimSpace (pbs_Type b) \<noteq> []"
  shows "trimmed_stage (normalizeWorkflowStageDefinition b)"
proof -
  have "TrimSpace ''approver'' = ''approver''" by code_simp
  with assms show ?thesis
    by (simp add: trimmed_stage_def normalizeWorkflowStageDefinition_def parallel_mode_def Let_def)
qed

lemma complete_edges_same [simp]:
  "wsd_ID (complete_edges ss h s) = wsd_ID s" "wsd_Type (complete_edges ss h s) = wsd_Type s"
  "wsd_Label (complete_edges ss h s) = wsd_Label s" "wsd_Detail (complete_edges ss h s) = wsd_Detail s"
  by (simp_all add: complete_edges_def Let_def)

lemma complete_edges_trimmed: "trimmed_stage s \<Longrightarrow> trimmed_stage (complete_edges ss h s)"
  by (simp add: trimmed_stage_def)

lemma workflowNextStageID_in: "workflowNextStageID ss i \<noteq> [] \<Longrightarrow> workflowNextStageID ss i \<in> wsd_ID ` set ss"
  by (induction ss i rule: workflowNextStageID.induct) (auto split: if_splits)

lemma end_id_trimmed: "TrimSpace WorkflowStageEndID \<noteq> []" by code_simp

lemma complete_edges_complete:
  assumes "list_all trimmed_stage ss"
  shows "edges_complete (complete_edges ss h s)"
proof -
  have next_id: "TrimSpace (workflowNextStageID ss i) \<noteq> []" if "workflowNextStageID ss i \<noteq> []" for i
    using workflowNextStageID_in [OF that] assms that by (auto simp: list_all_iff trimmed_stage_def)
  show ?thesis
    using end_id_trimmed by (auto simp: edges_complete_def complete_edges_def Let_def next_id)
qed

lemma complete_edges_id: "edges_complete s \<Longrightarrow> complete_edges ss h s = s"
  by (auto simp: complete_edges_def edges_complete_def Let_def split: if_splits)

lemma complete_loop_id: "list_all edges_complete ss \<Longrightarrow> complete_loop us h ss = ss"
  by (induction ss arbitrary: h) (simp_all add: complete_edges_id Let_def)

lemma complete_loop_all:
  assumes "list_all trimmed_stage us" "list_all trimmed_stage ss"
  shows "list_all edges_complete (complete_loop us h ss) \<and> list_all trimmed_stage (complete_loop us h ss)"
  using assms(2)
proof (induction ss arbitrary: h)
  case (Cons s ss)
  then show ?case
    using complete_edges_complete [OF assms(1)] complete_edges_trimmed by (simp add: Let_def)
qed simp

lemma ensure_all:
  assumes "list_all trimmed_stage ss"
  shows "list_all edges_complete (ensureWorkflowStagePointers ss) \<and> list_all trimmed_stage (ensureWorkflowStagePointers ss)"
  using complete_loop_all [OF assms assms] by (simp add: ensureWorkflowStagePointers_def)

lemma ensure_id: "list_all edges_complete ss \<Longrightarrow> ensureWorkflowStagePointers ss = ss"
  by (simp add: ensureWorkflowStagePointers_def complete_loop_id)

lemma parsed_stages:
  "list_all edges_complete (ParseWorkflowStagesFromTemplate t)" "list_all trimmed_stage (ParseWorkflowStagesFromTemplate t)"
proof -
  have "list_all trimmed_stage (map normalizeWorkflowStageDefinition
      (filter (\<lambda>s. \<not> (TrimSpace (pbs_ID s) = [] \<or> TrimSpace (pbs_Type s) = [])) (platformTemplateStages (ft_Schema t))))"
    by (auto simp: list_all_iff normalize_trimmed)
  from ensure_all [OF this] show "list_all edges_complete (ParseWorkflowStagesFromTemplate t)"
    "list_all trimmed_stage (ParseWorkflowStagesFromTemplate t)"
    by (simp_all add: ParseWorkflowStagesFromTemplate_def)
qed

text \<open>
  C32.  The stages stored with a run are read back, on every later step of the run, as the stages that were
  parsed from the template when it started; every one of them has its outgoing edges.
\<close>

theorem stored_stages_roundtrip:
  "DeserializeWorkflowStages (SerializeWorkflowStages (ParseWorkflowStagesFromTemplate t)) =
     ParseWorkflowStagesFromTemplate t \<and> list_all edges_complete (ParseWorkflowStagesFromTemplate t)"
proof -
  have "map normalizeDeserializedWorkflowStage (ParseWorkflowStagesFromTemplate t) = ParseWorkflowStagesFromTemplate t"
    using parsed_stages(2) [of t] by (auto simp: list_all_iff normalizeDeserialized_trimmed intro: map_idI)
  then show ?thesis
    using parsed_stages(1) by (simp add: Deserialize_Serialize ensure_id)
qed

end
