(* ===== verification/Attendance_Store.thy ===== *)
theory Attendance_Store
  imports Attendance_Day Memory_Store
begin

text \<open>
  The attendance tables of the in-memory repository
  (\<open>src/internal/repository/memory/store.go\<close>): leave balances and their ledger entries, leave
  records and requests, overtime requests, corrections and clock records.  A transaction works on a copy of the
  store, so the operations are functions from store to store.
\<close>

section \<open>Rows\<close>

record LeaveBalance =
  lb_ID :: string
  lb_TenantID :: string
  lb_EmployeeID :: string
  lb_LeaveType :: string
  lb_LeaveTypeID :: string
  lb_EntitlementYear :: int
  lb_GrantedMinutes :: int
  lb_UsedMinutes :: int
  lb_RemainingMinutes :: int
  lb_Source :: string
  lb_SourcePayload :: params
  lb_SourceUpdatedAt :: "int option"
  lb_LastSyncedAt :: "int option"
  lb_SnapshotRemainingMinutes :: int
  lb_PendingMinutes :: int
  lb_LocalUsedMinutes :: int
  lb_UpdatedAt :: int

definition zero_LeaveBalance :: LeaveBalance where
  "zero_LeaveBalance = \<lparr>
     lb_ID = [],
     lb_TenantID = [],
     lb_EmployeeID = [],
     lb_LeaveType = [],
     lb_LeaveTypeID = [],
     lb_EntitlementYear = 0,
     lb_GrantedMinutes = 0,
     lb_UsedMinutes = 0,
     lb_RemainingMinutes = 0,
     lb_Source = [],
     lb_SourcePayload = [],
     lb_SourceUpdatedAt = None,
     lb_LastSyncedAt = None,
     lb_SnapshotRemainingMinutes = 0,
     lb_PendingMinutes = 0,
     lb_LocalUsedMinutes = 0,
     lb_UpdatedAt = 0 \<rparr>"

record LeaveBalanceEntry =
  lbe_ID :: string
  lbe_TenantID :: string
  lbe_BalanceID :: string
  lbe_LeaveRecordID :: string
  lbe_EmployeeID :: string
  lbe_LeaveTypeID :: string
  lbe_EntitlementYear :: int
  lbe_EntryType :: string
  lbe_AmountMinutes :: int
  lbe_IdempotencyKey :: string
  lbe_OccurredAt :: int
  lbe_CreatedAt :: int

definition zero_LeaveBalanceEntry :: LeaveBalanceEntry where
  "zero_LeaveBalanceEntry = \<lparr>
     lbe_ID = [],
     lbe_TenantID = [],
     lbe_BalanceID = [],
     lbe_LeaveRecordID = [],
     lbe_EmployeeID = [],
     lbe_LeaveTypeID = [],
     lbe_EntitlementYear = 0,
     lbe_EntryType = [],
     lbe_AmountMinutes = 0,
     lbe_IdempotencyKey = [],
     lbe_OccurredAt = 0,
     lbe_CreatedAt = 0 \<rparr>"

record OvertimeRequest =
  otr_ID :: string
  otr_TenantID :: string
  otr_EmployeeID :: string
  otr_WorkDate :: string
  otr_StartAt :: int
  otr_EndAt :: int
  otr_Hours :: rat
  otr_OvertimeType :: string
  otr_CompensationType :: string
  otr_Reason :: string
  otr_Status :: string
  otr_FormInstanceID :: string
  otr_CreatedAt :: int
  otr_UpdatedAt :: int
  otr_EffectStatus :: string
  otr_EffectResult :: params
  otr_EffectAppliedAt :: "int option"

definition zero_OvertimeRequest :: OvertimeRequest where
  "zero_OvertimeRequest = \<lparr>
     otr_ID = [],
     otr_TenantID = [],
     otr_EmployeeID = [],
     otr_WorkDate = [],
     otr_StartAt = 0,
     otr_EndAt = 0,
     otr_Hours = 0,
     otr_OvertimeType = [],
     otr_CompensationType = [],
     otr_Reason = [],
     otr_Status = [],
     otr_FormInstanceID = [],
     otr_CreatedAt = 0,
     otr_UpdatedAt = 0,
     otr_EffectStatus = [],
     otr_EffectResult = [],
     otr_EffectAppliedAt = None \<rparr>"

record AttendanceCorrectionRequest =
  acq_ID :: string
  acq_TenantID :: string
  acq_EmployeeID :: string
  acq_Direction :: string
  acq_RequestedClockedAt :: int
  acq_WorkDate :: string
  acq_CorrectionType :: string
  acq_TargetClockRecordID :: string
  acq_ReplacementClockRecordID :: string
  acq_Reason :: string
  acq_Status :: string
  acq_FormInstanceID :: string
  acq_ClockRecordID :: string
  acq_ReviewedByAccountID :: string
  acq_ReviewReason :: string
  acq_ReviewedAt :: "int option"
  acq_CreatedAt :: int
  acq_UpdatedAt :: int
  acq_EffectStatus :: string
  acq_EffectResult :: params
  acq_EffectAppliedAt :: "int option"

definition zero_AttendanceCorrectionRequest :: AttendanceCorrectionRequest where
  "zero_AttendanceCorrectionRequest = \<lparr>
     acq_ID = [],
     acq_TenantID = [],
     acq_EmployeeID = [],
     acq_Direction = [],
     acq_RequestedClockedAt = 0,
     acq_WorkDate = [],
     acq_CorrectionType = [],
     acq_TargetClockRecordID = [],
     acq_ReplacementClockRecordID = [],
     acq_Reason = [],
     acq_Status = [],
     acq_FormInstanceID = [],
     acq_ClockRecordID = [],
     acq_ReviewedByAccountID = [],
     acq_ReviewReason = [],
     acq_ReviewedAt = None,
     acq_CreatedAt = 0,
     acq_UpdatedAt = 0,
     acq_EffectStatus = [],
     acq_EffectResult = [],
     acq_EffectAppliedAt = None \<rparr>"

record AttendanceClockRecordQuery =
  crq_EmployeeID :: string
  crq_EmployeeIDs :: "string list"
  crq_FromDate :: string
  crq_ToDate :: string
  crq_Direction :: string
  crq_RecordStatus :: string
  crq_Source :: string

definition zero_AttendanceClockRecordQuery :: AttendanceClockRecordQuery where
  "zero_AttendanceClockRecordQuery = \<lparr>
     crq_EmployeeID = [],
     crq_EmployeeIDs = [],
     crq_FromDate = [],
     crq_ToDate = [],
     crq_Direction = [],
     crq_RecordStatus = [],
     crq_Source = [] \<rparr>"


record att_store =
  att_leaveBalances :: "LeaveBalance table"
  att_leaveBalanceEntries :: "LeaveBalanceEntry table"
  att_leaveRecords :: "LeaveRecord table"
  att_leaveRequests :: "LeaveRequest table"
  att_overtimeRequests :: "OvertimeRequest table"
  att_corrections :: "AttendanceCorrectionRequest table"
  att_clockRecords :: "AttendanceClockRecord table"

definition empty_att :: att_store where
  "empty_att = \<lparr> att_leaveBalances = [], att_leaveBalanceEntries = [], att_leaveRecords = [], att_leaveRequests = [],
     att_overtimeRequests = [], att_corrections = [], att_clockRecords = [] \<rparr>"

abbreviation rows :: "'a table \<Rightarrow> string \<Rightarrow> 'a list" where
  "rows t tenantID \<equiv> copyNestedValues (bucket t tenantID)"

definition StableLeaveTypeID :: "string \<Rightarrow> string" where
  "StableLeaveTypeID code = (let code = ToLower (TrimSpace code) in if code = [] then [] else code)"

definition utc_year :: "int \<Rightarrow> int" where
  "utc_year t = fst (civil_from_days (t div day_len))"

definition business_year :: "int \<Rightarrow> int" where
  "business_year t = fst (civil_from_days (local_day t))"

section \<open>Leave balances\<close>

definition same_balance :: "LeaveBalance \<Rightarrow> LeaveBalance \<Rightarrow> bool" where
  "same_balance v existing \<longleftrightarrow> lb_EmployeeID existing = lb_EmployeeID v \<and> lb_LeaveTypeID existing = lb_LeaveTypeID v \<and>
     lb_EntitlementYear existing = lb_EntitlementYear v"

definition UpsertLeaveBalance :: "att_store \<Rightarrow> LeaveBalance \<Rightarrow> att_store" where
  "UpsertLeaveBalance s v =
     (let v = v\<lparr>lb_LeaveType := ToLower (TrimSpace (lb_LeaveType v)), lb_LeaveTypeID := TrimSpace (lb_LeaveTypeID v)\<rparr>;
          v = (if TrimSpace (lb_LeaveTypeID v) = [] then v\<lparr>lb_LeaveTypeID := StableLeaveTypeID (lb_LeaveType v)\<rparr> else v);
          v = (if TrimSpace (lb_Source v) = [] then v\<lparr>lb_Source := ''nexus''\<rparr> else v);
          v = (if lb_EntitlementYear v = 0 then v\<lparr>lb_EntitlementYear := utc_year (lb_UpdatedAt v)\<rparr> else v);
          v = (case find (\<lambda>e. same_balance v (snd e) \<and> fst e \<noteq> lb_ID v) (bucket (att_leaveBalances s) (lb_TenantID v)) of
                 Some e \<Rightarrow> v\<lparr>lb_ID := lb_ID (snd e)\<rparr> | None \<Rightarrow> v)
      in s\<lparr>att_leaveBalances := putNested (att_leaveBalances s) (lb_TenantID v) (lb_ID v) v\<rparr>)"

definition ensureLocalLeaveBalanceAnchorLocked :: "att_store \<Rightarrow> LeaveBalance \<Rightarrow> att_store" where
  "ensureLocalLeaveBalanceAnchorLocked s v =
     (if list_ex (same_balance v) (rows (att_leaveBalances s) (lb_TenantID v)) then s
      else let v = v\<lparr>lb_Source := ''nexus'', lb_RemainingMinutes := 0, lb_SnapshotRemainingMinutes := 0,
                     lb_GrantedMinutes := 0, lb_UsedMinutes := 0\<rparr>
           in s\<lparr>att_leaveBalances := putNested (att_leaveBalances s) (lb_TenantID v) (lb_ID v) v\<rparr>)"

definition EnsureLocalLeaveBalanceAnchor :: "att_store \<Rightarrow> LeaveBalance \<Rightarrow> (LeaveBalance \<times> att_store) res" where
  "EnsureLocalLeaveBalanceAnchor s v =
     (let v = v\<lparr>lb_LeaveType := ToLower (TrimSpace (lb_LeaveType v)), lb_LeaveTypeID := TrimSpace (lb_LeaveTypeID v)\<rparr>;
          v = (if lb_LeaveTypeID v = [] then v\<lparr>lb_LeaveTypeID := StableLeaveTypeID (lb_LeaveType v)\<rparr> else v);
          v = (if lb_EntitlementYear v = 0 then v\<lparr>lb_EntitlementYear := utc_year (lb_UpdatedAt v)\<rparr> else v);
          s = ensureLocalLeaveBalanceAnchorLocked s v
      in case find (same_balance v) (rows (att_leaveBalances s) (lb_TenantID v)) of
           Some existing \<Rightarrow> Inr (existing, s)
         | None \<Rightarrow> Inl (AppErr (NotFound ''local leave balance anchor'' (lb_ID v))))"

definition GetLeaveBalance :: "att_store \<Rightarrow> string \<Rightarrow> string \<Rightarrow> LeaveBalance option" where
  "GetLeaveBalance s tenantID ident = getNested (att_leaveBalances s) tenantID ident"

definition leaveBalancesForOverlayLocked :: "att_store \<Rightarrow> string \<Rightarrow> string \<Rightarrow> string \<Rightarrow> int \<Rightarrow> LeaveBalance list" where
  "leaveBalancesForOverlayLocked s tenantID employeeID leaveTypeID asOf =
     sort_key lb_ID (filter (\<lambda>item. \<not> (lb_EmployeeID item \<noteq> employeeID \<or> lb_LeaveTypeID item \<noteq> leaveTypeID \<or>
       lb_EntitlementYear item \<noteq> business_year asOf)) (rows (att_leaveBalances s) tenantID))"

definition GetLeaveBalanceForOverlay :: "att_store \<Rightarrow> string \<Rightarrow> string \<Rightarrow> string \<Rightarrow> int \<Rightarrow> LeaveBalance option" where
  "GetLeaveBalanceForOverlay s tenantID employeeID leaveTypeID asOf =
     (case leaveBalancesForOverlayLocked s tenantID employeeID leaveTypeID asOf of [] \<Rightarrow> None | b # _ \<Rightarrow> Some b)"

definition ListLeaveBalancesForOverlay :: "att_store \<Rightarrow> string \<Rightarrow> string \<Rightarrow> string \<Rightarrow> int \<Rightarrow> LeaveBalance list" where
  "ListLeaveBalancesForOverlay s tenantID employeeID leaveTypeID asOf =
     leaveBalancesForOverlayLocked s tenantID employeeID leaveTypeID asOf"

definition ListLeaveBalances :: "att_store \<Rightarrow> string \<Rightarrow> LeaveBalance list" where
  "ListLeaveBalances s tenantID = sort_key lb_UpdatedAt (rows (att_leaveBalances s) tenantID)"

section \<open>Ledger entries\<close>

text \<open>An entry whose idempotency key is known is not written again.\<close>

definition AppendLeaveBalanceEntry :: "att_store \<Rightarrow> LeaveBalanceEntry \<Rightarrow> bool \<times> att_store" where
  "AppendLeaveBalanceEntry s v =
     (if list_ex (\<lambda>e. lbe_IdempotencyKey e = lbe_IdempotencyKey v) (rows (att_leaveBalanceEntries s) (lbe_TenantID v))
      then (False, s)
      else (True, s\<lparr>att_leaveBalanceEntries := putNested (att_leaveBalanceEntries s) (lbe_TenantID v) (lbe_ID v) v\<rparr>))"

definition AppendStandaloneLeaveBalanceEntry :: "att_store \<Rightarrow> LeaveBalanceEntry \<Rightarrow> bool \<times> att_store" where
  "AppendStandaloneLeaveBalanceEntry s v =
     (if list_ex (\<lambda>e. lbe_IdempotencyKey e = lbe_IdempotencyKey v) (rows (att_leaveBalanceEntries s) (lbe_TenantID v))
      then (False, s)
      else (True, s\<lparr>att_leaveBalanceEntries := putNested (att_leaveBalanceEntries s) (lbe_TenantID v) (lbe_ID v) v\<rparr>))"

definition entry_less :: "LeaveBalanceEntry \<Rightarrow> LeaveBalanceEntry \<Rightarrow> bool" where
  "entry_less a b = (if lbe_OccurredAt a = lbe_OccurredAt b then lbe_ID a < lbe_ID b else lbe_OccurredAt a < lbe_OccurredAt b)"

definition ListLeaveBalanceEntries :: "att_store \<Rightarrow> string \<Rightarrow> LeaveBalanceEntry list" where
  "ListLeaveBalanceEntries s tenantID = sort_less entry_less (rows (att_leaveBalanceEntries s) tenantID)"

definition ListLeaveBalanceEntriesByBalance :: "att_store \<Rightarrow> string \<Rightarrow> string \<Rightarrow> LeaveBalanceEntry list" where
  "ListLeaveBalanceEntriesByBalance s tenantID balanceID =
     sort_less entry_less (filter (\<lambda>e. lbe_BalanceID e = balanceID) (rows (att_leaveBalanceEntries s) tenantID))"

section \<open>Leave requests and records\<close>

definition UpsertLeaveRequest :: "att_store \<Rightarrow> LeaveRequest \<Rightarrow> att_store" where
  "UpsertLeaveRequest s v =
     (let v = (if TrimSpace (lr_LeaveTypeID v) = [] then v\<lparr>lr_LeaveTypeID := StableLeaveTypeID (lr_LeaveType v)\<rparr> else v);
          v = (if TrimSpace (lr_ReconciliationStatus v) = [] then v\<lparr>lr_ReconciliationStatus := ''not_required''\<rparr> else v);
          v = (if lr_UpdatedAt v = 0 then v\<lparr>lr_UpdatedAt := lr_CreatedAt v\<rparr> else v)
      in s\<lparr>att_leaveRequests := putNested (att_leaveRequests s) (lr_TenantID v) (lr_ID v) v\<rparr>)"

definition UpsertLeaveRecord :: "att_store \<Rightarrow> LeaveRecord \<Rightarrow> att_store" where
  "UpsertLeaveRecord s v =
     (let v = (if TrimSpace (lrec_BalanceMatchStatus v) = []
               then v\<lparr>lrec_BalanceMatchStatus := (if TrimSpace (lrec_BalanceID v) \<noteq> [] then ''matched'' else ''unmatched'')\<rparr>
               else v)
      in s\<lparr>att_leaveRecords := putNested (att_leaveRecords s) (lrec_TenantID v) (lrec_ID v) v\<rparr>)"

definition GetLeaveRecord :: "att_store \<Rightarrow> string \<Rightarrow> string \<Rightarrow> LeaveRecord option" where
  "GetLeaveRecord s tenantID ident = getNested (att_leaveRecords s) tenantID ident"

definition record_less :: "LeaveRecord \<Rightarrow> LeaveRecord \<Rightarrow> bool" where
  "record_less a b = (if lrec_EventDate a = lrec_EventDate b then lrec_ID a < lrec_ID b else lrec_EventDate a < lrec_EventDate b)"

definition ListLeaveRecords :: "att_store \<Rightarrow> string \<Rightarrow> LeaveRecord list" where
  "ListLeaveRecords s tenantID = sort_less record_less (rows (att_leaveRecords s) tenantID)"

definition start_less :: "LeaveRecord \<Rightarrow> LeaveRecord \<Rightarrow> bool" where
  "start_less a b = (if lrec_StartAt a = lrec_StartAt b then lrec_ID a < lrec_ID b else lrec_StartAt a < lrec_StartAt b)"

definition ListActiveLeaveRecordsByQuery :: "att_store \<Rightarrow> string \<Rightarrow> string list \<Rightarrow> int \<Rightarrow> int \<Rightarrow> LeaveRecord list" where
  "ListActiveLeaveRecordsByQuery s tenantID employeeIDs fromAt toAt =
     sort_less start_less (filter (\<lambda>item.
       if lrec_Status item \<noteq> ''active'' \<or> lrec_DeletedAt item \<noteq> None \<or> \<not> lrec_StartAt item < toAt \<or> \<not> fromAt < lrec_EndAt item
       then False
       else if employeeIDs \<noteq> [] \<and> lrec_EmployeeID item \<notin> set employeeIDs then False
       else if lrec_Source item = ''ehrms'' \<and> lrec_MatchedRecordID item \<noteq> [] then False
       else True) (rows (att_leaveRecords s) tenantID))"

definition GetLeaveRequest :: "att_store \<Rightarrow> string \<Rightarrow> string \<Rightarrow> LeaveRequest option" where
  "GetLeaveRequest s tenantID ident = getNested (att_leaveRequests s) tenantID ident"

definition GetLeaveRequestByFormInstanceID :: "att_store \<Rightarrow> string \<Rightarrow> string \<Rightarrow> LeaveRequest option" where
  "GetLeaveRequestByFormInstanceID s tenantID formInstanceID =
     find (\<lambda>item. lr_FormInstanceID item = formInstanceID) (rows (att_leaveRequests s) tenantID)"

definition ListLeaveRequests :: "att_store \<Rightarrow> string \<Rightarrow> LeaveRequest list" where
  "ListLeaveRequests s tenantID = sort_key lr_CreatedAt (rows (att_leaveRequests s) tenantID)"

section \<open>Overtime\<close>

definition UpsertOvertimeRequest :: "att_store \<Rightarrow> OvertimeRequest \<Rightarrow> att_store" where
  "UpsertOvertimeRequest s v =
     s\<lparr>att_overtimeRequests := putNested (att_overtimeRequests s) (otr_TenantID v) (otr_ID v) v\<rparr>"

definition GetOvertimeRequest :: "att_store \<Rightarrow> string \<Rightarrow> string \<Rightarrow> OvertimeRequest option" where
  "GetOvertimeRequest s tenantID ident = getNested (att_overtimeRequests s) tenantID ident"

definition GetOvertimeRequestByFormInstanceID :: "att_store \<Rightarrow> string \<Rightarrow> string \<Rightarrow> OvertimeRequest option" where
  "GetOvertimeRequestByFormInstanceID s tenantID formInstanceID =
     find (\<lambda>item. otr_FormInstanceID item = formInstanceID) (rows (att_overtimeRequests s) tenantID)"

section \<open>Corrections\<close>

definition UpsertAttendanceCorrectionRequest :: "att_store \<Rightarrow> AttendanceCorrectionRequest \<Rightarrow> att_store" where
  "UpsertAttendanceCorrectionRequest s v =
     (let v = (if TrimSpace (acq_CorrectionType v) = [] then v\<lparr>acq_CorrectionType := ''add_record''\<rparr> else v)
      in s\<lparr>att_corrections := putNested (att_corrections s) (acq_TenantID v) (acq_ID v) v\<rparr>)"

definition GetAttendanceCorrectionRequest :: "att_store \<Rightarrow> string \<Rightarrow> string \<Rightarrow> AttendanceCorrectionRequest option" where
  "GetAttendanceCorrectionRequest s tenantID ident = getNested (att_corrections s) tenantID ident"

definition GetAttendanceCorrectionRequestForUpdate :: "att_store \<Rightarrow> string \<Rightarrow> string \<Rightarrow> AttendanceCorrectionRequest option" where
  "GetAttendanceCorrectionRequestForUpdate s tenantID ident = GetAttendanceCorrectionRequest s tenantID ident"

definition ClaimAttendanceCorrectionReview :: "att_store \<Rightarrow> string \<Rightarrow> string \<Rightarrow> string \<Rightarrow> int \<Rightarrow>
    (AttendanceCorrectionRequest \<times> bool) \<times> att_store" where
  "ClaimAttendanceCorrectionReview s tenantID formInstanceID reviewerID claimedAt =
     (case find (\<lambda>e. acq_FormInstanceID (snd e) = formInstanceID) (bucket (att_corrections s) tenantID) of
        None \<Rightarrow> ((zero_AttendanceCorrectionRequest, False), s)
      | Some (key, item) \<Rightarrow>
          if acq_Status item \<noteq> ''pending'' then ((item, False), s)
          else let item = item\<lparr>acq_Status := ''reviewing'', acq_ReviewedByAccountID := reviewerID, acq_UpdatedAt := claimedAt\<rparr>
               in ((item, True), s\<lparr>att_corrections := putNested (att_corrections s) tenantID key item\<rparr>))"

definition GetAttendanceCorrectionRequestByFormInstanceID :: "att_store \<Rightarrow> string \<Rightarrow> string \<Rightarrow> AttendanceCorrectionRequest option" where
  "GetAttendanceCorrectionRequestByFormInstanceID s tenantID formInstanceID =
     find (\<lambda>item. acq_FormInstanceID item = formInstanceID) (rows (att_corrections s) tenantID)"

section \<open>Clock records\<close>

definition UpsertAttendanceClockRecord :: "att_store \<Rightarrow> AttendanceClockRecord \<Rightarrow> att_store res" where
  "UpsertAttendanceClockRecord s v =
     (if TrimSpace (acr_ClientEventID v) \<noteq> [] \<and>
         list_ex (\<lambda>item. acr_ID item \<noteq> acr_ID v \<and> acr_ClientEventID item = acr_ClientEventID v) (rows (att_clockRecords s) (acr_TenantID v))
      then Inl (AppErr (Conflict ''attendance clock client event already exists''))
      else Inr (s\<lparr>att_clockRecords := putNested (att_clockRecords s) (acr_TenantID v) (acr_ID v) v\<rparr>))"

definition GetAttendanceClockRecordByClientEventID :: "att_store \<Rightarrow> string \<Rightarrow> string \<Rightarrow> AttendanceClockRecord option" where
  "GetAttendanceClockRecordByClientEventID s tenantID clientEventID =
     find (\<lambda>item. clientEventID \<noteq> [] \<and> acr_ClientEventID item = clientEventID) (rows (att_clockRecords s) tenantID)"

definition attendanceClockRecordComesBefore :: "AttendanceClockRecord \<Rightarrow> AttendanceClockRecord \<Rightarrow> bool" where
  "attendanceClockRecordComesBefore left right =
     (if acr_ClockedAt left \<noteq> acr_ClockedAt right then acr_ClockedAt left < acr_ClockedAt right
      else if acr_CreatedAt left \<noteq> acr_CreatedAt right then acr_CreatedAt left < acr_CreatedAt right
      else acr_ID left < acr_ID right)"

definition boundary_step :: "bool \<Rightarrow> AttendanceClockRecord \<Rightarrow> AttendanceClockRecord option \<Rightarrow> AttendanceClockRecord option" where
  "boundary_step latest item found =
     (case found of None \<Rightarrow> Some item
      | Some b \<Rightarrow> if attendanceClockRecordComesBefore item b \<noteq> latest then Some item else found)"

definition accepted_punch :: "string \<Rightarrow> string \<Rightarrow> string \<Rightarrow> AttendanceClockRecord \<Rightarrow> bool" where
  "accepted_punch employeeID workDate direction item \<longleftrightarrow>
     \<not> (acr_EmployeeID item \<noteq> employeeID \<or> acr_WorkDate item \<noteq> workDate \<or> acr_RecordStatus item \<noteq> ''accepted'' \<or> acr_Voided item) \<and>
     \<not> (direction \<noteq> [] \<and> acr_Direction item \<noteq> direction)"

definition getAcceptedAttendanceClockBoundary :: "att_store \<Rightarrow> string \<Rightarrow> string \<Rightarrow> string \<Rightarrow> string \<Rightarrow> bool \<Rightarrow>
    AttendanceClockRecord option" where
  "getAcceptedAttendanceClockBoundary s tenantID employeeID workDate direction latest =
     fold (boundary_step latest) (filter (accepted_punch employeeID workDate direction) (rows (att_clockRecords s) tenantID)) None"

definition GetEarliestAcceptedAttendanceClockIn :: "att_store \<Rightarrow> string \<Rightarrow> string \<Rightarrow> string \<Rightarrow> AttendanceClockRecord option" where
  "GetEarliestAcceptedAttendanceClockIn s tenantID employeeID workDate =
     getAcceptedAttendanceClockBoundary s tenantID employeeID workDate ''clock_in'' False"

definition GetLatestAcceptedAttendanceClockOut :: "att_store \<Rightarrow> string \<Rightarrow> string \<Rightarrow> string \<Rightarrow> AttendanceClockRecord option" where
  "GetLatestAcceptedAttendanceClockOut s tenantID employeeID workDate =
     getAcceptedAttendanceClockBoundary s tenantID employeeID workDate ''clock_out'' True"

definition GetLatestAcceptedAttendanceClockRecord :: "att_store \<Rightarrow> string \<Rightarrow> string \<Rightarrow> string \<Rightarrow> AttendanceClockRecord option" where
  "GetLatestAcceptedAttendanceClockRecord s tenantID employeeID workDate =
     getAcceptedAttendanceClockBoundary s tenantID employeeID workDate [] True"

definition memoryClockRecordMatches :: "AttendanceClockRecord \<Rightarrow> AttendanceClockRecordQuery \<Rightarrow> bool" where
  "memoryClockRecordMatches item query =
     (if crq_EmployeeID query \<noteq> [] \<and> acr_EmployeeID item \<noteq> crq_EmployeeID query then False
      else if crq_EmployeeIDs query \<noteq> [] \<and> acr_EmployeeID item \<notin> memoryStringSet (crq_EmployeeIDs query) then False
      else if crq_FromDate query \<noteq> [] \<and> acr_WorkDate item < crq_FromDate query then False
      else if crq_ToDate query \<noteq> [] \<and> crq_ToDate query < acr_WorkDate item then False
      else if crq_Direction query \<noteq> [] \<and> acr_Direction item \<noteq> crq_Direction query then False
      else if crq_RecordStatus query \<noteq> [] \<and> acr_RecordStatus item \<noteq> crq_RecordStatus query then False
      else if crq_Source query \<noteq> [] \<and> acr_Source item \<noteq> crq_Source query then False
      else True)"

definition clocked_later :: "AttendanceClockRecord \<Rightarrow> AttendanceClockRecord \<Rightarrow> bool" where
  "clocked_later a b \<longleftrightarrow> acr_ClockedAt b < acr_ClockedAt a"

definition ListAttendanceClockRecords :: "att_store \<Rightarrow> string \<Rightarrow> AttendanceClockRecordQuery \<Rightarrow> AttendanceClockRecord list" where
  "ListAttendanceClockRecords s tenantID query =
     sort_less clocked_later (filter (\<lambda>item. memoryClockRecordMatches item query) (rows (att_clockRecords s) tenantID))"

section \<open>What the searches return\<close>

lemma getNested_bucket: "getNested t n i = map_of (bucket t n) i"
  by (auto simp: getNested_def bucket_def split: option.split)

lemma bucket_putNested [simp]:
  "bucket (putNested t n i v) n' = (if n' = n then map_put i v (bucket t n) else bucket t n')"
  by (auto simp: putNested_def bucket_def Let_def split: option.split)

lemma rows_putNested_other [simp]: "n' \<noteq> n \<Longrightarrow> rows (putNested t n i v) n' = rows t n'"
  by simp

lemma fold_boundary_None: "fold (boundary_step latest) items None = None \<longleftrightarrow> items = []"
proof -
  have found: "fold (boundary_step latest) items (Some b) \<noteq> None" for items b
    by (induction items arbitrary: b) (auto simp: boundary_step_def)
  have "boundary_step latest a None = Some a" for a by (simp add: boundary_step_def)
  then show ?thesis using found by (cases items) simp_all
qed

lemma fold_boundary_in:
  "fold (boundary_step latest) items b = Some r \<Longrightarrow> b = Some r \<or> r \<in> set items"
  by (induction items arbitrary: b) (auto simp: boundary_step_def split: option.splits if_splits)

lemma no_accepted_clock_in:
  "GetEarliestAcceptedAttendanceClockIn s n e d = None \<longleftrightarrow>
     (\<forall>r \<in> set (rows (att_clockRecords s) n). \<not> accepted_punch e d ''clock_in'' r)"
  by (auto simp: GetEarliestAcceptedAttendanceClockIn_def getAcceptedAttendanceClockBoundary_def fold_boundary_None filter_empty_conv)

end
