(* ===== verification/Workflow_Store.thy ===== *)
theory Workflow_Store
  imports Workflow_Stages Attendance_Store Pagination
begin

text \<open>
  The workflow tables of the in-memory repository (\<open>src/internal/repository/memory/store.go\<close>): form
  templates and their immutable versions, form instances with optimistic locking, runs, stage instances,
  assignees, actions, and notifications.  Fresh ids and the time are arguments.
\<close>

record wf_store =
  wfs_formTemplates :: "FormTemplate table"
  wfs_formTemplateVersions :: "FormTemplateVersion table"
  wfs_formInstances :: "FormInstance table"
  wfs_runs :: "WorkflowRun table"
  wfs_stageInstances :: "WorkflowStageInstance table"
  wfs_stageAssignees :: "WorkflowStageAssignee table"
  wfs_actions :: "(string, WorkflowAction list) gomap"
  wfs_notifications :: "Notification table"
  wfs_recipients :: "NotificationRecipient table"

definition empty_wf :: wf_store where
  "empty_wf = \<lparr> wfs_formTemplates = [], wfs_formTemplateVersions = [], wfs_formInstances = [], wfs_runs = [],
     wfs_stageInstances = [], wfs_stageAssignees = [], wfs_actions = [], wfs_notifications = [], wfs_recipients = [] \<rparr>"

section \<open>Templates\<close>

definition formTemplateVersionStatus :: "FormTemplate \<Rightarrow> string" where
  "formTemplateVersionStatus template =
     (if ft_Status template = ''archived'' then ''archived''
      else if ft_Status template = ''published'' \<and> ft_PublishedVersion template = ft_CurrentVersion template
      then ''published'' else ''draft'')"

definition version_key :: "string \<Rightarrow> int \<Rightarrow> string" where
  "version_key templateID version = templateID @ '':'' @ int_string version"

definition UpsertFormTemplate :: "int \<Rightarrow> string \<Rightarrow> wf_store \<Rightarrow> FormTemplate \<Rightarrow> wf_store" where
  "UpsertFormTemplate now freshID s v =
     (let v = (if TrimSpace (ft_Status v) = [] then v\<lparr>ft_Status := ''published''\<rparr> else v);
          v = (if ft_CurrentVersion v \<le> 0 then v\<lparr>ft_CurrentVersion := 1\<rparr> else v);
          v = (if ft_Status v = ''published'' then v\<lparr>ft_PublishedVersion := ft_CurrentVersion v\<rparr> else v);
          v = (if ft_CreatedAt v = 0 then v\<lparr>ft_CreatedAt := now\<rparr> else v);
          v = (if ft_UpdatedAt v = 0 then v\<lparr>ft_UpdatedAt := ft_CreatedAt v\<rparr> else v);
          s = s\<lparr>wfs_formTemplates := putNested (wfs_formTemplates s) (ft_TenantID v) (ft_ID v) v\<rparr>;
          key = version_key (ft_ID v) (ft_CurrentVersion v); status = formTemplateVersionStatus v
      in case getNested (wfs_formTemplateVersions s) (ft_TenantID v) key of
           None \<Rightarrow>
             let version = zero_FormTemplateVersion\<lparr>ftv_ID := freshID, ftv_TenantID := ft_TenantID v, ftv_TemplateID := ft_ID v,
                   ftv_Version := ft_CurrentVersion v, ftv_Schema := CopyStringMap (ft_Schema v), ftv_Status := status,
                   ftv_CreatedAt := ft_UpdatedAt v\<rparr>;
                 version = (if status = ''published'' then version\<lparr>ftv_PublishedAt := Some (ft_UpdatedAt v)\<rparr> else version)
             in s\<lparr>wfs_formTemplateVersions := putNested (wfs_formTemplateVersions s) (ft_TenantID v) key version\<rparr>
         | Some existing \<Rightarrow>
             if status = ''published'' \<and> ftv_Status existing \<noteq> ''published''
             then s\<lparr>wfs_formTemplateVersions := putNested (wfs_formTemplateVersions s) (ft_TenantID v) key
                      (existing\<lparr>ftv_Status := ''published'', ftv_PublishedAt := Some (ft_UpdatedAt v)\<rparr>)\<rparr>
             else s)"

definition GetFormTemplate :: "wf_store \<Rightarrow> string \<Rightarrow> string \<Rightarrow> FormTemplate option" where
  "GetFormTemplate s tenantID ident = getNested (wfs_formTemplates s) tenantID ident"

definition GetFormTemplateForUpdate :: "wf_store \<Rightarrow> string \<Rightarrow> string \<Rightarrow> FormTemplate option" where
  "GetFormTemplateForUpdate s tenantID ident = GetFormTemplate s tenantID ident"

definition GetFormTemplateByKey :: "wf_store \<Rightarrow> string \<Rightarrow> string \<Rightarrow> FormTemplate option" where
  "GetFormTemplateByKey s tenantID key = find (\<lambda>v. ft_Key v = key) (rows (wfs_formTemplates s) tenantID)"

definition GetFormTemplateByKeyForUpdate :: "wf_store \<Rightarrow> string \<Rightarrow> string \<Rightarrow> FormTemplate option" where
  "GetFormTemplateByKeyForUpdate s tenantID key = GetFormTemplateByKey s tenantID key"

definition ListFormTemplates :: "wf_store \<Rightarrow> string \<Rightarrow> FormTemplate list" where
  "ListFormTemplates s tenantID = sort_key ft_CreatedAt (rows (wfs_formTemplates s) tenantID)"

definition InsertFormTemplateVersion :: "wf_store \<Rightarrow> FormTemplateVersion \<Rightarrow> wf_store" where
  "InsertFormTemplateVersion s v =
     (let key = version_key (ftv_TemplateID v) (ftv_Version v) in
      case getNested (wfs_formTemplateVersions s) (ftv_TenantID v) key of
        Some existing \<Rightarrow>
          if ftv_Status v = ''published'' \<and> ftv_Status existing \<noteq> ''published''
          then let existing = existing\<lparr>ftv_Status := ''published''\<rparr>;
                   existing = (if ftv_PublishedAt existing = None then existing\<lparr>ftv_PublishedAt := ftv_PublishedAt v\<rparr> else existing)
               in s\<lparr>wfs_formTemplateVersions := putNested (wfs_formTemplateVersions s) (ftv_TenantID v) key existing\<rparr>
          else s
      | None \<Rightarrow> s\<lparr>wfs_formTemplateVersions := putNested (wfs_formTemplateVersions s) (ftv_TenantID v) key v\<rparr>)"

definition GetFormTemplateVersion :: "wf_store \<Rightarrow> string \<Rightarrow> string \<Rightarrow> FormTemplateVersion option" where
  "GetFormTemplateVersion s tenantID ident = find (\<lambda>v. ftv_ID v = ident) (rows (wfs_formTemplateVersions s) tenantID)"

definition GetFormTemplateVersionByNumber :: "wf_store \<Rightarrow> string \<Rightarrow> string \<Rightarrow> int \<Rightarrow> FormTemplateVersion option" where
  "GetFormTemplateVersionByNumber s tenantID templateID version =
     getNested (wfs_formTemplateVersions s) tenantID (version_key templateID version)"

section \<open>Form instances\<close>

definition UpsertFormInstance :: "wf_store \<Rightarrow> FormInstance \<Rightarrow> wf_store res" where
  "UpsertFormInstance s v =
     bindR (if TrimSpace (fi_TemplateVersionID v) = [] then
              case getNested (wfs_formTemplates s) (fi_TenantID v) (fi_TemplateID v) of
                None \<Rightarrow> Inr v
              | Some template \<Rightarrow>
                  let n = (if ft_PublishedVersion template \<le> 0 then ft_CurrentVersion template else ft_PublishedVersion template)
                  in case getNested (wfs_formTemplateVersions s) (fi_TenantID v) (version_key (fi_TemplateID v) n) of
                       None \<Rightarrow> Inl (PlainErr (''form template version '' @ fi_TemplateID v @ '':'' @ int_string n @ '' not found''))
                     | Some version \<Rightarrow> Inr (v\<lparr>fi_TemplateVersionID := ftv_ID version\<rparr>)
            else Inr v) (\<lambda>v.
     case getNested (wfs_formInstances s) (fi_TenantID v) (fi_ID v) of
       Some existing \<Rightarrow>
         if fi_Version v > 0 \<and> fi_Version existing \<noteq> fi_Version v
         then Inl (AppErr (Conflict ''form instance was modified concurrently''))
         else Inr (s\<lparr>wfs_formInstances := putNested (wfs_formInstances s) (fi_TenantID v) (fi_ID v)
                      (v\<lparr>fi_Version := fi_Version existing + 1\<rparr>)\<rparr>)
     | None \<Rightarrow> Inr (s\<lparr>wfs_formInstances := putNested (wfs_formInstances s) (fi_TenantID v) (fi_ID v)
                      (v\<lparr>fi_Version := 1\<rparr>)\<rparr>))"

definition GetFormInstance :: "wf_store \<Rightarrow> string \<Rightarrow> string \<Rightarrow> FormInstance option" where
  "GetFormInstance s tenantID ident = getNested (wfs_formInstances s) tenantID ident"

definition ListFormInstances :: "wf_store \<Rightarrow> string \<Rightarrow> FormInstance list" where
  "ListFormInstances s tenantID = sort_key fi_SubmittedAt (rows (wfs_formInstances s) tenantID)"

record FormInstanceQuery =
  fiq_Status :: string
  fiq_TemplateID :: string
  fiq_TemplateKey :: string
  fiq_ApplicantAccountID :: string
  fiq_Search :: string
  fiq_Mine :: bool

definition zero_FormInstanceQuery :: FormInstanceQuery where
  "zero_FormInstanceQuery = \<lparr>
     fiq_Status = [],
     fiq_TemplateID = [],
     fiq_TemplateKey = [],
     fiq_ApplicantAccountID = [],
     fiq_Search = [],
     fiq_Mine = False \<rparr>"


definition memoryFormInstanceMatches :: "FormInstance \<Rightarrow> string \<Rightarrow> string \<Rightarrow> string \<Rightarrow> FormInstanceQuery \<Rightarrow> bool" where
  "memoryFormInstanceMatches item templateKey templateName applicantName query =
     (let search = ToLower (TrimSpace (fiq_Search query)) in
      if TrimSpace (fiq_Status query) \<noteq> [] \<and> fi_Status item \<noteq> TrimSpace (fiq_Status query) then False
      else if TrimSpace (fiq_TemplateID query) \<noteq> [] \<and> fi_TemplateID item \<noteq> TrimSpace (fiq_TemplateID query) then False
      else if TrimSpace (fiq_TemplateKey query) \<noteq> [] \<and> templateKey \<noteq> TrimSpace (fiq_TemplateKey query) then False
      else if TrimSpace (fiq_ApplicantAccountID query) \<noteq> [] \<and>
              fi_ApplicantAccountID item \<noteq> TrimSpace (fiq_ApplicantAccountID query) then False
      else if search \<noteq> [] then
        list_ex (\<lambda>f. strings_Contains (ToLower f) search) [templateKey, templateName, applicantName] \<or>
        list_ex (\<lambda>e. strings_Contains (ToLower (Sprint (snd e))) search) (fi_Payload item)
      else True)"

definition name_of :: "('a \<Rightarrow> string) \<Rightarrow> ('a \<Rightarrow> string) \<Rightarrow> 'a list \<Rightarrow> string \<Rightarrow> string" where
  "name_of ident text items i = (case map_of (rev (map (\<lambda>x. (ident x, text x)) items)) i of Some t \<Rightarrow> t | None \<Rightarrow> [])"

definition ListFormInstancesByQuery :: "mem_store \<Rightarrow> wf_store \<Rightarrow> string \<Rightarrow> FormInstanceQuery \<Rightarrow> FormInstance list" where
  "ListFormInstancesByQuery m s tenantID query =
     (let search = TrimSpace (fiq_Search query);
          templates = (if TrimSpace (fiq_TemplateKey query) \<noteq> [] \<or> search \<noteq> [] then ListFormTemplates s tenantID else []);
          accounts = (if search \<noteq> [] then ListAccounts m tenantID else [])
      in filter (\<lambda>item. memoryFormInstanceMatches item (name_of ft_ID ft_Key templates (fi_TemplateID item))
             (name_of ft_ID ft_Name templates (fi_TemplateID item))
             (name_of acc_ID acc_DisplayName accounts (fi_ApplicantAccountID item)) query)
           (ListFormInstances s tenantID))"

definition submitted_less :: "bool \<Rightarrow> FormInstance \<Rightarrow> FormInstance \<Rightarrow> bool" where
  "submitted_less ascending a b =
     (if ascending then fi_SubmittedAt a < fi_SubmittedAt b else fi_SubmittedAt b < fi_SubmittedAt a)"

definition ListFormInstancePageByQuery :: "mem_store \<Rightarrow> wf_store \<Rightarrow> string \<Rightarrow> FormInstanceQuery \<Rightarrow> PageRequest \<Rightarrow> (FormInstance list \<times> int) option" where
  "ListFormInstancePageByQuery m s tenantID query page =
     (let items = sort_less (submitted_less (pr_Sort page = ''submitted_at_asc'')) (ListFormInstancesByQuery m s tenantID query);
          page = NormalizePageRequest page
      in case paginateMemory items (pr_Page page) (pr_PageSize page) of
           None \<Rightarrow> None | Some shown \<Rightarrow> Some (shown, int (length items)))"

section \<open>Runs\<close>

definition FormApprovalWorkflowID :: "string \<Rightarrow> string \<Rightarrow> string" where
  "FormApprovalWorkflowID tenantID formInstanceID = TrimSpace tenantID @ '':'' @ TrimSpace formInstanceID"

definition FormApprovalWorkflowIDForRun :: "string \<Rightarrow> string \<Rightarrow> string \<Rightarrow> string" where
  "FormApprovalWorkflowIDForRun tenantID formInstanceID runID =
     (let base = FormApprovalWorkflowID tenantID formInstanceID in
      if TrimSpace runID = [] then base else base @ '':'' @ TrimSpace runID)"

definition UpsertWorkflowRun :: "wf_store \<Rightarrow> WorkflowRun \<Rightarrow> wf_store" where
  "UpsertWorkflowRun s v =
     (let v = (if wr_TemporalStartStatus v = [] then v\<lparr>wr_TemporalStartStatus := WorkflowTemporalStartStarted\<rparr> else v);
          v = (if wr_TemporalWorkflowID v = []
               then v\<lparr>wr_TemporalWorkflowID := FormApprovalWorkflowID (wr_TenantID v) (wr_FormInstanceID v)\<rparr> else v)
      in s\<lparr>wfs_runs := putNested (wfs_runs s) (wr_TenantID v) (wr_ID v) v\<rparr>)"

definition GetWorkflowRun :: "wf_store \<Rightarrow> string \<Rightarrow> string \<Rightarrow> WorkflowRun option" where
  "GetWorkflowRun s tenantID ident = getNested (wfs_runs s) tenantID ident"

definition latest_run_step :: "string \<Rightarrow> WorkflowRun \<Rightarrow> WorkflowRun option \<Rightarrow> WorkflowRun option" where
  "latest_run_step formInstanceID item latest =
     (if wr_FormInstanceID item \<noteq> formInstanceID then latest
      else case latest of None \<Rightarrow> Some item
        | Some l \<Rightarrow> if wr_Version item > wr_Version l \<or> (wr_Version item = wr_Version l \<and> wr_UpdatedAt item > wr_UpdatedAt l)
                  then Some item else latest)"

definition GetWorkflowRunByFormInstance :: "wf_store \<Rightarrow> string \<Rightarrow> string \<Rightarrow> WorkflowRun option" where
  "GetWorkflowRunByFormInstance s tenantID formInstanceID =
     fold (latest_run_step formInstanceID) (rows (wfs_runs s) tenantID) None"

definition run_version_less :: "WorkflowRun \<Rightarrow> WorkflowRun \<Rightarrow> bool" where
  "run_version_less a b = (if wr_Version a = wr_Version b then wr_CreatedAt a < wr_CreatedAt b else wr_Version a < wr_Version b)"

definition ListWorkflowRunsByFormInstance :: "wf_store \<Rightarrow> string \<Rightarrow> string \<Rightarrow> WorkflowRun list" where
  "ListWorkflowRunsByFormInstance s tenantID formInstanceID =
     sort_less run_version_less (filter (\<lambda>r. wr_FormInstanceID r = formInstanceID) (rows (wfs_runs s) tenantID))"

text \<open>A start that may be claimed: pending, or claimed so long ago that its worker counts as lost.\<close>

definition start_claimable :: "int \<Rightarrow> WorkflowRun \<Rightarrow> bool" where
  "start_claimable staleBefore r \<longleftrightarrow> wr_TemporalStartStatus r = WorkflowTemporalStartPending \<or>
     (wr_TemporalStartStatus r = WorkflowTemporalStartStarting \<and> \<not> wr_UpdatedAt r > staleBefore)"

definition run_updated_less :: "WorkflowRun \<Rightarrow> WorkflowRun \<Rightarrow> bool" where
  "run_updated_less a b = (if wr_UpdatedAt a = wr_UpdatedAt b then wr_ID a < wr_ID b else wr_UpdatedAt a < wr_UpdatedAt b)"

definition ListPendingWorkflowRuns :: "wf_store \<Rightarrow> string \<Rightarrow> int \<Rightarrow> int \<Rightarrow> WorkflowRun list" where
  "ListPendingWorkflowRuns s tenantID staleBefore limit =
     (let out = sort_less run_updated_less (filter (start_claimable staleBefore) (rows (wfs_runs s) tenantID))
      in if limit > 0 \<and> int (length out) > limit then take (nat limit) out else out)"

definition put_run :: "wf_store \<Rightarrow> string \<Rightarrow> string \<Rightarrow> WorkflowRun \<Rightarrow> wf_store" where
  "put_run s tenantID ident item = s\<lparr>wfs_runs := putNested (wfs_runs s) tenantID ident item\<rparr>"

definition ClaimWorkflowRunTemporalStart :: "wf_store \<Rightarrow> string \<Rightarrow> string \<Rightarrow> int \<Rightarrow> int \<Rightarrow> WorkflowRun option \<times> wf_store" where
  "ClaimWorkflowRunTemporalStart s tenantID ident claimedAt staleBefore =
     (case getNested (wfs_runs s) tenantID ident of
        None \<Rightarrow> (None, s)
      | Some item \<Rightarrow>
          if \<not> start_claimable staleBefore item then (None, s)
          else let item = item\<lparr>wr_TemporalStartStatus := WorkflowTemporalStartStarting, wr_UpdatedAt := claimedAt\<rparr>
               in (Some item, put_run s tenantID ident item))"

text \<open>A worker shows that it still holds the claim by the time it claimed.\<close>

definition holds_start :: "int \<Rightarrow> WorkflowRun \<Rightarrow> bool" where
  "holds_start claimedAt item \<longleftrightarrow> \<not> (wr_TemporalStartStatus item \<noteq> WorkflowTemporalStartStarting \<or> wr_UpdatedAt item \<noteq> claimedAt)"

definition ReleaseWorkflowRunTemporalStart :: "wf_store \<Rightarrow> string \<Rightarrow> string \<Rightarrow> int \<Rightarrow> int \<Rightarrow> bool \<times> wf_store" where
  "ReleaseWorkflowRunTemporalStart s tenantID ident claimedAt releasedAt =
     (case getNested (wfs_runs s) tenantID ident of
        None \<Rightarrow> (False, s)
      | Some item \<Rightarrow>
          if \<not> holds_start claimedAt item then (False, s)
          else (True, put_run s tenantID ident
                  (item\<lparr>wr_TemporalStartStatus := WorkflowTemporalStartPending, wr_UpdatedAt := releasedAt\<rparr>)))"

definition MarkWorkflowRunTemporalStarted :: "wf_store \<Rightarrow> string \<Rightarrow> string \<Rightarrow> int \<Rightarrow> FormApprovalWorkflowExecution \<Rightarrow> int \<Rightarrow>
    WorkflowRun option \<times> wf_store" where
  "MarkWorkflowRunTemporalStarted s tenantID ident claimedAt execution startedAt =
     (case getNested (wfs_runs s) tenantID ident of
        None \<Rightarrow> (None, s)
      | Some item \<Rightarrow>
          if \<not> holds_start claimedAt item then (None, s)
          else let item = item\<lparr>wr_TemporalStartStatus := WorkflowTemporalStartStarted, wr_TemporalWorkflowID := awe_WorkflowID execution,
                     wr_TemporalRunID := awe_RunID execution, wr_TemporalStartedAt := Some startedAt, wr_UpdatedAt := startedAt\<rparr>
               in (Some item, put_run s tenantID ident item))"

definition AbandonPendingWorkflowRunTemporalStart :: "wf_store \<Rightarrow> string \<Rightarrow> string \<Rightarrow> int \<Rightarrow> WorkflowRun option \<times> wf_store" where
  "AbandonPendingWorkflowRunTemporalStart s tenantID ident abandonedAt =
     (case getNested (wfs_runs s) tenantID ident of
        None \<Rightarrow> (None, s)
      | Some item \<Rightarrow>
          if wr_TemporalStartStatus item \<noteq> WorkflowTemporalStartPending then (None, s)
          else let item = item\<lparr>wr_TemporalStartStatus := WorkflowTemporalStartAbandoned, wr_UpdatedAt := abandonedAt\<rparr>
               in (Some item, put_run s tenantID ident item))"

definition AbandonClaimedWorkflowRunTemporalStart :: "wf_store \<Rightarrow> string \<Rightarrow> string \<Rightarrow> int \<Rightarrow> int \<Rightarrow> WorkflowRun option \<times> wf_store" where
  "AbandonClaimedWorkflowRunTemporalStart s tenantID ident claimedAt abandonedAt =
     (case getNested (wfs_runs s) tenantID ident of
        None \<Rightarrow> (None, s)
      | Some item \<Rightarrow>
          if \<not> holds_start claimedAt item then (None, s)
          else let item = item\<lparr>wr_TemporalStartStatus := WorkflowTemporalStartAbandoned, wr_UpdatedAt := abandonedAt\<rparr>
               in (Some item, put_run s tenantID ident item))"

section \<open>Stages, assignees, actions\<close>

definition UpsertWorkflowStageInstance :: "wf_store \<Rightarrow> WorkflowStageInstance \<Rightarrow> wf_store" where
  "UpsertWorkflowStageInstance s v =
     s\<lparr>wfs_stageInstances := putNested (wfs_stageInstances s) (wsi_TenantID v) (wsi_ID v) v\<rparr>"

definition GetWorkflowStageInstance :: "wf_store \<Rightarrow> string \<Rightarrow> string \<Rightarrow> WorkflowStageInstance option" where
  "GetWorkflowStageInstance s tenantID ident = getNested (wfs_stageInstances s) tenantID ident"

definition GetWorkflowStageInstanceForUpdate :: "wf_store \<Rightarrow> string \<Rightarrow> string \<Rightarrow> WorkflowStageInstance option" where
  "GetWorkflowStageInstanceForUpdate s tenantID ident = GetWorkflowStageInstance s tenantID ident"

definition ListWorkflowStageInstancesByRun :: "wf_store \<Rightarrow> string \<Rightarrow> string \<Rightarrow> WorkflowStageInstance list" where
  "ListWorkflowStageInstancesByRun s tenantID runID =
     sort_key wsi_Sequence (filter (\<lambda>i. wsi_RunID i = runID) (rows (wfs_stageInstances s) tenantID))"

definition workflowAssigneeKey :: "string \<Rightarrow> string \<Rightarrow> string" where
  "workflowAssigneeKey stageInstanceID accountID = stageInstanceID @ '':'' @ accountID"

definition UpsertWorkflowStageAssignee :: "wf_store \<Rightarrow> WorkflowStageAssignee \<Rightarrow> wf_store" where
  "UpsertWorkflowStageAssignee s v =
     s\<lparr>wfs_stageAssignees := putNested (wfs_stageAssignees s) (wsa_TenantID v)
         (workflowAssigneeKey (wsa_StageInstanceID v) (wsa_AccountID v)) v\<rparr>"

definition ListWorkflowStageAssignees :: "wf_store \<Rightarrow> string \<Rightarrow> string \<Rightarrow> WorkflowStageAssignee list" where
  "ListWorkflowStageAssignees s tenantID stageInstanceID =
     sort_key wsa_AccountID (map snd (filter (\<lambda>e. prefix (stageInstanceID @ '':'') (fst e)) (bucket (wfs_stageAssignees s) tenantID)))"

definition ListPendingAssigneeStageInstanceIDs :: "wf_store \<Rightarrow> string \<Rightarrow> string \<Rightarrow> string list" where
  "ListPendingAssigneeStageInstanceIDs s tenantID accountID =
     sort (remdups (map wsa_StageInstanceID (filter (\<lambda>i. \<not> (wsa_AccountID i \<noteq> accountID \<or>
       wsa_Status i \<noteq> WorkflowAssigneeStatusPending)) (rows (wfs_stageAssignees s) tenantID))))"

definition actions_of :: "wf_store \<Rightarrow> string \<Rightarrow> WorkflowAction list" where
  "actions_of s tenantID = (case map_of (wfs_actions s) tenantID of None \<Rightarrow> [] | Some as \<Rightarrow> as)"

definition InsertWorkflowAction :: "wf_store \<Rightarrow> WorkflowAction \<Rightarrow> wf_store" where
  "InsertWorkflowAction s v =
     s\<lparr>wfs_actions := map_put (wac_TenantID v) (actions_of s (wac_TenantID v) @ [v]) (wfs_actions s)\<rparr>"

definition GetWorkflowActionByIdempotencyKey :: "wf_store \<Rightarrow> string \<Rightarrow> string \<Rightarrow> string \<Rightarrow> WorkflowAction option" where
  "GetWorkflowActionByIdempotencyKey s tenantID runID key =
     find (\<lambda>a. wac_RunID a = runID \<and> wac_IdempotencyKey a = key \<and> key \<noteq> []) (actions_of s tenantID)"

definition ListWorkflowActionsByRun :: "wf_store \<Rightarrow> string \<Rightarrow> string \<Rightarrow> WorkflowAction list" where
  "ListWorkflowActionsByRun s tenantID runID =
     sort_key wac_CreatedAt (filter (\<lambda>a. wac_RunID a = runID) (actions_of s tenantID))"

section \<open>Notifications\<close>

definition UpsertNotification :: "wf_store \<Rightarrow> Notification \<Rightarrow> wf_store" where
  "UpsertNotification s v =
     s\<lparr>wfs_notifications := putNested (wfs_notifications s) (ntf_TenantID v) (ntf_ID v) v\<rparr>"

definition notificationRecipientKey :: "string \<Rightarrow> string \<Rightarrow> string" where
  "notificationRecipientKey notificationID accountID = notificationID @ [CHR 0x00] @ accountID"

definition UpsertNotificationRecipient :: "wf_store \<Rightarrow> NotificationRecipient \<Rightarrow> wf_store" where
  "UpsertNotificationRecipient s v =
     s\<lparr>wfs_recipients := putNested (wfs_recipients s) (ntr_TenantID v)
         (notificationRecipientKey (ntr_NotificationID v) (ntr_AccountID v)) v\<rparr>"

end
