(* ===== verification/App_State.thy ===== *)
theory App_State
  imports Authz_Service Workflow_Store Outbox_Store Manager_Resolution
begin

text \<open>
  What the attendance and workflow services share: the tables they read and write, transactions, fresh
  ids, authorization and audit, and the employees that product workflows may see
  (\<open>src/internal/service/service.go\<close>, \<open>store_dependencies.go\<close>,
  \<open>business_employee_scope.go\<close>, \<open>src/internal/repository/memory/transaction.go\<close>).

  An operation maps a state \<open>app_state\<close> to an error or a value and the next state.
  \<open>app_env\<close> is what is outside the repository: the authorization service, the parser of dates,
  the reading of the clock during the operation, the fresh ids (the \<open>n\<close>-th call with a prefix), the
  digests of \<open>crypto/sha256\<close> and \<open>crypto/sha1\<close> in hexadecimal, and whether workflow starts go
  through the outbox.
  \<open>okS m Q s\<close> is the partial correctness of an operation from a state, and \<open>preserves I m\<close> an
  invariant on every exit; both have rules that follow the program text.
\<close>

section \<open>The state of the application\<close>

record app_state =
  ap_mem :: mem_store
  ap_att :: att_store
  ap_wf :: wf_store
  ap_outbox :: outbox
  ap_authz :: authz_state
  ap_calls :: nat

record app_env =
  ap_az :: authz_service
  ap_parse :: "string \<Rightarrow> int option"
  ap_now :: int
  ap_newID :: "string \<Rightarrow> nat \<Rightarrow> string"
  ap_sha256 :: "string \<Rightarrow> string"
  ap_sha1 :: "string \<Rightarrow> string"
  ap_startOutbox :: bool

type_synonym 'a aop = "(app_state, err, 'a) op"

definition getS :: "('s \<Rightarrow> 'a) \<Rightarrow> ('s, 'e, 'a) op" where
  "getS f = (\<lambda>s. (Inr (f s), s))"

definition tryS :: "('s \<Rightarrow> 'e + 'a) \<Rightarrow> ('s, 'e, 'a) op" where
  "tryS f = (\<lambda>s. (f s, s))"

definition modS :: "('s \<Rightarrow> 's) \<Rightarrow> ('s, 'e, unit) op" where
  "modS f = (\<lambda>s. (Inr (), f s))"

definition failS :: "AppError \<Rightarrow> ('s, err, 'a) op" where
  "failS e = liftS (Inl (AppErr e))"

text \<open>\<open>v, ok, err := lookup(); if !ok { return err }\<close>\<close>

definition foundS :: "AppError \<Rightarrow> ('s \<Rightarrow> 'a option) \<Rightarrow> ('s, err, 'a) op" where
  "foundS e f = bindS (getS f) (\<lambda>found. case found of None \<Rightarrow> failS e | Some x \<Rightarrow> retS x)"

fun eachS :: "('a \<Rightarrow> ('s, 'e, unit) op) \<Rightarrow> 'a list \<Rightarrow> ('s, 'e, unit) op" where
  "eachS f [] = retS ()"
| "eachS f (x # xs) = bindS (f x) (\<lambda>_. eachS f xs)"

definition attS :: "(att_store \<Rightarrow> att_store) \<Rightarrow> unit aop" where
  "attS f = modS (\<lambda>s. s\<lparr>ap_att := f (ap_att s)\<rparr>)"

definition wfS :: "(wf_store \<Rightarrow> wf_store) \<Rightarrow> unit aop" where
  "wfS f = modS (\<lambda>s. s\<lparr>ap_wf := f (ap_wf s)\<rparr>)"

definition newIDS :: "app_env \<Rightarrow> string \<Rightarrow> string aop" where
  "newIDS c kind = (\<lambda>s. (Inr (ap_newID c kind (ap_calls s)), s\<lparr>ap_calls := Suc (ap_calls s)\<rparr>))"

text \<open>
  The transaction works on a clone that replaces the store when the body returns no error.  The cached
  decisions are outside the store, and ids once drawn are gone.
\<close>

definition rolledBack :: "app_state \<Rightarrow> app_state \<Rightarrow> app_state" where
  "rolledBack s t =
     s\<lparr>ap_authz := (ap_authz s)\<lparr>azs_snapshots := azs_snapshots (ap_authz t)\<rparr>, ap_calls := ap_calls t\<rparr>"

definition withTransaction :: "'a aop \<Rightarrow> 'a aop" where
  "withTransaction m = (\<lambda>s. case m s of (Inl e, t) \<Rightarrow> (Inl e, rolledBack s t) | (Inr x, t) \<Rightarrow> (Inr x, t))"

section \<open>Authorization, audit and employees\<close>

definition authz_of :: "app_env \<Rightarrow> mem_store \<Rightarrow> authz_service" where
  "authz_of c m = (ap_az c)\<lparr>az_env := (az_env (ap_az c))\<lparr>
     sv_store := env_store \<lparr>me_parse = ap_parse c, me_now = ap_now c, me_store = m\<rparr>, sv_now := ap_now c\<rparr>\<rparr>"

definition authzS :: "app_env \<Rightarrow> (authz_service \<Rightarrow> 'a azop) \<Rightarrow> 'a aop" where
  "authzS c m = (\<lambda>s. case m (authz_of c (ap_mem s)) (ap_authz s) of (r, a) \<Rightarrow> (r, s\<lparr>ap_authz := a\<rparr>))"

definition auditS :: "app_env \<Rightarrow> RequestContext \<Rightarrow> string \<Rightarrow> string \<Rightarrow> string \<Rightarrow> string \<Rightarrow> params \<Rightarrow> unit aop" where
  "auditS c ctx event resource target severity details =
     authzS c (\<lambda>az. audit az ctx event resource target severity details)"

definition RequireWorkflowAuthz :: "app_env \<Rightarrow> RequestContext \<Rightarrow> string \<Rightarrow> string \<Rightarrow> string \<Rightarrow> (Account \<times> CheckResult) aop" where
  "RequireWorkflowAuthz c ctx resource action resourceID =
     authzS c (\<lambda>az. requireServiceAuthz az ctx AppWorkflow resource action resourceID)"

definition employeeStatus :: "Employee \<Rightarrow> string" where
  "employeeStatus item = FirstNonEmpty [emp_EmploymentStatus item, emp_Status item]"

definition businessEmployees :: "app_env \<Rightarrow> RequestContext \<Rightarrow> app_state \<Rightarrow> Employee list" where
  "businessEmployees c ctx s = ListEmployeesByQuery (ap_mem s) (ap_parse c) (ctx_TenantID ctx) zero_EmployeeQuery"

definition getBusinessEmployee :: "app_env \<Rightarrow> RequestContext \<Rightarrow> string \<Rightarrow> app_state \<Rightarrow> Employee option" where
  "getBusinessEmployee c ctx employeeID s =
     (let employeeID = TrimSpace employeeID in
      if employeeID = [] then None
      else case GetEmployee (ap_mem s) (ctx_TenantID ctx) employeeID of
          None \<Rightarrow> None
        | Some stored \<Rightarrow>
            (case ListEmployeesByQuery (ap_mem s) (ap_parse c) (ctx_TenantID ctx)
                    (zero_EmployeeQuery\<lparr>eq_EmploymentStatus := employeeStatus stored,
                       eq_Scope := zero_EmployeeScopeConstraint\<lparr>esc_EmployeeIDs := [employeeID]\<rparr>\<rparr>) of
               [] \<Rightarrow> None | item # _ \<Rightarrow> Some item))"

definition ehrmsStableID :: "app_env \<Rightarrow> string \<Rightarrow> string list \<Rightarrow> string" where
  "ehrmsStableID c kind parts = TrimSpace kind @ ''-'' @ take 20 (ap_sha1 c (Join parts ''|''))"

section \<open>Reasoning about operations\<close>

definition okS :: "('s, 'e, 'a) op \<Rightarrow> ('a \<Rightarrow> 's \<Rightarrow> bool) \<Rightarrow> 's \<Rightarrow> bool" where
  "okS m Q s \<longleftrightarrow> (\<forall>x t. m s = (Inr x, t) \<longrightarrow> Q x t)"

named_theorems okS_simps \<open>the condition an operation needs to establish another\<close>

lemma okSI: "(\<And>x t. m s = (Inr x, t) \<Longrightarrow> Q x t) \<Longrightarrow> okS m Q s"
  by (simp add: okS_def)

lemma okSD: "okS m Q s \<Longrightarrow> m s = (Inr x, t) \<Longrightarrow> Q x t"
  by (simp add: okS_def)

lemma okS_mono: "okS m P s \<Longrightarrow> (\<And>x t. P x t \<Longrightarrow> Q x t) \<Longrightarrow> okS m Q s"
  by (simp add: okS_def)

lemma okS_conj: "okS m P s \<Longrightarrow> okS m Q s \<Longrightarrow> okS m (\<lambda>x t. P x t \<and> Q x t) s"
  by (simp add: okS_def)

text \<open>The rules leave the state out, so that they also apply below the binders of the postcondition.\<close>

lemma okS_ret [okS_simps]: "okS (retS x) Q = Q x"
  by (rule ext) (simp add: okS_def retS_def)

lemma okS_lift [okS_simps]: "okS (liftS r) Q = (\<lambda>s. \<forall>x. r = Inr x \<longrightarrow> Q x s)"
  by (rule ext) (auto simp: okS_def liftS_def)

lemma okS_fail [okS_simps]: "okS (failS e) Q = (\<lambda>_. True)"
  by (rule ext) (simp add: okS_def failS_def liftS_def)

lemma okS_get [okS_simps]: "okS (getS f) Q = (\<lambda>s. Q (f s) s)"
  by (rule ext) (simp add: okS_def getS_def)

lemma okS_try [okS_simps]: "okS (tryS f) Q = (\<lambda>s. \<forall>x. f s = Inr x \<longrightarrow> Q x s)"
  by (rule ext) (simp add: okS_def tryS_def)

lemma okS_mod [okS_simps]: "okS (modS f) Q = (\<lambda>s. Q () (f s))"
  by (rule ext) (simp add: okS_def modS_def)

lemma okS_bind [okS_simps]: "okS (bindS m f) Q = okS m (\<lambda>x. okS (f x) Q)"
  by (rule ext) (fastforce simp: okS_def bindS_def split: prod.splits sum.splits)

lemma okS_if [okS_simps]: "okS (if b then m else n) Q = (\<lambda>s. (b \<longrightarrow> okS m Q s) \<and> (\<not> b \<longrightarrow> okS n Q s))"
  by (rule ext) simp

lemma okS_option [okS_simps]:
  "okS (case v of None \<Rightarrow> m | Some x \<Rightarrow> f x) Q = (\<lambda>s. (v = None \<longrightarrow> okS m Q s) \<and> (\<forall>x. v = Some x \<longrightarrow> okS (f x) Q s))"
  by (rule ext) (cases v; auto)

lemma okS_prod [okS_simps]: "okS (case v of (a, b) \<Rightarrow> f a b) Q = okS (f (fst v) (snd v)) Q"
  by (cases v) simp

lemma okS_found [okS_simps]: "okS (foundS e f) Q = (\<lambda>s. \<forall>x. f s = Some x \<longrightarrow> Q x s)"
  by (rule ext) (auto simp: foundS_def okS_simps split: option.splits)

lemma okS_att [okS_simps]: "okS (attS f) Q = (\<lambda>s. Q () (s\<lparr>ap_att := f (ap_att s)\<rparr>))"
  by (simp add: attS_def okS_mod)

lemma okS_wf [okS_simps]: "okS (wfS f) Q = (\<lambda>s. Q () (s\<lparr>ap_wf := f (ap_wf s)\<rparr>))"
  by (simp add: wfS_def okS_mod)

lemma okS_newID [okS_simps]: "okS (newIDS c k) Q = (\<lambda>s. Q (ap_newID c k (ap_calls s)) (s\<lparr>ap_calls := Suc (ap_calls s)\<rparr>))"
  by (rule ext) (simp add: okS_def newIDS_def)

lemma okS_tx [okS_simps]: "okS (withTransaction m) Q = okS m Q"
  by (rule ext) (fastforce simp: okS_def withTransaction_def split: prod.splits sum.splits)

lemma okS_authz: "(\<And>x a. fst (m (authz_of c (ap_mem s)) (ap_authz s)) = Inr x \<Longrightarrow> Q x (s\<lparr>ap_authz := a\<rparr>)) \<Longrightarrow> okS (authzS c m) Q s"
  by (auto simp: okS_def authzS_def split: prod.splits)

lemma okS_each:
  assumes "I [] s" "\<And>front x rest t. xs = front @ x # rest \<Longrightarrow> I front t \<Longrightarrow> okS (f x) (\<lambda>_. I (front @ [x])) t"
  shows "okS (eachS f xs) (\<lambda>_. I xs) s"
proof -
  have run: "okS (eachS f ys) (\<lambda>_. I xs) t" if "xs = front @ ys" "I front t" for ys front t
    using that
  proof (induction ys arbitrary: front t)
    case (Cons y ys)
    then have "okS (f y) (\<lambda>_. I (front @ [y])) t" by (intro assms(2)) simp_all
    moreover have "okS (eachS f ys) (\<lambda>_. I xs) u" if "I (front @ [y]) u" for u
      using Cons.prems(1) that by (intro Cons.IH) simp_all
    ultimately show ?case unfolding eachS.simps okS_bind by (rule okS_mono)
  qed (simp add: okS_ret)
  show ?thesis by (rule run [of "[]"]) (use assms(1) in simp_all)
qed

text \<open>An operation that leaves a view of the state alone.\<close>

definition keeps :: "('s \<Rightarrow> 'v) \<Rightarrow> ('s, 'e, 'a) op \<Rightarrow> bool" where
  "keeps v m \<longleftrightarrow> (\<forall>s. v (snd (m s)) = v s)"

named_theorems keeps_intros \<open>operations that leave a view alone\<close>

lemma keepsD: "keeps v m \<Longrightarrow> m s = (r, t) \<Longrightarrow> v t = v s"
  unfolding keeps_def by (metis snd_conv)

lemma keeps_basic [keeps_intros]:
  "keeps v (retS x)" "keeps v (liftS r)" "keeps v (failS e)" "keeps v (getS f)" "keeps v (tryS h)" "keeps v (foundS e g)"
  by (simp_all add: keeps_def retS_def liftS_def failS_def getS_def tryS_def foundS_def bindS_def split: option.split)

lemma keeps_bind [keeps_intros]: "keeps v m \<Longrightarrow> (\<And>x. keeps v (f x)) \<Longrightarrow> keeps v (bindS m f)"
  unfolding keeps_def bindS_def
proof
  fix s
  assume m: "\<forall>s. v (snd (m s)) = v s" and f: "\<And>x. \<forall>s. v (snd (f x s)) = v s"
  show "v (snd (case m s of (Inl e, t) \<Rightarrow> (Inl e, t) | (Inr x, t) \<Rightarrow> f x t)) = v s"
    using m [THEN spec, of s] f by (auto split: prod.split sum.split)
qed

lemma keeps_if [keeps_intros]: "(b \<Longrightarrow> keeps v m) \<Longrightarrow> (\<not> b \<Longrightarrow> keeps v n) \<Longrightarrow> keeps v (if b then m else n)"
  by simp

lemma keeps_option [keeps_intros]:
  "keeps v m \<Longrightarrow> (\<And>x. keeps v (f x)) \<Longrightarrow> keeps v (case w of None \<Rightarrow> m | Some x \<Rightarrow> f x)"
  by (cases w) auto

lemma keeps_prod [keeps_intros]: "(\<And>a b. keeps v (f a b)) \<Longrightarrow> keeps v (case p of (a, b) \<Rightarrow> f a b)"
  by (cases p) auto

lemma keeps_each [keeps_intros]: "(\<And>x. keeps v (f x)) \<Longrightarrow> keeps v (eachS f xs)"
  by (induction xs) (auto intro: keeps_intros)

lemma keeps_mod: "(\<And>s. v (f s) = v s) \<Longrightarrow> keeps v (modS f)"
  by (simp add: keeps_def modS_def)

lemma keeps_stores [keeps_intros]:
  "keeps ap_wf (attS f)" "keeps ap_mem (attS f)" "keeps ap_outbox (attS f)" "keeps ap_authz (attS f)"
  "keeps ap_att (wfS g)" "keeps ap_mem (wfS g)" "keeps ap_outbox (wfS g)" "keeps ap_authz (wfS g)"
  by (simp_all add: attS_def wfS_def keeps_mod)

lemma keeps_newID [keeps_intros]:
  "keeps ap_wf (newIDS c k)" "keeps ap_att (newIDS c k)" "keeps ap_mem (newIDS c k)" "keeps ap_outbox (newIDS c k)"
  by (simp_all add: keeps_def newIDS_def)

lemma keeps_authz [keeps_intros]:
  "keeps ap_wf (authzS c m)" "keeps ap_att (authzS c m)" "keeps ap_mem (authzS c m)" "keeps ap_outbox (authzS c m)"
  "keeps ap_wf (auditS c ctx e r t sv d)" "keeps ap_att (auditS c ctx e r t sv d)"
  "keeps ap_mem (auditS c ctx e r t sv d)" "keeps ap_outbox (auditS c ctx e r t sv d)"
  "keeps ap_wf (RequireWorkflowAuthz c ctx e r t)" "keeps ap_att (RequireWorkflowAuthz c ctx e r t)"
  "keeps ap_mem (RequireWorkflowAuthz c ctx e r t)" "keeps ap_outbox (RequireWorkflowAuthz c ctx e r t)"
  by (simp_all add: keeps_def authzS_def auditS_def RequireWorkflowAuthz_def split: prod.split)

lemma keeps_att_part: "(\<And>a. g (f a) = g a) \<Longrightarrow> keeps (\<lambda>s. g (ap_att s)) (attS f)"
  by (simp add: keeps_def attS_def modS_def)

lemma keeps_view: "keeps v m \<Longrightarrow> keeps (\<lambda>s. g (v s)) m"
  by (simp add: keeps_def)

text \<open>An invariant that an operation keeps on every exit, errors included.\<close>

definition preserves :: "('s \<Rightarrow> bool) \<Rightarrow> ('s, 'e, 'a) op \<Rightarrow> bool" where
  "preserves I m \<longleftrightarrow> (\<forall>s. I s \<longrightarrow> I (snd (m s)))"

named_theorems preserves_intros \<open>operations that keep an invariant\<close>

lemma preservesD: "preserves I m \<Longrightarrow> m s = (r, t) \<Longrightarrow> I s \<Longrightarrow> I t"
  unfolding preserves_def by (metis snd_conv)

lemma preserves_keeps: "keeps v m \<Longrightarrow> (\<And>s t. v s = v t \<Longrightarrow> I s = I t) \<Longrightarrow> preserves I m"
  unfolding preserves_def keeps_def by metis

lemma preserves_basic [preserves_intros]:
  "preserves I (retS x)" "preserves I (liftS r)" "preserves I (failS e)" "preserves I (getS f)" "preserves I (tryS h)" "preserves I (foundS e g)"
  by (simp_all add: preserves_def retS_def liftS_def failS_def getS_def tryS_def foundS_def bindS_def split: option.split)

lemma preserves_bind [preserves_intros]:
  assumes "preserves I m" "\<And>x. preserves I (f x)"
  shows "preserves I (bindS m f)"
  unfolding preserves_def bindS_def
proof (intro allI impI)
  fix s
  assume "I s"
  with assms(1) have "I (snd (m s))" by (simp add: preserves_def)
  then show "I (snd (case m s of (Inl e, t) \<Rightarrow> (Inl e, t) | (Inr x, t) \<Rightarrow> f x t))"
    using assms(2) by (auto simp: preserves_def split: prod.split sum.split)
qed

text \<open>The step after a lookup may use what was found.\<close>

lemma preserves_get:
  assumes "\<And>s. I s \<Longrightarrow> I (snd (f (g s) s))"
  shows "preserves I (bindS (getS g) f)"
  using assms by (simp add: preserves_def bindS_def getS_def)

lemma preserves_if [preserves_intros]: "(b \<Longrightarrow> preserves I m) \<Longrightarrow> (\<not> b \<Longrightarrow> preserves I n) \<Longrightarrow> preserves I (if b then m else n)"
  by simp

lemma preserves_option [preserves_intros]:
  "preserves I m \<Longrightarrow> (\<And>x. preserves I (f x)) \<Longrightarrow> preserves I (case w of None \<Rightarrow> m | Some x \<Rightarrow> f x)"
  by (cases w) auto

lemma preserves_prod [preserves_intros]: "(\<And>a b. preserves I (f a b)) \<Longrightarrow> preserves I (case p of (a, b) \<Rightarrow> f a b)"
  by (cases p) auto

lemma preserves_each [preserves_intros]: "(\<And>x. preserves I (f x)) \<Longrightarrow> preserves I (eachS f xs)"
  by (induction xs) (auto intro: preserves_intros)

lemma preserves_mod: "(\<And>s. I s \<Longrightarrow> I (f s)) \<Longrightarrow> preserves I (modS f)"
  by (simp add: preserves_def modS_def)

text \<open>A failed transaction leaves the tables as they were.\<close>

definition tables :: "app_state \<Rightarrow> mem_store \<times> att_store \<times> wf_store \<times> outbox" where
  "tables s = (ap_mem s, ap_att s, ap_wf s, ap_outbox s)"

lemma tables_rolledBack [simp]: "tables (rolledBack s t) = tables s"
  by (simp add: tables_def rolledBack_def)

lemma withTransaction_failed: "withTransaction m s = (Inl e, t) \<Longrightarrow> tables t = tables s"
  by (auto simp: withTransaction_def split: prod.splits sum.splits)

end
