(* ===== verification/Attendance_Review.thy ===== *)
theory Attendance_Review
  imports App_State
begin

text \<open>
  What the decision on a form does to the attendance request it is linked to: the reservation of leave
  balance is released or consumed in the append-only ledger, compensatory leave is credited for
  overtime, and an approved correction voids, replaces or adds a punch
  (\<open>attendance_leave_overlay_service.go\<close>, \<open>attendance_leave_overtime_service.go\<close>,
  \<open>attendance_clock_service.go\<close> under \<open>src/internal/service/\<close>).
\<close>

section \<open>The leave balance overlay\<close>

abbreviation (input) leaveBalanceEntryReserve :: string where "leaveBalanceEntryReserve \<equiv> ''reserve''"
abbreviation (input) leaveBalanceEntryRelease :: string where "leaveBalanceEntryRelease \<equiv> ''release''"
abbreviation (input) leaveBalanceEntryLocalConsume :: string where "leaveBalanceEntryLocalConsume \<equiv> ''local_consume''"
abbreviation (input) leaveBalanceEntryLocalRefund :: string where "leaveBalanceEntryLocalRefund \<equiv> ''local_refund''"
abbreviation (input) leaveBalanceEntryExternalReconcile :: string where "leaveBalanceEntryExternalReconcile \<equiv> ''external_reconcile''"
abbreviation (input) leaveBalanceEntryExternalReversal :: string where "leaveBalanceEntryExternalReversal \<equiv> ''external_reversal''"
abbreviation (input) leaveBalanceEntryOvertimeCredit :: string where "leaveBalanceEntryOvertimeCredit \<equiv> ''overtime_credit''"

text \<open>\<open>math.Round\<close>: halves away from zero.\<close>

definition mathRound :: "rat \<Rightarrow> int" where
  "mathRound q = (if 0 \<le> q then \<lfloor>q + 1 / 2\<rfloor> else - \<lfloor>1 / 2 - q\<rfloor>)"

definition leaveMinutes :: "rat \<Rightarrow> int" where
  "leaveMinutes hours = mathRound (hours * 60)"

definition sum_for :: "(LeaveBalanceEntry \<Rightarrow> bool) \<Rightarrow> LeaveBalanceEntry list \<Rightarrow> string \<Rightarrow> int" where
  "sum_for kind entries balanceID =
     sum_list (map lbe_AmountMinutes (filter (\<lambda>e. lbe_BalanceID e = balanceID \<and> kind e) entries))"

definition applyLeaveBalanceOverlay :: "LeaveBalance list \<Rightarrow> LeaveBalanceEntry list \<Rightarrow> LeaveBalance list" where
  "applyLeaveBalanceOverlay items entries =
     (let pendings = (\<lambda>e. lbe_EntryType e \<in> {leaveBalanceEntryReserve, leaveBalanceEntryRelease});
          locals = (\<lambda>e. lbe_EntryType e \<in> {leaveBalanceEntryLocalConsume, leaveBalanceEntryLocalRefund,
                     leaveBalanceEntryExternalReconcile, leaveBalanceEntryExternalReversal})
      in map (\<lambda>item. item\<lparr>
           lb_SnapshotRemainingMinutes := lb_RemainingMinutes item,
           lb_PendingMinutes := max 0 (- sum_for pendings entries (lb_ID item)),
           lb_LocalUsedMinutes := max 0 (- sum_for locals entries (lb_ID item)),
           lb_RemainingMinutes := lb_RemainingMinutes item + sum_for (\<lambda>_. True) entries (lb_ID item)\<rparr>) items)"

definition listEffectiveLeaveBalances :: "RequestContext \<Rightarrow> app_state \<Rightarrow> LeaveBalance list" where
  "listEffectiveLeaveBalances ctx s =
     applyLeaveBalanceOverlay (ListLeaveBalances (ap_att s) (ctx_TenantID ctx)) (ListLeaveBalanceEntries (ap_att s) (ctx_TenantID ctx))"

abbreviation (input) leaveEvaluationBalanceMissing :: string where "leaveEvaluationBalanceMissing \<equiv> ''balance_not_initialized''"
abbreviation (input) leaveEvaluationBalanceInsufficient :: string where "leaveEvaluationBalanceInsufficient \<equiv> ''insufficient_balance''"

definition leaveBalanceForOverlay :: "RequestContext \<Rightarrow> string \<Rightarrow> string \<Rightarrow> int \<Rightarrow> int \<Rightarrow> app_state \<Rightarrow> LeaveBalance \<times> int \<times> string" where
  "leaveBalanceForOverlay ctx employeeID leaveTypeID requestedMinutes asOf s =
     (case GetLeaveBalanceForOverlay (ap_att s) (ctx_TenantID ctx) employeeID leaveTypeID asOf of
        None \<Rightarrow> (zero_LeaveBalance, 0, leaveEvaluationBalanceMissing)
      | Some item \<Rightarrow>
          let effective = hd (applyLeaveBalanceOverlay [item] (ListLeaveBalanceEntries (ap_att s) (ctx_TenantID ctx)));
              availableMinutes = max 0 (lb_RemainingMinutes effective)
          in if availableMinutes < requestedMinutes then (item, availableMinutes, leaveEvaluationBalanceInsufficient)
             else (item, availableMinutes, []))"

definition ledger_key :: "string \<Rightarrow> int \<Rightarrow> string \<Rightarrow> string \<Rightarrow> string" where
  "ledger_key requestID cycle balanceID entryType =
     ''leave-request:'' @ requestID @ '':cycle:'' @ int_string cycle @ '':balance:'' @ balanceID @ '':'' @ entryType"

definition leave_entry :: "app_env \<Rightarrow> RequestContext \<Rightarrow> LeaveRequest \<Rightarrow> LeaveRecord \<Rightarrow> string \<Rightarrow> int \<Rightarrow> int \<Rightarrow> string \<Rightarrow> LeaveBalanceEntry" where
  "leave_entry c ctx request record entryType amountMinutes cycle i =
     \<lparr>lbe_ID = i, lbe_TenantID = ctx_TenantID ctx, lbe_BalanceID = lrec_BalanceID record,
      lbe_LeaveRecordID = lrec_ID record, lbe_EmployeeID = lr_EmployeeID request,
      lbe_LeaveTypeID = lr_LeaveTypeID request, lbe_EntitlementYear = lrec_EntitlementYear record,
      lbe_EntryType = entryType, lbe_AmountMinutes = amountMinutes,
      lbe_IdempotencyKey = ledger_key (lr_ID request) cycle (lrec_BalanceID record) entryType,
      lbe_OccurredAt = ap_now c, lbe_CreatedAt = ap_now c\<rparr>"

definition appendLeaveBalanceEntry :: "app_env \<Rightarrow> RequestContext \<Rightarrow> LeaveRequest \<Rightarrow> LeaveRecord \<Rightarrow> string \<Rightarrow> int \<Rightarrow> int \<Rightarrow> unit aop" where
  "appendLeaveBalanceEntry c ctx request record entryType amountMinutes cycle =
     (if TrimSpace (lrec_BalanceID record) = [] \<or> amountMinutes = 0 then retS ()
      else bindS (newIDS c ''lbe'') (\<lambda>i.
           attS (\<lambda>s. snd (AppendLeaveBalanceEntry s (leave_entry c ctx request record entryType amountMinutes cycle i)))))"

definition leaveRequestBalanceCycle :: "LeaveRequest \<Rightarrow> int" where
  "leaveRequestBalanceCycle request =
     (if lr_EvaluationSnapshot request = [] then 1
      else case map_at (lr_EvaluationSnapshot request) ''balance_cycle'' of
          VNum value \<Rightarrow> if value > 0 then value else 1
        | VFloat r \<Rightarrow> if r > 0 then \<lfloor>r\<rfloor> else 1
        | _ \<Rightarrow> 1)"

definition nextLeaveRequestBalanceCycle :: "LeaveRequest \<Rightarrow> bool \<Rightarrow> int" where
  "nextLeaveRequestBalanceCycle existing resubmitting =
     (if \<not> resubmitting then 1 else leaveRequestBalanceCycle existing + 1)"

definition ensureNexusLeaveRecord :: "app_env \<Rightarrow> RequestContext \<Rightarrow> LeaveRequest \<Rightarrow> LeaveBalance \<Rightarrow> string \<Rightarrow> LeaveRecord aop" where
  "ensureNexusLeaveRecord c ctx request balance status =
     bindS (getS (\<lambda>s. GetLeaveRecord (ap_att s) (ctx_TenantID ctx) (lr_ID request))) (\<lambda>existing.
       let item = (case existing of
             Some item \<Rightarrow> item\<lparr>lrec_EmployeeID := lr_EmployeeID request, lrec_LeaveTypeID := lr_LeaveTypeID request,
               lrec_BalanceID := lb_ID balance, lrec_EntitlementYear := lb_EntitlementYear balance, lrec_Status := status,
               lrec_StartAt := lr_StartAt request, lrec_EndAt := lr_EndAt request,
               lrec_NetMinutes := lr_RequestedMinutes request, lrec_Remark := lr_Reason request, lrec_UpdatedAt := ap_now c\<rparr>
           | None \<Rightarrow> zero_LeaveRecord\<lparr>lrec_ID := lr_ID request, lrec_TenantID := ctx_TenantID ctx,
               lrec_EmployeeID := lr_EmployeeID request, lrec_LeaveTypeID := lr_LeaveTypeID request,
               lrec_BalanceID := lb_ID balance, lrec_EntitlementYear := lb_EntitlementYear balance,
               lrec_Source := ''nexus'', lrec_EventDate := lr_CreatedAt request, lrec_StartAt := lr_StartAt request,
               lrec_EndAt := lr_EndAt request, lrec_NetMinutes := lr_RequestedMinutes request,
               lrec_Remark := lr_Reason request, lrec_Status := status, lrec_ReconciliationStatus := ''not_required'',
               lrec_UpdatedAt := ap_now c\<rparr>)
       in bindS (attS (\<lambda>s. UpsertLeaveRecord s item)) (\<lambda>_. retS item))"

section \<open>The decision on a leave request\<close>

definition workflowApplicantEmployeeID :: "RequestContext \<Rightarrow> FormInstance \<Rightarrow> app_state \<Rightarrow> string res" where
  "workflowApplicantEmployeeID ctx instance s =
     (let accountID = TrimSpace (fi_ApplicantAccountID instance) in
      if accountID = [] then Inl (AppErr (BadRequest ''form applicant account is required''))
      else case GetAccount (ap_mem s) (ctx_TenantID ctx) accountID of
          None \<Rightarrow> Inl (AppErr (NotFound ''account'' accountID))
        | Some account \<Rightarrow>
            if TrimSpace (acc_EmployeeID account) = []
            then Inl (AppErr (BadRequest ''form applicant account is not linked to an employee''))
            else Inr (TrimSpace (acc_EmployeeID account)))"

definition linkedID :: "string \<Rightarrow> string \<Rightarrow> FormInstance \<Rightarrow> string" where
  "linkedID resourceType idKey instance =
     (let id_at = (\<lambda>k. stringFromAny (map_at (fi_Payload instance) k)) in
      if \<not> EqualFold (id_at ''linked_resource_type'') resourceType \<and> id_at idKey = [] then []
      else if TrimSpace (id_at idKey) \<noteq> [] then TrimSpace (id_at idKey)
      else TrimSpace (id_at ''linked_resource_id''))"

definition workflowLinkedLeaveRequestID :: "FormInstance \<Rightarrow> string" where
  "workflowLinkedLeaveRequestID instance = linkedID ''attendance.leave_request'' ''leave_request_id'' instance"

definition workflowLinkedOvertimeRequestID :: "FormInstance \<Rightarrow> string" where
  "workflowLinkedOvertimeRequestID instance = linkedID ''attendance.overtime_request'' ''overtime_request_id'' instance"

definition normalizeLeaveRequestStatus :: "string \<Rightarrow> string" where
  "normalizeLeaveRequestStatus status =
     (let status = ToLower (TrimSpace status) in
      if status = ''approved'' then ''approved''
      else if status \<in> {''rejected'', ''reject''} then ''rejected''
      else if status \<in> {''cancelled'', ''canceled'', ''cancel''} then ''cancelled''
      else if status \<in> {''submitted'', ''pending'', ''pending_approval'', ''''} then ''pending_approval''
      else status)"

definition leaveRequestStatusForWorkflow :: "string \<Rightarrow> string \<Rightarrow> string" where
  "leaveRequestStatusForWorkflow kind status =
     (let kind = ToLower (TrimSpace kind) in
      if kind = ''approve'' then ''approved''
      else if kind \<in> {''reject'', ''return''} then ''rejected''
      else if kind = ''cancel'' then ''cancelled''
      else normalizeLeaveRequestStatus status)"

text \<open>The request of a form: the one that names it, or else the one its payload links, if that names it too.\<close>

definition reviewedRequest :: "'r option \<Rightarrow> string \<Rightarrow> (string \<Rightarrow> 'r option) \<Rightarrow> ('r \<Rightarrow> string) \<Rightarrow> FormInstance \<Rightarrow> 'r option" where
  "reviewedRequest byForm linked lookup formOf instance =
     (case byForm of Some r \<Rightarrow> Some r
      | None \<Rightarrow> if linked = [] then None
          else case lookup linked of
              Some r \<Rightarrow> if TrimSpace (formOf r) = TrimSpace (fi_ID instance) then Some r else None
            | None \<Rightarrow> None)"

definition leaveRequestOf :: "RequestContext \<Rightarrow> FormInstance \<Rightarrow> app_state \<Rightarrow> LeaveRequest option" where
  "leaveRequestOf ctx instance s =
     reviewedRequest (GetLeaveRequestByFormInstanceID (ap_att s) (ctx_TenantID ctx) (fi_ID instance))
       (workflowLinkedLeaveRequestID instance) (GetLeaveRequest (ap_att s) (ctx_TenantID ctx)) lr_FormInstanceID instance"

definition already_settled :: "string \<Rightarrow> string \<Rightarrow> bool" where
  "already_settled nextStatus effect \<longleftrightarrow> nextStatus = [] \<or> nextStatus = ''approved'' \<and> effect = ''applied'' \<or>
     (nextStatus = ''rejected'' \<or> nextStatus = ''cancelled'') \<and> effect = ''compensated''"

definition balanceReserved :: "LeaveRequest \<Rightarrow> bool" where
  "balanceReserved request \<longleftrightarrow> map_at (lr_EvaluationSnapshot request) ''balance_required'' = VBool True"

definition settleLedger :: "app_env \<Rightarrow> RequestContext \<Rightarrow> LeaveRequest \<Rightarrow> LeaveRecord \<Rightarrow> string \<Rightarrow> unit aop" where
  "settleLedger c ctx request record nextStatus =
     (let cycle = leaveRequestBalanceCycle request; reserved = balanceReserved request in
      bindS (if nextStatus \<in> {''approved'', ''rejected'', ''cancelled''} \<and> reserved
             then appendLeaveBalanceEntry c ctx request record leaveBalanceEntryRelease (lr_RequestedMinutes request) cycle
             else retS ()) (\<lambda>_.
        if nextStatus = ''approved'' \<and> reserved
        then appendLeaveBalanceEntry c ctx request record leaveBalanceEntryLocalConsume (- lr_RequestedMinutes request) cycle
        else retS ()))"

definition settledRecord :: "app_env \<Rightarrow> string \<Rightarrow> LeaveRecord \<Rightarrow> LeaveRecord" where
  "settledRecord c nextStatus record =
     record\<lparr>lrec_Status := (if nextStatus = ''approved'' then ''active'' else ''cancelled''), lrec_UpdatedAt := ap_now c\<rparr>"

definition settledRequest :: "app_env \<Rightarrow> string \<Rightarrow> string \<Rightarrow> LeaveRequest \<Rightarrow> LeaveRequest" where
  "settledRequest c kind nextStatus request =
     (let effects = map_put ''balance_cycle'' (VNum (leaveRequestBalanceCycle request))
                      (map_put ''workflow_action'' (VStr (ToLower (TrimSpace kind))) (CopyStringMap (lr_EffectResult request)));
          request = request\<lparr>lr_Status := nextStatus, lr_UpdatedAt := ap_now c\<rparr>
      in if nextStatus = ''approved''
         then request\<lparr>lr_ReconciliationStatus := ''nexus_only'', lr_EffectStatus := ''applied'',
                lr_EffectAppliedAt := Some (ap_now c), lr_EffectResult := map_put ''leave_record_applied'' (VBool True) effects\<rparr>
         else request\<lparr>lr_EffectStatus := ''compensated'', lr_EffectAppliedAt := None,
                lr_EffectResult := map_put ''reservation_released'' (VBool True) effects\<rparr>)"

definition applyLeaveWorkflowReview :: "app_env \<Rightarrow> RequestContext \<Rightarrow> FormInstance \<Rightarrow> string \<Rightarrow> string \<Rightarrow> unit aop" where
  "applyLeaveWorkflowReview c ctx instance kind status =
     bindS (getS (leaveRequestOf ctx instance)) (\<lambda>found. case found of
       None \<Rightarrow> retS ()
     | Some request \<Rightarrow>
         bindS (tryS (workflowApplicantEmployeeID ctx instance)) (\<lambda>applicantEmployeeID.
           if TrimSpace (lr_EmployeeID request) \<noteq> applicantEmployeeID
           then failS (Conflict ''linked leave request does not belong to the form applicant'')
           else let nextStatus = leaveRequestStatusForWorkflow kind status in
             if already_settled nextStatus (lr_EffectStatus request) then retS ()
             else let request = (if TrimSpace (lr_LeaveTypeID request) = []
                      then request\<lparr>lr_LeaveTypeID := StableLeaveTypeID (lr_LeaveType request)\<rparr>
                      else request) in
               bindS (foundS (Conflict ''leave request has no annual leave record'')
                 (\<lambda>s. GetLeaveRecord (ap_att s) (ctx_TenantID ctx) (lr_ID request))) (\<lambda>record.
               bindS (settleLedger c ctx request record nextStatus) (\<lambda>_.
               bindS (attS (\<lambda>s. UpsertLeaveRecord s (settledRecord c nextStatus record))) (\<lambda>_.
                 attS (\<lambda>s. UpsertLeaveRequest s (settledRequest c kind nextStatus request)))))))"

section \<open>The decision on an overtime request\<close>

abbreviation (input) overtimeCompensationLeave :: string where "overtimeCompensationLeave \<equiv> ''leave''"
abbreviation (input) leaveTypeCodeCompensatory :: string where "leaveTypeCodeCompensatory \<equiv> ''compensatory''"

definition overtimeRequestOf :: "RequestContext \<Rightarrow> FormInstance \<Rightarrow> app_state \<Rightarrow> OvertimeRequest option" where
  "overtimeRequestOf ctx instance s =
     reviewedRequest (GetOvertimeRequestByFormInstanceID (ap_att s) (ctx_TenantID ctx) (fi_ID instance))
       (workflowLinkedOvertimeRequestID instance) (GetOvertimeRequest (ap_att s) (ctx_TenantID ctx)) otr_FormInstanceID instance"

definition compensatory_anchor :: "app_env \<Rightarrow> RequestContext \<Rightarrow> OvertimeRequest \<Rightarrow> LeaveBalance" where
  "compensatory_anchor c ctx request =
     (let leaveTypeID = StableLeaveTypeID leaveTypeCodeCompensatory; year = business_year (otr_StartAt request) in
      zero_LeaveBalance\<lparr>
        lb_ID := ehrmsStableID c ''lb-nexus'' [ctx_TenantID ctx, otr_EmployeeID request, leaveTypeID, int_string year],
        lb_TenantID := ctx_TenantID ctx, lb_EmployeeID := otr_EmployeeID request,
        lb_LeaveType := leaveTypeCodeCompensatory, lb_LeaveTypeID := leaveTypeID, lb_EntitlementYear := year,
        lb_Source := ''nexus'', lb_UpdatedAt := ap_now c\<rparr>)"

definition credit_entry :: "app_env \<Rightarrow> RequestContext \<Rightarrow> OvertimeRequest \<Rightarrow> string \<Rightarrow> string \<Rightarrow> LeaveBalanceEntry" where
  "credit_entry c ctx request balanceID i = zero_LeaveBalanceEntry\<lparr>
     lbe_ID := i, lbe_TenantID := ctx_TenantID ctx, lbe_EmployeeID := otr_EmployeeID request,
     lbe_LeaveTypeID := StableLeaveTypeID leaveTypeCodeCompensatory, lbe_BalanceID := balanceID,
     lbe_EntitlementYear := business_year (otr_StartAt request), lbe_EntryType := leaveBalanceEntryOvertimeCredit,
     lbe_AmountMinutes := leaveMinutes (otr_Hours request),
     lbe_IdempotencyKey := ''overtime-request:'' @ otr_ID request @ '':credit'',
     lbe_OccurredAt := ap_now c, lbe_CreatedAt := ap_now c\<rparr>"

definition creditCompensatoryLeaveBalance :: "app_env \<Rightarrow> RequestContext \<Rightarrow> OvertimeRequest \<Rightarrow> unit aop" where
  "creditCompensatoryLeaveBalance c ctx request =
     (if leaveMinutes (otr_Hours request) \<le> 0 then retS ()
      else bindS (\<lambda>s. case EnsureLocalLeaveBalanceAnchor (ap_att s) (compensatory_anchor c ctx request) of
              Inl e \<Rightarrow> (Inl e, s) | Inr (anchor, a) \<Rightarrow> (Inr anchor, s\<lparr>ap_att := a\<rparr>)) (\<lambda>anchor.
           bindS (newIDS c ''lbe'') (\<lambda>i.
             attS (\<lambda>s. snd (AppendStandaloneLeaveBalanceEntry s (credit_entry c ctx request (lb_ID anchor) i))))))"

definition settledOvertime :: "app_env \<Rightarrow> string \<Rightarrow> string \<Rightarrow> OvertimeRequest \<Rightarrow> OvertimeRequest" where
  "settledOvertime c kind nextStatus request =
     (let effects = map_put ''workflow_action'' (VStr (ToLower (TrimSpace kind))) (CopyStringMap (otr_EffectResult request));
          request = request\<lparr>otr_Status := nextStatus, otr_UpdatedAt := ap_now c\<rparr>
      in if nextStatus = ''approved''
         then request\<lparr>otr_EffectStatus := ''applied'', otr_EffectAppliedAt := Some (ap_now c),
                otr_EffectResult := map_put ''overtime_applied'' (VBool True) effects\<rparr>
         else request\<lparr>otr_EffectStatus := ''compensated'', otr_EffectAppliedAt := None, otr_EffectResult := effects\<rparr>)"

definition applyOvertimeWorkflowReview :: "app_env \<Rightarrow> RequestContext \<Rightarrow> FormInstance \<Rightarrow> string \<Rightarrow> string \<Rightarrow> unit aop" where
  "applyOvertimeWorkflowReview c ctx instance kind status =
     bindS (getS (overtimeRequestOf ctx instance)) (\<lambda>found. case found of
       None \<Rightarrow> retS ()
     | Some request \<Rightarrow>
         bindS (tryS (workflowApplicantEmployeeID ctx instance)) (\<lambda>applicantEmployeeID.
           if TrimSpace (otr_EmployeeID request) \<noteq> applicantEmployeeID
           then failS (Conflict ''linked overtime request does not belong to the form applicant'')
           else let nextStatus = leaveRequestStatusForWorkflow kind status in
             if already_settled nextStatus (otr_EffectStatus request) then retS ()
             else bindS (if nextStatus = ''approved'' \<and> EqualFold (otr_CompensationType request) overtimeCompensationLeave
                         then creditCompensatoryLeaveBalance c ctx request else retS ()) (\<lambda>_.
                  attS (\<lambda>s. UpsertOvertimeRequest s (settledOvertime c kind nextStatus request)))))"

section \<open>The decision on a correction\<close>

abbreviation (input) correctionStatusPending :: string where "correctionStatusPending \<equiv> ''pending''"
abbreviation (input) correctionStatusApproved :: string where "correctionStatusApproved \<equiv> ''approved''"
abbreviation (input) correctionStatusRejected :: string where "correctionStatusRejected \<equiv> ''rejected''"
abbreviation (input) correctionTypeAddRecord :: string where "correctionTypeAddRecord \<equiv> ''add_record''"
abbreviation (input) correctionTypeVoidRecord :: string where "correctionTypeVoidRecord \<equiv> ''void_record''"
abbreviation (input) correctionTypeReplaceRecord :: string where "correctionTypeReplaceRecord \<equiv> ''replace_record''"
abbreviation (input) clockSourceManualCorrection :: string where "clockSourceManualCorrection \<equiv> ''manual_correction''"

definition normalizeClockDirection :: "string \<Rightarrow> string res" where
  "normalizeClockDirection value =
     (let value = ToLower (TrimSpace value) in
      if value = clockDirectionIn then Inr clockDirectionIn
      else if value = clockDirectionOut then Inr clockDirectionOut
      else Inl (AppErr (BadRequest ''direction must be clock_in or clock_out'')))"

definition normalizeAttendanceCorrectionType :: "string \<Rightarrow> string res" where
  "normalizeAttendanceCorrectionType value =
     (let value = ToLower (TrimSpace value) in
      if value = [] \<or> value = correctionTypeAddRecord then Inr correctionTypeAddRecord
      else if value = correctionTypeVoidRecord then Inr correctionTypeVoidRecord
      else if value = correctionTypeReplaceRecord then Inr correctionTypeReplaceRecord
      else Inl (AppErr (BadRequest ''correction_type must be add_record, void_record, or replace_record'')))"

definition findAttendanceClockRecord :: "RequestContext \<Rightarrow> string \<Rightarrow> string \<Rightarrow> app_state \<Rightarrow> AttendanceClockRecord option" where
  "findAttendanceClockRecord ctx employeeID recordID s =
     find (\<lambda>r. acr_ID r = recordID)
       (ListAttendanceClockRecords (ap_att s) (ctx_TenantID ctx) (zero_AttendanceClockRecordQuery\<lparr>crq_EmployeeID := employeeID\<rparr>))"

definition upsertPunch :: "AttendanceClockRecord \<Rightarrow> unit aop" where
  "upsertPunch v = (\<lambda>s. case UpsertAttendanceClockRecord (ap_att s) v of
     Inl e \<Rightarrow> (Inl e, s) | Inr a \<Rightarrow> (Inr (), s\<lparr>ap_att := a\<rparr>))"

definition voidedPunch :: "string \<Rightarrow> string \<Rightarrow> string \<Rightarrow> int \<Rightarrow> AttendanceClockRecord \<Rightarrow> AttendanceClockRecord" where
  "voidedPunch reviewerID voidReason reason now target = target\<lparr>
     acr_Voided := True, acr_VoidedAt := Some now, acr_VoidedByAccountID := reviewerID,
     acr_VoidReason := (if TrimSpace voidReason = [] then reason else TrimSpace voidReason)\<rparr>"

definition voidTarget :: "RequestContext \<Rightarrow> AttendanceCorrectionRequest \<Rightarrow> string \<Rightarrow> string \<Rightarrow> int \<Rightarrow> unit aop" where
  "voidTarget ctx current reviewerID voidReason now =
     bindS (foundS (NotFound ''attendance clock record'' (acq_TargetClockRecordID current))
         (findAttendanceClockRecord ctx (acq_EmployeeID current) (acq_TargetClockRecordID current))) (\<lambda>target.
       if acr_Voided target
       then failS (WithReasonCode (BadRequest ''target clock record is already voided'') ''attendance_correction_invalid_state'')
       else if \<not> EqualFold (acr_RecordStatus target) clockRecordStatusAccepted
       then failS (WithReasonCode (BadRequest ''only accepted clock records can be voided'') ''attendance_correction_invalid_state'')
       else upsertPunch (voidedPunch reviewerID voidReason (acq_Reason current) now target))"

definition correctionPunch :: "RequestContext \<Rightarrow> AttendanceCorrectionRequest \<Rightarrow> int \<Rightarrow> string \<Rightarrow> AttendanceClockRecord" where
  "correctionPunch ctx current now i = zero_AttendanceClockRecord\<lparr>
     acr_ID := i, acr_TenantID := ctx_TenantID ctx, acr_EmployeeID := acq_EmployeeID current,
     acr_WorkDate := acq_WorkDate current, acr_Direction := acq_Direction current,
     acr_ClockedAt := acq_RequestedClockedAt current, acr_LocationCaptured := False,
     acr_RecordStatus := clockRecordStatusAccepted, acr_Source := clockSourceManualCorrection,
     acr_CorrectionRequestID := acq_ID current, acr_CreatedAt := now\<rparr>"

definition applyApprovedAttendanceCorrection :: "app_env \<Rightarrow> RequestContext \<Rightarrow> AttendanceCorrectionRequest \<Rightarrow> string \<Rightarrow> string \<Rightarrow> int \<Rightarrow>
    AttendanceCorrectionRequest aop" where
  "applyApprovedAttendanceCorrection c ctx current reviewerID voidReason now =
     bindS (liftS (normalizeAttendanceCorrectionType (acq_CorrectionType current))) (\<lambda>correctionType.
     let current = current\<lparr>acq_CorrectionType := correctionType\<rparr> in
     bindS (if correctionType \<in> {correctionTypeVoidRecord, correctionTypeReplaceRecord}
            then voidTarget ctx current reviewerID voidReason now else retS ()) (\<lambda>_.
       if correctionType = correctionTypeVoidRecord then retS current
       else bindS (getS (\<lambda>s. GetEarliestAcceptedAttendanceClockIn (ap_att s) (ctx_TenantID ctx)
                     (acq_EmployeeID current) (acq_WorkDate current))) (\<lambda>existing.
         if acq_Direction current = clockDirectionIn \<and> existing \<noteq> None
         then failS (WithReasonCode (Conflict ''accepted clock-in record already exists'') ''attendance_clock_sequence_conflict'')
         else bindS (newIDS c ''acr'') (\<lambda>i.
           bindS (upsertPunch (correctionPunch ctx current now i)) (\<lambda>_.
             retS (let current = current\<lparr>acq_ClockRecordID := i\<rparr> in
                   if correctionType = correctionTypeReplaceRecord
                   then current\<lparr>acq_ReplacementClockRecordID := i\<rparr> else current))))))"

definition correctionVerdict :: "string \<Rightarrow> string option" where
  "correctionVerdict kind =
     (let kind = ToLower (TrimSpace kind) in
      if kind = ''approve'' then Some correctionStatusApproved
      else if kind \<in> {''reject'', ''return'', ''cancel''} then Some correctionStatusRejected else None)"

definition claimCorrection :: "app_env \<Rightarrow> RequestContext \<Rightarrow> FormInstance \<Rightarrow> (AttendanceCorrectionRequest \<times> bool) aop" where
  "claimCorrection c ctx instance = (\<lambda>s.
     let ((current, claimed), a) = ClaimAttendanceCorrectionReview (ap_att s) (ctx_TenantID ctx) (fi_ID instance)
           (TrimSpace (ctx_AccountID ctx)) (ap_now c)
     in (Inr (current, claimed), s\<lparr>ap_att := a\<rparr>))"

definition applyCorrectionWorkflowReview :: "app_env \<Rightarrow> RequestContext \<Rightarrow> FormInstance \<Rightarrow> string \<Rightarrow> unit aop" where
  "applyCorrectionWorkflowReview c ctx instance kind =
     (case correctionVerdict kind of
        None \<Rightarrow> retS ()
      | Some nextStatus \<Rightarrow>
          bindS (claimCorrection c ctx instance) (\<lambda>(current, claimed).
            if \<not> claimed then retS ()
            else let now = ap_now c; reviewer = TrimSpace (ctx_AccountID ctx);
                     current = current\<lparr>acq_Status := nextStatus, acq_ReviewedByAccountID := reviewer,
                       acq_ReviewedAt := Some now, acq_UpdatedAt := now\<rparr> in
              bindS (if nextStatus = correctionStatusApproved
                     then bindS (applyApprovedAttendanceCorrection c ctx current reviewer (acq_ReviewReason current) now)
                       (\<lambda>current. retS (current\<lparr>acq_EffectStatus := ''applied'', acq_EffectAppliedAt := Some now\<rparr>))
                     else retS (current\<lparr>acq_EffectStatus := ''compensated'', acq_EffectAppliedAt := None\<rparr>)) (\<lambda>current.
              bindS (attS (\<lambda>s. UpsertAttendanceCorrectionRequest s current)) (\<lambda>_.
                auditS c ctx (if nextStatus = correctionStatusApproved then ''attendance.correction.approve''
                              else ''attendance.correction.reject'') ResourceAttendanceCorrection (acq_ID current) ''high''
                  [(''employee_id'', VStr (acq_EmployeeID current)), (''direction'', VStr (acq_Direction current)),
                   (''status'', VStr (acq_Status current)), (''via'', VStr ''workflow'')]))))"

definition applyAttendanceWorkflowReview :: "app_env \<Rightarrow> RequestContext \<Rightarrow> FormInstance \<Rightarrow> string \<Rightarrow> string \<Rightarrow> unit aop" where
  "applyAttendanceWorkflowReview c ctx instance kind status =
     bindS (applyLeaveWorkflowReview c ctx instance kind status) (\<lambda>_.
     bindS (applyCorrectionWorkflowReview c ctx instance kind) (\<lambda>_.
       applyOvertimeWorkflowReview c ctx instance kind status))"

end
