(* ===== verification/Workflow_Notice.thy ===== *)
theory Workflow_Notice
  imports Attendance_Review
begin

text \<open>
  What a workflow step tells people and writes into the form: notifications and their recipients
  (\<open>src/internal/service/workflow_notification_service.go\<close>), the review that is kept in
  the payload of a form and what a submitter may put there (\<open>workflow_payload_service.go\<close>).
\<close>

section \<open>Timestamps\<close>

text \<open>\<open>time.RFC3339Nano\<close> in UTC: the fraction of a second without trailing zeros.\<close>

definition trim_zeros :: "string \<Rightarrow> string" where
  "trim_zeros s = rev (dropWhile (\<lambda>ch. ch = CHR ''0'') (rev s))"

definition rfc3339 :: "int \<Rightarrow> string" where
  "rfc3339 t =
     (let ns = t mod day_len; second = ns div 1000000000; nano = ns mod 1000000000;
          two = (\<lambda>n. pad 2 (int_string n))
      in formatDateOnly (t div day_len) @ ''T'' @ two (second div 3600) @ '':'' @ two (second div 60 mod 60) @ '':'' @
         two (second mod 60) @ (if nano = 0 then [] else ''.'' @ trim_zeros (pad 9 (int_string nano))) @ ''Z'')"

definition apiTimestamp :: "int \<Rightarrow> string" where
  "apiTimestamp value = (if value = 0 then [] else rfc3339 value)"

section \<open>The payload of a form\<close>

record workflowReviewPayload =
  wrp_Type :: string
  wrp_AccountID :: string
  wrp_Comment :: string
  wrp_Time :: string

abbreviation (input) workflowReviewPayloadKey :: string where "workflowReviewPayloadKey \<equiv> ''_review''"

definition toMap :: "workflowReviewPayload \<Rightarrow> params" where
  "toMap r = [(''type'', VStr (wrp_Type r)), (''account_id'', VStr (wrp_AccountID r)),
     (''comment'', VStr (wrp_Comment r)), (''time'', VStr (wrp_Time r))]"

text \<open>The review is read through JSON: the value must be an object (or null) whose known fields are strings.\<close>

definition workflowReviewFromPayload :: "params \<Rightarrow> workflowReviewPayload option" where
  "workflowReviewFromPayload payload =
     (let read = (\<lambda>m. case (json_string_field m ''type'', json_string_field m ''account_id'',
                            json_string_field m ''comment'', json_string_field m ''time'') of
             (Some ty, Some ac, Some co, Some ti) \<Rightarrow>
               if TrimSpace ty = [] then None
               else Some \<lparr>wrp_Type = ty, wrp_AccountID = ac, wrp_Comment = co, wrp_Time = ti\<rparr>
           | _ \<Rightarrow> None)
      in case map_of payload workflowReviewPayloadKey of
           Some (VMap m) \<Rightarrow> read m
         | Some (VStrMap m) \<Rightarrow> read (map (\<lambda>(k, v). (k, VStr v)) m)
         | _ \<Rightarrow> None)"

definition withWorkflowReview :: "params \<Rightarrow> string \<Rightarrow> string \<Rightarrow> string \<Rightarrow> int \<Rightarrow> params" where
  "withWorkflowReview payload kind accountID comment at_time =
     map_put workflowReviewPayloadKey (VMap (toMap \<lparr>wrp_Type = kind, wrp_AccountID = accountID,
       wrp_Comment = TrimSpace comment, wrp_Time = apiTimestamp at_time\<rparr>)) (CopyStringMap payload)"

definition workflowServerOwnedPayloadTokens :: "string list" where
  "workflowServerOwnedPayloadTokens =
     [''applicantaccountid'', ''approvalstatus'', ''approvedby'', ''currentrunid'', ''employeeid'', ''forminstanceid'',
      ''formstatus'', ''linkedresourceid'', ''linkedresourcestatus'', ''linkedresourcetype'', ''leaverequestid'',
      ''leaverequeststatus'', ''overtimerequestid'', ''overtimerequeststatus'', ''reviewstatus'', ''serverstatus'',
      ''submittedat'', ''templateid'', ''templateversionid'', ''tenantid'', ''updatedat'', ''workflowstatus'']"

definition workflowServerOwnsPayloadKey :: "string \<Rightarrow> bool" where
  "workflowServerOwnsPayloadKey key =
     (let key = TrimSpace key in
      if key = [] then False
      else if HasPrefix key ''_'' then True
      else let token = filter (\<lambda>ch. ch \<notin> set ''_-.'') (ToLower key) in
        if HasPrefix token ''linkedresource'' then True
        else token \<in> set workflowServerOwnedPayloadTokens)"

definition requireFormInstanceVisible :: "FormInstance \<Rightarrow> Account \<Rightarrow> CheckResult \<Rightarrow> unit res" where
  "requireFormInstanceVisible instance account decision =
     (if res_Scope decision \<in> {ScopeSelf, ScopeOwn} \<and> fi_ApplicantAccountID instance \<noteq> acc_ID account
      then Inl (AppErr (NotFound ''form instance'' (fi_ID instance))) else Inr ())"

definition unsafe_char :: "char \<Rightarrow> bool" where
  "unsafe_char ch \<longleftrightarrow> ch \<in> set [CHR ''/'', CHR 0x5C, CHR '':'', CHR ''*'', CHR ''?'', CHR 0x22, CHR ''<'', CHR ''>'', CHR ''|'', CHR '' '']"

definition trim_dashes :: "string \<Rightarrow> string" where
  "trim_dashes s = (let cut = dropWhile (\<lambda>ch. ch = CHR ''-'') in rev (cut (rev (cut s))))"

definition safeWorkflowFileName :: "string \<Rightarrow> string" where
  "safeWorkflowFileName value =
     (let value = ToLower (TrimSpace value) in
      if value = [] then ''workflow-form''
      else let value = trim_dashes (map (\<lambda>ch. if unsafe_char ch then CHR ''-'' else ch) value) in
        if value = [] then ''workflow-form'' else value)"

section \<open>Notifications\<close>

definition word_form :: string where "word_form = runes [34920, 21934, 30003, 35531]"
definition word_system :: string where "word_system = runes [31995, 32113]"
definition word_open :: string where "word_open = runes [12300]"
definition word_close :: string where "word_close = runes [12301]"

definition workflowNotificationTemplateTitle :: "FormTemplate \<Rightarrow> FormInstance \<Rightarrow> string" where
  "workflowNotificationTemplateTitle template instance =
     FirstNonEmpty [ft_Name template, ft_Key template, ft_ID template, fi_TemplateID instance, word_form]"

definition workflowNotificationID :: "string \<Rightarrow> string \<Rightarrow> string" where
  "workflowNotificationID kind instanceID = safeWorkflowFileName (''notif-workflow-'' @ kind @ ''-'' @ instanceID)"

definition workflowNotificationTime :: "FormInstance \<Rightarrow> int \<Rightarrow> int" where
  "workflowNotificationTime instance fallback =
     (if fi_UpdatedAt instance \<noteq> 0 then fi_UpdatedAt instance
      else if fi_SubmittedAt instance \<noteq> 0 then fi_SubmittedAt instance else fallback)"

definition workflowAccountLabel :: "Account \<Rightarrow> string" where
  "workflowAccountLabel account = FirstNonEmpty [acc_DisplayName account, acc_Email account, acc_ID account, word_system]"

definition workflowReviewNotificationCopy :: "string \<Rightarrow> string \<Rightarrow> string \<times> string \<times> string \<times> string" where
  "workflowReviewNotificationCopy kind title =
     (let kind = ToLower (TrimSpace kind); yours = runes [20320, 30340] @ word_open @ title @ word_close in
      if kind = ''approve'' then (''success'', runes [24050, 35208, 28310], yours @ runes [24050, 35208, 28310], runes [24050, 35208, 28310, 36889, 31558, 30003, 35531])
      else if kind = ''return'' then (''warning'', runes [24050, 36864, 22238], yours @ runes [24050, 36864, 22238, 35036, 20214], runes [24050, 36864, 22238, 36889, 31558, 30003, 35531])
      else (''warning'', runes [24050, 39361, 22238], yours @ runes [24050, 39361, 22238], runes [24050, 39361, 22238, 36889, 31558, 30003, 35531]))"

definition validWorkflowNotificationRecipients :: "RequestContext \<Rightarrow> string list \<Rightarrow> app_state \<Rightarrow> string list" where
  "validWorkflowNotificationRecipients ctx recipientIDs s =
     filter (\<lambda>i. case GetAccount (ap_mem s) (ctx_TenantID ctx) i of
         None \<Rightarrow> False
       | Some account \<Rightarrow> acc_Status account \<noteq> AccountStatusDisabled \<and> acc_Status account \<noteq> AccountStatusPendingInvite)
       (uniqueWorkflowRecipientIDs recipientIDs)"

definition addressed :: "RequestContext \<Rightarrow> int \<Rightarrow> string \<Rightarrow> Notification \<Rightarrow> Notification" where
  "addressed ctx now freshID n =
     (let n = (if ntf_ID n = [] then n\<lparr>ntf_ID := freshID\<rparr> else n);
          n = (if ntf_TenantID n = [] then n\<lparr>ntf_TenantID := ctx_TenantID ctx\<rparr> else n)
      in if ntf_CreatedAt n = 0 then n\<lparr>ntf_CreatedAt := now\<rparr> else n)"

definition deliverWorkflowNotification :: "app_env \<Rightarrow> RequestContext \<Rightarrow> Notification \<Rightarrow> string list \<Rightarrow> unit aop" where
  "deliverWorkflowNotification c ctx notification recipientIDs =
     bindS (getS (validWorkflowNotificationRecipients ctx recipientIDs)) (\<lambda>recipients.
       if recipients = [] then retS ()
       else bindS (if ntf_ID notification = [] then newIDS c ''notif'' else retS []) (\<lambda>i.
         let n = addressed ctx (ap_now c) i notification in
         bindS (wfS (\<lambda>s. UpsertNotification s n)) (\<lambda>_.
           eachS (\<lambda>accountID. wfS (\<lambda>s. UpsertNotificationRecipient s (zero_NotificationRecipient\<lparr>
             ntr_NotificationID := ntf_ID n, ntr_TenantID := ntf_TenantID n, ntr_AccountID := accountID,
             ntr_CreatedAt := ntf_CreatedAt n\<rparr>))) recipients)))"

definition notifyWorkflowFormReviewed :: "app_env \<Rightarrow> RequestContext \<Rightarrow> FormInstance \<Rightarrow> FormTemplate \<Rightarrow> Account \<Rightarrow> string \<Rightarrow> string \<Rightarrow> unit aop" where
  "notifyWorkflowFormReviewed c ctx instance template reviewer kind reason =
     (if TrimSpace (fi_ApplicantAccountID instance) = [] then retS ()
      else let title = workflowNotificationTemplateTitle template instance;
               (tone, statusText, notificationTitle, actionText) = workflowReviewNotificationCopy kind title;
               body = runes [30001] @ '' '' @ workflowAccountLabel reviewer @ '' '' @ actionText @ runes [12290];
               body = (if TrimSpace reason = [] then body else body @ '' '' @ runes [23529, 26680, 24847, 35211, 65306] @ TrimSpace reason)
           in deliverWorkflowNotification c ctx (zero_Notification\<lparr>
                ntf_ID := workflowNotificationID (''review-'' @ kind) (fi_ID instance), ntf_TenantID := ctx_TenantID ctx,
                ntf_Tone := tone, ntf_Category := ''workflow'', ntf_Title := notificationTitle, ntf_Body := body,
                ntf_StatusText := statusText, ntf_LinkURL := ''/forms?applicationId='' @ fi_ID instance,
                ntf_SourceType := ''workflow.form.review_result'', ntf_SourceID := fi_ID instance @ '':'' @ kind,
                ntf_CreatedByAccountID := acc_ID reviewer,
                ntf_CreatedAt := workflowNotificationTime instance (ap_now c)\<rparr>) [fi_ApplicantAccountID instance])"

definition notifyWorkflowPendingApprovers :: "app_env \<Rightarrow> RequestContext \<Rightarrow> FormInstance \<Rightarrow> FormTemplate \<Rightarrow> Account \<Rightarrow>
    WorkflowStageDefinition \<Rightarrow> string list \<Rightarrow> unit aop" where
  "notifyWorkflowPendingApprovers c ctx instance template applicant stage assigneeIDs =
     (let title = workflowNotificationTemplateTitle template instance;
          body = workflowAccountLabel applicant @ '' '' @ runes [25552, 20132, 20102, 12300] @ title @ runes [12301, 65292, 30446, 21069, 22312, 12300] @ wsd_Label stage @ runes [12301, 24453, 24744, 23529, 26680, 12290]
      in deliverWorkflowNotification c ctx (zero_Notification\<lparr>
           ntf_ID := workflowNotificationID (''pending-'' @ wsd_ID stage) (fi_ID instance), ntf_TenantID := ctx_TenantID ctx,
           ntf_Tone := ''warning'', ntf_Category := ''workflow'', ntf_Title := runes [24453, 23529, 26680, 65306] @ title, ntf_Body := body,
           ntf_StatusText := runes [24453, 34389, 29702], ntf_LinkURL := ''/notifications?reviewId='' @ fi_ID instance,
           ntf_SourceType := ''workflow.form.pending'', ntf_SourceID := fi_ID instance @ '':'' @ wsd_ID stage,
           ntf_CreatedByAccountID := acc_ID applicant, ntf_CreatedAt := ap_now c\<rparr>) assigneeIDs)"

definition notify_stage_note :: "app_env \<Rightarrow> RequestContext \<Rightarrow> WorkflowRun \<Rightarrow> WorkflowStageDefinition \<Rightarrow> Account \<Rightarrow> string \<Rightarrow> Notification" where
  "notify_stage_note c ctx run stage applicant title = zero_Notification\<lparr>
     ntf_ID := workflowNotificationID (''notify-'' @ wsd_ID stage) (wr_FormInstanceID run), ntf_TenantID := ctx_TenantID ctx,
     ntf_Tone := ''info'', ntf_Category := ''workflow'', ntf_Title := runes [30693, 26371, 65306] @ title,
     ntf_Body := workflowAccountLabel applicant @ '' '' @ runes [25552, 20132, 20102, 12300] @ title @ runes [12301, 65292, 35531, 30693, 24713, 12290], ntf_StatusText := runes [30693, 26371],
     ntf_LinkURL := ''/notifications?reviewId='' @ wr_FormInstanceID run, ntf_SourceType := ''workflow.form.notify'',
     ntf_SourceID := wr_FormInstanceID run @ '':'' @ wsd_ID stage, ntf_CreatedByAccountID := acc_ID applicant,
     ntf_CreatedAt := ap_now c\<rparr>"

definition reminder_note :: "app_env \<Rightarrow> RequestContext \<Rightarrow> FormInstance \<Rightarrow> WorkflowStageInstance \<Rightarrow> string \<Rightarrow> string \<Rightarrow> Notification" where
  "reminder_note c ctx instance stageInstance title currentLabel = zero_Notification\<lparr>
     ntf_ID := workflowNotificationID (''reminder-'' @ wsi_ID stageInstance) (fi_ID instance), ntf_TenantID := ctx_TenantID ctx,
     ntf_Tone := ''warning'', ntf_Category := ''workflow'', ntf_Title := runes [20652, 36774, 65306] @ title,
     ntf_Body := word_open @ title @ runes [12301, 22312, 12300] @ FirstNonEmpty [wsi_Label stageInstance, currentLabel, wsi_StageID stageInstance] @
       runes [12301, 24050, 31561, 24453, 36229, 36942, 35373, 23450, 26178, 38291, 65292, 35531, 30433, 24555, 34389, 29702, 12290],
     ntf_StatusText := runes [24453, 34389, 29702], ntf_LinkURL := ''/notifications?reviewId='' @ fi_ID instance,
     ntf_SourceType := ''workflow.form.reminder'', ntf_SourceID := fi_ID instance @ '':'' @ wsi_ID stageInstance,
     ntf_CreatedByAccountID := ''system'', ntf_CreatedAt := ap_now c\<rparr>"

definition stringSliceContains :: "val \<Rightarrow> string \<Rightarrow> bool" where
  "stringSliceContains value target =
     (case value of VStrs items \<Rightarrow> target \<in> set items
      | VList items \<Rightarrow> list_ex (\<lambda>item. stringFromAny item = target) items
      | _ \<Rightarrow> False)"

end
