(* ===== verification/Workflow_Runtime.thy ===== *)
theory Workflow_Runtime
  imports Workflow_Notice
begin

text \<open>
  The approval engine (\<open>src/internal/service/workflow_runtime_service.go\<close>): who has to act on a
  stage, how a run moves through notifications, conditions and approvals, and what an assignee's
  approve, reject or return does, with its idempotency key and transaction.

  The loop of \<open>advanceWorkflowAt\<close> has the bound of the source, two more than the number of
  stages; \<open>advance_loop\<close> recurses on the hops that are left.
\<close>

section \<open>Who acts\<close>

definition resolveWorkflowApplicantEmployee :: "app_env \<Rightarrow> RequestContext \<Rightarrow> Account \<Rightarrow> app_state \<Rightarrow> Employee res" where
  "resolveWorkflowApplicantEmployee c ctx applicant s =
     (if TrimSpace (acc_EmployeeID applicant) = []
      then Inl (AppErr (BadRequest ''applicant employee is required for workflow routing''))
      else case getBusinessEmployee c ctx (acc_EmployeeID applicant) s of
          None \<Rightarrow> Inl (AppErr (NotFound ''employee'' (acc_EmployeeID applicant)))
        | Some employee \<Rightarrow> Inr employee)"

definition accountIDsForEmployeeIDs :: "app_env \<Rightarrow> RequestContext \<Rightarrow> string list \<Rightarrow> app_state \<Rightarrow> string list" where
  "accountIDsForEmployeeIDs c ctx employeeIDs s =
     uniqueWorkflowRecipientIDs (List.map_filter (\<lambda>i. case getBusinessEmployee c ctx i s of
         None \<Rightarrow> None
       | Some employee \<Rightarrow> if TrimSpace (emp_AccountID employee) = [] then None else Some (emp_AccountID employee))
       (uniqueWorkflowRecipientIDs employeeIDs))"

definition resolveRoleAssignees :: "app_env \<Rightarrow> RequestContext \<Rightarrow> Employee \<Rightarrow> string list \<Rightarrow> app_state \<Rightarrow> string list" where
  "resolveRoleAssignees c ctx applicant keywords s =
     (let out = map emp_AccountID (filter (\<lambda>employee. emp_AccountID employee \<noteq> [] \<and>
            list_ex (\<lambda>keyword. strings_Contains (ToLower (TrimSpace (emp_Position employee))) (ToLower keyword)) keywords)
            (businessEmployees c ctx s))
      in if out = [] \<and> emp_ManagerEmployeeID applicant \<noteq> []
         then accountIDsForEmployeeIDs c ctx [emp_ManagerEmployeeID applicant] s
         else uniqueWorkflowRecipientIDs out)"

definition effectiveManagerEmployeeID :: "app_env \<Rightarrow> RequestContext \<Rightarrow> Employee \<Rightarrow> int \<Rightarrow> app_state \<Rightarrow> string" where
  "effectiveManagerEmployeeID c ctx employee levels s =
     TrimSpace (em_ManagerEmployeeID (ResolveEffectiveManagerChain employee (businessEmployees c ctx s)
       (ListOrgUnits (ap_mem s) (ctx_TenantID ctx)) (ap_now c) levels))"

definition headKeywords :: "string list" where "headKeywords = [runes [20027, 31649], runes [37096, 38272, 20027, 31649], ''head'']"
definition hrKeywords :: "string list" where "hrKeywords = [''hr'', ''human resource'', runes [20154, 36039]]"
definition financeKeywords :: "string list" where "financeKeywords = [''finance'', runes [36001, 21209]]"
definition ceoKeywords :: "string list" where "ceoKeywords = [''ceo'', runes [32317, 32147, 29702], ''general manager'']"

definition assigneesByRole :: "app_env \<Rightarrow> RequestContext \<Rightarrow> Account \<Rightarrow> Employee \<Rightarrow> WorkflowStageConfig \<Rightarrow> app_state \<Rightarrow> string list res" where
  "assigneesByRole c ctx applicant employee config s =
     (let role = (if TrimSpace (wsc_Role config) = [] then ''manager'' else TrimSpace (wsc_Role config));
          byManager = (\<lambda>level. accountIDsForEmployeeIDs c ctx [effectiveManagerEmployeeID c ctx employee level s] s);
          level = (if wsc_RelativeLevel config \<le> 0 then 1 else wsc_RelativeLevel config)
      in if role = ''applicant'' then Inr [acc_ID applicant]
         else if role = ''manager'' then Inr (byManager 1)
         else if role = ''relative'' then
           (if effectiveManagerEmployeeID c ctx employee level s = []
            then Inl (AppErr (BadRequest ''unable to resolve relative approver'')) else Inr (byManager level))
         else if role = ''dept-head'' then Inr (resolveRoleAssignees c ctx employee headKeywords s)
         else if role = ''hr'' then Inr (resolveRoleAssignees c ctx employee hrKeywords s)
         else if role = ''finance'' then Inr (resolveRoleAssignees c ctx employee financeKeywords s)
         else if role = ''ceo'' then Inr (resolveRoleAssignees c ctx employee ceoKeywords s)
         else Inr (byManager 1))"

definition resolveWorkflowAssignees :: "app_env \<Rightarrow> RequestContext \<Rightarrow> Account \<Rightarrow> WorkflowStageDefinition \<Rightarrow> app_state \<Rightarrow> string list res" where
  "resolveWorkflowAssignees c ctx applicant stage s =
     (if wsc_AccountIDs (wsd_Config stage) \<noteq> [] then Inr (uniqueWorkflowRecipientIDs (wsc_AccountIDs (wsd_Config stage)))
      else if wsc_UserGroupIDs (wsd_Config stage) \<noteq> []
      then Inl (AppErr (WithReasonCode (BadRequest ''workflow user_group_ids targeting is retired; assign an approval role instead'')
             ''workflow_user_group_retired''))
      else bindR (resolveWorkflowApplicantEmployee c ctx applicant s) (\<lambda>employee.
             assigneesByRole c ctx applicant employee (wsd_Config stage) s))"

definition workflowAssigneeCanAct :: "WorkflowStageAssignee list \<Rightarrow> string \<Rightarrow> bool" where
  "workflowAssigneeCanAct assignees accountID =
     list_ex (\<lambda>a. wsa_AccountID a = accountID \<and> wsa_Status a = WorkflowAssigneeStatusPending) assignees"

section \<open>Actions\<close>

definition workflowCommandFingerprint :: "app_env \<Rightarrow> string \<Rightarrow> string \<Rightarrow> string \<Rightarrow> string \<Rightarrow> string" where
  "workflowCommandFingerprint c runID accountID action reason =
     ''sha256:'' @ ap_sha256 c (Join [TrimSpace runID, TrimSpace accountID, ToLower (TrimSpace action), TrimSpace reason] [CHR 0x00])"

definition keyed_actions :: "string list" where
  "keyed_actions = [FormApprovalWorkflowActionApprove, FormApprovalWorkflowActionReject, FormApprovalWorkflowActionReturn,
     FormApprovalWorkflowActionWithdraw]"

definition action_row :: "app_env \<Rightarrow> RequestContext \<Rightarrow> WorkflowRun \<Rightarrow> WorkflowStageInstance \<Rightarrow> string \<Rightarrow> string \<Rightarrow> string \<Rightarrow> WorkflowAction" where
  "action_row c ctx run stageInstance action comment i =
     (let accountID = TrimSpace (ctx_AccountID ctx);
          accountID = (if accountID = [] \<and> (action = ''notify'' \<or> action = ''auto_condition'') then ''system'' else accountID);
          key = (if ToLower (TrimSpace action) \<in> set keyed_actions then TrimSpace (ctx_IdempotencyKey ctx) else [])
      in \<lparr>wac_ID = i, wac_TenantID = ctx_TenantID ctx, wac_RunID = wr_ID run, wac_StageInstanceID = wsi_ID stageInstance,
          wac_AccountID = accountID, wac_Action = action, wac_Comment = TrimSpace comment, wac_IdempotencyKey = key,
          wac_CommandFingerprint = (if key = [] then [] else workflowCommandFingerprint c (wr_ID run) accountID action comment),
          wac_RequestID = TrimSpace (ctx_RequestID ctx), wac_TraceID = TrimSpace (ctx_TraceID ctx), wac_CreatedAt = ap_now c\<rparr>)"

definition recordWorkflowAction :: "app_env \<Rightarrow> RequestContext \<Rightarrow> WorkflowRun \<Rightarrow> WorkflowStageInstance \<Rightarrow> string \<Rightarrow> string \<Rightarrow> unit aop" where
  "recordWorkflowAction c ctx run stageInstance action comment =
     bindS (newIDS c ''wfa'') (\<lambda>i. wfS (\<lambda>s. InsertWorkflowAction s (action_row c ctx run stageInstance action comment i)))"

definition putForm :: "FormInstance \<Rightarrow> unit aop" where
  "putForm v = (\<lambda>s. case UpsertFormInstance (ap_wf s) v of Inl e \<Rightarrow> (Inl e, s) | Inr w \<Rightarrow> (Inr (), s\<lparr>ap_wf := w\<rparr>))"

definition form_at :: "RequestContext \<Rightarrow> string \<Rightarrow> app_state \<Rightarrow> FormInstance option" where
  "form_at ctx i s = GetFormInstance (ap_wf s) (ctx_TenantID ctx) i"

definition template_or :: "RequestContext \<Rightarrow> string \<Rightarrow> app_state \<Rightarrow> FormTemplate" where
  "template_or ctx i s = (case GetFormTemplate (ap_wf s) (ctx_TenantID ctx) i of
     Some template \<Rightarrow> template | None \<Rightarrow> zero_FormTemplate\<lparr>ft_ID := i\<rparr>)"

definition account_or :: "RequestContext \<Rightarrow> string \<Rightarrow> app_state \<Rightarrow> Account" where
  "account_or ctx i s = (case GetAccount (ap_mem s) (ctx_TenantID ctx) i of
     Some account \<Rightarrow> account | None \<Rightarrow> zero_Account\<lparr>acc_ID := i\<rparr>)"

definition reason_err :: "AppError \<Rightarrow> AppError" where
  "reason_err e = WithReasonCode e ''workflow_stage_unavailable''"

section \<open>Moving a run\<close>

definition completeWorkflowApproved :: "app_env \<Rightarrow> RequestContext \<Rightarrow> WorkflowRun \<Rightarrow> string \<Rightarrow> unit aop" where
  "completeWorkflowApproved c ctx run comment =
     bindS (foundS (NotFound ''form instance'' (wr_FormInstanceID run)) (form_at ctx (wr_FormInstanceID run))) (\<lambda>instance.
     let now = ap_now c; reason = TrimSpace comment;
         run = run\<lparr>wr_Status := WorkflowRunStatusCompleted, wr_CurrentStageInstanceID := [], wr_UpdatedAt := now\<rparr>;
         instance = instance\<lparr>fi_Status := workflowFormStatusApproved, fi_ApprovedBy := ctx_AccountID ctx,
           fi_Payload := withWorkflowReview (fi_Payload instance) ''approve'' (ctx_AccountID ctx) reason now, fi_UpdatedAt := now\<rparr>
     in bindS (wfS (\<lambda>s. UpsertWorkflowRun s run)) (\<lambda>_.
        bindS (putForm instance) (\<lambda>_.
        bindS (getS (template_or ctx (wr_TemplateID run))) (\<lambda>template.
        bindS (applyAttendanceWorkflowReview c ctx instance ''approve'' workflowFormStatusApproved) (\<lambda>_.
        bindS (getS (account_or ctx (ctx_AccountID ctx))) (\<lambda>reviewer.
          notifyWorkflowFormReviewed c ctx instance template reviewer ''approve'' reason))))))"

definition new_stage :: "app_env \<Rightarrow> RequestContext \<Rightarrow> WorkflowRun \<Rightarrow> WorkflowStageDefinition \<Rightarrow> int \<Rightarrow> string \<Rightarrow> string \<Rightarrow> WorkflowStageInstance" where
  "new_stage c ctx run stage sequence status i = zero_WorkflowStageInstance\<lparr>wsi_ID := i, wsi_TenantID := ctx_TenantID ctx,
     wsi_RunID := wr_ID run, wsi_StageID := wsd_ID stage, wsi_StageType := wsd_Type stage, wsi_Label := wsd_Label stage,
     wsi_Status := status, wsi_Sequence := sequence, wsi_StartedAt := Some (ap_now c),
     wsi_CompletedAt := (if status = WorkflowStageStatusCompleted then Some (ap_now c) else None)\<rparr>"

definition assign :: "RequestContext \<Rightarrow> string \<Rightarrow> string \<Rightarrow> string list \<Rightarrow> unit aop" where
  "assign ctx stageInstanceID status accountIDs =
     eachS (\<lambda>accountID. wfS (\<lambda>s. UpsertWorkflowStageAssignee s \<lparr>wsa_TenantID = ctx_TenantID ctx,
       wsa_StageInstanceID = stageInstanceID, wsa_AccountID = accountID, wsa_Status = status\<rparr>)) accountIDs"

definition persistAutomaticStage :: "app_env \<Rightarrow> RequestContext \<Rightarrow> WorkflowRun \<Rightarrow> WorkflowStageInstance \<Rightarrow> string list \<Rightarrow> string \<Rightarrow> unit aop" where
  "persistAutomaticStage c ctx run stageInstance assigneeIDs action =
     bindS (wfS (\<lambda>s. UpsertWorkflowStageInstance s stageInstance)) (\<lambda>_.
     bindS (assign ctx (wsi_ID stageInstance) WorkflowAssigneeStatusApproved assigneeIDs) (\<lambda>_.
       recordWorkflowAction c ctx run stageInstance action []))"

definition ignoreErr :: "('s, 'e, unit) op \<Rightarrow> ('s, 'e, unit) op" where
  "ignoreErr m = (\<lambda>s. (Inr (), snd (m s)))"

definition completeAutomaticStage :: "app_env \<Rightarrow> RequestContext \<Rightarrow> WorkflowRun \<Rightarrow> WorkflowStageDefinition \<Rightarrow> int \<Rightarrow> string \<Rightarrow> Account \<Rightarrow> unit aop" where
  "completeAutomaticStage c ctx run stage sequence action applicant =
     bindS (newIDS c ''wfs'') (\<lambda>i.
     let stageInstance = new_stage c ctx run stage sequence WorkflowStageStatusCompleted i in
     bindS (tryS (resolveWorkflowAssignees c ctx applicant stage)) (\<lambda>assigneeIDs.
     bindS (if wsd_Type stage = ''notify'' \<and> assigneeIDs \<noteq> []
            then bindS (getS (form_at ctx (wr_FormInstanceID run))) (\<lambda>found. case found of
                None \<Rightarrow> retS ()
              | Some instance \<Rightarrow> bindS (getS (template_or ctx (wr_TemplateID run))) (\<lambda>template.
                  ignoreErr (deliverWorkflowNotification c ctx
                    (notify_stage_note c ctx run stage applicant (workflowNotificationTemplateTitle template instance)) assigneeIDs)))
            else retS ()) (\<lambda>_.
       persistAutomaticStage c ctx run stageInstance assigneeIDs action)))"

definition completeConditionStage :: "app_env \<Rightarrow> RequestContext \<Rightarrow> WorkflowRun \<Rightarrow> WorkflowStageDefinition \<Rightarrow> int \<Rightarrow> Account \<Rightarrow> params \<Rightarrow>
    WorkflowStageDefinition list \<Rightarrow> string aop" where
  "completeConditionStage c ctx run stage sequence applicant payload stages =
     bindS (tryS (resolveWorkflowApplicantEmployee c ctx applicant)) (\<lambda>employee.
     let matched = evaluateWorkflowCondition (wsd_Config stage) employee payload;
         targetStageID = TrimSpace (if matched then wsc_TrueNextStageID (wsd_Config stage) else wsc_FalseNextStageID (wsd_Config stage))
     in if targetStageID = []
        then failS (reason_err (BadRequest (''condition stage is missing routing targets: '' @ wsd_ID stage)))
        else if targetStageID \<noteq> WorkflowStageEndID \<and> wsd_ID (workflowStageByID stages targetStageID) = []
        then failS (reason_err (BadRequest (''condition stage routes to unknown stage: '' @ targetStageID)))
        else bindS (newIDS c ''wfs'') (\<lambda>i.
          let stageInstance = (new_stage c ctx run stage sequence WorkflowStageStatusCompleted i)\<lparr>wsi_Result :=
                [(''matched'', VBool matched), (''target_stage_id'', VStr targetStageID)]\<rparr>
          in bindS (wfS (\<lambda>s. UpsertWorkflowStageInstance s stageInstance)) (\<lambda>_.
             bindS (recordWorkflowAction c ctx run stageInstance ''auto_condition'' []) (\<lambda>_. retS targetStageID))))"

definition filterPreviouslyApprovedAssignees :: "RequestContext \<Rightarrow> string \<Rightarrow> string list \<Rightarrow> app_state \<Rightarrow> string list" where
  "filterPreviouslyApprovedAssignees ctx runID accountIDs s =
     (let previous = map wac_AccountID (filter (\<lambda>a. wac_Action a = ''approve'') (ListWorkflowActionsByRun (ap_wf s) (ctx_TenantID ctx) runID))
      in uniqueWorkflowRecipientIDs (filter (\<lambda>i. i \<notin> set previous) accountIDs))"

definition activateApprovalStage :: "app_env \<Rightarrow> RequestContext \<Rightarrow> WorkflowRun \<Rightarrow> WorkflowStageDefinition \<Rightarrow> int \<Rightarrow> Account \<Rightarrow> unit aop" where
  "activateApprovalStage c ctx run stage sequence applicant =
     bindS (tryS (resolveWorkflowAssignees c ctx applicant stage)) (\<lambda>assigneeIDs.
     bindS (if wsc_RequireDistinctApprover (wsd_Config stage)
            then getS (filterPreviouslyApprovedAssignees ctx (wr_ID run) assigneeIDs) else retS assigneeIDs) (\<lambda>assigneeIDs.
       if assigneeIDs = []
       then failS (reason_err (BadRequest (''workflow stage has no resolvable assignees: '' @ wsd_Label stage)))
       else bindS (newIDS c ''wfs'') (\<lambda>i.
         let stageInstance = new_stage c ctx run stage sequence WorkflowStageStatusActive i;
             run = run\<lparr>wr_CurrentStageInstanceID := i, wr_UpdatedAt := ap_now c\<rparr>
         in bindS (wfS (\<lambda>s. UpsertWorkflowStageInstance s stageInstance)) (\<lambda>_.
            bindS (assign ctx i WorkflowAssigneeStatusPending assigneeIDs) (\<lambda>_.
            bindS (wfS (\<lambda>s. UpsertWorkflowRun s run)) (\<lambda>_.
            bindS (foundS (NotFound ''form instance'' (wr_FormInstanceID run)) (form_at ctx (wr_FormInstanceID run))) (\<lambda>instance.
            bindS (getS (template_or ctx (wr_TemplateID run))) (\<lambda>template.
              if wr_TemporalStartStatus run \<noteq> WorkflowTemporalStartStarted then retS ()
              else notifyWorkflowPendingApprovers c ctx instance template applicant stage assigneeIDs))))))))"

fun advance_loop :: "app_env \<Rightarrow> RequestContext \<Rightarrow> WorkflowRun \<Rightarrow> WorkflowStageDefinition list \<Rightarrow> Account \<Rightarrow> params \<Rightarrow> string \<Rightarrow>
    nat \<Rightarrow> int \<Rightarrow> string \<Rightarrow> unit aop" where
  "advance_loop c ctx run stages applicant payload comment 0 hop stageID =
     failS (reason_err (BadRequest ''workflow graph appears to cycle''))"
| "advance_loop c ctx run stages applicant payload comment (Suc left) hop stageID =
     (if stageID = [] \<or> stageID = WorkflowStageEndID then completeWorkflowApproved c ctx run comment
      else let stage = workflowStageByID stages stageID in
        if TrimSpace (wsd_ID stage) = [] then failS (reason_err (BadRequest (''workflow stage not found: '' @ stageID)))
        else let sequence = (if workflowStageIndexByID stages (wsd_ID stage) < 0 then hop else workflowStageIndexByID stages (wsd_ID stage));
                 typ = TrimSpace (wsd_Type stage)
        in if typ = ''notify'' then
             bindS (completeAutomaticStage c ctx run stage sequence ''notify'' applicant) (\<lambda>_.
               let nextID = TrimSpace (wsc_NextStageID (wsd_Config stage)) in
               advance_loop c ctx run stages applicant payload comment left (hop + 1) (if nextID = [] then WorkflowStageEndID else nextID))
           else if typ = ''condition'' then
             bindS (completeConditionStage c ctx run stage sequence applicant payload stages) (\<lambda>nextID.
               advance_loop c ctx run stages applicant payload comment left (hop + 1) nextID)
           else if typ = ''approver'' then activateApprovalStage c ctx run stage sequence applicant
           else failS (BadRequest (''unsupported workflow stage type: '' @ wsd_Type stage)))"

definition advanceWorkflowAt :: "app_env \<Rightarrow> RequestContext \<Rightarrow> WorkflowRun \<Rightarrow> WorkflowStageDefinition list \<Rightarrow> string \<Rightarrow> Account \<Rightarrow> params \<Rightarrow> string \<Rightarrow> unit aop" where
  "advanceWorkflowAt c ctx run stages stageID applicant payload comment =
     advance_loop c ctx run stages applicant payload comment (length stages + 2) 0 (TrimSpace stageID)"

definition advanceWorkflowFrom :: "app_env \<Rightarrow> RequestContext \<Rightarrow> WorkflowRun \<Rightarrow> WorkflowStageDefinition list \<Rightarrow> int \<Rightarrow> Account \<Rightarrow> params \<Rightarrow> string \<Rightarrow> unit aop" where
  "advanceWorkflowFrom c ctx run stages startIndex applicant payload comment =
     (if startIndex < 0 \<or> startIndex \<ge> int (length stages) then completeWorkflowApproved c ctx run comment
      else advanceWorkflowAt c ctx run stages (wsd_ID (stages ! nat startIndex)) applicant payload comment)"
section \<open>Deciding a stage\<close>

definition approved_by :: "RequestContext \<Rightarrow> WorkflowStageAssignee \<Rightarrow> WorkflowStageAssignee" where
  "approved_by ctx a = (if wsa_AccountID a \<noteq> ctx_AccountID ctx then a else a\<lparr>wsa_Status := WorkflowAssigneeStatusApproved\<rparr>)"

definition handleWorkflowApprove :: "app_env \<Rightarrow> RequestContext \<Rightarrow> FormInstance \<Rightarrow> WorkflowRun \<Rightarrow> WorkflowStageInstance \<Rightarrow>
    WorkflowStageDefinition list \<Rightarrow> WorkflowStageAssignee list \<Rightarrow> string \<Rightarrow> unit aop" where
  "handleWorkflowApprove c ctx instance run stageInstance stages assignees comment =
     bindS (eachS (\<lambda>a. if wsa_AccountID a \<noteq> ctx_AccountID ctx then retS ()
                       else wfS (\<lambda>s. UpsertWorkflowStageAssignee s (approved_by ctx a))) assignees) (\<lambda>_.
     let assignees = map (approved_by ctx) assignees;
         stageDef = workflowStageByID stages (wsi_StageID stageInstance);
         mode = TrimSpace (wsc_Mode (wsd_Config stageDef))
     in if mode = ''all'' \<and> list_ex (\<lambda>a. wsa_Status a \<noteq> WorkflowAssigneeStatusApproved) assignees then retS ()
        else let stageInstance = stageInstance\<lparr>wsi_Status := WorkflowStageStatusCompleted, wsi_CompletedAt := Some (ap_now c)\<rparr>;
                 run = run\<lparr>wr_CurrentStageInstanceID := [], wr_UpdatedAt := ap_now c\<rparr>
             in bindS (wfS (\<lambda>s. UpsertWorkflowStageInstance s stageInstance)) (\<lambda>_.
                bindS (wfS (\<lambda>s. UpsertWorkflowRun s run)) (\<lambda>_.
                bindS (foundS (NotFound ''account'' (fi_ApplicantAccountID instance))
                         (\<lambda>s. GetAccount (ap_mem s) (ctx_TenantID ctx) (fi_ApplicantAccountID instance))) (\<lambda>applicant.
                let nextID = TrimSpace (wsc_NextStageID (wsd_Config stageDef))
                in advanceWorkflowAt c ctx run stages (if nextID = [] then WorkflowStageEndID else nextID) applicant
                     (fi_Payload instance) comment))))"

definition completeWorkflowDecision :: "app_env \<Rightarrow> RequestContext \<Rightarrow> FormInstance \<Rightarrow> WorkflowRun \<Rightarrow> WorkflowStageInstance \<Rightarrow>
    string \<Rightarrow> string \<Rightarrow> string \<Rightarrow> string \<Rightarrow> unit aop" where
  "completeWorkflowDecision c ctx instance run stageInstance formStatus runStatus action comment =
     bindS (getS (\<lambda>s. ListWorkflowStageAssignees (ap_wf s) (ctx_TenantID ctx) (wsi_ID stageInstance))) (\<lambda>assignees.
     bindS (eachS (\<lambda>a. if wsa_AccountID a = ctx_AccountID ctx
                       then wfS (\<lambda>s. UpsertWorkflowStageAssignee s (a\<lparr>wsa_Status :=
                              (if action = ''return'' then WorkflowAssigneeStatusReturned else WorkflowAssigneeStatusRejected)\<rparr>))
                       else retS ()) assignees) (\<lambda>_.
     let now = ap_now c;
         stageInstance = stageInstance\<lparr>wsi_Status := WorkflowStageStatusRejected, wsi_CompletedAt := Some now\<rparr>;
         run = run\<lparr>wr_Status := runStatus, wr_CurrentStageInstanceID := [], wr_UpdatedAt := now\<rparr>;
         instance = instance\<lparr>fi_Status := formStatus, fi_ApprovedBy := ctx_AccountID ctx,
           fi_Payload := withWorkflowReview (fi_Payload instance) action (ctx_AccountID ctx) comment now, fi_UpdatedAt := now\<rparr>
     in bindS (getS (template_or ctx (fi_TemplateID instance))) (\<lambda>template.
        bindS (getS (account_or ctx (ctx_AccountID ctx))) (\<lambda>reviewer.
        bindS (wfS (\<lambda>s. UpsertWorkflowStageInstance s stageInstance)) (\<lambda>_.
        bindS (wfS (\<lambda>s. UpsertWorkflowRun s run)) (\<lambda>_.
        bindS (putForm instance) (\<lambda>_.
        bindS (applyAttendanceWorkflowReview c ctx instance action formStatus) (\<lambda>_.
          notifyWorkflowFormReviewed c ctx instance template reviewer action comment))))))))"

definition notAssignee :: "AppError \<Rightarrow> AppError" where
  "notAssignee e = WithReasonCode e ''workflow_not_assignee''"

definition approved_elsewhere :: "RequestContext \<Rightarrow> WorkflowRun \<Rightarrow> app_state \<Rightarrow> bool" where
  "approved_elsewhere ctx run s = list_ex (\<lambda>prior. wac_AccountID prior = ctx_AccountID ctx \<and> wac_Action prior = ''approve'' \<and>
     wac_StageInstanceID prior \<noteq> wr_CurrentStageInstanceID run) (ListWorkflowActionsByRun (ap_wf s) (ctx_TenantID ctx) (wr_ID run))"

definition validateWorkflowActorEligibility :: "RequestContext \<Rightarrow> WorkflowRun \<Rightarrow> WorkflowStageDefinition \<Rightarrow> string \<Rightarrow> unit aop" where
  "validateWorkflowActorEligibility ctx run stage action =
     (if action \<noteq> ''approve'' \<or> \<not> wsc_RequireDistinctApprover (wsd_Config stage) then retS ()
      else bindS (getS (approved_elsewhere ctx run)) (\<lambda>earlier.
        if earlier then failS (notAssignee (Forbidden ''current account already approved an earlier workflow stage'')) else retS ()))"

text \<open>A run acts only after its Temporal start; what stands in the way is the error.\<close>

definition starting_err :: "WorkflowRun \<Rightarrow> AppError option" where
  "starting_err run =
     (if wr_TemporalStartStatus run = WorkflowTemporalStartPending \<or> wr_TemporalStartStatus run = WorkflowTemporalStartStarting
      then Some (WithReasonCode (Conflict ''workflow is still starting'') ''workflow_start_pending'')
      else if wr_TemporalStartStatus run = WorkflowTemporalStartAbandoned
      then Some (WithReasonCode (Conflict ''workflow start was abandoned'') ''workflow_start_abandoned'')
      else None)"

text \<open>Whether a command with this idempotency key was already carried out, or an error when the key belongs to another one.\<close>

definition replayed :: "app_env \<Rightarrow> RequestContext \<Rightarrow> string \<Rightarrow> string \<Rightarrow> string \<Rightarrow> app_state \<Rightarrow> bool res" where
  "replayed c ctx runID action comment s =
     (let key = TrimSpace (ctx_IdempotencyKey ctx) in
      if key = [] then Inr False
      else case GetWorkflowActionByIdempotencyKey (ap_wf s) (ctx_TenantID ctx) runID key of
          None \<Rightarrow> Inr False
        | Some existing \<Rightarrow>
            if wac_CommandFingerprint existing \<noteq> workflowCommandFingerprint c runID (ctx_AccountID ctx) action comment
            then Inl (AppErr (WithReasonCode (Conflict ''idempotency key was already used for a different workflow command'')
                   ''idempotency_key_reused''))
            else Inr True)"

definition auditTemporalWorkflowAction :: "app_env \<Rightarrow> RequestContext \<Rightarrow> FormInstance \<Rightarrow> string \<Rightarrow> string \<Rightarrow> string \<Rightarrow> unit aop" where
  "auditTemporalWorkflowAction c ctx instance action reason severity =
     auditS c ctx (''workflow.form.'' @ action) ResourceFormInstance (fi_ID instance) severity
       [(''template_id'', VStr (fi_TemplateID instance)), (''reviewed_by'', VStr (ctx_AccountID ctx)),
        (''review_action'', VStr action), (''review_comment'', VStr (TrimSpace reason)),
        (''resulting_status'', VStr (fi_Status instance)), (''temporal'', VBool True)]"

definition decide_stage :: "app_env \<Rightarrow> RequestContext \<Rightarrow> FormInstance \<Rightarrow> WorkflowRun \<Rightarrow> WorkflowStageInstance \<Rightarrow>
    WorkflowStageDefinition list \<Rightarrow> WorkflowStageAssignee list \<Rightarrow> string \<Rightarrow> string \<Rightarrow> unit aop" where
  "decide_stage c ctx instance run stageInstance stages assignees action comment =
     (if action = ''approve'' then handleWorkflowApprove c ctx instance run stageInstance stages assignees comment
      else if action = ''reject'' then
        completeWorkflowDecision c ctx instance run stageInstance workflowFormStatusRejected WorkflowRunStatusCompleted ''reject'' comment
      else if action = ''return'' then
        completeWorkflowDecision c ctx instance run stageInstance WorkflowFormStatusReturned WorkflowRunStatusReturned ''return'' comment
      else failS (BadRequest (''unsupported workflow action: '' @ action)))"

text \<open>
  What the transaction of \<open>actOnWorkflowStage\<close> does once the command is known to be new: the stage, the
  run and the form are read again, and the account must be a pending assignee of the stage.
\<close>

definition act_in_tx :: "app_env \<Rightarrow> RequestContext \<Rightarrow> string \<Rightarrow> string \<Rightarrow> string \<Rightarrow> bool \<Rightarrow> string \<Rightarrow> WorkflowStageInstance option \<Rightarrow> unit aop" where
  "act_in_tx c ctx formInstanceID action comment temporalAudit runID found =
     (case found of None \<Rightarrow> failS (reason_err (Conflict ''workflow stage is no longer active''))
      | Some stageInstance \<Rightarrow>
     if wsi_Status stageInstance \<noteq> WorkflowStageStatusActive
     then failS (reason_err (Conflict ''workflow stage is no longer active''))
     else bindS (getS (\<lambda>s. GetWorkflowRun (ap_wf s) (ctx_TenantID ctx) runID)) (\<lambda>current. case current of
       None \<Rightarrow> failS (reason_err (Conflict ''workflow stage is no longer current''))
     | Some run \<Rightarrow>
     if wr_Status run \<noteq> WorkflowRunStatusRunning \<or> wr_CurrentStageInstanceID run \<noteq> wsi_ID stageInstance
     then failS (reason_err (Conflict ''workflow stage is no longer current''))
     else bindS (foundS (NotFound ''form instance'' formInstanceID) (form_at ctx formInstanceID)) (\<lambda>instance.
     if fi_CurrentRunID instance \<noteq> wr_ID run then failS (reason_err (Conflict ''workflow run is no longer current''))
     else let stages = DeserializeWorkflowStages (wr_StageDefinitionsJSON run);
              stageDefinition = workflowStageByID stages (wsi_StageID stageInstance)
     in bindS (getS (\<lambda>s. ListWorkflowStageAssignees (ap_wf s) (ctx_TenantID ctx) (wsi_ID stageInstance))) (\<lambda>assignees.
     if \<not> workflowAssigneeCanAct assignees (ctx_AccountID ctx)
     then failS (notAssignee (Forbidden ''current account is not an active assignee for this stage''))
     else bindS (validateWorkflowActorEligibility ctx run stageDefinition action) (\<lambda>_.
     bindS (recordWorkflowAction c ctx run stageInstance action comment) (\<lambda>_.
     bindS (decide_stage c ctx instance run stageInstance stages assignees action comment) (\<lambda>_.
     if \<not> temporalAudit then retS ()
     else bindS (foundS (NotFound ''form instance'' formInstanceID) (form_at ctx formInstanceID)) (\<lambda>result.
       auditTemporalWorkflowAction c ctx result action comment ''high'')))))))) "

text \<open>The transaction: the stage is read first, as its lock, and a command carried out meanwhile is not repeated.\<close>

definition act_once :: "app_env \<Rightarrow> RequestContext \<Rightarrow> string \<Rightarrow> string \<Rightarrow> string \<Rightarrow> bool \<Rightarrow> WorkflowRun \<Rightarrow> unit aop" where
  "act_once c ctx formInstanceID action comment temporalAudit latestRun =
     bindS (getS (\<lambda>s. GetWorkflowStageInstanceForUpdate (ap_wf s) (ctx_TenantID ctx) (TrimSpace (wr_CurrentStageInstanceID latestRun)))) (\<lambda>found.
     bindS (tryS (replayed c ctx (wr_ID latestRun) action comment)) (\<lambda>again.
       if again then retS ()
       else act_in_tx c ctx formInstanceID action comment temporalAudit (wr_ID latestRun) found))"

definition actOnWorkflowStage :: "app_env \<Rightarrow> RequestContext \<Rightarrow> string \<Rightarrow> string \<Rightarrow> string \<Rightarrow> bool \<Rightarrow> FormInstance aop" where
  "actOnWorkflowStage c ctx formInstanceID action comment temporalAudit =
     (let action = TrimSpace (ToLower action);
          load = foundS (NotFound ''form instance'' formInstanceID) (form_at ctx formInstanceID)
      in if action = [] then failS (BadRequest ''action is required'')
      else bindS (RequireWorkflowAuthz c ctx ResourceFormInstance ActionRead []) (\<lambda>_.
      bindS (foundS (NotFound ''workflow run'' formInstanceID)
               (\<lambda>s. GetWorkflowRunByFormInstance (ap_wf s) (ctx_TenantID ctx) formInstanceID)) (\<lambda>latestRun.
      case starting_err latestRun of Some e \<Rightarrow> failS e | None \<Rightarrow>
      bindS (tryS (replayed c ctx (wr_ID latestRun) action comment)) (\<lambda>again.
      if again then load
      else if TrimSpace (wr_CurrentStageInstanceID latestRun) = []
      then failS (reason_err (Conflict ''form instance has no active workflow stage''))
      else bindS (withTransaction (act_once c ctx formInstanceID action comment temporalAudit latestRun)) (\<lambda>_. load)))))"

definition ActOnWorkflowStage :: "app_env \<Rightarrow> RequestContext \<Rightarrow> string \<Rightarrow> string \<Rightarrow> string \<Rightarrow> FormInstance aop" where
  "ActOnWorkflowStage c ctx formInstanceID action comment = actOnWorkflowStage c ctx formInstanceID action comment False"

definition loadActiveWorkflowStage :: "RequestContext \<Rightarrow> string \<Rightarrow>
    (FormInstance \<times> WorkflowRun \<times> WorkflowStageInstance \<times> WorkflowStageDefinition list) aop" where
  "loadActiveWorkflowStage ctx formInstanceID =
     bindS (foundS (NotFound ''form instance'' formInstanceID) (form_at ctx formInstanceID)) (\<lambda>instance.
     bindS (getS (\<lambda>s. GetWorkflowRunByFormInstance (ap_wf s) (ctx_TenantID ctx) formInstanceID)) (\<lambda>latest. case latest of
       None \<Rightarrow> failS (reason_err (BadRequest ''form instance has no active workflow stage''))
     | Some run \<Rightarrow>
     if wr_Status run \<noteq> WorkflowRunStatusRunning \<or> wr_CurrentStageInstanceID run = []
     then failS (reason_err (BadRequest ''form instance has no active workflow stage''))
     else case starting_err run of Some e \<Rightarrow> failS e | None \<Rightarrow>
     bindS (getS (\<lambda>s. GetWorkflowStageInstance (ap_wf s) (ctx_TenantID ctx) (wr_CurrentStageInstanceID run))) (\<lambda>found. case found of
       None \<Rightarrow> failS (reason_err (BadRequest ''workflow stage is not active''))
     | Some stageInstance \<Rightarrow>
     if wsi_Status stageInstance \<noteq> WorkflowStageStatusActive
     then failS (reason_err (BadRequest ''workflow stage is not active''))
     else retS (instance, run, stageInstance, DeserializeWorkflowStages (wr_StageDefinitionsJSON run)))))"

definition loadActiveWorkflowStageForAssignee :: "app_env \<Rightarrow> RequestContext \<Rightarrow> string \<Rightarrow>
    (FormInstance \<times> WorkflowRun \<times> WorkflowStageInstance \<times> WorkflowStageDefinition list \<times> WorkflowStageAssignee list) aop" where
  "loadActiveWorkflowStageForAssignee c ctx formInstanceID =
     bindS (RequireWorkflowAuthz c ctx ResourceFormInstance ActionRead []) (\<lambda>_.
     bindS (loadActiveWorkflowStage ctx formInstanceID) (\<lambda>(instance, run, stageInstance, stages).
     bindS (getS (\<lambda>s. ListWorkflowStageAssignees (ap_wf s) (ctx_TenantID ctx) (wsi_ID stageInstance))) (\<lambda>assignees.
     if \<not> workflowAssigneeCanAct assignees (ctx_AccountID ctx)
     then failS (notAssignee (Forbidden ''current account is not an active assignee for this stage''))
     else retS (instance, run, stageInstance, stages, assignees))))"

section \<open>Starting a run\<close>

definition outboxS :: "app_env \<Rightarrow> OutboxEvent \<Rightarrow> unit aop" where
  "outboxS c event = modS (\<lambda>s. s\<lparr>ap_outbox := AppendOutboxEvent (ap_now c) (ap_outbox s) event\<rparr>)"

definition workflowStartOutboxEvent :: "WorkflowRun \<Rightarrow> int \<Rightarrow> OutboxEvent" where
  "workflowStartOutboxEvent run now = zero_OutboxEvent\<lparr>
     obx_ID := wr_TemporalStartEventID run, obx_TenantID := wr_TenantID run,
     obx_EventType := WorkflowStartRequestedEventType, obx_AggregateType := WorkflowStartAggregateType,
     obx_AggregateID := wr_ID run,
     obx_Payload := [(''run_id'', VStr (wr_ID run)), (''form_instance_id'', VStr (wr_FormInstanceID run)),
                     (''temporal_workflow_id'', VStr (wr_TemporalWorkflowID run))],
     obx_PayloadVersion := 1, obx_IdempotencyKey := wr_ID run, obx_Status := OutboxStatusPending,
     obx_MaxAttempts := Some 0, obx_NextAttemptAt := now, obx_CreatedAt := now, obx_UpdatedAt := now\<rparr>"

definition fresh_run :: "app_env \<Rightarrow> RequestContext \<Rightarrow> FormInstance \<Rightarrow> FormTemplate \<Rightarrow> WorkflowStageDefinition list \<Rightarrow> int \<Rightarrow>
    string \<Rightarrow> string \<Rightarrow> WorkflowRun" where
  "fresh_run c ctx instance template stages version runID eventID = zero_WorkflowRun\<lparr>
     wr_ID := runID, wr_TenantID := ctx_TenantID ctx, wr_FormInstanceID := fi_ID instance, wr_TemplateID := ft_ID template,
     wr_Version := version, wr_Status := WorkflowRunStatusRunning, wr_StageDefinitionsJSON := SerializeWorkflowStages stages,
     wr_TemporalStartStatus := (if ap_startOutbox c then WorkflowTemporalStartPending else WorkflowTemporalStartStarted),
     wr_TemporalWorkflowID := (if ap_startOutbox c then FormApprovalWorkflowIDForRun (ctx_TenantID ctx) (fi_ID instance) runID
                               else FormApprovalWorkflowID (ctx_TenantID ctx) (fi_ID instance)),
     wr_TemporalStartEventID := eventID, wr_TemporalStartedAt := (if ap_startOutbox c then None else Some (ap_now c)),
     wr_CreatedAt := ap_now c, wr_UpdatedAt := ap_now c\<rparr>"

definition nextRunVersion :: "RequestContext \<Rightarrow> FormInstance \<Rightarrow> app_state \<Rightarrow> int" where
  "nextRunVersion ctx instance s =
     (let runs = ListWorkflowRunsByFormInstance (ap_wf s) (ctx_TenantID ctx) (fi_ID instance)
      in if runs = [] then 1 else wr_Version (last runs) + 1)"

definition initWorkflowRun :: "app_env \<Rightarrow> RequestContext \<Rightarrow> FormInstance \<Rightarrow> FormTemplate \<Rightarrow> Account \<Rightarrow> FormInstance aop" where
  "initWorkflowRun c ctx instance template applicant =
     (case ParseWorkflowStagesFromTemplate template of
        [] \<Rightarrow> failS (BadRequest ''form template has no workflow stages'')
      | first # others \<Rightarrow>
          let stages = first # others in
          bindS (getS (nextRunVersion ctx instance)) (\<lambda>version.
          bindS (if ap_startOutbox c then newIDS c ''outbox'' else retS []) (\<lambda>eventID.
          bindS (newIDS c ''wfr'') (\<lambda>runID.
          let run = fresh_run c ctx instance template stages version runID eventID in
          bindS (getS (form_at ctx (fi_ID instance))) (\<lambda>current.
          let instance = (case current of Some f \<Rightarrow> f | None \<Rightarrow> instance)\<lparr>fi_Status := WorkflowFormStatusInReview,
                fi_CurrentRunID := runID, fi_UpdatedAt := ap_now c\<rparr> in
          bindS (wfS (\<lambda>s. UpsertWorkflowRun s run)) (\<lambda>_.
          bindS (putForm instance) (\<lambda>_.
          bindS (advanceWorkflowAt c ctx run stages (wsd_ID first) applicant (fi_Payload instance) []) (\<lambda>_.
          bindS (if ap_startOutbox c then outboxS c (workflowStartOutboxEvent run (ap_now c)) else retS ()) (\<lambda>_.
            foundS (NotFound ''form instance'' (fi_ID instance)) (form_at ctx (fi_ID instance)))))))))))"

definition StartWorkflowRun :: "app_env \<Rightarrow> RequestContext \<Rightarrow> FormInstance \<Rightarrow> FormTemplate \<Rightarrow> Account \<Rightarrow> unit aop" where
  "StartWorkflowRun c ctx instance template applicant =
     withTransaction (bindS (initWorkflowRun c ctx instance template applicant) (\<lambda>_. retS ()))"

section \<open>What a reader sees of a run\<close>

definition workflowStepState :: "WorkflowStageInstance \<Rightarrow> WorkflowRun \<Rightarrow> string" where
  "workflowStepState stageInstance run =
     (if wsi_ID stageInstance = [] then ''pending''
      else if wsi_Status stageInstance = WorkflowStageStatusCompleted then ''completed''
      else if wsi_Status stageInstance = WorkflowStageStatusActive
           then (if wr_CurrentStageInstanceID run = wsi_ID stageInstance then ''current'' else ''pending'')
      else if wsi_Status stageInstance = WorkflowStageStatusRejected then ''rejected''
      else ''pending'')"

definition workflowFormInstancePendingForAccount :: "wf_store \<Rightarrow> string \<Rightarrow> string \<Rightarrow> string list" where
  "workflowFormInstancePendingForAccount s tenantID accountID =
     List.map_filter (\<lambda>stageInstanceID. case GetWorkflowStageInstance s tenantID stageInstanceID of
         None \<Rightarrow> None
       | Some stageInstance \<Rightarrow>
           if wsi_Status stageInstance \<noteq> WorkflowStageStatusActive then None
           else (case GetWorkflowRun s tenantID (wsi_RunID stageInstance) of
               None \<Rightarrow> None
             | Some run \<Rightarrow>
                 if wr_Status run \<noteq> WorkflowRunStatusRunning \<or> wr_TemporalStartStatus run \<noteq> WorkflowTemporalStartStarted then None
                 else Some (wr_FormInstanceID run)))
       (ListPendingAssigneeStageInstanceIDs s tenantID accountID)"

definition label_of :: "RequestContext \<Rightarrow> app_state \<Rightarrow> string \<Rightarrow> string" where
  "label_of ctx s accountID = (case GetAccount (ap_mem s) (ctx_TenantID ctx) accountID of
     Some account \<Rightarrow> workflowAccountLabel account | None \<Rightarrow> accountID)"

definition form_step :: "RequestContext \<Rightarrow> WorkflowRun \<Rightarrow> (string \<times> WorkflowStageInstance) list \<Rightarrow> app_state \<Rightarrow> WorkflowStageDefinition \<Rightarrow> WorkflowFormStep" where
  "form_step ctx run byStage s stage =
     \<lparr>wfp_StageID = wsd_ID stage, wfp_Label = wsd_Label stage, wfp_Detail = wsd_Detail stage,
      wfp_State = workflowStepState (case map_of byStage (wsd_ID stage) of Some i \<Rightarrow> i | None \<Rightarrow> zero_WorkflowStageInstance) run,
      wfp_Assignees = (case map_of byStage (wsd_ID stage) of
          None \<Rightarrow> []
        | Some stageInstance \<Rightarrow> map (\<lambda>a. \<lparr>wfa_AccountID = wsa_AccountID a, wfa_Name = label_of ctx s (wsa_AccountID a),
              wfa_Status = wsa_Status a\<rparr>) (ListWorkflowStageAssignees (ap_wf s) (ctx_TenantID ctx) (wsi_ID stageInstance)))\<rparr>"

definition review_item :: "RequestContext \<Rightarrow> app_state \<Rightarrow> WorkflowAction \<Rightarrow> WorkflowReviewLogItem" where
  "review_item ctx s a = zero_WorkflowReviewLogItem\<lparr>wrl_Type := wac_Action a, wrl_Name := label_of ctx s (wac_AccountID a),
     wrl_Time := apiTimestamp (wac_CreatedAt a), wrl_Comment := wac_Comment a\<rparr>"

definition form_state :: "RequestContext \<Rightarrow> FormInstance \<Rightarrow> string \<Rightarrow> app_state \<Rightarrow> WorkflowFormStateResponse" where
  "form_state ctx instance formInstanceID s =
     (case GetWorkflowRunByFormInstance (ap_wf s) (ctx_TenantID ctx) formInstanceID of
        None \<Rightarrow> zero_WorkflowFormStateResponse\<lparr>wfr_FormInstanceID := formInstanceID, wfr_FormStatus := fi_Status instance\<rparr>
      | Some run \<Rightarrow>
          let stages = DeserializeWorkflowStages (wr_StageDefinitionsJSON run);
              byStage = rev (map (\<lambda>i. (wsi_StageID i, i)) (ListWorkflowStageInstancesByRun (ap_wf s) (ctx_TenantID ctx) (wr_ID run)));
              current = (if wr_Status run = WorkflowRunStatusRunning \<and> wr_CurrentStageInstanceID run \<noteq> []
                         then GetWorkflowStageInstance (ap_wf s) (ctx_TenantID ctx) (wr_CurrentStageInstanceID run) else None);
              canAct = (case current of None \<Rightarrow> False | Some i \<Rightarrow>
                wr_TemporalStartStatus run = WorkflowTemporalStartStarted \<and> wsi_StageType i = ''approver'' \<and>
                workflowAssigneeCanAct (ListWorkflowStageAssignees (ap_wf s) (ctx_TenantID ctx) (wsi_ID i)) (ctx_AccountID ctx))
          in \<lparr>wfr_FormInstanceID = formInstanceID, wfr_FormStatus = fi_Status instance, wfr_RunID = wr_ID run,
              wfr_RunStatus = wr_Status run, wfr_TemporalStartStatus = wr_TemporalStartStatus run,
              wfr_TemporalWorkflowID = wr_TemporalWorkflowID run, wfr_TemporalRunID = wr_TemporalRunID run,
              wfr_TemporalStartedAt = wr_TemporalStartedAt run,
              wfr_CurrentStageID = (case current of None \<Rightarrow> [] | Some i \<Rightarrow> wsi_StageID i),
              wfr_CurrentStageLabel = (case current of None \<Rightarrow> [] | Some i \<Rightarrow> wsi_Label i),
              wfr_CanAct = canAct, wfr_AllowedActions = (if canAct then [''approve'', ''reject'', ''return''] else []),
              wfr_Steps = map (form_step ctx run byStage s) stages,
              wfr_Actions = map (review_item ctx s) (ListWorkflowActionsByRun (ap_wf s) (ctx_TenantID ctx) (wr_ID run))\<rparr>)"

definition GetWorkflowFormState :: "app_env \<Rightarrow> RequestContext \<Rightarrow> string \<Rightarrow> WorkflowFormStateResponse aop" where
  "GetWorkflowFormState c ctx formInstanceID =
     bindS (RequireWorkflowAuthz c ctx ResourceFormInstance ActionRead []) (\<lambda>(account, decision).
     bindS (foundS (NotFound ''form instance'' formInstanceID) (form_at ctx formInstanceID)) (\<lambda>instance.
     bindS (getS (\<lambda>s. workflowFormInstancePendingForAccount (ap_wf s) (ctx_TenantID ctx) (acc_ID account))) (\<lambda>pending.
     case requireFormInstanceVisible instance account decision of
       Inl e \<Rightarrow> if fi_ID instance \<notin> set pending then liftS (Inl e) else getS (form_state ctx instance formInstanceID)
     | Inr _ \<Rightarrow> getS (form_state ctx instance formInstanceID))))"

end
