(* ===== verification/Workflow_Temporal.thy ===== *)
theory Workflow_Temporal
  imports Workflow_Runtime
begin

text \<open>
  How runs and Temporal are kept together (\<open>src/internal/service/workflow_temporal_service.go\<close>): the claim
  protocol that delivers the start of a run, the safety net that repairs starts nobody delivered, the signals
  of approvers and applicants, withdrawal, and what is undone when a start fails.

  The Temporal client is outside the repository.  \<open>temporal\<close> is what it does: start a workflow, take a
  signal (and let its activities change the state), and let time pass between two looks at the projection.
  The environment of an operation holds one reading of the clock, so the delivery of a start, which reads it
  before and after the call, takes two.
\<close>

section \<open>The Temporal client\<close>

record FormApprovalWorkflowStart =
  aws_TenantID :: string
  aws_FormInstanceID :: string
  aws_RunID :: string
  aws_WorkflowID :: string
  aws_StageDefinitionsJSON :: json_text
  aws_DefaultRemindAfterHours :: int

record FormApprovalWorkflowSignal =
  awg_TenantID :: string
  awg_FormInstanceID :: string
  awg_RunID :: string
  awg_WorkflowID :: string
  awg_AccountID :: string
  awg_Action :: string
  awg_Reason :: string
  awg_RequestID :: string
  awg_TraceID :: string
  awg_IdempotencyKey :: string
  awg_CommandFingerprint :: string

record FormApprovalProjection =
  afp_TenantID :: string
  afp_FormInstanceID :: string
  afp_RunID :: string
  afp_FormStatus :: string
  afp_RunStatus :: string
  afp_CurrentStageID :: string
  afp_CurrentStageInstanceID :: string
  afp_CurrentStageLabel :: string
  afp_RemindAfterHours :: int
  afp_UpdatedAt :: int

record FormApprovalReminder =
  afr_FormInstanceID :: string
  afr_CurrentStageLabel :: string

text \<open>A client that ensures a start returns the execution; an older one only starts; none may be configured.\<close>

datatype temporal_client =
    is_NoClient: NoClient
  | Starter "FormApprovalWorkflowStart \<Rightarrow> unit res"
  | Ensurer "FormApprovalWorkflowStart \<Rightarrow> FormApprovalWorkflowExecution res"

record temporal =
  tmp_client :: temporal_client
  tmp_signal :: "FormApprovalWorkflowSignal \<Rightarrow> unit aop"
  tmp_tick :: "app_state \<Rightarrow> app_state"
  tmp_ticks :: nat

definition workflowTemporalStartClaimLease :: int where
  "workflowTemporalStartClaimLease = 5 * 60 * 1000000000"

abbreviation (input) DefaultFormApprovalRemindAfterHours :: int where "DefaultFormApprovalRemindAfterHours \<equiv> 72"

definition temporal_unavailable :: AppError where
  "temporal_unavailable = E 503 ''temporal_workflow_unavailable'' ''temporal form approval workflow client is required''"

definition startFormApprovalWorkflow :: "temporal_client \<Rightarrow> FormApprovalWorkflowStart \<Rightarrow> FormApprovalWorkflowExecution res" where
  "startFormApprovalWorkflow client start =
     (case client of
        NoClient \<Rightarrow> Inl (AppErr temporal_unavailable)
      | Ensurer ensure \<Rightarrow> ensure start
      | Starter begin_run \<Rightarrow> (case begin_run start of Inl e \<Rightarrow> Inl e
          | Inr _ \<Rightarrow> Inr \<lparr>awe_WorkflowID = aws_WorkflowID start, awe_RunID = []\<rparr>))"

definition start_of :: "RequestContext \<Rightarrow> string \<Rightarrow> WorkflowRun option \<Rightarrow> FormApprovalWorkflowStart" where
  "start_of ctx instanceID found =
     \<lparr>aws_TenantID = ctx_TenantID ctx, aws_FormInstanceID = instanceID,
      aws_RunID = (case found of None \<Rightarrow> [] | Some run \<Rightarrow> wr_ID run),
      aws_WorkflowID = (case found of None \<Rightarrow> [] | Some run \<Rightarrow> wr_TemporalWorkflowID run),
      aws_StageDefinitionsJSON = (case found of None \<Rightarrow> None | Some run \<Rightarrow> wr_StageDefinitionsJSON run),
      aws_DefaultRemindAfterHours = DefaultFormApprovalRemindAfterHours\<rparr>"

definition startTemporalFormApprovalWorkflow :: "temporal_client \<Rightarrow> RequestContext \<Rightarrow> FormInstance \<Rightarrow> app_state \<Rightarrow> unit res" where
  "startTemporalFormApprovalWorkflow client ctx instance s =
     (if is_NoClient client then Inl (AppErr (WithReasonCode temporal_unavailable ''temporal_workflow_unavailable''))
      else if TrimSpace (fi_ID instance) = [] then Inl (AppErr (BadRequest ''form_instance_id is required''))
      else let start = start_of ctx (fi_ID instance) (GetWorkflowRunByFormInstance (ap_wf s) (ctx_TenantID ctx) (fi_ID instance))
      in (case startFormApprovalWorkflow client start of Inl e \<Rightarrow> Inl e | Inr _ \<Rightarrow> Inr ()))"
section \<open>Delivering a start\<close>

record WorkflowStartRequestedPayload =
  wsp_RunID :: string
  wsp_FormInstanceID :: string
  wsp_WorkflowID :: string

definition decodeStartPayload :: "OutboxEvent \<Rightarrow> WorkflowStartRequestedPayload res" where
  "decodeStartPayload event =
     (case (json_string_field (obx_Payload event) ''run_id'', json_string_field (obx_Payload event) ''form_instance_id'',
            json_string_field (obx_Payload event) ''temporal_workflow_id'') of
        (Some run, Some form, Some workflow) \<Rightarrow>
          let p = \<lparr>wsp_RunID = TrimSpace run, wsp_FormInstanceID = TrimSpace form, wsp_WorkflowID = TrimSpace workflow\<rparr>;
              aggregateID = TrimSpace (obx_AggregateID event)
          in if wsp_RunID p = [] \<or> wsp_FormInstanceID p = [] \<or> wsp_WorkflowID p = []
             then Inl (AppErr (BadRequest ''workflow start payload requires run_id, form_instance_id, and temporal_workflow_id''))
             else if aggregateID \<noteq> [] \<and> aggregateID \<noteq> wsp_RunID p
             then Inl (AppErr (BadRequest ''workflow start aggregate does not match run_id''))
             else Inr p
      | _ \<Rightarrow> Inl (AppErr (BadRequest ''invalid workflow start payload'')))"

text \<open>Whether the event still belongs to the run, and whether there is still something to deliver.\<close>

definition start_event_check :: "OutboxEvent \<Rightarrow> WorkflowStartRequestedPayload \<Rightarrow> WorkflowRun \<Rightarrow> bool res" where
  "start_event_check event p run =
     (let stale = (\<lambda>m. Inl (AppErr (WithReasonCode (Conflict m) ''workflow_start_stale'')));
          status = wr_TemporalStartStatus run
      in if wr_FormInstanceID run \<noteq> wsp_FormInstanceID p \<or> wr_TemporalWorkflowID run \<noteq> wsp_WorkflowID p
         then stale ''workflow start payload no longer matches the persisted run''
         else if wr_TemporalStartEventID run \<noteq> [] \<and> wr_TemporalStartEventID run \<noteq> obx_ID event
         then stale ''workflow start event is stale''
         else if status = WorkflowTemporalStartStarted \<or> status = WorkflowTemporalStartAbandoned then Inr False
         else if status = WorkflowTemporalStartPending \<or> status = WorkflowTemporalStartStarting then Inr True
         else Inl (AppErr (WithReasonCode (Conflict ''workflow start has an invalid delivery state'') ''workflow_start_state_invalid'')))"

definition workflowRunTerminalForTemporalStart :: "FormInstance \<Rightarrow> WorkflowRun \<Rightarrow> bool" where
  "workflowRunTerminalForTemporalStart instance run \<longleftrightarrow>
     ToLower (TrimSpace (fi_Status instance)) \<in> set [workflowFormStatusApproved, workflowFormStatusRejected,
       workflowFormStatusReturned, workflowFormStatusCancelled, ''canceled''] \<or>
     ToLower (TrimSpace (wr_Status run)) \<in> set [WorkflowRunStatusCompleted, WorkflowRunStatusReturned,
       WorkflowRunStatusCancelled, WorkflowRunStatusStartFailed]"

text \<open>A change of the workflow tables that reports whether it took place.\<close>

definition wfQ :: "(wf_store \<Rightarrow> 'a \<times> wf_store) \<Rightarrow> 'a aop" where
  "wfQ f = (\<lambda>s. (Inr (fst (f (ap_wf s))), s\<lparr>ap_wf := snd (f (ap_wf s))\<rparr>))"

definition run_at :: "RequestContext \<Rightarrow> string \<Rightarrow> app_state \<Rightarrow> WorkflowRun option" where
  "run_at ctx i s = GetWorkflowRun (ap_wf s) (ctx_TenantID ctx) i"

definition delivery_over :: "WorkflowRun \<Rightarrow> bool" where
  "delivery_over run \<longleftrightarrow> wr_TemporalStartStatus run = WorkflowTemporalStartStarted \<or>
     wr_TemporalStartStatus run = WorkflowTemporalStartAbandoned"

definition system_ctx :: "string \<Rightarrow> RequestContext" where
  "system_ctx tenantID = zero_RequestContext\<lparr>ctx_TenantID := tenantID, ctx_AccountID := ''system''\<rparr>"

definition notifyCurrentWorkflowApproversAfterTemporalStart :: "app_env \<Rightarrow> RequestContext \<Rightarrow> WorkflowRun \<Rightarrow> unit aop" where
  "notifyCurrentWorkflowApproversAfterTemporalStart c ctx run =
     (if wr_Status run \<noteq> WorkflowRunStatusRunning \<or> wr_CurrentStageInstanceID run = [] then retS ()
      else bindS (foundS (NotFound ''workflow stage instance'' (wr_CurrentStageInstanceID run))
             (\<lambda>s. GetWorkflowStageInstance (ap_wf s) (ctx_TenantID ctx) (wr_CurrentStageInstanceID run))) (\<lambda>stageInstance.
      if wsi_Status stageInstance \<noteq> WorkflowStageStatusActive \<or> wsi_StageType stageInstance \<noteq> ''approver'' then retS ()
      else bindS (getS (\<lambda>s. ListWorkflowStageAssignees (ap_wf s) (ctx_TenantID ctx) (wsi_ID stageInstance))) (\<lambda>assignees.
      let recipients = map wsa_AccountID (filter (\<lambda>a. wsa_Status a = WorkflowAssigneeStatusPending) assignees) in
      bindS (foundS (NotFound ''form instance'' (wr_FormInstanceID run)) (form_at ctx (wr_FormInstanceID run))) (\<lambda>instance.
      bindS (foundS (NotFound ''form template'' (wr_TemplateID run))
              (\<lambda>s. GetFormTemplate (ap_wf s) (ctx_TenantID ctx) (wr_TemplateID run))) (\<lambda>template.
      bindS (foundS (NotFound ''account'' (fi_ApplicantAccountID instance))
              (\<lambda>s. GetAccount (ap_mem s) (ctx_TenantID ctx) (fi_ApplicantAccountID instance))) (\<lambda>applicant.
      let stage = workflowStageByID (DeserializeWorkflowStages (wr_StageDefinitionsJSON run)) (wsi_StageID stageInstance);
          stage = (if wsd_ID stage \<noteq> [] then stage else zero_WorkflowStageDefinition\<lparr>wsd_ID := wsi_StageID stageInstance,
            wsd_Type := wsi_StageType stageInstance, wsd_Label := wsi_Label stageInstance\<rparr>)
      in notifyWorkflowPendingApprovers c ctx instance template applicant stage recipients))))))"

definition markTemporalStartDelivered :: "app_env \<Rightarrow> RequestContext \<Rightarrow> string \<Rightarrow> int \<Rightarrow> FormApprovalWorkflowExecution \<Rightarrow> unit aop" where
  "markTemporalStartDelivered c ctx runID claimToken execution =
     withTransaction (
       bindS (wfQ (\<lambda>s. MarkWorkflowRunTemporalStarted s (ctx_TenantID ctx) runID claimToken execution (ap_now c))) (\<lambda>marked.
       case marked of
         Some run \<Rightarrow>
           bindS (notifyCurrentWorkflowApproversAfterTemporalStart c ctx run) (\<lambda>_.
             auditS c ctx ''workflow.form.temporal_started'' ResourceFormInstance (wr_FormInstanceID run) ''medium''
               [(''run_id'', VStr (wr_ID run)), (''temporal_workflow_id'', VStr (wr_TemporalWorkflowID run)),
                (''temporal_run_id'', VStr (wr_TemporalRunID run))])
       | None \<Rightarrow>
           bindS (foundS (NotFound ''workflow run'' runID) (run_at ctx runID)) (\<lambda>current.
             if delivery_over current then retS ()
             else liftS (Inl (PlainErr (''workflow start '' @ runID @ '' lost its delivery claim''))))))"

definition releaseClaim :: "app_env \<Rightarrow> RequestContext \<Rightarrow> string \<Rightarrow> int \<Rightarrow> err \<Rightarrow> unit aop" where
  "releaseClaim c ctx runID claimToken cause =
     bindS (wfQ (\<lambda>s. ReleaseWorkflowRunTemporalStart s (ctx_TenantID ctx) runID claimToken (ap_now c))) (\<lambda>_. liftS (Inl cause))"

definition orElseS :: "'a aop \<Rightarrow> (err \<Rightarrow> 'a aop) \<Rightarrow> 'a aop" where
  "orElseS m h = (\<lambda>s. case m s of (Inl e, t) \<Rightarrow> h e t | (Inr x, t) \<Rightarrow> (Inr x, t))"

text \<open>
  \<open>c\<close> is read when the start is claimed, \<open>d\<close> when the answer of Temporal has come.  An error after the
  claim releases it, so that another worker can try again.
\<close>

definition deliver_claimed :: "app_env \<Rightarrow> temporal_client \<Rightarrow> RequestContext \<Rightarrow> WorkflowRun \<Rightarrow> unit aop" where
  "deliver_claimed d client ctx run =
     (let claimToken = wr_UpdatedAt run;
          abandon = (\<lambda>s. AbandonClaimedWorkflowRunTemporalStart s (ctx_TenantID ctx) (wr_ID run) claimToken (ap_now d))
      in bindS (getS (form_at ctx (wr_FormInstanceID run))) (\<lambda>found. case found of
        None \<Rightarrow> bindS (wfQ abandon) (\<lambda>_. failS (NotFound ''form instance'' (wr_FormInstanceID run)))
      | Some instance \<Rightarrow>
          if fi_CurrentRunID instance \<noteq> [] \<and> fi_CurrentRunID instance \<noteq> wr_ID run \<or> workflowRunTerminalForTemporalStart instance run
          then bindS (wfQ abandon) (\<lambda>abandoned. case abandoned of
              Some _ \<Rightarrow> retS ()
            | None \<Rightarrow> liftS (Inl (PlainErr (''workflow start '' @ wr_ID run @ '' lost its claim before abandonment''))))
          else orElseS (bindS (liftS (startFormApprovalWorkflow client (start_of ctx (fi_ID instance) (Some run)))) (\<lambda>execution.
                 markTemporalStartDelivered d ctx (wr_ID run) claimToken execution))
               (releaseClaim d ctx (wr_ID run) claimToken)))"

definition claimStart :: "app_env \<Rightarrow> RequestContext \<Rightarrow> string \<Rightarrow> WorkflowRun option aop" where
  "claimStart c ctx runID = wfQ (\<lambda>s. ClaimWorkflowRunTemporalStart s (ctx_TenantID ctx) runID (ap_now c)
     (ap_now c - workflowTemporalStartClaimLease))"

definition HandleWorkflowStartEvent :: "app_env \<Rightarrow> app_env \<Rightarrow> temporal_client \<Rightarrow> OutboxEvent \<Rightarrow> unit aop" where
  "HandleWorkflowStartEvent c d client event =
     (if TrimSpace (obx_EventType event) \<noteq> WorkflowStartRequestedEventType
      then failS (BadRequest ''unsupported workflow start event type'')
      else bindS (liftS (decodeStartPayload event)) (\<lambda>p.
      let ctx = system_ctx (obx_TenantID event) in
      bindS (foundS (NotFound ''workflow run'' (wsp_RunID p)) (run_at ctx (wsp_RunID p))) (\<lambda>run.
      bindS (liftS (start_event_check event p run)) (\<lambda>open_start.
      if \<not> open_start then retS ()
      else bindS (claimStart c ctx (wr_ID run)) (\<lambda>claimed. case claimed of
          Some run \<Rightarrow> deliver_claimed d client ctx run
        | None \<Rightarrow> bindS (foundS (NotFound ''workflow run'' (wsp_RunID p)) (run_at ctx (wsp_RunID p))) (\<lambda>current.
            if delivery_over current then retS ()
            else liftS (Inl (PlainErr (''workflow start '' @ wsp_RunID p @ '' is already claimed'')))))))))"

definition deferFailedWorkflowStartReconcile :: "app_env \<Rightarrow> RequestContext \<Rightarrow> string \<Rightarrow> unit aop" where
  "deferFailedWorkflowStartReconcile c ctx runID =
     bindS (claimStart c ctx runID) (\<lambda>claimed. case claimed of
         None \<Rightarrow> retS ()
       | Some run \<Rightarrow> bindS (wfQ (\<lambda>s. ReleaseWorkflowRunTemporalStart s (ctx_TenantID ctx) runID (wr_UpdatedAt run) (ap_now c))) (\<lambda>_. retS ()))"

section \<open>Repairing starts nobody delivered\<close>

text \<open>The event of a run that lost its own: an event already appended for the run, or a new one.\<close>

definition start_event_of :: "app_state \<Rightarrow> RequestContext \<Rightarrow> string \<Rightarrow> OutboxEvent option" where
  "start_event_of s ctx runID = find (\<lambda>e. obx_EventType e = WorkflowStartRequestedEventType \<and> obx_IdempotencyKey e = runID)
     (ListOutboxEvents (ap_outbox s) (ctx_TenantID ctx))"

definition relinkStartEvent :: "app_env \<Rightarrow> RequestContext \<Rightarrow> string \<Rightarrow> WorkflowRun option aop" where
  "relinkStartEvent c ctx runID =
     withTransaction (
       bindS (getS (run_at ctx runID)) (\<lambda>found. case found of
         None \<Rightarrow> retS None
       | Some current \<Rightarrow>
           if wr_TemporalStartStatus current \<noteq> WorkflowTemporalStartPending then retS None
           else bindS (getS (\<lambda>s. start_event_of s ctx (wr_ID current))) (\<lambda>existing.
             bindS (case existing of Some e \<Rightarrow> retS (obx_ID e) | None \<Rightarrow> newIDS c ''outbox'') (\<lambda>eventID.
             let current = current\<lparr>wr_TemporalStartEventID := eventID, wr_UpdatedAt := ap_now c\<rparr> in
             bindS (wfS (\<lambda>s. UpsertWorkflowRun s current)) (\<lambda>_.
             bindS (if existing = None then outboxS c (workflowStartOutboxEvent current (ap_now c)) else retS ()) (\<lambda>_.
               retS (Some current)))))))"

text \<open>A claim of a run without an event is stale here, so it is released first.\<close>

definition repairStartEvent :: "app_env \<Rightarrow> RequestContext \<Rightarrow> WorkflowRun \<Rightarrow> WorkflowRun option aop" where
  "repairStartEvent c ctx run =
     (if TrimSpace (wr_TemporalStartEventID run) \<noteq> [] then retS (Some run)
      else bindS (if wr_TemporalStartStatus run = WorkflowTemporalStartStarting
                  then wfQ (\<lambda>s. ReleaseWorkflowRunTemporalStart s (ctx_TenantID ctx) (wr_ID run) (wr_UpdatedAt run) (ap_now c))
                  else retS True) (\<lambda>released.
        if released then relinkStartEvent c ctx (wr_ID run) else retS None))"

definition reconcileStart :: "app_env \<Rightarrow> app_env \<Rightarrow> temporal_client \<Rightarrow> RequestContext \<Rightarrow> WorkflowRun \<Rightarrow> bool aop" where
  "reconcileStart c d client ctx run =
     bindS (repairStartEvent c ctx run) (\<lambda>repaired. case repaired of
       None \<Rightarrow> retS False
     | Some run \<Rightarrow>
         bindS (getS (\<lambda>s. GetOutboxEventByID (ap_outbox s) (ctx_TenantID ctx) (wr_TemporalStartEventID run))) (\<lambda>found.
         bindS (case found of Some event \<Rightarrow> retS event
                | None \<Rightarrow> bindS (outboxS c (workflowStartOutboxEvent run (ap_now c))) (\<lambda>_. retS (workflowStartOutboxEvent run (ap_now c)))) (\<lambda>event.
         orElseS (bindS (HandleWorkflowStartEvent c d client event) (\<lambda>_. retS True)) (\<lambda>e.
           bindS (deferFailedWorkflowStartReconcile d ctx (wr_ID run)) (\<lambda>_. liftS (Inl e))))))"

text \<open>The count of the converged runs and the errors of the others; an error does not stop the batch.\<close>

fun reconcile_loop :: "app_env \<Rightarrow> app_env \<Rightarrow> temporal_client \<Rightarrow> RequestContext \<Rightarrow> WorkflowRun list \<Rightarrow> nat \<Rightarrow> (string \<times> err) list \<Rightarrow>
    app_state \<Rightarrow> (nat \<times> (string \<times> err) list) \<times> app_state" where
  "reconcile_loop c d client ctx [] processed errs s = ((processed, errs), s)"
| "reconcile_loop c d client ctx (run # runs) processed errs s =
     (case reconcileStart c d client ctx run s of
        (Inl e, t) \<Rightarrow> reconcile_loop c d client ctx runs processed (errs @ [(wr_ID run, e)]) t
      | (Inr converged, t) \<Rightarrow> reconcile_loop c d client ctx runs (if converged then processed + 1 else processed) errs t)"

definition ReconcilePendingWorkflowStarts :: "app_env \<Rightarrow> app_env \<Rightarrow> temporal_client \<Rightarrow> string \<Rightarrow> int \<Rightarrow>
    app_state \<Rightarrow> (nat \<times> (string \<times> err) list) \<times> app_state" where
  "ReconcilePendingWorkflowStarts c d client tenantID limit s =
     (let ctx = system_ctx (TrimSpace tenantID) in
      reconcile_loop c d client ctx
        (ListPendingWorkflowRuns (ap_wf s) (ctx_TenantID ctx) (ap_now c - workflowTemporalStartClaimLease) limit) 0 [] s)"

section \<open>When a start fails\<close>

text \<open>\<open>message\<close> is the text of the error of the start, if there is one.\<close>

definition markFormApprovalWorkflowStartFailedInTransaction :: "app_env \<Rightarrow> RequestContext \<Rightarrow> FormInstance \<Rightarrow> string option \<Rightarrow> unit aop" where
  "markFormApprovalWorkflowStartFailedInTransaction c ctx instance message =
     bindS (foundS (NotFound ''form instance'' (fi_ID instance)) (form_at ctx (fi_ID instance))) (\<lambda>current.
     let current = current\<lparr>fi_Status := WorkflowFormStatusWorkflowStartFailed, fi_UpdatedAt := ap_now c\<rparr> in
     bindS (putForm current) (\<lambda>_.
     bindS (getS (\<lambda>s. GetWorkflowRunByFormInstance (ap_wf s) (ctx_TenantID ctx) (fi_ID instance))) (\<lambda>found.
     bindS (case found of None \<Rightarrow> retS ()
            | Some run \<Rightarrow> wfS (\<lambda>s. UpsertWorkflowRun s (run\<lparr>wr_Status := WorkflowRunStatusStartFailed,
                wr_TemporalStartStatus := WorkflowTemporalStartAbandoned, wr_TemporalStartedAt := None, wr_UpdatedAt := ap_now c\<rparr>))) (\<lambda>_.
       auditS c ctx ''workflow.form.temporal_start_failed'' ResourceFormInstance (fi_ID current) ''high''
         ([(''template_id'', VStr (fi_TemplateID current)), (''temporal'', VBool True)] @
          (case message of None \<Rightarrow> [] | Some m \<Rightarrow> [(''error'', VStr m)]))))))"

text \<open>The error of the caller is always \<open>startErr\<close>, joined with the error of the compensation, if any.\<close>

definition compensateFormApprovalWorkflowStartFailure :: "app_env \<Rightarrow> RequestContext \<Rightarrow> FormInstance \<Rightarrow> string \<Rightarrow> unit aop" where
  "compensateFormApprovalWorkflowStartFailure c ctx instance message =
     withTransaction (
       bindS (getS (\<lambda>s. GetLeaveRequestByFormInstanceID (ap_att s) (ctx_TenantID ctx) (fi_ID instance))) (\<lambda>leave.
       bindS (if leave = None then retS () else applyLeaveWorkflowReview c ctx instance ''cancel'' ''cancelled'') (\<lambda>_.
       bindS (getS (\<lambda>s. GetOvertimeRequestByFormInstanceID (ap_att s) (ctx_TenantID ctx) (fi_ID instance))) (\<lambda>overtime.
       bindS (if overtime = None then retS () else applyOvertimeWorkflowReview c ctx instance ''cancel'' ''cancelled'') (\<lambda>_.
         markFormApprovalWorkflowStartFailedInTransaction c ctx instance (Some message))))))"

section \<open>The projection\<close>

definition projection_of :: "RequestContext \<Rightarrow> app_state \<Rightarrow> FormInstance \<Rightarrow> FormApprovalProjection" where
  "projection_of ctx s instance =
     (let p = \<lparr>afp_TenantID = ctx_TenantID ctx, afp_FormInstanceID = fi_ID instance, afp_RunID = [],
                afp_FormStatus = fi_Status instance, afp_RunStatus = [], afp_CurrentStageID = [], afp_CurrentStageInstanceID = [],
                afp_CurrentStageLabel = [], afp_RemindAfterHours = 0, afp_UpdatedAt = fi_UpdatedAt instance\<rparr>
      in case GetWorkflowRunByFormInstance (ap_wf s) (ctx_TenantID ctx) (fi_ID instance) of
        None \<Rightarrow> p
      | Some run \<Rightarrow>
          let p = p\<lparr>afp_RunID := wr_ID run, afp_RunStatus := wr_Status run, afp_CurrentStageInstanceID := wr_CurrentStageInstanceID run,
                    afp_UpdatedAt := (if wr_UpdatedAt run \<noteq> 0 \<and> wr_UpdatedAt run > fi_UpdatedAt instance
                                      then wr_UpdatedAt run else fi_UpdatedAt instance)\<rparr>
          in if wr_CurrentStageInstanceID run = [] then p
             else case GetWorkflowStageInstance (ap_wf s) (ctx_TenantID ctx) (wr_CurrentStageInstanceID run) of
               None \<Rightarrow> p
             | Some stageInstance \<Rightarrow>
                 let stage = workflowStageByID (DeserializeWorkflowStages (wr_StageDefinitionsJSON run)) (wsi_StageID stageInstance);
                     hours = wsc_RemindAfterHours (wsd_Config stage)
                 in p\<lparr>afp_CurrentStageID := wsi_StageID stageInstance, afp_CurrentStageLabel := wsi_Label stageInstance,
                      afp_RemindAfterHours := (if hours \<le> 0 then DefaultFormApprovalRemindAfterHours else hours)\<rparr>)"

definition LoadTemporalFormApprovalProjection :: "RequestContext \<Rightarrow> string \<Rightarrow> FormApprovalProjection aop" where
  "LoadTemporalFormApprovalProjection ctx formInstanceID =
     bindS (foundS (NotFound ''form instance'' formInstanceID) (form_at ctx (TrimSpace formInstanceID))) (\<lambda>instance.
       getS (\<lambda>s. projection_of ctx s instance))"

definition temporalProjectionReached :: "FormApprovalProjection \<Rightarrow> FormApprovalProjection \<Rightarrow> string \<Rightarrow> bool" where
  "temporalProjectionReached projection before expectedStatus \<longleftrightarrow>
     EqualFold (afp_FormStatus projection) (TrimSpace expectedStatus) \<or>
     afp_UpdatedAt projection \<noteq> 0 \<and> afp_UpdatedAt projection > afp_UpdatedAt before \<or>
     afp_CurrentStageInstanceID projection \<noteq> [] \<and> afp_CurrentStageInstanceID projection \<noteq> afp_CurrentStageInstanceID before"

text \<open>One look per tick until the deadline, which comes after \<open>ticks\<close> of them.\<close>

fun waitTemporalFormApprovalProjection :: "(app_state \<Rightarrow> app_state) \<Rightarrow> nat \<Rightarrow> RequestContext \<Rightarrow> FormApprovalProjection \<Rightarrow> string \<Rightarrow>
    FormApprovalProjection aop" where
  "waitTemporalFormApprovalProjection tick ticks ctx before expectedStatus =
     bindS (LoadTemporalFormApprovalProjection ctx (afp_FormInstanceID before)) (\<lambda>projection.
       if temporalProjectionReached projection before expectedStatus then retS projection
       else case ticks of
           0 \<Rightarrow> failS (E 503 ''temporal_projection_timeout'' ''temporal workflow projection did not update before timeout'')
         | Suc left \<Rightarrow> bindS (modS tick) (\<lambda>_. waitTemporalFormApprovalProjection tick left ctx before expectedStatus))"

declare waitTemporalFormApprovalProjection.simps [simp del]

section \<open>Withdrawal\<close>

definition withdrawnForm :: "app_env \<Rightarrow> RequestContext \<Rightarrow> string \<Rightarrow> FormInstance \<Rightarrow> FormInstance" where
  "withdrawnForm c ctx reason current = current\<lparr>fi_Status := workflowFormStatusCancelled, fi_ApprovedBy := ctx_AccountID ctx,
     fi_Payload := withWorkflowReview (fi_Payload current) FormApprovalWorkflowActionWithdraw (ctx_AccountID ctx) reason (ap_now c),
     fi_UpdatedAt := ap_now c\<rparr>"

definition withdrawnRun :: "app_env \<Rightarrow> WorkflowRun \<Rightarrow> WorkflowRun" where
  "withdrawnRun c run = run\<lparr>wr_Status := WorkflowRunStatusCancelled, wr_CurrentStageInstanceID := [], wr_UpdatedAt := ap_now c\<rparr>"

definition skipStage :: "app_env \<Rightarrow> RequestContext \<Rightarrow> WorkflowRun \<Rightarrow> WorkflowStageInstance \<Rightarrow> string \<Rightarrow> unit aop" where
  "skipStage c ctx run stageInstance reason =
     bindS (recordWorkflowAction c ctx run stageInstance FormApprovalWorkflowActionWithdraw reason) (\<lambda>_.
       wfS (\<lambda>s. UpsertWorkflowStageInstance s (stageInstance\<lparr>wsi_Status := WorkflowStageStatusSkipped, wsi_CompletedAt := Some (ap_now c)\<rparr>)))"

definition cancelRun :: "app_env \<Rightarrow> RequestContext \<Rightarrow> WorkflowRun \<Rightarrow> FormInstance \<Rightarrow> string \<Rightarrow> FormInstance aop" where
  "cancelRun c ctx run current reason =
     (let form = withdrawnForm c ctx reason current in
      bindS (wfS (\<lambda>s. UpsertWorkflowRun s (withdrawnRun c run))) (\<lambda>_.
      bindS (putForm form) (\<lambda>_.
      bindS (applyAttendanceWorkflowReview c ctx form ''cancel'' workflowFormStatusCancelled) (\<lambda>_. retS form))))"

definition withdrawTemporalFormApproval :: "app_env \<Rightarrow> RequestContext \<Rightarrow> string \<Rightarrow> string \<Rightarrow> FormInstance aop" where
  "withdrawTemporalFormApproval c ctx formInstanceID reason =
     bindS (RequireWorkflowAuthz c ctx ResourceFormInstance ActionUpdate []) (\<lambda>(account, decision).
     withTransaction (
       bindS (loadActiveWorkflowStage ctx formInstanceID) (\<lambda>(current, run, stageInstance, stages).
       bindS (liftS (requireFormInstanceVisible current account decision)) (\<lambda>_.
       bindS (if wsi_ID stageInstance \<noteq> [] then skipStage c ctx run stageInstance reason else retS ()) (\<lambda>_.
       bindS (cancelRun c ctx run current reason) (\<lambda>form.
       bindS (auditTemporalWorkflowAction c ctx form FormApprovalWorkflowActionWithdraw reason ''medium'') (\<lambda>_. retS form)))))))"

definition start_raced :: AppError where
  "start_raced = WithReasonCode (Conflict ''workflow start completed while cancellation was being requested'') ''workflow_start_raced''"

definition cancelPendingTemporalFormApproval :: "app_env \<Rightarrow> RequestContext \<Rightarrow> string \<Rightarrow> string \<Rightarrow> FormInstance aop" where
  "cancelPendingTemporalFormApproval c ctx formInstanceID reason =
     withTransaction (
       bindS (foundS (NotFound ''form instance'' formInstanceID) (form_at ctx formInstanceID)) (\<lambda>current.
       bindS (foundS (NotFound ''workflow run'' formInstanceID)
               (\<lambda>s. GetWorkflowRunByFormInstance (ap_wf s) (ctx_TenantID ctx) formInstanceID)) (\<lambda>run.
       if wr_TemporalStartStatus run \<noteq> WorkflowTemporalStartPending then failS start_raced
       else bindS (wfQ (\<lambda>s. AbandonPendingWorkflowRunTemporalStart s (ctx_TenantID ctx) (wr_ID run) (ap_now c))) (\<lambda>abandoned.
       case abandoned of None \<Rightarrow> failS start_raced | Some run \<Rightarrow>
       bindS (if wr_CurrentStageInstanceID run = [] then retS ()
              else bindS (getS (\<lambda>s. GetWorkflowStageInstance (ap_wf s) (ctx_TenantID ctx) (wr_CurrentStageInstanceID run))) (\<lambda>found.
                case found of None \<Rightarrow> retS () | Some stage \<Rightarrow> skipStage c ctx run stage reason)) (\<lambda>_.
       bindS (cancelRun c ctx run current reason) (\<lambda>form.
       bindS (auditS c ctx ''workflow.form.cancel_pending_start'' ResourceFormInstance (fi_ID form) ''medium''
               [(''run_id'', VStr (wr_ID run)), (''temporal_start_status'', VStr (wr_TemporalStartStatus run))]) (\<lambda>_. retS form)))))))"

section \<open>Signals\<close>

text \<open>What the activity of a signal does to the projection.  A signal for another run of the form changes nothing.\<close>

definition ApplyTemporalFormApprovalSignal :: "app_env \<Rightarrow> RequestContext \<Rightarrow> FormApprovalWorkflowSignal \<Rightarrow> FormApprovalProjection aop" where
  "ApplyTemporalFormApprovalSignal c ctx signal =
     (let ctx = ctx\<lparr>ctx_IdempotencyKey := TrimSpace (awg_IdempotencyKey signal)\<rparr>;
          action = TrimSpace (ToLower (awg_Action signal)); form = awg_FormInstanceID signal;
          load = LoadTemporalFormApprovalProjection ctx
      in bindS (foundS (NotFound ''workflow run'' form)
               (\<lambda>s. GetWorkflowRunByFormInstance (ap_wf s) (ctx_TenantID ctx) form)) (\<lambda>activeRun.
      if TrimSpace (awg_RunID signal) \<noteq> [] \<and> TrimSpace (awg_RunID signal) \<noteq> wr_ID activeRun then load form
      else if TrimSpace (awg_WorkflowID signal) \<noteq> [] \<and> wr_TemporalWorkflowID activeRun \<noteq> [] \<and>
              TrimSpace (awg_WorkflowID signal) \<noteq> wr_TemporalWorkflowID activeRun then load form
      else bindS (if wr_ID activeRun = [] then retS False
                  else tryS (replayed c (ctx\<lparr>ctx_AccountID := awg_AccountID signal\<rparr>) (wr_ID activeRun) action (awg_Reason signal))) (\<lambda>again.
      if again then load form
      else if action \<in> set [FormApprovalWorkflowActionApprove, FormApprovalWorkflowActionReject, FormApprovalWorkflowActionReturn]
      then bindS (actOnWorkflowStage c ctx form action (awg_Reason signal) True) (\<lambda>instance. load (fi_ID instance))
      else if action = FormApprovalWorkflowActionWithdraw
      then bindS (withdrawTemporalFormApproval c ctx form (awg_Reason signal)) (\<lambda>instance. load (fi_ID instance))
      else load form)))"

definition RecordTemporalFormApprovalReminder :: "app_env \<Rightarrow> RequestContext \<Rightarrow> FormApprovalReminder \<Rightarrow> unit aop" where
  "RecordTemporalFormApprovalReminder c ctx reminder =
     bindS (loadActiveWorkflowStage ctx (afr_FormInstanceID reminder)) (\<lambda>(instance, run, stageInstance, stages).
     bindS (getS (\<lambda>s. ListWorkflowStageAssignees (ap_wf s) (ctx_TenantID ctx) (wsi_ID stageInstance))) (\<lambda>assignees.
     let recipients = map wsa_AccountID (filter (\<lambda>a. wsa_Status a = WorkflowAssigneeStatusPending) assignees) in
     bindS (getS (template_or ctx (fi_TemplateID instance))) (\<lambda>template.
     bindS (deliverWorkflowNotification c ctx (reminder_note c ctx instance stageInstance
              (workflowNotificationTemplateTitle template instance) (afr_CurrentStageLabel reminder)) recipients) (\<lambda>_.
       auditS c ctx ''workflow.form.reminder'' ResourceFormInstance (fi_ID instance) ''medium''
         [(''run_id'', VStr (wr_ID run)), (''stage_id'', VStr (wsi_StageID stageInstance)),
          (''stage_instance_id'', VStr (wsi_ID stageInstance)),
          (''recipient_count'', VNum (int (length (uniqueWorkflowRecipientIDs recipients)))), (''temporal'', VBool True)]))))"

definition stage_actions :: "string list" where
  "stage_actions = [FormApprovalWorkflowActionApprove, FormApprovalWorkflowActionReject, FormApprovalWorkflowActionReturn]"

definition signal_of :: "app_env \<Rightarrow> RequestContext \<Rightarrow> string \<Rightarrow> WorkflowRun \<Rightarrow> string \<Rightarrow> string \<Rightarrow> string \<Rightarrow> FormApprovalWorkflowSignal" where
  "signal_of c ctx i run action reason key =
     \<lparr>awg_TenantID = ctx_TenantID ctx, awg_FormInstanceID = i, awg_RunID = wr_ID run, awg_WorkflowID = wr_TemporalWorkflowID run,
      awg_AccountID = ctx_AccountID ctx, awg_Action = action, awg_Reason = TrimSpace reason, awg_RequestID = ctx_RequestID ctx,
      awg_TraceID = ctx_TraceID ctx, awg_IdempotencyKey = key,
      awg_CommandFingerprint = workflowCommandFingerprint c (wr_ID run) (ctx_AccountID ctx) action reason\<rparr>"

definition ErrFormApprovalWorkflowNotFound :: err where
  "ErrFormApprovalWorkflowNotFound = PlainErr ''form approval workflow not found''"

definition sendSignal :: "temporal \<Rightarrow> FormApprovalWorkflowSignal \<Rightarrow> unit aop" where
  "sendSignal tmp signal =
     (if is_NoClient (tmp_client tmp) then failS (WithReasonCode temporal_unavailable ''temporal_workflow_unavailable'')
      else orElseS (tmp_signal tmp signal) (\<lambda>e. if e = ErrFormApprovalWorkflowNotFound
        then failS (WithReasonCode (E 404 ''workflow_not_found'' ''form approval workflow is not available for this form instance'') ''workflow_not_found'')
        else liftS (Inl e)))"

definition signalTemporalFormApprovalWorkflow :: "app_env \<Rightarrow> temporal \<Rightarrow> RequestContext \<Rightarrow> string \<Rightarrow> string \<Rightarrow> string \<Rightarrow> string \<Rightarrow> FormInstance aop" where
  "signalTemporalFormApprovalWorkflow c tmp ctx i action expectedStatus reason =
     (let i = TrimSpace i; action = TrimSpace (ToLower action);
          key = (if TrimSpace (ctx_IdempotencyKey ctx) = [] then TrimSpace (ctx_RequestID ctx) else TrimSpace (ctx_IdempotencyKey ctx))
      in if i = [] then failS (BadRequest ''id is required'')
      else bindS (RequireWorkflowAuthz c ctx ResourceFormInstance (if action \<in> set stage_actions then ActionRead else ActionUpdate) []) (\<lambda>_.
      bindS (LoadTemporalFormApprovalProjection ctx i) (\<lambda>before.
      bindS (foundS (NotFound ''workflow run'' i) (\<lambda>s. GetWorkflowRunByFormInstance (ap_wf s) (ctx_TenantID ctx) i)) (\<lambda>run.
      case starting_err run of Some e \<Rightarrow> failS e | None \<Rightarrow>
      bindS (tryS (replayed c (ctx\<lparr>ctx_IdempotencyKey := key\<rparr>) (wr_ID run) action reason)) (\<lambda>again.
      if again then foundS (NotFound ''form instance'' i) (form_at ctx i)
      else bindS (if action \<in> set stage_actions then bindS (loadActiveWorkflowStageForAssignee c ctx i) (\<lambda>_. retS ()) else retS ()) (\<lambda>_.
      bindS (sendSignal tmp (signal_of c ctx i run action reason key)) (\<lambda>_.
      bindS (waitTemporalFormApprovalProjection (tmp_tick tmp) (tmp_ticks tmp) ctx before expectedStatus) (\<lambda>projection.
        foundS (NotFound ''form instance'' (afp_FormInstanceID projection)) (form_at ctx (afp_FormInstanceID projection))))))))))"

end
