(* ===== verification/Sort_Multiset.thy ===== *)
theory Sort_Multiset
  imports Prelude "HOL-Library.Multiset"
begin

text \<open>
  Stable sorting (\<open>sort.SliceStable\<close>, modelled by \<open>sort_less\<close>) rearranges the elements
  of a list and nothing else, so sums over a sorted list are sums over the list.
\<close>

lemma mset_insert_less [simp]: "mset (insert_less lt x xs) = add_mset x (mset xs)"
  by (induction xs) auto

lemma mset_sort_less [simp]: "mset (sort_less lt xs) = mset xs"
  by (induction xs) (simp_all add: sort_less_def)

lemma sum_sorted: "sum_list (map f (sort_less lt xs)) = sum_list (map (f :: _ \<Rightarrow> int) xs)"
  by (metis mset_map mset_sort_less sum_mset_sum_list)

end
