(* ===== verification/Leave_Ledger.thy ===== *)
theory Leave_Ledger
  imports Attendance_Review Sort_Multiset
begin

text \<open>
  What the review of a form guarantees to the leave ledger and to the punches: a decision on a reserved
  request moves the effective balance by exactly the reserved minutes, once, whatever is repeated; and
  corrections never leave an employee with two accepted clock-ins on a day.
\<close>

section \<open>Amounts in the ledger\<close>

definition ledger_rows :: "string \<Rightarrow> app_state \<Rightarrow> LeaveBalanceEntry list" where
  "ledger_rows t s = rows (att_leaveBalanceEntries (ap_att s)) t"

definition booked :: "string \<Rightarrow> string \<Rightarrow> app_state \<Rightarrow> bool" where
  "booked t key s \<longleftrightarrow> list_ex (\<lambda>e. lbe_IdempotencyKey e = key) (ledger_rows t s)"

text \<open>No id drawn from now on names a row of the ledger.\<close>

definition fresh_entries :: "app_env \<Rightarrow> string \<Rightarrow> app_state \<Rightarrow> bool" where
  "fresh_entries c t s \<longleftrightarrow> (\<forall>n \<ge> ap_calls s. map_of (bucket (att_leaveBalanceEntries (ap_att s)) t) (ap_newID c ''lbe'' n) = None) \<and>
     inj (ap_newID c ''lbe'')"

lemma map_put_fresh: "map_of m k = None \<Longrightarrow> map_put k v m = m @ [(k, v)]"
  by (induction m) (auto split: if_splits)

lemma sum_for_append: "sum_for p (xs @ ys) b = sum_for p xs b + sum_for p ys b"
  by (simp add: sum_for_def)

lemma sum_for_mset:
  assumes "mset xs = mset ys"
  shows "sum_for p xs b = sum_for p ys b"
proof -
  let ?f = "filter (\<lambda>e. lbe_BalanceID e = b \<and> p e)"
  have "mset (map lbe_AmountMinutes (?f xs)) = mset (map lbe_AmountMinutes (?f ys))" using assms by simp
  then show ?thesis unfolding sum_for_def by (metis sum_mset_sum_list)
qed

lemma sum_for_listed:
  "sum_for p (ListLeaveBalanceEntries (ap_att s) t) b = sum_for p (ledger_rows t s) b"
  by (rule sum_for_mset) (simp add: ListLeaveBalanceEntries_def ledger_rows_def mset_sort_less)

lemma find_put:
  assumes "\<forall>e \<in> set m. fst e = ident (snd e)" "find P (map snd m) = Some r" "P v" "ident v = ident r"
  shows "find P (map snd (map_put (ident v) v m)) = Some v"
  using assms by (induction m) (auto split: if_splits)

lemma find_put_None: "find P (map snd m) = None \<Longrightarrow> \<not> P v \<Longrightarrow> find P (map snd (map_put k v m)) = None"
  by (induction m) (auto split: if_splits)

section \<open>One entry\<close>

definition entry_key :: "LeaveRequest \<Rightarrow> LeaveRecord \<Rightarrow> string \<Rightarrow> string" where
  "entry_key request record entryType =
     ledger_key (lr_ID request) (leaveRequestBalanceCycle request) (lrec_BalanceID record) entryType"

lemma ledger_key_type [simp]: "ledger_key r cy b k = ledger_key r cy b k' \<longleftrightarrow> k = k'"
  by (simp add: ledger_key_def)

text \<open>What an entry under a key that is not booked yet adds, and that an entry that is booked adds nothing.\<close>

definition entry_added :: "app_env \<Rightarrow> string \<Rightarrow> string \<Rightarrow> int \<Rightarrow> LeaveRecord \<Rightarrow> string \<Rightarrow> app_state \<Rightarrow> app_state \<Rightarrow> bool" where
  "entry_added c t key amount record kind s u \<longleftrightarrow>
     (\<exists>e. ledger_rows t u = ledger_rows t s @ [e] \<and> lbe_IdempotencyKey e = key \<and> lbe_AmountMinutes e = amount \<and>
          lbe_BalanceID e = lrec_BalanceID record \<and> lbe_EntryType e = kind) \<and>
     fresh_entries c t u"

definition with_ledger :: "app_state \<Rightarrow> LeaveBalanceEntry table \<Rightarrow> nat \<Rightarrow> app_state" where
  "with_ledger s es n = s\<lparr>ap_att := (ap_att s)\<lparr>att_leaveBalanceEntries := es\<rparr>, ap_calls := n\<rparr>"

definition same_but_ledger :: "app_state \<Rightarrow> app_state \<Rightarrow> bool" where
  "same_but_ledger s u \<longleftrightarrow> (\<exists>es n. u = with_ledger s es n)"

lemma with_ledger_twice [simp]: "with_ledger (with_ledger s es n) es' n' = with_ledger s es' n'"
  by (simp add: with_ledger_def)

lemma same_but_ledger_trans: "same_but_ledger s u \<Longrightarrow> same_but_ledger u v \<Longrightarrow> same_but_ledger s v"
  by (force simp: same_but_ledger_def)

lemma same_but_ledger_refl: "same_but_ledger s s"
proof -
  have "s = with_ledger s (att_leaveBalanceEntries (ap_att s)) (ap_calls s)" by (simp add: with_ledger_def)
  then show ?thesis unfolding same_but_ledger_def by blast
qed

lemma appendLeaveBalanceEntry_adds:
  assumes "TrimSpace (lrec_BalanceID record) \<noteq> []" "amount \<noteq> 0" "fresh_entries c (ctx_TenantID ctx) s"
    and "\<not> booked (ctx_TenantID ctx) (ledger_key (lr_ID request) cycle (lrec_BalanceID record) kind) s"
  shows "okS (appendLeaveBalanceEntry c ctx request record kind amount cycle) (\<lambda>_ u.
     entry_added c (ctx_TenantID ctx) (ledger_key (lr_ID request) cycle (lrec_BalanceID record) kind) amount record kind s u \<and>
     same_but_ledger s u) s"
proof -
  let ?t = "ctx_TenantID ctx" and ?i = "ap_newID c ''lbe'' (ap_calls s)"
  let ?e = "leave_entry c ctx request record kind amount cycle ?i" and ?m = "bucket (att_leaveBalanceEntries (ap_att s)) ?t"
  define u where "u = s\<lparr>ap_calls := Suc (ap_calls s), ap_att := (ap_att s)\<lparr>att_leaveBalanceEntries :=
     putNested (att_leaveBalanceEntries (ap_att s)) ?t ?i ?e\<rparr>\<rparr>"
  have new: "map_of ?m ?i = None" using assms(3) by (simp add: fresh_entries_def)
  have rows: "ledger_rows ?t u = ledger_rows ?t s @ [?e]"
    by (simp add: u_def ledger_rows_def copyNestedValues_def map_put_fresh [OF new])
  have "fresh_entries c ?t u"
    using assms(3) by (auto simp: fresh_entries_def u_def inj_eq)
  with rows have added: "entry_added c ?t (ledger_key (lr_ID request) cycle (lrec_BalanceID record) kind) amount record kind s u"
    by (simp add: entry_added_def leave_entry_def)
  have run: "appendLeaveBalanceEntry c ctx request record kind amount cycle s = (Inr (), u)"
    using assms(1,2,4) by (simp add: appendLeaveBalanceEntry_def bindS_def newIDS_def attS_def modS_def AppendLeaveBalanceEntry_def
        booked_def ledger_rows_def leave_entry_def u_def)
  have "u = with_ledger s (putNested (att_leaveBalanceEntries (ap_att s)) ?t ?i ?e) (Suc (ap_calls s))"
    by (simp add: with_ledger_def u_def)
  then have "same_but_ledger s u" unfolding same_but_ledger_def by blast
  with added show ?thesis by (simp add: okS_def run)
qed

section \<open>The decision\<close>

text \<open>The sums of the ledger that the overlay of a balance reads: all entries, reservations, and local use.\<close>

definition balance_sums :: "string \<Rightarrow> string \<Rightarrow> app_state \<Rightarrow> int \<times> int \<times> int" where
  "balance_sums t b s =
     (sum_for (\<lambda>_. True) (ledger_rows t s) b,
      sum_for (\<lambda>e. lbe_EntryType e \<in> {leaveBalanceEntryReserve, leaveBalanceEntryRelease}) (ledger_rows t s) b,
      sum_for (\<lambda>e. lbe_EntryType e \<in> {leaveBalanceEntryLocalConsume, leaveBalanceEntryLocalRefund,
         leaveBalanceEntryExternalReconcile, leaveBalanceEntryExternalReversal}) (ledger_rows t s) b)"

definition moved :: "bool \<Rightarrow> int \<Rightarrow> int \<times> int \<times> int \<Rightarrow> int \<times> int \<times> int" where
  "moved approved m ls = (fst ls + (if approved then 0 else m), fst (snd ls) + m,
     snd (snd ls) - (if approved then m else 0))"

text \<open>A reservation that no decision has closed yet.\<close>

definition open_reservation :: "app_env \<Rightarrow> string \<Rightarrow> LeaveRequest \<Rightarrow> LeaveRecord \<Rightarrow> app_state \<Rightarrow> bool" where
  "open_reservation c t request record s \<longleftrightarrow> balanceReserved request \<and> TrimSpace (lrec_BalanceID record) \<noteq> [] \<and>
     \<not> booked t (entry_key request record leaveBalanceEntryRelease) s \<and>
     \<not> booked t (entry_key request record leaveBalanceEntryLocalConsume) s \<and> fresh_entries c t s"

lemma booked_added:
  "entry_added c t key amount record kind s u \<Longrightarrow> booked t k u \<longleftrightarrow> booked t k s \<or> k = key"
  by (auto simp: entry_added_def booked_def)

lemma balance_sums_added:
  assumes "entry_added c t key amount record kind s u"
  shows "balance_sums t b u = (let (a, p, l) = balance_sums t b s; n = (if b = lrec_BalanceID record then amount else 0) in
     (a + n, p + (if kind \<in> {leaveBalanceEntryReserve, leaveBalanceEntryRelease} then n else 0),
      l + (if kind \<in> {leaveBalanceEntryLocalConsume, leaveBalanceEntryLocalRefund,
         leaveBalanceEntryExternalReconcile, leaveBalanceEntryExternalReversal} then n else 0)))"
proof -
  from assms obtain e where rows: "ledger_rows t u = ledger_rows t s @ [e]" and e: "lbe_AmountMinutes e = amount"
    "lbe_BalanceID e = lrec_BalanceID record" "lbe_EntryType e = kind" by (auto simp: entry_added_def)
  have one: "sum_for p [e] b = (if b = lrec_BalanceID record \<and> p e then amount else 0)" for p
    using e by (auto simp: sum_for_def)
  show ?thesis unfolding balance_sums_def rows sum_for_append one Let_def e(3) by simp
qed

lemma balance_sums_same: "ledger_rows t u = ledger_rows t s \<Longrightarrow> balance_sums t b u = balance_sums t b s"
  by (simp add: balance_sums_def)

lemma settleLedger_moves:
  assumes res: "open_reservation c (ctx_TenantID ctx) request record s"
    and outcome: "nextStatus \<in> {''approved'', ''rejected'', ''cancelled''}"
  shows "okS (settleLedger c ctx request record nextStatus) (\<lambda>_ u. same_but_ledger s u \<and>
     (\<forall>b. balance_sums (ctx_TenantID ctx) b u =
        (if b = lrec_BalanceID record then moved (nextStatus = ''approved'') (lr_RequestedMinutes request) (balance_sums (ctx_TenantID ctx) b s)
         else balance_sums (ctx_TenantID ctx) b s))) s"
proof (cases "lr_RequestedMinutes request = 0")
  case True
  then show ?thesis
    by (simp add: settleLedger_def Let_def appendLeaveBalanceEntry_def okS_simps same_but_ledger_refl moved_def split: prod.splits)
next
  case False
  let ?t = "ctx_TenantID ctx" and ?m = "lr_RequestedMinutes request"
  let ?release = "appendLeaveBalanceEntry c ctx request record leaveBalanceEntryRelease ?m (leaveRequestBalanceCycle request)"
  let ?consume = "appendLeaveBalanceEntry c ctx request record leaveBalanceEntryLocalConsume (- ?m) (leaveRequestBalanceCycle request)"
  note parts = res [unfolded open_reservation_def entry_key_def]
  have prog: "settleLedger c ctx request record nextStatus =
      bindS ?release (\<lambda>_. if nextStatus = ''approved'' then ?consume else retS ())"
    using outcome parts by (simp add: settleLedger_def Let_def)
  have step1: "okS ?release (\<lambda>_ u. entry_added c ?t (entry_key request record leaveBalanceEntryRelease) ?m record leaveBalanceEntryRelease s u \<and>
      same_but_ledger s u) s"
    using appendLeaveBalanceEntry_adds [OF _ False, of "record" c ctx s request "leaveRequestBalanceCycle request"] parts
    by (simp add: entry_key_def)
  have step2: "okS ?consume (\<lambda>_ v. entry_added c ?t (entry_key request record leaveBalanceEntryLocalConsume) (- ?m) record
      leaveBalanceEntryLocalConsume u v \<and> same_but_ledger u v) u"
    if u: "entry_added c ?t (entry_key request record leaveBalanceEntryRelease) ?m record leaveBalanceEntryRelease s u" for u
  proof -
    have "fresh_entries c ?t u" using u by (simp add: entry_added_def)
    moreover have "\<not> booked ?t (entry_key request record leaveBalanceEntryLocalConsume) u"
      unfolding booked_added [OF u] using parts by (simp add: entry_key_def)
    ultimately show ?thesis
      using appendLeaveBalanceEntry_adds [of "record" "- ?m" c ctx u request "leaveRequestBalanceCycle request"] parts False
      by (simp add: entry_key_def)
  qed
  show ?thesis unfolding prog okS_bind
  proof (rule okS_mono [OF step1])
    fix x u
    assume u: "entry_added c ?t (entry_key request record leaveBalanceEntryRelease) ?m record leaveBalanceEntryRelease s u \<and> same_but_ledger s u"
    note added_u = balance_sums_added [OF conjunct1 [OF u]]
    show "okS (if nextStatus = ''approved'' then ?consume else retS ()) (\<lambda>_ v. same_but_ledger s v \<and>
       (\<forall>b. balance_sums ?t b v = (if b = lrec_BalanceID record then moved (nextStatus = ''approved'') ?m (balance_sums ?t b s)
          else balance_sums ?t b s))) u"
    proof (cases "nextStatus = ''approved''")
      case True
      show ?thesis unfolding if_P [OF True]
        by (rule okS_mono [OF step2 [OF conjunct1 [OF u]]])
           (use u True in \<open>auto simp: balance_sums_added added_u moved_def Let_def split: prod.splits intro: same_but_ledger_trans\<close>)
    next
      case False
      then show ?thesis using u by (auto simp: okS_ret added_u moved_def Let_def split: prod.splits)
    qed
  qed
qed

definition requests_keyed :: "string \<Rightarrow> app_state \<Rightarrow> bool" where
  "requests_keyed t s \<longleftrightarrow>
     (\<forall>e \<in> set (bucket (att_leaveRequests (ap_att s)) t). fst e = lr_ID (snd e) \<and> lr_TenantID (snd e) = t)"

lemma UpsertLeaveRequest_put:
  obtains v' where "UpsertLeaveRequest a v = a\<lparr>att_leaveRequests := putNested (att_leaveRequests a) (lr_TenantID v) (lr_ID v) v'\<rparr>"
    "lr_ID v' = lr_ID v" "lr_FormInstanceID v' = lr_FormInstanceID v" "lr_EffectStatus v' = lr_EffectStatus v"
    "lr_EmployeeID v' = lr_EmployeeID v"
proof
  let ?v1 = "if TrimSpace (lr_LeaveTypeID v) = [] then v\<lparr>lr_LeaveTypeID := StableLeaveTypeID (lr_LeaveType v)\<rparr> else v"
  let ?v2 = "if TrimSpace (lr_ReconciliationStatus ?v1) = [] then ?v1\<lparr>lr_ReconciliationStatus := ''not_required''\<rparr> else ?v1"
  let ?v3 = "if lr_UpdatedAt ?v2 = 0 then ?v2\<lparr>lr_UpdatedAt := lr_CreatedAt ?v2\<rparr> else ?v2"
  show "lr_ID ?v3 = lr_ID v" "lr_FormInstanceID ?v3 = lr_FormInstanceID v" "lr_EffectStatus ?v3 = lr_EffectStatus v"
    "lr_EmployeeID ?v3 = lr_EmployeeID v" by simp_all
  show "UpsertLeaveRequest a v = a\<lparr>att_leaveRequests := putNested (att_leaveRequests a) (lr_TenantID v) (lr_ID v) ?v3\<rparr>"
    unfolding UpsertLeaveRequest_def Let_def by simp
qed

lemma find_SomeD: "find P xs = Some x \<Longrightarrow> x \<in> set xs \<and> P x"
  by (induction xs) (auto split: if_splits)

lemma leaveRequestOf_in:
  assumes "leaveRequestOf ctx instance s = Some r" "requests_keyed (ctx_TenantID ctx) s"
  shows "(lr_ID r, r) \<in> set (bucket (att_leaveRequests (ap_att s)) (ctx_TenantID ctx)) \<and> lr_TenantID r = ctx_TenantID ctx"
proof -
  let ?m = "bucket (att_leaveRequests (ap_att s)) (ctx_TenantID ctx)"
  have "r \<in> snd ` set ?m"
    using assms(1) by (auto simp: leaveRequestOf_def reviewedRequest_def GetLeaveRequestByFormInstanceID_def GetLeaveRequest_def
        copyNestedValues_def getNested_bucket dest!: map_of_SomeD find_SomeD intro: rev_image_eqI split: option.splits if_splits)
  then obtain e where e: "e \<in> set ?m" "snd e = r" by auto
  then have "fst e = lr_ID (snd e) \<and> lr_TenantID (snd e) = ctx_TenantID ctx"
    using assms(2) unfolding requests_keyed_def by blast
  with e show ?thesis by (metis prod.collapse)
qed

text \<open>A request that is written back under its id is found again for the form.\<close>

lemma leaveRequestOf_upsert:
  assumes found: "leaveRequestOf ctx instance s = Some r" and keyed: "requests_keyed (ctx_TenantID ctx) s"
    and v: "lr_ID v = lr_ID r" "lr_FormInstanceID v = lr_FormInstanceID r"
    and u: "att_leaveRequests (ap_att u) = putNested (att_leaveRequests (ap_att s)) (ctx_TenantID ctx) (lr_ID v) v"
  shows "leaveRequestOf ctx instance u = Some v"
proof -
  let ?m = "bucket (att_leaveRequests (ap_att s)) (ctx_TenantID ctx)" and ?P = "\<lambda>item. lr_FormInstanceID item = fi_ID instance"
  let ?link = "workflowLinkedLeaveRequestID instance"
  have m: "bucket (att_leaveRequests (ap_att u)) (ctx_TenantID ctx) = map_put (lr_ID v) v ?m" by (simp add: u)
  show ?thesis
  proof (cases "find ?P (map snd ?m)")
    case (Some r')
    with found have "r' = r" by (simp add: leaveRequestOf_def reviewedRequest_def GetLeaveRequestByFormInstanceID_def copyNestedValues_def)
    with Some v(2) have "?P v" by (auto simp: find_Some_iff)
    have "find ?P (map snd (map_put (lr_ID v) v ?m)) = Some v"
      using keyed Some \<open>r' = r\<close> \<open>?P v\<close> v(1) by (intro find_put) (simp_all add: requests_keyed_def)
    then show ?thesis
      by (simp add: leaveRequestOf_def reviewedRequest_def GetLeaveRequestByFormInstanceID_def copyNestedValues_def m)
  next
    case None
    with found have link: "?link \<noteq> []" "map_of ?m ?link = Some r" "TrimSpace (lr_FormInstanceID r) = TrimSpace (fi_ID instance)"
      by (simp_all add: leaveRequestOf_def reviewedRequest_def GetLeaveRequestByFormInstanceID_def copyNestedValues_def
          GetLeaveRequest_def getNested_bucket split: if_splits option.splits)
    then have "?link = lr_ID r" using keyed by (auto simp: requests_keyed_def dest!: map_of_SomeD)
    have "r \<in> set (map snd ?m)" using link(2) by (force dest: map_of_SomeD)
    with None have "\<not> ?P v" by (auto simp: find_None_iff v(2))
    with None have "find ?P (map snd (map_put (lr_ID v) v ?m)) = None" by (intro find_put_None) simp_all
    then show ?thesis using link v \<open>?link = lr_ID r\<close>
      by (simp add: leaveRequestOf_def reviewedRequest_def GetLeaveRequestByFormInstanceID_def copyNestedValues_def m
          GetLeaveRequest_def getNested_bucket)
  qed
qed

text \<open>Two decisions that have the same effect on the ledger.\<close>

definition same_verdict :: "string \<Rightarrow> string \<Rightarrow> bool" where
  "same_verdict a b \<longleftrightarrow> {a, b} \<subseteq> {''approved'', ''rejected'', ''cancelled''} \<and> (a = ''approved'' \<longleftrightarrow> b = ''approved'')"

definition verdict_effect :: "string \<Rightarrow> string" where
  "verdict_effect nextStatus = (if nextStatus = ''approved'' then ''applied'' else ''compensated'')"

lemma settledRequest_sel [simp]:
  "lr_ID (settledRequest c kind nextStatus r) = lr_ID r" "lr_TenantID (settledRequest c kind nextStatus r) = lr_TenantID r"
  "lr_FormInstanceID (settledRequest c kind nextStatus r) = lr_FormInstanceID r"
  "lr_EmployeeID (settledRequest c kind nextStatus r) = lr_EmployeeID r"
  "lr_EffectStatus (settledRequest c kind nextStatus r) = verdict_effect nextStatus"
  by (simp_all add: settledRequest_def Let_def verdict_effect_def)

lemma settled_same_verdict:
  "same_verdict a b \<Longrightarrow> already_settled b (verdict_effect a)"
  by (auto simp: same_verdict_def already_settled_def verdict_effect_def)

text \<open>A second decision of the same kind finds the request settled.\<close>

lemma review_settled:
  assumes "leaveRequestOf ctx instance s = Some r" "workflowApplicantEmployeeID ctx instance s = Inr e" "TrimSpace (lr_EmployeeID r) = e"
    and "already_settled (leaveRequestStatusForWorkflow kind status) (lr_EffectStatus r)"
  shows "applyLeaveWorkflowReview c ctx instance kind status s = (Inr (), s)"
  using assms by (simp add: applyLeaveWorkflowReview_def bindS_def getS_def tryS_def retS_def Let_def)

definition effectiveRemaining :: "RequestContext \<Rightarrow> LeaveBalance \<Rightarrow> app_state \<Rightarrow> int" where
  "effectiveRemaining ctx item s =
     lb_RemainingMinutes (hd (applyLeaveBalanceOverlay [item] (ListLeaveBalanceEntries (ap_att s) (ctx_TenantID ctx))))"

lemma effectiveRemaining_sums:
  "effectiveRemaining ctx item s = lb_RemainingMinutes item + fst (balance_sums (ctx_TenantID ctx) (lb_ID item) s)"
  by (simp add: effectiveRemaining_def applyLeaveBalanceOverlay_def Let_def sum_for_listed balance_sums_def)

text \<open>What a decision on an open reservation leaves behind.\<close>

definition closed_by :: "RequestContext \<Rightarrow> FormInstance \<Rightarrow> string \<Rightarrow> LeaveRequest \<Rightarrow> LeaveRecord \<Rightarrow> app_state \<Rightarrow> app_state \<Rightarrow> bool" where
  "closed_by ctx instance nextStatus request record s u \<longleftrightarrow>
     (\<forall>b. balance_sums (ctx_TenantID ctx) b u =
        (if b = lrec_BalanceID record then moved (nextStatus = ''approved'') (lr_RequestedMinutes request) (balance_sums (ctx_TenantID ctx) b s)
         else balance_sums (ctx_TenantID ctx) b s)) \<and>
     (\<exists>r. leaveRequestOf ctx instance u = Some r \<and> lr_EffectStatus r = verdict_effect nextStatus \<and>
        lr_EmployeeID r = lr_EmployeeID request) \<and> ap_mem u = ap_mem s"

lemma review_closes:
  assumes request: "leaveRequestOf ctx instance s = Some request" "requests_keyed (ctx_TenantID ctx) s"
    and rec: "GetLeaveRecord (ap_att s) (ctx_TenantID ctx) (lr_ID request) = Some rec"
    and res: "open_reservation c (ctx_TenantID ctx) request rec s"
    and outcome: "leaveRequestStatusForWorkflow kind status \<in> {''approved'', ''rejected'', ''cancelled''}"
      "\<not> already_settled (leaveRequestStatusForWorkflow kind status) (lr_EffectStatus request)"
  shows "okS (applyLeaveWorkflowReview c ctx instance kind status)
     (\<lambda>_ u. closed_by ctx instance (leaveRequestStatusForWorkflow kind status) request rec s u \<and>
        workflowApplicantEmployeeID ctx instance s = Inr (TrimSpace (lr_EmployeeID request))) s"
proof -
  let ?t = "ctx_TenantID ctx" and ?next = "leaveRequestStatusForWorkflow kind status"
  define r where "r = (if TrimSpace (lr_LeaveTypeID request) = []
     then request\<lparr>lr_LeaveTypeID := StableLeaveTypeID (lr_LeaveType request)\<rparr> else request)"
  have r: "lr_ID r = lr_ID request" "lr_TenantID r = lr_TenantID request" "lr_FormInstanceID r = lr_FormInstanceID request"
    "lr_EmployeeID r = lr_EmployeeID request" "lr_RequestedMinutes r = lr_RequestedMinutes request"
    "lr_EvaluationSnapshot r = lr_EvaluationSnapshot request" by (simp_all add: r_def)
  have res_r: "open_reservation c ?t r rec s"
  proof -
    have "leaveRequestBalanceCycle r = leaveRequestBalanceCycle request" "balanceReserved r = balanceReserved request"
      unfolding leaveRequestBalanceCycle_def balanceReserved_def r by (rule refl)+
    with res show ?thesis by (simp add: open_reservation_def entry_key_def r)
  qed
  have tenant: "lr_TenantID request = ?t" using leaveRequestOf_in [OF request] by simp
  have closed: "closed_by ctx instance ?next request rec s
      (u\<lparr>ap_att := UpsertLeaveRequest (UpsertLeaveRecord (ap_att u) rec') (settledRequest c kind ?next r)\<rparr>)"
    if u: "same_but_ledger s u" and sums: "\<forall>b. balance_sums ?t b u =
        (if b = lrec_BalanceID rec then moved (?next = ''approved'') (lr_RequestedMinutes r) (balance_sums ?t b s) else balance_sums ?t b s)"
    for u rec'
  proof -
    let ?v = "settledRequest c kind ?next r" and ?a = "UpsertLeaveRecord (ap_att u) rec'"
    obtain v where v: "UpsertLeaveRequest ?a ?v = ?a\<lparr>att_leaveRequests := putNested (att_leaveRequests ?a) (lr_TenantID ?v) (lr_ID ?v) v\<rparr>"
      "lr_ID v = lr_ID ?v" "lr_FormInstanceID v = lr_FormInstanceID ?v" "lr_EffectStatus v = lr_EffectStatus ?v"
      "lr_EmployeeID v = lr_EmployeeID ?v" by (rule UpsertLeaveRequest_put)
    let ?w = "u\<lparr>ap_att := UpsertLeaveRequest ?a ?v\<rparr>"
    have a: "att_leaveRequests ?a = att_leaveRequests (ap_att s)" "att_leaveBalanceEntries ?a = att_leaveBalanceEntries (ap_att u)"
      using u by (auto simp: UpsertLeaveRecord_def Let_def same_but_ledger_def with_ledger_def)
    have "leaveRequestOf ctx instance ?w = Some v"
      by (rule leaveRequestOf_upsert [OF request]) (simp_all add: v(1-3) r a(1) tenant)
    moreover have "balance_sums ?t b ?w = balance_sums ?t b u" for b
      by (rule balance_sums_same) (simp add: ledger_rows_def v(1) a(2))
    moreover have "ap_mem ?w = ap_mem s" using u by (auto simp: same_but_ledger_def with_ledger_def)
    ultimately show ?thesis using sums v(4,5) by (simp add: closed_by_def r)
  qed
  show ?thesis
    unfolding applyLeaveWorkflowReview_def okS_bind okS_get request(1) option.case okS_try
  proof (intro allI impI)
    fix e
    assume e: "workflowApplicantEmployeeID ctx instance s = Inr e"
    show "okS (if TrimSpace (lr_EmployeeID request) \<noteq> e
        then failS (Conflict ''linked leave request does not belong to the form applicant'')
        else let nextStatus = ?next in
          if already_settled nextStatus (lr_EffectStatus request) then retS ()
          else let request = (if TrimSpace (lr_LeaveTypeID request) = []
                 then request\<lparr>lr_LeaveTypeID := StableLeaveTypeID (lr_LeaveType request)\<rparr> else request) in
            bindS (foundS (Conflict ''leave request has no annual leave record'')
              (\<lambda>s. GetLeaveRecord (ap_att s) (ctx_TenantID ctx) (lr_ID request))) (\<lambda>record.
            bindS (settleLedger c ctx request record nextStatus) (\<lambda>_.
            bindS (attS (\<lambda>s. UpsertLeaveRecord s (settledRecord c nextStatus record))) (\<lambda>_.
              attS (\<lambda>s. UpsertLeaveRequest s (settledRequest c kind nextStatus request))))))
       (\<lambda>_ u. closed_by ctx instance ?next request rec s u \<and>
          workflowApplicantEmployeeID ctx instance s = Inr (TrimSpace (lr_EmployeeID request))) s"
    proof (cases "TrimSpace (lr_EmployeeID request) = e")
      case True
      have "okS (settleLedger c ctx r rec ?next) (\<lambda>_ u.
          closed_by ctx instance ?next request rec s
            (u\<lparr>ap_att := UpsertLeaveRequest (UpsertLeaveRecord (ap_att u) (settledRecord c ?next rec)) (settledRequest c kind ?next r)\<rparr>)) s"
        by (rule okS_mono [OF settleLedger_moves [OF res_r outcome(1)]]) (rule closed, simp_all)
      then show ?thesis using True e outcome(2) rec r(1)
        by (simp add: Let_def okS_simps flip: r_def)
    qed (simp add: okS_fail)
  qed
qed

definition awaiting_decision :: "app_env \<Rightarrow> RequestContext \<Rightarrow> FormInstance \<Rightarrow> LeaveRequest \<Rightarrow> LeaveRecord \<Rightarrow> app_state \<Rightarrow> bool" where
  "awaiting_decision c ctx instance request rec s \<longleftrightarrow>
     leaveRequestOf ctx instance s = Some request \<and> lr_EffectStatus request = ''not_applied'' \<and>
     GetLeaveRecord (ap_att s) (ctx_TenantID ctx) (lr_ID request) = Some rec \<and>
     requests_keyed (ctx_TenantID ctx) s \<and> open_reservation c (ctx_TenantID ctx) request rec s"

text \<open>
  C34.  A decision settles a reserved leave request exactly once.  An approval turns the reservation into
  local use and leaves the remaining balance where the reservation had put it; a rejection, return or
  cancellation gives the reserved minutes back; no other balance moves; and a second decision of the
  same kind, by whatever route it comes, finds the request settled and changes nothing.
\<close>

theorem leave_review_settles:
  assumes "awaiting_decision c ctx instance request rec s"
    and "applyLeaveWorkflowReview c ctx instance kind status s = (Inr (), s')"
    and "same_verdict (leaveRequestStatusForWorkflow kind status) (leaveRequestStatusForWorkflow kind' status')"
  shows "let approved = (leaveRequestStatusForWorkflow kind status = ''approved''); minutes = lr_RequestedMinutes request;
       used = (\<lambda>u. snd (snd (balance_sums (ctx_TenantID ctx) (lrec_BalanceID rec) u)))
     in effectiveRemaining ctx item s' = effectiveRemaining ctx item s +
          (if lb_ID item = lrec_BalanceID rec \<and> \<not> approved then minutes else 0) \<and>
        used s' = used s - (if approved then minutes else 0) \<and>
        applyLeaveWorkflowReview c' ctx instance kind' status' s' = (Inr (), s')"
proof -
  let ?next = "leaveRequestStatusForWorkflow kind status"
  note await = assms(1) [unfolded awaiting_decision_def]
  have verdict: "?next \<in> {''approved'', ''rejected'', ''cancelled''}" "\<not> already_settled ?next (lr_EffectStatus request)"
    using assms(3) await by (auto simp: same_verdict_def already_settled_def)
  have closed: "closed_by ctx instance ?next request rec s s'"
    and owner: "workflowApplicantEmployeeID ctx instance s = Inr (TrimSpace (lr_EmployeeID request))"
    using okSD [OF review_closes assms(2), of request rec] await verdict by blast+
  from closed obtain r where r: "leaveRequestOf ctx instance s' = Some r" "lr_EffectStatus r = verdict_effect ?next"
    "lr_EmployeeID r = lr_EmployeeID request" and mem: "ap_mem s' = ap_mem s" unfolding closed_by_def by blast
  have "workflowApplicantEmployeeID ctx instance s' = Inr (TrimSpace (lr_EmployeeID request))"
    using owner unfolding workflowApplicantEmployeeID_def mem .
  then have again: "applyLeaveWorkflowReview c' ctx instance kind' status' s' = (Inr (), s')"
    using settled_same_verdict [OF assms(3)] r by (intro review_settled [OF r(1)]) simp_all
  show ?thesis using closed again
    by (simp add: Let_def effectiveRemaining_sums closed_by_def moved_def)
qed

definition sample_authz_service :: authz_service where
  "sample_authz_service = \<lparr>az_env = sample_service, az_hasCache = False, az_cacheFails = (\<lambda>_. False),
     az_digest = (\<lambda>_. ''''), az_newID = (\<lambda>n. replicate n (CHR ''l'')), az_auditError = (\<lambda>_. None)\<rparr>"

definition sample_app_env :: app_env where
  "sample_app_env = \<lparr>ap_az = sample_authz_service, ap_parse = (\<lambda>_. None), ap_now = 1000,
     ap_newID = (\<lambda>kind n. kind @ ''-'' @ replicate n (CHR ''x'')), ap_sha256 = (\<lambda>s. s), ap_sha1 = (\<lambda>s. s),
     ap_startOutbox = False\<rparr>"

definition applicant_ctx :: RequestContext where
  "applicant_ctx = zero_RequestContext\<lparr>ctx_TenantID := ''acme'', ctx_AccountID := ''acc-1''\<rparr>"

text \<open>Eight hours of annual leave, reserved against a balance of forty.\<close>

definition sample_leave :: LeaveRequest where
  "sample_leave = zero_LeaveRequest\<lparr>lr_ID := ''lr-1'', lr_TenantID := ''acme'', lr_EmployeeID := ''emp-1'',
     lr_LeaveType := ''annual'', lr_LeaveTypeID := ''annual'', lr_RequestedMinutes := 480, lr_FormInstanceID := ''form-1'',
     lr_Status := ''pending_approval'', lr_EffectStatus := ''not_applied'',
     lr_EvaluationSnapshot := [(''balance_required'', VBool True), (''balance_cycle'', VNum 1)]\<rparr>"

definition sample_leave_record :: LeaveRecord where
  "sample_leave_record = zero_LeaveRecord\<lparr>lrec_ID := ''lr-1'', lrec_TenantID := ''acme'', lrec_BalanceID := ''lb-1'', lrec_Status := ''pending''\<rparr>"

definition sample_balance :: LeaveBalance where
  "sample_balance = zero_LeaveBalance\<lparr>lb_ID := ''lb-1'', lb_TenantID := ''acme'', lb_RemainingMinutes := 2400\<rparr>"

definition sample_reserve :: LeaveBalanceEntry where
  "sample_reserve = leave_entry sample_app_env applicant_ctx sample_leave sample_leave_record leaveBalanceEntryReserve (- 480) 1 ''e-1''"

definition staffed_rows :: mem_store where
  "staffed_rows = sample_rows\<lparr>st_accounts := [(''acme'', [(''acc-1'', sample_account)])]\<rparr>"

definition reserved_state :: app_state where
  "reserved_state = \<lparr>ap_mem = staffed_rows, ap_att = empty_att\<lparr>
       att_leaveBalanceEntries := [(''acme'', [(''e-1'', sample_reserve)])],
       att_leaveRequests := [(''acme'', [(''lr-1'', sample_leave)])],
       att_leaveRecords := [(''acme'', [(''lr-1'', sample_leave_record)])]\<rparr>,
     ap_wf = empty_wf, ap_outbox = [], ap_authz = \<lparr>azs_snapshots = [], azs_logs = []\<rparr>, ap_calls = 0\<rparr>"

definition sample_form :: FormInstance where
  "sample_form = zero_FormInstance\<lparr>fi_ID := ''form-1'', fi_TenantID := ''acme'', fi_ApplicantAccountID := ''acc-1''\<rparr>"

lemma sample_ids_inj: "inj (ap_newID sample_app_env kind)"
proof
  fix m n
  assume "ap_newID sample_app_env kind m = ap_newID sample_app_env kind n"
  then have "replicate m (CHR ''x'') = replicate n (CHR ''x'')" by (simp add: sample_app_env_def)
  then show "m = n" by (metis length_replicate)
qed

lemma reserved_awaiting: "awaiting_decision sample_app_env applicant_ctx sample_form sample_leave sample_leave_record reserved_state"
proof -
  have "leaveRequestOf applicant_ctx sample_form reserved_state = Some sample_leave \<and>
      lr_EffectStatus sample_leave = ''not_applied'' \<and>
      GetLeaveRecord (ap_att reserved_state) (ctx_TenantID applicant_ctx) (lr_ID sample_leave) = Some sample_leave_record \<and>
      balanceReserved sample_leave \<and> TrimSpace (lrec_BalanceID sample_leave_record) \<noteq> [] \<and>
      \<not> booked ''acme'' (entry_key sample_leave sample_leave_record leaveBalanceEntryRelease) reserved_state \<and>
      \<not> booked ''acme'' (entry_key sample_leave sample_leave_record leaveBalanceEntryLocalConsume) reserved_state"
    by code_simp
  moreover have "requests_keyed ''acme'' reserved_state" unfolding requests_keyed_def by code_simp
  moreover have "fresh_entries sample_app_env ''acme'' reserved_state"
    unfolding fresh_entries_def by (intro conjI sample_ids_inj) (simp add: reserved_state_def sample_app_env_def bucket_def)
  moreover have "ctx_TenantID applicant_ctx = ''acme''" by (simp add: applicant_ctx_def)
  ultimately show ?thesis unfolding awaiting_decision_def open_reservation_def by simp
qed

theorem leave_review_settles_witness:
  "effectiveRemaining applicant_ctx sample_balance reserved_state = 1920 \<and>
   effectiveRemaining applicant_ctx sample_balance
     (snd (applyLeaveWorkflowReview sample_app_env applicant_ctx sample_form ''reject'' '''' reserved_state)) = 2400 \<and>
   (let s = snd (applyLeaveWorkflowReview sample_app_env applicant_ctx sample_form ''reject'' '''' reserved_state)
    in applyLeaveWorkflowReview sample_app_env applicant_ctx sample_form ''cancel'' '''' s = (Inr (), s))"
proof -
  let ?run = "applyLeaveWorkflowReview sample_app_env applicant_ctx sample_form ''reject'' '''' reserved_state"
  have "fst ?run = Inr ()" by code_simp
  then have run: "?run = (Inr (), snd ?run)" by (metis prod.collapse)
  have "same_verdict (leaveRequestStatusForWorkflow ''reject'' '''') (leaveRequestStatusForWorkflow ''cancel'' '''')" by code_simp
  note settles = leave_review_settles [OF reserved_awaiting run this, of sample_balance sample_app_env]
  have kind: "leaveRequestStatusForWorkflow ''reject'' '''' = ''rejected''" by code_simp
  have before: "effectiveRemaining applicant_ctx sample_balance reserved_state = 1920" by code_simp
  have parts: "lb_ID sample_balance = lrec_BalanceID sample_leave_record" "lr_RequestedMinutes sample_leave = 480"
    "(''rejected'' = ''approved'') = False" by code_simp+
  show ?thesis using settles unfolding Let_def kind parts before by simp
qed

section \<open>Punches\<close>

text \<open>No employee has two accepted, unvoided clock-ins on a day.\<close>

definition single_clock_in :: "string \<Rightarrow> app_state \<Rightarrow> bool" where
  "single_clock_in t s \<longleftrightarrow> (\<forall>x \<in> set (bucket (att_clockRecords (ap_att s)) t). \<forall>y \<in> set (bucket (att_clockRecords (ap_att s)) t).
     \<forall>e d. accepted_punch e d clockDirectionIn (snd x) \<longrightarrow> accepted_punch e d clockDirectionIn (snd y) \<longrightarrow> x = y)"

abbreviation (input) punches :: "app_state \<Rightarrow> AttendanceClockRecord table" where "punches s \<equiv> att_clockRecords (ap_att s)"

lemma single_clock_in_view: "punches s = punches u \<Longrightarrow> single_clock_in t s = single_clock_in t u"
  by (simp add: single_clock_in_def)

lemma upsertPunch_snd:
  "punches (snd (upsertPunch v s)) = punches s \<or> punches (snd (upsertPunch v s)) = putNested (punches s) (acr_TenantID v) (acr_ID v) v"
  by (simp add: upsertPunch_def UpsertAttendanceClockRecord_def)

lemma upsert_keeps_single:
  assumes "single_clock_in t s"
    and "\<And>e d. acr_TenantID v = t \<Longrightarrow> accepted_punch e d clockDirectionIn v \<Longrightarrow>
      \<forall>x \<in> set (bucket (punches s) t). \<not> accepted_punch e d clockDirectionIn (snd x)"
  shows "single_clock_in t (snd (upsertPunch v s))"
proof (cases "punches (snd (upsertPunch v s)) = punches s \<or> acr_TenantID v \<noteq> t")
  case True
  then have "bucket (punches (snd (upsertPunch v s))) t = bucket (punches s) t"
    using upsertPunch_snd [of v s] by auto
  then show ?thesis using assms(1) by (simp add: single_clock_in_def)
next
  case False
  let ?b = "bucket (punches s) t"
  from False have b: "bucket (punches (snd (upsertPunch v s))) t = map_put (acr_ID v) v ?b"
    using upsertPunch_snd [of v s] by auto
  have sub: "set (map_put (acr_ID v) v ?b) \<subseteq> insert (acr_ID v, v) (set ?b)" by (rule set_map_put)
  show ?thesis unfolding single_clock_in_def b
  proof (intro ballI allI impI)
    fix x y e d
    assume xy: "x \<in> set (map_put (acr_ID v) v ?b)" "y \<in> set (map_put (acr_ID v) v ?b)"
      "accepted_punch e d clockDirectionIn (snd x)" "accepted_punch e d clockDirectionIn (snd y)"
    show "x = y"
    proof (cases "accepted_punch e d clockDirectionIn v")
      case True
      then have "\<forall>x \<in> set ?b. \<not> accepted_punch e d clockDirectionIn (snd x)" using assms(2) False by simp
      then show ?thesis using sub xy by blast
    next
      case False
      then have "x \<in> set ?b" "y \<in> set ?b" using sub xy by auto
      then show ?thesis using assms(1) xy(3,4) unfolding single_clock_in_def by blast
    qed
  qed
qed

lemma voidTarget_keeps_single: "preserves (single_clock_in t) (voidTarget ctx current reviewer reason now)"
proof -
  have "preserves (single_clock_in t) (upsertPunch (voidedPunch reviewer reason r now v))" for r v
    unfolding preserves_def by (intro allI impI upsert_keeps_single) (simp_all add: accepted_punch_def voidedPunch_def)
  then show ?thesis unfolding voidTarget_def by (intro preserves_intros)
qed

lemma addPunch_keeps_single:
  "preserves (single_clock_in (ctx_TenantID ctx))
     (bindS (getS (\<lambda>s. GetEarliestAcceptedAttendanceClockIn (ap_att s) (ctx_TenantID ctx) (acq_EmployeeID current) (acq_WorkDate current))) (\<lambda>existing.
        if acq_Direction current = clockDirectionIn \<and> existing \<noteq> None then failS err
        else bindS (newIDS c kind) (\<lambda>i. bindS (upsertPunch (correctionPunch ctx current now i)) (\<lambda>_. retS (g i)))))"
proof (rule preserves_get)
  fix s
  let ?t = "ctx_TenantID ctx"
  assume s: "single_clock_in ?t s"
  let ?found = "GetEarliestAcceptedAttendanceClockIn (ap_att s) ?t (acq_EmployeeID current) (acq_WorkDate current)"
  show "single_clock_in ?t (snd ((if acq_Direction current = clockDirectionIn \<and> ?found \<noteq> None then failS err
      else bindS (newIDS c kind) (\<lambda>i. bindS (upsertPunch (correctionPunch ctx current now i)) (\<lambda>_. retS (g i)))) s))"
  proof (cases "acq_Direction current = clockDirectionIn \<and> ?found \<noteq> None")
    case True
    then show ?thesis using s by (simp add: failS_def liftS_def)
  next
    case False
    let ?i = "ap_newID c kind (ap_calls s)" and ?u = "s\<lparr>ap_calls := Suc (ap_calls s)\<rparr>"
    let ?v = "correctionPunch ctx current now ?i"
    have "single_clock_in ?t (snd (upsertPunch ?v ?u))"
    proof (rule upsert_keeps_single)
      show "single_clock_in ?t ?u" using s by (simp add: single_clock_in_def)
      fix e d
      assume "accepted_punch e d clockDirectionIn ?v"
      then have "acq_Direction current = clockDirectionIn" "e = acq_EmployeeID current" "d = acq_WorkDate current"
        by (auto simp: accepted_punch_def correctionPunch_def)
      with False show "\<forall>x \<in> set (bucket (punches ?u) ?t). \<not> accepted_punch e d clockDirectionIn (snd x)"
        using no_accepted_clock_in by (simp add: copyNestedValues_def)
    qed
    moreover have "snd ((bindS (newIDS c kind) (\<lambda>i. bindS (upsertPunch (correctionPunch ctx current now i)) (\<lambda>_. retS (g i)))) s) =
        snd (upsertPunch ?v ?u)"
      by (simp add: bindS_def newIDS_def retS_def split: prod.split sum.split)
    ultimately show ?thesis unfolding if_not_P [OF False] by simp
  qed
qed

lemma AppendLeaveBalanceEntry_punches [simp]:
  "att_clockRecords (snd (AppendLeaveBalanceEntry a e)) = att_clockRecords a"
  "att_clockRecords (snd (AppendStandaloneLeaveBalanceEntry a e)) = att_clockRecords a"
  "att_clockRecords (UpsertLeaveRecord a lr) = att_clockRecords a"
  "att_clockRecords (UpsertLeaveRequest a q) = att_clockRecords a"
  "att_clockRecords (UpsertOvertimeRequest a ot) = att_clockRecords a"
  "att_clockRecords (UpsertAttendanceCorrectionRequest a co) = att_clockRecords a"
  by (simp_all add: AppendLeaveBalanceEntry_def AppendStandaloneLeaveBalanceEntry_def UpsertLeaveRecord_def
      UpsertLeaveRequest_def UpsertOvertimeRequest_def UpsertAttendanceCorrectionRequest_def Let_def)

lemma keeps_punches [keeps_intros]:
  "keeps (\<lambda>s. punches s) (newIDS c k)" "keeps (\<lambda>s. punches s) (auditS c ctx e r t sv d)"
  by (rule keeps_view [OF keeps_newID(2), of att_clockRecords], rule keeps_view [OF keeps_authz(6), of att_clockRecords])

lemma reviews_keep_punches:
  "keeps (\<lambda>s. punches s) (applyLeaveWorkflowReview c ctx instance kind status)"
  "keeps (\<lambda>s. punches s) (applyOvertimeWorkflowReview c ctx instance kind status)"
proof -
  have entry: "keeps (\<lambda>s. punches s) (appendLeaveBalanceEntry c ctx r rec et m cy)" for r rec et m cy
    unfolding appendLeaveBalanceEntry_def by (intro keeps_intros keeps_att_part) simp
  then have settle: "keeps (\<lambda>s. punches s) (settleLedger c ctx r rec nextStatus)" for r rec nextStatus
    unfolding settleLedger_def Let_def by (intro keeps_intros) simp_all
  show "keeps (\<lambda>s. punches s) (applyLeaveWorkflowReview c ctx instance kind status)"
    unfolding applyLeaveWorkflowReview_def Let_def
    by (intro keeps_intros settle keeps_att_part) simp_all
  have anchor: "keeps (\<lambda>s. punches s) (\<lambda>s. case EnsureLocalLeaveBalanceAnchor (ap_att s) b of
      Inl e \<Rightarrow> (Inl e, s) | Inr (anchor, a) \<Rightarrow> (Inr anchor, s\<lparr>ap_att := a\<rparr>))" for b
    by (auto simp: keeps_def EnsureLocalLeaveBalanceAnchor_def ensureLocalLeaveBalanceAnchorLocked_def Let_def split: option.split)
  have credit: "keeps (\<lambda>s. punches s) (creditCompensatoryLeaveBalance c ctx r)" for r
    unfolding creditCompensatoryLeaveBalance_def by (intro keeps_intros anchor keeps_att_part) simp_all
  show "keeps (\<lambda>s. punches s) (applyOvertimeWorkflowReview c ctx instance kind status)"
    unfolding applyOvertimeWorkflowReview_def Let_def
    by (intro keeps_intros credit keeps_att_part) simp_all
qed

text \<open>
  C36.  No decision gives an employee a second accepted clock-in on a day: if there is at most one per
  employee and day before the review of any form, there is at most one after it, on every exit,
  whether the form is linked to a leave, an overtime or a correction that adds, voids or replaces a punch.
\<close>

theorem review_keeps_single_clock_in:
  assumes "single_clock_in (ctx_TenantID ctx) s"
  shows "single_clock_in (ctx_TenantID ctx) (snd (applyAttendanceWorkflowReview c ctx instance kind status s))"
proof -
  let ?I = "single_clock_in (ctx_TenantID ctx)"
  have view: "preserves ?I m" if "keeps (\<lambda>s. punches s) m" for m :: "'a aop"
    using that by (rule preserves_keeps) (rule single_clock_in_view)
  have claim: "preserves ?I (claimCorrection c ctx instance)"
    by (rule view) (auto simp: keeps_def claimCorrection_def ClaimAttendanceCorrectionReview_def Let_def split: prod.splits option.splits)
  have apply_correction: "preserves ?I (applyApprovedAttendanceCorrection c ctx cur reviewer reason now)" for cur reviewer reason now
    unfolding applyApprovedAttendanceCorrection_def Let_def
    by (intro preserves_intros voidTarget_keeps_single preserves_bind addPunch_keeps_single)
  have correction: "preserves ?I (applyCorrectionWorkflowReview c ctx instance kind)"
    unfolding applyCorrectionWorkflowReview_def Let_def
    by (intro preserves_intros claim apply_correction view keeps_intros keeps_att_part) simp_all
  have "preserves ?I (applyAttendanceWorkflowReview c ctx instance kind status)"
    unfolding applyAttendanceWorkflowReview_def
    by (rule preserves_bind [OF view [OF reviews_keep_punches(1)] preserves_bind [OF correction view [OF reviews_keep_punches(2)]]])
  with assms show ?thesis by (simp add: preserves_def)
qed

text \<open>A punch of nine o'clock that an approved correction replaces.\<close>

definition late_punch :: AttendanceClockRecord where
  "late_punch = zero_AttendanceClockRecord\<lparr>acr_ID := ''acr-1'', acr_TenantID := ''acme'', acr_EmployeeID := ''emp-1'',
     acr_WorkDate := ''2026-01-05'', acr_Direction := clockDirectionIn, acr_RecordStatus := clockRecordStatusAccepted\<rparr>"

definition sample_correction :: AttendanceCorrectionRequest where
  "sample_correction = zero_AttendanceCorrectionRequest\<lparr>acq_ID := ''cor-1'', acq_TenantID := ''acme'', acq_EmployeeID := ''emp-1'',
     acq_Direction := clockDirectionIn, acq_WorkDate := ''2026-01-05'', acq_CorrectionType := correctionTypeReplaceRecord,
     acq_TargetClockRecordID := ''acr-1'', acq_Status := correctionStatusPending, acq_FormInstanceID := ''form-1''\<rparr>"

definition punched_state :: app_state where
  "punched_state = reserved_state\<lparr>ap_att := empty_att\<lparr>
     att_clockRecords := [(''acme'', [(''acr-1'', late_punch)])],
     att_corrections := [(''acme'', [(''cor-1'', sample_correction)])]\<rparr>\<rparr>"

theorem review_keeps_single_clock_in_witness:
  "single_clock_in ''acme'' punched_state \<and>
   (let s = snd (applyAttendanceWorkflowReview sample_app_env applicant_ctx sample_form ''approve'' '''' punched_state)
    in single_clock_in ''acme'' s \<and> map acr_Voided (rows (punches s) ''acme'') = [True, False])"
proof -
  have before: "single_clock_in ''acme'' punched_state"
    by (simp add: single_clock_in_def punched_state_def bucket_def)
  have ctx: "ctx_TenantID applicant_ctx = ''acme''" by (simp add: applicant_ctx_def)
  have "map acr_Voided (rows (punches (snd (applyAttendanceWorkflowReview sample_app_env applicant_ctx sample_form
      ''approve'' '''' punched_state))) ''acme'') = [True, False]" by code_simp
  then show ?thesis
    using before review_keeps_single_clock_in [of applicant_ctx punched_state sample_app_env sample_form "''approve''" "''''"]
    unfolding Let_def ctx by blast
qed

end
