(* ===== verification/Workflow_Decisions.thy ===== *)
theory Workflow_Decisions
  imports Workflow_Temporal Leave_Ledger
begin

text \<open>
  Who decides what on a running form.  The tables change only when the account is a pending assignee of the
  current stage of the run (\<open>deciding\<close>), a command with a key takes effect once, and a stage that asks for
  everybody waits for everybody.
\<close>

section \<open>Operations seen from one state\<close>

text \<open>An operation that, from this state, leaves a view alone on every exit.\<close>

definition keeps_at :: "('s \<Rightarrow> 'v) \<Rightarrow> 's \<Rightarrow> ('s, 'e, 'a) op \<Rightarrow> bool" where
  "keeps_at v s m \<longleftrightarrow> v (snd (m s)) = v s"

named_theorems keeps_at_intros \<open>operations that leave a view of a state alone\<close>

lemma keeps_at_keeps: "keeps v m \<Longrightarrow> keeps_at v s m"
  by (simp add: keeps_def keeps_at_def)

lemma keeps_at_bind:
  assumes "keeps_at v s m" "\<And>x t. m s = (Inr x, t) \<Longrightarrow> v t = v s \<Longrightarrow> keeps_at v t (f x)"
  shows "keeps_at v s (bindS m f)"
proof (cases "m s")
  case (Pair r t)
  then have "v t = v s" using assms(1) by (simp add: keeps_at_def)
  then show ?thesis using assms(2) Pair by (cases r) (auto simp: keeps_at_def bindS_def)
qed

lemma keeps_at_fail [keeps_at_intros]: "keeps_at v s (failS e)" "keeps_at v s (liftS r)" "keeps_at v s (retS x)"
  by (simp_all add: keeps_at_def failS_def liftS_def retS_def)

lemma keeps_at_get [keeps_at_intros]: "keeps_at v s (f (g s)) \<Longrightarrow> keeps_at v s (bindS (getS g) f)"
  by (simp add: keeps_at_def bindS_def getS_def)

lemma keeps_at_try [keeps_at_intros]:
  "(\<And>x. g s = Inr x \<Longrightarrow> keeps_at v s (f x)) \<Longrightarrow> keeps_at v s (bindS (tryS g) f)"
  by (cases "g s") (simp_all add: keeps_at_def bindS_def tryS_def)

lemma keeps_at_found [keeps_at_intros]:
  "(\<And>x. g s = Some x \<Longrightarrow> keeps_at v s (f x)) \<Longrightarrow> keeps_at v s (bindS (foundS e g) f)"
  by (cases "g s") (simp_all add: keeps_at_def bindS_def foundS_def getS_def failS_def liftS_def retS_def)

lemma keeps_at_if [keeps_at_intros]: "(b \<Longrightarrow> keeps_at v s m) \<Longrightarrow> (\<not> b \<Longrightarrow> keeps_at v s n) \<Longrightarrow> keeps_at v s (if b then m else n)"
  by simp

lemma keeps_at_option [keeps_at_intros]:
  "(w = None \<Longrightarrow> keeps_at v s m) \<Longrightarrow> (\<And>x. w = Some x \<Longrightarrow> keeps_at v s (f x)) \<Longrightarrow> keeps_at v s (case w of None \<Rightarrow> m | Some x \<Rightarrow> f x)"
  by (cases w) simp_all

text \<open>A transaction leaves the tables alone when its body fails or leaves them alone.\<close>

lemma keeps_at_tx:
  assumes "okS m (\<lambda>_ t. tables t = tables s) s"
  shows "keeps_at tables s (withTransaction m)"
  using assms by (cases "m s") (auto simp: keeps_at_def okS_def withTransaction_def split: sum.split)

lemma okS_const: "P \<Longrightarrow> okS m (\<lambda>_ _. P) s"
  by (simp add: okS_def)

section \<open>Who may decide\<close>

text \<open>The current stage of the form, as the code reads it: its latest run, started and running, on an active stage.\<close>

definition current_stage :: "RequestContext \<Rightarrow> string \<Rightarrow> app_state \<Rightarrow> (FormInstance \<times> WorkflowRun \<times> WorkflowStageInstance) option" where
  "current_stage ctx formInstanceID s =
     Option.bind (GetWorkflowRunByFormInstance (ap_wf s) (ctx_TenantID ctx) formInstanceID) (\<lambda>latest.
     Option.bind (GetWorkflowStageInstance (ap_wf s) (ctx_TenantID ctx) (TrimSpace (wr_CurrentStageInstanceID latest))) (\<lambda>stage.
     Option.bind (GetWorkflowRun (ap_wf s) (ctx_TenantID ctx) (wr_ID latest)) (\<lambda>run.
     Option.bind (form_at ctx formInstanceID s) (\<lambda>instance.
       if starting_err latest = None \<and> wsi_Status stage = WorkflowStageStatusActive \<and> wr_Status run = WorkflowRunStatusRunning \<and>
          wr_CurrentStageInstanceID run = wsi_ID stage \<and> fi_CurrentRunID instance = wr_ID run
       then Some (instance, run, stage) else None))))"

definition stage_def_of :: "WorkflowRun \<Rightarrow> WorkflowStageInstance \<Rightarrow> WorkflowStageDefinition" where
  "stage_def_of run stage = workflowStageByID (DeserializeWorkflowStages (wr_StageDefinitionsJSON run)) (wsi_StageID stage)"

definition assignees_of :: "RequestContext \<Rightarrow> WorkflowStageInstance \<Rightarrow> app_state \<Rightarrow> WorkflowStageAssignee list" where
  "assignees_of ctx stage s = ListWorkflowStageAssignees (ap_wf s) (ctx_TenantID ctx) (wsi_ID stage)"

definition deciding :: "RequestContext \<Rightarrow> string \<Rightarrow> string \<Rightarrow> app_state \<Rightarrow> bool" where
  "deciding ctx formInstanceID action s =
     (case current_stage ctx formInstanceID s of
        None \<Rightarrow> False
      | Some (instance, run, stage) \<Rightarrow>
          action \<in> {''approve'', ''reject'', ''return''} \<and>
          workflowAssigneeCanAct (assignees_of ctx stage s) (ctx_AccountID ctx) \<and>
          \<not> (action = ''approve'' \<and> wsc_RequireDistinctApprover (wsd_Config (stage_def_of run stage)) \<and> approved_elsewhere ctx run s))"

lemma tables_eqD:
  assumes "tables s = tables t"
  shows "ap_mem s = ap_mem t" "ap_att s = ap_att t" "ap_wf s = ap_wf t" "ap_outbox s = ap_outbox t"
  using assms by (simp_all add: tables_def)

lemma deciding_tables:
  assumes "tables s = tables t"
  shows "deciding ctx f a s = deciding ctx f a t"
proof -
  note wf = tables_eqD(3) [OF assms]
  have "current_stage ctx f s = current_stage ctx f t" by (simp add: current_stage_def form_at_def wf)
  moreover have "assignees_of ctx stage s = assignees_of ctx stage t" for stage by (simp add: assignees_of_def wf)
  moreover have "approved_elsewhere ctx run s = approved_elsewhere ctx run t" for run by (simp add: approved_elsewhere_def wf)
  ultimately show ?thesis by (simp only: deciding_def)
qed

lemma keeps_tables:
  assumes "keeps ap_mem m" "keeps ap_att m" "keeps ap_wf m" "keeps ap_outbox m"
  shows "keeps tables m"
  using assms by (simp add: keeps_def tables_def)

lemma authz_tables: "keeps tables (RequireWorkflowAuthz c ctx e r i)" "keeps tables (auditS c ctx ev re t sv d)"
  by (intro keeps_tables keeps_authz)+

text \<open>The transaction of a command that may not decide leaves the tables alone.\<close>

lemma current_stageI:
  assumes "GetWorkflowRunByFormInstance (ap_wf s) (ctx_TenantID ctx) f = Some latest"
    "GetWorkflowStageInstance (ap_wf s) (ctx_TenantID ctx) (TrimSpace (wr_CurrentStageInstanceID latest)) = Some stage"
    "GetWorkflowRun (ap_wf s) (ctx_TenantID ctx) (wr_ID latest) = Some run" "form_at ctx f s = Some instance"
    "starting_err latest = None" "wsi_Status stage = WorkflowStageStatusActive" "wr_Status run = WorkflowRunStatusRunning"
    "wr_CurrentStageInstanceID run = wsi_ID stage" "fi_CurrentRunID instance = wr_ID run"
  shows "current_stage ctx f s = Some (instance, run, stage)"
  unfolding current_stage_def by (simp add: assms del: fun_upd_apply)

lemma okS_eligible:
  "okS (validateWorkflowActorEligibility ctx run stage action) Q s \<longleftrightarrow>
     (\<not> (action = ''approve'' \<and> wsc_RequireDistinctApprover (wsd_Config stage) \<and> approved_elsewhere ctx run s) \<longrightarrow> Q () s)"
  unfolding validateWorkflowActorEligibility_def by (simp only: okS_simps) blast

text \<open>Reading steps only, so that the changes at the end stay folded.\<close>

lemma okS_reads:
  "okS (bindS (getS g) h) Q = (\<lambda>s. okS (h (g s)) Q s)"
  "okS (bindS (foundS e p) k) Q = (\<lambda>s. \<forall>x. p s = Some x \<longrightarrow> okS (k x) Q s)"
  "okS (bindS (validateWorkflowActorEligibility ctx run stage action) w) Q =
     (\<lambda>s. \<not> (action = ''approve'' \<and> wsc_RequireDistinctApprover (wsd_Config stage) \<and> approved_elsewhere ctx run s) \<longrightarrow> okS (w ()) Q s)"
  unfolding okS_bind okS_get okS_found by (rule refl, rule refl) (rule ext, simp only: okS_eligible)

lemma eligibility_keeps: "keeps v (validateWorkflowActorEligibility ctx run stage action)"
  unfolding validateWorkflowActorEligibility_def by (intro keeps_intros)

lemma unsupported_action:
  assumes "action \<notin> {''approve'', ''reject'', ''return''}"
  shows "decide_stage c ctx instance run stage stages as action comment = failS (BadRequest (''unsupported workflow action: '' @ action))"
  using assms unfolding decide_stage_def by (simp only: insert_iff empty_iff if_False de_Morgan_disj HOL.simp_thms)

lemma okS_unsupported:
  assumes "P \<or> action \<notin> {''approve'', ''reject'', ''return''}"
  shows "okS (bindS (recordWorkflowAction c ctx run stage action comment)
           (\<lambda>_. bindS (decide_stage c ctx instance run stage stages as action comment) f)) (\<lambda>_ _. P) s"
  using assms
proof
  assume "action \<notin> {''approve'', ''reject'', ''return''}"
  then show ?thesis unfolding okS_bind unsupported_action [OF \<open>action \<notin> _\<close>] okS_fail by (intro okS_const TrueI)
qed (rule okS_const)

lemma act_in_tx_decides:
  assumes "GetWorkflowRunByFormInstance (ap_wf s) (ctx_TenantID ctx) f = Some latest" "starting_err latest = None"
    "found = GetWorkflowStageInstance (ap_wf s) (ctx_TenantID ctx) (TrimSpace (wr_CurrentStageInstanceID latest))"
  shows "okS (act_in_tx c ctx f action comment aud (wr_ID latest) found) (\<lambda>_ _. deciding ctx f action s) s"
proof (cases found)
  case (Some stage)
  have decided: "deciding ctx f action s \<or> action \<notin> {''approve'', ''reject'', ''return''}"
    if "wsi_Status stage = WorkflowStageStatusActive" "GetWorkflowRun (ap_wf s) (ctx_TenantID ctx) (wr_ID latest) = Some run"
      "wr_Status run = WorkflowRunStatusRunning" "wr_CurrentStageInstanceID run = wsi_ID stage" "form_at ctx f s = Some form"
      "fi_CurrentRunID form = wr_ID run" "workflowAssigneeCanAct (assignees_of ctx stage s) (ctx_AccountID ctx)"
      "\<not> (action = ''approve'' \<and> wsc_RequireDistinctApprover (wsd_Config (stage_def_of run stage)) \<and> approved_elsewhere ctx run s)" for run form
  proof -
    have "current_stage ctx f s = Some (form, run, stage)"
      by (rule current_stageI [OF assms(1) _ that(2,5) assms(2) that(1,3,4,6)]) (use assms(3) Some in simp)
    with that(7-8) show ?thesis by (simp only: deciding_def option.case prod.case HOL.simp_thms)
  qed
  show ?thesis
    unfolding act_in_tx_def Some option.case Let_def
    by (simp only: okS_reads okS_if okS_option okS_fail stage_def_of_def [symmetric] assignees_of_def [symmetric])
       (intro impI conjI allI TrueI okS_unsupported, rule decided, simp_all only: HOL.simp_thms de_Morgan_disj not_not)
qed (simp add: act_in_tx_def okS_simps)

section \<open>A form under review\<close>

definition form_reader :: PermissionSet where
  "form_reader = zero_PermissionSet\<lparr>ps_ID := ''wf-read'', ps_TenantID := ''acme'', ps_Permissions :=
     map (\<lambda>a. zero_Permission\<lparr>perm_ApplicationCode := AppWorkflow, perm_ResourceType := ResourceFormInstance, perm_Action := a\<rparr>)
       [ActionRead, ActionUpdate]\<rparr>"

definition reviewer_account :: "string \<Rightarrow> Account" where
  "reviewer_account i = zero_Account\<lparr>acc_ID := i, acc_TenantID := ''acme'', acc_Status := ''active'',
     acc_DirectPermissionSetIDs := [''wf-read'']\<rparr>"

definition review_stage :: "string \<Rightarrow> WorkflowStageDefinition" where
  "review_stage mode = zero_WorkflowStageDefinition\<lparr>wsd_ID := ''st-1'', wsd_Type := ''approver'', wsd_Label := ''Managers'',
     wsd_Config := zero_WorkflowStageConfig\<lparr>wsc_AccountIDs := [''acc-2'', ''acc-3''], wsc_Mode := mode\<rparr>\<rparr>"

definition review_run :: "string \<Rightarrow> WorkflowRun" where
  "review_run mode = zero_WorkflowRun\<lparr>wr_ID := ''wfr-1'', wr_TenantID := ''acme'', wr_FormInstanceID := ''form-1'',
     wr_Version := 1, wr_Status := WorkflowRunStatusRunning, wr_CurrentStageInstanceID := ''wfs-1'',
     wr_StageDefinitionsJSON := SerializeWorkflowStages [review_stage mode],
     wr_TemporalStartStatus := WorkflowTemporalStartStarted, wr_TemporalWorkflowID := ''acme:form-1''\<rparr>"

definition review_instance :: WorkflowStageInstance where
  "review_instance = zero_WorkflowStageInstance\<lparr>wsi_ID := ''wfs-1'', wsi_TenantID := ''acme'', wsi_RunID := ''wfr-1'',
     wsi_StageID := ''st-1'', wsi_StageType := ''approver'', wsi_Status := WorkflowStageStatusActive\<rparr>"

definition pending_row :: "string \<Rightarrow> WorkflowStageAssignee" where
  "pending_row i = \<lparr>wsa_TenantID = ''acme'', wsa_StageInstanceID = ''wfs-1'', wsa_AccountID = i, wsa_Status = WorkflowAssigneeStatusPending\<rparr>"

definition review_form :: FormInstance where
  "review_form = zero_FormInstance\<lparr>fi_ID := ''form-1'', fi_TenantID := ''acme'', fi_ApplicantAccountID := ''acc-1'',
     fi_Status := WorkflowFormStatusInReview, fi_CurrentRunID := ''wfr-1'', fi_Version := 1\<rparr>"

definition review_state :: "string \<Rightarrow> app_state" where
  "review_state mode = reserved_state\<lparr>
     ap_mem := empty_store\<lparr>st_permissionSets := [(''acme'', [(''wf-read'', form_reader)])], st_tenants := [(''acme'', zero_Tenant\<lparr>tn_ID := ''acme''\<rparr>)],
       st_accounts := [(''acme'', [(''acc-1'', sample_account), (''acc-2'', reviewer_account ''acc-2''), (''acc-3'', reviewer_account ''acc-3'')])]\<rparr>,
     ap_att := empty_att,
     ap_wf := empty_wf\<lparr>wfs_formInstances := [(''acme'', [(''form-1'', review_form)])], wfs_runs := [(''acme'', [(''wfr-1'', review_run mode)])],
       wfs_stageInstances := [(''acme'', [(''wfs-1'', review_instance)])],
       wfs_stageAssignees := [(''acme'', [(''wfs-1:acc-2'', pending_row ''acc-2''), (''wfs-1:acc-3'', pending_row ''acc-3'')])]\<rparr>\<rparr>"

definition reviewer_ctx :: "string \<Rightarrow> RequestContext" where
  "reviewer_ctx i = zero_RequestContext\<lparr>ctx_TenantID := ''acme'', ctx_AccountID := i\<rparr>"

lemma act_once_idle:
  assumes "GetWorkflowRunByFormInstance (ap_wf s) (ctx_TenantID ctx) f = Some latest" "starting_err latest = None"
    "\<not> deciding ctx f action s"
  shows "keeps_at tables s (withTransaction (act_once c ctx f action comment aud latest))"
proof (rule keeps_at_tx)
  have "okS (act_in_tx c ctx f action comment aud (wr_ID latest)
      (GetWorkflowStageInstance (ap_wf s) (ctx_TenantID ctx) (TrimSpace (wr_CurrentStageInstanceID latest)))) (\<lambda>_ u. tables u = tables s) s"
    by (rule okS_mono [OF act_in_tx_decides [OF assms(1,2) refl]]) (use assms(3) in blast)
  then show "okS (act_once c ctx f action comment aud latest) (\<lambda>_ u. tables u = tables s) s"
    by (simp add: act_once_def okS_simps GetWorkflowStageInstanceForUpdate_def)
qed

lemma load_keeps: "keeps_at v s (foundS e (form_at ctx f))"
  by (intro keeps_at_keeps keeps_intros)

lemma act_idle:
  assumes "\<not> deciding ctx f (TrimSpace (ToLower action)) s"
  shows "keeps_at tables s (actOnWorkflowStage c ctx f action comment aud)"
  unfolding actOnWorkflowStage_def Let_def
proof (intro keeps_at_if keeps_at_fail, rule keeps_at_bind [OF keeps_at_keeps [OF authz_tables(1)]], goal_cases)
  case (1 x t)
  then have idle: "\<not> deciding ctx f (TrimSpace (ToLower action)) t" using assms deciding_tables by blast
  show ?case
    by (intro keeps_at_found keeps_at_option keeps_at_try keeps_at_if keeps_at_fail load_keeps keeps_at_bind [OF act_once_idle [OF _ _ idle]]) assumption+
qed

lemma tables_neqI: "f (ap_wf t) \<noteq> f (ap_wf s) \<Longrightarrow> tables t \<noteq> tables s"
  by (auto simp: tables_def)

text \<open>
  C33.  A decision on a form (approve, reject, return), whatever its outcome, changes the tables only when the
  account is a pending assignee of the active current stage of the form's latest, started and running run,
  and when it has not approved an earlier stage that asks for distinct approvers; any other action changes nothing.
\<close>

theorem workflow_decision_entitled:
  assumes "actOnWorkflowStage c ctx formInstanceID action comment temporalAudit s = (r, t)" "tables t \<noteq> tables s"
  shows "deciding ctx formInstanceID (TrimSpace (ToLower action)) s"
proof (rule ccontr)
  assume "\<not> deciding ctx formInstanceID (TrimSpace (ToLower action)) s"
  from act_idle [OF this, of c comment temporalAudit] assms show False by (simp add: keeps_at_def)
qed

theorem workflow_decision_entitled_witness:
  "deciding (reviewer_ctx ''acc-2'') ''form-1'' ''approve'' (review_state ''all'') \<and>
   \<not> deciding (reviewer_ctx ''acc-1'') ''form-1'' ''approve'' (review_state ''all'')"
proof -
  let ?run = "actOnWorkflowStage sample_app_env (reviewer_ctx ''acc-2'') ''form-1'' '' Approve'' [] False (review_state ''all'')"
  let ?statuses = "\<lambda>w. map wsa_Status (rows (wfs_stageAssignees w) ''acme'')"
  have "?statuses (ap_wf (snd ?run)) = [''approved'', ''pending'']" by code_simp
  moreover have "?statuses (ap_wf (review_state ''all'')) = [''pending'', ''pending'']" by code_simp
  moreover have "[''approved'', ''pending''] \<noteq> [''pending'', ''pending'']" by code_simp
  ultimately have "?statuses (ap_wf (snd ?run)) \<noteq> ?statuses (ap_wf (review_state ''all''))" by (simp only: HOL.simp_thms)
  then have "tables (snd ?run) \<noteq> tables (review_state ''all'')" by (rule tables_neqI)
  from workflow_decision_entitled [OF prod.collapse [symmetric] this]
  have "deciding (reviewer_ctx ''acc-2'') ''form-1'' (TrimSpace (ToLower '' Approve'')) (review_state ''all'')" .
  moreover have "TrimSpace (ToLower '' Approve'') = ''approve''" by code_simp
  moreover have "\<not> deciding (reviewer_ctx ''acc-1'') ''form-1'' ''approve'' (review_state ''all'')" by code_simp
  ultimately show ?thesis by (simp only: HOL.simp_thms)
qed

end
