(* ===== verification/Agent_Domain.thy ===== *)
theory Agent_Domain
  imports Complex_Main Memory_Store
begin

text \<open>
  The rows of the agent platform and what each of them accepts (\<open>src/internal/domain/agent_v2.go\<close>,
  \<open>agent_definition.go\<close>, \<open>agent_session.go\<close>, \<open>agent_file.go\<close>, \<open>agent.go\<close>,
  \<open>agent_confirmation.go\<close>): models, tools, agent revisions, conversations, executions and their steps,
  memories and the confirmations of actions that a person has to approve.  \<open>T_Valid\<close> is the method
  \<open>Valid\<close> of the named string type \<open>T\<close>, \<open>T_Validate\<close> the method \<open>Validate\<close>
  of the row \<open>T\<close>: the list of its field errors, as one error.
\<close>

section \<open>Constants\<close>

abbreviation (input) ModelConnectionStatusActive :: string where "ModelConnectionStatusActive \<equiv> ''active''"
abbreviation (input) ModelConnectionStatusDisabled :: string where "ModelConnectionStatusDisabled \<equiv> ''disabled''"
abbreviation (input) ModelConnectionStatusArchived :: string where "ModelConnectionStatusArchived \<equiv> ''archived''"
abbreviation (input) ModelConnectionSyncStatusPending :: string where "ModelConnectionSyncStatusPending \<equiv> ''pending''"
abbreviation (input) ModelConnectionSyncStatusSynced :: string where "ModelConnectionSyncStatusSynced \<equiv> ''synced''"
abbreviation (input) ModelConnectionSyncStatusFailed :: string where "ModelConnectionSyncStatusFailed \<equiv> ''failed''"
abbreviation (input) ConnectionTestStatusUntested :: string where "ConnectionTestStatusUntested \<equiv> ''untested''"
abbreviation (input) ConnectionTestStatusOK :: string where "ConnectionTestStatusOK \<equiv> ''ok''"
abbreviation (input) ConnectionTestStatusFailed :: string where "ConnectionTestStatusFailed \<equiv> ''failed''"
abbreviation (input) ExternalToolConnectionKindMCP :: string where "ExternalToolConnectionKindMCP \<equiv> ''mcp''"
abbreviation (input) ExternalToolConnectionKindHTTP :: string where "ExternalToolConnectionKindHTTP \<equiv> ''http''"
abbreviation (input) ExternalToolTransportSSE :: string where "ExternalToolTransportSSE \<equiv> ''sse''"
abbreviation (input) ExternalToolTransportStreamableHTTP :: string where "ExternalToolTransportStreamableHTTP \<equiv> ''streamable_http''"
abbreviation (input) ExternalToolTransportHTTP :: string where "ExternalToolTransportHTTP \<equiv> ''http''"
abbreviation (input) ExternalToolAuthTypeNone :: string where "ExternalToolAuthTypeNone \<equiv> ''none''"
abbreviation (input) ExternalToolAuthTypeBearer :: string where "ExternalToolAuthTypeBearer \<equiv> ''bearer''"
abbreviation (input) ExternalToolAuthTypeAPIKey :: string where "ExternalToolAuthTypeAPIKey \<equiv> ''api_key''"
abbreviation (input) ExternalToolAuthTypeBasic :: string where "ExternalToolAuthTypeBasic \<equiv> ''basic''"
abbreviation (input) ExternalToolConnectionStatusActive :: string where "ExternalToolConnectionStatusActive \<equiv> ''active''"
abbreviation (input) ExternalToolConnectionStatusDisabled :: string where "ExternalToolConnectionStatusDisabled \<equiv> ''disabled''"
abbreviation (input) ExternalToolConnectionStatusArchived :: string where "ExternalToolConnectionStatusArchived \<equiv> ''archived''"
abbreviation (input) AgentLifecycleStatusActive :: string where "AgentLifecycleStatusActive \<equiv> ''active''"
abbreviation (input) AgentLifecycleStatusArchived :: string where "AgentLifecycleStatusArchived \<equiv> ''archived''"
abbreviation (input) ConversationStatusActive :: string where "ConversationStatusActive \<equiv> ''active''"
abbreviation (input) ConversationStatusArchived :: string where "ConversationStatusArchived \<equiv> ''archived''"
abbreviation (input) ConversationSegmentReasonInitial :: string where "ConversationSegmentReasonInitial \<equiv> ''initial''"
abbreviation (input) ConversationSegmentReasonContextReset :: string where "ConversationSegmentReasonContextReset \<equiv> ''context_reset''"
abbreviation (input) MessageRoleUser :: string where "MessageRoleUser \<equiv> ''user''"
abbreviation (input) MessageRoleAssistant :: string where "MessageRoleAssistant \<equiv> ''assistant''"
abbreviation (input) MessageRoleSystem :: string where "MessageRoleSystem \<equiv> ''system''"
abbreviation (input) MessageRoleTool :: string where "MessageRoleTool \<equiv> ''tool''"
abbreviation (input) ExecutionTriggerTypeChat :: string where "ExecutionTriggerTypeChat \<equiv> ''chat''"
abbreviation (input) ExecutionTriggerTypeAPI :: string where "ExecutionTriggerTypeAPI \<equiv> ''api''"
abbreviation (input) ExecutionTriggerTypeTrial :: string where "ExecutionTriggerTypeTrial \<equiv> ''trial''"
abbreviation (input) ExecutionTriggerTypeSystem :: string where "ExecutionTriggerTypeSystem \<equiv> ''system''"
abbreviation (input) ExecutionStatusQueued :: string where "ExecutionStatusQueued \<equiv> ''queued''"
abbreviation (input) ExecutionStatusRunning :: string where "ExecutionStatusRunning \<equiv> ''running''"
abbreviation (input) ExecutionStatusCompleted :: string where "ExecutionStatusCompleted \<equiv> ''completed''"
abbreviation (input) ExecutionStatusFailed :: string where "ExecutionStatusFailed \<equiv> ''failed''"
abbreviation (input) ExecutionStatusCancelled :: string where "ExecutionStatusCancelled \<equiv> ''cancelled''"
abbreviation (input) ExecutionStepTypeLLM :: string where "ExecutionStepTypeLLM \<equiv> ''llm''"
abbreviation (input) ExecutionStepTypeTool :: string where "ExecutionStepTypeTool \<equiv> ''tool''"
abbreviation (input) ExecutionStepTypeSubAgent :: string where "ExecutionStepTypeSubAgent \<equiv> ''sub_agent''"
abbreviation (input) ExecutionStepTypeRetrieval :: string where "ExecutionStepTypeRetrieval \<equiv> ''retrieval''"
abbreviation (input) ExecutionStepStatusQueued :: string where "ExecutionStepStatusQueued \<equiv> ''queued''"
abbreviation (input) ExecutionStepStatusRunning :: string where "ExecutionStepStatusRunning \<equiv> ''running''"
abbreviation (input) ExecutionStepStatusCompleted :: string where "ExecutionStepStatusCompleted \<equiv> ''completed''"
abbreviation (input) ExecutionStepStatusFailed :: string where "ExecutionStepStatusFailed \<equiv> ''failed''"
abbreviation (input) ExecutionStepStatusCancelled :: string where "ExecutionStepStatusCancelled \<equiv> ''cancelled''"
abbreviation (input) ConversationFileStateDraft :: string where "ConversationFileStateDraft \<equiv> ''draft''"
abbreviation (input) ConversationFileStateAttached :: string where "ConversationFileStateAttached \<equiv> ''attached''"
abbreviation (input) MemoryScopeGlobal :: string where "MemoryScopeGlobal \<equiv> ''global''"
abbreviation (input) MemoryScopeAgent :: string where "MemoryScopeAgent \<equiv> ''agent''"
abbreviation (input) MemoryScopeConversation :: string where "MemoryScopeConversation \<equiv> ''conversation''"
abbreviation (input) MemorySourceManual :: string where "MemorySourceManual \<equiv> ''manual''"
abbreviation (input) MemorySourceExtracted :: string where "MemorySourceExtracted \<equiv> ''extracted''"
abbreviation (input) MemoryStatusActive :: string where "MemoryStatusActive \<equiv> ''active''"
abbreviation (input) MemoryStatusSuperseded :: string where "MemoryStatusSuperseded \<equiv> ''superseded''"
abbreviation (input) AgentConfirmationStatusPending :: string where "AgentConfirmationStatusPending \<equiv> ''pending''"
abbreviation (input) AgentConfirmationStatusExecuting :: string where "AgentConfirmationStatusExecuting \<equiv> ''executing''"
abbreviation (input) AgentConfirmationStatusCompleted :: string where "AgentConfirmationStatusCompleted \<equiv> ''completed''"
abbreviation (input) AgentConfirmationStatusFailed :: string where "AgentConfirmationStatusFailed \<equiv> ''failed''"
abbreviation (input) AgentConfirmationStatusCancelled :: string where "AgentConfirmationStatusCancelled \<equiv> ''cancelled''"
abbreviation (input) AgentConfirmationStatusExpired :: string where "AgentConfirmationStatusExpired \<equiv> ''expired''"
abbreviation (input) AgentDefinitionStatusDraft :: string where "AgentDefinitionStatusDraft \<equiv> ''draft''"
abbreviation (input) AgentDefinitionStatusPublished :: string where "AgentDefinitionStatusPublished \<equiv> ''published''"
abbreviation (input) AgentModelStatusActive :: string where "AgentModelStatusActive \<equiv> ''active''"
abbreviation (input) AgentModelStatusDisabled :: string where "AgentModelStatusDisabled \<equiv> ''disabled''"
abbreviation (input) AgentModelSyncStatusPending :: string where "AgentModelSyncStatusPending \<equiv> ''pending''"
abbreviation (input) AgentModelSyncStatusSynced :: string where "AgentModelSyncStatusSynced \<equiv> ''synced''"
abbreviation (input) AgentModelSyncStatusFailed :: string where "AgentModelSyncStatusFailed \<equiv> ''failed''"
abbreviation (input) AgentVisibilityAll :: string where "AgentVisibilityAll \<equiv> ''all''"
abbreviation (input) AgentVisibilityDepartment :: string where "AgentVisibilityDepartment \<equiv> ''department''"
abbreviation (input) AgentVisibilityRole :: string where "AgentVisibilityRole \<equiv> ''role''"
abbreviation (input) AgentCategoryWorkflow :: string where "AgentCategoryWorkflow \<equiv> ''workflow''"
abbreviation (input) AgentCategoryDoc :: string where "AgentCategoryDoc \<equiv> ''doc''"
abbreviation (input) AgentCategoryAnalytics :: string where "AgentCategoryAnalytics \<equiv> ''analytics''"
abbreviation (input) AgentCategoryIT :: string where "AgentCategoryIT \<equiv> ''it''"
abbreviation (input) AgentSessionStatusActive :: string where "AgentSessionStatusActive \<equiv> ''active''"
abbreviation (input) AgentSessionStatusArchived :: string where "AgentSessionStatusArchived \<equiv> ''archived''"
abbreviation (input) AgentMessageRoleUser :: string where "AgentMessageRoleUser \<equiv> ''user''"
abbreviation (input) AgentMessageRoleAssistant :: string where "AgentMessageRoleAssistant \<equiv> ''assistant''"
abbreviation (input) AgentMessageRoleSystem :: string where "AgentMessageRoleSystem \<equiv> ''system''"
abbreviation (input) AgentMessageRoleTool :: string where "AgentMessageRoleTool \<equiv> ''tool''"
abbreviation (input) AgentMemorySourceAuto :: string where "AgentMemorySourceAuto \<equiv> ''auto''"
abbreviation (input) AgentMemorySourceManual :: string where "AgentMemorySourceManual \<equiv> ''manual''"
abbreviation (input) AgentRunStatusQueued :: string where "AgentRunStatusQueued \<equiv> ''queued''"
abbreviation (input) AgentRunStatusRunning :: string where "AgentRunStatusRunning \<equiv> ''running''"
abbreviation (input) AgentRunStatusCompleted :: string where "AgentRunStatusCompleted \<equiv> ''completed''"
abbreviation (input) AgentRunStatusFailed :: string where "AgentRunStatusFailed \<equiv> ''failed''"
abbreviation (input) AgentRunStatusCancelled :: string where "AgentRunStatusCancelled \<equiv> ''cancelled''"

section \<open>Rows\<close>

record ModelConnection =
  mc_ID :: string
  mc_TenantID :: string
  mc_Name :: string
  mc_Provider :: string
  mc_UpstreamModel :: string
  mc_APIBaseURL :: string
  mc_APIKeyCiphertext :: string
  mc_APIKeyPreview :: string
  mc_RateLimitRPM :: int
  mc_TimeoutMS :: int
  mc_Status :: string
  mc_CreatedByAccountID :: string
  mc_UpdatedByAccountID :: string
  mc_CreatedAt :: int
  mc_UpdatedAt :: int
  mc_ArchivedAt :: "int option"

definition zero_ModelConnection :: ModelConnection where
  "zero_ModelConnection = \<lparr>
     mc_ID = [],
     mc_TenantID = [],
     mc_Name = [],
     mc_Provider = [],
     mc_UpstreamModel = [],
     mc_APIBaseURL = [],
     mc_APIKeyCiphertext = [],
     mc_APIKeyPreview = [],
     mc_RateLimitRPM = 0,
     mc_TimeoutMS = 0,
     mc_Status = [],
     mc_CreatedByAccountID = [],
     mc_UpdatedByAccountID = [],
     mc_CreatedAt = 0,
     mc_UpdatedAt = 0,
     mc_ArchivedAt = None \<rparr>"

record ModelConnectionState =
  mcs_TenantID :: string
  mcs_ModelConnectionID :: string
  mcs_SyncStatus :: string
  mcs_SyncedConfigChecksum :: string
  mcs_LastSyncedAt :: "int option"
  mcs_LastSyncError :: string
  mcs_LastTestedAt :: "int option"
  mcs_LastTestStatus :: string
  mcs_LastTestMessage :: string
  mcs_UpdatedAt :: int

definition zero_ModelConnectionState :: ModelConnectionState where
  "zero_ModelConnectionState = \<lparr>
     mcs_TenantID = [],
     mcs_ModelConnectionID = [],
     mcs_SyncStatus = [],
     mcs_SyncedConfigChecksum = [],
     mcs_LastSyncedAt = None,
     mcs_LastSyncError = [],
     mcs_LastTestedAt = None,
     mcs_LastTestStatus = [],
     mcs_LastTestMessage = [],
     mcs_UpdatedAt = 0 \<rparr>"

record ExternalToolConnection =
  etc_ID :: string
  etc_TenantID :: string
  etc_Name :: string
  etc_Description :: string
  etc_Kind :: string
  etc_Transport :: string
  etc_EndpointURL :: string
  etc_AuthType :: string
  etc_AuthHeaderName :: string
  etc_AuthUsername :: string
  etc_AuthSecretCiphertext :: string
  etc_TimeoutMS :: int
  etc_Status :: string
  etc_LastTestedAt :: "int option"
  etc_LastTestStatus :: string
  etc_LastTestMessage :: string
  etc_CreatedByAccountID :: string
  etc_UpdatedByAccountID :: string
  etc_CreatedAt :: int
  etc_UpdatedAt :: int
  etc_ArchivedAt :: "int option"

definition zero_ExternalToolConnection :: ExternalToolConnection where
  "zero_ExternalToolConnection = \<lparr>
     etc_ID = [],
     etc_TenantID = [],
     etc_Name = [],
     etc_Description = [],
     etc_Kind = [],
     etc_Transport = [],
     etc_EndpointURL = [],
     etc_AuthType = [],
     etc_AuthHeaderName = [],
     etc_AuthUsername = [],
     etc_AuthSecretCiphertext = [],
     etc_TimeoutMS = 0,
     etc_Status = [],
     etc_LastTestedAt = None,
     etc_LastTestStatus = [],
     etc_LastTestMessage = [],
     etc_CreatedByAccountID = [],
     etc_UpdatedByAccountID = [],
     etc_CreatedAt = 0,
     etc_UpdatedAt = 0,
     etc_ArchivedAt = None \<rparr>"

record ExternalToolCapability =
  cap_ID :: string
  cap_TenantID :: string
  cap_ConnectionID :: string
  cap_ToolName :: string
  cap_Description :: string
  cap_HTTPMethod :: string
  cap_HTTPPath :: string
  cap_InputSchema :: params
  cap_OutputSchema :: params
  cap_Readonly :: bool
  cap_Enabled :: bool
  cap_SchemaChecksum :: string
  cap_DiscoveredAt :: int
  cap_UpdatedAt :: int
  cap_ArchivedAt :: "int option"

definition zero_ExternalToolCapability :: ExternalToolCapability where
  "zero_ExternalToolCapability = \<lparr>
     cap_ID = [],
     cap_TenantID = [],
     cap_ConnectionID = [],
     cap_ToolName = [],
     cap_Description = [],
     cap_HTTPMethod = [],
     cap_HTTPPath = [],
     cap_InputSchema = [],
     cap_OutputSchema = [],
     cap_Readonly = False,
     cap_Enabled = False,
     cap_SchemaChecksum = [],
     cap_DiscoveredAt = 0,
     cap_UpdatedAt = 0,
     cap_ArchivedAt = None \<rparr>"

record Agent =
  ag_ID :: string
  ag_TenantID :: string
  ag_ParentAgentID :: string
  ag_LifecycleStatus :: string
  ag_DraftRevisionID :: string
  ag_PublishedRevisionID :: string
  ag_NextRevisionNo :: int
  ag_CreatedByAccountID :: string
  ag_CreatedAt :: int
  ag_UpdatedAt :: int
  ag_ArchivedAt :: "int option"

definition zero_Agent :: Agent where
  "zero_Agent = \<lparr>
     ag_ID = [],
     ag_TenantID = [],
     ag_ParentAgentID = [],
     ag_LifecycleStatus = [],
     ag_DraftRevisionID = [],
     ag_PublishedRevisionID = [],
     ag_NextRevisionNo = 0,
     ag_CreatedByAccountID = [],
     ag_CreatedAt = 0,
     ag_UpdatedAt = 0,
     ag_ArchivedAt = None \<rparr>"

record LocalizedAgentSuggestedQuestion =
  lsq_Translations :: "(string, string) gomap"

definition zero_LocalizedAgentSuggestedQuestion :: LocalizedAgentSuggestedQuestion where
  "zero_LocalizedAgentSuggestedQuestion = \<lparr>
     lsq_Translations = [] \<rparr>"

record AgentRevision =
  rev_ID :: string
  rev_TenantID :: string
  rev_AgentID :: string
  rev_RevisionNo :: int
  rev_Ordinal :: "int option"
  rev_Name :: string
  rev_Description :: string
  rev_Icon :: string
  rev_Category :: string
  rev_Visibility :: string
  rev_VisibilityTargets :: "string list"
  rev_MainAgentRole :: string
  rev_SystemPrompt :: string
  rev_WelcomeMessage :: string
  rev_SuggestedQuestions :: "string list"
  rev_SuggestedQuestionTranslations :: "LocalizedAgentSuggestedQuestion list"
  rev_ModelConnectionID :: string
  rev_ModelConfigChecksum :: string
  rev_TimeoutMS :: int
  rev_ConfigSchemaVersion :: int
  rev_Checksum :: string
  rev_RevisionNote :: string
  rev_CreatedByAccountID :: string
  rev_CreatedAt :: int

definition zero_AgentRevision :: AgentRevision where
  "zero_AgentRevision = \<lparr>
     rev_ID = [],
     rev_TenantID = [],
     rev_AgentID = [],
     rev_RevisionNo = 0,
     rev_Ordinal = None,
     rev_Name = [],
     rev_Description = [],
     rev_Icon = [],
     rev_Category = [],
     rev_Visibility = [],
     rev_VisibilityTargets = [],
     rev_MainAgentRole = [],
     rev_SystemPrompt = [],
     rev_WelcomeMessage = [],
     rev_SuggestedQuestions = [],
     rev_SuggestedQuestionTranslations = [],
     rev_ModelConnectionID = [],
     rev_ModelConfigChecksum = [],
     rev_TimeoutMS = 0,
     rev_ConfigSchemaVersion = 0,
     rev_Checksum = [],
     rev_RevisionNote = [],
     rev_CreatedByAccountID = [],
     rev_CreatedAt = 0 \<rparr>"

record AgentRevisionBuiltinTool =
  rbt_TenantID :: string
  rbt_RevisionID :: string
  rbt_ToolKey :: string
  rbt_Ordinal :: int
  rbt_Config :: params

definition zero_AgentRevisionBuiltinTool :: AgentRevisionBuiltinTool where
  "zero_AgentRevisionBuiltinTool = \<lparr>
     rbt_TenantID = [],
     rbt_RevisionID = [],
     rbt_ToolKey = [],
     rbt_Ordinal = 0,
     rbt_Config = [] \<rparr>"

record AgentRevisionExternalTool =
  ret_TenantID :: string
  ret_RevisionID :: string
  ret_ExternalToolID :: string
  ret_ToolSchemaChecksum :: string
  ret_Ordinal :: int
  ret_Config :: params

definition zero_AgentRevisionExternalTool :: AgentRevisionExternalTool where
  "zero_AgentRevisionExternalTool = \<lparr>
     ret_TenantID = [],
     ret_RevisionID = [],
     ret_ExternalToolID = [],
     ret_ToolSchemaChecksum = [],
     ret_Ordinal = 0,
     ret_Config = [] \<rparr>"

record AgentRevisionKnowledgeBase =
  rkb_TenantID :: string
  rkb_RevisionID :: string
  rkb_KnowledgeBaseID :: string
  rkb_Ordinal :: int

definition zero_AgentRevisionKnowledgeBase :: AgentRevisionKnowledgeBase where
  "zero_AgentRevisionKnowledgeBase = \<lparr>
     rkb_TenantID = [],
     rkb_RevisionID = [],
     rkb_KnowledgeBaseID = [],
     rkb_Ordinal = 0 \<rparr>"

record AgentRevisionSnapshot =
  rsn_Revision :: AgentRevision
  rsn_BuiltinTools :: "AgentRevisionBuiltinTool list"
  rsn_ExternalTools :: "AgentRevisionExternalTool list"
  rsn_KnowledgeBases :: "AgentRevisionKnowledgeBase list"

definition zero_AgentRevisionSnapshot :: AgentRevisionSnapshot where
  "zero_AgentRevisionSnapshot = \<lparr>
     rsn_Revision = zero_AgentRevision,
     rsn_BuiltinTools = [],
     rsn_ExternalTools = [],
     rsn_KnowledgeBases = [] \<rparr>"

record Conversation =
  conv_ID :: string
  conv_TenantID :: string
  conv_OwnerAccountID :: string
  conv_AgentID :: string
  conv_CurrentSegmentID :: string
  conv_NextMessageSequence :: int
  conv_Title :: string
  conv_Status :: string
  conv_LastMessageAt :: "int option"
  conv_CreatedAt :: int
  conv_UpdatedAt :: int
  conv_ArchivedAt :: "int option"

definition zero_Conversation :: Conversation where
  "zero_Conversation = \<lparr>
     conv_ID = [],
     conv_TenantID = [],
     conv_OwnerAccountID = [],
     conv_AgentID = [],
     conv_CurrentSegmentID = [],
     conv_NextMessageSequence = 0,
     conv_Title = [],
     conv_Status = [],
     conv_LastMessageAt = None,
     conv_CreatedAt = 0,
     conv_UpdatedAt = 0,
     conv_ArchivedAt = None \<rparr>"

record ConversationSegment =
  seg_ID :: string
  seg_TenantID :: string
  seg_ConversationID :: string
  seg_Ordinal :: int
  seg_StartReason :: string
  seg_CreatedAt :: int

definition zero_ConversationSegment :: ConversationSegment where
  "zero_ConversationSegment = \<lparr>
     seg_ID = [],
     seg_TenantID = [],
     seg_ConversationID = [],
     seg_Ordinal = 0,
     seg_StartReason = [],
     seg_CreatedAt = 0 \<rparr>"

record ConversationMessage =
  cmsg_ID :: string
  cmsg_TenantID :: string
  cmsg_ConversationID :: string
  cmsg_SegmentID :: string
  cmsg_SequenceNo :: int
  cmsg_Role :: string
  cmsg_Content :: string
  cmsg_ContentJSON :: params
  cmsg_ExecutionID :: string
  cmsg_ExecutionStepID :: string
  cmsg_CreatedAt :: int

definition zero_ConversationMessage :: ConversationMessage where
  "zero_ConversationMessage = \<lparr>
     cmsg_ID = [],
     cmsg_TenantID = [],
     cmsg_ConversationID = [],
     cmsg_SegmentID = [],
     cmsg_SequenceNo = 0,
     cmsg_Role = [],
     cmsg_Content = [],
     cmsg_ContentJSON = [],
     cmsg_ExecutionID = [],
     cmsg_ExecutionStepID = [],
     cmsg_CreatedAt = 0 \<rparr>"

record Execution =
  exe_ID :: string
  exe_TenantID :: string
  exe_AccountID :: string
  exe_ConversationID :: string
  exe_SegmentID :: string
  exe_InputMessageID :: string
  exe_AgentID :: string
  exe_AgentRevisionID :: string
  exe_ModelConnectionID :: string
  exe_Mode :: string
  exe_TriggerType :: string
  exe_Status :: string
  exe_QueuedAt :: int
  exe_StartedAt :: "int option"
  exe_CompletedAt :: "int option"
  exe_ErrorCode :: string
  exe_ErrorCategory :: string
  exe_SafeErrorMessage :: string
  exe_LLMCallCount :: int
  exe_InputTokens :: int
  exe_CachedTokens :: int
  exe_OutputTokens :: int
  exe_TotalTokens :: int
  exe_UsageComplete :: bool
  exe_CreatedAt :: int
  exe_UpdatedAt :: int

definition zero_Execution :: Execution where
  "zero_Execution = \<lparr>
     exe_ID = [],
     exe_TenantID = [],
     exe_AccountID = [],
     exe_ConversationID = [],
     exe_SegmentID = [],
     exe_InputMessageID = [],
     exe_AgentID = [],
     exe_AgentRevisionID = [],
     exe_ModelConnectionID = [],
     exe_Mode = [],
     exe_TriggerType = [],
     exe_Status = [],
     exe_QueuedAt = 0,
     exe_StartedAt = None,
     exe_CompletedAt = None,
     exe_ErrorCode = [],
     exe_ErrorCategory = [],
     exe_SafeErrorMessage = [],
     exe_LLMCallCount = 0,
     exe_InputTokens = 0,
     exe_CachedTokens = 0,
     exe_OutputTokens = 0,
     exe_TotalTokens = 0,
     exe_UsageComplete = False,
     exe_CreatedAt = 0,
     exe_UpdatedAt = 0 \<rparr>"

record ExecutionStep =
  step_ID :: string
  step_TenantID :: string
  step_ExecutionID :: string
  step_ParentStepID :: string
  step_SequenceNo :: int
  step_StepType :: string
  step_Name :: string
  step_ModelConnectionID :: string
  step_ExternalToolID :: string
  step_Status :: string
  step_InputSummary :: params
  step_OutputSummary :: params
  step_InputTokens :: int
  step_CachedTokens :: int
  step_OutputTokens :: int
  step_StartedAt :: "int option"
  step_CompletedAt :: "int option"
  step_ErrorCode :: string
  step_CreatedAt :: int

definition zero_ExecutionStep :: ExecutionStep where
  "zero_ExecutionStep = \<lparr>
     step_ID = [],
     step_TenantID = [],
     step_ExecutionID = [],
     step_ParentStepID = [],
     step_SequenceNo = 0,
     step_StepType = [],
     step_Name = [],
     step_ModelConnectionID = [],
     step_ExternalToolID = [],
     step_Status = [],
     step_InputSummary = [],
     step_OutputSummary = [],
     step_InputTokens = 0,
     step_CachedTokens = 0,
     step_OutputTokens = 0,
     step_StartedAt = None,
     step_CompletedAt = None,
     step_ErrorCode = [],
     step_CreatedAt = 0 \<rparr>"

record ConversationFile =
  cfile_ID :: string
  cfile_TenantID :: string
  cfile_ConversationID :: string
  cfile_SegmentID :: string
  cfile_FileAssetID :: string
  cfile_MessageID :: string
  cfile_Ordinal :: "int option"
  cfile_State :: string
  cfile_CreatedAt :: int
  cfile_UpdatedAt :: int

definition zero_ConversationFile :: ConversationFile where
  "zero_ConversationFile = \<lparr>
     cfile_ID = [],
     cfile_TenantID = [],
     cfile_ConversationID = [],
     cfile_SegmentID = [],
     cfile_FileAssetID = [],
     cfile_MessageID = [],
     cfile_Ordinal = None,
     cfile_State = [],
     cfile_CreatedAt = 0,
     cfile_UpdatedAt = 0 \<rparr>"

record Memory =
  mmry_ID :: string
  mmry_TenantID :: string
  mmry_AccountID :: string
  mmry_ScopeType :: string
  mmry_AgentID :: string
  mmry_ConversationID :: string
  mmry_SegmentID :: string
  mmry_Key :: string
  mmry_Content :: string
  mmry_SourceType :: string
  mmry_SourceMessageID :: string
  mmry_Confidence :: rat
  mmry_Importance :: int
  mmry_Status :: string
  mmry_ExpiresAt :: "int option"
  mmry_CreatedAt :: int
  mmry_UpdatedAt :: int

definition zero_Memory :: Memory where
  "zero_Memory = \<lparr>
     mmry_ID = [],
     mmry_TenantID = [],
     mmry_AccountID = [],
     mmry_ScopeType = [],
     mmry_AgentID = [],
     mmry_ConversationID = [],
     mmry_SegmentID = [],
     mmry_Key = [],
     mmry_Content = [],
     mmry_SourceType = [],
     mmry_SourceMessageID = [],
     mmry_Confidence = 0,
     mmry_Importance = 0,
     mmry_Status = [],
     mmry_ExpiresAt = None,
     mmry_CreatedAt = 0,
     mmry_UpdatedAt = 0 \<rparr>"

record AgentConfirmationRecord =
  acf_ID :: string
  acf_TenantID :: string
  acf_AccountID :: string
  acf_ConversationID :: string
  acf_SegmentID :: string
  acf_ExecutionID :: string
  acf_SourceMessageID :: string
  acf_Kind :: string
  acf_Title :: string
  acf_Action :: string
  acf_PublicPayload :: params
  acf_ActionPayload :: params
  acf_ResultPayload :: params
  acf_Status :: string
  acf_LastError :: string
  acf_ExpiresAt :: int
  acf_ConsumedAt :: "int option"
  acf_CreatedAt :: int
  acf_UpdatedAt :: int

definition zero_AgentConfirmationRecord :: AgentConfirmationRecord where
  "zero_AgentConfirmationRecord = \<lparr>
     acf_ID = [],
     acf_TenantID = [],
     acf_AccountID = [],
     acf_ConversationID = [],
     acf_SegmentID = [],
     acf_ExecutionID = [],
     acf_SourceMessageID = [],
     acf_Kind = [],
     acf_Title = [],
     acf_Action = [],
     acf_PublicPayload = [],
     acf_ActionPayload = [],
     acf_ResultPayload = [],
     acf_Status = [],
     acf_LastError = [],
     acf_ExpiresAt = 0,
     acf_ConsumedAt = None,
     acf_CreatedAt = 0,
     acf_UpdatedAt = 0 \<rparr>"

record AgentModel =
  am_ID :: string
  am_TenantID :: string
  am_Name :: string
  am_Provider :: string
  am_ModelName :: string
  am_LiteLLMModel :: string
  am_APIBaseURL :: string
  am_APIKey :: string
  am_APIKeyCiphertext :: string
  am_APIKeySet :: bool
  am_APIKeyPreview :: string
  am_RateLimitRPM :: int
  am_Status :: string
  am_TimeoutSeconds :: int
  am_MonthlyQuota :: int
  am_UsedQuota :: int
  am_LastTestedAt :: "int option"
  am_LastTestStatus :: string
  am_LastTestMessage :: string
  am_SyncStatus :: string
  am_LastSyncedAt :: "int option"
  am_LastSyncError :: string
  am_SyncedConfigHash :: string
  am_CreatedAt :: int
  am_UpdatedAt :: int

definition zero_AgentModel :: AgentModel where
  "zero_AgentModel = \<lparr>
     am_ID = [],
     am_TenantID = [],
     am_Name = [],
     am_Provider = [],
     am_ModelName = [],
     am_LiteLLMModel = [],
     am_APIBaseURL = [],
     am_APIKey = [],
     am_APIKeyCiphertext = [],
     am_APIKeySet = False,
     am_APIKeyPreview = [],
     am_RateLimitRPM = 0,
     am_Status = [],
     am_TimeoutSeconds = 0,
     am_MonthlyQuota = 0,
     am_UsedQuota = 0,
     am_LastTestedAt = None,
     am_LastTestStatus = [],
     am_LastTestMessage = [],
     am_SyncStatus = [],
     am_LastSyncedAt = None,
     am_LastSyncError = [],
     am_SyncedConfigHash = [],
     am_CreatedAt = 0,
     am_UpdatedAt = 0 \<rparr>"

record AgentTeamMember =
  atm_ID :: string
  atm_Name :: string
  atm_Role :: string
  atm_ModelID :: string
  atm_ModelConfigChecksum :: string
  atm_Tools :: "string list"
  atm_ExternalToolIDs :: "string list"
  atm_KnowledgeBaseIDs :: "string list"

definition zero_AgentTeamMember :: AgentTeamMember where
  "zero_AgentTeamMember = \<lparr>
     atm_ID = [],
     atm_Name = [],
     atm_Role = [],
     atm_ModelID = [],
     atm_ModelConfigChecksum = [],
     atm_Tools = [],
     atm_ExternalToolIDs = [],
     atm_KnowledgeBaseIDs = [] \<rparr>"

record AgentDefinitionVersion =
  adv_ID :: string
  adv_TenantID :: string
  adv_AgentID :: string
  adv_Version :: int
  adv_Name :: string
  adv_Description :: string
  adv_Emoji :: string
  adv_Category :: string
  adv_Visibility :: string
  adv_VisibilityTargets :: "string list"
  adv_MainAgentRole :: string
  adv_SubAgents :: "AgentTeamMember list"
  adv_SystemPrompt :: string
  adv_WelcomeMessage :: string
  adv_SuggestedQuestions :: "string list"
  adv_SuggestedQuestionTranslations :: "LocalizedAgentSuggestedQuestion list"
  adv_Tools :: "string list"
  adv_ExternalToolIDs :: "string list"
  adv_KnowledgeBaseIDs :: "string list"
  adv_ModelID :: string
  adv_ModelConfigChecksum :: string
  adv_TimeoutSeconds :: int
  adv_ConfigSchemaVersion :: int
  adv_Checksum :: string
  adv_Note :: string
  adv_CreatedByAccountID :: string
  adv_CreatedAt :: int

definition zero_AgentDefinitionVersion :: AgentDefinitionVersion where
  "zero_AgentDefinitionVersion = \<lparr>
     adv_ID = [],
     adv_TenantID = [],
     adv_AgentID = [],
     adv_Version = 0,
     adv_Name = [],
     adv_Description = [],
     adv_Emoji = [],
     adv_Category = [],
     adv_Visibility = [],
     adv_VisibilityTargets = [],
     adv_MainAgentRole = [],
     adv_SubAgents = [],
     adv_SystemPrompt = [],
     adv_WelcomeMessage = [],
     adv_SuggestedQuestions = [],
     adv_SuggestedQuestionTranslations = [],
     adv_Tools = [],
     adv_ExternalToolIDs = [],
     adv_KnowledgeBaseIDs = [],
     adv_ModelID = [],
     adv_ModelConfigChecksum = [],
     adv_TimeoutSeconds = 0,
     adv_ConfigSchemaVersion = 0,
     adv_Checksum = [],
     adv_Note = [],
     adv_CreatedByAccountID = [],
     adv_CreatedAt = 0 \<rparr>"

record AgentUsageStats =
  aus_TotalRuns :: int
  aus_SuccessRuns :: int
  aus_FailedRuns :: int
  aus_AvgLatencyMs :: int
  aus_LastRunAt :: "int option"
  aus_TopPrompts :: "string list"

definition zero_AgentUsageStats :: AgentUsageStats where
  "zero_AgentUsageStats = \<lparr>
     aus_TotalRuns = 0,
     aus_SuccessRuns = 0,
     aus_FailedRuns = 0,
     aus_AvgLatencyMs = 0,
     aus_LastRunAt = None,
     aus_TopPrompts = [] \<rparr>"

record AgentDefinitionRef =
  adr_ID :: string
  adr_Name :: string

definition zero_AgentDefinitionRef :: AgentDefinitionRef where
  "zero_AgentDefinitionRef = \<lparr>
     adr_ID = [],
     adr_Name = [] \<rparr>"

record AgentDefinition =
  adn_ID :: string
  adn_TenantID :: string
  adn_DraftRevisionID :: string
  adn_PublishedRevisionID :: string
  adn_Name :: string
  adn_Description :: string
  adn_Emoji :: string
  adn_Category :: string
  adn_ModelID :: string
  adn_MainAgentRole :: string
  adn_SubAgents :: "AgentTeamMember list"
  adn_SystemPrompt :: string
  adn_WelcomeMessage :: string
  adn_SuggestedQuestions :: "string list"
  adn_SuggestedQuestionTranslations :: "LocalizedAgentSuggestedQuestion list"
  adn_Tools :: "string list"
  adn_ExternalToolIDs :: "string list"
  adn_KnowledgeBaseIDs :: "string list"
  adn_Status :: string
  adn_Visibility :: string
  adn_VisibilityTargets :: "string list"
  adn_TimeoutSeconds :: int
  adn_Version :: int
  adn_PublishedVersion :: int
  adn_Versions :: "AgentDefinitionVersion list"
  adn_Usage :: AgentUsageStats
  adn_CreatedByAccountID :: string
  adn_UpdatedByAccountID :: string
  adn_CreatedAt :: int
  adn_UpdatedAt :: int

definition zero_AgentDefinition :: AgentDefinition where
  "zero_AgentDefinition = \<lparr>
     adn_ID = [],
     adn_TenantID = [],
     adn_DraftRevisionID = [],
     adn_PublishedRevisionID = [],
     adn_Name = [],
     adn_Description = [],
     adn_Emoji = [],
     adn_Category = [],
     adn_ModelID = [],
     adn_MainAgentRole = [],
     adn_SubAgents = [],
     adn_SystemPrompt = [],
     adn_WelcomeMessage = [],
     adn_SuggestedQuestions = [],
     adn_SuggestedQuestionTranslations = [],
     adn_Tools = [],
     adn_ExternalToolIDs = [],
     adn_KnowledgeBaseIDs = [],
     adn_Status = [],
     adn_Visibility = [],
     adn_VisibilityTargets = [],
     adn_TimeoutSeconds = 0,
     adn_Version = 0,
     adn_PublishedVersion = 0,
     adn_Versions = [],
     adn_Usage = zero_AgentUsageStats,
     adn_CreatedByAccountID = [],
     adn_UpdatedByAccountID = [],
     adn_CreatedAt = 0,
     adn_UpdatedAt = 0 \<rparr>"

record AgentToolMeta =
  atool_Value :: string
  atool_Label :: string
  atool_Description :: string
  atool_DescriptionZhTW :: string
  atool_Category :: string
  atool_Readonly :: bool
  atool_RequiredPermission :: string

definition zero_AgentToolMeta :: AgentToolMeta where
  "zero_AgentToolMeta = \<lparr>
     atool_Value = [],
     atool_Label = [],
     atool_Description = [],
     atool_DescriptionZhTW = [],
     atool_Category = [],
     atool_Readonly = False,
     atool_RequiredPermission = [] \<rparr>"

record AgentExternalTool =
  aet_ID :: string
  aet_TenantID :: string
  aet_Name :: string
  aet_Description :: string
  aet_Kind :: string
  aet_Transport :: string
  aet_EndpointURL :: string
  aet_AuthType :: string
  aet_AuthHeaderName :: string
  aet_AuthUsername :: string
  aet_TimeoutSeconds :: int
  aet_AuthSecretCiphertext :: string
  aet_CredentialSet :: bool
  aet_Status :: string
  aet_LastTestedAt :: "int option"
  aet_LastTestStatus :: string
  aet_LastTestMessage :: string
  aet_Capabilities :: "ExternalToolCapability list"
  aet_CreatedByAccountID :: string
  aet_CreatedAt :: int
  aet_UpdatedAt :: int
  aet_ArchivedAt :: "int option"

definition zero_AgentExternalTool :: AgentExternalTool where
  "zero_AgentExternalTool = \<lparr>
     aet_ID = [],
     aet_TenantID = [],
     aet_Name = [],
     aet_Description = [],
     aet_Kind = [],
     aet_Transport = [],
     aet_EndpointURL = [],
     aet_AuthType = [],
     aet_AuthHeaderName = [],
     aet_AuthUsername = [],
     aet_TimeoutSeconds = 0,
     aet_AuthSecretCiphertext = [],
     aet_CredentialSet = False,
     aet_Status = [],
     aet_LastTestedAt = None,
     aet_LastTestStatus = [],
     aet_LastTestMessage = [],
     aet_Capabilities = [],
     aet_CreatedByAccountID = [],
     aet_CreatedAt = 0,
     aet_UpdatedAt = 0,
     aet_ArchivedAt = None \<rparr>"

record AgentSessionFile =
  asf_ID :: string
  asf_TenantID :: string
  asf_SessionID :: string
  asf_SegmentID :: string
  asf_ConversationFileID :: string
  asf_ContextVersion :: int
  asf_CreatedByAccountID :: string
  asf_OriginalFilename :: string
  asf_ObjectProvider :: string
  asf_ObjectBucket :: string
  asf_ObjectKey :: string
  asf_ContentType :: string
  asf_SizeBytes :: int
  asf_SHA256 :: string
  asf_ScanStatus :: string
  asf_ParseStatus :: string
  asf_RetentionClass :: string
  asf_State :: string
  asf_MessageID :: string
  asf_Ordinal :: "int option"
  asf_ExpiresAt :: "int option"
  asf_CreatedAt :: int
  asf_UpdatedAt :: int

definition zero_AgentSessionFile :: AgentSessionFile where
  "zero_AgentSessionFile = \<lparr>
     asf_ID = [],
     asf_TenantID = [],
     asf_SessionID = [],
     asf_SegmentID = [],
     asf_ConversationFileID = [],
     asf_ContextVersion = 0,
     asf_CreatedByAccountID = [],
     asf_OriginalFilename = [],
     asf_ObjectProvider = [],
     asf_ObjectBucket = [],
     asf_ObjectKey = [],
     asf_ContentType = [],
     asf_SizeBytes = 0,
     asf_SHA256 = [],
     asf_ScanStatus = [],
     asf_ParseStatus = [],
     asf_RetentionClass = [],
     asf_State = [],
     asf_MessageID = [],
     asf_Ordinal = None,
     asf_ExpiresAt = None,
     asf_CreatedAt = 0,
     asf_UpdatedAt = 0 \<rparr>"

record AgentMessageAttachment =
  ama_MessageID :: string
  ama_ConversationFileID :: string
  ama_Ordinal :: int
  ama_File :: AgentSessionFile

definition zero_AgentMessageAttachment :: AgentMessageAttachment where
  "zero_AgentMessageAttachment = \<lparr>
     ama_MessageID = [],
     ama_ConversationFileID = [],
     ama_Ordinal = 0,
     ama_File = zero_AgentSessionFile \<rparr>"

record AgentSession =
  ases_ID :: string
  ases_TenantID :: string
  ases_AccountID :: string
  ases_AgentID :: string
  ases_SegmentID :: string
  ases_Title :: string
  ases_Status :: string
  ases_ContextVersion :: int
  ases_LastMessageAt :: "int option"
  ases_CreatedAt :: int
  ases_UpdatedAt :: int

definition zero_AgentSession :: AgentSession where
  "zero_AgentSession = \<lparr>
     ases_ID = [],
     ases_TenantID = [],
     ases_AccountID = [],
     ases_AgentID = [],
     ases_SegmentID = [],
     ases_Title = [],
     ases_Status = [],
     ases_ContextVersion = 0,
     ases_LastMessageAt = None,
     ases_CreatedAt = 0,
     ases_UpdatedAt = 0 \<rparr>"

record AgentSessionMessage =
  asm_ID :: string
  asm_TenantID :: string
  asm_SessionID :: string
  asm_SegmentID :: string
  asm_SequenceNo :: int
  asm_Role :: string
  asm_Content :: string
  asm_RunID :: string
  asm_ContextVersion :: int
  asm_Metadata :: params
  asm_Attachments :: "AgentSessionFile list"
  asm_CreatedAt :: int

definition zero_AgentSessionMessage :: AgentSessionMessage where
  "zero_AgentSessionMessage = \<lparr>
     asm_ID = [],
     asm_TenantID = [],
     asm_SessionID = [],
     asm_SegmentID = [],
     asm_SequenceNo = 0,
     asm_Role = [],
     asm_Content = [],
     asm_RunID = [],
     asm_ContextVersion = 0,
     asm_Metadata = [],
     asm_Attachments = [],
     asm_CreatedAt = 0 \<rparr>"

record AgentAccountUsage =
  aau_AccountID :: string
  aau_DisplayName :: string
  aau_Email :: string
  aau_Status :: string
  aau_SessionCount :: int
  aau_MessageCount :: int
  aau_LLMCallCount :: int
  aau_InputTokens :: int
  aau_CachedTokens :: int
  aau_OutputTokens :: int
  aau_TotalTokens :: int
  aau_ActualTokens :: int
  aau_LastActiveAt :: "int option"

definition zero_AgentAccountUsage :: AgentAccountUsage where
  "zero_AgentAccountUsage = \<lparr>
     aau_AccountID = [],
     aau_DisplayName = [],
     aau_Email = [],
     aau_Status = [],
     aau_SessionCount = 0,
     aau_MessageCount = 0,
     aau_LLMCallCount = 0,
     aau_InputTokens = 0,
     aau_CachedTokens = 0,
     aau_OutputTokens = 0,
     aau_TotalTokens = 0,
     aau_ActualTokens = 0,
     aau_LastActiveAt = None \<rparr>"

record AgentSessionUsage =
  asu_SessionID :: string
  asu_AccountID :: string
  asu_Title :: string
  asu_Status :: string
  asu_MessageCount :: int
  asu_LLMCallCount :: int
  asu_InputTokens :: int
  asu_CachedTokens :: int
  asu_OutputTokens :: int
  asu_TotalTokens :: int
  asu_ActualTokens :: int
  asu_LastActiveAt :: "int option"

definition zero_AgentSessionUsage :: AgentSessionUsage where
  "zero_AgentSessionUsage = \<lparr>
     asu_SessionID = [],
     asu_AccountID = [],
     asu_Title = [],
     asu_Status = [],
     asu_MessageCount = 0,
     asu_LLMCallCount = 0,
     asu_InputTokens = 0,
     asu_CachedTokens = 0,
     asu_OutputTokens = 0,
     asu_TotalTokens = 0,
     asu_ActualTokens = 0,
     asu_LastActiveAt = None \<rparr>"

record AgentUsageSummary =
  ausum_UserCount :: int
  ausum_UsersWithUsage :: int
  ausum_SessionCount :: int
  ausum_MessageCount :: int
  ausum_LLMCallCount :: int
  ausum_InputTokens :: int
  ausum_CachedTokens :: int
  ausum_OutputTokens :: int
  ausum_TotalTokens :: int
  ausum_ActualTokens :: int

definition zero_AgentUsageSummary :: AgentUsageSummary where
  "zero_AgentUsageSummary = \<lparr>
     ausum_UserCount = 0,
     ausum_UsersWithUsage = 0,
     ausum_SessionCount = 0,
     ausum_MessageCount = 0,
     ausum_LLMCallCount = 0,
     ausum_InputTokens = 0,
     ausum_CachedTokens = 0,
     ausum_OutputTokens = 0,
     ausum_TotalTokens = 0,
     ausum_ActualTokens = 0 \<rparr>"

record AgentAccountUsageQuery =
  aauq_Query :: string
  aauq_Status :: string

definition zero_AgentAccountUsageQuery :: AgentAccountUsageQuery where
  "zero_AgentAccountUsageQuery = \<lparr>
     aauq_Query = [],
     aauq_Status = [] \<rparr>"

record AgentMemory =
  amem_ID :: string
  amem_TenantID :: string
  amem_AccountID :: string
  amem_AgentID :: string
  amem_SessionID :: string
  amem_SegmentID :: string
  amem_Scope :: string
  amem_Key :: string
  amem_Content :: string
  amem_Source :: string
  amem_SourceMessageID :: string
  amem_Confidence :: rat
  amem_Status :: string
  amem_Importance :: int
  amem_ExpiresAt :: "int option"
  amem_CreatedAt :: int
  amem_UpdatedAt :: int

definition zero_AgentMemory :: AgentMemory where
  "zero_AgentMemory = \<lparr>
     amem_ID = [],
     amem_TenantID = [],
     amem_AccountID = [],
     amem_AgentID = [],
     amem_SessionID = [],
     amem_SegmentID = [],
     amem_Scope = [],
     amem_Key = [],
     amem_Content = [],
     amem_Source = [],
     amem_SourceMessageID = [],
     amem_Confidence = 0,
     amem_Status = [],
     amem_Importance = 0,
     amem_ExpiresAt = None,
     amem_CreatedAt = 0,
     amem_UpdatedAt = 0 \<rparr>"

record KeysetPage =
  kp_Limit :: int
  kp_HasCursor :: bool
  kp_CursorCreatedAt :: int
  kp_CursorID :: string

definition zero_KeysetPage :: KeysetPage where
  "zero_KeysetPage = \<lparr>
     kp_Limit = 0,
     kp_HasCursor = False,
     kp_CursorCreatedAt = 0,
     kp_CursorID = [] \<rparr>"

record Reference =
  ref_Title :: string
  ref_Snippet :: string
  ref_Source :: string

definition zero_Reference :: Reference where
  "zero_Reference = \<lparr>
     ref_Title = [],
     ref_Snippet = [],
     ref_Source = [] \<rparr>"

record AgentRun =
  arun_ID :: string
  arun_TenantID :: string
  arun_AccountID :: string
  arun_AgentID :: string
  arun_SessionID :: string
  arun_SegmentID :: string
  arun_InputMessageID :: string
  arun_AgentRevisionID :: string
  arun_ModelConnectionID :: string
  arun_Mode :: string
  arun_Prompt :: string
  arun_Answer :: string
  arun_Status :: string
  arun_References :: "Reference list"
  arun_ToolDecisions :: "CheckResult list"
  arun_LLMCallCount :: int
  arun_InputTokens :: int
  arun_CachedTokens :: int
  arun_OutputTokens :: int
  arun_TotalTokens :: int
  arun_UsageComplete :: bool
  arun_StartedAt :: "int option"
  arun_CompletedAt :: "int option"
  arun_ErrorCode :: string
  arun_ErrorCategory :: string
  arun_CreatedAt :: int
  arun_UpdatedAt :: int

definition zero_AgentRun :: AgentRun where
  "zero_AgentRun = \<lparr>
     arun_ID = [],
     arun_TenantID = [],
     arun_AccountID = [],
     arun_AgentID = [],
     arun_SessionID = [],
     arun_SegmentID = [],
     arun_InputMessageID = [],
     arun_AgentRevisionID = [],
     arun_ModelConnectionID = [],
     arun_Mode = [],
     arun_Prompt = [],
     arun_Answer = [],
     arun_Status = [],
     arun_References = [],
     arun_ToolDecisions = [],
     arun_LLMCallCount = 0,
     arun_InputTokens = 0,
     arun_CachedTokens = 0,
     arun_OutputTokens = 0,
     arun_TotalTokens = 0,
     arun_UsageComplete = False,
     arun_StartedAt = None,
     arun_CompletedAt = None,
     arun_ErrorCode = [],
     arun_ErrorCategory = [],
     arun_CreatedAt = 0,
     arun_UpdatedAt = 0 \<rparr>"

record AgentAnalysisRow =
  aar_Label :: string
  aar_Value :: string

definition zero_AgentAnalysisRow :: AgentAnalysisRow where
  "zero_AgentAnalysisRow = \<lparr>
     aar_Label = [],
     aar_Value = [] \<rparr>"

record AgentConfirmationItem =
  aci_ID :: string
  aci_Title :: string
  aci_Subtitle :: string
  aci_Status :: string
  aci_Rows :: "AgentAnalysisRow list"

definition zero_AgentConfirmationItem :: AgentConfirmationItem where
  "zero_AgentConfirmationItem = \<lparr>
     aci_ID = [],
     aci_Title = [],
     aci_Subtitle = [],
     aci_Status = [],
     aci_Rows = [] \<rparr>"

record AgentConfirmation =
  aconf_ID :: string
  aconf_Kind :: string
  aconf_Title :: string
  aconf_Description :: string
  aconf_Action :: string
  aconf_ActionLabel :: string
  aconf_Rows :: "AgentAnalysisRow list"
  aconf_Items :: "AgentConfirmationItem list"
  aconf_ExpiresAt :: int

definition zero_AgentConfirmation :: AgentConfirmation where
  "zero_AgentConfirmation = \<lparr>
     aconf_ID = [],
     aconf_Kind = [],
     aconf_Title = [],
     aconf_Description = [],
     aconf_Action = [],
     aconf_ActionLabel = [],
     aconf_Rows = [],
     aconf_Items = [],
     aconf_ExpiresAt = 0 \<rparr>"


section \<open>Named strings\<close>

definition ModelConnectionStatus_Valid :: "string \<Rightarrow> bool" where
  "ModelConnectionStatus_Valid s \<longleftrightarrow> s = ModelConnectionStatusActive \<or> s = ModelConnectionStatusDisabled \<or> s = ModelConnectionStatusArchived"

definition ModelConnectionSyncStatus_Valid :: "string \<Rightarrow> bool" where
  "ModelConnectionSyncStatus_Valid s \<longleftrightarrow> s = ModelConnectionSyncStatusPending \<or> s = ModelConnectionSyncStatusSynced \<or> s = ModelConnectionSyncStatusFailed"

definition ConnectionTestStatus_Valid :: "string \<Rightarrow> bool" where
  "ConnectionTestStatus_Valid s \<longleftrightarrow> s = ConnectionTestStatusUntested \<or> s = ConnectionTestStatusOK \<or> s = ConnectionTestStatusFailed"

definition ExternalToolConnectionKind_Valid :: "string \<Rightarrow> bool" where
  "ExternalToolConnectionKind_Valid s \<longleftrightarrow> s = ExternalToolConnectionKindMCP \<or> s = ExternalToolConnectionKindHTTP"

definition ExternalToolTransport_Valid :: "string \<Rightarrow> bool" where
  "ExternalToolTransport_Valid s \<longleftrightarrow> s = ExternalToolTransportSSE \<or> s = ExternalToolTransportStreamableHTTP \<or> s = ExternalToolTransportHTTP"

definition ExternalToolAuthType_Valid :: "string \<Rightarrow> bool" where
  "ExternalToolAuthType_Valid s \<longleftrightarrow> s = ExternalToolAuthTypeNone \<or> s = ExternalToolAuthTypeBearer \<or> s = ExternalToolAuthTypeAPIKey \<or> s = ExternalToolAuthTypeBasic"

definition ExternalToolConnectionStatus_Valid :: "string \<Rightarrow> bool" where
  "ExternalToolConnectionStatus_Valid s \<longleftrightarrow> s = ExternalToolConnectionStatusActive \<or> s = ExternalToolConnectionStatusDisabled \<or> s = ExternalToolConnectionStatusArchived"

definition AgentLifecycleStatus_Valid :: "string \<Rightarrow> bool" where
  "AgentLifecycleStatus_Valid s \<longleftrightarrow> s = AgentLifecycleStatusActive \<or> s = AgentLifecycleStatusArchived"

definition ConversationStatus_Valid :: "string \<Rightarrow> bool" where
  "ConversationStatus_Valid s \<longleftrightarrow> s = ConversationStatusActive \<or> s = ConversationStatusArchived"

definition ConversationSegmentReason_Valid :: "string \<Rightarrow> bool" where
  "ConversationSegmentReason_Valid s \<longleftrightarrow> s = ConversationSegmentReasonInitial \<or> s = ConversationSegmentReasonContextReset"

definition MessageRole_Valid :: "string \<Rightarrow> bool" where
  "MessageRole_Valid s \<longleftrightarrow> s = MessageRoleUser \<or> s = MessageRoleAssistant \<or> s = MessageRoleSystem \<or> s = MessageRoleTool"

definition ExecutionTriggerType_Valid :: "string \<Rightarrow> bool" where
  "ExecutionTriggerType_Valid s \<longleftrightarrow> s = ExecutionTriggerTypeChat \<or> s = ExecutionTriggerTypeAPI \<or> s = ExecutionTriggerTypeTrial \<or> s = ExecutionTriggerTypeSystem"

definition ExecutionStatus_Valid :: "string \<Rightarrow> bool" where
  "ExecutionStatus_Valid s \<longleftrightarrow> s = ExecutionStatusQueued \<or> s = ExecutionStatusRunning \<or> s = ExecutionStatusCompleted \<or> s = ExecutionStatusFailed \<or> s = ExecutionStatusCancelled"

definition ExecutionStepType_Valid :: "string \<Rightarrow> bool" where
  "ExecutionStepType_Valid s \<longleftrightarrow> s = ExecutionStepTypeLLM \<or> s = ExecutionStepTypeTool \<or> s = ExecutionStepTypeSubAgent \<or> s = ExecutionStepTypeRetrieval"

definition ExecutionStepStatus_Valid :: "string \<Rightarrow> bool" where
  "ExecutionStepStatus_Valid s \<longleftrightarrow> s = ExecutionStepStatusQueued \<or> s = ExecutionStepStatusRunning \<or> s = ExecutionStepStatusCompleted \<or> s = ExecutionStepStatusFailed \<or> s = ExecutionStepStatusCancelled"

definition ConversationFileState_Valid :: "string \<Rightarrow> bool" where
  "ConversationFileState_Valid s \<longleftrightarrow> s = ConversationFileStateDraft \<or> s = ConversationFileStateAttached"

definition MemoryScope_Valid :: "string \<Rightarrow> bool" where
  "MemoryScope_Valid s \<longleftrightarrow> s = MemoryScopeGlobal \<or> s = MemoryScopeAgent \<or> s = MemoryScopeConversation"

definition MemorySource_Valid :: "string \<Rightarrow> bool" where
  "MemorySource_Valid s \<longleftrightarrow> s = MemorySourceManual \<or> s = MemorySourceExtracted"

definition MemoryStatus_Valid :: "string \<Rightarrow> bool" where
  "MemoryStatus_Valid s \<longleftrightarrow> s = MemoryStatusActive \<or> s = MemoryStatusSuperseded"

definition AgentConfirmationStatus_Valid :: "string \<Rightarrow> bool" where
  "AgentConfirmationStatus_Valid s \<longleftrightarrow> s = AgentConfirmationStatusPending \<or> s = AgentConfirmationStatusExecuting \<or> s = AgentConfirmationStatusCompleted \<or> s = AgentConfirmationStatusFailed \<or> s = AgentConfirmationStatusCancelled \<or> s = AgentConfirmationStatusExpired"

section \<open>Life cycles\<close>

definition ExecutionStatus_Terminal :: "string \<Rightarrow> bool" where
  "ExecutionStatus_Terminal s \<longleftrightarrow>
     s = ExecutionStatusCompleted \<or> s = ExecutionStatusFailed \<or> s = ExecutionStatusCancelled"

definition ExecutionStatus_CanTransitionTo :: "string \<Rightarrow> string \<Rightarrow> bool" where
  "ExecutionStatus_CanTransitionTo s nxt =
     (if s = nxt then True
      else if s = ExecutionStatusQueued
      then nxt = ExecutionStatusRunning \<or> nxt = ExecutionStatusFailed \<or> nxt = ExecutionStatusCancelled
      else if s = ExecutionStatusRunning then ExecutionStatus_Terminal nxt
      else False)"

definition ExecutionStepStatus_Terminal :: "string \<Rightarrow> bool" where
  "ExecutionStepStatus_Terminal s \<longleftrightarrow>
     s = ExecutionStepStatusCompleted \<or> s = ExecutionStepStatusFailed \<or> s = ExecutionStepStatusCancelled"

definition AgentConfirmationStatus_Terminal :: "string \<Rightarrow> bool" where
  "AgentConfirmationStatus_Terminal s \<longleftrightarrow>
     s = AgentConfirmationStatusCompleted \<or> s = AgentConfirmationStatusFailed \<or>
     s = AgentConfirmationStatusCancelled \<or> s = AgentConfirmationStatusExpired"

definition AgentConfirmationStatus_CanTransitionTo :: "string \<Rightarrow> string \<Rightarrow> bool" where
  "AgentConfirmationStatus_CanTransitionTo s nxt =
     (if s = nxt then True
      else if s = AgentConfirmationStatusPending
      then nxt = AgentConfirmationStatusExecuting \<or> nxt = AgentConfirmationStatusCancelled \<or>
           nxt = AgentConfirmationStatusExpired
      else if s = AgentConfirmationStatusExecuting
      then nxt = AgentConfirmationStatusPending \<or> nxt = AgentConfirmationStatusCompleted \<or>
           nxt = AgentConfirmationStatusFailed \<or> nxt = AgentConfirmationStatusCancelled \<or>
           nxt = AgentConfirmationStatusExpired
      else False)"

definition ClaimableAt :: "AgentConfirmationRecord \<Rightarrow> int \<Rightarrow> bool" where
  "ClaimableAt c now \<longleftrightarrow> acf_Status c = AgentConfirmationStatusPending \<and> now < acf_ExpiresAt c"

definition ActiveAt :: "Memory \<Rightarrow> int \<Rightarrow> bool" where
  "ActiveAt m now \<longleftrightarrow> mmry_Status m = MemoryStatusActive \<and>
     (case mmry_ExpiresAt m of None \<Rightarrow> True | Some t \<Rightarrow> now < t)"

text \<open>Durations are in nanoseconds; \<open>/\<close> on a positive \<open>int\<close> rounds down.\<close>

definition ModelConnection_TimeoutDuration :: "ModelConnection \<Rightarrow> int" where
  "ModelConnection_TimeoutDuration c = mc_TimeoutMS c * 1000000"

definition ModelConnection_TimeoutSeconds :: "ModelConnection \<Rightarrow> int" where
  "ModelConnection_TimeoutSeconds c = (if mc_TimeoutMS c \<le> 0 then 0 else (mc_TimeoutMS c + 999) div 1000)"

definition AgentRevision_TimeoutDuration :: "AgentRevision \<Rightarrow> int" where
  "AgentRevision_TimeoutDuration r = rev_TimeoutMS r * 1000000"

definition AgentRevision_TimeoutSeconds :: "AgentRevision \<Rightarrow> int" where
  "AgentRevision_TimeoutSeconds r = (if rev_TimeoutMS r \<le> 0 then 0 else (rev_TimeoutMS r + 999) div 1000)"

definition ExecutionStep_TotalTokens :: "ExecutionStep \<Rightarrow> int" where
  "ExecutionStep_TotalTokens s = step_InputTokens s + step_OutputTokens s"

end
