(* ===== verification/Agent_Rules.thy ===== *)
theory Agent_Rules
  imports Agent_Domain
begin

text \<open>
  The checks of the agent rows (\<open>Validate\<close> in \<open>src/internal/domain/agent_v2.go\<close>).  Each check
  appends field errors in the order of the source; a row without field errors is accepted.
\<close>

definition agentV2RequiredError :: "string \<Rightarrow> FieldError" where
  "agentV2RequiredError field =
     \<lparr> fe_Tab = [], fe_Field = field, fe_Code = ''required'', fe_Message = field @ '' is required'' \<rparr>"

definition agentV2Invalid :: "string \<Rightarrow> string \<Rightarrow> FieldError" where
  "agentV2Invalid field message =
     \<lparr> fe_Tab = [], fe_Field = field, fe_Code = ''invalid'', fe_Message = message \<rparr>"

text \<open>What \<open>agentV2Required\<close> appends to the list of errors.\<close>

definition agentV2Required :: "string \<Rightarrow> string \<Rightarrow> FieldError list" where
  "agentV2Required name value = (if TrimSpace value = [] then [agentV2RequiredError name] else [])"

definition agentV2ValidationResult :: "string \<Rightarrow> FieldError list \<Rightarrow> unit res" where
  "agentV2ValidationResult message fs = (if fs = [] then Inr () else Inl (AppErr (ValidationFailed message fs)))"

definition unless :: "bool \<Rightarrow> string \<Rightarrow> string \<Rightarrow> FieldError list" where
  "unless ok field message = (if ok then [] else [agentV2Invalid field message])"

definition agentV2CategoryValid :: "string \<Rightarrow> bool" where
  "agentV2CategoryValid category \<longleftrightarrow> category = AgentCategoryWorkflow \<or> category = AgentCategoryDoc \<or>
     category = AgentCategoryAnalytics \<or> category = AgentCategoryIT"

definition agentV2VisibilityValid :: "string \<Rightarrow> bool" where
  "agentV2VisibilityValid visibility \<longleftrightarrow> visibility = AgentVisibilityAll \<or>
     visibility = AgentVisibilityDepartment \<or> visibility = AgentVisibilityRole"

definition externalToolHTTPMethodValid :: "string \<Rightarrow> bool" where
  "externalToolHTTPMethodValid m \<longleftrightarrow>
     TrimSpace m \<in> set [[], ''GET'', ''POST'', ''PUT'', ''PATCH'', ''DELETE'']"

definition agentV2BindingOwnerValid :: "AgentRevision \<Rightarrow> string \<Rightarrow> string \<Rightarrow> bool" where
  "agentV2BindingOwnerValid revision tenantID revisionID \<longleftrightarrow>
     tenantID = rev_TenantID revision \<and> revisionID = rev_ID revision"

section \<open>Runes\<close>

text \<open>
  How many bytes \<open>utf8.DecodeRune\<close> takes: the length of a well-formed sequence, one byte for
  anything else.
\<close>

definition in_bytes :: "nat \<Rightarrow> nat \<Rightarrow> char \<Rightarrow> bool" where
  "in_bytes lo hi c \<longleftrightarrow> lo \<le> of_char c \<and> of_char c \<le> hi"

fun all_bytes :: "(nat \<times> nat) list \<Rightarrow> string \<Rightarrow> bool" where
  "all_bytes [] s = True"
| "all_bytes ((lo, hi) # rs) [] = False"
| "all_bytes ((lo, hi) # rs) (c # s) \<longleftrightarrow> in_bytes lo hi c \<and> all_bytes rs s"

definition rune_forms :: "(nat \<times> nat) list list" where
  "rune_forms =
     [[(0xC2, 0xDF), (0x80, 0xBF)],
      [(0xE0, 0xE0), (0xA0, 0xBF), (0x80, 0xBF)],
      [(0xE1, 0xEC), (0x80, 0xBF), (0x80, 0xBF)],
      [(0xED, 0xED), (0x80, 0x9F), (0x80, 0xBF)],
      [(0xEE, 0xEF), (0x80, 0xBF), (0x80, 0xBF)],
      [(0xF0, 0xF0), (0x90, 0xBF), (0x80, 0xBF), (0x80, 0xBF)],
      [(0xF1, 0xF3), (0x80, 0xBF), (0x80, 0xBF), (0x80, 0xBF)],
      [(0xF4, 0xF4), (0x80, 0x8F), (0x80, 0xBF), (0x80, 0xBF)]]"

definition rune_width :: "string \<Rightarrow> nat" where
  "rune_width s = (case find (\<lambda>form. all_bytes form s) rune_forms of Some form \<Rightarrow> length form | None \<Rightarrow> 1)"

text \<open>\<open>len([]rune(s))\<close>\<close>

fun rune_count :: "nat \<Rightarrow> string \<Rightarrow> nat" where
  "rune_count skip [] = 0"
| "rune_count (Suc skip) (c # s) = rune_count skip s"
| "rune_count 0 (c # s) = Suc (rune_count (rune_width (c # s) - 1) s)"

abbreviation runes_in :: "string \<Rightarrow> nat" where "runes_in \<equiv> rune_count 0"

section \<open>Models and tools\<close>

text \<open>A row is archived exactly when it carries the time of it.\<close>

definition archive_checks :: "bool \<Rightarrow> bool \<Rightarrow> string \<Rightarrow> int option \<Rightarrow> string \<Rightarrow> FieldError list" where
  "archive_checks valid archived message archivedAt what =
     (if \<not> valid then [agentV2Invalid ''status'' message]
      else if archived \<and> archivedAt = None then [agentV2RequiredError ''archived_at'']
      else if \<not> archived \<and> archivedAt \<noteq> None
      then [agentV2Invalid ''archived_at'' (''archived_at is only valid for an archived '' @ what)]
      else [])"

definition ModelConnection_Validate :: "ModelConnection \<Rightarrow> unit res" where
  "ModelConnection_Validate c = agentV2ValidationResult ''model connection is invalid'' (concat [
     agentV2Required ''id'' (mc_ID c), agentV2Required ''tenant_id'' (mc_TenantID c),
     agentV2Required ''name'' (mc_Name c), agentV2Required ''provider'' (mc_Provider c),
     agentV2Required ''upstream_model'' (mc_UpstreamModel c),
     unless (mc_RateLimitRPM c \<ge> 0) ''rate_limit_rpm'' ''rate_limit_rpm cannot be negative'',
     unless (mc_TimeoutMS c > 0) ''timeout_ms'' ''timeout_ms must be greater than zero'',
     archive_checks (ModelConnectionStatus_Valid (mc_Status c)) (mc_Status c = ModelConnectionStatusArchived)
       ''status must be active, disabled, or archived'' (mc_ArchivedAt c) ''connection''])"

definition ModelConnectionState_Validate :: "ModelConnectionState \<Rightarrow> unit res" where
  "ModelConnectionState_Validate s = agentV2ValidationResult ''model connection state is invalid'' (concat [
     agentV2Required ''tenant_id'' (mcs_TenantID s), agentV2Required ''model_connection_id'' (mcs_ModelConnectionID s),
     unless (ModelConnectionSyncStatus_Valid (mcs_SyncStatus s)) ''sync_status'' ''sync_status must be pending, synced, or failed'',
     unless (ConnectionTestStatus_Valid (mcs_LastTestStatus s)) ''last_test_status'' ''last_test_status must be untested, ok, or failed''])"

definition ExternalToolConnection_Validate :: "ExternalToolConnection \<Rightarrow> unit res" where
  "ExternalToolConnection_Validate c = agentV2ValidationResult ''external tool connection is invalid'' (concat [
     agentV2Required ''id'' (etc_ID c), agentV2Required ''tenant_id'' (etc_TenantID c),
     agentV2Required ''name'' (etc_Name c), agentV2Required ''endpoint_url'' (etc_EndpointURL c),
     unless (ExternalToolConnectionKind_Valid (etc_Kind c)) ''kind'' ''kind must be mcp or http'',
     (if \<not> ExternalToolTransport_Valid (etc_Transport c)
      then [agentV2Invalid ''transport'' ''transport must be sse, streamable_http, or http'']
      else if etc_Kind c = ExternalToolConnectionKindMCP \<and> etc_Transport c = ExternalToolTransportHTTP \<or>
              etc_Kind c = ExternalToolConnectionKindHTTP \<and> etc_Transport c \<noteq> ExternalToolTransportHTTP
      then [agentV2Invalid ''transport'' ''transport is not valid for the selected connection kind'']
      else []),
     (if \<not> ExternalToolAuthType_Valid (etc_AuthType c)
      then [agentV2Invalid ''auth_type'' ''auth_type must be none, bearer, api_key, or basic'']
      else if etc_AuthType c \<noteq> ExternalToolAuthTypeNone \<and> TrimSpace (etc_AuthSecretCiphertext c) = []
      then [agentV2RequiredError ''auth_secret_ciphertext'']
      else []),
     unless (1000 \<le> etc_TimeoutMS c \<and> etc_TimeoutMS c \<le> 120000) ''timeout_ms'' ''timeout_ms must be between 1000 and 120000'',
     (if etc_AuthType c = ExternalToolAuthTypeAPIKey \<and> TrimSpace (etc_AuthHeaderName c) = []
      then [agentV2RequiredError ''auth_header_name''] else []),
     archive_checks (ExternalToolConnectionStatus_Valid (etc_Status c)) (etc_Status c = ExternalToolConnectionStatusArchived)
       ''status must be active, disabled, or archived'' (etc_ArchivedAt c) ''connection'',
     unless (ConnectionTestStatus_Valid (etc_LastTestStatus c)) ''last_test_status'' ''last_test_status must be untested, ok, or failed''])"

definition ExternalToolCapability_Validate :: "ExternalToolCapability \<Rightarrow> unit res" where
  "ExternalToolCapability_Validate c = agentV2ValidationResult ''external tool capability is invalid'' (concat [
     agentV2Required ''id'' (cap_ID c), agentV2Required ''tenant_id'' (cap_TenantID c),
     agentV2Required ''connection_id'' (cap_ConnectionID c), agentV2Required ''tool_name'' (cap_ToolName c),
     unless (externalToolHTTPMethodValid (cap_HTTPMethod c)) ''http_method'' ''http_method must be empty, GET, POST, PUT, PATCH, or DELETE''])"

section \<open>Agents and their revisions\<close>

definition Agent_Validate :: "Agent \<Rightarrow> unit res" where
  "Agent_Validate a = agentV2ValidationResult ''agent identity is invalid'' (concat [
     agentV2Required ''id'' (ag_ID a), agentV2Required ''tenant_id'' (ag_TenantID a),
     unless (ag_ParentAgentID a \<noteq> ag_ID a) ''parent_agent_id'' ''an agent cannot be its own parent'',
     unless (ag_NextRevisionNo a > 0) ''next_revision_no'' ''next_revision_no must be greater than zero'',
     (if \<not> AgentLifecycleStatus_Valid (ag_LifecycleStatus a)
      then [agentV2Invalid ''lifecycle_status'' ''lifecycle_status must be active or archived'']
      else archive_checks True (ag_LifecycleStatus a = AgentLifecycleStatusArchived) [] (ag_ArchivedAt a) ''agent'')])"

definition MaxAgentSuggestedQuestions :: nat where "MaxAgentSuggestedQuestions = 10"
definition MaxAgentSuggestedQuestionCharacters :: nat where "MaxAgentSuggestedQuestionCharacters = 100"

definition AgentRevision_Validate :: "AgentRevision \<Rightarrow> unit res" where
  "AgentRevision_Validate r = agentV2ValidationResult ''agent revision is invalid'' (concat [
     agentV2Required ''id'' (rev_ID r), agentV2Required ''tenant_id'' (rev_TenantID r),
     agentV2Required ''agent_id'' (rev_AgentID r), agentV2Required ''name'' (rev_Name r),
     agentV2Required ''model_connection_id'' (rev_ModelConnectionID r), agentV2Required ''checksum'' (rev_Checksum r),
     unless (rev_RevisionNo r > 0) ''revision_no'' ''revision_no must be greater than zero'',
     unless (case rev_Ordinal r of None \<Rightarrow> True | Some n \<Rightarrow> n \<ge> 0) ''ordinal'' ''ordinal must not be negative'',
     unless (agentV2CategoryValid (rev_Category r)) ''category'' ''category must be workflow, doc, analytics, or it'',
     (if \<not> agentV2VisibilityValid (rev_Visibility r)
      then [agentV2Invalid ''visibility'' ''visibility must be all, department, or role'']
      else if rev_Visibility r \<noteq> AgentVisibilityAll \<and> rev_VisibilityTargets r = []
      then [agentV2RequiredError ''visibility_targets'']
      else []),
     unless (rev_TimeoutMS r > 0) ''timeout_ms'' ''timeout_ms must be greater than zero'',
     unless (rev_ConfigSchemaVersion r > 0) ''config_schema_version'' ''config_schema_version must be greater than zero'',
     unless (length (rev_SuggestedQuestions r) \<le> MaxAgentSuggestedQuestions) ''suggested_questions'' ''too many suggested questions'',
     unless (list_all (\<lambda>q. runes_in (TrimSpace q) \<le> MaxAgentSuggestedQuestionCharacters) (rev_SuggestedQuestions r))
       ''suggested_questions'' ''a suggested question exceeds the maximum length''])"

definition AgentRevisionSnapshot_Validate :: "AgentRevisionSnapshot \<Rightarrow> unit res" where
  "AgentRevisionSnapshot_Validate s =
     (let revision = rsn_Revision s in
      bindR (AgentRevision_Validate revision) (\<lambda>_.
      agentV2ValidationResult ''agent revision snapshot is invalid'' (concat [
        unless (list_all (\<lambda>b. agentV2BindingOwnerValid revision (rbt_TenantID b) (rbt_RevisionID b) \<and>
                           TrimSpace (rbt_ToolKey b) \<noteq> [] \<and> rbt_Ordinal b \<ge> 0) (rsn_BuiltinTools s))
          ''builtin_tools'' ''one or more built-in tool bindings are invalid'',
        unless (list_all (\<lambda>b. agentV2BindingOwnerValid revision (ret_TenantID b) (ret_RevisionID b) \<and>
                           TrimSpace (ret_ExternalToolID b) \<noteq> [] \<and> ret_Ordinal b \<ge> 0) (rsn_ExternalTools s))
          ''external_tools'' ''one or more external tool bindings are invalid'',
        unless (list_all (\<lambda>b. agentV2BindingOwnerValid revision (rkb_TenantID b) (rkb_RevisionID b) \<and>
                           TrimSpace (rkb_KnowledgeBaseID b) \<noteq> [] \<and> rkb_Ordinal b \<ge> 0) (rsn_KnowledgeBases s))
          ''knowledge_bases'' ''one or more knowledge-base bindings are invalid''])))"

section \<open>Conversations, executions, memories and confirmations\<close>

definition Conversation_Validate :: "Conversation \<Rightarrow> unit res" where
  "Conversation_Validate c = agentV2ValidationResult ''conversation is invalid'' (concat [
     agentV2Required ''id'' (conv_ID c), agentV2Required ''tenant_id'' (conv_TenantID c),
     agentV2Required ''owner_account_id'' (conv_OwnerAccountID c),
     unless (conv_NextMessageSequence c > 0) ''next_message_sequence'' ''next_message_sequence must be greater than zero'',
     archive_checks (ConversationStatus_Valid (conv_Status c)) (conv_Status c = ConversationStatusArchived)
       ''status must be active or archived'' (conv_ArchivedAt c) ''conversation''])"

definition Execution_Validate :: "Execution \<Rightarrow> unit res" where
  "Execution_Validate e = agentV2ValidationResult ''execution is invalid'' (concat [
     agentV2Required ''id'' (exe_ID e), agentV2Required ''tenant_id'' (exe_TenantID e),
     agentV2Required ''account_id'' (exe_AccountID e), agentV2Required ''conversation_id'' (exe_ConversationID e),
     agentV2Required ''segment_id'' (exe_SegmentID e), agentV2Required ''input_message_id'' (exe_InputMessageID e),
     unless (ExecutionTriggerType_Valid (exe_TriggerType e)) ''trigger_type'' ''trigger_type must be chat, api, trial, or system'',
     unless (ExecutionStatus_Valid (exe_Status e)) ''status'' ''execution status is invalid'',
     (let agentBindingCount = length (filter (\<lambda>v. TrimSpace v \<noteq> [])
            [exe_AgentID e, exe_AgentRevisionID e, exe_ModelConnectionID e])
      in unless (agentBindingCount = 0 \<or> agentBindingCount = 3) ''agent_id''
           ''agent_id, agent_revision_id, and model_connection_id must be set together''),
     (if exe_LLMCallCount e < 0 \<or> exe_InputTokens e < 0 \<or> exe_CachedTokens e < 0 \<or> exe_OutputTokens e < 0 \<or> exe_TotalTokens e < 0
      then [agentV2Invalid ''usage'' ''execution usage cannot be negative'']
      else if exe_CachedTokens e > exe_InputTokens e
      then [agentV2Invalid ''cached_tokens'' ''cached_tokens cannot exceed input_tokens'']
      else []),
     (if exe_Status e = ExecutionStatusQueued
      then unless (exe_StartedAt e = None \<and> exe_CompletedAt e = None) ''timestamps''
             ''queued execution cannot have started_at or completed_at''
      else if exe_Status e = ExecutionStatusRunning
      then unless (exe_StartedAt e \<noteq> None \<and> exe_CompletedAt e = None) ''timestamps''
             ''running execution requires started_at and no completed_at''
      else if ExecutionStatus_Terminal (exe_Status e)
      then (if exe_CompletedAt e = None then [agentV2RequiredError ''completed_at''] else [])
      else [])])"

definition Memory_Validate :: "Memory \<Rightarrow> unit res" where
  "Memory_Validate m = agentV2ValidationResult ''memory is invalid'' (concat [
     agentV2Required ''id'' (mmry_ID m), agentV2Required ''tenant_id'' (mmry_TenantID m),
     agentV2Required ''account_id'' (mmry_AccountID m), agentV2Required ''key'' (mmry_Key m),
     (if \<not> MemoryScope_Valid (mmry_ScopeType m)
      then [agentV2Invalid ''scope_type'' ''scope_type must be global, agent, or conversation'']
      else if mmry_ScopeType m = MemoryScopeGlobal
      then unless (mmry_AgentID m = [] \<and> mmry_ConversationID m = [] \<and> mmry_SegmentID m = []) ''scope_type''
             ''global memory cannot reference an agent, conversation, or segment''
      else if mmry_ScopeType m = MemoryScopeAgent
      then (if TrimSpace (mmry_AgentID m) = [] then [agentV2RequiredError ''agent_id''] else []) @
           unless (mmry_ConversationID m = [] \<and> mmry_SegmentID m = []) ''scope_type''
             ''agent memory cannot reference a conversation or segment''
      else unless (TrimSpace (mmry_ConversationID m) \<noteq> [] \<and> TrimSpace (mmry_SegmentID m) \<noteq> []) ''scope_type''
             ''conversation memory requires conversation_id and segment_id'' @
           unless (mmry_AgentID m = []) ''agent_id'' ''conversation memory cannot reference agent_id''),
     unless (MemorySource_Valid (mmry_SourceType m)) ''source_type'' ''source_type must be manual or extracted'',
     unless (MemoryStatus_Valid (mmry_Status m)) ''status'' ''status must be active or superseded'',
     unless (0 \<le> mmry_Confidence m \<and> mmry_Confidence m \<le> 1) ''confidence'' ''confidence must be between 0 and 1'',
     unless (1 \<le> mmry_Importance m \<and> mmry_Importance m \<le> 5) ''importance'' ''importance must be between 1 and 5''])"

definition AgentConfirmationRecord_Validate :: "AgentConfirmationRecord \<Rightarrow> unit res" where
  "AgentConfirmationRecord_Validate c = agentV2ValidationResult ''agent confirmation is invalid'' (concat [
     agentV2Required ''id'' (acf_ID c), agentV2Required ''tenant_id'' (acf_TenantID c),
     agentV2Required ''account_id'' (acf_AccountID c), agentV2Required ''conversation_id'' (acf_ConversationID c),
     agentV2Required ''segment_id'' (acf_SegmentID c), agentV2Required ''kind'' (acf_Kind c),
     agentV2Required ''title'' (acf_Title c), agentV2Required ''action'' (acf_Action c),
     unless (AgentConfirmationStatus_Valid (acf_Status c)) ''status'' ''confirmation status is invalid'',
     (if acf_ExpiresAt c = 0 then [agentV2RequiredError ''expires_at''] else [])])"

end
