(* ===== verification/Agent_Store.thy ===== *)
theory Agent_Store
  imports Agent_Domain App_State
begin

text \<open>
  The agent tables of the in-memory repository (\<open>src/internal/repository/memory/store.go\<close>): runs,
  models, external tools with their capabilities, agent definitions and their versions, execution steps,
  confirmations, sessions with their messages and files, memories, and the usage reports over them.
  The copies the repository makes of its rows are values here.  \<open>time.Now\<close> is an argument.
\<close>

record agent_store =
  ags_runs :: "AgentRun table"
  ags_models :: "AgentModel table"
  ags_externalTools :: "AgentExternalTool table"
  ags_definitions :: "AgentDefinition table"
  ags_definitionVersions :: "AgentDefinitionVersion table"
  ags_revisionExternalTools :: "AgentRevisionExternalTool list table"
  ags_executionSteps :: "ExecutionStep table"
  ags_confirmations :: "AgentConfirmationRecord table"
  ags_sessions :: "AgentSession table"
  ags_sessionMessages :: "AgentSessionMessage table"
  ags_sessionFiles :: "AgentSessionFile table"
  ags_fileChunks :: "string list table"
  ags_memories :: "AgentMemory table"

definition empty_agents :: agent_store where
  "empty_agents = \<lparr> ags_runs = [], ags_models = [], ags_externalTools = [], ags_definitions = [],
     ags_definitionVersions = [], ags_revisionExternalTools = [], ags_executionSteps = [], ags_confirmations = [],
     ags_sessions = [], ags_sessionMessages = [], ags_sessionFiles = [], ags_fileChunks = [], ags_memories = [] \<rparr>"

text \<open>The update of one row, and the removal of the rows that satisfy a condition.\<close>

definition update_row :: "'a table \<Rightarrow> string \<Rightarrow> string \<Rightarrow> ('a \<Rightarrow> 'a) \<Rightarrow> 'a table \<times> 'a option" where
  "update_row t tenantID ident f =
     (case getNested t tenantID ident of
        None \<Rightarrow> (t, None)
      | Some v \<Rightarrow> (putNested t tenantID ident (f v), Some (f v)))"

definition remove_row :: "'a table \<Rightarrow> string \<Rightarrow> string \<Rightarrow> 'a table \<times> 'a option" where
  "remove_row t tenantID ident =
     (case getNested t tenantID ident of
        None \<Rightarrow> (t, None)
      | Some v \<Rightarrow> (deleteNested t tenantID ident, Some v))"

definition remove_where :: "(string \<times> 'a \<Rightarrow> bool) \<Rightarrow> 'a table \<Rightarrow> string \<Rightarrow> 'a table" where
  "remove_where p t tenantID =
     fold (\<lambda>(k, v) t. if p (k, v) then deleteNested t tenantID k else t) (bucket t tenantID) t"

section \<open>Runs\<close>

definition UpsertAgentRun :: "agent_store \<Rightarrow> AgentRun \<Rightarrow> agent_store" where
  "UpsertAgentRun s v = s\<lparr>ags_runs := putNested (ags_runs s) (arun_TenantID v) (arun_ID v) v\<rparr>"

definition ListAgentRuns :: "agent_store \<Rightarrow> string \<Rightarrow> AgentRun list" where
  "ListAgentRuns s tenantID = sort_less (\<lambda>a b. arun_CreatedAt a < arun_CreatedAt b) (rows (ags_runs s) tenantID)"

definition ListAgentRunsByAccount :: "agent_store \<Rightarrow> string \<Rightarrow> string \<Rightarrow> AgentRun list" where
  "ListAgentRunsByAccount s tenantID accountID =
     sort_less (\<lambda>a b. if arun_CreatedAt a = arun_CreatedAt b then arun_ID a < arun_ID b
                      else arun_CreatedAt a > arun_CreatedAt b)
       (filter (\<lambda>item. arun_AccountID item = accountID) (ListAgentRuns s tenantID))"

definition agent_run_page :: "AgentRun list \<Rightarrow> PageRequest \<Rightarrow> AgentRun list option \<times> int" where
  "agent_run_page items page =
     (let items = sort_less (\<lambda>a b. if pr_Sort page = ''created_at_asc'' then arun_CreatedAt a < arun_CreatedAt b
                                   else arun_CreatedAt a > arun_CreatedAt b) items;
          page = NormalizePageRequest page
      in (paginateMemory items (pr_Page page) (pr_PageSize page), int (length items)))"

definition ListAgentRunPage :: "agent_store \<Rightarrow> string \<Rightarrow> PageRequest \<Rightarrow> AgentRun list option \<times> int" where
  "ListAgentRunPage s tenantID page = agent_run_page (ListAgentRuns s tenantID) page"

definition ListAgentRunPageByAccount :: "agent_store \<Rightarrow> string \<Rightarrow> string \<Rightarrow> PageRequest \<Rightarrow> AgentRun list option \<times> int" where
  "ListAgentRunPageByAccount s tenantID accountID page = agent_run_page (ListAgentRunsByAccount s tenantID accountID) page"

definition run_active :: "AgentRun \<Rightarrow> bool" where
  "run_active r \<longleftrightarrow> arun_Status r = AgentRunStatusQueued \<or> arun_Status r = AgentRunStatusRunning"

definition failed_run :: "int \<Rightarrow> string \<Rightarrow> AgentRun \<Rightarrow> AgentRun" where
  "failed_run failedAt reason r =
     r\<lparr>arun_Status := AgentRunStatusFailed,
       arun_Answer := (if TrimSpace (arun_Answer r) = [] then reason else arun_Answer r),
       arun_UpdatedAt := failedAt\<rparr>"

definition stale_run :: "string \<Rightarrow> int \<Rightarrow> AgentRun \<Rightarrow> bool" where
  "stale_run sessionID staleBefore r \<longleftrightarrow>
     arun_SessionID r = sessionID \<and> arun_UpdatedAt r < staleBefore \<and> run_active r"

definition FailStaleAgentRunsBySession ::
    "agent_store \<Rightarrow> string \<Rightarrow> string \<Rightarrow> int \<Rightarrow> int \<Rightarrow> string \<Rightarrow> agent_store \<times> int" where
  "FailStaleAgentRunsBySession s tenantID sessionID staleBefore failedAt reason =
     (let stale = filter (\<lambda>(k, r). stale_run sessionID staleBefore r) (bucket (ags_runs s) tenantID)
      in (s\<lparr>ags_runs := fold (\<lambda>(k, r) t. putNested t tenantID k (failed_run failedAt reason r)) stale (ags_runs s)\<rparr>,
          int (length stale)))"

definition CountActiveAgentRunsBySession :: "agent_store \<Rightarrow> string \<Rightarrow> string \<Rightarrow> int" where
  "CountActiveAgentRunsBySession s tenantID sessionID =
     int (length (filter (\<lambda>r. arun_SessionID r = sessionID \<and> run_active r) (rows (ags_runs s) tenantID)))"

section \<open>Models\<close>

definition UpsertAgentModel :: "agent_store \<Rightarrow> AgentModel \<Rightarrow> agent_store" where
  "UpsertAgentModel s v = s\<lparr>ags_models := putNested (ags_models s) (am_TenantID v) (am_ID v) v\<rparr>"

definition GetAgentModel :: "agent_store \<Rightarrow> string \<Rightarrow> string \<Rightarrow> AgentModel option" where
  "GetAgentModel s tenantID ident = getNested (ags_models s) tenantID ident"

definition ListAgentModels :: "agent_store \<Rightarrow> string \<Rightarrow> AgentModel list" where
  "ListAgentModels s tenantID =
     sort_less (\<lambda>a b. if am_UpdatedAt a = am_UpdatedAt b then am_ID a < am_ID b else am_UpdatedAt a > am_UpdatedAt b)
       (rows (ags_models s) tenantID)"

definition DeleteAgentModel :: "agent_store \<Rightarrow> string \<Rightarrow> string \<Rightarrow> agent_store \<times> AgentModel option" where
  "DeleteAgentModel s tenantID ident =
     (case remove_row (ags_models s) tenantID ident of (t, v) \<Rightarrow> (s\<lparr>ags_models := t\<rparr>, v))"

definition UpdateAgentModelTestResult ::
    "agent_store \<Rightarrow> string \<Rightarrow> string \<Rightarrow> string \<Rightarrow> string \<Rightarrow> int \<Rightarrow> agent_store \<times> AgentModel option" where
  "UpdateAgentModelTestResult s tenantID ident status message testedAt =
     (case update_row (ags_models s) tenantID ident (\<lambda>v. v\<lparr>am_LastTestedAt := Some testedAt,
             am_LastTestStatus := status, am_LastTestMessage := message, am_UpdatedAt := testedAt\<rparr>) of
        (t, v) \<Rightarrow> (s\<lparr>ags_models := t\<rparr>, v))"

definition UpdateAgentModelSyncResult ::
    "agent_store \<Rightarrow> string \<Rightarrow> string \<Rightarrow> string \<Rightarrow> string \<Rightarrow> string \<Rightarrow> int option \<Rightarrow> int \<Rightarrow>
     agent_store \<times> AgentModel option" where
  "UpdateAgentModelSyncResult s tenantID ident status lastError configHash syncedAt updatedAt =
     (case update_row (ags_models s) tenantID ident (\<lambda>v. v\<lparr>am_SyncStatus := status, am_LastSyncError := lastError,
             am_SyncedConfigHash := configHash, am_LastSyncedAt := syncedAt, am_UpdatedAt := updatedAt\<rparr>) of
        (t, v) \<Rightarrow> (s\<lparr>ags_models := t\<rparr>, v))"

definition ListAgentDefinitionRefsByModel :: "agent_store \<Rightarrow> string \<Rightarrow> string \<Rightarrow> AgentDefinitionRef list" where
  "ListAgentDefinitionRefsByModel s tenantID modelID =
     map (\<lambda>item. \<lparr> adr_ID = adn_ID item, adr_Name = adn_Name item \<rparr>)
       (filter (\<lambda>item. adn_ModelID item = modelID \<or> list_ex (\<lambda>m. atm_ModelID m = modelID) (adn_SubAgents item))
         (rows (ags_definitions s) tenantID))"

section \<open>External tools\<close>

definition InsertAgentExternalTool :: "agent_store \<Rightarrow> AgentExternalTool \<Rightarrow> agent_store" where
  "InsertAgentExternalTool s item =
     s\<lparr>ags_externalTools := putNested (ags_externalTools s) (aet_TenantID item) (aet_ID item) item\<rparr>"

definition GetAgentExternalTool :: "agent_store \<Rightarrow> string \<Rightarrow> string \<Rightarrow> AgentExternalTool option" where
  "GetAgentExternalTool s tenantID ident = getNested (ags_externalTools s) tenantID ident"

definition ListAgentExternalTools :: "agent_store \<Rightarrow> string \<Rightarrow> AgentExternalTool list" where
  "ListAgentExternalTools s tenantID =
     sort_less (\<lambda>a b. if aet_CreatedAt a = aet_CreatedAt b then aet_ID a < aet_ID b else aet_CreatedAt a > aet_CreatedAt b)
       (rows (ags_externalTools s) tenantID)"

definition archived_tool :: "int \<Rightarrow> AgentExternalTool \<Rightarrow> AgentExternalTool" where
  "archived_tool now item = item\<lparr>aet_Status := ExternalToolConnectionStatusArchived, aet_ArchivedAt := Some now,
     aet_UpdatedAt := now, aet_Capabilities := map (\<lambda>c. c\<lparr>cap_Enabled := False, cap_ArchivedAt := Some now,
       cap_UpdatedAt := now\<rparr>) (aet_Capabilities item)\<rparr>"

definition DeleteAgentExternalTool :: "int \<Rightarrow> agent_store \<Rightarrow> string \<Rightarrow> string \<Rightarrow> agent_store \<times> AgentExternalTool option" where
  "DeleteAgentExternalTool now s tenantID ident =
     (case update_row (ags_externalTools s) tenantID ident (archived_tool now) of
        (t, v) \<Rightarrow> (s\<lparr>ags_externalTools := t\<rparr>, v))"

definition ReplaceAgentExternalToolCapabilities ::
    "agent_store \<Rightarrow> string \<Rightarrow> string \<Rightarrow> ExternalToolCapability list \<Rightarrow> agent_store" where
  "ReplaceAgentExternalToolCapabilities s tenantID ident capabilities =
     s\<lparr>ags_externalTools := fst (update_row (ags_externalTools s) tenantID ident
         (\<lambda>item. item\<lparr>aet_Capabilities := capabilities\<rparr>))\<rparr>"

definition UpdateAgentExternalToolTestResult ::
    "agent_store \<Rightarrow> string \<Rightarrow> string \<Rightarrow> string \<Rightarrow> string \<Rightarrow> int \<Rightarrow> agent_store \<times> AgentExternalTool option" where
  "UpdateAgentExternalToolTestResult s tenantID ident status message testedAt =
     (case update_row (ags_externalTools s) tenantID ident (\<lambda>item. item\<lparr>aet_LastTestedAt := Some testedAt,
             aet_LastTestStatus := status, aet_LastTestMessage := message, aet_UpdatedAt := testedAt\<rparr>) of
        (t, v) \<Rightarrow> (s\<lparr>ags_externalTools := t\<rparr>, v))"

definition capability_usable :: "ExternalToolCapability \<Rightarrow> bool" where
  "capability_usable c \<longleftrightarrow> cap_Enabled c \<and> cap_ArchivedAt c = None"

definition active_capabilities :: "AgentExternalTool \<Rightarrow> ExternalToolCapability list" where
  "active_capabilities connection =
     (if aet_Status connection \<noteq> ExternalToolConnectionStatusActive then []
      else filter capability_usable (aet_Capabilities connection))"

definition capability_less :: "ExternalToolCapability \<Rightarrow> ExternalToolCapability \<Rightarrow> bool" where
  "capability_less a b =
     (if cap_ToolName a = cap_ToolName b then cap_ID a < cap_ID b else cap_ToolName a < cap_ToolName b)"

definition agentExternalToolCapabilityLocked :: "agent_store \<Rightarrow> string \<Rightarrow> string \<Rightarrow> ExternalToolCapability option" where
  "agentExternalToolCapabilityLocked s tenantID capabilityID =
     find (\<lambda>c. cap_ID c = capabilityID) (concat (map active_capabilities (rows (ags_externalTools s) tenantID)))"

definition GetAgentExternalToolCapability :: "agent_store \<Rightarrow> string \<Rightarrow> string \<Rightarrow> ExternalToolCapability option" where
  "GetAgentExternalToolCapability s tenantID capabilityID = agentExternalToolCapabilityLocked s tenantID capabilityID"

definition ListAgentExternalToolCapabilities :: "agent_store \<Rightarrow> string \<Rightarrow> string \<Rightarrow> ExternalToolCapability list" where
  "ListAgentExternalToolCapabilities s tenantID connectionID =
     (case getNested (ags_externalTools s) tenantID connectionID of
        None \<Rightarrow> []
      | Some connection \<Rightarrow> sort_less capability_less (active_capabilities connection))"

definition ListAgentExternalToolCapabilitiesByIDs ::
    "agent_store \<Rightarrow> string \<Rightarrow> string list \<Rightarrow> ExternalToolCapability list" where
  "ListAgentExternalToolCapabilitiesByIDs s tenantID capabilityIDs =
     sort_less capability_less (filter (\<lambda>c. cap_ID c \<in> set capabilityIDs)
       (concat (map active_capabilities (rows (ags_externalTools s) tenantID))))"

section \<open>Agent definitions\<close>

definition UpsertAgentDefinition :: "agent_store \<Rightarrow> AgentDefinition \<Rightarrow> agent_store" where
  "UpsertAgentDefinition s v = s\<lparr>ags_definitions := putNested (ags_definitions s) (adn_TenantID v) (adn_ID v) v\<rparr>"

text \<open>A writer holds the revision it read; a claim with another revision fails (\<open>None\<close>).\<close>

definition ClaimAgentDefinitionRevision ::
    "agent_store \<Rightarrow> string \<Rightarrow> string \<Rightarrow> int \<Rightarrow> bool \<Rightarrow> agent_store \<times> int option" where
  "ClaimAgentDefinitionRevision s tenantID ident expectedVersion createRevision =
     (case getNested (ags_definitions s) tenantID ident of
        None \<Rightarrow> (s, None)
      | Some current \<Rightarrow>
          if adn_Version current \<noteq> expectedVersion then (s, None)
          else if createRevision
          then (s\<lparr>ags_definitions := putNested (ags_definitions s) tenantID ident
                    (current\<lparr>adn_Version := adn_Version current + 1\<rparr>)\<rparr>, Some (adn_Version current + 1))
          else (s, Some (adn_Version current)))"

definition GetAgentDefinition :: "agent_store \<Rightarrow> string \<Rightarrow> string \<Rightarrow> AgentDefinition option" where
  "GetAgentDefinition s tenantID ident = getNested (ags_definitions s) tenantID ident"

definition sortAgentDefinitions :: "AgentDefinition list \<Rightarrow> AgentDefinition list" where
  "sortAgentDefinitions =
     sort_less (\<lambda>a b. if adn_Status a \<noteq> adn_Status b then adn_Status a < adn_Status b
                      else if adn_UpdatedAt a = adn_UpdatedAt b then adn_ID a < adn_ID b
                      else adn_UpdatedAt a > adn_UpdatedAt b)"

definition ListAgentDefinitions :: "agent_store \<Rightarrow> string \<Rightarrow> AgentDefinition list" where
  "ListAgentDefinitions s tenantID = sortAgentDefinitions (rows (ags_definitions s) tenantID)"

definition ListPublishedAgentDefinitions :: "agent_store \<Rightarrow> string \<Rightarrow> AgentDefinition list" where
  "ListPublishedAgentDefinitions s tenantID =
     filter (\<lambda>item. adn_Status item = AgentDefinitionStatusPublished) (ListAgentDefinitions s tenantID)"

definition DeleteAgentDefinition :: "agent_store \<Rightarrow> string \<Rightarrow> string \<Rightarrow> agent_store \<times> AgentDefinition option" where
  "DeleteAgentDefinition s tenantID ident =
     (case remove_row (ags_definitions s) tenantID ident of (t, v) \<Rightarrow> (s\<lparr>ags_definitions := t\<rparr>, v))"

text \<open>Integer division of Go truncates towards zero.\<close>

definition go_div :: "int \<Rightarrow> int \<Rightarrow> int" where
  "go_div a b = sgn a * sgn b * (\<bar>a\<bar> div \<bar>b\<bar>)"

definition counted_usage :: "bool \<Rightarrow> int \<Rightarrow> string \<Rightarrow> int \<Rightarrow> AgentUsageStats \<Rightarrow> AgentUsageStats" where
  "counted_usage success latencyMs prompt runAt u =
     (let totalBefore = aus_TotalRuns u;
          u = u\<lparr>aus_TotalRuns := totalBefore + 1\<rparr>;
          u = (if success then u\<lparr>aus_SuccessRuns := aus_SuccessRuns u + 1\<rparr>
               else u\<lparr>aus_FailedRuns := aus_FailedRuns u + 1\<rparr>);
          u = (if latencyMs > 0
               then u\<lparr>aus_AvgLatencyMs := go_div (aus_AvgLatencyMs u * totalBefore + latencyMs) (aus_TotalRuns u)\<rparr> else u);
          u = u\<lparr>aus_LastRunAt := Some runAt\<rparr>;
          prompt = TrimSpace prompt
      in if prompt \<noteq> [] then u\<lparr>aus_TopPrompts := take 5 (prompt # aus_TopPrompts u)\<rparr> else u)"

definition UpdateAgentDefinitionUsage ::
    "agent_store \<Rightarrow> string \<Rightarrow> string \<Rightarrow> bool \<Rightarrow> int \<Rightarrow> string \<Rightarrow> int \<Rightarrow> agent_store \<times> AgentDefinition option" where
  "UpdateAgentDefinitionUsage s tenantID ident success latencyMs prompt runAt =
     (case update_row (ags_definitions s) tenantID ident (\<lambda>v. v\<lparr>
             adn_Usage := counted_usage success latencyMs prompt runAt (adn_Usage v), adn_UpdatedAt := runAt\<rparr>) of
        (t, v) \<Rightarrow> (s\<lparr>ags_definitions := t\<rparr>, v))"

text \<open>
  What the gateway routes by: SHA-256, in hexadecimal, of the JSON of these fields.  The digest is an
  argument.
\<close>

record agent_model_config =
  amc_provider :: string
  amc_model_name :: string
  amc_litellm_model :: string
  amc_api_base_url :: string
  amc_api_key :: string
  amc_rate_limit_rpm :: int
  amc_timeout_seconds :: int
  amc_status :: string

definition AgentModelSyncConfigHash :: "(agent_model_config \<Rightarrow> string) \<Rightarrow> AgentModel \<Rightarrow> string" where
  "AgentModelSyncConfigHash digest model = digest \<lparr> amc_provider = am_Provider model, amc_model_name = am_ModelName model,
     amc_litellm_model = am_LiteLLMModel model, amc_api_base_url = am_APIBaseURL model, amc_api_key = am_APIKey model,
     amc_rate_limit_rpm = am_RateLimitRPM model, amc_timeout_seconds = am_TimeoutSeconds model, amc_status = am_Status model \<rparr>"

definition agentDefinitionVersionKey :: "string \<Rightarrow> int \<Rightarrow> string" where
  "agentDefinitionVersionKey agentID version = agentID @ CHR 0x00 # int_string version"

definition model_checksum :: "(agent_model_config \<Rightarrow> string) \<Rightarrow> agent_store \<Rightarrow> string \<Rightarrow> string \<Rightarrow> string \<Rightarrow> string" where
  "model_checksum digest s tenantID modelID checksum =
     (if TrimSpace checksum \<noteq> [] then checksum
      else case getNested (ags_models s) tenantID modelID of
        None \<Rightarrow> checksum | Some model \<Rightarrow> AgentModelSyncConfigHash digest model)"

definition tool_bindings :: "agent_store \<Rightarrow> string \<Rightarrow> string \<Rightarrow> string list \<Rightarrow> AgentRevisionExternalTool list" where
  "tool_bindings s tenantID revisionID toolIDs =
     map (\<lambda>(ordinal, tool). \<lparr> ret_TenantID = tenantID, ret_RevisionID = revisionID, ret_ExternalToolID = tool,
            ret_ToolSchemaChecksum = (case agentExternalToolCapabilityLocked s tenantID tool of
               None \<Rightarrow> [] | Some c \<Rightarrow> cap_SchemaChecksum c),
            ret_Ordinal = int ordinal, ret_Config = [] \<rparr>) (enumerate 0 toolIDs)"

definition InsertAgentDefinitionVersion ::
    "(agent_model_config \<Rightarrow> string) \<Rightarrow> agent_store \<Rightarrow> AgentDefinitionVersion \<Rightarrow> agent_store" where
  "InsertAgentDefinitionVersion digest s v =
     (let tenantID = adv_TenantID v;
          v = v\<lparr>adv_ModelConfigChecksum := model_checksum digest s tenantID (adv_ModelID v) (adv_ModelConfigChecksum v),
                adv_SubAgents := map (\<lambda>m. m\<lparr>atm_ModelConfigChecksum :=
                  model_checksum digest s tenantID (atm_ModelID m) (atm_ModelConfigChecksum m)\<rparr>) (adv_SubAgents v)\<rparr>;
          bindings = putNested (ags_revisionExternalTools s) tenantID (adv_ID v)
                       (tool_bindings s tenantID (adv_ID v) (adv_ExternalToolIDs v))
      in s\<lparr>ags_definitionVersions := putNested (ags_definitionVersions s) tenantID
              (agentDefinitionVersionKey (adv_AgentID v) (adv_Version v)) v,
           ags_revisionExternalTools := fold (\<lambda>member t.
              let child = adv_ID v @ '':member:'' @ atm_ID member
              in putNested t tenantID child (tool_bindings s tenantID child (atm_ExternalToolIDs member)))
              (adv_SubAgents v) bindings\<rparr>)"

definition ListAgentRevisionExternalToolBindings ::
    "agent_store \<Rightarrow> string \<Rightarrow> string \<Rightarrow> AgentRevisionExternalTool list" where
  "ListAgentRevisionExternalToolBindings s tenantID revisionID =
     (case getNested (ags_revisionExternalTools s) tenantID revisionID of None \<Rightarrow> [] | Some items \<Rightarrow> items)"

definition ListAgentDefinitionVersions :: "agent_store \<Rightarrow> string \<Rightarrow> string \<Rightarrow> AgentDefinitionVersion list" where
  "ListAgentDefinitionVersions s tenantID agentID =
     sort_less (\<lambda>a b. adv_Version a > adv_Version b)
       (filter (\<lambda>item. adv_AgentID item = agentID) (rows (ags_definitionVersions s) tenantID))"

definition GetAgentDefinitionVersion :: "agent_store \<Rightarrow> string \<Rightarrow> string \<Rightarrow> int \<Rightarrow> AgentDefinitionVersion option" where
  "GetAgentDefinitionVersion s tenantID agentID version =
     getNested (ags_definitionVersions s) tenantID (agentDefinitionVersionKey agentID version)"

section \<open>Execution steps\<close>

definition next_sequence :: "string \<Rightarrow> ExecutionStep list \<Rightarrow> int" where
  "next_sequence executionID steps =
     fold (\<lambda>e n. if step_ExecutionID e = executionID \<and> step_SequenceNo e \<ge> n then step_SequenceNo e + 1 else n) steps 1"

definition AppendExecutionStep :: "agent_store \<Rightarrow> ExecutionStep \<Rightarrow> (agent_store \<times> ExecutionStep) res" where
  "AppendExecutionStep s step =
     (if getNested (ags_runs s) (step_TenantID step) (step_ExecutionID step) = None
      then Inl (AppErr (NotFound ''execution'' (step_ExecutionID step)))
      else if getNested (ags_executionSteps s) (step_TenantID step) (step_ID step) \<noteq> None
      then Inl (AppErr (Conflict ''execution step already exists''))
      else let step = step\<lparr>step_SequenceNo := next_sequence (step_ExecutionID step)
                             (rows (ags_executionSteps s) (step_TenantID step)),
                           step_Status := ExecutionStepStatusRunning, step_OutputSummary := [], step_InputTokens := 0,
                           step_CachedTokens := 0, step_OutputTokens := 0, step_CompletedAt := None, step_ErrorCode := []\<rparr>
           in Inr (s\<lparr>ags_executionSteps := putNested (ags_executionSteps s) (step_TenantID step) (step_ID step) step\<rparr>, step))"

definition UpsertExecutionStep :: "agent_store \<Rightarrow> ExecutionStep \<Rightarrow> agent_store res" where
  "UpsertExecutionStep s step =
     (case getNested (ags_executionSteps s) (step_TenantID step) (step_ID step) of
        None \<Rightarrow> Inr (s\<lparr>ags_executionSteps := putNested (ags_executionSteps s) (step_TenantID step) (step_ID step) step\<rparr>)
      | Some existing \<Rightarrow>
          if step_ExecutionID existing \<noteq> step_ExecutionID step
          then Inl (AppErr (Conflict ''execution step belongs to a different execution''))
          else Inr (s\<lparr>ags_executionSteps := putNested (ags_executionSteps s) (step_TenantID step) (step_ID step)
            (existing\<lparr>step_Status := step_Status step, step_InputSummary := step_InputSummary step,
               step_OutputSummary := step_OutputSummary step, step_InputTokens := step_InputTokens step,
               step_CachedTokens := step_CachedTokens step, step_OutputTokens := step_OutputTokens step,
               step_StartedAt := step_StartedAt step, step_CompletedAt := step_CompletedAt step,
               step_ErrorCode := step_ErrorCode step\<rparr>)\<rparr>))"

definition GetExecutionStep :: "agent_store \<Rightarrow> string \<Rightarrow> string \<Rightarrow> ExecutionStep option" where
  "GetExecutionStep s tenantID ident = getNested (ags_executionSteps s) tenantID ident"

definition ListExecutionSteps :: "agent_store \<Rightarrow> string \<Rightarrow> string \<Rightarrow> ExecutionStep list" where
  "ListExecutionSteps s tenantID executionID =
     sort_less (\<lambda>a b. if step_SequenceNo a = step_SequenceNo b then step_ID a < step_ID b
                      else step_SequenceNo a < step_SequenceNo b)
       (filter (\<lambda>e. step_ExecutionID e = executionID) (rows (ags_executionSteps s) tenantID))"

section \<open>Confirmations\<close>

definition same_action :: "AgentConfirmationRecord \<Rightarrow> AgentConfirmationRecord \<Rightarrow> bool" where
  "same_action a b \<longleftrightarrow> acf_AccountID a = acf_AccountID b \<and> acf_ConversationID a = acf_ConversationID b \<and>
     acf_SegmentID a = acf_SegmentID b \<and> acf_Kind a = acf_Kind b \<and> acf_Action a = acf_Action b"

definition UpsertAgentConfirmation :: "agent_store \<Rightarrow> AgentConfirmationRecord \<Rightarrow> agent_store res" where
  "UpsertAgentConfirmation s v =
     (case getNested (ags_confirmations s) (acf_TenantID v) (acf_ID v) of
        Some existing \<Rightarrow>
          if same_action existing v then Inr s
          else Inl (AppErr (Conflict ''agent confirmation id already belongs to a different action''))
      | None \<Rightarrow> Inr (s\<lparr>ags_confirmations := putNested (ags_confirmations s) (acf_TenantID v) (acf_ID v) v\<rparr>))"

definition on_segment :: "agent_store \<Rightarrow> string \<Rightarrow> string \<Rightarrow> string \<Rightarrow> bool" where
  "on_segment s tenantID sessionID segmentID =
     (case getNested (ags_sessions s) tenantID sessionID of
        None \<Rightarrow> False | Some session \<Rightarrow> ases_SegmentID session = segmentID)"

definition ListPendingAgentConfirmations ::
    "agent_store \<Rightarrow> string \<Rightarrow> string \<Rightarrow> string \<Rightarrow> string \<Rightarrow> int \<Rightarrow> AgentConfirmationRecord list" where
  "ListPendingAgentConfirmations s tenantID accountID conversationID segmentID now =
     (if \<not> on_segment s tenantID conversationID segmentID then []
      else sort_less (\<lambda>a b. if acf_CreatedAt a = acf_CreatedAt b then acf_ID a < acf_ID b else acf_CreatedAt a < acf_CreatedAt b)
        (filter (\<lambda>c. acf_AccountID c = accountID \<and> acf_ConversationID c = conversationID \<and> acf_SegmentID c = segmentID \<and>
                     acf_Status c = AgentConfirmationStatusPending \<and> acf_ExpiresAt c > now)
          (rows (ags_confirmations s) tenantID)))"

definition ClaimAgentConfirmation ::
    "agent_store \<Rightarrow> string \<Rightarrow> string \<Rightarrow> string \<Rightarrow> int \<Rightarrow> agent_store \<times> AgentConfirmationRecord option" where
  "ClaimAgentConfirmation s tenantID accountID ident now =
     (case getNested (ags_confirmations s) tenantID ident of
        None \<Rightarrow> (s, None)
      | Some c \<Rightarrow>
          if acf_AccountID c \<noteq> accountID \<or> acf_Status c \<noteq> AgentConfirmationStatusPending \<or>
             \<not> on_segment s tenantID (acf_ConversationID c) (acf_SegmentID c) then (s, None)
          else let c = c\<lparr>acf_UpdatedAt := now\<rparr>;
                   c = (if \<not> acf_ExpiresAt c > now
                        then c\<lparr>acf_Status := AgentConfirmationStatusExpired, acf_ConsumedAt := Some now\<rparr>
                        else c\<lparr>acf_Status := AgentConfirmationStatusExecuting\<rparr>)
               in (s\<lparr>ags_confirmations := putNested (ags_confirmations s) tenantID ident c\<rparr>, Some c))"

definition UpdateAgentConfirmation ::
    "agent_store \<Rightarrow> AgentConfirmationRecord \<Rightarrow> agent_store \<times> AgentConfirmationRecord option" where
  "UpdateAgentConfirmation s v =
     (case getNested (ags_confirmations s) (acf_TenantID v) (acf_ID v) of
        None \<Rightarrow> (s, None)
      | Some existing \<Rightarrow>
          if acf_AccountID existing \<noteq> acf_AccountID v \<or>
             \<not> AgentConfirmationStatus_CanTransitionTo (acf_Status existing) (acf_Status v) then (s, None)
          else let existing = existing\<lparr>acf_ResultPayload := acf_ResultPayload v, acf_Status := acf_Status v,
                     acf_LastError := acf_LastError v, acf_ConsumedAt := acf_ConsumedAt v, acf_UpdatedAt := acf_UpdatedAt v\<rparr>
               in (s\<lparr>ags_confirmations := putNested (ags_confirmations s) (acf_TenantID v) (acf_ID v) existing\<rparr>, Some existing))"

section \<open>Sessions and messages\<close>

definition UpsertAgentSession :: "agent_store \<Rightarrow> AgentSession \<Rightarrow> agent_store" where
  "UpsertAgentSession s v =
     (let v = (if ases_ContextVersion v \<le> 0 then v\<lparr>ases_ContextVersion := 1\<rparr> else v)
      in s\<lparr>ags_sessions := putNested (ags_sessions s) (ases_TenantID v) (ases_ID v) v\<rparr>)"

definition GetAgentSession :: "agent_store \<Rightarrow> string \<Rightarrow> string \<Rightarrow> AgentSession option" where
  "GetAgentSession s tenantID ident = getNested (ags_sessions s) tenantID ident"

definition GetAgentSessionForUpdate :: "agent_store \<Rightarrow> string \<Rightarrow> string \<Rightarrow> AgentSession option" where
  "GetAgentSessionForUpdate s tenantID ident = GetAgentSession s tenantID ident"

definition agentSessionAfterKeysetCursor :: "AgentSession \<Rightarrow> KeysetPage \<Rightarrow> bool" where
  "agentSessionAfterKeysetCursor item page =
     (if ases_CreatedAt item = kp_CursorCreatedAt page then ases_ID item < kp_CursorID page
      else ases_CreatedAt item < kp_CursorCreatedAt page)"

definition session_less :: "AgentSession \<Rightarrow> AgentSession \<Rightarrow> bool" where
  "session_less a b =
     (if ases_CreatedAt a = ases_CreatedAt b then ases_ID a > ases_ID b else ases_CreatedAt a > ases_CreatedAt b)"

definition sortAgentSessions :: "AgentSession list \<Rightarrow> AgentSession list" where
  "sortAgentSessions = sort_less session_less"

definition limited :: "int \<Rightarrow> 'a list \<Rightarrow> 'a list" where
  "limited limit xs = (if limit > 0 \<and> int (length xs) > limit then take (nat limit) xs else xs)"

definition session_listed :: "string \<Rightarrow> string \<Rightarrow> string \<Rightarrow> AgentSession \<Rightarrow> bool" where
  "session_listed accountID status agentID item \<longleftrightarrow>
     ases_AccountID item = accountID \<and> (status = [] \<or> ases_Status item = status) \<and>
     (agentID = [] \<or> ases_AgentID item = agentID)"

definition ListAgentSessionsByAccount ::
    "agent_store \<Rightarrow> string \<Rightarrow> string \<Rightarrow> string \<Rightarrow> string \<Rightarrow> KeysetPage \<Rightarrow> AgentSession list" where
  "ListAgentSessionsByAccount s tenantID accountID status agentID page =
     limited (kp_Limit page) (sortAgentSessions
       (filter (\<lambda>item. session_listed accountID status agentID item \<and>
                       (kp_HasCursor page \<longrightarrow> agentSessionAfterKeysetCursor item page))
         (rows (ags_sessions s) tenantID)))"

definition DeleteAgentSession :: "agent_store \<Rightarrow> string \<Rightarrow> string \<Rightarrow> agent_store \<times> AgentSession option" where
  "DeleteAgentSession s tenantID ident =
     (case getNested (ags_sessions s) tenantID ident of
        None \<Rightarrow> (s, None)
      | Some v \<Rightarrow>
          let files = filter (\<lambda>(k, file). asf_SessionID file = ident) (bucket (ags_sessionFiles s) tenantID)
          in (s\<lparr>ags_sessions := deleteNested (ags_sessions s) tenantID ident,
                ags_sessionMessages := remove_where (\<lambda>(k, m). asm_SessionID m = ident) (ags_sessionMessages s) tenantID,
                ags_sessionFiles := remove_where (\<lambda>(k, file). asf_SessionID file = ident) (ags_sessionFiles s) tenantID,
                ags_fileChunks := fold (\<lambda>(k, file) t. deleteNested t tenantID k) files (ags_fileChunks s)\<rparr>, Some v))"

definition InsertAgentSessionMessage :: "agent_store \<Rightarrow> AgentSessionMessage \<Rightarrow> agent_store" where
  "InsertAgentSessionMessage s v =
     (let v = (if asm_ContextVersion v \<le> 0
               then case getNested (ags_sessions s) (asm_TenantID v) (asm_SessionID v) of
                      None \<Rightarrow> v | Some session \<Rightarrow> v\<lparr>asm_ContextVersion := ases_ContextVersion session\<rparr>
               else v)
      in s\<lparr>ags_sessionMessages := putNested (ags_sessionMessages s) (asm_TenantID v) (asm_ID v) v\<rparr>)"

definition agentMessageAfterKeysetCursor :: "AgentSessionMessage \<Rightarrow> KeysetPage \<Rightarrow> bool" where
  "agentMessageAfterKeysetCursor item page =
     (if asm_CreatedAt item = kp_CursorCreatedAt page then asm_ID item > kp_CursorID page
      else asm_CreatedAt item > kp_CursorCreatedAt page)"

definition message_less :: "AgentSessionMessage \<Rightarrow> AgentSessionMessage \<Rightarrow> bool" where
  "message_less a b =
     (if asm_CreatedAt a = asm_CreatedAt b then asm_ID a < asm_ID b else asm_CreatedAt a < asm_CreatedAt b)"

definition sortAgentSessionMessages :: "AgentSessionMessage list \<Rightarrow> AgentSessionMessage list" where
  "sortAgentSessionMessages = sort_less message_less"

text \<open>Only the messages of the context the session is in now are visible.\<close>

definition ListAgentSessionMessages :: "agent_store \<Rightarrow> string \<Rightarrow> string \<Rightarrow> KeysetPage \<Rightarrow> AgentSessionMessage list" where
  "ListAgentSessionMessages s tenantID sessionID page =
     (case getNested (ags_sessions s) tenantID sessionID of
        None \<Rightarrow> []
      | Some session \<Rightarrow>
          limited (kp_Limit page) (sortAgentSessionMessages
            (filter (\<lambda>item. asm_SessionID item = sessionID \<and> asm_ContextVersion item = ases_ContextVersion session \<and>
                            (kp_HasCursor page \<longrightarrow> agentMessageAfterKeysetCursor item page))
              (rows (ags_sessionMessages s) tenantID))))"

definition ListRecentAgentSessionMessages :: "agent_store \<Rightarrow> string \<Rightarrow> string \<Rightarrow> int \<Rightarrow> AgentSessionMessage list" where
  "ListRecentAgentSessionMessages s tenantID sessionID limit =
     (let items = ListAgentSessionMessages s tenantID sessionID zero_KeysetPage
      in if limit > 0 \<and> int (length items) > limit then drop (length items - nat limit) items else items)"

section \<open>Files of a session\<close>

definition put_session_file :: "agent_store \<Rightarrow> AgentSessionFile \<Rightarrow> agent_store" where
  "put_session_file s file = s\<lparr>ags_sessionFiles := putNested (ags_sessionFiles s) (asf_TenantID file) (asf_ID file) file\<rparr>"

definition UpsertAgentFileAsset :: "agent_store \<Rightarrow> AgentSessionFile \<Rightarrow> agent_store" where
  "UpsertAgentFileAsset s file = put_session_file s file"

definition InsertAgentSessionFile :: "agent_store \<Rightarrow> AgentSessionFile \<Rightarrow> agent_store" where
  "InsertAgentSessionFile s file = put_session_file s file"

definition InsertAgentFileChunks :: "agent_store \<Rightarrow> string \<Rightarrow> string \<Rightarrow> string list \<Rightarrow> agent_store" where
  "InsertAgentFileChunks s tenantID fileID chunks =
     s\<lparr>ags_fileChunks := putNested (ags_fileChunks s) tenantID fileID chunks\<rparr>"

definition ListAgentFileChunks :: "agent_store \<Rightarrow> string \<Rightarrow> string \<Rightarrow> string list" where
  "ListAgentFileChunks s tenantID fileID =
     (case getNested (ags_fileChunks s) tenantID fileID of None \<Rightarrow> [] | Some chunks \<Rightarrow> chunks)"

definition GetCurrentAgentSessionFile :: "agent_store \<Rightarrow> string \<Rightarrow> string \<Rightarrow> string \<Rightarrow> AgentSessionFile option" where
  "GetCurrentAgentSessionFile s tenantID sessionID fileID =
     (case (getNested (ags_sessions s) tenantID sessionID, getNested (ags_sessionFiles s) tenantID fileID) of
        (Some session, Some file) \<Rightarrow>
          if asf_SessionID file = sessionID \<and> asf_ContextVersion file = ases_ContextVersion session then Some file else None
      | _ \<Rightarrow> None)"

definition ListCurrentAgentSessionFiles :: "agent_store \<Rightarrow> string \<Rightarrow> string \<Rightarrow> AgentSessionFile list" where
  "ListCurrentAgentSessionFiles s tenantID sessionID =
     (case getNested (ags_sessions s) tenantID sessionID of
        None \<Rightarrow> []
      | Some session \<Rightarrow>
          sort_less (\<lambda>a b. if asf_CreatedAt a = asf_CreatedAt b then asf_ID a < asf_ID b else asf_CreatedAt a < asf_CreatedAt b)
            (filter (\<lambda>file. asf_SessionID file = sessionID \<and> asf_ContextVersion file = ases_ContextVersion session)
              (rows (ags_sessionFiles s) tenantID)))"

text \<open>A draft of the visible context.\<close>

definition current_draft :: "agent_store \<Rightarrow> string \<Rightarrow> string \<Rightarrow> string \<Rightarrow> AgentSessionFile option" where
  "current_draft s tenantID sessionID fileID =
     (case GetCurrentAgentSessionFile s tenantID sessionID fileID of
        None \<Rightarrow> None | Some file \<Rightarrow> if asf_State file = ''draft'' then Some file else None)"

definition current_message :: "agent_store \<Rightarrow> string \<Rightarrow> string \<Rightarrow> string \<Rightarrow> bool" where
  "current_message s tenantID sessionID messageID =
     (case (getNested (ags_sessions s) tenantID sessionID, getNested (ags_sessionMessages s) tenantID messageID) of
        (Some session, Some message) \<Rightarrow>
          asm_SessionID message = sessionID \<and> asm_ContextVersion message = ases_ContextVersion session
      | _ \<Rightarrow> False)"

definition ordinal_taken :: "agent_store \<Rightarrow> string \<Rightarrow> string \<Rightarrow> string \<Rightarrow> string \<Rightarrow> int \<Rightarrow> bool" where
  "ordinal_taken s tenantID sessionID fileID messageID ordinal =
     list_ex (\<lambda>e. asf_SessionID e = sessionID \<and> asf_MessageID e = messageID \<and> asf_Ordinal e = Some ordinal \<and> asf_ID e \<noteq> fileID)
       (rows (ags_sessionFiles s) tenantID)"

definition MarkAgentSessionFileAttached ::
    "agent_store \<Rightarrow> string \<Rightarrow> string \<Rightarrow> string \<Rightarrow> string \<Rightarrow> int \<Rightarrow> int \<Rightarrow> agent_store res" where
  "MarkAgentSessionFileAttached s tenantID sessionID fileID messageID ordinal updatedAt =
     (case current_draft s tenantID sessionID fileID of
        None \<Rightarrow> Inl (PlainErr ''agent session file not found'')
      | Some file \<Rightarrow>
          if \<not> current_message s tenantID sessionID messageID then Inl (PlainErr ''agent session message not found'')
          else if ordinal_taken s tenantID sessionID fileID messageID ordinal
          then Inl (PlainErr ''attachment ordinal already used'')
          else Inr (s\<lparr>ags_sessionFiles := putNested (ags_sessionFiles s) tenantID fileID
                  (file\<lparr>asf_State := ''attached'', asf_MessageID := messageID, asf_Ordinal := Some ordinal,
                        asf_UpdatedAt := updatedAt\<rparr>)\<rparr>))"

definition attachment_less :: "AgentMessageAttachment \<Rightarrow> AgentMessageAttachment \<Rightarrow> bool" where
  "attachment_less a b =
     (if ama_MessageID a = ama_MessageID b then ama_Ordinal a < ama_Ordinal b else ama_MessageID a < ama_MessageID b)"

definition ListCurrentAgentMessageAttachments :: "agent_store \<Rightarrow> string \<Rightarrow> string \<Rightarrow> AgentMessageAttachment list" where
  "ListCurrentAgentMessageAttachments s tenantID sessionID =
     sort_less attachment_less (map (\<lambda>file. \<lparr> ama_MessageID = asf_MessageID file,
            ama_ConversationFileID = asf_ConversationFileID file,
            ama_Ordinal = (case asf_Ordinal file of None \<Rightarrow> 0 | Some n \<Rightarrow> n), ama_File = file \<rparr>)
       (filter (\<lambda>file. asf_SessionID file = sessionID \<and> asf_State file = ''attached'' \<and> asf_MessageID file \<noteq> [] \<and>
                       asf_Ordinal file \<noteq> None \<and> current_message s tenantID sessionID (asf_MessageID file))
         (rows (ags_sessionFiles s) tenantID)))"

definition DeleteCurrentDraftAgentSessionFile :: "agent_store \<Rightarrow> string \<Rightarrow> string \<Rightarrow> string \<Rightarrow> agent_store \<times> bool" where
  "DeleteCurrentDraftAgentSessionFile s tenantID sessionID fileID =
     (if current_draft s tenantID sessionID fileID = None then (s, False)
      else (s\<lparr>ags_sessionFiles := deleteNested (ags_sessionFiles s) tenantID fileID\<rparr>, True))"

definition DeleteAgentFileAsset :: "agent_store \<Rightarrow> string \<Rightarrow> string \<Rightarrow> agent_store" where
  "DeleteAgentFileAsset s tenantID fileID =
     s\<lparr>ags_sessionFiles := deleteNested (ags_sessionFiles s) tenantID fileID,
       ags_fileChunks := deleteNested (ags_fileChunks s) tenantID fileID\<rparr>"

section \<open>Memories\<close>

definition bound_memory :: "agent_store \<Rightarrow> AgentMemory \<Rightarrow> AgentMemory" where
  "bound_memory s v =
     (let v = (if amem_Status v = [] then v\<lparr>amem_Status := ''active''\<rparr> else v) in
      if amem_SessionID v \<noteq> []
      then v\<lparr>amem_Scope := ''conversation'', amem_AgentID := [],
             amem_SegmentID := (case getNested (ags_sessions s) (amem_TenantID v) (amem_SessionID v) of
                None \<Rightarrow> amem_SegmentID v | Some session \<Rightarrow> ases_SegmentID session)\<rparr>
      else if amem_AgentID v \<noteq> []
      then v\<lparr>amem_Scope := ''agent'', amem_SessionID := [], amem_SegmentID := []\<rparr>
      else v\<lparr>amem_Scope := ''global'', amem_AgentID := [], amem_SessionID := [], amem_SegmentID := []\<rparr>)"

definition same_memory :: "AgentMemory \<Rightarrow> AgentMemory \<Rightarrow> bool" where
  "same_memory a b \<longleftrightarrow> amem_AccountID a = amem_AccountID b \<and> amem_Scope a = amem_Scope b \<and>
     amem_AgentID a = amem_AgentID b \<and> amem_SessionID a = amem_SessionID b \<and> amem_SegmentID a = amem_SegmentID b \<and>
     amem_Key a = amem_Key b"

definition memory_active :: "AgentMemory \<Rightarrow> bool" where
  "memory_active v \<longleftrightarrow> amem_Status v = ''active''"

definition UpsertAgentMemory :: "agent_store \<Rightarrow> AgentMemory \<Rightarrow> agent_store" where
  "UpsertAgentMemory s v =
     (let v = bound_memory s v;
          twin = (if \<not> memory_active v then None
                  else find (\<lambda>(k, e). memory_active e \<and> same_memory e v) (bucket (ags_memories s) (amem_TenantID v)))
      in case twin of
           Some (k, existing) \<Rightarrow> s\<lparr>ags_memories := putNested (ags_memories s) (amem_TenantID v) k
                (v\<lparr>amem_ID := amem_ID existing, amem_CreatedAt := amem_CreatedAt existing\<rparr>)\<rparr>
         | None \<Rightarrow> s\<lparr>ags_memories := putNested (ags_memories s) (amem_TenantID v) (amem_ID v) v\<rparr>)"

definition GetAgentMemory :: "agent_store \<Rightarrow> string \<Rightarrow> string \<Rightarrow> AgentMemory option" where
  "GetAgentMemory s tenantID ident = getNested (ags_memories s) tenantID ident"

definition agentMemoryExpired :: "AgentMemory \<Rightarrow> int \<Rightarrow> bool" where
  "agentMemoryExpired v now = (case amem_ExpiresAt v of None \<Rightarrow> False | Some t \<Rightarrow> \<not> t > now)"

definition memory_scope :: "AgentMemory \<Rightarrow> string" where
  "memory_scope item =
     (if amem_Scope item \<noteq> [] then amem_Scope item
      else if amem_SessionID item \<noteq> [] then ''conversation''
      else if amem_AgentID item \<noteq> [] then ''agent'' else ''global'')"

definition sortAgentMemories :: "AgentMemory list \<Rightarrow> AgentMemory list" where
  "sortAgentMemories =
     sort_less (\<lambda>a b. if amem_Importance a \<noteq> amem_Importance b then amem_Importance a > amem_Importance b
                      else if amem_UpdatedAt a = amem_UpdatedAt b then amem_ID a > amem_ID b
                      else amem_UpdatedAt a > amem_UpdatedAt b)"

definition ListAgentMemoriesByAccount ::
    "int \<Rightarrow> agent_store \<Rightarrow> string \<Rightarrow> string \<Rightarrow> string \<Rightarrow> string \<Rightarrow> int \<Rightarrow> AgentMemory list" where
  "ListAgentMemoriesByAccount now s tenantID accountID agentID sessionID limit =
     (let currentSegmentID = (if sessionID = [] then []
            else case getNested (ags_sessions s) tenantID sessionID of None \<Rightarrow> [] | Some session \<Rightarrow> ases_SegmentID session)
      in limited limit (sortAgentMemories (filter (\<lambda>item.
           amem_AccountID item = accountID \<and> memory_active item \<and> \<not> agentMemoryExpired item now \<and>
           (memory_scope item = ''global'' \<or>
            memory_scope item = ''agent'' \<and> agentID \<noteq> [] \<and> amem_AgentID item = agentID \<or>
            memory_scope item = ''conversation'' \<and> sessionID \<noteq> [] \<and> amem_SessionID item = sessionID \<and>
              amem_SegmentID item = currentSegmentID))
         (rows (ags_memories s) tenantID))))"

definition DeleteAgentMemory :: "agent_store \<Rightarrow> string \<Rightarrow> string \<Rightarrow> agent_store \<times> AgentMemory option" where
  "DeleteAgentMemory s tenantID ident =
     (case update_row (ags_memories s) tenantID ident (\<lambda>v. v\<lparr>amem_Status := ''superseded''\<rparr>) of
        (t, v) \<Rightarrow> (s\<lparr>ags_memories := t\<rparr>, v))"

end
