(* ===== verification/Keyset.thy ===== *)
theory Keyset
  imports Agent_Store
begin

text \<open>
  Lists that are read page by page after a cursor: the cursor is the place \<open>(created_at, id)\<close> of the
  last row of a page, written as text (\<open>encodeAgentKeysetCursor\<close>, \<open>decodeAgentKeysetCursor\<close>,
  \<open>normalizeAgentKeysetPage\<close> in \<open>src/internal/service/agent/agent_session_service.go\<close>), in the URL
  variant of Base64 without padding (\<open>encoding/base64\<close>).  The locale \<open>keyset\<close> states what the
  order of the rows has to satisfy for the pages to be a partition of the sorted list.
\<close>

section \<open>Base64\<close>

definition b64_alphabet :: string where
  "b64_alphabet = ''ABCDEFGHIJKLMNOPQRSTUVWXYZabcdefghijklmnopqrstuvwxyz0123456789-_''"

definition b64_char :: "nat \<Rightarrow> char" where
  "b64_char d = b64_alphabet ! d"

definition b64_digit :: "char \<Rightarrow> nat option" where
  "b64_digit c = map_of (zip b64_alphabet [0..<64]) c"

fun b64_digits :: "nat list \<Rightarrow> nat list" where
  "b64_digits (a # b # c # bs) =
     [a div 4, (a mod 4) * 16 + b div 16, (b mod 16) * 4 + c div 64, c mod 64] @ b64_digits bs"
| "b64_digits [a, b] = [a div 4, (a mod 4) * 16 + b div 16, (b mod 16) * 4]"
| "b64_digits [a] = [a div 4, (a mod 4) * 16]"
| "b64_digits [] = []"

text \<open>The bits left over in the last digit are ignored; a single last digit is an error.\<close>

fun b64_bytes :: "nat list \<Rightarrow> nat list option" where
  "b64_bytes (p # q # r # t # ds) = map_option (append [p * 4 + q div 16, (q mod 16) * 16 + r div 4, (r mod 4) * 64 + t])
     (b64_bytes ds)"
| "b64_bytes [p, q, r] = Some [p * 4 + q div 16, (q mod 16) * 16 + r div 4]"
| "b64_bytes [p, q] = Some [p * 4 + q div 16]"
| "b64_bytes [p] = None"
| "b64_bytes [] = Some []"

definition EncodeToString :: "string \<Rightarrow> string" where
  "EncodeToString s = map b64_char (b64_digits (map of_char s))"

definition DecodeString :: "string \<Rightarrow> string option" where
  "DecodeString t =
     (case those (map b64_digit (filter (\<lambda>c. c \<noteq> CHR 0x0A \<and> c \<noteq> CHR 0x0D) t)) of
        None \<Rightarrow> None
      | Some ds \<Rightarrow> map_option (map char_of) (b64_bytes ds))"

lemma alphabet: "distinct b64_alphabet" "length b64_alphabet = 64"
  "CHR 0x0A \<notin> set b64_alphabet" "CHR 0x0D \<notin> set b64_alphabet"
  by (simp_all add: b64_alphabet_def)

lemma b64_digit_char: "d < 64 \<Longrightarrow> b64_digit (b64_char d) = Some d"
  unfolding b64_digit_def b64_char_def
  using alphabet by (subst map_of_zip_nth) simp_all

lemma b64_char_in: "d < 64 \<Longrightarrow> b64_char d \<in> set b64_alphabet"
  by (simp add: b64_char_def alphabet)

text \<open>A byte, cut after its high or its low bits.\<close>

lemma byte_parts: "b < 256 \<Longrightarrow> b div 4 < 64" "b < 256 \<Longrightarrow> b div 16 < 16" "b < 256 \<Longrightarrow> b div 64 < (4::nat)"
  by (rule less_mult_imp_div_less, simp)+

lemma joined: "y < n \<Longrightarrow> (x * n + y) div n = x" "y < n \<Longrightarrow> (x * n + y) mod n = (y::nat)"
  by simp_all

lemma six_bits:
  fixes a b :: nat
  assumes "b < 256"
  shows "(a mod 4) * 16 + b div 16 < 64" "(a mod 16) * 4 + b div 64 < 64"
  using byte_parts(2,3) [OF assms] mod_less_divisor [of 4 a] mod_less_divisor [of 16 a] by linarith+

lemma high_bits: "(a mod 4) * 16 < (64::nat)" "(a mod 16) * 4 < (64::nat)"
  using mod_less_divisor [of 4 a] mod_less_divisor [of 16 a] by linarith+

lemma b64_digits_small: "list_all (\<lambda>b. b < 256) bs \<Longrightarrow> list_all (\<lambda>d. d < 64) (b64_digits bs)"
  by (induction bs rule: b64_digits.induct) (simp_all add: six_bits high_bits byte_parts)

lemma bytes_back:
  fixes a b c :: nat
  assumes "b < 256"
  shows "(a div 4) * 4 + ((a mod 4) * 16 + b div 16) div 16 = a"
    "(((a mod 4) * 16 + b div 16) mod 16) * 16 + b mod 16 = b"
    "(((a mod 16) * 4 + b div 64) mod 4) * 64 + b mod 64 = b" "((a mod 16) * 4 + b div 64) div 4 = a mod 16"
  by (simp_all only: joined [OF byte_parts(2) [OF assms]] joined [OF byte_parts(3) [OF assms]] div_mult_mod_eq)

lemma b64_bytes_digits: "list_all (\<lambda>b. b < 256) bs \<Longrightarrow> b64_bytes (b64_digits bs) = Some bs"
proof (induction bs rule: b64_digits.induct)
  case (1 a b c bs)
  then have "b < 256" "c < 256" "b64_bytes (b64_digits bs) = Some bs" by simp_all
  then show ?case by (simp only: b64_digits.simps b64_bytes.simps append.simps bytes_back option.map div_mult_mod_eq)
next
  case (2 a b)
  then have "b < 256" by simp
  moreover have "b mod 16 * 4 div 4 = b mod 16" by simp
  ultimately show ?case by (simp only: b64_digits.simps b64_bytes.simps bytes_back div_mult_mod_eq)
next
  case (3 a)
  have "(a mod 4) * 16 div 16 = a mod 4" by simp
  then show ?case by (simp only: b64_digits.simps b64_bytes.simps div_mult_mod_eq)
qed simp

text \<open>What is written is read back.\<close>

lemma DecodeString_EncodeToString: "DecodeString (EncodeToString s) = Some s"
proof -
  let ?ds = "b64_digits (map of_char s :: nat list)"
  have bytes: "list_all (\<lambda>b. b < 256) (map of_char s :: nat list)" by (simp add: list_all_iff)
  then have small: "list_all (\<lambda>d. d < 64) ?ds" by (rule b64_digits_small)
  then have plain: "filter (\<lambda>c. c \<noteq> CHR 0x0A \<and> c \<noteq> CHR 0x0D) (EncodeToString s) = EncodeToString s"
    unfolding EncodeToString_def filter_id_conv using b64_char_in alphabet(3,4)
    by (auto simp: list_all_iff) metis+
  have "those (map b64_digit (map b64_char ds)) = Some ds" if "list_all (\<lambda>d. d < 64) ds" for ds
    using that by (induction ds) (simp_all add: b64_digit_char)
  with small plain show ?thesis
    by (simp add: DecodeString_def EncodeToString_def b64_bytes_digits [OF bytes] comp_def)
qed

section \<open>The cursor\<close>

text \<open>\<open>UnixNano\<close> and \<open>time.Unix(0, nanos)\<close> on nanoseconds since the zero time.\<close>

definition unix_epoch :: int where "unix_epoch = 62135596800000000000"

definition encodeAgentKeysetCursor :: "int \<Rightarrow> string \<Rightarrow> string" where
  "encodeAgentKeysetCursor createdAt ident =
     EncodeToString (int_string (wrap64 (createdAt - unix_epoch)) @ ''|'' @ ident)"

definition decodeAgentKeysetCursor :: "string \<Rightarrow> (int \<times> string) option" where
  "decodeAgentKeysetCursor cursor =
     (case DecodeString cursor of
        None \<Rightarrow> None
      | Some decoded \<Rightarrow>
          (let nanos = takeWhile (\<lambda>c. c \<noteq> CHR ''|'') decoded; rest = dropWhile (\<lambda>c. c \<noteq> CHR ''|'') decoded in
           if rest = [] \<or> TrimSpace (tl rest) = [] then None
           else case Atoi nanos of None \<Rightarrow> None | Some n \<Rightarrow> Some (n + unix_epoch, tl rest)))"

definition normalizeAgentKeysetPage :: "string \<Rightarrow> int \<Rightarrow> KeysetPage res" where
  "normalizeAgentKeysetPage rawCursor pageSize =
     (let pageSize = (if pageSize \<le> 0 then DefaultPageSize else pageSize);
          pageSize = (if pageSize > MaxPageSize then MaxPageSize else pageSize);
          page = zero_KeysetPage\<lparr>kp_Limit := pageSize\<rparr>;
          rawCursor = TrimSpace rawCursor
      in if rawCursor = [] then Inr page
         else case decodeAgentKeysetCursor rawCursor of
             None \<Rightarrow> Inl (AppErr (BadRequest ''cursor is invalid''))
           | Some (createdAt, ident) \<Rightarrow>
               Inr (page\<lparr>kp_HasCursor := True, kp_CursorCreatedAt := createdAt, kp_CursorID := ident\<rparr>))"

lemma int_string_no_bar: "c \<in> set (int_string i) \<Longrightarrow> c \<noteq> CHR ''|''"
  using nat_string_digits by (fastforce simp: int_string_def list_all_iff is_digit_def split: if_splits)

lemma wrap64_in: "in_int64 i \<Longrightarrow> wrap64 i = i"
  by (simp add: wrap64_def in_int64_def)

lemma decode_encode:
  assumes "in_int64 (createdAt - unix_epoch)" "TrimSpace ident \<noteq> []"
  shows "decodeAgentKeysetCursor (encodeAgentKeysetCursor createdAt ident) = Some (createdAt, ident)"
proof -
  let ?n = "int_string (createdAt - unix_epoch)"
  have "takeWhile (\<lambda>c. c \<noteq> CHR ''|'') (?n @ ''|'' @ ident) = ?n"
    "dropWhile (\<lambda>c. c \<noteq> CHR ''|'') (?n @ ''|'' @ ident) = ''|'' @ ident"
    using int_string_no_bar by (subst takeWhile_append2 dropWhile_append2; force)+
  with assms show ?thesis
    by (simp add: decodeAgentKeysetCursor_def encodeAgentKeysetCursor_def DecodeString_EncodeToString wrap64_in
        Atoi_int_string)
qed

definition solid :: "char \<Rightarrow> bool" where
  "solid c \<longleftrightarrow> \<not> ascii_space c \<and> (\<forall>b. \<not> space2 c b \<and> \<not> space2 b c) \<and> (\<forall>b d. \<not> space3 c b d \<and> \<not> space3 d b c)"

lemma TrimSpace_solid: "list_all solid s \<Longrightarrow> TrimSpace s = s"
proof -
  have 1: "trim_front space2 space3 s = s" if "list_all solid s" for s
    unfolding trim_front_fixed_iff using that by (auto simp: solid_def split: list.splits)
  have 2: "trim_front (\<lambda>b a. space2 a b) (\<lambda>c b a. space3 a b c) s = s" if "list_all solid s" for s
    unfolding trim_front_fixed_iff using that by (auto simp: solid_def split: list.splits)
  assume "list_all solid s"
  then show ?thesis by (simp add: TrimSpace_def trim_left_def trim_right_def 1 2 list_all_rev)
qed

lemma alphabet_solid: "list_all solid b64_alphabet"
  by (simp add: b64_alphabet_def solid_def ascii_space_def space2_def space3_def)

lemma TrimSpace_EncodeToString: "TrimSpace (EncodeToString s) = EncodeToString s"
proof (rule TrimSpace_solid)
  have "list_all (\<lambda>d. d < 64) (b64_digits (map of_char s :: nat list))"
    by (rule b64_digits_small) (simp add: list_all_iff)
  then show "list_all solid (EncodeToString s)"
    using alphabet_solid b64_char_in by (auto simp: EncodeToString_def list_all_iff)
qed

lemma EncodeToString_Nil: "EncodeToString s = [] \<longleftrightarrow> s = []"
proof
  assume "EncodeToString s = []"
  then have "Some s = DecodeString []" using DecodeString_EncodeToString [of s] by metis
  then show "s = []" by (simp add: DecodeString_def)
qed (simp add: EncodeToString_def)

section \<open>Following the cursors\<close>

text \<open>
  A client that asks for the first page and then for the page after every cursor it is given, at most
  \<open>fuel\<close> times.
\<close>

fun follow :: "nat \<Rightarrow> ('c \<Rightarrow> 'e + 'a list \<times> 'c option) \<Rightarrow> 'c \<Rightarrow> ('e + 'a list list) option" where
  "follow 0 f c = None"
| "follow (Suc fuel) f c =
     (case f c of
        Inl e \<Rightarrow> Some (Inl e)
      | Inr (items, None) \<Rightarrow> Some (Inr [items])
      | Inr (items, Some c') \<Rightarrow> map_option (\<lambda>r. bindR r (\<lambda>pages. Inr (items # pages))) (follow fuel f c'))"

definition page_after :: "nat \<Rightarrow> ('a \<Rightarrow> 'c) \<Rightarrow> 'a list \<Rightarrow> 'a list \<times> 'c option" where
  "page_after n code zs = (take n zs, if length zs > n then Some (code (zs ! (n - 1))) else None)"

lemma follow_complete:
  assumes "n > 0" "\<And>ys c zs. xs = ys @ c # zs \<Longrightarrow> f (code c) = Inr (page_after n code zs)"
    and "xs = ys @ zs" "f c = Inr (page_after n code zs)" "fuel > length zs"
  shows "\<exists>pages. follow fuel f c = Some (Inr pages) \<and> concat pages = zs \<and> list_all (\<lambda>p. length p \<le> n) pages"
  using assms(3-5)
proof (induction fuel arbitrary: ys zs c)
  case (Suc fuel)
  show ?case
  proof (cases "length zs > n")
    case False
    with Suc.prems show ?thesis by (simp add: page_after_def)
  next
    case True
    let ?c = "zs ! (n - 1)"
    have split: "zs = take (n - 1) zs @ ?c # drop n zs"
      using True assms(1) id_take_nth_drop [of "n - 1" zs] by simp
    have xs: "xs = (ys @ take n zs) @ drop n zs" using Suc.prems(1) by simp
    have "xs = (ys @ take (n - 1) zs) @ ?c # drop n zs" using Suc.prems(1) split by (metis append.assoc)
    then have "f (code ?c) = Inr (page_after n code (drop n zs))" by (rule assms(2))
    moreover have "length (drop n zs) < fuel" using Suc.prems(3) True assms(1) by simp
    ultimately obtain pages where "follow fuel f (code ?c) = Some (Inr pages)" "concat pages = drop n zs"
        "list_all (\<lambda>p. length p \<le> n) pages"
      using Suc.IH [OF xs, of "code ?c"] by blast
    with Suc.prems(2) True show ?thesis by (simp add: page_after_def)
  qed
qed simp

text \<open>What the order of the rows has to satisfy.\<close>

locale keyset =
  fixes lt :: "'a \<Rightarrow> 'a \<Rightarrow> bool" and ident :: "'a \<Rightarrow> string"
  assumes irrefl: "\<not> lt a a"
    and trans: "lt a b \<Longrightarrow> lt b c \<Longrightarrow> lt a c"
    and total: "ident a \<noteq> ident b \<Longrightarrow> lt a b \<or> lt b a"
begin

lemma sorted_insert:
  "sorted_wrt lt ys \<Longrightarrow> ident x \<notin> ident ` set ys \<Longrightarrow> sorted_wrt lt (insert_less lt x ys)"
proof (induction ys)
  case (Cons y ys)
  then have "lt x y" if "\<not> lt y x" using total [of x y] that by auto
  with Cons show ?case by (auto intro: trans)
qed simp

lemma sorted_sort: "distinct (map ident xs) \<Longrightarrow> sorted_wrt lt (sort_less lt xs)"
proof (induction xs)
  case (Cons x xs)
  then have "sorted_wrt lt (insert_less lt x (sort_less lt xs))" by (intro sorted_insert) simp_all
  then show ?case by (simp add: sort_less_def)
qed (simp add: sort_less_def)

lemma sorted_unique: "sorted_wrt lt xs \<Longrightarrow> sorted_wrt lt ys \<Longrightarrow> set xs = set ys \<Longrightarrow> xs = ys"
proof (induction xs arbitrary: ys)
  case (Cons x xs)
  then obtain y zs where ys: "ys = y # zs" by (cases ys) auto
  have "x = y"
  proof (rule ccontr)
    assume "x \<noteq> y"
    with Cons.prems ys have "x \<in> set zs" "y \<in> set xs" by auto
    with Cons.prems ys have "lt y x" "lt x y" by auto
    then show False using trans irrefl by blast
  qed
  moreover have "x \<notin> set xs" "x \<notin> set zs" using Cons.prems ys \<open>x = y\<close> irrefl by auto
  then have "set xs = set zs" using Cons.prems(3) ys \<open>x = y\<close> by auto
  ultimately show ?case using Cons ys by simp
qed simp

lemma sort_filter:
  assumes "distinct (map ident xs)"
  shows "sort_less lt (filter p xs) = filter p (sort_less lt xs)"
proof (rule sorted_unique)
  show "sorted_wrt lt (sort_less lt (filter p xs))" by (rule sorted_sort) (use assms in \<open>simp add: distinct_map_filter\<close>)
  show "sorted_wrt lt (filter p (sort_less lt xs))" using sorted_sort [OF assms] by (rule sorted_wrt_filter)
qed simp

lemma after_cursor:
  assumes "sorted_wrt lt (ys @ c # zs)"
  shows "filter (lt c) (ys @ c # zs) = zs"
proof -
  have "filter (lt c) ys = []"
  proof (unfold filter_empty_conv, rule ballI)
    fix y
    assume "y \<in> set ys"
    with assms have "lt y c" by (simp add: sorted_wrt_append)
    then show "\<not> lt c y" using trans irrefl by blast
  qed
  moreover have "filter (lt c) zs = zs"
    using assms by (simp add: sorted_wrt_append filter_id_conv)
  ultimately show ?thesis using irrefl by simp
qed

end

end
