(* ===== verification/Agent_Usage.thy ===== *)
theory Agent_Usage
  imports Agent_Store
begin

text \<open>
  Who used the agents how much: the usage reports of the in-memory repository
  (\<open>agentUsageByAccountLocked\<close> and the methods over it in
  \<open>src/internal/repository/memory/store.go\<close>).  Sessions and runs are counted under their account, messages
  under the account of their session; the accounts of a tenant are an argument.
\<close>

definition latest :: "int \<Rightarrow> int option \<Rightarrow> int option" where
  "latest t before = (case before of None \<Rightarrow> Some t | Some l \<Rightarrow> if t > l then Some t else Some l)"

definition session_activity :: "AgentSession \<Rightarrow> int" where
  "session_activity session =
     (case ases_LastMessageAt session of
        Some t \<Rightarrow> if t > ases_UpdatedAt session then t else ases_UpdatedAt session
      | None \<Rightarrow> ases_UpdatedAt session)"

text \<open>Token counts are \<open>int64\<close>: a total adds them one by one and wraps around.\<close>

definition add64 :: "('a \<Rightarrow> int) \<Rightarrow> 'a list \<Rightarrow> int" where
  "add64 f xs = fold (\<lambda>x n. wrap64 (n + f x)) xs 0"

definition saved_tokens :: "int \<Rightarrow> int \<Rightarrow> int" where
  "saved_tokens all_tokens cached = (let n = wrap64 (all_tokens - cached) in if n < 0 then 0 else n)"

lemma wrap64_add: "wrap64 (wrap64 a + b) = wrap64 (a + b)" "wrap64 (a + wrap64 b) = wrap64 (a + b)"
proof -
  have "(a + 2 ^ 63) mod 2 ^ 64 - 2 ^ 63 + b + 2 ^ 63 = (a + 2 ^ 63) mod 2 ^ 64 + b" for a b :: int by simp
  then have "wrap64 (wrap64 a + b) = wrap64 (a + b)" for a b
    unfolding wrap64_def by (simp only: mod_add_left_eq) (simp add: algebra_simps)
  from this this [of b a] show "wrap64 (wrap64 a + b) = wrap64 (a + b)" "wrap64 (a + wrap64 b) = wrap64 (a + b)"
    by (simp_all add: add.commute)
qed

lemma wrap64_diff: "wrap64 (wrap64 a - wrap64 b) = wrap64 (a - b)"
proof -
  have "(a + 2 ^ 63) mod 2 ^ 64 - 2 ^ 63 - ((b + 2 ^ 63) mod 2 ^ 64 - 2 ^ 63) + 2 ^ 63 =
      (a + 2 ^ 63) mod 2 ^ 64 - (b + 2 ^ 63) mod 2 ^ 64 + 2 ^ 63" by simp
  moreover have "((a + 2 ^ 63) mod 2 ^ 64 - (b + 2 ^ 63) mod 2 ^ 64 + 2 ^ 63) mod 2 ^ 64 = (a - b + 2 ^ 63) mod 2 ^ 64"
    by (metis (no_types, opaque_lifting) add_diff_cancel_right mod_add_left_eq mod_diff_eq)
  ultimately show ?thesis by (simp add: wrap64_def)
qed

lemma add64_sum: "add64 f xs = wrap64 (sum_list (map f xs))"
proof -
  have "fold (\<lambda>x n. wrap64 (n + f x)) xs (wrap64 a) = wrap64 (a + sum_list (map f xs))" for a
    by (induction xs arbitrary: a) (simp_all add: wrap64_add add.assoc)
  from this [of 0] show ?thesis by (simp add: add64_def wrap64_def)
qed

definition account_usage :: "agent_store \<Rightarrow> string \<Rightarrow> Account \<Rightarrow> AgentAccountUsage" where
  "account_usage s tenantID account =
     (let sessions = filter (\<lambda>x. ases_AccountID x = acc_ID account) (rows (ags_sessions s) tenantID);
          messages = filter (\<lambda>m. asm_SessionID m \<in> set (map ases_ID sessions)) (rows (ags_sessionMessages s) tenantID);
          runs = filter (\<lambda>r. arun_AccountID r = acc_ID account) (rows (ags_runs s) tenantID);
          lastActive = fold latest (map session_activity sessions) None;
          lastActive = fold latest (map asm_CreatedAt messages) lastActive;
          used = add64 arun_TotalTokens runs; cached = add64 arun_CachedTokens runs
      in \<lparr> aau_AccountID = acc_ID account, aau_DisplayName = acc_DisplayName account, aau_Email = acc_Email account,
           aau_Status = acc_Status account, aau_SessionCount = int (length sessions), aau_MessageCount = int (length messages),
           aau_LLMCallCount = add64 arun_LLMCallCount runs, aau_InputTokens = add64 arun_InputTokens runs,
           aau_CachedTokens = cached, aau_OutputTokens = add64 arun_OutputTokens runs,
           aau_TotalTokens = used, aau_ActualTokens = saved_tokens used cached, aau_LastActiveAt = lastActive \<rparr>)"

definition by_name :: "AgentAccountUsage \<Rightarrow> AgentAccountUsage \<Rightarrow> bool" where
  "by_name a b =
     (if ToLower (aau_DisplayName a) \<noteq> ToLower (aau_DisplayName b)
      then ToLower (aau_DisplayName a) < ToLower (aau_DisplayName b) else aau_AccountID a < aau_AccountID b)"

definition by_volume :: "AgentAccountUsage \<Rightarrow> AgentAccountUsage \<Rightarrow> bool" where
  "by_volume a b =
     (if aau_SessionCount a \<noteq> aau_SessionCount b then aau_SessionCount a > aau_SessionCount b
      else if aau_MessageCount a \<noteq> aau_MessageCount b then aau_MessageCount a > aau_MessageCount b
      else by_name a b)"

definition agentUsageByAccountLocked :: "agent_store \<Rightarrow> string \<Rightarrow> Account list \<Rightarrow> AgentAccountUsage list" where
  "agentUsageByAccountLocked s tenantID accounts = sort_less by_volume (map (account_usage s tenantID) accounts)"

text \<open>The order of a report: a number, ascending or descending, then the name.\<close>

definition ascending :: "(AgentAccountUsage \<Rightarrow> int) \<Rightarrow> AgentAccountUsage \<Rightarrow> AgentAccountUsage \<Rightarrow> bool" where
  "ascending f a b = (if f a \<noteq> f b then f a < f b else by_name a b)"

definition descending :: "(AgentAccountUsage \<Rightarrow> int) \<Rightarrow> AgentAccountUsage \<Rightarrow> AgentAccountUsage \<Rightarrow> bool" where
  "descending f a b = (if f a \<noteq> f b then f a > f b else by_name a b)"

definition by_activity :: "(int \<Rightarrow> int \<Rightarrow> bool) \<Rightarrow> AgentAccountUsage \<Rightarrow> AgentAccountUsage \<Rightarrow> bool" where
  "by_activity lt a b =
     (case (aau_LastActiveAt a, aau_LastActiveAt b) of
        (None, _) \<Rightarrow> False
      | (Some _, None) \<Rightarrow> True
      | (Some x, Some y) \<Rightarrow> if x \<noteq> y then lt x y else by_name a b)"

definition agentAccountUsageLess :: "string \<Rightarrow> AgentAccountUsage \<Rightarrow> AgentAccountUsage \<Rightarrow> bool" where
  "agentAccountUsageLess order =
     (if order = ''session_count_asc'' then ascending aau_SessionCount
      else if order = ''session_count_desc'' then descending aau_SessionCount
      else if order = ''usage_desc'' \<or> order = [] then by_volume
      else if order = ''message_count_asc'' then ascending aau_MessageCount
      else if order = ''message_count_desc'' then descending aau_MessageCount
      else if order = ''total_tokens_asc'' then ascending aau_TotalTokens
      else if order = ''total_tokens_desc'' then descending aau_TotalTokens
      else if order = ''cached_tokens_asc'' then ascending aau_CachedTokens
      else if order = ''cached_tokens_desc'' then descending aau_CachedTokens
      else if order = ''actual_tokens_asc'' then ascending aau_ActualTokens
      else if order = ''actual_tokens_desc'' then descending aau_ActualTokens
      else if order = ''last_active_at_asc'' then by_activity (<)
      else if order = ''last_active_at_desc'' then by_activity (>)
      else by_name)"

definition usage_matches :: "AgentAccountUsageQuery \<Rightarrow> AgentAccountUsage \<Rightarrow> bool" where
  "usage_matches query item \<longleftrightarrow>
     (aauq_Status query = [] \<or> aau_Status item = aauq_Status query) \<and>
     (let searchQuery = ToLower (TrimSpace (aauq_Query query));
          haystack = ToLower (aau_DisplayName item @ '' '' @ aau_Email item @ '' '' @ aau_AccountID item)
      in searchQuery = [] \<or> strings_Contains haystack searchQuery)"

text \<open>A page whose start is negative is a panic.\<close>

definition ListAgentUsageByAccount ::
    "agent_store \<Rightarrow> string \<Rightarrow> Account list \<Rightarrow> AgentAccountUsageQuery \<Rightarrow> PageRequest \<Rightarrow>
     (AgentAccountUsage list \<times> int) option" where
  "ListAgentUsageByAccount s tenantID accounts query page =
     (let filtered = sort_less (agentAccountUsageLess (pr_Sort page))
            (filter (usage_matches query) (agentUsageByAccountLocked s tenantID accounts));
          count = int (length filtered)
      in map_option (\<lambda>items. (items, count)) (paginateMemory filtered (pr_Page page) (pr_PageSize page)))"

definition GetAgentUsageByAccount :: "agent_store \<Rightarrow> string \<Rightarrow> Account list \<Rightarrow> string \<Rightarrow> AgentAccountUsage option" where
  "GetAgentUsageByAccount s tenantID accounts accountID =
     find (\<lambda>item. aau_AccountID item = accountID) (agentUsageByAccountLocked s tenantID accounts)"

definition GetAgentUsageSummary :: "agent_store \<Rightarrow> string \<Rightarrow> Account list \<Rightarrow> AgentUsageSummary" where
  "GetAgentUsageSummary s tenantID accounts =
     (let items = agentUsageByAccountLocked s tenantID accounts;
          total_of = (\<lambda>f. add64 f items)
      in \<lparr> ausum_UserCount = int (length items),
           ausum_UsersWithUsage = int (length (filter (\<lambda>i. aau_SessionCount i > 0 \<or> aau_MessageCount i > 0) items)),
           ausum_SessionCount = total_of aau_SessionCount, ausum_MessageCount = total_of aau_MessageCount,
           ausum_LLMCallCount = total_of aau_LLMCallCount, ausum_InputTokens = total_of aau_InputTokens,
           ausum_CachedTokens = total_of aau_CachedTokens, ausum_OutputTokens = total_of aau_OutputTokens,
           ausum_TotalTokens = total_of aau_TotalTokens, ausum_ActualTokens = total_of aau_ActualTokens \<rparr>)"

definition session_usage :: "agent_store \<Rightarrow> string \<Rightarrow> AgentSession \<Rightarrow> AgentSessionUsage" where
  "session_usage s tenantID session =
     (let messages = filter (\<lambda>m. asm_SessionID m = ases_ID session) (rows (ags_sessionMessages s) tenantID);
          runs = filter (\<lambda>r. arun_SessionID r = ases_ID session) (rows (ags_runs s) tenantID);
          lastActive = fold latest (map asm_CreatedAt messages) (Some (session_activity session));
          lastActive = fold latest (map arun_UpdatedAt runs) lastActive;
          used = add64 arun_TotalTokens runs; cached = add64 arun_CachedTokens runs
      in \<lparr> asu_SessionID = ases_ID session, asu_AccountID = ases_AccountID session, asu_Title = ases_Title session,
           asu_Status = ases_Status session, asu_MessageCount = int (length messages),
           asu_LLMCallCount = add64 arun_LLMCallCount runs, asu_InputTokens = add64 arun_InputTokens runs,
           asu_CachedTokens = cached, asu_OutputTokens = add64 arun_OutputTokens runs,
           asu_TotalTokens = used, asu_ActualTokens = saved_tokens used cached, asu_LastActiveAt = lastActive \<rparr>)"

definition session_usage_less :: "AgentSessionUsage \<Rightarrow> AgentSessionUsage \<Rightarrow> bool" where
  "session_usage_less a b =
     (case (asu_LastActiveAt a, asu_LastActiveAt b) of
        (Some x, Some y) \<Rightarrow> if x \<noteq> y then x > y else asu_SessionID a > asu_SessionID b
      | _ \<Rightarrow> asu_SessionID a > asu_SessionID b)"

definition ListAgentUsageBySession ::
    "agent_store \<Rightarrow> string \<Rightarrow> string \<Rightarrow> PageRequest \<Rightarrow> (AgentSessionUsage list \<times> int) option" where
  "ListAgentUsageBySession s tenantID accountID page =
     (let out = sort_less session_usage_less (map (session_usage s tenantID)
            (filter (\<lambda>session. ases_AccountID session = accountID) (rows (ags_sessions s) tenantID)));
          count = int (length out);
          start = wrap64 (wrap64 (pr_Page page - 1) * pr_PageSize page);
          start = (if start > count then count else start);
          stop = wrap64 (start + pr_PageSize page);
          stop = (if stop > count then count else stop)
      in map_option (\<lambda>items. (items, count)) (slice out start stop))"

end
