(* ===== verification/Agent_Sessions.thy ===== *)
theory Agent_Sessions
  imports Keyset Agent_Usage Workflow_Notice
begin

text \<open>
  Sessions and memories of an account with its agents, the published definition it talks to and the usage
  reports: \<open>agent_session_service.go\<close>, \<open>agent_usage_service.go\<close> and the published
  definition of \<open>agent_service.go\<close> under \<open>src/internal/service/agent\<close>, with
  \<open>agent_session_lookup.go\<close> and \<open>agent_visibility_service.go\<close> beside it.  The state is
  that of the application together with the agent tables; a transaction restores both.
\<close>

section \<open>State\<close>

record agent_state =
  gs_app :: app_state
  gs_agents :: agent_store

type_synonym 'a gop = "(agent_state, err, 'a) op"

definition appS :: "'a aop \<Rightarrow> 'a gop" where
  "appS m = (\<lambda>s. case m (gs_app s) of (r, a) \<Rightarrow> (r, s\<lparr>gs_app := a\<rparr>))"

definition agentsS :: "(agent_store \<Rightarrow> agent_store) \<Rightarrow> unit gop" where
  "agentsS f = modS (\<lambda>s. s\<lparr>gs_agents := f (gs_agents s)\<rparr>)"

definition readAgents :: "(agent_store \<Rightarrow> 'a) \<Rightarrow> 'a gop" where
  "readAgents f = getS (\<lambda>s. f (gs_agents s))"

definition newIDG :: "app_env \<Rightarrow> string \<Rightarrow> string gop" where
  "newIDG c kind = appS (newIDS c kind)"

text \<open>An operation that changes a table and may find nothing there.\<close>

definition changeAgents :: "AppError \<Rightarrow> (agent_store \<Rightarrow> agent_store \<times> 'a option) \<Rightarrow> 'a gop" where
  "changeAgents e f = (\<lambda>s. case f (gs_agents s) of
     (t, None) \<Rightarrow> (Inl (AppErr e), s\<lparr>gs_agents := t\<rparr>) | (t, Some x) \<Rightarrow> (Inr x, s\<lparr>gs_agents := t\<rparr>))"

definition inTransaction :: "'a gop \<Rightarrow> 'a gop" where
  "inTransaction m = (\<lambda>s. case m s of
     (Inl e, t) \<Rightarrow> (Inl e, s\<lparr>gs_app := rolledBack (gs_app s) (gs_app t)\<rparr>)
   | (Inr x, t) \<Rightarrow> (Inr x, t))"

definition requireAgentAuthz :: "app_env \<Rightarrow> RequestContext \<Rightarrow> string \<Rightarrow> string \<Rightarrow> string \<Rightarrow> (Account \<times> CheckResult) gop" where
  "requireAgentAuthz c ctx resource action resourceID =
     appS (authzS c (\<lambda>az. requireServiceAuthz az ctx AppAgent resource action resourceID))"

abbreviation (input) ResourceRun :: string where "ResourceRun \<equiv> ''run''"

section \<open>Requests and answers\<close>

record ListAgentSessionsQuery =
  lasq_AgentID :: string
  lasq_Status :: string
  lasq_Cursor :: string
  lasq_PageSize :: int

definition zero_ListAgentSessionsQuery :: ListAgentSessionsQuery where
  "zero_ListAgentSessionsQuery = \<lparr>
     lasq_AgentID = [],
     lasq_Status = [],
     lasq_Cursor = [],
     lasq_PageSize = 0 \<rparr>"

record ListAgentSessionMessagesQuery =
  lamq_Cursor :: string
  lamq_PageSize :: int

definition zero_ListAgentSessionMessagesQuery :: ListAgentSessionMessagesQuery where
  "zero_ListAgentSessionMessagesQuery = \<lparr>
     lamq_Cursor = [],
     lamq_PageSize = 0 \<rparr>"

record AgentSessionListPage =
  aslp_Items :: "AgentSession list"
  aslp_NextCursor :: string

definition zero_AgentSessionListPage :: AgentSessionListPage where
  "zero_AgentSessionListPage = \<lparr>
     aslp_Items = [],
     aslp_NextCursor = [] \<rparr>"

record AgentSessionMessageListPage =
  amlp_Items :: "AgentSessionMessage list"
  amlp_NextCursor :: string

definition zero_AgentSessionMessageListPage :: AgentSessionMessageListPage where
  "zero_AgentSessionMessageListPage = \<lparr>
     amlp_Items = [],
     amlp_NextCursor = [] \<rparr>"

record AgentUsageResponse =
  aur_Items :: "AgentAccountUsage list"
  aur_Total :: int
  aur_Page :: int
  aur_PageSize :: int
  aur_Summary :: AgentUsageSummary

definition zero_AgentUsageResponse :: AgentUsageResponse where
  "zero_AgentUsageResponse = \<lparr>
     aur_Items = [],
     aur_Total = 0,
     aur_Page = 0,
     aur_PageSize = 0,
     aur_Summary = zero_AgentUsageSummary \<rparr>"

record AgentSessionUsagePage =
  asup_Account :: AgentAccountUsage
  asup_Items :: "AgentSessionUsage list"
  asup_Total :: int
  asup_Page :: int
  asup_PageSize :: int

definition zero_AgentSessionUsagePage :: AgentSessionUsagePage where
  "zero_AgentSessionUsagePage = \<lparr>
     asup_Account = zero_AgentAccountUsage,
     asup_Items = [],
     asup_Total = 0,
     asup_Page = 0,
     asup_PageSize = 0 \<rparr>"

record CreateAgentSessionInput =
  casi_AgentID :: string
  casi_Title :: string

definition zero_CreateAgentSessionInput :: CreateAgentSessionInput where
  "zero_CreateAgentSessionInput = \<lparr>
     casi_AgentID = [],
     casi_Title = [] \<rparr>"

record UpdateAgentSessionInput =
  uasi_Title :: "string option"
  uasi_Status :: "string option"

definition zero_UpdateAgentSessionInput :: UpdateAgentSessionInput where
  "zero_UpdateAgentSessionInput = \<lparr>
     uasi_Title = None,
     uasi_Status = None \<rparr>"

record CreateAgentMemoryInput =
  cami_AgentID :: string
  cami_SessionID :: string
  cami_Key :: string
  cami_Content :: string
  cami_Importance :: int

definition zero_CreateAgentMemoryInput :: CreateAgentMemoryInput where
  "zero_CreateAgentMemoryInput = \<lparr>
     cami_AgentID = [],
     cami_SessionID = [],
     cami_Key = [],
     cami_Content = [],
     cami_Importance = 0 \<rparr>"

record UpdateAgentMemoryInput =
  uami_Key :: "string option"
  uami_Content :: "string option"
  uami_Importance :: "int option"
  uami_ExpiresAt :: "string option"

definition zero_UpdateAgentMemoryInput :: UpdateAgentMemoryInput where
  "zero_UpdateAgentMemoryInput = \<lparr>
     uami_Key = None,
     uami_Content = None,
     uami_Importance = None,
     uami_ExpiresAt = None \<rparr>"

record ListAgentMemoriesQuery =
  lamemq_AgentID :: string
  lamemq_SessionID :: string

definition zero_ListAgentMemoriesQuery :: ListAgentMemoriesQuery where
  "zero_ListAgentMemoriesQuery = \<lparr>
     lamemq_AgentID = [],
     lamemq_SessionID = [] \<rparr>"


section \<open>Sessions\<close>

definition next_page :: "KeysetPage \<Rightarrow> ('a \<Rightarrow> int) \<Rightarrow> ('a \<Rightarrow> string) \<Rightarrow> 'a list \<Rightarrow> 'a list \<times> string" where
  "next_page page created ident items =
     (if int (length items) > kp_Limit page
      then let items = take (nat (kp_Limit page)) items
           in (items, encodeAgentKeysetCursor (created (last items)) (ident (last items)))
      else (items, []))"

definition session_page ::
    "agent_store \<Rightarrow> string \<Rightarrow> string \<Rightarrow> ListAgentSessionsQuery \<Rightarrow> AgentSessionListPage res" where
  "session_page s tenantID accountID query =
     bindR (normalizeAgentKeysetPage (lasq_Cursor query) (lasq_PageSize query)) (\<lambda>page.
       let fetch = page\<lparr>kp_Limit := kp_Limit page + 1\<rparr>;
           items = ListAgentSessionsByAccount s tenantID accountID (TrimSpace (lasq_Status query))
             (TrimSpace (lasq_AgentID query)) fetch
       in case next_page page ases_CreatedAt ases_ID items of
            (items, nextCursor) \<Rightarrow> Inr \<lparr> aslp_Items = items, aslp_NextCursor = nextCursor \<rparr>)"

definition ListSessions :: "app_env \<Rightarrow> RequestContext \<Rightarrow> ListAgentSessionsQuery \<Rightarrow> AgentSessionListPage gop" where
  "ListSessions c ctx query =
     bindS (requireAgentAuthz c ctx ResourceRun ActionRead []) (\<lambda>(account, _).
       tryS (\<lambda>s. session_page (gs_agents s) (ctx_TenantID ctx) (acc_ID account) query))"

definition CurrentAgentSession :: "RequestContext \<Rightarrow> string \<Rightarrow> string \<Rightarrow> AgentSession gop" where
  "CurrentAgentSession ctx accountID ident =
     (let ident = TrimSpace ident in
      if ident = [] then failS (BadRequest ''id is required'')
      else bindS (readAgents (\<lambda>s. GetAgentSession s (ctx_TenantID ctx) ident)) (\<lambda>found. case found of
          None \<Rightarrow> failS (NotFound ''agent session'' ident)
        | Some session \<Rightarrow> if ases_AccountID session \<noteq> accountID then failS (NotFound ''agent session'' ident)
                          else retS session))"

definition lockCurrentAgentSession :: "RequestContext \<Rightarrow> string \<Rightarrow> string \<Rightarrow> AgentSession gop" where
  "lockCurrentAgentSession ctx accountID ident = CurrentAgentSession ctx accountID ident"

definition ensureNoActiveAgentRun :: "RequestContext \<Rightarrow> string \<Rightarrow> unit gop" where
  "ensureNoActiveAgentRun ctx sessionID =
     bindS (readAgents (\<lambda>s. CountActiveAgentRunsBySession s (ctx_TenantID ctx) (TrimSpace sessionID))) (\<lambda>count.
       if count > 0
       then failS (WithReasonCode (Conflict ''agent session already has an active chat run'') ''agent_chat_run_active'')
       else retS ())"

definition GetSession :: "app_env \<Rightarrow> RequestContext \<Rightarrow> string \<Rightarrow> AgentSession gop" where
  "GetSession c ctx ident =
     bindS (requireAgentAuthz c ctx ResourceRun ActionRead (TrimSpace ident)) (\<lambda>(account, _).
       CurrentAgentSession ctx (acc_ID account) ident)"

definition updated_session :: "UpdateAgentSessionInput \<Rightarrow> AgentSession \<Rightarrow> AgentSession res" where
  "updated_session input session =
     (let session = (case uasi_Title input of None \<Rightarrow> session | Some title \<Rightarrow> session\<lparr>ases_Title := TrimSpace title\<rparr>)
      in case uasi_Status input of
           None \<Rightarrow> Inr session
         | Some status \<Rightarrow>
             if TrimSpace status \<noteq> AgentSessionStatusActive \<and> TrimSpace status \<noteq> AgentSessionStatusArchived
             then Inl (AppErr (BadRequest ''status must be active or archived''))
             else Inr (session\<lparr>ases_Status := TrimSpace status\<rparr>))"

definition UpdateSession :: "app_env \<Rightarrow> RequestContext \<Rightarrow> string \<Rightarrow> UpdateAgentSessionInput \<Rightarrow> AgentSession gop" where
  "UpdateSession c ctx ident input =
     bindS (requireAgentAuthz c ctx ResourceRun ActionUpdate (TrimSpace ident)) (\<lambda>(account, _).
     inTransaction (
       bindS (lockCurrentAgentSession ctx (acc_ID account) ident) (\<lambda>locked.
       bindS (liftS (updated_session input locked)) (\<lambda>locked.
       let locked = locked\<lparr>ases_UpdatedAt := ap_now c\<rparr> in
       bindS (agentsS (\<lambda>s. UpsertAgentSession s locked)) (\<lambda>_. retS locked)))))"

definition new_conversation_title :: string where "new_conversation_title = runes [26032, 23565, 35441]"

definition cleared_session :: "int \<Rightarrow> string \<Rightarrow> AgentSession \<Rightarrow> AgentSession" where
  "cleared_session now segmentID session =
     (let version = (if ases_ContextVersion session \<le> 0 then 1 else ases_ContextVersion session)
      in session\<lparr>ases_ContextVersion := wrap64 (version + 1), ases_SegmentID := segmentID, ases_Title := new_conversation_title,
           ases_LastMessageAt := None, ases_UpdatedAt := now\<rparr>)"

definition ClearSessionContext :: "app_env \<Rightarrow> RequestContext \<Rightarrow> string \<Rightarrow> AgentSession gop" where
  "ClearSessionContext c ctx ident =
     bindS (requireAgentAuthz c ctx ResourceRun ActionCreate (TrimSpace ident)) (\<lambda>(account, _).
     inTransaction (
       bindS (lockCurrentAgentSession ctx (acc_ID account) ident) (\<lambda>locked.
       if ases_Status locked \<noteq> AgentSessionStatusActive
       then failS (WithReasonCode (BadRequest ''agent session is archived'') ''agent_session_archived'')
       else bindS (ensureNoActiveAgentRun ctx (ases_ID locked)) (\<lambda>_.
         bindS (newIDG c ''aseg'') (\<lambda>segmentID.
         let locked = cleared_session (ap_now c) segmentID locked in
         bindS (agentsS (\<lambda>s. UpsertAgentSession s locked)) (\<lambda>_. retS locked))))))"

definition DeleteSession :: "app_env \<Rightarrow> RequestContext \<Rightarrow> string \<Rightarrow> AgentSession gop" where
  "DeleteSession c ctx ident =
     bindS (requireAgentAuthz c ctx ResourceRun ActionDelete (TrimSpace ident)) (\<lambda>(account, _).
     bindS (CurrentAgentSession ctx (acc_ID account) ident) (\<lambda>session.
       changeAgents (NotFound ''agent session'' ident)
         (\<lambda>s. DeleteAgentSession s (ctx_TenantID ctx) (ases_ID session))))"

section \<open>The agent an account may use\<close>

definition AgentDefinitionVisibleToAccount ::
    "app_env \<Rightarrow> RequestContext \<Rightarrow> Account \<Rightarrow> AgentDefinition \<Rightarrow> app_state \<Rightarrow> bool res" where
  "AgentDefinitionVisibleToAccount c ctx account agent s =
     (let targets = filter (\<lambda>t. t \<noteq> []) (map TrimSpace (adn_VisibilityTargets agent)) in
      if adn_Visibility agent = [] \<or> adn_Visibility agent = AgentVisibilityAll then Inr True
      else if adn_Visibility agent = AgentVisibilityDepartment
      then (if targets = [] \<or> TrimSpace (acc_EmployeeID account) = [] then Inr False
            else case GetEmployee (ap_mem s) (ctx_TenantID ctx) (acc_EmployeeID account) of
                None \<Rightarrow> Inr False
              | Some employee \<Rightarrow> Inr (TrimSpace (emp_OrgUnitID employee) \<in> set targets))
      else if adn_Visibility agent = AgentVisibilityRole
      then (if targets = [] then Inr False
            else bindR (activeAssumableRole (az_env (authz_of c (ap_mem s))) ctx account) (\<lambda>(role, _).
              case role of None \<Rightarrow> Inr False | Some r \<Rightarrow> Inr (ar_ID r \<in> set targets)))
      else Inr False)"

text \<open>The definition as it was when its current version was published.\<close>

definition at_version :: "AgentDefinitionVersion \<Rightarrow> AgentDefinition \<Rightarrow> AgentDefinition" where
  "at_version v agent = agent\<lparr>adn_PublishedRevisionID := adv_ID v, adn_Name := adv_Name v, adn_Description := adv_Description v,
     adn_Emoji := adv_Emoji v, adn_Category := adv_Category v, adn_Visibility := adv_Visibility v,
     adn_VisibilityTargets := adv_VisibilityTargets v, adn_MainAgentRole := adv_MainAgentRole v,
     adn_SubAgents := adv_SubAgents v, adn_SystemPrompt := adv_SystemPrompt v, adn_WelcomeMessage := adv_WelcomeMessage v,
     adn_SuggestedQuestions := adv_SuggestedQuestions v,
     adn_SuggestedQuestionTranslations := adv_SuggestedQuestionTranslations v, adn_Tools := adv_Tools v,
     adn_ExternalToolIDs := adv_ExternalToolIDs v, adn_KnowledgeBaseIDs := adv_KnowledgeBaseIDs v,
     adn_ModelID := adv_ModelID v, adn_TimeoutSeconds := adv_TimeoutSeconds v\<rparr>"

text \<open>
  The cipher of stored credentials, if one is configured (\<open>decrypt ciphertext additional_data\<close>), and the
  digest of the configuration of a model.
\<close>

record agent_crypto =
  ac_decrypt :: "(string \<Rightarrow> string \<Rightarrow> string option) option"
  ac_digest :: "agent_model_config \<Rightarrow> string"

definition AgentModelCredentialAAD :: "string \<Rightarrow> string \<Rightarrow> string" where
  "AgentModelCredentialAAD tenantID modelID =
     TrimSpace tenantID @ [CHR 0x00] @ ''agent-model'' @ [CHR 0x00] @ TrimSpace modelID"

definition currentAgentModel :: "agent_crypto \<Rightarrow> agent_store \<Rightarrow> string \<Rightarrow> string \<Rightarrow> AgentModel res" where
  "currentAgentModel k s tenantID ident =
     (let ident = TrimSpace ident in
      if ident = [] then Inl (AppErr (BadRequest ''id is required''))
      else case GetAgentModel s tenantID ident of
          None \<Rightarrow> Inl (AppErr (NotFound ''agent model'' ident))
        | Some model \<Rightarrow>
            if TrimSpace (am_APIKeyCiphertext model) = [] then Inr model
            else case ac_decrypt k of
                None \<Rightarrow> Inl (AppErr (E 503 ''service_unavailable'' ''agent model credential storage is not configured''))
              | Some decrypt \<Rightarrow>
                  (case decrypt (am_APIKeyCiphertext model) (AgentModelCredentialAAD (am_TenantID model) (am_ID model)) of
                     None \<Rightarrow> Inl (AppErr (E 500 ''internal_error'' ''failed to open agent model credential''))
                   | Some plaintext \<Rightarrow> Inr (model\<lparr>am_APIKey := plaintext\<rparr>)))"

definition binding_ok :: "agent_crypto \<Rightarrow> agent_store \<Rightarrow> string \<Rightarrow> string \<Rightarrow> string \<Rightarrow> unit res" where
  "binding_ok k s tenantID modelID expectedChecksum =
     bindR (currentAgentModel k s tenantID modelID) (\<lambda>model.
       if am_Status model \<noteq> AgentModelStatusActive \<or> TrimSpace expectedChecksum = [] \<or>
          AgentModelSyncConfigHash (ac_digest k) model \<noteq> expectedChecksum
       then Inl (AppErr (WithReasonCode (Conflict
              ''published agent model configuration changed; republish the agent definition'') ''agent_model_config_drift''))
       else Inr ())"

definition validatePublishedAgentModelBindings ::
    "agent_crypto \<Rightarrow> agent_store \<Rightarrow> string \<Rightarrow> AgentDefinition \<Rightarrow> string \<Rightarrow> unit res" where
  "validatePublishedAgentModelBindings k s tenantID agent rootChecksum =
     bindR (binding_ok k s tenantID (adn_ModelID agent) rootChecksum) (\<lambda>_.
       foldR (\<lambda>member _. binding_ok k s tenantID (atm_ModelID member) (atm_ModelConfigChecksum member))
         (adn_SubAgents agent) ())"

definition publishedAgentDefinition ::
    "app_env \<Rightarrow> agent_crypto \<Rightarrow> RequestContext \<Rightarrow> string \<Rightarrow> agent_state \<Rightarrow> AgentDefinition res" where
  "publishedAgentDefinition c k ctx ident s =
     (let tenantID = ctx_TenantID ctx; missing = Inl (AppErr (NotFound ''published agent definition'' ident)) in
      case GetAgentDefinition (gs_agents s) tenantID (TrimSpace ident) of
        None \<Rightarrow> missing
      | Some agent \<Rightarrow>
          if adn_Status agent \<noteq> AgentDefinitionStatusPublished then missing
          else let publishedVersion = (if adn_PublishedVersion agent \<le> 0 then adn_Version agent else adn_PublishedVersion agent);
                   snapshot = GetAgentDefinitionVersion (gs_agents s) tenantID (adn_ID agent) publishedVersion;
                   checksum = (case snapshot of None \<Rightarrow> [] | Some v \<Rightarrow> adv_ModelConfigChecksum v);
                   agent = (case snapshot of None \<Rightarrow> agent | Some v \<Rightarrow> at_version v agent)
               in bindR (resolveAccount (az_env (authz_of c (ap_mem (gs_app s)))) ctx) (\<lambda>(account, _).
                  bindR (AgentDefinitionVisibleToAccount c ctx account agent (gs_app s)) (\<lambda>visible.
                  if \<not> visible then missing
                  else bindR (validatePublishedAgentModelBindings k (gs_agents s) tenantID agent checksum) (\<lambda>_. Inr agent))))"

definition CreateSession ::
    "app_env \<Rightarrow> agent_crypto \<Rightarrow> RequestContext \<Rightarrow> CreateAgentSessionInput \<Rightarrow> AgentSession gop" where
  "CreateSession c k ctx input =
     bindS (requireAgentAuthz c ctx ResourceRun ActionCreate []) (\<lambda>(account, _).
     let agentID = TrimSpace (casi_AgentID input) in
     bindS (if agentID = [] then retS () else
            bindS (tryS (publishedAgentDefinition c k ctx agentID)) (\<lambda>_. retS ())) (\<lambda>_.
     bindS (newIDG c ''asess'') (\<lambda>ident.
     bindS (newIDG c ''aseg'') (\<lambda>segmentID.
     let session = zero_AgentSession\<lparr>ases_ID := ident, ases_TenantID := ctx_TenantID ctx, ases_AccountID := acc_ID account,
           ases_AgentID := agentID, ases_SegmentID := segmentID, ases_Title := TrimSpace (casi_Title input),
           ases_Status := AgentSessionStatusActive, ases_ContextVersion := 1, ases_CreatedAt := ap_now c,
           ases_UpdatedAt := ap_now c\<rparr>
     in bindS (agentsS (\<lambda>s. UpsertAgentSession s session)) (\<lambda>_. retS session)))))"

section \<open>Memories\<close>

abbreviation (input) AgentConfirmationMemoryKey :: string where "AgentConfirmationMemoryKey \<equiv> ''__agent_confirmation__''"

definition ListMemories :: "app_env \<Rightarrow> RequestContext \<Rightarrow> ListAgentMemoriesQuery \<Rightarrow> AgentMemory list gop" where
  "ListMemories c ctx query =
     bindS (requireAgentAuthz c ctx ResourceRun ActionRead []) (\<lambda>(account, _).
       readAgents (\<lambda>s. filter (\<lambda>item. amem_Key item \<noteq> AgentConfirmationMemoryKey)
         (ListAgentMemoriesByAccount (ap_now c) s (ctx_TenantID ctx) (acc_ID account) (TrimSpace (lamemq_AgentID query))
           (TrimSpace (lamemq_SessionID query)) 50)))"

definition checked_memory :: "AgentMemory \<Rightarrow> AgentMemory res" where
  "checked_memory m =
     (let m = m\<lparr>amem_AgentID := TrimSpace (amem_AgentID m), amem_SessionID := TrimSpace (amem_SessionID m),
            amem_SegmentID := TrimSpace (amem_SegmentID m), amem_SourceMessageID := TrimSpace (amem_SourceMessageID m),
            amem_Key := TrimSpace (amem_Key m), amem_Content := TrimSpace (amem_Content m)\<rparr>
      in if amem_Key m = [] then Inl (AppErr (BadRequest ''key is required''))
         else if amem_Content m = [] then Inl (AppErr (BadRequest ''content is required''))
         else let m = (if amem_Source m = [] then m\<lparr>amem_Source := AgentMemorySourceManual\<rparr> else m) in
           if amem_Source m \<noteq> AgentMemorySourceAuto \<and> amem_Source m \<noteq> AgentMemorySourceManual
           then Inl (AppErr (BadRequest ''source must be auto or manual''))
           else let m = (if amem_Importance m \<le> 0 then m\<lparr>amem_Importance := 1\<rparr> else m) in
             if amem_Importance m > 5 then Inl (AppErr (BadRequest ''importance must be between 1 and 5''))
             else let m = (if amem_Confidence m = 0 then m\<lparr>amem_Confidence := 1\<rparr> else m) in
               if amem_Confidence m < 0 \<or> amem_Confidence m > 1
               then Inl (AppErr (BadRequest ''confidence must be between 0 and 1''))
               else Inr (if amem_Status m = [] then m\<lparr>amem_Status := ''active''\<rparr> else m))"

definition normalizeAgentMemory :: "RequestContext \<Rightarrow> AgentMemory \<Rightarrow> AgentMemory gop" where
  "normalizeAgentMemory ctx m =
     bindS (liftS (checked_memory m)) (\<lambda>m.
       if amem_SessionID m \<noteq> []
       then bindS (CurrentAgentSession ctx (amem_AccountID m) (amem_SessionID m)) (\<lambda>session.
         if amem_AgentID m \<noteq> [] \<and> amem_AgentID m \<noteq> ases_AgentID session
         then failS (BadRequest ''agent id does not match the session'')
         else retS (m\<lparr>amem_Scope := ''conversation'', amem_AgentID := [], amem_SegmentID := ases_SegmentID session\<rparr>))
       else if amem_AgentID m \<noteq> [] then retS (m\<lparr>amem_Scope := ''agent'', amem_SegmentID := []\<rparr>)
       else retS (m\<lparr>amem_Scope := ''global'', amem_SegmentID := []\<rparr>))"

definition CreateMemory :: "app_env \<Rightarrow> RequestContext \<Rightarrow> CreateAgentMemoryInput \<Rightarrow> AgentMemory gop" where
  "CreateMemory c ctx input =
     bindS (requireAgentAuthz c ctx ResourceRun ActionCreate []) (\<lambda>(account, _).
     bindS (newIDG c ''amem'') (\<lambda>ident.
     bindS (normalizeAgentMemory ctx (zero_AgentMemory\<lparr>amem_ID := ident, amem_TenantID := ctx_TenantID ctx,
              amem_AccountID := acc_ID account, amem_AgentID := TrimSpace (cami_AgentID input),
              amem_SessionID := TrimSpace (cami_SessionID input), amem_Key := TrimSpace (cami_Key input),
              amem_Content := TrimSpace (cami_Content input), amem_Source := AgentMemorySourceManual,
              amem_Importance := cami_Importance input, amem_CreatedAt := ap_now c, amem_UpdatedAt := ap_now c\<rparr>)) (\<lambda>m.
     bindS (agentsS (\<lambda>s. UpsertAgentMemory s m)) (\<lambda>_. retS m))))"

definition currentAgentMemory :: "RequestContext \<Rightarrow> string \<Rightarrow> string \<Rightarrow> AgentMemory gop" where
  "currentAgentMemory ctx accountID ident =
     (let ident = TrimSpace ident in
      if ident = [] then failS (BadRequest ''id is required'')
      else bindS (readAgents (\<lambda>s. GetAgentMemory s (ctx_TenantID ctx) ident)) (\<lambda>found. case found of
          None \<Rightarrow> failS (NotFound ''agent memory'' ident)
        | Some m \<Rightarrow> if amem_AccountID m \<noteq> accountID then failS (NotFound ''agent memory'' ident) else retS m))"

definition parseOptionalAgentMemoryTime :: "app_env \<Rightarrow> string \<Rightarrow> int option res" where
  "parseOptionalAgentMemoryTime c raw =
     (let raw = TrimSpace raw in
      if raw = [] then Inr None
      else case ap_parse c raw of
          None \<Rightarrow> Inl (AppErr (BadRequest ''expires_at must be RFC3339'')) | Some t \<Rightarrow> Inr (Some t))"

definition UpdateMemory :: "app_env \<Rightarrow> RequestContext \<Rightarrow> string \<Rightarrow> UpdateAgentMemoryInput \<Rightarrow> AgentMemory gop" where
  "UpdateMemory c ctx ident input =
     bindS (requireAgentAuthz c ctx ResourceRun ActionUpdate (TrimSpace ident)) (\<lambda>(account, _).
     bindS (currentAgentMemory ctx (acc_ID account) ident) (\<lambda>m.
     let m = (case uami_Key input of None \<Rightarrow> m | Some key \<Rightarrow> m\<lparr>amem_Key := TrimSpace key\<rparr>);
         m = (case uami_Content input of None \<Rightarrow> m | Some content \<Rightarrow> m\<lparr>amem_Content := TrimSpace content\<rparr>);
         m = (case uami_Importance input of None \<Rightarrow> m | Some n \<Rightarrow> m\<lparr>amem_Importance := n\<rparr>) in
     bindS (liftS (case uami_ExpiresAt input of
         None \<Rightarrow> Inr m
       | Some raw \<Rightarrow> bindR (parseOptionalAgentMemoryTime c raw) (\<lambda>t. Inr (m\<lparr>amem_ExpiresAt := t\<rparr>)))) (\<lambda>m.
     bindS (normalizeAgentMemory ctx (m\<lparr>amem_UpdatedAt := ap_now c\<rparr>)) (\<lambda>m.
     bindS (agentsS (\<lambda>s. UpsertAgentMemory s m)) (\<lambda>_. retS m)))))"

definition DeleteMemory :: "app_env \<Rightarrow> RequestContext \<Rightarrow> string \<Rightarrow> AgentMemory gop" where
  "DeleteMemory c ctx ident =
     bindS (requireAgentAuthz c ctx ResourceRun ActionDelete (TrimSpace ident)) (\<lambda>(account, _).
     bindS (currentAgentMemory ctx (acc_ID account) ident) (\<lambda>m.
       changeAgents (NotFound ''agent memory'' ident)
         (\<lambda>s. DeleteAgentMemory s (ctx_TenantID ctx) (amem_ID m))))"

section \<open>Usage reports\<close>

definition usage_sorts :: "string list" where
  "usage_sorts = [''usage_desc'', ''session_count_asc'', ''session_count_desc'', ''message_count_asc'', ''message_count_desc'',
     ''total_tokens_asc'', ''total_tokens_desc'', ''cached_tokens_asc'', ''cached_tokens_desc'', ''actual_tokens_asc'',
     ''actual_tokens_desc'', ''last_active_at_asc'', ''last_active_at_desc'']"

definition requireAccountUsageRead :: "app_env \<Rightarrow> RequestContext \<Rightarrow> unit gop" where
  "requireAccountUsageRead c ctx =
     bindS (requireAgentAuthz c ctx ResourceUsage ActionRead []) (\<lambda>(_, decision).
       let scope = (if res_EffectiveScope decision = [] then res_Scope decision else res_EffectiveScope decision) in
       if scope \<noteq> ScopeAll \<and> scope \<noteq> ScopeTenant \<and> scope \<noteq> ScopeSystem
       then liftS (Inl (ForbiddenDataScope ''tenant-wide Agent usage requires an explicit all-tenant scope''))
       else retS ())"

definition tenantAccounts :: "RequestContext \<Rightarrow> agent_state \<Rightarrow> Account list" where
  "tenantAccounts ctx s = copyNestedValues (bucket (st_accounts (ap_mem (gs_app s))) (ctx_TenantID ctx))"

text \<open>The pages are normalised, so that slicing them does not panic; a panic would be the error here.\<close>

definition panicked :: err where "panicked = PlainErr ''panic''"

definition ListAccountUsage ::
    "app_env \<Rightarrow> RequestContext \<Rightarrow> AgentAccountUsageQuery \<Rightarrow> PageRequest \<Rightarrow> AgentUsageResponse gop" where
  "ListAccountUsage c ctx query page =
     bindS (requireAccountUsageRead c ctx) (\<lambda>_.
     let query = query\<lparr>aauq_Query := TrimSpace (aauq_Query query)\<rparr> in
     if length (aauq_Query query) > 200 then failS (BadRequest ''query must not exceed 200 characters'')
     else let query = query\<lparr>aauq_Status := TrimSpace (aauq_Status query)\<rparr> in
       if aauq_Status query \<notin> set [[], ''active'', ''disabled'', ''pending_invite'']
       then failS (BadRequest ''invalid account status'')
       else let sortOrder = TrimSpace (pr_Sort page);
                page = (NormalizePageRequest page)\<lparr>pr_Sort := (if sortOrder = [] then ''usage_desc'' else sortOrder)\<rparr>
            in if pr_Sort page \<notin> set usage_sorts then failS (BadRequest ''invalid usage sort'')
               else tryS (\<lambda>s. case ListAgentUsageByAccount (gs_agents s) (ctx_TenantID ctx) (tenantAccounts ctx s) query page of
                   None \<Rightarrow> Inl panicked
                 | Some (items, found) \<Rightarrow> Inr \<lparr> aur_Items = items, aur_Total = found, aur_Page = pr_Page page,
                     aur_PageSize = pr_PageSize page,
                     aur_Summary = GetAgentUsageSummary (gs_agents s) (ctx_TenantID ctx) (tenantAccounts ctx s) \<rparr>))"

definition ListAccountSessionUsage ::
    "app_env \<Rightarrow> RequestContext \<Rightarrow> string \<Rightarrow> PageRequest \<Rightarrow> AgentSessionUsagePage gop" where
  "ListAccountSessionUsage c ctx accountID page =
     bindS (requireAccountUsageRead c ctx) (\<lambda>_.
     let accountID = TrimSpace accountID in
     if accountID = [] then failS (BadRequest ''account id is required'')
     else tryS (\<lambda>s. case GetAgentUsageByAccount (gs_agents s) (ctx_TenantID ctx) (tenantAccounts ctx s) accountID of
         None \<Rightarrow> Inl (AppErr (NotFound ''account'' accountID))
       | Some account \<Rightarrow>
           let page = NormalizePageRequest page in
           case ListAgentUsageBySession (gs_agents s) (ctx_TenantID ctx) accountID page of
             None \<Rightarrow> Inl panicked
           | Some (items, found) \<Rightarrow> Inr \<lparr> asup_Account = account, asup_Items = items, asup_Total = found,
               asup_Page = pr_Page page, asup_PageSize = pr_PageSize page \<rparr>))"

end
