(* ===== verification/Agent_Properties.thy ===== *)
theory Agent_Properties
  imports Agent_Sessions Leave_Ledger
begin

text \<open>
  What the sessions and memories of agents promise: lists read by cursor are complete, an account has one active
  memory for a key, a usage report counts every run once, and clearing a context hides what was in it.
\<close>

section \<open>Lists read by cursor\<close>

interpretation sk: keyset session_less ases_ID
  by unfold_locales (auto simp: session_less_def split: if_splits)

interpretation mk: keyset message_less asm_ID
  by unfold_locales (auto simp: message_less_def split: if_splits)

lemma limited_Suc: "n \<ge> 0 \<Longrightarrow> limited (n + 1) xs = take (nat n + 1) xs"
  by (auto simp: limited_def nat_add_distrib)

lemma next_page_after:
  assumes "kp_Limit page = n" "n > 0"
  shows "next_page page created ident (limited (n + 1) zs) =
     (take (nat n) zs, if length zs > nat n then encodeAgentKeysetCursor (created (zs ! (nat n - 1))) (ident (zs ! (nat n - 1))) else [])"
proof -
  have "last (take (nat n) zs) = zs ! (nat n - 1)" if "length zs > nat n"
    using that assms(2) by (subst last_conv_nth) (auto simp: min_def)
  with assms show ?thesis by (auto simp: next_page_def limited_Suc Let_def min_def)
qed

text \<open>Rows whose place fits a cursor.\<close>

definition place_ok :: "int \<Rightarrow> string \<Rightarrow> bool" where
  "place_ok createdAt ident \<longleftrightarrow> in_int64 (createdAt - unix_epoch) \<and> TrimSpace ident \<noteq> []"

definition page_size :: "int \<Rightarrow> int" where
  "page_size n = (let n = (if n \<le> 0 then DefaultPageSize else n) in if n > MaxPageSize then MaxPageSize else n)"

lemma page_size_pos: "page_size n > 0"
  by (simp add: page_size_def Let_def)

lemma cursor_not_Nil: "encodeAgentKeysetCursor createdAt ident \<noteq> []"
  by (simp add: encodeAgentKeysetCursor_def EncodeToString_Nil)

lemma normalize_first: "normalizeAgentKeysetPage [] n = Inr (zero_KeysetPage\<lparr>kp_Limit := page_size n\<rparr>)"
  by (simp add: normalizeAgentKeysetPage_def page_size_def Let_def)

lemma normalize_cursor:
  assumes "place_ok createdAt ident"
  shows "normalizeAgentKeysetPage (encodeAgentKeysetCursor createdAt ident) n =
     Inr (zero_KeysetPage\<lparr>kp_Limit := page_size n, kp_HasCursor := True, kp_CursorCreatedAt := createdAt, kp_CursorID := ident\<rparr>)"
proof -
  have "TrimSpace (encodeAgentKeysetCursor createdAt ident) = encodeAgentKeysetCursor createdAt ident"
    by (simp add: encodeAgentKeysetCursor_def TrimSpace_EncodeToString)
  moreover have "decodeAgentKeysetCursor (encodeAgentKeysetCursor createdAt ident) = Some (createdAt, ident)"
    using assms by (intro decode_encode) (auto simp: place_ok_def)
  ultimately show ?thesis
    by (simp add: normalizeAgentKeysetPage_def page_size_def Let_def cursor_not_Nil)
qed

lemma after_session:
  "kp_CursorCreatedAt page = ases_CreatedAt c \<Longrightarrow> kp_CursorID page = ases_ID c \<Longrightarrow>
   agentSessionAfterKeysetCursor item page = session_less c item"
  by (auto simp: agentSessionAfterKeysetCursor_def session_less_def)

text \<open>A client that follows the cursors of the session list.\<close>

definition session_pages ::
    "nat \<Rightarrow> agent_store \<Rightarrow> string \<Rightarrow> string \<Rightarrow> ListAgentSessionsQuery \<Rightarrow> (err + AgentSession list list) option" where
  "session_pages fuel s tenantID accountID query =
     follow fuel (\<lambda>cursor. bindR (session_page s tenantID accountID (query\<lparr>lasq_Cursor := cursor\<rparr>)) (\<lambda>page.
       Inr (aslp_Items page, if aslp_NextCursor page = [] then None else Some (aslp_NextCursor page)))) []"

definition session_listing :: "agent_store \<Rightarrow> string \<Rightarrow> string \<Rightarrow> ListAgentSessionsQuery \<Rightarrow> AgentSession list" where
  "session_listing s tenantID accountID query =
     sortAgentSessions (filter (session_listed accountID (TrimSpace (lasq_Status query)) (TrimSpace (lasq_AgentID query)))
       (rows (ags_sessions s) tenantID))"

abbreviation session_code :: "AgentSession \<Rightarrow> string" where
  "session_code c \<equiv> encodeAgentKeysetCursor (ases_CreatedAt c) (ases_ID c)"

lemma session_page_from:
  assumes "normalizeAgentKeysetPage cursor (lasq_PageSize query) = Inr page" "kp_Limit page = page_size (lasq_PageSize query)"
    and "sortAgentSessions (filter (\<lambda>item. session_listed accountID (TrimSpace (lasq_Status query)) (TrimSpace (lasq_AgentID query)) item \<and>
           (kp_HasCursor page \<longrightarrow> agentSessionAfterKeysetCursor item (page\<lparr>kp_Limit := kp_Limit page + 1\<rparr>)))
         (rows (ags_sessions s) tenantID)) = zs"
  shows "bindR (session_page s tenantID accountID (query\<lparr>lasq_Cursor := cursor\<rparr>)) (\<lambda>page.
       Inr (aslp_Items page, if aslp_NextCursor page = [] then None else Some (aslp_NextCursor page))) =
     Inr (page_after (nat (page_size (lasq_PageSize query))) session_code zs)"
proof -
  let ?n = "page_size (lasq_PageSize query)"
  have items: "ListAgentSessionsByAccount s tenantID accountID (TrimSpace (lasq_Status query)) (TrimSpace (lasq_AgentID query))
      (page\<lparr>kp_Limit := kp_Limit page + 1\<rparr>) = limited (?n + 1) zs"
    using assms(2,3) by (simp add: ListAgentSessionsByAccount_def)
  have "next_page page ases_CreatedAt ases_ID (limited (?n + 1) zs) =
      (take (nat ?n) zs, if length zs > nat ?n then session_code (zs ! (nat ?n - 1)) else [])"
    by (rule next_page_after [OF assms(2) page_size_pos])
  then show ?thesis
    by (simp add: session_page_def assms(1) items page_after_def cursor_not_Nil)
qed

text \<open>
  C39.  Following the cursors of the session list from its first page yields every session of the account
  that matches the query exactly once, newest first, in pages no longer than asked for.
\<close>

theorem session_pages_complete:
  assumes "distinct (map ases_ID (rows (ags_sessions s) tenantID))"
    and "list_all (\<lambda>x. place_ok (ases_CreatedAt x) (ases_ID x)) (rows (ags_sessions s) tenantID)"
    and "fuel > length (rows (ags_sessions s) tenantID)"
  shows "\<exists>pages. session_pages fuel s tenantID accountID query = Some (Inr pages) \<and>
     concat pages = session_listing s tenantID accountID query \<and>
     list_all (\<lambda>p. int (length p) \<le> page_size (lasq_PageSize query)) pages"
proof -
  let ?n = "page_size (lasq_PageSize query)"
  let ?p = "session_listed accountID (TrimSpace (lasq_Status query)) (TrimSpace (lasq_AgentID query))"
  let ?xs = "session_listing s tenantID accountID query"
  have fresh: "distinct (map ases_ID (filter p (rows (ags_sessions s) tenantID)))" for p
    using assms(1) by (rule distinct_map_filter)
  have sorted: "sorted_wrt session_less ?xs"
    unfolding session_listing_def sortAgentSessions_def by (rule sk.sorted_sort [OF fresh])
  have first: "bindR (session_page s tenantID accountID (query\<lparr>lasq_Cursor := []\<rparr>)) (\<lambda>page.
       Inr (aslp_Items page, if aslp_NextCursor page = [] then None else Some (aslp_NextCursor page))) =
     Inr (page_after (nat ?n) session_code ?xs)"
    by (rule session_page_from [OF normalize_first]) (simp_all add: session_listing_def zero_KeysetPage_def)
  have later: "bindR (session_page s tenantID accountID (query\<lparr>lasq_Cursor := session_code c\<rparr>)) (\<lambda>page.
       Inr (aslp_Items page, if aslp_NextCursor page = [] then None else Some (aslp_NextCursor page))) =
     Inr (page_after (nat ?n) session_code zs)" if xs: "?xs = ys @ c # zs" for ys c zs
  proof (rule session_page_from [OF normalize_cursor])
    have "c \<in> set ?xs" using xs by simp
    then show "place_ok (ases_CreatedAt c) (ases_ID c)"
      using assms(2) by (auto simp: session_listing_def sortAgentSessions_def list_all_iff)
    have "sortAgentSessions (filter (\<lambda>item. ?p item \<and> session_less c item) (rows (ags_sessions s) tenantID)) =
        filter (session_less c) ?xs"
      unfolding session_listing_def sortAgentSessions_def
      by (subst sk.sort_filter [OF fresh, symmetric]) (simp add: conj_commute)
    also have "\<dots> = zs" using sk.after_cursor sorted xs by metis
    finally show "sortAgentSessions (filter (\<lambda>item. ?p item \<and> (kp_HasCursor (zero_KeysetPage\<lparr>kp_Limit := ?n, kp_HasCursor := True,
          kp_CursorCreatedAt := ases_CreatedAt c, kp_CursorID := ases_ID c\<rparr>) \<longrightarrow>
        agentSessionAfterKeysetCursor item (zero_KeysetPage\<lparr>kp_Limit := ?n, kp_HasCursor := True, kp_CursorCreatedAt := ases_CreatedAt c,
          kp_CursorID := ases_ID c\<rparr>\<lparr>kp_Limit := kp_Limit (zero_KeysetPage\<lparr>kp_Limit := ?n, kp_HasCursor := True,
          kp_CursorCreatedAt := ases_CreatedAt c, kp_CursorID := ases_ID c\<rparr>) + 1\<rparr>))) (rows (ags_sessions s) tenantID)) = zs"
      by (simp add: after_session)
  qed simp
  have "length ?xs \<le> length (rows (ags_sessions s) tenantID)"
    by (simp add: session_listing_def sortAgentSessions_def)
  with assms(3) have "length ?xs < fuel" by simp
  moreover have "nat ?n > 0" using page_size_pos [of "lasq_PageSize query"] by simp
  ultimately have "\<exists>pages. session_pages fuel s tenantID accountID query = Some (Inr pages) \<and> concat pages = ?xs \<and>
      list_all (\<lambda>p. length p \<le> nat ?n) pages"
    unfolding session_pages_def
    by (intro follow_complete [where code = session_code and xs = ?xs and ys = "[]" and zs = ?xs]) (use first later in \<open>simp_all only: append_Nil\<close>)
  then obtain pages where "session_pages fuel s tenantID accountID query = Some (Inr pages)" "concat pages = ?xs"
      "list_all (\<lambda>p. length p \<le> nat ?n) pages"
    by blast
  then show ?thesis using page_size_pos [of "lasq_PageSize query"]
    by (intro exI [of _ pages]) (auto simp: list_all_iff)
qed


definition sample_session :: "nat \<Rightarrow> AgentSession" where
  "sample_session n = zero_AgentSession\<lparr>ases_ID := replicate (Suc n) (CHR ''s''), ases_TenantID := ''t'', ases_AccountID := ''a'',
     ases_SegmentID := ''g'', ases_Status := AgentSessionStatusActive, ases_ContextVersion := 1,
     ases_CreatedAt := unix_epoch + int n\<rparr>"

definition sample_agents :: agent_store where
  "sample_agents = fold (\<lambda>n s. UpsertAgentSession s (sample_session n)) [1, 2, 3] empty_agents"

lemma sample_sessions: "rows (ags_sessions sample_agents) ''t'' = [sample_session 1, sample_session 2, sample_session 3]"
  by (simp add: sample_agents_def sample_session_def UpsertAgentSession_def empty_agents_def putNested_def bucket_def
      copyNestedValues_def Let_def numeral_eq_Suc)

lemma solid_s: "solid (CHR ''s'')"
  by (simp add: solid_def ascii_space_def space2_def space3_def)

lemma sample_ids: "list_all (\<lambda>c. c = CHR ''s'') s \<Longrightarrow> TrimSpace s = s"
  by (rule TrimSpace_solid, erule list.pred_mono_strong) (simp only: solid_s)

theorem session_pages_complete_witness:
  "\<exists>pages. session_pages 4 sample_agents ''t'' ''a'' (zero_ListAgentSessionsQuery\<lparr>lasq_PageSize := 2\<rparr>) = Some (Inr pages) \<and>
     concat pages = session_listing sample_agents ''t'' ''a'' (zero_ListAgentSessionsQuery\<lparr>lasq_PageSize := 2\<rparr>) \<and>
     list_all (\<lambda>p. int (length p) \<le> page_size (lasq_PageSize (zero_ListAgentSessionsQuery\<lparr>lasq_PageSize := 2\<rparr>))) pages"
  by (rule session_pages_complete)
    (simp_all add: sample_sessions sample_session_def place_ok_def in_int64_def zero_AgentSession_def sample_ids numeral_eq_Suc)

section \<open>Memories\<close>

text \<open>Rows are kept under their own id, and two active rows of a tenant differ in what they are about.\<close>

definition memories_ok :: "agent_store \<Rightarrow> bool" where
  "memories_ok s \<longleftrightarrow> table_wf (ags_memories s) \<and> tab.keyed amem_TenantID amem_ID (ags_memories s) \<and>
     (\<forall>tenantID i j a b. getNested (ags_memories s) tenantID i = Some a \<and> getNested (ags_memories s) tenantID j = Some b \<and>
        memory_active a \<and> memory_active b \<and> same_memory a b \<longrightarrow> i = j)"

lemma same_memory_sym: "same_memory a b \<Longrightarrow> same_memory b a"
  by (simp add: same_memory_def)

lemma same_memory_trans: "same_memory a b \<Longrightarrow> same_memory b c \<Longrightarrow> same_memory a c"
  by (simp add: same_memory_def)

lemma memories_ok_put:
  assumes "memories_ok s" "amem_TenantID v = t" "amem_ID v = i"
    and "\<And>j b. memory_active v \<Longrightarrow> getNested (ags_memories s) t j = Some b \<Longrightarrow> memory_active b \<Longrightarrow> same_memory v b \<Longrightarrow> j = i"
  shows "memories_ok (s\<lparr>ags_memories := putNested (ags_memories s) t i v\<rparr>)"
  unfolding memories_ok_def
proof (intro conjI allI impI)
  note ok = assms(1) [unfolded memories_ok_def]
  from ok show "table_wf (ags_memories (s\<lparr>ags_memories := putNested (ags_memories s) t i v\<rparr>))"
    by (simp add: tab.invar_put)
  from ok assms(2,3) show "tab.keyed amem_TenantID amem_ID (ags_memories (s\<lparr>ags_memories := putNested (ags_memories s) t i v\<rparr>))"
    by (simp add: tab.keyed_put)
  fix tenantID j k a b
  assume *: "getNested (ags_memories (s\<lparr>ags_memories := putNested (ags_memories s) t i v\<rparr>)) tenantID j = Some a \<and>
    getNested (ags_memories (s\<lparr>ags_memories := putNested (ags_memories s) t i v\<rparr>)) tenantID k = Some b \<and>
    memory_active a \<and> memory_active b \<and> same_memory a b"
  have get: "getNested (putNested (ags_memories s) t i v) n x =
      (if n = t \<and> x = i then Some v else getNested (ags_memories s) n x)" for n x
    using ok by (simp add: tab.get_put)
  show "j = k"
  proof (cases "tenantID = t")
    case False
    with * ok show ?thesis by (simp add: get) blast
  next
    case True
    consider "j = i" "k = i" | "j = i" "k \<noteq> i" | "j \<noteq> i" "k = i" | "j \<noteq> i" "k \<noteq> i" by blast
    then show ?thesis
    proof cases
      case 2
      then show ?thesis using * True assms(4) [of k b] by (simp add: get)
    next
      case 3
      then show ?thesis using * True assms(4) [of j a] by (simp add: get same_memory_sym)
    next
      case 4
      then show ?thesis using * True ok by (simp add: get) blast
    qed simp
  qed
qed

lemma bound_memory_ids: "amem_TenantID (bound_memory s v) = amem_TenantID v" "amem_ID (bound_memory s v) = amem_ID v"
  by (simp_all add: bound_memory_def Let_def)

lemma found_in_bucket:
  assumes "table_wf t" "(k, v) \<in> set (bucket t n)"
  shows "getNested t n k = Some v"
  using assms table_wf_bucket [OF assms(1), of n]
  by (auto simp: getNested_def bucket_def split: option.splits intro: map_of_is_SomeI)

lemma bucket_found:
  assumes "getNested t n k = Some v"
  shows "(k, v) \<in> set (bucket t n)"
  using assms by (auto simp: getNested_def bucket_def split: option.splits dest: map_of_SomeD)

lemma memories_ok_upsert:
  assumes ok: "memories_ok s"
  shows "memories_ok (UpsertAgentMemory s v)"
proof -
  let ?v = "bound_memory s v"
  let ?twin = "\<lambda>(k, e). memory_active e \<and> same_memory e ?v"
  let ?b = "bucket (ags_memories s) (amem_TenantID ?v)"
  have wf: "table_wf (ags_memories s)" using ok by (simp add: memories_ok_def)
  show ?thesis
  proof (cases "if \<not> memory_active ?v then None else find ?twin ?b")
    case None
    have "\<not> (memory_active ?v \<and> getNested (ags_memories s) (amem_TenantID ?v) j = Some b \<and> memory_active b \<and> same_memory ?v b)" for j b
    proof
      assume *: "memory_active ?v \<and> getNested (ags_memories s) (amem_TenantID ?v) j = Some b \<and> memory_active b \<and> same_memory ?v b"
      then have "(j, b) \<in> set ?b" "same_memory b ?v" by (auto dest: bucket_found same_memory_sym)
      with None * show False by (auto simp: find_None_iff)
    qed
    then have "memories_ok (s\<lparr>ags_memories := putNested (ags_memories s) (amem_TenantID ?v) (amem_ID ?v) ?v\<rparr>)"
      by (intro memories_ok_put [OF ok]) auto
    with None show ?thesis by (simp add: UpsertAgentMemory_def Let_def)
  next
    case (Some p)
    obtain k e where p: "p = (k, e)" by (cases p)
    with Some have found: "find ?twin ?b = Some (k, e)" and act: "memory_active ?v" by (auto split: if_splits)
    then have in_b: "(k, e) \<in> set ?b" and e: "memory_active e" "same_memory e ?v"
      by (auto simp: find_Some_iff in_set_conv_nth)
    have get: "getNested (ags_memories s) (amem_TenantID ?v) k = Some e" by (rule found_in_bucket [OF wf in_b])
    let ?w = "?v\<lparr>amem_ID := amem_ID e, amem_CreatedAt := amem_CreatedAt e\<rparr>"
    have "amem_ID e = k" using ok get by (auto simp: memories_ok_def tab.keyed_def)
    moreover have "j = k" if "getNested (ags_memories s) (amem_TenantID ?v) j = Some b" "memory_active b" "same_memory ?w b" for j b
    proof -
      have "same_memory e b" using e(2) that(3) by (simp add: same_memory_def)
      with ok get e(1) that(1,2) show ?thesis unfolding memories_ok_def by blast
    qed
    ultimately have "memories_ok (s\<lparr>ags_memories := putNested (ags_memories s) (amem_TenantID ?v) k ?w\<rparr>)"
      by (intro memories_ok_put [OF ok]) auto
    with Some p show ?thesis by (simp add: UpsertAgentMemory_def Let_def)
  qed
qed

lemma memories_ok_delete:
  assumes ok: "memories_ok s"
  shows "memories_ok (fst (DeleteAgentMemory s tenantID ident))"
proof (cases "getNested (ags_memories s) tenantID ident")
  case None
  with ok show ?thesis by (simp add: DeleteAgentMemory_def update_row_def)
next
  case (Some v)
  then have "amem_TenantID v = tenantID" "amem_ID v = ident" using ok by (auto simp: memories_ok_def tab.keyed_def)
  then have "memories_ok (s\<lparr>ags_memories := putNested (ags_memories s) tenantID ident (v\<lparr>amem_Status := ''superseded''\<rparr>)\<rparr>)"
    by (intro memories_ok_put [OF ok]) (simp_all add: memory_active_def)
  with Some show ?thesis by (simp add: DeleteAgentMemory_def update_row_def)
qed

lemma memories_ok_same: "ags_memories t = ags_memories s \<Longrightarrow> memories_ok t = memories_ok s"
  by (simp add: memories_ok_def)

lemma memories_ok_empty: "memories_ok empty_agents"
  by (simp add: memories_ok_def empty_agents_def table_wf_def tab.keyed_def getNested_def)

definition memory_state :: "agent_state \<Rightarrow> bool" where
  "memory_state s \<longleftrightarrow> memories_ok (gs_agents s)"

lemma preserves_app: "preserves memory_state (appS m)"
  by (simp add: preserves_def appS_def memory_state_def split: prod.split)

lemma preserves_read: "preserves memory_state (readAgents f)"
  unfolding readAgents_def by (rule preserves_basic)

lemma preserves_authz: "preserves memory_state (requireAgentAuthz c ctx r a i)"
  unfolding requireAgentAuthz_def by (rule preserves_app)

lemma preserves_id: "preserves memory_state (newIDG c kind)"
  unfolding newIDG_def by (rule preserves_app)

lemma preserves_upsert: "preserves memory_state (agentsS (\<lambda>s. UpsertAgentMemory s m))"
  unfolding agentsS_def by (rule preserves_mod) (simp add: memory_state_def memories_ok_upsert)

lemma preserves_remove: "preserves memory_state (changeAgents e (\<lambda>s. DeleteAgentMemory s t i))"
  unfolding preserves_def changeAgents_def memory_state_def
proof (intro allI impI)
  fix s
  assume "memories_ok (gs_agents s)"
  then have "memories_ok (fst (DeleteAgentMemory (gs_agents s) t i))" by (rule memories_ok_delete)
  then show "memories_ok (gs_agents (snd (case DeleteAgentMemory (gs_agents s) t i of
      (u, None) \<Rightarrow> (Inl (AppErr e), s\<lparr>gs_agents := u\<rparr>) | (u, Some x) \<Rightarrow> (Inr x, s\<lparr>gs_agents := u\<rparr>))))"
    by (auto split: prod.split option.split)
qed

lemmas memory_preserves = preserves_app preserves_read preserves_authz preserves_id preserves_upsert preserves_remove

lemma preserves_current_session: "preserves memory_state (CurrentAgentSession ctx a i)"
  unfolding CurrentAgentSession_def Let_def by (intro preserves_intros memory_preserves)

lemma preserves_current_memory: "preserves memory_state (currentAgentMemory ctx a i)"
  unfolding currentAgentMemory_def Let_def by (intro preserves_intros memory_preserves)

lemma preserves_normalize: "preserves memory_state (normalizeAgentMemory ctx m)"
  unfolding normalizeAgentMemory_def by (intro preserves_intros preserves_current_session)

text \<open>
  C37.  An account never has two active memories with the same key in the same scope, agent, session and
  segment: the empty tables have none, and creating, updating and deleting memories keep it so on every path,
  errors included.
\<close>

theorem one_active_memory:
  "memory_state \<lparr>gs_app = a, gs_agents = empty_agents\<rparr> \<and> preserves memory_state (CreateMemory c ctx input) \<and>
   preserves memory_state (UpdateMemory c ctx ident changes) \<and> preserves memory_state (DeleteMemory c ctx ident)"
proof (intro conjI)
  show "memory_state \<lparr>gs_app = a, gs_agents = empty_agents\<rparr>" by (simp add: memory_state_def memories_ok_empty)
  show "preserves memory_state (CreateMemory c ctx input)"
    unfolding CreateMemory_def by (intro preserves_intros memory_preserves preserves_normalize)
  show "preserves memory_state (UpdateMemory c ctx ident changes)"
    unfolding UpdateMemory_def Let_def by (intro preserves_intros memory_preserves preserves_normalize preserves_current_memory)
  show "preserves memory_state (DeleteMemory c ctx ident)"
    unfolding DeleteMemory_def by (intro preserves_intros memory_preserves preserves_current_memory)
qed

text \<open>
  The id a new memory is answered with is not kept when the key was in use: the row is stored under the id of
  the old one.
\<close>

lemma merged_memory_id_unknown:
  assumes "table_wf (ags_memories s)" "getNested (ags_memories s) (amem_TenantID v) (amem_ID v) = None"
    and "getNested (ags_memories s) (amem_TenantID v) k = Some e" "memory_active (bound_memory s v)"
    and "memory_active e" "same_memory e (bound_memory s v)"
  shows "GetAgentMemory (UpsertAgentMemory s v) (amem_TenantID v) (amem_ID v) = None"
proof -
  let ?v = "bound_memory s v"
  let ?twin = "\<lambda>(k, e). memory_active e \<and> same_memory e ?v"
  have "(k, e) \<in> set (bucket (ags_memories s) (amem_TenantID ?v))"
    using assms(3) by (simp add: bound_memory_ids bucket_found)
  then have "find ?twin (bucket (ags_memories s) (amem_TenantID ?v)) \<noteq> None"
    using assms(5,6) by (auto simp: find_None_iff)
  then obtain j x where found: "find ?twin (bucket (ags_memories s) (amem_TenantID ?v)) = Some (j, x)" by auto
  then have "(j, x) \<in> set (bucket (ags_memories s) (amem_TenantID v))"
    by (auto simp: find_Some_iff in_set_conv_nth bound_memory_ids)
  then have "getNested (ags_memories s) (amem_TenantID v) j = Some x" by (rule found_in_bucket [OF assms(1)])
  then have "j \<noteq> amem_ID v" using assms(2) by auto
  then show ?thesis using found assms(1,2,4)
    by (simp add: UpsertAgentMemory_def Let_def GetAgentMemory_def bound_memory_ids tab.get_put)
qed

section \<open>Usage\<close>

lemma sum_by_owner:
  fixes f :: "'a \<Rightarrow> int"
  assumes "distinct ks"
  shows "sum_list (map (\<lambda>k. sum_list (map f (filter (\<lambda>x. g x = k) xs))) ks) = sum_list (map f (filter (\<lambda>x. g x \<in> set ks) xs))"
  using assms
proof (induction ks)
  case (Cons k ks)
  have "sum_list (map f (filter (\<lambda>x. g x = k) xs)) + sum_list (map f (filter (\<lambda>x. g x \<in> set ks) xs)) =
      sum_list (map f (filter (\<lambda>x. g x = k \<or> g x \<in> set ks) xs))"
    using Cons.prems by (induction xs) auto
  with Cons show ?case by simp
qed simp

text \<open>What the report of a tenant is compared with: the rows of the accounts it lists, each once.\<close>

definition runs_of :: "agent_store \<Rightarrow> string \<Rightarrow> Account list \<Rightarrow> AgentRun list" where
  "runs_of s tenantID accounts = filter (\<lambda>r. arun_AccountID r \<in> set (map acc_ID accounts)) (rows (ags_runs s) tenantID)"

definition sessions_of :: "agent_store \<Rightarrow> string \<Rightarrow> Account list \<Rightarrow> AgentSession list" where
  "sessions_of s tenantID accounts = filter (\<lambda>x. ases_AccountID x \<in> set (map acc_ID accounts)) (rows (ags_sessions s) tenantID)"

definition messages_of :: "agent_store \<Rightarrow> string \<Rightarrow> Account list \<Rightarrow> AgentSessionMessage list" where
  "messages_of s tenantID accounts =
     filter (\<lambda>m. list_ex (\<lambda>x. ases_ID x = asm_SessionID m) (sessions_of s tenantID accounts)) (rows (ags_sessionMessages s) tenantID)"

lemma summed_by_account:
  fixes f :: "'a \<Rightarrow> int"
  assumes "distinct (map acc_ID accounts)"
  shows "sum_list (map (\<lambda>a. sum_list (map f (filter (\<lambda>x. g x = acc_ID a) xs))) accounts) =
    sum_list (map f (filter (\<lambda>x. g x \<in> set (map acc_ID accounts)) xs))"
  using sum_by_owner [OF assms, of f g xs] by (simp add: comp_def)

lemma wrap64_total: "wrap64 (sum_list (map (\<lambda>x. wrap64 (f x)) xs)) = wrap64 (sum_list (map f xs))"
proof (induction xs)
  case (Cons x xs)
  have "wrap64 (wrap64 (f x) + sum_list (map (\<lambda>x. wrap64 (f x)) xs)) = wrap64 (f x + sum_list (map (\<lambda>x. wrap64 (f x)) xs))"
    by (rule wrap64_add(1))
  also have "\<dots> = wrap64 (f x + wrap64 (sum_list (map f xs)))"
    by (metis Cons.IH wrap64_add(2))
  finally show ?case by (simp add: wrap64_add)
qed simp

text \<open>A number of the report, summed over its rows, is the sum over the accounts in any order.\<close>

lemma report_total:
  "add64 f (agentUsageByAccountLocked s tenantID accounts) = wrap64 (sum_list (map (\<lambda>a. f (account_usage s tenantID a)) accounts))"
  by (simp add: add64_sum agentUsageByAccountLocked_def sum_sorted comp_def)

lemma run_total:
  assumes "distinct (map acc_ID accounts)"
    and "\<And>a. f (account_usage s tenantID a) =
      add64 g (filter (\<lambda>r. arun_AccountID r = acc_ID a) (rows (ags_runs s) tenantID))"
  shows "add64 f (agentUsageByAccountLocked s tenantID accounts) = wrap64 (sum_list (map g (runs_of s tenantID accounts)))"
  unfolding report_total assms(2) unfolding add64_sum wrap64_total runs_of_def summed_by_account [OF assms(1)] ..

lemma count_sum: "int (length xs) = sum_list (map (\<lambda>_. 1) xs)"
  by (induction xs) auto

lemma session_total:
  assumes "distinct (map acc_ID accounts)"
  shows "add64 aau_SessionCount (agentUsageByAccountLocked s tenantID accounts) = wrap64 (int (length (sessions_of s tenantID accounts)))"
  using summed_by_account [OF assms, of "\<lambda>_. 1" ases_AccountID "rows (ags_sessions s) tenantID"]
  by (simp add: report_total account_usage_def Let_def count_sum sessions_of_def)

text \<open>A message belongs to the account of its session, which the id of the session determines.\<close>

definition message_owner :: "agent_store \<Rightarrow> string \<Rightarrow> AgentSessionMessage \<Rightarrow> string option" where
  "message_owner s tenantID m =
     map_option ases_AccountID (find (\<lambda>x. ases_ID x = asm_SessionID m) (rows (ags_sessions s) tenantID))"

lemma message_owner_iff:
  assumes "tab.keyed ases_TenantID ases_ID (ags_sessions s)"
  shows "message_owner s tenantID m = Some a \<longleftrightarrow>
    (\<exists>x \<in> set (rows (ags_sessions s) tenantID). ases_ID x = asm_SessionID m \<and> ases_AccountID x = a)"
proof -
  have wf: "table_wf (ags_sessions s)" using assms by (simp add: tab.keyed_def)
  have unique: "x = y" if xy: "x \<in> set (rows (ags_sessions s) tenantID)" "y \<in> set (rows (ags_sessions s) tenantID)" "ases_ID x = ases_ID y" for x y
    using assms xy unfolding tab.rows_get [OF wf] tab.keyed_def by (metis option.inject)
  show ?thesis
  proof (cases "find (\<lambda>x. ases_ID x = asm_SessionID m) (rows (ags_sessions s) tenantID)")
    case None
    then have "\<forall>x \<in> set (rows (ags_sessions s) tenantID). ases_ID x \<noteq> asm_SessionID m" by (auto simp: find_None_iff)
    then show ?thesis by (auto simp: message_owner_def None)
  next
    case (Some x)
    then have x: "x \<in> set (rows (ags_sessions s) tenantID)" "ases_ID x = asm_SessionID m"
      by (auto simp: find_Some_iff)
    have "y = x" if "y \<in> set (rows (ags_sessions s) tenantID)" "ases_ID y = asm_SessionID m" for y
      by (rule unique) (simp_all add: that x)
    with x show ?thesis unfolding message_owner_def Some option.map by blast
  qed
qed

lemma message_total:
  assumes "distinct (map acc_ID accounts)" "tab.keyed ases_TenantID ases_ID (ags_sessions s)"
  shows "add64 aau_MessageCount (agentUsageByAccountLocked s tenantID accounts) = wrap64 (int (length (messages_of s tenantID accounts)))"
proof -
  let ?ms = "rows (ags_sessionMessages s) tenantID"
  note owner = message_owner_iff [OF assms(2)]
  have each: "aau_MessageCount (account_usage s tenantID a) =
      sum_list (map (\<lambda>_. 1) (filter (\<lambda>m. message_owner s tenantID m = Some (acc_ID a)) ?ms))" for a
  proof -
    have "asm_SessionID m \<in> set (map ases_ID (filter (\<lambda>x. ases_AccountID x = acc_ID a) (rows (ags_sessions s) tenantID))) \<longleftrightarrow>
        message_owner s tenantID m = Some (acc_ID a)" for m
      unfolding owner set_map image_iff by auto
    then show ?thesis by (simp only: account_usage_def Let_def AgentAccountUsage.simps count_sum)
  qed
  have all: "messages_of s tenantID accounts =
      filter (\<lambda>m. message_owner s tenantID m \<in> set (map (\<lambda>a. Some (acc_ID a)) accounts)) ?ms"
    by (auto simp: messages_of_def sessions_of_def list_ex_iff image_iff owner [symmetric] intro!: filter_cong)
      (auto simp: owner)
  have "distinct (map (\<lambda>a. Some (acc_ID a)) accounts)"
    using assms(1) by (simp add: distinct_map inj_on_def)
  from sum_by_owner [OF this, of "\<lambda>_. 1" "message_owner s tenantID" ?ms] show ?thesis
    by (simp add: report_total each all count_sum comp_def)
qed

lemma used_total:
  assumes "tab.keyed ases_TenantID ases_ID (ags_sessions s)"
  shows "length (filter (\<lambda>i. aau_SessionCount i > 0 \<or> aau_MessageCount i > 0) (agentUsageByAccountLocked s tenantID accounts)) =
    length (filter (\<lambda>a. list_ex (\<lambda>x. ases_AccountID x = acc_ID a) (rows (ags_sessions s) tenantID)) accounts)"
proof -
  let ?used = "\<lambda>i. aau_SessionCount i > 0 \<or> aau_MessageCount i > 0"
  have used: "?used (account_usage s tenantID a) \<longleftrightarrow> list_ex (\<lambda>x. ases_AccountID x = acc_ID a) (rows (ags_sessions s) tenantID)" for a
    by (auto simp: account_usage_def Let_def list_ex_iff filter_empty_conv)
  have "length (filter ?used (agentUsageByAccountLocked s tenantID accounts)) =
      length (filter ?used (map (account_usage s tenantID) accounts))"
    unfolding agentUsageByAccountLocked_def by (metis mset_filter mset_sort_less size_mset)
  then show ?thesis by (simp add: filter_map comp_def used)
qed

text \<open>
  C40.  The summary of the usage of a tenant, in 64-bit arithmetic and whatever the order of the report: it
  counts the accounts, those of them with a session, their sessions, and the messages of those sessions, each
  once; calls and input, cached, output and total tokens are the sums over the runs of the accounts, each run
  counted once; and the actual tokens are the sum over the accounts of the tokens of their runs that did not
  come from the cache, never less than none.  It assumes that no account is listed twice and that the session
  rows stand under their own id.
\<close>

theorem usage_summary_totals:
  assumes "distinct (map acc_ID accounts)" and "tab.keyed ases_TenantID ases_ID (ags_sessions s)"
  shows "let report = GetAgentUsageSummary s tenantID accounts; runs = runs_of s tenantID accounts in
    ausum_UserCount report = int (length accounts) \<and>
    ausum_UsersWithUsage report =
      int (length (filter (\<lambda>a. list_ex (\<lambda>x. ases_AccountID x = acc_ID a) (rows (ags_sessions s) tenantID)) accounts)) \<and>
    ausum_SessionCount report = wrap64 (int (length (sessions_of s tenantID accounts))) \<and>
    ausum_MessageCount report = wrap64 (int (length (messages_of s tenantID accounts))) \<and>
    ausum_LLMCallCount report = wrap64 (sum_list (map arun_LLMCallCount runs)) \<and>
    ausum_InputTokens report = wrap64 (sum_list (map arun_InputTokens runs)) \<and>
    ausum_CachedTokens report = wrap64 (sum_list (map arun_CachedTokens runs)) \<and>
    ausum_OutputTokens report = wrap64 (sum_list (map arun_OutputTokens runs)) \<and>
    ausum_TotalTokens report = wrap64 (sum_list (map arun_TotalTokens runs)) \<and>
    ausum_ActualTokens report = wrap64 (sum_list (map (\<lambda>a. max 0 (wrap64
      (sum_list (map arun_TotalTokens (runs_of s tenantID [a])) - sum_list (map arun_CachedTokens (runs_of s tenantID [a]))))) accounts))"
proof -
  have runs: "add64 aau_LLMCallCount (agentUsageByAccountLocked s tenantID accounts) =
      wrap64 (sum_list (map arun_LLMCallCount (runs_of s tenantID accounts)))"
    "add64 aau_InputTokens (agentUsageByAccountLocked s tenantID accounts) =
      wrap64 (sum_list (map arun_InputTokens (runs_of s tenantID accounts)))"
    "add64 aau_CachedTokens (agentUsageByAccountLocked s tenantID accounts) =
      wrap64 (sum_list (map arun_CachedTokens (runs_of s tenantID accounts)))"
    "add64 aau_OutputTokens (agentUsageByAccountLocked s tenantID accounts) =
      wrap64 (sum_list (map arun_OutputTokens (runs_of s tenantID accounts)))"
    "add64 aau_TotalTokens (agentUsageByAccountLocked s tenantID accounts) =
      wrap64 (sum_list (map arun_TotalTokens (runs_of s tenantID accounts)))"
    by (rule run_total [OF assms(1)], simp add: account_usage_def Let_def)+
  have actual: "aau_ActualTokens (account_usage s tenantID a) = max 0 (wrap64
      (sum_list (map arun_TotalTokens (runs_of s tenantID [a])) - sum_list (map arun_CachedTokens (runs_of s tenantID [a]))))" for a
    by (simp add: account_usage_def Let_def saved_tokens_def add64_sum wrap64_diff runs_of_def max_def)
  have "length (agentUsageByAccountLocked s tenantID accounts) = length accounts"
    by (simp add: agentUsageByAccountLocked_def)
  then show ?thesis
    using runs report_total [of aau_ActualTokens s tenantID accounts] session_total [OF assms(1), of s tenantID]
      message_total [OF assms, of tenantID] used_total [OF assms(2), of tenantID accounts]
    by (simp add: GetAgentUsageSummary_def Let_def actual)
qed

text \<open>Two accounts: one with a session, a message and two runs, the other with a run of its own.\<close>

definition sample_run_row :: "string \<Rightarrow> string \<Rightarrow> int \<Rightarrow> int \<Rightarrow> AgentRun" where
  "sample_run_row ident accountID used cached = zero_AgentRun\<lparr>arun_ID := ident, arun_TenantID := ''t'', arun_AccountID := accountID,
     arun_LLMCallCount := 1, arun_TotalTokens := used, arun_CachedTokens := cached\<rparr>"

definition used_agents :: agent_store where
  "used_agents = sample_agents\<lparr>
     ags_runs := [(''t'', [(''r1'', sample_run_row ''r1'' ''a'' 100 30), (''r2'', sample_run_row ''r2'' ''a'' 50 10),
       (''r3'', sample_run_row ''r3'' ''b'' 5 9), (''r4'', sample_run_row ''r4'' ''z'' 1000 0)])],
     ags_sessionMessages := [(''t'', [(''m1'', zero_AgentSessionMessage\<lparr>asm_SessionID := ''ss''\<rparr>),
       (''m2'', zero_AgentSessionMessage\<lparr>asm_SessionID := ''q''\<rparr>)])]\<rparr>"

definition sample_accounts :: "Account list" where
  "sample_accounts = [zero_Account\<lparr>acc_ID := ''a''\<rparr>, zero_Account\<lparr>acc_ID := ''b''\<rparr>]"

lemma sample_agents_keyed: "tab.keyed ases_TenantID ases_ID (ags_sessions sample_agents)"
proof -
  have put: "tab.keyed ases_TenantID ases_ID (ags_sessions (UpsertAgentSession u (sample_session n)))"
    if "tab.keyed ases_TenantID ases_ID (ags_sessions u)" for u n
    using that by (simp add: UpsertAgentSession_def sample_session_def tab.keyed_put)
  have "tab.keyed ases_TenantID ases_ID (ags_sessions empty_agents)"
    by (simp add: tab.keyed_def empty_agents_def table_wf_def getNested_def)
  then show ?thesis by (simp add: sample_agents_def put)
qed

theorem usage_summary_totals_witness:
  "let report = GetAgentUsageSummary used_agents ''t'' sample_accounts in
    ausum_UserCount report = 2 \<and> ausum_UsersWithUsage report = 1 \<and> ausum_SessionCount report = 3 \<and>
    ausum_MessageCount report = 1 \<and> ausum_LLMCallCount report = 3 \<and> ausum_TotalTokens report = 155 \<and>
    ausum_CachedTokens report = 49 \<and> ausum_ActualTokens report = 110"
proof -
  have "distinct (map acc_ID sample_accounts)" "tab.keyed ases_TenantID ases_ID (ags_sessions used_agents)"
    using sample_agents_keyed by (simp_all add: sample_accounts_def zero_Account_def used_agents_def)
  note totals = usage_summary_totals [OF this, of "''t''"]
  have "length sample_accounts = 2"
    "length (filter (\<lambda>a. list_ex (\<lambda>x. ases_AccountID x = acc_ID a) (rows (ags_sessions used_agents) ''t'')) sample_accounts) = 1"
    "wrap64 (int (length (sessions_of used_agents ''t'' sample_accounts))) = 3"
    "wrap64 (int (length (messages_of used_agents ''t'' sample_accounts))) = 1"
    "wrap64 (sum_list (map arun_LLMCallCount (runs_of used_agents ''t'' sample_accounts))) = 3"
    "wrap64 (sum_list (map arun_TotalTokens (runs_of used_agents ''t'' sample_accounts))) = 155"
    "wrap64 (sum_list (map arun_CachedTokens (runs_of used_agents ''t'' sample_accounts))) = 49"
    "wrap64 (sum_list (map (\<lambda>a. max 0 (wrap64 (sum_list (map arun_TotalTokens (runs_of used_agents ''t'' [a])) -
      sum_list (map arun_CachedTokens (runs_of used_agents ''t'' [a]))))) sample_accounts)) = 110"
    by code_simp+
  with totals show ?thesis by (simp add: Let_def)
qed

section \<open>A cleared context\<close>

lemma appS_agents: "appS m s = (r, t) \<Longrightarrow> gs_agents t = gs_agents s"
  by (auto simp: appS_def split: prod.splits)

lemma authz_agents: "requireAgentAuthz c ctx r a i s = (x, t) \<Longrightarrow> gs_agents t = gs_agents s"
  by (auto simp: requireAgentAuthz_def dest: appS_agents)

lemma id_agents: "newIDG c kind s = (x, t) \<Longrightarrow> gs_agents t = gs_agents s"
  by (auto simp: newIDG_def dest: appS_agents)

lemma current_session_state:
  assumes "CurrentAgentSession ctx a ident s = (r, t)"
  shows "t = s" and "r = Inr x \<Longrightarrow> GetAgentSession (gs_agents s) (ctx_TenantID ctx) (TrimSpace ident) = Some x \<and> ases_AccountID x = a"
  using assms
  by (simp_all add: CurrentAgentSession_def Let_def bindS_def readAgents_def getS_def failS_def liftS_def retS_def split: if_splits option.splits)

lemma no_active_run_state: "ensureNoActiveAgentRun ctx i s = (r, t) \<Longrightarrow> t = s"
  by (simp add: ensureNoActiveAgentRun_def bindS_def readAgents_def getS_def failS_def liftS_def retS_def split: if_splits)

lemma bindS_error: "bindS m f s = (Inl e, u) \<Longrightarrow> (m s = (Inl e, u)) \<or> (\<exists>x t. m s = (Inr x, t) \<and> f x t = (Inl e, u))"
  by (auto simp: bindS_def split: prod.splits sum.splits)

lemma transaction_error: "inTransaction m s = (Inl e, t) \<Longrightarrow> gs_agents t = gs_agents s"
  by (auto simp: inTransaction_def split: prod.splits sum.splits)

lemma transaction_ok: "inTransaction m s = (Inr x, t) \<Longrightarrow> m s = (Inr x, t)"
  by (auto simp: inTransaction_def split: prod.splits sum.splits)

lemma clear_fails:
  assumes "ClearSessionContext c ctx ident s = (Inl e, t)"
  shows "gs_agents t = gs_agents s"
  using bindS_error [OF assms [unfolded ClearSessionContext_def]]
proof (elim disjE exE conjE, goal_cases)
  case 1
  then show ?case by (rule authz_agents)
next
  case (2 x t')
  from 2(2) have "gs_agents t = gs_agents t'" by (cases x) (simp, rule transaction_error)
  with authz_agents [OF 2(1)] show ?case by simp
qed

lemma clear_succeeds:
  assumes "ClearSessionContext c ctx ident s = (Inr session, t)"
  obtains old segmentID where "GetAgentSession (gs_agents s) (ctx_TenantID ctx) (TrimSpace ident) = Some old"
    "session = cleared_session (ap_now c) segmentID old" "gs_agents t = UpsertAgentSession (gs_agents s) session"
    "segmentID \<in> range (ap_newID c ''aseg'')"
proof -
  obtain account x s1 where 1: "requireAgentAuthz c ctx ResourceRun ActionCreate (TrimSpace ident) s = (Inr (account, x), s1)"
    and tx: "inTransaction (bindS (lockCurrentAgentSession ctx (acc_ID account) ident) (\<lambda>locked.
       if ases_Status locked \<noteq> AgentSessionStatusActive
       then failS (WithReasonCode (BadRequest ''agent session is archived'') ''agent_session_archived'')
       else bindS (ensureNoActiveAgentRun ctx (ases_ID locked)) (\<lambda>_.
         bindS (newIDG c ''aseg'') (\<lambda>segmentID.
         let locked = cleared_session (ap_now c) segmentID locked in
         bindS (agentsS (\<lambda>s. UpsertAgentSession s locked)) (\<lambda>_. retS locked))))) s1 = (Inr session, t)"
    using bindS_ok [OF assms [unfolded ClearSessionContext_def]] by (auto split: prod.splits)
  obtain old s2 where 2: "CurrentAgentSession ctx (acc_ID account) ident s1 = (Inr old, s2)"
    and rest: "(if ases_Status old \<noteq> AgentSessionStatusActive
       then failS (WithReasonCode (BadRequest ''agent session is archived'') ''agent_session_archived'')
       else bindS (ensureNoActiveAgentRun ctx (ases_ID old)) (\<lambda>_.
         bindS (newIDG c ''aseg'') (\<lambda>segmentID.
         let locked = cleared_session (ap_now c) segmentID old in
         bindS (agentsS (\<lambda>s. UpsertAgentSession s locked)) (\<lambda>_. retS locked)))) s2 = (Inr session, t)"
    using bindS_ok [OF transaction_ok [OF tx]] unfolding lockCurrentAgentSession_def by blast
  from rest have rest: "bindS (ensureNoActiveAgentRun ctx (ases_ID old)) (\<lambda>_.
         bindS (newIDG c ''aseg'') (\<lambda>segmentID.
         let locked = cleared_session (ap_now c) segmentID old in
         bindS (agentsS (\<lambda>s. UpsertAgentSession s locked)) (\<lambda>_. retS locked))) s2 = (Inr session, t)"
    by (simp add: failS_def liftS_def split: if_splits)
  obtain u s3 where 3: "ensureNoActiveAgentRun ctx (ases_ID old) s2 = (Inr u, s3)"
    and rest: "bindS (newIDG c ''aseg'') (\<lambda>segmentID.
         let locked = cleared_session (ap_now c) segmentID old in
         bindS (agentsS (\<lambda>s. UpsertAgentSession s locked)) (\<lambda>_. retS locked)) s3 = (Inr session, t)"
    using bindS_ok [OF rest] by blast
  obtain segmentID s4 where 4: "newIDG c ''aseg'' s3 = (Inr segmentID, s4)"
    and rest: "(let locked = cleared_session (ap_now c) segmentID old in
         bindS (agentsS (\<lambda>s. UpsertAgentSession s locked)) (\<lambda>_. retS locked)) s4 = (Inr session, t)"
    using bindS_ok [OF rest] by blast
  have "session = cleared_session (ap_now c) segmentID old" "gs_agents t = UpsertAgentSession (gs_agents s4) session"
    using rest by (auto simp: Let_def bindS_def agentsS_def modS_def retS_def)
  moreover have "gs_agents s4 = gs_agents s"
    using authz_agents [OF 1] current_session_state(1) [OF 2] no_active_run_state [OF 3] id_agents [OF 4] by simp
  moreover have "GetAgentSession (gs_agents s) (ctx_TenantID ctx) (TrimSpace ident) = Some old"
    using current_session_state(2) [OF 2] authz_agents [OF 1] by simp
  moreover have "segmentID \<in> range (ap_newID c ''aseg'')"
    using 4 by (auto simp: newIDG_def appS_def newIDS_def)
  ultimately show thesis using that by simp
qed

text \<open>What an account sees of a session: its messages, its files, the confirmations it can still give, its memories.\<close>

definition visible_messages :: "agent_store \<Rightarrow> string \<Rightarrow> string \<Rightarrow> AgentSessionMessage set" where
  "visible_messages s tenantID sessionID = set (ListAgentSessionMessages s tenantID sessionID zero_KeysetPage)"

definition visible_files :: "agent_store \<Rightarrow> string \<Rightarrow> string \<Rightarrow> AgentSessionFile set" where
  "visible_files s tenantID sessionID = set (ListCurrentAgentSessionFiles s tenantID sessionID)"

lemma limited_subset: "set (limited n xs) \<subseteq> set xs"
  by (auto simp: limited_def dest: in_set_takeD)

lemma message_version:
  assumes "m \<in> visible_messages s tenantID sessionID" "GetAgentSession s tenantID sessionID = Some x"
  shows "asm_ContextVersion m = ases_ContextVersion x"
  using assms limited_subset
  by (fastforce simp: visible_messages_def ListAgentSessionMessages_def GetAgentSession_def sortAgentSessionMessages_def set_sort_less)

lemma file_version:
  assumes "f \<in> visible_files s tenantID sessionID" "GetAgentSession s tenantID sessionID = Some x"
  shows "asf_ContextVersion f = ases_ContextVersion x"
  using assms by (auto simp: visible_files_def ListCurrentAgentSessionFiles_def GetAgentSession_def set_sort_less)

lemma claimed_segment:
  assumes "snd (ClaimAgentConfirmation s tenantID accountID ident now) = Some r" "GetAgentSession s tenantID (acf_ConversationID r) = Some x"
  shows "acf_SegmentID r = ases_SegmentID x"
  using assms by (auto simp: ClaimAgentConfirmation_def Let_def on_segment_def GetAgentSession_def split: option.splits if_splits)

lemma memory_segment:
  assumes "m \<in> set (ListAgentMemoriesByAccount now s tenantID accountID agentID sessionID limit)"
    and "memory_scope m = ''conversation''" and "GetAgentSession s tenantID sessionID = Some x"
  shows "amem_SegmentID m = ases_SegmentID x"
proof -
  have split: "m \<in> set (limited limit (sort_less lt (filter p xs))) \<Longrightarrow> p m" for lt p and xs :: "AgentMemory list"
    using limited_subset by (fastforce simp: set_sort_less)
  show ?thesis
    using split [OF assms(1) [unfolded ListAgentMemoriesByAccount_def Let_def sortAgentMemories_def]] assms(2,3)
    by (simp add: GetAgentSession_def split: if_splits)
qed

definition stored_session :: "AgentSession \<Rightarrow> AgentSession" where
  "stored_session v = (if ases_ContextVersion v \<le> 0 then v\<lparr>ases_ContextVersion := 1\<rparr> else v)"

lemma stored_session_sel [simp]:
  "ases_TenantID (stored_session v) = ases_TenantID v" "ases_ID (stored_session v) = ases_ID v"
  "ases_SegmentID (stored_session v) = ases_SegmentID v"
  by (simp_all add: stored_session_def)

lemma UpsertAgentSession_get:
  assumes "table_wf (ags_sessions u)"
  shows "GetAgentSession (UpsertAgentSession u v) (ases_TenantID v) (ases_ID v) = Some (stored_session v)"
  using assms by (simp add: UpsertAgentSession_def GetAgentSession_def stored_session_def tab.get_put Let_def)

lemma UpsertAgentSession_others [simp]:
  "ags_confirmations (UpsertAgentSession u v) = ags_confirmations u" "ags_memories (UpsertAgentSession u v) = ags_memories u"
  by (simp_all add: UpsertAgentSession_def Let_def)

text \<open>The version of a cleared session is another one, also when it wraps around.\<close>

lemma cleared_version: "ases_ContextVersion (stored_session (cleared_session now segmentID old)) \<noteq> ases_ContextVersion old"
proof -
  have "wrap64 (v + 1) \<noteq> v" for v :: int
  proof
    assume "wrap64 (v + 1) = v"
    then have "(v + 1 + 2 ^ 63) mod 2 ^ 64 = v + 2 ^ 63" by (simp add: wrap64_def)
    then have "(v + 2 ^ 63 + 1) mod 2 ^ 64 = (v + 2 ^ 63) mod 2 ^ 64" by (metis add.commute add.left_commute mod_mod_trivial)
    then have "(2 ^ 64 :: int) dvd 1" by (simp add: mod_eq_dvd_iff)
    then show False by simp
  qed
  moreover have "wrap64 (1 + 1) = 2" by (simp add: wrap64_def)
  ultimately show ?thesis by (auto simp: cleared_session_def stored_session_def Let_def)
qed

text \<open>The segments that confirmations and memories of a tenant name: an id newly drawn is none of them.\<close>

definition named_segments :: "agent_store \<Rightarrow> string \<Rightarrow> string set" where
  "named_segments u tenantID =
     acf_SegmentID ` set (rows (ags_confirmations u) tenantID) \<union> amem_SegmentID ` set (rows (ags_memories u) tenantID)"

lemma claimed_row:
  assumes "snd (ClaimAgentConfirmation u tenantID accountID ident now) = Some r" "table_wf (ags_confirmations u)"
  shows "acf_SegmentID r \<in> named_segments u tenantID"
proof -
  obtain x where "getNested (ags_confirmations u) tenantID ident = Some x" "acf_SegmentID r = acf_SegmentID x"
    using assms(1) by (auto simp: ClaimAgentConfirmation_def Let_def split: option.splits if_splits)
  then show ?thesis using tab.rows_get [OF assms(2)] by (auto simp: named_segments_def)
qed

lemma listed_memory_row:
  "m \<in> set (ListAgentMemoriesByAccount now u tenantID accountID agentID sessionID limit) \<Longrightarrow>
     amem_SegmentID m \<in> named_segments u tenantID"
  using limited_subset
  by (fastforce simp: ListAgentMemoriesByAccount_def Let_def sortAgentMemories_def set_sort_less named_segments_def)

text \<open>
  C38.  Clearing the context of a session hides what was said in it.  When the ids drawn for segments are new,
  named by no confirmation or memory of the tenant: no message and no file that was visible in the session
  before is visible after, no confirmation of the session can be claimed or is listed as pending any more, and
  no memory of the conversation is listed.  A failed attempt leaves the agent tables alone.
\<close>

theorem cleared_context_hidden:
  assumes "tab.keyed ases_TenantID ases_ID (ags_sessions (gs_agents s))"
    and "table_wf (ags_confirmations (gs_agents s))"
    and "range (ap_newID c ''aseg'') \<inter> named_segments (gs_agents s) (ctx_TenantID ctx) = {}"
  shows "case ClearSessionContext c ctx ident s of
      (Inl e, t) \<Rightarrow> gs_agents t = gs_agents s
    | (Inr session, t) \<Rightarrow>
        visible_messages (gs_agents s) (ctx_TenantID ctx) (ases_ID session) \<inter>
          visible_messages (gs_agents t) (ctx_TenantID ctx) (ases_ID session) = {} \<and>
        visible_files (gs_agents s) (ctx_TenantID ctx) (ases_ID session) \<inter>
          visible_files (gs_agents t) (ctx_TenantID ctx) (ases_ID session) = {} \<and>
        (\<forall>accountID i now r. snd (ClaimAgentConfirmation (gs_agents t) (ctx_TenantID ctx) accountID i now) = Some r \<longrightarrow>
           acf_ConversationID r \<noteq> ases_ID session) \<and>
        (\<forall>accountID segmentID now.
           ListPendingAgentConfirmations (gs_agents t) (ctx_TenantID ctx) accountID (ases_ID session) segmentID now = []) \<and>
        (\<forall>now accountID agentID limit. list_all (\<lambda>m. memory_scope m \<noteq> ''conversation'')
           (ListAgentMemoriesByAccount now (gs_agents t) (ctx_TenantID ctx) accountID agentID (ases_ID session) limit))"
proof (cases "ClearSessionContext c ctx ident s")
  case (Pair r t)
  show ?thesis
  proof (cases r)
    case (Inl e)
    with Pair show ?thesis by (simp add: clear_fails)
  next
    case (Inr session)
    obtain old segmentID where old: "GetAgentSession (gs_agents s) (ctx_TenantID ctx) (TrimSpace ident) = Some old"
      and session: "session = cleared_session (ap_now c) segmentID old"
      and t: "gs_agents t = UpsertAgentSession (gs_agents s) session" and drawn: "segmentID \<in> range (ap_newID c ''aseg'')"
      using clear_succeeds Pair Inr by blast
    have key: "ases_TenantID old = ctx_TenantID ctx" "ases_ID old = TrimSpace ident"
      using assms(1) old by (auto simp: tab.keyed_def GetAgentSession_def)
    have wf: "table_wf (ags_sessions (gs_agents s))" using assms(1) by (simp add: tab.keyed_def)
    have fields: "ases_TenantID session = ctx_TenantID ctx" "ases_ID session = TrimSpace ident" "ases_SegmentID session = segmentID"
      using key by (simp_all add: session cleared_session_def Let_def)
    have after: "GetAgentSession (gs_agents t) (ctx_TenantID ctx) (TrimSpace ident) = Some (stored_session session)"
      using UpsertAgentSession_get [OF wf, of session] by (simp only: t fields)
    have other: "ases_ContextVersion (stored_session session) \<noteq> ases_ContextVersion old"
      unfolding session by (rule cleared_version)
    have same: "named_segments (gs_agents t) tenantID = named_segments (gs_agents s) tenantID"
      "ags_confirmations (gs_agents t) = ags_confirmations (gs_agents s)" for tenantID
      by (simp_all add: t named_segments_def)
    have fresh: "segmentID \<notin> named_segments (gs_agents t) (ctx_TenantID ctx)" using assms(3) drawn by (auto simp: same)
    have "visible_messages (gs_agents s) (ctx_TenantID ctx) (ases_ID session) \<inter>
        visible_messages (gs_agents t) (ctx_TenantID ctx) (ases_ID session) = {}"
      using message_version [OF _ old] message_version [OF _ after] other unfolding fields by fastforce
    moreover have "visible_files (gs_agents s) (ctx_TenantID ctx) (ases_ID session) \<inter>
        visible_files (gs_agents t) (ctx_TenantID ctx) (ases_ID session) = {}"
      using file_version [OF _ old] file_version [OF _ after] other unfolding fields by fastforce
    moreover have "acf_ConversationID r \<noteq> ases_ID session"
      if claim: "snd (ClaimAgentConfirmation (gs_agents t) (ctx_TenantID ctx) accountID i now) = Some r" for accountID i now r
      using claimed_segment [OF claim, of "stored_session session"] claimed_row [OF claim] assms(2) after fields fresh
      by (auto simp: same)
    moreover have "ListPendingAgentConfirmations (gs_agents t) (ctx_TenantID ctx) accountID (ases_ID session) seg now = []"
      for accountID seg now
    proof (cases "seg = segmentID")
      case True
      have "acf_SegmentID x \<noteq> segmentID" if "x \<in> set (rows (ags_confirmations (gs_agents t)) (ctx_TenantID ctx))" for x
        using that fresh by (auto simp: named_segments_def)
      moreover have "sort_less lt ([] :: AgentConfirmationRecord list) = []" for lt
        by (metis mset.simps(1) mset_sort_less mset_zero_iff)
      ultimately show ?thesis by (auto simp: ListPendingAgentConfirmations_def True)
    next
      case False
      then have "\<not> on_segment (gs_agents t) (ctx_TenantID ctx) (ases_ID session) seg"
        using after fields by (simp add: on_segment_def GetAgentSession_def)
      then show ?thesis by (simp add: ListPendingAgentConfirmations_def)
    qed
    moreover have "list_all (\<lambda>m. memory_scope m \<noteq> ''conversation'')
        (ListAgentMemoriesByAccount now (gs_agents t) (ctx_TenantID ctx) accountID agentID (ases_ID session) limit)"
      for now accountID agentID limit
      using memory_segment [OF _ _ after [folded fields(2)]] listed_memory_row fields(3) fresh
      by (fastforce simp: list_all_iff)
    ultimately show ?thesis unfolding Pair Inr prod.case sum.case by blast
  qed
qed

text \<open>A session with a message, a pending confirmation and a memory of its conversation, cleared by its owner.\<close>

definition chat_rows :: mem_store where
  "chat_rows = (UpsertPermissionSet sample_rows (zero_PermissionSet\<lparr>ps_ID := ''chat'', ps_TenantID := ''acme'',
       ps_Permissions := [zero_Permission\<lparr>perm_ApplicationCode := ''agent'', perm_ResourceType := ''run'', perm_Action := ''create''\<rparr>]\<rparr>))
     \<lparr>st_accounts := [(''acme'', [(''acc-1'', sample_account\<lparr>acc_DirectPermissionSetIDs := [''chat'']\<rparr>)])],
      st_tenants := [(''acme'', zero_Tenant\<lparr>tn_ID := ''acme''\<rparr>)]\<rparr>"

definition chat_session :: AgentSession where
  "chat_session = zero_AgentSession\<lparr>ases_ID := ''s1'', ases_TenantID := ''acme'', ases_AccountID := ''acc-1'',
     ases_SegmentID := ''seg'', ases_Status := AgentSessionStatusActive, ases_ContextVersion := 1\<rparr>"

definition chat_agents :: agent_store where
  "chat_agents = (UpsertAgentSession empty_agents chat_session)\<lparr>
     ags_sessionMessages := [(''acme'', [(''m1'', zero_AgentSessionMessage\<lparr>asm_ID := ''m1'', asm_SessionID := ''s1'',
       asm_ContextVersion := 1\<rparr>)])],
     ags_confirmations := [(''acme'', [(''c1'', zero_AgentConfirmationRecord\<lparr>acf_ID := ''c1'', acf_AccountID := ''acc-1'',
       acf_ConversationID := ''s1'', acf_SegmentID := ''seg'', acf_Status := AgentConfirmationStatusPending, acf_ExpiresAt := 5000\<rparr>)])],
     ags_memories := [(''acme'', [(''k1'', zero_AgentMemory\<lparr>amem_ID := ''k1'', amem_AccountID := ''acc-1'', amem_SessionID := ''s1'',
       amem_SegmentID := ''seg'', amem_Scope := ''conversation'', amem_Status := ''active''\<rparr>)])]\<rparr>"

definition chat_state :: agent_state where
  "chat_state = \<lparr>gs_app = reserved_state\<lparr>ap_mem := chat_rows\<rparr>, gs_agents = chat_agents\<rparr>"

lemma chat_authorized:
  "case fst (requireAgentAuthz sample_app_env applicant_ctx ResourceRun ActionCreate ''s1'' chat_state) of
     Inl e \<Rightarrow> False | Inr (account, _) \<Rightarrow> acc_ID account = ''acc-1''"
  by code_simp

lemma chat_reads:
  "TrimSpace ''s1'' = ''s1''"
  "GetAgentSession chat_agents ''acme'' ''s1'' = Some chat_session"
  "ases_AccountID chat_session = ''acc-1''" "ases_ID chat_session = ''s1''"
  "ases_Status chat_session = AgentSessionStatusActive"
  by code_simp+

lemma chat_clears:
  obtains session t where "ClearSessionContext sample_app_env applicant_ctx ''s1'' chat_state = (Inr session, t)"
    and "ases_ID session = ''s1''"
proof -
  obtain account d s1 where auth: "requireAgentAuthz sample_app_env applicant_ctx ResourceRun ActionCreate ''s1'' chat_state =
      (Inr (account, d), s1)" and own: "acc_ID account = ''acc-1''"
    using chat_authorized
    by (cases "requireAgentAuthz sample_app_env applicant_ctx ResourceRun ActionCreate ''s1'' chat_state")
      (auto split: sum.splits)
  have tables: "gs_agents s1 = chat_agents" using authz_agents [OF auth] by (simp add: chat_state_def)
  have none: "CountActiveAgentRunsBySession chat_agents ''acme'' ''s1'' = 0" by code_simp
  have tenant: "ctx_TenantID applicant_ctx = ''acme''" by (simp add: applicant_ctx_def)
  have current: "CurrentAgentSession applicant_ctx ''acc-1'' ''s1'' s1 = (Inr chat_session, s1)"
    by (simp add: CurrentAgentSession_def chat_reads bindS_def readAgents_def getS_def tables tenant retS_def Let_def)
  have idle: "ensureNoActiveAgentRun applicant_ctx ''s1'' s1 = (Inr (), s1)"
    by (simp add: ensureNoActiveAgentRun_def chat_reads bindS_def readAgents_def getS_def tables tenant none retS_def)
  obtain seg s2 where drawn: "newIDG sample_app_env ''aseg'' s1 = (Inr seg, s2)"
    by (cases "newIDG sample_app_env ''aseg'' s1") (auto simp: newIDG_def appS_def newIDS_def split: prod.splits)
  let ?session = "cleared_session (ap_now sample_app_env) seg chat_session"
  have "ClearSessionContext sample_app_env applicant_ctx ''s1'' chat_state =
      (Inr ?session, s2\<lparr>gs_agents := UpsertAgentSession (gs_agents s2) ?session\<rparr>)"
    by (simp add: ClearSessionContext_def chat_reads bindS_def auth own inTransaction_def lockCurrentAgentSession_def
        current idle drawn agentsS_def modS_def retS_def Let_def)
  moreover have "ases_ID ?session = ''s1''" by (simp add: cleared_session_def Let_def chat_reads)
  ultimately show thesis by (rule that)
qed

lemma chat_before:
  "visible_messages chat_agents ''acme'' ''s1'' \<noteq> {}"
  "ListPendingAgentConfirmations chat_agents ''acme'' ''acc-1'' ''s1'' ''seg'' 1000 \<noteq> []"
  "map memory_scope (ListAgentMemoriesByAccount 1000 chat_agents ''acme'' ''acc-1'' [] ''s1'' 10) = [''conversation'']"
  by code_simp+

lemma chat_fresh: "range (ap_newID sample_app_env ''aseg'') \<inter> named_segments chat_agents ''acme'' = {}"
proof -
  have "map acf_SegmentID (rows (ags_confirmations chat_agents) ''acme'') = [''seg'']"
    "map amem_SegmentID (rows (ags_memories chat_agents) ''acme'') = [''seg'']"
    by code_simp+
  then have "named_segments chat_agents ''acme'' = {''seg''}"
    unfolding named_segments_def set_map [symmetric] by simp
  then show ?thesis by (auto simp: sample_app_env_def)
qed

theorem cleared_context_hidden_witness:
  "visible_messages chat_agents ''acme'' ''s1'' \<noteq> {} \<and>
   ListPendingAgentConfirmations chat_agents ''acme'' ''acc-1'' ''s1'' ''seg'' 1000 \<noteq> [] \<and>
   map memory_scope (ListAgentMemoriesByAccount 1000 chat_agents ''acme'' ''acc-1'' [] ''s1'' 10) = [''conversation''] \<and>
   (\<exists>session t. ClearSessionContext sample_app_env applicant_ctx ''s1'' chat_state = (Inr session, t) \<and>
      visible_messages chat_agents ''acme'' ''s1'' \<inter> visible_messages (gs_agents t) ''acme'' ''s1'' = {} \<and>
      ListPendingAgentConfirmations (gs_agents t) ''acme'' ''acc-1'' ''s1'' ''seg'' 1000 = [] \<and>
      list_all (\<lambda>m. memory_scope m \<noteq> ''conversation'') (ListAgentMemoriesByAccount 1000 (gs_agents t) ''acme'' ''acc-1'' [] ''s1'' 10))"
proof -
  obtain session t where run: "ClearSessionContext sample_app_env applicant_ctx ''s1'' chat_state = (Inr session, t)"
    and ident: "ases_ID session = ''s1''"
    by (rule chat_clears)
  have agents: "gs_agents chat_state = chat_agents" and tenant: "ctx_TenantID applicant_ctx = ''acme''"
    by (simp_all add: chat_state_def applicant_ctx_def)
  have "tab.keyed ases_TenantID ases_ID (ags_sessions empty_agents)"
    by (simp add: tab.keyed_def empty_agents_def table_wf_def getNested_def)
  then have "tab.keyed ases_TenantID ases_ID (ags_sessions chat_agents)"
    by (simp add: chat_agents_def UpsertAgentSession_def chat_session_def tab.keyed_put)
  moreover have "table_wf (ags_confirmations chat_agents)" by (simp add: chat_agents_def table_wf_def)
  ultimately show ?thesis
    using cleared_context_hidden [of chat_state sample_app_env applicant_ctx "''s1''", unfolded agents tenant run prod.case sum.case ident]
      chat_fresh chat_before run by blast
qed

end
