(* ===== verification/Form_Fields.thy ===== *)
theory Form_Fields
  imports Workflow_Notice
begin

text \<open>
  The fields of a form template (\<open>domain/platform.go\<close>, \<open>platform_service.go\<close>), the data
  sources they are bound to (\<open>workflow_form_data_source_service.go\<close>), and the checks of a submitted
  value (\<open>workspace_form_design_validation.go\<close>).  Stored schemas are the values of a JSON document;
  object keys are read by their exact name, as they are written.
\<close>

section \<open>Records\<close>

record PlatformFormBuilderFieldOption =
  bfo_Label :: string
  bfo_Value :: string

definition zero_PlatformFormBuilderFieldOption :: PlatformFormBuilderFieldOption where
  "zero_PlatformFormBuilderFieldOption = \<lparr>
     bfo_Label = [],
     bfo_Value = [] \<rparr>"

record PlatformFormBuilderFieldBinding =
  bfb_SourceID :: string
  bfb_ValueField :: string
  bfb_LabelField :: string
  bfb_Filters :: "(string, string list) gomap"

definition zero_PlatformFormBuilderFieldBinding :: PlatformFormBuilderFieldBinding where
  "zero_PlatformFormBuilderFieldBinding = \<lparr>
     bfb_SourceID = [],
     bfb_ValueField = [],
     bfb_LabelField = [],
     bfb_Filters = [] \<rparr>"

record PlatformFormBuilderFieldAnalytics =
  bfa_Reportable :: bool
  bfa_Role :: string
  bfa_Aggregations :: "string list"
  bfa_Filterable :: bool
  bfa_Groupable :: bool

definition zero_PlatformFormBuilderFieldAnalytics :: PlatformFormBuilderFieldAnalytics where
  "zero_PlatformFormBuilderFieldAnalytics = \<lparr>
     bfa_Reportable = False,
     bfa_Role = [],
     bfa_Aggregations = [],
     bfa_Filterable = False,
     bfa_Groupable = False \<rparr>"

record PlatformFormBuilderFieldSecurity =
  bfs_Classification :: string
  bfs_Masking :: string
  bfs_AgentAccess :: bool

definition zero_PlatformFormBuilderFieldSecurity :: PlatformFormBuilderFieldSecurity where
  "zero_PlatformFormBuilderFieldSecurity = \<lparr>
     bfs_Classification = [],
     bfs_Masking = [],
     bfs_AgentAccess = False \<rparr>"

record PlatformFormBuilderField =
  pbf_ID :: string
  pbf_Type :: string
  pbf_Label :: string
  pbf_Placeholder :: string
  pbf_Required :: bool
  pbf_DefaultValue :: val
  pbf_LayoutColumns :: "string list"
  pbf_Options :: "PlatformFormBuilderFieldOption list"
  pbf_Binding :: "PlatformFormBuilderFieldBinding option"
  pbf_Analytics :: "PlatformFormBuilderFieldAnalytics option"
  pbf_Security :: "PlatformFormBuilderFieldSecurity option"
  pbf_ParentLayoutID :: string
  pbf_SlotIndex :: "int option"

definition zero_PlatformFormBuilderField :: PlatformFormBuilderField where
  "zero_PlatformFormBuilderField = \<lparr>
     pbf_ID = [],
     pbf_Type = [],
     pbf_Label = [],
     pbf_Placeholder = [],
     pbf_Required = False,
     pbf_DefaultValue = VNil,
     pbf_LayoutColumns = [],
     pbf_Options = [],
     pbf_Binding = None,
     pbf_Analytics = None,
     pbf_Security = None,
     pbf_ParentLayoutID = [],
     pbf_SlotIndex = None \<rparr>"

record FormDataSourceField =
  fdf_Key :: string
  fdf_Label :: string
  fdf_Type :: string

definition zero_FormDataSourceField :: FormDataSourceField where
  "zero_FormDataSourceField = \<lparr>
     fdf_Key = [],
     fdf_Label = [],
     fdf_Type = [] \<rparr>"

record FormDataSource =
  fds_ID :: string
  fds_Label :: string
  fds_Kind :: string
  fds_Fields :: "FormDataSourceField list"
  fds_Records :: "params list"

definition zero_FormDataSource :: FormDataSource where
  "zero_FormDataSource = \<lparr>
     fds_ID = [],
     fds_Label = [],
     fds_Kind = [],
     fds_Fields = [],
     fds_Records = [] \<rparr>"

record Position =
  pos_ID :: string
  pos_TenantID :: string
  pos_Code :: string
  pos_Name :: string
  pos_NameEN :: string
  pos_Level :: string
  pos_Status :: string
  pos_Description :: string
  pos_Source :: string
  pos_CreatedAt :: int
  pos_UpdatedAt :: int

definition zero_Position :: Position where
  "zero_Position = \<lparr>
     pos_ID = [],
     pos_TenantID = [],
     pos_Code = [],
     pos_Name = [],
     pos_NameEN = [],
     pos_Level = [],
     pos_Status = [],
     pos_Description = [],
     pos_Source = [],
     pos_CreatedAt = 0,
     pos_UpdatedAt = 0 \<rparr>"

record LeaveType =
  lt_ID :: string
  lt_TenantID :: string
  lt_Code :: string
  lt_Kind :: string
  lt_ParentID :: string
  lt_ParentCode :: string
  lt_NameZH :: string
  lt_NameEN :: string
  lt_Category :: string
  lt_RequiresBalance :: bool
  lt_MaxBalanceMinutes :: int
  lt_Unit :: string
  lt_Enabled :: bool
  lt_DisplayOrder :: int
  lt_RawPayload :: params
  lt_LastSyncedAt :: "int option"
  lt_UpdatedAt :: int

definition zero_LeaveType :: LeaveType where
  "zero_LeaveType = \<lparr>
     lt_ID = [],
     lt_TenantID = [],
     lt_Code = [],
     lt_Kind = [],
     lt_ParentID = [],
     lt_ParentCode = [],
     lt_NameZH = [],
     lt_NameEN = [],
     lt_Category = [],
     lt_RequiresBalance = False,
     lt_MaxBalanceMinutes = 0,
     lt_Unit = [],
     lt_Enabled = False,
     lt_DisplayOrder = 0,
     lt_RawPayload = [],
     lt_LastSyncedAt = None,
     lt_UpdatedAt = 0 \<rparr>"


section \<open>Fields of a template\<close>

definition source_binding :: "string \<Rightarrow> string \<Rightarrow> string \<Rightarrow> PlatformFormBuilderFieldBinding" where
  "source_binding sourceID valueField labelField =
     \<lparr>bfb_SourceID = sourceID, bfb_ValueField = valueField, bfb_LabelField = labelField, bfb_Filters = []\<rparr>"

definition builder_field :: "string \<Rightarrow> string \<Rightarrow> string \<Rightarrow> string \<Rightarrow> PlatformFormBuilderField" where
  "builder_field ident typ label placeholder =
     zero_PlatformFormBuilderField\<lparr>pbf_ID := ident, pbf_Type := typ, pbf_Label := label, pbf_Placeholder := placeholder\<rparr>"

definition platformLeaveRequestBuilderFields :: "PlatformFormBuilderField list" where
  "platformLeaveRequestBuilderFields =
     [builder_field ''section-applicant'' ''section-title'' (runes [30003, 35531, 20154, 36039, 26009]) [],
      (builder_field ''layout-applicant'' ''layout'' (runes [30003, 35531, 20154, 21015]) (runes [20998, 27396, 23481, 22120, 65306, 49, 102, 114, 32, 47, 32, 49, 102, 114]))\<lparr>pbf_LayoutColumns := [''1fr'', ''1fr'']\<rparr>,
      (builder_field ''applicant_name'' ''autofill'' (runes [30003, 35531, 20154]) (runes [30331, 20837, 32773, 33258, 21205, 24118, 20837]))\<lparr>pbf_Binding := Some (source_binding ''current_user'' ''display_name'' []), pbf_ParentLayoutID := ''layout-applicant'', pbf_SlotIndex := Some 0\<rparr>,
      (builder_field ''applicant_employee_no'' ''autofill'' (runes [30003, 35531, 20154, 21729, 24037, 32232, 34399]) (runes [20381, 30003, 35531, 20154, 33258, 21205, 24118, 20837]))\<lparr>pbf_Binding := Some (source_binding ''current_user'' ''employee_no'' []), pbf_ParentLayoutID := ''layout-applicant'', pbf_SlotIndex := Some 1\<rparr>,
      (builder_field ''layout-org'' ''layout'' (runes [32068, 32340, 21015]) (runes [20998, 27396, 23481, 22120, 65306, 49, 102, 114, 32, 47, 32, 49, 102, 114]))\<lparr>pbf_LayoutColumns := [''1fr'', ''1fr'']\<rparr>,
      (builder_field ''applicant_dept'' ''autofill'' (runes [37096, 38272]) (runes [20381, 30003, 35531, 20154, 33258, 21205, 24118, 20837]))\<lparr>pbf_Binding := Some (source_binding ''current_user'' ''department_name'' []), pbf_ParentLayoutID := ''layout-org'', pbf_SlotIndex := Some 0\<rparr>,
      (builder_field ''applicant_title'' ''autofill'' (runes [32887, 31281]) (runes [20381, 30003, 35531, 20154, 33258, 21205, 24118, 20837]))\<lparr>pbf_Binding := Some (source_binding ''current_user'' ''position_name'' []), pbf_ParentLayoutID := ''layout-org'', pbf_SlotIndex := Some 1\<rparr>,
      (builder_field ''layout-proxy'' ''layout'' (runes [20195, 29702, 20154, 21015]) (runes [20998, 27396, 23481, 22120, 65306, 49, 102, 114, 32, 47, 32, 49, 102, 114]))\<lparr>pbf_LayoutColumns := [''1fr'', ''1fr'']\<rparr>,
      (builder_field ''proxy'' ''select'' (runes [20195, 29702, 20154]) (runes [19981, 38656, 35201, 26178, 21487, 30041, 31354]))\<lparr>pbf_Binding := Some (source_binding ''employees'' ''id'' ''name''), pbf_ParentLayoutID := ''layout-proxy'', pbf_SlotIndex := Some 0\<rparr>,
      (builder_field ''proxy_id'' ''autofill'' (runes [20195, 29702, 20154, 21729, 24037, 32232, 34399]) (runes [20381, 20195, 29702, 20154, 33258, 21205, 24118, 20837]))\<lparr>pbf_ParentLayoutID := ''layout-proxy'', pbf_SlotIndex := Some 1\<rparr>,
      builder_field ''section-content'' ''section-title'' (runes [30003, 35531, 20839, 23481]) [],
      (builder_field ''leave_type'' ''select'' (runes [20551, 21220, 21517, 31281]) (runes [35531, 36984, 25799]))\<lparr>pbf_Required := True, pbf_DefaultValue := VStr ''annual'', pbf_Binding := Some (source_binding ''leave_types'' ''code'' ''name'')\<rparr>,
      (builder_field ''layout-range'' ''layout'' (runes [26178, 27573, 21015]) (runes [20998, 27396, 23481, 22120, 65306, 49, 102, 114, 32, 47, 32, 49, 102, 114]))\<lparr>pbf_LayoutColumns := [''1fr'', ''1fr'']\<rparr>,
      (builder_field ''start_at'' ''datetime'' (runes [38283, 22987, 26178, 38291]) (runes [36984, 25799, 26085, 26399, 26178, 38291]))\<lparr>pbf_Required := True, pbf_ParentLayoutID := ''layout-range'', pbf_SlotIndex := Some 0\<rparr>,
      (builder_field ''end_at'' ''datetime'' (runes [32080, 26463, 26178, 38291]) (runes [36984, 25799, 26085, 26399, 26178, 38291]))\<lparr>pbf_Required := True, pbf_ParentLayoutID := ''layout-range'', pbf_SlotIndex := Some 1\<rparr>,
      (builder_field ''layout-hours'' ''layout'' (runes [26178, 25976, 21015]) (runes [20998, 27396, 23481, 22120, 65306, 49, 102, 114, 32, 47, 32, 49, 102, 114, 32, 47, 32, 49, 102, 114]))\<lparr>pbf_LayoutColumns := [''1fr'', ''1fr'', ''1fr'']\<rparr>,
      (builder_field ''hours_taken'' ''autofill'' (runes [24050, 20241, 26178, 25976]) ''0'')\<lparr>pbf_ParentLayoutID := ''layout-hours'', pbf_SlotIndex := Some 0\<rparr>,
      (builder_field ''hours_remaining'' ''autofill'' (runes [26410, 20241, 26178, 25976]) ''0'')\<lparr>pbf_ParentLayoutID := ''layout-hours'', pbf_SlotIndex := Some 1\<rparr>,
      (builder_field ''hours'' ''number'' (runes [35531, 20551, 26178, 25976]) ''0'')\<lparr>pbf_Required := True, pbf_ParentLayoutID := ''layout-hours'', pbf_SlotIndex := Some 2\<rparr>,
      (builder_field ''reason'' ''textarea'' (runes [35531, 20551, 21407, 22240]) (runes [35531, 22635, 23531, 35531, 20551, 20107, 30001]))\<lparr>pbf_Required := True\<rparr>]"

definition platformFormBuilderContractFields :: "PlatformFormBuilderField list" where
  "platformFormBuilderContractFields =
     [(builder_field ''subject'' ''text'' (runes [30003, 35531, 20027, 26088]) (runes [35531, 22635, 23531, 30003, 35531, 20027, 26088]))\<lparr>pbf_Required := True\<rparr>,
      (builder_field ''needed_at'' ''datetime'' (runes [38656, 27714, 26085, 26399]) (runes [36984, 25799, 26085, 26399]))\<lparr>pbf_Required := True\<rparr>,
      (builder_field ''description'' ''textarea'' (runes [30003, 35531, 35498, 26126]) (runes [35531, 22635, 23531, 30003, 35531, 20839, 23481]))\<lparr>pbf_Required := True\<rparr>]"

definition defaultFormKindForTemplateKey :: "string \<Rightarrow> string" where
  "defaultFormKindForTemplateKey key =
     (let key = TrimSpace key in
      if key = ''leave-request'' \<or> key = ''field-leave'' then ''hybrid''
      else if key = ''leave-cancel'' then ''system'' else ''custom'')"

definition lockedLeaveCoreFieldIDs :: "string list" where
  "lockedLeaveCoreFieldIDs = [''leave_type'', ''start_at'', ''end_at'', ''hours'', ''proxy'', ''reason'']"

definition lockedFieldIDsForTemplate :: "string \<Rightarrow> string \<Rightarrow> string list option" where
  "lockedFieldIDsForTemplate templateKey formKind =
     (let kind = TrimSpace formKind; kind = (if kind = [] then defaultFormKindForTemplateKey templateKey else kind) in
      if kind \<noteq> ''system'' \<and> kind \<noteq> ''hybrid'' then None
      else if TrimSpace templateKey \<in> set [''leave-request'', ''field-leave'', ''leave-cancel'']
      then Some lockedLeaveCoreFieldIDs else None)"

text \<open>\<open>json.Unmarshal\<close> of a field.\<close>

definition json_optional :: "(params \<Rightarrow> 'a option) \<Rightarrow> params \<Rightarrow> string \<Rightarrow> 'a option option" where
  "json_optional decode m key =
     (case map_at m key of VNil \<Rightarrow> Some None | VMap n \<Rightarrow> map_option Some (decode n) | _ \<Rightarrow> None)"

definition json_strings :: "params \<Rightarrow> string \<Rightarrow> string list option" where
  "json_strings m key = (case map_at m key of VStrs xs \<Rightarrow> Some xs | _ \<Rightarrow> json_list_field json_string_item m key)"

definition json_object_item :: "(params \<Rightarrow> 'a option) \<Rightarrow> val \<Rightarrow> 'a option" where
  "json_object_item decode v = (case v of VNil \<Rightarrow> decode [] | VMap m \<Rightarrow> decode m | _ \<Rightarrow> None)"

definition decode_option :: "params \<Rightarrow> PlatformFormBuilderFieldOption option" where
  "decode_option m =
     Option.bind (json_string_field m ''label'') (\<lambda>l. Option.bind (json_string_field m ''value'') (\<lambda>v.
       Some \<lparr>bfo_Label = l, bfo_Value = v\<rparr>))"

definition json_filters :: "params \<Rightarrow> (string, string list) gomap option" where
  "json_filters m =
     (case map_at m ''filters'' of
        VNil \<Rightarrow> Some []
      | VMap fs \<Rightarrow> decode_all (\<lambda>(k, v). map_option (Pair k) (json_strings [(k, v)] k)) fs
      | _ \<Rightarrow> None)"

definition decode_binding :: "params \<Rightarrow> PlatformFormBuilderFieldBinding option" where
  "decode_binding m =
     Option.bind (json_string_field m ''source_id'') (\<lambda>s. Option.bind (json_string_field m ''value_field'') (\<lambda>v.
     Option.bind (json_string_field m ''label_field'') (\<lambda>l. Option.bind (json_filters m) (\<lambda>f.
       Some \<lparr>bfb_SourceID = s, bfb_ValueField = v, bfb_LabelField = l, bfb_Filters = f\<rparr>))))"

definition decode_analytics :: "params \<Rightarrow> PlatformFormBuilderFieldAnalytics option" where
  "decode_analytics m =
     Option.bind (json_bool_field m ''reportable'') (\<lambda>r. Option.bind (json_string_field m ''role'') (\<lambda>role.
     Option.bind (json_strings m ''aggregations'') (\<lambda>a. Option.bind (json_bool_field m ''filterable'') (\<lambda>f.
     Option.bind (json_bool_field m ''groupable'') (\<lambda>g.
       Some \<lparr>bfa_Reportable = r, bfa_Role = role, bfa_Aggregations = a, bfa_Filterable = f, bfa_Groupable = g\<rparr>)))))"

definition decode_security :: "params \<Rightarrow> PlatformFormBuilderFieldSecurity option" where
  "decode_security m =
     Option.bind (json_string_field m ''classification'') (\<lambda>c. Option.bind (json_string_field m ''masking'') (\<lambda>k.
     Option.bind (json_bool_field m ''agent_access'') (\<lambda>a.
       Some \<lparr>bfs_Classification = c, bfs_Masking = k, bfs_AgentAccess = a\<rparr>)))"

definition json_slot :: "params \<Rightarrow> int option option" where
  "json_slot m = (case map_at m ''slot_index'' of VNil \<Rightarrow> Some None | VNum n \<Rightarrow> Some (Some n) | _ \<Rightarrow> None)"

definition decode_field :: "params \<Rightarrow> PlatformFormBuilderField option" where
  "decode_field m =
     Option.bind (json_string_field m ''id'') (\<lambda>i. Option.bind (json_string_field m ''type'') (\<lambda>t.
     Option.bind (json_string_field m ''label'') (\<lambda>l. Option.bind (json_string_field m ''placeholder'') (\<lambda>p.
     Option.bind (json_bool_field m ''required'') (\<lambda>r. Option.bind (json_strings m ''layout_columns'') (\<lambda>cols.
     Option.bind (json_list_field (json_object_item decode_option) m ''options'') (\<lambda>opts.
     Option.bind (json_optional decode_binding m ''binding'') (\<lambda>b.
     Option.bind (json_optional decode_analytics m ''analytics'') (\<lambda>a.
     Option.bind (json_optional decode_security m ''security'') (\<lambda>s.
     Option.bind (json_string_field m ''parent_layout_id'') (\<lambda>parent. Option.bind (json_slot m) (\<lambda>slot.
       Some \<lparr>pbf_ID = i, pbf_Type = t, pbf_Label = l, pbf_Placeholder = p, pbf_Required = r,
         pbf_DefaultValue = map_at m ''default_value'', pbf_LayoutColumns = cols, pbf_Options = opts, pbf_Binding = b,
         pbf_Analytics = a, pbf_Security = s, pbf_ParentLayoutID = parent, pbf_SlotIndex = slot\<rparr>))))))))))))"

definition platformExplicitTemplateFields :: "params \<Rightarrow> PlatformFormBuilderField list \<times> bool" where
  "platformExplicitTemplateFields schema =
     (let design = platformTemplateDesign schema in
      case map_of design ''fields'' of
        None \<Rightarrow> ([], False)
      | Some raw \<Rightarrow> (case platformDecodeSlice (json_object_item decode_field) raw of
            None \<Rightarrow> ([], False) | Some fs \<Rightarrow> (fs, fs \<noteq> [])))"

definition isLegacyGenericBuilderFields :: "PlatformFormBuilderField list \<Rightarrow> bool" where
  "isLegacyGenericBuilderFields fs \<longleftrightarrow>
     map (\<lambda>f. TrimSpace (pbf_ID f)) fs = [''subject'', ''needed_at'', ''description'']"

definition platformTemplateFields :: "string \<Rightarrow> params \<Rightarrow> PlatformFormBuilderField list" where
  "platformTemplateFields templateKey schema =
     (case platformExplicitTemplateFields schema of (fs, ok) \<Rightarrow>
        let isLeaveTemplate = (lockedFieldIDsForTemplate templateKey (defaultFormKindForTemplateKey templateKey) \<noteq> None)
        in if ok \<and> \<not> (isLeaveTemplate \<and> isLegacyGenericBuilderFields fs) then fs
           else if isLeaveTemplate then platformLeaveRequestBuilderFields
           else platformFormBuilderContractFields)"

definition isStructuralFormFieldType :: "string \<Rightarrow> bool" where
  "isStructuralFormFieldType fieldType \<longleftrightarrow> TrimSpace fieldType \<in> set [''layout'', ''section-title'', ''divider'', ''html'']"

section \<open>Payloads\<close>

definition workflowPayload :: "params \<Rightarrow> params" where
  "workflowPayload payload = CopyStringMap payload"

definition workflowNotificationRecipientPayloadKeys :: "string list" where
  "workflowNotificationRecipientPayloadKeys =
     [''notify_account_ids'', ''notified_account_ids'', ''cc_account_ids'', ''approver_account_ids'', ''reviewer_account_ids'',
      ''notifyAccountIds'', ''notifiedAccountIds'', ''ccAccountIds'', ''approverAccountIds'', ''reviewerAccountIds'']"

definition allowed_payload_keys :: "PlatformFormBuilderField list \<Rightarrow> string list" where
  "allowed_payload_keys fs =
     filter (\<lambda>k. k \<noteq> []) (map (\<lambda>f. TrimSpace (pbf_ID f)) (filter (\<lambda>f. \<not> isStructuralFormFieldType (pbf_Type f)) fs)) @
     workflowNotificationRecipientPayloadKeys"

definition workflowPayloadForNewInstance :: "FormTemplate \<Rightarrow> params \<Rightarrow> params" where
  "workflowPayloadForNewInstance template payload =
     (case platformExplicitTemplateFields (ft_Schema template) of (fs, hasExplicitFields) \<Rightarrow>
        workflowPayload (filter (\<lambda>(key, _). \<not> workflowServerOwnsPayloadKey key \<and>
          (hasExplicitFields \<longrightarrow> key \<in> set (allowed_payload_keys fs))) payload))"

definition isEmptyFormPayloadValue :: "val \<Rightarrow> bool" where
  "isEmptyFormPayloadValue value =
     (case value of VNil \<Rightarrow> True | VStr s \<Rightarrow> TrimSpace s = [] | VList xs \<Rightarrow> xs = [] | VStrs xs \<Rightarrow> xs = [] | _ \<Rightarrow> False)"

definition isFormAttachmentPayloadValue :: "val \<Rightarrow> bool" where
  "isFormAttachmentPayloadValue value =
     (case value of
        VList items \<Rightarrow> list_all (\<lambda>item. case item of
            VMap m \<Rightarrow> (case map_at m ''id'' of VStr i \<Rightarrow> TrimSpace i \<noteq> [] | _ \<Rightarrow> False) | _ \<Rightarrow> False) items
      | _ \<Rightarrow> False)"

definition validateFormPayloadFieldType :: "PlatformFormBuilderField \<Rightarrow> val \<Rightarrow> string \<times> string" where
  "validateFormPayloadFieldType field v =
     (let label = FirstNonEmpty [TrimSpace (pbf_Label field), TrimSpace (pbf_ID field)]; t = TrimSpace (pbf_Type field) in
      if t = ''number'' then
        (case v of VNum _ \<Rightarrow> ([], []) | VFloat _ \<Rightarrow> ([], [])
         | VStr s \<Rightarrow> if TrimSpace s = [] \<or> ParseFloat (TrimSpace s) = None then (''invalid'', label @ '' must be a number'') else ([], [])
         | _ \<Rightarrow> (''invalid'', label @ '' must be a number''))
      else if t = ''checkbox'' then (case v of VBool _ \<Rightarrow> ([], []) | _ \<Rightarrow> (''invalid'', label @ '' must be a boolean''))
      else if t = ''multilist'' then
        (case v of VList _ \<Rightarrow> ([], []) | VStrs _ \<Rightarrow> ([], []) | _ \<Rightarrow> (''invalid'', label @ '' must be an array''))
      else if t \<in> set [''file'', ''image'', ''upload''] then
        (if isFormAttachmentPayloadValue v then ([], []) else (''invalid'', label @ '' must be an array of attachment references''))
      else ([], []))"

section \<open>Data sources\<close>

abbreviation (input) formDataSourceCurrentUser :: string where "formDataSourceCurrentUser \<equiv> ''current_user''"
abbreviation (input) formDataSourceDepartments :: string where "formDataSourceDepartments \<equiv> ''departments''"
abbreviation (input) formDataSourceEmployees :: string where "formDataSourceEmployees \<equiv> ''employees''"
abbreviation (input) formDataSourcePositions :: string where "formDataSourcePositions \<equiv> ''positions''"
abbreviation (input) formDataSourceLeaveTypes :: string where "formDataSourceLeaveTypes \<equiv> ''leave_types''"
abbreviation (input) formDataSourceWorkStatus :: string where "formDataSourceWorkStatus \<equiv> ''work_status''"

definition formDataSourceAllowedFields :: "(string \<times> string list) list" where
  "formDataSourceAllowedFields =
     [(formDataSourceCurrentUser, [''display_name'', ''email'', ''employee_id'', ''employee_no'', ''department_id'',
         ''department_name'', ''position_id'', ''position_name'']),
      (formDataSourceDepartments, [''id'', ''name'', ''code'']),
      (formDataSourceEmployees, [''id'', ''name'', ''employee_no'', ''email'', ''department_id'', ''department_name'',
         ''position_id'', ''position_name'', formDataSourceWorkStatus]),
      (formDataSourcePositions, [''id'', ''name'', ''code'', ''department_id'']),
      (formDataSourceLeaveTypes, [''code'', ''name''])]"

definition isFormDataSourceOptionField :: "string \<Rightarrow> bool" where
  "isFormDataSourceOptionField fieldType \<longleftrightarrow>
     TrimSpace fieldType \<in> set [''select'', ''radio'', ''multilist'', ''country'', ''autofill-select'']"

definition field_error :: "string \<Rightarrow> string \<Rightarrow> string \<Rightarrow> FieldError" where
  "field_error field code message = \<lparr>fe_Tab = [], fe_Field = field, fe_Code = code, fe_Message = message\<rparr>"

definition EmployeeStatus_Valid :: "string \<Rightarrow> bool \<Rightarrow> bool" where
  "EmployeeStatus_Valid s includeDeleted \<longleftrightarrow>
     s \<in> set [''active'', ''probation'', ''leave_suspended'', ''onboarding'', ''resigned''] \<or> (s = ''deleted'' \<and> includeDeleted)"

definition work_status_valid :: "string \<Rightarrow> bool" where
  "work_status_valid value =
     (case ParseEmployeeStatus value of None \<Rightarrow> False | Some status \<Rightarrow> EmployeeStatus_Valid status False \<and> status = value)"

text \<open>The filters are a map: the first offending one in its iteration order is reported.\<close>

fun filter_errors :: "string \<Rightarrow> string \<Rightarrow> (string, string list) gomap \<Rightarrow> FieldError list" where
  "filter_errors prefx sourceID [] = []"
| "filter_errors prefx sourceID ((filterField, values) # rest) =
     (let place = prefx @ ''.filters.'' @ filterField in
      if sourceID \<noteq> formDataSourceEmployees \<or> filterField \<noteq> formDataSourceWorkStatus
      then [field_error place ''invalid'' ''unsupported data source filter'']
      else if values = [] then [field_error place ''required'' ''data source filter requires at least one value'']
      else if \<not> list_all work_status_valid values then [field_error place ''invalid'' ''unsupported employee work status'']
      else filter_errors prefx sourceID rest)"

definition ValidateFormFieldBinding :: "string \<Rightarrow> string \<Rightarrow> PlatformFormBuilderFieldBinding \<Rightarrow> FieldError list" where
  "ValidateFormFieldBinding fieldID fieldType bind =
     (let prefx = ''fields.'' @ fieldID @ ''.binding''; sourceID = TrimSpace (bfb_SourceID bind) in
      case map_of formDataSourceAllowedFields sourceID of
        None \<Rightarrow> [field_error (prefx @ ''.source_id'') ''invalid'' ''unsupported form data source'']
      | Some allowedFields \<Rightarrow>
          let isObject = (sourceID = formDataSourceCurrentUser) in
          if TrimSpace (bfb_ValueField bind) \<notin> set allowedFields
          then [field_error (prefx @ ''.value_field'') ''invalid'' ''unsupported data source value field'']
          else if isObject \<and> TrimSpace fieldType \<noteq> ''autofill''
          then [field_error prefx ''invalid'' ''current user bindings require an autofill field'']
          else if \<not> isObject \<and> TrimSpace (bfb_LabelField bind) \<notin> set allowedFields
          then [field_error (prefx @ ''.label_field'') ''invalid'' ''collection binding requires a valid label field'']
          else if \<not> isObject \<and> \<not> isFormDataSourceOptionField fieldType
          then [field_error prefx ''invalid'' ''collection bindings require an option field'']
          else filter_errors prefx sourceID (bfb_Filters bind))"

definition dataSourceString :: "val \<Rightarrow> string" where
  "dataSourceString value = (case value of VStr s \<Rightarrow> s | _ \<Rightarrow> [])"

fun firstNonEmptyString :: "string list \<Rightarrow> string" where
  "firstNonEmptyString [] = []"
| "firstNonEmptyString (v # vs) = (if TrimSpace v \<noteq> [] then v else firstNonEmptyString vs)"

definition sortFormDataSourceRecords :: "params list \<Rightarrow> string \<Rightarrow> params list" where
  "sortFormDataSourceRecords records key =
     sort_less (\<lambda>a b. ToLower (dataSourceString (map_at a key)) < ToLower (dataSourceString (map_at b key))) records"

definition source_field :: "string \<Rightarrow> string \<Rightarrow> FormDataSourceField" where
  "source_field key label = \<lparr>fdf_Key = key, fdf_Label = label, fdf_Type = ''string''\<rparr>"

definition currentUserDataSourceFields :: "FormDataSourceField list" where
  "currentUserDataSourceFields =
     [source_field ''display_name'' (runes [22995, 21517]),
      source_field ''email'' (runes [20844, 21496, 32, 69, 109, 97, 105, 108]),
      source_field ''employee_id'' (runes [21729, 24037, 32, 73, 68]),
      source_field ''employee_no'' (runes [21729, 24037, 32232, 34399]),
      source_field ''department_id'' (runes [37096, 38272, 32, 73, 68]),
      source_field ''department_name'' (runes [37096, 38272, 21517, 31281]),
      source_field ''position_id'' (runes [23831, 20301, 32, 73, 68]),
      source_field ''position_name'' (runes [23831, 20301, 21517, 31281])]"

definition departmentDataSourceFields :: "FormDataSourceField list" where
  "departmentDataSourceFields =
     [source_field ''id'' (runes [37096, 38272, 32, 73, 68]),
      source_field ''name'' (runes [37096, 38272, 21517, 31281]),
      source_field ''code'' (runes [37096, 38272, 20195, 30908])]"

definition employeeDataSourceFields :: "FormDataSourceField list" where
  "employeeDataSourceFields =
     [source_field ''id'' (runes [21729, 24037, 32, 73, 68]),
      source_field ''name'' (runes [21729, 24037, 22995, 21517]),
      source_field ''employee_no'' (runes [21729, 24037, 32232, 34399]),
      source_field ''email'' (runes [20844, 21496, 32, 69, 109, 97, 105, 108]),
      source_field ''department_id'' (runes [37096, 38272, 32, 73, 68]),
      source_field ''department_name'' (runes [37096, 38272, 21517, 31281]),
      source_field ''position_id'' (runes [23831, 20301, 32, 73, 68]),
      source_field ''position_name'' (runes [23831, 20301, 21517, 31281]),
      source_field formDataSourceWorkStatus (runes [24037, 20316, 29376, 24907])]"

definition positionDataSourceFields :: "FormDataSourceField list" where
  "positionDataSourceFields =
     [source_field ''id'' (runes [23831, 20301, 32, 73, 68]),
      source_field ''name'' (runes [23831, 20301, 21517, 31281]),
      source_field ''code'' (runes [23831, 20301, 20195, 30908]),
      source_field ''department_id'' (runes [37096, 38272, 32, 73, 68])]"

definition leaveTypeDataSourceFields :: "FormDataSourceField list" where
  "leaveTypeDataSourceFields =
     [source_field ''code'' (runes [20551, 21029, 20195, 30908]),
      source_field ''name'' (runes [20551, 21029, 21517, 31281])]"

text \<open>The records of a source, from the tables read: only what \<open>formDataSourceAllowedFields\<close> names is put in.\<close>

definition department_records :: "OrgUnit list \<Rightarrow> params list" where
  "department_records units =
     map (\<lambda>u. [(''id'', VStr (ou_ID u)), (''name'', VStr (ou_Name u)), (''code'', VStr (ou_Code u))])
       (filter (\<lambda>u. \<not> ou_Closed u) units)"

definition position_records :: "Position list \<Rightarrow> params list" where
  "position_records positions =
     map (\<lambda>p. [(''id'', VStr (pos_ID p)), (''name'', VStr (pos_Name p)), (''code'', VStr (pos_Code p))])
       (filter (\<lambda>p. \<not> EqualFold (pos_Status p) ''disabled'') positions)"

definition named :: "('a \<Rightarrow> string) \<Rightarrow> ('a \<Rightarrow> string) \<Rightarrow> 'a list \<Rightarrow> string \<Rightarrow> string" where
  "named ident name items key = (case find (\<lambda>x. ident x = key) (rev items) of None \<Rightarrow> [] | Some x \<Rightarrow> name x)"

definition employee_work_status :: "Employee \<Rightarrow> string" where
  "employee_work_status e = NormalizeEmployeeStatus (firstNonEmptyString [emp_EmploymentStatus e, emp_Status e])"

definition employee_records :: "OrgUnit list \<Rightarrow> Position list \<Rightarrow> Employee list \<Rightarrow> params list" where
  "employee_records units positions employees =
     map (\<lambda>e. [(''id'', VStr (emp_ID e)), (''name'', VStr (emp_Name e)), (''employee_no'', VStr (emp_EmployeeNo e)),
          (''email'', VStr (emp_CompanyEmail e)), (''department_id'', VStr (emp_OrgUnitID e)),
          (''department_name'', VStr (named ou_ID ou_Name units (emp_OrgUnitID e))), (''position_id'', VStr (emp_PositionID e)),
          (''position_name'', VStr (firstNonEmptyString [named pos_ID pos_Name positions (emp_PositionID e), emp_Position e])),
          (formDataSourceWorkStatus, VStr (employee_work_status e))])
       (filter (\<lambda>e. \<not> EqualFold (employee_work_status e) ''deleted'') employees)"

definition leave_type_records :: "LeaveType list \<Rightarrow> params list" where
  "leave_type_records leaveTypes =
     map (\<lambda>t. [(''code'', VStr (lt_Code t)), (''name'', VStr (lt_NameZH t))])
       (filter (\<lambda>t. lt_Enabled t \<and> (lt_Kind t = [] \<or> lt_Kind t = ''item'')) leaveTypes)"

definition current_user_record :: "Account \<Rightarrow> OrgUnit list \<Rightarrow> Position list \<Rightarrow> Employee list \<Rightarrow> params" where
  "current_user_record account units positions employees =
     (let e = (case find (\<lambda>e. emp_AccountID e = acc_ID account) (rev employees) of None \<Rightarrow> zero_Employee | Some e \<Rightarrow> e)
      in [(''id'', VStr (acc_ID account)), (''display_name'', VStr (acc_DisplayName account)), (''email'', VStr (acc_Email account)),
          (''employee_id'', VStr (emp_ID e)), (''employee_no'', VStr (emp_EmployeeNo e)), (''department_id'', VStr (emp_OrgUnitID e)),
          (''department_name'', VStr (named ou_ID ou_Name units (emp_OrgUnitID e))), (''position_id'', VStr (emp_PositionID e)),
          (''position_name'', VStr (firstNonEmptyString [named pos_ID pos_Name positions (emp_PositionID e), emp_Position e]))])"

definition data_source :: "string \<Rightarrow> string \<Rightarrow> string \<Rightarrow> FormDataSourceField list \<Rightarrow> params list \<Rightarrow> FormDataSource" where
  "data_source ident label kind fs records =
     \<lparr>fds_ID = ident, fds_Label = label, fds_Kind = kind, fds_Fields = fs, fds_Records = records\<rparr>"

definition form_data_sources ::
    "Account \<Rightarrow> OrgUnit list \<Rightarrow> Position list \<Rightarrow> Employee list \<Rightarrow> LeaveType list \<Rightarrow> FormDataSource list" where
  "form_data_sources account units positions employees leaveTypes =
     (let sorted = (\<lambda>rs. sortFormDataSourceRecords rs ''name'') in
     [data_source formDataSourceCurrentUser (runes [30446, 21069, 30331, 20837, 32773]) ''object'' currentUserDataSourceFields
        [current_user_record account units positions employees],
      data_source formDataSourceDepartments (runes [37096, 38272]) ''collection'' departmentDataSourceFields (sorted (department_records units)),
      data_source formDataSourceEmployees (runes [21729, 24037]) ''collection'' employeeDataSourceFields (sorted (employee_records units positions employees)),
      data_source formDataSourcePositions (runes [23831, 20301]) ''collection'' positionDataSourceFields (sorted (position_records positions)),
      data_source formDataSourceLeaveTypes (runes [20551, 26399, 39006, 21029]) ''collection'' leaveTypeDataSourceFields (sorted (leave_type_records leaveTypes))])"

definition formDataSourceByID :: "FormDataSource list \<Rightarrow> string \<Rightarrow> FormDataSource option" where
  "formDataSourceByID catalog sourceID = find (\<lambda>s. fds_ID s = sourceID) catalog"

definition formFieldsHaveBindings :: "PlatformFormBuilderField list \<Rightarrow> bool" where
  "formFieldsHaveBindings fs = list_ex (\<lambda>f. pbf_Binding f \<noteq> None) fs"

definition recordMatchesFormDataSourceBinding :: "string \<Rightarrow> params \<Rightarrow> (string, string list) gomap \<Rightarrow> bool" where
  "recordMatchesFormDataSourceBinding sourceID record filters =
     (if sourceID = formDataSourceEmployees \<and> map_of filters formDataSourceWorkStatus = None
      then let status = NormalizeEmployeeStatus (dataSourceString (map_at record formDataSourceWorkStatus))
           in status \<noteq> ''resigned'' \<and> status \<noteq> ''deleted''
      else list_all (\<lambda>(field, values). values \<noteq> [] \<and> dataSourceString (map_at record field) \<in> set values) filters)"

definition selected_strings :: "val \<Rightarrow> string list" where
  "selected_strings value =
     (case value of VStrs xs \<Rightarrow> xs | VList xs \<Rightarrow> map dataSourceString xs | _ \<Rightarrow> [dataSourceString value])"

definition bound_choices :: "FormDataSource \<Rightarrow> PlatformFormBuilderFieldBinding \<Rightarrow> string list" where
  "bound_choices source bind =
     map (\<lambda>r. dataSourceString (map_at r (TrimSpace (bfb_ValueField bind))))
       (filter (\<lambda>r. recordMatchesFormDataSourceBinding (fds_ID source) r (bfb_Filters bind)) (fds_Records source))"

definition ValidateAndResolveBoundSubmissionValue ::
    "FormDataSource list \<Rightarrow> PlatformFormBuilderFieldBinding \<Rightarrow> val option \<Rightarrow> string + val option" where
  "ValidateAndResolveBoundSubmissionValue catalog bind submitted =
     (case formDataSourceByID catalog (TrimSpace (bfb_SourceID bind)) of
        None \<Rightarrow> Inl ''bound data source is unavailable''
      | Some source \<Rightarrow>
          if fds_Kind source = ''object''
          then (case fds_Records source of
              [] \<Rightarrow> Inl ''bound data source has no current record''
            | record # _ \<Rightarrow> (case map_of record (TrimSpace (bfb_ValueField bind)) of
                  None \<Rightarrow> Inl ''bound field is unavailable'' | Some resolved \<Rightarrow> Inr (Some resolved)))
          else (case submitted of
              None \<Rightarrow> Inr None
            | Some value \<Rightarrow>
                if isEmptyFormPayloadValue value then Inr (Some value)
                else if list_all (\<lambda>item. item \<in> set (bound_choices source bind)) (selected_strings value)
                then Inr (Some value)
                else Inl ''selected value is not present in the bound data source''))"

end
