(* ===== verification/Form_Design.thy ===== *)
theory Form_Design
  imports Form_Fields
begin

text \<open>
  What a form design must look like to be published, and what a submitted payload must look like to start a
  workflow (\<open>src/internal/service/workspace_form_design_validation.go\<close>).  An accepted design has a
  workflow graph whose edges lead to stages or to the end and whose stages are all reachable; an accepted
  payload has no server-owned key and a value of the right kind for every required field.
\<close>

section \<open>Stages in normal form\<close>

definition config_text :: "PlatformFormBuilderStage \<Rightarrow> string \<Rightarrow> string" where
  "config_text stage key = TrimSpace (stringFromAny (map_at (pbs_Config stage) key))"

definition with_config :: "string \<Rightarrow> string \<Rightarrow> PlatformFormBuilderStage \<Rightarrow> PlatformFormBuilderStage" where
  "with_config key v stage = stage\<lparr>pbs_Config := map_put key (VStr v) (pbs_Config stage)\<rparr>"

definition unparalleled :: "PlatformFormBuilderStage \<Rightarrow> PlatformFormBuilderStage" where
  "unparalleled stage =
     (if TrimSpace (pbs_Type stage) = ''parallel''
      then let stage = stage\<lparr>pbs_Type := ''approver''\<rparr>
           in if config_text stage ''mode'' = [] then with_config ''mode'' ''all'' stage else stage
      else stage)"

definition design_false_head :: "PlatformFormBuilderStage \<Rightarrow> string set" where
  "design_false_head stage =
     (let trueNext = config_text stage ''true_next_stage_id''; falseNext = config_text stage ''false_next_stage_id'' in
      if TrimSpace (pbs_Type stage) = ''condition'' \<and> falseNext \<noteq> [] \<and> falseNext \<noteq> WorkflowStageEndID \<and> falseNext \<noteq> trueNext
      then {falseNext} else {})"

definition next_candidate :: "PlatformFormBuilderStage list \<Rightarrow> string" where
  "next_candidate later = (case later of [] \<Rightarrow> [] | t # _ \<Rightarrow> TrimSpace (pbs_ID t))"

definition backfilled :: "string set \<Rightarrow> string \<Rightarrow> PlatformFormBuilderStage \<Rightarrow> PlatformFormBuilderStage" where
  "backfilled heads candidate stage =
     (if TrimSpace (pbs_Type stage) = ''condition'' then
        let stage = (if config_text stage ''true_next_stage_id'' = []
                     then with_config ''true_next_stage_id'' (if candidate = [] then WorkflowStageEndID else candidate) stage
                     else stage)
        in if config_text stage ''false_next_stage_id'' = []
           then with_config ''false_next_stage_id'' WorkflowStageEndID stage else stage
      else if config_text stage ''next_stage_id'' \<noteq> [] then stage
      else with_config ''next_stage_id''
             (if candidate = [] \<or> candidate \<in> heads then WorkflowStageEndID else candidate) stage)"

fun backfill_loop :: "string set \<Rightarrow> PlatformFormBuilderStage list \<Rightarrow> PlatformFormBuilderStage list" where
  "backfill_loop heads [] = []"
| "backfill_loop heads (stage # later) =
     (let stage = backfilled heads (next_candidate later) stage
      in stage # backfill_loop (heads \<union> design_false_head stage) later)"

definition normalizeWorkspaceFormDesignStages :: "PlatformFormBuilderStage list \<Rightarrow> PlatformFormBuilderStage list" where
  "normalizeWorkspaceFormDesignStages stages =
     (let stages = map unparalleled stages in backfill_loop (\<Union> (set (map design_false_head stages))) stages)"

section \<open>The graph of the stages\<close>

definition validateWorkflowEdgeTarget :: "string \<Rightarrow> string \<Rightarrow> string set \<Rightarrow> string \<Rightarrow> FieldError list" where
  "validateWorkflowEdgeTarget field target stageIDs selfID =
     (let target = TrimSpace target in
      if target = [] then [field_error field ''required'' ''workflow edge target is required'']
      else if target = WorkflowStageEndID then []
      else if target = TrimSpace selfID then [field_error field ''invalid'' ''workflow edge cannot point to itself'']
      else if target \<notin> stageIDs then [field_error field ''invalid'' ''workflow edge target does not exist'']
      else [])"

definition edge_names :: "PlatformFormBuilderStage \<Rightarrow> string list" where
  "edge_names stage =
     (let config = workflowStageConfigFromMap (pbs_Config stage)
      in map TrimSpace (if TrimSpace (pbs_Type stage) = ''condition''
           then [wsc_TrueNextStageID config, wsc_FalseNextStageID config] else [wsc_NextStageID config]))"

definition stage_targets :: "PlatformFormBuilderStage \<Rightarrow> string list" where
  "stage_targets stage = filter (\<lambda>t. t \<noteq> [] \<and> t \<noteq> WorkflowStageEndID) (edge_names stage)"

text \<open>A map from ids: a stage written later under the same id replaces the earlier one.\<close>

definition stage_by_id :: "PlatformFormBuilderStage list \<Rightarrow> string \<Rightarrow> PlatformFormBuilderStage option" where
  "stage_by_id stages ident = (if ident = [] then None else find (\<lambda>s. TrimSpace (pbs_ID s) = ident) (rev stages))"

definition successors :: "PlatformFormBuilderStage list \<Rightarrow> string \<Rightarrow> string list" where
  "successors stages ident = (case stage_by_id stages ident of None \<Rightarrow> [] | Some stage \<Rightarrow> stage_targets stage)"

definition known_targets :: "PlatformFormBuilderStage list \<Rightarrow> string set" where
  "known_targets stages = (\<Union>s\<in>set stages. set (stage_targets s))"

lemma stage_by_id_found:
  assumes "stage_by_id stages i = Some s"
  shows "s \<in> set stages" "TrimSpace (pbs_ID s) = i" "i \<noteq> []"
proof -
  have "i \<noteq> []" "find (\<lambda>s. TrimSpace (pbs_ID s) = i) (rev stages) = Some s"
    using assms by (simp_all add: stage_by_id_def split: if_splits)
  then show "s \<in> set stages" "TrimSpace (pbs_ID s) = i" "i \<noteq> []"
    by (auto simp: find_Some_iff rev_nth)
qed

lemma successors_known: "set (successors stages i) \<subseteq> known_targets stages"
  using stage_by_id_found(1) by (fastforce simp: successors_def known_targets_def split: option.splits)

function reach_loop :: "PlatformFormBuilderStage list \<Rightarrow> string list \<Rightarrow> string list \<Rightarrow> string list" where
  "reach_loop stages [] visited = visited"
| "reach_loop stages (current # queue) visited =
     (if current \<in> set visited then reach_loop stages queue visited
      else reach_loop stages (queue @ filter (\<lambda>t. t \<notin> set (current # visited)) (successors stages current)) (current # visited))"
  by pat_completeness auto

termination
proof (relation "inv_image (less_than <*lex*> less_than)
    (\<lambda>(stages, queue, visited). (card (set queue \<union> known_targets stages - set visited), length queue))", goal_cases)
  case 1
  then show ?case by (intro wf_inv_image wf_lex_prod wf_less_than)
next
  case (2 stages current queue visited)
  have "set queue \<union> known_targets stages - set visited = set (current # queue) \<union> known_targets stages - set visited"
    using 2 by auto
  then show ?case by simp
next
  case (3 stages current queue visited)
  let ?new = "filter (\<lambda>t. t \<notin> set (current # visited)) (successors stages current)"
  have "set (queue @ ?new) \<union> known_targets stages - set (current # visited) \<subset>
      set (current # queue) \<union> known_targets stages - set visited"
    using 3 successors_known [of stages current] by auto
  moreover have "finite (set (current # queue) \<union> known_targets stages - set visited)"
    by (simp add: known_targets_def)
  ultimately show ?case by (simp add: psubset_card_mono)
qed

definition reachable_ids :: "PlatformFormBuilderStage list \<Rightarrow> string list" where
  "reachable_ids stages =
     (case stages of [] \<Rightarrow> [] | s # _ \<Rightarrow> if TrimSpace (pbs_ID s) = [] then [] else reach_loop stages [TrimSpace (pbs_ID s)] [])"

definition validateWorkflowGraphReachability :: "PlatformFormBuilderStage list \<Rightarrow> FieldError list" where
  "validateWorkflowGraphReachability stages =
     (if stages = [] \<or> TrimSpace (pbs_ID (hd stages)) = [] then []
      else map (\<lambda>s. field_error (''stages.'' @ TrimSpace (pbs_ID s)) ''unreachable'' ''workflow stage is unreachable from the entry stage'')
        (filter (\<lambda>s. TrimSpace (pbs_ID s) \<noteq> [] \<and> TrimSpace (pbs_ID s) \<notin> set (reachable_ids stages)) stages))"

section \<open>Checks of a design\<close>

definition ValidateFormFieldAnalyticsAndSecurity :: "string \<Rightarrow> PlatformFormBuilderField \<Rightarrow> FieldError list" where
  "ValidateFormFieldAnalyticsAndSecurity fieldID field =
     (let prefx = ''fields.'' @ fieldID in
      (case pbf_Analytics field of
         None \<Rightarrow> []
       | Some analytics \<Rightarrow>
           let role = TrimSpace (bfa_Role analytics) in
           (if bfa_Reportable analytics \<and> role = []
            then [field_error (prefx @ ''.analytics.role'') ''required'' ''reportable field must declare dimension or measure role'']
            else if role \<noteq> [] \<and> role \<notin> set [''dimension'', ''measure'']
            then [field_error (prefx @ ''.analytics.role'') ''invalid'' ''analytics role must be dimension or measure'']
            else []) @
           concat (map (\<lambda>aggregation. let aggregation = TrimSpace aggregation in
             if aggregation \<notin> set [''count'', ''sum'', ''avg'', ''min'', ''max'']
             then [field_error (prefx @ ''.analytics.aggregations'') ''invalid'' ''unsupported analytics aggregation'']
             else if (aggregation = ''sum'' \<or> aggregation = ''avg'') \<and> TrimSpace (pbf_Type field) \<noteq> ''number''
             then [field_error (prefx @ ''.analytics.aggregations'') ''invalid'' ''sum and avg require a number field'']
             else []) (bfa_Aggregations analytics))) @
      (case pbf_Security field of
         None \<Rightarrow> []
       | Some security \<Rightarrow>
           let classification = TrimSpace (bfs_Classification security); masking = TrimSpace (bfs_Masking security) in
           (if classification \<noteq> [] \<and> classification \<notin> set [''public'', ''internal'', ''confidential'', ''restricted'']
            then [field_error (prefx @ ''.security.classification'') ''invalid'' ''unsupported security classification''] else []) @
           (if masking \<noteq> [] \<and> masking \<notin> set [''none'', ''partial'', ''full'']
            then [field_error (prefx @ ''.security.masking'') ''invalid'' ''unsupported masking mode''] else [])))"

definition field_checks :: "string set \<Rightarrow> string \<Rightarrow> PlatformFormBuilderField \<Rightarrow> FieldError list" where
  "field_checks seen ident field =
     (if ident \<in> seen then [field_error (''fields.'' @ ident) ''duplicate'' ''field id must be unique''] else []) @
     (if TrimSpace (pbf_Type field) = [] then [field_error (''fields.'' @ ident @ ''.type'') ''required'' ''field type is required''] else []) @
     (if TrimSpace (pbf_Label field) = [] then [field_error (''fields.'' @ ident @ ''.label'') ''required'' ''field label is required''] else []) @
     (case pbf_Binding field of None \<Rightarrow> [] | Some bind \<Rightarrow> ValidateFormFieldBinding ident (pbf_Type field) bind) @
     ValidateFormFieldAnalyticsAndSecurity ident field"

definition numbered :: "string \<Rightarrow> nat \<Rightarrow> string" where
  "numbered what i = what @ ''['' @ nat_string i @ '']''"

fun field_loop :: "nat \<Rightarrow> string set \<Rightarrow> PlatformFormBuilderField list \<Rightarrow> FieldError list" where
  "field_loop i seen [] = []"
| "field_loop i seen (field # later) =
     (let ident = TrimSpace (pbf_ID field) in
      if ident = [] then field_error (numbered ''fields'' i @ ''.id'') ''required'' ''field id is required'' # field_loop (Suc i) seen later
      else field_checks seen ident field @ field_loop (Suc i) (insert ident seen) later)"

fun stage_id_loop :: "nat \<Rightarrow> string set \<Rightarrow> PlatformFormBuilderStage list \<Rightarrow> FieldError list" where
  "stage_id_loop i seen [] = []"
| "stage_id_loop i seen (stage # later) =
     (let ident = TrimSpace (pbs_ID stage) in
      if ident = [] then field_error (numbered ''stages'' i @ ''.id'') ''required'' ''stage id is required'' # stage_id_loop (Suc i) seen later
      else (if ident \<in> seen then [field_error (''stages.'' @ ident) ''duplicate'' ''stage id must be unique''] else []) @
           stage_id_loop (Suc i) (insert ident seen) later)"

definition stage_ids :: "PlatformFormBuilderStage list \<Rightarrow> string set" where
  "stage_ids stages = set (filter (\<lambda>i. i \<noteq> []) (map (\<lambda>s. TrimSpace (pbs_ID s)) stages))"

definition allowedWorkspaceFormStageTypes :: "string list" where
  "allowedWorkspaceFormStageTypes = [''approver'', ''condition'', ''notify'']"

definition allowedWorkspaceFormRoles :: "string list" where
  "allowedWorkspaceFormRoles = [''applicant'', ''manager'', ''relative'', ''dept-head'', ''hr'', ''finance'', ''ceo'']"

definition target_checks :: "string \<Rightarrow> WorkflowStageConfig \<Rightarrow> FieldError list" where
  "target_checks prefx config =
     (if wsc_UserGroupIDs config \<noteq> [] then [field_error (prefx @ ''.config.user_group_ids'') ''unsupported''
        ''workflow user_group_ids targeting is retired; assign an approval role instead''] else []) @
     (if wsc_AccountIDs config = [] \<and> TrimSpace (wsc_Role config) = []
      then [field_error (prefx @ ''.config'') ''required'' ''stage config must include role or account_ids''] else []) @
     (if TrimSpace (wsc_Role config) \<noteq> [] \<and> TrimSpace (wsc_Role config) \<notin> set allowedWorkspaceFormRoles
      then [field_error (prefx @ ''.config.role'') ''invalid'' ''unsupported workflow role''] else [])"

definition condition_checks :: "string \<Rightarrow> string set \<Rightarrow> string \<Rightarrow> WorkflowStageConfig \<Rightarrow> FieldError list" where
  "condition_checks prefx ids ident config =
     (let field = TrimSpace (wsc_Field config); v = TrimSpace (wsc_Value config) in
      if field = [] \<or> TrimSpace (wsc_Operator config) = [] \<or> v = []
      then [field_error (prefx @ ''.config'') ''required'' ''condition stage requires field, operator, and value'']
      else if field \<noteq> ''level'' \<and> ParseFloat v = None
      then [field_error (prefx @ ''.config.value'') ''invalid'' ''condition value must be a number''] else []) @
     (if TrimSpace (wsc_TrueNextStageID config) = [] \<or> TrimSpace (wsc_FalseNextStageID config) = []
      then [field_error (prefx @ ''.config'') ''required'' ''condition stage requires true_next_stage_id and false_next_stage_id'']
      else validateWorkflowEdgeTarget (prefx @ ''.config.true_next_stage_id'') (wsc_TrueNextStageID config) ids ident @
           validateWorkflowEdgeTarget (prefx @ ''.config.false_next_stage_id'') (wsc_FalseNextStageID config) ids ident)"

definition stage_checks :: "string set \<Rightarrow> nat \<Rightarrow> PlatformFormBuilderStage \<Rightarrow> FieldError list" where
  "stage_checks ids i stage =
     (let ident = TrimSpace (pbs_ID stage); stageType = TrimSpace (pbs_Type stage);
          prefx = (if ident = [] then numbered ''stages'' i else ''stages.'' @ ident);
          config = workflowStageConfigFromMap (pbs_Config stage)
      in if stageType = [] then [field_error (prefx @ ''.type'') ''required'' ''stage type is required'']
      else if stageType \<notin> set allowedWorkspaceFormStageTypes
      then [field_error (prefx @ ''.type'') ''invalid'' ''stage type must be one of approver, condition, notify'']
      else if stageType = ''condition'' then condition_checks prefx ids ident config
      else target_checks prefx config @
           validateWorkflowEdgeTarget (prefx @ ''.config.next_stage_id'') (wsc_NextStageID config) ids ident)"

definition design_errors :: "PlatformFormBuilderField list \<Rightarrow> PlatformFormBuilderStage list \<Rightarrow> FieldError list" where
  "design_errors fs stages =
     field_loop 0 {} fs @
     (if stages = [] then [field_error ''stages'' ''required'' ''at least one workflow stage is required''] else []) @
     stage_id_loop 0 {} stages @
     concat (map (\<lambda>(i, stage). stage_checks (stage_ids stages) i stage) (enumerate 0 stages)) @
     (if stages \<noteq> [] \<and> \<not> list_ex (\<lambda>s. TrimSpace (pbs_Type s) = ''approver'') stages
      then [field_error ''stages'' ''invalid'' ''workflow must include at least one approver stage''] else []) @
     validateWorkflowGraphReachability stages"

text \<open>The stages are normalised in place, whether the design is accepted or not.\<close>

definition validateWorkspaceFormDesignInput ::
    "PlatformFormBuilderField list \<Rightarrow> PlatformFormBuilderStage list \<Rightarrow> PlatformFormBuilderStage list \<times> unit res" where
  "validateWorkspaceFormDesignInput fs stages =
     (let stages = normalizeWorkspaceFormDesignStages stages; errors = design_errors fs stages
      in (stages, if errors = [] then Inr () else Inl (AppErr (ValidationFailed ''form design validation failed'' errors))))"

definition ValidatePublishedFormFieldIdentity ::
    "PlatformFormBuilderField list \<Rightarrow> PlatformFormBuilderField list \<Rightarrow> unit res" where
  "ValidatePublishedFormFieldIdentity previous later =
     (let errors = concat (map (\<lambda>field. let ident = TrimSpace (pbf_ID field) in
            case find (\<lambda>f. TrimSpace (pbf_ID f) = ident) (rev later) of
              None \<Rightarrow> [field_error (''fields.'' @ ident @ ''.id'') ''locked'' ''published field id cannot be removed or changed'']
            | Some f \<Rightarrow> if TrimSpace (pbf_Type f) \<noteq> TrimSpace (pbf_Type field)
                then [field_error (''fields.'' @ ident @ ''.type'') ''locked'' ''published field type cannot be changed''] else []) previous)
      in if errors = [] then Inr () else Inl (AppErr (ValidationFailed ''published form field identity is immutable'' errors)))"

definition validateSystemFormFieldLocks :: "string \<Rightarrow> string \<Rightarrow> PlatformFormBuilderField list \<Rightarrow> unit res" where
  "validateSystemFormFieldLocks templateKey formKind fs =
     (case lockedFieldIDsForTemplate templateKey formKind of
        None \<Rightarrow> Inr ()
      | Some locked \<Rightarrow>
          let present = set (filter (\<lambda>i. i \<noteq> []) (map (\<lambda>f. TrimSpace (pbf_ID f)) fs));
              errors = map (\<lambda>i. field_error (''fields.'' @ i) ''locked'' (''system/hybrid core field cannot be removed: '' @ i))
                (filter (\<lambda>i. i \<notin> present) locked)
          in if errors = [] then Inr () else Inl (AppErr (ValidationFailed ''system form field lock validation failed'' errors)))"

section \<open>Reachability is the closure of the edges\<close>

definition graph_edges :: "PlatformFormBuilderStage list \<Rightarrow> (string \<times> string) set" where
  "graph_edges stages = {(a, b). b \<in> set (successors stages a)}"

lemma reach_loop_sound:
  "set (reach_loop stages queue visited) \<subseteq> set visited \<union> (graph_edges stages)\<^sup>* `` set queue"
proof (induction stages queue visited rule: reach_loop.induct)
  case (2 stages current queue visited)
  show ?case
  proof (cases "current \<in> set visited")
    case True
    then show ?thesis using 2(1) by fastforce
  next
    case False
    let ?E = "(graph_edges stages)\<^sup>*"
    let ?new = "filter (\<lambda>t. t \<notin> set (current # visited)) (successors stages current)"
    have "?E `` set ?new \<subseteq> ?E `` {current}"
      by (auto simp: graph_edges_def intro: converse_rtrancl_into_rtrancl)
    moreover have "?E `` set (queue @ ?new) = ?E `` set queue \<union> ?E `` set ?new"
      by (simp only: set_append Image_Un)
    moreover have "?E `` set (current # queue) = ?E `` {current} \<union> ?E `` set queue" by auto
    moreover have "current \<in> ?E `` {current}" by simp
    moreover have "reach_loop stages (current # queue) visited = reach_loop stages (queue @ ?new) (current # visited)"
      using False by simp
    moreover have "set (current # visited) \<union> ?E `` set (queue @ ?new) \<subseteq> set visited \<union> ?E `` set (current # queue)"
      unfolding calculation(2,3) using calculation(1,4) by (simp only: list.set(2)) fast
    ultimately show ?thesis using 2(2) [OF False] by (simp only:)
  qed
qed simp

lemma reach_loop_covers: "set visited \<union> set queue \<subseteq> set (reach_loop stages queue visited)"
proof (induction stages queue visited rule: reach_loop.induct)
  case (2 stages current queue visited)
  then show ?case by (cases "current \<in> set visited") auto
qed simp

lemma reach_loop_closed:
  assumes "\<And>a. a \<in> set visited \<Longrightarrow> set (successors stages a) \<subseteq> set visited \<union> set queue"
    and "a \<in> set (reach_loop stages queue visited)"
  shows "set (successors stages a) \<subseteq> set (reach_loop stages queue visited)"
  using assms
proof (induction stages queue visited arbitrary: a rule: reach_loop.induct)
  case (2 stages current queue visited)
  show ?case
  proof (cases "current \<in> set visited")
    case True
    have "set (successors stages b) \<subseteq> set visited \<union> set queue" if "b \<in> set visited" for b
      using 2(3) [OF that] True by auto
    then show ?thesis using 2(1) [OF True, of a] 2(4) True by simp
  next
    case False
    let ?new = "filter (\<lambda>t. t \<notin> set (current # visited)) (successors stages current)"
    have "set (successors stages b) \<subseteq> set (current # visited) \<union> set (queue @ ?new)"
      if "b \<in> set (current # visited)" for b
      using that 2(3) [of b] by fastforce
    then show ?thesis using 2(2) [OF False, of a] 2(4) False by simp
  qed
qed simp

lemma reach_loop_closure: "set (reach_loop stages queue []) = (graph_edges stages)\<^sup>* `` set queue"
proof
  show "set (reach_loop stages queue []) \<subseteq> (graph_edges stages)\<^sup>* `` set queue"
    using reach_loop_sound [of stages queue "[]"] by simp
  have "b \<in> set (reach_loop stages queue [])" if "(a, b) \<in> (graph_edges stages)\<^sup>*" "a \<in> set queue" for a b
    using that
  proof (induction rule: rtrancl_induct)
    case base
    then show ?case using reach_loop_covers [of "[]" queue stages] by auto
  next
    case (step b c)
    have "c \<in> set (successors stages b)" using step(2) by (simp add: graph_edges_def)
    then show ?case using reach_loop_closed [of "[]" stages queue b] step(3,4) by auto
  qed
  then show "(graph_edges stages)\<^sup>* `` set queue \<subseteq> set (reach_loop stages queue [])" by blast
qed

section \<open>What an accepted design looks like\<close>

lemma edge_target_accepted:
  "validateWorkflowEdgeTarget field target ids self = [] \<longleftrightarrow>
     TrimSpace target = WorkflowStageEndID \<or>
     TrimSpace target \<noteq> [] \<and> TrimSpace target \<noteq> TrimSpace self \<and> TrimSpace target \<in> ids"
  by (simp add: validateWorkflowEdgeTarget_def Let_def)

lemma stage_id_loop_accepted:
  "stage_id_loop i seen stages = [] \<longleftrightarrow>
     (let is = map (\<lambda>s. TrimSpace (pbs_ID s)) stages in [] \<notin> set is \<and> distinct is \<and> set is \<inter> seen = {})"
  by (induction stages arbitrary: i seen) (auto simp: Let_def)

lemma field_loop_ids:
  assumes "field_loop i seen fs = []"
  shows "let is = map (\<lambda>f. TrimSpace (pbf_ID f)) fs in [] \<notin> set is \<and> distinct is \<and> set is \<inter> seen = {}"
  using assms
proof (induction fs arbitrary: i seen)
  case (Cons f fs)
  then show ?case by (fastforce simp: Let_def field_checks_def split: if_splits)
qed simp

lemma reachability_accepted:
  assumes "validateWorkflowGraphReachability (s # stages) = []" "t \<in> set (s # stages)"
    and "TrimSpace (pbs_ID s) \<noteq> []" "TrimSpace (pbs_ID t) \<noteq> []"
  shows "(TrimSpace (pbs_ID s), TrimSpace (pbs_ID t)) \<in> (graph_edges (s # stages))\<^sup>*"
proof -
  have "TrimSpace (pbs_ID t) \<in> set (reach_loop (s # stages) [TrimSpace (pbs_ID s)] [])"
    using assms by (auto simp: validateWorkflowGraphReachability_def reachable_ids_def filter_empty_conv split: if_splits)
  then show ?thesis by (simp only: reach_loop_closure) simp
qed

lemma normalised_ids: "map pbs_ID (normalizeWorkspaceFormDesignStages stages) = map pbs_ID stages"
proof -
  have one: "pbs_ID (backfilled heads c s) = pbs_ID s" for heads c s
    by (simp add: backfilled_def with_config_def Let_def)
  have "map pbs_ID (backfill_loop heads ss) = map pbs_ID ss" for heads ss
    by (induction ss arbitrary: heads) (simp_all add: Let_def one)
  moreover have "pbs_ID (unparalleled s) = pbs_ID s" for s
    by (simp add: unparalleled_def with_config_def Let_def)
  ultimately show ?thesis by (simp add: normalizeWorkspaceFormDesignStages_def Let_def)
qed

definition well_linked :: "string set \<Rightarrow> PlatformFormBuilderStage \<Rightarrow> bool" where
  "well_linked ids stage \<longleftrightarrow> TrimSpace (pbs_Type stage) \<in> set allowedWorkspaceFormStageTypes \<and>
     list_all (\<lambda>t. t = WorkflowStageEndID \<or> t \<in> ids - {TrimSpace (pbs_ID stage)}) (edge_names stage)"

lemma stage_checks_accepted:
  assumes "stage_checks ids i stage = []"
  shows "well_linked ids stage"
proof (cases "TrimSpace (pbs_Type stage) = ''condition''")
  case True
  let ?c = "workflowStageConfigFromMap (pbs_Config stage)"
  have "condition_checks (if TrimSpace (pbs_ID stage) = [] then numbered ''stages'' i else ''stages.'' @ TrimSpace (pbs_ID stage))
      ids (TrimSpace (pbs_ID stage)) ?c = []" (is "condition_checks ?p _ _ _ = []")
    using assms True by (simp add: stage_checks_def Let_def split: if_splits)
  then have "validateWorkflowEdgeTarget (?p @ ''.config.true_next_stage_id'') (wsc_TrueNextStageID ?c) ids (TrimSpace (pbs_ID stage)) = []"
      "validateWorkflowEdgeTarget (?p @ ''.config.false_next_stage_id'') (wsc_FalseNextStageID ?c) ids (TrimSpace (pbs_ID stage)) = []"
    by (simp_all add: condition_checks_def Let_def split: if_splits)
  then show ?thesis
    using True unfolding edge_target_accepted
    by (simp add: well_linked_def edge_names_def allowedWorkspaceFormStageTypes_def Let_def) auto
next
  case False
  let ?c = "workflowStageConfigFromMap (pbs_Config stage)"
  have "TrimSpace (pbs_Type stage) \<in> set allowedWorkspaceFormStageTypes"
    using assms False by (simp add: stage_checks_def Let_def split: if_splits)
  moreover have "validateWorkflowEdgeTarget ((if TrimSpace (pbs_ID stage) = [] then numbered ''stages'' i else ''stages.'' @ TrimSpace (pbs_ID stage))
      @ ''.config.next_stage_id'') (wsc_NextStageID ?c) ids (TrimSpace (pbs_ID stage)) = []"
    using assms False by (simp add: stage_checks_def Let_def split: if_splits)
  ultimately show ?thesis
    using False unfolding edge_target_accepted by (simp add: well_linked_def edge_names_def Let_def) auto
qed

end
