(* ===== verification/Form_Submission.thy ===== *)
theory Form_Submission
  imports Form_Design App_State
begin

text \<open>
  The check of a submitted payload against the frozen template of its form
  (\<open>src/internal/service/workspace_form_design_validation.go\<close>): server metadata is stripped, the hours of a
  leave are recomputed from the working time of the attendance policy, and each field of the template is
  checked and, where it is bound to a data source, resolved.  The catalogue of data sources and the working
  time are read when they are needed; they are arguments, with the error the read may give.
\<close>

section \<open>The hours of a leave\<close>

text \<open>\<open>utils.ParseDate\<close>, \<open>utils.ParseDateTime\<close>: RFC 3339, else a date at midnight UTC.\<close>

definition ParseDate :: "(string \<Rightarrow> int option) \<Rightarrow> string \<Rightarrow> int option" where
  "ParseDate parse value =
     (case parse value of Some t \<Rightarrow> Some t | None \<Rightarrow> map_option (\<lambda>t. t + zone_offset) (parseDateOnly value))"

definition ParseDateTime :: "(string \<Rightarrow> int option) \<Rightarrow> string \<Rightarrow> int option" where
  "ParseDateTime parse value = (if TrimSpace value = [] then None else ParseDate parse value)"

definition leaveLinkedTemplateKeys :: "string list" where
  "leaveLinkedTemplateKeys = [''leave-request'', ''field-leave'']"

definition workflowLeavePayloadHasLinkedFields :: "params \<Rightarrow> bool" where
  "workflowLeavePayloadHasLinkedFields payload =
     list_ex (\<lambda>key. TrimSpace (stringFromAny (map_at payload key)) \<noteq> [])
       [''leave_request_id'', ''leaveRequestId'', ''employee_id'', ''employeeId'', ''leave_type'', ''leaveType'',
        ''leave_name'', ''leaveName'', ''hours'', ''leave_hours'', ''leaveHours'', ''hours_requested'', ''hoursRequested'',
        ''start_at'', ''startAt'', ''end_at'', ''endAt'']"

definition payload_text :: "params \<Rightarrow> string list \<Rightarrow> string" where
  "payload_text payload keys = FirstNonEmpty (map (\<lambda>key. stringFromAny (map_at payload key)) keys)"

definition leave_times :: "(string \<Rightarrow> int option) \<Rightarrow> params \<Rightarrow> FieldError list + int \<times> int" where
  "leave_times parse payload =
     (let startRaw = payload_text payload [''start_at'', ''startAt'']; endRaw = payload_text payload [''end_at'', ''endAt''];
          absent = (if startRaw = [] then [field_error ''start_at'' ''required'' ''start time is required''] else []) @
                   (if endRaw = [] then [field_error ''end_at'' ''required'' ''end time is required''] else [])
      in if absent \<noteq> [] then Inl absent
      else case (ParseDateTime parse startRaw, ParseDateTime parse endRaw) of
          (Some startAt, Some endAt) \<Rightarrow>
            if \<not> endAt > startAt then Inl [field_error ''end_at'' ''invalid_range'' ''end time must be after start time'']
            else Inr (startAt, endAt)
        | (startAt, endAt) \<Rightarrow>
            Inl ((if startAt = None then [field_error ''start_at'' ''invalid'' ''start time must be RFC3339''] else []) @
                 (if endAt = None then [field_error ''end_at'' ''invalid'' ''end time must be RFC3339''] else [])))"

definition normalizeLeaveSubmissionHours ::
    "(string \<Rightarrow> int option) \<Rightarrow> AttendancePolicyWorkTime res \<Rightarrow> string \<Rightarrow> params \<Rightarrow> params res" where
  "normalizeLeaveSubmissionHours parse work templateKey payload =
     (if TrimSpace templateKey \<notin> set leaveLinkedTemplateKeys \<or> \<not> workflowLeavePayloadHasLinkedFields payload then Inr payload
      else case leave_times parse payload of
          Inl errors \<Rightarrow> Inl (AppErr (ValidationFailed ''leave time validation failed'' errors))
        | Inr (startAt, endAt) \<Rightarrow>
            if business_year startAt \<noteq> business_year (endAt - 1)
            then Inl (AppErr (BadRequest ''leave request cannot cross calendar years; split it into separate requests''))
            else bindR work (\<lambda>work. let hours = CalculateLeaveHoursWithinPolicy startAt endAt work in
              if hours \<le> 0 then Inl (AppErr (ValidationFailed ''leave time validation failed''
                [field_error ''hours'' ''outside_work_time'' ''selected time does not include working hours'']))
              else Inr (map_put ''hours'' (float_val hours) payload)))"

section \<open>The fields of the template\<close>

definition value_errors :: "PlatformFormBuilderField \<Rightarrow> val option \<Rightarrow> FieldError list" where
  "value_errors field submitted =
     (let ident = TrimSpace (pbf_ID field) in
      if submitted = None \<or> isEmptyFormPayloadValue (the submitted)
      then (if pbf_Required field
            then [field_error ident ''required'' (FirstNonEmpty [TrimSpace (pbf_Label field), ident] @ '' is required'')] else [])
      else case validateFormPayloadFieldType field (the submitted) of (errCode, message) \<Rightarrow>
          if errCode \<noteq> [] then [field_error ident errCode message] else [])"

definition skipped :: "PlatformFormBuilderField \<Rightarrow> bool" where
  "skipped field \<longleftrightarrow> TrimSpace (pbf_ID field) = [] \<or> EqualFold (TrimSpace (pbf_Type field)) ''layout''"

definition submitted_field :: "FormDataSource list \<Rightarrow> PlatformFormBuilderField \<Rightarrow> params \<Rightarrow> params \<times> FieldError list" where
  "submitted_field catalog field payload =
     (let ident = TrimSpace (pbf_ID field); submitted = map_of payload ident in
      if skipped field then (payload, [])
      else case pbf_Binding field of
          None \<Rightarrow> (payload, value_errors field submitted)
        | Some bind \<Rightarrow> (case ValidateAndResolveBoundSubmissionValue catalog bind submitted of
              Inl message \<Rightarrow> (payload, [field_error ident ''invalid_binding_value'' message])
            | Inr None \<Rightarrow> (payload, value_errors field submitted)
            | Inr (Some v) \<Rightarrow> (map_put ident v payload, value_errors field (Some v))))"

fun submitted_fields :: "FormDataSource list \<Rightarrow> PlatformFormBuilderField list \<Rightarrow> params \<Rightarrow> params \<times> FieldError list" where
  "submitted_fields catalog [] payload = (payload, [])"
| "submitted_fields catalog (field # later) payload =
     (case submitted_field catalog field payload of (payload, errors) \<Rightarrow>
        case submitted_fields catalog later payload of (payload, errors') \<Rightarrow> (payload, errors @ errors'))"

definition validateFormSubmissionPayload ::
    "(string \<Rightarrow> int option) \<Rightarrow> AttendancePolicyWorkTime res \<Rightarrow> FormDataSource list res \<Rightarrow> FormTemplate \<Rightarrow> params \<Rightarrow> params res" where
  "validateFormSubmissionPayload parse work sources template payload =
     bindR (normalizeLeaveSubmissionHours parse work (ft_Key template) (workflowPayloadForNewInstance template (workflowPayload payload)))
       (\<lambda>normalized. case platformExplicitTemplateFields (ft_Schema template) of (fs, hasExplicitFields) \<Rightarrow>
          if \<not> hasExplicitFields then Inr normalized
          else bindR (if formFieldsHaveBindings fs then sources else Inr []) (\<lambda>catalog.
            case submitted_fields catalog fs normalized of (normalized, errors) \<Rightarrow>
              if errors \<noteq> [] then Inl (AppErr (ValidationFailed ''form submission validation failed'' errors))
              else Inr normalized))"

section \<open>What an accepted payload holds\<close>

definition from_server :: "FormDataSource list \<Rightarrow> PlatformFormBuilderField \<Rightarrow> val option \<Rightarrow> bool" where
  "from_server catalog field v \<longleftrightarrow>
     (case pbf_Binding field of None \<Rightarrow> False
      | Some bind \<Rightarrow> (case formDataSourceByID catalog (TrimSpace (bfb_SourceID bind)) of None \<Rightarrow> False
          | Some source \<Rightarrow> fds_Kind source = ''object'' \<and> fds_Records source \<noteq> [] \<and> v \<noteq> None \<and>
              v = map_of (hd (fds_Records source)) (TrimSpace (bfb_ValueField bind))))"

text \<open>What a field asks of its value, said without the checks that enforce it: whether there is a value
  at all, what a value of its type looks like, and which records of a collection offer it.\<close>

definition value_present :: "val option \<Rightarrow> bool" where
  "value_present v =
     (case v of None \<Rightarrow> False | Some VNil \<Rightarrow> False | Some (VStr s) \<Rightarrow> TrimSpace s \<noteq> []
      | Some (VList xs) \<Rightarrow> xs \<noteq> [] | Some (VStrs xs) \<Rightarrow> xs \<noteq> [] | Some _ \<Rightarrow> True)"

definition attachment :: "val \<Rightarrow> bool" where
  "attachment item =
     (case item of VMap m \<Rightarrow> (case map_of m ''id'' of Some (VStr i) \<Rightarrow> TrimSpace i \<noteq> [] | _ \<Rightarrow> False) | _ \<Rightarrow> False)"

definition value_fits :: "string \<Rightarrow> val \<Rightarrow> bool" where
  "value_fits kind v =
     (if kind = ''number'' then
        (case v of VNum _ \<Rightarrow> True | VFloat _ \<Rightarrow> True | VStr s \<Rightarrow> ParseFloat (TrimSpace s) \<noteq> None | _ \<Rightarrow> False)
      else if kind = ''checkbox'' then (case v of VBool _ \<Rightarrow> True | _ \<Rightarrow> False)
      else if kind = ''multilist'' then (case v of VList _ \<Rightarrow> True | VStrs _ \<Rightarrow> True | _ \<Rightarrow> False)
      else if kind = ''file'' \<or> kind = ''image'' \<or> kind = ''upload''
      then (case v of VList items \<Rightarrow> list_all attachment items | _ \<Rightarrow> False)
      else True)"

definition offered :: "FormDataSource \<Rightarrow> PlatformFormBuilderFieldBinding \<Rightarrow> string \<Rightarrow> bool" where
  "offered source bind text =
     list_ex (\<lambda>r. recordMatchesFormDataSourceBinding (fds_ID source) r (bfb_Filters bind) \<and>
       dataSourceString (map_at r (TrimSpace (bfb_ValueField bind))) = text) (fds_Records source)"

definition all_offered :: "FormDataSource \<Rightarrow> PlatformFormBuilderFieldBinding \<Rightarrow> val \<Rightarrow> bool" where
  "all_offered source bind v =
     (case v of VStrs xs \<Rightarrow> list_all (offered source bind) xs
      | VList xs \<Rightarrow> list_all (\<lambda>x. offered source bind (dataSourceString x)) xs
      | _ \<Rightarrow> offered source bind (dataSourceString v))"

definition field_satisfied :: "FormDataSource list \<Rightarrow> PlatformFormBuilderField \<Rightarrow> val option \<Rightarrow> bool" where
  "field_satisfied catalog field v \<longleftrightarrow>
     TrimSpace (pbf_ID field) = [] \<or> EqualFold (TrimSpace (pbf_Type field)) ''layout'' \<or>
     (if value_present v then value_fits (TrimSpace (pbf_Type field)) (the v) else \<not> pbf_Required field) \<and>
     (case pbf_Binding field of None \<Rightarrow> True
      | Some bind \<Rightarrow> (case formDataSourceByID catalog (TrimSpace (bfb_SourceID bind)) of None \<Rightarrow> False
          | Some source \<Rightarrow>
              if fds_Kind source = ''object'' then from_server catalog field v
              else value_present v \<longrightarrow> all_offered source bind (the v)))"

lemma value_present_iff: "value_present v \<longleftrightarrow> v \<noteq> None \<and> \<not> isEmptyFormPayloadValue (the v)"
  by (auto simp: value_present_def isEmptyFormPayloadValue_def split: option.splits val.splits)

lemma attachment_check:
  "(case item of VMap m \<Rightarrow> (case map_at m ''id'' of VStr i \<Rightarrow> TrimSpace i \<noteq> [] | _ \<Rightarrow> False) | _ \<Rightarrow> False) =
     attachment item"
proof (cases item)
  case (VMap m)
  then show ?thesis
  proof (cases "map_of m ''id''")
    case (Some v)
    with VMap show ?thesis by (cases v) (simp_all add: attachment_def map_at_def)
  qed (simp add: attachment_def map_at_def)
qed (simp_all add: attachment_def)

lemma type_checked_fits:
  "fst (validateFormPayloadFieldType field v) = [] \<Longrightarrow> value_fits (TrimSpace (pbf_Type field)) v"
  unfolding validateFormPayloadFieldType_def value_fits_def Let_def isFormAttachmentPayloadValue_def attachment_check
  by (cases v) (auto split: if_splits)

lemma value_errors_none:
  assumes "value_errors field v = []"
  shows "v = Some y \<Longrightarrow> \<not> isEmptyFormPayloadValue y \<Longrightarrow> value_fits (TrimSpace (pbf_Type field)) y"
    and "v = None \<Longrightarrow> \<not> pbf_Required field"
    and "isEmptyFormPayloadValue (the v) \<Longrightarrow> \<not> pbf_Required field"
  using assms type_checked_fits [of field y]
  by (simp_all add: value_errors_def Let_def split: if_splits prod.splits)

lemma choices_offered: "list_all (\<lambda>x. x \<in> set (bound_choices source bind)) (selected_strings v) = all_offered source bind v"
proof -
  have "x \<in> set (bound_choices source bind) \<longleftrightarrow> offered source bind x" for x
    by (auto simp: bound_choices_def offered_def list_ex_iff)
  then show ?thesis by (simp add: selected_strings_def all_offered_def list.pred_map comp_def split: val.split)
qed

lemma submitted_field_accepted:
  assumes "submitted_field catalog field payload = (out, [])"
  shows "field_satisfied catalog field (map_of out (TrimSpace (pbf_ID field)))"
    and "key \<noteq> TrimSpace (pbf_ID field) \<Longrightarrow> map_of out key = map_of payload key"
    and "map_of out (TrimSpace (pbf_ID field)) = map_of payload (TrimSpace (pbf_ID field)) \<or>
      from_server catalog field (map_of out (TrimSpace (pbf_ID field)))"
  using assms
  by (auto simp: submitted_field_def skipped_def field_satisfied_def from_server_def value_present_iff
      ValidateAndResolveBoundSubmissionValue_def choices_offered Let_def update_conv'
      split: if_splits option.splits list.splits dest: value_errors_none)

lemma submitted_fields_accepted:
  assumes "submitted_fields catalog fs payload = (out, [])" "distinct (map (\<lambda>f. TrimSpace (pbf_ID f)) fs)"
  shows "key \<notin> set (map (\<lambda>f. TrimSpace (pbf_ID f)) fs) \<Longrightarrow> map_of out key = map_of payload key"
    and "f \<in> set fs \<Longrightarrow> field_satisfied catalog f (map_of out (TrimSpace (pbf_ID f)))"
    and "f \<in> set fs \<Longrightarrow> map_of out (TrimSpace (pbf_ID f)) = map_of payload (TrimSpace (pbf_ID f)) \<or>
      from_server catalog f (map_of out (TrimSpace (pbf_ID f)))"
  using assms
proof (induction fs arbitrary: payload out key f)
  case (Cons g fs)
  {
    fix payload out
    assume run: "submitted_fields catalog (g # fs) payload = (out, [])"
      and ids: "distinct (map (\<lambda>f. TrimSpace (pbf_ID f)) (g # fs))"
    obtain mid where mid: "submitted_field catalog g payload = (mid, [])" "submitted_fields catalog fs mid = (out, [])"
      using run by (auto split: prod.splits)
    have later: "distinct (map (\<lambda>f. TrimSpace (pbf_ID f)) fs)" using ids by simp
    have "\<exists>mid. submitted_field catalog g payload = (mid, []) \<and> submitted_fields catalog fs mid = (out, []) \<and>
        distinct (map (\<lambda>f. TrimSpace (pbf_ID f)) fs) \<and> TrimSpace (pbf_ID g) \<notin> set (map (\<lambda>f. TrimSpace (pbf_ID f)) fs)"
      using mid later ids by auto
  }
  note split = this
  { case 1
    then obtain mid where m: "submitted_field catalog g payload = (mid, [])" "submitted_fields catalog fs mid = (out, [])"
      "distinct (map (\<lambda>f. TrimSpace (pbf_ID f)) fs)" using split by blast
    show ?case using 1(1) Cons.IH(1) [OF _ m(2,3)] submitted_field_accepted(2) [OF m(1), of key] by simp }
  { case 2
    then obtain mid where m: "submitted_field catalog g payload = (mid, [])" "submitted_fields catalog fs mid = (out, [])"
      "distinct (map (\<lambda>f. TrimSpace (pbf_ID f)) fs)" "TrimSpace (pbf_ID g) \<notin> set (map (\<lambda>f. TrimSpace (pbf_ID f)) fs)"
      using split by blast
    have "map_of out (TrimSpace (pbf_ID g)) = map_of mid (TrimSpace (pbf_ID g))" by (rule Cons.IH(1) [OF m(4) m(2,3)])
    then show ?case using 2(1) Cons.IH(2) [OF _ m(2,3)] submitted_field_accepted(1) [OF m(1)] by auto }
  { case 3
    then obtain mid where m: "submitted_field catalog g payload = (mid, [])" "submitted_fields catalog fs mid = (out, [])"
      "distinct (map (\<lambda>f. TrimSpace (pbf_ID f)) fs)" "TrimSpace (pbf_ID g) \<notin> set (map (\<lambda>f. TrimSpace (pbf_ID f)) fs)"
      using split by blast
    have same: "map_of out (TrimSpace (pbf_ID g)) = map_of mid (TrimSpace (pbf_ID g))" by (rule Cons.IH(1) [OF m(4) m(2,3)])
    show ?case
    proof (cases "f = g")
      case True
      then show ?thesis using same submitted_field_accepted(3) [OF m(1)] by simp
    next
      case False
      then have f: "f \<in> set fs" using 3(1) by simp
      then have "TrimSpace (pbf_ID f) \<noteq> TrimSpace (pbf_ID g)" using m(4) image_eqI [OF _ f, of "TrimSpace (pbf_ID g)" "\<lambda>f. TrimSpace (pbf_ID f)"] by (metis set_map)
      then have "map_of mid (TrimSpace (pbf_ID f)) = map_of payload (TrimSpace (pbf_ID f))"
        by (rule submitted_field_accepted(2) [OF m(1)])
      then show ?thesis using Cons.IH(3) [OF f m(2,3)] by simp
    qed }
qed simp_all

lemma submitted_fields_unbound:
  "\<not> formFieldsHaveBindings fs \<Longrightarrow> submitted_fields catalog fs payload = submitted_fields catalog' fs payload"
  by (induction fs arbitrary: payload) (auto simp: formFieldsHaveBindings_def submitted_field_def Let_def split: prod.splits)

lemma normalised_hours_keys:
  assumes "normalizeLeaveSubmissionHours parse work templateKey payload = Inr out" "key \<noteq> ''hours''"
  shows "map_of out key = map_of payload key"
  using assms by (auto simp: normalizeLeaveSubmissionHours_def bindR_eq_Inr Let_def update_conv' split: if_splits sum.splits prod.splits)

lemma new_instance_keys:
  assumes "platformExplicitTemplateFields (ft_Schema template) = (fs, True)"
    and "map_of (workflowPayloadForNewInstance template payload) key = Some v"
  shows "key \<in> set (allowed_payload_keys fs) \<and> \<not> workflowServerOwnsPayloadKey key"
  using map_of_SomeD [OF assms(2)] assms(1) by (auto simp: workflowPayloadForNewInstance_def workflowPayload_def)

lemma accepted_submission:
  assumes "validateFormSubmissionPayload parse work (Inr catalog) template payload = Inr out"
    and "platformExplicitTemplateFields (ft_Schema template) = (fs, True)"
  obtains normalized where
    "normalizeLeaveSubmissionHours parse work (ft_Key template) (workflowPayloadForNewInstance template (workflowPayload payload)) = Inr normalized"
    "submitted_fields catalog fs normalized = (out, [])"
proof -
  obtain normalized where n:
    "normalizeLeaveSubmissionHours parse work (ft_Key template) (workflowPayloadForNewInstance template (workflowPayload payload)) = Inr normalized"
    "bindR (if formFieldsHaveBindings fs then Inr catalog else Inr []) (\<lambda>catalog.
        case submitted_fields catalog fs normalized of (normalized, errors) \<Rightarrow>
          if errors \<noteq> [] then Inl (AppErr (ValidationFailed ''form submission validation failed'' errors))
          else Inr normalized) = Inr out"
    using assms by (auto simp: validateFormSubmissionPayload_def bindR_eq_Inr)
  have "submitted_fields catalog fs normalized = (out, [])"
    using n(2) submitted_fields_unbound [of fs "[]" normalized catalog]
    by (cases "formFieldsHaveBindings fs") (auto split: prod.splits if_splits)
  then show ?thesis using that n(1) by blast
qed

end
