(* ===== verification/Form_Properties.thy ===== *)
theory Form_Properties
  imports Form_Submission Agent_Properties
begin

text \<open>
  What an accepted form design guarantees to the workflow runtime, and what an accepted payload guarantees to
  the handlers that start the workflow.
\<close>

section \<open>Designs\<close>

lemma no_errors_of_stages:
  assumes "concat (map (\<lambda>(i, stage). stage_checks ids i stage) (enumerate n stages)) = []" "s \<in> set stages"
  shows "well_linked ids s"
proof -
  obtain i where "(i, s) \<in> set (enumerate n stages)"
    using assms(2) by (metis in_set_conv_nth in_set_enumerate_eq fst_conv snd_conv length_enumerate nth_enumerate_eq nth_mem)
  then have "stage_checks ids i s = []" using assms(1) by (auto simp: concat_eq_Nil_conv)
  then show ?thesis by (rule stage_checks_accepted)
qed

text \<open>
  C31.  An accepted design is a workflow the runtime can run.  When the validation accepts the fields and the
  stages, the field ids are non-empty and pairwise different, and the normalised stages keep the ids of the
  stages, in their order, non-empty and pairwise different.  Each stage is an approver, a condition or a
  notification, and each of its edges leads to the end of the workflow or to another stage of the design.
  Each stage can be reached from the first one along the edges, and some stage is an approver.
\<close>

theorem accepted_design_sound:
  assumes "validateWorkspaceFormDesignInput fs stages = (out, Inr ())"
  shows "distinct ([] # map (\<lambda>f. TrimSpace (pbf_ID f)) fs) \<and>
    map pbs_ID out = map pbs_ID stages \<and> distinct ([] # map (\<lambda>s. TrimSpace (pbs_ID s)) out) \<and>
    list_all (well_linked (stage_ids out)) out \<and>
    list_all (\<lambda>s. (TrimSpace (pbs_ID (hd out)), TrimSpace (pbs_ID s)) \<in> (graph_edges out)\<^sup>*) out \<and>
    list_ex (\<lambda>s. TrimSpace (pbs_Type s) = ''approver'') out"
proof -
  have out: "out = normalizeWorkspaceFormDesignStages stages" and errors: "design_errors fs out = []"
    using assms by (auto simp: validateWorkspaceFormDesignInput_def Let_def split: if_splits)
  have fs_ok: "field_loop 0 {} fs = []" and some: "out \<noteq> []" and ids: "stage_id_loop 0 {} out = []"
    and checks: "concat (map (\<lambda>(i, stage). stage_checks (stage_ids out) i stage) (enumerate 0 out)) = []"
    and approver: "list_ex (\<lambda>s. TrimSpace (pbs_Type s) = ''approver'') out"
    and reach: "validateWorkflowGraphReachability out = []"
    using errors by (simp_all add: design_errors_def split: if_splits)
  have distinct_ids: "distinct ([] # map (\<lambda>s. TrimSpace (pbs_ID s)) out)"
    using ids by (simp add: stage_id_loop_accepted Let_def)
  obtain s rest where cons: "out = s # rest" using some by (cases out) auto
  have trimmed: "TrimSpace (pbs_ID t) \<noteq> []" if "t \<in> set out" for t
    using distinct_ids imageI [OF that, of "\<lambda>s. TrimSpace (pbs_ID s)"] by auto
  have "(TrimSpace (pbs_ID s), TrimSpace (pbs_ID t)) \<in> (graph_edges out)\<^sup>*" if "t \<in> set out" for t
    using reachability_accepted [OF reach [unfolded cons], of t] that trimmed [of s] trimmed [OF that]
    by (simp add: cons)
  then have "list_all (\<lambda>s'. (TrimSpace (pbs_ID (hd out)), TrimSpace (pbs_ID s')) \<in> (graph_edges out)\<^sup>*) out"
    by (simp add: list_all_iff cons)
  moreover have "list_all (well_linked (stage_ids out)) out"
    using no_errors_of_stages [OF checks] by (simp add: list_all_iff)
  moreover have "distinct ([] # map (\<lambda>f. TrimSpace (pbf_ID f)) fs)"
    using field_loop_ids [OF fs_ok] by (simp add: Let_def)
  ultimately show ?thesis
    using distinct_ids approver normalised_ids [of stages] by (simp add: out)
qed

definition sample_design_fields :: "PlatformFormBuilderField list" where
  "sample_design_fields =
     [zero_PlatformFormBuilderField\<lparr>pbf_ID := ''days'', pbf_Type := ''number'', pbf_Label := ''Days'', pbf_Required := True\<rparr>,
      zero_PlatformFormBuilderField\<lparr>pbf_ID := ''why'', pbf_Type := ''text'', pbf_Label := ''Reason''\<rparr>]"

definition sample_design_stages :: "PlatformFormBuilderStage list" where
  "sample_design_stages =
     [zero_PlatformFormBuilderStage\<lparr>pbs_ID := ''lead'', pbs_Type := ''approver'', pbs_Config := [(''role'', VStr ''manager'')]\<rparr>,
      zero_PlatformFormBuilderStage\<lparr>pbs_ID := ''long'', pbs_Type := ''condition'',
        pbs_Config := [(''field'', VStr ''days''), (''operator'', VStr ''>''), (''value'', VStr ''3''),
          (''true_next_stage_id'', VStr ''boss''), (''false_next_stage_id'', VStr ''note'')]\<rparr>,
      zero_PlatformFormBuilderStage\<lparr>pbs_ID := ''boss'', pbs_Type := ''parallel'', pbs_Config := [(''role'', VStr ''ceo'')]\<rparr>,
      zero_PlatformFormBuilderStage\<lparr>pbs_ID := ''note'', pbs_Type := ''notify'', pbs_Config := [(''role'', VStr ''hr'')]\<rparr>]"

theorem accepted_design_sound_witness:
  "validateWorkspaceFormDesignInput sample_design_fields sample_design_stages =
     (normalizeWorkspaceFormDesignStages sample_design_stages, Inr ()) \<and>
   list_all (\<lambda>s. (''lead'', TrimSpace (pbs_ID s)) \<in> (graph_edges (normalizeWorkspaceFormDesignStages sample_design_stages))\<^sup>*)
     (normalizeWorkspaceFormDesignStages sample_design_stages)"
proof -
  have ok: "validateWorkspaceFormDesignInput sample_design_fields sample_design_stages =
      (normalizeWorkspaceFormDesignStages sample_design_stages, Inr ())"
    by code_simp
  have head: "TrimSpace (pbs_ID (hd (normalizeWorkspaceFormDesignStages sample_design_stages))) = ''lead''"
    by code_simp
  show ?thesis using ok accepted_design_sound [OF ok] unfolding head by blast
qed

section \<open>Submissions\<close>

text \<open>The keys a client may send: the ids of the fields that hold values, and the recipient lists.\<close>

definition client_key :: "PlatformFormBuilderField list \<Rightarrow> string \<Rightarrow> bool" where
  "client_key fs key \<longleftrightarrow>
     (list_ex (\<lambda>f. TrimSpace (pbf_ID f) = key \<and> \<not> isStructuralFormFieldType (pbf_Type f)) fs \<or>
      key \<in> set workflowNotificationRecipientPayloadKeys) \<and> \<not> workflowServerOwnsPayloadKey key"

lemma client_keyI:
  "key \<in> set (allowed_payload_keys fs) \<and> \<not> workflowServerOwnsPayloadKey key \<Longrightarrow> client_key fs key"
  by (auto simp: allowed_payload_keys_def client_key_def list_ex_iff)

text \<open>
  C30.  A client cannot forge server data and cannot evade the template.  Take a payload that the validation
  accepts against a template that declares its fields, with pairwise different ids, and whose data sources can
  be read.  Then every key of it is the hours of the leave, or a field of the template or a recipient list that
  the server does not own, or the id of a field bound to an object source, and then its value is the one of the
  source's record.  And for every field that has an id and is not layout: a required one has a value that is
  not empty, a value that is not empty has the form its type asks for (a number or numeric text, a truth value,
  a list, a list of attachments with ids), a field bound to an object source carries that source's value, and
  one bound to a collection only values that some record of it allowed by the filters offers.
\<close>

theorem submission_payload_clean:
  assumes "validateFormSubmissionPayload parse work (Inr catalog) template payload = Inr out"
    and "platformExplicitTemplateFields (ft_Schema template) = (fs, True)"
    and "distinct (map (\<lambda>f. TrimSpace (pbf_ID f)) fs)"
  shows "list_all (\<lambda>key. key = ''hours'' \<or> client_key fs key \<or>
      list_ex (\<lambda>f. TrimSpace (pbf_ID f) = key \<and> from_server catalog f (map_of out key)) fs) (map fst out) \<and>
    list_all (\<lambda>f. field_satisfied catalog f (map_of out (TrimSpace (pbf_ID f)))) fs"
proof -
  obtain normalized where hours: "normalizeLeaveSubmissionHours parse work (ft_Key template)
        (workflowPayloadForNewInstance template (workflowPayload payload)) = Inr normalized"
      and run: "submitted_fields catalog fs normalized = (out, [])"
    by (rule accepted_submission [OF assms(1,2)])
  note fs = submitted_fields_accepted [OF run assms(3)]
  have "client_key fs key \<or>
      list_ex (\<lambda>f. TrimSpace (pbf_ID f) = key \<and> from_server catalog f (map_of out key)) fs"
    if key: "key \<in> set (map fst out)" "key \<noteq> ''hours''" for key
  proof (cases "map_of out key = map_of normalized key")
    case True
    obtain v where "map_of out key = Some v"
      using key(1) by (cases "map_of out key") (simp_all add: map_of_eq_None_iff)
    then have "map_of (workflowPayloadForNewInstance template (workflowPayload payload)) key = Some v"
      using True normalised_hours_keys [OF hours key(2)] by simp
    then show ?thesis using client_keyI [OF new_instance_keys [OF assms(2)]] by blast
  next
    case False
    then obtain f where "f \<in> set fs" "key = TrimSpace (pbf_ID f)" using fs(1) [of key] by auto
    then show ?thesis using fs(3) [of f] False by (auto simp: list_ex_iff)
  qed
  moreover have "list_all (\<lambda>f. field_satisfied catalog f (map_of out (TrimSpace (pbf_ID f)))) fs"
    using fs(2) by (simp add: list_all_iff)
  ultimately show ?thesis unfolding list_all_iff by blast
qed

definition sample_sources :: "FormDataSource list" where
  "sample_sources =
     [data_source ''current_user'' ''User'' ''object'' [] [[(''employee_id'', VStr ''e1'')]],
      data_source ''departments'' ''Departments'' ''collection'' [] [[(''id'', VStr ''d1'')], [(''id'', VStr ''d2'')]]]"

definition sample_binding :: "string \<Rightarrow> string \<Rightarrow> val" where
  "sample_binding source column =
     VMap [(''source_id'', VStr source), (''value_field'', VStr column), (''label_field'', VStr column)]"

definition sample_form_template :: FormTemplate where
  "sample_form_template = zero_FormTemplate\<lparr>ft_Key := ''purchase'', ft_Schema := [(''workspace_design'', VMap [(''fields'', VList
     [VMap [(''id'', VStr ''employee_id''), (''type'', VStr ''text''), (''label'', VStr ''Who''), (''required'', VBool True),
        (''binding'', sample_binding ''current_user'' ''employee_id'')],
      VMap [(''id'', VStr ''unit''), (''type'', VStr ''select''), (''label'', VStr ''Unit''),
        (''binding'', sample_binding ''departments'' ''id'')],
      VMap [(''id'', VStr ''amount''), (''type'', VStr ''number''), (''label'', VStr ''Amount''), (''required'', VBool True)]])])]\<rparr>"

text \<open>The client claims to be another employee, adds a server field, and leaves an unknown key.\<close>

definition sample_submission :: params where
  "sample_submission = [(''employee_id'', VStr ''e9''), (''_review'', VNum 1), (''unit'', VStr ''d2''), (''amount'', VNum 40), (''x'', VNum 0)]"

lemma sample_submission_accepted:
  "validateFormSubmissionPayload (\<lambda>_. None) (Inr zero_AttendancePolicyWorkTime) (Inr sample_sources) sample_form_template sample_submission =
     Inr [(''unit'', VStr ''d2''), (''amount'', VNum 40), (''employee_id'', VStr ''e1'')]"
  by code_simp

theorem submission_payload_clean_witness:
  "list_all (\<lambda>f. field_satisfied sample_sources f
       (map_of [(''unit'', VStr ''d2''), (''amount'', VNum 40), (''employee_id'', VStr ''e1'')] (TrimSpace (pbf_ID f))))
     (fst (platformExplicitTemplateFields (ft_Schema sample_form_template)))"
proof -
  have explicit: "snd (platformExplicitTemplateFields (ft_Schema sample_form_template))" by code_simp
  then have fs: "platformExplicitTemplateFields (ft_Schema sample_form_template) =
      (fst (platformExplicitTemplateFields (ft_Schema sample_form_template)), True)"
    by (cases "platformExplicitTemplateFields (ft_Schema sample_form_template)") simp
  have "distinct (map (\<lambda>f. TrimSpace (pbf_ID f)) (fst (platformExplicitTemplateFields (ft_Schema sample_form_template))))"
    by code_simp
  from submission_payload_clean [OF sample_submission_accepted fs this] show ?thesis by (rule conjunct2)
qed

end
