(* ===== verification/Leave_Submission.thy ===== *)
theory Leave_Submission
  imports Form_Submission Leave_Ledger Workflow_Runtime
begin

text \<open>
  The leave request that the submission of a form creates
  (\<open>src/internal/service/attendance_leave_evaluation_service.go\<close>, \<open>workflow_leave_adapter.go\<close>): the decision
  under the published policy, the request with its snapshot, the leave record, and the reservation of the
  minutes in the ledger.  \<open>leave_policy\<close> is what \<open>loadAttendancePolicyResponse\<close> and \<open>loadLeaveTypes\<close> read.
\<close>

section \<open>Leave types and rules\<close>

record LeaveRuleSnapshot =
  lrs_LeaveTypeID :: string
  lrs_Code :: string
  lrs_Name :: string
  lrs_GrantMode :: string
  lrs_RequiresBalance :: bool
  lrs_ProofAfterHours :: "rat option"
  lrs_PolicyVersion :: int

definition zero_LeaveRuleSnapshot :: LeaveRuleSnapshot where
  "zero_LeaveRuleSnapshot = \<lparr>
     lrs_LeaveTypeID = [],
     lrs_Code = [],
     lrs_Name = [],
     lrs_GrantMode = [],
     lrs_RequiresBalance = False,
     lrs_ProofAfterHours = None,
     lrs_PolicyVersion = 0 \<rparr>"

record LeaveRequestEvaluation =
  lre_Eligible :: bool
  lre_Status :: string
  lre_Message :: string
  lre_EmployeeID :: string
  lre_LeaveTypeID :: string
  lre_LeaveType :: string
  lre_LeaveTypeName :: string
  lre_RequestedMinutes :: int
  lre_PolicyVersion :: int
  lre_BalanceRequired :: bool
  lre_BalanceInitialized :: bool
  lre_BalanceFallbackReason :: string
  lre_AvailableMinutes :: int
  lre_ProofRequired :: bool
  lre_Rule :: LeaveRuleSnapshot

definition zero_LeaveRequestEvaluation :: LeaveRequestEvaluation where
  "zero_LeaveRequestEvaluation = \<lparr>
     lre_Eligible = False,
     lre_Status = [],
     lre_Message = [],
     lre_EmployeeID = [],
     lre_LeaveTypeID = [],
     lre_LeaveType = [],
     lre_LeaveTypeName = [],
     lre_RequestedMinutes = 0,
     lre_PolicyVersion = 0,
     lre_BalanceRequired = False,
     lre_BalanceInitialized = False,
     lre_BalanceFallbackReason = [],
     lre_AvailableMinutes = 0,
     lre_ProofRequired = False,
     lre_Rule = zero_LeaveRuleSnapshot \<rparr>"

record leave_policy =
  lp_Version :: int
  lp_WorkTime :: AttendancePolicyWorkTime
  lp_LeaveTypes :: "LeaveType list"

definition legacyLeaveTypeCodeMap :: "(string \<times> string) list" where
  "legacyLeaveTypeCodeMap =
     [(runes [30149], ''sick_full''),
      (runes [24392], ''flexible''),
      (runes [20107], ''personal''),
      (runes [29031], ''family_care''),
      (runes [21322], ''sick_half''),
      (runes [29702], ''menstrual''),
      (runes [23130], ''marriage''),
      (runes [29986], ''maternity''),
      (runes [38506], ''paternity''),
      (runes [21930], ''bereavement''),
      (runes [20844], ''official''),
      (runes [27298], ''prenatal''),
      (runes [35036], ''compensatory''),
      (runes [29305], ''annual''),
      (runes [29305, 20241], ''annual''),
      (runes [29305, 20241, 20551], ''annual''),
      (runes [20107, 20551], ''personal''),
      (runes [30149, 20551], ''sick_full''),
      (runes [20840, 34218, 30149, 20551], ''sick_full''),
      (runes [21322, 34218, 30149, 20551], ''sick_half''),
      (runes [23478, 24237, 29031, 39015, 20551], ''family_care''),
      (runes [29983, 29702, 20551], ''menstrual''),
      (runes [23130, 20551], ''marriage''),
      (runes [21930, 20551], ''bereavement''),
      (runes [20843, 36913, 29986, 20551], ''maternity''),
      (runes [38506, 29986, 20551], ''paternity''),
      (runes [29986, 27298, 20551], ''prenatal''),
      (runes [20844, 20551], ''official''),
      (runes [35036, 20241, 20551], ''compensatory''),
      (runes [24392, 24615, 20241, 20551], ''flexible''),
      (runes [22806, 21220], ''official'')]"

definition ehrmsLeaveTypeCodeMap :: "(string \<times> string) list" where
  "ehrmsLeaveTypeCodeMap =
     [(''additional leave'', ''flexible''),
      (''annual leave'', ''annual''),
      (''compensatory leave'', ''compensatory''),
      (''full pay sick leave'', ''sick_full''),
      (''half pay sick leave'', ''sick_half''),
      (''menstruation leave'', ''menstrual''),
      (''personal leave'', ''personal''),
      (''paid_sick'', ''sick_full''),
      (''sick'', ''sick_full''),
      (''flex'', ''flexible''),
      (''half_sick'', ''sick_half''),
      (''prenatal_check'', ''prenatal'')]"

definition normalizeLeaveTypeCode :: "string \<Rightarrow> string" where
  "normalizeLeaveTypeCode code =
     (let code = TrimSpace code in
      case map_of legacyLeaveTypeCodeMap code of
        Some mapped \<Rightarrow> mapped
      | None \<Rightarrow> (case map_of ehrmsLeaveTypeCodeMap (ToLower code) of Some mapped \<Rightarrow> mapped | None \<Rightarrow> ToLower code))"

definition findLeaveType :: "LeaveType list \<Rightarrow> string \<Rightarrow> bool \<Rightarrow> LeaveType option" where
  "findLeaveType items code enabledOnly =
     (let wanted = normalizeLeaveTypeCode code in
      find (\<lambda>item. (lt_Kind item = [] \<or> lt_Kind item = ''item'') \<and> normalizeLeaveTypeCode (lt_Code item) = wanted \<and>
        (\<not> enabledOnly \<or> lt_Enabled item)) items)"

definition leaveTypeRule :: "LeaveType \<Rightarrow> LeaveRuleSnapshot" where
  "leaveTypeRule item = zero_LeaveRuleSnapshot\<lparr>
     lrs_LeaveTypeID := lt_ID item, lrs_Code := lt_Code item,
     lrs_Name := firstNonEmptyString [TrimSpace (lt_NameZH item), TrimSpace (lt_NameEN item), lt_Code item],
     lrs_GrantMode := (if lt_RequiresBalance item then ''annual_grant'' else ''unlimited''),
     lrs_RequiresBalance := lt_RequiresBalance item\<rparr>"

section \<open>The decision\<close>

abbreviation (input) leaveEvaluationEligible :: string where "leaveEvaluationEligible \<equiv> ''eligible''"
abbreviation (input) leaveEvaluationEligibleNoBalance :: string where "leaveEvaluationEligibleNoBalance \<equiv> ''eligible_without_balance''"
abbreviation (input) LeaveEvaluationUnsupported :: string where "LeaveEvaluationUnsupported \<equiv> ''unsupported_leave_type''"

definition applyLeaveBalanceFallback :: "LeaveRequestEvaluation \<Rightarrow> string \<Rightarrow> LeaveRequestEvaluation" where
  "applyLeaveBalanceFallback evaluation reason = evaluation\<lparr>
     lre_Eligible := True, lre_Status := leaveEvaluationEligibleNoBalance, lre_BalanceRequired := False,
     lre_BalanceFallbackReason := reason,
     lre_Message :=
       (if reason = leaveEvaluationBalanceMissing
        then ''The requested leave type has no initialized balance, so the request will continue without reserving balance.''
        else if reason = leaveEvaluationBalanceInsufficient
        then ''The available leave balance is insufficient, so the request will continue without reserving balance.''
        else ''The request will continue without reserving leave balance.'')\<rparr>"

definition leaveBalanceCoversDate :: "LeaveBalance \<Rightarrow> int \<Rightarrow> bool" where
  "leaveBalanceCoversDate balance moment \<longleftrightarrow> lb_EntitlementYear balance = business_year moment"

definition unsupported_leave :: "leave_policy \<Rightarrow> string \<Rightarrow> string \<Rightarrow> int \<Rightarrow> LeaveRequestEvaluation" where
  "unsupported_leave policy employeeID code minutes = zero_LeaveRequestEvaluation\<lparr>
     lre_Status := LeaveEvaluationUnsupported,
     lre_Message := ''The requested leave type is not enabled in the system leave catalog.'',
     lre_EmployeeID := employeeID, lre_LeaveTypeID := StableLeaveTypeID code, lre_LeaveType := code,
     lre_RequestedMinutes := minutes, lre_PolicyVersion := lp_Version policy,
     lre_Rule := zero_LeaveRuleSnapshot\<lparr>lrs_LeaveTypeID := StableLeaveTypeID code, lrs_Code := code,
       lrs_PolicyVersion := lp_Version policy\<rparr>\<rparr>"

text \<open>A rule made from a leave type has no proof threshold, so no proof is ever required.\<close>

definition supported_leave :: "leave_policy \<Rightarrow> string \<Rightarrow> LeaveType \<Rightarrow> int \<Rightarrow> LeaveRequestEvaluation" where
  "supported_leave policy employeeID leaveType minutes =
     (let rule = (leaveTypeRule leaveType)\<lparr>lrs_PolicyVersion := lp_Version policy\<rparr>
      in (unsupported_leave policy employeeID (lt_Code leaveType) minutes)\<lparr>
        lre_LeaveTypeName := lrs_Name rule, lre_LeaveTypeID := lrs_LeaveTypeID rule,
        lre_BalanceRequired := lrs_RequiresBalance rule,
        lre_ProofRequired := (case lrs_ProofAfterHours rule of None \<Rightarrow> False | Some h \<Rightarrow> minutes \<ge> leaveMinutes h),
        lre_Rule := rule\<rparr>)"

definition balance_facts :: "LeaveBalance list \<Rightarrow> string \<Rightarrow> string \<Rightarrow> int \<Rightarrow> bool \<times> int" where
  "balance_facts balances employeeID leaveTypeID moment =
     (let mine = filter (\<lambda>b. lb_EmployeeID b = employeeID \<and> lb_LeaveTypeID b = leaveTypeID \<and> leaveBalanceCoversDate b moment) balances
      in (mine \<noteq> [], sum_list (map (\<lambda>b. if lb_RemainingMinutes b > 0 then lb_RemainingMinutes b else 0) mine)))"

definition EvaluateLeaveRequestRules ::
    "leave_policy \<Rightarrow> RequestContext \<Rightarrow> string \<Rightarrow> string \<Rightarrow> int \<Rightarrow> int \<Rightarrow> rat \<Rightarrow> app_state \<Rightarrow> LeaveRequestEvaluation res" where
  "EvaluateLeaveRequestRules policy ctx employeeID leaveTypeRaw startAt endAt requestedHours s =
     (let hours = (if requestedHours \<le> 0 then CalculateLeaveHoursWithinPolicy startAt endAt (lp_WorkTime policy) else requestedHours);
          requestedMinutes = leaveMinutes hours
      in if requestedMinutes \<le> 0 then Inl (AppErr (BadRequest ''selected time does not include working hours''))
      else case findLeaveType (lp_LeaveTypes policy) leaveTypeRaw True of
          None \<Rightarrow> Inr (unsupported_leave policy employeeID (normalizeLeaveTypeCode leaveTypeRaw) requestedMinutes)
        | Some leaveType \<Rightarrow>
            let evaluation = supported_leave policy employeeID leaveType requestedMinutes in
            if \<not> lre_BalanceRequired evaluation
            then Inr (evaluation\<lparr>lre_Eligible := True, lre_Status := leaveEvaluationEligible,
                   lre_Message := ''The requested leave type does not require a balance.''\<rparr>)
            else case balance_facts (listEffectiveLeaveBalances ctx s) employeeID (lre_LeaveTypeID evaluation) startAt of
                (initialized, available) \<Rightarrow>
                  let evaluation = evaluation\<lparr>lre_BalanceInitialized := initialized, lre_AvailableMinutes := available\<rparr>
                  in if \<not> initialized then Inr (applyLeaveBalanceFallback evaluation leaveEvaluationBalanceMissing)
                     else if available < requestedMinutes then Inr (applyLeaveBalanceFallback evaluation leaveEvaluationBalanceInsufficient)
                     else Inr (evaluation\<lparr>lre_Eligible := True, lre_Status := leaveEvaluationEligible,
                            lre_Message := ''The leave request is eligible under the published policy.''\<rparr>))"

definition leaveRuleSnapshotMap :: "LeaveRuleSnapshot \<Rightarrow> params" where
  "leaveRuleSnapshotMap rule =
     [(''leave_type_id'', VStr (lrs_LeaveTypeID rule)), (''code'', VStr (lrs_Code rule)), (''name'', VStr (lrs_Name rule)),
      (''grant_mode'', VStr (lrs_GrantMode rule)), (''requires_balance'', VBool (lrs_RequiresBalance rule)),
      (''policy_version'', VNum (lrs_PolicyVersion rule))] @
     (case lrs_ProofAfterHours rule of None \<Rightarrow> [] | Some h \<Rightarrow> [(''proof_after_hours'', float_val h)])"

definition leaveEvaluationSnapshotMap :: "LeaveRequestEvaluation \<Rightarrow> params" where
  "leaveEvaluationSnapshotMap e =
     [(''eligible'', VBool (lre_Eligible e)), (''status'', VStr (lre_Status e)), (''message'', VStr (lre_Message e)),
      (''requested_minutes'', VNum (lre_RequestedMinutes e)), (''balance_required'', VBool (lre_BalanceRequired e)),
      (''balance_initialized'', VBool (lre_BalanceInitialized e)), (''available_minutes'', VNum (lre_AvailableMinutes e)),
      (''balance_fallback_reason'', VStr (lre_BalanceFallbackReason e)), (''proof_required'', VBool (lre_ProofRequired e))]"

definition leaveEvaluationError :: "LeaveRequestEvaluation \<Rightarrow> AppError" where
  "leaveEvaluationError e =
     (if lre_Status e = LeaveEvaluationUnsupported then BadRequest ''unknown leave type''
      else if lre_Status e = leaveEvaluationBalanceMissing then BadRequest ''leave balance is required for this leave type''
      else if lre_Status e = leaveEvaluationBalanceInsufficient then BadRequest ''leave balance is insufficient''
      else BadRequest ''leave request is not eligible'')"

section \<open>The applicant\<close>

definition inactive_statuses :: "string list" where
  "inactive_statuses = [''resigned'', ''deleted'', ''inactive'', runes [24050, 20572, 29992], runes [38626, 32887]]"

definition attendanceEmployeeAllowsActiveOperations :: "Employee \<Rightarrow> bool" where
  "attendanceEmployeeAllowsActiveOperations employee \<longleftrightarrow>
     ToLower (TrimSpace (firstNonEmptyString [emp_EmploymentStatus employee, emp_Status employee])) \<notin> set inactive_statuses"

definition requireAttendanceEmployeeActive :: "app_env \<Rightarrow> RequestContext \<Rightarrow> string \<Rightarrow> app_state \<Rightarrow> Employee res" where
  "requireAttendanceEmployeeActive c ctx employeeID s =
     (case getBusinessEmployee c ctx employeeID s of
        None \<Rightarrow> Inl (AppErr (NotFound ''employee'' employeeID))
      | Some employee \<Rightarrow>
          if attendanceEmployeeAllowsActiveOperations employee then Inr employee
          else Inl (AppErr (WithReasonCode (Forbidden ''employee employment status does not allow attendance operations'') ''attendance_employee_inactive'')))"

definition overtimeLinkedTemplateKeys :: "string list" where
  "overtimeLinkedTemplateKeys = [''overtime-approval'']"

definition correctionLinkedTemplateKey :: string where
  "correctionLinkedTemplateKey = ''punch-fix''"

definition preflightWorkflowAttendanceSubmission :: "app_env \<Rightarrow> RequestContext \<Rightarrow> Account \<Rightarrow> string \<Rightarrow> app_state \<Rightarrow> unit res" where
  "preflightWorkflowAttendanceSubmission c ctx account templateKey s =
     (let templateKey = TrimSpace templateKey; employeeID = TrimSpace (acc_EmployeeID account) in
      if templateKey \<notin> set (leaveLinkedTemplateKeys @ overtimeLinkedTemplateKeys @ [correctionLinkedTemplateKey]) then Inr ()
      else if employeeID = [] then Inl (AppErr (BadRequest ''form applicant account is not linked to an employee''))
      else bindR (requireAttendanceEmployeeActive c ctx employeeID s) (\<lambda>_. Inr ()))"

section \<open>The request\<close>

definition leaveHours :: "int \<Rightarrow> rat" where
  "leaveHours minutes = of_int (mathRound (of_int minutes / 60 * 100)) / 100"

definition format_seconds :: "int \<Rightarrow> string" where
  "format_seconds t = rfc3339 (t - t mod 1000000000)"

text \<open>The type and the times a payload asks for, or the error of the first check that fails.\<close>

definition leave_asked :: "app_env \<Rightarrow> params \<Rightarrow> (string \<times> int \<times> int) res" where
  "leave_asked c payload =
     (let leaveTypeRaw = payload_text payload [''leave_type'', ''leaveType'', ''leave_name'', ''leaveName''];
          startRaw = payload_text payload [''start_at'', ''startAt'']; endRaw = payload_text payload [''end_at'', ''endAt'']
      in if leaveTypeRaw = [] then Inl (AppErr (BadRequest ''leave_type is required''))
      else if startRaw = [] \<or> endRaw = [] then Inl (AppErr (BadRequest ''start_at and end_at are required''))
      else case ParseDateTime (ap_parse c) startRaw of
          None \<Rightarrow> Inl (AppErr (BadRequest ''start_at must be RFC3339 or YYYY-MM-DD''))
        | Some startAt \<Rightarrow> (case ParseDateTime (ap_parse c) endRaw of
            None \<Rightarrow> Inl (AppErr (BadRequest ''end_at must be RFC3339 or YYYY-MM-DD''))
          | Some endAt \<Rightarrow>
              if \<not> endAt > startAt then Inl (AppErr (BadRequest ''end_at must be after start_at''))
              else if business_year startAt \<noteq> business_year (endAt - 1)
              then Inl (AppErr (BadRequest ''leave request cannot cross calendar years; split it into separate requests''))
              else Inr (leaveTypeRaw, startAt, endAt)))"

text \<open>A form that was returned keeps its request; one that is still pending is answered as it is.\<close>

datatype earlier_request = Fresh | Pending LeaveRequest | Reused LeaveRequest

definition earlier_leave :: "RequestContext \<Rightarrow> FormInstance \<Rightarrow> string \<Rightarrow> app_state \<Rightarrow> earlier_request res" where
  "earlier_leave ctx instance employeeID s =
     (case GetLeaveRequestByFormInstanceID (ap_att s) (ctx_TenantID ctx) (fi_ID instance) of
        None \<Rightarrow> Inr Fresh
      | Some existing \<Rightarrow>
          if TrimSpace (lr_EmployeeID existing) \<noteq> employeeID
          then Inl (AppErr (Conflict ''linked leave request does not belong to the form applicant''))
          else if lr_EffectStatus existing \<in> {''not_applied'', ''applying''} then Inr (Pending existing)
          else if lr_EffectStatus existing \<in> {''compensated'', ''failed''} then Inr (Reused existing)
          else if lr_EffectStatus existing = ''applied''
          then Inl (AppErr (Conflict ''approved linked leave request cannot be resubmitted''))
          else Inl (AppErr (Conflict ''linked leave request is not eligible for resubmission'')))"

text \<open>The balance to reserve against: the one of the overlay, or a local anchor without minutes.\<close>

definition leave_anchor :: "app_env \<Rightarrow> RequestContext \<Rightarrow> string \<Rightarrow> LeaveRequestEvaluation \<Rightarrow> int \<Rightarrow> LeaveBalance" where
  "leave_anchor c ctx employeeID evaluation year = zero_LeaveBalance\<lparr>
     lb_ID := ehrmsStableID c ''lb-nexus'' [ctx_TenantID ctx, employeeID, lre_LeaveTypeID evaluation, int_string year],
     lb_TenantID := ctx_TenantID ctx, lb_EmployeeID := employeeID, lb_LeaveType := lre_LeaveType evaluation,
     lb_LeaveTypeID := lre_LeaveTypeID evaluation, lb_EntitlementYear := year, lb_Source := ''nexus'', lb_UpdatedAt := ap_now c\<rparr>"

definition ensureAnchorS :: "LeaveBalance \<Rightarrow> LeaveBalance aop" where
  "ensureAnchorS v = (\<lambda>s. case EnsureLocalLeaveBalanceAnchor (ap_att s) v of
     Inl e \<Rightarrow> (Inl e, s) | Inr (balance, a) \<Rightarrow> (Inr balance, s\<lparr>ap_att := a\<rparr>))"

definition leave_balance :: "app_env \<Rightarrow> RequestContext \<Rightarrow> string \<Rightarrow> LeaveRequestEvaluation \<Rightarrow> int \<Rightarrow> (LeaveBalance \<times> bool \<times> LeaveRequestEvaluation) aop" where
  "leave_balance c ctx employeeID evaluation startAt =
     bindS (getS (\<lambda>s.
       if lre_BalanceRequired evaluation then
         (case leaveBalanceForOverlay ctx employeeID (lre_LeaveTypeID evaluation) (lre_RequestedMinutes evaluation) startAt s of
            (balance, available, fallbackReason) \<Rightarrow>
              let evaluation = evaluation\<lparr>lre_AvailableMinutes := available\<rparr> in
              if fallbackReason \<noteq> []
              then (balance, False, applyLeaveBalanceFallback
                     (evaluation\<lparr>lre_BalanceInitialized := (fallbackReason \<noteq> leaveEvaluationBalanceMissing)\<rparr>) fallbackReason)
              else (balance, True, evaluation))
       else (zero_LeaveBalance, False, evaluation))) (\<lambda>(balance, reserve, evaluation).
     if lb_ID balance = []
     then bindS (ensureAnchorS (leave_anchor c ctx employeeID evaluation (business_year startAt))) (\<lambda>balance. retS (balance, reserve, evaluation))
     else retS (balance, reserve, evaluation))"

definition submitted_leave ::
    "app_env \<Rightarrow> RequestContext \<Rightarrow> FormInstance \<Rightarrow> string \<Rightarrow> LeaveRequestEvaluation \<Rightarrow> int \<Rightarrow> int \<Rightarrow> string \<Rightarrow> string \<Rightarrow> int \<Rightarrow> int \<Rightarrow> LeaveRequest" where
  "submitted_leave c ctx instance employeeID evaluation startAt endAt reason requestID createdAt cycle = zero_LeaveRequest\<lparr>
     lr_ID := requestID, lr_TenantID := ctx_TenantID ctx, lr_EmployeeID := employeeID,
     lr_LeaveType := lre_LeaveType evaluation, lr_LeaveTypeID := lre_LeaveTypeID evaluation,
     lr_PolicyVersion := lre_PolicyVersion evaluation, lr_RuleSnapshot := leaveRuleSnapshotMap (lre_Rule evaluation),
     lr_EvaluationSnapshot := map_put ''balance_cycle'' (VNum cycle) (leaveEvaluationSnapshotMap evaluation),
     lr_StartAt := startAt, lr_EndAt := endAt, lr_RequestedMinutes := lre_RequestedMinutes evaluation,
     lr_Reason := TrimSpace reason, lr_Status := ''pending_approval'', lr_FormInstanceID := fi_ID instance,
     lr_ReconciliationStatus := ''not_required'', lr_EffectStatus := ''not_applied'', lr_CreatedAt := createdAt,
     lr_UpdatedAt := ap_now c\<rparr>"

definition linked_form :: "app_env \<Rightarrow> FormInstance \<Rightarrow> LeaveRequest \<Rightarrow> FormInstance" where
  "linked_form c instance r = instance\<lparr>
     fi_Payload := fold (\<lambda>(k, v). map_put k v)
       [(''employee_id'', VStr (lr_EmployeeID r)), (''leave_request_id'', VStr (lr_ID r)), (''leave_type'', VStr (lr_LeaveType r)),
        (''linked_resource_id'', VStr (lr_ID r)), (''linked_resource_type'', VStr ''attendance.leave_request''),
        (''start_at'', VStr (format_seconds (lr_StartAt r))), (''end_at'', VStr (format_seconds (lr_EndAt r))),
        (''requested_minutes'', VNum (lr_RequestedMinutes r)), (''hours'', float_val (leaveHours (lr_RequestedMinutes r))),
        (''reason'', VStr (lr_Reason r))] (CopyStringMap (fi_Payload instance)),
     fi_UpdatedAt := ap_now c\<rparr>"

definition write_leave :: "app_env \<Rightarrow> RequestContext \<Rightarrow> LeaveRequest \<Rightarrow> LeaveBalance \<Rightarrow> bool \<Rightarrow> int \<Rightarrow> LeaveRecord aop" where
  "write_leave c ctx req balance reserve cycle =
     bindS (attS (\<lambda>a. UpsertLeaveRequest a req)) (\<lambda>_.
     bindS (ensureNexusLeaveRecord c ctx req balance ''pending'') (\<lambda>rec.
     bindS (if reserve then appendLeaveBalanceEntry c ctx req rec leaveBalanceEntryReserve (- lr_RequestedMinutes req) cycle else retS ())
       (\<lambda>_. retS rec)))"

definition leave_audits :: "app_env \<Rightarrow> RequestContext \<Rightarrow> FormInstance \<Rightarrow> LeaveRequest \<Rightarrow> LeaveRecord \<Rightarrow> LeaveBalance \<Rightarrow> bool \<Rightarrow> unit aop" where
  "leave_audits c ctx instance req rec balance resubmitting =
     bindS (if lrec_ID rec \<noteq> []
            then auditS c ctx ''attendance.leave_balance.reserve'' ''leave_balance'' (lr_EmployeeID req @ ''|'' @ lr_LeaveType req) ''medium''
              [(''employee_id'', VStr (lr_EmployeeID req)), (''leave_type'', VStr (lr_LeaveType req)),
               (''reserved_minutes'', VNum (lr_RequestedMinutes req)), (''balance_id'', VStr (lb_ID balance))]
            else retS ()) (\<lambda>_.
     auditS c ctx (if resubmitting then ''attendance.leave_request.resubmit'' else ''attendance.leave_request.create'')
       ''leave_request'' (lr_ID req) ''medium''
       [(''leave_type'', VStr (lr_LeaveType req)), (''requested_minutes'', VNum (lr_RequestedMinutes req)),
        (''form_instance_id'', VStr (fi_ID instance)), (''source'', VStr ''workflow.form.submit''), (''resubmit'', VBool resubmitting)])"

definition store_leave ::
    "app_env \<Rightarrow> RequestContext \<Rightarrow> FormInstance \<Rightarrow> string \<Rightarrow> LeaveRequest option \<Rightarrow> params \<Rightarrow> int \<Rightarrow> int \<Rightarrow> string \<Rightarrow>
     LeaveBalance \<times> bool \<times> LeaveRequestEvaluation \<Rightarrow> LeaveRequest aop" where
  "store_leave c ctx instance employeeID existing payload startAt endAt i = (\<lambda>(balance, reserve, evaluation).
     let resubmitting = (existing \<noteq> None);
         cycle = nextLeaveRequestBalanceCycle (case existing of None \<Rightarrow> zero_LeaveRequest | Some r \<Rightarrow> r) resubmitting;
         req = submitted_leave c ctx instance employeeID evaluation startAt endAt (payload_text payload [''reason'', ''description''])
           (case existing of None \<Rightarrow> i | Some r \<Rightarrow> lr_ID r) (case existing of None \<Rightarrow> ap_now c | Some r \<Rightarrow> lr_CreatedAt r) cycle
     in bindS (write_leave c ctx req balance reserve cycle) (\<lambda>rec.
        bindS (putForm (linked_form c instance req)) (\<lambda>_.
        bindS (leave_audits c ctx instance req rec balance resubmitting) (\<lambda>_. retS req))))"

definition create_leave ::
    "app_env \<Rightarrow> leave_policy \<Rightarrow> RequestContext \<Rightarrow> FormInstance \<Rightarrow> string \<Rightarrow> LeaveRequest option \<Rightarrow> params \<Rightarrow> LeaveRequest aop" where
  "create_leave c policy ctx instance employeeID existing payload =
     bindS (liftS (leave_asked c payload)) (\<lambda>(leaveTypeRaw, startAt, endAt).
     bindS (tryS (EvaluateLeaveRequestRules policy ctx employeeID leaveTypeRaw startAt endAt 0)) (\<lambda>evaluation.
     if \<not> lre_Eligible evaluation then failS (leaveEvaluationError evaluation)
     else
       bindS (newIDS c ''lr'') (\<lambda>i.
       bindS (leave_balance c ctx employeeID evaluation startAt)
         (store_leave c ctx instance employeeID existing payload startAt endAt i))))"

definition createLeaveRequestFromSubmittedForm ::
    "app_env \<Rightarrow> leave_policy \<Rightarrow> RequestContext \<Rightarrow> FormInstance \<Rightarrow> string \<Rightarrow> params \<Rightarrow> LeaveRequest aop" where
  "createLeaveRequestFromSubmittedForm c policy ctx instance templateKey payload =
     (if TrimSpace templateKey \<notin> set leaveLinkedTemplateKeys \<or> \<not> workflowLeavePayloadHasLinkedFields payload then retS zero_LeaveRequest
      else bindS (tryS (workflowApplicantEmployeeID ctx instance)) (\<lambda>employeeID.
           bindS (tryS (requireAttendanceEmployeeActive c ctx employeeID)) (\<lambda>_.
           bindS (tryS (earlier_leave ctx instance employeeID)) (\<lambda>earlier.
           case earlier of
             Pending existing \<Rightarrow> retS existing
           | Fresh \<Rightarrow> create_leave c policy ctx instance employeeID None payload
           | Reused existing \<Rightarrow> create_leave c policy ctx instance employeeID (Some existing) payload))))"

end
