(* ===== verification/Leave_Lifecycle.thy ===== *)
theory Leave_Lifecycle
  imports Leave_Submission
begin

text \<open>
  The life of a leave request, from the submission of its form to the decision: submitting takes the
  requested minutes from one balance, once and never below zero, and a rejection or cancellation gives
  exactly these minutes back.
\<close>

section \<open>The balance that is reserved against\<close>

definition balances_named :: "string \<Rightarrow> app_state \<Rightarrow> bool" where
  "balances_named t s \<longleftrightarrow> list_all (\<lambda>b. TrimSpace (lb_ID b) \<noteq> []) (rows (att_leaveBalances (ap_att s)) t)"

definition records_keyed :: "string \<Rightarrow> app_state \<Rightarrow> bool" where
  "records_keyed t s \<longleftrightarrow>
     list_all (\<lambda>e. fst e = lrec_ID (snd e) \<and> lrec_TenantID (snd e) = t) (bucket (att_leaveRecords (ap_att s)) t)"

text \<open>The ledger holds nothing yet for the request in its current cycle.\<close>

definition unbooked_cycle :: "string \<Rightarrow> LeaveRequest \<Rightarrow> app_state \<Rightarrow> bool" where
  "unbooked_cycle t r s \<longleftrightarrow>
     (\<forall>b kind. \<not> booked t (ledger_key (lr_ID r) (leaveRequestBalanceCycle r) b kind) s)"

text \<open>What a step that only touches balances, forms or the audit log leaves alone.\<close>

definition leave_view :: "app_state \<Rightarrow> mem_store \<times> LeaveBalanceEntry table \<times> LeaveRequest table \<times> LeaveRecord table" where
  "leave_view s = (ap_mem s, att_leaveBalanceEntries (ap_att s), att_leaveRequests (ap_att s), att_leaveRecords (ap_att s))"

lemma overlay_found:
  assumes "GetLeaveBalanceForOverlay a t e i moment = Some item"
  shows "item \<in> set (rows (att_leaveBalances a) t)"
proof -
  have "item \<in> set (leaveBalancesForOverlayLocked a t e i moment)"
    using assms by (auto simp: GetLeaveBalanceForOverlay_def split: list.splits)
  then show ?thesis by (simp add: leaveBalancesForOverlayLocked_def)
qed

lemma overlay_enough:
  assumes "leaveBalanceForOverlay ctx e i minutes moment s = (item, available, [])" "minutes > 0"
  shows "item \<in> set (rows (att_leaveBalances (ap_att s)) (ctx_TenantID ctx))" "minutes \<le> effectiveRemaining ctx item s"
  using assms overlay_found
  by (auto simp: leaveBalanceForOverlay_def effectiveRemaining_def Let_def max_def split: option.splits if_splits)

lemma ensureAnchor_view:
  assumes "EnsureLocalLeaveBalanceAnchor a v = Inr (b, a')"
  shows "att_leaveBalanceEntries a' = att_leaveBalanceEntries a" "att_leaveRequests a' = att_leaveRequests a"
    "att_leaveRecords a' = att_leaveRecords a"
  using assms
  by (auto simp: EnsureLocalLeaveBalanceAnchor_def ensureLocalLeaveBalanceAnchorLocked_def Let_def split: option.splits if_splits)

lemma leave_balance_chosen:
  assumes run: "leave_balance c ctx e ev moment s = (Inr (balance, reserve, ev'), u)"
    and minutes: "lre_RequestedMinutes ev > 0" and named: "balances_named (ctx_TenantID ctx) s"
  shows "leave_view u = leave_view s \<and> ap_calls u = ap_calls s \<and>
    lre_RequestedMinutes ev' = lre_RequestedMinutes ev \<and> reserve = lre_BalanceRequired ev' \<and>
    (reserve \<longrightarrow> balance \<in> set (rows (att_leaveBalances (ap_att s)) (ctx_TenantID ctx)) \<and>
       lre_RequestedMinutes ev \<le> effectiveRemaining ctx balance s \<and> TrimSpace (lb_ID balance) \<noteq> [])"
proof -
  let ?choice = "if lre_BalanceRequired ev then
         (case leaveBalanceForOverlay ctx e (lre_LeaveTypeID ev) (lre_RequestedMinutes ev) moment s of
            (balance, available, fallbackReason) \<Rightarrow>
              let ev = ev\<lparr>lre_AvailableMinutes := available\<rparr> in
              if fallbackReason \<noteq> []
              then (balance, False, applyLeaveBalanceFallback
                     (ev\<lparr>lre_BalanceInitialized := (fallbackReason \<noteq> leaveEvaluationBalanceMissing)\<rparr>) fallbackReason)
              else (balance, True, ev))
       else (zero_LeaveBalance, False, ev)"
  obtain b r v where choice: "?choice = (b, r, v)" by (cases ?choice) auto
  have facts: "lre_RequestedMinutes v = lre_RequestedMinutes ev \<and> r = lre_BalanceRequired v \<and>
      (r \<longrightarrow> b \<in> set (rows (att_leaveBalances (ap_att s)) (ctx_TenantID ctx)) \<and>
       lre_RequestedMinutes ev \<le> effectiveRemaining ctx b s)"
  proof (cases "lre_BalanceRequired ev")
    case True
    obtain item available why where found:
      "leaveBalanceForOverlay ctx e (lre_LeaveTypeID ev) (lre_RequestedMinutes ev) moment s = (item, available, why)"
      by (rule prod_cases3)
    show ?thesis
    proof (cases "why = []")
      case True
      show ?thesis
        using choice overlay_enough [OF found [unfolded True] minutes] \<open>lre_BalanceRequired ev\<close>
        by (auto simp: found True Let_def)
    next
      case False
      then show ?thesis using choice \<open>lre_BalanceRequired ev\<close>
        by (auto simp: found Let_def applyLeaveBalanceFallback_def)
    qed
  next
    case False
    then show ?thesis using choice by auto
  qed
  have tail: "(if lb_ID b = [] then bindS (ensureAnchorS (leave_anchor c ctx e v (business_year moment)))
        (\<lambda>balance. retS (balance, r, v)) else retS (b, r, v)) s = (Inr (balance, reserve, ev'), u)"
    using run choice by (simp add: leave_balance_def bindS_def getS_def)
  have named_b: "TrimSpace (lb_ID b) \<noteq> []" if r
    using facts that named by (auto simp: balances_named_def list_all_iff)
  show ?thesis
  proof (cases "lb_ID b = []")
    case True
    with named_b have "\<not> r" by auto
    obtain x a where a: "EnsureLocalLeaveBalanceAnchor (ap_att s) (leave_anchor c ctx e v (business_year moment)) = Inr (x, a)"
        "u = s\<lparr>ap_att := a\<rparr>" "reserve = r" "ev' = v"
      using tail True by (auto simp: bindS_def ensureAnchorS_def retS_def split: sum.splits prod.splits)
    then show ?thesis using facts \<open>\<not> r\<close> ensureAnchor_view [OF a(1)] by (simp add: leave_view_def)
  next
    case False
    then show ?thesis using tail facts named_b by (auto simp: retS_def leave_view_def)
  qed
qed

section \<open>The rows that are written\<close>

lemma UpsertLeaveRequest_stored:
  obtains v' where "UpsertLeaveRequest a v = a\<lparr>att_leaveRequests := putNested (att_leaveRequests a) (lr_TenantID v) (lr_ID v) v'\<rparr>"
    "lr_ID v' = lr_ID v" "lr_TenantID v' = lr_TenantID v" "lr_FormInstanceID v' = lr_FormInstanceID v"
    "lr_EffectStatus v' = lr_EffectStatus v" "lr_EmployeeID v' = lr_EmployeeID v"
    "lr_RequestedMinutes v' = lr_RequestedMinutes v" "lr_EvaluationSnapshot v' = lr_EvaluationSnapshot v"
proof
  let ?v1 = "if TrimSpace (lr_LeaveTypeID v) = [] then v\<lparr>lr_LeaveTypeID := StableLeaveTypeID (lr_LeaveType v)\<rparr> else v"
  let ?v2 = "if TrimSpace (lr_ReconciliationStatus ?v1) = [] then ?v1\<lparr>lr_ReconciliationStatus := ''not_required''\<rparr> else ?v1"
  let ?v3 = "if lr_UpdatedAt ?v2 = 0 then ?v2\<lparr>lr_UpdatedAt := lr_CreatedAt ?v2\<rparr> else ?v2"
  show "lr_ID ?v3 = lr_ID v" "lr_TenantID ?v3 = lr_TenantID v" "lr_FormInstanceID ?v3 = lr_FormInstanceID v"
    "lr_EffectStatus ?v3 = lr_EffectStatus v" "lr_EmployeeID ?v3 = lr_EmployeeID v"
    "lr_RequestedMinutes ?v3 = lr_RequestedMinutes v" "lr_EvaluationSnapshot ?v3 = lr_EvaluationSnapshot v" by simp_all
  show "UpsertLeaveRequest a v = a\<lparr>att_leaveRequests := putNested (att_leaveRequests a) (lr_TenantID v) (lr_ID v) ?v3\<rparr>"
    unfolding UpsertLeaveRequest_def Let_def by simp
qed

lemma UpsertLeaveRecord_stored:
  obtains v' where "UpsertLeaveRecord a v = a\<lparr>att_leaveRecords := putNested (att_leaveRecords a) (lrec_TenantID v) (lrec_ID v) v'\<rparr>"
    "lrec_BalanceID v' = lrec_BalanceID v"
  by (rule that [of "if TrimSpace (lrec_BalanceMatchStatus v) = []
      then v\<lparr>lrec_BalanceMatchStatus := (if TrimSpace (lrec_BalanceID v) \<noteq> [] then ''matched'' else ''unmatched'')\<rparr> else v"])
    (simp_all add: UpsertLeaveRecord_def Let_def)

lemma ensureNexusLeaveRecord_writes:
  assumes run: "ensureNexusLeaveRecord c ctx req balance status s = (Inr rec, u)"
    and keyed: "records_keyed (ctx_TenantID ctx) s"
  shows "u = s\<lparr>ap_att := UpsertLeaveRecord (ap_att s) rec\<rparr> \<and> lrec_ID rec = lr_ID req \<and> lrec_TenantID rec = ctx_TenantID ctx \<and>
    lrec_BalanceID rec = lb_ID balance"
proof (cases "GetLeaveRecord (ap_att s) (ctx_TenantID ctx) (lr_ID req)")
  case None
  then show ?thesis using run
    by (auto simp: ensureNexusLeaveRecord_def bindS_def getS_def attS_def modS_def retS_def Let_def)
next
  case (Some item)
  then have "(lr_ID req, item) \<in> set (bucket (att_leaveRecords (ap_att s)) (ctx_TenantID ctx))"
    by (simp add: GetLeaveRecord_def getNested_bucket map_of_SomeD)
  then have "lrec_ID item = lr_ID req \<and> lrec_TenantID item = ctx_TenantID ctx"
    using keyed by (auto simp: records_keyed_def list_all_iff)
  then show ?thesis using run Some
    by (auto simp: ensureNexusLeaveRecord_def bindS_def getS_def attS_def modS_def retS_def Let_def)
qed

lemma write_leave_rows:
  assumes run: "write_leave c ctx req balance reserve cycle s = (Inr rec, u)"
    and tenant: "lr_TenantID req = ctx_TenantID ctx" and keyed: "records_keyed (ctx_TenantID ctx) s"
  obtains v where
    "(if reserve then appendLeaveBalanceEntry c ctx req rec leaveBalanceEntryReserve (- lr_RequestedMinutes req) cycle else retS ()) v = (Inr (), u)"
    "v = s\<lparr>ap_att := UpsertLeaveRecord (UpsertLeaveRequest (ap_att s) req) rec\<rparr>"
    "lrec_ID rec = lr_ID req" "lrec_TenantID rec = ctx_TenantID ctx" "lrec_BalanceID rec = lb_ID balance"
proof -
  let ?s1 = "s\<lparr>ap_att := UpsertLeaveRequest (ap_att s) req\<rparr>"
  obtain v where ensure: "ensureNexusLeaveRecord c ctx req balance ''pending'' ?s1 = (Inr rec, v)" and
    append: "(if reserve then appendLeaveBalanceEntry c ctx req rec leaveBalanceEntryReserve (- lr_RequestedMinutes req) cycle else retS ()) v = (Inr (), u)"
    using run by (auto simp: write_leave_def attS_def modS_def retS_def bindS_def split: prod.splits sum.splits)
  have "records_keyed (ctx_TenantID ctx) ?s1"
    using keyed by (simp add: records_keyed_def UpsertLeaveRequest_def Let_def)
  from ensureNexusLeaveRecord_writes [OF ensure this] show ?thesis by (intro that [OF append]) simp_all
qed

lemma write_leave_reserves:
  assumes run: "write_leave c ctx req balance reserve cycle s = (Inr rec, u)"
    and tenant: "lr_TenantID req = ctx_TenantID ctx" and keyed: "records_keyed (ctx_TenantID ctx) s"
    and named: "reserve \<longrightarrow> TrimSpace (lb_ID balance) \<noteq> []" and minutes: "lr_RequestedMinutes req > 0"
    and fresh: "fresh_entries c (ctx_TenantID ctx) s"
    and free: "\<not> booked (ctx_TenantID ctx) (ledger_key (lr_ID req) cycle (lb_ID balance) leaveBalanceEntryReserve) s"
  obtains v' rec' where
    "att_leaveRequests (ap_att u) = putNested (att_leaveRequests (ap_att s)) (ctx_TenantID ctx) (lr_ID req) v'"
    "lr_ID v' = lr_ID req" "lr_TenantID v' = ctx_TenantID ctx" "lr_FormInstanceID v' = lr_FormInstanceID req"
    "lr_EffectStatus v' = lr_EffectStatus req" "lr_EmployeeID v' = lr_EmployeeID req"
    "lr_RequestedMinutes v' = lr_RequestedMinutes req" "lr_EvaluationSnapshot v' = lr_EvaluationSnapshot req"
    "GetLeaveRecord (ap_att u) (ctx_TenantID ctx) (lr_ID req) = Some rec'" "lrec_BalanceID rec' = lb_ID balance"
    "if reserve then entry_added c (ctx_TenantID ctx) (ledger_key (lr_ID req) cycle (lb_ID balance) leaveBalanceEntryReserve)
        (- lr_RequestedMinutes req) rec' leaveBalanceEntryReserve s u
     else ledger_rows (ctx_TenantID ctx) u = ledger_rows (ctx_TenantID ctx) s"
proof -
  let ?t = "ctx_TenantID ctx" and ?key = "ledger_key (lr_ID req) cycle (lb_ID balance) leaveBalanceEntryReserve"
  obtain v where append: "(if reserve then appendLeaveBalanceEntry c ctx req rec leaveBalanceEntryReserve (- lr_RequestedMinutes req) cycle else retS ()) v = (Inr (), u)"
    and v: "v = s\<lparr>ap_att := UpsertLeaveRecord (UpsertLeaveRequest (ap_att s) req) rec\<rparr>"
    and rec: "lrec_ID rec = lr_ID req" "lrec_TenantID rec = ?t" "lrec_BalanceID rec = lb_ID balance"
    by (rule write_leave_rows [OF run tenant keyed])
  obtain v' where v': "UpsertLeaveRequest (ap_att s) req = (ap_att s)\<lparr>att_leaveRequests := putNested (att_leaveRequests (ap_att s)) (lr_TenantID req) (lr_ID req) v'\<rparr>"
    "lr_ID v' = lr_ID req" "lr_TenantID v' = lr_TenantID req" "lr_FormInstanceID v' = lr_FormInstanceID req"
    "lr_EffectStatus v' = lr_EffectStatus req" "lr_EmployeeID v' = lr_EmployeeID req"
    "lr_RequestedMinutes v' = lr_RequestedMinutes req" "lr_EvaluationSnapshot v' = lr_EvaluationSnapshot req"
    by (rule UpsertLeaveRequest_stored)
  let ?a = "UpsertLeaveRequest (ap_att s) req"
  obtain rec' where rec': "UpsertLeaveRecord ?a rec = ?a\<lparr>att_leaveRecords := putNested (att_leaveRecords ?a) (lrec_TenantID rec) (lrec_ID rec) rec'\<rparr>"
    "lrec_BalanceID rec' = lrec_BalanceID rec" by (rule UpsertLeaveRecord_stored)
  have att_v: "ap_att v = (ap_att s)\<lparr>att_leaveRequests := putNested (att_leaveRequests (ap_att s)) ?t (lr_ID req) v',
      att_leaveRecords := putNested (att_leaveRecords (ap_att s)) ?t (lr_ID req) rec'\<rparr>"
    unfolding v using rec'(1) by (simp add: v'(1) rec tenant)
  have same: "ledger_rows ?t v = ledger_rows ?t s" "fresh_entries c ?t v"
    "\<And>k. booked ?t k v = booked ?t k s"
    using fresh by (simp_all add: ledger_rows_def fresh_entries_def booked_def att_v) (simp_all add: v)
  have u: "same_but_ledger v u \<and>
      (if reserve then entry_added c ?t ?key (- lr_RequestedMinutes req) rec' leaveBalanceEntryReserve s u
       else ledger_rows ?t u = ledger_rows ?t s)"
  proof (cases reserve)
    case True
    have "okS (appendLeaveBalanceEntry c ctx req rec leaveBalanceEntryReserve (- lr_RequestedMinutes req) cycle) (\<lambda>_ u.
       entry_added c ?t ?key (- lr_RequestedMinutes req) rec leaveBalanceEntryReserve v u \<and> same_but_ledger v u) v"
      using appendLeaveBalanceEntry_adds [of rec "- lr_RequestedMinutes req" c ctx v req cycle leaveBalanceEntryReserve]
        True named minutes same free rec(3) by simp
    then have "entry_added c ?t ?key (- lr_RequestedMinutes req) rec leaveBalanceEntryReserve v u \<and> same_but_ledger v u"
      using append True by (auto dest: okSD)
    then show ?thesis using True same(1) rec'(2) by (simp add: entry_added_def)
  next
    case False
    then show ?thesis using append same(1) by (auto simp: retS_def same_but_ledger_refl)
  qed
  then have att_u: "att_leaveRequests (ap_att u) = att_leaveRequests (ap_att v)" "att_leaveRecords (ap_att u) = att_leaveRecords (ap_att v)"
    by (auto simp: same_but_ledger_def with_ledger_def)
  show ?thesis
    by (rule that [of v' rec'])
      (use u v' rec' rec(3) tenant in \<open>simp_all add: att_u att_v GetLeaveRecord_def getNested_bucket update_conv'\<close>)
qed

section \<open>The submission\<close>

lemma evaluated_minutes:
  assumes "EvaluateLeaveRequestRules policy ctx e raw startAt endAt hours s = Inr ev"
  shows "lre_RequestedMinutes ev > 0"
  using assms
  by (auto simp: EvaluateLeaveRequestRules_def supported_leave_def unsupported_leave_def applyLeaveBalanceFallback_def Let_def
      split: if_splits option.splits prod.splits)

lemma submitted_leave_sel [simp]:
  "lr_ID (submitted_leave c ctx instance e ev b f reason i created cycle) = i"
  "lr_TenantID (submitted_leave c ctx instance e ev b f reason i created cycle) = ctx_TenantID ctx"
  "lr_FormInstanceID (submitted_leave c ctx instance e ev b f reason i created cycle) = fi_ID instance"
  "lr_EffectStatus (submitted_leave c ctx instance e ev b f reason i created cycle) = ''not_applied''"
  "lr_EmployeeID (submitted_leave c ctx instance e ev b f reason i created cycle) = e"
  "lr_RequestedMinutes (submitted_leave c ctx instance e ev b f reason i created cycle) = lre_RequestedMinutes ev"
  "lr_EvaluationSnapshot (submitted_leave c ctx instance e ev b f reason i created cycle) =
     map_put ''balance_cycle'' (VNum cycle) (leaveEvaluationSnapshotMap ev)"
  by (simp_all add: submitted_leave_def)

lemma snapshot_of_submitted:
  assumes "lr_EvaluationSnapshot r = map_put ''balance_cycle'' (VNum cycle) (leaveEvaluationSnapshotMap ev)" "cycle > 0"
  shows "balanceReserved r = lre_BalanceRequired ev" "leaveRequestBalanceCycle r = cycle"
proof -
  have "lr_EvaluationSnapshot r \<noteq> []" by (simp add: assms(1) leaveEvaluationSnapshotMap_def)
  moreover have "map_at (lr_EvaluationSnapshot r) ''balance_cycle'' = VNum cycle"
    by (simp add: assms(1) map_at_def update_conv')
  moreover have "map_at (lr_EvaluationSnapshot r) ''balance_required'' = VBool (lre_BalanceRequired ev)"
    by (simp add: assms(1) map_at_def update_conv' leaveEvaluationSnapshotMap_def)
  ultimately show "balanceReserved r = lre_BalanceRequired ev" "leaveRequestBalanceCycle r = cycle"
    using assms(2) by (simp_all add: balanceReserved_def leaveRequestBalanceCycle_def)
qed

lemma next_cycle_pos: "nextLeaveRequestBalanceCycle r resubmitting > 0"
  by (simp add: nextLeaveRequestBalanceCycle_def leaveRequestBalanceCycle_def split: val.splits)

definition form_view :: "app_state \<Rightarrow> mem_store \<times> att_store \<times> nat" where
  "form_view s = (ap_mem s, ap_att s, ap_calls s)"

lemma keeps_form_view: "keeps form_view (auditS c ctx e r t sv d)" "keeps form_view (putForm f)"
  by (simp_all add: keeps_def form_view_def auditS_def authzS_def putForm_def split: prod.split sum.split)

lemma leave_audits_view: "keeps form_view (leave_audits c ctx instance req rec balance resubmitting)"
  unfolding leave_audits_def by (intro keeps_intros keeps_form_view)

lemma create_leave_run:
  assumes "create_leave c policy ctx instance e existing payload s = (Inr req, s')"
  obtains raw startAt endAt ev0 balance reserve ev u rec v reason where
    "EvaluateLeaveRequestRules policy ctx e raw startAt endAt 0 s = Inr ev0"
    "leave_balance c ctx e ev0 startAt (s\<lparr>ap_calls := Suc (ap_calls s)\<rparr>) = (Inr (balance, reserve, ev), u)"
    "req = submitted_leave c ctx instance e ev startAt endAt reason
       (case existing of None \<Rightarrow> ap_newID c ''lr'' (ap_calls s) | Some r \<Rightarrow> lr_ID r)
       (case existing of None \<Rightarrow> ap_now c | Some r \<Rightarrow> lr_CreatedAt r)
       (nextLeaveRequestBalanceCycle (case existing of None \<Rightarrow> zero_LeaveRequest | Some r \<Rightarrow> r) (existing \<noteq> None))"
    "write_leave c ctx req balance reserve
       (nextLeaveRequestBalanceCycle (case existing of None \<Rightarrow> zero_LeaveRequest | Some r \<Rightarrow> r) (existing \<noteq> None)) u = (Inr rec, v)"
    "form_view s' = form_view v"
proof -
  note split = bindS_ok [where y = req and s' = s']
  obtain raw startAt endAt where ev: "bindS (tryS (EvaluateLeaveRequestRules policy ctx e raw startAt endAt 0)) (\<lambda>evaluation.
      if \<not> lre_Eligible evaluation then failS (leaveEvaluationError evaluation)
      else bindS (newIDS c ''lr'') (\<lambda>i. bindS (leave_balance c ctx e evaluation startAt)
        (store_leave c ctx instance e existing payload startAt endAt i))) s = (Inr req, s')"
    by (rule split [OF assms [unfolded create_leave_def]]) (auto simp: liftS_def)
  obtain ev0 where ev0: "EvaluateLeaveRequestRules policy ctx e raw startAt endAt 0 s = Inr ev0" "lre_Eligible ev0"
    and rest: "bindS (newIDS c ''lr'') (\<lambda>i. bindS (leave_balance c ctx e ev0 startAt)
        (store_leave c ctx instance e existing payload startAt endAt i)) s = (Inr req, s')"
    by (rule split [OF ev]) (auto simp: tryS_def failS_def liftS_def split: if_splits)
  obtain balance reserve ev u where chosen: "leave_balance c ctx e ev0 startAt (s\<lparr>ap_calls := Suc (ap_calls s)\<rparr>) = (Inr (balance, reserve, ev), u)"
    and store: "store_leave c ctx instance e existing payload startAt endAt (ap_newID c ''lr'' (ap_calls s)) (balance, reserve, ev) u = (Inr req, s')"
    by (rule split [OF rest]) (auto simp: newIDS_def elim!: bindS_ok)
  let ?cycle = "nextLeaveRequestBalanceCycle (case existing of None \<Rightarrow> zero_LeaveRequest | Some r \<Rightarrow> r) (existing \<noteq> None)"
  let ?req = "submitted_leave c ctx instance e ev startAt endAt (payload_text payload [''reason'', ''description''])
       (case existing of None \<Rightarrow> ap_newID c ''lr'' (ap_calls s) | Some r \<Rightarrow> lr_ID r)
       (case existing of None \<Rightarrow> ap_now c | Some r \<Rightarrow> lr_CreatedAt r) ?cycle"
  obtain rec v where steps: "write_leave c ctx ?req balance reserve ?cycle u = (Inr rec, v)"
    and tail: "bindS (putForm (linked_form c instance ?req)) (\<lambda>_.
        bindS (leave_audits c ctx instance ?req rec balance (existing \<noteq> None)) (\<lambda>_. retS ?req)) v = (Inr req, s')"
    by (rule split [OF store [unfolded store_leave_def Let_def prod.case]])
  have "form_view s' = form_view v \<and> req = ?req"
    using keepsD [OF keeps_bind [OF keeps_form_view(2) keeps_bind [OF leave_audits_view keeps_basic(1)]] tail]
      tail by (auto simp: retS_def elim!: bindS_ok)
  then show ?thesis using that [OF ev0(1) chosen _ _] steps by blast
qed

lemma find_put_new: "find P (map snd m) = None \<Longrightarrow> P v \<Longrightarrow> find P (map snd (map_put k v m)) = Some v"
  by (induction m) (auto split: if_splits)

text \<open>The request of a form is found again after it was written, under whatever copy of the form.\<close>

lemma leaveRequestOf_written:
  assumes earlier: "GetLeaveRequestByFormInstanceID (ap_att s) (ctx_TenantID ctx) (fi_ID instance) = existing"
    and keyed: "requests_keyed (ctx_TenantID ctx) s"
    and v: "existing \<noteq> None \<longrightarrow> lr_ID v = lr_ID (the existing)" "lr_FormInstanceID v = fi_ID instance"
    and u: "att_leaveRequests (ap_att u) = putNested (att_leaveRequests (ap_att s)) (ctx_TenantID ctx) (lr_ID v) v"
    and copy: "fi_ID form = fi_ID instance"
  shows "leaveRequestOf ctx form u = Some v"
proof -
  let ?m = "bucket (att_leaveRequests (ap_att s)) (ctx_TenantID ctx)" and ?P = "\<lambda>item. lr_FormInstanceID item = fi_ID instance"
  have "find ?P (map snd (map_put (lr_ID v) v ?m)) = Some v"
  proof (cases existing)
    case None
    then show ?thesis using earlier v(2)
      by (intro find_put_new) (simp_all add: GetLeaveRequestByFormInstanceID_def copyNestedValues_def)
  next
    case (Some r)
    then show ?thesis using earlier v keyed
      by (intro find_put [of _ lr_ID]) (auto simp: GetLeaveRequestByFormInstanceID_def copyNestedValues_def requests_keyed_def)
  qed
  then show ?thesis using copy
    by (simp add: leaveRequestOf_def reviewedRequest_def GetLeaveRequestByFormInstanceID_def copyNestedValues_def u)
qed

definition leave_ready :: "app_env \<Rightarrow> string \<Rightarrow> LeaveRequest \<Rightarrow> app_state \<Rightarrow> bool" where
  "leave_ready c t req s \<longleftrightarrow> requests_keyed t s \<and> records_keyed t s \<and> balances_named t s \<and> fresh_entries c t s \<and>
     unbooked_cycle t req s"

lemma create_leave_effect:
  assumes run: "create_leave c policy ctx instance e existing payload s = (Inr req, s')"
    and earlier: "GetLeaveRequestByFormInstanceID (ap_att s) (ctx_TenantID ctx) (fi_ID instance) = existing"
    and ready: "leave_ready c (ctx_TenantID ctx) req s"
  obtains rec request where
    "GetLeaveRecord (ap_att s') (ctx_TenantID ctx) (lr_ID req) = Some rec" "lr_RequestedMinutes req > 0"
    "\<forall>form. fi_ID form = fi_ID instance \<longrightarrow> leaveRequestOf ctx form s' = Some request"
    "lr_ID request = lr_ID req" "lr_RequestedMinutes request = lr_RequestedMinutes req" "lr_EffectStatus request = ''not_applied''"
    "requests_keyed (ctx_TenantID ctx) s'"
    "if balanceReserved req
     then entry_added c (ctx_TenantID ctx) (entry_key req rec leaveBalanceEntryReserve) (- lr_RequestedMinutes req) rec leaveBalanceEntryReserve s s' \<and>
       open_reservation c (ctx_TenantID ctx) request rec s' \<and>
       (\<exists>item \<in> set (rows (att_leaveBalances (ap_att s)) (ctx_TenantID ctx)). lb_ID item = lrec_BalanceID rec \<and>
          lr_RequestedMinutes req \<le> effectiveRemaining ctx item s)
     else ledger_rows (ctx_TenantID ctx) s' = ledger_rows (ctx_TenantID ctx) s"
proof -
  let ?t = "ctx_TenantID ctx" and ?s0 = "s\<lparr>ap_calls := Suc (ap_calls s)\<rparr>"
  let ?cycle = "nextLeaveRequestBalanceCycle (case existing of None \<Rightarrow> zero_LeaveRequest | Some r \<Rightarrow> r) (existing \<noteq> None)"
  note ready' = ready [unfolded leave_ready_def]
  obtain raw startAt endAt ev0 balance reserve ev u rec v reason where
    ev0: "EvaluateLeaveRequestRules policy ctx e raw startAt endAt 0 s = Inr ev0"
    and chosen: "leave_balance c ctx e ev0 startAt ?s0 = (Inr (balance, reserve, ev), u)"
    and req: "req = submitted_leave c ctx instance e ev startAt endAt reason
       (case existing of None \<Rightarrow> ap_newID c ''lr'' (ap_calls s) | Some r \<Rightarrow> lr_ID r)
       (case existing of None \<Rightarrow> ap_now c | Some r \<Rightarrow> lr_CreatedAt r) ?cycle"
    and wrote: "write_leave c ctx req balance reserve ?cycle u = (Inr rec, v)"
    and view: "form_view s' = form_view v"
    by (rule create_leave_run [OF run])
  have named0: "balances_named ?t ?s0" using ready' by (simp add: balances_named_def)
  note balance = leave_balance_chosen [OF chosen evaluated_minutes [OF ev0] named0]
  have u: "att_leaveBalanceEntries (ap_att u) = att_leaveBalanceEntries (ap_att s)"
    "att_leaveRequests (ap_att u) = att_leaveRequests (ap_att s)" "att_leaveRecords (ap_att u) = att_leaveRecords (ap_att s)"
    "ap_calls u = Suc (ap_calls s)" using balance by (simp_all add: leave_view_def)
  have minutes: "lr_RequestedMinutes req > 0" using balance evaluated_minutes [OF ev0] by (simp add: req)
  have snap: "lr_EvaluationSnapshot req = map_put ''balance_cycle'' (VNum ?cycle) (leaveEvaluationSnapshotMap ev)" by (simp add: req)
  note of_req = snapshot_of_submitted [OF snap next_cycle_pos]
  have reserved: "balanceReserved req = reserve" using balance of_req(1) by simp
  have rows_u: "ledger_rows ?t u = ledger_rows ?t s" "\<And>k. booked ?t k u = booked ?t k s" "fresh_entries c ?t u" "records_keyed ?t u"
    using ready' by (simp_all add: ledger_rows_def booked_def fresh_entries_def records_keyed_def u)
  have free: "\<not> booked ?t (ledger_key (lr_ID req) ?cycle b k) s" for b k
    using ready' of_req(2) by (simp add: unbooked_cycle_def)
  have tenant: "lr_TenantID req = ?t" by (simp add: req)
  have named: "reserve \<longrightarrow> TrimSpace (lb_ID balance) \<noteq> []" using balance by blast
  have free_u: "\<not> booked ?t (ledger_key (lr_ID req) ?cycle (lb_ID balance) leaveBalanceEntryReserve) u"
    using free by (simp add: rows_u(2))
  obtain v' rec' where stored: "att_leaveRequests (ap_att v) = putNested (att_leaveRequests (ap_att u)) ?t (lr_ID req) v'"
    and v': "lr_ID v' = lr_ID req" "lr_TenantID v' = ?t" "lr_FormInstanceID v' = lr_FormInstanceID req"
    "lr_EffectStatus v' = lr_EffectStatus req" "lr_RequestedMinutes v' = lr_RequestedMinutes req"
    "lr_EvaluationSnapshot v' = lr_EvaluationSnapshot req"
    and rec': "GetLeaveRecord (ap_att v) ?t (lr_ID req) = Some rec'" "lrec_BalanceID rec' = lb_ID balance"
    and ledger: "if reserve then entry_added c ?t (ledger_key (lr_ID req) ?cycle (lb_ID balance) leaveBalanceEntryReserve)
        (- lr_RequestedMinutes req) rec' leaveBalanceEntryReserve u v else ledger_rows ?t v = ledger_rows ?t u"
    by (rule write_leave_reserves [OF wrote tenant rows_u(4) named minutes rows_u(3) free_u])
  have s': "ap_att s' = ap_att v" "ap_calls s' = ap_calls v" using view by (simp_all add: form_view_def)
  have to_s': "ledger_rows ?t s' = ledger_rows ?t v" "fresh_entries c ?t s' = fresh_entries c ?t v"
    by (simp_all add: ledger_rows_def fresh_entries_def s')
  have added: "entry_added c ?t (entry_key req rec' leaveBalanceEntryReserve) (- lr_RequestedMinutes req) rec' leaveBalanceEntryReserve s s'"
    if reserve using ledger that of_req(2) rec'(2) by (simp add: entry_added_def entry_key_def to_s' rows_u(1))
  have open_res: "open_reservation c ?t v' rec' s'" if r: reserve
  proof -
    have "balanceReserved v'" "leaveRequestBalanceCycle v' = ?cycle"
      using snapshot_of_submitted [of v', OF _ next_cycle_pos] v'(6) snap reserved of_req(1) r by simp_all
    moreover have "\<not> booked ?t (entry_key v' rec' k) s'" if "k \<noteq> leaveBalanceEntryReserve" for k
      using booked_added [OF added [OF r]] free that of_req(2) v'(1) calculation(2) by (simp add: entry_key_def)
    moreover have "fresh_entries c ?t s'" using added [OF r] by (simp add: entry_added_def)
    moreover have "TrimSpace (lrec_BalanceID rec') \<noteq> []" using named r rec'(2) by simp
    ultimately show ?thesis by (simp add: open_reservation_def)
  qed
  have enough: "\<exists>item \<in> set (rows (att_leaveBalances (ap_att s)) ?t). lb_ID item = lrec_BalanceID rec' \<and>
      lr_RequestedMinutes req \<le> effectiveRemaining ctx item s" if reserve
    using balance that rec'(2) by (auto simp: req effectiveRemaining_def)
  have in_s': "att_leaveRequests (ap_att s') = putNested (att_leaveRequests (ap_att s)) ?t (lr_ID v') v'"
    by (simp add: s' stored u(2) v'(1))
  show ?thesis
  proof (rule that [of rec' v'])
    have "leaveRequestOf ctx form s' = Some v'" if "fi_ID form = fi_ID instance" for form
      by (rule leaveRequestOf_written [OF earlier _ _ _ in_s' that]) (use ready' v' in \<open>auto simp: req split: option.splits\<close>)
    then show "\<forall>form. fi_ID form = fi_ID instance \<longrightarrow> leaveRequestOf ctx form s' = Some v'" by blast
    show "requests_keyed ?t s'"
      using ready' v'(2) in_s' by (auto simp: requests_keyed_def dest!: set_map_put [THEN subsetD])
    show "lr_EffectStatus v' = ''not_applied''" using v'(4) by (simp add: req)
  qed (use rec' v' minutes added open_res enough reserved ledger to_s' rows_u in \<open>simp_all add: s'\<close>)
qed

lemma submitted_leave_created:
  assumes run: "createLeaveRequestFromSubmittedForm c policy ctx instance templateKey payload s = (Inr req, s')"
    and changed: "ap_att s' \<noteq> ap_att s"
  obtains e existing where "create_leave c policy ctx instance e existing payload s = (Inr req, s')"
    "GetLeaveRequestByFormInstanceID (ap_att s) (ctx_TenantID ctx) (fi_ID instance) = existing"
proof -
  have linked: "\<not> (TrimSpace templateKey \<notin> set leaveLinkedTemplateKeys \<or> \<not> workflowLeavePayloadHasLinkedFields payload)"
    using assms by (auto simp: createLeaveRequestFromSubmittedForm_def retS_def split: if_splits)
  have step: "\<exists>x. m s = Inr x \<and> k x s = (Inr req, s')" if "bindS (tryS m) k s = (Inr req, s')" for m :: "app_state \<Rightarrow> 'b res" and k
    using that by (auto simp: tryS_def elim!: bindS_ok)
  obtain e where "bindS (tryS (requireAttendanceEmployeeActive c ctx e)) (\<lambda>_. bindS (tryS (earlier_leave ctx instance e)) (\<lambda>earlier.
      case earlier of Pending existing \<Rightarrow> retS existing
        | Fresh \<Rightarrow> create_leave c policy ctx instance e None payload
        | Reused existing \<Rightarrow> create_leave c policy ctx instance e (Some existing) payload)) s = (Inr req, s')"
    using step [OF run [unfolded createLeaveRequestFromSubmittedForm_def if_not_P [OF linked]]] by blast
  from step [OF this] obtain earlier where earlier: "earlier_leave ctx instance e s = Inr earlier"
    and rest: "(case earlier of Pending existing \<Rightarrow> retS existing
        | Fresh \<Rightarrow> create_leave c policy ctx instance e None payload
        | Reused existing \<Rightarrow> create_leave c policy ctx instance e (Some existing) payload) s = (Inr req, s')"
    using step by blast
  show ?thesis
  proof (cases earlier)
    case Fresh
    then show ?thesis using that [of e None] rest earlier by (auto simp: earlier_leave_def split: option.splits if_splits)
  next
    case (Pending r)
    then show ?thesis using rest changed by (simp add: retS_def)
  next
    case (Reused r)
    then show ?thesis using that [of e "Some r"] rest earlier by (auto simp: earlier_leave_def split: option.splits if_splits)
  qed
qed

text \<open>
  C35.  Minutes are taken once and come back.  When the submission of a leave form creates or reuses a
  request, the requested minutes are taken from the effective balance the leave record names, no other
  balance changes, and that balance had the minutes; a request whose snapshot says that no balance is
  required takes nothing.  The later decision on a reserved request, under any copy of the form, gives the
  balances of before the submission back when it is a rejection, return or cancellation, and leaves them
  where the reservation put them when it is an approval.
\<close>

theorem leave_request_lifecycle:
  assumes "createLeaveRequestFromSubmittedForm c policy ctx instance templateKey payload s = (Inr req, s')"
    and "leave_ready c (ctx_TenantID ctx) req s" and "ap_att s' \<noteq> ap_att s"
  shows "\<exists>rec. GetLeaveRecord (ap_att s') (ctx_TenantID ctx) (lr_ID req) = Some rec \<and>
    (\<forall>item. effectiveRemaining ctx item s' = effectiveRemaining ctx item s -
       (if balanceReserved req \<and> lb_ID item = lrec_BalanceID rec then lr_RequestedMinutes req else 0)) \<and>
    (balanceReserved req \<longrightarrow>
       (\<exists>item \<in> set (rows (att_leaveBalances (ap_att s)) (ctx_TenantID ctx)).
          lb_ID item = lrec_BalanceID rec \<and> 0 \<le> effectiveRemaining ctx item s') \<and>
       (\<forall>form kind status s'' item. fi_ID form = fi_ID instance \<and>
          leaveRequestStatusForWorkflow kind status \<in> {''approved'', ''rejected'', ''cancelled''} \<and>
          applyLeaveWorkflowReview c ctx form kind status s' = (Inr (), s'') \<longrightarrow>
          effectiveRemaining ctx item s'' =
            effectiveRemaining ctx item (if leaveRequestStatusForWorkflow kind status = ''approved'' then s' else s)))"
proof -
  let ?t = "ctx_TenantID ctx"
  obtain e existing where created: "create_leave c policy ctx instance e existing payload s = (Inr req, s')"
    and earlier: "GetLeaveRequestByFormInstanceID (ap_att s) ?t (fi_ID instance) = existing"
    by (rule submitted_leave_created [OF assms(1,3)])
  obtain rec request where rec: "GetLeaveRecord (ap_att s') ?t (lr_ID req) = Some rec" and minutes: "lr_RequestedMinutes req > 0"
    and request: "\<forall>form. fi_ID form = fi_ID instance \<longrightarrow> leaveRequestOf ctx form s' = Some request"
      "lr_ID request = lr_ID req" "lr_RequestedMinutes request = lr_RequestedMinutes req" "lr_EffectStatus request = ''not_applied''"
      "requests_keyed ?t s'"
    and effect: "if balanceReserved req
     then entry_added c ?t (entry_key req rec leaveBalanceEntryReserve) (- lr_RequestedMinutes req) rec leaveBalanceEntryReserve s s' \<and>
       open_reservation c ?t request rec s' \<and>
       (\<exists>item \<in> set (rows (att_leaveBalances (ap_att s)) ?t). lb_ID item = lrec_BalanceID rec \<and>
          lr_RequestedMinutes req \<le> effectiveRemaining ctx item s)
     else ledger_rows ?t s' = ledger_rows ?t s"
    by (rule create_leave_effect [OF created earlier assms(2)])
  have taken: "effectiveRemaining ctx item s' = effectiveRemaining ctx item s -
      (if balanceReserved req \<and> lb_ID item = lrec_BalanceID rec then lr_RequestedMinutes req else 0)" for item
    using effect balance_sums_added [of c ?t _ "- lr_RequestedMinutes req" rec] balance_sums_same [of ?t s' s]
    by (auto simp: effectiveRemaining_sums Let_def split: prod.splits if_splits)
  have returned: "effectiveRemaining ctx item s'' =
      effectiveRemaining ctx item (if leaveRequestStatusForWorkflow kind status = ''approved'' then s' else s)"
    if reserved: "balanceReserved req" and form: "fi_ID form = fi_ID instance"
      and verdict: "leaveRequestStatusForWorkflow kind status \<in> {''approved'', ''rejected'', ''cancelled''}"
      and review: "applyLeaveWorkflowReview c ctx form kind status s' = (Inr (), s'')" for form kind status s'' item
  proof -
    have "\<not> already_settled (leaveRequestStatusForWorkflow kind status) (lr_EffectStatus request)"
      using verdict by (auto simp: already_settled_def request(4))
    then have "closed_by ctx form (leaveRequestStatusForWorkflow kind status) request rec s' s''"
      using okSD [OF review_closes [OF request(1) [rule_format, OF form] request(5), of rec] review] rec request(2) effect reserved verdict by simp
    then show ?thesis using taken [of item] reserved
      by (cases "lb_ID item = lrec_BalanceID rec") (simp_all add: closed_by_def effectiveRemaining_sums moved_def request(3))
  qed
  have enough: "\<exists>item \<in> set (rows (att_leaveBalances (ap_att s)) ?t). lb_ID item = lrec_BalanceID rec \<and> 0 \<le> effectiveRemaining ctx item s'"
    if reserved: "balanceReserved req"
  proof -
    obtain item where item: "item \<in> set (rows (att_leaveBalances (ap_att s)) ?t)" "lb_ID item = lrec_BalanceID rec"
      "lr_RequestedMinutes req \<le> effectiveRemaining ctx item s" using effect reserved by (simp only: if_True) blast
    show ?thesis using item taken [of item] reserved by (intro bexI [OF _ item(1)]) simp
  qed
  show ?thesis
    by (intro exI [of _ rec] conjI impI allI rec taken enough) (assumption | elim conjE, rule returned, assumption+)+
qed

section \<open>A sample submission\<close>

text \<open>Monday to Tuesday morning, eight working hours, against a balance of forty hours.\<close>

definition sample_work :: AttendancePolicyWorkTime where
  "sample_work = zero_AttendancePolicyWorkTime\<lparr>apw_StandardStart := ''09:00'', apw_StandardEnd := ''18:00'',
     apw_BreakStart := ''12:00'', apw_BreakEnd := ''13:00''\<rparr>"

definition asked_payload :: params where
  "asked_payload = [(''leave_type'', VStr ''annual''), (''start_at'', VStr ''2025-06-02''), (''end_at'', VStr ''2025-06-03'')]"

definition stocked_state :: app_state where
  "stocked_state = reserved_state\<lparr>ap_mem := staffed_rows\<lparr>st_employees := sample_employees\<rparr>, ap_att := empty_att\<lparr>
     att_leaveBalances := [(''acme'', [(''lb-1'', sample_balance\<lparr>lb_EmployeeID := ''emp-1'', lb_LeaveTypeID := ''annual'',
        lb_EntitlementYear := 2025\<rparr>)])]\<rparr>\<rparr>"


lemma runes_neq:
  assumes "128 \<le> n" "n < 65536" "of_char ch < (128::nat)"
  shows "ch # cs \<noteq> runes (n # ns)"
proof
  assume eq: "ch # cs = runes (n # ns)"
  have "of_char (hd (runes (n # ns))) \<ge> (128::nat)"
    using assms(1,2) by (auto simp: runes_def rune_def less_mult_imp_div_less)
  moreover have "ch = hd (runes (n # ns))" by (simp flip: eq)
  ultimately show False using assms(3) by simp
qed

lemma annual_code: "normalizeLeaveTypeCode ''annual'' = ''annual''"
proof -
  have "TrimSpace ''annual'' = ''annual''" "ToLower ''annual'' = ''annual''" by code_simp+
  moreover have "map_of legacyLeaveTypeCodeMap ''annual'' = None"
    by (simp add: legacyLeaveTypeCodeMap_def runes_neq)
  moreover have "map_of ehrmsLeaveTypeCodeMap ''annual'' = None" by code_simp
  ultimately show ?thesis by (simp add: normalizeLeaveTypeCode_def)
qed

lemma applicant_active: "requireAttendanceEmployeeActive sample_app_env applicant_ctx ''emp-1'' stocked_state =
   Inr (the (getBusinessEmployee sample_app_env applicant_ctx ''emp-1'' stocked_state))"
proof -
  let ?found = "getBusinessEmployee sample_app_env applicant_ctx ''emp-1'' stocked_state"
  have "map_option (\<lambda>e. ToLower (TrimSpace (firstNonEmptyString [emp_EmploymentStatus e, emp_Status e]))) ?found = Some ''active''"
    by code_simp
  then obtain e where e: "?found = Some e"
    and status: "ToLower (TrimSpace (firstNonEmptyString [emp_EmploymentStatus e, emp_Status e])) = ''active''" by auto
  have "''active'' \<notin> set inactive_statuses" by (simp add: inactive_statuses_def runes_neq)
  then show ?thesis
    by (simp add: requireAttendanceEmployeeActive_def e attendanceEmployeeAllowsActiveOperations_def status del: firstNonEmptyString.simps)
qed

definition sample_leave_type :: LeaveType where
  "sample_leave_type = zero_LeaveType\<lparr>lt_ID := ''annual'', lt_Code := ''annual'', lt_NameEN := ''Annual'', lt_RequiresBalance := True,
     lt_Enabled := True\<rparr>"

definition sample_leave_policy :: leave_policy where
  "sample_leave_policy = \<lparr>lp_Version = 1, lp_WorkTime = sample_work, lp_LeaveTypes = [sample_leave_type]\<rparr>"

abbreviation (input) "june_second \<equiv> 63884419200000000000 :: int"
abbreviation (input) "june_third \<equiv> 63884505600000000000 :: int"

definition sample_evaluation :: LeaveRequestEvaluation where
  "sample_evaluation = (supported_leave sample_leave_policy ''emp-1'' sample_leave_type 480)\<lparr>lre_BalanceInitialized := True,
     lre_AvailableMinutes := 2400, lre_Eligible := True, lre_Status := leaveEvaluationEligible,
     lre_Message := ''The leave request is eligible under the published policy.''\<rparr>"

lemma sample_evaluated:
  "EvaluateLeaveRequestRules sample_leave_policy applicant_ctx ''emp-1'' ''annual'' june_second june_third 0 stocked_state = Inr sample_evaluation"
proof -
  have hours: "leaveMinutes (CalculateLeaveHoursWithinPolicy june_second june_third (lp_WorkTime sample_leave_policy)) = 480"
    by code_simp
  have "lt_Kind sample_leave_type = []" "lt_Code sample_leave_type = ''annual''" "lt_Enabled sample_leave_type" by code_simp+
  then have found: "findLeaveType (lp_LeaveTypes sample_leave_policy) ''annual'' True = Some sample_leave_type"
    by (simp add: findLeaveType_def sample_leave_policy_def annual_code)
  have "lre_BalanceRequired (supported_leave sample_leave_policy ''emp-1'' sample_leave_type 480)"
    "balance_facts (listEffectiveLeaveBalances applicant_ctx stocked_state) ''emp-1''
       (lre_LeaveTypeID (supported_leave sample_leave_policy ''emp-1'' sample_leave_type 480)) june_second = (True, 2400)"
    by code_simp+
  then show ?thesis by (simp add: EvaluateLeaveRequestRules_def hours found sample_evaluation_def)
qed

definition sample_run :: "(err + LeaveRequest) \<times> app_state" where
  "sample_run = createLeaveRequestFromSubmittedForm sample_app_env sample_leave_policy applicant_ctx sample_form ''leave-request'' asked_payload stocked_state"

lemma sample_run_stores:
  "sample_run = bindS (newIDS sample_app_env ''lr'') (\<lambda>i. bindS (leave_balance sample_app_env applicant_ctx ''emp-1'' sample_evaluation june_second)
     (store_leave sample_app_env applicant_ctx sample_form ''emp-1'' None asked_payload june_second june_third i)) stocked_state"
proof -
  have "workflowApplicantEmployeeID applicant_ctx sample_form stocked_state = Inr ''emp-1''"
    "earlier_leave applicant_ctx sample_form ''emp-1'' stocked_state = Inr Fresh"
    "leave_asked sample_app_env asked_payload = Inr (''annual'', june_second, june_third)"
    "TrimSpace ''leave-request'' \<in> set leaveLinkedTemplateKeys" "workflowLeavePayloadHasLinkedFields asked_payload"
    "lre_Eligible sample_evaluation"
    by code_simp+
  then show ?thesis
    by (simp add: sample_run_def createLeaveRequestFromSubmittedForm_def create_leave_def bindS_def tryS_def liftS_def
        applicant_active sample_evaluated)
qed

definition stocked_balance :: LeaveBalance where
  "stocked_balance = sample_balance\<lparr>lb_EmployeeID := ''emp-1'', lb_LeaveTypeID := ''annual'', lb_EntitlementYear := 2025\<rparr>"

lemma sample_leave_balance:
  "leave_balance sample_app_env applicant_ctx ''emp-1'' sample_evaluation june_second (stocked_state\<lparr>ap_calls := Suc 0\<rparr>) =
     (Inr (stocked_balance, True, sample_evaluation\<lparr>lre_AvailableMinutes := 2400\<rparr>), stocked_state\<lparr>ap_calls := Suc 0\<rparr>)"
proof -
  have "leaveBalanceForOverlay applicant_ctx ''emp-1'' (lre_LeaveTypeID sample_evaluation) (lre_RequestedMinutes sample_evaluation)
      june_second (stocked_state\<lparr>ap_calls := Suc 0\<rparr>) = (stocked_balance, 2400, [])"
    "lre_BalanceRequired sample_evaluation" "lb_ID stocked_balance \<noteq> []"
    by code_simp+
  then show ?thesis by (simp add: leave_balance_def bindS_def getS_def retS_def Let_def)
qed

definition sample_submitted :: LeaveRequest where
  "sample_submitted = submitted_leave sample_app_env applicant_ctx sample_form ''emp-1'' (sample_evaluation\<lparr>lre_AvailableMinutes := 2400\<rparr>)
     june_second june_third [] ''lr-'' 1000 1"

lemma write_leave_ok:
  obtains rec v where "write_leave c ctx req balance reserve cycle s = (Inr rec, v)" "ap_wf v = ap_wf s"
proof -
  have "\<exists>rec v. write_leave c ctx req balance reserve cycle s = (Inr rec, v) \<and> ap_wf v = ap_wf s"
    by (auto simp: write_leave_def ensureNexusLeaveRecord_def appendLeaveBalanceEntry_def bindS_def attS_def modS_def getS_def
        retS_def newIDS_def Let_def split: option.split)
  then show ?thesis using that by blast
qed

lemma putForm_unversioned:
  assumes "ap_wf s = empty_wf" "fi_TemplateVersionID f = []"
  obtains w where "putForm f s = (Inr (), s\<lparr>ap_wf := w\<rparr>)"
  using assms that by (simp add: putForm_def UpsertFormInstance_def empty_wf_def getNested_def)

definition only_audits :: "unit aop \<Rightarrow> bool" where
  "only_audits m \<longleftrightarrow> (\<forall>s. \<exists>a. m s = (Inr (), s\<lparr>ap_authz := a\<rparr>))"

lemma only_audits_ret: "only_audits (retS ())"
proof -
  have "retS () s = (Inr (), s\<lparr>ap_authz := ap_authz s\<rparr>)" for s :: app_state by (simp add: retS_def)
  then show ?thesis unfolding only_audits_def by blast
qed

lemma only_audits_if: "only_audits m \<Longrightarrow> only_audits n \<Longrightarrow> only_audits (if b then m else n)"
  by simp

lemma only_audits_bind:
  assumes "only_audits m" "only_audits n"
  shows "only_audits (bindS m (\<lambda>_. n))"
  unfolding only_audits_def
proof
  fix s
  obtain a where a: "m s = (Inr (), s\<lparr>ap_authz := a\<rparr>)" using assms(1) unfolding only_audits_def by blast
  obtain a' where "n (s\<lparr>ap_authz := a\<rparr>) = (Inr (), s\<lparr>ap_authz := a\<rparr>\<lparr>ap_authz := a'\<rparr>)"
    using assms(2) unfolding only_audits_def by blast
  then show "\<exists>a. bindS m (\<lambda>_. n) s = (Inr (), s\<lparr>ap_authz := a\<rparr>)" by (auto simp: bindS_def a)
qed

lemma sample_audit: "only_audits (auditS sample_app_env ctx e r t sv d)"
  unfolding only_audits_def
proof
  fix s :: app_state
  obtain x a where run: "audit (authz_of sample_app_env (ap_mem s)) ctx e r t sv d (ap_authz s) = (x, a)" by (rule prod.exhaust)
  then have "x = Inr ()" by (auto simp: audit_def authz_of_def sample_app_env_def sample_authz_service_def Let_def)
  then have "auditS sample_app_env ctx e r t sv d s = (Inr (), s\<lparr>ap_authz := a\<rparr>)" by (simp add: auditS_def authzS_def run)
  then show "\<exists>a. auditS sample_app_env ctx e r t sv d s = (Inr (), s\<lparr>ap_authz := a\<rparr>)" by blast
qed

lemma sample_audits_ok:
  obtains a where "leave_audits sample_app_env ctx f r rec b resubmitting s = (Inr (), s\<lparr>ap_authz := a\<rparr>)"
proof -
  have "only_audits (leave_audits sample_app_env ctx f r rec b resubmitting)"
    unfolding leave_audits_def by (intro only_audits_bind only_audits_if only_audits_ret sample_audit)
  then show ?thesis using that unfolding only_audits_def by blast
qed

text \<open>The submission succeeds, and what it did to the attendance tables is what \<open>write_leave\<close> did.\<close>

lemma sample_run_written:
  obtains rec v s' where "sample_run = (Inr sample_submitted, s')"
    "write_leave sample_app_env applicant_ctx sample_submitted stocked_balance True 1 (stocked_state\<lparr>ap_calls := Suc 0\<rparr>) = (Inr rec, v)"
    "ap_att s' = ap_att v"
proof -
  have parts: "payload_text asked_payload [''reason'', ''description''] = []" "ap_newID sample_app_env ''lr'' 0 = ''lr-''"
    "ap_calls stocked_state = 0" "ap_now sample_app_env = 1000" "nextLeaveRequestBalanceCycle zero_LeaveRequest False = 1"
    "fi_TemplateVersionID sample_form = []" by code_simp+
  obtain rec v where v: "write_leave sample_app_env applicant_ctx sample_submitted stocked_balance True 1 (stocked_state\<lparr>ap_calls := Suc 0\<rparr>) = (Inr rec, v)"
    "ap_wf v = ap_wf (stocked_state\<lparr>ap_calls := Suc 0\<rparr>)" by (rule write_leave_ok)
  have "ap_wf v = empty_wf" by (simp add: v(2) stocked_state_def reserved_state_def)
  moreover have "fi_TemplateVersionID (linked_form sample_app_env sample_form sample_submitted) = []"
    by (simp add: linked_form_def parts)
  ultimately obtain w where w: "putForm (linked_form sample_app_env sample_form sample_submitted) v = (Inr (), v\<lparr>ap_wf := w\<rparr>)"
    by (rule putForm_unversioned)
  obtain a where a: "leave_audits sample_app_env applicant_ctx sample_form sample_submitted rec stocked_balance False (v\<lparr>ap_wf := w\<rparr>) =
      (Inr (), v\<lparr>ap_wf := w, ap_authz := a\<rparr>)" by (rule sample_audits_ok)
  have "sample_run = (Inr sample_submitted, v\<lparr>ap_wf := w, ap_authz := a\<rparr>)"
    unfolding sample_run_stores
    by (simp add: bindS_def newIDS_def parts sample_leave_balance store_leave_def flip: sample_submitted_def)
       (simp add: bindS_def v w a retS_def Let_def)
  then show ?thesis by (rule that [OF _ v(1)]) simp
qed

lemma sample_written:
  "case write_leave sample_app_env applicant_ctx sample_submitted stocked_balance True 1 (stocked_state\<lparr>ap_calls := Suc 0\<rparr>) of
     (_, v) \<Rightarrow> att_leaveRequests (ap_att v) \<noteq> [] \<and> effectiveRemaining applicant_ctx stocked_balance v = 1920"
  by code_simp

lemma sample_leave_ready: "leave_ready sample_app_env ''acme'' req stocked_state"
proof -
  have tables: "att_leaveRequests (ap_att stocked_state) = []" "att_leaveRecords (ap_att stocked_state) = []"
    "att_leaveBalanceEntries (ap_att stocked_state) = []"
    by (simp_all add: stocked_state_def empty_att_def)
  have "balances_named ''acme'' stocked_state" by code_simp
  then show ?thesis
    by (simp add: leave_ready_def requests_keyed_def records_keyed_def fresh_entries_def unbooked_cycle_def booked_def ledger_rows_def
        copyNestedValues_def tables bucket_def sample_ids_inj)
qed

theorem leave_request_lifecycle_witness:
  "effectiveRemaining applicant_ctx stocked_balance stocked_state = 2400 \<and>
   effectiveRemaining applicant_ctx stocked_balance (snd sample_run) = 1920 \<and>
   (\<exists>rec. GetLeaveRecord (ap_att (snd sample_run)) ''acme'' ''lr-'' = Some rec \<and>
     (\<forall>item. effectiveRemaining applicant_ctx item (snd sample_run) = effectiveRemaining applicant_ctx item stocked_state -
       (if balanceReserved sample_submitted \<and> lb_ID item = lrec_BalanceID rec then 480 else 0)))"
proof -
  obtain rec v s' where run: "sample_run = (Inr sample_submitted, s')"
    and v: "write_leave sample_app_env applicant_ctx sample_submitted stocked_balance True 1 (stocked_state\<lparr>ap_calls := Suc 0\<rparr>) = (Inr rec, v)"
    and att: "ap_att s' = ap_att v" by (rule sample_run_written)
  have after: "att_leaveRequests (ap_att s') \<noteq> []" "effectiveRemaining applicant_ctx stocked_balance s' = 1920"
    using sample_written by (simp_all add: v att effectiveRemaining_def)
  then have changed: "ap_att s' \<noteq> ap_att stocked_state" by (auto simp: stocked_state_def empty_att_def)
  have names: "ctx_TenantID applicant_ctx = ''acme''" "lr_ID sample_submitted = ''lr-''" "lr_RequestedMinutes sample_submitted = 480"
    "effectiveRemaining applicant_ctx stocked_balance stocked_state = 2400" by code_simp+
  note lifecycle = leave_request_lifecycle [OF run [unfolded sample_run_def] _ changed, unfolded names, OF sample_leave_ready]
  then obtain rec where "GetLeaveRecord (ap_att s') ''acme'' ''lr-'' = Some rec"
    "\<forall>item. effectiveRemaining applicant_ctx item s' = effectiveRemaining applicant_ctx item stocked_state -
       (if balanceReserved sample_submitted \<and> lb_ID item = lrec_BalanceID rec then 480 else 0)"
    by blast
  moreover have "snd sample_run = s'" by (simp add: run)
  ultimately show ?thesis using after(2) names(4) by (simp only:) blast
qed

end
