(* ===== verification/Spec2Isabelle.thy ===== *)
theory Spec2Isabelle
  imports Decision_Properties Outbox_System Authz_Filter Service_Properties Attendance_Day_Properties Manager_Resolution
    Workflow_Store Workflow_Decisions Agent_Rules Agent_Properties Form_Properties Leave_Lifecycle
begin

text \<open>
  \<^bold>\<open>The program.\<close>  \<open>nexus-pro-be\<close> is the backend of a multi-tenant HR and workflow product:
  \<open>src/internal/api\<close> turns HTTP requests into calls of the services of
  \<open>src/internal/service\<close>; these decide who may do what, and keep employees, attendance, leave, forms
  with their approval workflows and agents in a repository (\<open>src/internal/repository\<close>), either
  PostgreSQL or the in-memory one; \<open>src/internal/jobs\<close> works off an outbox that the services fill in
  their transactions, and Temporal runs the long waits of a workflow.  Everything belongs to a tenant.

  \<^bold>\<open>How it is modelled.\<close>  A struct is a record with the fields of the source under a short prefix and
  the zero value \<open>zero_T\<close>; a pointer is an option, a slice a list, a Go map the list of its entries in
  some order (\<open>gomap\<close>), \<open>map[string]any\<close> a list of JSON-like values (\<open>params\<close>), a string
  the list of its bytes, a \<open>time.Time\<close> the nanoseconds since the zero time, a \<open>float64\<close> of hours
  a rational (in a JSON value \<open>VNum\<close> when it is a whole number, \<open>VFloat\<close> otherwise).  Integers are \<open>int\<close>; where a value from outside may overflow, the wrap-around at 64 bits
  is written out (\<open>wrap64\<close>, Pagination, Keyset), as in the token totals of a usage report and the
  context version of a session.  An error is a value of \<open>err\<close> on the left of a sum;
  a panic is \<open>None\<close>.  A service operation maps a state to a result and a state
  (\<open>('s, 'e, 'a) op\<close>); a transaction restores the tables on an error.  What the program takes from
  outside -- the clock, fresh ids, digests, date parsing, the relation checker (OpenFGA), the cache, the Temporal
  client -- is an argument, and what is assumed of it is a premise of the theorem that needs it.

  \<^bold>\<open>The theories\<close>, in the order of the layers:

  \<^item> \<open>Prelude\<close>, \<open>Go_Values\<close>: results, stateful operations with their refinement and simulation
    rules, strings (\<open>TrimSpace\<close>, \<open>EqualFold\<close>), stable sorting, Go maps (locale \<open>go_map\<close>).
  \<^item> \<open>Authz_Domain\<close>, \<open>Domain_Errors\<close>: \<open>src/internal/domain\<close> (\<open>authz.go\<close>,
    \<open>iam.go\<close>, \<open>hr.go\<close>, \<open>errors.go\<close>, \<open>error_codes.go\<close>).
  \<^item> \<open>Memory_Store\<close>, \<open>Outbox_Store\<close>, \<open>Attendance_Store\<close>, \<open>Workflow_Store\<close>,
    \<open>Agent_Store\<close>: the tables of \<open>repository/memory/store.go\<close>, one operation per method, with
    the laws of a tenant's table as the locale \<open>tenant_table\<close>; \<open>App_State\<close> puts them together with
    transactions (\<open>transaction.go\<close>) and audit.
  \<^item> \<open>Authz_Match\<close>, \<open>Authz_Policy\<close>, \<open>Authz_Scope\<close>, \<open>Field_Policies\<close>,
    \<open>Route_Catalog\<close>: \<open>authz_policy_service.go\<close>; \<open>Authz_Grants\<close>,
    \<open>Authz_Decision\<close>, \<open>Trace_Erasure\<close>: \<open>authz_decision_service.go\<close>;
    \<open>Authz_Filter\<close>: \<open>authz_scope_service.go\<close>; \<open>Authz_Service\<close>,
    \<open>Snapshot_System\<close>: \<open>authz_service.go\<close>, \<open>authz_snapshot_service.go\<close>.  What the engine
    reads is the locale of \<open>Authz_Store\<close>, interpreted on the in-memory repository.
  \<^item> \<open>Outbox_Dispatch\<close>, \<open>Outbox_System\<close>: \<open>jobs/outbox_dispatcher.go\<close>,
    \<open>outbox_cleanup.go\<close>, and any number of producers, workers and operators as a step relation.
  \<^item> \<open>Time_Intervals\<close>, \<open>Business_Time\<close>, \<open>Attendance_Day\<close>:
    \<open>attendance_day_projection.go\<close>, \<open>attendance_policy_service.go\<close>;
    \<open>Attendance_Review\<close>, \<open>Leave_Ledger\<close>: \<open>attendance_leave_overtime_service.go\<close>,
    \<open>attendance_leave_overlay_service.go\<close>, the corrections of \<open>attendance_clock_service.go\<close>.
  \<^item> \<open>Manager_Resolution\<close>: \<open>hr_manager_resolution.go\<close>.  \<open>Workflow_Domain\<close>,
    \<open>Workflow_Stages\<close>: \<open>workflow_stage_service.go\<close>; \<open>Workflow_Notice\<close>:
    \<open>workflow_notification_service.go\<close>, \<open>workflow_payload_service.go\<close>;
    \<open>Workflow_Runtime\<close>, \<open>Workflow_Decisions\<close>: \<open>workflow_runtime_service.go\<close>;
    \<open>Workflow_Temporal\<close>: \<open>workflow_temporal_service.go\<close>.
  \<^item> \<open>Form_Fields\<close>, \<open>Form_Design\<close>, \<open>Form_Submission\<close>: fields of a stored template
    (\<open>platform_service.go\<close>), the data sources (\<open>workflow_form_data_source_service.go\<close>), the checks of
    a design and of a submitted payload (\<open>workspace_form_design_validation.go\<close>), their properties in
    \<open>Form_Properties\<close>; \<open>Leave_Submission\<close>, \<open>Leave_Lifecycle\<close>: the leave request a
    submitted form creates (\<open>attendance_leave_evaluation_service.go\<close>,
    \<open>workflow_leave_adapter.go\<close>), followed through to the decision on it.
  \<^item> \<open>Agent_Domain\<close>, \<open>Agent_Rules\<close>: \<open>domain/agent_v2.go\<close> and its neighbours;
    \<open>Keyset\<close>, \<open>Agent_Sessions\<close>, \<open>Agent_Usage\<close>: cursors, sessions, memories and
    usage reports (\<open>service/agent/agent_session_service.go\<close>, \<open>agent_usage_service.go\<close>),
    their properties in \<open>Agent_Properties\<close>.

  \<^bold>\<open>What the lemmas show.\<close>  Authorization: a matching deny overrides, an allow is backed by a grant of
  the caller's tenant that has not expired, a boundary that permits and relations that hold; scopes whose
  conditions carry what they need only narrow under intersection; caching, tracing and simulating change no decision; denials leave an audit record;
  a list shows the rows the decision selects, and masking leaves of each what the field policies allow, save the
  copies of a masked field in the information tabs.  Outbox: leases are fenced, attempts bounded, a due event is delivered, and the
  whole refines the life cycle of an event.  Attendance: interval algebra against sets of instants, a projected
  day credits no instant twice and does not depend on the order of rows; the leave ledger moves reserved minutes
  once; punches stay unique.  A submitted leave takes its minutes from
  one balance that has them and a rejection gives them back.  Workflow: an accepted design is a graph the runtime
  can run, an accepted payload cannot forge server data or evade a required field, stages survive storing, only an entitled assignee decides.  Agents: at
  most one memory is active for what it is about, a cleared context is hidden, usage totals count every run once.
  Pages and cursors partition their lists.

  \<^bold>\<open>Bounds and fuel.\<close>  The doubling of the retry backoff, the ancestor search of a manager position and
  the wait loop of a workflow recurse on a bound the code has itself (attempts, visited units, remaining ticks).
  The search for the reachable stages of a design ends because each round visits a new stage or shortens the queue.
  Advancing a run uses as fuel the number of its stages plus two: every round completes or skips one stage and
  never returns to it.  Following cursors takes one round more than there are rows.

  \<^bold>\<open>Not modelled.\<close>  The PostgreSQL repository and its generated queries (SQL is not under the source's
  semantics; the in-memory repository implements the same interface), adapters of external systems, HTTP
  handlers and wiring (pure glue and I/O), and the services that PROJECT.json lists as not modelled: EHRMS
  synchronisation, employee and position administration, IAM administration, permission packages, provisioning,
  drafts of forms, the overtime and correction adapters, chat and knowledge of the agents, workspace pages and metrics.  Telemetry and logging have no effect on
  results and are left out.  Locks of the in-memory repository are not modelled: each of its methods is one step.
\<close>

end
